(* ===== verification/Zpc_Prelude.thy ===== *)
theory Zpc_Prelude
  imports Main "HOL-Library.Word"
begin

text \<open>
  Shared foundations of the development: machine-integer types of the C sources,
  the status codes of \<^verbatim>\<open>components/common/include/sl_status.h\<close>, the theorem
  collection the component theories extend, lemmas on lists and words that
  several components use, and the generic interfaces (tables of slots, transition
  systems and byte codecs) that the components instantiate.
\<close>

unbundle bit_operations_syntax

section \<open>Machine integers and status codes\<close>

type_synonym u8 = "8 word"
type_synonym u16 = "16 word"
type_synonym u32 = "32 word"

text \<open>\<^verbatim>\<open>sl_status_t\<close> is a \<^verbatim>\<open>uint32_t\<close>; the codes are the source's numbers.\<close>

type_synonym sl_status = u32

abbreviation (input) SL_STATUS_OK :: sl_status where "SL_STATUS_OK \<equiv> 0x0000"
abbreviation (input) SL_STATUS_FAIL :: sl_status where "SL_STATUS_FAIL \<equiv> 0x0001"
abbreviation (input) SL_STATUS_BUSY :: sl_status where "SL_STATUS_BUSY \<equiv> 0x0004"
abbreviation (input) SL_STATUS_IN_PROGRESS :: sl_status where "SL_STATUS_IN_PROGRESS \<equiv> 0x0005"
abbreviation (input) SL_STATUS_IDLE :: sl_status where "SL_STATUS_IDLE \<equiv> 0x000A"
abbreviation (input) SL_STATUS_NOT_SUPPORTED :: sl_status where "SL_STATUS_NOT_SUPPORTED \<equiv> 0x000F"
abbreviation (input) SL_STATUS_NO_MORE_RESOURCE :: sl_status where "SL_STATUS_NO_MORE_RESOURCE \<equiv> 0x001A"
abbreviation (input) SL_STATUS_WOULD_OVERFLOW :: sl_status where "SL_STATUS_WOULD_OVERFLOW \<equiv> 0x001D"
abbreviation (input) SL_STATUS_INVALID_PARAMETER :: sl_status where "SL_STATUS_INVALID_PARAMETER \<equiv> 0x0021"
abbreviation (input) SL_STATUS_NOT_FOUND :: sl_status where "SL_STATUS_NOT_FOUND \<equiv> 0x002D"

section \<open>Theorem collections\<close>

text \<open>\<open>handler_defs\<close> unfolds the functions through which other components enter a component.\<close>

named_theorems handler_defs \<open>definitions of handlers and the helpers they call\<close>

section \<open>Lists updated in place\<close>

text \<open>
  C code writes a prefix of an array with \<^verbatim>\<open>memcpy\<close>; the rest of the array keeps
  its old contents.
\<close>

definition memcpy :: "'a list \<Rightarrow> 'a list \<Rightarrow> nat \<Rightarrow> 'a list" where
  "memcpy dst src n = take n src @ drop n dst"

lemma length_memcpy [simp]:
  "n \<le> length src \<Longrightarrow> n \<le> length dst \<Longrightarrow> length (memcpy dst src n) = length dst"
  by (simp add: memcpy_def)

lemma nth_memcpy:
  assumes "n \<le> length src" and "n \<le> length dst" and "i < length dst"
  shows "memcpy dst src n ! i = (if i < n then src ! i else dst ! i)"
  using assms by (auto simp: memcpy_def nth_append)

lemma take_memcpy [simp]: "n \<le> length src \<Longrightarrow> take n (memcpy dst src n) = take n src"
  by (simp add: memcpy_def)

lemma memcpy_all: "length src = n \<Longrightarrow> length dst = n \<Longrightarrow> memcpy dst src n = src"
  by (simp add: memcpy_def)

lemma ex_nth_conv: "(\<exists>x \<in> set xs. P x) \<longleftrightarrow> (\<exists>i < length xs. P (xs ! i))"
  by (metis in_set_conv_nth)

text \<open>No two different positions of a list hold elements that clash.\<close>

definition no_two :: "('a \<Rightarrow> 'a \<Rightarrow> bool) \<Rightarrow> 'a list \<Rightarrow> bool" where
  "no_two R xs \<longleftrightarrow> (\<forall>i < length xs. \<forall>j < length xs. i \<noteq> j \<longrightarrow> \<not> R (xs ! i) (xs ! j))"

lemma no_twoD: "no_two R xs \<Longrightarrow> i < length xs \<Longrightarrow> j < length xs \<Longrightarrow> R (xs ! i) (xs ! j) \<Longrightarrow> i = j"
  by (auto simp: no_two_def)

lemma no_two_update:
  assumes "no_two R xs" and "\<And>a b. R a b \<Longrightarrow> R b a"
    and "\<And>j. j < length xs \<Longrightarrow> j \<noteq> i \<Longrightarrow> \<not> R (xs ! j) e"
  shows "no_two R (xs[i := e])"
  unfolding no_two_def
proof (intro allI impI notI)
  fix a b
  assume "a < length (xs[i := e])" "b < length (xs[i := e])" "a \<noteq> b" "R (xs[i := e] ! a) (xs[i := e] ! b)"
  then show False
    using no_twoD [OF assms(1), of a b] assms(2) [of e "xs ! b"] assms(3) [of a] assms(3) [of b]
    by (cases "a = i"; cases "b = i") simp_all
qed

section \<open>Tables of slots\<close>

text \<open>The first position of a list that satisfies a predicate: a C loop that stops at a match.\<close>

fun first_index :: "('a \<Rightarrow> bool) \<Rightarrow> 'a list \<Rightarrow> nat option" where
  "first_index P [] = None"
| "first_index P (x # xs) = (if P x then Some 0 else map_option Suc (first_index P xs))"

lemma first_index_None: "first_index P xs = None \<longleftrightarrow> (\<forall>x \<in> set xs. \<not> P x)"
  by (induction xs) auto

lemma first_index_SomeD: "first_index P xs = Some i \<Longrightarrow> i < length xs \<and> P (xs ! i) \<and> (\<forall>j < i. \<not> P (xs ! j))"
  by (induction xs arbitrary: i) (auto simp: less_Suc_eq_0_disj split: if_splits)

lemma first_indexI: "i < length xs \<Longrightarrow> P (xs ! i) \<Longrightarrow> (\<And>j. j < i \<Longrightarrow> \<not> P (xs ! j)) \<Longrightarrow> first_index P xs = Some i"
proof (induction xs arbitrary: i)
  case (Cons x xs)
  show ?case
  proof (cases i)
    case (Suc k)
    have "first_index P xs = Some k" using Cons.prems Suc by (intro Cons.IH) fastforce+
    moreover have "\<not> P x" using Cons.prems(3) [of 0] Suc by simp
    ultimately show ?thesis using Suc by simp
  qed (use Cons.prems in simp)
qed simp

lemma first_index_update:
  assumes "\<not> P (xs ! i)" and "\<not> P x"
  shows "first_index P (xs[i := x]) = first_index P xs"
  using assms by (induction xs arbitrary: i) (auto split: nat.splits)

text \<open>
  A table with a fixed number of slots: writing a value goes to the slot that has the key
  already, or else to the first free slot, or is dropped when there is none.
\<close>

definition slot_store :: "('e \<Rightarrow> bool) \<Rightarrow> ('e \<Rightarrow> bool) \<Rightarrow> ('e \<Rightarrow> 'e) \<Rightarrow> 'e list \<Rightarrow> 'e list" where
  "slot_store has_key free put es =
     (case first_index has_key es of
        Some i \<Rightarrow> es[i := put (es ! i)]
      | None \<Rightarrow> (case first_index free es of Some i \<Rightarrow> es[i := put (es ! i)] | None \<Rightarrow> es))"

text \<open>
  The interface of such a table: \<open>has_key\<close> holds of a slot written for a key, in use or not,
  \<open>live\<close> of a slot in use. A value stored under a key is what a lookup finds, as long as
  there is room, and other keys keep what they had.
\<close>

locale slot_table =
  fixes has_key :: "'k \<Rightarrow> 'e \<Rightarrow> bool"
    and live :: "'e \<Rightarrow> bool"
    and free :: "'e \<Rightarrow> bool"
    and ok :: "'k \<Rightarrow> 'v \<Rightarrow> bool"
    and put :: "'k \<Rightarrow> 'v \<Rightarrow> 'e \<Rightarrow> 'e"
    and get :: "'e \<Rightarrow> 'v"
  assumes put_key: "ok k v \<Longrightarrow> has_key k (put k v e)"
    and put_live: "ok k v \<Longrightarrow> live (put k v e)"
    and get_put: "ok k v \<Longrightarrow> get (put k v e) = v"
    and one_key: "has_key k e \<Longrightarrow> has_key k' e \<Longrightarrow> k = k'"
    and free_not_live: "free e \<Longrightarrow> \<not> live e"
begin

definition lookup :: "'k \<Rightarrow> 'e list \<Rightarrow> 'v option" where
  "lookup k es = map_option (\<lambda>i. get (es ! i)) (first_index (\<lambda>e. live e \<and> has_key k e) es)"

abbreviation store :: "'k \<Rightarrow> 'v \<Rightarrow> 'e list \<Rightarrow> 'e list" where
  "store k v es \<equiv> slot_store (has_key k) free (put k v) es"

definition room :: "'k \<Rightarrow> 'e list \<Rightarrow> bool" where
  "room k es \<longleftrightarrow> (\<exists>e \<in> set es. has_key k e \<or> free e)"

lemma store_slot:
  assumes "room k es"
  obtains i where "i < length es" "store k v es = es[i := put k v (es ! i)]" "\<forall>j < i. \<not> has_key k (es ! j)"
    "has_key k (es ! i) \<or> free (es ! i)"
proof (cases "first_index (has_key k) es")
  case None
  then have n: "\<forall>e \<in> set es. \<not> has_key k e" by (simp add: first_index_None)
  with assms obtain i where i: "first_index free es = Some i"
    by (cases "first_index free es") (auto simp: room_def first_index_None)
  then have "i < length es" "free (es ! i)" using first_index_SomeD by blast+
  then show ?thesis using that [of i] None i n by (auto simp: slot_store_def)
next
  case (Some i)
  then show ?thesis using that [of i] first_index_SomeD [OF Some] by (auto simp: slot_store_def)
qed

lemma lookup_store:
  assumes "room k es" and "ok k v"
  shows "lookup k (store k v es) = Some v"
proof -
  obtain i where i: "i < length es" "store k v es = es[i := put k v (es ! i)]" "\<forall>j < i. \<not> has_key k (es ! j)"
    using store_slot [OF assms(1)] by blast
  have "first_index (\<lambda>e. live e \<and> has_key k e) (es[i := put k v (es ! i)]) = Some i"
    using i assms(2) by (intro first_indexI) (auto simp: put_key put_live)
  then show ?thesis using i assms(2) by (simp add: get_put lookup_def)
qed

lemma store_no_room:
  assumes "\<not> room k es"
  shows "store k v es = es"
proof -
  have "first_index (has_key k) es = None" "first_index free es = None"
    using assms by (auto simp: first_index_None room_def)
  then show ?thesis by (simp add: slot_store_def)
qed

lemma lookup_store_other:
  assumes "ok k v" and "k' \<noteq> k"
  shows "lookup k' (store k v es) = lookup k' es"
proof (cases "room k es")
  case True
  then obtain i where i: "i < length es" "store k v es = es[i := put k v (es ! i)]" "has_key k (es ! i) \<or> free (es ! i)"
    using store_slot by blast
  let ?P = "\<lambda>e. live e \<and> has_key k' e"
  have old: "\<not> ?P (es ! i)" using i(3) assms(2) one_key free_not_live by blast
  moreover have new: "\<not> ?P (put k v (es ! i))" using assms one_key put_key by blast
  ultimately have f: "first_index ?P (es[i := put k v (es ! i)]) = first_index ?P es" by (rule first_index_update)
  show ?thesis
  proof (cases "first_index ?P es")
    case (Some j)
    then have "j \<noteq> i" using old first_index_SomeD by blast
    with Some show ?thesis unfolding i(2) lookup_def f by simp
  qed (simp add: i(2) lookup_def f)
qed (simp add: store_no_room)

end

section \<open>Words\<close>

lemma unat_u8_bound [simp]: "unat (x :: u8) < 256"
  using unsigned_less [of x] by simp

lemma unat_u16_bound [simp]: "unat (x :: u16) < 65536"
  using unsigned_less [of x] by simp

lemma word_xor_eq_0_iff: "(a :: 'a::len word) XOR b = 0 \<longleftrightarrow> a = b"
  by (metis xor.assoc xor.left_neutral xor_self_eq)

lemma word_and_subset_left: "(a AND b) AND NOT a = (0 :: 'a::len word)"
  by (rule bit_word_eqI) (auto simp: bit_simps)

section \<open>Transition systems\<close>

text \<open>
  A component that reacts to inputs is a step function; what it can reach from
  its start state is an inductive predicate, and an invariant that the start
  state satisfies and every step keeps holds in every reachable state.
\<close>

locale transition_system =
  fixes start :: "'s \<Rightarrow> bool"
    and step :: "'e \<Rightarrow> 's \<Rightarrow> 's"
    and inv :: "'s \<Rightarrow> bool"
  assumes inv_start: "start s \<Longrightarrow> inv s"
    and inv_step: "inv s \<Longrightarrow> inv (step e s)"
begin

inductive reach :: "'s \<Rightarrow> bool" where
  reach_start: "start s \<Longrightarrow> reach s"
| reach_step: "reach s \<Longrightarrow> reach (step e s)"

lemma reach_inv: "reach s \<Longrightarrow> inv s"
  by (induction rule: reach.induct) (auto intro: inv_start inv_step)

lemma fold_inv: "inv s \<Longrightarrow> inv (fold step es s)"
  by (induction es arbitrary: s) (auto intro: inv_step)

lemma reach_fold: "reach s \<Longrightarrow> reach (fold step es s)"
  by (induction es arbitrary: s) (auto intro: reach_step)

end

section \<open>Byte codecs\<close>

text \<open>
  An encoder and a decoder, both partial, that agree on the well-formed values: a
  well-formed value can be encoded, and decoding its encoding gives the value back.
\<close>

locale byte_codec =
  fixes ok :: "'a \<Rightarrow> bool"
    and encode :: "'a \<Rightarrow> u8 list option"
    and decode :: "u8 list \<Rightarrow> 'a option"
  assumes decode_encode: "ok x \<Longrightarrow> \<exists>bs. encode x = Some bs \<and> decode bs = Some x"
begin

lemma encode_inj: "ok x \<Longrightarrow> ok y \<Longrightarrow> encode x = encode y \<Longrightarrow> x = y"
  using decode_encode [of x] decode_encode [of y] by auto

lemma encode_inj_on: "inj_on encode {x. ok x}"
  by (auto intro: inj_onI encode_inj)

end

end
