(* ===== verification/Serial_Timestamp.thy ===== *)
theory Serial_Timestamp
  imports Zpc_Prelude
begin

text \<open>
  The timestamps of the serial link, \<^verbatim>\<open>zwave_api/platform/posix/zwapi_timestamp.c\<close>:
  a deadline is the monotonic clock plus a period in milliseconds, and the link
  asks whether it has elapsed. The lemmas say how exact those deadlines are.
\<close>

section \<open>Definitions\<close>

text \<open>\<^verbatim>\<open>struct timespec\<close>; both members are signed and wide enough not to overflow here.\<close>

record timespec =
  tv_sec :: int
  tv_nsec :: int

text \<open>
  The periods of the callers are positive constants (20, 1500 and 1600 ms), so
  C's truncating division is Isabelle's. The nanoseconds are added without a
  carry into the seconds, as in the source.
\<close>

definition zwapi_timestamp_get :: "timespec \<Rightarrow> nat \<Rightarrow> timespec" where
  "zwapi_timestamp_get now period_ms =
     \<lparr>tv_sec = tv_sec now + int (period_ms div 1000),
      tv_nsec = tv_nsec now + int (period_ms mod 1000) * 1000000\<rparr>"

definition zwapi_is_timestamp_elapsed :: "timespec \<Rightarrow> timespec \<Rightarrow> bool" where
  "zwapi_is_timestamp_elapsed timestamp_1 now =
     (if tv_sec timestamp_1 = tv_sec now then tv_nsec timestamp_1 < tv_nsec now
      else tv_sec timestamp_1 < tv_sec now)"

section \<open>How exact the deadlines are\<close>

text \<open>What the clock returns is normalised; a timespec stands for this many nanoseconds.\<close>

definition normalised :: "timespec \<Rightarrow> bool" where
  "normalised t \<longleftrightarrow> 0 \<le> tv_nsec t \<and> tv_nsec t < 1000000000"

definition nanoseconds :: "timespec \<Rightarrow> int" where
  "nanoseconds t = tv_sec t * 1000000000 + tv_nsec t"

lemma elapsed_same_order:
  "zwapi_is_timestamp_elapsed d now \<longleftrightarrow>
     tv_sec d < tv_sec now \<or> (tv_sec d = tv_sec now \<and> tv_nsec d < tv_nsec now)"
  by (auto simp: zwapi_is_timestamp_elapsed_def)

lemma nanoseconds_deadline:
  "nanoseconds (zwapi_timestamp_get t0 p) = nanoseconds t0 + int p * 1000000"
proof -
  have "int p = int (p div 1000) * 1000 + int (p mod 1000)"
    by (metis div_mult_mod_eq of_nat_add of_nat_mult of_nat_numeral)
  then show ?thesis
    by (simp add: nanoseconds_def zwapi_timestamp_get_def algebra_simps)
qed

text \<open>
  A deadline is never reported late: once more than the period has passed
  since it was set, it is reported as elapsed. So every wait of the serial link
  that polls it ends.
\<close>

theorem timestamp_never_late:
  assumes "normalised t0" and "normalised now"
    and "nanoseconds now > nanoseconds t0 + int p * 1000000"
  shows "zwapi_is_timestamp_elapsed (zwapi_timestamp_get t0 p) now"
proof -
  let ?d = "zwapi_timestamp_get t0 p"
  have nonneg: "0 \<le> tv_nsec ?d"
    using assms(1) by (simp add: normalised_def zwapi_timestamp_get_def)
  have later: "nanoseconds ?d < nanoseconds now"
    using assms(3) by (simp add: nanoseconds_deadline)
  then have "tv_sec ?d \<le> tv_sec now"
    using nonneg assms(2) by (simp add: nanoseconds_def normalised_def)
  with later show ?thesis
    by (auto simp: elapsed_same_order nanoseconds_def)
qed

theorem timestamp_never_late_witness:
  "zwapi_is_timestamp_elapsed (zwapi_timestamp_get \<lparr>tv_sec = 7, tv_nsec = 900000000\<rparr> 1500)
     \<lparr>tv_sec = 9, tv_nsec = 400000001\<rparr>"
  by (rule timestamp_never_late) (simp_all add: normalised_def nanoseconds_def)

text \<open>
  A deadline can be reported early, because the nanoseconds are not carried
  into the seconds: all that is guaranteed is that the whole seconds of the
  period have passed. The bound is tight: a 1500 ms deadline set at the end of a
  second is reported elapsed 1000 ms and 1 ns later.
\<close>

theorem timestamp_early_bound:
  "(\<forall>t0 now p. normalised t0 \<and> normalised now \<and>
       zwapi_is_timestamp_elapsed (zwapi_timestamp_get t0 p) now \<longrightarrow>
       nanoseconds now - nanoseconds t0 > int (p div 1000) * 1000000000) \<and>
   (\<exists>t0 now. normalised t0 \<and> normalised now \<and>
       zwapi_is_timestamp_elapsed (zwapi_timestamp_get t0 1500) now \<and>
       nanoseconds now - nanoseconds t0 = 1000000001)"
proof (intro conjI allI impI)
  fix t0 now p
  assume A: "normalised t0 \<and> normalised now \<and> zwapi_is_timestamp_elapsed (zwapi_timestamp_get t0 p) now"
  then have "tv_sec t0 + int (p div 1000) + 1 \<le> tv_sec now \<or>
     tv_sec t0 + int (p div 1000) = tv_sec now \<and> tv_nsec t0 < tv_nsec now"
    by (auto simp: elapsed_same_order zwapi_timestamp_get_def)
  then show "nanoseconds now - nanoseconds t0 > int (p div 1000) * 1000000000"
    using A by (auto simp: nanoseconds_def normalised_def)
next
  show "\<exists>t0 now. normalised t0 \<and> normalised now \<and>
       zwapi_is_timestamp_elapsed (zwapi_timestamp_get t0 1500) now \<and>
       nanoseconds now - nanoseconds t0 = 1000000001"
    by (rule exI [of _ "\<lparr>tv_sec = 0, tv_nsec = 999999999\<rparr>"],
        rule exI [of _ "\<lparr>tv_sec = 2, tv_nsec = 0\<rparr>"])
       (simp add: normalised_def nanoseconds_def zwapi_timestamp_get_def elapsed_same_order)
qed

text \<open>The same bound read at a concrete pair of clock readings.\<close>

theorem timestamp_early_bound_witness:
  "nanoseconds \<lparr>tv_sec = 2, tv_nsec = 0\<rparr> - nanoseconds \<lparr>tv_sec = 0, tv_nsec = 999999999\<rparr>
     > int (1500 div 1000) * 1000000000"
  by (rule conjunct1 [OF timestamp_early_bound, rule_format])
     (simp add: normalised_def zwapi_timestamp_get_def elapsed_same_order)

end
