(* ===== verification/Serial_Connection.thy ===== *)
theory Serial_Connection
  imports Serial_Timestamp
begin

text \<open>
  The framing layer of the host to Z-Wave module link,
  \<^verbatim>\<open>zwave_api/src/zwapi_connection.c\<close>: frames are built with a length byte and an
  XOR checksum, incoming bytes are parsed by a two-state machine, and every
  received frame is acknowledged. The function pointers of
  \<^verbatim>\<open>zwapi_connection_interface_t\<close> (serial or IP) are a record of functions over an
  arbitrary device state; what the layer needs of them is a locale.
\<close>

section \<open>Definitions\<close>

abbreviation (input) SOF :: u8 where "SOF \<equiv> 0x01"
abbreviation (input) ACK :: u8 where "ACK \<equiv> 0x06"
abbreviation (input) NAK :: u8 where "NAK \<equiv> 0x15"
abbreviation (input) CAN :: u8 where "CAN \<equiv> 0x18"
abbreviation (input) FRAME_LENGTH_MIN :: u8 where "FRAME_LENGTH_MIN \<equiv> 3"
abbreviation (input) FRAME_LENGTH_MAX :: u8 where "FRAME_LENGTH_MAX \<equiv> 0xFF"
abbreviation (input) RX_ACK_TIMEOUT_DEFAULT :: nat where "RX_ACK_TIMEOUT_DEFAULT \<equiv> 1500"
abbreviation (input) RX_BYTE_TIMEOUT_DEFAULT :: nat where "RX_BYTE_TIMEOUT_DEFAULT \<equiv> 1500"

datatype connection_state = STATE_SOF_HUNT | STATE_PARSE_FRAME

datatype connection_status =
  STATUS_IDLE | STATUS_FRAME_RECEIVED | STATUS_FRAME_SENT | STATUS_CHECKSUM_ERROR
| STATUS_RX_TIMEOUT | STATUS_TX_TIMEOUT | STATUS_TX_NAK | STATUS_TX_CAN | STATUS_CONNECTION_LOST

text \<open>
  The function pointers of the connection interface. Each takes the state of the
  device below and returns its result and the new state; \<open>clock_gettime\<close> is the
  monotonic clock the timestamps read. A negative number of bytes is the
  interface's error return; \<open>get_buffer\<close> returns the bytes it stored.
\<close>

record 'd connection_interface =
  restart :: "'d \<Rightarrow> int \<times> 'd"
  get_byte :: "'d \<Rightarrow> int \<times> u8 \<times> 'd"
  put_byte :: "u8 \<Rightarrow> 'd \<Rightarrow> 'd"
  get_buffer :: "int \<Rightarrow> 'd \<Rightarrow> int \<times> u8 list \<times> 'd"
  put_buffer :: "u8 list \<Rightarrow> 'd \<Rightarrow> int \<times> 'd"
  is_file_available :: "'d \<Rightarrow> bool \<times> 'd"
  drain_buffer :: "'d \<Rightarrow> 'd"
  clock_gettime :: "'d \<Rightarrow> timespec \<times> 'd"

text \<open>The static variables of the file, and the device.\<close>

record 'd connection =
  rx_buffer :: "u8 list"
  rx_buffer_length :: u8
  zwapi_connection_state :: connection_state
  timeOutACK :: timespec
  timeOutRX :: timespec
  ack_nak_needed :: bool
  device :: 'd

text \<open>\<^verbatim>\<open>zwapi_timestamp_get\<close> and \<^verbatim>\<open>zwapi_is_timestamp_elapsed\<close> read the clock first.\<close>

definition timestamp_get :: "'d connection_interface \<Rightarrow> nat \<Rightarrow> 'd connection \<Rightarrow> timespec \<times> 'd connection" where
  "timestamp_get cif period s =
     (case clock_gettime cif (device s) of (now, d) \<Rightarrow> (zwapi_timestamp_get now period, s\<lparr>device := d\<rparr>))"

definition timestamp_elapsed :: "'d connection_interface \<Rightarrow> timespec \<Rightarrow> 'd connection \<Rightarrow> bool \<times> 'd connection" where
  "timestamp_elapsed cif t s =
     (case clock_gettime cif (device s) of (now, d) \<Rightarrow> (zwapi_is_timestamp_elapsed t now, s\<lparr>device := d\<rparr>))"

definition connection_put_byte :: "'d connection_interface \<Rightarrow> u8 \<Rightarrow> 'd connection \<Rightarrow> 'd connection" where
  "connection_put_byte cif b s = s\<lparr>device := drain_buffer cif (put_byte cif b (device s))\<rparr>"

definition connection_reset :: "'d connection_interface \<Rightarrow> 'd connection \<Rightarrow> 'd connection" where
  "connection_reset cif s =
     (let s = s\<lparr>rx_buffer_length := 0, zwapi_connection_state := STATE_SOF_HUNT, ack_nak_needed := False\<rparr>;
          (ta, s) = timestamp_get cif RX_ACK_TIMEOUT_DEFAULT s; s = s\<lparr>timeOutACK := ta\<rparr>;
          (tr, s) = timestamp_get cif RX_BYTE_TIMEOUT_DEFAULT s
      in s\<lparr>timeOutRX := tr\<rparr>)"

definition zwapi_connection_restart :: "'d connection_interface \<Rightarrow> 'd connection \<Rightarrow> int \<times> 'd connection" where
  "zwapi_connection_restart cif s =
     (let s = connection_reset cif s; (rc, d) = restart cif (device s); s = s\<lparr>device := d\<rparr>
      in if rc > 0 then (rc, connection_put_byte cif NAK s) else (rc, s))"

definition zwapi_connection_feed :: "'d connection_interface \<Rightarrow> int \<Rightarrow> 'd connection \<Rightarrow> 'd connection" where
  "zwapi_connection_feed cif rc s = (if rc > 0 then connection_put_byte cif ACK s else s)"

text \<open>
  Opening the link: the serial port first, the IP socket when that fails. The two
  back ends are a pair of an opening function and an interface; the result also
  says which interface is installed. When both fail the installed one is kept.
\<close>

definition zwapi_connection_init ::
  "('d \<Rightarrow> int \<times> 'd) \<times> 'd connection_interface \<Rightarrow> ('d \<Rightarrow> int \<times> 'd) \<times> 'd connection_interface \<Rightarrow>
   'd connection_interface \<times> 'd connection \<Rightarrow> int \<times> 'd connection_interface \<times> 'd connection" where
  "zwapi_connection_init serial ip cs =
     (case (serial, ip, cs) of ((serial_init, serial_cif), (ip_init, ip_cif), (cif, s)) \<Rightarrow>
        let s = connection_reset serial_cif s; (rc, d) = serial_init (device s); s = s\<lparr>device := d\<rparr>
        in if rc \<noteq> -1 then (rc, serial_cif, zwapi_connection_feed serial_cif rc s)
           else let (rc, d) = ip_init (device s); s = s\<lparr>device := d\<rparr>
                in if rc \<noteq> -1 then (rc, ip_cif, zwapi_connection_feed ip_cif rc s)
                   else (-1, cif, s))"

text \<open>The XOR checksum over a list of bytes, starting from 0xFF.\<close>

definition checksum :: "u8 list \<Rightarrow> u8" where
  "checksum bs = fold (\<lambda>b c. c XOR b) bs 0xFF"

text \<open>
  The bytes \<^verbatim>\<open>zwapi_connection_tx\<close> writes: start of frame, length (type, command,
  payload and the length byte itself), type, command, payload, checksum over all
  but the start of frame.
\<close>

definition tx_frame :: "u8 \<Rightarrow> u8 \<Rightarrow> u8 list \<Rightarrow> u8 \<Rightarrow> u8 list" where
  "tx_frame cmd type Buf len =
     (let body = (len + 3) # type # cmd # take (unat len) Buf in SOF # body @ [checksum body])"

text \<open>
  The assertion on an oversized payload is compiled out in a release build; the
  function then returns a NAK without sending.
\<close>

definition zwapi_connection_tx ::
  "'d connection_interface \<Rightarrow> u8 \<Rightarrow> u8 \<Rightarrow> u8 list \<Rightarrow> u8 \<Rightarrow> bool \<Rightarrow> 'd connection \<Rightarrow> connection_status \<times> 'd connection" where
  "zwapi_connection_tx cif cmd type Buf len ack_needed s =
     (if unat len > 255 - 4 - 1 then (STATUS_TX_NAK, s)
      else let (r, d) = put_buffer cif (tx_frame cmd type Buf len) (device s); s = s\<lparr>device := d\<rparr>
        in if r < 0 then (STATUS_CONNECTION_LOST, s\<lparr>ack_nak_needed := False\<rparr>)
           else let s = s\<lparr>device := drain_buffer cif (device s), ack_nak_needed := ack_needed\<rparr>
             in if ack_needed
                then let (t, s) = timestamp_get cif RX_ACK_TIMEOUT_DEFAULT s
                     in (STATUS_IDLE, s\<lparr>timeOutACK := t\<rparr>)
                else (STATUS_IDLE, s))"

text \<open>Storing \<open>bs\<close> from index 1 on, after the length byte: what \<^verbatim>\<open>get_buffer\<close> does to the buffer.\<close>

definition rx_store :: "u8 \<Rightarrow> u8 list \<Rightarrow> u8 list \<Rightarrow> u8 list" where
  "rx_store c bs buf = c # bs @ drop (1 + length bs) buf"

text \<open>
  One byte in state \<^verbatim>\<open>STATE_SOF_HUNT\<close>. Results: \<open>rx_is_active\<close>, the status, the state.
\<close>

definition refresh_sof_hunt ::
  "'d connection_interface \<Rightarrow> u8 \<Rightarrow> bool \<Rightarrow> 'd connection \<Rightarrow> bool \<times> connection_status \<times> 'd connection" where
  "refresh_sof_hunt cif c act s =
     (if c = SOF
      then let s = s\<lparr>rx_buffer_length := 0, zwapi_connection_state := STATE_PARSE_FRAME\<rparr>;
               (t, s) = timestamp_get cif RX_BYTE_TIMEOUT_DEFAULT s
           in (True, STATUS_IDLE, s\<lparr>timeOutRX := t\<rparr>)
      else if ack_nak_needed s
      then (act,
            (if c = ACK then STATUS_FRAME_SENT else if c = NAK then STATUS_TX_NAK
             else if c = CAN then STATUS_TX_CAN else STATUS_TX_TIMEOUT),
            s\<lparr>ack_nak_needed := False\<rparr>)
      else (act, STATUS_IDLE, s))"

text \<open>
  The length byte in state \<^verbatim>\<open>STATE_PARSE_FRAME\<close>. \<open>rx_buffer_length\<close> is a
  \<^verbatim>\<open>uint8_t\<close>, so the length 255 wraps it to 0; the number of bytes asked for is
  computed in \<^verbatim>\<open>int\<close> and is then -1.
\<close>

definition refresh_parse_frame ::
  "'d connection_interface \<Rightarrow> u8 \<Rightarrow> bool \<Rightarrow> 'd connection \<Rightarrow> bool \<times> connection_status \<times> 'd connection" where
  "refresh_parse_frame cif c act s =
     (if c < FRAME_LENGTH_MIN \<or> c > FRAME_LENGTH_MAX
      then (False, STATUS_IDLE, s\<lparr>zwapi_connection_state := STATE_SOF_HUNT\<rparr>)
      else
        let s = s\<lparr>rx_buffer_length := c + 1\<rparr>;
            wanted = uint (rx_buffer_length s) - 1;
            (bytes_read, bs, d) = get_buffer cif wanted (device s);
            s = s\<lparr>rx_buffer := rx_store c bs (rx_buffer s), device := d\<rparr>
        in if bytes_read < 0 then (act, STATUS_CONNECTION_LOST, s)
           else if bytes_read < wanted
           then (False, STATUS_IDLE, s\<lparr>zwapi_connection_state := STATE_SOF_HUNT\<rparr>)
           else if checksum (take (unat (rx_buffer_length s)) (rx_buffer s)) = 0
           then (False, STATUS_FRAME_RECEIVED,
                 (connection_put_byte cif ACK s)
                   \<lparr>rx_buffer_length := rx_buffer_length s - 1, zwapi_connection_state := STATE_SOF_HUNT\<rparr>)
           else (False, STATUS_CHECKSUM_ERROR,
                 (connection_put_byte cif NAK s)\<lparr>zwapi_connection_state := STATE_SOF_HUNT\<rparr>))"

text \<open>The timeout checks at the end of an iteration, made only when nothing else happened.\<close>

definition refresh_timeouts ::
  "'d connection_interface \<Rightarrow> bool \<times> connection_status \<times> 'd connection \<Rightarrow> bool \<times> connection_status \<times> 'd connection" where
  "refresh_timeouts cif r =
     (case r of (act, ret, s) \<Rightarrow>
        if ret \<noteq> STATUS_IDLE then (act, ret, s)
        else
          let (rx_out, s) = (if act then timestamp_elapsed cif (timeOutRX s) s else (False, s));
              (act, ret, s) = (if rx_out then (False, STATUS_RX_TIMEOUT, s\<lparr>zwapi_connection_state := STATE_SOF_HUNT\<rparr>)
                               else (act, ret, s));
              (ack_out, s) = (if ack_nak_needed s then timestamp_elapsed cif (timeOutACK s) s else (False, s))
          in if ack_out then (act, STATUS_TX_TIMEOUT, s\<lparr>ack_nak_needed := False\<rparr>) else (act, ret, s))"

text \<open>No byte arrived: a half-parsed frame is dropped and an overdue acknowledgement reported.\<close>

definition refresh_no_byte ::
  "'d connection_interface \<Rightarrow> 'd connection \<Rightarrow> connection_status \<times> 'd connection" where
  "refresh_no_byte cif s =
     (let s = (if zwapi_connection_state s = STATE_PARSE_FRAME
               then s\<lparr>zwapi_connection_state := STATE_SOF_HUNT\<rparr> else s);
          (ack_out, s) = (if ack_nak_needed s then timestamp_elapsed cif (timeOutACK s) s else (False, s))
      in if ack_out then (STATUS_TX_TIMEOUT, s\<lparr>ack_nak_needed := False\<rparr>) else (STATUS_IDLE, s))"

text \<open>The body for one byte that did arrive.\<close>

definition refresh_byte ::
  "'d connection_interface \<Rightarrow> u8 \<Rightarrow> bool \<Rightarrow> 'd connection \<Rightarrow> bool \<times> connection_status \<times> 'd connection" where
  "refresh_byte cif c act s =
     refresh_timeouts cif
       (case zwapi_connection_state s of
          STATE_SOF_HUNT \<Rightarrow> refresh_sof_hunt cif c act s
        | STATE_PARSE_FRAME \<Rightarrow> refresh_parse_frame cif c act s)"

text \<open>
  The loop of \<^verbatim>\<open>zwapi_connection_refresh\<close>; a device that never runs dry would keep
  it running, which is the value \<open>None\<close>.
\<close>

partial_function (option) refresh_loop ::
  "'d connection_interface \<Rightarrow> bool \<Rightarrow> connection_status \<Rightarrow> 'd connection \<Rightarrow> (connection_status \<times> 'd connection) option" where
  "refresh_loop cif act ret s =
     (case is_file_available cif (device s) of (avail, d) \<Rightarrow>
        if avail \<and> ret = STATUS_IDLE
        then (case get_byte cif d of (bytes_read, c, d') \<Rightarrow>
                if bytes_read < 0 then Some (STATUS_CONNECTION_LOST, s\<lparr>device := d'\<rparr>)
                else if bytes_read = 0 then Some (refresh_no_byte cif (s\<lparr>device := d'\<rparr>))
                else (case refresh_byte cif c act (s\<lparr>device := d'\<rparr>) of (act', ret', s') \<Rightarrow>
                        refresh_loop cif act' ret' s'))
        else Some (ret, s\<lparr>device := d\<rparr>))"

definition zwapi_connection_refresh ::
  "'d connection_interface \<Rightarrow> 'd connection \<Rightarrow> (connection_status \<times> 'd connection) option" where
  "zwapi_connection_refresh cif s = refresh_loop cif False STATUS_IDLE s"

definition zwapi_connection_get_last_rx_frame :: "nat \<Rightarrow> 'd connection \<Rightarrow> u8 list" where
  "zwapi_connection_get_last_rx_frame user_buffer_length s =
     (if unat (rx_buffer_length s) \<le> user_buffer_length
      then take (unat (rx_buffer_length s)) (rx_buffer s)
      else take user_buffer_length (rx_buffer s))"

section \<open>The checksum\<close>

lemma checksum_append: "checksum (xs @ ys) = fold (\<lambda>b c. c XOR b) ys (checksum xs)"
  by (simp add: checksum_def)

lemma fold_xor_shift: "fold (\<lambda>b c. c XOR b) bs (a XOR d) = fold (\<lambda>b c. c XOR b) bs a XOR (d :: u8)"
proof (induction bs arbitrary: a)
  case (Cons b bs)
  have "(a XOR d) XOR b = (a XOR b) XOR d"
    by (simp add: ac_simps)
  then show ?case
    by (simp only: fold.simps comp_def Cons.IH)
qed simp

lemma checksum_closes: "checksum (bs @ [checksum bs]) = 0"
  by (simp add: checksum_append)

lemma checksum_update:
  assumes "i < length bs"
  shows "checksum (bs[i := b]) = checksum bs XOR (bs ! i XOR b)"
proof -
  have new: "bs[i := b] = take i bs @ b # drop (Suc i) bs"
    using assms by (rule upd_conv_take_nth_drop)
  have old: "bs = take i bs @ bs ! i # drop (Suc i) bs"
    using assms by (rule id_take_nth_drop)
  let ?f = "\<lambda>xs. fold (\<lambda>b c. c XOR b) xs"
  have "checksum (bs[i := b]) = ?f (drop (Suc i) bs) (checksum (take i bs) XOR b)"
    by (simp add: new checksum_append)
  also have "\<dots> = ?f (drop (Suc i) bs) ((checksum (take i bs) XOR bs ! i) XOR (bs ! i XOR b))"
    by (simp add: xor.assoc)
  also have "\<dots> = ?f (drop (Suc i) bs) (checksum (take i bs) XOR bs ! i) XOR (bs ! i XOR b)"
    by (rule fold_xor_shift)
  also have "?f (drop (Suc i) bs) (checksum (take i bs) XOR bs ! i) = checksum bs"
    by (subst (4) old) (simp add: checksum_append)
  finally show ?thesis .
qed

lemma checksum_detects_change:
  assumes "checksum bs = 0" and "i < length bs" and "b \<noteq> bs ! i"
  shows "checksum (bs[i := b]) \<noteq> 0"
  using assms by (auto simp: checksum_update word_xor_eq_0_iff)

section \<open>What the layer needs of a device\<close>

text \<open>
  A byte-stream device: \<open>pend\<close> are the bytes that have arrived and can be read
  without waiting, \<open>out\<close> the bytes written, \<open>live\<close> the states in which the line is
  up and two successive clock readings are close enough for a fresh receive
  timeout not to have elapsed.
\<close>

locale byte_stream_device =
  fixes cif :: "'d connection_interface"
    and live :: "'d \<Rightarrow> bool"
    and pend :: "'d \<Rightarrow> u8 list"
    and out :: "'d \<Rightarrow> u8 list"
  assumes available: "live d \<Longrightarrow> pend d \<noteq> [] \<Longrightarrow> is_file_available cif d = (True, d)"
    and read_byte: "live d \<Longrightarrow> pend d = b # bs \<Longrightarrow>
          \<exists>d'. get_byte cif d = (1, b, d') \<and> live d' \<and> pend d' = bs \<and> out d' = out d"
    and read_buffer: "live d \<Longrightarrow> n \<le> length (pend d) \<Longrightarrow>
          \<exists>d'. get_buffer cif (int n) d = (int n, take n (pend d), d') \<and>
               live d' \<and> pend d' = drop n (pend d) \<and> out d' = out d"
    and read_negative: "k < 0 \<Longrightarrow> get_buffer cif k d = (0, [], d)"
    and write_byte: "live d \<Longrightarrow>
          live (drain_buffer cif (put_byte cif b d)) \<and>
          pend (drain_buffer cif (put_byte cif b d)) = pend d \<and>
          out (drain_buffer cif (put_byte cif b d)) = out d @ [b]"
    and poll: "live d \<Longrightarrow> \<exists>a d' more. is_file_available cif d = (a, d') \<and>
          live d' \<and> pend d' = pend d @ more \<and> out d' = out d"
    and clock: "live d \<Longrightarrow> \<exists>t d'. clock_gettime cif d = (t, d') \<and> live d' \<and> pend d' = pend d \<and> out d' = out d \<and>
          \<not> zwapi_is_timestamp_elapsed (zwapi_timestamp_get t RX_BYTE_TIMEOUT_DEFAULT) (fst (clock_gettime cif d'))"
begin

lemma refresh_loop_done:
  assumes "live (device s)" and "ret \<noteq> STATUS_IDLE"
  shows "\<exists>d. refresh_loop cif act ret s = Some (ret, s\<lparr>device := d\<rparr>) \<and>
           live d \<and> (\<exists>more. pend d = pend (device s) @ more) \<and> out d = out (device s)"
proof -
  obtain a d more where "is_file_available cif (device s) = (a, d)" "live d"
      "pend d = pend (device s) @ more" "out d = out (device s)"
    using poll [OF assms(1)] by auto
  with assms(2) show ?thesis by (subst refresh_loop.simps) auto
qed

lemma refresh_loop_byte:
  assumes "live (device s)" and "pend (device s) = b # bs"
  shows "\<exists>d. live d \<and> pend d = bs \<and> out d = out (device s) \<and>
           refresh_loop cif act STATUS_IDLE s =
           (case refresh_byte cif b act (s\<lparr>device := d\<rparr>) of (act', ret', s') \<Rightarrow> refresh_loop cif act' ret' s')"
  using available [OF assms(1)] read_byte [OF assms] assms(2)
  by (subst refresh_loop.simps) auto

lemma timestamp_get_live:
  assumes "live (device s)"
  obtains t d where "timestamp_get cif 1500 s = (zwapi_timestamp_get t 1500, s\<lparr>device := d\<rparr>)"
    and "live d" and "pend d = pend (device s)" and "out d = out (device s)"
    and "\<not> zwapi_is_timestamp_elapsed (zwapi_timestamp_get t 1500) (fst (clock_gettime cif d))"
  using clock [OF assms] by (auto simp: timestamp_get_def)

lemma timestamp_elapsed_live:
  assumes "live (device s)"
  obtains d where "timestamp_elapsed cif t s = (zwapi_is_timestamp_elapsed t (fst (clock_gettime cif (device s))), s\<lparr>device := d\<rparr>)"
    and "live d" and "pend d = pend (device s)" and "out d = out (device s)"
  using clock [OF assms] by (auto simp: timestamp_elapsed_def)

text \<open>A start-of-frame byte moves the parser to the length byte.\<close>

lemma refresh_byte_sof:
  assumes "live (device s)" and "zwapi_connection_state s = STATE_SOF_HUNT" and "\<not> ack_nak_needed s"
  shows "\<exists>d t. refresh_byte cif SOF act s =
           (True, STATUS_IDLE, s\<lparr>rx_buffer_length := 0, zwapi_connection_state := STATE_PARSE_FRAME,
                                 timeOutRX := t, device := d\<rparr>) \<and>
         live d \<and> pend d = pend (device s) \<and> out d = out (device s)"
proof -
  define s1 where "s1 = s\<lparr>rx_buffer_length := 0, zwapi_connection_state := STATE_PARSE_FRAME\<rparr>"
  have l1: "live (device s1)" using assms(1) by (simp add: s1_def)
  obtain t d where t: "timestamp_get cif 1500 s1 = (zwapi_timestamp_get t 1500, s1\<lparr>device := d\<rparr>)"
    and d: "live d" "pend d = pend (device s)" "out d = out (device s)"
    and ne: "\<not> zwapi_is_timestamp_elapsed (zwapi_timestamp_get t 1500) (fst (clock_gettime cif d))"
    using timestamp_get_live [OF l1] by (auto simp: s1_def)
  define s2 where "s2 = s1\<lparr>device := d, timeOutRX := zwapi_timestamp_get t 1500\<rparr>"
  have l2: "live (device s2)" using d by (simp add: s2_def)
  obtain d' where e: "timestamp_elapsed cif (timeOutRX s2) s2 = (False, s2\<lparr>device := d'\<rparr>)"
    and d': "live d'" "pend d' = pend d" "out d' = out d"
    using timestamp_elapsed_live [OF l2, of "timeOutRX s2"] ne by (auto simp: s2_def)
  have "refresh_sof_hunt cif SOF act s = (True, STATUS_IDLE, s2)"
    using t by (simp add: refresh_sof_hunt_def s1_def s2_def)
  moreover have "\<not> ack_nak_needed s2" using assms(3) by (simp add: s1_def s2_def)
  ultimately have "refresh_byte cif SOF act s = (True, STATUS_IDLE, s2\<lparr>device := d'\<rparr>)"
    using assms(2) e by (simp add: refresh_byte_def refresh_timeouts_def)
  with d d' show ?thesis
    by (intro exI [of _ d'] exI [of _ "zwapi_timestamp_get t 1500"]) (simp add: s1_def s2_def)
qed

text \<open>The length byte of a frame that has arrived completely decides by the checksum alone.\<close>

lemma refresh_byte_frame:
  assumes "live (device s)" and "zwapi_connection_state s = STATE_PARSE_FRAME"
    and "3 \<le> unat c" and "unat c < 255" and "unat c \<le> length (pend (device s))"
  defines "bs \<equiv> take (unat c) (pend (device s))"
  shows "\<exists>s'. refresh_byte cif c act s =
       (False, if checksum (c # bs) = 0 then STATUS_FRAME_RECEIVED else STATUS_CHECKSUM_ERROR, s') \<and>
     rx_buffer s' = rx_store c bs (rx_buffer s) \<and>
     rx_buffer_length s' = (if checksum (c # bs) = 0 then c else c + 1) \<and>
     zwapi_connection_state s' = STATE_SOF_HUNT \<and>
     live (device s') \<and> pend (device s') = drop (unat c) (pend (device s)) \<and>
     out (device s') = out (device s) @ [if checksum (c # bs) = 0 then ACK else NAK]"
proof -
  obtain d where b: "get_buffer cif (int (unat c)) (device s) = (int (unat c), bs, d)"
    and d: "live d" "pend d = drop (unat c) (pend (device s))" "out d = out (device s)"
    using read_buffer [OF assms(1,5)] by (auto simp: bs_def)
  have len: "unat (c + 1) = unat c + 1"
    using assms(4) by (subst unat_add_lem [THEN iffD1]) auto
  then have "int (unat (c + 1)) = int (unat c) + 1"
    by simp
  then have ulen: "uint (c + 1) = uint c + 1"
    by simp
  have range: "\<not> c < 3" "\<not> (255 :: u8) < c"
    using assms(3,4) by (auto simp: word_less_nat_alt)
  have taken: "take (Suc (unat c)) (rx_store c bs (rx_buffer s)) = c # bs"
    using assms(5) by (simp add: rx_store_def bs_def)
  define ans where "ans = (if checksum (c # bs) = 0 then ACK else NAK)"
  have "refresh_parse_frame cif c act s =
      (False, if checksum (c # bs) = 0 then STATUS_FRAME_RECEIVED else STATUS_CHECKSUM_ERROR,
       s\<lparr>rx_buffer := rx_store c bs (rx_buffer s),
         rx_buffer_length := (if checksum (c # bs) = 0 then c else c + 1),
         zwapi_connection_state := STATE_SOF_HUNT, device := drain_buffer cif (put_byte cif ans d)\<rparr>)"
    using b by (simp add: refresh_parse_frame_def range len ulen taken connection_put_byte_def ans_def)
  then have "refresh_byte cif c act s =
      (False, if checksum (c # bs) = 0 then STATUS_FRAME_RECEIVED else STATUS_CHECKSUM_ERROR,
       s\<lparr>rx_buffer := rx_store c bs (rx_buffer s),
         rx_buffer_length := (if checksum (c # bs) = 0 then c else c + 1),
         zwapi_connection_state := STATE_SOF_HUNT, device := drain_buffer cif (put_byte cif ans d)\<rparr>)"
    using assms(2) by (simp add: refresh_byte_def refresh_timeouts_def)
  then show ?thesis
    using write_byte [OF d(1), of ans] d by (simp add: ans_def)
qed

text \<open>After a start of frame and a length byte, the rest of the call is about the length byte.\<close>

lemma refresh_two_bytes:
  assumes "live (device s)" and "zwapi_connection_state s = STATE_SOF_HUNT" and "\<not> ack_nak_needed s"
    and "pend (device s) = SOF # c # bs"
  obtains s1 where "live (device s1)" and "zwapi_connection_state s1 = STATE_PARSE_FRAME"
    and "rx_buffer s1 = rx_buffer s" and "pend (device s1) = bs" and "out (device s1) = out (device s)"
    and "zwapi_connection_refresh cif s =
      (case refresh_byte cif c True s1 of (a, r, s') \<Rightarrow> refresh_loop cif a r s')"
proof -
  obtain d1 where d1: "live d1" "pend d1 = c # bs" "out d1 = out (device s)"
    and e1: "refresh_loop cif False STATUS_IDLE s =
       (case refresh_byte cif SOF False (s\<lparr>device := d1\<rparr>) of (a, r, s') \<Rightarrow> refresh_loop cif a r s')"
    using refresh_loop_byte [OF assms(1,4)] by blast
  obtain d2 t where d2: "live d2" "pend d2 = c # bs" "out d2 = out (device s)"
    and e2: "refresh_byte cif SOF False (s\<lparr>device := d1\<rparr>) = (True, STATUS_IDLE, (s\<lparr>device := d1\<rparr>)
       \<lparr>rx_buffer_length := 0, zwapi_connection_state := STATE_PARSE_FRAME, timeOutRX := t, device := d2\<rparr>)"
    using refresh_byte_sof [of "s\<lparr>device := d1\<rparr>" False] d1 assms(2,3) by auto
  define s2 where "s2 = (s\<lparr>device := d1\<rparr>)
       \<lparr>rx_buffer_length := 0, zwapi_connection_state := STATE_PARSE_FRAME, timeOutRX := t, device := d2\<rparr>"
  obtain d3 where d3: "live d3" "pend d3 = bs" "out d3 = out (device s)"
    and e3: "refresh_loop cif True STATUS_IDLE s2 =
       (case refresh_byte cif c True (s2\<lparr>device := d3\<rparr>) of (a, r, s') \<Rightarrow> refresh_loop cif a r s')"
    using refresh_loop_byte [of s2 c bs True] d2 by (auto simp: s2_def)
  show thesis
    by (rule that [of "s2\<lparr>device := d3\<rparr>"])
       (use e3 in \<open>simp_all add: zwapi_connection_refresh_def e1 e2 s2_def d3\<close>)
qed

text \<open>A complete frame at the head of the stream is consumed and answered.\<close>

lemma refresh_frame:
  assumes "live (device s)" and "zwapi_connection_state s = STATE_SOF_HUNT" and "\<not> ack_nak_needed s"
    and "pend (device s) = SOF # c # bs @ rest" and "3 \<le> unat c" and "unat c < 255" and "length bs = unat c"
  shows "\<exists>s'. zwapi_connection_refresh cif s =
           Some (if checksum (c # bs) = 0 then STATUS_FRAME_RECEIVED else STATUS_CHECKSUM_ERROR, s') \<and>
         rx_buffer s' = rx_store c bs (rx_buffer s) \<and>
         rx_buffer_length s' = (if checksum (c # bs) = 0 then c else c + 1) \<and>
         zwapi_connection_state s' = STATE_SOF_HUNT \<and> live (device s') \<and>
         (\<exists>more. pend (device s') = rest @ more) \<and>
         out (device s') = out (device s) @ [if checksum (c # bs) = 0 then ACK else NAK]"
proof -
  obtain s1 where s1: "live (device s1)" "zwapi_connection_state s1 = STATE_PARSE_FRAME"
      "rx_buffer s1 = rx_buffer s" "pend (device s1) = bs @ rest" "out (device s1) = out (device s)"
    and e: "zwapi_connection_refresh cif s = (case refresh_byte cif c True s1 of (a, r, s') \<Rightarrow> refresh_loop cif a r s')"
    using refresh_two_bytes [OF assms(1-4)] by blast
  define ret where "ret = (if checksum (c # bs) = 0 then STATUS_FRAME_RECEIVED else STATUS_CHECKSUM_ERROR)"
  obtain s2 where b: "refresh_byte cif c True s1 = (False, ret, s2)"
    and s2: "rx_buffer s2 = rx_store c bs (rx_buffer s)"
      "rx_buffer_length s2 = (if checksum (c # bs) = 0 then c else c + 1)"
      "zwapi_connection_state s2 = STATE_SOF_HUNT" "live (device s2)" "pend (device s2) = rest"
      "out (device s2) = out (device s) @ [if checksum (c # bs) = 0 then ACK else NAK]"
    using refresh_byte_frame [OF s1(1,2) assms(5,6), of True] s1(3-5) assms(7)
    unfolding ret_def by force
  have "ret \<noteq> STATUS_IDLE" by (simp add: ret_def)
  then show ?thesis
    using refresh_loop_done [OF s2(4), of ret False] s2 e b by (auto simp: ret_def [symmetric])
qed

text \<open>
  The length 255 wraps the frame length to 0: no byte is read and the empty
  buffer fails the checksum.
\<close>

lemma refresh_length_255:
  assumes "live (device s)" and "zwapi_connection_state s = STATE_SOF_HUNT" and "\<not> ack_nak_needed s"
    and "pend (device s) = SOF # 255 # rest"
  shows "\<exists>s' more. zwapi_connection_refresh cif s = Some (STATUS_CHECKSUM_ERROR, s') \<and>
         live (device s') \<and> pend (device s') = rest @ more \<and> out (device s') = out (device s) @ [NAK]"
proof -
  obtain s1 where s1: "live (device s1)" "zwapi_connection_state s1 = STATE_PARSE_FRAME"
      "pend (device s1) = rest" "out (device s1) = out (device s)"
    and e: "zwapi_connection_refresh cif s = (case refresh_byte cif 255 True s1 of (a, r, s') \<Rightarrow> refresh_loop cif a r s')"
    using refresh_two_bytes [OF assms] by blast
  obtain s2 where b: "refresh_byte cif 255 True s1 = (False, STATUS_CHECKSUM_ERROR, s2)"
    and s2: "live (device s2)" "pend (device s2) = rest" "out (device s2) = out (device s) @ [NAK]"
    using s1 write_byte [OF s1(1), of NAK]
    by (auto simp: refresh_byte_def refresh_timeouts_def refresh_parse_frame_def read_negative
        checksum_def connection_put_byte_def)
  then show ?thesis
    using refresh_loop_done [OF s2(1), of STATUS_CHECKSUM_ERROR False] e by auto
qed

end

end
