(* ===== verification/Serial_Port.thy ===== *)
theory Serial_Port
  imports Serial_Connection
begin

text \<open>
  The POSIX serial back end, \<^verbatim>\<open>zwave_api/platform/posix/zwapi_serial.c\<close>, as a
  provider of the connection interface. What the operating system delivers is a
  script of line events, what it accepts is the list of bytes written; the clock
  is a sequence of readings. The interpretation of the byte-stream interface
  carries the framing lemmas over to it.
\<close>

section \<open>Definitions\<close>

text \<open>
  One event of the line: a byte, a moment at which \<^verbatim>\<open>select\<close> finds nothing to read
  (a poll that fails, or a wait that times out), or the end of the connection
  (\<^verbatim>\<open>read\<close> returns 0 or an error). After the script the line stays silent.
\<close>

datatype line_event = Rx u8 | Quiet | Hangup

text \<open>
  \<open>tx_room\<close> is the number of bytes the port still accepts before \<^verbatim>\<open>write\<close> fails
  (\<open>None\<close>: it never fails); \<open>port_named\<close> says that a port name has been stored by a
  successful open, \<open>open_rc\<close> what opening the port returns. The line delivers finitely many events and is silent
  afterwards: reading until nothing is left ends because of that, the code has no deadline for it. The port blocks, so that
  \<^verbatim>\<open>write\<close> is not interrupted and the loop for \<^verbatim>\<open>EAGAIN\<close> is not modelled.
\<close>

record serial_port =
  line :: "line_event list"
  sent :: "u8 list"
  tx_room :: "nat option"
  readings :: "nat \<Rightarrow> timespec"
  reads :: nat
  port_named :: bool
  open_rc :: int

text \<open>\<^verbatim>\<open>tcflush(TCIOFLUSH)\<close> discards what has arrived and has not been read.\<close>

fun flushed :: "line_event list \<Rightarrow> line_event list" where
  "flushed (Rx b # l) = flushed l"
| "flushed l = l"

definition zwapi_serial_init :: "serial_port \<Rightarrow> int \<times> serial_port" where
  "zwapi_serial_init p =
     (open_rc p, if 0 < open_rc p then p\<lparr>line := flushed (line p), port_named := True\<rparr> else p)"

definition zwapi_serial_restart :: "serial_port \<Rightarrow> int \<times> serial_port" where
  "zwapi_serial_restart p = (if port_named p then zwapi_serial_init p else (0, p))"

text \<open>
  The read loop: bytes until \<open>len\<close> of them are there, the line is silent for the
  receive timeout, or the connection ends. \<^verbatim>\<open>read\<close> may hand over several bytes at
  once, which only groups the same bytes differently.
\<close>

fun serial_read :: "nat \<Rightarrow> u8 list \<Rightarrow> line_event list \<Rightarrow> int \<times> u8 list \<times> line_event list" where
  "serial_read 0 got l = (int (length got), got, l)"
| "serial_read (Suc n) got [] = (int (length got), got, [])"
| "serial_read (Suc n) got (Quiet # l) = (int (length got), got, l)"
| "serial_read (Suc n) got (Hangup # l) = (-1, got, Hangup # l)"
| "serial_read (Suc n) got (Rx b # l) = serial_read n (got @ [b]) l"

definition zwapi_serial_get_buffer :: "int \<Rightarrow> serial_port \<Rightarrow> int \<times> u8 list \<times> serial_port" where
  "zwapi_serial_get_buffer len p =
     (case serial_read (nat len) [] (line p) of (k, bs, l) \<Rightarrow> (k, bs, p\<lparr>line := l\<rparr>))"

definition zwapi_serial_get_byte :: "serial_port \<Rightarrow> int \<times> u8 \<times> serial_port" where
  "zwapi_serial_get_byte p =
     (case zwapi_serial_get_buffer 1 p of (k, bs, p') \<Rightarrow> (k, case bs of [] \<Rightarrow> 0 | b # _ \<Rightarrow> b, p'))"

definition zwapi_serial_put_buffer :: "u8 list \<Rightarrow> serial_port \<Rightarrow> int \<times> serial_port" where
  "zwapi_serial_put_buffer bs p =
     (case tx_room p of
        None \<Rightarrow> (int (length bs), p\<lparr>sent := sent p @ bs\<rparr>)
      | Some n \<Rightarrow> if length bs \<le> n
                  then (int (length bs), p\<lparr>sent := sent p @ bs, tx_room := Some (n - length bs)\<rparr>)
                  else (-1, p\<lparr>sent := sent p @ take n bs, tx_room := Some 0\<rparr>))"

definition zwapi_serial_put_byte :: "u8 \<Rightarrow> serial_port \<Rightarrow> serial_port" where
  "zwapi_serial_put_byte b p = snd (zwapi_serial_put_buffer [b] p)"

definition zwapi_serial_is_file_available :: "serial_port \<Rightarrow> bool \<times> serial_port" where
  "zwapi_serial_is_file_available p =
     (case line p of
        [] \<Rightarrow> (False, p)
      | Quiet # l \<Rightarrow> (False, p\<lparr>line := l\<rparr>)
      | _ \<Rightarrow> (True, p))"

text \<open>\<^verbatim>\<open>tcdrain\<close> only waits; an error is logged.\<close>

definition zwapi_serial_drain_buffer :: "serial_port \<Rightarrow> serial_port" where
  "zwapi_serial_drain_buffer p = p"

definition serial_clock :: "serial_port \<Rightarrow> timespec \<times> serial_port" where
  "serial_clock p = (readings p (reads p), p\<lparr>reads := Suc (reads p)\<rparr>)"

definition serial_interface :: "serial_port connection_interface" where
  "serial_interface =
     \<lparr>restart = zwapi_serial_restart, get_byte = zwapi_serial_get_byte, put_byte = zwapi_serial_put_byte,
      get_buffer = zwapi_serial_get_buffer, put_buffer = zwapi_serial_put_buffer,
      is_file_available = zwapi_serial_is_file_available, drain_buffer = zwapi_serial_drain_buffer,
      clock_gettime = serial_clock\<rparr>"

lemmas serial_defs =
  serial_interface_def zwapi_serial_restart_def zwapi_serial_get_byte_def zwapi_serial_put_byte_def
  zwapi_serial_get_buffer_def zwapi_serial_put_buffer_def zwapi_serial_is_file_available_def
  zwapi_serial_drain_buffer_def serial_clock_def

section \<open>The port is a byte-stream device\<close>

fun arrived :: "line_event list \<Rightarrow> u8 list" where
  "arrived (Rx b # l) = b # arrived l"
| "arrived l = []"

text \<open>
  A prompt clock: successive readings never jump past a receive timeout that was
  set at the first of them. A port is live when writes succeed, its clock is
  prompt, and it does not run into a silence in the middle of what has arrived.
\<close>

definition prompt :: "(nat \<Rightarrow> timespec) \<Rightarrow> bool" where
  "prompt r \<longleftrightarrow> (\<forall>k. \<not> zwapi_is_timestamp_elapsed (zwapi_timestamp_get (r k) 1500) (r (Suc k)))"

definition port_live :: "serial_port \<Rightarrow> bool" where
  "port_live p \<longleftrightarrow> tx_room p = None \<and> prompt (readings p)"

lemma serial_read_arrived:
  "n \<le> length (arrived l) \<Longrightarrow>
   \<exists>l'. serial_read n got l = (int (length got + n), got @ take n (arrived l), l') \<and> arrived l' = drop n (arrived l)"
proof (induction n got l rule: serial_read.induct)
  case (5 n got b l)
  then obtain l' where "serial_read n (got @ [b]) l = (int (length (got @ [b]) + n), (got @ [b]) @ take n (arrived l), l')"
      and "arrived l' = drop n (arrived l)"
    by auto
  then show ?case by simp
qed simp_all

lemma arrived_map_Rx [simp]: "arrived (map Rx bs) = bs"
  by (induction bs) simp_all

interpretation serial: byte_stream_device serial_interface port_live "\<lambda>p. arrived (line p)" sent
proof (unfold_locales, goal_cases)
  case (1 d)
  then show ?case by (cases "line d" rule: arrived.cases) (simp_all add: serial_defs)
next
  case (2 d b bs)
  then show ?case
    by (cases "line d" rule: arrived.cases) (auto simp: serial_defs port_live_def)
next
  case (3 d n)
  then show ?case
    using serial_read_arrived [of n "line d" "[]"] by (auto simp: serial_defs port_live_def)
next
  case (4 k d)
  then show ?case by (simp add: serial_defs)
next
  case (5 d b)
  then show ?case by (simp add: serial_defs port_live_def)
next
  case (6 d)
  then show ?case
    by (cases "line d" rule: arrived.cases) (auto simp: serial_defs port_live_def)
next
  case (7 d)
  then show ?case by (simp add: serial_defs port_live_def prompt_def)
qed

section \<open>Termination and buffer bounds\<close>

lemma timestamp_get_serial [simp]:
  "timestamp_get serial_interface n s =
     (zwapi_timestamp_get (readings (device s) (reads (device s))) n,
      s\<lparr>device := (device s)\<lparr>reads := Suc (reads (device s))\<rparr>\<rparr>)"
  by (simp add: timestamp_get_def serial_defs)

lemma timestamp_elapsed_serial [simp]:
  "timestamp_elapsed serial_interface t s =
     (zwapi_is_timestamp_elapsed t (readings (device s) (reads (device s))),
      s\<lparr>device := (device s)\<lparr>reads := Suc (reads (device s))\<rparr>\<rparr>)"
  by (simp add: timestamp_elapsed_def serial_defs)

text \<open>
  How a connection over a port moves: the clock sequence is fixed, readings and
  line events are only consumed, and the receive buffer keeps its size.
\<close>

definition advances :: "serial_port connection \<Rightarrow> serial_port connection \<Rightarrow> bool" where
  "advances s s' \<longleftrightarrow> readings (device s') = readings (device s) \<and> reads (device s) \<le> reads (device s') \<and>
     length (line (device s')) \<le> length (line (device s)) \<and>
     (length (rx_buffer s) = 255 \<longrightarrow> length (rx_buffer s') = 255)"

lemma advances_refl [simp]: "advances s s"
  by (simp add: advances_def)

lemma advances_trans: "advances s s' \<Longrightarrow> advances s' s'' \<Longrightarrow> advances s s''"
  by (auto simp: advances_def)

lemma serial_read_shrinks: "serial_read n got l = (k, bs, l') \<Longrightarrow> length l' \<le> length l"
  by (induction n got l rule: serial_read.induct) (auto intro: le_SucI)

lemma serial_read_length: "serial_read n got l = (k, bs, l') \<Longrightarrow> length bs \<le> length got + n"
  by (induction n got l rule: serial_read.induct) auto

lemma put_buffer_serial [simp]:
  "line (snd (zwapi_serial_put_buffer bs p)) = line p"
  "readings (snd (zwapi_serial_put_buffer bs p)) = readings p"
  "reads (snd (zwapi_serial_put_buffer bs p)) = reads p"
  by (simp_all add: zwapi_serial_put_buffer_def split: option.splits)

lemma connection_put_byte_advances [simp]:
  "line (device (connection_put_byte serial_interface b s)) = line (device s)"
  "readings (device (connection_put_byte serial_interface b s)) = readings (device s)"
  "reads (device (connection_put_byte serial_interface b s)) = reads (device s)"
  "rx_buffer (connection_put_byte serial_interface b s) = rx_buffer s"
  by (simp_all add: connection_put_byte_def serial_interface_def zwapi_serial_drain_buffer_def
        zwapi_serial_put_byte_def)

lemma get_buffer_serial:
  assumes "zwapi_serial_get_buffer n p = (k, bs, p')"
  shows "length (line p') \<le> length (line p)" and "length bs \<le> nat n"
    and "readings p' = readings p" and "reads p' = reads p"
  using assms serial_read_shrinks serial_read_length [of "nat n" "[]" "line p"]
  by (auto simp: zwapi_serial_get_buffer_def split: prod.splits)

lemma parse_frame_serial:
  assumes "refresh_parse_frame serial_interface c act s = (act', ret, s')"
  shows "advances s s'"
proof -
  obtain k bs p where g: "zwapi_serial_get_buffer (uint (c + 1) - 1) (device s) = (k, bs, p)"
    by (metis prod_cases3)
  have g': "get_buffer serial_interface (uint (c + 1) - 1) (device s) = (k, bs, p)"
    using g by (simp add: serial_interface_def)
  have "uint (c + 1) < 256" by (rule order.strict_trans2 [OF uint_bounded]) simp
  then have "length bs \<le> 254"
    using get_buffer_serial(2) [OF g] by linarith
  then have "length (rx_buffer s) = 255 \<Longrightarrow> length (rx_store c bs (rx_buffer s)) = 255"
    by (simp add: rx_store_def)
  with assms g' get_buffer_serial(1,3,4) [OF g] show ?thesis
    by (auto simp: refresh_parse_frame_def Let_def advances_def split: if_splits)
qed

lemma refresh_timeouts_serial:
  "refresh_timeouts serial_interface (a, r, s) = (a', r', s') \<Longrightarrow> advances s s'"
  by (auto simp: refresh_timeouts_def Let_def advances_def split: if_splits)

lemma refresh_byte_serial:
  assumes "refresh_byte serial_interface c act s = (act', ret, s')"
  shows "advances s s'"
proof -
  obtain a1 r1 s1 where t: "(case zwapi_connection_state s of STATE_SOF_HUNT \<Rightarrow> refresh_sof_hunt serial_interface c act s
      | STATE_PARSE_FRAME \<Rightarrow> refresh_parse_frame serial_interface c act s) = (a1, r1, s1)"
    by (metis prod_cases3)
  then have "advances s s1"
    using parse_frame_serial
    by (auto simp: refresh_sof_hunt_def advances_def split: connection_state.splits if_splits)
  moreover have "advances s1 s'"
    using assms t refresh_timeouts_serial by (simp add: refresh_byte_def)
  ultimately show ?thesis by (rule advances_trans)
qed

text \<open>
  The loop returns; a status it did not start with costs at least one event of the
  line, except for the report of a hang-up.
\<close>

lemma refresh_loop_returns:
  "\<exists>r s'. refresh_loop serial_interface act ret s = Some (r, s') \<and> advances s s' \<and>
     (r = ret \<or> r = STATUS_CONNECTION_LOST \<or> length (line (device s')) < length (line (device s)))"
proof (induction "length (line (device s))" arbitrary: s act ret rule: less_induct)
  case less
  show ?case
  proof (cases "line (device s)")
    case Nil
    then show ?thesis
      by (subst refresh_loop.simps) (simp add: serial_defs)
  next
    case (Cons e l)
    show ?thesis
    proof (cases e)
      case (Rx b)
      show ?thesis
      proof (cases "ret = STATUS_IDLE")
        case True
        let ?s = "s\<lparr>device := (device s)\<lparr>line := l\<rparr>\<rparr>"
        obtain a r s1 where b: "refresh_byte serial_interface b act ?s = (a, r, s1)"
          by (metis prod_cases3)
        have adv: "advances ?s s1" using refresh_byte_serial [OF b] .
        then have "length (line (device s1)) < length (line (device s))"
          using Cons by (simp add: advances_def)
        then obtain r' s' where "refresh_loop serial_interface a r s1 = Some (r', s')" "advances s1 s'"
          using less.hyps [of s1 a r] by auto
        with adv b Cons Rx True show ?thesis
          by (subst refresh_loop.simps) (auto simp: serial_defs advances_def)
      next
        case False
        with Cons Rx show ?thesis
          by (subst refresh_loop.simps) (simp add: serial_defs)
      qed
    next
      case Quiet
      with Cons show ?thesis
        by (subst refresh_loop.simps) (simp add: serial_defs advances_def)
    next
      case Hangup
      with Cons show ?thesis
        by (subst refresh_loop.simps) (simp add: serial_defs advances_def)
    qed
  qed
qed

text \<open>
  Reading the serial port always returns, whatever arrives and whatever the
  clock says, and never writes outside the 255-byte receive buffer.
\<close>

theorem zwapi_connection_refresh_returns:
  assumes "length (rx_buffer s) = 255"
  shows "\<exists>status s'. zwapi_connection_refresh serial_interface s = Some (status, s') \<and>
           length (rx_buffer s') = 255"
  using refresh_loop_returns [of False STATUS_IDLE s] assms
  by (auto simp: zwapi_connection_refresh_def advances_def)

definition sample_connection :: "line_event list \<Rightarrow> serial_port connection" where
  "sample_connection l =
     \<lparr>rx_buffer = replicate 255 0, rx_buffer_length = 0, zwapi_connection_state = STATE_SOF_HUNT,
      timeOutACK = \<lparr>tv_sec = 0, tv_nsec = 0\<rparr>, timeOutRX = \<lparr>tv_sec = 0, tv_nsec = 0\<rparr>, ack_nak_needed = False,
      device = \<lparr>line = l, sent = [], tx_room = None, readings = (\<lambda>k. \<lparr>tv_sec = 0, tv_nsec = 0\<rparr>),
                reads = 0, port_named = True, open_rc = 3\<rparr>\<rparr>"

theorem zwapi_connection_refresh_returns_witness:
  "\<exists>status s'. zwapi_connection_refresh serial_interface (sample_connection [Rx 1, Quiet, Hangup]) = Some (status, s') \<and>
     length (rx_buffer s') = 255"
  by (rule zwapi_connection_refresh_returns) (simp add: sample_connection_def)

section \<open>Frames on the line\<close>

lemma tx_frame_shape:
  assumes "unat len \<le> 250" and "unat len \<le> length Buf"
  obtains bs where "tx_frame cmd type Buf len = SOF # (len + 3) # bs" and "length bs = unat (len + 3)"
    and "bs = type # cmd # take (unat len) Buf @ [checksum ((len + 3) # type # cmd # take (unat len) Buf)]"
    and "checksum ((len + 3) # bs) = 0" and "3 \<le> unat (len + 3)" and "unat (len + 3) < 255"
proof
  let ?body = "(len + 3) # type # cmd # take (unat len) Buf"
  let ?bs = "type # cmd # take (unat len) Buf @ [checksum ?body]"
  have u: "unat (len + 3) = unat len + 3"
    using assms(1) by (subst unat_add_lem [THEN iffD1]) auto
  show "tx_frame cmd type Buf len = SOF # (len + 3) # ?bs"
    by (simp add: tx_frame_def Let_def)
  show "length ?bs = unat (len + 3)" "3 \<le> unat (len + 3)" "unat (len + 3) < 255"
    using assms by (simp_all add: u)
  show "checksum ((len + 3) # ?bs) = 0"
    using checksum_closes [of ?body] by simp
qed simp

text \<open>
  Framing round trip: when a complete frame as built by the transmit side is at
  the head of the line, the receive side reports it, hands its length, type,
  command and payload to the session unchanged, and answers with exactly one ACK.
\<close>

theorem serial_frame_roundtrip:
  assumes "port_live (device s)" and "zwapi_connection_state s = STATE_SOF_HUNT" and "\<not> ack_nak_needed s"
    and "unat len \<le> 250" and "unat len = length payload"
    and "line (device s) = map Rx (tx_frame cmd type payload len) @ l"
  shows "\<exists>s'. zwapi_connection_refresh serial_interface s = Some (STATUS_FRAME_RECEIVED, s') \<and>
           zwapi_connection_get_last_rx_frame 255 s' = (len + 3) # type # cmd # payload \<and>
           sent (device s') = sent (device s) @ [ACK]"
proof -
  obtain bs where f: "tx_frame cmd type payload len = SOF # (len + 3) # bs" and l: "length bs = unat (len + 3)"
    and bs: "bs = type # cmd # take (unat len) payload @ [checksum ((len + 3) # type # cmd # take (unat len) payload)]"
    and c: "checksum ((len + 3) # bs) = 0" and r: "3 \<le> unat (len + 3)" "unat (len + 3) < 255"
    using tx_frame_shape [OF assms(4) eq_refl [OF assms(5)], of cmd type] by blast
  have p: "arrived (line (device s)) = SOF # (len + 3) # bs @ arrived l"
  proof -
    have "arrived (map Rx xs @ l) = xs @ arrived l" for xs
      by (induction xs) simp_all
    then show ?thesis using assms(6) f by simp
  qed
  obtain s' where s': "zwapi_connection_refresh serial_interface s = Some (STATUS_FRAME_RECEIVED, s')"
      "rx_buffer s' = rx_store (len + 3) bs (rx_buffer s)" "rx_buffer_length s' = len + 3"
      "sent (device s') = sent (device s) @ [ACK]"
    using serial.refresh_frame [OF assms(1-3) p r l] c by auto
  have u: "unat (len + 3) = Suc (Suc (Suc (unat len)))"
    using l by (simp add: bs assms(5))
  have "zwapi_connection_get_last_rx_frame 255 s' = (len + 3) # type # cmd # payload"
    using s' r(2) by (simp add: zwapi_connection_get_last_rx_frame_def rx_store_def bs u assms(5))
  with s' show ?thesis by blast
qed

theorem serial_frame_roundtrip_witness:
  "\<exists>s'. zwapi_connection_refresh serial_interface (sample_connection (map Rx (tx_frame 0x13 0 [9, 8, 7] 3) @ [Quiet])) =
          Some (STATUS_FRAME_RECEIVED, s') \<and>
        zwapi_connection_get_last_rx_frame 255 s' = (3 + 3) # 0 # 0x13 # [9, 8, 7] \<and>
        sent (device s') = sent (device (sample_connection (map Rx (tx_frame 0x13 0 [9, 8, 7] 3) @ [Quiet]))) @ [ACK]"
  by (rule serial_frame_roundtrip [where l = "[Quiet]" and len = 3 and payload = "[9, 8, 7]" and cmd = "0x13" and type = 0])
     (simp_all add: sample_connection_def port_live_def prompt_def zwapi_timestamp_get_def zwapi_is_timestamp_elapsed_def)

text \<open>
  C39. A frame in which any one byte after the length byte was changed on the line is
  never delivered: it is reported as a checksum error and answered with a NAK.
\<close>

theorem serial_corruption_detected:
  assumes "port_live (device s)" and "zwapi_connection_state s = STATE_SOF_HUNT" and "\<not> ack_nak_needed s"
    and "unat len \<le> 250" and "unat len = length payload"
    and "2 \<le> i" and "i < length (tx_frame cmd type payload len)" and "b \<noteq> tx_frame cmd type payload len ! i"
    and "line (device s) = map Rx ((tx_frame cmd type payload len)[i := b]) @ l"
  shows "\<exists>s'. zwapi_connection_refresh serial_interface s = Some (STATUS_CHECKSUM_ERROR, s') \<and>
           sent (device s') = sent (device s) @ [NAK]"
proof -
  obtain bs where f: "tx_frame cmd type payload len = SOF # (len + 3) # bs" and l: "length bs = unat (len + 3)"
    and c: "checksum ((len + 3) # bs) = 0" and r: "3 \<le> unat (len + 3)" "unat (len + 3) < 255"
    using tx_frame_shape [OF assms(4) eq_refl [OF assms(5)], of cmd type] by blast
  define j where "j = i - 2"
  have i: "i = Suc (Suc j)" using assms(6) by (simp add: j_def)
  have j: "j < length bs" "b \<noteq> bs ! j" using assms(7,8) by (simp_all add: f i)
  have p: "arrived (line (device s)) = SOF # (len + 3) # bs[j := b] @ arrived l"
  proof -
    have "arrived (map Rx xs @ l) = xs @ arrived l" for xs
      by (induction xs) simp_all
    then show ?thesis using assms(9) f i by simp
  qed
  have bad: "(checksum ((len + 3) # bs[j := b]) = 0) = False"
    using checksum_detects_change [OF c, of "Suc j" b] j by simp
  have len: "length (bs[j := b]) = unat (len + 3)"
    using l by simp
  show ?thesis
    using serial.refresh_frame [OF assms(1-3) p r len] unfolding bad if_False by blast
qed

theorem serial_corruption_detected_witness:
  "\<exists>s'. zwapi_connection_refresh serial_interface (sample_connection (map Rx ((tx_frame 0x13 0 [9, 8] 2)[4 := 5]) @ [])) =
          Some (STATUS_CHECKSUM_ERROR, s') \<and>
        sent (device s') = sent (device (sample_connection (map Rx ((tx_frame 0x13 0 [9, 8] 2)[4 := 5]) @ []))) @ [NAK]"
  by (rule serial_corruption_detected [where l = "[]" and i = 4 and b = 5 and len = 2 and payload = "[9, 8]"
        and cmd = "0x13" and type = 0])
     (simp_all add: sample_connection_def port_live_def prompt_def zwapi_timestamp_get_def zwapi_is_timestamp_elapsed_def tx_frame_def)

text \<open>
  A frame that announces the length 255 is accepted by the range check of the
  parser, which compares a byte with 255, but is never read: the length wraps to 0,
  the call reports a checksum error, answers NAK, and the announced 255 bytes stay
  on the line, to be scanned for the next start of frame.
\<close>

theorem serial_length_255_not_read:
  assumes "port_live (device s)" and "zwapi_connection_state s = STATE_SOF_HUNT" and "\<not> ack_nak_needed s"
    and "arrived (line (device s)) = SOF # 255 # rest"
  shows "\<exists>s' more. zwapi_connection_refresh serial_interface s = Some (STATUS_CHECKSUM_ERROR, s') \<and>
           arrived (line (device s')) = rest @ more \<and> sent (device s') = sent (device s) @ [NAK]"
  using serial.refresh_length_255 [OF assms] by blast

theorem serial_length_255_not_read_witness:
  "\<exists>s' more. zwapi_connection_refresh serial_interface (sample_connection (map Rx (SOF # 255 # replicate 255 0))) =
       Some (STATUS_CHECKSUM_ERROR, s') \<and>
     arrived (line (device s')) = replicate 255 0 @ more \<and>
     sent (device s') = sent (device (sample_connection (map Rx (SOF # 255 # replicate 255 0)))) @ [NAK]"
  by (rule serial_length_255_not_read)
     (simp_all add: sample_connection_def port_live_def prompt_def zwapi_timestamp_get_def zwapi_is_timestamp_elapsed_def del: map_replicate)

end
