(* ===== verification/Serial_Session.thy ===== *)
theory Serial_Session
  imports Serial_Port "HOL-Library.Monad_Syntax"
begin

text \<open>
  The session layer of the serial link, \<^verbatim>\<open>zwave_api/src/zwapi_session.c\<close>: it queues
  incoming request frames, transmits a frame with retries until it is
  acknowledged, waits for the response frame, and tells the application once when
  the link is lost. The lemmas give the locking contract of the send functions,
  the bounds and order of the queue, and that sending returns on a serial port.
\<close>

section \<open>Definitions\<close>

abbreviation (input) FRAME_TYPE_REQUEST :: u8 where "FRAME_TYPE_REQUEST \<equiv> 0x00"
abbreviation (input) FRAME_TYPE_RESPONSE :: u8 where "FRAME_TYPE_RESPONSE \<equiv> 0x01"
abbreviation (input) MAX_RX_QUEUE_LENGTH :: nat where "MAX_RX_QUEUE_LENGTH \<equiv> 64"
abbreviation (input) MAX_TRANSMISSION_RETRIES :: nat where "MAX_TRANSMISSION_RETRIES \<equiv> 20"
abbreviation (input) MAX_RX_FRAMES_WAITING_FOR_RESPONSE :: nat where "MAX_RX_FRAMES_WAITING_FOR_RESPONSE \<equiv> 3"
abbreviation (input) MAX_TX_TIMEOUTS :: u8 where "MAX_TX_TIMEOUTS \<equiv> 3"
abbreviation (input) TIMEOUT_TIME :: nat where "TIMEOUT_TIME \<equiv> 1600"

text \<open>
  The static variables of the session, the connection below it, and the two
  application callbacks as counters of how often they were called.
\<close>

record 'd session =
  conn :: "'d connection"
  zwapi_session_rx_queue :: "u8 list list"
  zwapi_session_connection_lost :: bool
  session_serial_mutex :: bool
  connection_lost_calls :: nat
  poll_requests :: nat

text \<open>
  Taking the mutex. Between two critical sections other threads may have run;
  \<open>others\<close> is what they did to the session. Taking a mutex this thread holds
  already blocks forever, which is \<open>None\<close>, as is a loop that does not end.
\<close>

definition session_lock :: "('d session \<Rightarrow> 'd session) \<Rightarrow> 'd session \<Rightarrow> 'd session option" where
  "session_lock others s =
     (if session_serial_mutex s then None else Some ((others s)\<lparr>session_serial_mutex := True\<rparr>))"

definition session_unlock :: "'d session \<Rightarrow> 'd session" where
  "session_unlock s = s\<lparr>session_serial_mutex := False\<rparr>"

definition zwapi_session_get_rx_queue_length :: "'d session \<Rightarrow> nat" where
  "zwapi_session_get_rx_queue_length s = length (zwapi_session_rx_queue s)"

definition zwapi_session_enqueue_frame :: "'d session \<Rightarrow> 'd session" where
  "zwapi_session_enqueue_frame s =
     (if zwapi_session_get_rx_queue_length s \<ge> MAX_RX_QUEUE_LENGTH then s
      else let frame = zwapi_connection_get_last_rx_frame 255 (conn s)
           in if length frame \<ge> 2 \<and> frame ! 1 = FRAME_TYPE_REQUEST
              then s\<lparr>zwapi_session_rx_queue := zwapi_session_rx_queue s @ [frame],
                     poll_requests := Suc (poll_requests s)\<rparr>
              else s)"

partial_function (option) wait_for_response_loop ::
  "'d connection_interface \<Rightarrow> timespec \<Rightarrow> 'd connection \<Rightarrow> (connection_status \<times> 'd connection) option" where
  "wait_for_response_loop cif session_timer c =
     Option.bind (zwapi_connection_refresh cif c) (\<lambda>(status, c).
       if status \<noteq> STATUS_IDLE then Some (status, c)
       else case timestamp_elapsed cif session_timer c of (elapsed, c) \<Rightarrow>
         if elapsed then Some (STATUS_RX_TIMEOUT, c) else wait_for_response_loop cif session_timer c)"

definition zwapi_session_wait_for_response ::
  "'d connection_interface \<Rightarrow> 'd connection \<Rightarrow> (connection_status \<times> 'd connection) option" where
  "zwapi_session_wait_for_response cif c =
     (case timestamp_get cif TIMEOUT_TIME c of (timer, c) \<Rightarrow> wait_for_response_loop cif timer c)"

definition zwapi_session_notify_connection_lost ::
  "('d session \<Rightarrow> 'd session) \<Rightarrow> 'd session \<Rightarrow> 'd session option" where
  "zwapi_session_notify_connection_lost others s = do {
     s \<leftarrow> session_lock others s;
     let notify = \<not> zwapi_session_connection_lost s;
     let s = session_unlock (s\<lparr>zwapi_session_connection_lost := True\<rparr>);
     Some (if notify then s\<lparr>connection_lost_calls := Suc (connection_lost_calls s)\<rparr> else s)
   }"

definition zwapi_session_restart ::
  "'d connection_interface \<Rightarrow> ('d session \<Rightarrow> 'd session) \<Rightarrow> 'd session \<Rightarrow> (int \<times> 'd session) option" where
  "zwapi_session_restart cif others s =
     (case zwapi_connection_restart cif (conn s) of (status, c) \<Rightarrow> do {
        s \<leftarrow> (if status \<le> 0 then zwapi_session_notify_connection_lost others (s\<lparr>conn := c\<rparr>)
              else Some (s\<lparr>conn := c\<rparr>));
        Some (status, s)
      })"

text \<open>
  The frame handed to the caller and whether more are queued; an empty queue hands
  over no frame.
\<close>

definition zwapi_session_dequeue_frame :: "'d session \<Rightarrow> u8 list option \<times> bool \<times> 'd session" where
  "zwapi_session_dequeue_frame s =
     (case zwapi_session_rx_queue s of
        [] \<Rightarrow> (None, False, s)
      | frame # q \<Rightarrow> (Some frame, q \<noteq> [], s\<lparr>zwapi_session_rx_queue := q\<rparr>))"

partial_function (option) enqueue_rx_frames ::
  "'d connection_interface \<Rightarrow> 'd session \<Rightarrow> (bool \<times> 'd session) option" where
  "enqueue_rx_frames cif s =
     Option.bind (zwapi_connection_refresh cif (conn s)) (\<lambda>(status, c).
       if status = STATUS_FRAME_RECEIVED
       then enqueue_rx_frames cif (zwapi_session_enqueue_frame (s\<lparr>conn := c\<rparr>))
       else Some (status = STATUS_CONNECTION_LOST, s\<lparr>conn := c\<rparr>))"

text \<open>The drain under the mutex, and the notification after it when the link is gone.\<close>

definition drain_locked ::
  "'d connection_interface \<Rightarrow> ('d session \<Rightarrow> 'd session) \<Rightarrow> 'd session \<Rightarrow> (bool \<times> bool \<times> 'd session) option" where
  "drain_locked cif others s = do {
     s \<leftarrow> session_lock others s;
     (lost, s) \<leftarrow> enqueue_rx_frames cif s;
     let unavailable = lost \<or> zwapi_session_connection_lost s;
     Some (lost, unavailable, session_unlock s)
   }"

definition zwapi_session_enqueue_rx_frames ::
  "'d connection_interface \<Rightarrow> ('d session \<Rightarrow> 'd session) \<Rightarrow> 'd session \<Rightarrow> 'd session option" where
  "zwapi_session_enqueue_rx_frames cif others s = do {
     (lost, _, s) \<leftarrow> drain_locked cif others s;
     if lost then zwapi_session_notify_connection_lost others s else Some s
   }"

text \<open>
  The switch of the retry loop on what the link answered: the frame was
  acknowledged (the mutex stays locked), sending failed for good, or another pass
  follows, with or without a back-off. \<open>tmo\<close> counts consecutive transmit timeouts.
\<close>

datatype send_outcome = Send_ok | Send_failed | Send_retry bool

definition send_frame_switch ::
  "'d connection_interface \<Rightarrow> ('d session \<Rightarrow> 'd session) \<Rightarrow> u8 \<Rightarrow> connection_status \<Rightarrow>
   'd session \<Rightarrow> (send_outcome \<times> u8 \<times> 'd session) option" where
  "send_frame_switch cif others tmo status s =
     (case status of
        STATUS_FRAME_SENT \<Rightarrow> Some (Send_ok, tmo, s)
      | STATUS_FRAME_RECEIVED \<Rightarrow> Some (Send_retry True, 0, session_unlock (zwapi_session_enqueue_frame s))
      | STATUS_TX_CAN \<Rightarrow> Some (Send_retry True, 0, session_unlock s)
      | STATUS_TX_TIMEOUT \<Rightarrow>
          if tmo + 1 \<ge> MAX_TX_TIMEOUTS
          then (case zwapi_connection_restart cif (conn s) of (fd, c) \<Rightarrow> do {
                  s \<leftarrow> (if fd \<le> 0 then zwapi_session_notify_connection_lost others (session_unlock (s\<lparr>conn := c\<rparr>))
                        else Some (session_unlock (s\<lparr>conn := c\<rparr>)));
                  Some (Send_failed, tmo + 1, s)
                })
          else Some (Send_retry True, tmo + 1, session_unlock s)
      | STATUS_RX_TIMEOUT \<Rightarrow> Some (Send_retry False, tmo, session_unlock s)
      | STATUS_TX_NAK \<Rightarrow> Some (Send_failed, tmo, session_unlock s)
      | STATUS_CONNECTION_LOST \<Rightarrow> do {
          s \<leftarrow> zwapi_session_notify_connection_lost others (session_unlock s);
          Some (Send_failed, tmo, s)
        }
      | _ \<Rightarrow> Some (Send_retry True, tmo, session_unlock s))"

text \<open>One pass of the retry loop, up to the end of its switch.\<close>

definition transmit_and_wait ::
  "'d connection_interface \<Rightarrow> u8 \<Rightarrow> u8 list \<Rightarrow> u8 \<Rightarrow> 'd connection \<Rightarrow> (connection_status \<times> 'd connection) option" where
  "transmit_and_wait cif command payload len c =
     (case zwapi_connection_tx cif command FRAME_TYPE_REQUEST payload len True c of (status, c) \<Rightarrow>
        if status \<noteq> STATUS_CONNECTION_LOST then zwapi_session_wait_for_response cif c else Some (status, c))"

definition send_frame_attempt ::
  "'d connection_interface \<Rightarrow> ('d session \<Rightarrow> 'd session) \<Rightarrow> u8 \<Rightarrow> u8 list \<Rightarrow> u8 \<Rightarrow>
   u8 \<Rightarrow> bool \<Rightarrow> 'd session \<Rightarrow> (send_outcome \<times> u8 \<times> bool \<times> 'd session) option" where
  "send_frame_attempt cif others command payload len tmo only_timeouts s = do {
     s \<leftarrow> session_lock others s;
     if zwapi_session_connection_lost s then Some (Send_failed, tmo, only_timeouts, session_unlock s)
     else do {
       (status, c) \<leftarrow> transmit_and_wait cif command payload len (conn s);
       (outcome, tmo, s) \<leftarrow> send_frame_switch cif others tmo status (s\<lparr>conn := c\<rparr>);
       Some (outcome, tmo, only_timeouts \<and> (status = STATUS_RX_TIMEOUT \<or> status = STATUS_TX_TIMEOUT), s)
     }
   }"

text \<open>The back-off: drain the port until 20 ms are over; True when the link went away.\<close>

partial_function (option) backoff_loop ::
  "'d connection_interface \<Rightarrow> ('d session \<Rightarrow> 'd session) \<Rightarrow> timespec \<Rightarrow> 'd session \<Rightarrow> (bool \<times> 'd session) option" where
  "backoff_loop cif others retry_timer s =
     (case timestamp_elapsed cif retry_timer (conn s) of (elapsed, c) \<Rightarrow>
        if elapsed then Some (False, s\<lparr>conn := c\<rparr>)
        else Option.bind (drain_locked cif others (s\<lparr>conn := c\<rparr>)) (\<lambda>(lost, _, s).
          if lost then Some (True, s) else backoff_loop cif others retry_timer s))"

fun send_frame_retries ::
  "'d connection_interface \<Rightarrow> ('d session \<Rightarrow> 'd session) \<Rightarrow> u8 \<Rightarrow> u8 list \<Rightarrow> u8 \<Rightarrow>
   nat \<Rightarrow> u8 \<Rightarrow> bool \<Rightarrow> 'd session \<Rightarrow> (sl_status \<times> 'd session) option" where
  "send_frame_retries cif others command payload len 0 tmo only_timeouts s =
     (if only_timeouts
      then map_option (\<lambda>s. (SL_STATUS_FAIL, s)) (zwapi_session_notify_connection_lost others s)
      else Some (SL_STATUS_FAIL, s))"
| "send_frame_retries cif others command payload len (Suc left) tmo only_timeouts s =
     Option.bind (send_frame_attempt cif others command payload len tmo only_timeouts s)
       (\<lambda>(outcome, tmo, only_timeouts, s).
          case outcome of
            Send_ok \<Rightarrow> Some (SL_STATUS_OK, s)
          | Send_failed \<Rightarrow> Some (SL_STATUS_FAIL, s)
          | Send_retry do_backoff \<Rightarrow>
              if do_backoff
              then (case timestamp_get cif 20 (conn s) of (retry_timer, c) \<Rightarrow>
                Option.bind (backoff_loop cif others retry_timer (s\<lparr>conn := c\<rparr>)) (\<lambda>(lost, s).
                  if lost
                  then map_option (\<lambda>s. (SL_STATUS_FAIL, s)) (zwapi_session_notify_connection_lost others s)
                  else send_frame_retries cif others command payload len left tmo only_timeouts s))
              else send_frame_retries cif others command payload len left tmo only_timeouts s)"

definition send_frame ::
  "'d connection_interface \<Rightarrow> ('d session \<Rightarrow> 'd session) \<Rightarrow> u8 \<Rightarrow> u8 list \<Rightarrow> u8 \<Rightarrow>
   'd session \<Rightarrow> (sl_status \<times> 'd session) option" where
  "send_frame cif others command payload len s = do {
     (lost, unavailable, s) \<leftarrow> drain_locked cif others s;
     s \<leftarrow> (if lost then zwapi_session_notify_connection_lost others s else Some s);
     if unavailable then Some (SL_STATUS_FAIL, s)
     else send_frame_retries cif others command payload len MAX_TRANSMISSION_RETRIES 0 True s
   }"

definition zwapi_session_send_frame ::
  "'d connection_interface \<Rightarrow> ('d session \<Rightarrow> 'd session) \<Rightarrow> u8 \<Rightarrow> u8 list \<Rightarrow> u8 \<Rightarrow>
   'd session \<Rightarrow> (sl_status \<times> 'd session) option" where
  "zwapi_session_send_frame cif others command payload len s = do {
     (status, s) \<leftarrow> send_frame cif others command payload len s;
     Some (status, if status = SL_STATUS_OK then session_unlock s else s)
   }"

text \<open>
  The wait for the response frame, at most three frames: the response if it came,
  and whether the link was lost. Requests that arrive meanwhile are queued.
\<close>

fun await_response ::
  "'d connection_interface \<Rightarrow> u8 \<Rightarrow> nat \<Rightarrow> 'd session \<Rightarrow> (u8 list option \<times> bool \<times> 'd session) option" where
  "await_response cif command 0 s = Some (None, False, s)"
| "await_response cif command (Suc left) s =
     Option.bind (zwapi_session_wait_for_response cif (conn s)) (\<lambda>(status, c).
       let s = s\<lparr>conn := c\<rparr> in
       if status = STATUS_FRAME_RECEIVED
       then let frame = zwapi_connection_get_last_rx_frame 255 (conn s)
            in if length frame \<ge> 3
               then if frame ! 1 = FRAME_TYPE_RESPONSE
                    then if frame ! 2 = command then Some (Some frame, False, s)
                         else await_response cif command left s
                    else await_response cif command left (zwapi_session_enqueue_frame s)
               else await_response cif command left s
       else if status = STATUS_CONNECTION_LOST then Some (None, True, s)
       else await_response cif command left s)"

definition zwapi_session_send_frame_with_response ::
  "'d connection_interface \<Rightarrow> ('d session \<Rightarrow> 'd session) \<Rightarrow> u8 \<Rightarrow> u8 list \<Rightarrow> u8 \<Rightarrow>
   'd session \<Rightarrow> (sl_status \<times> u8 list option \<times> 'd session) option" where
  "zwapi_session_send_frame_with_response cif others command payload len s = do {
     (status, s) \<leftarrow> send_frame cif others command payload len s;
     if status \<noteq> SL_STATUS_OK then Some (SL_STATUS_FAIL, None, s)
     else do {
       (response, lost, s) \<leftarrow> await_response cif command MAX_RX_FRAMES_WAITING_FOR_RESPONSE s;
       s \<leftarrow> (if lost then zwapi_session_notify_connection_lost others (session_unlock s)
             else Some (session_unlock s));
       Some (if response = None then SL_STATUS_FAIL else SL_STATUS_OK, response, s)
     }
   }"

definition zwapi_session_send_frame_no_ack ::
  "'d connection_interface \<Rightarrow> ('d session \<Rightarrow> 'd session) \<Rightarrow> u8 \<Rightarrow> u8 list \<Rightarrow> u8 \<Rightarrow>
   'd session \<Rightarrow> (sl_status \<times> 'd session) option" where
  "zwapi_session_send_frame_no_ack cif others command payload len s = do {
     s \<leftarrow> session_lock others s;
     (lost, s) \<leftarrow> enqueue_rx_frames cif s;
     if lost \<or> zwapi_session_connection_lost s
     then do {
       s \<leftarrow> (if lost then zwapi_session_notify_connection_lost others (session_unlock s)
             else Some (session_unlock s));
       Some (SL_STATUS_FAIL, s)
     }
     else do {
       let (status, c) = zwapi_connection_tx cif command FRAME_TYPE_REQUEST payload len False (conn s);
       let s = session_unlock (s\<lparr>conn := c\<rparr>);
       if status = STATUS_CONNECTION_LOST
       then map_option (\<lambda>s. (SL_STATUS_FAIL, s)) (zwapi_session_notify_connection_lost others s)
       else Some (SL_STATUS_OK, s)
     }
   }"

definition zwapi_session_flush_queue :: "'d session \<Rightarrow> 'd session" where
  "zwapi_session_flush_queue s = s\<lparr>zwapi_session_rx_queue := []\<rparr>"

section \<open>What every operation of the session keeps\<close>

text \<open>
  A predicate on sessions that survives the elementary steps (a change of the
  connection, queueing a frame, taking and releasing the mutex, recording the loss
  of the link) survives every operation. The elementary steps are the interface;
  the operations are proved once, for every such predicate.
\<close>

definition record_loss :: "'d session \<Rightarrow> 'd session" where
  "record_loss s = session_unlock (s\<lparr>zwapi_session_connection_lost := True,
     connection_lost_calls := (if zwapi_session_connection_lost s then connection_lost_calls s
                               else Suc (connection_lost_calls s))\<rparr>)"

lemma notify_connection_lost_eq:
  "zwapi_session_notify_connection_lost others s =
     (if session_serial_mutex s then None else Some (record_loss ((others s)\<lparr>session_serial_mutex := True\<rparr>)))"
  by (simp add: zwapi_session_notify_connection_lost_def session_lock_def session_unlock_def record_loss_def Let_def)

locale connection_predicate =
  fixes I :: "'d session \<Rightarrow> bool"
  assumes I_conn: "I s \<Longrightarrow> I (s\<lparr>conn := c\<rparr>)"
    and I_enqueue: "I s \<Longrightarrow> I (zwapi_session_enqueue_frame s)"
begin

lemma enqueue_rx_frames_I:
  assumes "enqueue_rx_frames cif s = Some (b, s')" and "I s"
  shows "I s'"
proof -
  have "I s \<longrightarrow> I (snd (b, s'))"
  proof (rule enqueue_rx_frames.raw_induct [where P = "\<lambda>cif s r. I s \<longrightarrow> I (snd r)", OF _ assms(1)], goal_cases)
    case (1 f cif s r)
    then show ?case
      by (cases r) (auto simp: bind_eq_Some_conv intro: I_conn I_enqueue split: if_splits dest!: 1(1) [THEN mp])
  qed
  with assms(2) show ?thesis by simp
qed

lemma await_response_I: "await_response cif cmd n s = Some (r, l, s') \<Longrightarrow> I s \<Longrightarrow> I s'"
  by (induction n arbitrary: s)
     (auto simp: bind_eq_Some_conv Let_def intro: I_conn I_enqueue split: if_splits)

end

locale session_predicate = connection_predicate I
  for I :: "'d session \<Rightarrow> bool" +
  fixes others :: "'d session \<Rightarrow> 'd session"
  assumes I_lock: "I s \<Longrightarrow> I ((others s)\<lparr>session_serial_mutex := True\<rparr>)"
    and I_unlock: "I s \<Longrightarrow> I (session_unlock s)"
    and I_loss: "I s \<Longrightarrow> I (record_loss s)"
begin

lemmas I_steps = I_conn I_enqueue I_lock I_unlock I_loss

lemma lock_I: "session_lock others s = Some s' \<Longrightarrow> I s \<Longrightarrow> I s'"
  by (auto simp: session_lock_def intro: I_steps split: if_splits)

lemma notify_I: "zwapi_session_notify_connection_lost others s = Some s' \<Longrightarrow> I s \<Longrightarrow> I s'"
  by (auto simp: notify_connection_lost_eq intro: I_steps split: if_splits)

lemma drain_locked_I: "drain_locked cif others s = Some (l, u, s') \<Longrightarrow> I s \<Longrightarrow> I s'"
  by (auto simp: drain_locked_def bind_eq_Some_conv intro: I_steps dest: lock_I enqueue_rx_frames_I)

lemma send_frame_switch_I:
  "send_frame_switch cif others tmo st s = Some (out, tmo', s') \<Longrightarrow> I s \<Longrightarrow> I s'"
  by (auto simp: send_frame_switch_def bind_eq_Some_conv intro: I_steps notify_I
      split: if_splits prod.splits connection_status.splits)

lemma send_frame_attempt_I:
  "send_frame_attempt cif others cmd p len tmo only s = Some (out, tmo', only', s') \<Longrightarrow> I s \<Longrightarrow> I s'"
  by (auto simp: send_frame_attempt_def bind_eq_Some_conv intro: I_steps send_frame_switch_I dest!: lock_I
      split: if_splits)

lemma backoff_loop_I:
  assumes "backoff_loop cif others t s = Some (b, s')" and "I s"
  shows "I s'"
proof -
  have "others = others \<longrightarrow> I s \<longrightarrow> I (snd (b, s'))"
  proof (rule backoff_loop.raw_induct
      [where P = "\<lambda>cif oth t s r. oth = others \<longrightarrow> I s \<longrightarrow> I (snd r)", OF _ assms(1)], goal_cases)
    case (1 f cif oth t s r)
    then show ?case
      by (cases r) (auto simp: bind_eq_Some_conv intro: I_steps drain_locked_I split: if_splits prod.splits
          dest!: 1(1) [THEN mp, THEN mp])
  qed
  with assms(2) show ?thesis by simp
qed

lemma send_frame_retries_I:
  "send_frame_retries cif others cmd p len n tmo only s = Some (st, s') \<Longrightarrow> I s \<Longrightarrow> I s'"
proof (induction n arbitrary: tmo only s)
  case 0
  then show ?case by (auto intro: notify_I split: if_splits)
next
  case (Suc n)
  from Suc.prems(1) obtain out tmo' only' s1
    where a: "send_frame_attempt cif others cmd p len tmo only s = Some (out, tmo', only', s1)"
    by (auto simp: bind_eq_Some_conv)
  have s1: "I s1" using send_frame_attempt_I [OF a Suc.prems(2)] .
  show ?case
    using Suc.prems(1) a s1 Suc.IH
    by (auto simp: bind_eq_Some_conv split: send_outcome.splits if_splits prod.splits
        dest: notify_I backoff_loop_I [OF _ I_conn])
qed

lemma send_frame_I: "send_frame cif others cmd p len s = Some (st, s') \<Longrightarrow> I s \<Longrightarrow> I s'"
  by (auto simp: send_frame_def bind_eq_Some_conv split: if_splits
      dest: drain_locked_I notify_I send_frame_retries_I)

lemma send_frame_public_I: "zwapi_session_send_frame cif others cmd p len s = Some (st, s') \<Longrightarrow> I s \<Longrightarrow> I s'"
  by (auto simp: zwapi_session_send_frame_def bind_eq_Some_conv split: if_splits
      intro: I_steps dest: send_frame_I)

lemma send_frame_with_response_I:
  "zwapi_session_send_frame_with_response cif others cmd p len s = Some (st, r, s') \<Longrightarrow> I s \<Longrightarrow> I s'"
  by (auto simp: zwapi_session_send_frame_with_response_def bind_eq_Some_conv split: if_splits
      intro: I_steps notify_I dest!: send_frame_I await_response_I)

lemma send_frame_no_ack_I:
  "zwapi_session_send_frame_no_ack cif others cmd p len s = Some (st, s') \<Longrightarrow> I s \<Longrightarrow> I s'"
  by (auto simp: zwapi_session_send_frame_no_ack_def bind_eq_Some_conv Let_def split: if_splits prod.splits
      intro: I_steps notify_I dest!: lock_I enqueue_rx_frames_I)

end

section \<open>A concrete session\<close>

text \<open>A session on a port that hangs up at once, to evaluate the operations on.\<close>

definition sample_session :: "serial_port connection \<Rightarrow> u8 list list \<Rightarrow> serial_port session" where
  "sample_session c q = \<lparr>conn = c, zwapi_session_rx_queue = q, zwapi_session_connection_lost = False,
     session_serial_mutex = False, connection_lost_calls = 0, poll_requests = 0\<rparr>"

definition sample_lost :: "serial_port session" where
  "sample_lost = (sample_session (sample_connection [Hangup]) [])\<lparr>zwapi_session_connection_lost := True, connection_lost_calls := 1\<rparr>"

lemma refresh_hangup: "zwapi_connection_refresh serial_interface (sample_connection [Hangup]) =
    Some (STATUS_CONNECTION_LOST, sample_connection [Hangup])"
  by (simp add: zwapi_connection_refresh_def refresh_loop.simps serial_defs sample_connection_def)

lemma drain_hangup: "drain_locked serial_interface id (sample_session (sample_connection [Hangup]) []) =
    Some (True, True, sample_session (sample_connection [Hangup]) [])"
  by (simp add: drain_locked_def session_lock_def session_unlock_def enqueue_rx_frames.simps
      sample_session_def refresh_hangup)

lemma notify_hangup: "zwapi_session_notify_connection_lost id (sample_session (sample_connection [Hangup]) []) = Some sample_lost"
  by (simp add: zwapi_session_notify_connection_lost_def session_lock_def session_unlock_def sample_session_def
      sample_lost_def)

lemma send_frame_hangup:
  "send_frame serial_interface id cmd p len (sample_session (sample_connection [Hangup]) []) = Some (SL_STATUS_FAIL, sample_lost)"
  by (simp add: send_frame_def drain_hangup notify_hangup)

lemma send_frame_with_response_hangup:
  "zwapi_session_send_frame_with_response serial_interface id cmd p len (sample_session (sample_connection [Hangup]) []) =
     Some (SL_STATUS_FAIL, None, sample_lost)"
  by (simp add: zwapi_session_send_frame_with_response_def send_frame_hangup)

section \<open>The locking contract\<close>

lemma enqueue_frame_mutex [simp]:
  "session_serial_mutex (zwapi_session_enqueue_frame s) = session_serial_mutex s"
  by (simp add: zwapi_session_enqueue_frame_def Let_def)

interpretation mutex_kept: connection_predicate "\<lambda>s. session_serial_mutex s = m" for m
  by unfold_locales simp_all

lemma lock_mutex: "session_lock others s = Some s' \<Longrightarrow> \<not> session_serial_mutex s \<and> session_serial_mutex s'"
  by (auto simp: session_lock_def split: if_splits)

lemma unlock_mutex [simp]: "\<not> session_serial_mutex (session_unlock s)"
  by (simp add: session_unlock_def)

lemma notify_mutex: "zwapi_session_notify_connection_lost others s = Some s' \<Longrightarrow> \<not> session_serial_mutex s'"
  by (auto simp: notify_connection_lost_eq record_loss_def split: if_splits)

lemma drain_locked_mutex: "drain_locked cif others s = Some (l, u, s') \<Longrightarrow> \<not> session_serial_mutex s'"
  by (auto simp: drain_locked_def bind_eq_Some_conv)

lemma send_frame_switch_mutex:
  "send_frame_switch cif others tmo st s = Some (out, tmo', s') \<Longrightarrow> session_serial_mutex s \<Longrightarrow>
   session_serial_mutex s' = (out = Send_ok)"
  by (auto simp: send_frame_switch_def bind_eq_Some_conv dest!: notify_mutex
      split: if_splits prod.splits connection_status.splits)

lemma send_frame_attempt_mutex:
  "send_frame_attempt cif others cmd p len tmo only s = Some (out, tmo', only', s') \<Longrightarrow>
   session_serial_mutex s' = (out = Send_ok)"
  by (auto simp: send_frame_attempt_def bind_eq_Some_conv split: if_splits
      dest!: lock_mutex send_frame_switch_mutex)

lemma backoff_loop_mutex:
  assumes "backoff_loop cif others t s = Some (b, s')" and "\<not> session_serial_mutex s"
  shows "\<not> session_serial_mutex s'"
proof -
  have "\<not> session_serial_mutex s \<longrightarrow> \<not> session_serial_mutex (snd (b, s'))"
  proof (rule backoff_loop.raw_induct
      [where P = "\<lambda>cif oth t s r. \<not> session_serial_mutex s \<longrightarrow> \<not> session_serial_mutex (snd r)", OF _ assms(1)],
      goal_cases)
    case (1 f cif oth t s r)
    obtain e c where t: "timestamp_elapsed cif t (conn s) = (e, c)" by fastforce
    show ?case
    proof (cases e)
      case False
      with 1(2) t obtain l u s1 where d: "drain_locked cif oth (s\<lparr>conn := c\<rparr>) = Some (l, u, s1)"
        and r: "(if l then Some (True, s1) else f cif oth t s1) = Some r"
        by (auto simp: bind_eq_Some_conv)
      from drain_locked_mutex [OF d] r 1(1) show ?thesis by (auto split: if_splits)
    qed (use 1(2) t in auto)
  qed
  with assms(2) show ?thesis by simp
qed

lemma send_frame_retries_mutex:
  "send_frame_retries cif others cmd p len n tmo only s = Some (st, s') \<Longrightarrow> \<not> session_serial_mutex s \<Longrightarrow>
   (st = SL_STATUS_OK \<or> st = SL_STATUS_FAIL) \<and> session_serial_mutex s' = (st = SL_STATUS_OK)"
proof (induction n arbitrary: tmo only s)
  case 0
  then show ?case by (auto dest: notify_mutex split: if_splits)
next
  case (Suc n)
  from Suc.prems(1) obtain out tmo' only' s1
    where a: "send_frame_attempt cif others cmd p len tmo only s = Some (out, tmo', only', s1)"
    by (auto simp: bind_eq_Some_conv)
  have m: "session_serial_mutex s1 = (out = Send_ok)" using send_frame_attempt_mutex [OF a] .
  show ?case
    using Suc.prems(1) a m Suc.IH
    by (auto simp: bind_eq_Some_conv split: send_outcome.splits if_splits prod.splits
        dest: notify_mutex backoff_loop_mutex)
qed

text \<open>
  The contract stated above \<^verbatim>\<open>send_frame\<close>: whatever the link answers and whatever
  other threads do in between, when \<^verbatim>\<open>send_frame\<close> returns it holds the mutex if and
  only if it returns \<^verbatim>\<open>SL_STATUS_OK\<close>, and it returns nothing but OK or FAIL.
\<close>

theorem send_frame_mutex_contract:
  assumes "send_frame cif others command payload len s = Some (status, s')"
  shows "(status = SL_STATUS_OK \<or> status = SL_STATUS_FAIL) \<and>
         session_serial_mutex s' = (status = SL_STATUS_OK)"
  using assms
  by (auto simp: send_frame_def bind_eq_Some_conv split: if_splits
      dest: drain_locked_mutex notify_mutex send_frame_retries_mutex)

theorem send_frame_mutex_contract_witness:
  "((SL_STATUS_FAIL :: sl_status) = SL_STATUS_OK \<or> (SL_STATUS_FAIL :: sl_status) = SL_STATUS_FAIL) \<and>
   session_serial_mutex sample_lost = ((SL_STATUS_FAIL :: sl_status) = SL_STATUS_OK)"
  by (rule send_frame_mutex_contract [OF send_frame_hangup [of "0x15" "[]" 0]])

text \<open>
  All three public send functions release the mutex on every path: it is never
  held when they return, so the next operation of any thread can take it.
\<close>

theorem session_operations_release_mutex:
  "(zwapi_session_send_frame cif others command payload len s = Some (status, s') \<longrightarrow>
      \<not> session_serial_mutex s') \<and>
   (zwapi_session_send_frame_with_response cif others command payload len s = Some (status, response, s') \<longrightarrow>
      \<not> session_serial_mutex s') \<and>
   (zwapi_session_send_frame_no_ack cif others command payload len s = Some (status, s') \<longrightarrow>
      \<not> session_serial_mutex s') \<and>
   (zwapi_session_enqueue_rx_frames cif others s = Some s' \<longrightarrow> \<not> session_serial_mutex s')"
proof (intro conjI impI)
  have contract: "session_serial_mutex t = (st = 0)" if "send_frame cif others command payload len s = Some (st, t)" for st t
    using that
    by (auto simp: send_frame_def bind_eq_Some_conv split: if_splits
        dest: drain_locked_mutex notify_mutex send_frame_retries_mutex)
  show "\<not> session_serial_mutex s'"
    if "zwapi_session_send_frame cif others command payload len s = Some (status, s')"
    using that contract unlock_mutex
    by (fastforce simp: zwapi_session_send_frame_def bind_eq_Some_conv split: if_splits)
  show "\<not> session_serial_mutex s'"
    if "zwapi_session_send_frame_with_response cif others command payload len s = Some (status, response, s')"
    using that
    by (auto simp: zwapi_session_send_frame_with_response_def bind_eq_Some_conv split: if_splits
        dest: contract notify_mutex)
  show "\<not> session_serial_mutex s'"
    if "zwapi_session_send_frame_no_ack cif others command payload len s = Some (status, s')"
    using that
    by (auto simp: zwapi_session_send_frame_no_ack_def bind_eq_Some_conv Let_def split: if_splits prod.splits
        dest: notify_mutex)
  show "\<not> session_serial_mutex s'" if "zwapi_session_enqueue_rx_frames cif others s = Some s'"
    using that
    by (auto simp: zwapi_session_enqueue_rx_frames_def bind_eq_Some_conv split: if_splits
        dest: drain_locked_mutex notify_mutex)
qed

theorem session_operations_release_mutex_witness: "\<not> session_serial_mutex sample_lost"
  by (rule session_operations_release_mutex [THEN conjunct2, THEN conjunct1, rule_format,
        OF send_frame_with_response_hangup [of "0x15" "[]" 0]])

section \<open>The queue of requests\<close>

definition queue_ok :: "'d session \<Rightarrow> bool" where
  "queue_ok s \<longleftrightarrow> zwapi_session_get_rx_queue_length s \<le> MAX_RX_QUEUE_LENGTH \<and>
     (\<forall>f \<in> set (zwapi_session_rx_queue s). length f \<ge> 2 \<and> f ! 1 = FRAME_TYPE_REQUEST)"

lemma queue_ok_enqueue: "queue_ok s \<Longrightarrow> queue_ok (zwapi_session_enqueue_frame s)"
  by (auto simp: queue_ok_def zwapi_session_enqueue_frame_def zwapi_session_get_rx_queue_length_def Let_def)

lemma session_predicate_queue_ok:
  assumes "\<And>s. queue_ok s \<Longrightarrow> queue_ok (others s)"
  shows "session_predicate queue_ok others"
proof (unfold_locales, goal_cases)
  case (3 s)
  then show ?case
    using assms [of s] by (simp add: queue_ok_def zwapi_session_get_rx_queue_length_def)
qed (simp_all add: queue_ok_enqueue, simp_all add: queue_ok_def zwapi_session_get_rx_queue_length_def
       session_unlock_def record_loss_def)

interpretation request_queue: session_predicate queue_ok id
  by (rule session_predicate_queue_ok) simp

text \<open>
  The receive queue holds at most 64 frames, all of them request frames with a
  type byte, whatever arrives while a command is sent and its response awaited, and
  whatever other threads do as long as they keep this too.
\<close>

theorem session_queue_bounded:
  assumes "\<And>s. queue_ok s \<Longrightarrow> queue_ok (others s)" and "queue_ok s"
    and "zwapi_session_send_frame_with_response cif others command payload len s = Some (status, response, s')"
  shows "queue_ok s'"
  by (rule session_predicate.send_frame_with_response_I [OF session_predicate_queue_ok [OF assms(1)] assms(3,2)])

theorem session_queue_bounded_witness: "queue_ok sample_lost"
  by (rule session_queue_bounded [OF _ _ send_frame_with_response_hangup [of "0x15" "[]" 0]])
     (simp_all add: queue_ok_def sample_session_def zwapi_session_get_rx_queue_length_def)

text \<open>Calling the dequeue operation \<open>n\<close> times.\<close>

fun dequeue_times :: "nat \<Rightarrow> 'd session \<Rightarrow> u8 list option list \<times> 'd session" where
  "dequeue_times 0 s = ([], s)"
| "dequeue_times (Suc n) s =
     (case zwapi_session_dequeue_frame s of (f, _, s) \<Rightarrow> case dequeue_times n s of (fs, s) \<Rightarrow> (f # fs, s))"

lemma dequeue_times_all:
  "fst (dequeue_times (length (zwapi_session_rx_queue s)) s) = map Some (zwapi_session_rx_queue s)"
proof (induction "zwapi_session_rx_queue s" arbitrary: s)
  case (Cons f q)
  from Cons.hyps(2) have q: "zwapi_session_rx_queue s = f # q" by simp
  have "fst (dequeue_times (length q) (s\<lparr>zwapi_session_rx_queue := q\<rparr>)) = map Some q"
    using Cons.hyps(1) [of "s\<lparr>zwapi_session_rx_queue := q\<rparr>"] by simp
  with q show ?case by (simp add: zwapi_session_dequeue_frame_def case_prod_unfold)
qed simp

text \<open>
  Frames leave the queue in the order in which they were received: a frame put in
  is handed out after exactly the frames that were queued before it.
\<close>

theorem session_queue_fifo:
  assumes "zwapi_session_get_rx_queue_length s < MAX_RX_QUEUE_LENGTH"
    and "zwapi_connection_get_last_rx_frame 255 (conn s) = l # FRAME_TYPE_REQUEST # body"
  shows "fst (dequeue_times (Suc (zwapi_session_get_rx_queue_length s)) (zwapi_session_enqueue_frame s)) =
           map Some (zwapi_session_rx_queue s) @ [Some (l # FRAME_TYPE_REQUEST # body)]"
proof -
  have q: "zwapi_session_rx_queue (zwapi_session_enqueue_frame s) =
      zwapi_session_rx_queue s @ [l # FRAME_TYPE_REQUEST # body]"
    using assms by (simp add: zwapi_session_enqueue_frame_def)
  then have "Suc (zwapi_session_get_rx_queue_length s) = length (zwapi_session_rx_queue (zwapi_session_enqueue_frame s))"
    by (simp add: zwapi_session_get_rx_queue_length_def)
  then show ?thesis
    using dequeue_times_all [of "zwapi_session_enqueue_frame s"] q by (simp only: map_append list.map)
qed

theorem session_queue_fifo_witness:
  "fst (dequeue_times (Suc (zwapi_session_get_rx_queue_length
          (sample_session ((sample_connection [])\<lparr>rx_buffer := [3, 0, 4], rx_buffer_length := 3\<rparr>) [[5, 0, 1]])))
        (zwapi_session_enqueue_frame
          (sample_session ((sample_connection [])\<lparr>rx_buffer := [3, 0, 4], rx_buffer_length := 3\<rparr>) [[5, 0, 1]]))) =
     map Some (zwapi_session_rx_queue
          (sample_session ((sample_connection [])\<lparr>rx_buffer := [3, 0, 4], rx_buffer_length := 3\<rparr>) [[5, 0, 1]]))
       @ [Some (3 # FRAME_TYPE_REQUEST # [4])]"
  by (rule session_queue_fifo)
     (simp_all add: sample_session_def sample_connection_def zwapi_session_get_rx_queue_length_def
        zwapi_connection_get_last_rx_frame_def)

section \<open>The link is reported lost once\<close>

definition loss_reported_once :: "'d session \<Rightarrow> 'd session \<Rightarrow> bool" where
  "loss_reported_once s0 s \<longleftrightarrow>
     (zwapi_session_connection_lost s0 \<longrightarrow> zwapi_session_connection_lost s) \<and>
     connection_lost_calls s = connection_lost_calls s0 +
       (if zwapi_session_connection_lost s \<and> \<not> zwapi_session_connection_lost s0 then 1 else 0)"

lemma enqueue_frame_loss [simp]:
  "zwapi_session_connection_lost (zwapi_session_enqueue_frame s) = zwapi_session_connection_lost s"
  "connection_lost_calls (zwapi_session_enqueue_frame s) = connection_lost_calls s"
  by (simp_all add: zwapi_session_enqueue_frame_def Let_def)

interpretation loss: session_predicate "loss_reported_once s0" id for s0
proof (unfold_locales, goal_cases)
  case (5 s)
  then show ?case by (auto simp: loss_reported_once_def session_unlock_def record_loss_def)
qed (simp_all add: loss_reported_once_def session_unlock_def)

text \<open>
  Sending a command and awaiting its response reports a lost link to the
  application at most once, and exactly when the session goes from available to
  lost; a session that is already lost is not reported again.
\<close>

theorem connection_loss_reported_once:
  assumes "zwapi_session_send_frame_with_response cif id command payload len s = Some (status, response, s')"
  shows "(zwapi_session_connection_lost s \<longrightarrow> zwapi_session_connection_lost s') \<and>
         connection_lost_calls s' = connection_lost_calls s +
           (if zwapi_session_connection_lost s' \<and> \<not> zwapi_session_connection_lost s then 1 else 0)"
  using loss.send_frame_with_response_I [OF assms, of s] by (simp add: loss_reported_once_def)

theorem connection_loss_reported_once_witness:
  "connection_lost_calls sample_lost = connection_lost_calls (sample_session (sample_connection [Hangup]) []) +
     (if zwapi_session_connection_lost sample_lost \<and>
         \<not> zwapi_session_connection_lost (sample_session (sample_connection [Hangup]) []) then 1 else 0)"
  by (rule connection_loss_reported_once [OF send_frame_with_response_hangup [of "0x15" "[]" 0], THEN conjunct2])

section \<open>Sending returns on a serial port\<close>

text \<open>
  A progressing clock passes every deadline for good. On a port with such a clock
  and no competing thread, every loop of the session ends: draining consumes the
  line, waiting and backing off consume clock readings.
\<close>

definition progressing :: "(nat \<Rightarrow> timespec) \<Rightarrow> bool" where
  "progressing r \<longleftrightarrow> (\<forall>t. \<exists>N. \<forall>k \<ge> N. zwapi_is_timestamp_elapsed t (r k))"

abbreviation "clock_of c \<equiv> readings (device c)"

lemma refresh_returns:
  obtains r c' where "zwapi_connection_refresh serial_interface c = Some (r, c')" and "advances c c'"
    and "r = STATUS_FRAME_RECEIVED \<Longrightarrow> length (line (device c')) < length (line (device c))"
  using refresh_loop_returns [of False STATUS_IDLE c] by (auto simp: zwapi_connection_refresh_def)

lemma advances_clock: "advances c c' \<Longrightarrow> clock_of c' = clock_of c"
  by (simp add: advances_def)

lemma wait_loop_returns:
  assumes "\<forall>k \<ge> N. zwapi_is_timestamp_elapsed t (clock_of c k)"
  shows "\<exists>r c'. wait_for_response_loop serial_interface t c = Some (r, c') \<and> advances c c'"
  using assms
proof (induction "N - reads (device c)" arbitrary: c rule: less_induct)
  case less
  obtain r c1 where c1: "zwapi_connection_refresh serial_interface c = Some (r, c1)" "advances c c1"
    by (rule refresh_returns)
  let ?c2 = "c1\<lparr>device := (device c1)\<lparr>reads := Suc (reads (device c1))\<rparr>\<rparr>"
  have a2: "advances c ?c2" using c1(2) by (simp add: advances_def)
  show ?case
  proof (cases "r \<noteq> STATUS_IDLE \<or> zwapi_is_timestamp_elapsed t (clock_of c1 (reads (device c1)))")
    case True
    then show ?thesis
      using c1 a2 by (subst wait_for_response_loop.simps) auto
  next
    case False
    then have "reads (device c1) < N"
      using less.prems advances_clock [OF c1(2)] by (metis not_le)
    then have "N - reads (device ?c2) < N - reads (device c)"
      using c1(2) by (auto simp: advances_def)
    then obtain r' c' where "wait_for_response_loop serial_interface t ?c2 = Some (r', c')" "advances ?c2 c'"
      using less.hyps [of ?c2] less.prems advances_clock [OF a2] by auto
    then show ?thesis
      using c1 a2 False by (subst wait_for_response_loop.simps) (auto intro: advances_trans)
  qed
qed

lemma wait_returns:
  assumes "progressing (clock_of c)"
  shows "\<exists>r c'. zwapi_session_wait_for_response serial_interface c = Some (r, c') \<and> advances c c'"
proof -
  let ?c = "c\<lparr>device := (device c)\<lparr>reads := Suc (reads (device c))\<rparr>\<rparr>"
  let ?t = "zwapi_timestamp_get (clock_of c (reads (device c))) 1600"
  obtain N where "\<forall>k \<ge> N. zwapi_is_timestamp_elapsed ?t (clock_of ?c k)"
    using assms by (auto simp: progressing_def)
  then obtain r c' where "wait_for_response_loop serial_interface ?t ?c = Some (r, c')" "advances ?c c'"
    using wait_loop_returns by blast
  moreover have "advances c ?c" by (simp add: advances_def)
  ultimately show ?thesis
    by (auto simp: zwapi_session_wait_for_response_def intro: advances_trans)
qed

lemma enqueue_frame_conn [simp]: "conn (zwapi_session_enqueue_frame s) = conn s"
  by (simp add: zwapi_session_enqueue_frame_def Let_def)

lemma enqueue_rx_frames_returns:
  "\<exists>b s'. enqueue_rx_frames serial_interface s = Some (b, s') \<and> advances (conn s) (conn s')"
proof (induction "length (line (device (conn s)))" arbitrary: s rule: less_induct)
  case less
  obtain r c where c: "zwapi_connection_refresh serial_interface (conn s) = Some (r, c)" "advances (conn s) c"
    and shrink: "r = STATUS_FRAME_RECEIVED \<Longrightarrow> length (line (device c)) < length (line (device (conn s)))"
    using refresh_returns [of "conn s"] by blast
  show ?case
  proof (cases "r = STATUS_FRAME_RECEIVED")
    case True
    let ?s = "zwapi_session_enqueue_frame (s\<lparr>conn := c\<rparr>)"
    obtain b s' where "enqueue_rx_frames serial_interface ?s = Some (b, s')" "advances (conn ?s) (conn s')"
      using less.hyps [of ?s] shrink [OF True] by auto
    with True c show ?thesis
      by (subst enqueue_rx_frames.simps) (auto intro: advances_trans)
  next
    case False
    with c show ?thesis by (subst enqueue_rx_frames.simps) auto
  qed
qed

lemma drain_locked_returns:
  assumes "\<not> session_serial_mutex s"
  shows "\<exists>l u s'. drain_locked serial_interface id s = Some (l, u, s') \<and> advances (conn s) (conn s')"
  using enqueue_rx_frames_returns [of "s\<lparr>session_serial_mutex := True\<rparr>"] assms
  by (auto simp: drain_locked_def session_lock_def session_unlock_def)

lemma notify_returns:
  assumes "\<not> session_serial_mutex s"
  shows "\<exists>s'. zwapi_session_notify_connection_lost id s = Some s' \<and> conn s' = conn s"
  using assms by (simp add: notify_connection_lost_eq record_loss_def session_unlock_def)

lemma backoff_loop_returns:
  assumes "\<forall>k \<ge> N. zwapi_is_timestamp_elapsed t (clock_of (conn s) k)" and "\<not> session_serial_mutex s"
  shows "\<exists>b s'. backoff_loop serial_interface id t s = Some (b, s') \<and> advances (conn s) (conn s')"
  using assms
proof (induction "N - reads (device (conn s))" arbitrary: s rule: less_induct)
  case less
  let ?c = "(conn s)\<lparr>device := (device (conn s))\<lparr>reads := Suc (reads (device (conn s)))\<rparr>\<rparr>"
  have a: "advances (conn s) ?c" by (simp add: advances_def)
  show ?case
  proof (cases "zwapi_is_timestamp_elapsed t (clock_of (conn s) (reads (device (conn s))))")
    case True
    then show ?thesis using a by (subst backoff_loop.simps) auto
  next
    case False
    then have N: "reads (device (conn s)) < N" using less.prems(1) by (metis not_le)
    obtain l u s1 where d: "drain_locked serial_interface id (s\<lparr>conn := ?c\<rparr>) = Some (l, u, s1)" "advances ?c (conn s1)"
      using drain_locked_returns [of "s\<lparr>conn := ?c\<rparr>"] less.prems(2) by auto
    have a1: "advances (conn s) (conn s1)" using a d(2) by (rule advances_trans)
    have "N - reads (device (conn s1)) < N - reads (device (conn s))"
      using d(2) N by (auto simp: advances_def)
    then obtain b s' where "backoff_loop serial_interface id t s1 = Some (b, s')" "advances (conn s1) (conn s')"
      using less.hyps [of s1] less.prems(1) advances_clock [OF a1] drain_locked_mutex [OF d(1)] by auto
    then show ?thesis
      using False d a1 by (subst backoff_loop.simps) (auto intro: advances_trans)
  qed
qed

lemma tx_advances: "advances c (snd (zwapi_connection_tx serial_interface cmd ty p len ack c))"
  by (simp add: zwapi_connection_tx_def Let_def advances_def serial_interface_def case_prod_unfold
      zwapi_serial_drain_buffer_def) (simp add: timestamp_get_def serial_clock_def zwapi_serial_drain_buffer_def)

lemma flushed_shorter: "length (flushed l) \<le> length l"
  by (induction l rule: flushed.induct) auto

lemma restart_advances: "advances c (snd (zwapi_connection_restart serial_interface c))"
  using flushed_shorter [of "line (device c)"]
  by (auto simp: zwapi_connection_restart_def connection_reset_def advances_def Let_def case_prod_unfold)
     (auto simp: serial_interface_def zwapi_serial_restart_def zwapi_serial_init_def)

lemma send_frame_switch_returns:
  assumes "session_serial_mutex s"
  shows "\<exists>out tmo' s'. send_frame_switch serial_interface id tmo st s = Some (out, tmo', s') \<and>
           advances (conn s) (conn s')"
proof (cases "st = STATUS_TX_TIMEOUT \<and> tmo + 1 \<ge> 3")
  case True
  obtain fd c where r: "zwapi_connection_restart serial_interface (conn s) = (fd, c)" by fastforce
  then have a: "advances (conn s) c" using restart_advances [of "conn s"] by simp
  obtain s1 where "zwapi_session_notify_connection_lost id (session_unlock (s\<lparr>conn := c\<rparr>)) = Some s1" "conn s1 = c"
    using notify_returns [of "session_unlock (s\<lparr>conn := c\<rparr>)"] by (auto simp: session_unlock_def)
  with True r a show ?thesis by (simp add: send_frame_switch_def session_unlock_def)
next
  case False
  obtain s1 where "zwapi_session_notify_connection_lost id (session_unlock s) = Some s1" "conn s1 = conn s"
    using notify_returns [of "session_unlock s"] by (auto simp: session_unlock_def)
  with False show ?thesis
    by (cases st) (auto simp: send_frame_switch_def session_unlock_def)
qed

lemma send_frame_attempt_returns:
  assumes "progressing (clock_of (conn s))" and "\<not> session_serial_mutex s"
  shows "\<exists>out tmo' only' s'. send_frame_attempt serial_interface id cmd p len tmo only s = Some (out, tmo', only', s') \<and>
           advances (conn s) (conn s')"
proof -
  obtain st c where tx: "zwapi_connection_tx serial_interface cmd 0 p len True (conn s) = (st, c)" by fastforce
  have a: "advances (conn s) c" using tx_advances [of "conn s" cmd 0 p len True] tx by simp
  obtain st' c' where w: "transmit_and_wait serial_interface cmd p len (conn s) = Some (st', c')" "advances (conn s) c'"
  proof (cases "st = STATUS_CONNECTION_LOST")
    case True
    with tx a that show ?thesis by (auto simp: transmit_and_wait_def)
  next
    case False
    obtain st' c' where "zwapi_session_wait_for_response serial_interface c = Some (st', c')" "advances c c'"
      using wait_returns [of c] assms(1) advances_clock [OF a] by auto
    with False tx advances_trans [OF a] show ?thesis by (intro that) (auto simp: transmit_and_wait_def)
  qed
  let ?s = "s\<lparr>session_serial_mutex := True, conn := c'\<rparr>"
  obtain out tmo' s' where "send_frame_switch serial_interface id tmo st' ?s = Some (out, tmo', s')" "advances c' (conn s')"
    using send_frame_switch_returns [of ?s tmo st'] by auto
  with w assms(2) show ?thesis
    by (auto simp: send_frame_attempt_def session_lock_def session_unlock_def intro: advances_trans)
qed

lemma send_frame_retries_returns:
  assumes "progressing (clock_of (conn s))" and "\<not> session_serial_mutex s"
  shows "\<exists>st s'. send_frame_retries serial_interface id cmd p len n tmo only s = Some (st, s') \<and>
           advances (conn s) (conn s')"
  using assms
proof (induction n arbitrary: tmo only s)
  case 0
  then show ?case using notify_returns [of s] by (auto simp: id_def)
next
  case (Suc n)
  obtain out tmo' only' s1 where
      at: "send_frame_attempt serial_interface id cmd p len tmo only s = Some (out, tmo', only', s1)"
    and a1: "advances (conn s) (conn s1)"
    using send_frame_attempt_returns [OF Suc.prems] by blast
  have m1: "session_serial_mutex s1 = (out = Send_ok)" using send_frame_attempt_mutex [OF at] .
  have p1: "progressing (clock_of (conn s1))" using Suc.prems(1) advances_clock [OF a1] by simp
  show ?case
  proof (cases "out = Send_retry True")
    case True
    let ?c = "(conn s1)\<lparr>device := (device (conn s1))\<lparr>reads := Suc (reads (device (conn s1)))\<rparr>\<rparr>"
    let ?t = "zwapi_timestamp_get (clock_of (conn s1) (reads (device (conn s1)))) 20"
    let ?s = "s1\<lparr>conn := ?c\<rparr>"
    obtain N where "\<forall>k \<ge> N. zwapi_is_timestamp_elapsed ?t (clock_of (conn ?s) k)"
      using p1 by (auto simp: progressing_def)
    then obtain b s2 where b: "backoff_loop serial_interface id ?t ?s = Some (b, s2)" "advances ?c (conn s2)"
      using backoff_loop_returns [of N ?t ?s] m1 True by auto
    have m2: "\<not> session_serial_mutex s2" using backoff_loop_mutex [OF b(1)] m1 True by simp
    have a2: "advances (conn s) (conn s2)"
      using a1 b(2) by (auto simp: advances_def)
    have "progressing (clock_of (conn s2))" using Suc.prems(1) advances_clock [OF a2] by simp
    then obtain st s3 where "send_frame_retries serial_interface id cmd p len n tmo' only' s2 = Some (st, s3)"
        "advances (conn s2) (conn s3)"
      using Suc.IH m2 by blast
    with True at b a2 notify_returns [OF m2] show ?thesis
      by (cases b) (auto simp: id_def intro: advances_trans)
  next
    case False
    show ?thesis
    proof (cases "out = Send_retry False")
      case True
      obtain st s3 where "send_frame_retries serial_interface id cmd p len n tmo' only' s1 = Some (st, s3)"
          "advances (conn s1) (conn s3)"
        using Suc.IH [OF p1] m1 True by blast
      with True at a1 show ?thesis by (auto simp: id_def intro: advances_trans)
    qed (use False at a1 in \<open>cases out; auto simp: id_def\<close>)
  qed
qed

text \<open>
  C40. On a serial port whose clock makes progress, sending a frame always returns,
  whatever the module answers: no wait, retry or back-off loops forever, and the
  thread never blocks on its own mutex.
\<close>

theorem zwapi_session_send_frame_returns:
  assumes "progressing (readings (device (conn s)))" and "\<not> session_serial_mutex s"
  shows "\<exists>status s'. zwapi_session_send_frame serial_interface id command payload len s = Some (status, s')"
proof -
  obtain l u s1 where d: "drain_locked serial_interface id s = Some (l, u, s1)" "advances (conn s) (conn s1)"
    using drain_locked_returns [OF assms(2)] by blast
  have m1: "\<not> session_serial_mutex s1" using drain_locked_mutex [OF d(1)] .
  have p1: "progressing (clock_of (conn s1))" using assms(1) advances_clock [OF d(2)] by simp
  obtain s2 where n: "zwapi_session_notify_connection_lost id s1 = Some s2" "conn s2 = conn s1"
    using notify_returns [OF m1] by blast
  have m2: "\<not> session_serial_mutex s2" using notify_mutex [OF n(1)] .
  show ?thesis
    using send_frame_retries_returns [OF p1 m1, of command payload len 20 0 True]
      send_frame_retries_returns [OF _ m2, of command payload len 20 0 True] d n p1
    by (auto simp: zwapi_session_send_frame_def send_frame_def)
qed

text \<open>A clock that ticks once a second.\<close>

definition ticking :: "nat \<Rightarrow> timespec" where
  "ticking k = \<lparr>tv_sec = int k, tv_nsec = 0\<rparr>"

lemma progressing_ticking: "progressing ticking"
proof (unfold progressing_def, intro allI)
  fix t
  have "\<forall>k \<ge> nat (tv_sec t + 1). zwapi_is_timestamp_elapsed t (ticking k)"
    by (auto simp: elapsed_same_order ticking_def)
  then show "\<exists>N. \<forall>k \<ge> N. zwapi_is_timestamp_elapsed t (ticking k)" by blast
qed

definition ticking_session :: "line_event list \<Rightarrow> serial_port session" where
  "ticking_session l =
     sample_session ((sample_connection l)\<lparr>device := (device (sample_connection l))\<lparr>readings := ticking\<rparr>\<rparr>) []"

theorem zwapi_session_send_frame_returns_witness:
  "\<exists>status s'. zwapi_session_send_frame serial_interface id 0x15 [1, 2] 2 (ticking_session [Rx 1, Quiet, Rx 6]) =
     Some (status, s')"
  by (rule zwapi_session_send_frame_returns)
     (simp_all add: ticking_session_def sample_session_def progressing_ticking)

end
