(* ===== verification/Node_Mask.thy ===== *)
theory Node_Mask
  imports Zpc_Prelude
begin

text \<open>
  NodeIDs and node masks, the macros of
  \<^verbatim>\<open>zwave_definitions/include/zwave_node_id_definitions.h\<close>: classic NodeIDs 1 to 232 use bit
  \<open>id - 1\<close> of the mask, long-range NodeIDs 256 to 4000 use bit \<open>id\<close>. The locale states what the
  network management relies on, a finite set of NodeIDs; the macros are its provider.
\<close>

section \<open>Definitions\<close>

type_synonym node_id = u16
type_synonym nodemask = "u8 list"

abbreviation (input) ZW_MIN_NODE_ID :: nat where "ZW_MIN_NODE_ID \<equiv> 1"
abbreviation (input) ZW_MAX_NODES :: nat where "ZW_MAX_NODES \<equiv> 232"
abbreviation (input) ZW_LR_MIN_NODE_ID :: nat where "ZW_LR_MIN_NODE_ID \<equiv> 256"
abbreviation (input) ZW_LR_MAX_NODE_ID :: nat where "ZW_LR_MAX_NODE_ID \<equiv> 4000"
abbreviation (input) ZW_LR_MAX_NODEMASK_LENGTH :: nat where "ZW_LR_MAX_NODEMASK_LENGTH \<equiv> 501"

definition IS_ZWAVE_NODE_ID :: "node_id \<Rightarrow> bool" where
  "IS_ZWAVE_NODE_ID n \<longleftrightarrow> unat n > 0 \<and> unat n \<le> ZW_MAX_NODES"

definition IS_ZWAVE_EXTENDED_NODE_ID :: "node_id \<Rightarrow> bool" where
  "IS_ZWAVE_EXTENDED_NODE_ID n \<longleftrightarrow> unat n \<ge> ZW_LR_MIN_NODE_ID \<and> unat n \<le> ZW_LR_MAX_NODE_ID"

definition IS_ZWAVE_NODE_ID_VALID :: "node_id \<Rightarrow> bool" where
  "IS_ZWAVE_NODE_ID_VALID n \<longleftrightarrow> IS_ZWAVE_NODE_ID n \<or> IS_ZWAVE_EXTENDED_NODE_ID n"

definition IS_BROADCAST_NODE_ID :: "node_id \<Rightarrow> bool" where
  "IS_BROADCAST_NODE_ID n \<longleftrightarrow> n = 0xFF \<or> n = 0xFFF"

text \<open>
  The macros compute the byte and the bit from \<open>id - 1\<close> or \<open>id\<close> in \<^verbatim>\<open>int\<close>; shifting by 3 and
  masking with 7 are division and remainder by 8.
\<close>

definition ZW_IS_NODE_IN_MASK :: "node_id \<Rightarrow> nodemask \<Rightarrow> bool" where
  "ZW_IS_NODE_IN_MASK n nodes =
     (if IS_ZWAVE_NODE_ID_VALID n
      then if IS_ZWAVE_NODE_ID n
           then drop_bit ((unat n - 1) mod 8) (nodes ! ((unat n - 1) div 8)) AND 1 \<noteq> 0
           else drop_bit (unat n mod 8) (nodes ! (unat n div 8)) AND 1 \<noteq> 0
      else False)"

definition ZW_ADD_NODE_TO_MASK :: "node_id \<Rightarrow> nodemask \<Rightarrow> nodemask" where
  "ZW_ADD_NODE_TO_MASK n nodes =
     (if IS_ZWAVE_NODE_ID_VALID n
      then if IS_ZWAVE_NODE_ID n
           then nodes[(unat n - 1) div 8 := nodes ! ((unat n - 1) div 8) OR push_bit ((unat n - 1) mod 8) 1]
           else nodes[unat n div 8 := nodes ! (unat n div 8) OR push_bit (unat n mod 8) 1]
      else nodes)"

definition ZW_REMOVE_NODE_FROM_MASK :: "node_id \<Rightarrow> nodemask \<Rightarrow> nodemask" where
  "ZW_REMOVE_NODE_FROM_MASK n nodes =
     (if IS_ZWAVE_NODE_ID_VALID n
      then if IS_ZWAVE_NODE_ID n
           then nodes[(unat n - 1) div 8 := nodes ! ((unat n - 1) div 8) AND (0xFF - push_bit ((unat n - 1) mod 8) 1)]
           else nodes[unat n div 8 := nodes ! (unat n div 8) AND (0xFF - push_bit (unat n mod 8) 1)]
      else nodes)"

text \<open>The NodeIDs a loop from \<^verbatim>\<open>ZW_MIN_NODE_ID\<close> to \<^verbatim>\<open>ZW_LR_MAX_NODE_ID\<close> visits.\<close>

definition node_range :: "node_id list" where
  "node_range = map of_nat [ZW_MIN_NODE_ID ..< Suc ZW_LR_MAX_NODE_ID]"

section \<open>Sets of NodeIDs\<close>

text \<open>
  What the clients of a node mask rely on: adding and removing a valid NodeID changes the
  membership of that NodeID and of no other, an invalid NodeID is never a member and never
  changes the mask, and well-formedness is kept.
\<close>

locale node_set =
  fixes ok :: "'m \<Rightarrow> bool"
    and valid :: "'n \<Rightarrow> bool"
    and member :: "'n \<Rightarrow> 'm \<Rightarrow> bool"
    and add :: "'n \<Rightarrow> 'm \<Rightarrow> 'm"
    and remove :: "'n \<Rightarrow> 'm \<Rightarrow> 'm"
  assumes member_valid: "member n m \<Longrightarrow> valid n"
    and member_add: "ok m \<Longrightarrow> valid n \<Longrightarrow> member k (add n m) \<longleftrightarrow> k = n \<or> member k m"
    and member_remove: "ok m \<Longrightarrow> valid n \<Longrightarrow> member k (remove n m) \<longleftrightarrow> k \<noteq> n \<and> member k m"
    and add_invalid: "\<not> valid n \<Longrightarrow> add n m = m"
    and remove_invalid: "\<not> valid n \<Longrightarrow> remove n m = m"
    and ok_add: "ok m \<Longrightarrow> ok (add n m)"
    and ok_remove: "ok m \<Longrightarrow> ok (remove n m)"
begin

definition elements :: "'m \<Rightarrow> 'n set" where
  "elements m = {n. member n m}"

lemma elements_add: "ok m \<Longrightarrow> valid n \<Longrightarrow> elements (add n m) = insert n (elements m)"
  by (auto simp: elements_def member_add)

lemma elements_remove: "ok m \<Longrightarrow> elements (remove n m) = elements m - {n}"
proof (cases "valid n")
  case False
  then have "n \<notin> elements m" using member_valid by (auto simp: elements_def)
  with False show ?thesis by (simp add: remove_invalid)
qed (auto simp: elements_def member_remove)

lemma ok_fold_add: "ok m \<Longrightarrow> ok (fold add ns m)"
  by (induction ns arbitrary: m) (auto intro: ok_add)

lemma elements_fold_add:
  "ok m \<Longrightarrow> elements (fold add ns m) = elements m \<union> {n \<in> set ns. valid n}"
proof (induction ns arbitrary: m)
  case (Cons n ns)
  then show ?case
    by (cases "valid n") (auto simp: ok_add elements_add add_invalid)
qed simp

lemma elements_valid: "elements m \<subseteq> {n. valid n}"
  using member_valid by (auto simp: elements_def)

end

section \<open>The macros implement sets\<close>

text \<open>The bit of the mask that belongs to a NodeID.\<close>

definition node_bit :: "node_id \<Rightarrow> nat" where
  "node_bit n = (if IS_ZWAVE_NODE_ID n then unat n - 1 else unat n)"

definition mask_bit :: "nodemask \<Rightarrow> nat \<Rightarrow> bool" where
  "mask_bit m i = bit (m ! (i div 8)) (i mod 8)"

lemma node_bit_bound: "IS_ZWAVE_NODE_ID_VALID n \<Longrightarrow> node_bit n div 8 < ZW_LR_MAX_NODEMASK_LENGTH"
  by (auto simp: node_bit_def IS_ZWAVE_NODE_ID_VALID_def IS_ZWAVE_NODE_ID_def IS_ZWAVE_EXTENDED_NODE_ID_def)

lemma node_bit_inj:
  assumes "IS_ZWAVE_NODE_ID_VALID n" and "IS_ZWAVE_NODE_ID_VALID k" and "node_bit n = node_bit k"
  shows "n = k"
proof -
  have "unat n = unat k"
    using assms
    by (auto simp: node_bit_def IS_ZWAVE_NODE_ID_VALID_def IS_ZWAVE_NODE_ID_def IS_ZWAVE_EXTENDED_NODE_ID_def
        split: if_splits)
  then show ?thesis by (simp only: unsigned_word_eqI)
qed

lemma drop_bit_and_1: "(drop_bit i (b :: u8) AND 1 \<noteq> 0) \<longleftrightarrow> bit b i"
  by (simp add: and_one_eq bit_iff_odd_drop_bit odd_iff_mod_2_eq_one)

lemma is_node_in_mask_bit:
  "ZW_IS_NODE_IN_MASK n m \<longleftrightarrow> IS_ZWAVE_NODE_ID_VALID n \<and> mask_bit m (node_bit n)"
  unfolding ZW_IS_NODE_IN_MASK_def mask_bit_def node_bit_def by (simp add: drop_bit_and_1)

lemma add_node_to_mask_bit:
  "ZW_ADD_NODE_TO_MASK n m =
     (if IS_ZWAVE_NODE_ID_VALID n
      then m[node_bit n div 8 := m ! (node_bit n div 8) OR 2 ^ (node_bit n mod 8)] else m)"
  by (simp add: ZW_ADD_NODE_TO_MASK_def node_bit_def)

lemma remove_node_from_mask_bit:
  "ZW_REMOVE_NODE_FROM_MASK n m =
     (if IS_ZWAVE_NODE_ID_VALID n
      then m[node_bit n div 8 := m ! (node_bit n div 8) AND (0xFF - 2 ^ (node_bit n mod 8))] else m)"
  by (simp add: ZW_REMOVE_NODE_FROM_MASK_def node_bit_def)

lemma mask_bit_update:
  assumes "j div 8 < length m"
  shows "mask_bit (m[j div 8 := b]) i = (if i div 8 = j div 8 then bit b (i mod 8) else mask_bit m i)"
  using assms by (simp add: mask_bit_def)

lemma bit_or_push: "i < 8 \<Longrightarrow> bit ((b :: u8) OR 2 ^ j) i \<longleftrightarrow> bit b i \<or> i = j"
  by (auto simp: bit_simps)

lemma complement_bit: "0xFF - (x :: u8) = NOT x"
  by (simp add: minus_eq_not_minus_1 [symmetric] not_eq_complement)

lemma bit_and_complement: "i < 8 \<Longrightarrow> bit ((b :: u8) AND (0xFF - 2 ^ j)) i \<longleftrightarrow> bit b i \<and> i \<noteq> j"
  by (auto simp: complement_bit bit_simps)

lemma same_bit: "i div 8 = j div 8 \<and> i mod 8 = j mod 8 \<longleftrightarrow> i = (j :: nat)"
  by (metis div_mult_mod_eq)

lemma mask_bit_add:
  assumes "j div 8 < length m"
  shows "mask_bit (m[j div 8 := m ! (j div 8) OR 2 ^ (j mod 8)]) i \<longleftrightarrow> i = j \<or> mask_bit m i"
  unfolding mask_bit_update [OF assms] using same_bit [of i j]
  by (auto simp: bit_or_push mask_bit_def)

lemma mask_bit_remove:
  assumes "j div 8 < length m"
  shows "mask_bit (m[j div 8 := m ! (j div 8) AND (0xFF - 2 ^ (j mod 8))]) i \<longleftrightarrow> i \<noteq> j \<and> mask_bit m i"
  unfolding mask_bit_update [OF assms] using same_bit [of i j]
  by (auto simp: bit_and_complement mask_bit_def)

definition nodemask_ok :: "nodemask \<Rightarrow> bool" where
  "nodemask_ok m \<longleftrightarrow> length m = ZW_LR_MAX_NODEMASK_LENGTH"

interpretation nodeset: node_set nodemask_ok IS_ZWAVE_NODE_ID_VALID ZW_IS_NODE_IN_MASK
  ZW_ADD_NODE_TO_MASK ZW_REMOVE_NODE_FROM_MASK
proof (unfold_locales, goal_cases)
  case (2 m n k)
  then show ?case
    using node_bit_bound [of n] node_bit_inj [of n k]
    by (auto simp: nodemask_ok_def is_node_in_mask_bit add_node_to_mask_bit mask_bit_add)
next
  case (3 m n k)
  then show ?case
    using node_bit_bound [of n] node_bit_inj [of n k]
    by (auto simp: nodemask_ok_def is_node_in_mask_bit remove_node_from_mask_bit mask_bit_remove)
qed (simp_all add: is_node_in_mask_bit add_node_to_mask_bit remove_node_from_mask_bit nodemask_ok_def)

text \<open>
  C38. The node mask implements a set of NodeIDs: after adding any list of NodeIDs to the
  empty 501-byte mask, the members are exactly the valid NodeIDs of the list, and
  removing one afterwards takes out that NodeID and no other, although classic and
  long-range NodeIDs are placed in the mask by different rules.
\<close>

theorem nodemask_implements_set:
  "let m = fold ZW_ADD_NODE_TO_MASK ns (replicate ZW_LR_MAX_NODEMASK_LENGTH 0)
   in {n. ZW_IS_NODE_IN_MASK n m} = {n \<in> set ns. IS_ZWAVE_NODE_ID_VALID n} \<and>
      {n. ZW_IS_NODE_IN_MASK n (ZW_REMOVE_NODE_FROM_MASK k m)} = {n \<in> set ns. IS_ZWAVE_NODE_ID_VALID n} - {k}"
proof -
  let ?e = "replicate ZW_LR_MAX_NODEMASK_LENGTH 0 :: nodemask"
  have ok: "nodemask_ok ?e" by (simp add: nodemask_ok_def)
  have empty: "nodeset.elements ?e = {}"
    using node_bit_bound by (auto simp: nodeset.elements_def is_node_in_mask_bit mask_bit_def)
  have m: "nodeset.elements (fold ZW_ADD_NODE_TO_MASK ns ?e) = {n \<in> set ns. IS_ZWAVE_NODE_ID_VALID n}"
    using nodeset.elements_fold_add [OF ok] empty by simp
  show ?thesis
    using m nodeset.elements_remove [OF nodeset.ok_fold_add [OF ok], of k ns]
    by (simp add: nodeset.elements_def)
qed

section \<open>Loops over all NodeIDs\<close>

lemma unat_node_range: "i \<le> ZW_LR_MAX_NODE_ID \<Longrightarrow> unat (of_nat i :: node_id) = i"
  by (simp add: unat_of_nat)

lemma set_node_range: "set node_range = {n. 1 \<le> unat n \<and> unat n \<le> ZW_LR_MAX_NODE_ID}"
proof -
  have "n \<in> (of_nat :: nat \<Rightarrow> node_id) ` {1..<4001}" if "1 \<le> unat n" "unat n \<le> 4000" for n
    using that by (intro image_eqI [of _ _ "unat n"]) auto
  then show ?thesis by (auto simp: node_range_def unat_node_range)
qed

lemma distinct_node_range: "distinct node_range"
proof -
  have "inj_on (of_nat :: nat \<Rightarrow> node_id) {1..<4001}"
    by (rule inj_onI) (metis atLeastLessThan_iff less_Suc_eq_le numeral_eq_Suc pred_numeral_simps(1,2) eval_nat_numeral(3) unat_node_range)
  then show ?thesis by (simp add: node_range_def distinct_map)
qed

lemma member_in_range: "ZW_IS_NODE_IN_MASK n m \<Longrightarrow> n \<in> set node_range"
  by (auto simp: is_node_in_mask_bit set_node_range IS_ZWAVE_NODE_ID_VALID_def IS_ZWAVE_NODE_ID_def
      IS_ZWAVE_EXTENDED_NODE_ID_def)

lemma mask_finite [simp]: "finite {n. ZW_IS_NODE_IN_MASK n m}"
  by (rule finite_subset [of _ "set node_range"]) (auto dest: member_in_range)

lemma mask_members_filter: "{n. ZW_IS_NODE_IN_MASK n m} = set (filter (\<lambda>n. ZW_IS_NODE_IN_MASK n m) node_range)"
  by (auto dest: member_in_range)

lemma card_mask_members: "card {n. ZW_IS_NODE_IN_MASK n m} = length (filter (\<lambda>n. ZW_IS_NODE_IN_MASK n m) node_range)"
  unfolding mask_members_filter by (rule distinct_card) (simp add: distinct_node_range)

end
