(* ===== verification/Controller_Nif.thy ===== *)
theory Controller_Nif
  imports Zpc_Prelude
begin

text \<open>
  Node information frames, \<^verbatim>\<open>zwave_controller/src/zwave_controller_utils.c\<close> and
  \<^verbatim>\<open>is_command_class_in_nif\<close> of \<^verbatim>\<open>zwave_network_management_helpers.c\<close>: command class
  identifiers are one byte, or two bytes from a threshold on. The lemmas relate the loops to
  a structural parser, give the pack/unpack round trip, and say on which frames the
  unpacking loop does not end.
\<close>

section \<open>Definitions\<close>

type_synonym command_class = u16

abbreviation (input) EXTENDED_COMMAND_CLASS_IDENTIFIER_START :: u8 where
  "EXTENDED_COMMAND_CLASS_IDENTIFIER_START \<equiv> 0xF0"
abbreviation (input) COMMAND_CLASS_CONTROL_MARK :: u8 where "COMMAND_CLASS_CONTROL_MARK \<equiv> 0xEF"
abbreviation (input) MAXIMUM_COMMAND_CLASS_LIST_LENGTH :: nat where
  "MAXIMUM_COMMAND_CLASS_LIST_LENGTH \<equiv> 64"
abbreviation (input) ZWAVE_MAX_NIF_SIZE :: nat where "ZWAVE_MAX_NIF_SIZE \<equiv> 156"

text \<open>\<^verbatim>\<open>zwave_node_info_t\<close>; \<open>command_class_list\<close> is the array of 64 entries.\<close>

record node_info =
  listening_protocol :: u8
  optional_protocol :: u8
  basic_device_class :: u8
  generic_device_class :: u8
  specific_device_class :: u8
  command_class_list_length :: u8
  command_class_list :: "command_class list"

text \<open>A two-byte identifier, \<^verbatim>\<open>(high << 8) | low\<close>.\<close>

definition extended_class :: "u8 \<Rightarrow> u8 \<Rightarrow> command_class" where
  "extended_class high low = push_bit 8 (ucast high) OR ucast low"

text \<open>
  The loop of \<^verbatim>\<open>zwave_command_class_list_unpack\<close>. The indices are \<^verbatim>\<open>uint8_t\<close> in the source
  and stay below the length of the frame plus one, so they are natural numbers here.
  \<open>ndebug\<close> says whether assertions are compiled out (a release build); a failing assertion
  and a loop that does not end are both \<open>None\<close>.
\<close>

partial_function (option) unpack_loop ::
  "bool \<Rightarrow> u8 list \<Rightarrow> nat \<Rightarrow> nat \<Rightarrow> node_info \<Rightarrow> node_info option" where
  "unpack_loop ndebug nif i nif_index info =
     (if nif_index < length nif \<and> i < MAXIMUM_COMMAND_CLASS_LIST_LENGTH
      then if nif ! nif_index \<ge> 0xF1
           then if nif_index + 1 < length nif
                then unpack_loop ndebug nif (i + 1) (nif_index + 2)
                       (info\<lparr>command_class_list := (command_class_list info)
                               [i := extended_class (nif ! nif_index) (nif ! (nif_index + 1))],
                             command_class_list_length := of_nat (i + 1)\<rparr>)
                else if ndebug
                then unpack_loop ndebug nif i nif_index (info\<lparr>command_class_list_length := of_nat i\<rparr>)
                else None
           else unpack_loop ndebug nif (i + 1) (nif_index + 1)
                  (info\<lparr>command_class_list := (command_class_list info)[i := ucast (nif ! nif_index)],
                        command_class_list_length := of_nat (i + 1)\<rparr>)
      else Some info)"

definition zwave_command_class_list_unpack :: "bool \<Rightarrow> node_info \<Rightarrow> u8 list \<Rightarrow> node_info option" where
  "zwave_command_class_list_unpack ndebug info nif =
     (if nif = [] then if ndebug then Some info else None
      else unpack_loop ndebug nif 0 0 info)"

fun pack_loop :: "command_class list \<Rightarrow> u8 list" where
  "pack_loop [] = []"
| "pack_loop (c # cs) =
     (if c > 0xFF then [ucast (drop_bit 8 c), ucast c] else [ucast c]) @ pack_loop cs"

definition zwave_command_class_list_pack :: "bool \<Rightarrow> node_info \<Rightarrow> u8 list option" where
  "zwave_command_class_list_pack ndebug info =
     (if \<not> ndebug \<and> unat (command_class_list_length info) > MAXIMUM_COMMAND_CLASS_LIST_LENGTH then None
      else Some (pack_loop (take (min (unat (command_class_list_length info)) MAXIMUM_COMMAND_CLASS_LIST_LENGTH)
                                 (command_class_list info))))"

fun supported_loop :: "command_class \<Rightarrow> u8 list \<Rightarrow> bool" where
  "supported_loop cc [] = False"
| "supported_loop cc [b] =
     (if b = COMMAND_CLASS_CONTROL_MARK then False else cc = ucast b)"
| "supported_loop cc (b # b' # bs) =
     (if b = COMMAND_CLASS_CONTROL_MARK then False
      else if b \<ge> EXTENDED_COMMAND_CLASS_IDENTIFIER_START
      then if cc = extended_class b b' then True else supported_loop cc bs
      else if cc = ucast b then True else supported_loop cc (b' # bs))"

definition is_command_class_in_supported_list :: "command_class \<Rightarrow> u8 list \<Rightarrow> bool" where
  "is_command_class_in_supported_list cc nif = (if nif = [] then False else supported_loop cc nif)"

text \<open>
  One list of a frame: the classes found and the index at which parsing stopped. At most
  156 bytes are looked at; a two-byte identifier cut off at the end is left out.
\<close>

fun parse_loop :: "u8 list \<Rightarrow> nat \<Rightarrow> command_class list \<times> nat" where
  "parse_loop [] k = ([], k)"
| "parse_loop (b # bs) k =
     (if k \<ge> ZWAVE_MAX_NIF_SIZE then ([], k)
      else if b = COMMAND_CLASS_CONTROL_MARK then ([], k + 1)
      else if b \<ge> EXTENDED_COMMAND_CLASS_IDENTIFIER_START
      then (case bs of
              [] \<Rightarrow> ([], k)
            | b' # bs' \<Rightarrow> (case parse_loop bs' (k + 2) of (cs, k') \<Rightarrow> (extended_class b b' # cs, k')))
      else (case parse_loop bs (k + 1) of (cs, k') \<Rightarrow> (ucast b # cs, k')))"

text \<open>\<open>wanted\<close> says whether the caller passed an array; a null pointer parses nothing.\<close>

definition zwave_parse_nif_list_until_marker_or_end ::
  "u8 list \<Rightarrow> bool \<Rightarrow> command_class list option \<times> nat" where
  "zwave_parse_nif_list_until_marker_or_end nif wanted =
     (if \<not> wanted then (None, 0)
      else case parse_loop nif 0 of (cs, k) \<Rightarrow> (Some cs, k))"

definition zwave_parse_nif ::
  "u8 list \<Rightarrow> bool \<Rightarrow> bool \<Rightarrow> command_class list option \<times> command_class list option" where
  "zwave_parse_nif nif supported controlled =
     (case zwave_parse_nif_list_until_marker_or_end nif supported of (s, k) \<Rightarrow>
        (s, fst (zwave_parse_nif_list_until_marker_or_end (drop k nif) controlled)))"

definition is_command_class_in_nif :: "command_class list \<Rightarrow> u8 \<Rightarrow> command_class \<Rightarrow> bool" where
  "is_command_class_in_nif nif nif_length cc =
     (let nif_length = (if unat nif_length > MAXIMUM_COMMAND_CLASS_LIST_LENGTH
                        then MAXIMUM_COMMAND_CLASS_LIST_LENGTH else unat nif_length)
      in cc \<in> set (take nif_length nif))"

section \<open>Unpacking\<close>

text \<open>The structural reading of a frame: \<open>None\<close> when the last identifier is cut off.\<close>

fun nif_classes :: "u8 list \<Rightarrow> command_class list option" where
  "nif_classes [] = Some []"
| "nif_classes (b # bs) =
     (if b \<ge> 0xF1
      then (case bs of
              [] \<Rightarrow> None
            | b' # bs' \<Rightarrow> map_option ((#) (extended_class b b')) (nif_classes bs'))
      else map_option ((#) (ucast b)) (nif_classes bs))"

lemma nif_classes_short: "nif_classes bs = Some cs \<Longrightarrow> length cs \<le> length bs"
  by (induction bs arbitrary: cs rule: nif_classes.induct) (fastforce split: if_splits list.splits)+

text \<open>The first \<open>length cs\<close> entries of the array hold \<open>cs\<close>, and the length says so.\<close>

definition classes_of :: "node_info \<Rightarrow> command_class list" where
  "classes_of info = take (unat (command_class_list_length info)) (command_class_list info)"

lemma classes_of_store:
  assumes "classes_of info = acc" and "i = length acc" and "i < MAXIMUM_COMMAND_CLASS_LIST_LENGTH"
    and "length (command_class_list info) = MAXIMUM_COMMAND_CLASS_LIST_LENGTH"
    and "command_class_list_length info = of_nat i"
  shows "classes_of (info\<lparr>command_class_list := (command_class_list info)[i := c],
                          command_class_list_length := of_nat (i + 1)\<rparr>) = acc @ [c]"
proof -
  have "unat (of_nat (i + 1) :: u8) = i + 1" "unat (of_nat i :: u8) = i"
    using assms(3) by (simp_all add: unat_of_nat del: of_nat_add of_nat_Suc)
  with assms show ?thesis
    by (simp add: classes_of_def take_Suc_conv_app_nth del: of_nat_add of_nat_Suc)
qed

text \<open>
  The invariant of the loop: what is stored so far and what the rest of the frame still
  holds make up the result.
\<close>

lemma unpack_loop_complete:
  assumes "nif_classes (drop k nif) = Some cs" and "length acc + length cs \<le> MAXIMUM_COMMAND_CLASS_LIST_LENGTH"
    and "classes_of info = acc" and "command_class_list_length info = of_nat (length acc)"
    and "length (command_class_list info) = MAXIMUM_COMMAND_CLASS_LIST_LENGTH"
  shows "\<exists>info'. unpack_loop ndebug nif (length acc) k info = Some info' \<and> classes_of info' = acc @ cs \<and>
           length (command_class_list info') = MAXIMUM_COMMAND_CLASS_LIST_LENGTH"
  using assms
proof (induction "length nif - k" arbitrary: k acc cs info rule: less_induct)
  case less
  show ?case
  proof (cases "k < length nif")
    case False
    with less.prems show ?thesis by (subst unpack_loop.simps) simp
  next
    case True
    then have d: "drop k nif = nif ! k # drop (Suc k) nif" by (simp add: Cons_nth_drop_Suc)
    obtain c cs' n where c: "cs = c # cs'" "n = 1 \<or> n = 2" "nif_classes (drop (k + n) nif) = Some cs'"
      and step: "unpack_loop ndebug nif (length acc) k info =
        unpack_loop ndebug nif (length acc + 1) (k + n)
          (info\<lparr>command_class_list := (command_class_list info)[length acc := c],
                command_class_list_length := of_nat (length acc + 1)\<rparr>)"
    proof (cases "nif ! k \<ge> 0xF1")
      case big: True
      then have "drop (Suc k) nif \<noteq> []"
        using less.prems(1) d by (cases "drop (Suc k) nif") simp_all
      then have two: "k + 1 < length nif" by (simp add: not_le)
      then have d2: "drop (Suc k) nif = nif ! (k + 1) # drop (k + 2) nif"
        by (simp add: Cons_nth_drop_Suc)
      obtain cs' where cs: "cs = extended_class (nif ! k) (nif ! (k + 1)) # cs'" "nif_classes (drop (k + 2) nif) = Some cs'"
        using less.prems(1) big d d2 by auto
      show ?thesis
        by (rule that [OF cs(1) _ cs(2)], simp, subst unpack_loop.simps)
           (use True two big less.prems(2) cs in simp)
    next
      case small: False
      then obtain cs' where cs: "cs = ucast (nif ! k) # cs'" "nif_classes (drop (k + 1) nif) = Some cs'"
        using less.prems(1) d by auto
      show ?thesis
        by (rule that [OF cs(1) _ cs(2)], simp, subst unpack_loop.simps)
           (use True small less.prems(2) cs in simp)
    qed
    let ?info = "info\<lparr>command_class_list := (command_class_list info)[length acc := c],
                     command_class_list_length := of_nat (length acc + 1)\<rparr>"
    have room: "length acc < MAXIMUM_COMMAND_CLASS_LIST_LENGTH" using less.prems(2) c(1) by simp
    have "classes_of ?info = acc @ [c]"
      using classes_of_store [OF less.prems(3) refl room less.prems(5,4)] .
    then show ?thesis
      using less.hyps [of "k + n" cs' "acc @ [c]" ?info] less.prems c True step by fastforce
  qed
qed

lemma nif_unpack_exists:
  assumes "nif_classes nif = Some cs" and "nif \<noteq> []" and "length cs \<le> MAXIMUM_COMMAND_CLASS_LIST_LENGTH"
    and "length (command_class_list info) = MAXIMUM_COMMAND_CLASS_LIST_LENGTH"
  shows "\<exists>info'. zwave_command_class_list_unpack ndebug info nif = Some info' \<and> classes_of info' = cs"
proof -
  obtain b bs where nif: "nif = b # bs" using assms(2) by (cases nif) auto
  let ?start = "info\<lparr>command_class_list_length := 0\<rparr>"
  have same: "unpack_loop ndebug nif 0 0 info = unpack_loop ndebug nif 0 0 ?start"
    using assms(1) nif
    by (subst (1 2) unpack_loop.simps) (cases bs; auto split: if_splits)
  show ?thesis
    using unpack_loop_complete [of 0 nif cs "[]" ?start ndebug] assms same
    by (auto simp: zwave_command_class_list_unpack_def classes_of_def)
qed


text \<open>
  Unpacking reads every frame that is not cut off in the middle of a two-byte
  identifier and holds at most 64 command classes: it returns, and the node
  information then lists exactly the classes of the frame in their order.
\<close>

theorem nif_unpack_complete:
  assumes "nif_classes nif = Some cs" and "nif \<noteq> []" and "length cs \<le> MAXIMUM_COMMAND_CLASS_LIST_LENGTH"
    and "length (command_class_list info) = MAXIMUM_COMMAND_CLASS_LIST_LENGTH"
  shows "\<exists>info'. zwave_command_class_list_unpack ndebug info nif = Some info' \<and> classes_of info' = cs"
  using assms by (rule nif_unpack_exists)

text \<open>A node information with 64 empty entries.\<close>

definition empty_node_info :: node_info where
  "empty_node_info = \<lparr>listening_protocol = 0, optional_protocol = 0, basic_device_class = 0,
     generic_device_class = 0, specific_device_class = 0, command_class_list_length = 0,
     command_class_list = replicate MAXIMUM_COMMAND_CLASS_LIST_LENGTH 0\<rparr>"

theorem nif_unpack_complete_witness:
  "\<exists>info'. zwave_command_class_list_unpack True empty_node_info [0x9F, 0xF2, 0x01, 0x25] = Some info' \<and>
     classes_of info' = [0x9F, 0xF201, 0x25]"
  by (rule nif_unpack_complete) (simp_all add: empty_node_info_def extended_class_def push_bit_eq_mult)

section \<open>Frames that are cut off\<close>

lemma unpack_loop_stuck:
  assumes "unpack_loop ndebug nif i k info = Some info'" and "k + 1 = length nif" and "nif ! k \<ge> 0xF1" and "i < 64"
  shows False
proof -
  have "k + 1 = length nif \<longrightarrow> nif ! k \<ge> 0xF1 \<longrightarrow> i < 64 \<longrightarrow> False"
  proof (rule unpack_loop.raw_induct [where P = "\<lambda>nd nif i k info r. k + 1 = length nif \<longrightarrow> nif ! k \<ge> 0xF1 \<longrightarrow> i < 64 \<longrightarrow> False",
        OF _ assms(1)], goal_cases)
    case (1 f nd nif i k info r)
    then show ?case by (auto split: if_splits)
  qed
  with assms show False by blast
qed

lemma unpack_loop_dangling:
  assumes "nif_classes (drop k nif) = None" and "k \<le> length nif" and "i + (length nif - k) \<le> MAXIMUM_COMMAND_CLASS_LIST_LENGTH"
  shows "unpack_loop ndebug nif i k info = None"
  using assms
proof (induction "length nif - k" arbitrary: k i info rule: less_induct)
  case less
  from less.prems(1,2) have k: "k < length nif" by (cases "k < length nif") auto
  then have d: "drop k nif = nif ! k # drop (Suc k) nif" by (simp add: Cons_nth_drop_Suc)
  show ?case
  proof (cases "nif ! k \<ge> 0xF1")
    case big: True
    show ?thesis
    proof (cases "k + 1 < length nif")
      case True
      then have "drop (Suc k) nif = nif ! (k + 1) # drop (k + 2) nif" by (simp add: Cons_nth_drop_Suc)
      then have "nif_classes (drop (k + 2) nif) = None" using less.prems(1) big d by simp
      then show ?thesis
        using True big k less.prems by (subst unpack_loop.simps) (auto intro!: less.hyps)
    next
      case False
      then have "k + 1 = length nif" using k by simp
      moreover have "i < 64" using less.prems(3) k by simp
      ultimately show ?thesis
        using unpack_loop_stuck [of ndebug nif i k info] big by (cases "unpack_loop ndebug nif i k info") blast+
    qed
  next
    case small: False
    then have "nif_classes (drop (k + 1) nif) = None" using less.prems(1) d by simp
    then show ?thesis
      using small k less.prems by (subst unpack_loop.simps) (auto intro!: less.hyps)
  qed
qed

text \<open>
  A frame of at most 64 bytes that is cut off after the first byte of a two-byte
  identifier is never unpacked: a debug build stops at the assertion, and a release
  build repeats the same iteration forever, because the index does not advance on that
  branch. So a received node information ending in a byte of at least 0xF1 takes the
  receiving thread out of service.
\<close>

theorem nif_unpack_truncated_hangs:
  assumes "nif_classes nif = None" and "length nif \<le> MAXIMUM_COMMAND_CLASS_LIST_LENGTH"
  shows "zwave_command_class_list_unpack ndebug info nif = None"
proof -
  have "nif \<noteq> []" using assms(1) by auto
  then show ?thesis
    using unpack_loop_dangling [of 0 nif 0 ndebug info] assms by (simp add: zwave_command_class_list_unpack_def)
qed

theorem nif_unpack_truncated_hangs_witness:
  "zwave_command_class_list_unpack True empty_node_info [0x9F, 0xF2] = None"
  by (rule nif_unpack_truncated_hangs) simp_all

section \<open>Packing\<close>

text \<open>The identifiers that survive the trip: one byte below 0xF1, or two bytes from 0xF100.\<close>

definition packable :: "command_class \<Rightarrow> bool" where
  "packable c \<longleftrightarrow> c < 0xF1 \<or> c \<ge> 0xF100"

lemma low_byte: "(ucast (ucast (c :: u16) :: u8) :: u16) = take_bit 8 c"
  by (rule bit_word_eqI) (auto simp: bit_simps)

lemma extended_class_bytes: "extended_class (ucast (drop_bit 8 c)) (ucast c) = c"
  by (rule bit_word_eqI) (auto simp: extended_class_def bit_simps)

lemma one_byte_class:
  assumes "c < 0xF1"
  shows "(ucast (ucast (c :: u16) :: u8) :: u16) = c" and "(ucast c :: u8) < 0xF1"
proof -
  have u: "unat c < 241" using assms by (simp add: word_less_nat_alt)
  then show "(ucast (ucast c :: u8) :: u16) = c"
    by (simp add: low_byte word_unat_eq_iff unsigned_take_bit_eq take_bit_nat_eq_self_iff)
  show "(ucast c :: u8) < 0xF1"
    using u by (simp add: word_less_nat_alt unsigned_ucast_eq take_bit_nat_eq_self)
qed

lemma two_byte_class:
  assumes "c \<ge> 0xF100"
  shows "(ucast (drop_bit 8 (c :: u16)) :: u8) \<ge> 0xF1" and "c > 0xFF"
proof -
  have u: "unat c \<ge> 0xF100" using assms by (simp add: word_le_nat_alt)
  have "unat (ucast (drop_bit 8 c) :: u8) = unat c div 256"
    using unat_u16_bound [of c]
    by (simp only: unsigned_ucast_eq unsigned_drop_bit_eq drop_bit_nat_def) (simp add: take_bit_nat_def div_less_iff_less_mult)
  then show "(ucast (drop_bit 8 c) :: u8) \<ge> 0xF1"
    using u by (simp add: word_le_nat_alt)
  show "c > 0xFF" using u by (simp add: word_less_nat_alt)
qed

lemma nif_classes_pack:
  "(\<forall>c \<in> set cs. packable c) \<Longrightarrow> nif_classes (pack_loop cs) = Some cs"
proof (induction cs)
  case (Cons c cs)
  then consider "c < 0xF1" | "c \<ge> 0xF100" by (auto simp: packable_def)
  then show ?case
  proof cases
    case 1
    moreover have "\<not> c > 0xFF" using 1 by (simp add: word_less_nat_alt)
    ultimately show ?thesis using Cons one_byte_class [OF 1] by (auto simp: not_le)
  next
    case 2
    then show ?thesis using Cons two_byte_class [OF 2] by (simp add: extended_class_bytes)
  qed
qed simp

text \<open>A node information that lists the classes \<open>cs\<close>, and the classes a frame is read as.\<close>

definition node_info_of :: "command_class list \<Rightarrow> node_info" where
  "node_info_of cs = empty_node_info\<lparr>command_class_list_length := of_nat (length cs),
     command_class_list := memcpy (command_class_list empty_node_info) cs (length cs)\<rparr>"

definition class_list_ok :: "command_class list \<Rightarrow> bool" where
  "class_list_ok cs \<longleftrightarrow> cs \<noteq> [] \<and> length cs \<le> MAXIMUM_COMMAND_CLASS_LIST_LENGTH \<and> (\<forall>c \<in> set cs. packable c)"

lemma pack_node_info_of:
  assumes "class_list_ok cs"
  shows "zwave_command_class_list_pack ndebug (node_info_of cs) = Some (pack_loop cs)"
proof -
  have "unat (of_nat (length cs) :: u8) = length cs"
    using assms by (simp add: class_list_ok_def unat_of_nat)
  then show ?thesis
    using assms by (simp add: zwave_command_class_list_pack_def node_info_of_def class_list_ok_def)
qed

lemma pack_unpack:
  assumes "class_list_ok cs"
  shows "\<exists>bs info'. zwave_command_class_list_pack ndebug (node_info_of cs) = Some bs \<and>
           zwave_command_class_list_unpack ndebug' empty_node_info bs = Some info' \<and> classes_of info' = cs"
proof -
  have "pack_loop cs \<noteq> []" using assms by (cases cs) (simp_all add: class_list_ok_def)
  then show ?thesis
    using nif_unpack_exists [OF nif_classes_pack [of cs], of empty_node_info ndebug'] assms pack_node_info_of [OF assms]
    by (auto simp: class_list_ok_def empty_node_info_def)
qed

interpretation nif: byte_codec class_list_ok
  "\<lambda>cs. zwave_command_class_list_pack ndebug (node_info_of cs)"
  "\<lambda>bs. map_option classes_of (zwave_command_class_list_unpack ndebug empty_node_info bs)" for ndebug
  by unfold_locales (use pack_unpack in fastforce)

text \<open>
  C37. Packing a list of at most 64 command classes, each below 0xF1 or from 0xF100 on, and
  unpacking the frame gives the same list back, with assertions on or off; two different
  such lists have different frames.
\<close>

theorem nif_pack_unpack_roundtrip:
  assumes "class_list_ok cs"
  shows "\<exists>bs info'. zwave_command_class_list_pack ndebug (node_info_of cs) = Some bs \<and>
           zwave_command_class_list_unpack ndebug empty_node_info bs = Some info' \<and> classes_of info' = cs \<and>
           (\<forall>ds. class_list_ok ds \<and> zwave_command_class_list_pack ndebug (node_info_of ds) = Some bs \<longrightarrow> ds = cs)"
proof -
  obtain bs info' where "zwave_command_class_list_pack ndebug (node_info_of cs) = Some bs"
      "zwave_command_class_list_unpack ndebug empty_node_info bs = Some info'" "classes_of info' = cs"
    using pack_unpack [OF assms] by blast
  with nif.encode_inj [OF _ assms, of _ ndebug] show ?thesis by auto
qed

theorem nif_pack_unpack_roundtrip_witness:
  "\<exists>bs info'. zwave_command_class_list_pack False (node_info_of [0x9F, 0xF203]) = Some bs \<and>
     zwave_command_class_list_unpack False empty_node_info bs = Some info' \<and> classes_of info' = [0x9F, 0xF203]"
  using nif_pack_unpack_roundtrip [of "[0x9F, 0xF203]" False] by (auto simp: class_list_ok_def packable_def)

section \<open>Looking up a command class\<close>

lemma dangling_byte:
  assumes "(b :: u8) \<ge> 0xF0" and "cc < 0xF0 \<or> cc > 0xFF"
  shows "cc \<noteq> (ucast b :: u16)"
proof
  assume "cc = ucast b"
  then have "unat cc = unat b" by (simp add: unsigned_ucast_eq take_bit_nat_eq_self_iff order_less_trans [OF unat_u8_bound])
  with assms show False
    using unat_u8_bound [of b] by (auto simp: word_le_nat_alt word_less_nat_alt)
qed

lemma parse_loop_two:
  assumes "k < ZWAVE_MAX_NIF_SIZE"
  shows "fst (parse_loop (b # b' # bs) k) =
    (if b = COMMAND_CLASS_CONTROL_MARK then []
     else if b \<ge> EXTENDED_COMMAND_CLASS_IDENTIFIER_START then extended_class b b' # fst (parse_loop bs (k + 2))
     else ucast b # fst (parse_loop (b' # bs) (k + 1)))"
  unfolding parse_loop.simps(2) [of b "b' # bs" k] using assms
  by (simp add: case_prod_unfold del: parse_loop.simps)

lemma parse_loop_supported:
  "cc < 0xF0 \<or> cc > 0xFF \<Longrightarrow> k + length nif \<le> ZWAVE_MAX_NIF_SIZE \<Longrightarrow>
   cc \<in> set (fst (parse_loop nif k)) \<longleftrightarrow> supported_loop cc nif"
proof (induction cc nif arbitrary: k rule: supported_loop.induct)
  case (2 cc b)
  then show ?case using dangling_byte [of b cc] by auto
next
  case (3 cc b b' bs)
  have "cc \<in> set (fst (parse_loop bs (k + 2))) \<longleftrightarrow> supported_loop cc bs"
    if "b \<noteq> 0xEF" "b \<ge> 0xF0" "cc \<noteq> extended_class b b'"
    using 3(1) [OF that 3(3)] 3(4) by simp
  moreover have "cc \<in> set (fst (parse_loop (b' # bs) (k + 1))) \<longleftrightarrow> supported_loop cc (b' # bs)"
    if "b \<noteq> 0xEF" "\<not> b \<ge> 0xF0" "cc \<noteq> ucast b"
    using 3(2) [OF that 3(3)] 3(4) by simp
  ultimately show ?case
    using 3(4) parse_loop_two [of k b b' bs] by (auto simp del: parse_loop.simps)
qed simp

text \<open>
  The quick lookup agrees with the full parser: for frames within the maximum size, a
  command class is reported as supported exactly when parsing the frame lists it before
  the control mark. The identifiers 0xF0 to 0xFF are excepted: they are no command
  classes, but the lookup would find one that is the cut-off last byte of a frame.
\<close>

theorem supported_lookup_agrees_with_parser:
  assumes "length nif \<le> ZWAVE_MAX_NIF_SIZE" and "cc < 0xF0 \<or> cc > 0xFF"
  shows "is_command_class_in_supported_list cc nif \<longleftrightarrow>
           (\<exists>cs. fst (zwave_parse_nif nif True controlled) = Some cs \<and> cc \<in> set cs)"
  using parse_loop_supported [OF assms(2), of 0 nif] assms(1)
  by (auto simp: is_command_class_in_supported_list_def zwave_parse_nif_def
      zwave_parse_nif_list_until_marker_or_end_def case_prod_unfold)

theorem supported_lookup_agrees_with_parser_witness:
  "is_command_class_in_supported_list 0xF201 [0x25, 0xF2, 0x01, 0xEF, 0x26] \<longleftrightarrow>
     (\<exists>cs. fst (zwave_parse_nif [0x25, 0xF2, 0x01, 0xEF, 0x26] True True) = Some cs \<and> 0xF201 \<in> set cs)"
  by (rule supported_lookup_agrees_with_parser) simp_all

end
