(* ===== verification/Nm_State.thy ===== *)
theory Nm_State
  imports Node_Mask Controller_Nif
begin

text \<open>
  The data of the network management component (\<^verbatim>\<open>zwave/zwave_network_management\<close>): the
  control structure \<^verbatim>\<open>nms\<close> of \<^verbatim>\<open>nm_state_machine.h\<close>, the event queue of
  \<^verbatim>\<open>zwave_network_management_process.cpp\<close>, the return route queue, the calls the component
  makes to the layers around it, and the helpers of
  \<^verbatim>\<open>zwave_network_management_helpers.c\<close>. What the Z-Wave module and the other components
  answer is an environment: functions of the calls made so far.
\<close>

section \<open>Data\<close>

type_synonym keyset = u8
type_synonym dsk = "u8 list"
type_synonym clock_time = "64 word"

abbreviation (input) ZWAVE_DSK_LENGTH :: nat where "ZWAVE_DSK_LENGTH \<equiv> 16"

datatype zwave_protocol = PROTOCOL_ZWAVE | PROTOCOL_ZWAVE_LONG_RANGE | PROTOCOL_UNKNOWN

datatype kex_fail_type =
  KEX_FAIL_NONE | KEX_FAIL_KEX_KEY | KEX_FAIL_KEX_SCHEME | KEX_FAIL_KEX_CURVES | KEX_FAIL_DECRYPT
| KEX_FAIL_CANCEL | KEX_FAIL_AUTH | KEX_FAIL_KEY_GET | KEX_FAIL_KEY_VERIFY | KEX_FAIL_KEY_REPORT
| KEX_FAIL_UNKNOWN

datatype learn_mode = LEARN_NONE | LEARN_NWI | LEARN_NWE | LEARN_SMART_START

datatype nm_state =
  NM_IDLE | NM_WAITING_FOR_ADD | NM_NODE_FOUND | NM_WAIT_FOR_PROTOCOL | NM_SET_DEFAULT
| NM_LEARN_MODE | NM_LEARN_MODE_STARTED | NM_WAIT_FOR_SECURE_ADD | NM_WAITING_FOR_NODE_REMOVAL
| NM_WAITING_FOR_FAILED_NODE_REMOVAL | NM_WAIT_FOR_SECURE_LEARN | NM_REPLACE_FAILED_REQ
| NM_PREPARE_SUC_INCLISION | NM_WAIT_FOR_SUC_INCLUSION | NM_PROXY_INCLUSION_WAIT_NIF
| NM_WAIT_FOR_TX_TO_SELF_DESTRUCT | NM_WAIT_FOR_SELF_DESTRUCT_REMOVAL | NM_FAILED_NODE_REMOVE
| NM_SEND_NOP | NM_ASSIGNING_RETURN_ROUTE | NM_NEIGHBOR_DISCOVERY_ONGOING

datatype nm_activity =
  ACTIVITY_IDLE | ACTIVITY_INCLUSION_ONGOING | ACTIVITY_EXCLUSION_ONGOING
| ACTIVITY_LEARNING_ONGOING | ACTIVITY_INTERNAL_ONGOING | ACTIVITY_UNKNOWN

datatype nm_s2_user_input =
  NM_S2_USER_INPUT_NONE | NM_S2_USER_INPUT_GRANT_KEYS | NM_S2_USER_INPUT_ACCEPT_DSK

datatype nm_error =
  ERROR_NODE_ADD_FAIL | ERROR_FAILED_NODE_REMOVE_FAIL | ERROR_NODE_LEARN_MODE_FAIL
| ERROR_NODE_SMART_START_INCLUSION_SECURITY_FAIL

datatype (plugins only: code size) nm_event =
  NM_EV_ADD_LEARN_READY | NM_EV_ADD_NODE_FOUND | NM_EV_ADD_CONTROLLER | NM_EV_ADD_PROTOCOL_DONE
| NM_EV_ADD_END_NODE | NM_EV_ADD_FAILED | NM_EV_ADD_NOT_PRIMARY | NM_EV_ADD_NODE_STATUS_DONE
| NM_EV_NODE_ADD | NM_EV_TIMEOUT | NM_EV_SECURITY_DONE | NM_EV_S0_STARTED
| NM_EV_ADD_SECURITY_REQ_KEYS | NM_EV_ADD_SECURITY_KEY_CHALLENGE | NM_EV_NODE_ADD_S2
| NM_EV_ADD_SECURITY_KEYS_SET | NM_EV_ADD_SECURITY_DSK_SET | NM_EV_REPLACE_FAILED_START
| NM_EV_REPLACE_FAILED_STOP | NM_EV_REPLACE_FAILED_DONE | NM_EV_REPLACE_FAILED_FAIL
| NM_EV_REPLACE_FAILED_START_S2 | NM_EV_LEARN_SET | NM_EV_LEARN_STARTED | NM_EV_LEARN_DONE
| NM_EV_LEARN_STOP | NM_EV_LEARN_FAILED | NM_EV_REQUEST_NODE_LIST | NM_EV_REQUEST_FAILED_NODE_LIST
| NM_EV_PROXY_COMPLETE | NM_EV_START_PROXY_INCLUSION | NM_EV_START_PROXY_REPLACE | NM_EV_NODE_INFO
| NM_EV_FRAME_RECEIVED | NM_EV_NODE_ADD_SMART_START | NM_EV_REMOVE_FAILED | NM_EV_REMOVE_FAILED_OK
| NM_EV_REMOVE_FAILED_FAIL | NM_EV_SMART_START_ENABLE | NM_EV_SET_DEFAULT
| NM_EV_SET_DEFAULT_COMPLETE | NM_EV_NODE_REMOVE | NM_EV_NODE_REMOVE_FAILED
| NM_EV_NODE_REMOVE_COMPLETE | NM_EV_ABORT | NM_EV_NOP_FAIL | NM_EV_NOP_SUCCESS
| NM_EV_REQUEST_NODE_NEIGHBOR_REQUEST | NM_EV_REQUEST_NODE_NEIGHBOR_REQUEST_COMPLETE
| NM_EV_ASSIGN_RETURN_ROUTE_START | NM_EV_ASSIGN_RETURN_ROUTE_COMPLETED

text \<open>Sub-state flags, a C \<^verbatim>\<open>int\<close>.\<close>

abbreviation (input) NMS_FLAG_S2_ADD :: u32 where "NMS_FLAG_S2_ADD \<equiv> 1"
abbreviation (input) NMS_FLAG_SMART_START_INCLUSION :: u32 where "NMS_FLAG_SMART_START_INCLUSION \<equiv> 0x40"
abbreviation (input) NMS_FLAG_REPORT_DSK :: u32 where "NMS_FLAG_REPORT_DSK \<equiv> 0x80"

text \<open>
  The control structure. The timer is the number of milliseconds it was set to, or
  \<open>None\<close> when it is stopped or has fired.
\<close>

record network_mgmt_state =
  cached_home_id :: u32
  cached_local_node_id :: node_id
  cached_node_list :: nodemask
  controller_capabilities_bitmask :: u8
  node_id_being_handled :: node_id
  exclusion_node_id_filter :: node_id
  state :: nm_state
  flags :: u32
  expected_dsk :: dsk
  reported_dsk :: dsk
  verified_dsk_input :: dsk
  reported_dsk_blanked :: u8
  requested_keys :: keyset
  expected_s2_user_input :: nm_s2_user_input
  requested_csa :: bool
  accepted_s2_bootstrapping :: bool
  accepted_csa :: bool
  s2_bootstrapping_started :: bool
  kex_fail_type :: kex_fail_type
  granted_keys :: keyset
  inclusion_protocol :: zwave_protocol
  status :: sl_status
  node_info :: node_info
  smart_start_add_mode_enabled :: bool
  smart_start_learn_mode_enabled :: bool
  timer :: "nat option"
  learn_mode_intent :: learn_mode
  is_controller :: u8
  proxy_inclusion_step :: u8
  s0_inclusion_enabled :: bool

text \<open>The structure after \<^verbatim>\<open>memset(&nms, 0, sizeof(nms))\<close>.\<close>

definition zero_nms :: network_mgmt_state where
  "zero_nms = \<lparr>cached_home_id = 0, cached_local_node_id = 0, cached_node_list = replicate ZW_LR_MAX_NODEMASK_LENGTH 0,
     controller_capabilities_bitmask = 0, node_id_being_handled = 0, exclusion_node_id_filter = 0, state = NM_IDLE,
     flags = 0, expected_dsk = replicate ZWAVE_DSK_LENGTH 0, reported_dsk = replicate ZWAVE_DSK_LENGTH 0,
     verified_dsk_input = replicate ZWAVE_DSK_LENGTH 0, reported_dsk_blanked = 0, requested_keys = 0,
     expected_s2_user_input = NM_S2_USER_INPUT_NONE, requested_csa = False, accepted_s2_bootstrapping = False,
     accepted_csa = False, s2_bootstrapping_started = False, kex_fail_type = KEX_FAIL_NONE, granted_keys = 0,
     inclusion_protocol = PROTOCOL_ZWAVE, status = 0, node_info = empty_node_info, smart_start_add_mode_enabled = False,
     smart_start_learn_mode_enabled = False, timer = None, learn_mode_intent = LEARN_NONE, is_controller = 0,
     proxy_inclusion_step = 0, s0_inclusion_enabled = False\<rparr>"

text \<open>\<^verbatim>\<open>LEARN_INFO\<close>; a null \<open>pCmd\<close> is the empty list.\<close>

record learn_info =
  bStatus :: u8
  bSource :: node_id
  bLen :: u8
  pCmd :: "u8 list"

record smartstart_event_data =
  ss_dsk :: dsk
  ss_granted_keys :: keyset
  ss_preferred_inclusion :: zwave_protocol

text \<open>
  The data of a queued event. \<open>Inf_bkup\<close> is the pointer to the static \<^verbatim>\<open>inf_bkup\<close>, read
  when the event is handled; SmartStart data is copied into the queue entry.
\<close>

datatype nm_event_data = Null | Inf_bkup | Smartstart smartstart_event_data | Node_id node_id

datatype route_state =
  ROUTE_STATE_UNASSIGNED_ENTRY | ROUTE_STATE_NOT_ESTABLISHED | ROUTE_STATE_IN_PROGRESS | ROUTE_STATE_ESTABLISHED

record assign_return_route =
  route_node_id :: node_id
  route_destination_node_id :: node_id
  route_state :: route_state
  reuse_timestamp :: clock_time

datatype remove_failed_status =
  REMOVE_FAILED_STATUS_OPERATION_FAILED | REMOVE_FAILED_STATUS_NOT_REMOVED | REMOVE_FAILED_STATUS_NODE_ONLINE
| REMOVE_FAILED_STATUS_OPERATION_ABORTED | REMOVE_FAILED_STATUS_OPERATION_SUCCESSFUL | REMOVE_FAILED_STATUS_TIMEOUT

text \<open>
  The calls to the surrounding layers, with the arguments that matter; the flag of the
  Z-Wave API calls says whether a callback is passed.
\<close>

datatype (plugins only: code size) nm_call =
  Zwapi_add_node_to_network u8 bool
| Zwapi_add_smartstart_node_to_network u8 "u8 list"
| Zwapi_remove_node_from_network u8 bool
| Zwapi_remove_node_id_from_network u8 node_id bool
| Zwapi_set_learn_mode u8 bool
| Zwapi_set_default
| Zwapi_soft_reset
| Zwapi_remove_failed_node node_id
| Zwapi_request_neighbor_update node_id
| Zwapi_assign_return_route node_id node_id
| Zwapi_set_suc_node_id node_id
| Zwapi_memory_get_ids
| Zwapi_get_full_node_list
| Zwapi_get_controller_capabilities
| Zwapi_get_protocol_info node_id
| Tx_send_nop node_id
| Clock_time
| S2_set_node_add_active bool
| S2_start_add_node node_id
| S2_key_grant u8 keyset bool
| S2_dsk_accept u8 dsk u8
| S2_abort_join
| S2_start_learn_mode node_id
| S2_neighbor_discovery_complete
| S2_create_new_network_keys
| S2_network_init
| S2_keystore_get_assigned_keys
| S2_keystore_reset_assigned_keys
| S0_start_bootstrapping node_id u8
| S0_stop_bootstrapping
| S0_start_learn_mode node_id
| On_node_added sl_status node_info node_id dsk keyset kex_fail_type zwave_protocol
| On_node_deleted node_id
| On_node_id_assigned node_id zwave_protocol
| On_error nm_error
| On_keys_report bool keyset
| On_dsk_report u8 dsk keyset
| On_new_network_entered u32 node_id keyset kex_fail_type
| On_network_address_update u32 node_id
| On_state_updated nm_state
| On_reset_step_complete
| On_request_neighbor_update u8
| Publish_remove_failed_report node_id remove_failed_status
| Storage_set_node_s2_capable node_id
| Mqtt_reset_subscriptions u32

text \<open>
  The static variables of the component and what it has done: \<open>events\<close> is the queue of the
  handler thread, oldest first, and \<open>calls\<close> the calls made, oldest first.
\<close>

record nm_world =
  nms :: network_mgmt_state
  routes :: "assign_return_route list"
  events :: "(nm_event \<times> nm_event_data) list"
  inf_bkup :: learn_info
  info_buf :: "u8 list"
  calls :: "nm_call list"

text \<open>
  What the surroundings answer, as functions of the calls made so far, the last of which is
  the call that is answered. A call that fails leaves its output as it was, so reading
  the IDs may give nothing and reading the node list starts from the old list. \<open>smartstart_dsks\<close>
  are the DSKs of the SmartStart list, in its order. \<open>ndebug\<close> says whether assertions are
  compiled out.
\<close>

record nm_env =
  ndebug :: bool
  memory_get_ids :: "nm_call list \<Rightarrow> (u32 \<times> node_id) option"
  get_full_node_list :: "nm_call list \<Rightarrow> nodemask \<Rightarrow> nodemask"
  get_controller_capabilities :: "nm_call list \<Rightarrow> u8"
  get_protocol_info :: "nm_call list \<Rightarrow> u8 \<times> u8"
  keystore_get_assigned_keys :: "nm_call list \<Rightarrow> keyset"
  remove_failed_node_rc :: "nm_call list \<Rightarrow> u8"
  remove_node_rc :: "nm_call list \<Rightarrow> sl_status"
  request_neighbor_update_rc :: "nm_call list \<Rightarrow> sl_status"
  assign_return_route_rc :: "nm_call list \<Rightarrow> sl_status"
  tx_send_data_rc :: "nm_call list \<Rightarrow> sl_status"
  is_reset_ongoing :: "nm_call list \<Rightarrow> bool"
  clock_time :: "nm_call list \<Rightarrow> clock_time"
  smartstart_dsks :: "nm_call list \<Rightarrow> dsk list"

section \<open>Elementary steps\<close>

definition call :: "nm_call \<Rightarrow> nm_world \<Rightarrow> nm_world" where
  "call c w = w\<lparr>calls := calls w @ [c]\<rparr>"

text \<open>\<^verbatim>\<open>zwave_network_management_post_event\<close> appends to the queue of the handler thread.\<close>

definition zwave_network_management_post_event :: "nm_event \<Rightarrow> nm_event_data \<Rightarrow> nm_world \<Rightarrow> nm_world" where
  "zwave_network_management_post_event ev d w = w\<lparr>events := events w @ [(ev, d)]\<rparr>"

definition set_state :: "nm_state \<Rightarrow> nm_world \<Rightarrow> nm_world" where
  "set_state s w = w\<lparr>nms := (nms w)\<lparr>state := s\<rparr>\<rparr>"

definition timer_set :: "nat \<Rightarrow> nm_world \<Rightarrow> nm_world" where
  "timer_set ms w = w\<lparr>nms := (nms w)\<lparr>timer := Some ms\<rparr>\<rparr>"

definition timer_stop :: "nm_world \<Rightarrow> nm_world" where
  "timer_stop w = w\<lparr>nms := (nms w)\<lparr>timer := None\<rparr>\<rparr>"

abbreviation (input) has_flag :: "u32 \<Rightarrow> nm_world \<Rightarrow> bool" where
  "has_flag f w \<equiv> flags (nms w) AND f \<noteq> 0"

abbreviation "nm_state_of w \<equiv> state (nms w)"

lemma elementary_simps [simp]:
  "nms (call c w) = nms w" "routes (call c w) = routes w" "events (call c w) = events w"
  "inf_bkup (call c w) = inf_bkup w" "info_buf (call c w) = info_buf w" "calls (call c w) = calls w @ [c]"
  "nms (zwave_network_management_post_event ev d w) = nms w"
  "routes (zwave_network_management_post_event ev d w) = routes w"
  "events (zwave_network_management_post_event ev d w) = events w @ [(ev, d)]"
  "inf_bkup (zwave_network_management_post_event ev d w) = inf_bkup w"
  "calls (zwave_network_management_post_event ev d w) = calls w"
  "nms (set_state s w) = (nms w)\<lparr>state := s\<rparr>" "routes (set_state s w) = routes w"
  "events (set_state s w) = events w" "calls (set_state s w) = calls w" "inf_bkup (set_state s w) = inf_bkup w"
  "nms (timer_set ms w) = (nms w)\<lparr>timer := Some ms\<rparr>" "routes (timer_set ms w) = routes w"
  "events (timer_set ms w) = events w" "calls (timer_set ms w) = calls w" "inf_bkup (timer_set ms w) = inf_bkup w"
  "nms (timer_stop w) = (nms w)\<lparr>timer := None\<rparr>" "routes (timer_stop w) = routes w"
  "events (timer_stop w) = events w" "calls (timer_stop w) = calls w" "inf_bkup (timer_stop w) = inf_bkup w"
  by (simp_all add: call_def zwave_network_management_post_event_def set_state_def timer_set_def timer_stop_def)

section \<open>Helpers\<close>

definition reset_nms_last_operation_data :: "nm_world \<Rightarrow> nm_world" where
  "reset_nms_last_operation_data w = w\<lparr>nms := (nms w)
     \<lparr>node_id_being_handled := 0, exclusion_node_id_filter := 0, is_controller := 0, flags := 0,
      inclusion_protocol := PROTOCOL_ZWAVE, requested_csa := False, requested_keys := 0,
      expected_s2_user_input := NM_S2_USER_INPUT_NONE, reported_dsk_blanked := 0,
      kex_fail_type := KEX_FAIL_NONE, s2_bootstrapping_started := False, learn_mode_intent := LEARN_NONE,
      reported_dsk := replicate ZWAVE_DSK_LENGTH 0, expected_dsk := replicate ZWAVE_DSK_LENGTH 0,
      verified_dsk_input := replicate ZWAVE_DSK_LENGTH 0\<rparr>\<rparr>"

definition we_are_alone_in_our_network :: "nm_world \<Rightarrow> bool" where
  "we_are_alone_in_our_network w =
     list_all (\<lambda>n. n = cached_local_node_id (nms w) \<or> \<not> ZW_IS_NODE_IN_MASK n (cached_node_list (nms w))) node_range"

definition network_management_is_ready_for_a_new_operation :: "nm_env \<Rightarrow> nm_world \<Rightarrow> bool" where
  "network_management_is_ready_for_a_new_operation env w =
     (if nm_state_of w \<noteq> NM_IDLE then False else if is_reset_ongoing env (calls w) then False else True)"

definition network_management_refresh_cached_ids :: "nm_env \<Rightarrow> nm_world \<Rightarrow> nm_world" where
  "network_management_refresh_cached_ids env w =
     (let w = call Zwapi_memory_get_ids w
      in case memory_get_ids env (calls w) of
           None \<Rightarrow> w
         | Some (home, node) \<Rightarrow> w\<lparr>nms := (nms w)\<lparr>cached_home_id := home, cached_local_node_id := node\<rparr>\<rparr>)"

definition network_management_refresh_cached_node_list :: "nm_env \<Rightarrow> nm_world \<Rightarrow> nm_world" where
  "network_management_refresh_cached_node_list env w =
     (let w = call Zwapi_get_full_node_list w
      in w\<lparr>nms := (nms w)\<lparr>cached_node_list := get_full_node_list env (calls w) (cached_node_list (nms w))\<rparr>\<rparr>)"

definition network_management_refresh_controller_capabilities_bitmask :: "nm_env \<Rightarrow> nm_world \<Rightarrow> nm_world" where
  "network_management_refresh_controller_capabilities_bitmask env w =
     (let w = call Zwapi_get_controller_capabilities w
      in w\<lparr>nms := (nms w)\<lparr>controller_capabilities_bitmask := get_controller_capabilities env (calls w)\<rparr>\<rparr>)"

definition network_management_refresh_network_information :: "nm_env \<Rightarrow> nm_world \<Rightarrow> nm_world" where
  "network_management_refresh_network_information env w =
     network_management_refresh_controller_capabilities_bitmask env
       (network_management_refresh_cached_node_list env (network_management_refresh_cached_ids env w))"

abbreviation (input) ADD_NODE_ANY :: u8 where "ADD_NODE_ANY \<equiv> 1"
abbreviation (input) ADD_NODE_STOP :: u8 where "ADD_NODE_STOP \<equiv> 5"
abbreviation (input) ADD_NODE_STOP_FAILED :: u8 where "ADD_NODE_STOP_FAILED \<equiv> 6"
abbreviation (input) ADD_NODE_HOME_ID :: u8 where "ADD_NODE_HOME_ID \<equiv> 8"
abbreviation (input) ADD_NODE_SMART_START :: u8 where "ADD_NODE_SMART_START \<equiv> 9"
abbreviation (input) ADD_NODE_OPTION_NETWORK_WIDE :: u8 where "ADD_NODE_OPTION_NETWORK_WIDE \<equiv> 0x40"
abbreviation (input) ADD_NODE_OPTION_LONG_RANGE :: u8 where "ADD_NODE_OPTION_LONG_RANGE \<equiv> 0x20"
abbreviation (input) LEARN_MODE_DISABLE :: u8 where "LEARN_MODE_DISABLE \<equiv> 0"
abbreviation (input) LEARN_MODE_NWI :: u8 where "LEARN_MODE_NWI \<equiv> 0x81"
abbreviation (input) LEARN_MODE_NWE :: u8 where "LEARN_MODE_NWE \<equiv> 0x83"
abbreviation (input) LEARN_MODE_SMART_START :: u8 where "LEARN_MODE_SMART_START \<equiv> 0x84"

definition network_management_stop_ongoing_operations :: "nm_world \<Rightarrow> nm_world" where
  "network_management_stop_ongoing_operations w =
     call (Zwapi_set_learn_mode LEARN_MODE_DISABLE False)
       (call (Zwapi_remove_node_from_network ADD_NODE_STOP False)
         (call (Zwapi_add_node_to_network ADD_NODE_STOP False) w))"

abbreviation (input) S2_AUTHENTICATED_KEY :: keyset where "S2_AUTHENTICATED_KEY \<equiv> 0x02"
abbreviation (input) S2_ACCESS_KEY :: keyset where "S2_ACCESS_KEY \<equiv> 0x04"

definition we_should_self_destruct :: "nm_world \<Rightarrow> bool" where
  "we_should_self_destruct w =
     (let n = nms w in
      if learn_mode_intent n \<noteq> LEARN_SMART_START then False
      else if kex_fail_type n \<noteq> KEX_FAIL_NONE \<or> \<not> s2_bootstrapping_started n then True
      else if IS_ZWAVE_NODE_ID (cached_local_node_id n) then False
      else if IS_ZWAVE_EXTENDED_NODE_ID (cached_local_node_id n)
      then \<not> (granted_keys n AND (S2_AUTHENTICATED_KEY OR S2_ACCESS_KEY) \<noteq> 0)
      else True)"

abbreviation (input) CONTROLLER_IS_SECONDARY :: u8 where "CONTROLLER_IS_SECONDARY \<equiv> 0x01"
abbreviation (input) CONTROLLER_NODEID_SERVER_PRESENT :: u8 where "CONTROLLER_NODEID_SERVER_PRESENT \<equiv> 0x04"
abbreviation (input) CONTROLLER_IS_SUC :: u8 where "CONTROLLER_IS_SUC \<equiv> 0x10"

definition network_management_take_sis_role_if_no_suc_in_network :: "nm_env \<Rightarrow> nm_world \<Rightarrow> nm_world" where
  "network_management_take_sis_role_if_no_suc_in_network env w =
     (if controller_capabilities_bitmask (nms w) AND (CONTROLLER_NODEID_SERVER_PRESENT OR CONTROLLER_IS_SECONDARY) = 0
      then network_management_refresh_controller_capabilities_bitmask env
             (call (Zwapi_set_suc_node_id (cached_local_node_id (nms w))) w)
      else w)"

definition zwave_network_management_is_zpc_sis :: "nm_world \<Rightarrow> bool" where
  "zwave_network_management_is_zpc_sis w =
     (let c = controller_capabilities_bitmask (nms w)
      in c AND CONTROLLER_IS_SECONDARY = 0 \<and> c AND CONTROLLER_NODEID_SERVER_PRESENT \<noteq> 0 \<and> c AND CONTROLLER_IS_SUC \<noteq> 0)"

section \<open>A concrete environment\<close>

text \<open>An environment in which every call succeeds, to evaluate the operations in.\<close>

definition sample_env :: nm_env where
  "sample_env = \<lparr>ndebug = True, memory_get_ids = (\<lambda>_. Some (0xC0FFEE01, 1)), get_full_node_list = (\<lambda>_ m. m),
     get_controller_capabilities = (\<lambda>_. 0x1C), get_protocol_info = (\<lambda>_. (0xD3, 0x16)),
     keystore_get_assigned_keys = (\<lambda>_. 0x87), remove_failed_node_rc = (\<lambda>_. 0), remove_node_rc = (\<lambda>_. 0),
     request_neighbor_update_rc = (\<lambda>_. 0), assign_return_route_rc = (\<lambda>_. 0), tx_send_data_rc = (\<lambda>_. 0),
     is_reset_ongoing = (\<lambda>_. False), clock_time = (\<lambda>cs. of_nat (length cs)), smartstart_dsks = (\<lambda>_. [])\<rparr>"

end
