(* ===== verification/Return_Routes.thy ===== *)
theory Return_Routes
  imports Nm_State
begin

text \<open>
  The queue of return routes to assign, \<^verbatim>\<open>zwave_network_management_return_route_queue.c\<close>:
  ten entries, one assignment at a time, and a cooldown before the same route may be
  assigned again. The lemmas give the invariant of the queue, that it is kept by every
  operation in every order, and that the state machine is told when nothing is left.
\<close>

section \<open>Definitions\<close>

abbreviation (input) ASSIGN_RETURN_ROUTE_QUEUE_SIZE :: nat where "ASSIGN_RETURN_ROUTE_QUEUE_SIZE \<equiv> 10"
abbreviation (input) ASSIGN_RETURN_ROUTE_COOLDOWN :: clock_time where "ASSIGN_RETURN_ROUTE_COOLDOWN \<equiv> 60000"
abbreviation (input) UNASSIGNED_ENTRY :: node_id where "UNASSIGNED_ENTRY \<equiv> 0"

definition cleared_entry :: assign_return_route where
  "cleared_entry = \<lparr>route_node_id = UNASSIGNED_ENTRY, route_destination_node_id = UNASSIGNED_ENTRY,
     route_state = ROUTE_STATE_UNASSIGNED_ENTRY, reuse_timestamp = 0\<rparr>"

definition set_route :: "nat \<Rightarrow> assign_return_route \<Rightarrow> nm_world \<Rightarrow> nm_world" where
  "set_route i e w = w\<lparr>routes := (routes w)[i := e]\<rparr>"

definition clear_queue_entry :: "nat \<Rightarrow> nm_world \<Rightarrow> nm_world" where
  "clear_queue_entry i w = set_route i cleared_entry w"

definition zwave_network_management_return_route_clear_queue :: "nm_world \<Rightarrow> nm_world" where
  "zwave_network_management_return_route_clear_queue w =
     fold clear_queue_entry [0..<ASSIGN_RETURN_ROUTE_QUEUE_SIZE] w"

definition we_have_return_routes_to_assign :: "node_id \<Rightarrow> nm_world \<Rightarrow> bool" where
  "we_have_return_routes_to_assign n w =
     list_ex (\<lambda>e. route_node_id e = n \<and> route_state e \<noteq> ROUTE_STATE_ESTABLISHED) (routes w)"

text \<open>
  The two loops of \<^verbatim>\<open>zwave_network_management_return_route_add_to_queue\<close>. The first clears
  the entries whose cooldown is over and stops at an entry with the same route; the
  second takes the first free entry.
\<close>

fun add_check_loop :: "nm_env \<Rightarrow> node_id \<Rightarrow> node_id \<Rightarrow> nat list \<Rightarrow> nm_world \<Rightarrow> bool \<times> nm_world" where
  "add_check_loop env n d [] w = (False, w)"
| "add_check_loop env n d (i # is) w =
     (let w = (if route_state (routes w ! i) = ROUTE_STATE_ESTABLISHED
               then let w = call Clock_time w
                    in if reuse_timestamp (routes w ! i) < clock_time env (calls w) then clear_queue_entry i w else w
               else w)
      in if route_node_id (routes w ! i) = n \<and> route_destination_node_id (routes w ! i) = d
         then (True, w) else add_check_loop env n d is w)"

fun add_place_loop :: "node_id \<Rightarrow> node_id \<Rightarrow> nat list \<Rightarrow> nm_world \<Rightarrow> sl_status \<times> nm_world" where
  "add_place_loop n d [] w = (SL_STATUS_FAIL, w)"
| "add_place_loop n d (i # is) w =
     (if route_node_id (routes w ! i) = UNASSIGNED_ENTRY
      then (SL_STATUS_OK,
            zwave_network_management_post_event NM_EV_ASSIGN_RETURN_ROUTE_START Null
              (set_route i ((routes w ! i)\<lparr>route_node_id := n, route_destination_node_id := d,
                                          route_state := ROUTE_STATE_NOT_ESTABLISHED\<rparr>) w))
      else add_place_loop n d is w)"

definition zwave_network_management_return_route_add_to_queue ::
  "nm_env \<Rightarrow> node_id \<Rightarrow> node_id \<Rightarrow> nm_world \<Rightarrow> sl_status \<times> nm_world" where
  "zwave_network_management_return_route_add_to_queue env n d w =
     (case add_check_loop env n d [0..<ASSIGN_RETURN_ROUTE_QUEUE_SIZE] w of (found, w) \<Rightarrow>
        if found then (SL_STATUS_OK, w) else add_place_loop n d [0..<ASSIGN_RETURN_ROUTE_QUEUE_SIZE] w)"

text \<open>An entry that is done: established, with a new cooldown.\<close>

definition finish_route :: "nm_env \<Rightarrow> nat \<Rightarrow> nm_world \<Rightarrow> nm_world" where
  "finish_route env i w =
     (let w = call Clock_time w
      in set_route i ((routes w ! i)\<lparr>route_state := ROUTE_STATE_ESTABLISHED,
           reuse_timestamp := clock_time env (calls w) + ASSIGN_RETURN_ROUTE_COOLDOWN\<rparr>) w)"

fun assign_loop :: "nm_env \<Rightarrow> nat list \<Rightarrow> nm_world \<Rightarrow> sl_status \<times> nm_world" where
  "assign_loop env [] w = (SL_STATUS_IDLE, w)"
| "assign_loop env (i # is) w =
     (if route_state (routes w ! i) = ROUTE_STATE_NOT_ESTABLISHED
      then let e = routes w ! i;
               w = call (Zwapi_assign_return_route (route_node_id e) (route_destination_node_id e)) w
           in if assign_return_route_rc env (calls w) = SL_STATUS_OK
              then (SL_STATUS_IN_PROGRESS, set_route i (e\<lparr>route_state := ROUTE_STATE_IN_PROGRESS\<rparr>) w)
              else assign_loop env is (finish_route env i w)
      else assign_loop env is w)"

definition zwave_network_management_return_route_assign_next :: "nm_env \<Rightarrow> nm_world \<Rightarrow> sl_status \<times> nm_world" where
  "zwave_network_management_return_route_assign_next env w =
     (if list_ex (\<lambda>e. route_state e = ROUTE_STATE_IN_PROGRESS) (routes w) then (SL_STATUS_IN_PROGRESS, w)
      else assign_loop env [0..<ASSIGN_RETURN_ROUTE_QUEUE_SIZE] w)"

fun complete_loop :: "nm_env \<Rightarrow> nat list \<Rightarrow> nm_world \<Rightarrow> nm_world" where
  "complete_loop env [] w = w"
| "complete_loop env (i # is) w =
     complete_loop env is
       (if route_state (routes w ! i) = ROUTE_STATE_IN_PROGRESS then finish_route env i w else w)"

definition on_assign_return_route_complete :: "nm_env \<Rightarrow> u8 \<Rightarrow> nm_world \<Rightarrow> nm_world" where
  "on_assign_return_route_complete env st w =
     (case zwave_network_management_return_route_assign_next env
             (complete_loop env [0..<ASSIGN_RETURN_ROUTE_QUEUE_SIZE] w) of (s, w) \<Rightarrow>
        if s \<noteq> SL_STATUS_IN_PROGRESS
        then zwave_network_management_post_event NM_EV_ASSIGN_RETURN_ROUTE_COMPLETED Null w else w)"

section \<open>What the queue operations leave alone\<close>

lemma set_route_simps [simp]:
  "nms (set_route i e w) = nms w" "events (set_route i e w) = events w" "calls (set_route i e w) = calls w"
  "inf_bkup (set_route i e w) = inf_bkup w" "routes (set_route i e w) = (routes w)[i := e]"
  by (simp_all add: set_route_def)

lemma clear_queue_entry_simps [simp]:
  "nms (clear_queue_entry i w) = nms w" "events (clear_queue_entry i w) = events w"
  "calls (clear_queue_entry i w) = calls w" "routes (clear_queue_entry i w) = (routes w)[i := cleared_entry]"
  by (simp_all add: clear_queue_entry_def)

lemma finish_route_simps [simp]:
  "nms (finish_route env i w) = nms w" "events (finish_route env i w) = events w"
  "inf_bkup (finish_route env i w) = inf_bkup w"
  by (simp_all add: finish_route_def Let_def)

lemma fold_clear_nms [simp]: "nms (fold clear_queue_entry is w) = nms w" "events (fold clear_queue_entry is w) = events w"
  by (induction "is" arbitrary: w) simp_all

lemma clear_queue_nms [simp]:
  "nms (zwave_network_management_return_route_clear_queue w) = nms w"
  "events (zwave_network_management_return_route_clear_queue w) = events w"
  by (simp_all add: zwave_network_management_return_route_clear_queue_def)

lemma assign_loop_nms [simp]:
  "nms (snd (assign_loop env is w)) = nms w" "events (snd (assign_loop env is w)) = events w"
  by (induction "is" arbitrary: w) (simp_all add: Let_def)

lemma assign_next_nms [simp]:
  "nms (snd (zwave_network_management_return_route_assign_next env w)) = nms w"
  "events (snd (zwave_network_management_return_route_assign_next env w)) = events w"
  by (simp_all add: zwave_network_management_return_route_assign_next_def)

lemma complete_loop_nms [simp]:
  "nms (complete_loop env is w) = nms w" "events (complete_loop env is w) = events w"
  by (induction "is" arbitrary: w) simp_all

lemma on_assign_return_route_complete_nms [simp]: "nms (on_assign_return_route_complete env st w) = nms w"
  by (simp add: on_assign_return_route_complete_def case_prod_unfold)

lemma add_check_loop_nms [simp]: "nms (snd (add_check_loop env n d is w)) = nms w"
  by (induction "is" arbitrary: w) (simp_all add: Let_def)

lemma add_place_loop_nms [simp]: "nms (snd (add_place_loop n d is w)) = nms w"
  by (induction "is" arbitrary: w) simp_all

lemma add_to_queue_nms [simp]:
  "nms (snd (zwave_network_management_return_route_add_to_queue env n d w)) = nms w"
  using add_check_loop_nms [of env n d "[0..<10]" w]
  by (simp add: zwave_network_management_return_route_add_to_queue_def case_prod_unfold)

section \<open>The invariant of the queue\<close>

text \<open>
  Ten entries; at most one is being assigned; no two used entries hold the same route; an
  entry that is not used has no route.
\<close>

definition in_progress :: "assign_return_route \<Rightarrow> bool" where
  "in_progress e \<longleftrightarrow> route_state e = ROUTE_STATE_IN_PROGRESS"

definition used :: "assign_return_route \<Rightarrow> bool" where
  "used e \<longleftrightarrow> route_state e \<noteq> ROUTE_STATE_UNASSIGNED_ENTRY"

abbreviation "route_of e \<equiv> (route_node_id e, route_destination_node_id e)"

definition same_used_route :: "assign_return_route \<Rightarrow> assign_return_route \<Rightarrow> bool" where
  "same_used_route a b \<longleftrightarrow> used a \<and> used b \<and> route_of a = route_of b"

definition queue_inv :: "assign_return_route list \<Rightarrow> bool" where
  "queue_inv q \<longleftrightarrow>
     length q = ASSIGN_RETURN_ROUTE_QUEUE_SIZE \<and>
     no_two (\<lambda>a b. in_progress a \<and> in_progress b) q \<and>
     no_two same_used_route q \<and>
     (\<forall>e \<in> set q. \<not> used e \<longrightarrow> route_of e = (UNASSIGNED_ENTRY, UNASSIGNED_ENTRY))"

lemma queue_inv_update:
  assumes "queue_inv q"
    and "\<And>j. in_progress e \<Longrightarrow> j < length q \<Longrightarrow> j \<noteq> i \<Longrightarrow> \<not> in_progress (q ! j)"
    and "\<And>j. used e \<Longrightarrow> j < length q \<Longrightarrow> j \<noteq> i \<Longrightarrow> used (q ! j) \<Longrightarrow> route_of (q ! j) \<noteq> route_of e"
    and "\<not> used e \<Longrightarrow> route_of e = (0, 0)"
  shows "queue_inv (q[i := e])"
  unfolding queue_inv_def
proof (intro conjI)
  show "length (q[i := e]) = 10" using assms(1) by (simp add: queue_inv_def)
  show "no_two (\<lambda>a b. in_progress a \<and> in_progress b) (q[i := e])"
    by (rule no_two_update) (use assms(1,2) in \<open>auto simp: queue_inv_def\<close>)
  show "no_two same_used_route (q[i := e])"
    by (rule no_two_update) (use assms(1,3) in \<open>auto simp: queue_inv_def same_used_route_def\<close>)
  show "\<forall>x \<in> set (q[i := e]). \<not> used x \<longrightarrow> route_of x = (0, 0)"
    using assms(1,4) set_update_subset_insert [of q i e] by (auto simp: queue_inv_def)
qed

lemma queue_inv_clear: "queue_inv q \<Longrightarrow> queue_inv (q[i := cleared_entry])"
  by (rule queue_inv_update) (simp_all add: cleared_entry_def in_progress_def used_def)

lemma queue_inv_same_route:
  assumes "queue_inv q" and "i < length q" and "used (q ! i)" and "used e" and "route_of e = route_of (q ! i)"
    and "\<And>j. in_progress e \<Longrightarrow> j < length q \<Longrightarrow> j \<noteq> i \<Longrightarrow> \<not> in_progress (q ! j)"
  shows "queue_inv (q[i := e])"
proof (rule queue_inv_update [OF assms(1,6)])
  fix j assume "j < length q" "j \<noteq> i" "used (q ! j)"
  then show "route_of (q ! j) \<noteq> route_of e"
    using assms(1-3,5) no_twoD [of same_used_route q j i] by (auto simp: queue_inv_def same_used_route_def)
qed (use assms(4) in simp_all)

lemma finish_route_inv:
  assumes "queue_inv (routes w)" and "i < length (routes w)" and "used (routes w ! i)"
  shows "queue_inv (routes (finish_route env i w))"
  unfolding finish_route_def Let_def
  using queue_inv_same_route [OF assms, of "(routes w ! i)\<lparr>route_state := ROUTE_STATE_ESTABLISHED,
      reuse_timestamp := clock_time env (calls w @ [Clock_time]) + 60000\<rparr>"]
  by (simp add: used_def in_progress_def)

lemma finish_route_routes: "i < length (routes w) \<Longrightarrow> j < length (routes w) \<Longrightarrow>
  in_progress (routes (finish_route env i w) ! j) \<longleftrightarrow> j \<noteq> i \<and> in_progress (routes w ! j)"
  by (simp add: finish_route_def Let_def in_progress_def nth_list_update)

lemma finish_route_length [simp]: "length (routes (finish_route env i w)) = length (routes w)"
  by (simp add: finish_route_def Let_def)

lemma finish_route_pending: "i < length (routes w) \<Longrightarrow> j < length (routes w) \<Longrightarrow>
  route_state (routes (finish_route env i w) ! j) = (if j = i then ROUTE_STATE_ESTABLISHED else route_state (routes w ! j))"
  by (simp add: finish_route_def Let_def nth_list_update)

definition idle :: "nm_world \<Rightarrow> bool" where
  "idle w \<longleftrightarrow> (\<forall>j < length (routes w). \<not> in_progress (routes w ! j))"

definition pending :: "nm_world \<Rightarrow> nat \<Rightarrow> bool" where
  "pending w j \<longleftrightarrow> route_state (routes w ! j) = ROUTE_STATE_NOT_ESTABLISHED"

lemma pending_used: "pending w j \<Longrightarrow> used (routes w ! j)"
  by (simp add: pending_def used_def)

lemma call_queue [simp]: "idle (call c w) = idle w" "pending (call c w) j = pending w j"
  by (simp_all add: idle_def pending_def)

lemma finish_route_idle: "idle w \<Longrightarrow> i < length (routes w) \<Longrightarrow> idle (finish_route env i w)"
  by (simp add: idle_def finish_route_routes)

text \<open>
  The assignment loop, started with nothing in progress: it keeps the invariant, it says
  IN_PROGRESS exactly when an entry is then in progress, and otherwise the entries it
  went through are not pending any more.
\<close>

lemma assign_loop_length [simp]: "length (routes (snd (assign_loop env is w))) = length (routes w)"
  by (induction "is" arbitrary: w) (simp_all add: Let_def)

lemma assign_loop_inv:
  "queue_inv (routes w) \<Longrightarrow> set is \<subseteq> {..<length (routes w)} \<Longrightarrow> idle w \<Longrightarrow>
   queue_inv (routes (snd (assign_loop env is w)))"
proof (induction "is" arbitrary: w)
  case (Cons i "is")
  let ?w = "call (Zwapi_assign_return_route (route_node_id (routes w ! i)) (route_destination_node_id (routes w ! i))) w"
  have i: "i < length (routes w)" using Cons.prems(2) by simp
  have "queue_inv ((routes w)[i := (routes w ! i)\<lparr>route_state := ROUTE_STATE_IN_PROGRESS\<rparr>])" if "pending w i"
    by (rule queue_inv_same_route [OF Cons.prems(1) i pending_used [OF that]])
       (use Cons.prems(3) in \<open>simp_all add: used_def idle_def\<close>)
  moreover have "queue_inv (routes (snd (assign_loop env is (finish_route env i ?w))))" if "pending w i"
    by (rule Cons.IH) (use finish_route_inv [of ?w i env] finish_route_idle [of ?w i env] Cons.prems i pending_used [OF that] in simp_all)
  ultimately show ?case
    using Cons.IH [of w] Cons.prems by (simp add: Let_def pending_def)
qed simp

lemma assign_loop_status:
  "set is \<subseteq> {..<length (routes w)} \<Longrightarrow> idle w \<Longrightarrow>
   (if idle (snd (assign_loop env is w)) then fst (assign_loop env is w) = SL_STATUS_IDLE
    else fst (assign_loop env is w) = SL_STATUS_IN_PROGRESS)"
proof (induction "is" arbitrary: w)
  case (Cons i "is")
  let ?w = "call (Zwapi_assign_return_route (route_node_id (routes w ! i)) (route_destination_node_id (routes w ! i))) w"
  have i: "i < length (routes w)" using Cons.prems(1) by simp
  have "\<not> idle (set_route i ((routes w ! i)\<lparr>route_state := ROUTE_STATE_IN_PROGRESS\<rparr>) ?w)"
    using i by (auto simp: idle_def in_progress_def)
  then show ?case
    using Cons.IH [of w] Cons.IH [of "finish_route env i ?w"] finish_route_idle [of ?w i env] Cons.prems i
    by (simp add: Let_def)
qed simp

lemma assign_loop_pending:
  "fst (assign_loop env is w) = SL_STATUS_IDLE \<Longrightarrow> set is \<subseteq> {..<length (routes w)} \<Longrightarrow> j < length (routes w) \<Longrightarrow>
   pending (snd (assign_loop env is w)) j \<Longrightarrow> pending w j \<and> j \<notin> set is"
proof (induction "is" arbitrary: w)
  case (Cons i "is")
  let ?w = "call (Zwapi_assign_return_route (route_node_id (routes w ! i)) (route_destination_node_id (routes w ! i))) w"
  have i: "i < length (routes w)" using Cons.prems(2) by simp
  have fin: "pending (finish_route env i ?w) k \<longleftrightarrow> pending w k \<and> k \<noteq> i" if "k < length (routes w)" for k
    using finish_route_pending [of i ?w k env] i that by (simp add: pending_def)
  show ?case
    using Cons.prems Cons.IH [of w] Cons.IH [of "finish_route env i ?w"] fin [of j]
    by (auto simp: Let_def pending_def split: if_splits)
qed simp

lemma not_idle: "\<not> idle w \<longleftrightarrow> list_ex (\<lambda>e. route_state e = ROUTE_STATE_IN_PROGRESS) (routes w)"
  by (auto simp: idle_def in_progress_def list_ex_iff ex_nth_conv)

lemma assign_next_spec:
  assumes "queue_inv (routes w)" and "zwave_network_management_return_route_assign_next env w = (s, w')"
  shows "queue_inv (routes w')" and "s = (if idle w' then SL_STATUS_IDLE else SL_STATUS_IN_PROGRESS)"
    and "idle w' \<Longrightarrow> j < length (routes w') \<Longrightarrow> \<not> pending w' j"
proof -
  have len: "length (routes w) = 10" using assms(1) by (simp add: queue_inv_def)
  then have all: "set [0..<10] \<subseteq> {..<length (routes w)}" by auto
  show inv: "queue_inv (routes w')"
    using assms assign_loop_inv [OF assms(1) all, of env]
    by (auto simp: zwave_network_management_return_route_assign_next_def not_idle [symmetric] split: if_splits)
  show s: "s = (if idle w' then SL_STATUS_IDLE else SL_STATUS_IN_PROGRESS)"
    using assms(2) assign_loop_status [OF all, of env]
    by (auto simp: zwave_network_management_return_route_assign_next_def not_idle [symmetric] split: if_splits)
  show "\<not> pending w' j" if "idle w'" "j < length (routes w')"
    using that s inv assms(2) assign_loop_pending [of env "[0..<10]" w j] all len
    by (auto simp: queue_inv_def zwave_network_management_return_route_assign_next_def not_idle [symmetric] split: if_splits)
qed

lemma complete_loop_spec:
  "queue_inv (routes w) \<Longrightarrow> set is \<subseteq> {..<length (routes w)} \<Longrightarrow>
   queue_inv (routes (complete_loop env is w)) \<and>
   (\<forall>j < length (routes w). in_progress (routes (complete_loop env is w) ! j) \<longrightarrow> in_progress (routes w ! j) \<and> j \<notin> set is)"
proof (induction "is" arbitrary: w)
  case (Cons i "is")
  have i: "i < length (routes w)" using Cons.prems(2) by simp
  show ?case
  proof (cases "route_state (routes w ! i) = ROUTE_STATE_IN_PROGRESS")
    case True
    then have "queue_inv (routes (finish_route env i w))"
      using finish_route_inv [OF Cons.prems(1) i, of env] by (simp add: used_def)
    with True Cons.IH [of "finish_route env i w"] Cons.prems i finish_route_routes [of i w _ env]
    show ?thesis by auto
  next
    case False
    with Cons.IH [of w] Cons.prems show ?thesis by (auto simp: in_progress_def)
  qed
qed simp

lemma add_check_loop_spec:
  "queue_inv (routes w) \<Longrightarrow> set is \<subseteq> {..<length (routes w)} \<Longrightarrow> add_check_loop env n d is w = (found, w') \<Longrightarrow>
   queue_inv (routes w') \<and>
   (\<forall>j < length (routes w). \<not> found \<and> route_of (routes w' ! j) = (n, d) \<longrightarrow>
      route_of (routes w ! j) = (n, d) \<and> j \<notin> set is)"
proof (induction "is" arbitrary: w)
  case (Cons i "is")
  have i: "i < length (routes w)" using Cons.prems(2) by simp
  define w1 where "w1 = (if route_state (routes w ! i) = ROUTE_STATE_ESTABLISHED
               then let w = call Clock_time w
                    in if reuse_timestamp (routes w ! i) < clock_time env (calls w) then clear_queue_entry i w else w
               else w)"
  have w1: "routes w1 = routes w \<or> routes w1 = (routes w)[i := cleared_entry]"
    by (auto simp: w1_def Let_def)
  then have inv: "queue_inv (routes w1)" using Cons.prems(1) queue_inv_clear by auto
  have eq: "add_check_loop env n d (i # is) w =
      (if route_of (routes w1 ! i) = (n, d) then (True, w1) else add_check_loop env n d is w1)"
    unfolding w1_def add_check_loop.simps(2) Let_def by simp
  have len: "length (routes w1) = length (routes w)" using w1 by auto
  show ?case
  proof (cases "route_of (routes w1 ! i) = (n, d)")
    case True
    with eq Cons.prems(3) inv show ?thesis by (simp del: add_check_loop.simps)
  next
    case False
    then have rest: "add_check_loop env n d is w1 = (found, w')"
      using eq Cons.prems(3) by (metis (no_types, lifting))
    have same: "routes w1 ! j = routes w ! j" if "j \<noteq> i" for j using w1 that by auto
    show ?thesis
      using Cons.IH [OF inv _ rest] Cons.prems(2) False len same by (metis insert_subset list.simps(15) set_ConsD)
  qed
qed simp

lemma add_place_loop_inv:
  "queue_inv (routes w) \<Longrightarrow> \<forall>j < length (routes w). route_of (routes w ! j) \<noteq> (n, d) \<Longrightarrow>
   queue_inv (routes (snd (add_place_loop n d is w)))"
proof (induction "is" arbitrary: w)
  case (Cons i "is")
  have "queue_inv ((routes w)[i := (routes w ! i)\<lparr>route_node_id := n, route_destination_node_id := d,
      route_state := ROUTE_STATE_NOT_ESTABLISHED\<rparr>])"
    by (rule queue_inv_update [OF Cons.prems(1)]) (use Cons.prems(2) in \<open>auto simp: in_progress_def used_def\<close>)
  with Cons show ?case by simp
qed simp

lemma add_to_queue_inv:
  assumes "queue_inv (routes w)"
  shows "queue_inv (routes (snd (zwave_network_management_return_route_add_to_queue env n d w)))"
proof -
  obtain found w' where c: "add_check_loop env n d [0..<10] w = (found, w')" by fastforce
  have all: "set [0..<10] \<subseteq> {..<length (routes w)}" and len: "length (routes w) = 10"
    using assms by (auto simp: queue_inv_def)
  note spec = add_check_loop_spec [OF assms all c]
  then have "length (routes w') = 10" by (simp add: queue_inv_def)
  with spec len have "\<not> found \<Longrightarrow> \<forall>j < length (routes w'). route_of (routes w' ! j) \<noteq> (n, d)" by auto
  with spec c show ?thesis
    using add_place_loop_inv [of w' n d "[0..<10]"]
    by (simp add: zwave_network_management_return_route_add_to_queue_def)
qed

lemma clear_queue_routes:
  assumes "length (routes w) = ASSIGN_RETURN_ROUTE_QUEUE_SIZE"
  shows "routes (zwave_network_management_return_route_clear_queue w) = replicate 10 cleared_entry"
proof -
  have "routes (fold clear_queue_entry [0..<n] w) = replicate n cleared_entry @ drop n (routes w)" if "n \<le> 10" for n
    using that
  proof (induction n)
    case (Suc n)
    then have "drop n (routes w) = routes w ! n # drop (Suc n) (routes w)"
      using assms by (simp add: Cons_nth_drop_Suc)
    with Suc show ?case by (simp add: list_update_append replicate_append_same [symmetric] del: replicate_append_same)
  qed simp
  from this [of 10] assms show ?thesis by (simp add: zwave_network_management_return_route_clear_queue_def)
qed

lemma queue_inv_empty: "queue_inv (replicate 10 cleared_entry)"
  by (auto simp: queue_inv_def no_two_def cleared_entry_def in_progress_def used_def same_used_route_def)

lemma complete_spec:
  assumes "queue_inv (routes w)"
  shows "queue_inv (routes (complete_loop env [0..<10] w)) \<and> idle (complete_loop env [0..<10] w)"
proof -
  have len: "length (routes w) = 10" using assms by (simp add: queue_inv_def)
  have spec: "queue_inv (routes (complete_loop env [0..<10] w)) \<and>
    (\<forall>j < length (routes w). in_progress (routes (complete_loop env [0..<10] w) ! j) \<longrightarrow>
       in_progress (routes w ! j) \<and> j \<notin> set [0..<10])"
    by (rule complete_loop_spec [OF assms]) (use len in auto)
  then have "length (routes (complete_loop env [0..<10] w)) = 10" by (simp add: queue_inv_def)
  with spec len show ?thesis by (auto simp: idle_def)
qed

section \<open>All histories\<close>

text \<open>The ways the rest of the component uses the queue.\<close>

datatype route_op = Add_to_queue node_id node_id | Assign_next | Complete u8 | Clear_queue

fun route_step :: "nm_env \<Rightarrow> route_op \<Rightarrow> nm_world \<Rightarrow> nm_world" where
  "route_step env (Add_to_queue n d) w = snd (zwave_network_management_return_route_add_to_queue env n d w)"
| "route_step env Assign_next w = snd (zwave_network_management_return_route_assign_next env w)"
| "route_step env (Complete st) w = on_assign_return_route_complete env st w"
| "route_step env Clear_queue w = zwave_network_management_return_route_clear_queue w"

lemma on_complete_routes:
  "routes (on_assign_return_route_complete env st w) =
     routes (snd (zwave_network_management_return_route_assign_next env (complete_loop env [0..<10] w)))"
  by (simp add: on_assign_return_route_complete_def case_prod_unfold)

lemma route_step_inv:
  assumes "queue_inv (routes w)"
  shows "queue_inv (routes (route_step env op w))"
proof (cases op)
  case Assign_next
  then show ?thesis
    using assign_next_spec(1) [OF assms, of env] by (metis prod.collapse route_step.simps(2))
next
  case (Complete st)
  have "queue_inv (routes (complete_loop env [0..<10] w))" using complete_spec [OF assms] by blast
  with Complete show ?thesis
    using assign_next_spec(1) [of "complete_loop env [0..<10] w" env] by (metis on_complete_routes prod.collapse route_step.simps(3))
next
  case Clear_queue
  have "length (routes w) = 10" using assms by (simp add: queue_inv_def)
  with Clear_queue show ?thesis using queue_inv_empty by (simp add: clear_queue_routes)
qed (simp add: add_to_queue_inv assms)

interpretation route_queue: transition_system
  "\<lambda>w. routes w = replicate ASSIGN_RETURN_ROUTE_QUEUE_SIZE cleared_entry" "route_step env" "\<lambda>w. queue_inv (routes w)" for env
  by unfold_locales (simp_all add: queue_inv_empty route_step_inv)

text \<open>
  In every history of requests, completions, aborts and polls, starting from the
  zero-initialised queue and whatever the Z-Wave API answers: at most one return route
  is being assigned at a time, and no route is queued twice.
\<close>

theorem return_route_queue_invariant:
  assumes "routes w = replicate ASSIGN_RETURN_ROUTE_QUEUE_SIZE cleared_entry"
  shows "queue_inv (routes (fold (route_step env) ops w))"
  by (rule route_queue.fold_inv) (simp add: assms queue_inv_empty)

definition boot_world :: nm_world where
  "boot_world = \<lparr>nms = zero_nms, routes = replicate ASSIGN_RETURN_ROUTE_QUEUE_SIZE cleared_entry, events = [],
     inf_bkup = \<lparr>bStatus = 0, bSource = 0, bLen = 0, pCmd = []\<rparr>, info_buf = replicate 64 0, calls = []\<rparr>"

theorem return_route_queue_invariant_witness:
  "queue_inv (routes (fold (route_step sample_env) [Add_to_queue 5 1, Assign_next, Add_to_queue 6 1, Complete 0] boot_world))"
  by (rule return_route_queue_invariant) (simp add: boot_world_def)

text \<open>
  After a completion callback either another route is being assigned, or nothing is
  pending any more and the state machine is told so by a completion event: no queued
  request is forgotten and the state machine is never left waiting.
\<close>

theorem return_route_completion_progress:
  assumes "queue_inv (routes w)" and "w' = on_assign_return_route_complete env st w"
  shows "if list_ex (\<lambda>e. route_state e = ROUTE_STATE_IN_PROGRESS) (routes w')
         then events w' = events w
         else events w' = events w @ [(NM_EV_ASSIGN_RETURN_ROUTE_COMPLETED, Null)] \<and>
              \<not> list_ex (\<lambda>e. route_state e = ROUTE_STATE_NOT_ESTABLISHED) (routes w')"
proof -
  let ?w1 = "complete_loop env [0..<10] w"
  obtain s w2 where a: "zwave_network_management_return_route_assign_next env ?w1 = (s, w2)" by fastforce
  have inv: "queue_inv (routes ?w1)" using complete_spec [OF assms(1)] by blast
  note spec = assign_next_spec [OF inv a]
  have ev: "events w2 = events w" using assign_next_nms(2) [of env ?w1] a by simp
  have w': "w' = (if idle w2 then zwave_network_management_post_event NM_EV_ASSIGN_RETURN_ROUTE_COMPLETED Null w2 else w2)"
    using spec(2) by (simp add: assms(2) on_assign_return_route_complete_def a)
  then have r: "routes w' = routes w2" by simp
  show ?thesis
  proof (cases "idle w2")
    case True
    then have "\<not> list_ex (\<lambda>e. route_state e = ROUTE_STATE_NOT_ESTABLISHED) (routes w2)"
      using spec(3) [OF True] by (auto simp: list_ex_iff in_set_conv_nth pending_def)
    with True not_idle [of w2] show ?thesis by (simp add: w' ev)
  next
    case False
    with not_idle [of w2] show ?thesis by (simp add: w' ev)
  qed
qed

theorem return_route_completion_progress_witness:
  "if list_ex (\<lambda>e. route_state e = ROUTE_STATE_IN_PROGRESS) (routes (on_assign_return_route_complete sample_env 0 boot_world))
   then events (on_assign_return_route_complete sample_env 0 boot_world) = events boot_world
   else events (on_assign_return_route_complete sample_env 0 boot_world) =
          events boot_world @ [(NM_EV_ASSIGN_RETURN_ROUTE_COMPLETED, Null)] \<and>
        \<not> list_ex (\<lambda>e. route_state e = ROUTE_STATE_NOT_ESTABLISHED) (routes (on_assign_return_route_complete sample_env 0 boot_world))"
  by (rule return_route_completion_progress [OF _ refl]) (simp add: boot_world_def queue_inv_empty)

end
