(* ===== verification/Nm_Fsm.thy ===== *)
theory Nm_Fsm
  imports Return_Routes
begin

text \<open>
  The network management state machine, \<^verbatim>\<open>nm_state_machine.c\<close>, and the callbacks of
  \<^verbatim>\<open>zwave_network_management_callbacks.c\<close>: one definition per state of
  \<^verbatim>\<open>nm_fsm_post_event\<close>, the common epilogue, and the callbacks that other layers call.
  Calls out are recorded and answered by the environment; what another layer calls back
  is a separate input.
\<close>

section \<open>Timeouts and constants\<close>

abbreviation (input) ADD_REMOVE_TIMEOUT :: nat where "ADD_REMOVE_TIMEOUT \<equiv> 60000"
abbreviation (input) NOP_FOR_REMOVE_FAILED_TIMEOUT :: nat where "NOP_FOR_REMOVE_FAILED_TIMEOUT \<equiv> 65000"
abbreviation (input) SMART_START_SELF_DESTRUCT_TIMEOUT :: nat where "SMART_START_SELF_DESTRUCT_TIMEOUT \<equiv> 3000"
abbreviation (input) SET_DEFAULT_TIMEOUT :: nat where "SET_DEFAULT_TIMEOUT \<equiv> 15000"
abbreviation (input) LEARN_MODE_TIMEOUT :: nat where "LEARN_MODE_TIMEOUT \<equiv> 30000"
abbreviation (input) SEND_DATA_TIMEOUT :: nat where "SEND_DATA_TIMEOUT \<equiv> 125000"
abbreviation (input) ADD_NODE_STATUS_ADDING_END_NODE_TIMEOUT :: nat where
  "ADD_NODE_STATUS_ADDING_END_NODE_TIMEOUT \<equiv> 60000"
abbreviation (input) ADD_NODE_PROTOCOL_NEIGHBOR_DISCOVERY_TIMEOUT :: nat where
  "ADD_NODE_PROTOCOL_NEIGHBOR_DISCOVERY_TIMEOUT \<equiv> 76000 + 232 * (3517 + 732)"
abbreviation (input) NM_WAIT_FOR_PROTOCOL_CALLBACK_TIMEOUT_MS :: nat where
  "NM_WAIT_FOR_PROTOCOL_CALLBACK_TIMEOUT_MS \<equiv> 60000"
abbreviation (input) NM_WAIT_FOR_SECURE_ADD_TIMEOUT_MS :: nat where "NM_WAIT_FOR_SECURE_ADD_TIMEOUT_MS \<equiv> 700000"
abbreviation (input) NODE_INFO_MAX_SIZE :: nat where "NODE_INFO_MAX_SIZE \<equiv> 64"
abbreviation (input) ACCEPT_DSK :: u8 where "ACCEPT_DSK \<equiv> 1"
abbreviation (input) REJECT_DSK :: u8 where "REJECT_DSK \<equiv> 0"
abbreviation (input) ZW_NODE_OK :: u8 where "ZW_NODE_OK \<equiv> 0"
abbreviation (input) ZW_FAILED_NODE_REMOVED :: u8 where "ZW_FAILED_NODE_REMOVED \<equiv> 1"
abbreviation (input) ZW_FAILED_NODE_NOT_REMOVED :: u8 where "ZW_FAILED_NODE_NOT_REMOVED \<equiv> 2"
abbreviation (input) INITIATE_PROXY_INCLUSION_REPLACE :: u8 where "INITIATE_PROXY_INCLUSION_REPLACE \<equiv> 3"
abbreviation (input) COMMAND_CLASS_SECURITY :: command_class where "COMMAND_CLASS_SECURITY \<equiv> 0x98"
abbreviation (input) COMMAND_CLASS_SECURITY_2 :: command_class where "COMMAND_CLASS_SECURITY_2 \<equiv> 0x9F"

section \<open>Callbacks\<close>

definition get_event_for_learn_status :: "u8 \<Rightarrow> nm_event" where
  "get_event_for_learn_status st =
     (if st = 1 then NM_EV_ADD_LEARN_READY
      else if st = 2 then NM_EV_ADD_NODE_FOUND
      else if st = 4 then NM_EV_ADD_CONTROLLER
      else if st = 5 then NM_EV_ADD_PROTOCOL_DONE
      else if st = 3 then NM_EV_ADD_END_NODE
      else if st = 7 then NM_EV_ADD_FAILED
      else if st = 0x23 then NM_EV_ADD_NOT_PRIMARY
      else if st = 6 then NM_EV_ADD_NODE_STATUS_DONE
      else NM_EV_ADD_LEARN_READY)"

text \<open>The event carries a pointer to the one static copy of the status information.\<close>

definition add_node_status_update :: "learn_info \<Rightarrow> nm_world \<Rightarrow> nm_world" where
  "add_node_status_update linf w =
     (let w = w\<lparr>inf_bkup := \<lparr>bStatus = 0, bSource = 0, bLen = 0, pCmd = []\<rparr>\<rparr>;
          w = (if unat (bLen linf) > NODE_INFO_MAX_SIZE then w
               else let buf = memcpy (info_buf w) (pCmd linf) (unat (bLen linf))
                    in w\<lparr>info_buf := buf,
                         inf_bkup := \<lparr>bStatus = bStatus linf, bSource = bSource linf, bLen = bLen linf, pCmd = buf\<rparr>\<rparr>)
      in zwave_network_management_post_event (get_event_for_learn_status (bStatus linf)) Inf_bkup w)"

definition on_secure_inclusion_complete :: "keyset \<Rightarrow> kex_fail_type \<Rightarrow> nm_world \<Rightarrow> nm_world" where
  "on_secure_inclusion_complete keys kex w =
     (if nm_state_of w = NM_WAIT_FOR_SECURE_ADD \<or> nm_state_of w = NM_WAIT_FOR_SECURE_LEARN
      then let w = w\<lparr>nms := (nms w)\<lparr>granted_keys := keys, kex_fail_type := kex\<rparr>\<rparr>;
               w = (if nm_state_of w = NM_WAIT_FOR_SECURE_ADD \<and> kex = KEX_FAIL_NONE \<and> reported_dsk_blanked (nms w) > 0
                    then w\<lparr>nms := (nms w)\<lparr>flags := flags (nms w) OR NMS_FLAG_REPORT_DSK\<rparr>\<rparr> else w)
           in zwave_network_management_post_event NM_EV_SECURITY_DONE Null w
      else w)"

definition on_keys_request :: "keyset \<Rightarrow> bool \<Rightarrow> nm_world \<Rightarrow> nm_world" where
  "on_keys_request keys csa w =
     (if nm_state_of w \<noteq> NM_WAIT_FOR_SECURE_ADD then w
      else zwave_network_management_post_event NM_EV_ADD_SECURITY_REQ_KEYS Null
             (w\<lparr>nms := (nms w)\<lparr>requested_csa := csa, requested_keys := keys,
                              expected_s2_user_input := NM_S2_USER_INPUT_GRANT_KEYS\<rparr>\<rparr>))"

definition on_dsk_challenge :: "keyset \<Rightarrow> int \<Rightarrow> dsk \<Rightarrow> nm_world \<Rightarrow> nm_world" where
  "on_dsk_challenge keys dsk_length dsk w =
     (if nm_state_of w \<noteq> NM_WAIT_FOR_SECURE_ADD \<and> nm_state_of w \<noteq> NM_WAIT_FOR_SECURE_LEARN then w
      else zwave_network_management_post_event NM_EV_ADD_SECURITY_KEY_CHALLENGE Null
             (w\<lparr>nms := (nms w)\<lparr>granted_keys := keys,
                              reported_dsk := memcpy (reported_dsk (nms w)) dsk ZWAVE_DSK_LENGTH,
                              reported_dsk_blanked := word_of_int dsk_length,
                              expected_s2_user_input := NM_S2_USER_INPUT_ACCEPT_DSK\<rparr>\<rparr>))"

definition on_s2_inclusion_started :: "nm_world \<Rightarrow> nm_world" where
  "on_s2_inclusion_started w = call S0_stop_bootstrapping (w\<lparr>nms := (nms w)\<lparr>s2_bootstrapping_started := True\<rparr>\<rparr>)"

text \<open>
  The status is compared with two codes of the Z-Wave API and with the number 9 of the
  state \<^verbatim>\<open>NM_WAITING_FOR_FAILED_NODE_REMOVAL\<close>.
\<close>

definition on_remove_failed_status_update :: "u8 \<Rightarrow> nm_world \<Rightarrow> nm_world" where
  "on_remove_failed_status_update st w =
     (let ev = (if st = ZW_NODE_OK \<or> st = ZW_FAILED_NODE_NOT_REMOVED \<or> st = 9 then NM_EV_REMOVE_FAILED_FAIL
                else if st = ZW_FAILED_NODE_REMOVED then NM_EV_REMOVE_FAILED_OK else NM_EV_REMOVE_FAILED_FAIL)
      in zwave_network_management_post_event ev Null w)"

definition on_remove_node_status_update :: "learn_info \<Rightarrow> nm_world \<Rightarrow> nm_world" where
  "on_remove_node_status_update linf w =
     (if bStatus linf = 1 \<or> bStatus linf = 2 then w
      else if bStatus linf = 3 \<or> bStatus linf = 4
      then if exclusion_node_id_filter (nms w) \<noteq> 0 \<and> bSource linf \<noteq> exclusion_node_id_filter (nms w)
           then zwave_network_management_post_event NM_EV_NODE_REMOVE_FAILED Null
                  (call (Zwapi_remove_node_id_from_network ADD_NODE_STOP (exclusion_node_id_filter (nms w)) False) w)
           else w\<lparr>nms := (nms w)\<lparr>node_id_being_handled := bSource linf\<rparr>\<rparr>
      else if bStatus linf = 6 then zwave_network_management_post_event NM_EV_NODE_REMOVE_COMPLETE Null w
      else if bStatus linf = 7 then zwave_network_management_post_event NM_EV_NODE_REMOVE_FAILED Null w
      else if bStatus linf = 0x23 then zwave_network_management_post_event NM_EV_NODE_REMOVE_FAILED Null w
      else w)"

definition on_learn_mode_callback :: "learn_info \<Rightarrow> nm_world \<Rightarrow> nm_world" where
  "on_learn_mode_callback linf w =
     (if bStatus linf = 1
      then let w = zwave_network_management_post_event NM_EV_LEARN_STARTED Null
                     (w\<lparr>nms := (nms w)\<lparr>node_id_being_handled := bSource linf\<rparr>\<rparr>)
           in if learn_mode_intent (nms w) = LEARN_SMART_START then set_state NM_LEARN_MODE w else w
      else if bStatus linf = 5 \<or> bStatus linf = 6 then zwave_network_management_post_event NM_EV_LEARN_DONE Null w
      else if bStatus linf = 7 then zwave_network_management_post_event NM_EV_LEARN_FAILED Null w
      else w)"

definition on_set_suc_node_id_completed :: "nm_env \<Rightarrow> u8 \<Rightarrow> nm_world \<Rightarrow> nm_world" where
  "on_set_suc_node_id_completed env st w = network_management_refresh_controller_capabilities_bitmask env w"

definition on_set_default_complete :: "nm_world \<Rightarrow> nm_world" where
  "on_set_default_complete w = zwave_network_management_post_event NM_EV_SET_DEFAULT_COMPLETE Null w"

definition on_request_node_neighbor_update_completed :: "u8 \<Rightarrow> nm_world \<Rightarrow> nm_world" where
  "on_request_node_neighbor_update_completed st w =
     (let w = call (On_request_neighbor_update st) w
      in if st \<noteq> 0x21 then zwave_network_management_post_event NM_EV_REQUEST_NODE_NEIGHBOR_REQUEST_COMPLETE Null w else w)"

definition nop_send_done :: "u8 \<Rightarrow> nm_world \<Rightarrow> nm_world" where
  "nop_send_done st w =
     zwave_network_management_post_event (if st = 0 \<or> st = 5 then NM_EV_NOP_SUCCESS else NM_EV_NOP_FAIL) Null w"

section \<open>Reports to the upper layers\<close>

definition zero_dsk :: dsk where
  "zero_dsk = replicate ZWAVE_DSK_LENGTH 0"

definition nm_fill_reported_dsk_from_expected_if_needed :: "nm_world \<Rightarrow> nm_world" where
  "nm_fill_reported_dsk_from_expected_if_needed w =
     (if \<not> has_flag NMS_FLAG_REPORT_DSK w \<and> reported_dsk (nms w) = zero_dsk \<and> expected_dsk (nms w) \<noteq> zero_dsk
      then w\<lparr>nms := (nms w)\<lparr>reported_dsk := expected_dsk (nms w), flags := flags (nms w) OR NMS_FLAG_REPORT_DSK\<rparr>\<rparr>
      else w)"

definition callback_dsk :: "nm_world \<Rightarrow> dsk" where
  "callback_dsk w = (if has_flag NMS_FLAG_REPORT_DSK w then reported_dsk (nms w) else zero_dsk)"

definition notify_node_add_security_failed :: "nm_world \<Rightarrow> nm_world" where
  "notify_node_add_security_failed w =
     (let w = call (S2_set_node_add_active False) w;
          w = (if kex_fail_type (nms w) = KEX_FAIL_NONE then w\<lparr>nms := (nms w)\<lparr>kex_fail_type := KEX_FAIL_CANCEL\<rparr>\<rparr> else w);
          w = nm_fill_reported_dsk_from_expected_if_needed w
      in call (On_node_added SL_STATUS_FAIL (node_info (nms w)) (node_id_being_handled (nms w)) (callback_dsk w)
                (granted_keys (nms w)) (kex_fail_type (nms w)) (inclusion_protocol (nms w))) w)"

definition notify_node_add_aborted :: "nm_world \<Rightarrow> nm_world" where
  "notify_node_add_aborted w =
     (let w = call (S2_set_node_add_active False) w
      in call (On_node_added SL_STATUS_FAIL (node_info (nms w)) (node_id_being_handled (nms w)) zero_dsk
                (granted_keys (nms w)) KEX_FAIL_NONE (inclusion_protocol (nms w))) w)"

definition to_idle :: "nm_env \<Rightarrow> nm_world \<Rightarrow> nm_world" where
  "to_idle env w =
     (let w = network_management_refresh_cached_node_list env w
      in w\<lparr>nms := (nms w)\<lparr>state := NM_IDLE, proxy_inclusion_step := 0\<rparr>\<rparr>)"

definition dispatch_node_added :: "nm_env \<Rightarrow> nm_world \<Rightarrow> nm_world" where
  "dispatch_node_added env w =
     (let w = call (S2_set_node_add_active False) w;
          w = nm_fill_reported_dsk_from_expected_if_needed w;
          st = (if kex_fail_type (nms w) = KEX_FAIL_NONE then SL_STATUS_OK else SL_STATUS_FAIL);
          w = call (On_node_added st (node_info (nms w)) (node_id_being_handled (nms w)) (callback_dsk w)
                     (granted_keys (nms w)) (kex_fail_type (nms w)) (inclusion_protocol (nms w))) w
      in to_idle env w)"

definition dispatch_node_added_after_self_destruct_fail :: "nm_env \<Rightarrow> nm_world \<Rightarrow> nm_world" where
  "dispatch_node_added_after_self_destruct_fail env w =
     (if kex_fail_type (nms w) \<noteq> KEX_FAIL_NONE then to_idle env w
      else dispatch_node_added env (w\<lparr>nms := (nms w)\<lparr>kex_fail_type := KEX_FAIL_UNKNOWN\<rparr>\<rparr>))"

definition nm_start_self_destruct_remove_failed :: "nm_env \<Rightarrow> nm_world \<Rightarrow> nm_world" where
  "nm_start_self_destruct_remove_failed env w =
     (let w = timer_set SEND_DATA_TIMEOUT (set_state NM_WAIT_FOR_SELF_DESTRUCT_REMOVAL w);
          w = call (Zwapi_remove_failed_node (node_id_being_handled (nms w))) w
      in if remove_failed_node_rc env (calls w) \<noteq> 0 then on_remove_failed_status_update ZW_FAILED_NODE_NOT_REMOVED w
         else w)"

definition on_new_network :: "nm_env \<Rightarrow> kex_fail_type \<Rightarrow> nm_world \<Rightarrow> nm_world" where
  "on_new_network env kex w =
     (let w = network_management_refresh_network_information env w;
          w = call S2_keystore_get_assigned_keys w;
          w = w\<lparr>nms := (nms w)\<lparr>granted_keys := keystore_get_assigned_keys env (calls w)\<rparr>\<rparr>;
          w = network_management_take_sis_role_if_no_suc_in_network env w
      in call (On_new_network_entered (cached_home_id (nms w)) (cached_local_node_id (nms w)) (granted_keys (nms w)) kex) w)"

section \<open>Starting and stopping\<close>

definition nm_state_machine_teardown :: "nm_world \<Rightarrow> nm_world" where
  "nm_state_machine_teardown w = network_management_stop_ongoing_operations (w\<lparr>nms := zero_nms\<rparr>)"

definition nm_state_machine_init :: "nm_env \<Rightarrow> nm_world \<Rightarrow> nm_world" where
  "nm_state_machine_init env w =
     (let w = w\<lparr>nms := zero_nms\<lparr>s0_inclusion_enabled := True, state := NM_IDLE\<rparr>\<rparr>;
          w = network_management_refresh_network_information env w;
          w = network_management_stop_ongoing_operations w;
          w = zwave_network_management_return_route_clear_queue w
      in network_management_take_sis_role_if_no_suc_in_network env w)"

section \<open>The states\<close>

text \<open>
  How a case of the switch is left: \<open>Break\<close> goes on to the epilogue, \<open>Return\<close> skips it,
  \<open>Post\<close> handles another event in its place, \<open>Stuck\<close> does not return (a failed assertion,
  an endless loop, or a null pointer).
\<close>

datatype fsm_exit = Break | Return | Post nm_event | Stuck

definition idle_learn_set :: "nm_world \<Rightarrow> nm_world \<times> fsm_exit" where
  "idle_learn_set w =
     (let w = network_management_stop_ongoing_operations w in
      if learn_mode_intent (nms w) = LEARN_NWI
      then (timer_set LEARN_MODE_TIMEOUT (set_state NM_LEARN_MODE (call (Zwapi_set_learn_mode LEARN_MODE_NWI True) w)), Break)
      else if learn_mode_intent (nms w) = LEARN_NWE
      then (timer_set LEARN_MODE_TIMEOUT (set_state NM_LEARN_MODE (call (Zwapi_set_learn_mode LEARN_MODE_NWE True) w)), Break)
      else (w, Return))"

definition idle_smart_start_enable :: "nm_world \<Rightarrow> nm_world" where
  "idle_smart_start_enable w =
     (let w = (if \<not> smart_start_add_mode_enabled (nms w) then call (Zwapi_add_node_to_network ADD_NODE_STOP False) w else w)
      in if \<not> smart_start_learn_mode_enabled (nms w) then call (Zwapi_set_learn_mode LEARN_MODE_DISABLE False) w else w)"

definition idle_add_smart_start :: "nm_env \<Rightarrow> smartstart_event_data \<Rightarrow> nm_world \<Rightarrow> nm_world \<times> fsm_exit" where
  "idle_add_smart_start env e w =
     (if \<not> network_management_is_ready_for_a_new_operation env w then (w, Return)
      else
        let long_range = (ss_preferred_inclusion e = PROTOCOL_ZWAVE_LONG_RANGE);
            mode = (if long_range then ADD_NODE_HOME_ID OR ADD_NODE_OPTION_LONG_RANGE else ADD_NODE_HOME_ID);
            w = w\<lparr>nms := (nms w)\<lparr>inclusion_protocol := if long_range then PROTOCOL_ZWAVE_LONG_RANGE else PROTOCOL_ZWAVE\<rparr>\<rparr>;
            w = call (Zwapi_add_smartstart_node_to_network mode (drop 8 (ss_dsk e))) w;
            w = w\<lparr>nms := (nms w)\<lparr>state := NM_WAITING_FOR_ADD, granted_keys := ss_granted_keys e,
                                 flags := NMS_FLAG_S2_ADD OR NMS_FLAG_SMART_START_INCLUSION\<rparr>\<rparr>;
            w = timer_set ADD_REMOVE_TIMEOUT w
        in (w\<lparr>nms := (nms w)\<lparr>expected_dsk := memcpy (expected_dsk (nms w)) (ss_dsk e) ZWAVE_DSK_LENGTH\<rparr>\<rparr>, Break))"

definition idle_node_remove :: "nm_env \<Rightarrow> nm_world \<Rightarrow> nm_world" where
  "idle_node_remove env w =
     (let w = network_management_stop_ongoing_operations w;
          w = w\<lparr>nms := (nms w)\<lparr>node_id_being_handled := 0\<rparr>\<rparr>;
          mode = ADD_NODE_ANY OR ADD_NODE_OPTION_NETWORK_WIDE;
          w = (if exclusion_node_id_filter (nms w) \<noteq> 0
               then call (Zwapi_remove_node_id_from_network mode (exclusion_node_id_filter (nms w)) True) w
               else call (Zwapi_remove_node_from_network mode True) w)
      in if remove_node_rc env (calls w) = SL_STATUS_OK
         then timer_set ADD_REMOVE_TIMEOUT (set_state NM_WAITING_FOR_NODE_REMOVAL w) else w)"

definition idle_node_add :: "nm_env \<Rightarrow> nm_world \<Rightarrow> nm_world" where
  "idle_node_add env w =
     (let w = network_management_stop_ongoing_operations w;
          w = network_management_refresh_cached_node_list env w;
          w = call (Zwapi_add_node_to_network (ADD_NODE_ANY OR ADD_NODE_OPTION_NETWORK_WIDE) True) w;
          w = w\<lparr>nms := (nms w)\<lparr>state := NM_WAITING_FOR_ADD, flags := NMS_FLAG_S2_ADD, inclusion_protocol := PROTOCOL_ZWAVE\<rparr>\<rparr>
      in timer_set ADD_REMOVE_TIMEOUT w)"

definition idle_neighbor_request :: "nm_env \<Rightarrow> node_id \<Rightarrow> nm_world \<Rightarrow> nm_world" where
  "idle_neighbor_request env n w =
     (let w = call (Zwapi_request_neighbor_update n) w
      in if request_neighbor_update_rc env (calls w) = SL_STATUS_OK
         then w\<lparr>nms := (nms w)\<lparr>state := NM_NEIGHBOR_DISCOVERY_ONGOING, node_id_being_handled := n\<rparr>\<rparr> else w)"

definition fsm_idle :: "nm_env \<Rightarrow> nm_event \<Rightarrow> nm_event_data \<Rightarrow> nm_world \<Rightarrow> nm_world \<times> fsm_exit" where
  "fsm_idle env ev data w =
     (if ev = NM_EV_LEARN_SET then idle_learn_set w
      else if ev = NM_EV_SET_DEFAULT
      then (timer_set SET_DEFAULT_TIMEOUT (call Zwapi_set_default (set_state NM_SET_DEFAULT w)), Break)
      else if ev = NM_EV_REMOVE_FAILED
      then (zwave_network_management_post_event NM_EV_REMOVE_FAILED Inf_bkup (set_state NM_SEND_NOP w), Break)
      else if ev = NM_EV_SMART_START_ENABLE then (idle_smart_start_enable w, Break)
      else if ev = NM_EV_NODE_ADD_SMART_START
      then (case data of Smartstart e \<Rightarrow> idle_add_smart_start env e w | _ \<Rightarrow> (w, Stuck))
      else if ev = NM_EV_NODE_REMOVE then (idle_node_remove env w, Break)
      else if ev = NM_EV_NODE_ADD then (idle_node_add env w, Break)
      else if ev = NM_EV_REQUEST_NODE_NEIGHBOR_REQUEST
      then (idle_neighbor_request env (case data of Node_id n \<Rightarrow> n | _ \<Rightarrow> 0) w, Break)
      else if ev = NM_EV_START_PROXY_INCLUSION
      then (timer_set NM_WAIT_FOR_PROTOCOL_CALLBACK_TIMEOUT_MS (set_state NM_WAIT_FOR_PROTOCOL w), Post NM_EV_ADD_NODE_STATUS_DONE)
      else if ev = NM_EV_ASSIGN_RETURN_ROUTE_START
      then (case zwave_network_management_return_route_assign_next env w of (s, w) \<Rightarrow>
              (if s = SL_STATUS_IN_PROGRESS then set_state NM_ASSIGNING_RETURN_ROUTE w else w, Break))
      else (w, Break))"

definition fsm_send_nop :: "nm_env \<Rightarrow> nm_event \<Rightarrow> nm_world \<Rightarrow> nm_world" where
  "fsm_send_nop env ev w =
     (if ev = NM_EV_TIMEOUT \<or> ev = NM_EV_REMOVE_FAILED
      then let w = set_state (if ev = NM_EV_TIMEOUT then NM_WAIT_FOR_TX_TO_SELF_DESTRUCT else NM_FAILED_NODE_REMOVE) w;
               w = timer_set NOP_FOR_REMOVE_FAILED_TIMEOUT w;
               w = call (Tx_send_nop (node_id_being_handled (nms w))) w
           in if tx_send_data_rc env (calls w) \<noteq> 0 then nop_send_done 2 w else w
      else w)"

definition remove_failed_node :: "nm_env \<Rightarrow> nm_world \<Rightarrow> nm_world" where
  "remove_failed_node env w =
     (let w = set_state NM_WAITING_FOR_FAILED_NODE_REMOVAL w;
          n = node_id_being_handled (nms w);
          w = call (Zwapi_remove_failed_node n) w
      in if remove_failed_node_rc env (calls w) \<noteq> 0
         then on_remove_failed_status_update ZW_FAILED_NODE_NOT_REMOVED
                (call (Publish_remove_failed_report n REMOVE_FAILED_STATUS_OPERATION_FAILED) w)
         else w)"

definition fsm_wait_for_nop :: "nm_env \<Rightarrow> nm_event \<Rightarrow> nm_world \<Rightarrow> nm_world" where
  "fsm_wait_for_nop env ev w =
     (let self_destruct = (nm_state_of w = NM_WAIT_FOR_TX_TO_SELF_DESTRUCT); n = node_id_being_handled (nms w) in
      if ev = NM_EV_NOP_FAIL
      then if self_destruct then nm_start_self_destruct_remove_failed env w else remove_failed_node env w
      else if ev = NM_EV_TIMEOUT
      then if self_destruct then nm_start_self_destruct_remove_failed env w
           else set_state NM_IDLE (on_remove_failed_status_update ZW_FAILED_NODE_NOT_REMOVED
                  (call (Publish_remove_failed_report n REMOVE_FAILED_STATUS_NOT_REMOVED) w))
      else if ev = NM_EV_NOP_SUCCESS
      then if self_destruct then dispatch_node_added_after_self_destruct_fail env w
           else set_state NM_IDLE (on_remove_failed_status_update ZW_FAILED_NODE_NOT_REMOVED
                  (call (Publish_remove_failed_report n REMOVE_FAILED_STATUS_NODE_ONLINE) w))
      else if ev = NM_EV_ABORT
      then set_state NM_IDLE (on_remove_failed_status_update ZW_FAILED_NODE_NOT_REMOVED
             (if nm_state_of w = NM_FAILED_NODE_REMOVE
              then call (Publish_remove_failed_report n REMOVE_FAILED_STATUS_OPERATION_ABORTED) w else w))
      else w)"

definition fsm_set_default :: "nm_env \<Rightarrow> nm_event \<Rightarrow> nm_world \<Rightarrow> nm_world" where
  "fsm_set_default env ev w =
     (if ev = NM_EV_SET_DEFAULT_COMPLETE
      then let w = call On_reset_step_complete (timer_stop w);
               w = network_management_refresh_network_information env w;
               w = call S2_network_init (call S2_create_new_network_keys w);
               w = call (On_network_address_update (cached_home_id (nms w)) (cached_local_node_id (nms w))) w;
               w = on_new_network env KEX_FAIL_NONE w;
               w = call (Mqtt_reset_subscriptions (cached_home_id (nms w))) w
           in set_state NM_IDLE w
      else if ev = NM_EV_TIMEOUT then call Zwapi_soft_reset w
      else w)"

definition fsm_waiting_for_add :: "nm_event \<Rightarrow> nm_world \<Rightarrow> nm_world" where
  "fsm_waiting_for_add ev w =
     (if ev = NM_EV_ABORT \<or> ev = NM_EV_TIMEOUT \<or> ev = NM_EV_ADD_FAILED
      then let w = call (Zwapi_add_node_to_network ADD_NODE_STOP False) (set_state NM_IDLE w)
           in if ev \<noteq> NM_EV_ABORT then call (On_error ERROR_NODE_ADD_FAIL) w else w
      else if ev = NM_EV_ADD_NODE_FOUND
      then timer_set ADD_NODE_STATUS_ADDING_END_NODE_TIMEOUT (set_state NM_NODE_FOUND w)
      else w)"

text \<open>The status information of a node being added, read through the pointer of the event.\<close>

definition node_found_info :: "nm_env \<Rightarrow> nm_event \<Rightarrow> nm_world \<Rightarrow> nm_world \<times> fsm_exit" where
  "node_found_info env ev w =
     (let linf = inf_bkup w in
      if bLen linf \<noteq> 0 \<and> bSource linf \<noteq> 0
      then let w = timer_set ADD_NODE_PROTOCOL_NEIGHBOR_DISCOVERY_TIMEOUT w;
               w = w\<lparr>nms := (nms w)\<lparr>status := ucast (bStatus linf), node_id_being_handled := bSource linf,
                                    is_controller := (if ev = NM_EV_ADD_CONTROLLER then 1 else 0)\<rparr>\<rparr>
           in if unat (bLen linf) \<ge> 4 \<and> unat (bLen linf) < NODE_INFO_MAX_SIZE
              then let info = (node_info (nms w))\<lparr>basic_device_class := pCmd linf ! 0, generic_device_class := pCmd linf ! 1,
                                                specific_device_class := pCmd linf ! 2\<rparr>
                   in case zwave_command_class_list_unpack (ndebug env) info (take (unat (bLen linf) - 3) (drop 3 (pCmd linf))) of
                        None \<Rightarrow> (w, Stuck)
                      | Some info \<Rightarrow>
                          let w = w\<lparr>nms := (nms w)\<lparr>node_info := info, state := NM_WAIT_FOR_PROTOCOL\<rparr>\<rparr>;
                              w = call (S2_set_node_add_active True) w
                          in (if node_id_being_handled (nms w) \<noteq> 0 \<and>
                                 \<not> ZW_IS_NODE_IN_MASK (node_id_being_handled (nms w)) (cached_node_list (nms w))
                              then call (On_node_id_assigned (node_id_being_handled (nms w)) (inclusion_protocol (nms w))) w
                              else w, Break)
              else (w, Post NM_EV_ADD_FAILED)
      else (w, Post NM_EV_ADD_FAILED))"

definition fsm_node_found :: "nm_env \<Rightarrow> nm_event \<Rightarrow> nm_event_data \<Rightarrow> nm_world \<Rightarrow> nm_world \<times> fsm_exit" where
  "fsm_node_found env ev data w =
     (if ev = NM_EV_ADD_CONTROLLER \<or> ev = NM_EV_ADD_END_NODE
      then (case data of Inf_bkup \<Rightarrow> node_found_info env ev w | _ \<Rightarrow> (w, Stuck))
      else if ev = NM_EV_ADD_FAILED \<or> ev = NM_EV_TIMEOUT
      then (call (On_error ERROR_NODE_ADD_FAIL)
              (call (Zwapi_add_node_to_network ADD_NODE_STOP_FAILED False) (set_state NM_IDLE w)), Break)
      else (w, Break))"

definition to_send_nop :: "nm_world \<Rightarrow> nm_world" where
  "to_send_nop w = timer_set SMART_START_SELF_DESTRUCT_TIMEOUT (set_state NM_SEND_NOP w)"

definition start_secure_add :: "nm_world \<Rightarrow> nm_world" where
  "start_secure_add w =
     (let w = timer_set NM_WAIT_FOR_SECURE_ADD_TIMEOUT_MS (set_state NM_WAIT_FOR_SECURE_ADD w);
          w = call (S2_start_add_node (node_id_being_handled (nms w))) w
      in call (Storage_set_node_s2_capable (node_id_being_handled (nms w))) w)"

definition protocol_status_done :: "nm_env \<Rightarrow> nm_world \<Rightarrow> nm_world" where
  "protocol_status_done env w =
     (let w = call (Zwapi_add_node_to_network ADD_NODE_STOP False) w; n = node_id_being_handled (nms w) in
      if n \<noteq> 0 \<and> ZW_IS_NODE_IN_MASK n (cached_node_list (nms w)) \<and>
         proxy_inclusion_step (nms w) \<noteq> INITIATE_PROXY_INCLUSION_REPLACE
      then set_state NM_IDLE (call (S2_set_node_add_active False) w)
      else
        let w = call (Zwapi_get_protocol_info n) w;
            (capability, security) = get_protocol_info env (calls w);
            w = w\<lparr>nms := (nms w)\<lparr>node_info := (node_info (nms w))\<lparr>listening_protocol := capability, optional_protocol := security\<rparr>\<rparr>\<rparr>;
            cc_list = command_class_list (node_info (nms w));
            cc_length = command_class_list_length (node_info (nms w))
        in if has_flag NMS_FLAG_SMART_START_INCLUSION w then start_secure_add w
           else if is_command_class_in_nif cc_list cc_length COMMAND_CLASS_SECURITY_2
           then start_secure_add (w\<lparr>nms := (nms w)\<lparr>flags := NMS_FLAG_S2_ADD\<rparr>\<rparr>)
           else if s0_inclusion_enabled (nms w) \<and> is_command_class_in_nif cc_list cc_length COMMAND_CLASS_SECURITY
           then call (S0_start_bootstrapping (node_id_being_handled (nms w)) (is_controller (nms w)))
                  (timer_set NM_WAIT_FOR_SECURE_ADD_TIMEOUT_MS (set_state NM_WAIT_FOR_SECURE_ADD w))
           else dispatch_node_added env (w\<lparr>nms := (nms w)\<lparr>granted_keys := 0, kex_fail_type := KEX_FAIL_NONE\<rparr>\<rparr>))"

definition fsm_wait_for_protocol :: "nm_env \<Rightarrow> nm_event \<Rightarrow> nm_world \<Rightarrow> nm_world" where
  "fsm_wait_for_protocol env ev w =
     (if ev = NM_EV_ADD_PROTOCOL_DONE then call (Zwapi_add_node_to_network ADD_NODE_STOP True) w
      else if ev = NM_EV_ADD_NODE_STATUS_DONE then protocol_status_done env w
      else if ev = NM_EV_ABORT
      then to_send_nop (notify_node_add_aborted (call (Zwapi_add_node_to_network ADD_NODE_STOP_FAILED False) w))
      else if ev = NM_EV_TIMEOUT \<or> ev = NM_EV_ADD_FAILED \<or> ev = NM_EV_ADD_NOT_PRIMARY
      then to_send_nop (call (S2_set_node_add_active False) (call (On_error ERROR_NODE_ADD_FAIL)
             (call (Zwapi_add_node_to_network ADD_NODE_STOP_FAILED False) w)))
      else w)"

text \<open>
  The search of the SmartStart list for a DSK of which the first \<open>k\<close> bytes are blanked, and
  the DSK completed with them.
\<close>

definition find_dsk_obfuscated_bytes_from_smart_start_list :: "dsk list \<Rightarrow> dsk \<Rightarrow> u8 \<Rightarrow> dsk option" where
  "find_dsk_obfuscated_bytes_from_smart_start_list dsks dsk obfuscated_bytes =
     (let k = unat obfuscated_bytes
      in map_option (\<lambda>d. memcpy dsk d k) (List.find (\<lambda>d. drop k dsk = drop k d) dsks))"

text \<open>
  The DSK bytes the node did not blank must be those expected; the blanked ones are filled in. At most the 16 bytes of a DSK can be blanked;
  for a larger number the length of the comparison would wrap around in the code, and is zero here.
\<close>

definition secure_add_challenge :: "nm_env \<Rightarrow> nm_world \<Rightarrow> nm_world" where
  "secure_add_challenge env w =
     (let blanked = reported_dsk_blanked (nms w); k = unat blanked in
      if has_flag NMS_FLAG_SMART_START_INCLUSION w
      then if drop k (reported_dsk (nms w)) = drop k (expected_dsk (nms w))
           then let w = w\<lparr>nms := (nms w)\<lparr>reported_dsk := memcpy (reported_dsk (nms w)) (expected_dsk (nms w)) k,
                                        flags := flags (nms w) OR NMS_FLAG_REPORT_DSK\<rparr>\<rparr>
                in call (S2_dsk_accept ACCEPT_DSK (expected_dsk (nms w)) blanked) w
           else call (S2_dsk_accept REJECT_DSK [] 0) w
      else case (if blanked > 0
                 then find_dsk_obfuscated_bytes_from_smart_start_list (smartstart_dsks env (calls w)) (reported_dsk (nms w)) blanked
                 else None) of
             Some dsk \<Rightarrow>
               let w = w\<lparr>nms := (nms w)\<lparr>reported_dsk := dsk, flags := flags (nms w) OR NMS_FLAG_REPORT_DSK\<rparr>\<rparr>
               in call (S2_dsk_accept ACCEPT_DSK dsk blanked) w
           | None \<Rightarrow> call (On_dsk_report blanked (reported_dsk (nms w)) (requested_keys (nms w))) w)"

definition fsm_wait_for_secure_add :: "nm_env \<Rightarrow> nm_event \<Rightarrow> nm_world \<Rightarrow> nm_world" where
  "fsm_wait_for_secure_add env ev w =
     (if ev = NM_EV_SECURITY_DONE
      then if kex_fail_type (nms w) = KEX_FAIL_NONE then dispatch_node_added env w
           else to_send_nop (notify_node_add_security_failed w)
      else if ev = NM_EV_ADD_SECURITY_REQ_KEYS
      then if has_flag NMS_FLAG_SMART_START_INCLUSION w
           then call (S2_key_grant 1 (requested_keys (nms w) AND granted_keys (nms w)) False) w
           else call (On_keys_report (requested_csa (nms w)) (requested_keys (nms w))) w
      else if ev = NM_EV_ADD_SECURITY_KEY_CHALLENGE then secure_add_challenge env w
      else if ev = NM_EV_ADD_SECURITY_KEYS_SET
      then call (S2_key_grant (if accepted_s2_bootstrapping (nms w) then 1 else 0)
                  (requested_keys (nms w) AND granted_keys (nms w)) (accepted_csa (nms w))) w
      else if ev = NM_EV_ADD_SECURITY_DSK_SET
      then let w = call (S2_dsk_accept ACCEPT_DSK (verified_dsk_input (nms w)) (reported_dsk_blanked (nms w))) w
           in w\<lparr>nms := (nms w)\<lparr>reported_dsk := memcpy (reported_dsk (nms w)) (verified_dsk_input (nms w))
                                  (unat (reported_dsk_blanked (nms w)))\<rparr>\<rparr>
      else if ev = NM_EV_ABORT \<and> \<not> has_flag NMS_FLAG_SMART_START_INCLUSION w
      then call (S2_dsk_accept REJECT_DSK [] 0) w
      else if ev = NM_EV_TIMEOUT
      then to_send_nop (notify_node_add_security_failed
             (call (Zwapi_add_node_to_network ADD_NODE_STOP_FAILED False) (call S0_stop_bootstrapping (call S2_abort_join w))))
      else w)"

definition fsm_waiting_for_removal :: "nm_env \<Rightarrow> nm_event \<Rightarrow> nm_world \<Rightarrow> nm_world" where
  "fsm_waiting_for_removal env ev w =
     (let self_destruct = (nm_state_of w = NM_WAIT_FOR_SELF_DESTRUCT_REMOVAL); n = node_id_being_handled (nms w) in
      if ev = NM_EV_REMOVE_FAILED_OK
      then let w = (if \<not> self_destruct then call (Publish_remove_failed_report n REMOVE_FAILED_STATUS_OPERATION_SUCCESSFUL) w else w)
           in set_state NM_IDLE (call (On_node_deleted n) (network_management_refresh_cached_node_list env w))
      else if ev = NM_EV_REMOVE_FAILED_FAIL
      then if self_destruct then dispatch_node_added_after_self_destruct_fail env w
           else set_state NM_IDLE (call (On_error ERROR_FAILED_NODE_REMOVE_FAIL)
                  (call (Publish_remove_failed_report n REMOVE_FAILED_STATUS_NODE_ONLINE) w))
      else if ev = NM_EV_TIMEOUT
      then if self_destruct then dispatch_node_added_after_self_destruct_fail env w
           else set_state NM_IDLE (call (On_error ERROR_FAILED_NODE_REMOVE_FAIL)
                  (call (Publish_remove_failed_report n REMOVE_FAILED_STATUS_TIMEOUT) w))
      else w)"

definition stop_removal :: "nm_world \<Rightarrow> nm_world" where
  "stop_removal w =
     (if exclusion_node_id_filter (nms w) \<noteq> 0
      then call (Zwapi_remove_node_id_from_network ADD_NODE_STOP (exclusion_node_id_filter (nms w)) False) w
      else call (Zwapi_remove_node_from_network ADD_NODE_STOP False) w)"

definition fsm_waiting_for_node_removal :: "nm_env \<Rightarrow> nm_event \<Rightarrow> nm_world \<Rightarrow> nm_world" where
  "fsm_waiting_for_node_removal env ev w =
     (if ev = NM_EV_TIMEOUT \<or> ev = NM_EV_NODE_REMOVE_FAILED \<or> ev = NM_EV_ABORT
      then set_state NM_IDLE (stop_removal w)
      else if ev = NM_EV_NODE_REMOVE_COMPLETE
      then let w = network_management_refresh_cached_node_list env (stop_removal w)
           in set_state NM_IDLE (call (On_node_deleted (node_id_being_handled (nms w))) w)
      else w)"

definition fsm_learn_mode :: "nm_event \<Rightarrow> nm_world \<Rightarrow> nm_world" where
  "fsm_learn_mode ev w =
     (if ev = NM_EV_TIMEOUT \<or> ev = NM_EV_ABORT
      then set_state NM_IDLE (call (Zwapi_set_learn_mode LEARN_MODE_DISABLE False) w)
      else if ev = NM_EV_LEARN_STARTED
      then let n = node_id_being_handled (nms w);
               w = (if learn_mode_intent (nms w) = LEARN_NWI then call (S2_start_learn_mode n) (call (S0_start_learn_mode n) w)
                    else if learn_mode_intent (nms w) = LEARN_SMART_START then call (S2_start_learn_mode n) w else w)
           in set_state NM_LEARN_MODE_STARTED w
      else if ev = NM_EV_LEARN_DONE then set_state NM_IDLE w
      else w)"

definition fsm_learn_mode_started :: "nm_env \<Rightarrow> nm_event \<Rightarrow> nm_world \<Rightarrow> nm_world" where
  "fsm_learn_mode_started env ev w =
     (if ev = NM_EV_LEARN_DONE
      then let previous_home_id = cached_home_id (nms w); previous_node_id = cached_local_node_id (nms w);
               w = network_management_refresh_cached_node_list env (network_management_refresh_cached_ids env w)
           in if learn_mode_intent (nms w) = LEARN_NWE
              then zwave_network_management_post_event NM_EV_SET_DEFAULT_COMPLETE Null (set_state NM_SET_DEFAULT w)
              else if previous_home_id = cached_home_id (nms w) \<or> previous_node_id = cached_local_node_id (nms w)
              then zwave_network_management_post_event NM_EV_SECURITY_DONE Null
                     (set_state NM_WAIT_FOR_SECURE_LEARN (call S0_stop_bootstrapping (call S2_abort_join w)))
              else let w = call (On_network_address_update (cached_home_id (nms w)) (cached_local_node_id (nms w))) w
                   in set_state NM_WAIT_FOR_SECURE_LEARN
                        (call S2_neighbor_discovery_complete (call S2_keystore_reset_assigned_keys w))
      else if ev = NM_EV_LEARN_FAILED
      then set_state NM_IDLE (call (On_error ERROR_NODE_LEARN_MODE_FAIL) (call (Zwapi_set_learn_mode LEARN_MODE_DISABLE False) w))
      else w)"

definition fsm_wait_for_secure_learn :: "nm_env \<Rightarrow> nm_event \<Rightarrow> nm_world \<Rightarrow> nm_world \<times> fsm_exit" where
  "fsm_wait_for_secure_learn env ev w =
     (if ev = NM_EV_ADD_SECURITY_KEY_CHALLENGE
      then (call (Storage_set_node_s2_capable (node_id_being_handled (nms w))) (call (S2_dsk_accept ACCEPT_DSK [] 0) w), Break)
      else if ev = NM_EV_SECURITY_DONE
      then if we_should_self_destruct w
           then (call Zwapi_set_default (set_state NM_SET_DEFAULT
                   (call (On_error ERROR_NODE_SMART_START_INCLUSION_SECURITY_FAIL) w)), Return)
           else (set_state NM_IDLE (on_new_network env (kex_fail_type (nms w)) w), Break)
      else if ev = NM_EV_ABORT then (call S2_abort_join w, Break)
      else (w, Break))"

definition fsm_assigning_return_route :: "nm_env \<Rightarrow> nm_event \<Rightarrow> nm_world \<Rightarrow> nm_world" where
  "fsm_assigning_return_route env ev w =
     (if ev = NM_EV_ABORT
      then on_assign_return_route_complete env 0 (zwave_network_management_return_route_clear_queue w)
      else if ev = NM_EV_ASSIGN_RETURN_ROUTE_COMPLETED then set_state NM_IDLE w
      else w)"

definition fsm_neighbor_discovery :: "nm_event \<Rightarrow> nm_world \<Rightarrow> nm_world" where
  "fsm_neighbor_discovery ev w =
     (if ev = NM_EV_ABORT then on_request_node_neighbor_update_completed 0x23 w
      else if ev = NM_EV_REQUEST_NODE_NEIGHBOR_REQUEST_COMPLETE then set_state NM_IDLE w
      else w)"

section \<open>The state machine\<close>

definition fsm_switch :: "nm_env \<Rightarrow> nm_event \<Rightarrow> nm_event_data \<Rightarrow> nm_world \<Rightarrow> nm_world \<times> fsm_exit" where
  "fsm_switch env ev data w =
     (case nm_state_of w of
        NM_IDLE \<Rightarrow> fsm_idle env ev data w
      | NM_SEND_NOP \<Rightarrow> (fsm_send_nop env ev w, Break)
      | NM_WAIT_FOR_TX_TO_SELF_DESTRUCT \<Rightarrow> (fsm_wait_for_nop env ev w, Break)
      | NM_FAILED_NODE_REMOVE \<Rightarrow> (fsm_wait_for_nop env ev w, Break)
      | NM_SET_DEFAULT \<Rightarrow> (fsm_set_default env ev w, Break)
      | NM_WAITING_FOR_ADD \<Rightarrow> (fsm_waiting_for_add ev w, Break)
      | NM_NODE_FOUND \<Rightarrow> fsm_node_found env ev data w
      | NM_WAIT_FOR_PROTOCOL \<Rightarrow> (fsm_wait_for_protocol env ev w, Break)
      | NM_WAIT_FOR_SECURE_ADD \<Rightarrow> (fsm_wait_for_secure_add env ev w, Break)
      | NM_WAIT_FOR_SELF_DESTRUCT_REMOVAL \<Rightarrow> (fsm_waiting_for_removal env ev w, Break)
      | NM_WAITING_FOR_FAILED_NODE_REMOVAL \<Rightarrow> (fsm_waiting_for_removal env ev w, Break)
      | NM_WAITING_FOR_NODE_REMOVAL \<Rightarrow> (fsm_waiting_for_node_removal env ev w, Break)
      | NM_LEARN_MODE \<Rightarrow> (fsm_learn_mode ev w, Break)
      | NM_LEARN_MODE_STARTED \<Rightarrow> (fsm_learn_mode_started env ev w, Break)
      | NM_WAIT_FOR_SECURE_LEARN \<Rightarrow> fsm_wait_for_secure_learn env ev w
      | NM_ASSIGNING_RETURN_ROUTE \<Rightarrow> (fsm_assigning_return_route env ev w, Break)
      | NM_NEIGHBOR_DISCOVERY_ONGOING \<Rightarrow> (fsm_neighbor_discovery ev w, Break)
      | NM_REPLACE_FAILED_REQ \<Rightarrow> (w, Break)
      | NM_PREPARE_SUC_INCLISION \<Rightarrow> (w, Break)
      | NM_WAIT_FOR_SUC_INCLUSION \<Rightarrow> (w, Break)
      | NM_PROXY_INCLUSION_WAIT_NIF \<Rightarrow> (w, Break))"

text \<open>The part after the switch: clean up when idle, return routes, state report, SmartStart.\<close>

definition enable_smart_start :: "nm_world \<Rightarrow> nm_world" where
  "enable_smart_start w =
     (if smart_start_add_mode_enabled (nms w) \<and> zwave_network_management_is_zpc_sis w
      then call (Zwapi_add_node_to_network (ADD_NODE_SMART_START OR ADD_NODE_OPTION_NETWORK_WIDE) False) w
      else if smart_start_learn_mode_enabled (nms w) \<and> we_are_alone_in_our_network w
      then call (Zwapi_set_learn_mode LEARN_MODE_SMART_START True)
             (w\<lparr>nms := (nms w)\<lparr>learn_mode_intent := LEARN_SMART_START\<rparr>\<rparr>)
      else w)"

definition fsm_epilogue :: "nm_env \<Rightarrow> nm_world \<Rightarrow> nm_world" where
  "fsm_epilogue env w =
     (let w = (if nm_state_of w = NM_IDLE then reset_nms_last_operation_data (timer_stop w) else w);
          w = (case zwave_network_management_return_route_assign_next env w of (s, w) \<Rightarrow>
                 if s = SL_STATUS_IN_PROGRESS then set_state NM_ASSIGNING_RETURN_ROUTE w else w);
          w = call (On_state_updated (nm_state_of w)) w
      in if nm_state_of w = NM_IDLE then enable_smart_start w else w)"

lemma fsm_switch_post:
  assumes "fsm_switch env ev data w = (w', Post ev')"
  shows "(ev' = NM_EV_ADD_FAILED \<or> ev' = NM_EV_ADD_NODE_STATUS_DONE) \<and>
         ev \<noteq> NM_EV_ADD_FAILED \<and> ev \<noteq> NM_EV_ADD_NODE_STATUS_DONE"
  using assms
  by (auto simp: fsm_switch_def fsm_idle_def idle_learn_set_def idle_add_smart_start_def fsm_node_found_def
      node_found_info_def fsm_wait_for_secure_learn_def Let_def
      split: nm_state.splits if_splits nm_event_data.splits option.splits prod.splits)

function nm_fsm_post_event :: "nm_env \<Rightarrow> nm_event \<Rightarrow> nm_event_data \<Rightarrow> nm_world \<Rightarrow> nm_world option" where
  "nm_fsm_post_event env ev data w =
     (case fsm_switch env ev data w of
        (w, Break) \<Rightarrow> Some (fsm_epilogue env w)
      | (w, Return) \<Rightarrow> Some w
      | (w, Post ev') \<Rightarrow> nm_fsm_post_event env ev' Null w
      | (w, Stuck) \<Rightarrow> None)"
  by pat_completeness auto
termination
  by (relation "measure (\<lambda>(env, ev, data, w). if ev = NM_EV_ADD_FAILED \<or> ev = NM_EV_ADD_NODE_STATUS_DONE then 0 else 1)")
     (auto dest!: fsm_switch_post [OF sym])

declare nm_fsm_post_event.simps [simp del]

lemma nm_fsm_post_event_exits:
  "fsm_switch env ev data w = (v, Break) \<Longrightarrow> nm_fsm_post_event env ev data w = Some (fsm_epilogue env v)"
  "fsm_switch env ev data w = (v, Return) \<Longrightarrow> nm_fsm_post_event env ev data w = Some v"
  "fsm_switch env ev data w = (v, Post ev') \<Longrightarrow> nm_fsm_post_event env ev data w = nm_fsm_post_event env ev' Null v"
  "fsm_switch env ev data w = (v, Stuck) \<Longrightarrow> nm_fsm_post_event env ev data w = None"
  by (subst nm_fsm_post_event.simps, simp)+

text \<open>
  The handler thread takes one event from the queue (\<^verbatim>\<open>run\<close> of
  \<^verbatim>\<open>zwave_network_management_process.cpp\<close>); a timer that runs out calls the state machine.
\<close>

definition handler_run :: "nm_env \<Rightarrow> nm_world \<Rightarrow> nm_world option" where
  "handler_run env w =
     (case events w of
        [] \<Rightarrow> Some w
      | (ev, data) # rest \<Rightarrow> nm_fsm_post_event env ev data (w\<lparr>events := rest\<rparr>))"

definition nm_nms_timer_callback :: "nm_env \<Rightarrow> nm_world \<Rightarrow> nm_world option" where
  "nm_nms_timer_callback env w = nm_fsm_post_event env NM_EV_TIMEOUT Null (timer_stop w)"

end
