(* ===== verification/Nm_Api.thy ===== *)
theory Nm_Api
  imports Nm_Fsm
begin

text \<open>
  The interface of the network management component, \<^verbatim>\<open>zwave_network_management.c\<close>: the
  functions other components call. Most of them check that the component is free, store
  their parameters in the control structure and post an event.
\<close>

section \<open>Definitions\<close>

definition zwave_network_management_enable_smart_start_add_mode :: "bool \<Rightarrow> nm_world \<Rightarrow> nm_world" where
  "zwave_network_management_enable_smart_start_add_mode enabled w =
     zwave_network_management_post_event NM_EV_SMART_START_ENABLE Null
       (w\<lparr>nms := (nms w)\<lparr>smart_start_add_mode_enabled := enabled\<rparr>\<rparr>)"

definition zwave_network_management_enable_smart_start_learn_mode :: "bool \<Rightarrow> nm_world \<Rightarrow> nm_world" where
  "zwave_network_management_enable_smart_start_learn_mode enabled w =
     zwave_network_management_post_event NM_EV_SMART_START_ENABLE Null
       (w\<lparr>nms := (nms w)\<lparr>smart_start_learn_mode_enabled := enabled\<rparr>\<rparr>)"

definition zwave_network_management_get_state :: "nm_world \<Rightarrow> nm_state" where
  "zwave_network_management_get_state w = state (nms w)"

definition zwave_network_management_get_activity :: "nm_state \<Rightarrow> nm_world \<Rightarrow> nm_activity" where
  "zwave_network_management_get_activity s w =
     (case s of
        NM_WAITING_FOR_ADD \<Rightarrow> ACTIVITY_INCLUSION_ONGOING
      | NM_NODE_FOUND \<Rightarrow> ACTIVITY_INCLUSION_ONGOING
      | NM_WAIT_FOR_PROTOCOL \<Rightarrow> ACTIVITY_INCLUSION_ONGOING
      | NM_WAIT_FOR_SECURE_ADD \<Rightarrow> ACTIVITY_INCLUSION_ONGOING
      | NM_REPLACE_FAILED_REQ \<Rightarrow> ACTIVITY_INCLUSION_ONGOING
      | NM_PREPARE_SUC_INCLISION \<Rightarrow> ACTIVITY_INCLUSION_ONGOING
      | NM_WAIT_FOR_SUC_INCLUSION \<Rightarrow> ACTIVITY_INCLUSION_ONGOING
      | NM_PROXY_INCLUSION_WAIT_NIF \<Rightarrow> ACTIVITY_INCLUSION_ONGOING
      | NM_WAIT_FOR_TX_TO_SELF_DESTRUCT \<Rightarrow> ACTIVITY_INCLUSION_ONGOING
      | NM_WAIT_FOR_SELF_DESTRUCT_REMOVAL \<Rightarrow> ACTIVITY_INCLUSION_ONGOING
      | NM_SEND_NOP \<Rightarrow>
          if has_flag (NMS_FLAG_SMART_START_INCLUSION OR NMS_FLAG_S2_ADD) w
          then ACTIVITY_INCLUSION_ONGOING else ACTIVITY_EXCLUSION_ONGOING
      | NM_WAITING_FOR_NODE_REMOVAL \<Rightarrow> ACTIVITY_EXCLUSION_ONGOING
      | NM_WAITING_FOR_FAILED_NODE_REMOVAL \<Rightarrow> ACTIVITY_EXCLUSION_ONGOING
      | NM_FAILED_NODE_REMOVE \<Rightarrow> ACTIVITY_EXCLUSION_ONGOING
      | NM_LEARN_MODE \<Rightarrow> ACTIVITY_LEARNING_ONGOING
      | NM_LEARN_MODE_STARTED \<Rightarrow> ACTIVITY_LEARNING_ONGOING
      | NM_WAIT_FOR_SECURE_LEARN \<Rightarrow> ACTIVITY_LEARNING_ONGOING
      | NM_SET_DEFAULT \<Rightarrow> ACTIVITY_INTERNAL_ONGOING
      | NM_ASSIGNING_RETURN_ROUTE \<Rightarrow> ACTIVITY_INTERNAL_ONGOING
      | NM_NEIGHBOR_DISCOVERY_ONGOING \<Rightarrow> ACTIVITY_INTERNAL_ONGOING
      | NM_IDLE \<Rightarrow> ACTIVITY_IDLE)"

abbreviation (input) not_ready :: "nm_env \<Rightarrow> nm_world \<Rightarrow> bool" where
  "not_ready env w \<equiv> \<not> network_management_is_ready_for_a_new_operation env w"

definition zwave_network_management_add_node_with_dsk ::
  "nm_env \<Rightarrow> dsk \<Rightarrow> keyset \<Rightarrow> zwave_protocol \<Rightarrow> nm_world \<Rightarrow> sl_status \<times> nm_world" where
  "zwave_network_management_add_node_with_dsk env dsk keys proto w =
     (if not_ready env w then (SL_STATUS_FAIL, w)
      else (SL_STATUS_OK,
            zwave_network_management_post_event NM_EV_NODE_ADD_SMART_START
              (Smartstart \<lparr>ss_dsk = memcpy zero_dsk dsk ZWAVE_DSK_LENGTH, ss_granted_keys = keys,
                           ss_preferred_inclusion = proto\<rparr>) w))"

definition zwave_network_management_set_default :: "nm_world \<Rightarrow> sl_status \<times> nm_world" where
  "zwave_network_management_set_default w =
     (let w = (if nm_state_of w = NM_ASSIGNING_RETURN_ROUTE
               then set_state NM_IDLE (zwave_network_management_return_route_clear_queue w) else w)
      in if nm_state_of w \<noteq> NM_IDLE then (SL_STATUS_BUSY, w)
         else (SL_STATUS_OK, zwave_network_management_post_event NM_EV_SET_DEFAULT Null w))"

definition zwave_network_management_remove_failed :: "nm_env \<Rightarrow> node_id \<Rightarrow> nm_world \<Rightarrow> sl_status \<times> nm_world" where
  "zwave_network_management_remove_failed env n w =
     (if not_ready env w then (SL_STATUS_FAIL, w)
      else if \<not> ZW_IS_NODE_IN_MASK n (cached_node_list (nms w)) then (SL_STATUS_NOT_FOUND, w)
      else (SL_STATUS_OK,
            zwave_network_management_post_event NM_EV_REMOVE_FAILED Null
              (w\<lparr>nms := (nms w)\<lparr>node_id_being_handled := n\<rparr>\<rparr>)))"

definition zwave_network_management_remove_node :: "nm_env \<Rightarrow> node_id \<Rightarrow> nm_world \<Rightarrow> sl_status \<times> nm_world" where
  "zwave_network_management_remove_node env n w =
     (if unat n > ZW_MAX_NODES then (SL_STATUS_INVALID_PARAMETER, w)
      else if not_ready env w then (SL_STATUS_FAIL, w)
      else (SL_STATUS_OK,
            zwave_network_management_post_event NM_EV_NODE_REMOVE Null
              (w\<lparr>nms := (nms w)\<lparr>exclusion_node_id_filter := n\<rparr>\<rparr>)))"

definition zwave_network_management_stop_add_mode :: "nm_world \<Rightarrow> sl_status \<times> nm_world" where
  "zwave_network_management_stop_add_mode w =
     (if nm_state_of w = NM_WAITING_FOR_ADD
      then (SL_STATUS_OK, zwave_network_management_post_event NM_EV_ABORT Null w) else (SL_STATUS_FAIL, w))"

definition zwave_network_management_abort :: "nm_world \<Rightarrow> sl_status \<times> nm_world" where
  "zwave_network_management_abort w =
     (case zwave_network_management_stop_add_mode w of (s, w) \<Rightarrow>
        if s = SL_STATUS_OK then (SL_STATUS_OK, w)
        else if nm_state_of w \<noteq> NM_IDLE
        then (SL_STATUS_OK, zwave_network_management_post_event NM_EV_ABORT Null w)
        else (SL_STATUS_IDLE, w))"

definition zwave_network_management_add_node :: "nm_env \<Rightarrow> nm_world \<Rightarrow> sl_status \<times> nm_world" where
  "zwave_network_management_add_node env w =
     (if not_ready env w then (SL_STATUS_FAIL, w)
      else (SL_STATUS_OK, zwave_network_management_post_event NM_EV_NODE_ADD Null w))"

definition zwave_network_management_keys_set :: "bool \<Rightarrow> bool \<Rightarrow> keyset \<Rightarrow> nm_world \<Rightarrow> sl_status \<times> nm_world" where
  "zwave_network_management_keys_set accept csa keys w =
     (if nm_state_of w \<noteq> NM_WAIT_FOR_SECURE_ADD \<or> expected_s2_user_input (nms w) \<noteq> NM_S2_USER_INPUT_GRANT_KEYS
      then (SL_STATUS_BUSY, w)
      else (SL_STATUS_OK,
            zwave_network_management_post_event NM_EV_ADD_SECURITY_KEYS_SET Null
              (w\<lparr>nms := (nms w)\<lparr>accepted_s2_bootstrapping := accept, granted_keys := keys, accepted_csa := csa,
                                expected_s2_user_input := NM_S2_USER_INPUT_NONE\<rparr>\<rparr>)))"

definition zwave_network_management_dsk_set :: "dsk \<Rightarrow> nm_world \<Rightarrow> sl_status \<times> nm_world" where
  "zwave_network_management_dsk_set dsk w =
     (if nm_state_of w \<noteq> NM_WAIT_FOR_SECURE_ADD \<or> expected_s2_user_input (nms w) \<noteq> NM_S2_USER_INPUT_ACCEPT_DSK
      then (SL_STATUS_BUSY, w)
      else (SL_STATUS_OK,
            zwave_network_management_post_event NM_EV_ADD_SECURITY_DSK_SET Null
              (w\<lparr>nms := (nms w)\<lparr>verified_dsk_input := memcpy (verified_dsk_input (nms w)) dsk ZWAVE_DSK_LENGTH,
                                expected_s2_user_input := NM_S2_USER_INPUT_NONE\<rparr>\<rparr>)))"

definition zwave_network_management_learn_mode :: "nm_env \<Rightarrow> learn_mode \<Rightarrow> nm_world \<Rightarrow> sl_status \<times> nm_world" where
  "zwave_network_management_learn_mode env mode w =
     (if mode = LEARN_NONE
      then (SL_STATUS_OK,
            if nm_state_of w = NM_LEARN_MODE then zwave_network_management_post_event NM_EV_ABORT Null w else w)
      else if not_ready env w then (SL_STATUS_FAIL, w)
      else (SL_STATUS_OK,
            zwave_network_management_post_event NM_EV_LEARN_SET Null (w\<lparr>nms := (nms w)\<lparr>learn_mode_intent := mode\<rparr>\<rparr>)))"

definition zwave_network_management_is_protocol_sending_frames_to_node :: "node_id \<Rightarrow> nm_world \<Rightarrow> bool" where
  "zwave_network_management_is_protocol_sending_frames_to_node n w \<longleftrightarrow>
     we_have_return_routes_to_assign n w \<or>
     (nm_state_of w = NM_NEIGHBOR_DISCOVERY_ONGOING \<and> node_id_being_handled (nms w) = n)"

definition zwave_network_management_request_node_neighbor_discovery ::
  "nm_env \<Rightarrow> node_id \<Rightarrow> nm_world \<Rightarrow> sl_status \<times> nm_world" where
  "zwave_network_management_request_node_neighbor_discovery env n w =
     (if not_ready env w then (SL_STATUS_FAIL, w)
      else (SL_STATUS_OK, zwave_network_management_post_event NM_EV_REQUEST_NODE_NEIGHBOR_REQUEST (Node_id n) w))"

definition zwave_network_management_start_proxy_inclusion ::
  "nm_env \<Rightarrow> node_id \<Rightarrow> node_info \<Rightarrow> u8 \<Rightarrow> nm_world \<Rightarrow> sl_status \<times> nm_world" where
  "zwave_network_management_start_proxy_inclusion env n nif inclusion_step w =
     (if not_ready env w then (SL_STATUS_FAIL, w)
      else (SL_STATUS_OK,
            zwave_network_management_post_event NM_EV_START_PROXY_INCLUSION Null
              (w\<lparr>nms := (nms w)\<lparr>node_id_being_handled := n, flags := 0, node_info := nif,
                                proxy_inclusion_step := inclusion_step\<rparr>\<rparr>)))"

definition zwave_network_management_assign_return_route ::
  "nm_env \<Rightarrow> node_id \<Rightarrow> node_id \<Rightarrow> nm_world \<Rightarrow> sl_status \<times> nm_world" where
  "zwave_network_management_assign_return_route env n d w =
     (if is_reset_ongoing env (calls w) then (SL_STATUS_FAIL, w)
      else zwave_network_management_return_route_add_to_queue env n d w)"

definition zwave_network_management_is_busy :: "nm_world \<Rightarrow> bool" where
  "zwave_network_management_is_busy w = (if nm_state_of w \<noteq> NM_IDLE then True else False)"

definition zwave_network_management_get_home_id :: "nm_world \<Rightarrow> u32" where
  "zwave_network_management_get_home_id w = cached_home_id (nms w)"

definition zwave_network_management_get_node_id :: "nm_world \<Rightarrow> node_id" where
  "zwave_network_management_get_node_id w = cached_local_node_id (nms w)"

definition zwave_network_management_get_network_size :: "nm_world \<Rightarrow> u16" where
  "zwave_network_management_get_network_size w =
     fold (\<lambda>n number_of_nodes. if ZW_IS_NODE_IN_MASK n (cached_node_list (nms w)) then number_of_nodes + 1 else number_of_nodes)
       node_range 0"

definition zwave_network_management_get_network_node_list :: "nm_world \<Rightarrow> nodemask" where
  "zwave_network_management_get_network_node_list w = cached_node_list (nms w)"

definition zwave_network_management_get_granted_keys :: "nm_env \<Rightarrow> nm_world \<Rightarrow> keyset \<times> nm_world" where
  "zwave_network_management_get_granted_keys env w =
     (let w = call S2_keystore_get_assigned_keys w in (keystore_get_assigned_keys env (calls w), w))"

text \<open>The Z-Wave module has restarted.\<close>

definition on_zwave_api_started :: "nm_world \<Rightarrow> nm_world" where
  "on_zwave_api_started w =
     (if zwave_network_management_get_state w = NM_SET_DEFAULT
      then zwave_network_management_post_event NM_EV_SET_DEFAULT_COMPLETE Null w
      else if zwave_network_management_get_state w \<noteq> NM_IDLE then snd (zwave_network_management_abort w)
      else w)"

section \<open>The network size\<close>

lemma count_fold:
  "fold (\<lambda>n c. if P n then c + 1 else c) ns (a :: u16) = a + of_nat (length (filter P ns))"
  by (induction ns arbitrary: a) (simp_all add: ac_simps)

text \<open>
  The network size is the number of NodeIDs in the cached node list, and the
  controller is alone exactly when that list has no NodeID but its own.
\<close>

theorem network_size_counts_nodes:
  "unat (zwave_network_management_get_network_size w) = card {n. ZW_IS_NODE_IN_MASK n (cached_node_list (nms w))} \<and>
   we_are_alone_in_our_network w = ({n. ZW_IS_NODE_IN_MASK n (cached_node_list (nms w))} \<subseteq> {cached_local_node_id (nms w)})"
proof
  let ?m = "cached_node_list (nms w)"
  have "length (filter (\<lambda>n. ZW_IS_NODE_IN_MASK n ?m) node_range) \<le> 4000"
    by (rule order_trans [OF length_filter_le]) (simp add: node_range_def)
  then show "unat (zwave_network_management_get_network_size w) = card {n. ZW_IS_NODE_IN_MASK n ?m}"
    by (simp add: zwave_network_management_get_network_size_def count_fold card_mask_members unat_of_nat)
  show "we_are_alone_in_our_network w = ({n. ZW_IS_NODE_IN_MASK n ?m} \<subseteq> {cached_local_node_id (nms w)})"
    by (auto simp: we_are_alone_in_our_network_def list_all_iff dest: member_in_range)
qed

end
