(* ===== verification/Nm_Invariants.thy ===== *)
theory Nm_Invariants
  imports Nm_Api
begin

text \<open>
  The network management component as a whole: its inputs (calls of the interface,
  callbacks of the layers below, the handler thread and the timer) as one step function,
  and the invariants of every history. Predicates that no handler can break are proved
  once, in a locale.
\<close>

section \<open>The inputs of the component\<close>

datatype (plugins only: code size) nm_input =
  Enable_smart_start_add_mode bool | Enable_smart_start_learn_mode bool
| Add_node_with_dsk dsk keyset zwave_protocol | Set_default | Remove_failed node_id | Remove_node node_id
| Abort | Add_node | Keys_set bool bool keyset | Dsk_set dsk | Learn_mode learn_mode
| Request_neighbor_discovery node_id | Start_proxy_inclusion node_id node_info u8
| Assign_return_route node_id node_id | Api_started
| Add_node_status learn_info | Secure_inclusion_complete keyset kex_fail_type | Keys_request keyset bool
| Dsk_challenge keyset int dsk | S2_inclusion_started | Remove_failed_status u8 | Remove_node_status learn_info
| Learn_mode_status learn_info | Suc_completed u8 | Default_complete | Neighbor_update_completed u8 | Nop_done u8
| Route_complete u8
| Handler_run | Timer_fires

fun nm_input_step :: "nm_env \<Rightarrow> nm_input \<Rightarrow> nm_world \<Rightarrow> nm_world option" where
  "nm_input_step env (Enable_smart_start_add_mode b) w = Some (zwave_network_management_enable_smart_start_add_mode b w)"
| "nm_input_step env (Enable_smart_start_learn_mode b) w = Some (zwave_network_management_enable_smart_start_learn_mode b w)"
| "nm_input_step env (Add_node_with_dsk d k p) w = Some (snd (zwave_network_management_add_node_with_dsk env d k p w))"
| "nm_input_step env Set_default w = Some (snd (zwave_network_management_set_default w))"
| "nm_input_step env (Remove_failed n) w = Some (snd (zwave_network_management_remove_failed env n w))"
| "nm_input_step env (Remove_node n) w = Some (snd (zwave_network_management_remove_node env n w))"
| "nm_input_step env Abort w = Some (snd (zwave_network_management_abort w))"
| "nm_input_step env Add_node w = Some (snd (zwave_network_management_add_node env w))"
| "nm_input_step env (Keys_set a c k) w = Some (snd (zwave_network_management_keys_set a c k w))"
| "nm_input_step env (Dsk_set d) w = Some (snd (zwave_network_management_dsk_set d w))"
| "nm_input_step env (Learn_mode m) w = Some (snd (zwave_network_management_learn_mode env m w))"
| "nm_input_step env (Request_neighbor_discovery n) w =
     Some (snd (zwave_network_management_request_node_neighbor_discovery env n w))"
| "nm_input_step env (Start_proxy_inclusion n i s) w =
     Some (snd (zwave_network_management_start_proxy_inclusion env n i s w))"
| "nm_input_step env (Assign_return_route n d) w = Some (snd (zwave_network_management_assign_return_route env n d w))"
| "nm_input_step env Api_started w = Some (on_zwave_api_started w)"
| "nm_input_step env (Add_node_status i) w = Some (add_node_status_update i w)"
| "nm_input_step env (Secure_inclusion_complete k x) w = Some (on_secure_inclusion_complete k x w)"
| "nm_input_step env (Keys_request k c) w = Some (on_keys_request k c w)"
| "nm_input_step env (Dsk_challenge k n d) w = Some (on_dsk_challenge k n d w)"
| "nm_input_step env S2_inclusion_started w = Some (on_s2_inclusion_started w)"
| "nm_input_step env (Remove_failed_status s) w = Some (on_remove_failed_status_update s w)"
| "nm_input_step env (Remove_node_status i) w = Some (on_remove_node_status_update i w)"
| "nm_input_step env (Learn_mode_status i) w = Some (on_learn_mode_callback i w)"
| "nm_input_step env (Suc_completed s) w = Some (on_set_suc_node_id_completed env s w)"
| "nm_input_step env Default_complete w = Some (on_set_default_complete w)"
| "nm_input_step env (Neighbor_update_completed s) w = Some (on_request_node_neighbor_update_completed s w)"
| "nm_input_step env (Nop_done s) w = Some (nop_send_done s w)"
| "nm_input_step env (Route_complete s) w = Some (on_assign_return_route_complete env s w)"
| "nm_input_step env Handler_run w = handler_run env w"
| "nm_input_step env Timer_fires w = (if timer (nms w) = None then Some w else nm_nms_timer_callback env w)"

text \<open>A history: the inputs in their order; \<open>None\<close> once a call does not return.\<close>

definition nm_step :: "nm_env \<Rightarrow> nm_input \<Rightarrow> nm_world option \<Rightarrow> nm_world option" where
  "nm_step env i s = Option.bind s (nm_input_step env i)"

abbreviation "nm_run env is w \<equiv> fold (nm_step env) is (Some w)"

section \<open>What the helpers leave alone\<close>

text \<open>The part of the control structure the refreshing helpers do not touch.\<close>

lemma refresh_cached_ids_frame [simp]:
  "state (nms (network_management_refresh_cached_ids env w)) = state (nms w)"
  "timer (nms (network_management_refresh_cached_ids env w)) = timer (nms w)"
  "flags (nms (network_management_refresh_cached_ids env w)) = flags (nms w)"
  "learn_mode_intent (nms (network_management_refresh_cached_ids env w)) = learn_mode_intent (nms w)"
  "events (network_management_refresh_cached_ids env w) = events w"
  "routes (network_management_refresh_cached_ids env w) = routes w"
  by (simp_all add: network_management_refresh_cached_ids_def Let_def split: option.splits prod.splits)

lemma refresh_node_list_frame [simp]:
  "state (nms (network_management_refresh_cached_node_list env w)) = state (nms w)"
  "timer (nms (network_management_refresh_cached_node_list env w)) = timer (nms w)"
  "flags (nms (network_management_refresh_cached_node_list env w)) = flags (nms w)"
  "learn_mode_intent (nms (network_management_refresh_cached_node_list env w)) = learn_mode_intent (nms w)"
  "events (network_management_refresh_cached_node_list env w) = events w"
  "routes (network_management_refresh_cached_node_list env w) = routes w"
  "calls (network_management_refresh_cached_node_list env w) = calls w @ [Zwapi_get_full_node_list]"
  by (simp_all add: network_management_refresh_cached_node_list_def Let_def)

lemma refresh_capabilities_frame [simp]:
  "state (nms (network_management_refresh_controller_capabilities_bitmask env w)) = state (nms w)"
  "timer (nms (network_management_refresh_controller_capabilities_bitmask env w)) = timer (nms w)"
  "events (network_management_refresh_controller_capabilities_bitmask env w) = events w"
  "routes (network_management_refresh_controller_capabilities_bitmask env w) = routes w"
  by (simp_all add: network_management_refresh_controller_capabilities_bitmask_def Let_def)

lemma helper_frame [simp]:
  "state (nms (network_management_refresh_network_information env w)) = state (nms w)"
  "timer (nms (network_management_refresh_network_information env w)) = timer (nms w)"
  "events (network_management_refresh_network_information env w) = events w"
  "routes (network_management_refresh_network_information env w) = routes w"
  "nms (network_management_stop_ongoing_operations w) = nms w"
  "events (network_management_stop_ongoing_operations w) = events w"
  "routes (network_management_stop_ongoing_operations w) = routes w"
  "state (nms (network_management_take_sis_role_if_no_suc_in_network env w)) = state (nms w)"
  "timer (nms (network_management_take_sis_role_if_no_suc_in_network env w)) = timer (nms w)"
  "events (network_management_take_sis_role_if_no_suc_in_network env w) = events w"
  "routes (network_management_take_sis_role_if_no_suc_in_network env w) = routes w"
  "state (nms (on_new_network env kex w)) = state (nms w)"
  "timer (nms (on_new_network env kex w)) = timer (nms w)"
  "events (on_new_network env kex w) = events w"
  "routes (on_new_network env kex w) = routes w"
  by (simp_all add: network_management_refresh_network_information_def network_management_stop_ongoing_operations_def
      network_management_take_sis_role_if_no_suc_in_network_def on_new_network_def Let_def)

lemma report_frame [simp]:
  "state (nms (nm_fill_reported_dsk_from_expected_if_needed w)) = state (nms w)"
  "timer (nms (nm_fill_reported_dsk_from_expected_if_needed w)) = timer (nms w)"
  "events (nm_fill_reported_dsk_from_expected_if_needed w) = events w"
  "routes (nm_fill_reported_dsk_from_expected_if_needed w) = routes w"
  "state (nms (notify_node_add_security_failed w)) = state (nms w)"
  "timer (nms (notify_node_add_security_failed w)) = timer (nms w)"
  "events (notify_node_add_security_failed w) = events w"
  "routes (notify_node_add_security_failed w) = routes w"
  "nms (notify_node_add_aborted w) = nms w"
  "events (notify_node_add_aborted w) = events w"
  "routes (notify_node_add_aborted w) = routes w"
  "state (nms (dispatch_node_added env w)) = NM_IDLE"
  "timer (nms (dispatch_node_added env w)) = timer (nms w)"
  "events (dispatch_node_added env w) = events w"
  "routes (dispatch_node_added env w) = routes w"
  "state (nms (dispatch_node_added_after_self_destruct_fail env w)) = NM_IDLE"
  "timer (nms (dispatch_node_added_after_self_destruct_fail env w)) = timer (nms w)"
  "events (dispatch_node_added_after_self_destruct_fail env w) = events w"
  "routes (dispatch_node_added_after_self_destruct_fail env w) = routes w"
  by (simp_all add: nm_fill_reported_dsk_from_expected_if_needed_def notify_node_add_security_failed_def
      notify_node_add_aborted_def dispatch_node_added_def dispatch_node_added_after_self_destruct_fail_def to_idle_def Let_def)

lemma reset_frame [simp]:
  "state (nms (reset_nms_last_operation_data w)) = state (nms w)"
  "timer (nms (reset_nms_last_operation_data w)) = timer (nms w)"
  "events (reset_nms_last_operation_data w) = events w"
  "routes (reset_nms_last_operation_data w) = routes w"
  "calls (reset_nms_last_operation_data w) = calls w"
  by (simp_all add: reset_nms_last_operation_data_def)

lemma enable_smart_start_frame [simp]:
  "state (nms (enable_smart_start w)) = state (nms w)" "timer (nms (enable_smart_start w)) = timer (nms w)"
  "events (enable_smart_start w) = events w" "routes (enable_smart_start w) = routes w"
  by (simp_all add: enable_smart_start_def)

section \<open>Predicates every handler keeps\<close>

text \<open>
  A node is reported as added only with a status that fits the outcome of the security
  bootstrapping, and the keys granted to it are a subset of those it asked for.
\<close>

definition call_ok :: "nm_call \<Rightarrow> bool" where
  "call_ok c = (case c of On_node_added st _ _ _ _ kex _ \<Rightarrow> st = SL_STATUS_OK \<longrightarrow> kex = KEX_FAIL_NONE | _ \<Rightarrow> True)"

text \<open>
  A predicate that does not look at the control structure, survives the calls the handlers
  make and the events they post, and survives the operations of the route queue, survives
  every handler. The operations are proved once, for every such predicate.
\<close>

locale world_predicate =
  fixes I :: "nm_world \<Rightarrow> bool"
  assumes I_nms: "I w \<Longrightarrow> I (w\<lparr>nms := n\<rparr>)"
    and I_call: "I w \<Longrightarrow> call_ok c \<Longrightarrow> I (call c w)"
    and I_post: "I w \<Longrightarrow> ev \<notin> {NM_EV_ADD_CONTROLLER, NM_EV_ADD_END_NODE, NM_EV_NODE_ADD_SMART_START} \<Longrightarrow>
                 I (zwave_network_management_post_event ev d w)"
    and I_assign_next: "I w \<Longrightarrow> I (snd (zwave_network_management_return_route_assign_next env w))"
    and I_route_complete: "I w \<Longrightarrow> I (on_assign_return_route_complete env st w)"
    and I_clear_queue: "I w \<Longrightarrow> I (zwave_network_management_return_route_clear_queue w)"
begin

lemma I_set_state: "I w \<Longrightarrow> I (set_state s w)" and I_timer_set: "I w \<Longrightarrow> I (timer_set ms w)"
  and I_timer_stop: "I w \<Longrightarrow> I (timer_stop w)"
  by (simp_all add: set_state_def timer_set_def timer_stop_def I_nms)

lemma I_reset: "I w \<Longrightarrow> I (reset_nms_last_operation_data w)"
  unfolding reset_nms_last_operation_data_def by (rule I_nms)

lemmas I_basic = I_call I_nms I_set_state I_timer_set I_timer_stop I_reset

lemma I_refresh_ids: "I w \<Longrightarrow> I (network_management_refresh_cached_ids env w)"
  by (simp add: network_management_refresh_cached_ids_def Let_def call_ok_def I_basic split: option.split)

lemma I_refresh_list: "I w \<Longrightarrow> I (network_management_refresh_cached_node_list env w)"
  by (simp add: network_management_refresh_cached_node_list_def Let_def call_ok_def I_basic)

lemma I_refresh_caps: "I w \<Longrightarrow> I (network_management_refresh_controller_capabilities_bitmask env w)"
  by (simp add: network_management_refresh_controller_capabilities_bitmask_def Let_def call_ok_def I_basic)

lemma I_refresh: "I w \<Longrightarrow> I (network_management_refresh_network_information env w)"
  unfolding network_management_refresh_network_information_def by (intro I_refresh_ids I_refresh_list I_refresh_caps)

lemma I_stop_ongoing: "I w \<Longrightarrow> I (network_management_stop_ongoing_operations w)"
  by (simp add: network_management_stop_ongoing_operations_def I_call call_ok_def)

lemma I_take_sis: "I w \<Longrightarrow> I (network_management_take_sis_role_if_no_suc_in_network env w)"
  by (simp add: network_management_take_sis_role_if_no_suc_in_network_def call_ok_def I_call I_refresh_caps)

lemma I_new_network: "I w \<Longrightarrow> I (on_new_network env kex w)"
  by (simp add: on_new_network_def Let_def call_ok_def I_basic I_take_sis I_refresh)

lemmas I_refreshes = I_refresh_ids I_refresh_list I_refresh_caps I_refresh I_stop_ongoing I_take_sis I_new_network

lemma I_fill_dsk: "I w \<Longrightarrow> I (nm_fill_reported_dsk_from_expected_if_needed w)"
  by (simp add: nm_fill_reported_dsk_from_expected_if_needed_def I_nms)

lemma I_security_failed: "I w \<Longrightarrow> I (notify_node_add_security_failed w)"
  by (simp add: notify_node_add_security_failed_def Let_def call_ok_def I_basic I_fill_dsk)

lemma I_aborted: "I w \<Longrightarrow> I (notify_node_add_aborted w)"
  by (simp add: notify_node_add_aborted_def Let_def call_ok_def I_basic)

lemma I_dispatch: "I w \<Longrightarrow> I (dispatch_node_added env w)"
  by (simp add: dispatch_node_added_def to_idle_def Let_def call_ok_def I_basic I_fill_dsk I_refreshes)

lemma I_dispatch_fail: "I w \<Longrightarrow> I (dispatch_node_added_after_self_destruct_fail env w)"
  by (simp add: dispatch_node_added_after_self_destruct_fail_def to_idle_def Let_def call_ok_def I_basic I_dispatch I_refreshes)

lemma I_remove_failed_status: "I w \<Longrightarrow> I (on_remove_failed_status_update st w)"
  by (simp add: on_remove_failed_status_update_def I_post)

lemma I_self_destruct: "I w \<Longrightarrow> I (nm_start_self_destruct_remove_failed env w)"
  by (simp add: nm_start_self_destruct_remove_failed_def Let_def call_ok_def I_basic I_remove_failed_status)

lemma I_nop_done: "I w \<Longrightarrow> I (nop_send_done st w)"
  by (simp add: nop_send_done_def I_post)

lemma I_neighbor_completed: "I w \<Longrightarrow> I (on_request_node_neighbor_update_completed st w)"
  by (simp add: on_request_node_neighbor_update_completed_def I_post I_call Let_def call_ok_def)

lemmas I_steps = I_basic I_refreshes I_security_failed I_aborted I_dispatch I_dispatch_fail I_remove_failed_status
  I_self_destruct I_nop_done I_neighbor_completed I_assign_next I_route_complete I_clear_queue

lemma I_idle: "I w \<Longrightarrow> I (fst (fsm_idle env ev data w))"
  by (simp add: fsm_idle_def idle_learn_set_def idle_smart_start_enable_def idle_add_smart_start_def idle_node_remove_def
      idle_node_add_def idle_neighbor_request_def Let_def call_ok_def case_prod_unfold I_steps I_post split: nm_event_data.split)

lemma I_send_nop: "I w \<Longrightarrow> I (fsm_send_nop env ev w)"
  by (simp add: fsm_send_nop_def Let_def call_ok_def I_steps)

lemma I_wait_for_nop: "I w \<Longrightarrow> I (fsm_wait_for_nop env ev w)"
  by (simp add: fsm_wait_for_nop_def remove_failed_node_def Let_def call_ok_def I_steps)

lemma I_set_default: "I w \<Longrightarrow> I (fsm_set_default env ev w)"
  by (simp add: fsm_set_default_def Let_def call_ok_def I_steps)

lemma I_waiting_for_add: "I w \<Longrightarrow> I (fsm_waiting_for_add ev w)"
  by (simp add: fsm_waiting_for_add_def Let_def call_ok_def I_steps)

lemma I_node_found: "I w \<Longrightarrow> I (fst (fsm_node_found env ev data w))"
  by (simp add: fsm_node_found_def node_found_info_def Let_def call_ok_def I_steps split: nm_event_data.split option.split)

lemma I_wait_for_protocol: "I w \<Longrightarrow> I (fsm_wait_for_protocol env ev w)"
  by (simp add: fsm_wait_for_protocol_def protocol_status_done_def start_secure_add_def to_send_nop_def Let_def call_ok_def
      case_prod_unfold I_steps)

lemma I_wait_for_secure_add: "I w \<Longrightarrow> I (fsm_wait_for_secure_add env ev w)"
  by (simp add: fsm_wait_for_secure_add_def secure_add_challenge_def to_send_nop_def Let_def call_ok_def I_steps split: option.split)

lemma I_waiting_for_removal: "I w \<Longrightarrow> I (fsm_waiting_for_removal env ev w)"
  by (simp add: fsm_waiting_for_removal_def Let_def call_ok_def I_steps)

lemma I_waiting_for_node_removal: "I w \<Longrightarrow> I (fsm_waiting_for_node_removal env ev w)"
  by (simp add: fsm_waiting_for_node_removal_def stop_removal_def Let_def call_ok_def I_steps)

lemma I_learn_mode: "I w \<Longrightarrow> I (fsm_learn_mode ev w)"
  by (simp add: fsm_learn_mode_def Let_def call_ok_def I_steps)

lemma I_learn_mode_started: "I w \<Longrightarrow> I (fsm_learn_mode_started env ev w)"
  by (simp add: fsm_learn_mode_started_def Let_def call_ok_def I_steps I_post)

lemma I_wait_for_secure_learn: "I w \<Longrightarrow> I (fst (fsm_wait_for_secure_learn env ev w))"
  by (simp add: fsm_wait_for_secure_learn_def call_ok_def I_steps)

lemma I_route_states: "I w \<Longrightarrow> I (fsm_assigning_return_route env ev w)" "I w \<Longrightarrow> I (fsm_neighbor_discovery ev w)"
  by (simp_all add: fsm_assigning_return_route_def fsm_neighbor_discovery_def call_ok_def I_steps)

lemmas I_states = I_idle I_send_nop I_wait_for_nop I_set_default I_waiting_for_add I_node_found I_wait_for_protocol
  I_wait_for_secure_add I_waiting_for_removal I_waiting_for_node_removal I_learn_mode I_learn_mode_started
  I_wait_for_secure_learn I_route_states

lemma I_switch: "I w \<Longrightarrow> I (fst (fsm_switch env ev data w))"
  by (simp add: fsm_switch_def I_states split: nm_state.split)

lemma I_epilogue: "I w \<Longrightarrow> I (fsm_epilogue env w)"
  by (simp add: fsm_epilogue_def enable_smart_start_def Let_def call_ok_def case_prod_unfold I_steps)

lemma I_fsm: "nm_fsm_post_event env ev data w = Some w' \<Longrightarrow> I w \<Longrightarrow> I w'"
proof (induction env ev data w rule: nm_fsm_post_event.induct)
  case (1 env ev data w)
  obtain w1 x where s: "fsm_switch env ev data w = (w1, x)" by fastforce
  have "I w1" using I_switch [OF 1(3), of env ev data] s by simp
  then show ?case
    using 1 s by (cases x) (auto simp: nm_fsm_post_event.simps [of env ev data w] I_epilogue)
qed

end

text \<open>
  A predicate that survives every change of a route entry survives the operations of the
  route queue.
\<close>

locale entry_predicate =
  fixes I :: "nm_world \<Rightarrow> bool"
  assumes J_nms: "I w \<Longrightarrow> I (w\<lparr>nms := n\<rparr>)"
    and J_call: "I w \<Longrightarrow> call_ok c \<Longrightarrow> I (call c w)"
    and J_route: "I w \<Longrightarrow> I (set_route i e w)"
    and J_post: "I w \<Longrightarrow> ev \<notin> {NM_EV_ADD_CONTROLLER, NM_EV_ADD_END_NODE, NM_EV_NODE_ADD_SMART_START} \<Longrightarrow>
                 I (zwave_network_management_post_event ev d w)"
begin

lemma J_finish_route: "I w \<Longrightarrow> I (finish_route env i w)"
  by (simp add: finish_route_def Let_def call_ok_def J_call J_route)

lemma J_assign_loop: "I w \<Longrightarrow> I (snd (assign_loop env is w))"
  by (induction "is" arbitrary: w) (simp_all add: Let_def call_ok_def J_call J_route J_finish_route)

lemma J_assign_next: "I w \<Longrightarrow> I (snd (zwave_network_management_return_route_assign_next env w))"
  by (simp add: zwave_network_management_return_route_assign_next_def J_assign_loop)

lemma J_complete_loop: "I w \<Longrightarrow> I (complete_loop env is w)"
  by (induction "is" arbitrary: w) (simp_all add: J_finish_route)

lemma J_route_complete: "I w \<Longrightarrow> I (on_assign_return_route_complete env st w)"
  by (simp add: on_assign_return_route_complete_def case_prod_unfold J_post J_assign_next J_complete_loop)

lemma J_clear_queue: "I w \<Longrightarrow> I (zwave_network_management_return_route_clear_queue w)"
proof -
  have "I w \<Longrightarrow> I (fold clear_queue_entry is w)" for "is"
    by (induction "is" arbitrary: w) (simp_all add: clear_queue_entry_def J_route)
  then show "I w \<Longrightarrow> ?thesis" by (simp add: zwave_network_management_return_route_clear_queue_def)
qed

lemma J_add_to_queue: "I w \<Longrightarrow> I (snd (zwave_network_management_return_route_add_to_queue env n d w))"
proof -
  have "I w \<Longrightarrow> I (snd (add_check_loop env n d is w))" for w "is"
    by (induction "is" arbitrary: w) (simp_all add: Let_def call_ok_def J_call J_route clear_queue_entry_def)
  moreover have "I w \<Longrightarrow> I (snd (add_place_loop n d is w))" for w "is"
    by (induction "is" arbitrary: w) (simp_all add: J_post J_route)
  ultimately show "I w \<Longrightarrow> ?thesis"
    by (simp add: zwave_network_management_return_route_add_to_queue_def case_prod_unfold)
qed

end

sublocale entry_predicate \<subseteq> world_predicate I
  by unfold_locales (fact J_nms J_call J_post J_assign_next J_route_complete J_clear_queue)+

section \<open>Events carry the data their handlers read\<close>

definition event_ok :: "nm_event \<times> nm_event_data \<Rightarrow> bool" where
  "event_ok e = (case e of (ev, d) \<Rightarrow>
     ((ev = NM_EV_ADD_CONTROLLER \<or> ev = NM_EV_ADD_END_NODE) \<longrightarrow> d = Inf_bkup) \<and>
     (ev = NM_EV_NODE_ADD_SMART_START \<longrightarrow> (\<exists>s. d = Smartstart s)))"

definition events_ok :: "nm_world \<Rightarrow> bool" where
  "events_ok w = list_all event_ok (events w)"

interpretation events: entry_predicate events_ok
  by unfold_locales (auto simp: events_ok_def event_ok_def list_all_iff)

definition calls_ok :: "nm_world \<Rightarrow> bool" where
  "calls_ok w = list_all call_ok (calls w)"

interpretation calls: entry_predicate calls_ok
  by unfold_locales (simp_all add: calls_ok_def)

interpretation queue: world_predicate "\<lambda>w. queue_inv (routes w)"
proof (unfold_locales, goal_cases)
  case (4 w env)
  then show ?case using route_step_inv [OF 4, of env Assign_next] by simp
next
  case (5 w env st)
  then show ?case using route_step_inv [OF 5, of env "Complete st"] by simp
next
  case (6 w)
  then show ?case using route_step_inv [OF 6, of _ Clear_queue] by simp
qed simp_all

section \<open>Waiting states have a running timer\<close>

text \<open>
  The states that are left by a timeout; and the states no transition enters, which are left
  over from replacing failed nodes and from inclusion by another controller.
\<close>

definition timed :: "nm_state \<Rightarrow> bool" where
  "timed s = (s \<in> {NM_WAITING_FOR_ADD, NM_NODE_FOUND, NM_WAIT_FOR_PROTOCOL, NM_WAIT_FOR_SECURE_ADD,
     NM_WAIT_FOR_TX_TO_SELF_DESTRUCT, NM_WAIT_FOR_SELF_DESTRUCT_REMOVAL, NM_FAILED_NODE_REMOVE,
     NM_WAITING_FOR_FAILED_NODE_REMOVAL, NM_WAITING_FOR_NODE_REMOVAL})"

definition dead :: "nm_state \<Rightarrow> bool" where
  "dead s = (s \<in> {NM_REPLACE_FAILED_REQ, NM_PREPARE_SUC_INCLISION, NM_WAIT_FOR_SUC_INCLUSION, NM_PROXY_INCLUSION_WAIT_NIF})"

definition armed :: "nm_world \<Rightarrow> bool" where
  "armed w \<longleftrightarrow> (timed (nm_state_of w) \<longrightarrow> timer (nms w) \<noteq> None)"

text \<open>Before a NOP is sent, a timer runs or the request to remove the node is queued.\<close>

definition nop_due :: "nm_world \<Rightarrow> bool" where
  "nop_due w \<longleftrightarrow> (nm_state_of w = NM_SEND_NOP \<longrightarrow>
     timer (nms w) \<noteq> None \<or> NM_EV_REMOVE_FAILED \<in> fst ` set (events w))"

definition alive :: "nm_world \<Rightarrow> bool" where
  "alive w \<longleftrightarrow> \<not> dead (nm_state_of w) \<and> armed w \<and> nop_due w"

lemmas alive_defs = alive_def armed_def nop_due_def timed_def dead_def

text \<open>What holds when an event is handed to the state machine: its timer or its request is used up.\<close>

definition entry :: "nm_event \<Rightarrow> nm_world \<Rightarrow> bool" where
  "entry ev w \<longleftrightarrow> \<not> dead (nm_state_of w) \<and> (ev \<noteq> NM_EV_TIMEOUT \<longrightarrow> armed w) \<and>
     (ev \<noteq> NM_EV_TIMEOUT \<and> ev \<noteq> NM_EV_REMOVE_FAILED \<longrightarrow> nop_due w)"

lemma helper_frame2 [simp]:
  "state (nms (nm_start_self_destruct_remove_failed env w)) = NM_WAIT_FOR_SELF_DESTRUCT_REMOVAL"
  "timer (nms (nm_start_self_destruct_remove_failed env w)) = Some SEND_DATA_TIMEOUT"
  "nms (on_remove_failed_status_update st w) = nms w" "nms (nop_send_done st w) = nms w"
  "nms (stop_removal w) = nms w" "nms (on_request_node_neighbor_update_completed st w) = nms w"
  by (simp_all add: nm_start_self_destruct_remove_failed_def on_remove_failed_status_update_def nop_send_done_def
      stop_removal_def on_request_node_neighbor_update_completed_def Let_def)

lemma alive_idle_parts:
  assumes "nm_state_of w = NM_IDLE"
  shows "alive (fst (idle_learn_set w))" "alive (idle_smart_start_enable w)" "alive (fst (idle_add_smart_start env e w))"
    "alive (idle_node_remove env w)" "alive (idle_node_add env w)" "alive (idle_neighbor_request env n w)"
  using assms
  by (simp_all add: idle_learn_set_def idle_smart_start_enable_def idle_add_smart_start_def idle_node_remove_def
      idle_node_add_def idle_neighbor_request_def Let_def alive_defs)

lemma alive_idle: "nm_state_of w = NM_IDLE \<Longrightarrow> alive (fst (fsm_idle env ev data w))"
  by (simp add: fsm_idle_def alive_idle_parts case_prod_unfold split: nm_event_data.split) (simp add: alive_defs)

lemma alive_send_nop: "entry ev w \<Longrightarrow> nm_state_of w = NM_SEND_NOP \<Longrightarrow> alive (fsm_send_nop env ev w)"
  by (auto simp: fsm_send_nop_def Let_def alive_defs entry_def)

lemma remove_failed_node_frame [simp]:
  "state (nms (remove_failed_node env w)) = NM_WAITING_FOR_FAILED_NODE_REMOVAL"
  "timer (nms (remove_failed_node env w)) = timer (nms w)"
  by (simp_all add: remove_failed_node_def Let_def)

lemma alive_not_nop: "\<not> dead (nm_state_of w) \<Longrightarrow> nm_state_of w \<noteq> NM_SEND_NOP \<Longrightarrow> armed w \<Longrightarrow> alive w"
  by (simp add: alive_def nop_due_def)

lemma alive_wait_for_nop:
  assumes "entry ev w" and "nm_state_of w = NM_WAIT_FOR_TX_TO_SELF_DESTRUCT \<or> nm_state_of w = NM_FAILED_NODE_REMOVE"
  shows "alive (fsm_wait_for_nop env ev w)"
proof (rule alive_not_nop)
  let ?w = "fsm_wait_for_nop env ev w"
  have s: "nm_state_of ?w \<in> {nm_state_of w, NM_WAIT_FOR_SELF_DESTRUCT_REMOVAL, NM_WAITING_FOR_FAILED_NODE_REMOVAL, NM_IDLE}"
    by (simp add: fsm_wait_for_nop_def Let_def)
  then show "\<not> dead (nm_state_of ?w)" "nm_state_of ?w \<noteq> NM_SEND_NOP"
    using assms(2) by (auto simp: dead_def)
  have "timer (nms w) \<noteq> None" if "ev \<noteq> NM_EV_TIMEOUT"
    using assms that by (auto simp: entry_def armed_def timed_def)
  then show "armed ?w"
    by (auto simp: fsm_wait_for_nop_def Let_def armed_def timed_def)
qed

lemma alive_set_default: "nm_state_of w = NM_SET_DEFAULT \<Longrightarrow> alive (fsm_set_default env ev w)"
  by (simp add: fsm_set_default_def Let_def alive_defs)

lemma alive_waiting_for_add: "entry ev w \<Longrightarrow> nm_state_of w = NM_WAITING_FOR_ADD \<Longrightarrow> alive (fsm_waiting_for_add ev w)"
  by (auto simp: fsm_waiting_for_add_def Let_def alive_defs entry_def)

lemma alive_node_found: "entry ev w \<Longrightarrow> nm_state_of w = NM_NODE_FOUND \<Longrightarrow> alive (fst (fsm_node_found env ev data w))"
  by (auto simp: fsm_node_found_def node_found_info_def Let_def alive_defs entry_def split: nm_event_data.split option.split)

lemma alive_wait_for_protocol: "entry ev w \<Longrightarrow> nm_state_of w = NM_WAIT_FOR_PROTOCOL \<Longrightarrow> alive (fsm_wait_for_protocol env ev w)"
  by (auto simp: fsm_wait_for_protocol_def protocol_status_done_def start_secure_add_def to_send_nop_def Let_def
      case_prod_unfold alive_defs entry_def)

lemma alive_wait_for_secure_add:
  "entry ev w \<Longrightarrow> nm_state_of w = NM_WAIT_FOR_SECURE_ADD \<Longrightarrow> alive (fsm_wait_for_secure_add env ev w)"
  by (auto simp: fsm_wait_for_secure_add_def secure_add_challenge_def to_send_nop_def Let_def alive_defs entry_def
      split: option.split)

lemma alive_waiting_for_removal:
  "entry ev w \<Longrightarrow> nm_state_of w = NM_WAIT_FOR_SELF_DESTRUCT_REMOVAL \<or> nm_state_of w = NM_WAITING_FOR_FAILED_NODE_REMOVAL \<Longrightarrow>
   alive (fsm_waiting_for_removal env ev w)"
  by (auto simp: fsm_waiting_for_removal_def Let_def alive_defs entry_def)

lemma alive_waiting_for_node_removal:
  "entry ev w \<Longrightarrow> nm_state_of w = NM_WAITING_FOR_NODE_REMOVAL \<Longrightarrow> alive (fsm_waiting_for_node_removal env ev w)"
  by (auto simp: fsm_waiting_for_node_removal_def Let_def alive_defs entry_def)

lemma alive_learning:
  "nm_state_of w = NM_LEARN_MODE \<Longrightarrow> alive (fsm_learn_mode ev w)"
  "nm_state_of w = NM_LEARN_MODE_STARTED \<Longrightarrow> alive (fsm_learn_mode_started env ev w)"
  "nm_state_of w = NM_WAIT_FOR_SECURE_LEARN \<Longrightarrow> alive (fst (fsm_wait_for_secure_learn env ev w))"
  by (simp_all add: fsm_learn_mode_def fsm_learn_mode_started_def fsm_wait_for_secure_learn_def Let_def alive_defs)

lemma alive_internal:
  "nm_state_of w = NM_ASSIGNING_RETURN_ROUTE \<Longrightarrow> alive (fsm_assigning_return_route env ev w)"
  "nm_state_of w = NM_NEIGHBOR_DISCOVERY_ONGOING \<Longrightarrow> alive (fsm_neighbor_discovery ev w)"
  by (simp_all add: fsm_assigning_return_route_def fsm_neighbor_discovery_def alive_defs)

lemmas alive_states = alive_idle alive_send_nop alive_wait_for_nop alive_set_default alive_waiting_for_add alive_node_found
  alive_wait_for_protocol alive_wait_for_secure_add alive_waiting_for_removal alive_waiting_for_node_removal
  alive_learning alive_internal

lemma alive_switch: "entry ev w \<Longrightarrow> alive (fst (fsm_switch env ev data w))"
  by (simp add: fsm_switch_def alive_states split: nm_state.split) (simp add: entry_def dead_def)

lemma alive_epilogue:
  assumes "alive w"
  shows "alive (fsm_epilogue env w)"
proof -
  let ?w1 = "if nm_state_of w = NM_IDLE then reset_nms_last_operation_data (timer_stop w) else w"
  obtain s w2 where a: "zwave_network_management_return_route_assign_next env ?w1 = (s, w2)" by fastforce
  have n: "nms w2 = nms ?w1" "events w2 = events ?w1"
    using assign_next_nms [of env ?w1] a by simp_all
  have "alive ?w1" using assms by (simp add: alive_defs)
  then have "alive w2" using n by (simp add: alive_defs)
  then show ?thesis
    using a by (simp add: fsm_epilogue_def Let_def) (simp add: alive_defs)
qed

lemma alive_entry: "alive w \<Longrightarrow> entry ev w"
  by (simp add: alive_def entry_def)

lemma alive_fsm: "nm_fsm_post_event env ev data w = Some w' \<Longrightarrow> entry ev w \<Longrightarrow> alive w'"
proof (induction env ev data w rule: nm_fsm_post_event.induct)
  case (1 env ev data w)
  obtain w1 x where s: "fsm_switch env ev data w = (w1, x)" by fastforce
  have "alive w1" using alive_switch [OF 1(3), of env data] s by simp
  then show ?case
    using 1 s by (cases x) (auto simp: nm_fsm_post_event.simps [of env ev data w] alive_epilogue alive_entry)
qed

section \<open>All histories\<close>

definition nm_inv :: "nm_world \<Rightarrow> bool" where
  "nm_inv w \<longleftrightarrow> alive w \<and> events_ok w \<and> calls_ok w \<and> queue_inv (routes w)"

lemmas api_defs [handler_defs] =
  zwave_network_management_enable_smart_start_add_mode_def zwave_network_management_enable_smart_start_learn_mode_def
  zwave_network_management_add_node_with_dsk_def zwave_network_management_remove_failed_def
  zwave_network_management_remove_node_def zwave_network_management_stop_add_mode_def zwave_network_management_abort_def
  zwave_network_management_add_node_def zwave_network_management_keys_set_def zwave_network_management_dsk_set_def
  zwave_network_management_learn_mode_def zwave_network_management_request_node_neighbor_discovery_def
  zwave_network_management_start_proxy_inclusion_def on_zwave_api_started_def zwave_network_management_get_state_def

lemmas callback_defs [handler_defs] =
  on_secure_inclusion_complete_def on_keys_request_def on_dsk_challenge_def on_s2_inclusion_started_def
  on_remove_failed_status_update_def on_remove_node_status_update_def on_learn_mode_callback_def
  on_set_suc_node_id_completed_def on_set_default_complete_def on_request_node_neighbor_update_completed_def nop_send_done_def

text \<open>
  The inputs other than the handler thread and the timer. All but two leave the state of
  the machine and its timer alone and only append to the queue.
\<close>

definition external :: "nm_input \<Rightarrow> bool" where
  "external i \<longleftrightarrow> i \<noteq> Handler_run \<and> i \<noteq> Timer_fires"

lemma assign_return_route_nms [simp]:
  "nms (snd (zwave_network_management_assign_return_route env n d w)) = nms w"
  by (simp add: zwave_network_management_assign_return_route_def)

lemma add_to_queue_keeps:
  "events_ok w \<Longrightarrow> events_ok (snd (zwave_network_management_assign_return_route env n d w))"
  "calls_ok w \<Longrightarrow> calls_ok (snd (zwave_network_management_assign_return_route env n d w))"
  "queue_inv (routes w) \<Longrightarrow> queue_inv (routes (snd (zwave_network_management_assign_return_route env n d w)))"
  by (simp_all add: zwave_network_management_assign_return_route_def events.J_add_to_queue calls.J_add_to_queue add_to_queue_inv)

lemma set_default_keeps:
  "events_ok w \<Longrightarrow> events_ok (snd (zwave_network_management_set_default w))"
  "calls_ok w \<Longrightarrow> calls_ok (snd (zwave_network_management_set_default w))"
  "queue_inv (routes w) \<Longrightarrow> queue_inv (routes (snd (zwave_network_management_set_default w)))"
  "alive w \<Longrightarrow> alive (snd (zwave_network_management_set_default w))"
  by (simp_all add: zwave_network_management_set_default_def Let_def events.I_post events.I_set_state events.I_clear_queue
      calls.I_post calls.I_set_state calls.I_clear_queue queue.I_clear_queue alive_defs)

lemma add_status_keeps:
  "events_ok w \<Longrightarrow> events_ok (add_node_status_update li w)" "calls_ok w \<Longrightarrow> calls_ok (add_node_status_update li w)"
  "queue_inv (routes w) \<Longrightarrow> queue_inv (routes (add_node_status_update li w))"
  "alive w \<Longrightarrow> alive (add_node_status_update li w)"
  by (simp_all add: add_node_status_update_def Let_def events_ok_def event_ok_def calls_ok_def alive_defs
      get_event_for_learn_status_def)

lemma external_step_events:
  "events_ok w \<Longrightarrow> external i \<Longrightarrow> \<exists>w'. nm_input_step env i w = Some w' \<and> events_ok w'"
  by (cases i) (simp_all add: external_def handler_defs Let_def events.I_steps events.I_post add_to_queue_keeps
      set_default_keeps add_status_keeps call_ok_def, simp_all add: events_ok_def event_ok_def)

lemma calls_ok_post [simp]: "calls_ok (zwave_network_management_post_event ev d w) = calls_ok w"
  by (simp add: calls_ok_def)

lemma external_step_calls:
  "calls_ok w \<Longrightarrow> external i \<Longrightarrow> nm_input_step env i w = Some w' \<Longrightarrow> calls_ok w'"
  by (cases i) (auto simp: external_def handler_defs Let_def calls.I_steps add_to_queue_keeps
      set_default_keeps add_status_keeps call_ok_def)

lemma external_step_queue:
  "queue_inv (routes w) \<Longrightarrow> external i \<Longrightarrow> nm_input_step env i w = Some w' \<Longrightarrow> queue_inv (routes w')"
  by (cases i) (auto simp: external_def handler_defs Let_def queue.I_steps add_to_queue_keeps
      set_default_keeps add_status_keeps call_ok_def)

lemma alive_add_route: "alive w \<Longrightarrow> alive (snd (zwave_network_management_assign_return_route env n d w))"
proof -
  have check: "events (snd (add_check_loop env n d is w)) = events w" for w "is"
    by (induction "is" arbitrary: w) (simp_all add: Let_def)
  have place: "set (events w) \<subseteq> set (events (snd (add_place_loop n d is w)))" for w "is"
    by (induction "is" arbitrary: w) auto
  have "set (events w) \<subseteq> set (events (snd (zwave_network_management_assign_return_route env n d w)))"
    using check [of "[0..<10]" w] place [of "snd (add_check_loop env n d [0..<10] w)" "[0..<10]"]
    by (simp add: zwave_network_management_assign_return_route_def zwave_network_management_return_route_add_to_queue_def
        case_prod_unfold)
  then show "alive w \<Longrightarrow> ?thesis" by (auto simp: alive_defs)
qed

lemma alive_learn_callback: "alive w \<Longrightarrow> alive (on_learn_mode_callback li w)"
  by (auto simp: on_learn_mode_callback_def Let_def alive_defs)

lemma alive_route_complete: "alive w \<Longrightarrow> alive (on_assign_return_route_complete env st w)"
proof -
  have "set (events w) \<subseteq> set (events (on_assign_return_route_complete env st w))"
    by (auto simp: on_assign_return_route_complete_def case_prod_unfold)
  then show "alive w \<Longrightarrow> ?thesis" by (auto simp: alive_defs)
qed

lemma alive_same:
  "alive w \<Longrightarrow> state (nms w') = state (nms w) \<Longrightarrow> timer (nms w') = timer (nms w) \<Longrightarrow>
   set (events w) \<subseteq> set (events w') \<Longrightarrow> alive w'"
  by (auto simp: alive_defs)

lemma external_step_alive:
  assumes "alive w" and "external i" and "nm_input_step env i w = Some w'"
  shows "alive w'"
proof (cases "i = Set_default \<or> (\<exists>li. i = Learn_mode_status li \<or> i = Add_node_status li) \<or>
    (\<exists>n d. i = Assign_return_route n d) \<or> (\<exists>st. i = Route_complete st)")
  case True
  with assms show ?thesis
    by (auto intro: set_default_keeps alive_learn_callback add_status_keeps alive_add_route alive_route_complete)
next
  case False
  show ?thesis
    by (rule alive_same [OF assms(1)])
       (use False assms(2,3) in \<open>cases i; auto simp: external_def handler_defs Let_def split: if_splits\<close>)+
qed

lemma handler_entry:
  assumes "alive w" and "events w = (ev, d) # rest"
  shows "entry ev (w\<lparr>events := rest\<rparr>)"
  using assms by (auto simp: entry_def alive_defs)

lemma nm_step_inv:
  assumes "nm_inv w" and "nm_input_step env i w = Some w'"
  shows "nm_inv w'"
proof (cases "external i")
  case True
  with assms show ?thesis
    using external_step_events [of w i env] external_step_calls external_step_queue external_step_alive
    by (auto simp: nm_inv_def)
next
  case False
  then consider "i = Handler_run" | "i = Timer_fires" by (auto simp: external_def)
  then show ?thesis
  proof cases
    case 1
    show ?thesis
    proof (cases "events w")
      case Nil
      with 1 assms show ?thesis by (simp add: handler_run_def)
    next
      case (Cons e rest)
      obtain ev d where e: "e = (ev, d)" by fastforce
      let ?w = "w\<lparr>events := rest\<rparr>"
      have f: "nm_fsm_post_event env ev d ?w = Some w'"
        using 1 assms(2) Cons e by (simp add: handler_run_def)
      have "events_ok ?w" "calls_ok ?w" "queue_inv (routes ?w)"
        using assms(1) Cons by (simp_all add: nm_inv_def events_ok_def calls_ok_def)
      moreover have "entry ev ?w"
        using handler_entry [of w ev d rest] assms(1) Cons e by (simp add: nm_inv_def)
      ultimately show ?thesis
        using f alive_fsm [OF f] events.I_fsm [OF f] calls.I_fsm [OF f] queue.I_fsm [OF f] by (simp add: nm_inv_def)
    qed
  next
    case 2
    show ?thesis
    proof (cases "timer (nms w) = None")
      case False
      have f: "nm_fsm_post_event env NM_EV_TIMEOUT Null (timer_stop w) = Some w'"
        using 2 assms(2) False by (simp add: nm_nms_timer_callback_def)
      have "entry NM_EV_TIMEOUT (timer_stop w)" "events_ok (timer_stop w)" "calls_ok (timer_stop w)" "queue_inv (routes (timer_stop w))"
        using assms(1) by (simp_all add: nm_inv_def alive_def entry_def events_ok_def calls_ok_def)
      then show ?thesis
        using f alive_fsm [OF f] events.I_fsm [OF f] calls.I_fsm [OF f] queue.I_fsm [OF f] by (simp add: nm_inv_def)
    qed (use 2 assms in simp)
  qed
qed

lemma init_routes: "routes (nm_state_machine_init env boot_world) = replicate 10 cleared_entry"
  using clear_queue_routes [of "network_management_stop_ongoing_operations (network_management_refresh_network_information env
      (boot_world\<lparr>nms := zero_nms\<lparr>s0_inclusion_enabled := True, state := NM_IDLE\<rparr>\<rparr>))"]
  by (simp add: nm_state_machine_init_def Let_def boot_world_def)

lemma nm_inv_init: "nm_inv (nm_state_machine_init env boot_world)"
proof -
  have "calls_ok (nm_state_machine_init env boot_world)" "events_ok (nm_state_machine_init env boot_world)"
    unfolding nm_state_machine_init_def Let_def
    by (intro calls.I_refreshes calls.I_clear_queue calls.I_nms events.I_refreshes events.I_clear_queue events.I_nms;
        simp add: calls_ok_def events_ok_def boot_world_def)+
  moreover have "alive (nm_state_machine_init env boot_world)"
    by (simp add: alive_defs nm_state_machine_init_def Let_def boot_world_def)
  ultimately show ?thesis by (simp add: nm_inv_def init_routes queue_inv_empty)
qed

interpretation nm: transition_system "\<lambda>s. s = Some (nm_state_machine_init env boot_world)" "nm_step env"
  "\<lambda>s. case s of None \<Rightarrow> True | Some w \<Rightarrow> nm_inv w" for env
  by unfold_locales (auto simp: nm_inv_init nm_step_def bind_eq_Some_conv dest: nm_step_inv split: option.splits)

lemma nm_run_inv: "nm_run env is (nm_state_machine_init env boot_world) = Some w \<Longrightarrow> nm_inv w"
  using nm.fold_inv [of "Some (nm_state_machine_init env boot_world)" env "is"] by (simp add: nm_inv_init)

end
