(* ===== verification/Nm_Properties.thy ===== *)
theory Nm_Properties
  imports Nm_Invariants
begin

text \<open>
  The properties of the network management component: that it cannot get stuck, that it
  cleans up, what it reports and grants during an inclusion, which answers it takes, and
  the two orders of events in which a request is lost.
\<close>

section \<open>Getting back to idle\<close>

text \<open>How many timeouts a waiting state is away from the end of its operation.\<close>

fun timeouts_left :: "nm_state \<Rightarrow> nat" where
  "timeouts_left NM_WAIT_FOR_PROTOCOL = 4"
| "timeouts_left NM_WAIT_FOR_SECURE_ADD = 4"
| "timeouts_left NM_SEND_NOP = 3"
| "timeouts_left NM_WAIT_FOR_TX_TO_SELF_DESTRUCT = 2"
| "timeouts_left NM_WAIT_FOR_SELF_DESTRUCT_REMOVAL = 1"
| "timeouts_left NM_WAITING_FOR_ADD = 1"
| "timeouts_left NM_NODE_FOUND = 1"
| "timeouts_left NM_FAILED_NODE_REMOVE = 1"
| "timeouts_left NM_WAITING_FOR_FAILED_NODE_REMOVAL = 1"
| "timeouts_left NM_WAITING_FOR_NODE_REMOVAL = 1"
| "timeouts_left NM_LEARN_MODE = 1"
| "timeouts_left _ = 0"

lemma epilogue_state:
  "nm_state_of (fsm_epilogue env w) = nm_state_of w \<or> nm_state_of (fsm_epilogue env w) = NM_ASSIGNING_RETURN_ROUTE"
proof -
  have "nms (snd (zwave_network_management_return_route_assign_next env v)) = nms v" for v by simp
  then show ?thesis
    by (simp add: fsm_epilogue_def Let_def case_prod_unfold)
qed

lemma epilogue_timer: "nm_state_of w \<noteq> NM_IDLE \<Longrightarrow> timer (nms (fsm_epilogue env w)) = timer (nms w)"
  by (simp add: fsm_epilogue_def Let_def case_prod_unfold)

lemma timeout_switch:
  assumes "timeouts_left (nm_state_of w) > 0"
  shows "\<exists>w'. fsm_switch env NM_EV_TIMEOUT Null w = (w', Break) \<and>
           timeouts_left (nm_state_of w') < timeouts_left (nm_state_of w) \<and>
           (nm_state_of w' = NM_IDLE \<or> timer (nms w') \<noteq> None)"
  using assms
  by (cases "nm_state_of w")
     (simp_all add: fsm_switch_def fsm_wait_for_protocol_def fsm_wait_for_secure_add_def fsm_send_nop_def
        fsm_wait_for_nop_def fsm_waiting_for_removal_def fsm_waiting_for_add_def fsm_node_found_def
        fsm_waiting_for_node_removal_def fsm_learn_mode_def to_send_nop_def Let_def)

text \<open>In the other states a timeout is handled and does not change the state.\<close>

lemma timeout_switch_other:
  assumes "timeouts_left (nm_state_of w) = 0"
  shows "\<exists>w'. fsm_switch env NM_EV_TIMEOUT Null w = (w', Break) \<and> nm_state_of w' = nm_state_of w"
  using assms
  by (cases "nm_state_of w")
     (simp_all add: fsm_switch_def fsm_idle_def fsm_set_default_def fsm_learn_mode_started_def fsm_wait_for_secure_learn_def
        fsm_assigning_return_route_def fsm_neighbor_discovery_def)

text \<open>
  C4. The timer callback always returns, whatever the Z-Wave module answers. In the eleven states in which an inclusion, a removal
  or the start of a learn mode waits, a timeout brings the operation closer to its end: the number of timeouts left (at
  most four) goes down, and a new timer runs unless the machine is idle or assigning return
  routes. So an inclusion or a removal in which nothing else happens is over after at most four timeouts. In all other states
  (idle, a factory reset, a learn mode that has started, return routes, neighbor discovery) a timeout does not end anything: the machine
  stays in its state, unless it starts with return routes that are waiting.
\<close>

theorem nm_timeouts_end_operation:
  "\<exists>w'. nm_nms_timer_callback env w = Some w' \<and>
     (if timeouts_left (nm_state_of w) > 0
      then timeouts_left (nm_state_of w') < timeouts_left (nm_state_of w) \<and>
        (nm_state_of w' = NM_IDLE \<or> nm_state_of w' = NM_ASSIGNING_RETURN_ROUTE \<or> timer (nms w') \<noteq> None)
      else nm_state_of w' = nm_state_of w \<or> nm_state_of w' = NM_ASSIGNING_RETURN_ROUTE)"
proof (cases "timeouts_left (nm_state_of w) > 0")
  case True
  obtain v where v: "fsm_switch env NM_EV_TIMEOUT Null (timer_stop w) = (v, Break)"
      "timeouts_left (nm_state_of v) < timeouts_left (nm_state_of w)" "nm_state_of v = NM_IDLE \<or> timer (nms v) \<noteq> None"
    using timeout_switch [of "timer_stop w" env] True by (simp del: split_paired_Ex) blast
  then have "nm_nms_timer_callback env w = Some (fsm_epilogue env v)"
    by (simp add: nm_nms_timer_callback_def nm_fsm_post_event_exits(1))
  moreover have "timeouts_left (nm_state_of (fsm_epilogue env v)) < timeouts_left (nm_state_of w)"
    using epilogue_state [of env v] v(2) by auto
  moreover have "nm_state_of (fsm_epilogue env v) = NM_IDLE \<or> nm_state_of (fsm_epilogue env v) = NM_ASSIGNING_RETURN_ROUTE \<or>
      timer (nms (fsm_epilogue env v)) \<noteq> None"
    using v(3) epilogue_state [of env v] epilogue_timer [of v env] by (cases "nm_state_of v = NM_IDLE") auto
  ultimately show ?thesis using True by (intro exI [of _ "fsm_epilogue env v"]) simp
next
  case False
  obtain v where v: "fsm_switch env NM_EV_TIMEOUT Null (timer_stop w) = (v, Break)" "nm_state_of v = nm_state_of w"
    using timeout_switch_other [of "timer_stop w" env] False by auto
  then have "nm_nms_timer_callback env w = Some (fsm_epilogue env v)"
    by (simp add: nm_nms_timer_callback_def nm_fsm_post_event_exits(1))
  then show ?thesis using False epilogue_state [of env v] v(2) by (intro exI [of _ "fsm_epilogue env v"]) simp
qed

text \<open>
  C5. Waiting is always bounded: in every history of the component the machine is in a
  waiting state of an inclusion or removal only with a running timer, before sending a
  NOP it has a running timer or the removal request still queued, and the four states
  left over from features that are gone are never entered.
\<close>

theorem nm_waiting_states_are_timed:
  assumes "nm_run env is (nm_state_machine_init env boot_world) = Some w"
  shows "(timed (nm_state_of w) \<longrightarrow> timer (nms w) \<noteq> None) \<and>
         (nm_state_of w = NM_SEND_NOP \<longrightarrow> timer (nms w) \<noteq> None \<or> NM_EV_REMOVE_FAILED \<in> fst ` set (events w)) \<and>
         \<not> dead (nm_state_of w)"
  using nm_run_inv [OF assms] by (simp add: nm_inv_def alive_def armed_def nop_due_def)

section \<open>Cleaning up\<close>

text \<open>
  The fields that \<^verbatim>\<open>reset_nms_last_operation_data\<close> clears. Others keep what the last operation left in them: the granted keys, the
  answers of the user about bootstrapping and client-side authentication, the node information, the proxy inclusion step.
\<close>

definition clean :: "network_mgmt_state \<Rightarrow> bool" where
  "clean n \<longleftrightarrow> timer n = None \<and> node_id_being_handled n = 0 \<and> exclusion_node_id_filter n = 0 \<and> flags n = 0 \<and>
     requested_keys n = 0 \<and> expected_s2_user_input n = NM_S2_USER_INPUT_NONE \<and> reported_dsk_blanked n = 0 \<and>
     kex_fail_type n = KEX_FAIL_NONE \<and> \<not> s2_bootstrapping_started n \<and>
     reported_dsk n = zero_dsk \<and> expected_dsk n = zero_dsk \<and> verified_dsk_input n = zero_dsk"

lemma clean_reset: "clean (nms (reset_nms_last_operation_data (timer_stop w)))"
  by (simp add: clean_def reset_nms_last_operation_data_def zero_dsk_def)

lemma clean_enable: "clean (nms w) \<Longrightarrow> clean (nms (enable_smart_start w))"
  by (simp add: clean_def enable_smart_start_def)

lemma epilogue_clean:
  assumes "nm_state_of (fsm_epilogue env w) = NM_IDLE"
  shows "clean (nms (fsm_epilogue env w))"
proof -
  have idle: "nm_state_of w = NM_IDLE" using epilogue_state [of env w] assms by auto
  obtain s v where a: "zwave_network_management_return_route_assign_next env (reset_nms_last_operation_data (timer_stop w)) = (s, v)"
    by fastforce
  have v: "nms v = nms (reset_nms_last_operation_data (timer_stop w))"
    using assign_next_nms(1) [of env "reset_nms_last_operation_data (timer_stop w)"] a by simp
  have "s \<noteq> SL_STATUS_IN_PROGRESS" using assms idle a by (auto simp: fsm_epilogue_def Let_def)
  then show ?thesis
    using clean_reset [of w] idle a v by (simp add: fsm_epilogue_def Let_def clean_enable)
qed

lemma switch_return: "fsm_switch env ev data w = (v, Return) \<Longrightarrow> nm_state_of w = NM_IDLE \<or> nm_state_of v \<noteq> NM_IDLE"
  by (auto simp: fsm_switch_def fsm_wait_for_secure_learn_def fsm_node_found_def node_found_info_def Let_def
      split: nm_state.splits if_splits nm_event_data.splits option.splits)

lemma switch_post_state:
  "fsm_switch env ev data w = (v, Post ev') \<Longrightarrow> nm_state_of w = NM_IDLE \<or> nm_state_of v = NM_NODE_FOUND"
  by (auto simp: fsm_switch_def fsm_wait_for_secure_learn_def fsm_node_found_def node_found_info_def Let_def
      split: nm_state.splits if_splits nm_event_data.splits option.splits)

lemma fsm_clean:
  "nm_fsm_post_event env ev data w = Some w' \<Longrightarrow> nm_state_of w \<noteq> NM_IDLE \<Longrightarrow> nm_state_of w' = NM_IDLE \<Longrightarrow> clean (nms w')"
proof (induction env ev data w rule: nm_fsm_post_event.induct)
  case (1 env ev data w)
  obtain v x where s: "fsm_switch env ev data w = (v, x)" by fastforce
  show ?case
  proof (cases x)
    case Break
    with 1 s show ?thesis by (auto simp: nm_fsm_post_event_exits epilogue_clean)
  next
    case Return
    with 1 s switch_return [of env ev data w v] show ?thesis by (auto simp: nm_fsm_post_event_exits)
  next
    case (Post ev')
    with 1 s switch_post_state [of env ev data w v ev'] show ?thesis by (auto simp: nm_fsm_post_event_exits)
  next
    case Stuck
    with 1 s show ?thesis by (simp add: nm_fsm_post_event_exits)
  qed
qed

text \<open>
  Whenever handling an event takes the machine back to idle, the timer is stopped, and the NodeID, the exclusion filter, the
  flags, the requested keys, the expected user input, the length of the blanked part of a DSK, the failure code, the mark of
  a started bootstrapping and all three DSKs are reset.
\<close>

theorem nm_idle_is_clean:
  assumes "nm_fsm_post_event env ev data w = Some w'" and "nm_state_of w \<noteq> NM_IDLE" and "nm_state_of w' = NM_IDLE"
  shows "clean (nms w')"
  using assms by (rule fsm_clean)

section \<open>Accepting answers\<close>

text \<open>
  An answer of the user is taken exactly when it is asked for, and once: granting keys
  is accepted only while a node waits for its keys, confirming a DSK only while a node
  waits for that; a refused answer changes nothing, and after an accepted answer the same
  answer and the other one are refused until the node asks again.
\<close>

theorem nm_user_answers_taken_once:
  "fst (zwave_network_management_keys_set accept csa keys w) =
     (if nm_state_of w = NM_WAIT_FOR_SECURE_ADD \<and> expected_s2_user_input (nms w) = NM_S2_USER_INPUT_GRANT_KEYS
      then SL_STATUS_OK else SL_STATUS_BUSY) \<and>
   fst (zwave_network_management_dsk_set dsk w) =
     (if nm_state_of w = NM_WAIT_FOR_SECURE_ADD \<and> expected_s2_user_input (nms w) = NM_S2_USER_INPUT_ACCEPT_DSK
      then SL_STATUS_OK else SL_STATUS_BUSY) \<and>
   (let (s, w') = zwave_network_management_keys_set accept csa keys w
    in if s = SL_STATUS_OK
       then zwave_network_management_keys_set accept' csa' keys' w' = (SL_STATUS_BUSY, w') \<and>
            zwave_network_management_dsk_set dsk w' = (SL_STATUS_BUSY, w')
       else w' = w) \<and>
   (let (s, w') = zwave_network_management_dsk_set dsk w
    in if s = SL_STATUS_OK
       then zwave_network_management_dsk_set dsk' w' = (SL_STATUS_BUSY, w') \<and>
            zwave_network_management_keys_set accept csa keys w' = (SL_STATUS_BUSY, w')
       else w' = w)"
  by (simp add: zwave_network_management_keys_set_def zwave_network_management_dsk_set_def)

section \<open>Reports and security\<close>

text \<open>
  C1. In every history, a node is reported to the upper layers as successfully added only
  with the failure code "none": a failed or cancelled security bootstrapping is never
  reported as a success.
\<close>

theorem nm_no_success_after_failed_bootstrapping:
  assumes "nm_run env is (nm_state_machine_init env boot_world) = Some w"
    and "On_node_added SL_STATUS_OK info n dsk keys kex proto \<in> set (calls w)"
  shows "kex = KEX_FAIL_NONE"
  using nm_run_inv [OF assms(1)] assms(2) by (auto simp: nm_inv_def calls_ok_def list_all_iff call_ok_def dest: bspec)

text \<open>The calls of the epilogue have nothing to do with keys.\<close>

definition key_call :: "nm_call \<Rightarrow> bool" where
  "key_call c = (case c of S2_key_grant _ _ _ \<Rightarrow> True | S2_dsk_accept _ _ _ \<Rightarrow> True | _ \<Rightarrow> False)"

definition appends :: "nm_world \<Rightarrow> nm_world \<Rightarrow> bool" where
  "appends w w' \<longleftrightarrow> (\<exists>cs. calls w' = calls w @ cs \<and> list_all (\<lambda>c. \<not> key_call c) cs)"

lemma appends_refl: "calls w' = calls w \<Longrightarrow> appends w w'"
  by (simp add: appends_def)

lemma appends_trans: "appends u v \<Longrightarrow> appends v w \<Longrightarrow> appends u w"
  by (auto simp: appends_def)

lemma appends_call: "appends u v \<Longrightarrow> \<not> key_call c \<Longrightarrow> appends u (call c v)"
  by (auto simp: appends_def)

lemma appends_same: "appends u v \<Longrightarrow> calls w = calls v \<Longrightarrow> appends u w"
  by (simp add: appends_def)

lemma assign_loop_appends: "appends u w \<Longrightarrow> appends u (snd (assign_loop env is w))"
proof (induction "is" arbitrary: w)
  case (Cons i "is")
  let ?w = "call (Zwapi_assign_return_route (route_node_id (routes w ! i)) (route_destination_node_id (routes w ! i))) w"
  have a: "appends u ?w" using Cons.prems by (rule appends_call) (simp add: key_call_def)
  moreover have "calls (finish_route env i v) = calls (call Clock_time v)" for v
    by (simp add: finish_route_def Let_def)
  ultimately have "appends u (finish_route env i ?w)"
    by (intro appends_same [OF appends_call [OF a, of Clock_time]]) (simp_all add: key_call_def)
  then show ?case
    using Cons a by (simp add: Let_def appends_same)
qed simp

lemma assign_next_appends: "appends u w \<Longrightarrow> appends u (snd (zwave_network_management_return_route_assign_next env w))"
  by (simp add: zwave_network_management_return_route_assign_next_def assign_loop_appends)

lemma enable_smart_start_appends: "appends u w \<Longrightarrow> appends u (enable_smart_start w)"
  by (auto simp: enable_smart_start_def key_call_def appends_def)

lemma epilogue_appends: "appends w (fsm_epilogue env w)"
proof -
  let ?w1 = "if nm_state_of w = NM_IDLE then reset_nms_last_operation_data (timer_stop w) else w"
  have "appends w (snd (zwave_network_management_return_route_assign_next env ?w1))"
    by (rule assign_next_appends, rule appends_refl) simp
  then show ?thesis
    by (auto simp: fsm_epilogue_def Let_def case_prod_unfold key_call_def intro!: enable_smart_start_appends appends_call
        elim: appends_same)
qed

lemma epilogue_keeps_calls: "c \<in> set (calls w) \<Longrightarrow> c \<in> set (calls (fsm_epilogue env w))"
  using epilogue_appends [of w env] by (auto simp: appends_def)

text \<open>
  C3. In a SmartStart inclusion the DSK challenge is decided by the provisioned DSK: the
  joining node is accepted exactly when all bytes of its DSK that are not blanked are
  those of the provisioned DSK; the accepted DSK is the provisioned one, and the blanked
  bytes of the reported DSK are completed from it. Otherwise it is rejected.
\<close>

theorem nm_smart_start_dsk_checked:
  assumes "nm_state_of w = NM_WAIT_FOR_SECURE_ADD" and "has_flag NMS_FLAG_SMART_START_INCLUSION w"
    and "unat (reported_dsk_blanked (nms w)) \<le> ZWAVE_DSK_LENGTH"
    and "length (reported_dsk (nms w)) = ZWAVE_DSK_LENGTH" and "length (expected_dsk (nms w)) = ZWAVE_DSK_LENGTH"
  shows "\<exists>w' more. nm_fsm_post_event env NM_EV_ADD_SECURITY_KEY_CHALLENGE data w = Some w' \<and>
           list_all (\<lambda>c. \<not> key_call c) more \<and>
           (if drop (unat (reported_dsk_blanked (nms w))) (reported_dsk (nms w)) =
               drop (unat (reported_dsk_blanked (nms w))) (expected_dsk (nms w))
            then calls w' = calls w @ S2_dsk_accept ACCEPT_DSK (expected_dsk (nms w)) (reported_dsk_blanked (nms w)) # more \<and>
                 reported_dsk (nms w') = expected_dsk (nms w)
            else calls w' = calls w @ S2_dsk_accept REJECT_DSK [] 0 # more)"
proof -
  let ?v = "secure_add_challenge env w"
  have sw: "fsm_switch env NM_EV_ADD_SECURITY_KEY_CHALLENGE data w = (?v, Break)"
    using assms(1) by (simp add: fsm_switch_def fsm_wait_for_secure_add_def)
  obtain more where m: "calls (fsm_epilogue env ?v) = calls ?v @ more" "list_all (\<lambda>c. \<not> key_call c) more"
    using epilogue_appends [of ?v env] by (auto simp: appends_def)
  have st: "nm_state_of ?v = NM_WAIT_FOR_SECURE_ADD"
    using assms(1,2) by (simp add: secure_add_challenge_def Let_def)
  have dsk: "reported_dsk (nms (fsm_epilogue env ?v)) = reported_dsk (nms ?v)"
    using st by (simp add: fsm_epilogue_def Let_def case_prod_unfold)
  show ?thesis
  proof (intro exI conjI)
    show "nm_fsm_post_event env NM_EV_ADD_SECURITY_KEY_CHALLENGE data w = Some (fsm_epilogue env ?v)"
      using sw by (rule nm_fsm_post_event_exits)
    let ?k = "unat (reported_dsk_blanked (nms w))"
    have "take ?k (expected_dsk (nms w)) @ drop ?k (expected_dsk (nms w)) = expected_dsk (nms w)" by simp
    then show "if drop ?k (reported_dsk (nms w)) = drop ?k (expected_dsk (nms w))
          then calls (fsm_epilogue env ?v) = calls w @ S2_dsk_accept 1 (expected_dsk (nms w)) (reported_dsk_blanked (nms w)) # more \<and>
               reported_dsk (nms (fsm_epilogue env ?v)) = expected_dsk (nms w)
          else calls (fsm_epilogue env ?v) = calls w @ S2_dsk_accept 0 [] 0 # more"
      using assms(2) m(1) dsk by (auto simp: secure_add_challenge_def Let_def memcpy_def)
  qed (fact m(2))
qed

lemma report_calls:
  "\<exists>i n d g x p. calls (notify_node_add_security_failed w) =
     calls w @ [S2_set_node_add_active False, On_node_added SL_STATUS_FAIL i n d g x p]"
  "\<exists>st i n d g x p. calls (dispatch_node_added env w) =
     calls w @ [S2_set_node_add_active False, On_node_added st i n d g x p, Zwapi_get_full_node_list]"
  by (simp_all add: notify_node_add_security_failed_def dispatch_node_added_def to_idle_def
      nm_fill_reported_dsk_from_expected_if_needed_def Let_def)

lemma secure_add_grants:
  "\<exists>cs. calls (fsm_wait_for_secure_add env ev w) = calls w @ cs \<and>
     (\<forall>a k csa. S2_key_grant a k csa \<in> set cs \<longrightarrow> k = requested_keys (nms w) AND granted_keys (nms w))"
  using report_calls(1) [of w] report_calls(2) [of env w]
    report_calls(1) [of "call (Zwapi_add_node_to_network 6 False) (call S0_stop_bootstrapping (call S2_abort_join w))"]
  by (auto simp: fsm_wait_for_secure_add_def secure_add_challenge_def to_send_nop_def Let_def split: option.split)

text \<open>
  C2. Keys are never granted beyond what was asked for and allowed: whatever event is
  handled during the secure phase of an inclusion, the keys handed to the S2 layer are
  among those the node requested and among those the user or the provisioning list
  granted.
\<close>

theorem nm_granted_keys_bounded:
  assumes "nm_state_of w = NM_WAIT_FOR_SECURE_ADD" and "nm_fsm_post_event env ev data w = Some w'"
    and "S2_key_grant accept keys csa \<in> set (drop (length (calls w)) (calls w'))"
  shows "keys AND NOT (requested_keys (nms w)) = 0 \<and> keys AND NOT (granted_keys (nms w)) = 0"
proof -
  let ?v = "fsm_wait_for_secure_add env ev w"
  have "w' = fsm_epilogue env ?v"
    using assms(1,2) by (simp add: nm_fsm_post_event_exits(1) fsm_switch_def)
  moreover obtain cs where cs: "calls ?v = calls w @ cs"
      "\<forall>a k csa. S2_key_grant a k csa \<in> set cs \<longrightarrow> k = requested_keys (nms w) AND granted_keys (nms w)"
    using secure_add_grants by blast
  moreover obtain more where "calls (fsm_epilogue env ?v) = calls ?v @ more" "list_all (\<lambda>c. \<not> key_call c) more"
    using epilogue_appends [of ?v env] by (auto simp: appends_def)
  ultimately have "keys = requested_keys (nms w) AND granted_keys (nms w)"
    using assms(3) by (auto simp: list_all_iff key_call_def)
  then show ?thesis
    using word_and_subset_left [of "requested_keys (nms w)" "granted_keys (nms w)"]
      word_and_subset_left [of "granted_keys (nms w)" "requested_keys (nms w)"]
    by (simp add: and.commute)
qed

section \<open>The only way to hang\<close>

lemma switch_stuck:
  assumes "fsm_switch env ev data w = (v, Stuck)"
  shows "(ev = NM_EV_NODE_ADD_SMART_START \<and> (\<forall>e. data \<noteq> Smartstart e)) \<or>
    ((ev = NM_EV_ADD_CONTROLLER \<or> ev = NM_EV_ADD_END_NODE) \<and>
     (data \<noteq> Inf_bkup \<or>
      nm_state_of w = NM_NODE_FOUND \<and>
      (\<exists>info. zwave_command_class_list_unpack (ndebug env) info
         (take (unat (bLen (inf_bkup w)) - 3) (drop 3 (pCmd (inf_bkup w)))) = None)))"
  using assms
  by (auto simp: fsm_switch_def fsm_idle_def idle_learn_set_def idle_add_smart_start_def fsm_node_found_def
      node_found_info_def fsm_wait_for_secure_learn_def Let_def
      split: nm_state.splits if_splits nm_event_data.splits option.splits prod.splits)

lemma fsm_none:
  assumes "nm_fsm_post_event env ev data w = None"
  shows "\<exists>v. fsm_switch env ev data w = (v, Stuck)"
proof -
  obtain v x where s: "fsm_switch env ev data w = (v, x)" by fastforce
  show ?thesis
  proof (cases x)
    case (Post ev')
    obtain v' y where s': "fsm_switch env ev' Null v = (v', y)" by fastforce
    have ev': "ev' = NM_EV_ADD_FAILED \<or> ev' = NM_EV_ADD_NODE_STATUS_DONE"
      using fsm_switch_post [OF s [unfolded Post]] by blast
    have "y \<noteq> Stuck" using switch_stuck [of env ev' Null v v'] s' ev' by auto
    moreover have "\<nexists>e. y = Post e" using fsm_switch_post [of env ev' Null v v'] s' ev' by auto
    ultimately have "nm_fsm_post_event env ev' Null v \<noteq> None"
      using s' by (cases y) (auto simp: nm_fsm_post_event_exits)
    then show ?thesis using assms s Post by (simp add: nm_fsm_post_event_exits)
  qed (use assms s in \<open>auto simp: nm_fsm_post_event_exits\<close>)
qed

text \<open>
  C6. In every history the handler thread never follows a null pointer and always comes
  back, with one exception: it can hang only while it unpacks the command class list of a
  node that was just found, which a malformed node information makes it do.
\<close>

theorem nm_handler_hangs_only_on_node_information:
  assumes "nm_run env is (nm_state_machine_init env boot_world) = Some w" and "handler_run env w = None"
  shows "nm_state_of w = NM_NODE_FOUND \<and> fst (hd (events w)) \<in> {NM_EV_ADD_CONTROLLER, NM_EV_ADD_END_NODE} \<and>
         (\<exists>info. zwave_command_class_list_unpack (ndebug env) info
            (take (unat (bLen (inf_bkup w)) - 3) (drop 3 (pCmd (inf_bkup w)))) = None)"
proof -
  obtain ev d rest where e: "events w = (ev, d) # rest" and n: "nm_fsm_post_event env ev d (w\<lparr>events := rest\<rparr>) = None"
    using assms(2) by (auto simp: handler_run_def split: list.splits)
  have "event_ok (ev, d)" using nm_run_inv [OF assms(1)] e by (simp add: nm_inv_def events_ok_def)
  then show ?thesis
    using switch_stuck [of env ev d "w\<lparr>events := rest\<rparr>"] fsm_none [OF n] e by (auto simp: event_ok_def)
qed

section \<open>Joining a network by SmartStart\<close>

text \<open>
  A controller that joined a network by SmartStart keeps it only with proper security:
  when bootstrapping ends it resets itself, unless S2 bootstrapping was started and
  succeeded and, on a long-range NodeID, one of the two authenticated keys was granted.
\<close>

theorem nm_smart_start_join_needs_security:
  assumes "nm_state_of w = NM_WAIT_FOR_SECURE_LEARN" and "learn_mode_intent (nms w) = LEARN_SMART_START"
  shows "\<exists>w'. nm_fsm_post_event env NM_EV_SECURITY_DONE data w = Some w' \<and>
           (if kex_fail_type (nms w) = KEX_FAIL_NONE \<and> s2_bootstrapping_started (nms w) \<and>
               (IS_ZWAVE_NODE_ID (cached_local_node_id (nms w)) \<or>
                IS_ZWAVE_EXTENDED_NODE_ID (cached_local_node_id (nms w)) \<and> granted_keys (nms w) AND 0x06 \<noteq> 0)
            then nm_state_of w' = NM_IDLE \<or> nm_state_of w' = NM_ASSIGNING_RETURN_ROUTE
            else nm_state_of w' = NM_SET_DEFAULT \<and> last (calls w') = Zwapi_set_default)"
proof (cases "we_should_self_destruct w")
  case True
  let ?v = "call Zwapi_set_default (set_state NM_SET_DEFAULT (call (On_error ERROR_NODE_SMART_START_INCLUSION_SECURITY_FAIL) w))"
  have "fsm_switch env NM_EV_SECURITY_DONE data w = (?v, Return)"
    using assms(1) True by (simp add: fsm_switch_def fsm_wait_for_secure_learn_def)
  with True assms(2) show ?thesis
    by (intro exI [of _ ?v]) (auto simp: nm_fsm_post_event_exits we_should_self_destruct_def Let_def split: if_splits)
next
  case False
  let ?v = "set_state NM_IDLE (on_new_network env (kex_fail_type (nms w)) w)"
  have "fsm_switch env NM_EV_SECURITY_DONE data w = (?v, Break)"
    using assms(1) False by (simp add: fsm_switch_def fsm_wait_for_secure_learn_def)
  with False assms(2) epilogue_state [of env ?v] show ?thesis
    by (intro exI [of _ "fsm_epilogue env ?v"]) (auto simp: nm_fsm_post_event_exits we_should_self_destruct_def Let_def split: if_splits)
qed

section \<open>Requests that are lost\<close>

lemma assign_loop_quiet:
  "\<forall>i \<in> set is. route_state (routes w ! i) \<noteq> ROUTE_STATE_NOT_ESTABLISHED \<Longrightarrow> assign_loop env is w = (SL_STATUS_IDLE, w)"
  by (induction "is") simp_all

text \<open>With an empty queue of return routes the epilogue assigns nothing.\<close>

lemma assign_next_quiet:
  "routes w = replicate 10 cleared_entry \<Longrightarrow> zwave_network_management_return_route_assign_next env w = (SL_STATUS_IDLE, w)"
  by (simp add: zwave_network_management_return_route_assign_next_def assign_loop_quiet list_ex_iff cleared_entry_def)

lemma epilogue_quiet:
  assumes "routes w = replicate 10 cleared_entry"
  shows "fsm_epilogue env w =
    (if nm_state_of w = NM_IDLE
     then enable_smart_start (call (On_state_updated NM_IDLE) (reset_nms_last_operation_data (timer_stop w)))
     else call (On_state_updated (nm_state_of w)) w)"
  using assms by (simp add: fsm_epilogue_def assign_next_quiet Let_def)

lemma handler_run_break:
  assumes "events w = (ev, d) # rest" and "fsm_switch env ev d (w\<lparr>events := rest\<rparr>) = (v, Break)"
  shows "handler_run env w = Some (fsm_epilogue env v)"
  unfolding handler_run_def assms(1) using assms(2) by (simp add: nm_fsm_post_event_exits(1))

lemma handler_run_post:
  assumes "events w = (ev, d) # rest" and "fsm_switch env ev d (w\<lparr>events := rest\<rparr>) = (u, Post ev')"
    and "fsm_switch env ev' Null u = (v, Break)"
  shows "handler_run env w = Some (fsm_epilogue env v)"
  unfolding handler_run_def assms(1) using assms(2,3) by (simp add: nm_fsm_post_event_exits(1,3))

lemma switch_idle_break:
  assumes "nm_state_of w = NM_IDLE"
  shows "fsm_switch env NM_EV_NODE_REMOVE Null w = (idle_node_remove env w, Break)"
    and "fsm_switch env NM_EV_SMART_START_ENABLE Null w = (idle_smart_start_enable w, Break)"
  using assms by (simp_all add: fsm_switch_def fsm_idle_def)

text \<open>
  The NodeID of a targeted exclusion can be lost: the interface stores it in the
  control structure and queues the request; when another event is handled first in the
  idle state, the cleanup of that event resets the NodeID, and the exclusion that the
  caller was told was accepted is started for any node. The same happens to the NodeID of
  a failed node to remove.
\<close>

theorem nm_exclusion_target_lost:
  assumes "nm_state_of w = NM_IDLE" and "events w = [(NM_EV_SMART_START_ENABLE, Null)]"
    and "\<not> is_reset_ongoing env (calls w)" and "n \<noteq> 0" and "unat n \<le> ZW_MAX_NODES"
    and "routes w = replicate ASSIGN_RETURN_ROUTE_QUEUE_SIZE cleared_entry"
  shows "fst (zwave_network_management_remove_node env n w) = SL_STATUS_OK \<and>
         (\<exists>w'. nm_run env [Remove_node n, Handler_run, Handler_run] w = Some w' \<and>
            Zwapi_remove_node_from_network (ADD_NODE_ANY OR ADD_NODE_OPTION_NETWORK_WIDE) True \<in> set (calls w'))"
proof
  let ?w1 = "zwave_network_management_post_event NM_EV_NODE_REMOVE Null (w\<lparr>nms := (nms w)\<lparr>exclusion_node_id_filter := n\<rparr>\<rparr>)"
  have r: "zwave_network_management_remove_node env n w = (SL_STATUS_OK, ?w1)"
    using assms by (simp add: zwave_network_management_remove_node_def network_management_is_ready_for_a_new_operation_def)
  then show "fst (zwave_network_management_remove_node env n w) = SL_STATUS_OK" by simp
  let ?v1 = "idle_smart_start_enable (?w1\<lparr>events := [(NM_EV_NODE_REMOVE, Null)]\<rparr>)"
  let ?w2 = "fsm_epilogue env ?v1"
  have v1: "nm_state_of ?v1 = NM_IDLE" "routes ?v1 = replicate 10 cleared_entry" "events ?v1 = [(NM_EV_NODE_REMOVE, Null)]"
    using assms by (simp_all add: idle_smart_start_enable_def Let_def)
  have e1: "events ?w1 = (NM_EV_SMART_START_ENABLE, Null) # [(NM_EV_NODE_REMOVE, Null)]" using assms(2) by simp
  have h1: "handler_run env ?w1 = Some ?w2"
    using assms(1) by (intro handler_run_break [OF e1] switch_idle_break) simp
  have w2: "nm_state_of ?w2 = NM_IDLE" "events ?w2 = [(NM_EV_NODE_REMOVE, Null)]"
    using v1 by (simp_all add: epilogue_quiet)
  have filter: "exclusion_node_id_filter (nms ?w2) = 0"
    using epilogue_clean [OF w2(1)] by (simp add: clean_def)
  let ?v2 = "idle_node_remove env (?w2\<lparr>events := []\<rparr>)"
  have h2: "handler_run env ?w2 = Some (fsm_epilogue env ?v2)" 
    using w2(1) by (intro handler_run_break [OF w2(2)] switch_idle_break) simp
  have "Zwapi_remove_node_from_network (1 OR 0x40) True \<in> set (calls ?v2)"
    using filter by (simp add: idle_node_remove_def Let_def)
  then have "Zwapi_remove_node_from_network (1 OR 0x40) True \<in> set (calls (fsm_epilogue env ?v2))"
    by (rule epilogue_keeps_calls)
  then show "\<exists>w'. nm_run env [Remove_node n, Handler_run, Handler_run] w = Some w' \<and>
      Zwapi_remove_node_from_network (1 OR 0x40) True \<in> set (calls w')"
    using r h1 h2 by (simp add: nm_step_def)
qed

text \<open>
  A return route request takes an ongoing inclusion off its track: the epilogue starts
  the assignment in whatever state the machine is and enters the assigning state, so while
  the Z-Wave module is still in add mode the node it then finds is ignored.
\<close>

theorem nm_inclusion_lost_to_return_route:
  assumes "nm_state_of w = NM_WAITING_FOR_ADD"
    and "fst (zwave_network_management_return_route_assign_next env w) = SL_STATUS_IN_PROGRESS"
  shows "\<exists>w1 w2. nm_fsm_post_event env NM_EV_ASSIGN_RETURN_ROUTE_START Null w = Some w1 \<and>
           nm_state_of w1 = NM_ASSIGNING_RETURN_ROUTE \<and>
           nm_fsm_post_event env NM_EV_ADD_NODE_FOUND Inf_bkup w1 = Some w2 \<and>
           nm_state_of w2 = NM_ASSIGNING_RETURN_ROUTE"
proof -
  let ?w1 = "fsm_epilogue env w"
  have 1: "nm_fsm_post_event env NM_EV_ASSIGN_RETURN_ROUTE_START Null w = Some ?w1"
    using assms(1) by (simp add: nm_fsm_post_event_exits(1) fsm_switch_def fsm_waiting_for_add_def)
  have s1: "nm_state_of ?w1 = NM_ASSIGNING_RETURN_ROUTE"
    using assms by (simp add: fsm_epilogue_def Let_def case_prod_unfold)
  have 2: "nm_fsm_post_event env NM_EV_ADD_NODE_FOUND Inf_bkup ?w1 = Some (fsm_epilogue env ?w1)"
    using s1 by (simp add: nm_fsm_post_event_exits(1) fsm_switch_def fsm_assigning_return_route_def)
  have "nm_state_of (fsm_epilogue env ?w1) = NM_ASSIGNING_RETURN_ROUTE"
    using epilogue_state [of env ?w1] s1 by simp
  with 1 2 s1 show ?thesis by blast
qed

section \<open>Examples\<close>

text \<open>The component in a given state, with nothing queued, and the first steps of two histories.\<close>

definition world_in :: "nm_state \<Rightarrow> nm_world" where
  "world_in s = boot_world\<lparr>nms := zero_nms\<lparr>state := s\<rparr>\<rparr>"

lemma world_in_simps [simp]:
  "nms (world_in s) = zero_nms\<lparr>state := s\<rparr>" "routes (world_in s) = replicate 10 cleared_entry"
  "events (world_in s) = []" "calls (world_in s) = []"
  by (simp_all add: world_in_def boot_world_def)

lemma init_simps:
  "nm_state_of (nm_state_machine_init env boot_world) = NM_IDLE" "events (nm_state_machine_init env boot_world) = []"
  by (simp_all add: nm_state_machine_init_def Let_def boot_world_def)

theorem nm_timeouts_end_operation_witness:
  "(\<exists>w'. nm_nms_timer_callback sample_env (world_in NM_WAIT_FOR_SECURE_ADD) = Some w' \<and> timeouts_left (nm_state_of w') < 4 \<and>
      (nm_state_of w' = NM_IDLE \<or> nm_state_of w' = NM_ASSIGNING_RETURN_ROUTE \<or> timer (nms w') \<noteq> None)) \<and>
   (\<exists>w'. nm_nms_timer_callback sample_env (world_in NM_SET_DEFAULT) = Some w' \<and>
      (nm_state_of w' = NM_SET_DEFAULT \<or> nm_state_of w' = NM_ASSIGNING_RETURN_ROUTE))"
  using nm_timeouts_end_operation [of sample_env "world_in NM_WAIT_FOR_SECURE_ADD"]
    nm_timeouts_end_operation [of sample_env "world_in NM_SET_DEFAULT"] by simp

text \<open>An inclusion was requested and the request was handled.\<close>

definition adding :: nm_world where
  "adding = fsm_epilogue sample_env (idle_node_add sample_env
     ((zwave_network_management_post_event NM_EV_NODE_ADD Null (nm_state_machine_init sample_env boot_world))\<lparr>events := []\<rparr>))"

lemma adding_run: "nm_run sample_env [Add_node, Handler_run] (nm_state_machine_init sample_env boot_world) = Some adding"
proof -
  let ?w = "nm_state_machine_init sample_env boot_world"
  let ?w1 = "zwave_network_management_post_event NM_EV_NODE_ADD Null ?w"
  have 1: "zwave_network_management_add_node sample_env ?w = (SL_STATUS_OK, ?w1)"
    by (simp add: zwave_network_management_add_node_def network_management_is_ready_for_a_new_operation_def init_simps sample_env_def)
  have e: "events ?w1 = (NM_EV_NODE_ADD, Null) # []" by (simp add: init_simps)
  have "handler_run sample_env ?w1 = Some adding"
    unfolding adding_def
    by (intro handler_run_break [OF e]) (simp add: fsm_switch_def fsm_idle_def init_simps)
  with 1 show ?thesis by (simp add: nm_step_def)
qed

lemma adding_state: "nm_state_of adding = NM_WAITING_FOR_ADD" "events adding = []" "routes adding = replicate 10 cleared_entry"
  by (simp_all add: adding_def epilogue_quiet idle_node_add_def Let_def init_routes)

theorem nm_waiting_states_are_timed_witness: "timed (nm_state_of adding) \<and> timer (nms adding) \<noteq> None \<and> \<not> dead (nm_state_of adding)"
  using nm_waiting_states_are_timed [OF adding_run] by (simp add: adding_state timed_def)

theorem nm_idle_is_clean_witness:
  "clean (nms (fsm_epilogue sample_env (fsm_waiting_for_add NM_EV_ABORT (world_in NM_WAITING_FOR_ADD))))"
  by (rule nm_idle_is_clean [of sample_env NM_EV_ABORT Null "world_in NM_WAITING_FOR_ADD"])
     (simp_all add: nm_fsm_post_event_exits fsm_switch_def epilogue_quiet fsm_waiting_for_add_def Let_def enable_smart_start_def
        reset_nms_last_operation_data_def zero_nms_def)

text \<open>A node that another controller included, with no security.\<close>

definition proxied :: nm_world where
  "proxied = fsm_epilogue sample_env (protocol_status_done sample_env
     (timer_set NM_WAIT_FOR_PROTOCOL_CALLBACK_TIMEOUT_MS (set_state NM_WAIT_FOR_PROTOCOL
       ((snd (zwave_network_management_start_proxy_inclusion sample_env 7 empty_node_info 1
          (nm_state_machine_init sample_env boot_world)))\<lparr>events := []\<rparr>))))"

lemma proxied_run:
  "nm_run sample_env [Start_proxy_inclusion 7 empty_node_info 1, Handler_run] (nm_state_machine_init sample_env boot_world) =
     Some proxied"
proof -
  let ?w = "snd (zwave_network_management_start_proxy_inclusion sample_env 7 empty_node_info 1
    (nm_state_machine_init sample_env boot_world))"
  let ?v = "timer_set NM_WAIT_FOR_PROTOCOL_CALLBACK_TIMEOUT_MS (set_state NM_WAIT_FOR_PROTOCOL (?w\<lparr>events := []\<rparr>))"
  have e: "events ?w = (NM_EV_START_PROXY_INCLUSION, Null) # []" and st: "nm_state_of ?w = NM_IDLE"
    by (simp_all add: zwave_network_management_start_proxy_inclusion_def network_management_is_ready_for_a_new_operation_def
        init_simps sample_env_def)
  have "fsm_switch sample_env NM_EV_START_PROXY_INCLUSION Null (?w\<lparr>events := []\<rparr>) = (?v, Post NM_EV_ADD_NODE_STATUS_DONE)"
    using st by (simp add: fsm_switch_def fsm_idle_def)
  moreover have "fsm_switch sample_env NM_EV_ADD_NODE_STATUS_DONE Null ?v = (protocol_status_done sample_env ?v, Break)"
    by (simp add: fsm_switch_def fsm_wait_for_protocol_def)
  ultimately have "handler_run sample_env ?w = Some proxied"
    unfolding proxied_def by (rule handler_run_post [OF e])
  then show ?thesis by (simp add: nm_step_def)
qed

lemma init_nms:
  "nms (nm_state_machine_init sample_env boot_world) =
     zero_nms\<lparr>s0_inclusion_enabled := True, cached_home_id := 0xC0FFEE01, cached_local_node_id := 1,
       controller_capabilities_bitmask := 0x1C\<rparr>"
  by (simp add: nm_state_machine_init_def Let_def boot_world_def network_management_refresh_network_information_def
      network_management_refresh_controller_capabilities_bitmask_def network_management_refresh_cached_node_list_def
      network_management_refresh_cached_ids_def network_management_take_sis_role_if_no_suc_in_network_def sample_env_def
      zero_nms_def)

lemma fill_frame:
  "calls (nm_fill_reported_dsk_from_expected_if_needed w) = calls w"
  "kex_fail_type (nms (nm_fill_reported_dsk_from_expected_if_needed w)) = kex_fail_type (nms w)"
  "granted_keys (nms (nm_fill_reported_dsk_from_expected_if_needed w)) = granted_keys (nms w)"
  "node_id_being_handled (nms (nm_fill_reported_dsk_from_expected_if_needed w)) = node_id_being_handled (nms w)"
  by (simp_all add: nm_fill_reported_dsk_from_expected_if_needed_def)

lemma protocol_done_insecure:
  assumes "node_id_being_handled (nms w) = n" and "\<not> ZW_IS_NODE_IN_MASK n (cached_node_list (nms w))"
    and "\<not> has_flag NMS_FLAG_SMART_START_INCLUSION w" and "command_class_list_length (node_info (nms w)) = 0"
  shows "\<exists>info dsk proto. On_node_added SL_STATUS_OK info n dsk 0 KEX_FAIL_NONE proto \<in> set (calls (protocol_status_done env w))"
proof -
  obtain i where p: "protocol_status_done env w = dispatch_node_added env ((call (Zwapi_get_protocol_info n)
      (call (Zwapi_add_node_to_network ADD_NODE_STOP False) w))\<lparr>nms := (nms w)\<lparr>node_info := i, granted_keys := 0, kex_fail_type := KEX_FAIL_NONE\<rparr>\<rparr>)"
    using assms by (simp add: protocol_status_done_def Let_def is_command_class_in_nif_def case_prod_unfold)
  show ?thesis
    using assms(1) unfolding p dispatch_node_added_def to_idle_def Let_def by (simp add: fill_frame) blast
qed

lemma proxied_report: "\<exists>info dsk proto. On_node_added SL_STATUS_OK info 7 dsk 0 KEX_FAIL_NONE proto \<in> set (calls proxied)"
proof -
  let ?w = "snd (zwave_network_management_start_proxy_inclusion sample_env 7 empty_node_info 1
    (nm_state_machine_init sample_env boot_world))"
  let ?v = "timer_set NM_WAIT_FOR_PROTOCOL_CALLBACK_TIMEOUT_MS (set_state NM_WAIT_FOR_PROTOCOL (?w\<lparr>events := []\<rparr>))"
  have n: "nms ?w = (nms (nm_state_machine_init sample_env boot_world))\<lparr>node_id_being_handled := 7, flags := 0,
      node_info := empty_node_info, proxy_inclusion_step := 1\<rparr>"
    by (simp add: zwave_network_management_start_proxy_inclusion_def network_management_is_ready_for_a_new_operation_def
        init_simps sample_env_def)
  have m: "\<not> ZW_IS_NODE_IN_MASK 7 (replicate 501 0)" by code_simp
  have l: "command_class_list_length empty_node_info = 0" by (simp add: empty_node_info_def)
  have "\<exists>info dsk proto. On_node_added SL_STATUS_OK info 7 dsk 0 KEX_FAIL_NONE proto \<in> set (calls (protocol_status_done sample_env ?v))"
    by (rule protocol_done_insecure) (simp_all add: n init_nms m l zero_nms_def)
  then show ?thesis
    unfolding proxied_def using epilogue_keeps_calls by blast
qed

theorem nm_no_success_after_failed_bootstrapping_witness:
  "\<exists>info dsk keys kex proto. On_node_added SL_STATUS_OK info 7 dsk keys kex proto \<in> set (calls proxied) \<and> kex = KEX_FAIL_NONE"
proof -
  obtain info dsk keys kex proto where "On_node_added SL_STATUS_OK info 7 dsk keys kex proto \<in> set (calls proxied)"
    using proxied_report by blast
  with nm_no_success_after_failed_bootstrapping [OF proxied_run this] show ?thesis by blast
qed

theorem nm_smart_start_dsk_checked_witness:
  "\<exists>w' more. nm_fsm_post_event sample_env NM_EV_ADD_SECURITY_KEY_CHALLENGE Null (world_in NM_WAIT_FOR_SECURE_ADD
       \<lparr>nms := zero_nms\<lparr>state := NM_WAIT_FOR_SECURE_ADD, flags := 0x41, reported_dsk_blanked := 2,
          reported_dsk := [0, 0] @ replicate 14 7, expected_dsk := [1, 2] @ replicate 14 7\<rparr>\<rparr>) = Some w' \<and>
     list_all (\<lambda>c. \<not> key_call c) more \<and> calls w' = S2_dsk_accept ACCEPT_DSK ([1, 2] @ replicate 14 7) 2 # more \<and>
     reported_dsk (nms w') = [1, 2] @ replicate 14 7"
  using nm_smart_start_dsk_checked [of "world_in NM_WAIT_FOR_SECURE_ADD
      \<lparr>nms := zero_nms\<lparr>state := NM_WAIT_FOR_SECURE_ADD, flags := 0x41, reported_dsk_blanked := 2,
         reported_dsk := [0, 0] @ replicate 14 7, expected_dsk := [1, 2] @ replicate 14 7\<rparr>\<rparr>" sample_env Null]
  by simp

text \<open>A node that asked for the keys 0x83 and whose user has granted 0x85.\<close>

definition grant_pending :: nm_world where
  "grant_pending = (world_in NM_WAIT_FOR_SECURE_ADD)\<lparr>nms := zero_nms\<lparr>state := NM_WAIT_FOR_SECURE_ADD, requested_keys := 0x83,
     granted_keys := 0x85, accepted_s2_bootstrapping := True\<rparr>\<rparr>"

theorem nm_granted_keys_bounded_witness:
  "\<exists>w'. nm_fsm_post_event sample_env NM_EV_ADD_SECURITY_KEYS_SET Null grant_pending = Some w' \<and>
     S2_key_grant 1 0x81 False \<in> set (drop (length (calls grant_pending)) (calls w')) \<and>
     0x81 AND NOT (requested_keys (nms grant_pending)) = 0 \<and> 0x81 AND NOT (granted_keys (nms grant_pending)) = 0"
proof -
  let ?w' = "fsm_epilogue sample_env (call (S2_key_grant 1 0x81 False) grant_pending)"
  have p: "nm_fsm_post_event sample_env NM_EV_ADD_SECURITY_KEYS_SET Null grant_pending = Some ?w'"
    by (rule nm_fsm_post_event_exits(1)) (simp add: fsm_switch_def fsm_wait_for_secure_add_def grant_pending_def zero_nms_def)
  have g: "S2_key_grant 1 0x81 False \<in> set (drop (length (calls grant_pending)) (calls ?w'))"
    by (simp add: epilogue_quiet grant_pending_def zero_nms_def)
  have "nm_state_of grant_pending = NM_WAIT_FOR_SECURE_ADD" by (simp add: grant_pending_def)
  from nm_granted_keys_bounded [OF this p g] p g show ?thesis by blast
qed

text \<open>
  A node whose node information ends in the first byte of a two-byte command class makes
  the handler hang: the class list is \<^verbatim>\<open>25 F2\<close>.
\<close>

abbreviation (input) malformed_node :: learn_info where
  "malformed_node \<equiv> \<lparr>bStatus = 3, bSource = 9, bLen = 5, pCmd = [1, 2, 3, 0x25, 0xF2]\<rparr>"

definition node_found :: nm_world where
  "node_found = fsm_epilogue sample_env (fsm_waiting_for_add NM_EV_ADD_NODE_FOUND
     ((add_node_status_update \<lparr>bStatus = 2, bSource = 0, bLen = 0, pCmd = []\<rparr> adding)\<lparr>events := []\<rparr>))"

lemma node_found_state: "nm_state_of node_found = NM_NODE_FOUND" "events node_found = []"
  by (simp_all add: node_found_def epilogue_quiet fsm_waiting_for_add_def add_node_status_update_def Let_def adding_state)

lemma node_found_run:
  "nm_run sample_env [Add_node, Handler_run, Add_node_status \<lparr>bStatus = 2, bSource = 0, bLen = 0, pCmd = []\<rparr>, Handler_run]
     (nm_state_machine_init sample_env boot_world) = Some node_found"
proof -
  let ?w = "add_node_status_update \<lparr>bStatus = 2, bSource = 0, bLen = 0, pCmd = []\<rparr> adding"
  have e: "events ?w = (NM_EV_ADD_NODE_FOUND, Inf_bkup) # []" and st: "nm_state_of ?w = NM_WAITING_FOR_ADD"
    by (simp_all add: add_node_status_update_def Let_def adding_state get_event_for_learn_status_def)
  have "handler_run sample_env ?w = Some node_found"
    unfolding node_found_def using st by (intro handler_run_break [OF e]) (simp add: fsm_switch_def)
  then show ?thesis using adding_run by (simp add: nm_step_def)
qed

theorem nm_handler_hangs_only_on_node_information_witness:
  "handler_run sample_env (add_node_status_update malformed_node node_found) = None \<and>
   nm_state_of (add_node_status_update malformed_node node_found) = NM_NODE_FOUND"
proof -
  let ?w = "add_node_status_update malformed_node node_found"
  have r: "nm_run sample_env [Add_node, Handler_run, Add_node_status \<lparr>bStatus = 2, bSource = 0, bLen = 0, pCmd = []\<rparr>, Handler_run,
      Add_node_status malformed_node] (nm_state_machine_init sample_env boot_world) = Some ?w"
    using node_found_run by (simp add: nm_step_def)
  have st: "nm_state_of ?w = NM_NODE_FOUND" "events ?w = [(NM_EV_ADD_END_NODE, Inf_bkup)]"
    by (simp_all add: add_node_status_update_def Let_def node_found_state get_event_for_learn_status_def)
  have i: "inf_bkup ?w = \<lparr>bStatus = 3, bSource = 9, bLen = 5, pCmd = memcpy (info_buf node_found) [1, 2, 3, 0x25, 0xF2] 5\<rparr>"
    by (simp add: add_node_status_update_def Let_def)
  have "zwave_command_class_list_unpack True info [0x25, 0xF2] = None" for info
    using unpack_loop_dangling [of 0 "[0x25, 0xF2]" 0 True info] by (simp add: zwave_command_class_list_unpack_def)
  then have "snd (fsm_switch sample_env NM_EV_ADD_END_NODE Inf_bkup (?w\<lparr>events := []\<rparr>)) = Stuck"
    using st i by (simp add: fsm_switch_def fsm_node_found_def node_found_info_def Let_def memcpy_def sample_env_def)
  then have "handler_run sample_env ?w = None"
    using nm_fsm_post_event_exits(4) [of sample_env NM_EV_ADD_END_NODE Inf_bkup "?w\<lparr>events := []\<rparr>"]
    by (simp add: handler_run_def st prod_eq_iff)
  then show ?thesis using nm_handler_hangs_only_on_node_information [OF r] by blast
qed

theorem nm_smart_start_join_needs_security_witness:
  "\<exists>w'. nm_fsm_post_event sample_env NM_EV_SECURITY_DONE Null (boot_world\<lparr>nms := zero_nms\<lparr>state := NM_WAIT_FOR_SECURE_LEARN,
       learn_mode_intent := LEARN_SMART_START, cached_local_node_id := 0x101, s2_bootstrapping_started := True, granted_keys := 0x81\<rparr>\<rparr>) =
     Some w' \<and> nm_state_of w' = NM_SET_DEFAULT \<and> last (calls w') = Zwapi_set_default"
  using nm_smart_start_join_needs_security [of "boot_world\<lparr>nms := zero_nms\<lparr>state := NM_WAIT_FOR_SECURE_LEARN,
       learn_mode_intent := LEARN_SMART_START, cached_local_node_id := 0x101, s2_bootstrapping_started := True, granted_keys := 0x81\<rparr>\<rparr>" sample_env Null]
  by (simp add: IS_ZWAVE_NODE_ID_def)

theorem nm_exclusion_target_lost_witness:
  "\<exists>w'. nm_run sample_env [Remove_node 5, Handler_run, Handler_run] (world_in NM_IDLE\<lparr>events := [(NM_EV_SMART_START_ENABLE, Null)]\<rparr>) = Some w' \<and>
     Zwapi_remove_node_from_network (ADD_NODE_ANY OR ADD_NODE_OPTION_NETWORK_WIDE) True \<in> set (calls w')"
  using nm_exclusion_target_lost [of "world_in NM_IDLE\<lparr>events := [(NM_EV_SMART_START_ENABLE, Null)]\<rparr>" sample_env 5]
  by (simp add: sample_env_def)

theorem nm_inclusion_lost_to_return_route_witness:
  "\<exists>w1 w2. nm_fsm_post_event sample_env NM_EV_ASSIGN_RETURN_ROUTE_START Null
       (world_in NM_WAITING_FOR_ADD\<lparr>routes := (replicate 10 cleared_entry)
          [0 := \<lparr>route_node_id = 5, route_destination_node_id = 1, route_state = ROUTE_STATE_NOT_ESTABLISHED, reuse_timestamp = 0\<rparr>]\<rparr>) = Some w1 \<and>
     nm_state_of w1 = NM_ASSIGNING_RETURN_ROUTE \<and>
     nm_fsm_post_event sample_env NM_EV_ADD_NODE_FOUND Inf_bkup w1 = Some w2 \<and> nm_state_of w2 = NM_ASSIGNING_RETURN_ROUTE"
  by (rule nm_inclusion_lost_to_return_route)
     (simp_all add: zwave_network_management_return_route_assign_next_def cleared_entry_def sample_env_def numeral_eq_Suc upt_rec Let_def)

end
