(* ===== verification/Security_Schemes.thy ===== *)
theory Security_Schemes
  imports Nm_State
begin

text \<open>
  Security classes of the controller: the callbacks to the persistent storage
  (\<^verbatim>\<open>zwave_controller_storage.c\<close>), key sets and encapsulation schemes
  (\<^verbatim>\<open>zwave_controller_keyset.c\<close>), the choice of a scheme and of the maximum payload
  (\<^verbatim>\<open>zwave_tx_scheme_selector.c\<close>) and the decision whether a received frame is secure
  enough (\<^verbatim>\<open>zwave_security_validation.c\<close>). The lemmas show that the scheme chosen is the
  highest one granted, that no frame below the required scheme is accepted, and that the
  payload computation does not wrap.
\<close>

section \<open>Schemes\<close>

datatype scheme = NETWORK_SCHEME | SCHEME_NONE | SECURITY_0 | S2_UNAUTHENTICATED | S2_AUTHENTICATED | S2_ACCESS

text \<open>The C enumeration is compared by its numbers.\<close>

fun scheme_number :: "scheme \<Rightarrow> nat" where
  "scheme_number NETWORK_SCHEME = 0"
| "scheme_number SCHEME_NONE = 1"
| "scheme_number SECURITY_0 = 2"
| "scheme_number S2_UNAUTHENTICATED = 3"
| "scheme_number S2_AUTHENTICATED = 4"
| "scheme_number S2_ACCESS = 5"

lemma scheme_number_inject: "scheme_number s = scheme_number t \<longleftrightarrow> s = t"
  by (cases s; cases t) simp_all

instantiation scheme :: linorder
begin

definition less_eq_scheme :: "scheme \<Rightarrow> scheme \<Rightarrow> bool" where
  "s \<le> t \<longleftrightarrow> scheme_number s \<le> scheme_number t"

definition less_scheme :: "scheme \<Rightarrow> scheme \<Rightarrow> bool" where
  "s < t \<longleftrightarrow> scheme_number s < scheme_number t"

instance
  by standard (auto simp: less_eq_scheme_def less_scheme_def scheme_number_inject)

end

lemmas scheme_order = less_eq_scheme_def less_scheme_def

record connection_info =
  local_node_id :: node_id
  local_endpoint_id :: u8
  local_is_multicast :: bool
  remote_node_id :: node_id
  remote_endpoint_id :: u8
  remote_is_multicast :: bool
  encapsulation :: scheme

section \<open>Storage callbacks\<close>

text \<open>
  The registered callbacks, \<open>None\<close> where none is registered. Reading the granted keys
  returns a status and the new content of the caller's variable, which a failing read may
  leave as it was.
\<close>

record storage =
  set_node_as_s2_capable_cb :: "(node_id \<Rightarrow> sl_status) option"
  verify_node_is_s2_cb :: "(node_id \<Rightarrow> bool) option"
  zwave_node_cc_version_cb :: "(command_class \<Rightarrow> node_id \<Rightarrow> u8 \<Rightarrow> u8) option"
  granted_keys_cb :: "(node_id \<Rightarrow> keyset \<Rightarrow> sl_status \<times> keyset) option"
  get_inclusion_protocol_cb :: "(node_id \<Rightarrow> zwave_protocol) option"

definition zwave_controller_storage_callback_register :: "storage option \<Rightarrow> storage \<Rightarrow> sl_status \<times> storage" where
  "zwave_controller_storage_callback_register callbacks st =
     (case callbacks of None \<Rightarrow> (SL_STATUS_FAIL, st) | Some c \<Rightarrow> (SL_STATUS_OK, c))"

definition zwave_controller_storage_is_node_s2_capable :: "storage \<Rightarrow> node_id \<Rightarrow> bool" where
  "zwave_controller_storage_is_node_s2_capable st n = (case verify_node_is_s2_cb st of None \<Rightarrow> True | Some f \<Rightarrow> f n)"

definition zwave_controller_storage_as_set_node_s2_capable :: "storage \<Rightarrow> node_id \<Rightarrow> sl_status" where
  "zwave_controller_storage_as_set_node_s2_capable st n =
     (case set_node_as_s2_capable_cb st of None \<Rightarrow> SL_STATUS_FAIL | Some f \<Rightarrow> f n)"

definition zwave_controller_storage_get_cc_version :: "storage \<Rightarrow> command_class \<Rightarrow> node_id \<Rightarrow> u8 \<Rightarrow> u8" where
  "zwave_controller_storage_get_cc_version st cc n ep =
     (case zwave_node_cc_version_cb st of None \<Rightarrow> 1 | Some f \<Rightarrow> f cc n ep)"

definition zwave_controller_storage_get_node_granted_keys :: "storage \<Rightarrow> node_id \<Rightarrow> keyset \<Rightarrow> sl_status \<times> keyset" where
  "zwave_controller_storage_get_node_granted_keys st n keys =
     (case granted_keys_cb st of None \<Rightarrow> (SL_STATUS_FAIL, keys) | Some f \<Rightarrow> f n keys)"

definition zwave_controller_storage_inclusion_protocol :: "storage \<Rightarrow> node_id \<Rightarrow> zwave_protocol" where
  "zwave_controller_storage_inclusion_protocol st n =
     (case get_inclusion_protocol_cb st of Some f \<Rightarrow> f n | None \<Rightarrow> PROTOCOL_UNKNOWN)"

section \<open>Key sets\<close>

abbreviation (input) S0_KEY :: keyset where "S0_KEY \<equiv> 0x80"
abbreviation (input) S2_UNAUTHENTICATED_KEY :: keyset where "S2_UNAUTHENTICATED_KEY \<equiv> 0x01"

definition zwave_controller_get_highest_encapsulation :: "keyset \<Rightarrow> scheme" where
  "zwave_controller_get_highest_encapsulation keyset =
     (if keyset AND S2_ACCESS_KEY \<noteq> 0 then S2_ACCESS
      else if keyset AND S2_AUTHENTICATED_KEY \<noteq> 0 then S2_AUTHENTICATED
      else if keyset AND S2_UNAUTHENTICATED_KEY \<noteq> 0 then S2_UNAUTHENTICATED
      else if keyset AND S0_KEY \<noteq> 0 then SECURITY_0
      else SCHEME_NONE)"

definition zwave_controller_get_key_from_encapsulation :: "scheme \<Rightarrow> keyset" where
  "zwave_controller_get_key_from_encapsulation e =
     (if e = S2_ACCESS then S2_ACCESS_KEY
      else if e = S2_AUTHENTICATED then S2_AUTHENTICATED_KEY
      else if e = S2_UNAUTHENTICATED then S2_UNAUTHENTICATED_KEY
      else if e = SECURITY_0 then S0_KEY
      else 0)"

section \<open>Choosing a scheme\<close>

text \<open>
  Several functions read granted keys into an uninitialised variable and ignore the
  status. What that variable holds is a field of the environment, one value for each of
  these variables.
\<close>

record scheme_env =
  store :: storage
  zpc_node_id :: node_id
  rf_region :: u8
  uninit_highest_class :: keyset
  uninit_greater_equal :: keyset
  uninit_connection_info :: keyset
  uninit_node_class :: keyset
  uninit_validation :: keyset

definition zwave_tx_scheme_get_zpc_granted_keys :: "scheme_env \<Rightarrow> keyset \<Rightarrow> keyset" where
  "zwave_tx_scheme_get_zpc_granted_keys env keys =
     snd (zwave_controller_storage_get_node_granted_keys (store env) (zpc_node_id env) keys)"

definition zpc_highest_security_class :: "scheme_env \<Rightarrow> scheme" where
  "zpc_highest_security_class env =
     zwave_controller_get_highest_encapsulation (zwave_tx_scheme_get_zpc_granted_keys env (uninit_highest_class env))"

definition zwave_controller_encapsulation_scheme_greater_equal :: "scheme_env \<Rightarrow> scheme \<Rightarrow> scheme \<Rightarrow> bool" where
  "zwave_controller_encapsulation_scheme_greater_equal env k v =
     (let zpc_keyset = zwave_tx_scheme_get_zpc_granted_keys env (uninit_greater_equal env);
          k = (if k = NETWORK_SCHEME then zwave_controller_get_highest_encapsulation zpc_keyset else k);
          v = (if v = NETWORK_SCHEME then zwave_controller_get_highest_encapsulation zpc_keyset else v)
      in k \<ge> v)"

definition zwave_tx_scheme_get_node_connection_info :: "scheme_env \<Rightarrow> node_id \<Rightarrow> u8 \<Rightarrow> connection_info" where
  "zwave_tx_scheme_get_node_connection_info env n ep =
     \<lparr>local_node_id = 0, local_endpoint_id = 0, local_is_multicast = False,
      remote_node_id = n, remote_endpoint_id = ep, remote_is_multicast = False,
      encapsulation = zwave_controller_get_highest_encapsulation
        (snd (zwave_controller_storage_get_node_granted_keys (store env) n (uninit_connection_info env)))\<rparr>"

text \<open>The options of a transmission; the fields the function does not write keep their value.\<close>

record tx_options =
  number_of_responses :: u8
  discard_timeout_ms :: u32
  qos_priority :: u32
  fasttrack :: bool
  send_follow_ups :: bool
  skip_s2_verify_delivery :: bool
  parent_session_id :: nat
  valid_parent_session_id :: bool
  group_id :: u8
  is_first_follow_up :: bool
  is_test_frame :: bool
  is_protocol_frame :: bool
  ignore_incoming_frames_back_off :: bool
  rf_power :: u8

definition zwave_tx_scheme_get_node_tx_options :: "u32 \<Rightarrow> u8 \<Rightarrow> u32 \<Rightarrow> tx_options \<Rightarrow> tx_options" where
  "zwave_tx_scheme_get_node_tx_options qos responses timeout opts =
     opts\<lparr>number_of_responses := responses, fasttrack := False, discard_timeout_ms := timeout, qos_priority := qos,
       send_follow_ups := False, skip_s2_verify_delivery := False, valid_parent_session_id := False,
       is_test_frame := False, rf_power := 0, group_id := 0, is_first_follow_up := False\<rparr>"

definition zwave_tx_scheme_get_node_highest_security_class :: "scheme_env \<Rightarrow> node_id \<Rightarrow> scheme" where
  "zwave_tx_scheme_get_node_highest_security_class env n =
     zwave_controller_get_highest_encapsulation
       (snd (zwave_controller_storage_get_node_granted_keys (store env) n (uninit_node_class env)))"

abbreviation (input) ZWAVE_RF_REGION_JP :: u8 where "ZWAVE_RF_REGION_JP \<equiv> 0x20"
abbreviation (input) ZWAVE_RF_REGION_KR :: u8 where "ZWAVE_RF_REGION_KR \<equiv> 0x21"
abbreviation (input) MAX_MSDU_SIZE_LONG_RANGE :: u16 where "MAX_MSDU_SIZE_LONG_RANGE \<equiv> 192 - 12 - 2 - 1 - 7"
abbreviation (input) ZWAVE_TX_SAFE_LOWEST_MAX_PAYLOAD :: u16 where "ZWAVE_TX_SAFE_LOWEST_MAX_PAYLOAD \<equiv> 22"

definition zwave_tx_scheme_get_max_payload :: "scheme_env \<Rightarrow> node_id \<Rightarrow> u16" where
  "zwave_tx_scheme_get_max_payload env n =
     (let protocol = zwave_controller_storage_inclusion_protocol (store env) n in
      if protocol = PROTOCOL_ZWAVE_LONG_RANGE then MAX_MSDU_SIZE_LONG_RANGE - 0
      else if protocol = PROTOCOL_ZWAVE
      then if rf_region env = ZWAVE_RF_REGION_KR \<or> rf_region env = ZWAVE_RF_REGION_JP then 158 - 8 else 54 - 8
      else 54 - 8)"

definition zwave_tx_scheme_get_max_application_payload :: "scheme_env \<Rightarrow> node_id \<Rightarrow> u8 \<Rightarrow> u16" where
  "zwave_tx_scheme_get_max_application_payload env n endpoint =
     (let e = zwave_tx_scheme_get_node_highest_security_class env n;
          size = zwave_tx_scheme_get_max_payload env n
      in if size \<le> ZWAVE_TX_SAFE_LOWEST_MAX_PAYLOAD then ZWAVE_TX_SAFE_LOWEST_MAX_PAYLOAD
         else
           let size = (if e = SCHEME_NONE then size - 4
                       else if e = SECURITY_0 then size - 20
                       else if e = S2_ACCESS \<or> e = S2_AUTHENTICATED \<or> e = S2_UNAUTHENTICATED then size - 12
                       else size)
           in if endpoint > 0 then size - 4 else size)"

section \<open>Validating received frames\<close>

text \<open>The connection is \<open>None\<close> for a null pointer.\<close>

definition zwave_security_validation_is_security_valid_for_support :: "scheme_env \<Rightarrow> scheme \<Rightarrow> connection_info option \<Rightarrow> bool" where
  "zwave_security_validation_is_security_valid_for_support env minimal connection =
     (case connection of None \<Rightarrow> False | Some c \<Rightarrow>
        let zpc_scheme = zpc_highest_security_class env in
        if (minimal = S2_ACCESS \<or> minimal = S2_AUTHENTICATED \<or> minimal = S2_UNAUTHENTICATED \<or> minimal = SECURITY_0) \<and>
           \<not> zwave_controller_encapsulation_scheme_greater_equal env zpc_scheme minimal
        then False
        else if encapsulation c = zpc_scheme then True
        else if minimal = SCHEME_NONE
        then case zwave_controller_storage_get_node_granted_keys (store env) (remote_node_id c) (uninit_validation env) of (rc, keys) \<Rightarrow>
               if rc \<noteq> SL_STATUS_OK then False
               else let highest = zwave_controller_get_highest_encapsulation keys in
                    if highest < S2_UNAUTHENTICATED then True
                    else if encapsulation c = highest then True else False
        else False)"

definition zwave_security_validation_is_security_valid_for_control :: "scheme_env \<Rightarrow> connection_info option \<Rightarrow> bool" where
  "zwave_security_validation_is_security_valid_for_control env connection =
     (case connection of None \<Rightarrow> False | Some c \<Rightarrow>
        if \<not> zwave_controller_storage_is_node_s2_capable (store env) (remote_node_id c) then True
        else case zwave_controller_storage_get_node_granted_keys (store env) (remote_node_id c) (uninit_validation env) of (rc, keys) \<Rightarrow>
          if rc \<noteq> SL_STATUS_OK then True
          else if encapsulation c = zwave_controller_get_highest_encapsulation keys then True
          else False)"

definition zwave_security_validation_is_s2_nif_downgrade_attack_detected :: "scheme_env \<Rightarrow> node_id \<Rightarrow> u8 list \<Rightarrow> bool" where
  "zwave_security_validation_is_s2_nif_downgrade_attack_detected env n nif =
     (if zwave_controller_storage_is_node_s2_capable (store env) n \<and>
         \<not> is_command_class_in_supported_list 0x9F nif
      then True else False)"

section \<open>Key sets and schemes\<close>

text \<open>The schemes a key set allows: unencrypted, and those whose key it contains.\<close>

definition allowed_schemes :: "keyset \<Rightarrow> scheme set" where
  "allowed_schemes keys = {SCHEME_NONE} \<union> {s. keys AND zwave_controller_get_key_from_encapsulation s \<noteq> 0}"

lemma finite_schemes: "finite (S :: scheme set)"
proof (rule finite_subset)
  show "S \<subseteq> {NETWORK_SCHEME, SCHEME_NONE, SECURITY_0, S2_UNAUTHENTICATED, S2_AUTHENTICATED, S2_ACCESS}"
    using scheme.exhaust by blast
qed simp

lemma highest_allowed: "zwave_controller_get_highest_encapsulation keys \<in> allowed_schemes keys"
  by (simp add: allowed_schemes_def zwave_controller_get_highest_encapsulation_def zwave_controller_get_key_from_encapsulation_def)

lemma highest_is_upper: "s \<in> allowed_schemes keys \<Longrightarrow> s \<le> zwave_controller_get_highest_encapsulation keys"
  by (cases s)
     (auto simp: allowed_schemes_def zwave_controller_get_highest_encapsulation_def
        zwave_controller_get_key_from_encapsulation_def scheme_order)

lemma highest_not_network [simp]: "zwave_controller_get_highest_encapsulation keys \<noteq> NETWORK_SCHEME"
  by (simp add: zwave_controller_get_highest_encapsulation_def)

text \<open>
  The scheme chosen for a key set is the highest scheme it allows, in the order of
  the encapsulation schemes, and the key of a scheme allows exactly that scheme: choosing
  a scheme for a single key gives back the scheme of the key.
\<close>

theorem highest_encapsulation_is_maximum:
  "zwave_controller_get_highest_encapsulation keys = Max (allowed_schemes keys) \<and>
   zwave_controller_get_highest_encapsulation (zwave_controller_get_key_from_encapsulation s) =
     (if s = NETWORK_SCHEME then SCHEME_NONE else s)"
proof
  show "zwave_controller_get_highest_encapsulation keys = Max (allowed_schemes keys)"
    by (rule Max_eqI [symmetric]) (auto simp: finite_schemes highest_allowed highest_is_upper)
  show "zwave_controller_get_highest_encapsulation (zwave_controller_get_key_from_encapsulation s) =
      (if s = NETWORK_SCHEME then SCHEME_NONE else s)"
    by (cases s) (simp_all add: zwave_controller_get_highest_encapsulation_def zwave_controller_get_key_from_encapsulation_def)
qed

text \<open>
  When the storage cannot give the granted keys of a node, its security class is
  whatever an uninitialised variable holds: every one of the five schemes is possible,
  so the controller may send unencrypted to a secure node or with a key the node lacks.
\<close>

theorem unknown_keys_give_any_scheme:
  assumes "granted_keys_cb (store env) = None" and "s \<noteq> NETWORK_SCHEME"
  shows "\<exists>garbage. encapsulation (zwave_tx_scheme_get_node_connection_info (env\<lparr>uninit_connection_info := garbage\<rparr>) n ep) = s \<and>
           zwave_tx_scheme_get_node_highest_security_class (env\<lparr>uninit_node_class := garbage\<rparr>) n = s"
proof -
  let ?g = "zwave_controller_get_key_from_encapsulation s"
  have "zwave_controller_get_highest_encapsulation ?g = s"
    using assms(2)
    by (cases s) (simp_all add: zwave_controller_get_highest_encapsulation_def zwave_controller_get_key_from_encapsulation_def)
  then show ?thesis
    using assms(1)
    by (intro exI [of _ ?g])
       (simp add: zwave_tx_scheme_get_node_connection_info_def zwave_tx_scheme_get_node_highest_security_class_def
          zwave_controller_storage_get_node_granted_keys_def)
qed

section \<open>Accepting frames\<close>

text \<open>
  C28. For every minimum of a supported command class, the default minimum \<open>NETWORK_SCHEME\<close> included, a frame that was received with one of the
  five schemes is accepted exactly when three things hold: its scheme is at least the minimum, where the default minimum stands for the
  controller's own highest scheme; unless the class allows unencrypted frames, its scheme is the controller's own highest one; and
  if its scheme is another one, the keys of the sender are known, and the sender has no S2 key or has used its own highest scheme.
\<close>

theorem support_needs_sufficient_scheme:
  assumes "encapsulation c \<noteq> NETWORK_SCHEME"
  shows "zwave_security_validation_is_security_valid_for_support env minimal (Some c) \<longleftrightarrow>
     encapsulation c \<ge> (if minimal = NETWORK_SCHEME then zpc_highest_security_class env else minimal) \<and>
     (minimal = SCHEME_NONE \<or> encapsulation c = zpc_highest_security_class env) \<and>
     (encapsulation c = zpc_highest_security_class env \<or>
      (case zwave_controller_storage_get_node_granted_keys (store env) (remote_node_id c) (uninit_validation env) of
         (rc, keys) \<Rightarrow> rc = SL_STATUS_OK \<and>
           (Max (allowed_schemes keys) < S2_UNAUTHENTICATED \<or> encapsulation c = Max (allowed_schemes keys))))"
proof -
  have zpc: "zpc_highest_security_class env \<noteq> NETWORK_SCHEME"
    by (simp add: zpc_highest_security_class_def)
  have "SCHEME_NONE \<le> encapsulation c" using assms by (cases "encapsulation c") (simp_all add: scheme_order)
  moreover have "Max (allowed_schemes keys) = zwave_controller_get_highest_encapsulation keys" for keys
    by (rule Max_eqI) (auto simp: finite_schemes highest_allowed highest_is_upper)
  ultimately show ?thesis
    using assms zpc
    by (cases minimal)
       (auto simp: zwave_security_validation_is_security_valid_for_support_def Let_def
          zwave_controller_encapsulation_scheme_greater_equal_def split: if_splits prod.split)
qed

text \<open>
  C29. A node that is known to support S2 and whose keys are known can control the
  controller only at its highest granted scheme, in particular never unencrypted once it
  has a key; and a node information of such a node that leaves out Security 2 is reported
  as a downgrade attack.
\<close>

theorem s2_node_cannot_be_downgraded:
  assumes "zwave_controller_storage_is_node_s2_capable (store env) (remote_node_id c)"
    and "zwave_controller_storage_get_node_granted_keys (store env) (remote_node_id c) (uninit_validation env) = (SL_STATUS_OK, keys)"
    and "keys AND 0x87 \<noteq> 0"
  shows "(zwave_security_validation_is_security_valid_for_control env (Some c) \<longleftrightarrow>
            encapsulation c = zwave_controller_get_highest_encapsulation keys) \<and>
         (encapsulation c = SCHEME_NONE \<longrightarrow> \<not> zwave_security_validation_is_security_valid_for_control env (Some c)) \<and>
         (\<not> is_command_class_in_supported_list 0x9F nif \<longrightarrow>
            zwave_security_validation_is_s2_nif_downgrade_attack_detected env (remote_node_id c) nif)"
proof -
  have "zwave_controller_get_highest_encapsulation keys \<noteq> SCHEME_NONE"
  proof
    assume "zwave_controller_get_highest_encapsulation keys = SCHEME_NONE"
    then have "keys AND 0x04 = 0" "keys AND 0x02 = 0" "keys AND 0x01 = 0" "keys AND 0x80 = 0"
      by (auto simp: zwave_controller_get_highest_encapsulation_def split: if_splits)
    then have "keys AND (0x04 OR (0x02 OR (0x01 OR 0x80))) = 0"
      by (simp only: bit.conj_disj_distrib) simp
    with assms(3) show False by simp
  qed
  then show ?thesis
    using assms(1,2)
    by (simp add: zwave_security_validation_is_security_valid_for_control_def
        zwave_security_validation_is_s2_nif_downgrade_attack_detected_def)
qed

section \<open>Payload sizes\<close>

definition overhead :: "scheme_env \<Rightarrow> node_id \<Rightarrow> u8 \<Rightarrow> nat" where
  "overhead env n endpoint =
     (case zwave_tx_scheme_get_node_highest_security_class env n of SCHEME_NONE \<Rightarrow> 4 | SECURITY_0 \<Rightarrow> 20 | _ \<Rightarrow> 12) +
     (if endpoint > 0 then 4 else 0)"

text \<open>
  The payload sizes fit: what the application may send plus the overhead of security
  and endpoint addressing is exactly what the radio frame holds; no subtraction wraps
  around, and at least 22 and at most 166 bytes are left for the application.
\<close>

theorem application_payload_fits:
  "unat (zwave_tx_scheme_get_max_application_payload env n endpoint) + overhead env n endpoint =
     unat (zwave_tx_scheme_get_max_payload env n) \<and>
   22 \<le> unat (zwave_tx_scheme_get_max_application_payload env n endpoint) \<and>
   unat (zwave_tx_scheme_get_max_application_payload env n endpoint) \<le> 166"
proof -
  have e: "zwave_tx_scheme_get_node_highest_security_class env n \<noteq> NETWORK_SCHEME"
    by (simp add: zwave_tx_scheme_get_node_highest_security_class_def)
  have "zwave_tx_scheme_get_max_payload env n \<in> {170, 150, 46}"
    by (simp add: zwave_tx_scheme_get_max_payload_def Let_def)
  with e show ?thesis
    by (cases "zwave_tx_scheme_get_node_highest_security_class env n")
       (auto simp: zwave_tx_scheme_get_max_application_payload_def overhead_def Let_def)
qed

section \<open>Examples\<close>

text \<open>A storage in which NodeID 5 was granted all S2 keys and nothing is known of other nodes.\<close>

definition sample_storage :: storage where
  "sample_storage = \<lparr>set_node_as_s2_capable_cb = Some (\<lambda>_. 0), verify_node_is_s2_cb = Some (\<lambda>n. n = 5),
     zwave_node_cc_version_cb = None, granted_keys_cb = Some (\<lambda>n keys. if n = 5 \<or> n = 1 then (0, 0x87) else (1, keys)),
     get_inclusion_protocol_cb = Some (\<lambda>_. PROTOCOL_ZWAVE)\<rparr>"

definition sample_scheme_env :: scheme_env where
  "sample_scheme_env = \<lparr>store = sample_storage, zpc_node_id = 1, rf_region = 0, uninit_highest_class = 0, uninit_greater_equal = 0,
     uninit_connection_info = 0, uninit_node_class = 0, uninit_validation = 0\<rparr>"

definition access_frame :: connection_info where
  "access_frame = \<lparr>local_node_id = 1, local_endpoint_id = 0, local_is_multicast = False, remote_node_id = 5,
     remote_endpoint_id = 0, remote_is_multicast = False, encapsulation = S2_ACCESS\<rparr>"

lemmas sample_defs = sample_storage_def sample_scheme_env_def access_frame_def zwave_controller_storage_get_node_granted_keys_def
  zwave_controller_storage_is_node_s2_capable_def zwave_tx_scheme_get_zpc_granted_keys_def

theorem unknown_keys_give_any_scheme_witness:
  "\<exists>garbage. encapsulation (zwave_tx_scheme_get_node_connection_info
       (sample_scheme_env\<lparr>store := sample_storage\<lparr>granted_keys_cb := None\<rparr>, uninit_connection_info := garbage\<rparr>) 7 0) = S2_ACCESS"
  using unknown_keys_give_any_scheme [of "sample_scheme_env\<lparr>store := sample_storage\<lparr>granted_keys_cb := None\<rparr>\<rparr>" S2_ACCESS 7 0] by auto

theorem support_needs_sufficient_scheme_witness:
  "zwave_security_validation_is_security_valid_for_support sample_scheme_env NETWORK_SCHEME (Some access_frame) \<and>
   \<not> zwave_security_validation_is_security_valid_for_support sample_scheme_env NETWORK_SCHEME (Some (access_frame\<lparr>encapsulation := S2_UNAUTHENTICATED\<rparr>)) \<and>
   \<not> zwave_security_validation_is_security_valid_for_support sample_scheme_env SCHEME_NONE (Some (access_frame\<lparr>encapsulation := SCHEME_NONE\<rparr>))"
proof -
  have "zwave_controller_get_highest_encapsulation 0x87 = S2_ACCESS" by (simp add: zwave_controller_get_highest_encapsulation_def)
  then have h: "zpc_highest_security_class sample_scheme_env = S2_ACCESS" "Max (allowed_schemes 0x87) = S2_ACCESS"
    using highest_encapsulation_is_maximum [of "0x87"] by (simp_all add: zpc_highest_security_class_def sample_defs)
  show ?thesis
    using support_needs_sufficient_scheme [of access_frame sample_scheme_env NETWORK_SCHEME]
      support_needs_sufficient_scheme [of "access_frame\<lparr>encapsulation := S2_UNAUTHENTICATED\<rparr>" sample_scheme_env NETWORK_SCHEME]
      support_needs_sufficient_scheme [of "access_frame\<lparr>encapsulation := SCHEME_NONE\<rparr>" sample_scheme_env SCHEME_NONE] h
    by (simp add: sample_defs scheme_order)
qed

theorem s2_node_cannot_be_downgraded_witness:
  "zwave_security_validation_is_security_valid_for_control sample_scheme_env (Some access_frame) \<and>
   \<not> zwave_security_validation_is_security_valid_for_control sample_scheme_env (Some (access_frame\<lparr>encapsulation := SCHEME_NONE\<rparr>)) \<and>
   zwave_security_validation_is_s2_nif_downgrade_attack_detected sample_scheme_env 5 [0x25, 0x86]"
  using s2_node_cannot_be_downgraded [of sample_scheme_env access_frame "0x87" "[0x25, 0x86]"]
    s2_node_cannot_be_downgraded [of sample_scheme_env "access_frame\<lparr>encapsulation := SCHEME_NONE\<rparr>" "0x87" "[]"]
  by (simp add: sample_defs zwave_controller_get_highest_encapsulation_def is_command_class_in_supported_list_def)

end
