(* ===== verification/Controller_Transport.thy ===== *)
theory Controller_Transport
  imports Security_Schemes
begin

text \<open>
  The transport framework of the controller, \<^verbatim>\<open>zwave_controller_transport.c\<close>: the seven
  encapsulations register themselves under a priority, a frame to send is offered to them
  from the highest priority down, a received frame goes to the transport of its command
  class. The functions of a transport change a state \<open>'s\<close> that this component does not look
  into.
\<close>

section \<open>Data\<close>

text \<open>The parameters of a transmission; functions and user data passed through are numbers.\<close>

record tx_request =
  tx_connection :: connection_info
  tx_data :: "u8 list"
  tx_request_options :: tx_options
  tx_on_send_complete :: nat
  tx_user :: nat
  tx_parent_session :: nat

record 's transport =
  priority :: u32
  transport_class :: command_class
  version :: u8
  send_data :: "(tx_request \<Rightarrow> 's \<Rightarrow> sl_status \<times> 's) option"
  abort_send_data :: "(nat \<Rightarrow> 's \<Rightarrow> sl_status \<times> 's) option"
  transport_on_frame_received :: "(connection_info \<Rightarrow> u8 list \<Rightarrow> 's \<Rightarrow> sl_status \<times> 's) option"
  is_busy :: "('s \<Rightarrow> bool \<times> 's) option"

abbreviation (input) NUMBER_OF_TRANSPORTS :: nat where "NUMBER_OF_TRANSPORTS \<equiv> 7"

definition no_transport :: "'s transport" where
  "no_transport = \<lparr>priority = 0, transport_class = 0, version = 0, send_data = None, abort_send_data = None,
     transport_on_frame_received = None, is_busy = None\<rparr>"

abbreviation (input) TRANSMIT_COMPLETE_OK :: u8 where "TRANSMIT_COMPLETE_OK \<equiv> 0x00"
abbreviation (input) TRANSMIT_COMPLETE_NO_ACK :: u8 where "TRANSMIT_COMPLETE_NO_ACK \<equiv> 0x01"
abbreviation (input) TRANSMIT_COMPLETE_FAIL :: u8 where "TRANSMIT_COMPLETE_FAIL \<equiv> 0x02"
abbreviation (input) TRANSMIT_COMPLETE_VERIFIED :: u8 where "TRANSMIT_COMPLETE_VERIFIED \<equiv> 0x05"

definition IS_TRANSMISSION_SUCCESSFUL :: "u8 \<Rightarrow> bool" where
  "IS_TRANSMISSION_SUCCESSFUL tx_status \<longleftrightarrow> tx_status = TRANSMIT_COMPLETE_OK \<or> tx_status = TRANSMIT_COMPLETE_VERIFIED"

text \<open>The group of a connection shares its memory with the NodeID; it is the low byte on the targets of the program.\<close>

definition multicast_group :: "connection_info \<Rightarrow> u8" where
  "multicast_group c = ucast (remote_node_id c)"

text \<open>A connection and options with all fields zero.\<close>

definition zero_connection :: connection_info where
  "zero_connection = \<lparr>local_node_id = 0, local_endpoint_id = 0, local_is_multicast = False, remote_node_id = 0,
     remote_endpoint_id = 0, remote_is_multicast = False, encapsulation = NETWORK_SCHEME\<rparr>"

definition zero_options :: tx_options where
  "zero_options = \<lparr>number_of_responses = 0, discard_timeout_ms = 0, qos_priority = 0, fasttrack = False,
     send_follow_ups = False, skip_s2_verify_delivery = False, parent_session_id = 0, valid_parent_session_id = False,
     group_id = 0, is_first_follow_up = False, is_test_frame = False, is_protocol_frame = False,
     ignore_incoming_frames_back_off = False, rf_power = 0\<rparr>"

section \<open>Operations\<close>

definition zwave_controller_transport_init :: "'s transport list" where
  "zwave_controller_transport_init = replicate NUMBER_OF_TRANSPORTS no_transport"

definition zwave_controller_transport_register :: "'s transport \<Rightarrow> 's transport list \<Rightarrow> sl_status \<times> 's transport list" where
  "zwave_controller_transport_register new ts =
     (if unat (priority new) \<ge> NUMBER_OF_TRANSPORTS then (SL_STATUS_FAIL, ts)
      else if transport_class new \<noteq> 0 \<and> list_ex (\<lambda>t. transport_class t = transport_class new) ts then (SL_STATUS_FAIL, ts)
      else (SL_STATUS_OK, ts[unat (priority new) := new]))"

definition get_transport_by_class :: "'s transport list \<Rightarrow> command_class \<Rightarrow> 's transport option" where
  "get_transport_by_class ts cc = List.find (\<lambda>t. transport_class t = cc) ts"

definition zwave_controller_transport_get_by_priority :: "'s transport list \<Rightarrow> u32 \<Rightarrow> 's transport option" where
  "zwave_controller_transport_get_by_priority ts p = List.find (\<lambda>t. send_data t \<noteq> None \<and> priority t = p) ts"

definition zwave_controller_transport_is_encapsulation_cc :: "'s transport list \<Rightarrow> command_class \<Rightarrow> u8" where
  "zwave_controller_transport_is_encapsulation_cc ts cc =
     (case get_transport_by_class ts cc of Some t \<Rightarrow> version t | None \<Rightarrow> 0)"

text \<open>
  The frame is \<open>None\<close> for a null pointer; \<open>release\<close> says that assertions are compiled out, and
  the result is \<open>None\<close> when an assertion fails.
\<close>

definition zwave_controller_transport_on_frame_received ::
  "bool \<Rightarrow> 's transport list \<Rightarrow> connection_info \<Rightarrow> u8 list option \<Rightarrow> 's \<Rightarrow> (sl_status \<times> 's) option" where
  "zwave_controller_transport_on_frame_received release ts c frame s =
     (if frame = None \<or> frame = Some []
      then if release then Some (SL_STATUS_INVALID_PARAMETER, s) else None
      else let data = the frame in
           case get_transport_by_class ts (ucast (hd data)) of
             Some t \<Rightarrow> (case transport_on_frame_received t of
                          Some f \<Rightarrow> Some (f c data s)
                        | None \<Rightarrow> Some (SL_STATUS_NOT_FOUND, s))
           | None \<Rightarrow> Some (SL_STATUS_NOT_FOUND, s))"

text \<open>The transports in the order in which they are tried.\<close>

fun send_loop :: "'s transport list \<Rightarrow> tx_request \<Rightarrow> 's \<Rightarrow> sl_status \<times> 's" where
  "send_loop [] r s = (SL_STATUS_NOT_SUPPORTED, s)"
| "send_loop (t # ts) r s =
     (case send_data t of
        None \<Rightarrow> send_loop ts r s
      | Some f \<Rightarrow> (case f r s of (rc, s) \<Rightarrow> if rc \<noteq> SL_STATUS_NOT_SUPPORTED then (rc, s) else send_loop ts r s))"

definition zwave_controller_transport_send_data :: "'s transport list \<Rightarrow> tx_request \<Rightarrow> 's \<Rightarrow> sl_status \<times> 's" where
  "zwave_controller_transport_send_data ts r s = send_loop (rev ts) r s"

fun abort_loop :: "'s transport list \<Rightarrow> nat \<Rightarrow> 's \<Rightarrow> sl_status \<times> 's" where
  "abort_loop [] sid s = (SL_STATUS_NOT_FOUND, s)"
| "abort_loop (t # ts) sid s =
     (case abort_send_data t of
        None \<Rightarrow> abort_loop ts sid s
      | Some f \<Rightarrow> (case f sid s of (rc, s) \<Rightarrow> if rc = SL_STATUS_OK then (SL_STATUS_OK, s) else abort_loop ts sid s))"

definition zwave_controller_transport_abort_send_data :: "'s transport list \<Rightarrow> nat \<Rightarrow> 's \<Rightarrow> sl_status \<times> 's" where
  "zwave_controller_transport_abort_send_data ts sid s = abort_loop ts sid s"

fun busy_loop :: "'s transport list \<Rightarrow> 's \<Rightarrow> bool \<times> 's" where
  "busy_loop [] s = (False, s)"
| "busy_loop (t # ts) s =
     (case is_busy t of None \<Rightarrow> busy_loop ts s | Some f \<Rightarrow> (case f s of (b, s) \<Rightarrow> if b then (True, s) else busy_loop ts s))"

definition zwave_controller_transport_is_busy :: "'s transport list \<Rightarrow> 's \<Rightarrow> bool \<times> 's" where
  "zwave_controller_transport_is_busy ts s = busy_loop ts s"

section \<open>The table of transports\<close>

text \<open>Two transports that serve the same command class.\<close>

definition same_class :: "'s transport \<Rightarrow> 's transport \<Rightarrow> bool" where
  "same_class t u \<longleftrightarrow> transport_class t \<noteq> 0 \<and> transport_class t = transport_class u"

definition transports_ok :: "'s transport list \<Rightarrow> bool" where
  "transports_ok ts \<longleftrightarrow> length ts = NUMBER_OF_TRANSPORTS \<and> no_two same_class ts \<and>
     (\<forall>i < length ts. send_data (ts ! i) \<noteq> None \<longrightarrow> unat (priority (ts ! i)) = i)"

lemma transports_ok_init: "transports_ok zwave_controller_transport_init"
  by (auto simp: transports_ok_def no_two_def same_class_def zwave_controller_transport_init_def no_transport_def nth_Cons')

lemma transports_ok_register:
  assumes "transports_ok ts"
  shows "transports_ok (snd (zwave_controller_transport_register new ts))"
proof -
  have "no_two same_class (ts[unat (priority new) := new])"
    if "\<not> (transport_class new \<noteq> 0 \<and> list_ex (\<lambda>t. transport_class t = transport_class new) ts)"
    using assms that by (intro no_two_update) (auto simp: transports_ok_def same_class_def list_ex_iff)
  moreover have "\<forall>i < length ts. send_data (ts[unat (priority new) := new] ! i) \<noteq> None \<longrightarrow>
      unat (priority (ts[unat (priority new) := new] ! i)) = i"
    using assms by (cases "unat (priority new) < length ts") (auto simp: transports_ok_def nth_list_update)
  ultimately show ?thesis
    using assms by (auto simp: zwave_controller_transport_register_def transports_ok_def)
qed

interpretation transports: transition_system "\<lambda>ts. ts = zwave_controller_transport_init"
  "\<lambda>t ts. snd (zwave_controller_transport_register t ts)" transports_ok
  by unfold_locales (auto simp: transports_ok_init transports_ok_register)

lemma find_same_class:
  assumes "transports_ok ts" and "i < length ts" and "transport_class (ts ! i) \<noteq> 0"
  shows "get_transport_by_class ts (transport_class (ts ! i)) = Some (ts ! i)"
proof (cases "get_transport_by_class ts (transport_class (ts ! i))")
  case None
  then show ?thesis using nth_mem [OF assms(2)] by (auto simp: get_transport_by_class_def find_None_iff)
next
  case (Some t)
  then obtain j where j: "j < length ts" "ts ! j = t" "transport_class t = transport_class (ts ! i)"
    by (auto simp: get_transport_by_class_def find_Some_iff)
  then have "j = i" using no_twoD [of same_class ts j i] assms by (auto simp: transports_ok_def same_class_def)
  with Some j show ?thesis by simp
qed

section \<open>Sending\<close>

text \<open>A list of transports, none of which has anything to do for the frame: the state after asking them all.\<close>

fun declined :: "'s transport list \<Rightarrow> tx_request \<Rightarrow> 's \<Rightarrow> 's option" where
  "declined [] r s = Some s"
| "declined (t # ts) r s =
     (case send_data t of
        None \<Rightarrow> declined ts r s
      | Some f \<Rightarrow> (case f r s of (rc, s) \<Rightarrow> if rc = SL_STATUS_NOT_SUPPORTED then declined ts r s else None))"

lemma send_loop_spec:
  assumes "send_loop ts r s = (rc, s')"
  shows "(rc = SL_STATUS_NOT_SUPPORTED \<and> declined ts r s = Some s') \<or>
         (rc \<noteq> SL_STATUS_NOT_SUPPORTED \<and>
          (\<exists>pre t post f u. ts = pre @ t # post \<and> declined pre r s = Some u \<and> send_data t = Some f \<and> f r u = (rc, s')))"
  using assms
proof (induction ts arbitrary: s)
  case (Cons t ts)
  show ?case
  proof (cases "send_data t")
    case None
    with Cons.prems have "send_loop ts r s = (rc, s')" by simp
    from Cons.IH [OF this] show ?thesis
    proof (elim disjE conjE exE)
      fix pre u post f v
      assume "ts = pre @ u # post" "declined pre r s = Some v" "send_data u = Some f" "f r v = (rc, s')" "rc \<noteq> SL_STATUS_NOT_SUPPORTED"
      then show ?thesis using None by (intro disjI2 conjI exI [of _ "t # pre"] exI [of _ u] exI [of _ post] exI [of _ f] exI [of _ v]) simp_all
    qed (simp add: None)
  next
    case (Some f)
    obtain rc1 s1 where f: "f r s = (rc1, s1)" by fastforce
    show ?thesis
    proof (cases "rc1 = SL_STATUS_NOT_SUPPORTED")
      case True
      with Cons.prems Some f have "send_loop ts r s1 = (rc, s')" by simp
      from Cons.IH [OF this] show ?thesis
      proof (elim disjE conjE exE)
        fix pre u post g v
        assume "ts = pre @ u # post" "declined pre r s1 = Some v" "send_data u = Some g" "g r v = (rc, s')" "rc \<noteq> SL_STATUS_NOT_SUPPORTED"
        then show ?thesis using Some f True
          by (intro disjI2 conjI exI [of _ "t # pre"] exI [of _ u] exI [of _ post] exI [of _ g] exI [of _ v]) simp_all
      qed (simp add: Some f True)
    next
      case False
      with Cons.prems Some f show ?thesis
        by (intro disjI2 conjI exI [of _ "[]"] exI [of _ t] exI [of _ ts] exI [of _ f] exI [of _ s]) auto
    qed
  qed
qed simp

text \<open>
  A frame to send is handled by one transport: either every transport declines it and
  the frame is reported as not supported, or the transport with the highest priority that
  does not decline it decides alone, after all transports of higher priority were asked
  from the highest down and without asking any of lower priority.
\<close>

theorem send_data_highest_taker_decides:
  assumes "transports_ok ts" and "zwave_controller_transport_send_data ts r s = (rc, s')"
  shows "if rc = SL_STATUS_NOT_SUPPORTED then declined (rev ts) r s = Some s'
         else \<exists>i f u. i < NUMBER_OF_TRANSPORTS \<and> declined (rev (drop (Suc i) ts)) r s = Some u \<and>
                send_data (ts ! i) = Some f \<and> f r u = (rc, s') \<and> unat (priority (ts ! i)) = i"
proof (cases "rc = SL_STATUS_NOT_SUPPORTED")
  case False
  then obtain pre t post f u where p: "rev ts = pre @ t # post" "declined pre r s = Some u" "send_data t = Some f" "f r u = (rc, s')"
    using send_loop_spec [of "rev ts" r s rc s'] assms(2) unfolding zwave_controller_transport_send_data_def by blast
  have ts: "ts = rev post @ t # rev pre" using arg_cong [OF p(1), of rev] by simp
  let ?i = "length post"
  have n: "ts ! ?i = t" "drop (Suc ?i) ts = rev pre" "?i < length ts" unfolding ts by (simp_all add: nth_append)
  then have "unat (priority (ts ! ?i)) = ?i" "?i < 7" using assms(1) p(3) unfolding transports_ok_def by auto
  with False n p show ?thesis by auto
next
  case True
  then show ?thesis
    using send_loop_spec [of "rev ts" r s rc s'] assms(2) unfolding zwave_controller_transport_send_data_def by auto
qed

section \<open>Example\<close>

text \<open>The lowest layer takes every frame, the Multi Channel transport above it declines; both count their calls.\<close>

definition sample_transport :: "u32 \<Rightarrow> command_class \<Rightarrow> sl_status \<Rightarrow> nat transport" where
  "sample_transport p cc rc = no_transport\<lparr>priority := p, transport_class := cc, version := 1, send_data := Some (\<lambda>r n. (rc, Suc n))\<rparr>"

definition sample_transports :: "nat transport list" where
  "sample_transports = fold (\<lambda>t ts. snd (zwave_controller_transport_register t ts))
     [sample_transport 0 0 SL_STATUS_OK, sample_transport 5 0x60 SL_STATUS_NOT_SUPPORTED] zwave_controller_transport_init"

lemma sample_transports_ok: "transports_ok sample_transports"
  unfolding sample_transports_def by (rule transports.fold_inv) (simp add: transports_ok_init)

lemma sample_transports_list:
  "sample_transports = [sample_transport 0 0 SL_STATUS_OK, no_transport, no_transport, no_transport, no_transport,
     sample_transport 5 0x60 SL_STATUS_NOT_SUPPORTED, no_transport]"
proof -
  have r: "replicate 7 t = [t, t, t, t, t, t, t]" for t :: "nat transport" by (simp add: numeral_eq_Suc)
  have u: "[a, b, c, d, e, f, g][5 := x] = [a, b, c, d, e, x, g]" for a b c d e f g x :: "nat transport"
    by (simp add: numeral_eq_Suc)
  show ?thesis
    by (simp add: sample_transports_def zwave_controller_transport_init_def zwave_controller_transport_register_def sample_transport_def
        no_transport_def r u)
qed

lemma sample_send: "zwave_controller_transport_send_data sample_transports r 0 = (SL_STATUS_OK, 2)"
  by (simp add: zwave_controller_transport_send_data_def sample_transports_list sample_transport_def no_transport_def)

theorem send_data_highest_taker_decides_witness:
  "\<forall>r. \<exists>i f u. i < 7 \<and> declined (rev (drop (Suc i) sample_transports)) r 0 = Some u \<and>
     send_data (sample_transports ! i) = Some f \<and> f r u = (SL_STATUS_OK, 2) \<and> unat (priority (sample_transports ! i)) = i"
  using send_data_highest_taker_decides [OF sample_transports_ok sample_send] by simp

end
