(* ===== verification/Controller_Callbacks.thy ===== *)
theory Controller_Callbacks
  imports Controller_Transport
begin

text \<open>
  The callbacks of the controller, \<^verbatim>\<open>zwave_controller_callbacks.c\<close>: components subscribe to
  the events of the controller, each event is passed to all of them, and a factory reset
  runs the registered steps in the order of their priority. A structure of callbacks is
  identified by its address, a number; what the functions of other components do is not
  part of the model, only that they are called.
\<close>

section \<open>Data\<close>

text \<open>The events, named after the fields of \<^verbatim>\<open>zwave_controller_callbacks_t\<close>.\<close>

datatype (plugins only: code size) controller_event =
  Ev_on_state_updated nm_state
| Ev_on_error nm_error
| Ev_on_node_id_assigned node_id bool zwave_protocol
| Ev_on_node_deleted node_id
| Ev_on_node_info_req_failed node_id
| Ev_on_frame_transmission bool node_id
| Ev_on_node_added sl_status node_info node_id dsk keyset kex_fail_type zwave_protocol
| Ev_on_network_address_update u32 node_id
| Ev_on_new_network_entered u32 node_id keyset kex_fail_type
| Ev_on_keys_report bool keyset
| Ev_on_dsk_report u8 dsk keyset
| Ev_on_rx_frame_received node_id "u8 list"
| Ev_on_application_frame_received connection_info "u8 list"
| Ev_on_protocol_cc_encryption_request node_id "u8 list" "u8 list" u8 u8
| Ev_on_smart_start_inclusion_request u32 bool node_info zwave_protocol
| Ev_on_node_information node_id node_info
| Ev_on_new_suc node_id
| Ev_on_multicast_group_deleted u8
| Ev_on_request_neighbor_update u8

abbreviation (input) MAXIMUM_CALLBACK_SUBSCRIBERS :: nat where "MAXIMUM_CALLBACK_SUBSCRIBERS \<equiv> 20"

text \<open>
  The static variables, with the calls made to subscribers (\<open>delivered\<close>) and to reset
  steps (\<open>steps_run\<close>, by priority), oldest first.
\<close>

record controller =
  callbacks_array :: "nat option list"
  reset_steps :: "nat option list"
  reset_ongoing :: bool
  delivered :: "(nat \<times> controller_event) list"
  steps_run :: "nat list"

text \<open>
  The surroundings: which function of a callback structure is set, and what a reset step
  returns, which may depend on the steps run before.
\<close>

record controller_env =
  implements :: "nat \<Rightarrow> controller_event \<Rightarrow> bool"
  step_status :: "nat \<Rightarrow> nat list \<Rightarrow> sl_status"

section \<open>Registration\<close>

definition zwave_controller_register_callbacks :: "nat option \<Rightarrow> controller \<Rightarrow> sl_status \<times> controller" where
  "zwave_controller_register_callbacks callbacks c =
     (if callbacks = None then (SL_STATUS_FAIL, c)
      else if callbacks \<in> set (callbacks_array c) then (SL_STATUS_OK, c)
      else case first_index (\<lambda>e. e = None) (callbacks_array c) of
             Some i \<Rightarrow> (SL_STATUS_OK, c\<lparr>callbacks_array := (callbacks_array c)[i := callbacks]\<rparr>)
           | None \<Rightarrow> (SL_STATUS_NO_MORE_RESOURCE, c))"

definition zwave_controller_deregister_callbacks :: "nat option \<Rightarrow> controller \<Rightarrow> sl_status \<times> controller" where
  "zwave_controller_deregister_callbacks callbacks c =
     (if callbacks = None then (SL_STATUS_FAIL, c)
      else case first_index (\<lambda>e. e = callbacks) (callbacks_array c) of
             Some i \<Rightarrow> (SL_STATUS_OK, c\<lparr>callbacks_array := (callbacks_array c)[i := None]\<rparr>)
           | None \<Rightarrow> (SL_STATUS_OK, c))"

definition zwave_controller_register_reset_step :: "nat option \<Rightarrow> int \<Rightarrow> controller \<Rightarrow> sl_status \<times> controller" where
  "zwave_controller_register_reset_step step_function p c =
     (if step_function = None then (SL_STATUS_FAIL, c)
      else if p < 0 \<or> p \<ge> int MAXIMUM_CALLBACK_SUBSCRIBERS then (SL_STATUS_FAIL, c)
      else if reset_steps c ! nat p \<noteq> None
      then if reset_steps c ! nat p \<noteq> step_function then (SL_STATUS_FAIL, c) else (SL_STATUS_OK, c)
      else (SL_STATUS_OK, c\<lparr>reset_steps := (reset_steps c)[nat p := step_function]\<rparr>))"

definition zwave_controller_callbacks_init :: "controller \<Rightarrow> controller" where
  "zwave_controller_callbacks_init c =
     c\<lparr>reset_ongoing := False, callbacks_array := replicate MAXIMUM_CALLBACK_SUBSCRIBERS None,
       reset_steps := replicate MAXIMUM_CALLBACK_SUBSCRIBERS None\<rparr>"

section \<open>Factory reset\<close>

fun reset_loop :: "controller_env \<Rightarrow> nat list \<Rightarrow> controller \<Rightarrow> controller" where
  "reset_loop env [] c = c\<lparr>reset_ongoing := False\<rparr>"
| "reset_loop env (i # is) c =
     (case reset_steps c ! i of
        None \<Rightarrow> reset_loop env is c
      | Some f \<Rightarrow> let c = c\<lparr>steps_run := steps_run c @ [i]\<rparr>
                  in if step_status env f (steps_run c) = SL_STATUS_OK then c else reset_loop env is c)"

text \<open>The loop counter is a \<^verbatim>\<open>uint8_t\<close>.\<close>

definition zwave_controller_on_reset_step_complete :: "controller_env \<Rightarrow> int \<Rightarrow> controller \<Rightarrow> controller" where
  "zwave_controller_on_reset_step_complete env p c =
     (if \<not> reset_ongoing c then c
      else reset_loop env [unat (word_of_int (p + 1) :: u8)..<MAXIMUM_CALLBACK_SUBSCRIBERS] c)"

definition zwave_controller_reset :: "controller_env \<Rightarrow> controller \<Rightarrow> controller" where
  "zwave_controller_reset env c =
     (if \<not> reset_ongoing c then zwave_controller_on_reset_step_complete env (- 1) (c\<lparr>reset_ongoing := True\<rparr>) else c)"

definition zwave_controller_is_reset_ongoing :: "controller \<Rightarrow> bool" where
  "zwave_controller_is_reset_ongoing c = reset_ongoing c"

section \<open>Dispatching events\<close>

definition dispatch_one :: "controller_env \<Rightarrow> controller_event \<Rightarrow> nat option \<Rightarrow> controller \<Rightarrow> controller" where
  "dispatch_one env ev slot c =
     (case slot of None \<Rightarrow> c
      | Some s \<Rightarrow> if implements env s ev then c\<lparr>delivered := delivered c @ [(s, ev)]\<rparr> else c)"

definition ZWAVE_CONTROLLER_DISPATCH_CALLBACKS :: "controller_env \<Rightarrow> controller_event \<Rightarrow> controller \<Rightarrow> controller" where
  "ZWAVE_CONTROLLER_DISPATCH_CALLBACKS env ev c = fold (dispatch_one env ev) (callbacks_array c) c"

definition zwave_controller_on_state_updated :: "controller_env \<Rightarrow> nm_state \<Rightarrow> controller \<Rightarrow> controller" where
  "zwave_controller_on_state_updated env s = ZWAVE_CONTROLLER_DISPATCH_CALLBACKS env (Ev_on_state_updated s)"

definition zwave_controller_on_error :: "controller_env \<Rightarrow> nm_error \<Rightarrow> controller \<Rightarrow> controller" where
  "zwave_controller_on_error env e = ZWAVE_CONTROLLER_DISPATCH_CALLBACKS env (Ev_on_error e)"

text \<open>\<open>busy\<close> is what \<^verbatim>\<open>zwave_network_management_is_busy\<close> returns.\<close>

definition zwave_controller_on_node_id_assigned :: "controller_env \<Rightarrow> bool \<Rightarrow> node_id \<Rightarrow> zwave_protocol \<Rightarrow> controller \<Rightarrow> controller" where
  "zwave_controller_on_node_id_assigned env busy n proto =
     ZWAVE_CONTROLLER_DISPATCH_CALLBACKS env (Ev_on_node_id_assigned n busy proto)"

definition zwave_controller_on_node_deleted :: "controller_env \<Rightarrow> node_id \<Rightarrow> controller \<Rightarrow> controller" where
  "zwave_controller_on_node_deleted env n = ZWAVE_CONTROLLER_DISPATCH_CALLBACKS env (Ev_on_node_deleted n)"

definition zwave_controller_on_node_info_req_failed :: "controller_env \<Rightarrow> node_id \<Rightarrow> controller \<Rightarrow> controller" where
  "zwave_controller_on_node_info_req_failed env n = ZWAVE_CONTROLLER_DISPATCH_CALLBACKS env (Ev_on_node_info_req_failed n)"

definition zwave_controller_on_frame_transmission :: "controller_env \<Rightarrow> bool \<Rightarrow> node_id \<Rightarrow> controller \<Rightarrow> controller" where
  "zwave_controller_on_frame_transmission env successful n =
     ZWAVE_CONTROLLER_DISPATCH_CALLBACKS env (Ev_on_frame_transmission successful n)"

definition zwave_controller_on_node_added ::
  "controller_env \<Rightarrow> sl_status \<Rightarrow> node_info \<Rightarrow> node_id \<Rightarrow> dsk \<Rightarrow> keyset \<Rightarrow> kex_fail_type \<Rightarrow> zwave_protocol \<Rightarrow> controller \<Rightarrow> controller" where
  "zwave_controller_on_node_added env st nif n dsk keys kex proto =
     ZWAVE_CONTROLLER_DISPATCH_CALLBACKS env (Ev_on_node_added st nif n dsk keys kex proto)"

definition zwave_controller_on_network_address_update :: "controller_env \<Rightarrow> u32 \<Rightarrow> node_id \<Rightarrow> controller \<Rightarrow> controller" where
  "zwave_controller_on_network_address_update env home n = ZWAVE_CONTROLLER_DISPATCH_CALLBACKS env (Ev_on_network_address_update home n)"

definition zwave_controller_on_new_network_entered ::
  "controller_env \<Rightarrow> u32 \<Rightarrow> node_id \<Rightarrow> keyset \<Rightarrow> kex_fail_type \<Rightarrow> controller \<Rightarrow> controller" where
  "zwave_controller_on_new_network_entered env home n keys kex =
     ZWAVE_CONTROLLER_DISPATCH_CALLBACKS env (Ev_on_new_network_entered home n keys kex)"

definition zwave_controller_on_keys_report :: "controller_env \<Rightarrow> bool \<Rightarrow> keyset \<Rightarrow> controller \<Rightarrow> controller" where
  "zwave_controller_on_keys_report env csa keys = ZWAVE_CONTROLLER_DISPATCH_CALLBACKS env (Ev_on_keys_report csa keys)"

definition zwave_controller_on_dsk_report :: "controller_env \<Rightarrow> u8 \<Rightarrow> dsk \<Rightarrow> keyset \<Rightarrow> controller \<Rightarrow> controller" where
  "zwave_controller_on_dsk_report env len dsk keys = ZWAVE_CONTROLLER_DISPATCH_CALLBACKS env (Ev_on_dsk_report len dsk keys)"

definition zwave_controller_on_frame_reception :: "controller_env \<Rightarrow> node_id \<Rightarrow> u8 list \<Rightarrow> controller \<Rightarrow> controller" where
  "zwave_controller_on_frame_reception env n frame = ZWAVE_CONTROLLER_DISPATCH_CALLBACKS env (Ev_on_rx_frame_received n frame)"

definition zwave_controller_on_frame_received ::
  "controller_env \<Rightarrow> bool \<Rightarrow> 's transport list \<Rightarrow> connection_info \<Rightarrow> u8 list option \<Rightarrow> controller \<times> 's \<Rightarrow> (controller \<times> 's) option" where
  "zwave_controller_on_frame_received env release ts ci frame cs =
     (case cs of (c, s) \<Rightarrow>
        (case zwave_controller_transport_on_frame_received release ts ci frame s of
           None \<Rightarrow> None
         | Some (rc, s) \<Rightarrow>
             if rc = SL_STATUS_NOT_FOUND
             then Some (ZWAVE_CONTROLLER_DISPATCH_CALLBACKS env (Ev_on_application_frame_received ci (the frame)) c, s)
             else Some (c, s)))"

definition zwave_controller_on_protocol_cc_encryption_request_received ::
  "controller_env \<Rightarrow> node_id \<Rightarrow> u8 list \<Rightarrow> u8 list \<Rightarrow> u8 \<Rightarrow> u8 \<Rightarrow> controller \<Rightarrow> controller" where
  "zwave_controller_on_protocol_cc_encryption_request_received env n payload metadata supervision sid =
     ZWAVE_CONTROLLER_DISPATCH_CALLBACKS env (Ev_on_protocol_cc_encryption_request n payload metadata supervision sid)"

definition zwave_controller_on_smart_start_inclusion_request ::
  "controller_env \<Rightarrow> u32 \<Rightarrow> bool \<Rightarrow> node_info \<Rightarrow> zwave_protocol \<Rightarrow> controller \<Rightarrow> controller" where
  "zwave_controller_on_smart_start_inclusion_request env home included nif proto =
     ZWAVE_CONTROLLER_DISPATCH_CALLBACKS env (Ev_on_smart_start_inclusion_request home included nif proto)"

definition zwave_controller_on_node_information :: "controller_env \<Rightarrow> node_id \<Rightarrow> node_info \<Rightarrow> controller \<Rightarrow> controller" where
  "zwave_controller_on_node_information env n nif = ZWAVE_CONTROLLER_DISPATCH_CALLBACKS env (Ev_on_node_information n nif)"

definition zwave_controller_on_new_suc :: "controller_env \<Rightarrow> node_id \<Rightarrow> controller \<Rightarrow> controller" where
  "zwave_controller_on_new_suc env n = ZWAVE_CONTROLLER_DISPATCH_CALLBACKS env (Ev_on_new_suc n)"

definition zwave_controller_on_multicast_group_deleted :: "controller_env \<Rightarrow> u8 \<Rightarrow> controller \<Rightarrow> controller" where
  "zwave_controller_on_multicast_group_deleted env g = ZWAVE_CONTROLLER_DISPATCH_CALLBACKS env (Ev_on_multicast_group_deleted g)"

definition zwave_controller_on_request_neighbor_update :: "controller_env \<Rightarrow> u8 \<Rightarrow> controller \<Rightarrow> controller" where
  "zwave_controller_on_request_neighbor_update env st = ZWAVE_CONTROLLER_DISPATCH_CALLBACKS env (Ev_on_request_neighbor_update st)"

section \<open>Subscribers\<close>

text \<open>The registered callback structures, in the order in which they are called.\<close>

definition subscribers :: "controller \<Rightarrow> nat list" where
  "subscribers c = List.map_filter id (callbacks_array c)"

datatype subscription = Subscribe nat | Unsubscribe nat

definition subscription_step :: "subscription \<Rightarrow> controller \<Rightarrow> controller" where
  "subscription_step op c =
     (case op of Subscribe s \<Rightarrow> snd (zwave_controller_register_callbacks (Some s) c)
      | Unsubscribe s \<Rightarrow> snd (zwave_controller_deregister_callbacks (Some s) c))"

text \<open>No structure is registered twice.\<close>

definition subscribers_ok :: "controller \<Rightarrow> bool" where
  "subscribers_ok c \<longleftrightarrow> length (callbacks_array c) = MAXIMUM_CALLBACK_SUBSCRIBERS \<and>
     no_two (\<lambda>e e'. e \<noteq> None \<and> e = e') (callbacks_array c)"

lemma subscribers_ok_init: "subscribers_ok (zwave_controller_callbacks_init c)"
  by (simp add: subscribers_ok_def zwave_controller_callbacks_init_def no_two_def)

lemma subscribers_ok_step: "subscribers_ok c \<Longrightarrow> subscribers_ok (subscription_step op c)"
proof (cases op)
  case (Subscribe s)
  assume ok: "subscribers_ok c"
  have "no_two (\<lambda>e e'. e \<noteq> None \<and> e = e') ((callbacks_array c)[i := Some s])" if "Some s \<notin> set (callbacks_array c)" for i
  proof (rule no_two_update)
    fix j assume "j < length (callbacks_array c)"
    then have "callbacks_array c ! j \<in> set (callbacks_array c)" by (rule nth_mem)
    with that show "\<not> (callbacks_array c ! j \<noteq> None \<and> callbacks_array c ! j = Some s)" by auto
  qed (use ok in \<open>auto simp: subscribers_ok_def\<close>)
  then show ?thesis
    using ok Subscribe
    by (auto simp: subscription_step_def zwave_controller_register_callbacks_def subscribers_ok_def split: option.splits)
next
  case (Unsubscribe s)
  assume ok: "subscribers_ok c"
  have "no_two (\<lambda>e e'. e \<noteq> None \<and> e = e') ((callbacks_array c)[i := None])" for i
    using ok by (intro no_two_update) (auto simp: subscribers_ok_def)
  then show ?thesis
    using ok Unsubscribe
    by (auto simp: subscription_step_def zwave_controller_deregister_callbacks_def subscribers_ok_def split: option.splits)
qed

interpretation subscriptions: transition_system "\<lambda>c. \<exists>c0. c = zwave_controller_callbacks_init c0" subscription_step subscribers_ok
  by unfold_locales (auto simp: subscribers_ok_init subscribers_ok_step)

lemma set_map_filter_id: "set (List.map_filter id xs) = {s. Some s \<in> set xs}"
  by (induction xs) (auto simp: map_filter_simps split: option.split)

lemma distinct_map_filter: "no_two (\<lambda>e e'. e \<noteq> None \<and> e = e') xs \<Longrightarrow> distinct (List.map_filter id xs)"
proof (induction xs)
  case (Cons x xs)
  have tail: "no_two (\<lambda>e e'. e \<noteq> None \<and> e = e') xs"
    unfolding no_two_def
  proof (intro allI impI)
    fix i j assume "i < length xs" "j < length xs" "i \<noteq> j"
    then show "\<not> (xs ! i \<noteq> None \<and> xs ! i = xs ! j)"
      using Cons.prems [unfolded no_two_def, rule_format, of "Suc i" "Suc j"] by simp
  qed
  have "x \<notin> set xs" if "x \<noteq> None"
  proof
    assume "x \<in> set xs"
    then obtain j where "j < length xs" "xs ! j = x" by (auto simp: in_set_conv_nth)
    then show False using Cons.prems [unfolded no_two_def, rule_format, of 0 "Suc j"] that by simp
  qed
  with Cons.IH [OF tail] show ?case
    by (cases x) (simp_all add: map_filter_simps set_map_filter_id [unfolded id_def])
qed (simp add: map_filter_simps)

lemma fold_dispatch:
  "delivered (fold (dispatch_one env ev) slots c) =
     delivered c @ map (\<lambda>s. (s, ev)) (filter (\<lambda>s. implements env s ev) (List.map_filter id slots))"
  by (induction slots arbitrary: c) (auto simp: dispatch_one_def map_filter_simps split: option.split)

lemma dispatch_delivers:
  "delivered (ZWAVE_CONTROLLER_DISPATCH_CALLBACKS env ev c) =
     delivered c @ map (\<lambda>s. (s, ev)) (filter (\<lambda>s. implements env s ev) (subscribers c))"
  by (simp add: ZWAVE_CONTROLLER_DISPATCH_CALLBACKS_def fold_dispatch subscribers_def)

text \<open>
  Whatever components subscribed and unsubscribed before, each event is passed to
  every subscribed component that has a function for it exactly once, in the order of the
  slots, and to no other component.
\<close>

theorem event_reaches_each_subscriber_once:
  "let c = fold subscription_step ops (zwave_controller_callbacks_init c0);
       c' = ZWAVE_CONTROLLER_DISPATCH_CALLBACKS env ev c;
       new = drop (length (delivered c)) (delivered c')
   in distinct new \<and>
      set new = {(s, ev) | s. Some s \<in> set (callbacks_array c) \<and> implements env s ev}"
proof -
  let ?c = "fold subscription_step ops (zwave_controller_callbacks_init c0)"
  have "subscribers_ok ?c" by (rule subscriptions.fold_inv) (rule subscribers_ok_init)
  then have d: "distinct (subscribers ?c)" by (simp add: subscribers_ok_def subscribers_def distinct_map_filter)
  have "set (subscribers ?c) = {s. Some s \<in> set (callbacks_array ?c)}"
    by (simp add: subscribers_def set_map_filter_id)
  with d show ?thesis by (auto simp: dispatch_delivers Let_def distinct_map inj_on_def)
qed

section \<open>The steps of a factory reset\<close>

text \<open>The registered steps by priority.\<close>

abbreviation registered :: "controller \<Rightarrow> nat list \<Rightarrow> nat list" where
  "registered c is \<equiv> filter (\<lambda>i. reset_steps c ! i \<noteq> None) is"

lemma reset_loop_steps [simp]: "reset_steps (reset_loop env is c) = reset_steps c"
  by (induction "is" arbitrary: c) (auto simp: Let_def split: option.split)

text \<open>A reset has come up to a step that reports later, or is over.\<close>

definition reset_at :: "controller \<Rightarrow> nat \<Rightarrow> bool" where
  "reset_at c k \<longleftrightarrow> k < MAXIMUM_CALLBACK_SUBSCRIBERS \<and> reset_ongoing c \<and> reset_steps c ! k \<noteq> None \<and>
     steps_run c = registered c [0..<Suc k]"

definition reset_over :: "controller \<Rightarrow> bool" where
  "reset_over c \<longleftrightarrow> \<not> reset_ongoing c \<and> steps_run c = registered c [0..<MAXIMUM_CALLBACK_SUBSCRIBERS]"

lemma reset_loop_progress:
  "j \<le> MAXIMUM_CALLBACK_SUBSCRIBERS \<Longrightarrow> reset_ongoing c \<Longrightarrow> steps_run c = registered c [0..<j] \<Longrightarrow>
   reset_over (reset_loop env [j..<MAXIMUM_CALLBACK_SUBSCRIBERS] c) \<or>
   (\<exists>k \<ge> j. reset_at (reset_loop env [j..<MAXIMUM_CALLBACK_SUBSCRIBERS] c) k)"
proof (induction "MAXIMUM_CALLBACK_SUBSCRIBERS - j" arbitrary: j c)
  case 0
  then show ?case by (simp add: reset_over_def)
next
  case (Suc n)
  then have j: "j < MAXIMUM_CALLBACK_SUBSCRIBERS" and u: "[j..<MAXIMUM_CALLBACK_SUBSCRIBERS] = j # [Suc j..<MAXIMUM_CALLBACK_SUBSCRIBERS]"
    by (simp_all add: upt_conv_Cons)
  show ?case
  proof (cases "reset_steps c ! j")
    case None
    have "reset_over (reset_loop env [Suc j..<MAXIMUM_CALLBACK_SUBSCRIBERS] c) \<or>
        (\<exists>k \<ge> Suc j. reset_at (reset_loop env [Suc j..<MAXIMUM_CALLBACK_SUBSCRIBERS] c) k)"
      using Suc None j by (intro Suc.hyps) simp_all
    moreover have "reset_loop env [j..<MAXIMUM_CALLBACK_SUBSCRIBERS] c = reset_loop env [Suc j..<MAXIMUM_CALLBACK_SUBSCRIBERS] c"
      unfolding u using None by simp
    ultimately show ?thesis by (metis Suc_leD)
  next
    case (Some f)
    let ?c = "c\<lparr>steps_run := steps_run c @ [j]\<rparr>"
    have run: "steps_run ?c = registered ?c [0..<Suc j]" using Suc.prems(3) Some by simp
    show ?thesis
    proof (cases "step_status env f (steps_run ?c) = SL_STATUS_OK")
      case True
      then have "reset_at (reset_loop env [j..<MAXIMUM_CALLBACK_SUBSCRIBERS] c) j"
        unfolding u using Some run j Suc.prems(2) by (simp add: reset_at_def Let_def)
      then show ?thesis by blast
    next
      case False
      have "reset_over (reset_loop env [Suc j..<MAXIMUM_CALLBACK_SUBSCRIBERS] ?c) \<or>
          (\<exists>k \<ge> Suc j. reset_at (reset_loop env [Suc j..<MAXIMUM_CALLBACK_SUBSCRIBERS] ?c) k)"
      proof (rule Suc.hyps(1))
        show "n = MAXIMUM_CALLBACK_SUBSCRIBERS - Suc j" using Suc.hyps(2) by simp
        show "Suc j \<le> MAXIMUM_CALLBACK_SUBSCRIBERS" using j by simp
        show "reset_ongoing ?c" using Suc.prems(2) by simp
      qed (rule run)
      moreover have "reset_loop env [j..<MAXIMUM_CALLBACK_SUBSCRIBERS] c = reset_loop env [Suc j..<MAXIMUM_CALLBACK_SUBSCRIBERS] ?c"
        unfolding u using Some False by (simp add: Let_def)
      ultimately show ?thesis by (metis Suc_leD)
    qed
  qed
qed

text \<open>
  Each step that accepted its start reports its completion with its own priority, \<open>n\<close>
  times; nothing happens any more once the reset is over.
\<close>

fun completions :: "controller_env \<Rightarrow> nat \<Rightarrow> controller \<Rightarrow> controller" where
  "completions env 0 c = c"
| "completions env (Suc n) c =
     completions env n (if reset_ongoing c then zwave_controller_on_reset_step_complete env (int (last (steps_run c))) c else c)"

lemma completion_progress:
  assumes "reset_at c k"
  shows "reset_over (zwave_controller_on_reset_step_complete env (int (last (steps_run c))) c) \<or>
    (\<exists>k' > k. reset_at (zwave_controller_on_reset_step_complete env (int (last (steps_run c))) c) k')"
proof -
  have k: "k < 20" "last (steps_run c) = k" "reset_ongoing c" using assms by (auto simp: reset_at_def)
  have "(word_of_int (int k + 1) :: u8) = of_nat (Suc k)" by simp
  then have "unat (word_of_int (int k + 1) :: u8) = Suc k"
    using k(1) by (simp only: unat_of_nat) simp
  then have e: "zwave_controller_on_reset_step_complete env (int (last (steps_run c))) c = reset_loop env [Suc k..<20] c"
    using k by (simp add: zwave_controller_on_reset_step_complete_def)
  show ?thesis
    unfolding e using reset_loop_progress [of "Suc k" c env] assms by (auto simp: reset_at_def Suc_le_eq)
qed

lemma completions_over: "reset_over c \<Longrightarrow> completions env n c = c"
  by (induction n) (auto simp: reset_over_def)

lemma completions_finish: "reset_at c k \<Longrightarrow> 20 \<le> n + k \<Longrightarrow> reset_over (completions env n c)"
proof (induction n arbitrary: c k)
  case 0
  then show ?case by (simp add: reset_at_def)
next
  case (Suc n)
  let ?c = "zwave_controller_on_reset_step_complete env (int (last (steps_run c))) c"
  have "completions env (Suc n) c = completions env n ?c" using Suc.prems(1) by (simp add: reset_at_def)
  moreover have "reset_over (completions env n ?c)"
    using completion_progress [OF Suc.prems(1), of env]
  proof (elim disjE exE conjE)
    fix k' assume "k < k'" "reset_at ?c k'"
    then show ?thesis using Suc.IH [of ?c k'] Suc.prems(2) by simp
  qed (simp add: completions_over)
  ultimately show ?case by simp
qed

text \<open>
  C30. A factory reset runs every registered step exactly once, in ascending order of
  priority, and ends: whichever steps fail to start, when every started step reports its
  completion the reset is over after at most twenty reports.
\<close>

theorem reset_runs_every_step_once:
  assumes "\<not> reset_ongoing c" and "steps_run c = []"
  shows "\<not> reset_ongoing (completions env MAXIMUM_CALLBACK_SUBSCRIBERS (zwave_controller_reset env c)) \<and>
         steps_run (completions env MAXIMUM_CALLBACK_SUBSCRIBERS (zwave_controller_reset env c)) =
           filter (\<lambda>i. reset_steps c ! i \<noteq> None) [0..<MAXIMUM_CALLBACK_SUBSCRIBERS]"
proof -
  let ?c = "c\<lparr>reset_ongoing := True\<rparr>"
  have r: "zwave_controller_reset env c = reset_loop env [0..<20] ?c"
    using assms(1) by (simp add: zwave_controller_reset_def zwave_controller_on_reset_step_complete_def)
  have s: "reset_steps (completions env n d) = reset_steps d" for n d
    by (induction n arbitrary: d) (simp_all add: zwave_controller_on_reset_step_complete_def)
  have "reset_over (reset_loop env [0..<20] ?c) \<or> (\<exists>k \<ge> 0. reset_at (reset_loop env [0..<20] ?c) k)"
    by (rule reset_loop_progress) (use assms(2) in simp_all)
  then have "reset_over (completions env 20 (zwave_controller_reset env c))"
    unfolding r using completions_over completions_finish [of "reset_loop env [0..<20] ?c" _ 20 env] by fastforce
  then show ?thesis unfolding reset_over_def s r by simp
qed

section \<open>Received frames\<close>

text \<open>
  A received frame of a registered encapsulation goes to its transport alone: the
  transport that registered the command class is called, whichever slot it is in, and the
  subscribed components get the frame only if that transport passes it on.
\<close>

theorem encapsulated_frame_goes_to_its_transport:
  assumes "transports_ok ts" and "i < NUMBER_OF_TRANSPORTS" and "transport_class (ts ! i) = ucast b" and "b \<noteq> 0"
    and "transport_on_frame_received (ts ! i) = Some f" and "f ci (b # frame) s = (rc, s')"
  shows "\<exists>c'. zwave_controller_on_frame_received env release ts ci (Some (b # frame)) (c, s) = Some (c', s') \<and>
           delivered c' = delivered c @
             (if rc = SL_STATUS_NOT_FOUND
              then map (\<lambda>u. (u, Ev_on_application_frame_received ci (b # frame)))
                     (filter (\<lambda>u. implements env u (Ev_on_application_frame_received ci (b # frame))) (subscribers c))
              else [])"
proof -
  have nz: "(ucast b :: u16) \<noteq> 0"
    using assms(4) by transfer (simp add: take_bit_take_bit)
  have "get_transport_by_class ts (ucast b) = Some (ts ! i)"
    using find_same_class [OF assms(1), of i] assms(1,2,3) nz by (simp add: transports_ok_def)
  then have "zwave_controller_transport_on_frame_received release ts ci (Some (b # frame)) s = Some (rc, s')"
    using assms(5,6) by (simp add: zwave_controller_transport_on_frame_received_def)
  then show ?thesis by (simp add: zwave_controller_on_frame_received_def dispatch_delivers)
qed

section \<open>Examples\<close>

definition sample_controller :: controller where
  "sample_controller = \<lparr>callbacks_array = replicate 20 None, reset_steps = (replicate 20 None)[2 := Some 7, 5 := Some 8],
     reset_ongoing = False, delivered = [], steps_run = []\<rparr>"

definition sample_controller_env :: controller_env where
  "sample_controller_env = \<lparr>implements = (\<lambda>_ _. True), step_status = (\<lambda>f _. if f = 7 then 0 else 1)\<rparr>"

theorem reset_runs_every_step_once_witness:
  "\<not> reset_ongoing (completions sample_controller_env 20 (zwave_controller_reset sample_controller_env sample_controller)) \<and>
   steps_run (completions sample_controller_env 20 (zwave_controller_reset sample_controller_env sample_controller)) = [2, 5]"
proof -
  have "filter (\<lambda>i. reset_steps sample_controller ! i \<noteq> None) [0..<20] = [2, 5]"
    by (simp add: sample_controller_def upt_rec nth_list_update)
  then show ?thesis
    using reset_runs_every_step_once [of sample_controller sample_controller_env] by (simp add: sample_controller_def)
qed

text \<open>The transports of the example above, where Multi Channel consumes what it receives.\<close>

definition receiving_transports :: "nat transport list" where
  "receiving_transports = snd (zwave_controller_transport_register
     ((sample_transport 5 0x60 SL_STATUS_NOT_SUPPORTED)\<lparr>transport_on_frame_received := Some (\<lambda>ci frame n. (SL_STATUS_OK, Suc n))\<rparr>)
     zwave_controller_transport_init)"

theorem encapsulated_frame_goes_to_its_transport_witness:
  "\<exists>c'. zwave_controller_on_frame_received sample_controller_env True receiving_transports access_frame (Some [0x60, 0x0D]) (sample_controller, 0) =
          Some (c', 1) \<and> delivered c' = []"
proof -
  have ok: "transports_ok receiving_transports"
    unfolding receiving_transports_def by (rule transports_ok_register) (rule transports_ok_init)
  have t: "receiving_transports ! 5 = (sample_transport 5 0x60 SL_STATUS_NOT_SUPPORTED)
      \<lparr>transport_on_frame_received := Some (\<lambda>ci frame n. (SL_STATUS_OK, Suc n))\<rparr>"
    by (simp add: receiving_transports_def zwave_controller_transport_init_def zwave_controller_transport_register_def
        sample_transport_def no_transport_def list_ex_iff)
  show ?thesis
    using encapsulated_frame_goes_to_its_transport [OF ok, of 5 "0x60" _ access_frame "[0x0D]" 0 0 1 sample_controller_env True sample_controller]
    by (simp add: t sample_transport_def no_transport_def sample_controller_def)
qed

end
