(* ===== verification/S2_Nonces.thy ===== *)
theory S2_Nonces
  imports Node_Mask
begin

text \<open>
  The tables of pre-agreed nonces of Security 2, \<^verbatim>\<open>zwave_s2_nonce_management.c\<close>: reading,
  writing and resetting the entries of the single-cast (SPAN) and multicast (MPAN) tables of
  the S2 library, with which the nonces survive a restart. Both are tables of slots, and
  the lemmas show that an entry that was written is what is read back.
\<close>

section \<open>Data\<close>

datatype span_state =
  SPAN_NOT_USED | SPAN_NO_SEQ | SPAN_SOS | SPAN_SOS_LOCAL_NONCE | SPAN_SOS_REMOTE_NONCE | SPAN_INSTANTIATE | SPAN_NEGOTIATED

datatype mpan_state = MPAN_NOT_USED | MPAN_SET | MPAN_MOS

text \<open>An entry of the SPAN table; of the union \<open>d\<close> the random number generator.\<close>

record span =
  rng_df :: u8
  rng_k :: "u8 list"
  rng_v :: "u8 list"
  lnode :: node_id
  rnode :: node_id
  rx_seq :: u8
  tx_seq :: u8
  span_class_id :: u8
  span_state :: span_state

record span_entry =
  df :: u8
  working_state :: "u8 list"
  key :: "u8 list"
  rx_sequence :: u8
  tx_sequence :: u8
  entry_class_id :: u8

record mpan =
  owner_id :: node_id
  mpan_group_id :: u8
  mpan_inner_state :: "u8 list"
  mpan_class_id :: u8
  mpan_state :: mpan_state

record mpan_entry =
  inner_state :: "u8 list"
  owner_node_id :: node_id
  entry_group_id :: u8
  mentry_class_id :: u8

abbreviation (input) CTR_DRBG_KEY_LENGTH :: nat where "CTR_DRBG_KEY_LENGTH \<equiv> 16"
abbreviation (input) CTR_DRBG_INTERNAL_STATE_LENGTH :: nat where "CTR_DRBG_INTERNAL_STATE_LENGTH \<equiv> 16"
abbreviation (input) MPAN_INNER_STATE_LENGTH :: nat where "MPAN_INNER_STATE_LENGTH \<equiv> 16"

section \<open>Operations\<close>

text \<open>\<open>zpc\<close> is what \<^verbatim>\<open>zwave_network_management_get_node_id\<close> returns.\<close>

definition zwave_s2_configure_span_table_entry :: "node_id \<Rightarrow> span_entry \<Rightarrow> node_id \<Rightarrow> span \<Rightarrow> span" where
  "zwave_s2_configure_span_table_entry zpc d n e =
     e\<lparr>rng_df := df d, rng_k := memcpy (rng_k e) (key d) CTR_DRBG_KEY_LENGTH,
       rng_v := memcpy (rng_v e) (working_state d) CTR_DRBG_INTERNAL_STATE_LENGTH,
       rx_seq := rx_sequence d, tx_seq := tx_sequence d, lnode := zpc, rnode := n,
       span_class_id := entry_class_id d, span_state := SPAN_NEGOTIATED\<rparr>"

definition zwave_s2_configure_mpan_table_entry :: "mpan_entry \<Rightarrow> node_id \<Rightarrow> mpan \<Rightarrow> mpan" where
  "zwave_s2_configure_mpan_table_entry d owner e =
     e\<lparr>mpan_class_id := mentry_class_id d, mpan_group_id := entry_group_id d, owner_id := owner, mpan_state := MPAN_SET,
       mpan_inner_state := memcpy (mpan_inner_state e) (inner_state d) MPAN_INNER_STATE_LENGTH\<rparr>"

definition read_span :: "span \<Rightarrow> span_entry \<Rightarrow> span_entry" where
  "read_span e d =
     d\<lparr>df := rng_df e, key := memcpy (key d) (rng_k e) CTR_DRBG_KEY_LENGTH,
       working_state := memcpy (working_state d) (rng_v e) CTR_DRBG_INTERNAL_STATE_LENGTH,
       rx_sequence := rx_seq e, tx_sequence := tx_seq e, entry_class_id := span_class_id e\<rparr>"

definition zwave_s2_get_span_data :: "span list \<Rightarrow> node_id \<Rightarrow> span_entry \<Rightarrow> sl_status \<times> span_entry" where
  "zwave_s2_get_span_data t n d =
     (case first_index (\<lambda>e. span_state e = SPAN_NEGOTIATED \<and> rnode e = n) t of
        Some i \<Rightarrow> (SL_STATUS_OK, read_span (t ! i) d)
      | None \<Rightarrow> (SL_STATUS_NOT_FOUND, d))"

definition zwave_s2_reset_span :: "node_id \<Rightarrow> span list \<Rightarrow> span list" where
  "zwave_s2_reset_span n t =
     (case first_index (\<lambda>e. rnode e = n) t of
        Some i \<Rightarrow> t[i := (t ! i)\<lparr>span_state := SPAN_NOT_USED\<rparr>]
      | None \<Rightarrow> t)"

definition zwave_s2_reset_mpan :: "node_id \<Rightarrow> u8 \<Rightarrow> mpan list \<Rightarrow> mpan list" where
  "zwave_s2_reset_mpan owner g t =
     (case first_index (\<lambda>e. owner_id e = owner \<and> mpan_group_id e = g) t of
        Some i \<Rightarrow> t[i := (t ! i)\<lparr>mpan_state := MPAN_NOT_USED\<rparr>]
      | None \<Rightarrow> t)"

definition zwave_s2_set_span_table :: "node_id \<Rightarrow> node_id \<Rightarrow> span_entry \<Rightarrow> span list \<Rightarrow> span list" where
  "zwave_s2_set_span_table zpc n d t =
     slot_store (\<lambda>e. rnode e = n) (\<lambda>e. span_state e = SPAN_NOT_USED) (zwave_s2_configure_span_table_entry zpc d n) t"

definition read_mpan :: "mpan \<Rightarrow> mpan_entry \<Rightarrow> mpan_entry" where
  "read_mpan e d =
     d\<lparr>mentry_class_id := mpan_class_id e, entry_group_id := mpan_group_id e, owner_node_id := owner_id e,
       inner_state := memcpy (inner_state d) (mpan_inner_state e) MPAN_INNER_STATE_LENGTH\<rparr>"

definition zwave_s2_get_mpan_data :: "mpan list \<Rightarrow> node_id \<Rightarrow> u8 \<Rightarrow> mpan_entry \<Rightarrow> sl_status \<times> mpan_entry" where
  "zwave_s2_get_mpan_data t owner g d =
     (case first_index (\<lambda>e. mpan_state e = MPAN_SET \<and> mpan_group_id e = g \<and> owner_id e = owner) t of
        Some i \<Rightarrow> (SL_STATUS_OK, read_mpan (t ! i) d)
      | None \<Rightarrow> (SL_STATUS_NOT_FOUND, d))"

definition zwave_s2_set_mpan_data :: "node_id \<Rightarrow> u8 \<Rightarrow> mpan_entry \<Rightarrow> mpan list \<Rightarrow> mpan list" where
  "zwave_s2_set_mpan_data owner g d t =
     slot_store (\<lambda>e. mpan_group_id e = g \<and> owner_id e = owner) (\<lambda>e. mpan_state e = MPAN_NOT_USED)
       (zwave_s2_configure_mpan_table_entry d owner) t"

section \<open>The tables as slot tables\<close>

text \<open>The buffers of an entry hold 16 bytes.\<close>

definition span_entry_ok :: "span_entry \<Rightarrow> bool" where
  "span_entry_ok d \<longleftrightarrow> length (key d) = CTR_DRBG_KEY_LENGTH \<and> length (working_state d) = CTR_DRBG_INTERNAL_STATE_LENGTH"

definition mpan_entry_ok :: "mpan_entry \<Rightarrow> bool" where
  "mpan_entry_ok d \<longleftrightarrow> length (inner_state d) = MPAN_INNER_STATE_LENGTH"

definition span_buffer :: span_entry where
  "span_buffer = \<lparr>df = 0, working_state = replicate 16 0, key = replicate 16 0, rx_sequence = 0, tx_sequence = 0, entry_class_id = 0\<rparr>"

definition mpan_buffer :: mpan_entry where
  "mpan_buffer = \<lparr>inner_state = replicate 16 0, owner_node_id = 0, entry_group_id = 0, mentry_class_id = 0\<rparr>"

lemma memcpy_16: "length a = 16 \<Longrightarrow> memcpy a b 16 = take 16 b"
  by (simp add: memcpy_def)

lemma read_span_buffer: "span_entry_ok d \<Longrightarrow> read_span e d = read_span e span_buffer"
  by (cases d) (simp add: read_span_def span_buffer_def span_entry_ok_def memcpy_16)

lemma read_mpan_buffer: "mpan_entry_ok d \<Longrightarrow> read_mpan e d = read_mpan e mpan_buffer"
  by (cases d) (simp add: read_mpan_def mpan_buffer_def mpan_entry_ok_def memcpy_16)

interpretation spans: slot_table "\<lambda>n e. rnode e = n" "\<lambda>e. span_state e = SPAN_NEGOTIATED" "\<lambda>e. span_state e = SPAN_NOT_USED"
  "\<lambda>n d. span_entry_ok d" "\<lambda>n d. zwave_s2_configure_span_table_entry zpc d n" "\<lambda>e. read_span e span_buffer" for zpc
  by unfold_locales
     (auto simp: zwave_s2_configure_span_table_entry_def read_span_def span_entry_ok_def span_buffer_def memcpy_16 memcpy_def)

interpretation mpans: slot_table "\<lambda>(owner, g) e. mpan_group_id e = g \<and> owner_id e = owner" "\<lambda>e. mpan_state e = MPAN_SET"
  "\<lambda>e. mpan_state e = MPAN_NOT_USED" "\<lambda>(owner, g) d. mpan_entry_ok d \<and> owner_node_id d = owner \<and> entry_group_id d = g"
  "\<lambda>(owner, g) d. zwave_s2_configure_mpan_table_entry d owner" "\<lambda>e. read_mpan e mpan_buffer"
  by unfold_locales
     (auto simp: zwave_s2_configure_mpan_table_entry_def read_mpan_def mpan_entry_ok_def mpan_buffer_def memcpy_16 memcpy_def)

lemma get_span_lookup:
  "span_entry_ok d \<Longrightarrow> zwave_s2_get_span_data t n d =
     (case spans.lookup n t of Some v \<Rightarrow> (SL_STATUS_OK, v) | None \<Rightarrow> (SL_STATUS_NOT_FOUND, d))"
  by (simp add: zwave_s2_get_span_data_def spans.lookup_def read_span_buffer [of d] split: option.split)

lemma get_mpan_lookup:
  "mpan_entry_ok d \<Longrightarrow> zwave_s2_get_mpan_data t owner g d =
     (case mpans.lookup (owner, g) t of Some v \<Rightarrow> (SL_STATUS_OK, v) | None \<Rightarrow> (SL_STATUS_NOT_FOUND, d))"
  by (simp add: zwave_s2_get_mpan_data_def mpans.lookup_def read_mpan_buffer [of d] split: option.split)

section \<open>Properties\<close>

text \<open>
  A SPAN that is written to the table is what is read back for its node, as long as
  the table has an entry of the node or a free one, and the SPANs of all other nodes are
  kept: the nonces that were saved are the nonces after a restart.
\<close>

theorem span_table_roundtrip:
  assumes "list_ex (\<lambda>e. rnode e = n \<or> span_state e = SPAN_NOT_USED) t" and "span_entry_ok d" and "span_entry_ok d'"
  shows "zwave_s2_get_span_data (zwave_s2_set_span_table zpc n d t) n d' = (SL_STATUS_OK, d) \<and>
         (m \<noteq> n \<longrightarrow> zwave_s2_get_span_data (zwave_s2_set_span_table zpc n d t) m d' = zwave_s2_get_span_data t m d')"
proof -
  have "spans.room n t" using assms(1) by (auto simp: spans.room_def list_ex_iff)
  then show ?thesis
    using spans.lookup_store [of n t d zpc] spans.lookup_store_other [of d m n zpc t] assms(2,3)
    by (simp add: get_span_lookup zwave_s2_set_span_table_def)
qed

text \<open>
  The same for multicast: an MPAN that is written under its own group and owner is
  read back, and the other groups are kept.
\<close>

theorem mpan_table_roundtrip:
  assumes "list_ex (\<lambda>e. (mpan_group_id e = g \<and> owner_id e = owner) \<or> mpan_state e = MPAN_NOT_USED) t"
    and "mpan_entry_ok d" and "owner_node_id d = owner" and "entry_group_id d = g" and "mpan_entry_ok d'"
  shows "zwave_s2_get_mpan_data (zwave_s2_set_mpan_data owner g d t) owner g d' = (SL_STATUS_OK, d) \<and>
         ((owner', g') \<noteq> (owner, g) \<longrightarrow>
            zwave_s2_get_mpan_data (zwave_s2_set_mpan_data owner g d t) owner' g' d' = zwave_s2_get_mpan_data t owner' g' d')"
proof -
  have "mpans.room (owner, g) t" using assms(1) by (auto simp: mpans.room_def list_ex_iff)
  then show ?thesis
    using mpans.lookup_store [of "(owner, g)" t d] mpans.lookup_store_other [of "(owner, g)" d "(owner', g')" t] assms(2-5)
    by (simp add: get_mpan_lookup zwave_s2_set_mpan_data_def)
qed

text \<open>
  After a SPAN is reset, none is found for the node, if the table had at most one
  entry of it, and the SPANs of all other nodes are kept.
\<close>

theorem span_reset_forgets:
  assumes "no_two (\<lambda>e e'. rnode e = n \<and> rnode e' = n) t"
  shows "fst (zwave_s2_get_span_data (zwave_s2_reset_span n t) n d) = SL_STATUS_NOT_FOUND \<and>
         (m \<noteq> n \<longrightarrow> zwave_s2_get_span_data (zwave_s2_reset_span n t) m d = zwave_s2_get_span_data t m d)"
proof (cases "first_index (\<lambda>e. rnode e = n) t")
  case None
  then have "first_index (\<lambda>e. span_state e = SPAN_NEGOTIATED \<and> rnode e = n) t = None" by (simp add: first_index_None)
  with None show ?thesis by (simp add: zwave_s2_reset_span_def zwave_s2_get_span_data_def)
next
  case (Some i)
  let ?t = "t[i := (t ! i)\<lparr>span_state := SPAN_NOT_USED\<rparr>]"
  have i: "i < length t" "rnode (t ! i) = n" using first_index_SomeD [OF Some] by auto
  have "\<not> (span_state e = SPAN_NEGOTIATED \<and> rnode e = n)" if e: "e \<in> set ?t" for e
  proof -
    obtain j where j: "j < length ?t" "?t ! j = e" using e unfolding in_set_conv_nth by blast
    show ?thesis
    proof (cases "j = i")
      case False
      then have "rnode e \<noteq> n" using j i no_twoD [OF assms, of j i] by auto
      then show ?thesis by simp
    qed (use i j in auto)
  qed
  then have "first_index (\<lambda>e. span_state e = SPAN_NEGOTIATED \<and> rnode e = n) ?t = None" by (auto simp: first_index_None)
  moreover have "first_index (\<lambda>e. span_state e = SPAN_NEGOTIATED \<and> rnode e = m) ?t =
      first_index (\<lambda>e. span_state e = SPAN_NEGOTIATED \<and> rnode e = m) t" if "m \<noteq> n"
    using that i by (intro first_index_update) auto
  moreover have "?t ! j = t ! j" if "first_index (\<lambda>e. span_state e = SPAN_NEGOTIATED \<and> rnode e = m) t = Some j" "m \<noteq> n" for j
    using that i first_index_SomeD by (cases "j = i") auto
  ultimately show ?thesis
    using Some by (auto simp: zwave_s2_reset_span_def zwave_s2_get_span_data_def split: option.split)
qed

section \<open>Examples\<close>

definition free_span :: span where
  "free_span = \<lparr>rng_df = 0, rng_k = replicate 16 0, rng_v = replicate 16 0, lnode = 0, rnode = 0, rx_seq = 0, tx_seq = 0,
     span_class_id = 0, span_state = SPAN_NOT_USED\<rparr>"

definition free_mpan :: mpan where
  "free_mpan = \<lparr>owner_id = 0, mpan_group_id = 0, mpan_inner_state = replicate 16 0, mpan_class_id = 0, mpan_state = MPAN_NOT_USED\<rparr>"

definition sample_span :: span_entry where
  "sample_span = \<lparr>df = 1, working_state = replicate 16 7, key = replicate 16 9, rx_sequence = 3, tx_sequence = 4, entry_class_id = 2\<rparr>"

definition sample_mpan :: mpan_entry where
  "sample_mpan = \<lparr>inner_state = replicate 16 7, owner_node_id = 0, entry_group_id = 3, mentry_class_id = 2\<rparr>"

lemma sample_ok: "span_entry_ok sample_span" "span_entry_ok span_buffer" "mpan_entry_ok sample_mpan" "mpan_entry_ok mpan_buffer"
  by (simp_all add: span_entry_ok_def mpan_entry_ok_def sample_span_def sample_mpan_def span_buffer_def mpan_buffer_def)

lemma free_room:
  "list_ex (\<lambda>e. rnode e = n \<or> span_state e = SPAN_NOT_USED) (replicate 10 free_span)"
  "list_ex (\<lambda>e. (mpan_group_id e = g \<and> owner_id e = owner) \<or> mpan_state e = MPAN_NOT_USED) (replicate 10 free_mpan)"
  by (simp_all add: list_ex_iff free_span_def free_mpan_def)

theorem span_table_roundtrip_witness:
  "zwave_s2_get_span_data (zwave_s2_set_span_table 1 5 sample_span (replicate 10 free_span)) 5 span_buffer = (SL_STATUS_OK, sample_span) \<and>
   zwave_s2_get_span_data (zwave_s2_set_span_table 1 5 sample_span (replicate 10 free_span)) 6 span_buffer =
     zwave_s2_get_span_data (replicate 10 free_span) 6 span_buffer"
  using span_table_roundtrip [OF free_room(1) sample_ok(1,2), of 1 5 6] by simp

theorem mpan_table_roundtrip_witness:
  "zwave_s2_get_mpan_data (zwave_s2_set_mpan_data 0 3 sample_mpan (replicate 10 free_mpan)) 0 3 mpan_buffer = (SL_STATUS_OK, sample_mpan)"
  using mpan_table_roundtrip [OF free_room(2) sample_ok(3) _ _ sample_ok(4), of 0 3] by (simp add: sample_mpan_def)

theorem span_reset_forgets_witness:
  "fst (zwave_s2_get_span_data (zwave_s2_reset_span 5 [free_span\<lparr>rnode := 5, span_state := SPAN_NEGOTIATED\<rparr>, free_span]) 5 span_buffer) =
     SL_STATUS_NOT_FOUND"
proof -
  have "no_two (\<lambda>e e'. rnode e = 5 \<and> rnode e' = 5) [free_span\<lparr>rnode := 5, span_state := SPAN_NEGOTIATED\<rparr>, free_span]"
    by (auto simp: no_two_def free_span_def less_Suc_eq)
  from span_reset_forgets [OF this, of span_buffer 5] show ?thesis by blast
qed

end
