(* ===== verification/Crc16.thy ===== *)
theory Crc16
  imports Zpc_Prelude
begin

text \<open>
  The checksum of \<^verbatim>\<open>components/crc16_ccitt/include/zwave_crc16.h\<close>, the CRC-16 CCITT with
  polynomial 0x1021 computed bit by bit. The lemmas relate it to the shift register it stands
  for and show what its users rely on: data followed by its checksum has checksum 0, and
  changing one byte changes the checksum.
\<close>

section \<open>The checksum\<close>

abbreviation (input) CRC16_INIT_VALUE :: u16 where "CRC16_INIT_VALUE \<equiv> 0x1D0F"
abbreviation (input) CRC16_POLY :: u16 where "CRC16_POLY \<equiv> 0x1021"

definition crc16_bit :: "u8 \<Rightarrow> u8 \<Rightarrow> u16 \<Rightarrow> u16" where
  "crc16_bit work_data bit_mask crc16 =
     (let new_bit = ((work_data AND bit_mask \<noteq> 0) \<noteq> (crc16 AND 0x8000 \<noteq> 0));
          crc16 = push_bit 1 crc16
      in if new_bit then crc16 XOR CRC16_POLY else crc16)"

lemma unat_drop_bit_less: "(m :: u8) \<noteq> 0 \<Longrightarrow> unat (drop_bit 1 m) < unat m"
proof -
  assume "m \<noteq> 0"
  then have "0 < unat m" by (simp add: unat_gt_0)
  moreover have "unat (drop_bit 1 m) = unat m div 2" by (subst unat_drop_bit_eq) (simp add: drop_bit_Suc)
  ultimately show ?thesis by simp
qed

function crc16_byte :: "u8 \<Rightarrow> u8 \<Rightarrow> u16 \<Rightarrow> u16" where
  "crc16_byte work_data bit_mask crc16 =
     (if bit_mask = 0 then crc16
      else crc16_byte work_data (drop_bit 1 bit_mask) (crc16_bit work_data bit_mask crc16))"
  by pat_completeness auto
termination by (relation "measure (\<lambda>(w, m, c). unat m)") (use unat_drop_bit_less in auto)

declare crc16_byte.simps [simp del]

fun zwave_crc16 :: "u16 \<Rightarrow> u8 list \<Rightarrow> u16" where
  "zwave_crc16 crc16 [] = crc16"
| "zwave_crc16 crc16 (b # bs) = zwave_crc16 (crc16_byte b 0x80 crc16) bs"

lemma zwave_crc16_append: "zwave_crc16 c (xs @ ys) = zwave_crc16 (zwave_crc16 c xs) ys"
  by (induction xs arbitrary: c) auto

section \<open>The shift register\<close>

text \<open>One step of division by the polynomial, without message bits.\<close>

definition crc16_shift :: "u16 \<Rightarrow> u16" where
  "crc16_shift c = (if bit c 15 then push_bit 1 c XOR CRC16_POLY else push_bit 1 c)"

lemma bit_double_u16: "bit (c * 2 :: u16) n \<longleftrightarrow> n \<noteq> 0 \<and> n < 16 \<and> bit c (n - 1)"
proof -
  have "bit (push_bit 1 c) n \<longleftrightarrow> n \<noteq> 0 \<and> n < 16 \<and> bit c (n - 1)" unfolding bit_push_bit_iff by auto
  then show ?thesis by simp
qed

definition in_register :: "nat \<Rightarrow> u8 \<Rightarrow> u16" where
  "in_register k w = push_bit (8 + k) (ucast w)"

lemma bit_in_register: "bit (in_register k w) n \<longleftrightarrow> n < 16 \<and> 8 + k \<le> n \<and> bit w (n - (8 + k))"
  by (auto simp: in_register_def bit_simps dest: bit_imp_le_length)

lemma and_power_ne_0: "((x :: 'a::len word) AND push_bit n 1 \<noteq> 0) = bit x n"
  by (auto simp: bit_iff_odd_drop_bit and_exp_eq_0_iff_not_bit push_bit_eq_mult)

lemma in_register_Suc: "in_register (Suc k) w = push_bit 1 (in_register k w)"
  by (simp add: in_register_def)

lemma crc16_bit_shift:
  assumes "k < 8"
  shows "crc16_bit w (push_bit (7 - k) 1) c XOR in_register (Suc k) w = crc16_shift (c XOR in_register k w)"
proof -
  have m: "(0x8000 :: u16) = push_bit 15 1" by simp
  have n: "bit (c XOR in_register k w) 15 \<longleftrightarrow> (bit w (7 - k) \<noteq> bit c 15)"
    using assms by (auto simp: bit_simps bit_in_register)
  show ?thesis
    unfolding crc16_bit_def crc16_shift_def Let_def m and_power_ne_0 n in_register_Suc push_bit_xor
    by (simp add: ac_simps)
qed

lemma crc16_byte_shift:
  assumes "k \<le> 8"
  shows "crc16_byte w (drop_bit k 0x80) c = (crc16_shift ^^ (8 - k)) (c XOR in_register k w)"
  using assms
proof (induction "8 - k" arbitrary: k c)
  case 0
  then have "k = 8" by simp
  moreover have "in_register 8 w = 0" by (rule bit_word_eqI) (simp add: bit_in_register)
  ultimately show ?case by (simp add: crc16_byte.simps drop_bit_eq_div)
next
  case (Suc j)
  then have k: "k < 8" "j = 8 - Suc k" "8 - k = Suc (8 - Suc k)" by auto
  have d: "drop_bit k (0x80 :: u8) = push_bit (7 - k) 1"
  proof -
    have e: "(0x80 :: u8) = push_bit 7 1" by simp
    show ?thesis unfolding e using k(1)
      by (intro bit_word_eqI) (auto simp: bit_push_bit_iff bit_drop_bit_eq bit_1_iff simp del: push_bit_of_1)
  qed
  moreover have "push_bit (7 - k) (1 :: u8) \<noteq> 0"
  proof -
    have "bit (push_bit (7 - k) (1 :: u8)) (7 - k)" using k(1) by (simp add: bit_push_bit_iff bit_1_iff del: push_bit_of_1)
    then show ?thesis by (auto simp del: push_bit_of_1)
  qed
  moreover have "drop_bit (Suc k) (0x80 :: u8) = drop_bit 1 (drop_bit k 0x80)" by (simp only: drop_bit_drop_bit) simp
  ultimately have "crc16_byte w (drop_bit k 0x80) c = crc16_byte w (drop_bit (Suc k) 0x80) (crc16_bit w (push_bit (7 - k) 1) c)"
    by (simp only: crc16_byte.simps [of w "push_bit (7 - k) 1"] if_False)
  then show ?case
    using Suc.hyps(1) [of "Suc k"] k crc16_bit_shift [OF k(1)] by (simp add: funpow_Suc_right del: funpow.simps)
qed


theorem crc16_byte_is_shift_register: "crc16_byte w 0x80 c = (crc16_shift ^^ 8) (c XOR push_bit 8 (ucast w))"
  using crc16_byte_shift [of 0 w c] by (simp add: in_register_def)

lemma xor_left_cancel: "(a XOR b :: u16) = a XOR c \<longleftrightarrow> b = c"
  by (metis xor.assoc xor.left_neutral xor_self_eq)

lemma xor_right_cancel: "(b XOR a :: u16) = c XOR a \<longleftrightarrow> b = c"
  by (metis xor.commute xor_left_cancel)

lemma crc16_shift_inj: "crc16_shift a = crc16_shift b \<Longrightarrow> a = b"
proof -
  assume e: "crc16_shift a = crc16_shift b"
  have low: "bit (crc16_shift c) 0 = bit c 15" for c
    by (auto simp: crc16_shift_def bit_simps bit_double_u16)
  have b15: "bit a 15 = bit b 15" using low [of a] low [of b] e by simp
  have s: "push_bit 1 a = push_bit 1 b"
    using e b15 by (auto simp: crc16_shift_def xor_right_cancel split: if_splits)
  show "a = b"
  proof (rule bit_word_eqI)
    fix n assume n: "n < LENGTH(16)"
    have "bit (push_bit 1 a) (Suc n) = bit (push_bit 1 b) (Suc n)" by (simp only: s)
    then show "bit a n = bit b n" using n b15 by (cases "n = 15") (auto simp: bit_double_u16)
  qed
qed

lemma crc16_shifts_inj: "(crc16_shift ^^ n) a = (crc16_shift ^^ n) b \<Longrightarrow> a = b"
  by (induction n) (auto dest: crc16_shift_inj)

lemma crc16_shifts_low:
  assumes "\<And>i. 16 - n \<le> i \<Longrightarrow> \<not> bit c i" and "n \<le> 16"
  shows "(crc16_shift ^^ n) c = push_bit n c"
  using assms
proof (induction n arbitrary: c)
  case (Suc n)
  have "crc16_shift c = push_bit 1 c" using Suc.prems by (simp add: crc16_shift_def)
  moreover have "\<And>i. 16 - n \<le> i \<Longrightarrow> \<not> bit (push_bit 1 c) i"
    using Suc.prems by (auto simp: bit_double_u16)
  ultimately show ?case
    using Suc.IH [of "push_bit 1 c"] Suc.prems(2) by (simp add: funpow_Suc_right del: funpow.simps)
qed simp

lemma crc16_byte_inj: "crc16_byte w 0x80 a = crc16_byte w 0x80 b \<Longrightarrow> a = b"
  by (metis crc16_byte_is_shift_register crc16_shifts_inj xor.commute xor_left_cancel)

section \<open>What the users of the checksum rely on\<close>

text \<open>The two bytes of a checksum as they are sent.\<close>

definition crc16_bytes :: "u16 \<Rightarrow> u8 list" where
  "crc16_bytes c = [ucast (drop_bit 8 c AND 0xff), ucast (c AND 0xff)]"

lemma crc16_bytes_residue: "zwave_crc16 c (crc16_bytes c) = 0"
proof -
  have ff: "(0xff :: u16) = mask 8" by (simp add: mask_eq_exp_minus_1)
  let ?d = "c XOR push_bit 8 (ucast (ucast (drop_bit 8 c AND 0xff) :: u8))"
  have d: "bit ?d i \<longleftrightarrow> i < 8 \<and> bit c i" for i
    unfolding ff by (cases "i < 8") (auto simp: bit_simps dest: bit_imp_le_length)
  have one: "crc16_byte (ucast (drop_bit 8 c AND 0xff)) 0x80 c = push_bit 8 ?d"
    unfolding crc16_byte_is_shift_register by (intro crc16_shifts_low) (simp_all add: d)
  let ?e = "push_bit 8 ?d XOR push_bit 8 (ucast (ucast (c AND 0xff) :: u8))"
  have e: "?e = 0"
    by (rule bit_word_eqI) (auto simp: bit_push_bit_iff bit_xor_iff d ff bit_simps dest: bit_imp_le_length)
  have "crc16_byte (ucast (c AND 0xff)) 0x80 (push_bit 8 ?d) = (crc16_shift ^^ 8) 0"
    unfolding crc16_byte_is_shift_register e ..
  also have "\<dots> = 0" using crc16_shifts_low [of 8 0] by simp
  finally show ?thesis by (simp only: crc16_bytes_def zwave_crc16.simps one)
qed

lemma zwave_crc16_inj: "zwave_crc16 a xs = zwave_crc16 b xs \<Longrightarrow> a = b"
  by (induction xs arbitrary: a b) (auto dest: crc16_byte_inj)

text \<open>
  C26. A frame followed by the checksum the sender appends is accepted by the receiver, whose
  checksum over the whole frame is then 0, and no frame that differs from it in exactly one byte is.
\<close>

theorem checksum_accepts_and_detects:
  assumes "zs = xs @ crc16_bytes (zwave_crc16 c xs)" and "i < length zs" and "b \<noteq> zs ! i"
  shows "zwave_crc16 c zs = 0 \<and> zwave_crc16 c (zs[i := b]) \<noteq> 0"
proof -
  have ok: "zwave_crc16 c zs = 0" using assms(1) by (simp add: zwave_crc16_append crc16_bytes_residue)
  have split: "zs = take i zs @ zs ! i # drop (Suc i) zs" "zs[i := b] = take i zs @ b # drop (Suc i) zs"
    using assms(2) by (simp_all add: id_take_nth_drop upd_conv_take_nth_drop)
  have "zwave_crc16 c (zs[i := b]) \<noteq> zwave_crc16 c zs"
  proof
    assume "zwave_crc16 c (zs[i := b]) = zwave_crc16 c zs"
    then have "crc16_byte b 0x80 (zwave_crc16 c (take i zs)) = crc16_byte (zs ! i) 0x80 (zwave_crc16 c (take i zs))"
      by (subst (asm) split(2), subst (asm) (2) split(1)) (auto simp: zwave_crc16_append dest: zwave_crc16_inj)
    then have "push_bit 8 (ucast b :: u16) = push_bit 8 (ucast (zs ! i))"
      by (metis crc16_byte_is_shift_register crc16_shifts_inj xor_left_cancel)
    then have bits: "bit (push_bit 8 (ucast b :: u16)) (8 + n) = bit (push_bit 8 (ucast (zs ! i) :: u16)) (8 + n)" for n
      by simp
    have "bit b n = bit (zs ! i) n" if "n < 8" for n using that bits [of n] by (simp add: bit_simps)
    then have "b = zs ! i" by (intro bit_word_eqI) simp
    with assms(3) show False by contradiction
  qed
  with ok show ?thesis by simp
qed

theorem checksum_accepts_and_detects_witness:
  "zwave_crc16 CRC16_INIT_VALUE ([0x55, 0xC0] @ crc16_bytes (zwave_crc16 CRC16_INIT_VALUE [0x55, 0xC0])) = 0 \<and>
   zwave_crc16 CRC16_INIT_VALUE (([0x55, 0xC0] @ crc16_bytes (zwave_crc16 CRC16_INIT_VALUE [0x55, 0xC0]))[1 := 0xC8]) \<noteq> 0"
  by (rule checksum_accepts_and_detects [OF refl]) (simp_all add: crc16_bytes_def)

end
