(* ===== verification/C_Memory.thy ===== *)
theory C_Memory
  imports Zpc_Prelude "HOL-Library.Monad_Syntax"
begin

text \<open>
  Accesses to C arrays, with \<open>None\<close> for one outside the array, and the calculus of results in
  which the components that use them prove that no such access happens.
\<close>

type_synonym u64 = "64 word"

section \<open>Memory\<close>

text \<open>\<open>n\<close> bytes of \<open>src\<close> copied to offset \<open>off\<close> of an array; one cell of an array written.\<close>

definition write_bytes :: "u8 list \<Rightarrow> nat \<Rightarrow> u8 list \<Rightarrow> nat \<Rightarrow> u8 list option" where
  "write_bytes buf off src n =
     (if n \<le> length src \<and> off + n \<le> length buf then Some (take off buf @ take n src @ drop (off + n) buf) else None)"

definition write_cell :: "u8 list \<Rightarrow> nat \<Rightarrow> u8 \<Rightarrow> u8 list option" where
  "write_cell buf i v = (if i < length buf then Some (buf[i := v]) else None)"

definition read_cell :: "u8 list \<Rightarrow> nat \<Rightarrow> u8 option" where
  "read_cell buf i = (if i < length buf then Some (buf ! i) else None)"

section \<open>Reasoning about results\<close>

text \<open>The computation returns, and what it returns satisfies \<open>Q\<close>.\<close>

definition returns :: "('a \<Rightarrow> bool) \<Rightarrow> 'a option \<Rightarrow> bool" where
  "returns Q r \<longleftrightarrow> (\<exists>x. r = Some x \<and> Q x)"

lemma returns_simps [simp]:
  "returns Q (Some x) = Q x" "\<not> returns Q None"
  "returns Q (Option.bind m f) = returns (\<lambda>x. returns Q (f x)) m"
  by (auto simp: returns_def bind_eq_Some_conv)

lemma returns_mono: "returns P r \<Longrightarrow> (\<And>x. P x \<Longrightarrow> Q x) \<Longrightarrow> returns Q r"
  by (auto simp: returns_def)

lemma returns_write_bytes:
  "returns Q (write_bytes buf off src n) \<longleftrightarrow>
     n \<le> length src \<and> off + n \<le> length buf \<and> Q (take off buf @ take n src @ drop (off + n) buf)"
  by (auto simp: write_bytes_def)

lemma returns_write_cell: "returns Q (write_cell buf i v) \<longleftrightarrow> i < length buf \<and> Q (buf[i := v])"
  by (simp add: write_cell_def)

lemma returns_read_cell: "returns Q (read_cell buf i) \<longleftrightarrow> i < length buf \<and> Q (buf ! i)"
  by (simp add: read_cell_def)

lemmas returns_cells = returns_write_bytes returns_write_cell returns_read_cell

lemma returns_bindI: "returns P m \<Longrightarrow> (\<And>x. P x \<Longrightarrow> returns Q (f x)) \<Longrightarrow> returns Q (Option.bind m f)"
  by (auto simp: returns_def)

lemma returns_ifI: "(b \<Longrightarrow> returns Q x) \<Longrightarrow> (\<not> b \<Longrightarrow> returns Q y) \<Longrightarrow> returns Q (if b then x else y)"
  by simp

lemma returns_SomeI: "Q x \<Longrightarrow> returns Q (Some x)"
  by simp

lemma write_bytes_length: "n \<le> length src \<Longrightarrow> off + n \<le> length buf \<Longrightarrow> returns (\<lambda>b. length b = length buf) (write_bytes buf off src n)"
  by (simp add: returns_write_bytes)

text \<open>What the computation returns, if it returns, satisfies \<open>Q\<close>: rules that follow the text of a definition.\<close>

definition whenever :: "('a \<Rightarrow> bool) \<Rightarrow> 'a option \<Rightarrow> bool" where
  "whenever Q r \<longleftrightarrow> (\<forall>x. r = Some x \<longrightarrow> Q x)"

lemma whenever_intros:
  "Q x \<Longrightarrow> whenever Q (Some x)"
  "whenever Q None"
  "(\<And>x. m = Some x \<Longrightarrow> whenever Q (f x)) \<Longrightarrow> whenever Q (Option.bind m f)"
  "(b \<Longrightarrow> whenever Q u) \<Longrightarrow> (\<not> b \<Longrightarrow> whenever Q v) \<Longrightarrow> whenever Q (if b then u else v)"
  "(m = None \<Longrightarrow> whenever Q u) \<Longrightarrow> (\<And>x. m = Some x \<Longrightarrow> whenever Q (f x)) \<Longrightarrow> whenever Q (case m of None \<Rightarrow> u | Some x \<Rightarrow> f x)"
  "(\<And>a b. p = (a, b) \<Longrightarrow> whenever Q (g a b)) \<Longrightarrow> whenever Q (case p of (a, b) \<Rightarrow> g a b)"
  by (auto simp: whenever_def bind_eq_Some_conv split: option.splits prod.splits)

lemma wheneverD: "whenever Q r \<Longrightarrow> r = Some x \<Longrightarrow> Q x"
  by (simp add: whenever_def)

lemma whenever_map_snd: "whenever (\<lambda>(a, b). Q b) m \<Longrightarrow> whenever Q (map_option snd m)"
  by (auto simp: whenever_def)

end
