(* ===== verification/Transport_Service.thy ===== *)
theory Transport_Service
  imports Crc16 Node_Mask C_Memory
begin

text \<open>
  The Transport Service of
  \<^verbatim>\<open>zwave_transports/transport_service_wrapper/transport_service/src/transport_service.c\<close>, which
  splits datagrams of up to 200 bytes into fragments and puts fragments together again. The two
  control blocks, the static variables, the timers and the transition table are those of the
  source; every operation is one function from state to state. The result \<open>None\<close> stands for
  behaviour that C leaves undefined: a write or read outside an array, a division by zero.

  What the code passes on to its surroundings (frames for the lower layer, datagrams for the upper
  layer, reports to the sender, hints to the transmit queue) is the list \<open>out\<close> of the state, and
  what the lower layer answers is the parameter \<open>ll\<close>, a function of everything passed on so far.
\<close>

section \<open>Data\<close>

abbreviation (input) PAYLOAD_SIZE_MAX :: nat where "PAYLOAD_SIZE_MAX \<equiv> 200"
abbreviation (input) FIRST_HDR_LEN :: nat where "FIRST_HDR_LEN \<equiv> 4"
abbreviation (input) SUBSEQ_HDR_LEN :: nat where "SUBSEQ_HDR_LEN \<equiv> 5"
abbreviation (input) FIRST_FRAG_NONPAYLOAD_LENGTH :: nat where "FIRST_FRAG_NONPAYLOAD_LENGTH \<equiv> 6"
abbreviation (input) SUBSEQ_FRAG_NONPAYLOAD_LENGTH :: nat where "SUBSEQ_FRAG_NONPAYLOAD_LENGTH \<equiv> 7"
abbreviation (input) FRAGMENT_FC_TIMEOUT :: u64 where "FRAGMENT_FC_TIMEOUT \<equiv> 1000"
abbreviation (input) FRAGMENT_RX_TIMEOUT :: u64 where "FRAGMENT_RX_TIMEOUT \<equiv> 800"
abbreviation (input) RESET_TIME :: u64 where "RESET_TIME \<equiv> 5000"

abbreviation (input) COMMAND_CLASS_TRANSPORT_SERVICE_V2 :: u8 where "COMMAND_CLASS_TRANSPORT_SERVICE_V2 \<equiv> 0x55"
abbreviation (input) COMMAND_FIRST_FRAGMENT :: u8 where "COMMAND_FIRST_FRAGMENT \<equiv> 0xC0"
abbreviation (input) COMMAND_SUBSEQUENT_FRAGMENT :: u8 where "COMMAND_SUBSEQUENT_FRAGMENT \<equiv> 0xE0"
abbreviation (input) COMMAND_SEGMENT_REQUEST_V2 :: u8 where "COMMAND_SEGMENT_REQUEST_V2 \<equiv> 0xC8"
abbreviation (input) COMMAND_SEGMENT_COMPLETE_V2 :: u8 where "COMMAND_SEGMENT_COMPLETE_V2 \<equiv> 0xE8"
abbreviation (input) COMMAND_SEGMENT_WAIT_V2 :: u8 where "COMMAND_SEGMENT_WAIT_V2 \<equiv> 0xF0"

datatype transport2_st =
  ST_IDLE | ST_RECEIVING | ST_SEND_FRAG_COMPLETE | ST_SEND_FRAG_REQ | ST_SEND_FRAG_WAIT | ST_FIND_MISS_FRAG
| ST_SEND_FRAG | ST_SEND_LAST_FRAG | ST_WAIT_ACK

datatype transport2_ev =
  EV_START_RECV | EV_RECV_NEW_FRAG | EV_NO_SESSION_ID | EV_SEND_FRAG_COMPLETE | EV_NO_SEND_FRAG_COMPLETE
| EV_SUCCESS | EV_SUCCESS2 | EV_SUCCESS3 | EV_FRAG_RX_TIMER | EV_MISSING_FRAG | EV_MISSING_FRAG_BCAST
| EV_SCAST_DIFF_NODE | EV_BCAST_DIFF_NODE | EV_DIFF_SESSION | EV_SUBSEQ_DIFF_SESSION
| EV_FRAG_REQ_COMPL_WAIT_DIFF_SESSION | EV_FRAG_REQ_COMPL_WAIT_DIFF_NODE | EV_RECV_FRAG_REQ | EV_RECV_LAST_FRAG
| EV_RECV_FRAG_COMPLETE | EV_TIE_BREAK | EV_DUPL_FRAME | EV_FRAG_REQ_OR_COMPL
| EV_START_SEND | EV_SEND_NEW_FRAG | EV_SEND_NXT_MISS_FRAG | EV_SENT_MISS_FRAG | EV_RECV_FRAG_WAIT
| EV_SEND_LAST_FRAG | EV_SEND_LAST_MISS_FRAG | EV_FRAG_COMPL_TIMER | EV_FRAG_COMPL_TIMER2
| EV_FRAG_COMPL_TIMER_REQ | EV_FAILURE_LAST_FRAG2 | EV_RECV_FRAG_COMPL | EV_REPLY_FRAG_REQ_DONE | EV_FAIL

definition trans_table :: "(transport2_st \<times> transport2_ev \<times> transport2_st) list" where
  "trans_table =
    [(ST_IDLE, EV_START_RECV, ST_RECEIVING), (ST_IDLE, EV_START_SEND, ST_SEND_FRAG),
     (ST_IDLE, EV_SEND_NEW_FRAG, ST_SEND_FRAG), (ST_SEND_FRAG, EV_SEND_NEW_FRAG, ST_SEND_FRAG),
     (ST_RECEIVING, EV_SEND_NEW_FRAG, ST_SEND_FRAG), (ST_WAIT_ACK, EV_SEND_NEW_FRAG, ST_SEND_FRAG),
     (ST_RECEIVING, EV_RECV_NEW_FRAG, ST_RECEIVING), (ST_RECEIVING, EV_DUPL_FRAME, ST_IDLE),
     (ST_RECEIVING, EV_NO_SESSION_ID, ST_SEND_FRAG_WAIT), (ST_RECEIVING, EV_SCAST_DIFF_NODE, ST_SEND_FRAG_WAIT),
     (ST_SEND_FRAG, EV_SCAST_DIFF_NODE, ST_SEND_FRAG_WAIT), (ST_WAIT_ACK, EV_SCAST_DIFF_NODE, ST_SEND_FRAG_WAIT),
     (ST_RECEIVING, EV_DIFF_SESSION, ST_IDLE), (ST_RECEIVING, EV_SUBSEQ_DIFF_SESSION, ST_SEND_FRAG_WAIT),
     (ST_RECEIVING, EV_FRAG_REQ_COMPL_WAIT_DIFF_NODE, ST_IDLE), (ST_RECEIVING, EV_FRAG_REQ_COMPL_WAIT_DIFF_SESSION, ST_IDLE),
     (ST_SEND_FRAG_WAIT, EV_SUCCESS, ST_RECEIVING), (ST_SEND_FRAG_WAIT, EV_SUCCESS2, ST_SEND_FRAG),
     (ST_SEND_FRAG_WAIT, EV_SUCCESS3, ST_WAIT_ACK), (ST_SEND_FRAG_COMPLETE, EV_SUCCESS, ST_IDLE),
     (ST_SEND_FRAG_REQ, EV_SUCCESS, ST_RECEIVING), (ST_RECEIVING, EV_FRAG_RX_TIMER, ST_FIND_MISS_FRAG),
     (ST_IDLE, EV_FRAG_RX_TIMER, ST_IDLE), (ST_RECEIVING, EV_BCAST_DIFF_NODE, ST_RECEIVING),
     (ST_RECEIVING, EV_RECV_LAST_FRAG, ST_FIND_MISS_FRAG), (ST_WAIT_ACK, EV_SEND_FRAG_COMPLETE, ST_SEND_FRAG_COMPLETE),
     (ST_RECEIVING, EV_RECV_FRAG_COMPL, ST_IDLE), (ST_WAIT_ACK, EV_FRAG_REQ_OR_COMPL, ST_WAIT_ACK),
     (ST_WAIT_ACK, EV_FRAG_RX_TIMER, ST_IDLE), (ST_RECEIVING, EV_FRAG_REQ_OR_COMPL, ST_RECEIVING),
     (ST_SEND_FRAG, EV_FRAG_REQ_OR_COMPL, ST_RECEIVING), (ST_FIND_MISS_FRAG, EV_MISSING_FRAG, ST_SEND_FRAG_REQ),
     (ST_FIND_MISS_FRAG, EV_MISSING_FRAG_BCAST, ST_IDLE), (ST_FIND_MISS_FRAG, EV_SEND_FRAG_COMPLETE, ST_SEND_FRAG_COMPLETE),
     (ST_FIND_MISS_FRAG, EV_NO_SEND_FRAG_COMPLETE, ST_IDLE),
     (ST_SEND_FRAG, EV_RECV_FRAG_WAIT, ST_SEND_FRAG), (ST_RECEIVING, EV_RECV_FRAG_WAIT, ST_SEND_FRAG),
     (ST_SEND_FRAG, EV_SEND_LAST_FRAG, ST_SEND_LAST_FRAG), (ST_SEND_FRAG, EV_SEND_LAST_MISS_FRAG, ST_SEND_LAST_FRAG),
     (ST_SEND_LAST_FRAG, EV_SUCCESS, ST_WAIT_ACK), (ST_WAIT_ACK, EV_FRAG_COMPL_TIMER, ST_SEND_LAST_FRAG),
     (ST_WAIT_ACK, EV_FRAG_COMPL_TIMER_REQ, ST_IDLE), (ST_WAIT_ACK, EV_FRAG_COMPL_TIMER2, ST_IDLE),
     (ST_WAIT_ACK, EV_FAILURE_LAST_FRAG2, ST_IDLE), (ST_WAIT_ACK, EV_RECV_FRAG_REQ, ST_SEND_FRAG),
     (ST_RECEIVING, EV_RECV_FRAG_REQ, ST_SEND_FRAG), (ST_WAIT_ACK, EV_RECV_FRAG_COMPL, ST_IDLE),
     (ST_SEND_FRAG, EV_SEND_NXT_MISS_FRAG, ST_SEND_FRAG), (ST_SEND_FRAG, EV_FRAG_COMPL_TIMER, ST_IDLE),
     (ST_SEND_FRAG, EV_FRAG_COMPL_TIMER_REQ, ST_IDLE), (ST_SEND_FRAG, EV_SENT_MISS_FRAG, ST_WAIT_ACK),
     (ST_SEND_FRAG, EV_TIE_BREAK, ST_RECEIVING), (ST_SEND_LAST_FRAG, EV_TIE_BREAK, ST_RECEIVING),
     (ST_WAIT_ACK, EV_RECV_FRAG_WAIT, ST_SEND_FRAG), (ST_SEND_LAST_FRAG, EV_FAIL, ST_IDLE),
     (ST_WAIT_ACK, EV_TIE_BREAK, ST_RECEIVING)]"

datatype receive_type = SINGLECAST | BROADCAST | MULTICAST

datatype send_data_return_code =
  TRANSPORT_SERVICE_SEND_SUCCESS | TRANSPORT_SERVICE_SEND_FAILURE | TRANSPORT_SERVICE_BUSY | TRANSPORT_SERVICE_WILL_OVERFLOW

text \<open>The callbacks the code hands to the lower layer.\<close>

datatype lower_callback = No_callback | Senddata_cb | Last_frag_cb | Reply_frag_req_cb

datatype ts_output =
  Sent node_id node_id "u8 list" u8 lower_callback
| Delivered node_id node_id "u8 list"
| Completed nat u8
| Expected_frames node_id u8

type_synonym lower_layer = "ts_output list \<Rightarrow> u8"

record control_block =
  cb_source :: node_id
  cb_dest :: node_id
  session_id :: u8
  pending_segments :: u8

text \<open>Fields that hold only 0 and 1 are Booleans; a timer is \<open>None\<close> or runs for an interval.\<close>

record sending_cntrl_blk =
  datalen_to_send :: u16
  missing_offset :: u16
  scb_offset :: u16
  remaining_data_len :: u16
  scb_cmn :: control_block
  datagram :: "u8 list"
  datagram_len :: u16
  sending :: bool
  flag_replied_frag_req :: bool
  transmission_aborted :: u8
  reset_timer :: "u64 option"
  wait_restart_timer :: "u64 option"
  timer_btwn_2_frags :: "u64 option"
  frag_compl_list :: "u8 list"
  flag_send_frag_wait :: bool
  flag_reply_frag_req :: bool
  frag_wait_source :: node_id
  frag_wait_dest :: node_id
  round_trip_first_frag :: u64
  flag_fc_timer_expired_once :: u8
  current_dnode :: u8
  does_not_fit_in_first_frag :: bool

record receiving_cntrl_blk =
  rcb_cmn :: control_block
  fragment :: "u8 list"
  fragment_len :: u8
  fc_timer :: "u64 option"
  rx_timer :: "u64 option"
  rx_data_state :: bool
  recv_frag_compl_list :: "u8 list"
  datagramData :: "u8 list"
  cur_recvd_data_size :: u8
  current_snode :: u8
  bytes_recvd_bitmask :: "u8 list"
  datagram_size :: u16
  rcb_rx_type :: receive_type

record ts =
  current_state :: transport2_st
  scb :: sending_cntrl_blk
  rcb :: receiving_cntrl_blk
  on_send_complete_cb :: "nat option"
  my_node_id :: node_id
  max_fragment_size :: u16
  offset_to_request :: u16
  flag_tie_broken :: bool
  flag_initialize_once :: bool
  t2_txBuf :: "u8 list"
  ts_clock :: u64
  out :: "ts_output list"

abbreviation scb_session :: "ts \<Rightarrow> u8" where "scb_session s \<equiv> session_id (scb_cmn (scb s))"
abbreviation rcb_session :: "ts \<Rightarrow> u8" where "rcb_session s \<equiv> session_id (rcb_cmn (rcb s))"

text \<open>The static variables before anything has happened.\<close>

definition ts_start :: ts where
  "ts_start =
    (let cb = \<lparr>cb_source = 0, cb_dest = 0, session_id = 0, pending_segments = 0\<rparr> in
     \<lparr>current_state = ST_IDLE,
      scb = \<lparr>datalen_to_send = 0, missing_offset = 0, scb_offset = 0, remaining_data_len = 0, scb_cmn = cb,
        datagram = replicate PAYLOAD_SIZE_MAX 0, datagram_len = 0, sending = False, flag_replied_frag_req = False,
        transmission_aborted = 0, reset_timer = None, wait_restart_timer = None, timer_btwn_2_frags = None,
        frag_compl_list = replicate 15 0, flag_send_frag_wait = False, flag_reply_frag_req = False,
        frag_wait_source = 0, frag_wait_dest = 0, round_trip_first_frag = 0, flag_fc_timer_expired_once = 0,
        current_dnode = 0, does_not_fit_in_first_frag = False\<rparr>,
      rcb = \<lparr>rcb_cmn = cb, fragment = [], fragment_len = 0, fc_timer = None, rx_timer = None, rx_data_state = False,
        recv_frag_compl_list = replicate 16 0, datagramData = replicate PAYLOAD_SIZE_MAX 0, cur_recvd_data_size = 0,
        current_snode = 0, bytes_recvd_bitmask = replicate 26 0, datagram_size = 0, rcb_rx_type = SINGLECAST\<rparr>,
      on_send_complete_cb = None, my_node_id = 0, max_fragment_size = 0, offset_to_request = 0,
      flag_tie_broken = False, flag_initialize_once = True, t2_txBuf = replicate 207 0, ts_clock = 0, out = []\<rparr>)"

definition transport_service_init :: "node_id \<Rightarrow> ts \<Rightarrow> ts" where
  "transport_service_init node s = s\<lparr>my_node_id := node\<rparr>"

section \<open>Outputs\<close>

definition emit :: "ts_output \<Rightarrow> ts \<Rightarrow> ts" where
  "emit x s = s\<lparr>out := out s @ [x]\<rparr>"

definition lower_layer_send_data ::
  "lower_layer \<Rightarrow> node_id \<Rightarrow> node_id \<Rightarrow> u8 list \<Rightarrow> u8 \<Rightarrow> lower_callback \<Rightarrow> ts \<Rightarrow> u8 \<times> ts" where
  "lower_layer_send_data ll src dst payload no_of_expected_responses cb s =
     (let s = emit (Sent src dst payload no_of_expected_responses cb) s in (ll (out s), s))"

text \<open>The first \<open>n\<close> bytes of the transmit buffer.\<close>

definition tx_bytes :: "nat \<Rightarrow> ts \<Rightarrow> u8 list option" where
  "tx_bytes n s = (if n \<le> length (t2_txBuf s) then Some (take n (t2_txBuf s)) else None)"

text \<open>\<^verbatim>\<open>if (on_send_complete_cb) { on_send_complete_cb(status, 0); on_send_complete_cb = 0; }\<close>\<close>

definition send_complete :: "u8 \<Rightarrow> ts \<Rightarrow> ts" where
  "send_complete st s =
     (case on_send_complete_cb s of
        None \<Rightarrow> s
      | Some c \<Rightarrow> (emit (Completed c st) s)\<lparr>on_send_complete_cb := None\<rparr>)"

section \<open>The state machine\<close>

text \<open>The loop of \<open>find_transition\<close>, from the last entry of the table to the first.\<close>

fun find_transition_loop :: "nat \<Rightarrow> transport2_st \<Rightarrow> transport2_ev \<Rightarrow> nat" where
  "find_transition_loop 0 cstate event = 0"
| "find_transition_loop (Suc n) cstate event =
     (if fst (trans_table ! n) = cstate \<and> fst (snd (trans_table ! n)) = event then n + 1 else find_transition_loop n cstate event)"

definition find_transition :: "transport2_st \<Rightarrow> transport2_ev \<Rightarrow> nat" where
  "find_transition cstate event = find_transition_loop (length trans_table) cstate event"

definition t2_sm_post_event :: "transport2_ev \<Rightarrow> ts \<Rightarrow> ts" where
  "t2_sm_post_event ev s =
     (let i = find_transition (current_state s) ev
      in if i \<noteq> 0 then s\<lparr>current_state := snd (snd (trans_table ! (i - 1)))\<rparr> else s)"

definition recv_or_send :: "ts \<Rightarrow> u8" where
  "recv_or_send s =
     (case current_state s of
        ST_IDLE \<Rightarrow> 2
      | ST_RECEIVING \<Rightarrow> 1 | ST_SEND_FRAG_COMPLETE \<Rightarrow> 1 | ST_SEND_FRAG_REQ \<Rightarrow> 1 | ST_SEND_FRAG_WAIT \<Rightarrow> 1 | ST_FIND_MISS_FRAG \<Rightarrow> 1
      | ST_SEND_FRAG \<Rightarrow> 0 | ST_SEND_LAST_FRAG \<Rightarrow> 0 | ST_WAIT_ACK \<Rightarrow> 0)"

definition is_transport_service_receiving :: "ts \<Rightarrow> bool" where
  "is_transport_service_receiving s \<longleftrightarrow> recv_or_send s = 1"

definition is_transport_service_sending :: "ts \<Rightarrow> bool" where
  "is_transport_service_sending s \<longleftrightarrow> recv_or_send s = 0"

definition set_reset_timer :: "ts \<Rightarrow> ts" where
  "set_reset_timer s = scb_update (\<lambda>b. b\<lparr>reset_timer := Some RESET_TIME\<rparr>) s"

section \<open>Receiving: marking and requesting fragments\<close>

definition discard_all_received_fragments :: "ts \<Rightarrow> ts" where
  "discard_all_received_fragments s =
     rcb_update (\<lambda>r. r\<lparr>datagramData := replicate PAYLOAD_SIZE_MAX 0,
       rcb_cmn := \<lparr>cb_source = 0, cb_dest = 0, session_id = 0x10, pending_segments = 0\<rparr>,
       current_snode := 0, bytes_recvd_bitmask := replicate 26 0\<rparr>) s"

definition reset_transport_service :: "ts \<Rightarrow> ts" where
  "reset_transport_service s =
     (let s = scb_update (\<lambda>b. b\<lparr>reset_timer := None\<rparr>) s;
          s = discard_all_received_fragments (s\<lparr>current_state := ST_IDLE\<rparr>)
      in scb_update (\<lambda>b. b\<lparr>sending := False\<rparr>) s)"

text \<open>\<^verbatim>\<open>n = a / b; if (a % b) n++;\<close> with an 8 bit \<^verbatim>\<open>n\<close>.\<close>

definition segments :: "u16 \<Rightarrow> u16 \<Rightarrow> u8 option" where
  "segments a b = (if b = 0 then None else Some (if a mod b \<noteq> 0 then ucast (a div b) + 1 else ucast (a div b)))"

definition send_frag_wait_cmd :: "lower_layer \<Rightarrow> ts \<Rightarrow> ts option" where
  "send_frag_wait_cmd ll s =
     (let s = set_reset_timer s;
          frame = (\<lambda>n. [COMMAND_CLASS_TRANSPORT_SERVICE_V2, COMMAND_SEGMENT_WAIT_V2 AND 0xf8, n])
      in if sending (scb s)
         then let (ret, s) = lower_layer_send_data ll (frag_wait_source (scb s)) (frag_wait_dest (scb s))
                               (frame (pending_segments (scb_cmn (scb s)))) 0 Senddata_cb s
              in Some (t2_sm_post_event EV_SUCCESS2 s)
         else do {
           n \<leftarrow> (if rcb_session s = 0x10 then Some 0 else segments (datagram_size (rcb s)) (ucast (cur_recvd_data_size (rcb s))));
           let s = rcb_update (\<lambda>r. r\<lparr>rcb_cmn := (rcb_cmn r)\<lparr>pending_segments := n\<rparr>\<rparr>) s;
           let (ret, s) = lower_layer_send_data ll (frag_wait_source (scb s)) (frag_wait_dest (scb s)) (frame n) 0 No_callback s;
           Some (t2_sm_post_event EV_SUCCESS s)
         })"

text \<open>The loop of \<open>mark_frag_received\<close> over the received bytes, which stops behind byte 201.\<close>

function mark_loop :: "nat \<Rightarrow> nat \<Rightarrow> u8 list \<Rightarrow> u8 list option" where
  "mark_loop i end_pos bm =
     (if i < end_pos
      then do {
        b \<leftarrow> read_cell bm (i div 8);
        bm \<leftarrow> write_cell bm (i div 8) (b OR push_bit (i mod 8) 1);
        if i > PAYLOAD_SIZE_MAX then Some bm else mark_loop (i + 1) end_pos bm
      }
      else Some bm)"
  by pat_completeness auto
termination by (relation "measure (\<lambda>(i, n, _). n - i)") auto

declare mark_loop.simps [simp del]

text \<open>Queue or send a SEGMENT WAIT, as the callers do when a fragment cannot be taken.\<close>

definition queue_frag_wait :: "lower_layer \<Rightarrow> ts \<Rightarrow> ts option" where
  "queue_frag_wait ll s =
     (if sending (scb s) then Some (scb_update (\<lambda>b. b\<lparr>flag_send_frag_wait := True\<rparr>) s) else send_frag_wait_cmd ll s)"

definition mark_frag_received :: "lower_layer \<Rightarrow> u16 \<Rightarrow> u8 \<Rightarrow> ts \<Rightarrow> (bool \<times> ts) option" where
  "mark_frag_received ll offset len s =
     (if offset \<noteq> 0 \<and> hd (bytes_recvd_bitmask (rcb s)) AND 1 = 0
      then do {
        s \<leftarrow> queue_frag_wait ll (t2_sm_post_event EV_SUBSEQ_DIFF_SESSION s);
        Some (True, s)
      }
      else do {
        bm \<leftarrow> mark_loop (unat offset) (unat offset + unat len) (bytes_recvd_bitmask (rcb s));
        Some (False, rcb_update (\<lambda>r. r\<lparr>bytes_recvd_bitmask := bm\<rparr>) s)
      })"

definition send_frag_complete_cmd :: "lower_layer \<Rightarrow> ts \<Rightarrow> ts option" where
  "send_frag_complete_cmd ll s =
     (if rcb_session s > 0x0f then Some s
      else do {
        let frame = [COMMAND_CLASS_TRANSPORT_SERVICE_V2, COMMAND_SEGMENT_COMPLETE_V2 AND 0xf8,
                     push_bit 4 (rcb_session s AND 0x0f)];
        let s = set_reset_timer s;
        let (ret, s) = lower_layer_send_data ll (cb_dest (rcb_cmn (rcb s))) (cb_source (rcb_cmn (rcb s))) frame 0 No_callback s;
        let s = emit (Delivered (cb_source (rcb_cmn (rcb s))) (cb_dest (rcb_cmn (rcb s)))
                       (take (unat (datagram_size (rcb s))) (datagramData (rcb s)))) s;
        l \<leftarrow> write_cell (recv_frag_compl_list (rcb s)) (unat (rcb_session s)) 1;
        let s = rcb_update (\<lambda>r. r\<lparr>recv_frag_compl_list := l, rcb_cmn := (rcb_cmn r)\<lparr>session_id := 0x10\<rparr>,
                  current_snode := 0, rx_timer := None\<rparr>) s;
        Some (t2_sm_post_event EV_SUCCESS s)
      })"

text \<open>The bits of the mask in the order of the two loops; \<open>k\<close> is 8 i + j, read as a \<^verbatim>\<open>uint8_t\<close>.\<close>

fun missing_loop :: "nat \<Rightarrow> u8 list \<Rightarrow> u16 \<Rightarrow> nat \<Rightarrow> u8" where
  "missing_loop 0 bm dsize k = 0"
| "missing_loop (Suc n) bm dsize k =
     (if \<not> bit (bm ! (k div 8)) (k mod 8)
      then let missing = of_nat k :: u8
           in if missing = 0 then missing_loop n bm dsize (k + 1)
              else if ucast missing \<ge> dsize then 0 else missing
      else missing_loop n bm dsize (k + 1))"

definition get_next_missing_offset :: "ts \<Rightarrow> u8" where
  "get_next_missing_offset s = missing_loop (8 * length (bytes_recvd_bitmask (rcb s))) (bytes_recvd_bitmask (rcb s)) (datagram_size (rcb s)) 0"

text \<open>
  \<open>rx_timer_expired\<close> and \<open>send_frag_req_cmd\<close> call each other through \<open>find_missing\<close>. The call in
  \<open>send_frag_req_cmd\<close> happens only when a fragment is missing and \<open>rx_data.state\<close> is set, and
  then does not reach \<open>find_missing\<close>; there the model has \<open>None\<close>.
\<close>

definition rx_timer_expired_with :: "(ts \<Rightarrow> ts option) \<Rightarrow> ts \<Rightarrow> ts option" where
  "rx_timer_expired_with find_missing_call s =
     (let s = t2_sm_post_event EV_FRAG_RX_TIMER (rcb_update (\<lambda>r. r\<lparr>rx_timer := None\<rparr>) s)
      in if rx_data_state (rcb s) \<and> get_next_missing_offset s \<noteq> 0
         then Some (discard_all_received_fragments s)
         else find_missing_call s)"

text \<open>The loop of two attempts; \<open>i\<close> is the number of the attempt.\<close>

fun send_frag_req_loop :: "lower_layer \<Rightarrow> nat \<Rightarrow> nat \<Rightarrow> ts \<Rightarrow> ts option" where
  "send_frag_req_loop ll 0 i s = Some s"
| "send_frag_req_loop ll (Suc n) i s = do {
     payload \<leftarrow> tx_bytes 4 s;
     let (ret, s) = lower_layer_send_data ll (cb_dest (rcb_cmn (rcb s))) (cb_source (rcb_cmn (rcb s))) payload 1 No_callback s;
     if ret = 0 then Some s
     else do {
       s \<leftarrow> (if i \<noteq> 0 then rx_timer_expired_with (\<lambda>s. None) s else Some s);
       send_frag_req_loop ll n (i + 1) s
     }
   }"

definition send_frag_req_cmd :: "lower_layer \<Rightarrow> ts \<Rightarrow> ts option" where
  "send_frag_req_cmd ll s =
     (let s = s\<lparr>offset_to_request := ucast (get_next_missing_offset s)\<rparr>
      in if offset_to_request s = 0 then Some (t2_sm_post_event EV_SUCCESS s)
         else if rcb_session s > 0x0f then Some s
         else do {
           b \<leftarrow> write_bytes (t2_txBuf s) 0
                  [COMMAND_CLASS_TRANSPORT_SERVICE_V2, COMMAND_SEGMENT_REQUEST_V2 AND 0xf8,
                   push_bit 4 (rcb_session s AND 0x0f) OR ucast (drop_bit 8 (offset_to_request s AND 0x700)),
                   ucast (offset_to_request s AND 0xff)] 4;
           s \<leftarrow> send_frag_req_loop ll 2 0 (rcb_update (\<lambda>r. r\<lparr>rx_data_state := True\<rparr>) (s\<lparr>t2_txBuf := b\<rparr>));
           Some (rcb_update (\<lambda>r. r\<lparr>rx_timer := Some FRAGMENT_RX_TIMEOUT\<rparr>) (t2_sm_post_event EV_SUCCESS s))
         })"

definition find_missing :: "lower_layer \<Rightarrow> ts \<Rightarrow> ts option" where
  "find_missing ll s =
     (if get_next_missing_offset s \<noteq> 0
      then if rcb_rx_type (rcb s) = BROADCAST then Some (discard_all_received_fragments s)
           else send_frag_req_cmd ll (t2_sm_post_event EV_MISSING_FRAG s)
      else if rcb_rx_type (rcb s) = BROADCAST then Some s
      else send_frag_complete_cmd ll (t2_sm_post_event EV_SEND_FRAG_COMPLETE s))"

definition rx_timer_expired :: "lower_layer \<Rightarrow> ts \<Rightarrow> ts option" where
  "rx_timer_expired ll s = rx_timer_expired_with (find_missing ll) s"

section \<open>Sending\<close>

definition add_crc :: "u8 list \<Rightarrow> nat \<Rightarrow> u8 list option" where
  "add_crc buf len =
     (if len \<le> length buf
      then let crc = zwave_crc16 CRC16_INIT_VALUE (take len buf) in write_bytes buf len (crc16_bytes crc) 2
      else None)"

text \<open>A header, a part of the datagram and the checksum written to the transmit buffer.\<close>

definition put_fragment :: "u8 list \<Rightarrow> nat \<Rightarrow> ts \<Rightarrow> ts option" where
  "put_fragment header offset s = do {
     b \<leftarrow> write_bytes (t2_txBuf s) 0 header (length header);
     b \<leftarrow> write_bytes b (length header) (drop offset (datagram (scb s))) (unat (datalen_to_send (scb s)));
     b \<leftarrow> add_crc b (unat (datalen_to_send (scb s)) + length header);
     Some (s\<lparr>t2_txBuf := b\<rparr>)
   }"

definition send_last_frag :: "lower_layer \<Rightarrow> ts \<Rightarrow> ts option" where
  "send_last_frag ll s = do {
     let s = rcb_update (\<lambda>r. r\<lparr>fc_timer := None\<rparr>) s;
     let s = scb_update (\<lambda>b. b\<lparr>sending := False, scb_cmn := (scb_cmn b)\<lparr>pending_segments := 0\<rparr>\<rparr>) s;
     payload \<leftarrow> tx_bytes ((if does_not_fit_in_first_frag (scb s) then SUBSEQ_FRAG_NONPAYLOAD_LENGTH
                          else FIRST_FRAG_NONPAYLOAD_LENGTH) + unat (datalen_to_send (scb s))) s;
     let (ret, s) = lower_layer_send_data ll (cb_source (scb_cmn (scb s))) (cb_dest (scb_cmn (scb s))) payload 1 Last_frag_cb s;
     if ret = 1
     then if flag_fc_timer_expired_once (scb s) \<noteq> 0
          then Some (set_reset_timer (t2_sm_post_event EV_FAILURE_LAST_FRAG2 (send_complete 1 s)))
          else Some (scb_update (\<lambda>b. b\<lparr>flag_fc_timer_expired_once := flag_fc_timer_expired_once b + 1\<rparr>) s)
     else Some s
   }"

definition temp_callback_last_frag :: "lower_layer \<Rightarrow> u8 \<Rightarrow> ts \<Rightarrow> ts option" where
  "temp_callback_last_frag ll st s =
     (if st \<noteq> 0
      then if flag_fc_timer_expired_once (scb s) = 0
           then send_last_frag ll (scb_update (\<lambda>b. b\<lparr>flag_fc_timer_expired_once := flag_fc_timer_expired_once b + 1\<rparr>) s)
           else Some (set_reset_timer (t2_sm_post_event EV_FAILURE_LAST_FRAG2 (send_complete 1 s)))
      else Some (t2_sm_post_event EV_SUCCESS (rcb_update (\<lambda>r. r\<lparr>fc_timer := Some FRAGMENT_FC_TIMEOUT\<rparr>) s)))"

definition subseq_header :: "u16 \<Rightarrow> u8 \<Rightarrow> u16 \<Rightarrow> u8 list" where
  "subseq_header dsize session offset =
     [COMMAND_CLASS_TRANSPORT_SERVICE_V2, COMMAND_SUBSEQUENT_FRAGMENT OR ucast (drop_bit 8 dsize AND 0x07), ucast (dsize AND 0xff),
      push_bit 4 (session AND 0x0F) OR ucast (drop_bit 8 offset AND 0x07), ucast (offset AND 0xff)]"

definition first_header :: "u16 \<Rightarrow> u8 \<Rightarrow> u8 list" where
  "first_header dsize session =
     [COMMAND_CLASS_TRANSPORT_SERVICE_V2, COMMAND_FIRST_FRAGMENT OR ucast (drop_bit 8 dsize AND 0x07), ucast (dsize AND 0xff),
      push_bit 4 session]"

text \<open>\<open>send_subseq_frag\<close> chooses how much to send, writes the fragment and sends it.\<close>

definition subseq_chosen :: "ts \<Rightarrow> ts" where
  "subseq_chosen s =
     (let s = rcb_update (\<lambda>r. r\<lparr>fc_timer := None\<rparr>) s;
          s = (if remaining_data_len (scb s) = 0 then scb_update (\<lambda>b. b\<lparr>remaining_data_len := datagram_len b\<rparr>) s else s)
      in scb_update (\<lambda>b. b\<lparr>datalen_to_send :=
               (if remaining_data_len b \<ge> max_fragment_size s then max_fragment_size s else remaining_data_len b)\<rparr>) s)"

definition send_subseq_not_last :: "lower_layer \<Rightarrow> ts \<Rightarrow> ts option" where
  "send_subseq_not_last ll s = do {
     let s = scb_update (\<lambda>b. b\<lparr>remaining_data_len := remaining_data_len b - datalen_to_send b\<rparr>) (set_reset_timer s);
     payload \<leftarrow> tx_bytes (SUBSEQ_FRAG_NONPAYLOAD_LENGTH + unat (datalen_to_send (scb s))) s;
     let (ret, s) = lower_layer_send_data ll (cb_source (scb_cmn (scb s))) (cb_dest (scb_cmn (scb s))) payload 0 Senddata_cb s;
     s \<leftarrow> (if ret = 1 then Some s
           else do {
             let s = (if remaining_data_len (scb s) \<ge> max_fragment_size s
                      then scb_update (\<lambda>b. b\<lparr>remaining_data_len := remaining_data_len b - max_fragment_size s\<rparr>) s else s);
             n \<leftarrow> segments (remaining_data_len (scb s)) (datalen_to_send (scb s));
             Some (scb_update (\<lambda>b. b\<lparr>scb_cmn := (scb_cmn b)\<lparr>pending_segments := n\<rparr>\<rparr>) s)
           });
     Some (t2_sm_post_event EV_SEND_NEW_FRAG s)
   }"

definition send_subseq_frag :: "lower_layer \<Rightarrow> ts \<Rightarrow> ts option" where
  "send_subseq_frag ll s = do {
     let s = subseq_chosen s;
     completed \<leftarrow> read_cell (frag_compl_list (scb s)) (unat (scb_session s));
     if completed = 1 then Some s
     else do {
       let s = scb_update (\<lambda>b. b\<lparr>scb_offset := datagram_len b - remaining_data_len b\<rparr>) s;
       s \<leftarrow> put_fragment (subseq_header (datagram_len (scb s)) (scb_session s) (scb_offset (scb s))) (unat (scb_offset (scb s))) s;
       if remaining_data_len (scb s) \<le> max_fragment_size s
       then send_last_frag ll (t2_sm_post_event EV_SEND_LAST_FRAG (scb_update (\<lambda>b. b\<lparr>does_not_fit_in_first_frag := True\<rparr>) s))
       else send_subseq_not_last ll s
     }
   }"

definition temp_callback_reply_frag_req :: "u8 \<Rightarrow> ts \<Rightarrow> ts" where
  "temp_callback_reply_frag_req st s =
     t2_sm_post_event EV_SENT_MISS_FRAG (if st \<noteq> 0 then send_complete st s else s)"

definition fc_timer_expired :: "lower_layer \<Rightarrow> ts \<Rightarrow> ts option" where
  "fc_timer_expired ll s =
     (if flag_replied_frag_req (scb s)
      then let s = scb_update (\<lambda>b. b\<lparr>transmission_aborted := session_id (scb_cmn b), flag_replied_frag_req := False,
                     current_dnode := 0\<rparr>) s;
               s = send_complete 1 (t2_sm_post_event EV_FRAG_COMPL_TIMER_REQ s)
           in Some (set_reset_timer s)
      else if transmission_aborted (scb s) = scb_session s then Some (send_complete 1 s)
      else if flag_fc_timer_expired_once (scb s) \<noteq> 0
      then let s = send_complete 1 (scb_update (\<lambda>b. b\<lparr>flag_fc_timer_expired_once := 0, current_dnode := 0\<rparr>) s);
               s = t2_sm_post_event EV_FRAG_COMPL_TIMER2 s
           in Some (rcb_update (\<lambda>r. r\<lparr>fc_timer := None\<rparr>) s)
      else let s = t2_sm_post_event EV_FRAG_COMPL_TIMER s;
               s = scb_update (\<lambda>b. b\<lparr>flag_fc_timer_expired_once := flag_fc_timer_expired_once b + 1\<rparr>) s
           in send_last_frag ll s)"

definition reply_chosen :: "ts \<Rightarrow> ts" where
  "reply_chosen s =
     (let s = scb_update (\<lambda>b. b\<lparr>datalen_to_send := max_fragment_size s\<rparr>) s
      in if unat (missing_offset (scb s)) + unat (datalen_to_send (scb s)) > unat (datagram_len (scb s))
         then scb_update (\<lambda>b. b\<lparr>datalen_to_send := datagram_len b - missing_offset b\<rparr>) s else s)"

definition reply_frag_req :: "lower_layer \<Rightarrow> ts \<Rightarrow> ts option" where
  "reply_frag_req ll s = do {
     completed \<leftarrow> read_cell (frag_compl_list (scb s)) (unat (scb_session s));
     if completed = 1 then Some s
     else do {
       let s = reply_chosen s;
       s \<leftarrow> put_fragment (subseq_header (datagram_len (scb s)) (scb_session s) (missing_offset (scb s)))
              (unat (missing_offset (scb s))) s;
       if unat (missing_offset (scb s)) + unat (datalen_to_send (scb s)) = unat (datagram_len (scb s))
       then let s = t2_sm_post_event EV_SEND_LAST_MISS_FRAG (scb_update (\<lambda>b. b\<lparr>does_not_fit_in_first_frag := True\<rparr>) s)
            in send_last_frag ll (scb_update (\<lambda>b. b\<lparr>flag_replied_frag_req := True\<rparr>) s)
       else do {
         payload \<leftarrow> tx_bytes (SUBSEQ_FRAG_NONPAYLOAD_LENGTH + unat (datalen_to_send (scb s))) s;
         let (ret, s) = lower_layer_send_data ll (cb_source (scb_cmn (scb s))) (cb_dest (scb_cmn (scb s))) payload 0
                          (if sending (scb s) then Senddata_cb else Reply_frag_req_cb) s;
         let s = scb_update (\<lambda>b. b\<lparr>flag_replied_frag_req := True\<rparr>) s;
         Some (rcb_update (\<lambda>r. r\<lparr>fc_timer := Some (FRAGMENT_FC_TIMEOUT + 500)\<rparr>) s)
       }
     }
   }"

text \<open>\<open>send_first_frag\<close> prepares the session, writes the fragment and sends it.\<close>

definition first_chosen :: "ts \<Rightarrow> ts option" where
  "first_chosen s = do {
     let s = scb_update (\<lambda>b. b\<lparr>scb_cmn := (scb_cmn b)\<lparr>session_id :=
               (if session_id (scb_cmn b) = 0 then 0 else session_id (scb_cmn b) + 1)\<rparr>\<rparr>) s;
     let s = (if scb_session s > 0xf then scb_update (\<lambda>b. b\<lparr>scb_cmn := (scb_cmn b)\<lparr>session_id := 0\<rparr>\<rparr>) s else s);
     l \<leftarrow> write_cell (frag_compl_list (scb s)) (unat (scb_session s)) 0;
     let s = scb_update (\<lambda>b. b\<lparr>frag_compl_list := l\<rparr>) s;
     let s = (if remaining_data_len (scb s) = 0 then scb_update (\<lambda>b. b\<lparr>remaining_data_len := datagram_len b\<rparr>) s else s);
     Some (if datagram_len (scb s) > max_fragment_size s
           then scb_update (\<lambda>b. b\<lparr>remaining_data_len := datagram_len b - max_fragment_size s,
                                  datalen_to_send := max_fragment_size s\<rparr>) s
           else scb_update (\<lambda>b. b\<lparr>remaining_data_len := datagram_len b, datalen_to_send := datagram_len b\<rparr>) s)
   }"

definition send_first_frag :: "lower_layer \<Rightarrow> ts \<Rightarrow> ts option" where
  "send_first_frag ll s = do {
     s \<leftarrow> first_chosen s;
     s \<leftarrow> put_fragment (first_header (datagram_len (scb s)) (scb_session s)) 0 s;
     n \<leftarrow> segments (remaining_data_len (scb s)) (datalen_to_send (scb s));
     let s = scb_update (\<lambda>b. b\<lparr>scb_cmn := (scb_cmn b)\<lparr>pending_segments := n\<rparr>\<rparr>) s;
     if datagram_len (scb s) \<le> max_fragment_size s
     then send_last_frag ll (t2_sm_post_event EV_SEND_LAST_FRAG (scb_update (\<lambda>b. b\<lparr>does_not_fit_in_first_frag := False\<rparr>) s))
     else do {
       let s = set_reset_timer s;
       payload \<leftarrow> tx_bytes (FIRST_FRAG_NONPAYLOAD_LENGTH + unat (datalen_to_send (scb s))) s;
       let (ret, s) = lower_layer_send_data ll (cb_source (scb_cmn (scb s))) (cb_dest (scb_cmn (scb s))) payload 0 Senddata_cb s;
       if ret = 1 then Some s
       else Some (scb_update (\<lambda>b. b\<lparr>round_trip_first_frag := ts_clock s, sending := True\<rparr>) s)
     }
   }"

definition wait_restart_from_first :: "lower_layer \<Rightarrow> ts \<Rightarrow> ts option" where
  "wait_restart_from_first ll s = send_first_frag ll s"

text \<open>The callback of a fragment: the delay it took, and the timer for the next fragment.\<close>

definition measure_round_trip :: "ts \<Rightarrow> ts" where
  "measure_round_trip s =
     (if round_trip_first_frag (scb s) \<noteq> 0
      then scb_update (\<lambda>b. b\<lparr>round_trip_first_frag := ts_clock s - round_trip_first_frag b + 50\<rparr>) s else s)"

definition schedule_next_frag :: "ts \<Rightarrow> ts" where
  "schedule_next_frag s =
     (let s = (if transmission_aborted (scb s) = scb_session s
               then scb_update (\<lambda>b. b\<lparr>timer_btwn_2_frags := None\<rparr>) s
               else scb_update (\<lambda>b. b\<lparr>timer_btwn_2_frags := Some (15 + round_trip_first_frag b)\<rparr>)
                      (t2_sm_post_event EV_SEND_NEW_FRAG s))
      in scb_update (\<lambda>b. b\<lparr>round_trip_first_frag := 0\<rparr>) s)"

definition transport_service_senddata_cb :: "lower_layer \<Rightarrow> u8 \<Rightarrow> ts \<Rightarrow> ts option" where
  "transport_service_senddata_cb ll st s =
     (let s = measure_round_trip s
      in if flag_reply_frag_req (scb s)
         then reply_frag_req ll (scb_update (\<lambda>b. b\<lparr>flag_reply_frag_req := False\<rparr>) (t2_sm_post_event EV_SEND_NXT_MISS_FRAG s))
         else if flag_send_frag_wait (scb s)
         then send_frag_wait_cmd ll (scb_update (\<lambda>b. b\<lparr>flag_send_frag_wait := False\<rparr>) s)
         else Some (schedule_next_frag s))"

definition start_session :: "node_id \<Rightarrow> node_id \<Rightarrow> u16 \<Rightarrow> ts \<Rightarrow> ts" where
  "start_session src dst payload_len s =
     scb_update (\<lambda>b. b\<lparr>scb_cmn := (scb_cmn b)\<lparr>cb_source := src, cb_dest := dst\<rparr>, datagram_len := payload_len,
       sending := False, flag_replied_frag_req := False, transmission_aborted := 0x11,
       flag_send_frag_wait := False, flag_reply_frag_req := False, round_trip_first_frag := 0,
       flag_fc_timer_expired_once := 0, remaining_data_len := 0, current_dnode := ucast dst\<rparr>) s"

definition transport_service_send_data ::
  "lower_layer \<Rightarrow> node_id \<Rightarrow> node_id \<Rightarrow> u8 list \<Rightarrow> u16 \<Rightarrow> u16 \<Rightarrow> nat option \<Rightarrow> ts \<Rightarrow> (send_data_return_code \<times> ts) option" where
  "transport_service_send_data ll src dst payload payload_len max_frame_len c s =
     (let s = s\<lparr>on_send_complete_cb := c, max_fragment_size := max_frame_len - 7\<rparr>
      in if unat payload_len > PAYLOAD_SIZE_MAX then Some (TRANSPORT_SERVICE_WILL_OVERFLOW, s)
         else do {
           d \<leftarrow> write_bytes (datagram (scb s)) 0 payload (unat payload_len);
           let s = set_reset_timer (scb_update (\<lambda>b. b\<lparr>datagram := d\<rparr>) s);
           if is_transport_service_sending s then Some (TRANSPORT_SERVICE_BUSY, s)
           else if is_transport_service_receiving s then Some (TRANSPORT_SERVICE_BUSY, s)
           else let s = start_session src dst payload_len s in
             case current_state s of
               ST_IDLE \<Rightarrow> do {
                 s \<leftarrow> send_first_frag ll (t2_sm_post_event EV_START_SEND s);
                 Some (TRANSPORT_SERVICE_SEND_SUCCESS, s)
               }
             | ST_SEND_FRAG \<Rightarrow> do {
                 s \<leftarrow> send_first_frag ll (t2_sm_post_event EV_SEND_NEW_FRAG s);
                 Some (TRANSPORT_SERVICE_SEND_SUCCESS, s)
               }
             | _ \<Rightarrow> Some (TRANSPORT_SERVICE_BUSY, s)
         })"

section \<open>Receiving frames\<close>

text \<open>
  The commands of \<open>receive\<close>, over the first five bytes of \<^verbatim>\<open>rcb.fragment\<close>; the first component
  of the result is the returned truth value. An 11 bit size or offset takes three bits of one
  byte and the next byte.
\<close>

definition eleven_bits :: "u8 \<Rightarrow> u8 \<Rightarrow> u16" where
  "eleven_bits hi lo = push_bit 8 (ucast (hi AND 0x07)) + ucast lo"

definition session_nibble :: "u8 \<Rightarrow> u8" where
  "session_nibble b = drop_bit 4 (b AND 0xf0)"

definition abort_if_tie_broken :: "ts \<Rightarrow> ts" where
  "abort_if_tie_broken s = (if flag_tie_broken s then scb_update (\<lambda>b. b\<lparr>transmission_aborted := session_id (scb_cmn b)\<rparr>) s else s)"

definition frame_crc_ok :: "ts \<Rightarrow> bool" where
  "frame_crc_ok s \<longleftrightarrow> zwave_crc16 CRC16_INIT_VALUE (take (unat (fragment_len (rcb s))) (fragment (rcb s))) = 0"

definition receive_first :: "lower_layer \<Rightarrow> ts \<Rightarrow> (bool \<times> ts) option" where
  "receive_first ll s =
     (let byte1 = fragment (rcb s) ! 1; byte2 = fragment (rcb s) ! 2; byte3 = fragment (rcb s) ! 3;
          s = abort_if_tie_broken s;
          recvd_session_id = session_nibble byte3;
          datagram_size_tmp = eleven_bits byte1 byte2
      in if unat (fragment_len (rcb s)) \<le> FIRST_FRAG_NONPAYLOAD_LENGTH then Some (False, t2_sm_post_event EV_RECV_NEW_FRAG s)
         else if \<not> frame_crc_ok s then Some (False, t2_sm_post_event EV_RECV_NEW_FRAG s)
         else if recvd_session_id \<noteq> rcb_session s \<and> rcb_session s \<noteq> 0x10 then Some (False, t2_sm_post_event EV_DIFF_SESSION s)
         else if unat datagram_size_tmp > PAYLOAD_SIZE_MAX then Some (False, t2_sm_post_event EV_DIFF_SESSION s)
         else do {
           let s = emit (Expected_frames (cb_source (rcb_cmn (rcb s))) 1) s;
           let s = rcb_update (\<lambda>r. r\<lparr>rx_timer := Some FRAGMENT_RX_TIMEOUT,
                     rcb_cmn := (rcb_cmn r)\<lparr>session_id := recvd_session_id\<rparr>\<rparr>) s;
           if unat recvd_session_id < length (recv_frag_compl_list (rcb s))
           then do {
             let s = rcb_update (\<lambda>r. r\<lparr>recv_frag_compl_list := (recv_frag_compl_list r)[unat recvd_session_id := 0],
                       cur_recvd_data_size := fragment_len r - 6, datagram_size := datagram_size_tmp,
                       bytes_recvd_bitmask := replicate 26 0, current_snode := ucast (cb_source (rcb_cmn r))\<rparr>) s;
             d \<leftarrow> write_bytes (datagramData (rcb s)) 0 (drop FIRST_HDR_LEN (fragment (rcb s))) (unat (cur_recvd_data_size (rcb s)));
             (refused, s) \<leftarrow> mark_frag_received ll 0 (cur_recvd_data_size (rcb s)) (rcb_update (\<lambda>r. r\<lparr>datagramData := d\<rparr>) s);
             if refused then Some (False, s)
             else if ucast (cur_recvd_data_size (rcb s)) = datagram_size (rcb s)
             then do {
               s \<leftarrow> send_frag_complete_cmd ll (t2_sm_post_event EV_SEND_FRAG_COMPLETE s);
               Some (False, s)
             }
             else Some (False, rcb_update (\<lambda>r. r\<lparr>rx_data_state := False\<rparr>) s)
           }
           else Some (False, s)
         })"

definition receive_subsequent :: "lower_layer \<Rightarrow> ts \<Rightarrow> (bool \<times> ts) option" where
  "receive_subsequent ll s =
     (let byte1 = fragment (rcb s) ! 1; byte2 = fragment (rcb s) ! 2; byte3 = fragment (rcb s) ! 3; byte4 = fragment (rcb s) ! 4;
          s = abort_if_tie_broken s;
          recvd_session_id = session_nibble byte3;
          datagram_offset = eleven_bits byte3 byte4;
          datagram_size_tmp = eleven_bits byte1 byte2
      in if unat (fragment_len (rcb s)) \<le> SUBSEQ_FRAG_NONPAYLOAD_LENGTH then Some (False, t2_sm_post_event EV_RECV_NEW_FRAG s)
         else if \<not> frame_crc_ok s then Some (False, t2_sm_post_event EV_RECV_NEW_FRAG s)
         else do {
           completed \<leftarrow> read_cell (recv_frag_compl_list (rcb s)) (unat recvd_session_id);
           if completed = 1
           then Some (False, if current_state s = ST_RECEIVING then t2_sm_post_event EV_DUPL_FRAME s else s)
           else if recvd_session_id \<noteq> rcb_session s \<and> rcb_session s \<noteq> 0x10 then Some (False, t2_sm_post_event EV_DIFF_SESSION s)
           else do {
             let s = rcb_update (\<lambda>r. r\<lparr>cur_recvd_data_size := fragment_len r - 7\<rparr>) s;
             let end_pos = unat datagram_offset + unat (cur_recvd_data_size (rcb s));
             if unat datagram_offset > PAYLOAD_SIZE_MAX \<or> unat (cur_recvd_data_size (rcb s)) > PAYLOAD_SIZE_MAX \<or> end_pos > PAYLOAD_SIZE_MAX
             then Some (False, if current_state s = ST_RECEIVING then t2_sm_post_event EV_DUPL_FRAME s else s)
             else if unat datagram_size_tmp > PAYLOAD_SIZE_MAX then Some (False, t2_sm_post_event EV_DIFF_SESSION s)
             else do {
               let s = rcb_update (\<lambda>r. r\<lparr>rx_timer := Some FRAGMENT_RX_TIMEOUT\<rparr>) s;
               (refused, s) \<leftarrow> mark_frag_received ll datagram_offset (cur_recvd_data_size (rcb s)) s;
               if refused then Some (False, s)
               else do {
                 let s = rcb_update (\<lambda>r. r\<lparr>datagram_size := datagram_size_tmp\<rparr>) s;
                 let s = emit (Expected_frames (cb_source (rcb_cmn (rcb s))) (if pending_segments (rcb_cmn (rcb s)) > 0 then 1 else 0)) s;
                 if unat datagram_offset < PAYLOAD_SIZE_MAX \<and> end_pos < PAYLOAD_SIZE_MAX
                 then do {
                   d \<leftarrow> write_bytes (datagramData (rcb s)) (unat datagram_offset) (drop SUBSEQ_HDR_LEN (fragment (rcb s)))
                          (unat (cur_recvd_data_size (rcb s)));
                   let s = rcb_update (\<lambda>r. r\<lparr>datagramData := d\<rparr>) s;
                   if end_pos \<ge> unat (datagram_size (rcb s))
                   then do {
                     s \<leftarrow> find_missing ll (t2_sm_post_event EV_RECV_LAST_FRAG s);
                     Some (False, s)
                   }
                   else Some (False, rcb_update (\<lambda>r. r\<lparr>rx_data_state := False\<rparr>) s)
                 }
                 else Some (False, s)
               }
             }
           }
         })"

text \<open>SEGMENT REQUEST and SEGMENT COMPLETE are taken only for the current session and its destination.\<close>

definition refuse_reply :: "u8 \<Rightarrow> ts \<Rightarrow> transport2_ev option" where
  "refuse_reply recvd_session_id s =
     (if recvd_session_id = transmission_aborted (scb s) then Some EV_FRAG_REQ_COMPL_WAIT_DIFF_SESSION
      else if recvd_session_id \<noteq> scb_session s then Some EV_FRAG_REQ_COMPL_WAIT_DIFF_SESSION
      else if cb_source (rcb_cmn (rcb s)) \<noteq> ucast (current_dnode (scb s)) \<and> current_snode (rcb s) \<noteq> 0
      then Some EV_FRAG_REQ_COMPL_WAIT_DIFF_NODE
      else None)"

definition receive_request :: "lower_layer \<Rightarrow> ts \<Rightarrow> (bool \<times> ts) option" where
  "receive_request ll s =
     (let byte2 = fragment (rcb s) ! 2; byte3 = fragment (rcb s) ! 3;
          s = t2_sm_post_event EV_FRAG_REQ_OR_COMPL s
      in case refuse_reply (session_nibble byte2) s of
           Some ev \<Rightarrow> Some (False, t2_sm_post_event ev s)
         | None \<Rightarrow> do {
             let s = rcb_update (\<lambda>r. r\<lparr>fc_timer := None\<rparr>) s;
             let s = scb_update (\<lambda>b. b\<lparr>missing_offset := push_bit 8 (ucast (byte2 AND 0x7)) OR ucast byte3\<rparr>) s;
             let s = t2_sm_post_event EV_RECV_FRAG_REQ s;
             s \<leftarrow> (if sending (scb s) then Some (scb_update (\<lambda>b. b\<lparr>flag_reply_frag_req := True\<rparr>) s) else reply_frag_req ll s);
             Some (False, s)
           })"

definition receive_complete :: "ts \<Rightarrow> (bool \<times> ts) option" where
  "receive_complete s =
     (let recvd_session_id = session_nibble (fragment (rcb s) ! 2);
          s = t2_sm_post_event EV_FRAG_REQ_OR_COMPL s
      in case refuse_reply recvd_session_id s of
           Some ev \<Rightarrow> Some (False, t2_sm_post_event ev s)
         | None \<Rightarrow> do {
             let s = rcb_update (\<lambda>r. r\<lparr>fc_timer := None\<rparr>) s;
             s \<leftarrow> (if scb_session s = recvd_session_id
                   then do {
                     l \<leftarrow> write_cell (frag_compl_list (scb s)) (unat recvd_session_id) 1;
                     Some (send_complete 0 (scb_update (\<lambda>b. b\<lparr>frag_compl_list := l, current_dnode := 0\<rparr>) s))
                   }
                   else Some s);
             Some (False, t2_sm_post_event EV_RECV_FRAG_COMPL s)
           })"

definition receive_wait :: "lower_layer \<Rightarrow> ts \<Rightarrow> (bool \<times> ts) option" where
  "receive_wait ll s = do {
     let byte2 = fragment (rcb s) ! 2;
     completed \<leftarrow> read_cell (frag_compl_list (scb s)) (unat (scb_session s));
     if completed = 1 then Some (False, t2_sm_post_event EV_DUPL_FRAME s)
     else do {
       let s = t2_sm_post_event EV_RECV_FRAG_WAIT s;
       s \<leftarrow> transport_service_senddata_cb ll 1 (scb_update (\<lambda>b. b\<lparr>transmission_aborted := session_id (scb_cmn b)\<rparr>) s);
       let s = rcb_update (\<lambda>r. r\<lparr>rcb_cmn := (rcb_cmn r)\<lparr>pending_segments := byte2\<rparr>\<rparr>) s;
       Some (False, scb_update (\<lambda>b. b\<lparr>wait_restart_timer := Some (100 + 100 * ucast byte2)\<rparr>) s)
     }
   }"

text \<open>The header bytes are read from the memory of the fragment for every length; that memory has at least five bytes.\<close>

definition receive :: "lower_layer \<Rightarrow> ts \<Rightarrow> (bool \<times> ts) option" where
  "receive ll s =
     (if fragment (rcb s) ! 0 \<noteq> COMMAND_CLASS_TRANSPORT_SERVICE_V2 then Some (False, s)
      else let cmd = fragment (rcb s) ! 1 AND 0xf8
           in if cmd = COMMAND_FIRST_FRAGMENT then receive_first ll s
              else if cmd = COMMAND_SUBSEQUENT_FRAGMENT then receive_subsequent ll s
              else if cmd = COMMAND_SEGMENT_REQUEST_V2 then receive_request ll s
              else if cmd = COMMAND_SEGMENT_COMPLETE_V2 then receive_complete s
              else if cmd = COMMAND_SEGMENT_WAIT_V2 then receive_wait ll s
              else Some (False, s))"

text \<open>The tie break, when the node to which a datagram is being sent sends fragments itself.\<close>

definition tie_break :: "node_id \<Rightarrow> u8 list \<Rightarrow> ts \<Rightarrow> ts" where
  "tie_break src frame_data s =
     (if is_transport_service_sending s \<and> cb_dest (scb_cmn (scb s)) = src \<and> my_node_id s < src
      then let s = t2_sm_post_event EV_TIE_BREAK s;
               s = (if frame_data ! 1 \<noteq> COMMAND_SEGMENT_COMPLETE_V2 then send_complete 1 s else s)
           in s\<lparr>flag_tie_broken := True\<rparr>
      else s)"

definition third_node :: "node_id \<Rightarrow> ts \<Rightarrow> bool" where
  "third_node src s \<longleftrightarrow>
     (src \<noteq> ucast (current_snode (rcb s)) \<and> current_snode (rcb s) \<noteq> 0) \<or>
     (src \<noteq> ucast (current_dnode (scb s)) \<and> current_dnode (scb s) \<noteq> 0)"

definition initialize_once :: "ts \<Rightarrow> ts" where
  "initialize_once s =
     (if flag_initialize_once s
      then rcb_update (\<lambda>r. r\<lparr>rcb_cmn := \<lparr>cb_source = 0, cb_dest = 0, session_id = 0x10, pending_segments = 0\<rparr>,
             cur_recvd_data_size := 0, current_snode := 0, datagramData := replicate PAYLOAD_SIZE_MAX 0,
             bytes_recvd_bitmask := replicate 26 0\<rparr>) (s\<lparr>flag_initialize_once := False\<rparr>)
      else s)"

text \<open>The state in which a frame that is taken is processed.\<close>

definition accept_state :: "node_id \<Rightarrow> node_id \<Rightarrow> receive_type \<Rightarrow> u8 list \<Rightarrow> u8 \<Rightarrow> ts \<Rightarrow> ts" where
  "accept_state src dst rx_type frame_data frame_length s =
     (let s = (case current_state s of
                 ST_IDLE \<Rightarrow> t2_sm_post_event EV_START_RECV s
               | ST_RECEIVING \<Rightarrow> t2_sm_post_event EV_RECV_NEW_FRAG s
               | _ \<Rightarrow> s);
          s = initialize_once s
      in rcb_update (\<lambda>r. r\<lparr>fragment := frame_data, rcb_cmn := (rcb_cmn r)\<lparr>cb_source := src, cb_dest := dst\<rparr>,
           fragment_len := frame_length, rcb_rx_type := rx_type\<rparr>) s)"

text \<open>The rest of the handler, for frames of the node a session is held with.\<close>

definition accept_frame :: "lower_layer \<Rightarrow> node_id \<Rightarrow> node_id \<Rightarrow> receive_type \<Rightarrow> u8 list \<Rightarrow> u8 \<Rightarrow> ts \<Rightarrow> (bool \<times> ts) option" where
  "accept_frame ll src dst rx_type frame_data frame_length s =
     (if rcb_session s = 0x10 \<and> frame_data ! 1 AND 0xf8 = COMMAND_SUBSEQUENT_FRAGMENT
      then if unat (eleven_bits (frame_data ! 1) (frame_data ! 2)) > PAYLOAD_SIZE_MAX
           then Some (True, t2_sm_post_event EV_DIFF_SESSION s)
           else do {
             s \<leftarrow> queue_frag_wait ll (t2_sm_post_event EV_SUBSEQ_DIFF_SESSION s);
             Some (True, s)
           }
      else receive ll (accept_state src dst rx_type frame_data frame_length s))"

definition transport_service_command_handler ::
  "lower_layer \<Rightarrow> node_id \<Rightarrow> node_id \<Rightarrow> receive_type \<Rightarrow> u8 list \<Rightarrow> u8 \<Rightarrow> ts \<Rightarrow> (bool \<times> ts) option" where
  "transport_service_command_handler ll src dst rx_type frame_data frame_length s =
     (let s = tie_break src frame_data (set_reset_timer s)
      in if src = dst then Some (True, s)
         else if unat frame_length > PAYLOAD_SIZE_MAX then Some (True, s)
         else let s = scb_update (\<lambda>b. b\<lparr>frag_wait_source := dst, frag_wait_dest := src\<rparr>) s
              in if third_node src s \<and> rx_type = SINGLECAST
                 then if current_state s = ST_SEND_FRAG_WAIT then Some (False, s)
                      else do {
                        s \<leftarrow> queue_frag_wait ll (t2_sm_post_event EV_SCAST_DIFF_NODE s);
                        Some (False, s)
                      }
                 else if third_node src s \<and> rx_type = BROADCAST
                 then Some (True, t2_sm_post_event EV_BCAST_DIFF_NODE s)
                 else accept_frame ll src dst rx_type frame_data frame_length s)"

definition transport_service_on_frame_received ::
  "lower_layer \<Rightarrow> node_id \<Rightarrow> node_id \<Rightarrow> receive_type \<Rightarrow> u8 list \<Rightarrow> u8 \<Rightarrow> ts \<Rightarrow> (bool \<times> ts) option" where
  "transport_service_on_frame_received ll src dst rx_type frame_data frame_length s =
     transport_service_command_handler ll src dst rx_type frame_data frame_length s"

section \<open>Inputs\<close>

text \<open>
  What can happen to the component: a request to send, a received frame (the memory at the
  frame's address and its length), a callback of the lower layer, the expiry of a timer that
  runs, a reading of the clock. A timer fires once; its callback runs when it has been cleared.
\<close>

datatype ts_timer = Reset_timer | Wait_restart_timer | Timer_btwn_2_frags | Fc_timer | Rx_timer

datatype ts_input =
  Send_data node_id node_id "u8 list" u16 "nat option"
| Frame node_id node_id receive_type "u8 list" u8
| Tx_callback lower_callback u8
| Expire ts_timer
| Clock u64

definition expire :: "lower_layer \<Rightarrow> ts_timer \<Rightarrow> ts \<Rightarrow> ts option" where
  "expire ll t s =
     (case t of
        Reset_timer \<Rightarrow> if reset_timer (scb s) = None then Some s
                       else Some (reset_transport_service (scb_update (\<lambda>b. b\<lparr>reset_timer := None\<rparr>) s))
      | Wait_restart_timer \<Rightarrow> if wait_restart_timer (scb s) = None then Some s
                       else wait_restart_from_first ll (scb_update (\<lambda>b. b\<lparr>wait_restart_timer := None\<rparr>) s)
      | Timer_btwn_2_frags \<Rightarrow> if timer_btwn_2_frags (scb s) = None then Some s
                       else send_subseq_frag ll (scb_update (\<lambda>b. b\<lparr>timer_btwn_2_frags := None\<rparr>) s)
      | Fc_timer \<Rightarrow> if fc_timer (rcb s) = None then Some s
                       else fc_timer_expired ll (rcb_update (\<lambda>r. r\<lparr>fc_timer := None\<rparr>) s)
      | Rx_timer \<Rightarrow> if rx_timer (rcb s) = None then Some s
                       else rx_timer_expired ll (rcb_update (\<lambda>r. r\<lparr>rx_timer := None\<rparr>) s))"

definition ts_step :: "lower_layer \<Rightarrow> ts_input \<Rightarrow> ts \<Rightarrow> ts option" where
  "ts_step ll i s =
     (case i of
        Send_data src dst payload max_frame_len c \<Rightarrow>
          map_option snd (transport_service_send_data ll src dst payload (of_nat (length payload)) max_frame_len c s)
      | Frame src dst rx_type frame_data frame_length \<Rightarrow>
          map_option snd (transport_service_on_frame_received ll src dst rx_type frame_data frame_length s)
      | Tx_callback cb st \<Rightarrow>
          (case cb of No_callback \<Rightarrow> Some s | Senddata_cb \<Rightarrow> transport_service_senddata_cb ll st s
           | Last_frag_cb \<Rightarrow> temp_callback_last_frag ll st s | Reply_frag_req_cb \<Rightarrow> Some (temp_callback_reply_frag_req st s))
      | Expire t \<Rightarrow> expire ll t s
      | Clock t \<Rightarrow> Some (s\<lparr>ts_clock := t\<rparr>))"

fun ts_run :: "lower_layer \<Rightarrow> ts_input list \<Rightarrow> ts \<Rightarrow> ts option" where
  "ts_run ll [] s = Some s"
| "ts_run ll (i # is) s = (case ts_step ll i s of None \<Rightarrow> None | Some s' \<Rightarrow> ts_run ll is s')"

end
