(* ===== verification/Transport_Service_Safety.thy ===== *)
theory Transport_Service_Safety
  imports Transport_Service
begin

text \<open>
  Memory safety of the Transport Service: the sizes of its buffers and the relations between its
  lengths and offsets are an invariant of every history, and an input makes the code read or
  write outside a buffer or divide by zero only in the three situations \<open>ts_hazard\<close> names, each
  of which is shown to be reachable from a freshly started controller.
\<close>

section \<open>Reasoning about results\<close>

lemma returns_tx_bytes: "returns Q (tx_bytes n s) \<longleftrightarrow> n \<le> length (t2_txBuf s) \<and> Q (take n (t2_txBuf s))"
  by (simp add: tx_bytes_def)

lemma returns_segments: "returns Q (segments a b) \<longleftrightarrow> b \<noteq> 0 \<and> Q (if a mod b \<noteq> 0 then ucast (a div b) + 1 else ucast (a div b))"
  by (simp add: segments_def)

lemmas returns_memory = returns_cells returns_tx_bytes returns_segments

lemma add_crc_length: "len + 2 \<le> length buf \<Longrightarrow> returns (\<lambda>b. length b = length buf) (add_crc buf len)"
  by (simp add: add_crc_def Let_def crc16_bytes_def write_bytes_length)

section \<open>What the small operations leave alone\<close>

lemma post_event_sel [simp]:
  "scb (t2_sm_post_event ev s) = scb s" "rcb (t2_sm_post_event ev s) = rcb s"
  "max_fragment_size (t2_sm_post_event ev s) = max_fragment_size s"
  "flag_initialize_once (t2_sm_post_event ev s) = flag_initialize_once s"
  "flag_tie_broken (t2_sm_post_event ev s) = flag_tie_broken s"
  "t2_txBuf (t2_sm_post_event ev s) = t2_txBuf s" "out (t2_sm_post_event ev s) = out s"
  "on_send_complete_cb (t2_sm_post_event ev s) = on_send_complete_cb s"
  "my_node_id (t2_sm_post_event ev s) = my_node_id s" "ts_clock (t2_sm_post_event ev s) = ts_clock s"
  "offset_to_request (t2_sm_post_event ev s) = offset_to_request s"
  by (simp_all add: t2_sm_post_event_def Let_def)

lemma emit_sel [simp]:
  "scb (emit x s) = scb s" "rcb (emit x s) = rcb s" "max_fragment_size (emit x s) = max_fragment_size s"
  "flag_initialize_once (emit x s) = flag_initialize_once s" "flag_tie_broken (emit x s) = flag_tie_broken s"
  "t2_txBuf (emit x s) = t2_txBuf s" "out (emit x s) = out s @ [x]" "current_state (emit x s) = current_state s"
  "on_send_complete_cb (emit x s) = on_send_complete_cb s" "my_node_id (emit x s) = my_node_id s"
  "ts_clock (emit x s) = ts_clock s" "offset_to_request (emit x s) = offset_to_request s"
  by (simp_all add: emit_def)

lemma send_complete_sel [simp]:
  "scb (send_complete st s) = scb s" "rcb (send_complete st s) = rcb s"
  "max_fragment_size (send_complete st s) = max_fragment_size s"
  "flag_initialize_once (send_complete st s) = flag_initialize_once s"
  "flag_tie_broken (send_complete st s) = flag_tie_broken s"
  "t2_txBuf (send_complete st s) = t2_txBuf s" "current_state (send_complete st s) = current_state s"
  "my_node_id (send_complete st s) = my_node_id s"
  by (simp_all add: send_complete_def split: option.splits)

lemma lower_layer_send_data_eq:
  "lower_layer_send_data ll a b p n cb s = (ll (out s @ [Sent a b p n cb]), emit (Sent a b p n cb) s)"
  by (simp add: lower_layer_send_data_def Let_def)

section \<open>The invariant\<close>

definition scb_ok :: "u16 \<Rightarrow> sending_cntrl_blk \<Rightarrow> bool" where
  "scb_ok max_frag b \<longleftrightarrow>
     length (datagram b) = 200 \<and> length (frag_compl_list b) = 15 \<and> session_id (scb_cmn b) = 0 \<and>
     unat (datagram_len b) \<le> 200 \<and> unat (remaining_data_len b) \<le> unat (datagram_len b) \<and>
     unat (datalen_to_send b) \<le> 200 \<and> (datagram_len b \<noteq> 0 \<longrightarrow> max_frag \<noteq> 0)"

definition rcb_ok :: "bool \<Rightarrow> receiving_cntrl_blk \<Rightarrow> bool" where
  "rcb_ok init r \<longleftrightarrow>
     length (recv_frag_compl_list r) = 16 \<and> length (datagramData r) = 200 \<and> length (bytes_recvd_bitmask r) = 26 \<and>
     unat (datagram_size r) \<le> 200 \<and> (init \<or> session_id (rcb_cmn r) = 0x10 \<or> cur_recvd_data_size r \<noteq> 0)"

definition ts_inv :: "ts \<Rightarrow> bool" where
  "ts_inv s \<longleftrightarrow> scb_ok (max_fragment_size s) (scb s) \<and> rcb_ok (flag_initialize_once s) (rcb s) \<and> length (t2_txBuf s) = 207"

lemma ts_inv_simps [simp]:
  "ts_inv (t2_sm_post_event ev s) = ts_inv s" "ts_inv (emit x s) = ts_inv s" "ts_inv (send_complete st s) = ts_inv s"
  "ts_inv (set_reset_timer s) = ts_inv s" "ts_inv (s\<lparr>ts_clock := t\<rparr>) = ts_inv s" "ts_inv (s\<lparr>offset_to_request := y\<rparr>) = ts_inv s"
  "ts_inv (s\<lparr>flag_tie_broken := b\<rparr>) = ts_inv s" "ts_inv (s\<lparr>current_state := st'\<rparr>) = ts_inv s"
  by (simp_all add: ts_inv_def set_reset_timer_def scb_ok_def)

lemma set_reset_timer_sel [simp]:
  "rcb (set_reset_timer s) = rcb s" "sending (scb (set_reset_timer s)) = sending (scb s)"
  "current_state (set_reset_timer s) = current_state s" "out (set_reset_timer s) = out s"
  "t2_txBuf (set_reset_timer s) = t2_txBuf s" "max_fragment_size (set_reset_timer s) = max_fragment_size s"
  "flag_initialize_once (set_reset_timer s) = flag_initialize_once s" "my_node_id (set_reset_timer s) = my_node_id s"
  "on_send_complete_cb (set_reset_timer s) = on_send_complete_cb s" "scb_ok m (scb (set_reset_timer s)) = scb_ok m (scb s)"
  by (simp_all add: set_reset_timer_def scb_ok_def)

lemma ts_inv_start: "ts_inv (transport_service_init node ts_start)"
  by (simp add: ts_inv_def ts_start_def transport_service_init_def scb_ok_def rcb_ok_def Let_def)

lemma ts_inv_discard [simp]: "ts_inv s \<Longrightarrow> ts_inv (discard_all_received_fragments s)"
  by (simp add: ts_inv_def discard_all_received_fragments_def rcb_ok_def)

lemma ts_inv_reset: "ts_inv s \<Longrightarrow> ts_inv (reset_transport_service s)"
  by (simp add: reset_transport_service_def Let_def ts_inv_def discard_all_received_fragments_def rcb_ok_def scb_ok_def)

lemma ts_inv_frame [simp]:
  "ts_inv s \<Longrightarrow> ts_inv (rcb_update (\<lambda>r. r\<lparr>rx_timer := t\<rparr>) s)"
  "ts_inv s \<Longrightarrow> ts_inv (rcb_update (\<lambda>r. r\<lparr>fc_timer := t\<rparr>) s)"
  "ts_inv s \<Longrightarrow> ts_inv (rcb_update (\<lambda>r. r\<lparr>rx_data_state := b\<rparr>) s)"
  "ts_inv s \<Longrightarrow> ts_inv (scb_update (\<lambda>b. b\<lparr>flag_send_frag_wait := f\<rparr>) s)"
  "ts_inv s \<Longrightarrow> ts_inv (scb_update (\<lambda>b. b\<lparr>flag_reply_frag_req := f\<rparr>) s)"
  "ts_inv s \<Longrightarrow> ts_inv (scb_update (\<lambda>b. b\<lparr>flag_replied_frag_req := f\<rparr>) s)"
  "ts_inv s \<Longrightarrow> ts_inv (scb_update (\<lambda>b. b\<lparr>does_not_fit_in_first_frag := f\<rparr>) s)"
  "ts_inv s \<Longrightarrow> ts_inv (scb_update (\<lambda>b. b\<lparr>reset_timer := t\<rparr>) s)"
  "ts_inv s \<Longrightarrow> ts_inv (scb_update (\<lambda>b. b\<lparr>wait_restart_timer := t\<rparr>) s)"
  "ts_inv s \<Longrightarrow> ts_inv (scb_update (\<lambda>b. b\<lparr>timer_btwn_2_frags := t\<rparr>) s)"
  "ts_inv s \<Longrightarrow> ts_inv (scb_update (\<lambda>b. b\<lparr>transmission_aborted := a\<rparr>) s)"
  "ts_inv s \<Longrightarrow> ts_inv (scb_update (\<lambda>b. b\<lparr>frag_wait_source := n, frag_wait_dest := n'\<rparr>) s)"
  by (simp_all add: ts_inv_def scb_ok_def rcb_ok_def)

section \<open>Every operation keeps the invariant\<close>

text \<open>When \<open>send_frag_wait_cmd\<close> divides by zero.\<close>

definition wait_hazard :: "ts \<Rightarrow> bool" where
  "wait_hazard s \<longleftrightarrow> flag_initialize_once s \<and> \<not> sending (scb s) \<and> rcb_session s \<noteq> 0x10 \<and> cur_recvd_data_size (rcb s) = 0"

lemma u8_ucast_0 [simp]: "(ucast (x :: u8) :: u16) = 0 \<longleftrightarrow> x = 0"
  by transfer (simp add: take_bit_take_bit)

lemma ts_inv_pending [simp]:
  "ts_inv s \<Longrightarrow> ts_inv (rcb_update (\<lambda>r. r\<lparr>rcb_cmn := (rcb_cmn r)\<lparr>pending_segments := n\<rparr>\<rparr>) s)"
  "ts_inv s \<Longrightarrow> ts_inv (scb_update (\<lambda>b. b\<lparr>scb_cmn := (scb_cmn b)\<lparr>pending_segments := n\<rparr>\<rparr>) s)"
  by (simp_all add: ts_inv_def scb_ok_def rcb_ok_def)

lemma ts_inv_wait:
  "ts_inv s \<Longrightarrow> \<not> wait_hazard s \<Longrightarrow> \<not> sending (scb s) \<Longrightarrow> rcb_session s \<noteq> 0x10 \<Longrightarrow> cur_recvd_data_size (rcb s) \<noteq> 0"
  by (auto simp: ts_inv_def rcb_ok_def wait_hazard_def)

lemma send_frag_wait_inv:
  assumes "ts_inv s" and "\<not> wait_hazard s"
  shows "returns ts_inv (send_frag_wait_cmd ll s)"
proof (cases "sending (scb s)")
  case False
  show ?thesis
  proof (cases "rcb_session s = 0x10")
    case True
    with False assms show ?thesis by (simp add: send_frag_wait_cmd_def Let_def lower_layer_send_data_eq)
  next
    case ns: False
    then have "cur_recvd_data_size (rcb s) \<noteq> 0" using ts_inv_wait [OF assms False] by simp
    with ns False assms show ?thesis
      by (simp add: send_frag_wait_cmd_def Let_def lower_layer_send_data_eq returns_memory)
  qed
qed (use assms in \<open>simp add: send_frag_wait_cmd_def Let_def lower_layer_send_data_eq\<close>)

lemma queue_frag_wait_inv:
  "ts_inv s \<Longrightarrow> \<not> wait_hazard s \<Longrightarrow> returns ts_inv (queue_frag_wait ll s)"
  by (simp add: queue_frag_wait_def send_frag_wait_inv)

lemma mark_loop_length: "i \<le> 201 \<Longrightarrow> length bm = 26 \<Longrightarrow> returns (\<lambda>b. length b = 26) (mark_loop i end_pos bm)"
proof (induction i end_pos bm rule: mark_loop.induct)
  case (1 i end_pos bm)
  show ?case
  proof (cases "i < end_pos \<and> i \<le> 200")
    case True
    have "returns (\<lambda>b. length b = 26) (mark_loop (i + 1) end_pos (bm[i div 8 := bm ! (i div 8) OR push_bit (i mod 8) 1]))"
      using True "1.prems" by (intro "1.IH" [of "bm ! (i div 8)"]) (auto simp: read_cell_def write_cell_def)
    then show ?thesis using True "1.prems" by (subst mark_loop.simps) (auto simp: returns_memory)
  qed (use "1.prems" in \<open>subst mark_loop.simps, auto simp: returns_memory\<close>)
qed

lemma mark_frag_received_inv:
  assumes "ts_inv s" and "unat offset \<le> 200" and "\<not> flag_initialize_once s"
  shows "returns (\<lambda>(b, s'). ts_inv s' \<and> (\<not> b \<longrightarrow> (\<exists>bm. s' = rcb_update (\<lambda>r. r\<lparr>bytes_recvd_bitmask := bm\<rparr>) s)))
           (mark_frag_received ll offset len s)"
proof -
  let ?P = "\<lambda>(b, s'). ts_inv s' \<and> (\<not> b \<longrightarrow> (\<exists>bm. s' = rcb_update (\<lambda>r. r\<lparr>bytes_recvd_bitmask := bm\<rparr>) s))"
  have "\<not> wait_hazard (t2_sm_post_event EV_SUBSEQ_DIFF_SESSION s)" using assms(3) by (simp add: wait_hazard_def)
  then have wait: "returns ts_inv (queue_frag_wait ll (t2_sm_post_event EV_SUBSEQ_DIFF_SESSION s))"
    using assms(1) by (simp add: queue_frag_wait_inv)
  have len: "length (bytes_recvd_bitmask (rcb s)) = 26" using assms(1) by (simp add: ts_inv_def rcb_ok_def)
  have "returns (\<lambda>b. length b = 26) (mark_loop (unat offset) (unat offset + unat len) (bytes_recvd_bitmask (rcb s)))"
    using assms(2) len by (intro mark_loop_length) auto
  then have mark: "returns (\<lambda>bm. ?P (False, rcb_update (\<lambda>r. r\<lparr>bytes_recvd_bitmask := bm\<rparr>) s))
      (mark_loop (unat offset) (unat offset + unat len) (bytes_recvd_bitmask (rcb s)))"
    using assms(1) by (elim returns_mono) (auto simp: ts_inv_def rcb_ok_def)
  show ?thesis using wait mark by (auto simp: mark_frag_received_def elim: returns_mono)
qed

lemma send_frag_complete_inv: "ts_inv s \<Longrightarrow> returns ts_inv (send_frag_complete_cmd ll s)"
proof (cases "rcb_session s > 0x0f")
  case False
  then have "unat (rcb_session s) < 16" by (simp add: word_le_nat_alt not_less)
  moreover assume "ts_inv s"
  ultimately show ?thesis
    by (simp add: send_frag_complete_cmd_def Let_def lower_layer_send_data_eq returns_memory ts_inv_def rcb_ok_def)
qed (simp add: send_frag_complete_cmd_def)

lemma get_next_missing_offset_cong [simp]:
  "get_next_missing_offset (t2_sm_post_event ev s) = get_next_missing_offset s"
  "get_next_missing_offset (emit x s) = get_next_missing_offset s"
  "get_next_missing_offset (rcb_update (\<lambda>r. r\<lparr>rx_timer := t\<rparr>) s) = get_next_missing_offset s"
  "get_next_missing_offset (rcb_update (\<lambda>r. r\<lparr>rx_data_state := b\<rparr>) s) = get_next_missing_offset s"
  "get_next_missing_offset (s\<lparr>t2_txBuf := buf\<rparr>) = get_next_missing_offset s"
  "get_next_missing_offset (s\<lparr>offset_to_request := y\<rparr>) = get_next_missing_offset s"
  by (simp_all add: get_next_missing_offset_def)

text \<open>The request for a fragment is sent at most twice and the recursion is not reached.\<close>

lemma send_frag_req_loop_inv:
  assumes "ts_inv s" and "rx_data_state (rcb s)" and "get_next_missing_offset s \<noteq> 0"
  shows "returns ts_inv (send_frag_req_loop ll 2 0 s)"
proof -
  have l: "length (t2_txBuf s) = 207" using assms(1) by (simp add: ts_inv_def)
  show ?thesis
    using assms l by (simp add: numeral_2_eq_2 lower_layer_send_data_eq returns_memory rx_timer_expired_with_def Let_def)
qed

lemma send_frag_req_inv: "ts_inv s \<Longrightarrow> returns ts_inv (send_frag_req_cmd ll s)"
proof (cases "get_next_missing_offset s = 0 \<or> rcb_session s > 0x0f")
  case True
  assume "ts_inv s"
  with True show ?thesis by (auto simp: send_frag_req_cmd_def Let_def)
next
  case False
  assume inv: "ts_inv s"
  then have l: "length (t2_txBuf s) = 207" by (simp add: ts_inv_def)
  have base: "returns ts_inv (send_frag_req_loop ll 2 0 (rcb_update (\<lambda>r. r\<lparr>rx_data_state := True\<rparr>) (s\<lparr>offset_to_request := y, t2_txBuf := b\<rparr>)))"
    if "length b = 207" for y b
    using inv False that by (intro send_frag_req_loop_inv) (auto simp: ts_inv_def scb_ok_def rcb_ok_def get_next_missing_offset_def)
  have loop: "returns (\<lambda>x. ts_inv (rcb_update (\<lambda>r. r\<lparr>rx_timer := Some FRAGMENT_RX_TIMEOUT\<rparr>) (t2_sm_post_event EV_SUCCESS x)))
      (send_frag_req_loop ll 2 0 (rcb_update (\<lambda>r. r\<lparr>rx_data_state := True\<rparr>) (s\<lparr>offset_to_request := y, t2_txBuf := b\<rparr>)))"
    if "length b = 207" for y b
    by (rule returns_mono [OF base [OF that]]) simp
  show ?thesis
    unfolding send_frag_req_cmd_def Let_def using False l
    by (simp del: returns_simps(3)) (intro returns_bindI [OF write_bytes_length], simp_all add: loop)
qed

lemma find_missing_inv: "ts_inv s \<Longrightarrow> returns ts_inv (find_missing ll s)"
  by (simp add: find_missing_def send_frag_req_inv send_frag_complete_inv)

lemma rx_timer_expired_inv: "ts_inv s \<Longrightarrow> returns ts_inv (rx_timer_expired ll s)"
  by (simp add: rx_timer_expired_def rx_timer_expired_with_def Let_def find_missing_inv)

text \<open>A fragment of at most 200 bytes from inside the datagram fits the transmit buffer.\<close>

lemma put_fragment_inv:
  assumes "ts_inv s" and "length header \<le> 5" and "offset + unat (datalen_to_send (scb s)) \<le> 200"
  shows "returns (\<lambda>s'. \<exists>b. s' = s\<lparr>t2_txBuf := b\<rparr> \<and> length b = 207) (put_fragment header offset s)"
proof -
  have l: "length (t2_txBuf s) = 207" "length (datagram (scb s)) = 200" using assms(1) by (simp_all add: ts_inv_def scb_ok_def)
  show ?thesis
    unfolding put_fragment_def using assms(2,3) l
    by (intro returns_bindI [OF write_bytes_length] returns_bindI [OF add_crc_length]) auto
qed

lemma ts_inv_txBuf: "ts_inv s \<Longrightarrow> length b = 207 \<Longrightarrow> ts_inv (s\<lparr>t2_txBuf := b\<rparr>)"
  by (simp add: ts_inv_def)

lemma send_last_frag_inv:
  assumes "ts_inv s"
  shows "returns ts_inv (send_last_frag ll s)"
proof -
  have "unat (datalen_to_send (scb s)) \<le> 200" "length (t2_txBuf s) = 207" using assms by (simp_all add: ts_inv_def scb_ok_def)
  moreover have "ts_inv (scb_update (\<lambda>b. b\<lparr>sending := False, scb_cmn := (scb_cmn b)\<lparr>pending_segments := 0\<rparr>\<rparr>)
      (rcb_update (\<lambda>r. r\<lparr>fc_timer := None\<rparr>) s))"
    using assms by (simp add: ts_inv_def scb_ok_def rcb_ok_def)
  moreover have "ts_inv s' \<Longrightarrow> ts_inv (scb_update (\<lambda>b. b\<lparr>flag_fc_timer_expired_once := flag_fc_timer_expired_once b + 1\<rparr>) s')" for s'
    by (simp add: ts_inv_def scb_ok_def)
  ultimately show ?thesis
    unfolding send_last_frag_def by (simp add: Let_def lower_layer_send_data_eq returns_memory)
qed

lemma ts_inv_fc_count [simp]:
  "ts_inv s \<Longrightarrow> ts_inv (scb_update (\<lambda>b. b\<lparr>flag_fc_timer_expired_once := flag_fc_timer_expired_once b + 1\<rparr>) s)"
  by (simp add: ts_inv_def scb_ok_def)

lemma temp_callback_last_frag_inv: "ts_inv s \<Longrightarrow> returns ts_inv (temp_callback_last_frag ll st s)"
  by (simp add: temp_callback_last_frag_def send_last_frag_inv)

lemma fc_timer_expired_inv: "ts_inv s \<Longrightarrow> returns ts_inv (fc_timer_expired ll s)"
proof -
  assume inv: "ts_inv s"
  then have "ts_inv (scb_update (\<lambda>b. b\<lparr>transmission_aborted := session_id (scb_cmn b), flag_replied_frag_req := False, current_dnode := 0\<rparr>) s)"
    "ts_inv (scb_update (\<lambda>b. b\<lparr>flag_fc_timer_expired_once := 0, current_dnode := 0\<rparr>) s)"
    by (simp_all add: ts_inv_def scb_ok_def)
  with inv show ?thesis by (simp add: fc_timer_expired_def Let_def send_last_frag_inv)
qed

lemma unat_u16_diff: "(b :: u16) \<le> a \<Longrightarrow> unat (a - b) = unat a - unat b"
  by (rule unat_sub)

lemma subseq_chosen_inv:
  assumes "ts_inv s"
  shows "ts_inv (subseq_chosen s)" "unat (datalen_to_send (scb (subseq_chosen s))) \<le> unat (remaining_data_len (scb (subseq_chosen s)))"
    "max_fragment_size (subseq_chosen s) \<le> remaining_data_len (scb (subseq_chosen s)) \<Longrightarrow>
       datalen_to_send (scb (subseq_chosen s)) = max_fragment_size (subseq_chosen s)"
proof -
  show "ts_inv (subseq_chosen s)" "unat (datalen_to_send (scb (subseq_chosen s))) \<le> unat (remaining_data_len (scb (subseq_chosen s)))"
    using assms by (auto simp: subseq_chosen_def Let_def ts_inv_def scb_ok_def rcb_ok_def word_le_nat_alt)
qed (simp add: subseq_chosen_def Let_def)

lemma subseq_last_inv:
  "ts_inv s \<Longrightarrow> returns ts_inv (send_last_frag ll (t2_sm_post_event ev (scb_update (\<lambda>b. b\<lparr>does_not_fit_in_first_frag := d\<rparr>) s)))"
  by (rule send_last_frag_inv) simp

lemma send_subseq_not_last_inv:
  assumes "ts_inv s" and "max_fragment_size s < remaining_data_len (scb s)" and "datalen_to_send (scb s) = max_fragment_size s"
  shows "returns ts_inv (send_subseq_not_last ll s)"
proof -
  let ?s = "scb_update (\<lambda>b. b\<lparr>remaining_data_len := remaining_data_len b - datalen_to_send b\<rparr>) (set_reset_timer s)"
  have r: "unat (remaining_data_len (scb s) - max_fragment_size s) = unat (remaining_data_len (scb s)) - unat (max_fragment_size s)"
    using assms(2) by (intro unat_u16_diff) simp
  have l: "unat (datalen_to_send (scb s)) \<le> 200" "length (t2_txBuf s) = 207" "datagram_len (scb s) \<noteq> 0" "max_fragment_size s \<noteq> 0"
    using assms(1,2) by (auto simp: ts_inv_def scb_ok_def word_less_nat_alt)
  have inv: "ts_inv ?s" using assms r by (auto simp: ts_inv_def scb_ok_def set_reset_timer_def)
  have inv2: "ts_inv (scb_update (\<lambda>b. b\<lparr>remaining_data_len := remaining_data_len b - m\<rparr>) s')"
    if "ts_inv s'" "m \<le> remaining_data_len (scb s')" for s' m
    using that unat_u16_diff [OF that(2)] by (auto simp: ts_inv_def scb_ok_def)
  show ?thesis
    unfolding send_subseq_not_last_def Let_def using inv l assms(3)
    by (simp add: lower_layer_send_data_eq returns_memory set_reset_timer_def inv2 [simplified])
qed

lemma send_subseq_frag_inv:
  assumes "ts_inv s"
  shows "returns ts_inv (send_subseq_frag ll s)"
proof -
  let ?c = "subseq_chosen s"
  let ?o = "scb_update (\<lambda>b. b\<lparr>scb_offset := datagram_len b - remaining_data_len b\<rparr>) ?c"
  note c = subseq_chosen_inv [OF assms]
  have inv: "ts_inv ?o" using c(1) by (simp add: ts_inv_def scb_ok_def)
  have s0: "scb_session ?c = 0" "length (frag_compl_list (scb ?c)) = 15" "unat (datagram_len (scb ?c)) \<le> 200"
    "unat (remaining_data_len (scb ?c)) \<le> unat (datagram_len (scb ?c))"
    using c(1) by (simp_all add: ts_inv_def scb_ok_def)
  then have "unat (scb_offset (scb ?o)) + unat (datalen_to_send (scb ?o)) \<le> 200"
    using c(2) unat_u16_diff [of "remaining_data_len (scb ?c)" "datagram_len (scb ?c)"] by (simp add: word_le_nat_alt)
  then have put: "returns (\<lambda>s'. \<exists>b. s' = ?o\<lparr>t2_txBuf := b\<rparr> \<and> length b = 207)
      (put_fragment (subseq_header (datagram_len (scb ?o)) (scb_session ?o) (scb_offset (scb ?o))) (unat (scb_offset (scb ?o))) ?o)"
    by (intro put_fragment_inv [OF inv]) (simp_all add: subseq_header_def)
  have rest: "returns ts_inv (if remaining_data_len (scb s') \<le> max_fragment_size s'
      then send_last_frag ll (t2_sm_post_event EV_SEND_LAST_FRAG (scb_update (\<lambda>b. b\<lparr>does_not_fit_in_first_frag := True\<rparr>) s'))
      else send_subseq_not_last ll s')" if "\<exists>b. s' = ?o\<lparr>t2_txBuf := b\<rparr> \<and> length b = 207" for s'
    using that inv c(3) by (auto intro!: subseq_last_inv send_subseq_not_last_inv ts_inv_txBuf)
  show ?thesis
    unfolding send_subseq_frag_def Let_def
  proof (rule returns_bindI)
    show "returns (\<lambda>_. True) (read_cell (frag_compl_list (scb ?c)) (unat (scb_session ?c)))" using s0 by (simp add: returns_read_cell)
  qed (intro returns_ifI returns_SomeI c(1) returns_bindI [OF put rest])
qed

text \<open>When \<open>reply_frag_req\<close> copies from outside the datagram.\<close>

definition reply_hazard :: "ts \<Rightarrow> bool" where
  "reply_hazard s \<longleftrightarrow> frag_compl_list (scb s) ! 0 \<noteq> 1 \<and> unat (datagram_len (scb s)) < unat (missing_offset (scb s))"

lemma reply_chosen_inv:
  assumes "ts_inv s" and "unat (missing_offset (scb s)) \<le> unat (datagram_len (scb s))"
  shows "ts_inv (reply_chosen s)" "unat (missing_offset (scb (reply_chosen s))) + unat (datalen_to_send (scb (reply_chosen s))) \<le> 200"
proof -
  have d: "unat (datagram_len (scb s) - missing_offset (scb s)) = unat (datagram_len (scb s)) - unat (missing_offset (scb s))"
    using assms(2) by (intro unat_u16_diff) (simp add: word_le_nat_alt)
  show "ts_inv (reply_chosen s)" "unat (missing_offset (scb (reply_chosen s))) + unat (datalen_to_send (scb (reply_chosen s))) \<le> 200"
    using assms d by (auto simp: reply_chosen_def Let_def ts_inv_def scb_ok_def)
qed

lemma reply_frag_req_inv:
  assumes "ts_inv s" and "\<not> reply_hazard s"
  shows "returns ts_inv (reply_frag_req ll s)"
proof (cases "frag_compl_list (scb s) ! 0 = 1")
  case True
  with assms(1) show ?thesis by (simp add: reply_frag_req_def returns_read_cell ts_inv_def scb_ok_def)
next
  case False
  let ?c = "reply_chosen s"
  have "unat (missing_offset (scb s)) \<le> unat (datagram_len (scb s))" using assms(2) False by (simp add: reply_hazard_def)
  note c = reply_chosen_inv [OF assms(1) this]
  have put: "returns (\<lambda>s'. \<exists>b. s' = ?c\<lparr>t2_txBuf := b\<rparr> \<and> length b = 207)
      (put_fragment (subseq_header (datagram_len (scb ?c)) (scb_session ?c) (missing_offset (scb ?c))) (unat (missing_offset (scb ?c))) ?c)"
    using c by (intro put_fragment_inv) (simp_all add: subseq_header_def)
  have t: "returns (\<lambda>_. True) (tx_bytes (7 + unat (datalen_to_send (scb s'))) s')" if "ts_inv s'" for s'
    using that by (simp add: returns_memory ts_inv_def scb_ok_def)
  show ?thesis
    unfolding reply_frag_req_def Let_def lower_layer_send_data_eq prod.case
  proof (rule returns_bindI)
    show "returns (\<lambda>_. True) (read_cell (frag_compl_list (scb s)) (unat (scb_session s)))"
      using assms(1) by (simp add: returns_read_cell ts_inv_def scb_ok_def)
  qed (intro returns_ifI returns_SomeI assms(1) returns_bindI [OF put] returns_bindI [OF t] send_last_frag_inv;
       use c(1) in \<open>auto intro!: ts_inv_txBuf ts_inv_frame\<close>)
qed

lemma reply_frag_req_None:
  assumes "ts_inv s" and "reply_hazard s"
  shows "reply_frag_req ll s = None"
proof -
  let ?c = "reply_chosen s" and ?m = "missing_offset (scb s)" and ?n = "datagram_len (scb s)"
  have m: "unat ?n < unat ?m" "\<not> frag_compl_list (scb s) ! 0 = 1" using assms(2) by (simp_all add: reply_hazard_def)
  have c: "datalen_to_send (scb ?c) = ?n - ?m" "datagram (scb ?c) = datagram (scb s)" "missing_offset (scb ?c) = ?m"
    using m by (auto simp: reply_chosen_def Let_def)
  have "unat (?n - ?m) = (65536 + unat ?n) - unat ?m"
    using m(1) unat_u16_bound [of ?m] by (simp add: unat_sub_if_size word_size word_le_nat_alt not_le)
  moreover have "unat ?m < 65536" by simp
  moreover have "length (drop (unat ?m) (datagram (scb s))) = 200 - unat ?m" using assms(1) by (simp add: ts_inv_def scb_ok_def)
  ultimately have "\<not> unat (?n - ?m) \<le> length (drop (unat ?m) (datagram (scb s)))" by linarith
  then have "put_fragment h (unat (missing_offset (scb ?c))) ?c = None" for h
    unfolding put_fragment_def c write_bytes_def by (auto split: bind_splits)
  then show ?thesis
    using assms(1) m(2) by (simp add: reply_frag_req_def Let_def read_cell_def ts_inv_def scb_ok_def)
qed

lemma first_chosen_inv:
  assumes "ts_inv s" and "datagram_len (scb s) \<noteq> 0"
  shows "returns (\<lambda>s'. ts_inv s' \<and> datalen_to_send (scb s') \<noteq> 0) (first_chosen s)"
proof -
  have "max_fragment_size s < datagram_len (scb s) \<Longrightarrow>
      unat (datagram_len (scb s) - max_fragment_size s) = unat (datagram_len (scb s)) - unat (max_fragment_size s)"
    by (intro unat_u16_diff) simp
  then show ?thesis
    using assms by (auto simp: first_chosen_def Let_def returns_memory ts_inv_def scb_ok_def word_less_nat_alt)
qed

lemma send_first_frag_inv:
  assumes "ts_inv s" and "datagram_len (scb s) \<noteq> 0"
  shows "returns ts_inv (send_first_frag ll s)"
proof -
  have put: "returns (\<lambda>s'. \<exists>b. s' = c\<lparr>t2_txBuf := b\<rparr> \<and> length b = 207)
      (put_fragment (first_header (datagram_len (scb c)) (scb_session c)) 0 c)" if "ts_inv c" for c
    using that by (intro put_fragment_inv) (simp_all add: first_header_def ts_inv_def scb_ok_def)
  have seg: "returns (\<lambda>_. True) (segments (remaining_data_len (scb c)) (datalen_to_send (scb c)))" if "datalen_to_send (scb c) \<noteq> 0" for c
    using that by (simp add: returns_memory)
  have t: "returns (\<lambda>_. True) (tx_bytes (6 + unat (datalen_to_send (scb c))) c)" if "ts_inv c" for c
    using that by (auto simp: returns_memory ts_inv_def scb_ok_def)
  show ?thesis
    unfolding send_first_frag_def Let_def lower_layer_send_data_eq prod.case
    by (intro returns_ifI returns_SomeI returns_bindI [OF first_chosen_inv [OF assms]] returns_bindI [OF put] returns_bindI [OF seg]
          returns_bindI [OF t] send_last_frag_inv)
      (auto simp: ts_inv_def scb_ok_def set_reset_timer_def)
qed

lemma measure_round_trip_inv:
  "ts_inv s \<Longrightarrow> ts_inv (measure_round_trip s)" "reply_hazard (measure_round_trip s) = reply_hazard s"
  "wait_hazard (measure_round_trip s) = wait_hazard s"
  "flag_reply_frag_req (scb (measure_round_trip s)) = flag_reply_frag_req (scb s)"
  "flag_send_frag_wait (scb (measure_round_trip s)) = flag_send_frag_wait (scb s)"
  by (simp_all add: measure_round_trip_def ts_inv_def scb_ok_def reply_hazard_def wait_hazard_def)

lemma schedule_next_frag_inv: "ts_inv s \<Longrightarrow> ts_inv (schedule_next_frag s)"
  by (simp add: schedule_next_frag_def Let_def ts_inv_def scb_ok_def)

lemma hazard_cong [simp]:
  "reply_hazard (scb_update (\<lambda>b. b\<lparr>flag_reply_frag_req := f\<rparr>) s) = reply_hazard s"
  "reply_hazard (t2_sm_post_event ev s) = reply_hazard s"
  "wait_hazard (t2_sm_post_event ev s) = wait_hazard s"
  "wait_hazard (scb_update (\<lambda>b. b\<lparr>flag_send_frag_wait := f\<rparr>) s) = wait_hazard s"
  by (simp_all add: reply_hazard_def wait_hazard_def)

lemma senddata_cb_inv:
  assumes "ts_inv s" and "\<not> (if flag_reply_frag_req (scb s) then reply_hazard s else flag_send_frag_wait (scb s) \<and> wait_hazard s)"
  shows "returns ts_inv (transport_service_senddata_cb ll st s)"
  using assms unfolding transport_service_senddata_cb_def Let_def measure_round_trip_inv(4,5)
  by (intro returns_ifI returns_SomeI reply_frag_req_inv send_frag_wait_inv ts_inv_frame schedule_next_frag_inv)
    (auto simp: measure_round_trip_inv)

lemma start_session_inv:
  "ts_inv s \<Longrightarrow> max_fragment_size s \<noteq> 0 \<Longrightarrow> unat len \<le> 200 \<Longrightarrow> ts_inv (start_session src dst len s)"
  by (simp add: start_session_def ts_inv_def scb_ok_def)

lemma transport_service_send_data_inv:
  assumes "ts_inv s" and "payload \<noteq> []" and "max_frame_len \<noteq> 7" and "length payload < 65536"
  shows "returns (\<lambda>(rc, s'). ts_inv s') (transport_service_send_data ll src dst payload (of_nat (length payload)) max_frame_len c s)"
proof -
  let ?len = "of_nat (length payload) :: u16"
  let ?Q = "\<lambda>(rc :: send_data_return_code, s'). ts_inv s'"
  have "unat ?len = length payload" using assms(4) by (simp add: unat_of_nat)
  then have len: "unat ?len = length payload" "?len \<noteq> 0" using assms(2) by auto
  have m: "max_frame_len - 7 \<noteq> 0" using assms(3) by simp
  have one: "ts_inv (s\<lparr>on_send_complete_cb := c, max_fragment_size := max_frame_len - 7\<rparr>)"
    using assms(1) m by (auto simp: ts_inv_def scb_ok_def)
  have first: "returns ?Q (do { s \<leftarrow> send_first_frag ll (t2_sm_post_event ev (start_session src dst ?len s')); Some (rc, s) })"
    if "ts_inv s'" "max_fragment_size s' \<noteq> 0" "length payload \<le> 200" for s' ev rc
    using that len by (intro returns_bindI [OF send_first_frag_inv]) (simp_all add: start_session_inv, simp add: start_session_def)
  have body: "returns ?Q (if is_transport_service_sending s' then Some (TRANSPORT_SERVICE_BUSY, s')
      else if is_transport_service_receiving s' then Some (TRANSPORT_SERVICE_BUSY, s')
      else case current_state (start_session src dst ?len s') of
             ST_IDLE \<Rightarrow> do { s \<leftarrow> send_first_frag ll (t2_sm_post_event EV_START_SEND (start_session src dst ?len s')); Some (TRANSPORT_SERVICE_SEND_SUCCESS, s) }
           | ST_SEND_FRAG \<Rightarrow> do { s \<leftarrow> send_first_frag ll (t2_sm_post_event EV_SEND_NEW_FRAG (start_session src dst ?len s')); Some (TRANSPORT_SERVICE_SEND_SUCCESS, s) }
           | _ \<Rightarrow> Some (TRANSPORT_SERVICE_BUSY, start_session src dst ?len s'))"
    if "ts_inv s'" "max_fragment_size s' \<noteq> 0" "length payload \<le> 200" for s'
    using that len first [OF that] start_session_inv [OF that(1,2), of ?len]
    by (auto split: transport2_st.splits)
  show ?thesis
  proof (cases "length payload > 200")
    case False
    then show ?thesis
      unfolding transport_service_send_data_def Let_def len(1) using one m assms(1)
      by (simp del: returns_simps(3))
        (intro returns_bindI [OF write_bytes_length] body; auto simp: ts_inv_def scb_ok_def set_reset_timer_def)
  qed (use one len in \<open>simp add: transport_service_send_data_def Let_def\<close>)
qed

section \<open>Received frames\<close>

abbreviation frame_inv :: "bool \<times> ts \<Rightarrow> bool" where "frame_inv \<equiv> \<lambda>(b, s). ts_inv s"

text \<open>The fragment being processed lies in memory, and the receiver has been initialised.\<close>

definition fragment_ok :: "ts \<Rightarrow> bool" where
  "fragment_ok s \<longleftrightarrow> \<not> flag_initialize_once s \<and> 5 \<le> length (fragment (rcb s)) \<and>
     unat (fragment_len (rcb s)) \<le> length (fragment (rcb s)) \<and> unat (fragment_len (rcb s)) \<le> 200"

lemma abort_if_tie_broken_inv [simp]:
  "ts_inv (abort_if_tie_broken s) = ts_inv s" "rcb (abort_if_tie_broken s) = rcb s"
  "flag_initialize_once (abort_if_tie_broken s) = flag_initialize_once s" "fragment_ok (abort_if_tie_broken s) = fragment_ok s"
  by (simp_all add: abort_if_tie_broken_def ts_inv_def scb_ok_def fragment_ok_def)

lemma session_nibble_less: "unat (session_nibble b) < 16"
proof -
  have f0: "(0xf0 :: u8) = push_bit 4 (mask 4)" by (simp add: mask_eq_exp_minus_1)
  have "session_nibble b = drop_bit 4 b"
    unfolding session_nibble_def f0 by (rule bit_word_eqI) (auto simp: bit_simps dest: bit_imp_le_length)
  moreover have "unat (drop_bit 4 b) = unat b div 16"
    by (subst unat_drop_bit_eq) (simp add: drop_bit_eq_div)
  moreover have "unat b div 16 < 16" using unat_u8_bound [of b] by linarith
  ultimately show ?thesis by simp
qed

lemma u8_diff: "(b :: u8) \<le> a \<Longrightarrow> unat (a - b) = unat a - unat b"
  by (rule unat_sub)

lemma refused_bind_inv:
  assumes "ts_inv s" and "\<not> flag_initialize_once s" and "unat offset \<le> 200"
    and "\<And>bm. ts_inv (rcb_update (\<lambda>r. r\<lparr>bytes_recvd_bitmask := bm\<rparr>) s) \<Longrightarrow>
           returns frame_inv (f (rcb_update (\<lambda>r. r\<lparr>bytes_recvd_bitmask := bm\<rparr>) s))"
  shows "returns frame_inv (do {
           (refused, s) \<leftarrow> mark_frag_received ll offset len s;
           if refused then Some (False, s) else f s })"
  using assms(4) by (intro returns_bindI [OF mark_frag_received_inv [OF assms(1,3,2)]]) auto

lemma complete_bind_inv:
  "ts_inv s \<Longrightarrow> returns frame_inv (do { s \<leftarrow> send_frag_complete_cmd ll (t2_sm_post_event ev s); Some (False, s) })"
  "ts_inv s \<Longrightarrow> returns frame_inv (do { s \<leftarrow> find_missing ll (t2_sm_post_event ev s); Some (False, s) })"
  by (intro returns_bindI [OF send_frag_complete_inv] returns_bindI [OF find_missing_inv]; simp)+

lemma receive_first_inv:
  assumes "ts_inv s" and "fragment_ok s"
  shows "returns frame_inv (receive_first ll s)"
proof -
  let ?a = "abort_if_tie_broken s"
  have a: "ts_inv ?a" "fragment_ok ?a" using assms by simp_all
  have core: "returns frame_inv (do {
        d \<leftarrow> write_bytes (datagramData (rcb s')) 0 (drop 4 (fragment (rcb s'))) (unat (cur_recvd_data_size (rcb s')));
        (refused, s) \<leftarrow> mark_frag_received ll 0 (cur_recvd_data_size (rcb s')) (rcb_update (\<lambda>r. r\<lparr>datagramData := d\<rparr>) s');
        if refused then Some (False, s)
        else if ucast (cur_recvd_data_size (rcb s)) = datagram_size (rcb s)
        then do { s \<leftarrow> send_frag_complete_cmd ll (t2_sm_post_event EV_SEND_FRAG_COMPLETE s); Some (False, s) }
        else Some (False, rcb_update (\<lambda>r. r\<lparr>rx_data_state := False\<rparr>) s) })"
    if "ts_inv s'" "\<not> flag_initialize_once s'" "unat (cur_recvd_data_size (rcb s')) + 4 \<le> length (fragment (rcb s'))"
      "unat (cur_recvd_data_size (rcb s')) \<le> 200" for s'
    using that
    by (intro returns_bindI [OF write_bytes_length] refused_bind_inv returns_ifI complete_bind_inv returns_SomeI)
      (auto simp: ts_inv_def rcb_ok_def)
  have len: "unat (fragment_len (rcb s) - 6) = unat (fragment_len (rcb s)) - 6" if "\<not> unat (fragment_len (rcb s)) \<le> 6"
    using that u8_diff [of 6 "fragment_len (rcb s)"] by (simp add: word_le_nat_alt)
  show ?thesis
    unfolding receive_first_def Let_def
    by (intro returns_ifI returns_SomeI core)
      (use a assms(2) len session_nibble_less in \<open>auto simp: ts_inv_def rcb_ok_def fragment_ok_def emit_def\<close>)
qed

lemma receive_subsequent_inv:
  assumes "ts_inv s" and "fragment_ok s"
  shows "returns frame_inv (receive_subsequent ll s)"
proof -
  let ?a = "abort_if_tie_broken s"
  have a: "ts_inv ?a" "fragment_ok ?a" using assms by simp_all
  have core: "returns frame_inv (do {
        d \<leftarrow> write_bytes (datagramData (rcb s')) off (drop 5 (fragment (rcb s'))) (unat (cur_recvd_data_size (rcb s')));
        if off + n \<ge> unat (datagram_size (rcb (rcb_update (\<lambda>r. r\<lparr>datagramData := d\<rparr>) s')))
        then do { s \<leftarrow> find_missing ll (t2_sm_post_event EV_RECV_LAST_FRAG (rcb_update (\<lambda>r. r\<lparr>datagramData := d\<rparr>) s')); Some (False, s) }
        else Some (False, rcb_update (\<lambda>r. r\<lparr>rx_data_state := False\<rparr>) (rcb_update (\<lambda>r. r\<lparr>datagramData := d\<rparr>) s')) })"
    if "ts_inv s'" "unat (cur_recvd_data_size (rcb s')) + 5 \<le> length (fragment (rcb s'))"
      "off + unat (cur_recvd_data_size (rcb s')) \<le> 200" for s' off n
    using that
    by (intro returns_bindI [OF write_bytes_length] returns_ifI complete_bind_inv returns_SomeI) (auto simp: ts_inv_def rcb_ok_def)
  have len: "unat (fragment_len (rcb s) - 7) = unat (fragment_len (rcb s)) - 7" if "\<not> unat (fragment_len (rcb s)) \<le> 7"
    using that u8_diff [of 7 "fragment_len (rcb s)"] by (simp add: word_le_nat_alt)
  have read: "returns (\<lambda>_. True) (read_cell (recv_frag_compl_list (rcb s)) (unat (session_nibble b)))" for b
    using assms(1) session_nibble_less [of b] by (simp add: returns_read_cell ts_inv_def rcb_ok_def)
  show ?thesis
    unfolding receive_subsequent_def Let_def abort_if_tie_broken_inv(2)
    by (intro returns_ifI returns_SomeI returns_bindI [OF read] refused_bind_inv core)
      (use a assms(2) len in \<open>auto simp: ts_inv_def rcb_ok_def fragment_ok_def emit_def\<close>)
qed

lemma receive_complete_inv:
  assumes "ts_inv s"
  shows "returns frame_inv (receive_complete s)"
proof -
  have l: "scb_session s = 0" "length (frag_compl_list (scb s)) = 15" using assms by (simp_all add: ts_inv_def scb_ok_def)
  have i: "ts_inv (scb_update (\<lambda>b. b\<lparr>frag_compl_list := l', current_dnode := 0\<rparr>) s')" if "ts_inv s'" "length l' = 15" for s' l'
    using that by (simp add: ts_inv_def scb_ok_def)
  show ?thesis
    using assms l unfolding receive_complete_def Let_def
    by (auto simp: returns_memory i split: option.split)
qed

text \<open>The offset a SEGMENT REQUEST asks for.\<close>

definition requested_offset :: "u8 list \<Rightarrow> u16" where
  "requested_offset frame_data = push_bit 8 (ucast (frame_data ! 2 AND 0x7)) OR ucast (frame_data ! 3)"

text \<open>The state in which a request that is taken is answered.\<close>

definition request_state :: "ts \<Rightarrow> ts" where
  "request_state s =
     t2_sm_post_event EV_RECV_FRAG_REQ (scb_update (\<lambda>b. b\<lparr>missing_offset := requested_offset (fragment (rcb s))\<rparr>)
      (rcb_update (\<lambda>r. r\<lparr>fc_timer := None\<rparr>) (t2_sm_post_event EV_FRAG_REQ_OR_COMPL s)))"

definition request_hazard :: "ts \<Rightarrow> bool" where
  "request_hazard s \<longleftrightarrow>
     refuse_reply (session_nibble (fragment (rcb s) ! 2)) s = None \<and> \<not> sending (scb s) \<and>
     frag_compl_list (scb s) ! 0 \<noteq> 1 \<and> unat (datagram_len (scb s)) < unat (requested_offset (fragment (rcb s)))"

lemma request_state_inv: "ts_inv s \<Longrightarrow> ts_inv (request_state s)" "sending (scb (request_state s)) = sending (scb s)"
  "reply_hazard (request_state s) \<longleftrightarrow> frag_compl_list (scb s) ! 0 \<noteq> 1 \<and> unat (datagram_len (scb s)) < unat (requested_offset (fragment (rcb s)))"
  by (simp_all add: request_state_def ts_inv_def scb_ok_def rcb_ok_def reply_hazard_def)

lemma refuse_reply_post [simp]: "refuse_reply n (t2_sm_post_event ev s) = refuse_reply n s"
  by (simp add: refuse_reply_def)

lemma receive_request_eq:
  "receive_request ll s =
     (case refuse_reply (session_nibble (fragment (rcb s) ! 2)) s of
        Some ev \<Rightarrow> Some (False, t2_sm_post_event ev (t2_sm_post_event EV_FRAG_REQ_OR_COMPL s))
      | None \<Rightarrow> map_option (Pair False)
          (if sending (scb (request_state s)) then Some (scb_update (\<lambda>b. b\<lparr>flag_reply_frag_req := True\<rparr>) (request_state s))
           else reply_frag_req ll (request_state s)))"
  unfolding receive_request_def Let_def request_state_def requested_offset_def refuse_reply_post
  by (auto split: option.split simp: map_option_case Option.bind_eq_None_conv bind_eq_Some_conv)

lemma returns_pair: "returns frame_inv (map_option (Pair b) r) = returns ts_inv r"
  by (cases r) simp_all

lemma receive_request_inv:
  assumes "ts_inv s"
  shows "if request_hazard s then receive_request ll s = None else returns frame_inv (receive_request ll s)"
proof -
  note q = request_state_inv(1) [OF assms]
  have fail: "receive_request ll s = None" if "request_hazard s"
    using that reply_frag_req_None [OF q] by (simp add: receive_request_eq request_hazard_def request_state_inv(2,3))
  have "returns ts_inv (if sending (scb (request_state s)) then Some (scb_update (\<lambda>b. b\<lparr>flag_reply_frag_req := True\<rparr>) (request_state s))
           else reply_frag_req ll (request_state s))"
    if "\<not> request_hazard s" "refuse_reply (session_nibble (fragment (rcb s) ! 2)) s = None"
    using that q by (intro returns_ifI returns_SomeI reply_frag_req_inv) (auto simp: request_hazard_def request_state_inv(2,3))
  then have "returns frame_inv (receive_request ll s)" if "\<not> request_hazard s"
    using that assms by (auto simp: receive_request_eq returns_pair split: option.split)
  with fail show ?thesis by simp
qed

definition wait_frame_hazard :: "ts \<Rightarrow> bool" where
  "wait_frame_hazard s \<longleftrightarrow> flag_reply_frag_req (scb s) \<and> reply_hazard s"

lemma senddata_cb_None:
  assumes "ts_inv s" and "flag_reply_frag_req (scb s) \<and> reply_hazard s"
  shows "transport_service_senddata_cb ll st s = None"
  using assms by (simp add: transport_service_senddata_cb_def Let_def measure_round_trip_inv reply_frag_req_None)

lemma receive_wait_inv:
  assumes "ts_inv s" and "\<not> flag_initialize_once s"
  shows "if wait_frame_hazard s then receive_wait ll s = None else returns frame_inv (receive_wait ll s)"
proof -
  let ?s = "scb_update (\<lambda>b. b\<lparr>transmission_aborted := session_id (scb_cmn b)\<rparr>) (t2_sm_post_event EV_RECV_FRAG_WAIT s)"
  have s: "ts_inv ?s" "(flag_reply_frag_req (scb ?s) \<and> reply_hazard ?s) = wait_frame_hazard s" "\<not> (flag_send_frag_wait (scb ?s) \<and> wait_hazard ?s)"
    using assms by (auto simp: ts_inv_def scb_ok_def reply_hazard_def wait_hazard_def wait_frame_hazard_def)
  have e: "frame_inv (False, scb_update (\<lambda>b. b\<lparr>wait_restart_timer := t\<rparr>) (rcb_update (\<lambda>r. r\<lparr>rcb_cmn := (rcb_cmn r)\<lparr>pending_segments := n\<rparr>\<rparr>) s'))"
    if "ts_inv s'" for s' t n
    using that by (simp add: ts_inv_def scb_ok_def rcb_ok_def)
  have l: "length (frag_compl_list (scb s)) = 15" "scb_session s = 0" using assms(1) by (simp_all add: ts_inv_def scb_ok_def)
  have read: "returns (\<lambda>_. True) (read_cell (frag_compl_list (scb s)) (unat (scb_session s)))" using l by (simp add: returns_read_cell)
  have "receive_wait ll s = None" if "wait_frame_hazard s"
    using senddata_cb_None [OF s(1)] s(2) that l
    by (simp add: receive_wait_def Let_def read_cell_def wait_frame_hazard_def reply_hazard_def)
  moreover have "returns frame_inv (receive_wait ll s)" if "\<not> wait_frame_hazard s"
    unfolding receive_wait_def Let_def
    by (intro returns_bindI [OF read] returns_ifI returns_SomeI returns_bindI [OF senddata_cb_inv [OF s(1)]] e)
      (use assms(1) that s(2,3) in \<open>auto split: if_splits\<close>)
  ultimately show ?thesis by simp
qed

text \<open>When processing a frame makes \<open>reply_frag_req\<close> copy from outside the datagram.\<close>

definition receive_hazard :: "ts \<Rightarrow> bool" where
  "receive_hazard s \<longleftrightarrow> fragment (rcb s) ! 0 = COMMAND_CLASS_TRANSPORT_SERVICE_V2 \<and>
     (fragment (rcb s) ! 1 AND 0xf8 = COMMAND_SEGMENT_REQUEST_V2 \<and> request_hazard s \<or>
      fragment (rcb s) ! 1 AND 0xf8 = COMMAND_SEGMENT_WAIT_V2 \<and> wait_frame_hazard s)"

lemma receive_inv:
  assumes "ts_inv s" and "fragment_ok s"
  shows "if receive_hazard s then receive ll s = None else returns frame_inv (receive ll s)"
proof -
  have "\<not> flag_initialize_once s" using assms(2) by (simp add: fragment_ok_def)
  note inv = receive_first_inv [OF assms] receive_subsequent_inv [OF assms] receive_request_inv [OF assms(1)]
    receive_complete_inv [OF assms(1)] receive_wait_inv [OF assms(1) this]
  have "receive ll s = None" if "receive_hazard s"
    using that inv by (auto simp: receive_def receive_hazard_def)
  moreover have "returns frame_inv (receive ll s)" if "\<not> receive_hazard s"
    unfolding receive_def Let_def by (intro returns_ifI returns_SomeI inv) (use that inv assms(1) in \<open>auto simp: receive_hazard_def\<close>)
  ultimately show ?thesis by simp
qed

lemma tie_break_inv:
  "ts_inv (tie_break src d s) = ts_inv s" "scb (tie_break src d s) = scb s" "rcb (tie_break src d s) = rcb s"
  "flag_initialize_once (tie_break src d s) = flag_initialize_once s" "my_node_id (tie_break src d s) = my_node_id s"
  by (simp_all add: tie_break_def Let_def)

lemma initialize_once_inv: "ts_inv s \<Longrightarrow> ts_inv (initialize_once s)" "\<not> flag_initialize_once (initialize_once s)" "scb (initialize_once s) = scb s"
  by (auto simp: initialize_once_def ts_inv_def rcb_ok_def)

definition memory_ok :: "u8 list \<Rightarrow> u8 \<Rightarrow> bool" where
  "memory_ok frame_data frame_length \<longleftrightarrow> 5 \<le> length frame_data \<and> unat frame_length \<le> length frame_data"

lemma accept_state_inv:
  assumes "ts_inv s" and "memory_ok frame_data frame_length" and "unat frame_length \<le> 200"
  shows "ts_inv (accept_state src dst rx_type frame_data frame_length s)"
    "fragment_ok (accept_state src dst rx_type frame_data frame_length s)"
proof -
  let ?p = "case current_state s of ST_IDLE \<Rightarrow> t2_sm_post_event EV_START_RECV s | ST_RECEIVING \<Rightarrow> t2_sm_post_event EV_RECV_NEW_FRAG s | _ \<Rightarrow> s"
  have "ts_inv ?p" using assms(1) by (auto split: transport2_st.split)
  then have "ts_inv (initialize_once ?p)" "\<not> flag_initialize_once (initialize_once ?p)" by (auto simp: initialize_once_inv)
  then show "ts_inv (accept_state src dst rx_type frame_data frame_length s)"
    "fragment_ok (accept_state src dst rx_type frame_data frame_length s)"
    using assms(2,3) by (simp_all add: accept_state_def Let_def ts_inv_def rcb_ok_def fragment_ok_def memory_ok_def)
qed

section \<open>The hazards\<close>

text \<open>The processing of a frame that is neither dropped nor answered with SEGMENT WAIT.\<close>

definition accept_hazard :: "node_id \<Rightarrow> node_id \<Rightarrow> receive_type \<Rightarrow> u8 list \<Rightarrow> u8 \<Rightarrow> ts \<Rightarrow> bool" where
  "accept_hazard src dst rx_type frame_data frame_length s \<longleftrightarrow>
     \<not> (rcb_session s = 0x10 \<and> frame_data ! 1 AND 0xf8 = COMMAND_SUBSEQUENT_FRAGMENT) \<and>
     receive_hazard (accept_state src dst rx_type frame_data frame_length s)"

lemma accept_frame_inv:
  assumes "ts_inv s" and "memory_ok frame_data frame_length" and "unat frame_length \<le> 200"
  shows "if accept_hazard src dst rx_type frame_data frame_length s
         then accept_frame ll src dst rx_type frame_data frame_length s = None
         else returns frame_inv (accept_frame ll src dst rx_type frame_data frame_length s)"
proof -
  note r = receive_inv [OF accept_state_inv [OF assms], where ll = ll]
  have w: "\<not> wait_hazard (t2_sm_post_event EV_SUBSEQ_DIFF_SESSION s)" if "rcb_session s = 0x10"
    using that by (simp add: wait_hazard_def)
  have "returns frame_inv (accept_frame ll src dst rx_type frame_data frame_length s)"
    if "\<not> accept_hazard src dst rx_type frame_data frame_length s"
    unfolding accept_frame_def Let_def
    by (intro returns_ifI returns_SomeI returns_bindI [OF queue_frag_wait_inv])
      (use assms w r that in \<open>auto simp: accept_hazard_def\<close>)
  moreover have "accept_frame ll src dst rx_type frame_data frame_length s = None"
    if "accept_hazard src dst rx_type frame_data frame_length s"
    using that r by (auto simp: accept_frame_def accept_hazard_def)
  ultimately show ?thesis by simp
qed

lemma queue_frag_wait_None: "wait_hazard s \<Longrightarrow> queue_frag_wait ll s = None"
  by (auto simp: queue_frag_wait_def wait_hazard_def send_frag_wait_cmd_def segments_def Let_def)

text \<open>A frame of a third node, and any other frame.\<close>

definition frame_hazard :: "node_id \<Rightarrow> node_id \<Rightarrow> receive_type \<Rightarrow> u8 list \<Rightarrow> u8 \<Rightarrow> ts \<Rightarrow> bool" where
  "frame_hazard src dst rx_type frame_data frame_length s0 \<longleftrightarrow>
     (let s = scb_update (\<lambda>b. b\<lparr>frag_wait_source := dst, frag_wait_dest := src\<rparr>) (tie_break src frame_data (set_reset_timer s0))
      in src \<noteq> dst \<and> unat frame_length \<le> PAYLOAD_SIZE_MAX \<and>
         (if third_node src s \<and> rx_type = SINGLECAST then current_state s \<noteq> ST_SEND_FRAG_WAIT \<and> wait_hazard s
          else \<not> (third_node src s \<and> rx_type = BROADCAST) \<and> accept_hazard src dst rx_type frame_data frame_length s))"

lemma command_handler_inv:
  assumes "ts_inv s" and "memory_ok frame_data frame_length"
  shows "if frame_hazard src dst rx_type frame_data frame_length s
         then transport_service_command_handler ll src dst rx_type frame_data frame_length s = None
         else returns frame_inv (transport_service_command_handler ll src dst rx_type frame_data frame_length s)"
proof -
  let ?s = "scb_update (\<lambda>b. b\<lparr>frag_wait_source := dst, frag_wait_dest := src\<rparr>) (tie_break src frame_data (set_reset_timer s))"
  have i: "ts_inv (tie_break src frame_data (set_reset_timer s))" using assms(1) by (simp add: tie_break_inv)
  then have i2: "ts_inv ?s" by (rule ts_inv_frame)
  note a = accept_frame_inv [OF i2 assms(2), where src = src and dst = dst and rx_type = rx_type and ll = ll]
  have "returns frame_inv (transport_service_command_handler ll src dst rx_type frame_data frame_length s)"
    if "\<not> frame_hazard src dst rx_type frame_data frame_length s"
    unfolding transport_service_command_handler_def Let_def
    by (intro returns_ifI returns_SomeI returns_bindI [OF queue_frag_wait_inv])
      (use i i2 a that in \<open>auto simp: frame_hazard_def Let_def split: if_splits\<close>)
  moreover have "transport_service_command_handler ll src dst rx_type frame_data frame_length s = None"
    if "frame_hazard src dst rx_type frame_data frame_length s"
    unfolding transport_service_command_handler_def Let_def
    using that a by (auto simp: frame_hazard_def Let_def queue_frag_wait_None split: if_splits)
  ultimately show ?thesis by simp
qed

text \<open>
  An input meets the preconditions of the component: a payload that is not empty, a frame size
  that leaves room for data, a frame that lies in memory.
\<close>

definition ts_input_ok :: "ts_input \<Rightarrow> bool" where
  "ts_input_ok i =
     (case i of
        Send_data src dst payload max_frame_len c \<Rightarrow> payload \<noteq> [] \<and> length payload < 65536 \<and> max_frame_len \<noteq> 7
      | Frame src dst rx_type frame_data frame_length \<Rightarrow> memory_ok frame_data frame_length
      | _ \<Rightarrow> True)"

definition ts_hazard :: "ts_input \<Rightarrow> ts \<Rightarrow> bool" where
  "ts_hazard i s =
     (case i of
        Frame src dst rx_type frame_data frame_length \<Rightarrow> frame_hazard src dst rx_type frame_data frame_length s
      | Tx_callback Senddata_cb st \<Rightarrow>
          (if flag_reply_frag_req (scb s) then reply_hazard s else flag_send_frag_wait (scb s) \<and> wait_hazard s)
      | Expire Wait_restart_timer \<Rightarrow> wait_restart_timer (scb s) \<noteq> None \<and> datagram_len (scb s) = 0
      | _ \<Rightarrow> False)"

lemma senddata_cb_fails:
  assumes "ts_inv s" and "if flag_reply_frag_req (scb s) then reply_hazard s else flag_send_frag_wait (scb s) \<and> wait_hazard s"
  shows "transport_service_senddata_cb ll st s = None"
proof (cases "flag_reply_frag_req (scb s)")
  case False
  then have "wait_hazard s" "flag_send_frag_wait (scb s)" using assms(2) by simp_all
  then have "send_frag_wait_cmd ll (scb_update (\<lambda>b. b\<lparr>flag_send_frag_wait := False\<rparr>) (measure_round_trip s)) = None"
    using queue_frag_wait_None [of "scb_update (\<lambda>b. b\<lparr>flag_send_frag_wait := False\<rparr>) (measure_round_trip s)" ll]
    by (simp add: measure_round_trip_inv queue_frag_wait_def wait_hazard_def split: if_splits) (simp add: measure_round_trip_def split: if_splits)
  with False \<open>flag_send_frag_wait (scb s)\<close> show ?thesis
    by (simp add: transport_service_senddata_cb_def Let_def measure_round_trip_inv)
qed (use assms senddata_cb_None in simp)

lemma send_first_frag_None:
  assumes "ts_inv s" and "datagram_len (scb s) = 0"
  shows "send_first_frag ll s = None"
proof -
  have "returns (\<lambda>s'. datalen_to_send (scb s') = 0) (first_chosen s)"
    using assms by (simp add: first_chosen_def Let_def returns_memory ts_inv_def scb_ok_def)
  then obtain s' where s': "first_chosen s = Some s'" "datalen_to_send (scb s') = 0" by (auto simp: returns_def)
  have "put_fragment h k s' = Some s'' \<Longrightarrow> scb s'' = scb s'" for h k s''
    by (auto simp: put_fragment_def bind_eq_Some_conv)
  with s' show ?thesis
    by (cases "put_fragment (first_header (datagram_len (scb s')) (scb_session s')) 0 s'") (auto simp: send_first_frag_def segments_def)
qed

lemma ts_step_inv:
  assumes "ts_inv s" and "ts_input_ok i"
  shows "if ts_hazard i s then ts_step ll i s = None else returns ts_inv (ts_step ll i s)"
proof (cases i)
  case (Send_data src dst payload max_frame_len c)
  then show ?thesis
    using transport_service_send_data_inv [OF assms(1), of payload max_frame_len ll src dst c] assms(2)
    by (auto simp: ts_step_def ts_hazard_def ts_input_ok_def returns_def)
next
  case (Frame src dst rx_type frame_data frame_length)
  then have m: "memory_ok frame_data frame_length" using assms(2) by (simp add: ts_input_ok_def)
  show ?thesis
    using command_handler_inv [OF assms(1) m, where src = src and dst = dst and rx_type = rx_type and ll = ll] Frame
    by (auto simp: ts_step_def ts_hazard_def transport_service_on_frame_received_def returns_def split: if_splits)
next
  case (Tx_callback cb st)
  have r: "ts_inv (temp_callback_reply_frag_req st s)" using assms(1) by (simp add: temp_callback_reply_frag_req_def)
  show ?thesis
  proof (cases cb)
    case Senddata_cb
    then show ?thesis
      using Tx_callback senddata_cb_fails [OF assms(1)] senddata_cb_inv [OF assms(1)]
      by (auto simp: ts_step_def ts_hazard_def)
  qed (use Tx_callback assms(1) r temp_callback_last_frag_inv in \<open>simp_all add: ts_step_def ts_hazard_def\<close>)
next
  case (Expire t)
  have w: "datagram_len (scb (scb_update (\<lambda>b. b\<lparr>wait_restart_timer := None\<rparr>) s)) = datagram_len (scb s)" by simp
  have wi: "ts_inv (scb_update (\<lambda>b. b\<lparr>wait_restart_timer := None\<rparr>) s)" using assms(1) by simp
  show ?thesis
  proof (cases t)
    case Wait_restart_timer
    then show ?thesis
      using Expire assms(1) send_first_frag_inv [OF wi] send_first_frag_None [OF wi]
      by (auto simp: ts_step_def ts_hazard_def expire_def wait_restart_from_first_def)
  qed (use Expire assms(1) in \<open>auto simp: ts_step_def ts_hazard_def expire_def
         intro!: ts_inv_reset send_subseq_frag_inv fc_timer_expired_inv rx_timer_expired_inv ts_inv_frame\<close>)
next
  case (Clock t)
  with assms(1) show ?thesis by (simp add: ts_step_def ts_hazard_def)
qed

lemma ts_run_inv:
  assumes "ts_inv s" and "list_all ts_input_ok is"
  shows "case ts_run ll is s of
           Some s' \<Rightarrow> ts_inv s'
         | None \<Rightarrow> \<exists>pre i post s'. is = pre @ i # post \<and> ts_run ll pre s = Some s' \<and> ts_inv s' \<and> ts_hazard i s'"
  using assms
proof (induction "is" arbitrary: s)
  case (Cons i "is")
  show ?case
  proof (cases "ts_hazard i s")
    case True
    then have "ts_step ll i s = None" using ts_step_inv [OF Cons.prems(1), of i ll] Cons.prems(2) by simp
    moreover have "i # is = [] @ i # is \<and> ts_run ll [] s = Some s \<and> ts_inv s \<and> ts_hazard i s" using True Cons.prems(1) by simp
    ultimately show ?thesis by (simp, blast)
  next
    case False
    then obtain s1 where s1: "ts_step ll i s = Some s1" "ts_inv s1"
      using ts_step_inv [OF Cons.prems(1), of i ll] Cons.prems(2) by (auto simp: returns_def)
    note ih = Cons.IH [OF s1(2)]
    show ?thesis
    proof (cases "ts_run ll is s1")
      case None
      then obtain pre j post s' where "is = pre @ j # post \<and> ts_run ll pre s1 = Some s' \<and> ts_inv s' \<and> ts_hazard j s'"
        using ih Cons.prems(2) by auto
      then have "i # is = (i # pre) @ j # post \<and> ts_run ll (i # pre) s = Some s' \<and> ts_inv s' \<and> ts_hazard j s'" using s1 by simp
      with None s1 show ?thesis by (simp, blast)
    qed (use ih Cons.prems(2) s1 in auto)
  qed
qed simp

end
