(* ===== verification/Transport_Service_Reassembly.thy ===== *)
theory Transport_Service_Reassembly
  imports Transport_Service_Safety
begin

text \<open>
  What the receiving side of the Transport Service computes: the bit mask as the set of bytes
  received, the next missing offset as its least gap, and the reassembly of a datagram from its
  fragments in any order.
\<close>

section \<open>The bytes received\<close>

definition marked :: "u8 list \<Rightarrow> nat \<Rightarrow> bool" where
  "marked bm k \<longleftrightarrow> bit (bm ! (k div 8)) (k mod 8)"

lemma marked_set_bit:
  assumes "length bm = 26" and "i < 208" and "k < 208"
  shows "marked (bm[i div 8 := bm ! (i div 8) OR push_bit (i mod 8) 1]) k \<longleftrightarrow> k = i \<or> marked bm k"
proof -
  have "k = i \<longleftrightarrow> k div 8 = i div 8 \<and> k mod 8 = i mod 8" by (metis div_mult_mod_eq)
  moreover have "i div 8 < 26" "k mod 8 < 8" using assms by auto
  ultimately show ?thesis
    using assms by (auto simp: marked_def nth_list_update bit_or_iff bit_push_bit_iff bit_1_iff simp del: push_bit_of_1)
qed

lemma mark_loop_marked:
  "i \<le> end_pos \<Longrightarrow> end_pos \<le> 200 \<Longrightarrow> length bm = 26 \<Longrightarrow>
   \<exists>bm'. mark_loop i end_pos bm = Some bm' \<and> length bm' = 26 \<and>
     (\<forall>k < 208. marked bm' k \<longleftrightarrow> marked bm k \<or> i \<le> k \<and> k < end_pos)"
proof (induction i end_pos bm rule: mark_loop.induct)
  case (1 i end_pos bm)
  show ?case
  proof (cases "i < end_pos")
    case True
    let ?bm = "bm[i div 8 := bm ! (i div 8) OR push_bit (i mod 8) 1]"
    have i8: "i div 8 < length bm" using True "1.prems" by simp
    have step: "mark_loop i end_pos bm = mark_loop (i + 1) end_pos ?bm"
      using True "1.prems" i8 by (subst mark_loop.simps) (simp add: read_cell_def write_cell_def)
    obtain bm' where "mark_loop (i + 1) end_pos ?bm = Some bm'" "length bm' = 26"
      "\<forall>k < 208. marked bm' k \<longleftrightarrow> marked ?bm k \<or> i + 1 \<le> k \<and> k < end_pos"
      using "1.IH" [of "bm ! (i div 8)" ?bm] True "1.prems" i8 by (auto simp: read_cell_def write_cell_def)
    moreover have "marked ?bm k \<longleftrightarrow> k = i \<or> marked bm k" if "k < 208" for k
      using that True "1.prems" by (intro marked_set_bit) auto
    ultimately show ?thesis unfolding step using True by (intro exI [of _ bm']) auto
  qed (use "1.prems" in \<open>subst mark_loop.simps, auto\<close>)
qed

lemma unat_ucast_u8_u16 [simp]: "unat (ucast (x :: u8) :: u16) = unat x"
  by transfer (simp add: take_bit_take_bit)

lemma missing_loop_0:
  assumes "k + n \<le> 256"
  shows "missing_loop n bm sz k = 0 \<longleftrightarrow> (\<forall>j. k \<le> j \<and> j < k + n \<and> 1 \<le> j \<and> j < unat sz \<longrightarrow> marked bm j)"
  using assms
proof (induction n arbitrary: k)
  case (Suc n)
  have small: "unat (of_nat k :: u8) = k" using Suc.prems by (simp add: unat_of_nat)
  have z: "(of_nat k :: u8) = 0 \<longleftrightarrow> k = 0" using small by (metis unat_0 unat_eq_zero)
  have le: "(ucast (of_nat k :: u8) :: u16) \<ge> sz \<longleftrightarrow> k \<ge> unat sz" using small by (simp add: word_le_nat_alt)
  have split: "(\<forall>j. k \<le> j \<and> j < k + Suc n \<and> P j \<longrightarrow> Q j) \<longleftrightarrow> (P k \<longrightarrow> Q k) \<and> (\<forall>j. k + 1 \<le> j \<and> j < k + 1 + n \<and> P j \<longrightarrow> Q j)" for P Q
  proof -
    have "k \<le> j \<and> j < k + Suc n \<longleftrightarrow> j = k \<or> (k + 1 \<le> j \<and> j < k + 1 + n)" for j by auto
    then show ?thesis by (metis (full_types))
  qed
  note ih = Suc.IH [of "k + 1"]
  show ?case
    using ih Suc.prems z le split [of "\<lambda>j. 1 \<le> j \<and> j < unat sz" "marked bm"]
    by (auto simp: Let_def marked_def)
qed auto

lemma get_next_missing_offset_0:
  assumes "length (bytes_recvd_bitmask (rcb s)) = 26" and "unat (datagram_size (rcb s)) \<le> 200"
  shows "get_next_missing_offset s = 0 \<longleftrightarrow> (\<forall>j. 1 \<le> j \<and> j < unat (datagram_size (rcb s)) \<longrightarrow> marked (bytes_recvd_bitmask (rcb s)) j)"
  unfolding get_next_missing_offset_def using assms by (subst missing_loop_0) auto

section \<open>Fragments\<close>

text \<open>A frame and the checksum behind it.\<close>

definition with_crc :: "u8 list \<Rightarrow> u8 list" where
  "with_crc bs = bs @ crc16_bytes (zwave_crc16 CRC16_INIT_VALUE bs)"

definition first_fragment :: "u8 list \<Rightarrow> u8 \<Rightarrow> nat \<Rightarrow> u8 list" where
  "first_fragment d session n = with_crc (first_header (of_nat (length d)) session @ take n d)"

definition subseq_fragment :: "u8 list \<Rightarrow> u8 \<Rightarrow> nat \<Rightarrow> nat \<Rightarrow> u8 list" where
  "subseq_fragment d session off n = with_crc (subseq_header (of_nat (length d)) session (of_nat off) @ take n (drop off d))"

lemma length_with_crc [simp]: "length (with_crc bs) = length bs + 2"
  by (simp add: with_crc_def crc16_bytes_def)

lemma crc_with_crc: "zwave_crc16 CRC16_INIT_VALUE (with_crc bs) = 0"
  by (simp add: with_crc_def zwave_crc16_append crc16_bytes_residue)

lemma length_headers [simp]: "length (first_header a b) = 4" "length (subseq_header a b c) = 5"
  by (simp_all add: first_header_def subseq_header_def)

lemma bit_below: "unat (x :: 'a::len word) < 2 ^ n \<Longrightarrow> bit x i \<Longrightarrow> i < n"
proof (rule ccontr)
  assume x: "unat x < 2 ^ n" "bit x i" "\<not> i < n"
  have "odd (unat x div 2 ^ i)" using x(2) by (simp add: bit_unsigned_iff flip: bit_iff_odd)
  moreover have "unat x div 2 ^ i = 0" using x(1,3) by (simp add: order.strict_trans2 power_increasing)
  ultimately show False by simp
qed

lemma low_octet:
  assumes "unat (x :: u16) < 256"
  shows "drop_bit 8 x = 0" "ucast (ucast x :: u8) = x"
proof -
  have b: "bit x i \<Longrightarrow> i < 8" for i using bit_below [of x 8 i] assms by simp
  show "drop_bit 8 x = 0" by (rule bit_word_eqI) (auto simp: bit_simps dest: b)
  show "ucast (ucast x :: u8) = x" by (rule bit_word_eqI) (auto simp: bit_simps dest: b)
qed

lemma and_ff: "(ucast ((x :: u16) AND 0xff) :: u8) = ucast x"
proof -
  have ff: "(0xff :: u16) = mask 8" by (simp add: mask_eq_exp_minus_1)
  show ?thesis unfolding ff by (rule bit_word_eqI) (auto simp: bit_simps)
qed

lemma eleven_bits_header:
  assumes "unat (x :: u16) < 2048" and "(b :: u8) AND 0x07 = 0"
  shows "eleven_bits (b OR ucast (drop_bit 8 x AND 0x07)) (ucast (x AND 0xff)) = x"
proof -
  have m: "(0x07 :: u8) = mask 3" "(0x07 :: u16) = mask 3" by (simp_all add: mask_eq_exp_minus_1)
  have bx: "bit x i \<Longrightarrow> i < 11" for i using bit_below [of x 11 i] assms(1) by simp
  have bb: "\<not> bit b i" if "i < 3" for i
  proof -
    have "\<not> bit (b AND mask 3) i" using assms(2) unfolding m by simp
    then show ?thesis using that by (simp add: bit_simps)
  qed
  let ?hi = "push_bit 8 (ucast ((b OR ucast (drop_bit 8 x AND 0x07)) AND 0x07)) :: u16" and ?lo = "ucast (ucast x :: u8) :: u16"
  have hi: "bit ?hi i \<longleftrightarrow> 8 \<le> i \<and> bit x i" for i
    unfolding m using bx [of i] bb [of "i - 8"] by (cases "8 \<le> i") (auto simp: bit_simps)
  have lo: "bit ?lo i \<longleftrightarrow> i < 8 \<and> bit x i" for i by (auto simp: bit_simps)
  have "?hi AND ?lo = 0" by (rule bit_word_eqI) (auto simp: bit_and_iff hi lo)
  then have "?hi + ?lo = ?hi OR ?lo" by (rule disjunctive_add_eq_or)
  also have "\<dots> = x" by (rule bit_word_eqI) (auto simp: bit_or_iff hi lo)
  finally show ?thesis by (simp add: eleven_bits_def and_ff)
qed

lemma eleven_bits_low:
  assumes "unat (x :: u16) < 256" and "(b :: u8) AND 0x07 = 0"
  shows "eleven_bits (b OR ucast (drop_bit 8 x AND 0x07)) (ucast (x AND 0xff)) = x"
  using eleven_bits_header [OF _ assms(2), of x] assms(1) by simp

lemma session_nibble_shift:
  assumes "unat (n :: u8) < 16"
  shows "session_nibble (push_bit 4 n) = n" "n AND 0x0F = n" "push_bit 4 n AND 0x07 = 0"
proof -
  have m: "(0x0F :: u8) = mask 4" "(0xf0 :: u8) = push_bit 4 (mask 4)" "(0x07 :: u8) = mask 3" by (simp_all add: mask_eq_exp_minus_1)
  have b: "bit n i \<Longrightarrow> i < 4" for i using bit_below [of n 4 i] assms by simp
  show "n AND 0x0F = n" unfolding m by (rule bit_word_eqI) (auto simp: bit_simps dest: b)
  show "session_nibble (push_bit 4 n) = n"
    unfolding session_nibble_def m by (rule bit_word_eqI) (auto simp: bit_simps dest: b)
  show "push_bit 4 n AND 0x07 = 0" unfolding m by (rule bit_word_eqI) (auto simp: bit_simps)
qed

text \<open>What the receiver reads from a fragment.\<close>

lemma first_fragment_fields:
  assumes "length d < 256" and "unat sid < 16" and "n \<le> length d"
  shows "first_fragment d sid n ! 0 = 0x55" "first_fragment d sid n ! 1 AND 0xf8 = COMMAND_FIRST_FRAGMENT"
    "session_nibble (first_fragment d sid n ! 3) = sid"
    "eleven_bits (first_fragment d sid n ! 1) (first_fragment d sid n ! 2) = of_nat (length d)"
    "take n (drop 4 (first_fragment d sid n)) = take n d" "length (first_fragment d sid n) = n + 6"
proof -
  have u: "unat (of_nat (length d) :: u16) < 256" using assms(1) by (simp add: unat_of_nat)
  note l = low_octet [OF u]
  show "first_fragment d sid n ! 0 = 0x55" "first_fragment d sid n ! 1 AND 0xf8 = COMMAND_FIRST_FRAGMENT"
    "session_nibble (first_fragment d sid n ! 3) = sid"
    by (simp_all add: first_fragment_def with_crc_def first_header_def l(1) session_nibble_shift(1) [OF assms(2)])
  show "eleven_bits (first_fragment d sid n ! 1) (first_fragment d sid n ! 2) = of_nat (length d)"
    using eleven_bits_low [OF u, of "0xC0"] by (simp add: first_fragment_def with_crc_def first_header_def)
  show "take n (drop 4 (first_fragment d sid n)) = take n d" "length (first_fragment d sid n) = n + 6"
    using assms(3) by (simp_all add: first_fragment_def with_crc_def first_header_def crc16_bytes_def)
qed

lemma subseq_fragment_fields:
  assumes "length d < 256" and "unat sid < 16" and "off + n \<le> length d"
  shows "subseq_fragment d sid off n ! 0 = 0x55" "subseq_fragment d sid off n ! 1 AND 0xf8 = COMMAND_SUBSEQUENT_FRAGMENT"
    "session_nibble (subseq_fragment d sid off n ! 3) = sid"
    "eleven_bits (subseq_fragment d sid off n ! 1) (subseq_fragment d sid off n ! 2) = of_nat (length d)"
    "eleven_bits (subseq_fragment d sid off n ! 3) (subseq_fragment d sid off n ! 4) = of_nat off"
    "take n (drop 5 (subseq_fragment d sid off n)) = take n (drop off d)" "length (subseq_fragment d sid off n) = n + 7"
proof -
  have u: "unat (of_nat (length d) :: u16) < 256" "unat (of_nat off :: u16) < 256" using assms(1,3) by (simp_all add: unat_of_nat)
  note l = low_octet(1) [OF u(1)] low_octet(1) [OF u(2)]
  show "subseq_fragment d sid off n ! 0 = 0x55" "subseq_fragment d sid off n ! 1 AND 0xf8 = COMMAND_SUBSEQUENT_FRAGMENT"
    "session_nibble (subseq_fragment d sid off n ! 3) = sid"
    by (simp_all add: subseq_fragment_def with_crc_def subseq_header_def l session_nibble_shift(1,2) [OF assms(2)])
  show "eleven_bits (subseq_fragment d sid off n ! 1) (subseq_fragment d sid off n ! 2) = of_nat (length d)"
    using eleven_bits_low [OF u(1), of "0xE0"] by (simp add: subseq_fragment_def with_crc_def subseq_header_def)
  show "eleven_bits (subseq_fragment d sid off n ! 3) (subseq_fragment d sid off n ! 4) = of_nat off"
    using eleven_bits_low [OF u(2), of "push_bit 4 sid"] session_nibble_shift(2,3) [OF assms(2)]
    by (simp add: subseq_fragment_def with_crc_def subseq_header_def)
  show "take n (drop 5 (subseq_fragment d sid off n)) = take n (drop off d)" "length (subseq_fragment d sid off n) = n + 7"
    using assms(3) by (simp_all add: subseq_fragment_def with_crc_def subseq_header_def crc16_bytes_def)
qed

section \<open>The transition table\<close>

text \<open>No state has two transitions for the same event, so the direction of the search does not matter.\<close>

definition t2_table :: "(transport2_st \<times> transport2_ev) \<rightharpoonup> transport2_st" where
  "t2_table = map_of (map (\<lambda>t. ((fst t, fst (snd t)), snd (snd t))) trans_table)"

lemma trans_deterministic: "distinct (map (\<lambda>t. (fst t, fst (snd t))) trans_table)"
  by (simp add: trans_table_def)

lemma find_transition_loop_spec:
  "n \<le> length trans_table \<Longrightarrow>
     (find_transition_loop n st ev = 0 \<and> (\<forall>i < n. fst (trans_table ! i) \<noteq> st \<or> fst (snd (trans_table ! i)) \<noteq> ev)) \<or>
     (\<exists>i < n. find_transition_loop n st ev = i + 1 \<and> fst (trans_table ! i) = st \<and> fst (snd (trans_table ! i)) = ev)"
  by (induction n) (auto simp: less_Suc_eq)

lemma t2_table_nth: "i < length trans_table \<Longrightarrow> t2_table (fst (trans_table ! i), fst (snd (trans_table ! i))) = Some (snd (snd (trans_table ! i)))"
  unfolding t2_table_def using trans_deterministic
  by (intro map_of_is_SomeI) (auto simp: distinct_map comp_def image_iff intro!: bexI [OF _ nth_mem])

lemma t2_table_None:
  "(\<forall>i < length trans_table. fst (trans_table ! i) \<noteq> st \<or> fst (snd (trans_table ! i)) \<noteq> ev) \<Longrightarrow> t2_table (st, ev) = None"
  unfolding t2_table_def map_of_eq_None_iff by (force simp: in_set_conv_nth)

lemma post_event_state:
  "current_state (t2_sm_post_event ev s) = (case t2_table (current_state s, ev) of Some st \<Rightarrow> st | None \<Rightarrow> current_state s)"
proof (cases "find_transition (current_state s) ev = 0")
  case True
  then have "t2_table (current_state s, ev) = None"
    using find_transition_loop_spec [of "length trans_table" "current_state s" ev] by (intro t2_table_None) (auto simp: find_transition_def)
  with True show ?thesis by (simp add: t2_sm_post_event_def Let_def)
next
  case False
  then obtain i where "i < length trans_table" "find_transition (current_state s) ev = i + 1"
    "fst (trans_table ! i) = current_state s" "fst (snd (trans_table ! i)) = ev"
    using find_transition_loop_spec [of "length trans_table" "current_state s" ev] by (auto simp: find_transition_def)
  with t2_table_nth [of i] show ?thesis by (simp add: t2_sm_post_event_def Let_def)
qed

lemma t2_table_simps:
  "t2_table (ST_IDLE, EV_START_RECV) = Some ST_RECEIVING" "t2_table (ST_RECEIVING, EV_RECV_NEW_FRAG) = Some ST_RECEIVING"
  "t2_table (ST_RECEIVING, EV_RECV_LAST_FRAG) = Some ST_FIND_MISS_FRAG"
  "t2_table (ST_FIND_MISS_FRAG, EV_SEND_FRAG_COMPLETE) = Some ST_SEND_FRAG_COMPLETE"
  "t2_table (ST_SEND_FRAG_COMPLETE, EV_SUCCESS) = Some ST_IDLE" "t2_table (ST_FIND_MISS_FRAG, EV_MISSING_FRAG) = Some ST_SEND_FRAG_REQ"
  "t2_table (ST_SEND_FRAG_REQ, EV_SUCCESS) = Some ST_RECEIVING" "t2_table (ST_RECEIVING, EV_RECV_FRAG_WAIT) = Some ST_SEND_FRAG"
  "t2_table (ST_WAIT_ACK, EV_TIE_BREAK) = Some ST_RECEIVING" "t2_table (ST_SEND_FRAG, EV_TIE_BREAK) = Some ST_RECEIVING"
  "t2_table (ST_SEND_LAST_FRAG, EV_TIE_BREAK) = Some ST_RECEIVING" "t2_table (ST_RECEIVING, EV_FRAG_RX_TIMER) = Some ST_FIND_MISS_FRAG"
  by (simp_all add: t2_table_def trans_table_def)

section \<open>Reassembly\<close>

text \<open>The state while the fragments of the datagram \<open>d\<close> arrive: every byte marked is right.\<close>

definition assembling :: "u8 list \<Rightarrow> u8 \<Rightarrow> node_id \<Rightarrow> node_id \<Rightarrow> ts \<Rightarrow> bool" where
  "assembling d sid src dst s \<longleftrightarrow>
     ts_inv s \<and> \<not> flag_initialize_once s \<and> current_state s = ST_RECEIVING \<and> current_dnode (scb s) = 0 \<and>
     rcb_session s = sid \<and> cb_source (rcb_cmn (rcb s)) = src \<and> cb_dest (rcb_cmn (rcb s)) = dst \<and>
     current_snode (rcb s) = ucast src \<and> recv_frag_compl_list (rcb s) ! unat sid \<noteq> 1 \<and>
     datagram_size (rcb s) = of_nat (length d) \<and> marked (bytes_recvd_bitmask (rcb s)) 0 \<and>
     (\<forall>k < length d. marked (bytes_recvd_bitmask (rcb s)) k \<longrightarrow> datagramData (rcb s) ! k = d ! k)"

text \<open>The bytes received so far.\<close>

definition received :: "ts \<Rightarrow> nat set" where
  "received s = {k. k < 200 \<and> marked (bytes_recvd_bitmask (rcb s)) k}"

lemma assembling_cong:
  assumes "assembling d sid src dst s" and "rcb s' = rcb s" and "scb_ok (max_fragment_size s') (scb s')" and "t2_txBuf s' = t2_txBuf s"
    and "current_state s' = current_state s" and "current_dnode (scb s') = current_dnode (scb s)"
    and "flag_initialize_once s' = flag_initialize_once s"
  shows "assembling d sid src dst s'"
  using assms by (auto simp: assembling_def ts_inv_def)

lemma assembling_fragment:
  "assembling d sid src dst s \<Longrightarrow>
   assembling d sid src dst (rcb_update (\<lambda>r. r\<lparr>fragment := f, fragment_len := len, rcb_rx_type := t\<rparr>) s)"
  by (auto simp: assembling_def ts_inv_def rcb_ok_def)

lemma post_event_upd:
  "t2_sm_post_event ev s = s\<lparr>current_state := (case t2_table (current_state s, ev) of Some st \<Rightarrow> st | None \<Rightarrow> current_state s)\<rparr>"
proof -
  have "t2_sm_post_event ev s = s\<lparr>current_state := current_state (t2_sm_post_event ev s)\<rparr>"
    by (simp add: t2_sm_post_event_def Let_def)
  then show ?thesis unfolding post_event_state .
qed

lemma current_state_same: "current_state s = st \<Longrightarrow> s\<lparr>current_state := st\<rparr> = s"
  by simp

text \<open>The state in which a frame of the sender is processed.\<close>

definition taken :: "node_id \<Rightarrow> node_id \<Rightarrow> u8 list \<Rightarrow> ts \<Rightarrow> ts" where
  "taken src dst f s =
     rcb_update (\<lambda>r. r\<lparr>fragment := f, fragment_len := of_nat (length f), rcb_rx_type := SINGLECAST\<rparr>)
       (scb_update (\<lambda>b. b\<lparr>frag_wait_source := dst, frag_wait_dest := src\<rparr>) (set_reset_timer s))"

lemma assembling_taken: "assembling d sid src dst s \<Longrightarrow> assembling d sid src dst (taken src dst f s)"
  unfolding taken_def
  by (rule assembling_fragment, rule assembling_cong [of _ _ _ _ s]) (auto simp: set_reset_timer_def assembling_def ts_inv_def scb_ok_def)

lemma handler_assembling:
  assumes "assembling d sid src dst s" and "unat src < 256" and "src \<noteq> dst" and "unat sid < 16" and "length f \<le> 200"
  shows "transport_service_command_handler ll src dst SINGLECAST f (of_nat (length f)) s = receive ll (taken src dst f s)"
proof -
  note a = assms(1) [unfolded assembling_def]
  let ?s = "scb_update (\<lambda>b. b\<lparr>frag_wait_source := dst, frag_wait_dest := src\<rparr>) (set_reset_timer s)"
  have t: "tie_break src f (set_reset_timer s) = set_reset_timer s"
    using a by (simp add: tie_break_def is_transport_service_sending_def recv_or_send_def)
  have th: "\<not> third_node src ?s" using a low_octet(2) [OF assms(2)] by (simp add: third_node_def set_reset_timer_def)
  have sid: "sid \<noteq> 0x10" using assms(4) by auto
  have acc: "accept_state src dst SINGLECAST f (of_nat (length f)) ?s = taken src dst f s"
    using a unfolding accept_state_def taken_def Let_def initialize_once_def
    by (simp add: post_event_upd t2_table_simps current_state_same)
  have len: "unat (of_nat (length f) :: u8) = length f" using assms(5) by (simp add: unat_of_nat)
  show ?thesis
    unfolding transport_service_command_handler_def Let_def t accept_frame_def acc
    using th sid a assms(3,5) len by simp
qed

lemma bit0: "(b :: u8) AND 1 = 0 \<longleftrightarrow> \<not> bit b 0"
  by (simp add: and_one_eq bit_0 mod_2_eq_odd)

lemma mark_assembling:
  assumes "assembling d sid src dst s" and "off + unat n \<le> 200"
  shows "\<exists>bm. mark_frag_received ll (of_nat off) n s = Some (False, rcb_update (\<lambda>r. r\<lparr>bytes_recvd_bitmask := bm\<rparr>) s) \<and>
           length bm = 26 \<and> (\<forall>k < 208. marked bm k \<longleftrightarrow> marked (bytes_recvd_bitmask (rcb s)) k \<or> off \<le> k \<and> k < off + unat n)"
proof -
  have l: "length (bytes_recvd_bitmask (rcb s)) = 26" "marked (bytes_recvd_bitmask (rcb s)) 0"
    using assms(1) by (simp_all add: assembling_def ts_inv_def rcb_ok_def)
  moreover have "bytes_recvd_bitmask (rcb s) \<noteq> []" using l(1) by auto
  ultimately have h: "\<not> hd (bytes_recvd_bitmask (rcb s)) AND 1 = 0" by (simp add: bit0 marked_def hd_conv_nth)
  have o: "unat (of_nat off :: u16) = off" using assms(2) by (simp add: unat_of_nat)
  show ?thesis
    using mark_loop_marked [of off "off + unat n" "bytes_recvd_bitmask (rcb s)"] l(1) assms(2)
    by (auto simp: mark_frag_received_def h o)
qed

lemma nth_write:
  assumes "off + n \<le> length buf" and "n \<le> length src" and "k < length buf"
  shows "(take off buf @ take n src @ drop (off + n) buf) ! k = (if off \<le> k \<and> k < off + n then src ! (k - off) else buf ! k)"
  using assms by (auto simp: nth_append min_def)

lemma write_bytes_Some:
  "n \<le> length src \<Longrightarrow> off + n \<le> length buf \<Longrightarrow> write_bytes buf off src n = Some (take off buf @ take n src @ drop (off + n) buf)"
  by (simp add: write_bytes_def)

lemma assembling_progress:
  assumes "assembling d sid src dst s" and "rcb s' = (rcb s)\<lparr>cur_recvd_data_size := c, rx_timer := t, bytes_recvd_bitmask := bm,
      datagram_size := of_nat (length d), datagramData := data\<rparr>"
    and "c \<noteq> 0" and "length bm = 26" and "length data = 200"
    and "\<forall>k < 208. marked bm k \<longleftrightarrow> marked (bytes_recvd_bitmask (rcb s)) k \<or> off \<le> k \<and> k < off + n"
    and "\<forall>k < 200. data ! k = (if off \<le> k \<and> k < off + n then d ! k else datagramData (rcb s) ! k)" and "length d < 200"
    and "scb_ok (max_fragment_size s') (scb s')" and "t2_txBuf s' = t2_txBuf s" and "current_state s' = current_state s"
    and "current_dnode (scb s') = current_dnode (scb s)" and "flag_initialize_once s' = flag_initialize_once s"
  shows "assembling d sid src dst s'" "received s' = received s \<union> ({off..<off + n} \<inter> {..<200})"
proof -
  have "\<forall>k < length d. marked bm k \<longrightarrow> data ! k = d ! k"
    using assms(1,6,7,8) unfolding assembling_def by auto
  moreover have "marked bm 0" using assms(1,6) by (simp add: assembling_def)
  ultimately show "assembling d sid src dst s'"
    using assms unfolding assembling_def by (auto simp: ts_inv_def rcb_ok_def)
  show "received s' = received s \<union> ({off..<off + n} \<inter> {..<200})" using assms(2,6) by (auto simp: received_def)
qed

lemma bind_Pair: "Option.bind m (\<lambda>x. Some (b, x)) = map_option (Pair b) m"
  by (cases m) simp_all

lemma receive_subsequent_assembling:
  assumes "assembling d sid src dst s" and "fragment (rcb s) = subseq_fragment d sid off n" and "fragment_len (rcb s) = of_nat (n + 7)"
    and "length d < 200" and "unat sid < 16" and "0 < n" and "off + n \<le> length d" and "n + 7 \<le> 200"
  shows "\<exists>s' x. assembling d sid src dst s' \<and> received s' = received s \<union> {off..<off + n} \<and>
           out s' = out s @ [Expected_frames src x] \<and> rcb_rx_type (rcb s') = rcb_rx_type (rcb s) \<and>
           receive_subsequent ll s =
             (if off + n = length d then map_option (Pair False) (find_missing ll (t2_sm_post_event EV_RECV_LAST_FRAG s'))
              else Some (False, rcb_update (\<lambda>r. r\<lparr>rx_data_state := False\<rparr>) s'))"
proof -
  note a = assms(1) [unfolded assembling_def]
  let ?c = "of_nat n :: u8"
  let ?s0 = "rcb_update (\<lambda>r. r\<lparr>rx_timer := Some 800\<rparr>) (rcb_update (\<lambda>r. r\<lparr>cur_recvd_data_size := fragment_len r - 7\<rparr>) (abort_if_tie_broken s))"
  have d256: "length d < 256" using assms(4) by simp
  note fields = subseq_fragment_fields [OF d256 assms(5,7)]
  have len: "unat (of_nat (n + 7) :: u8) = n + 7" using assms(8) by (simp add: unat_of_nat del: of_nat_add)
  have un: "unat ?c = n" using assms(8) by (simp add: unat_of_nat)
  then have cur: "unat ?c = n" "?c \<noteq> 0" "fragment_len (rcb s) - 7 = ?c" using assms(3,6) by auto
  have off: "unat (of_nat off :: u16) = off" "unat (of_nat (length d) :: u16) = length d" using assms(4,7) by (simp_all add: unat_of_nat)
  have s0: "rcb ?s0 = (rcb s)\<lparr>cur_recvd_data_size := ?c, rx_timer := Some 800\<rparr>" using cur(3) by simp
  have scb0: "scb_ok (max_fragment_size (abort_if_tie_broken s)) (scb (abort_if_tie_broken s))"
    using a by (auto simp: abort_if_tie_broken_def ts_inv_def scb_ok_def)
  have keep: "t2_txBuf (abort_if_tie_broken s) = t2_txBuf s" "current_state (abort_if_tie_broken s) = current_state s"
    "current_dnode (scb (abort_if_tie_broken s)) = current_dnode (scb s)" "out (abort_if_tie_broken s) = out s"
    by (simp_all add: abort_if_tie_broken_def)
  have "assembling d sid src dst ?s0"
    using a cur scb0 keep unfolding assembling_def s0 by (auto simp: ts_inv_def rcb_ok_def)
  then obtain bm where bm: "mark_frag_received ll (of_nat off) ?c ?s0 = Some (False, rcb_update (\<lambda>r. r\<lparr>bytes_recvd_bitmask := bm\<rparr>) ?s0)"
    "length bm = 26" "\<forall>k < 208. marked bm k \<longleftrightarrow> marked (bytes_recvd_bitmask (rcb s)) k \<or> off \<le> k \<and> k < off + n"
    using mark_assembling [of d sid src dst ?s0 off ?c ll] cur(1) assms(4,7) s0 by auto
  let ?x = "if pending_segments (rcb_cmn (rcb s)) > 0 then 1 else 0 :: u8"
  let ?data = "take off (datagramData (rcb s)) @ take n (drop 5 (subseq_fragment d sid off n)) @ drop (off + n) (datagramData (rcb s))"
  let ?s' = "rcb_update (\<lambda>r. r\<lparr>datagramData := ?data\<rparr>) (emit (Expected_frames src ?x)
      (rcb_update (\<lambda>r. r\<lparr>datagram_size := of_nat (length d)\<rparr>) (rcb_update (\<lambda>r. r\<lparr>bytes_recvd_bitmask := bm\<rparr>) ?s0)))"
  have data: "length (datagramData (rcb s)) = 200" using a by (simp add: ts_inv_def rcb_ok_def)
  have w: "write_bytes (datagramData (rcb s)) off (drop 5 (subseq_fragment d sid off n)) n = Some ?data"
    using fields(7) data assms(4,7) by (intro write_bytes_Some) auto
  have prog: "assembling d sid src dst ?s'" "received ?s' = received s \<union> ({off..<off + n} \<inter> {..<200})"
  proof -
    have "\<forall>k < 200. ?data ! k = (if off \<le> k \<and> k < off + n then d ! k else datagramData (rcb s) ! k)"
      using nth_write [of off n "datagramData (rcb s)" "drop off d"] data assms(4,7) unfolding fields(6) by auto
    then show "assembling d sid src dst ?s'" "received ?s' = received s \<union> ({off..<off + n} \<inter> {..<200})"
      using assembling_progress [OF assms(1), where s' = ?s' and c = ?c and t = "Some 800" and bm = bm and data = ?data and off = off and n = n] bm(2,3) data fields(6,7) cur assms(4) scb0 keep s0 assms(7)
      by auto
  qed
  have u: "{off..<off + n} \<inter> {..<200} = {off..<off + n}" using assms(4,7) by auto
  have rd: "read_cell (recv_frag_compl_list (rcb s)) (unat sid) = Some (recv_frag_compl_list (rcb s) ! unat sid)"
    using a assms(5) by (simp add: read_cell_def ts_inv_def rcb_ok_def)
  have crc: "frame_crc_ok (abort_if_tie_broken s)"
    using assms(2,3) len fields(7) by (simp add: frame_crc_ok_def crc_with_crc subseq_fragment_def del: of_nat_add)
  have fl: "unat (fragment_len (rcb s)) = n + 7" using assms(3) len by simp
  have "receive_subsequent ll s =
      (if off + n = length d then map_option (Pair False) (find_missing ll (t2_sm_post_event EV_RECV_LAST_FRAG ?s'))
       else Some (False, rcb_update (\<lambda>r. r\<lparr>rx_data_state := False\<rparr>) ?s'))"
    using a assms(4,5,6,7,8) bm(1) w rd crc fl s0 cur off
    by (simp add: receive_subsequent_def Let_def bind_Pair assms(2) fields [unfolded One_nat_def])
  then show ?thesis using prog u by (intro exI [of _ ?s'] exI [of _ ?x]) (auto simp: keep)
qed

text \<open>No session is open, in either direction.\<close>

definition ready :: "ts \<Rightarrow> bool" where
  "ready s \<longleftrightarrow> ts_inv s \<and> current_state s = ST_IDLE \<and> current_dnode (scb s) = 0 \<and> current_snode (rcb s) = 0 \<and>
     (flag_initialize_once s \<or> rcb_session s = 0x10)"

lemma marked_none: "k < 208 \<Longrightarrow> \<not> marked (replicate 26 0) k"
  by (simp add: marked_def)

text \<open>The state in which the first fragment is processed.\<close>

definition opened :: "node_id \<Rightarrow> node_id \<Rightarrow> u8 list \<Rightarrow> ts \<Rightarrow> ts" where
  "opened src dst f s = accept_state src dst SINGLECAST f (of_nat (length f))
     (scb_update (\<lambda>b. b\<lparr>frag_wait_source := dst, frag_wait_dest := src\<rparr>) (set_reset_timer s))"

lemma handler_ready:
  assumes "ready s" and "src \<noteq> dst" and "length f \<le> 200" and "f ! 1 AND 0xf8 \<noteq> COMMAND_SUBSEQUENT_FRAGMENT"
  shows "transport_service_command_handler ll src dst SINGLECAST f (of_nat (length f)) s = receive ll (opened src dst f s)"
proof -
  let ?s = "scb_update (\<lambda>b. b\<lparr>frag_wait_source := dst, frag_wait_dest := src\<rparr>) (set_reset_timer s)"
  have t: "tie_break src f (set_reset_timer s) = set_reset_timer s"
    using assms(1) by (simp add: ready_def tie_break_def is_transport_service_sending_def recv_or_send_def)
  have th: "\<not> third_node src ?s" using assms(1) by (simp add: ready_def third_node_def set_reset_timer_def)
  have len: "unat (of_nat (length f) :: u8) = length f" using assms(3) by (simp add: unat_of_nat)
  show ?thesis
    unfolding transport_service_command_handler_def Let_def t accept_frame_def
    using th assms(2,3,4) len by (simp add: opened_def)
qed

lemma opened_fields:
  assumes "ready s"
  shows "ts_inv (opened src dst f s)" "\<not> flag_initialize_once (opened src dst f s)" "current_state (opened src dst f s) = ST_RECEIVING"
    "current_dnode (scb (opened src dst f s)) = 0" "rcb_session (opened src dst f s) = 0x10"
    "cb_source (rcb_cmn (rcb (opened src dst f s))) = src" "cb_dest (rcb_cmn (rcb (opened src dst f s))) = dst"
    "fragment (rcb (opened src dst f s)) = f" "fragment_len (rcb (opened src dst f s)) = of_nat (length f)"
    "out (opened src dst f s) = out s" "rcb_rx_type (rcb (opened src dst f s)) = SINGLECAST"
proof -
  show "ts_inv (opened src dst f s)" "\<not> flag_initialize_once (opened src dst f s)" "current_state (opened src dst f s) = ST_RECEIVING"
    "current_dnode (scb (opened src dst f s)) = 0" "rcb_session (opened src dst f s) = 0x10"
    "cb_source (rcb_cmn (rcb (opened src dst f s))) = src" "cb_dest (rcb_cmn (rcb (opened src dst f s))) = dst"
    "fragment (rcb (opened src dst f s)) = f" "fragment_len (rcb (opened src dst f s)) = of_nat (length f)"
    "out (opened src dst f s) = out s" "rcb_rx_type (rcb (opened src dst f s)) = SINGLECAST"
    using assms unfolding ready_def opened_def accept_state_def Let_def
    by (auto simp: post_event_upd t2_table_simps initialize_once_def set_reset_timer_def ts_inv_def scb_ok_def rcb_ok_def)
qed

lemma receive_first_opened:
  assumes "ts_inv s" and "\<not> flag_initialize_once s" and "current_state s = ST_RECEIVING" and "current_dnode (scb s) = 0" and "rcb_session s = 0x10"
    and "cb_source (rcb_cmn (rcb s)) = src" and "cb_dest (rcb_cmn (rcb s)) = dst"
    and "fragment (rcb s) = first_fragment d sid n" and "fragment_len (rcb s) = of_nat (n + 6)"
    and "length d \<le> 200" and "unat sid < 16" and "0 < n" and "n < length d" and "n + 6 \<le> 200"
  shows "\<exists>s'. receive_first ll s = Some (False, s') \<and> assembling d sid src dst s' \<and> received s' = {..<n} \<and>
           out s' = out s @ [Expected_frames src 1] \<and> rcb_rx_type (rcb s') = rcb_rx_type (rcb s)"
proof -
  let ?c = "of_nat n :: u8"
  have d256: "length d < 256" using assms(10) by simp
  note fields = first_fragment_fields [OF d256 assms(11) less_imp_le [OF assms(13)]]
  have "unat ?c = n" using assms(14) by (simp add: unat_of_nat)
  then have c: "unat ?c = n" "?c \<noteq> 0" "fragment_len (rcb s) - 6 = ?c" using assms(9,12) by auto
  have fl: "unat (fragment_len (rcb s)) = n + 6" using assms(9,14) by (simp add: unat_of_nat del: of_nat_add)
  have len: "unat (of_nat (length d) :: u16) = length d" using assms(10) by (simp add: unat_of_nat)
  have ne: "(ucast ?c :: u16) \<noteq> of_nat (length d)" using c len assms(13) by (metis less_not_refl unat_ucast_u8_u16)
  have l: "length (datagramData (rcb s)) = 200" "length (recv_frag_compl_list (rcb s)) = 16" "length (t2_txBuf s) = 207"
    using assms(1) by (simp_all add: ts_inv_def rcb_ok_def)
  let ?data = "take n (drop 4 (first_fragment d sid n)) @ drop n (datagramData (rcb s))"
  have w: "write_bytes (datagramData (rcb s)) 0 (drop 4 (first_fragment d sid n)) n = Some ?data"
    using fields(6) l assms(10,13) by (subst write_bytes_Some) auto
  obtain bm where bm: "mark_loop 0 n (replicate 26 0) = Some bm" "length bm = 26" "\<forall>k < 208. marked bm k \<longleftrightarrow> k < n"
    using mark_loop_marked [of 0 n "replicate 26 0"] assms(10,13) marked_none by auto
  have crc: "frame_crc_ok (abort_if_tie_broken s)"
    using assms(8) fl fields(6) by (simp add: frame_crc_ok_def crc_with_crc first_fragment_def)
  have keep: "t2_txBuf (abort_if_tie_broken s) = t2_txBuf s" "current_state (abort_if_tie_broken s) = current_state s"
    "current_dnode (scb (abort_if_tie_broken s)) = current_dnode (scb s)" "out (abort_if_tie_broken s) = out s"
    "scb_ok (max_fragment_size (abort_if_tie_broken s)) (scb (abort_if_tie_broken s))"
    using assms(1) by (auto simp: abort_if_tie_broken_def ts_inv_def scb_ok_def)
  let ?s1 = "rcb_update (\<lambda>r. r\<lparr>rx_timer := Some 800, rcb_cmn := (rcb_cmn r)\<lparr>session_id := sid\<rparr>\<rparr>)
      (emit (Expected_frames src 1) (abort_if_tie_broken s))"
  let ?s2 = "rcb_update (\<lambda>r. r\<lparr>recv_frag_compl_list := (recv_frag_compl_list r)[unat sid := 0], cur_recvd_data_size := fragment_len r - 6,
      datagram_size := of_nat (length d), bytes_recvd_bitmask := replicate 26 0, current_snode := ucast (cb_source (rcb_cmn r))\<rparr>) ?s1"
  let ?s' = "rcb_update (\<lambda>r. r\<lparr>rx_data_state := False\<rparr>) (rcb_update (\<lambda>r. r\<lparr>bytes_recvd_bitmask := bm\<rparr>)
      (rcb_update (\<lambda>r. r\<lparr>datagramData := ?data\<rparr>) ?s2))"
  have data: "k < length d \<Longrightarrow> k < n \<Longrightarrow> ?data ! k = d ! k" for k
    unfolding fields(5) by (simp add: nth_append)
  have "mark_frag_received ll 0 ?c (rcb_update (\<lambda>r. r\<lparr>datagramData := ?data\<rparr>) ?s2) =
      Some (False, rcb_update (\<lambda>r. r\<lparr>bytes_recvd_bitmask := bm\<rparr>) (rcb_update (\<lambda>r. r\<lparr>datagramData := ?data\<rparr>) ?s2))"
    using bm c by (simp add: mark_frag_received_def)
  then have "receive_first ll s = Some (False, ?s')"
    using assms(5,6,10,11,12) l c w fl len ne crc
    by (simp add: receive_first_def Let_def assms(8) fields [unfolded One_nat_def])
  moreover have "assembling d sid src dst ?s'" 
    using assms data bm l c keep len fields(6) by (auto simp: assembling_def ts_inv_def rcb_ok_def)
  moreover have "received ?s' = {..<n}" using bm(3) assms(10,13) by (auto simp: received_def)
  ultimately show ?thesis by (auto simp: keep)
qed

lemma complete_assembling:
  assumes "assembling d sid src dst s" and "rcb_rx_type (rcb s) = SINGLECAST" and "{..<length d} \<subseteq> received s"
    and "length d \<le> 200" and "unat sid < 16" and "t2_table (ST_RECEIVING, ev) = Some ST_FIND_MISS_FRAG"
  shows "\<exists>s'. find_missing ll (t2_sm_post_event ev s) = Some s' \<and> ready s' \<and>
           out s' = out s @ [Sent dst src [0x55, COMMAND_SEGMENT_COMPLETE_V2, push_bit 4 sid] 0 No_callback, Delivered src dst d]"
proof -
  note a = assms(1) [unfolded assembling_def]
  have len: "unat (of_nat (length d) :: u16) = length d" using assms(4) by (simp add: unat_of_nat)
  have l: "length (recv_frag_compl_list (rcb s)) = 16" "length (datagramData (rcb s)) = 200" "length (bytes_recvd_bitmask (rcb s)) = 26"
    using a by (simp_all add: ts_inv_def rcb_ok_def)
  have g: "get_next_missing_offset s = 0"
    using assms(3,4) a l len by (subst get_next_missing_offset_0) (auto simp: received_def)
  have sid: "\<not> sid > 0x0f" using assms(5) by (simp add: word_less_nat_alt not_less)
  have d: "take (length d) (datagramData (rcb s)) = d"
    using a assms(3,4) l by (intro nth_equalityI) (auto simp: received_def)
  let ?p = "t2_sm_post_event EV_SEND_FRAG_COMPLETE (t2_sm_post_event ev s)"
  have p: "rcb ?p = rcb s" "current_state ?p = ST_SEND_FRAG_COMPLETE" "scb ?p = scb s" "out ?p = out s" "t2_txBuf ?p = t2_txBuf s"
    "max_fragment_size ?p = max_fragment_size s"
    using a assms(6) by (simp_all add: post_event_state t2_table_simps)
  have w: "write_cell (recv_frag_compl_list (rcb s)) (unat sid) 1 = Some ((recv_frag_compl_list (rcb s))[unat sid := 1])"
    using l assms(5) by (simp add: write_cell_def)
  have f: "find_missing ll (t2_sm_post_event ev s) = send_frag_complete_cmd ll ?p"
    using g assms(2) by (simp add: find_missing_def)
  let ?e = "emit (Delivered src dst d) (emit (Sent dst src [0x55, COMMAND_SEGMENT_COMPLETE_V2, push_bit 4 sid] 0 No_callback) (set_reset_timer ?p))"
  let ?s' = "t2_sm_post_event EV_SUCCESS (rcb_update (\<lambda>r. r\<lparr>recv_frag_compl_list := (recv_frag_compl_list (rcb s))[unat sid := 1],
      rcb_cmn := (rcb_cmn r)\<lparr>session_id := 0x10\<rparr>, current_snode := 0, rx_timer := None\<rparr>) ?e)"
  have "send_frag_complete_cmd ll ?p = Some ?s'"
    unfolding send_frag_complete_cmd_def Let_def lower_layer_send_data_eq using a sid d len w session_nibble_shift(2) [OF assms(5)]
    by (simp del: post_event_sel(1) add: p)
  moreover have "ready ?s'"
    using a p l len assms(4) unfolding ready_def
    by (auto simp: post_event_state t2_table_simps ts_inv_def rcb_ok_def set_reset_timer_def scb_ok_def)
  ultimately show ?thesis using f by (simp add: p)
qed

section \<open>Receiving a whole datagram\<close>

definition first_frame :: "node_id \<Rightarrow> node_id \<Rightarrow> u8 list \<Rightarrow> u8 \<Rightarrow> nat \<Rightarrow> ts_input" where
  "first_frame src dst d sid n = Frame src dst SINGLECAST (first_fragment d sid n) (of_nat (n + 6))"

definition subseq_frame :: "node_id \<Rightarrow> node_id \<Rightarrow> u8 list \<Rightarrow> u8 \<Rightarrow> nat \<times> nat \<Rightarrow> ts_input" where
  "subseq_frame src dst d sid = (\<lambda>(off, n). Frame src dst SINGLECAST (subseq_fragment d sid off n) (of_nat (n + 7)))"

text \<open>A fragment of \<open>n\<close> bytes at \<open>off\<close> that lies inside the datagram and does not reach its end.\<close>

definition inner :: "u8 list \<Rightarrow> nat \<times> nat \<Rightarrow> bool" where
  "inner d = (\<lambda>(off, n). 0 < n \<and> off + n < length d \<and> n + 7 \<le> 200)"

definition bytes_of :: "nat \<times> nat \<Rightarrow> nat set" where
  "bytes_of = (\<lambda>(off, n). {off..<off + n})"

text \<open>A datagram that is not too long, a session number and two different nodes.\<close>

definition transfer_ok :: "u8 list \<Rightarrow> u8 \<Rightarrow> node_id \<Rightarrow> node_id \<Rightarrow> bool" where
  "transfer_ok d sid src dst \<longleftrightarrow> length d < 200 \<and> unat sid < 16 \<and> src \<noteq> dst"

lemma receive_commands:
  "fragment (rcb s) ! 0 = 0x55 \<Longrightarrow> fragment (rcb s) ! 1 AND 0xf8 = COMMAND_FIRST_FRAGMENT \<Longrightarrow> receive ll s = receive_first ll s"
  "fragment (rcb s) ! 0 = 0x55 \<Longrightarrow> fragment (rcb s) ! 1 AND 0xf8 = COMMAND_SUBSEQUENT_FRAGMENT \<Longrightarrow> receive ll s = receive_subsequent ll s"
  by (simp_all add: receive_def Let_def)

lemma step_subseq_frame:
  assumes "assembling d sid src dst s" and "length d < 256" and "unat sid < 16" and "unat src < 256" and "src \<noteq> dst"
    and "off + n \<le> length d" and "n + 7 \<le> 200"
  shows "ts_step ll (subseq_frame src dst d sid (off, n)) s = map_option snd (receive_subsequent ll (taken src dst (subseq_fragment d sid off n) s))"
    "fragment (rcb (taken src dst (subseq_fragment d sid off n) s)) = subseq_fragment d sid off n"
    "fragment_len (rcb (taken src dst (subseq_fragment d sid off n) s)) = of_nat (n + 7)"
    "rcb_rx_type (rcb (taken src dst (subseq_fragment d sid off n) s)) = SINGLECAST" "out (taken src dst (subseq_fragment d sid off n) s) = out s"
    "received (taken src dst (subseq_fragment d sid off n) s) = received s"
    "datagramData (rcb (taken src dst (subseq_fragment d sid off n) s)) = datagramData (rcb s)"
proof -
  let ?f = "subseq_fragment d sid off n" and ?t = "taken src dst (subseq_fragment d sid off n) s"
  note fields = subseq_fragment_fields [OF assms(2,3,6)]
  show t: "fragment (rcb ?t) = ?f" "fragment_len (rcb ?t) = of_nat (n + 7)" "rcb_rx_type (rcb ?t) = SINGLECAST" "out ?t = out s"
    "received ?t = received s" "datagramData (rcb ?t) = datagramData (rcb s)"
    using fields(7) by (simp_all add: taken_def received_def)
  have "transport_service_command_handler ll src dst SINGLECAST ?f (of_nat (n + 7)) s = receive_subsequent ll ?t"
    using handler_assembling [OF assms(1,4,5,3), of ?f ll] receive_commands(2) [of ?t ll] fields(1,2,7) t(1) assms(7) by simp
  then show "ts_step ll (subseq_frame src dst d sid (off, n)) s = map_option snd (receive_subsequent ll ?t)"
    by (simp add: ts_step_def subseq_frame_def transport_service_on_frame_received_def)
qed

lemma step_subseq:
  assumes "transfer_ok d sid src dst" and "unat src < 256" and "assembling d sid src dst s" and "0 < n" and "off + n \<le> length d" and "n + 7 \<le> 200"
  shows "\<exists>s' x. assembling d sid src dst s' \<and> received s' = received s \<union> bytes_of (off, n) \<and> out s' = out s @ [Expected_frames src x] \<and>
           rcb_rx_type (rcb s') = SINGLECAST \<and>
           ts_step ll (subseq_frame src dst d sid (off, n)) s =
             (if off + n = length d then find_missing ll (t2_sm_post_event EV_RECV_LAST_FRAG s') else Some s')"
proof -
  let ?t = "taken src dst (subseq_fragment d sid off n) s"
  have tr: "length d < 200" "length d < 256" "unat sid < 16" "unat src < 256" "src \<noteq> dst" using assms(1,2) by (simp_all add: transfer_ok_def)
  note t = step_subseq_frame(2-6) [OF assms(3) tr(2,3,4,5) assms(5,6)] and step = step_subseq_frame(1) [OF assms(3) tr(2,3,4,5) assms(5,6), of ll]
  obtain s' x where s': "assembling d sid src dst s'" "received s' = received s \<union> {off..<off + n}" "out s' = out s @ [Expected_frames src x]"
    "rcb_rx_type (rcb s') = SINGLECAST"
    "receive_subsequent ll ?t = (if off + n = length d then map_option (Pair False) (find_missing ll (t2_sm_post_event EV_RECV_LAST_FRAG s'))
              else Some (False, rcb_update (\<lambda>r. r\<lparr>rx_data_state := False\<rparr>) s'))"
    using receive_subsequent_assembling [OF assembling_taken [OF assms(3)] t(1,2) tr(1,3) assms(4,5,6), of ll] t by metis
  show ?thesis
  proof (cases "off + n = length d")
    case True
    then show ?thesis using s' step by (intro exI [of _ s'] exI [of _ x]) (auto simp: bytes_of_def option.map_comp comp_def option.map_ident)
  next
    case False
    let ?r = "rcb_update (\<lambda>r. r\<lparr>rx_data_state := False\<rparr>) s'"
    have "assembling d sid src dst ?r" "received ?r = received s'"
      using s'(1) by (auto simp: assembling_def ts_inv_def rcb_ok_def received_def)
    with False show ?thesis using s' step by (intro exI [of _ ?r] exI [of _ x]) (auto simp: bytes_of_def)
  qed
qed

lemma run_inner:
  assumes "transfer_ok d sid src dst" and "unat src < 256" and "assembling d sid src dst s" and "list_all (inner d) fs"
  shows "\<exists>s' xs. assembling d sid src dst s' \<and> received s' = received s \<union> \<Union> (bytes_of ` set fs) \<and> out s' = out s @ map (Expected_frames src) xs \<and>
           ts_run ll (map (subseq_frame src dst d sid) fs) s = Some s'"
  using assms(3,4)
proof (induction fs arbitrary: s)
  case (Cons f fs)
  obtain off n where f: "f = (off, n)" "0 < n" "off + n < length d" "n + 7 \<le> 200" using Cons.prems(2) by (cases f) (auto simp: inner_def)
  obtain s1 x where s1: "assembling d sid src dst s1" "received s1 = received s \<union> bytes_of f" "out s1 = out s @ [Expected_frames src x]"
    "ts_step ll (subseq_frame src dst d sid f) s = Some s1"
    using step_subseq [OF assms(1,2) Cons.prems(1) f(2) _ f(4), of off ll] f by auto
  obtain s' xs where "assembling d sid src dst s'" "received s' = received s1 \<union> \<Union> (bytes_of ` set fs)" "out s' = out s1 @ map (Expected_frames src) xs"
    "ts_run ll (map (subseq_frame src dst d sid) fs) s1 = Some s'"
    using Cons.IH [OF s1(1)] Cons.prems(2) by auto
  with s1 show ?case by (intro exI [of _ s'] exI [of _ "x # xs"]) auto
qed (auto intro!: exI [of _ "[] :: u8 list"])

lemma ts_run_append: "ts_run ll (xs @ ys) s = (case ts_run ll xs s of None \<Rightarrow> None | Some s' \<Rightarrow> ts_run ll ys s')"
  by (induction xs arbitrary: s) (auto split: option.split)

lemma step_first:
  assumes "length d \<le> 200 \<and> unat sid < 16 \<and> src \<noteq> dst" and "ready s" and "0 < n" and "n < length d" and "n + 6 \<le> 200"
  shows "\<exists>s'. ts_step ll (first_frame src dst d sid n) s = Some s' \<and> assembling d sid src dst s' \<and> received s' = {..<n} \<and>
           out s' = out s @ [Expected_frames src 1]"
proof -
  let ?f = "first_fragment d sid n" and ?t = "opened src dst (first_fragment d sid n) s"
  have tr: "length d \<le> 200" "length d < 256" "unat sid < 16" "src \<noteq> dst" using assms(1) by simp_all
  note fields = first_fragment_fields [OF tr(2,3) less_imp_le [OF assms(4)]]
  note o = opened_fields [OF assms(2), where src = src and dst = dst and f = ?f]
  have fl: "fragment_len (rcb ?t) = of_nat (n + 6)" using o(9) fields(6) by simp
  obtain s' where s': "receive_first ll ?t = Some (False, s')" "assembling d sid src dst s'" "received s' = {..<n}" "out s' = out s @ [Expected_frames src 1]"
    using receive_first_opened [OF o(1-8) fl tr(1,3) assms(3,4,5), of ll] o(10) by auto
  have "transport_service_command_handler ll src dst SINGLECAST ?f (of_nat (n + 6)) s = receive_first ll ?t"
    using handler_ready [OF assms(2) tr(4), of ?f ll] receive_commands(1) [of ?t ll] fields(1,2,6) o(8) assms(5) by simp
  with s' show ?thesis by (simp add: ts_step_def first_frame_def transport_service_on_frame_received_def)
qed

text \<open>
  C24. A datagram of fewer than 200 bytes from a node with a classic NodeID is reassembled: from a state without an open session, the first
  fragment, the other fragments in any order and any number of times, and the fragment that ends
  the datagram last, make the Transport Service hand exactly the datagram to the upper layer,
  once, and answer SEGMENT COMPLETE, provided together they cover the datagram; afterwards no
  session is open.
\<close>

theorem datagram_reassembled:
  assumes "transfer_ok d sid src dst" and "ready s" and "0 < n" and "n < length d" and "n + 6 \<le> 200" and "list_all (inner d) fs"
    and "unat src < 256"
    and "0 < m" and "off + m = length d" and "m + 7 \<le> 200"
    and "{..<length d} \<subseteq> {..<n} \<union> \<Union> (bytes_of ` set fs) \<union> bytes_of (off, m)"
  shows "\<exists>s' xs. ts_run ll (first_frame src dst d sid n # map (subseq_frame src dst d sid) (fs @ [(off, m)])) s = Some s' \<and> ready s' \<and>
    out s' = out s @ map (Expected_frames src) xs @
      [Sent dst src [COMMAND_CLASS_TRANSPORT_SERVICE_V2, COMMAND_SEGMENT_COMPLETE_V2, push_bit 4 sid] 0 No_callback, Delivered src dst d]"
proof -
  have tr: "length d < 200" "unat sid < 16" using assms(1) by (simp_all add: transfer_ok_def)
  obtain s1 where s1: "ts_step ll (first_frame src dst d sid n) s = Some s1" "assembling d sid src dst s1" "received s1 = {..<n}"
    "out s1 = out s @ [Expected_frames src 1]"
    using step_first [OF _ assms(2-5), of sid src dst ll] assms(1) by (auto simp: transfer_ok_def)
  obtain s2 xs where s2: "assembling d sid src dst s2" "received s2 = {..<n} \<union> \<Union> (bytes_of ` set fs)" "out s2 = out s1 @ map (Expected_frames src) xs"
    "ts_run ll (map (subseq_frame src dst d sid) fs) s1 = Some s2"
    using run_inner [OF assms(1,7) s1(2) assms(6)] s1(3) by metis
  obtain s3 x where s3: "assembling d sid src dst s3" "received s3 = received s2 \<union> bytes_of (off, m)" "out s3 = out s2 @ [Expected_frames src x]"
    "rcb_rx_type (rcb s3) = SINGLECAST"
    "ts_step ll (subseq_frame src dst d sid (off, m)) s2 = find_missing ll (t2_sm_post_event EV_RECV_LAST_FRAG s3)"
    using step_subseq [OF assms(1,7) s2(1) assms(8) _ assms(10), of off ll] assms(9) by auto
  have "{..<length d} \<subseteq> received s3" using assms(11) s2(2) s3(2) by blast
  then obtain s' where s': "find_missing ll (t2_sm_post_event EV_RECV_LAST_FRAG s3) = Some s'" "ready s'"
    "out s' = out s3 @ [Sent dst src [0x55, COMMAND_SEGMENT_COMPLETE_V2, push_bit 4 sid] 0 No_callback, Delivered src dst d]"
    using complete_assembling [OF s3(1,4) _ _ tr(2) t2_table_simps(3), of ll] tr(1) by auto
  have "ts_run ll (first_frame src dst d sid n # map (subseq_frame src dst d sid) (fs @ [(off, m)])) s = Some s'"
    using s1(1) s2(4) s3(5) s'(1) by (simp add: ts_run_append)
  then show ?thesis using s1(4) s2(3) s3(3) s'(2,3) by (intro exI [of _ s'] exI [of _ "1 # xs @ [x]"]) simp
qed

lemma ready_start: "ready (transport_service_init node ts_start)"
  using ts_inv_start [of node] by (simp add: ready_def ts_start_def transport_service_init_def Let_def)

theorem datagram_reassembled_witness:
  "\<exists>s' xs. ts_run (\<lambda>_. 0) (first_frame 2 1 [7, 8, 9] 3 1 # map (subseq_frame 2 1 [7, 8, 9] 3) ([(1, 1)] @ [(2, 1)]))
       (transport_service_init 1 ts_start) = Some s' \<and> ready s' \<and>
     out s' = out (transport_service_init 1 ts_start) @ map (Expected_frames 2) xs @
      [Sent 1 2 [COMMAND_CLASS_TRANSPORT_SERVICE_V2, COMMAND_SEGMENT_COMPLETE_V2, push_bit 4 3] 0 No_callback, Delivered 2 1 [7, 8, 9]]"
  by (rule datagram_reassembled) (auto simp: transfer_ok_def ready_start inner_def bytes_of_def)

end
