(* ===== verification/Transport_Service_Properties.thy ===== *)
theory Transport_Service_Properties
  imports Transport_Service_Reassembly
begin

text \<open>
  Properties of the Transport Service as a whole: where its behaviour is undefined, what its
  sending side puts on the air, and how sessions end.
\<close>

section \<open>Undefined behaviour\<close>

text \<open>
  C25. In every state that a history of well-formed inputs reaches from a freshly started controller, the
  buffers and lengths of the Transport Service are consistent, and a well-formed input leads to a read or
  write outside a buffer or a division by zero exactly in the situations \<open>ts_hazard\<close> lists.
\<close>

theorem transport_service_fails_exactly_in_hazards:
  assumes "ts_run ll is (transport_service_init node ts_start) = Some s" and "list_all ts_input_ok is" and "ts_input_ok i"
  shows "ts_inv s \<and> (ts_step ll i s = None \<longleftrightarrow> ts_hazard i s)"
proof -
  have inv: "ts_inv s" using ts_run_inv [OF ts_inv_start assms(2), of ll node] assms(1) by simp
  with ts_step_inv [OF inv assms(3), of ll] show ?thesis by (auto simp: returns_def split: if_splits)
qed

text \<open>What one SEGMENT WAIT does to a freshly started controller.\<close>

lemma segment_wait_step:
  assumes "ready s" and "scb_session s = 0" and "frag_compl_list (scb s) ! 0 \<noteq> 1" and "\<not> flag_reply_frag_req (scb s)"
    and "\<not> flag_send_frag_wait (scb s)" and "src \<noteq> dst"
  shows "\<exists>s'. ts_step ll (Frame src dst SINGLECAST [0x55, COMMAND_SEGMENT_WAIT_V2, n, a, b] 3) s = Some s' \<and> ts_inv s' \<and>
           wait_restart_timer (scb s') \<noteq> None \<and> datagram_len (scb s') = datagram_len (scb s)"
proof -
  let ?f = "[0x55, COMMAND_SEGMENT_WAIT_V2, n, a, b] :: u8 list"
  let ?i = "Frame src dst SINGLECAST ?f 3"
  let ?t = "scb_update (\<lambda>b. b\<lparr>frag_wait_source := dst, frag_wait_dest := src\<rparr>) (set_reset_timer s)"
  let ?a = "accept_state src dst SINGLECAST ?f 3 ?t"
  have s: "ts_inv s" "current_state s = ST_IDLE" "current_dnode (scb s) = 0" "current_snode (rcb s) = 0"
    using assms(1) by (simp_all add: ready_def)
  have t: "tie_break src ?f (set_reset_timer s) = set_reset_timer s"
    using s by (simp add: tie_break_def is_transport_service_sending_def recv_or_send_def)
  have th: "\<not> third_node src ?t" using s by (simp add: third_node_def set_reset_timer_def)
  have a: "scb ?a = scb ?t" "fragment (rcb ?a) = ?f"
    using s by (simp_all add: accept_state_def Let_def initialize_once_def)
  have "frag_compl_list (scb s) ! 0 \<noteq> 1" "length (frag_compl_list (scb s)) = 15" using assms(3) s(1) by (simp_all add: ts_inv_def scb_ok_def)
  then have w: "\<exists>s'. receive_wait ll ?a = Some (False, s') \<and> wait_restart_timer (scb s') \<noteq> None \<and> datagram_len (scb s') = datagram_len (scb s)"
    using assms(2,4,5) a
    by (simp add: receive_wait_def read_cell_def set_reset_timer_def transport_service_senddata_cb_def measure_round_trip_def
          schedule_next_frag_def Let_def)
  have r: "receive ll ?a = receive_wait ll ?a" using a by (simp add: receive_def)
  have "transport_service_command_handler ll src dst SINGLECAST ?f 3 s = receive_wait ll ?a"
    unfolding transport_service_command_handler_def Let_def t accept_frame_def using th assms(6) r by simp
  with w obtain s' where s': "ts_step ll ?i s = Some s'" "wait_restart_timer (scb s') \<noteq> None" "datagram_len (scb s') = datagram_len (scb s)"
    by (auto simp: ts_step_def transport_service_on_frame_received_def)
  moreover have "ts_input_ok ?i" by (simp add: ts_input_ok_def memory_ok_def)
  then have "ts_inv s'" using ts_step_inv [OF s(1), of ?i ll] s'(1) by (auto simp: returns_def split: if_splits)
  ultimately show ?thesis by blast
qed

text \<open>
  A single SEGMENT WAIT from any node stops a controller that has not sent a datagram yet: the frame
  starts the timer that restarts the transmission, and when it fires, the empty datagram is
  divided into segments of length zero.
\<close>

theorem segment_wait_crashes_fresh_controller:
  assumes "src \<noteq> dst"
  shows "ts_run ll [Frame src dst SINGLECAST [0x55, COMMAND_SEGMENT_WAIT_V2, n, a, b] 3, Expire Wait_restart_timer]
           (transport_service_init node ts_start) = None"
proof -
  let ?s = "transport_service_init node ts_start"
  have f: "scb_session ?s = 0" "frag_compl_list (scb ?s) ! 0 \<noteq> 1" "\<not> flag_reply_frag_req (scb ?s)" "\<not> flag_send_frag_wait (scb ?s)"
    "datagram_len (scb ?s) = 0"
    by (simp_all add: ts_start_def transport_service_init_def Let_def)
  obtain s' where s': "ts_step ll (Frame src dst SINGLECAST [0x55, COMMAND_SEGMENT_WAIT_V2, n, a, b] 3) ?s = Some s'" "ts_inv s'"
    "wait_restart_timer (scb s') \<noteq> None" "datagram_len (scb s') = 0"
    using segment_wait_step [OF ready_start f(1-4) assms, of ll n a b] f(5) by auto
  have "ts_hazard (Expire Wait_restart_timer) s'" using s' by (simp add: ts_hazard_def)
  then have "ts_step ll (Expire Wait_restart_timer) s' = None"
    using ts_step_inv [OF s'(2), of "Expire Wait_restart_timer" ll] by (simp add: ts_input_ok_def)
  with s'(1) show ?thesis by simp
qed

theorem segment_wait_crashes_fresh_controller_witness:
  "(9 :: node_id) \<noteq> 1 \<and>
   ts_run (\<lambda>_. 0) [Frame 9 1 SINGLECAST [0x55, COMMAND_SEGMENT_WAIT_V2, 0, 0, 0] 3, Expire Wait_restart_timer]
     (transport_service_init 1 ts_start) = None"
  using segment_wait_crashes_fresh_controller [of 9 1 "\<lambda>_. 0" 0 0 0 1] by simp

text \<open>The state reached from a fresh controller by sending a datagram of two fragments, both of which the lower layer delivers.\<close>

definition accepting :: lower_layer where
  "accepting = (\<lambda>_. 0)"

definition sent_history :: "ts_input list" where
  "sent_history = [Send_data 1 2 [1, 2, 3, 4, 5, 6, 7, 8] 12 (Some 9), Tx_callback Senddata_cb 0, Expire Timer_btwn_2_frags, Tx_callback Last_frag_cb 0]"

lemma sent_history_state:
  "case ts_run accepting sent_history (transport_service_init 1 ts_start) of
     None \<Rightarrow> False
   | Some s \<Rightarrow> current_state s = ST_WAIT_ACK \<and> \<not> sending (scb s) \<and> flag_initialize_once s \<and> rcb_session s = 0 \<and> cur_recvd_data_size (rcb s) = 0 \<and>
       current_dnode (scb s) = 2 \<and> current_snode (rcb s) = 0 \<and> transmission_aborted (scb s) = 0x11 \<and> frag_compl_list (scb s) ! 0 = 0 \<and>
       datagram_len (scb s) = 8 \<and> cb_dest (scb_cmn (scb s)) = 2 \<and> my_node_id s = 1 \<and> on_send_complete_cb s = Some 9"
  by code_simp

lemma sent_history_run:
  obtains s where "ts_run accepting sent_history (transport_service_init 1 ts_start) = Some s" "ts_inv s" "current_state s = ST_WAIT_ACK"
    "\<not> sending (scb s)" "wait_hazard s" "current_dnode (scb s) = 2" "current_snode (rcb s) = 0" "transmission_aborted (scb s) = 0x11"
    "frag_compl_list (scb s) ! 0 = 0" "datagram_len (scb s) = 8" "cb_dest (scb_cmn (scb s)) = 2" "my_node_id s = 1" "on_send_complete_cb s = Some 9"
proof -
  have ok: "list_all ts_input_ok sent_history" by (simp add: sent_history_def ts_input_ok_def)
  show thesis
    using sent_history_state ts_run_inv [OF ts_inv_start ok, of accepting 1]
    by (cases "ts_run accepting sent_history (transport_service_init 1 ts_start)") (auto intro!: that simp: wait_hazard_def)
qed

lemma request_frame_hazard:
  assumes "current_dnode (scb s) = ucast src" and "unat src < 256" and "current_snode (rcb s) = 0" and "src \<noteq> dst"
    and "\<not> sending (scb s)" and "scb_session s = 0" and "transmission_aborted (scb s) \<noteq> 0" and "frag_compl_list (scb s) ! 0 \<noteq> 1"
    and "session_nibble hi = 0" and "unat (datagram_len (scb s)) < unat (requested_offset [0x55, COMMAND_SEGMENT_REQUEST_V2, hi, lo, x])"
  shows "frame_hazard src dst SINGLECAST [0x55, COMMAND_SEGMENT_REQUEST_V2, hi, lo, x] 4 s"
proof -
  let ?f = "[0x55, COMMAND_SEGMENT_REQUEST_V2, hi, lo, x] :: u8 list"
  let ?t = "scb_update (\<lambda>b. b\<lparr>frag_wait_source := dst, frag_wait_dest := src\<rparr>) (tie_break src ?f (set_reset_timer s))"
  let ?a = "accept_state src dst SINGLECAST ?f 4 ?t"
  have th: "\<not> third_node src ?t" using assms(1,3) low_octet(2) [OF assms(2)] by (simp add: third_node_def tie_break_inv set_reset_timer_def)
  have a: "scb ?a = scb ?t" "fragment (rcb ?a) = ?f" "current_snode (rcb ?a) = 0"
    using assms(3) by (auto simp: accept_state_def Let_def initialize_once_def tie_break_inv split: transport2_st.split)
  then have "receive_hazard ?a"
    using assms by (simp add: receive_hazard_def request_hazard_def refuse_reply_def tie_break_inv set_reset_timer_def)
  then show ?thesis using th assms(4) by (simp add: frame_hazard_def accept_hazard_def)
qed

text \<open>
  While the Transport Service waits for the answer to a datagram, a SEGMENT REQUEST of its destination for
  an offset behind the end of the datagram makes it copy far beyond the transmit buffer: the
  offset is not checked, and the length of the rest of the datagram wraps around.
\<close>

theorem segment_request_overruns_buffer:
  assumes "ts_inv s" and "current_dnode (scb s) = ucast src" and "unat src < 256" and "current_snode (rcb s) = 0" and "src \<noteq> dst"
    and "\<not> sending (scb s)" and "transmission_aborted (scb s) \<noteq> 0" and "frag_compl_list (scb s) ! 0 \<noteq> 1"
    and "session_nibble hi = 0" and "unat (datagram_len (scb s)) < unat (requested_offset [0x55, COMMAND_SEGMENT_REQUEST_V2, hi, lo, x])"
  shows "ts_step ll (Frame src dst SINGLECAST [0x55, COMMAND_SEGMENT_REQUEST_V2, hi, lo, x] 4) s = None"
proof -
  let ?i = "Frame src dst SINGLECAST [0x55, COMMAND_SEGMENT_REQUEST_V2, hi, lo, x] 4"
  have "scb_session s = 0" using assms(1) by (simp add: ts_inv_def scb_ok_def)
  then have "ts_hazard ?i s" using request_frame_hazard [OF assms(2-6) _ assms(7-10)] by (simp add: ts_hazard_def)
  then show ?thesis using ts_step_inv [OF assms(1), of ?i ll] by (simp add: ts_input_ok_def memory_ok_def)
qed

theorem segment_request_overruns_buffer_witness:
  "\<exists>s. ts_run accepting sent_history (transport_service_init 1 ts_start) = Some s \<and>
     ts_step accepting (Frame 2 1 SINGLECAST [0x55, COMMAND_SEGMENT_REQUEST_V2, 0, 9, 0] 4) s = None"
proof (rule sent_history_run)
  fix s assume s: "ts_run accepting sent_history (transport_service_init 1 ts_start) = Some s" "ts_inv s" "current_state s = ST_WAIT_ACK"
    "\<not> sending (scb s)" "wait_hazard s" "current_dnode (scb s) = 2" "current_snode (rcb s) = 0" "transmission_aborted (scb s) = 0x11"
    "frag_compl_list (scb s) ! 0 = 0" "datagram_len (scb s) = 8" "cb_dest (scb_cmn (scb s)) = 2" "my_node_id s = 1" "on_send_complete_cb s = Some 9"
  have "ts_step accepting (Frame 2 1 SINGLECAST [0x55, COMMAND_SEGMENT_REQUEST_V2, 0, 9, 0] 4) s = None"
    by (rule segment_request_overruns_buffer) (use s in \<open>simp_all add: session_nibble_def requested_offset_def\<close>)
  with s(1) show ?thesis by blast
qed

text \<open>
  A frame of a third node stops a controller that waits for the answer to the first datagram it has sent,
  if no fragment has been received before: the SEGMENT WAIT it wants to answer divides by the
  length of a fragment that never arrived.
\<close>

theorem third_node_frame_divides_by_zero:
  assumes "ts_inv s" and "wait_hazard s" and "current_state s \<noteq> ST_SEND_FRAG_WAIT" and "current_dnode (scb s) \<noteq> 0"
    and "src \<noteq> ucast (current_dnode (scb s))" and "src \<noteq> cb_dest (scb_cmn (scb s))" and "src \<noteq> dst"
    and "memory_ok f len" and "unat len \<le> 200"
  shows "ts_step ll (Frame src dst SINGLECAST f len) s = None"
proof -
  have t: "tie_break src f (set_reset_timer s) = set_reset_timer s" using assms(6) by (simp add: tie_break_def set_reset_timer_def)
  have "frame_hazard src dst SINGLECAST f len s"
    using assms unfolding frame_hazard_def Let_def t by (simp add: third_node_def wait_hazard_def set_reset_timer_def)
  then have "ts_hazard (Frame src dst SINGLECAST f len) s" by (simp add: ts_hazard_def)
  then show ?thesis using ts_step_inv [OF assms(1), of "Frame src dst SINGLECAST f len" ll] assms(8) by (simp add: ts_input_ok_def)
qed

theorem third_node_frame_divides_by_zero_witness:
  "\<exists>s. ts_run accepting sent_history (transport_service_init 1 ts_start) = Some s \<and>
     ts_step accepting (Frame 3 1 SINGLECAST [0x55, COMMAND_FIRST_FRAGMENT, 0, 0, 0] 5) s = None"
proof (rule sent_history_run)
  fix s assume s: "ts_run accepting sent_history (transport_service_init 1 ts_start) = Some s" "ts_inv s" "current_state s = ST_WAIT_ACK"
    "\<not> sending (scb s)" "wait_hazard s" "current_dnode (scb s) = 2" "current_snode (rcb s) = 0" "transmission_aborted (scb s) = 0x11"
    "frag_compl_list (scb s) ! 0 = 0" "datagram_len (scb s) = 8" "cb_dest (scb_cmn (scb s)) = 2" "my_node_id s = 1" "on_send_complete_cb s = Some 9"
  have "ts_step accepting (Frame 3 1 SINGLECAST [0x55, COMMAND_FIRST_FRAGMENT, 0, 0, 0] 5) s = None"
    by (rule third_node_frame_divides_by_zero) (use s in \<open>simp_all add: memory_ok_def\<close>)
  with s(1) show ?thesis by blast
qed

theorem transport_service_fails_exactly_in_hazards_witness:
  "\<exists>s. ts_run accepting sent_history (transport_service_init 1 ts_start) = Some s \<and> ts_inv s \<and>
     (ts_step accepting (Expire Wait_restart_timer) s = None \<longleftrightarrow> ts_hazard (Expire Wait_restart_timer) s)"
proof (rule sent_history_run)
  fix s assume s: "ts_run accepting sent_history (transport_service_init 1 ts_start) = Some s"
  have "list_all ts_input_ok sent_history" by (simp add: sent_history_def ts_input_ok_def)
  then show ?thesis using transport_service_fails_exactly_in_hazards [OF s, of "Expire Wait_restart_timer"] s by (simp add: ts_input_ok_def)
qed

section \<open>What the sender puts on the air\<close>

lemma put_fragment_bytes:
  assumes "put_fragment h off s = Some s'" and "k = unat (datalen_to_send (scb s))"
  shows "take (length h + k + 2) (t2_txBuf s') = with_crc (h @ take k (drop off (datagram (scb s))))"
    "s' = s\<lparr>t2_txBuf := t2_txBuf s'\<rparr>" "length h + k + 2 \<le> length (t2_txBuf s')"
proof -
  let ?src = "drop off (datagram (scb s))" and ?b1 = "h @ drop (length h) (t2_txBuf s)"
  let ?b2 = "h @ take k ?src @ drop (length h + k) (t2_txBuf s)"
  have k: "k \<le> length ?src" "length h + k + 2 \<le> length (t2_txBuf s)"
    and w: "add_crc ?b2 (k + length h) = Some (t2_txBuf s')" "s' = s\<lparr>t2_txBuf := t2_txBuf s'\<rparr>"
    using assms by (auto simp: put_fragment_def bind_eq_Some_conv write_bytes_def add_crc_def crc16_bytes_def Let_def add.commute split: if_splits)
  have "take (k + length h) ?b2 = h @ take k ?src" using k(1) by simp
  then have t: "t2_txBuf s' = (h @ take k ?src) @ crc16_bytes (zwave_crc16 CRC16_INIT_VALUE (h @ take k ?src)) @ drop (k + length h + 2) ?b2"
    using w(1) by (auto simp: add_crc_def write_bytes_def Let_def crc16_bytes_def split: if_splits)
  show "take (length h + k + 2) (t2_txBuf s') = with_crc (h @ take k (drop off (datagram (scb s))))"
    using k unfolding t with_crc_def by (simp add: crc16_bytes_def)
  show "s' = s\<lparr>t2_txBuf := t2_txBuf s'\<rparr>" by (rule w(2))
  show "length h + k + 2 \<le> length (t2_txBuf s')" using k unfolding t by (simp add: crc16_bytes_def)
qed

text \<open>
  A subsequent fragment that is sent is a fragment of the datagram, with its checksum, at the offset it
  names; but the count of what remains is then reduced twice, so that the next fragment starts two fragments
  further on and the one between them is left for the receiver to ask for.
\<close>

theorem every_other_fragment_skipped:
  assumes "ts_inv s" and "frag_compl_list (scb s) ! 0 \<noteq> 1" and "0 < max_fragment_size s"
    and "2 * unat (max_fragment_size s) \<le> unat (remaining_data_len (scb s))" and "\<And>xs. ll xs \<noteq> 1"
  shows "\<exists>s'. send_subseq_frag ll s = Some s' \<and>
           out s' = out s @ [Sent (cb_source (scb_cmn (scb s))) (cb_dest (scb_cmn (scb s)))
             (subseq_fragment (take (unat (datagram_len (scb s))) (datagram (scb s))) 0
                (unat (datagram_len (scb s)) - unat (remaining_data_len (scb s))) (unat (max_fragment_size s))) 0 Senddata_cb] \<and>
           unat (remaining_data_len (scb s')) = unat (remaining_data_len (scb s)) - 2 * unat (max_fragment_size s)"
proof -
  let ?L = "datagram_len (scb s)" and ?r = "remaining_data_len (scb s)" and ?m = "max_fragment_size s"
  let ?d = "take (unat ?L) (datagram (scb s))" and ?off = "unat ?L - unat ?r"
  have i: "length (datagram (scb s)) = 200" "length (frag_compl_list (scb s)) = 15" "scb_session s = 0" "unat ?L \<le> 200" "unat ?r \<le> unat ?L"
    using assms(1) by (simp_all add: ts_inv_def scb_ok_def)
  have m: "0 < unat ?m" using assms(3) by (simp add: word_less_nat_alt)
  have r: "?r \<noteq> 0" "?m \<le> ?r" "\<not> ?r \<le> ?m" "?r \<le> ?L" "?m \<le> ?r - ?m" "?m \<noteq> 0"
    using assms(3,4) m i(5) unat_u16_diff [of ?m ?r] by (auto simp: word_le_nat_alt unat_eq_zero [symmetric] simp del: unat_eq_zero)
  have un: "unat (?L - ?r) = ?off" "unat (?r - ?m - ?m) = unat ?r - 2 * unat ?m"
    using r(2,4,5) unat_u16_diff [of ?r ?L] unat_u16_diff [of ?m "?r - ?m"] unat_u16_diff [of ?m ?r] by simp_all
  have c: "scb (subseq_chosen s) = (scb s)\<lparr>datalen_to_send := ?m\<rparr>" "out (subseq_chosen s) = out s" "max_fragment_size (subseq_chosen s) = ?m"
    "t2_txBuf (subseq_chosen s) = t2_txBuf s"
    using r by (simp_all add: subseq_chosen_def Let_def)
  let ?o = "scb_update (\<lambda>b. b\<lparr>scb_offset := datagram_len b - remaining_data_len b\<rparr>) (subseq_chosen s)"
  have inv: "ts_inv ?o" using subseq_chosen_inv(1) [OF assms(1)] by (simp add: ts_inv_def scb_ok_def)
  have "returns (\<lambda>s'. \<exists>b. s' = ?o\<lparr>t2_txBuf := b\<rparr> \<and> length b = 207) (put_fragment (subseq_header ?L 0 (?L - ?r)) ?off ?o)"
    using inv c i(4,5) assms(4) m by (intro put_fragment_inv) auto
  then obtain b where b: "put_fragment (subseq_header ?L 0 (?L - ?r)) ?off ?o = Some (?o\<lparr>t2_txBuf := b\<rparr>)" "length b = 207"
    by (auto simp: returns_def)
  have hd: "subseq_header ?L 0 (?L - ?r) = subseq_header (of_nat (length ?d)) 0 (of_nat ?off)"
    using i(1,4) un(1) by (simp flip: un(1))
  have "take (unat ?m) (drop ?off (datagram (scb s))) = take (unat ?m) (drop ?off ?d)"
    using assms(4) i(4,5) m by (simp add: drop_take min_def)
  then have bytes: "take (7 + unat ?m) b = subseq_fragment ?d 0 ?off (unat ?m)"
    using put_fragment_bytes(1) [OF b(1) refl] c unfolding subseq_fragment_def by (simp add: hd add.commute)
  have len: "7 + unat ?m \<le> length b" using b(2) i(4,5) assms(4) m by simp
  have "send_subseq_frag ll s = send_subseq_not_last ll (?o\<lparr>t2_txBuf := b\<rparr>)"
    using i assms(2) c r(3) b(1) un(1) by (simp add: send_subseq_frag_def Let_def read_cell_def)
  also have "\<exists>s'. send_subseq_not_last ll (?o\<lparr>t2_txBuf := b\<rparr>) = Some s' \<and>
      out s' = out s @ [Sent (cb_source (scb_cmn (scb s))) (cb_dest (scb_cmn (scb s))) (take (7 + unat ?m) b) 0 Senddata_cb] \<and>
      remaining_data_len (scb s') = ?r - ?m - ?m"
    using c r len assms(5) by (simp add: send_subseq_not_last_def Let_def tx_bytes_def lower_layer_send_data_eq segments_def set_reset_timer_def)
  finally show ?thesis unfolding bytes using un(2) by auto
qed

definition long_history :: "ts_input list" where
  "long_history = [Send_data 1 2 [1, 2, 3, 4, 5, 6, 7, 8, 9, 10, 11, 12, 13, 14, 15, 16] 11 (Some 9)]"

lemma long_history_state:
  "case ts_run accepting long_history (transport_service_init 1 ts_start) of
     None \<Rightarrow> False
   | Some s \<Rightarrow> frag_compl_list (scb s) ! 0 = 0 \<and> max_fragment_size s = 4 \<and> remaining_data_len (scb s) = 12 \<and> datagram_len (scb s) = 16"
  by code_simp

theorem every_other_fragment_skipped_witness:
  "\<exists>s s'. ts_run accepting long_history (transport_service_init 1 ts_start) = Some s \<and> send_subseq_frag accepting s = Some s' \<and>
     unat (remaining_data_len (scb s)) = 12 \<and> unat (remaining_data_len (scb s')) = 4"
proof -
  have ok: "list_all ts_input_ok long_history" by (simp add: long_history_def ts_input_ok_def)
  obtain s where s: "ts_run accepting long_history (transport_service_init 1 ts_start) = Some s" "frag_compl_list (scb s) ! 0 = 0"
    "max_fragment_size s = 4" "remaining_data_len (scb s) = 12" "datagram_len (scb s) = 16"
    using long_history_state by (auto split: option.splits)
  have inv: "ts_inv s" using ts_run_inv [OF ts_inv_start ok, of accepting 1] s(1) by simp
  show ?thesis using every_other_fragment_skipped [OF inv, of accepting] s by (auto simp: accepting_def)
qed

section \<open>How sessions end\<close>

text \<open>If the computation returns, nothing that was passed on before is lost.\<close>

definition yields :: "('a \<Rightarrow> bool) \<Rightarrow> 'a option \<Rightarrow> bool" where
  "yields Q r \<longleftrightarrow> (\<forall>x. r = Some x \<longrightarrow> Q x)"

lemma yields_simps [simp]: "yields Q (Some x) = Q x" "yields Q None"
  by (auto simp: yields_def)

lemma yields_bindI: "(\<And>x. m = Some x \<Longrightarrow> yields Q (f x)) \<Longrightarrow> yields Q (Option.bind m f)"
  by (cases m) auto

lemma yields_ifI: "(b \<Longrightarrow> yields Q x) \<Longrightarrow> (\<not> b \<Longrightarrow> yields Q y) \<Longrightarrow> yields Q (if b then x else y)"
  by simp

abbreviation grows :: "ts_output list \<Rightarrow> ts option \<Rightarrow> bool" where
  "grows xs \<equiv> yields (\<lambda>s'. \<exists>ys. out s' = xs @ ys)"

lemma grows_Some: "out s = xs @ ys \<Longrightarrow> grows xs (Some s)"
  by simp

lemma send_complete_out: "out (send_complete st s) = out s @ (case on_send_complete_cb s of None \<Rightarrow> [] | Some c \<Rightarrow> [Completed c st])"
  by (simp add: send_complete_def split: option.split)

lemma send_last_frag_grows: "out s = xs \<Longrightarrow> grows xs (send_last_frag ll s)"
  unfolding send_last_frag_def Let_def lower_layer_send_data_eq prod.case
  by (intro yields_bindI yields_ifI) (simp_all add: send_complete_out)

lemma put_fragment_out: "put_fragment h off s = Some s' \<Longrightarrow> out s' = out s"
  by (auto simp: put_fragment_def bind_eq_Some_conv)

lemma reply_frag_req_grows: "grows (out s) (reply_frag_req ll s)"
proof -
  have c: "out (reply_chosen s) = out s" by (simp add: reply_chosen_def Let_def)
  show ?thesis
    unfolding reply_frag_req_def Let_def lower_layer_send_data_eq prod.case
    by (intro yields_bindI yields_ifI send_last_frag_grows) (auto simp: c dest!: put_fragment_out)
qed

lemma queue_frag_wait_grows: "grows (out s) (queue_frag_wait ll s)"
  unfolding queue_frag_wait_def send_frag_wait_cmd_def Let_def lower_layer_send_data_eq prod.case
  by (intro yields_bindI yields_ifI) simp_all

lemma receive_request_grows: "receive_request ll s = Some (b, s') \<Longrightarrow> \<exists>xs. out s' = out s @ xs"
  using reply_frag_req_grows [of "request_state s" ll]
  by (auto simp: receive_request_eq yields_def request_state_def split: option.splits if_splits)

text \<open>
  When the destination of a datagram asks for a missing fragment and its NodeID is higher than the number
  the Transport Service was started with, the request counts as a tie break: the sender of the
  datagram is told that the transmission failed.
\<close>

theorem segment_request_reports_failure:
  assumes "is_transport_service_sending s" and "cb_dest (scb_cmn (scb s)) = src" and "my_node_id s < src" and "on_send_complete_cb s = Some c"
    and "src \<noteq> dst" and "f = [0x55, COMMAND_SEGMENT_REQUEST_V2, hi, lo, x]"
    and "ts_step ll (Frame src dst rx_type f 4) s = Some s'"
  shows "\<exists>xs. out s' = out s @ Completed c 1 # xs"
proof -
  let ?t = "scb_update (\<lambda>b. b\<lparr>frag_wait_source := dst, frag_wait_dest := src\<rparr>) (tie_break src f (set_reset_timer s))"
  have "is_transport_service_sending (set_reset_timer s)"
    using assms(1) by (simp add: is_transport_service_sending_def recv_or_send_def)
  then have t: "out ?t = out s @ [Completed c 1]"
    using assms(2,3,4,6) by (simp add: tie_break_def Let_def send_complete_out set_reset_timer_def)
  obtain b where h: "transport_service_command_handler ll src dst rx_type f 4 s = Some (b, s')"
    using assms(7) by (auto simp: ts_step_def transport_service_on_frame_received_def)
  have q: "\<exists>xs. out s' = out ?t @ xs" if "queue_frag_wait ll (t2_sm_post_event ev ?t) = Some s'" for ev
    using that queue_frag_wait_grows [of "t2_sm_post_event ev ?t" ll] by (simp add: yields_def)
  have a: "out (accept_state src dst rx_type f 4 ?t) = out ?t"
    by (auto simp: accept_state_def Let_def initialize_once_def split: transport2_st.split)
  have fr: "fragment (rcb (accept_state src dst rx_type f 4 ?t)) = f"
    by (simp add: accept_state_def Let_def)
  have acc: "accept_frame ll src dst rx_type f 4 ?t = receive_request ll (accept_state src dst rx_type f 4 ?t)"
    using fr assms(6) by (simp add: accept_frame_def receive_def)
  have r: "\<exists>xs. out s' = out ?t @ xs" if "accept_frame ll src dst rx_type f 4 ?t = Some (b, s')"
    using that receive_request_grows [of ll "accept_state src dst rx_type f 4 ?t" b s'] unfolding acc a by simp
  have "\<exists>xs. out s' = out ?t @ xs"
    using h assms(5) q r unfolding transport_service_command_handler_def Let_def
    by (auto simp: bind_eq_Some_conv split: if_splits)
  with t show ?thesis by auto
qed

theorem segment_request_reports_failure_witness:
  "\<exists>s s'. ts_run accepting sent_history (transport_service_init 1 ts_start) = Some s \<and>
     ts_step accepting (Frame 2 1 SINGLECAST [0x55, COMMAND_SEGMENT_REQUEST_V2, 0, 5, 0] 4) s = Some s' \<and>
     (\<exists>xs. out s' = out s @ Completed 9 1 # xs)"
proof (rule sent_history_run)
  fix s assume s: "ts_run accepting sent_history (transport_service_init 1 ts_start) = Some s" "ts_inv s" "current_state s = ST_WAIT_ACK"
    "\<not> sending (scb s)" "wait_hazard s" "current_dnode (scb s) = 2" "current_snode (rcb s) = 0" "transmission_aborted (scb s) = 0x11"
    "frag_compl_list (scb s) ! 0 = 0" "datagram_len (scb s) = 8" "cb_dest (scb_cmn (scb s)) = 2" "my_node_id s = 1" "on_send_complete_cb s = Some 9"
  let ?i = "Frame 2 1 SINGLECAST [0x55, COMMAND_SEGMENT_REQUEST_V2, 0, 5, 0] 4"
  have snd: "is_transport_service_sending s" using s(3) by (simp add: is_transport_service_sending_def recv_or_send_def)
  have "case ts_run accepting (sent_history @ [?i]) (transport_service_init 1 ts_start) of None \<Rightarrow> False | Some s \<Rightarrow> True" by code_simp
  then obtain s' where s': "ts_step accepting ?i s = Some s'" using s(1) by (auto simp: ts_run_append split: option.splits)
  have "\<exists>xs. out s' = out s @ Completed 9 1 # xs"
    by (rule segment_request_reports_failure [OF snd s(11) _ s(13) _ refl s']) (use s in simp_all)
  with s(1) s' show ?thesis by blast
qed

text \<open>
  A request to send while a session is open is refused as busy, but has already replaced the data of the
  datagram in flight, the size of its fragments and the callback of its sender: the fragments
  still to come carry bytes of the refused payload, and the first sender is never called back.
\<close>

theorem busy_request_replaces_datagram:
  assumes "ts_inv s" and "is_transport_service_sending s \<or> is_transport_service_receiving s" and "length payload \<le> 200"
  shows "\<exists>s'. transport_service_send_data ll src dst payload (of_nat (length payload)) max_frame_len c s = Some (TRANSPORT_SERVICE_BUSY, s') \<and>
           take (length payload) (datagram (scb s')) = payload \<and> datagram_len (scb s') = datagram_len (scb s) \<and>
           max_fragment_size s' = max_frame_len - 7 \<and> on_send_complete_cb s' = c \<and> current_state s' = current_state s \<and> out s' = out s"
proof -
  have len: "unat (of_nat (length payload) :: u16) = length payload" using assms(3) by (simp add: unat_of_nat)
  have l: "length (datagram (scb s)) = 200" using assms(1) by (simp add: ts_inv_def scb_ok_def)
  show ?thesis
    using assms(2,3) l by (auto simp: transport_service_send_data_def Let_def len write_bytes_def is_transport_service_sending_def
        is_transport_service_receiving_def recv_or_send_def set_reset_timer_def)
qed

theorem busy_request_replaces_datagram_witness:
  "\<exists>s s'. ts_run accepting sent_history (transport_service_init 1 ts_start) = Some s \<and>
     transport_service_send_data accepting 1 4 [0xAA, 0xBB] (of_nat (length [0xAA, 0xBB :: u8])) 46 (Some 5) s = Some (TRANSPORT_SERVICE_BUSY, s') \<and>
     take 2 (datagram (scb s')) = [0xAA, 0xBB] \<and> on_send_complete_cb s' = Some 5"
proof (rule sent_history_run)
  fix s assume s: "ts_run accepting sent_history (transport_service_init 1 ts_start) = Some s" "ts_inv s" "current_state s = ST_WAIT_ACK"
  have "is_transport_service_sending s \<or> is_transport_service_receiving s" using s(3) by (simp add: is_transport_service_sending_def recv_or_send_def)
  then show ?thesis using busy_request_replaces_datagram [OF s(2), of "[0xAA, 0xBB]" accepting 1 4 46 "Some 5"] s(1) by (auto simp: numeral_2_eq_2)
qed

section \<open>Long Range nodes\<close>

text \<open>What a frame of a third node leaves alone.\<close>

lemma queue_frag_wait_keeps:
  "yields (\<lambda>s'. received s' = received s \<and> current_snode (rcb s') = current_snode (rcb s)) (queue_frag_wait ll s)"
  unfolding queue_frag_wait_def send_frag_wait_cmd_def Let_def lower_layer_send_data_eq prod.case
  by (intro yields_bindI yields_ifI) (simp_all add: received_def)

lemma long_range_frame_keeps:
  assumes "current_snode (rcb s) \<noteq> 0" and "256 \<le> unat src" and "ts_step ll (Frame src dst SINGLECAST f len) s = Some s'"
  shows "received s' = received s \<and> current_snode (rcb s') = current_snode (rcb s)"
proof -
  let ?t = "scb_update (\<lambda>b. b\<lparr>frag_wait_source := dst, frag_wait_dest := src\<rparr>) (tie_break src f (set_reset_timer s))"
  have ne: "src \<noteq> ucast (b :: u8)" for b using assms(2) by (metis not_less unat_u8_bound unat_ucast_u8_u16)
  have t: "third_node src ?t" "rcb ?t = rcb s" using assms(1) ne by (simp_all add: third_node_def tie_break_inv)
  have q: "received s' = received s \<and> current_snode (rcb s') = current_snode (rcb s)" if "queue_frag_wait ll (t2_sm_post_event ev ?t) = Some s'" for ev
    using that queue_frag_wait_keeps [of "t2_sm_post_event ev ?t" ll] t(2) by (simp add: yields_def received_def)
  obtain b where "transport_service_command_handler ll src dst SINGLECAST f len s = Some (b, s')"
    using assms(3) by (auto simp: ts_step_def transport_service_on_frame_received_def)
  then show ?thesis
    using t q unfolding transport_service_command_handler_def Let_def
    by (auto simp: bind_eq_Some_conv received_def tie_break_inv split: if_splits)
qed

lemma long_range_run_keeps:
  assumes "current_snode (rcb s) \<noteq> 0" and "256 \<le> unat src" and "ts_run ll (map (\<lambda>(f, len). Frame src dst SINGLECAST f len) fs) s = Some s'"
  shows "received s' = received s"
  using assms(1,3)
proof (induction fs arbitrary: s)
  case (Cons p fs)
  obtain f len where p: "p = (f, len)" by (cases p)
  obtain s1 where s1: "ts_step ll (Frame src dst SINGLECAST f len) s = Some s1" "ts_run ll (map (\<lambda>(f, len). Frame src dst SINGLECAST f len) fs) s1 = Some s'"
    using Cons.prems(2) p by (auto split: option.splits)
  note k = long_range_frame_keeps [OF Cons.prems(1) assms(2) s1(1)]
  then show ?case using Cons.IH [OF _ s1(2)] Cons.prems(1) by simp
qed simp

text \<open>
  A datagram of more than one fragment from a Long Range node is never reassembled: its NodeID does not fit
  the 8 bit field in which the first fragment records it, and whatever the node sends next counts as a frame of a
  third node, so that the bytes received stay those of the first fragment.
\<close>

theorem long_range_datagram_stuck:
  assumes "transfer_ok d sid src dst" and "ready s" and "256 \<le> unat src" and "(ucast src :: u8) \<noteq> 0" and "0 < n" and "n < length d" and "n + 6 \<le> 200"
  shows "\<exists>s1. ts_step ll (first_frame src dst d sid n) s = Some s1 \<and>
    (\<forall>fs s'. ts_run ll (map (\<lambda>(f, len). Frame src dst SINGLECAST f len) fs) s1 = Some s' \<longrightarrow> received s' = {..<n})"
proof -
  obtain s1 where s1: "ts_step ll (first_frame src dst d sid n) s = Some s1" "assembling d sid src dst s1" "received s1 = {..<n}"
    using step_first [OF _ assms(2,5,6,7), of sid src dst ll] assms(1) by (auto simp: transfer_ok_def)
  have "current_snode (rcb s1) \<noteq> 0" using s1(2) assms(4) by (simp add: assembling_def)
  then show ?thesis using long_range_run_keeps [OF _ assms(3)] s1(1,3) by blast
qed

theorem long_range_datagram_stuck_witness:
  "\<exists>s1. ts_step accepting (first_frame 300 1 [7, 8, 9] 3 1) (transport_service_init 1 ts_start) = Some s1 \<and>
    (ts_run accepting (map (\<lambda>(f, len). Frame 300 1 SINGLECAST f len) [(subseq_fragment [7, 8, 9] 3 1 1, 8), (subseq_fragment [7, 8, 9] 3 2 1, 8)]) s1 \<noteq> None) \<and>
    (\<exists>s'. ts_run accepting (map (\<lambda>(f, len). Frame 300 1 SINGLECAST f len) [(subseq_fragment [7, 8, 9] 3 1 1, 8), (subseq_fragment [7, 8, 9] 3 2 1, 8)]) s1 = Some s' \<and>
       received s' = {..<1})"
proof -
  let ?fs = "[(subseq_fragment [7, 8, 9] 3 1 1, 8), (subseq_fragment [7, 8, 9] 3 2 1, 8)] :: (u8 list \<times> u8) list"
  have "\<exists>s1. ts_step accepting (first_frame 300 1 [7, 8, 9] 3 1) (transport_service_init 1 ts_start) = Some s1 \<and>
      (\<forall>fs s'. ts_run accepting (map (\<lambda>(f, len). Frame 300 1 SINGLECAST f len) fs) s1 = Some s' \<longrightarrow> received s' = {..<1})"
    by (rule long_range_datagram_stuck) (simp_all add: transfer_ok_def ready_start)
  then obtain s1 where s1: "ts_step accepting (first_frame 300 1 [7, 8, 9] 3 1) (transport_service_init 1 ts_start) = Some s1"
    "\<And>s'. ts_run accepting (map (\<lambda>(f, len). Frame 300 1 SINGLECAST f len) ?fs) s1 = Some s' \<Longrightarrow> received s' = {..<1}"
    by blast
  have "case ts_run accepting (first_frame 300 1 [7, 8, 9] 3 1 # map (\<lambda>(f, len). Frame 300 1 SINGLECAST f len) ?fs) (transport_service_init 1 ts_start)
     of None \<Rightarrow> False | Some s \<Rightarrow> True" by code_simp
  then obtain s' where "ts_run accepting (map (\<lambda>(f, len). Frame 300 1 SINGLECAST f len) ?fs) s1 = Some s'" using s1(1) by (auto split: option.splits)
  with s1 show ?thesis by auto
qed

section \<open>Datagrams of full length\<close>

lemma receive_last_of_full:
  assumes "assembling d sid src dst s" and "fragment (rcb s) = subseq_fragment d sid off n" and "fragment_len (rcb s) = of_nat (n + 7)"
    and "length d = 200" and "unat sid < 16" and "0 < n" and "off + n = 200" and "n + 7 \<le> 200"
  shows "\<exists>s' x. receive_subsequent ll s = Some (False, s') \<and> received s' = received s \<union> {off..<200} \<and> datagramData (rcb s') = datagramData (rcb s) \<and>
           assembling (datagramData (rcb s)) sid src dst s' \<and> rx_timer (rcb s') \<noteq> None \<and> rcb_rx_type (rcb s') = rcb_rx_type (rcb s) \<and>
           out s' = out s @ [Expected_frames src x]"
proof -
  note a = assms(1) [unfolded assembling_def]
  let ?c = "of_nat n :: u8"
  let ?s0 = "rcb_update (\<lambda>r. r\<lparr>rx_timer := Some 800\<rparr>) (rcb_update (\<lambda>r. r\<lparr>cur_recvd_data_size := fragment_len r - 7\<rparr>) (abort_if_tie_broken s))"
  have d256: "length d < 256" "off + n \<le> length d" using assms(4,7) by simp_all
  note fields = subseq_fragment_fields [OF d256(1) assms(5) d256(2)]
  have "unat ?c = n" using assms(8) by (simp add: unat_of_nat)
  then have cur: "unat ?c = n" "?c \<noteq> 0" "fragment_len (rcb s) - 7 = ?c" using assms(3,6) by auto
  have fl: "unat (fragment_len (rcb s)) = n + 7" using assms(3,8) by (simp add: unat_of_nat del: of_nat_add)
  have off: "unat (of_nat off :: u16) = off" "unat (of_nat (length d) :: u16) = 200" using assms(4,7) by (simp_all add: unat_of_nat)
  have s0: "rcb ?s0 = (rcb s)\<lparr>cur_recvd_data_size := ?c, rx_timer := Some 800\<rparr>" using cur(3) by simp
  have keep: "t2_txBuf (abort_if_tie_broken s) = t2_txBuf s" "current_state (abort_if_tie_broken s) = current_state s"
    "current_dnode (scb (abort_if_tie_broken s)) = current_dnode (scb s)" "out (abort_if_tie_broken s) = out s"
    "scb_ok (max_fragment_size (abort_if_tie_broken s)) (scb (abort_if_tie_broken s))"
    using a by (auto simp: abort_if_tie_broken_def ts_inv_def scb_ok_def)
  have "assembling d sid src dst ?s0" using a cur keep unfolding assembling_def s0 by (auto simp: ts_inv_def rcb_ok_def)
  then obtain bm where bm: "mark_frag_received ll (of_nat off) ?c ?s0 = Some (False, rcb_update (\<lambda>r. r\<lparr>bytes_recvd_bitmask := bm\<rparr>) ?s0)"
    "length bm = 26" "\<forall>k < 208. marked bm k \<longleftrightarrow> marked (bytes_recvd_bitmask (rcb s)) k \<or> off \<le> k \<and> k < off + n"
    using mark_assembling [of d sid src dst ?s0 off ?c ll] cur(1) assms(7) s0 by auto
  let ?x = "if pending_segments (rcb_cmn (rcb s)) > 0 then 1 else 0 :: u8"
  let ?s' = "emit (Expected_frames src ?x) (rcb_update (\<lambda>r. r\<lparr>datagram_size := of_nat (length d)\<rparr>) (rcb_update (\<lambda>r. r\<lparr>bytes_recvd_bitmask := bm\<rparr>) ?s0))"
  have rd: "read_cell (recv_frag_compl_list (rcb s)) (unat sid) = Some (recv_frag_compl_list (rcb s) ! unat sid)"
    using a assms(5) by (simp add: read_cell_def ts_inv_def rcb_ok_def)
  have crc: "frame_crc_ok (abort_if_tie_broken s)"
    using assms(2) fl fields(7) by (simp add: frame_crc_ok_def crc_with_crc subseq_fragment_def)
  have "receive_subsequent ll s = Some (False, ?s')"
    using a assms(4,5,6,7,8) bm(1) rd crc fl s0 cur off
    by (simp add: receive_subsequent_def Let_def assms(2) fields [unfolded One_nat_def])
  moreover have "received ?s' = received s \<union> {off..<200}" using bm(3) assms(7) by (auto simp: received_def)
  moreover have "assembling (datagramData (rcb s)) sid src dst ?s'"
    using a bm(2,3) cur keep off assms(4) unfolding assembling_def by (auto simp: ts_inv_def rcb_ok_def)
  ultimately show ?thesis by (intro exI [of _ ?s'] exI [of _ ?x]) (simp add: keep)
qed

text \<open>
  A datagram of 200 bytes is delivered damaged: when the fragment that ends it arrives last, its bytes are
  marked as received but not stored, and as soon as the receive timer fires, the buffer without
  them is acknowledged and handed to the upper layer.
\<close>

theorem full_datagram_delivered_without_its_end:
  assumes "assembling d sid src dst s" and "length d = 200" and "received s = {..<off}" and "off + n = 200" and "0 < n" and "n + 7 \<le> 200"
    and "unat sid < 16" and "unat src < 256" and "src \<noteq> dst"
  shows "\<exists>s' xs. ts_run ll [subseq_frame src dst d sid (off, n), Expire Rx_timer] s = Some s' \<and>
    out s' = out s @ xs @ [Sent dst src [COMMAND_CLASS_TRANSPORT_SERVICE_V2, COMMAND_SEGMENT_COMPLETE_V2, push_bit 4 sid] 0 No_callback,
                           Delivered src dst (datagramData (rcb s))]"
proof -
  let ?t = "taken src dst (subseq_fragment d sid off n) s" and ?D = "datagramData (rcb s)"
  have l: "length d < 256" "off + n \<le> length d" using assms(2,4) by simp_all
  note t = step_subseq_frame(2-7) [OF assms(1) l(1) assms(7,8,9) l(2) assms(6)]
    and step = step_subseq_frame(1) [OF assms(1) l(1) assms(7,8,9) l(2) assms(6), of ll]
  obtain s1 x where s1: "receive_subsequent ll ?t = Some (False, s1)" "received s1 = {..<off} \<union> {off..<200}" "assembling ?D sid src dst s1"
    "rx_timer (rcb s1) \<noteq> None" "rcb_rx_type (rcb s1) = SINGLECAST" "out s1 = out s @ [Expected_frames src x]"
    using receive_last_of_full [OF assembling_taken [OF assms(1)] t(1,2) assms(2,7,5,4,6), of ll] t assms(3) by auto
  let ?s2 = "rcb_update (\<lambda>r. r\<lparr>rx_timer := None\<rparr>) (rcb_update (\<lambda>r. r\<lparr>rx_timer := None\<rparr>) s1)"
  have D: "length ?D = 200" using assms(1) by (simp add: assembling_def ts_inv_def rcb_ok_def)
  have s2: "assembling ?D sid src dst ?s2" "received ?s2 = {..<200}" "rcb_rx_type (rcb ?s2) = SINGLECAST" "out ?s2 = out s1"
    using s1 assms(4) by (auto simp: assembling_def ts_inv_def rcb_ok_def received_def)
  obtain s' where s': "find_missing ll (t2_sm_post_event EV_FRAG_RX_TIMER ?s2) = Some s'"
    "out s' = out ?s2 @ [Sent dst src [0x55, COMMAND_SEGMENT_COMPLETE_V2, push_bit 4 sid] 0 No_callback, Delivered src dst ?D]"
    using complete_assembling [OF s2(1,3) _ _ assms(7) t2_table_simps(12), of ll] s2(2) D by auto
  have "get_next_missing_offset ?s2 = 0"
    using s2(1,2) D by (subst get_next_missing_offset_0) (auto simp: assembling_def ts_inv_def rcb_ok_def received_def unat_of_nat)
  then have "ts_step ll (Expire Rx_timer) s1 = Some s'"
    using s1(4) s'(1) by (auto simp: ts_step_def expire_def rx_timer_expired_def rx_timer_expired_with_def Let_def)
  then have "ts_run ll [subseq_frame src dst d sid (off, n), Expire Rx_timer] s = Some s'" using step s1(1) by simp
  then show ?thesis using s'(2) s2(4) s1(6) by auto
qed

theorem full_datagram_delivered_without_its_end_witness:
  "\<exists>s s' xs. ts_step accepting (first_frame 2 1 (replicate 200 5) 3 194) (transport_service_init 1 ts_start) = Some s \<and>
    ts_run accepting [subseq_frame 2 1 (replicate 200 5) 3 (194, 6), Expire Rx_timer] s = Some s' \<and>
    out s' = out s @ xs @ [Sent 1 2 [COMMAND_CLASS_TRANSPORT_SERVICE_V2, COMMAND_SEGMENT_COMPLETE_V2, push_bit 4 3] 0 No_callback,
                           Delivered 2 1 (datagramData (rcb s))]"
proof -
  obtain s where s: "ts_step accepting (first_frame 2 1 (replicate 200 5) 3 194) (transport_service_init 1 ts_start) = Some s"
    "assembling (replicate 200 5) 3 2 1 s" "received s = {..<194}"
    using step_first [of "replicate 200 5" 3 2 1 "transport_service_init 1 ts_start" 194 accepting] ready_start by auto
  have "\<exists>s' xs. ts_run accepting [subseq_frame 2 1 (replicate 200 5) 3 (194, 6), Expire Rx_timer] s = Some s' \<and>
    out s' = out s @ xs @ [Sent 1 2 [COMMAND_CLASS_TRANSPORT_SERVICE_V2, COMMAND_SEGMENT_COMPLETE_V2, push_bit 4 3] 0 No_callback,
                           Delivered 2 1 (datagramData (rcb s))]"
    by (rule full_datagram_delivered_without_its_end [OF s(2) _ s(3)]) simp_all
  with s(1) show ?thesis by blast
qed

end
