(* ===== verification/Transport_Service_Wrapper.thy ===== *)
theory Transport_Service_Wrapper
  imports Transport_Service_Properties Controller_Transport
begin

text \<open>
  The adapter between the transport framework of the controller and the Transport Service,
  \<^verbatim>\<open>zwave_transport_service_wrapper.c\<close>. It is the lower layer of the Transport Service (its
  frames become frames for the transmit queue), its upper layer (a reassembled datagram is a
  received frame), and the one that starts its sessions.

  What the Transport Service passes on during a call is in its list \<open>out\<close>; the wrapper's
  functions are applied to the new elements in their order. Its state does not influence what
  the transmit queue answers, which is the parameter \<open>ll\<close> of the Transport Service.
\<close>

section \<open>Data\<close>


text \<open>The static variables, the frames given to the transmit queue, the reports made to senders and the frames received.\<close>

record tsw =
  service :: ts
  transport_service_busy :: bool
  intercepted_on_zwave_tx_send_data_complete :: "nat option"
  intercepted_on_lower_layer_send_data_complete :: lower_callback
  zwave_tx_parent_session_id :: nat
  zwave_tx_valid_parent_session_id :: bool
  queued :: "(connection_info \<times> u8 list \<times> tx_options) list"
  reports :: "(nat \<times> u8 \<times> nat) list"
  frames_received :: "(connection_info \<times> u8 list) list"

definition plain_connection :: "node_id \<Rightarrow> node_id \<Rightarrow> connection_info" where
  "plain_connection here remote =
     \<lparr>local_node_id = here, local_endpoint_id = 0, local_is_multicast = False,
      remote_node_id = remote, remote_endpoint_id = 0, remote_is_multicast = False, encapsulation = SCHEME_NONE\<rparr>"

definition no_options :: tx_options where
  "no_options = \<lparr>number_of_responses = 0, discard_timeout_ms = 0, qos_priority = 0, fasttrack = False, send_follow_ups = False,
     skip_s2_verify_delivery = False, parent_session_id = 0, valid_parent_session_id = False, group_id = 0, is_first_follow_up = False,
     is_test_frame = False, is_protocol_frame = False, ignore_incoming_frames_back_off = False, rf_power = 0\<rparr>"

section \<open>The layers of the Transport Service\<close>

definition upper_layer_command_handler :: "node_id \<Rightarrow> node_id \<Rightarrow> u8 list \<Rightarrow> tsw \<Rightarrow> tsw" where
  "upper_layer_command_handler src dst frame w =
     w\<lparr>frames_received := frames_received w @ [(plain_connection dst src, frame)]\<rparr>"

definition wrapper_send_data :: "node_id \<Rightarrow> node_id \<Rightarrow> u8 list \<Rightarrow> u8 \<Rightarrow> lower_callback \<Rightarrow> tsw \<Rightarrow> tsw" where
  "wrapper_send_data src dst payload no_of_expected_responses cb w =
     (let w = w\<lparr>intercepted_on_lower_layer_send_data_complete := cb\<rparr>;
          options = no_options\<lparr>number_of_responses := no_of_expected_responses,
            valid_parent_session_id := zwave_tx_valid_parent_session_id w, parent_session_id := zwave_tx_parent_session_id w,
            ignore_incoming_frames_back_off := True\<rparr>;
          options = (if transport_service_busy w
                     then options\<lparr>valid_parent_session_id := True, parent_session_id := zwave_tx_parent_session_id w\<rparr>
                     else options\<lparr>qos_priority := 0x00FFFFFF + 10 * 2\<rparr>)
      in w\<lparr>queued := queued w @ [(plain_connection src dst, payload, options)]\<rparr>)"

definition on_transport_service_send_data_complete :: "u8 \<Rightarrow> tsw \<Rightarrow> tsw" where
  "on_transport_service_send_data_complete st w =
     (let w = w\<lparr>transport_service_busy := False\<rparr>
      in case intercepted_on_zwave_tx_send_data_complete w of
           None \<Rightarrow> w
         | Some f \<Rightarrow> w\<lparr>reports := reports w @
             [(f, if st = 0 then TRANSMIT_COMPLETE_OK else TRANSMIT_COMPLETE_FAIL, zwave_tx_parent_session_id w)]\<rparr>)"

definition serve :: "ts_output \<Rightarrow> tsw \<Rightarrow> tsw" where
  "serve x w =
     (case x of
        Sent src dst payload n cb \<Rightarrow> wrapper_send_data src dst payload n cb w
      | Delivered src dst frame \<Rightarrow> upper_layer_command_handler src dst frame w
      | Completed c st \<Rightarrow> on_transport_service_send_data_complete st w
      | Expected_frames n k \<Rightarrow> w)"

text \<open>The Transport Service has moved to the state \<open>s\<close>.\<close>

definition advance :: "ts \<Rightarrow> tsw \<Rightarrow> tsw" where
  "advance s w = (fold serve (drop (length (out (service w))) (out s)) w)\<lparr>service := s\<rparr>"

definition on_zwave_tx_send_data_complete :: "lower_layer \<Rightarrow> u8 \<Rightarrow> tsw \<Rightarrow> tsw option" where
  "on_zwave_tx_send_data_complete ll st w =
     (let cb = intercepted_on_lower_layer_send_data_complete w
      in if cb = No_callback then Some w
         else map_option (\<lambda>s. advance s w) (ts_step ll (Tx_callback cb (if st = TRANSMIT_COMPLETE_OK then 0 else 1)) (service w)))"

section \<open>Operations of the transport\<close>

definition zwave_transport_service_send_data :: "lower_layer \<Rightarrow> scheme_env \<Rightarrow> tx_request \<Rightarrow> tsw \<Rightarrow> (sl_status \<times> tsw) option" where
  "zwave_transport_service_send_data ll env r w =
     (let c = tx_connection r;
          data_length = of_nat (length (tx_data r)) :: u16;
          maximum_payload = zwave_tx_scheme_get_max_payload env (remote_node_id c)
      in if remote_is_multicast c \<or> IS_BROADCAST_NODE_ID (remote_node_id c) then Some (SL_STATUS_NOT_SUPPORTED, w)
         else if data_length \<le> maximum_payload then Some (SL_STATUS_NOT_SUPPORTED, w)
         else if \<not> zwave_controller_storage_is_node_s2_capable (store env) (remote_node_id c) \<and>
                 zwave_controller_storage_get_cc_version (store env) 0x55 (remote_node_id c) 0 < 2
         then Some (SL_STATUS_NOT_SUPPORTED, w)
         else if transport_service_busy w then Some (SL_STATUS_BUSY, w)
         else do {
           let w = w\<lparr>intercepted_on_zwave_tx_send_data_complete := (if tx_on_send_complete r = 0 then None else Some (tx_on_send_complete r)),
                     zwave_tx_parent_session_id := tx_parent_session r, zwave_tx_valid_parent_session_id := True\<rparr>;
           (ret, s) \<leftarrow> transport_service_send_data ll (local_node_id c) (remote_node_id c) (tx_data r) data_length maximum_payload (Some 1) (service w);
           let w = advance s w;
           Some (if ret = TRANSPORT_SERVICE_SEND_SUCCESS then (SL_STATUS_OK, w\<lparr>transport_service_busy := True\<rparr>)
                 else if ret = TRANSPORT_SERVICE_WILL_OVERFLOW then (SL_STATUS_WOULD_OVERFLOW, w)
                 else (SL_STATUS_FAIL, w))
         })"

abbreviation (input) RECEIVE_STATUS_TYPE_SINGLE :: u8 where "RECEIVE_STATUS_TYPE_SINGLE \<equiv> 0x00"
abbreviation (input) RECEIVE_STATUS_TYPE_BROAD :: u8 where "RECEIVE_STATUS_TYPE_BROAD \<equiv> 0x04"
abbreviation (input) RECEIVE_STATUS_TYPE_MULTI :: u8 where "RECEIVE_STATUS_TYPE_MULTI \<equiv> 0x08"

definition rx_type_of :: "u8 \<Rightarrow> receive_type" where
  "rx_type_of status_flags =
     (if status_flags = RECEIVE_STATUS_TYPE_SINGLE then SINGLECAST
      else if status_flags = RECEIVE_STATUS_TYPE_BROAD then BROADCAST
      else if status_flags = RECEIVE_STATUS_TYPE_MULTI then MULTICAST
      else SINGLECAST)"

definition zwave_transport_service_on_frame_received ::
  "lower_layer \<Rightarrow> u8 \<Rightarrow> connection_info \<Rightarrow> u8 list \<Rightarrow> u16 \<Rightarrow> tsw \<Rightarrow> (sl_status \<times> tsw) option" where
  "zwave_transport_service_on_frame_received ll status_flags c frame_data frame_length w =
     (let cmd_type = frame_data ! 1 AND 0xf8
      in if frame_data ! 0 \<noteq> COMMAND_CLASS_TRANSPORT_SERVICE_V2 then Some (SL_STATUS_NOT_SUPPORTED, w)
         else if cmd_type \<noteq> COMMAND_FIRST_FRAGMENT \<and> cmd_type \<noteq> COMMAND_SEGMENT_COMPLETE_V2 \<and> cmd_type \<noteq> COMMAND_SEGMENT_REQUEST_V2 \<and>
                 cmd_type \<noteq> COMMAND_SEGMENT_WAIT_V2 \<and> cmd_type \<noteq> COMMAND_SUBSEQUENT_FRAGMENT
         then Some (SL_STATUS_NOT_FOUND, w)
         else do {
           (ok, s) \<leftarrow> transport_service_on_frame_received ll (remote_node_id c) (local_node_id c) (rx_type_of status_flags) frame_data
                        (ucast frame_length) (service w);
           Some (if ok then SL_STATUS_OK else SL_STATUS_FAIL, advance s w)
         })"

definition wrapper_expire :: "lower_layer \<Rightarrow> ts_timer \<Rightarrow> tsw \<Rightarrow> tsw option" where
  "wrapper_expire ll t w = map_option (\<lambda>s. advance s w) (expire ll t (service w))"

text \<open>The transport in the table of the controller; \<open>None\<close> is the state after undefined behaviour.\<close>

definition transport_service_transport :: "lower_layer \<Rightarrow> scheme_env \<Rightarrow> u8 \<Rightarrow> tsw option transport" where
  "transport_service_transport ll env status_flags =
     \<lparr>priority = 1, transport_class = 0x55, version = 2,
      send_data = Some (\<lambda>r w. case Option.bind w (zwave_transport_service_send_data ll env r) of
                          None \<Rightarrow> (SL_STATUS_FAIL, None) | Some (rc, w) \<Rightarrow> (rc, Some w)),
      abort_send_data = None,
      transport_on_frame_received = Some (\<lambda>c data w.
        case Option.bind w (zwave_transport_service_on_frame_received ll status_flags c data (of_nat (length data))) of
          None \<Rightarrow> (SL_STATUS_FAIL, None) | Some (rc, w) \<Rightarrow> (rc, Some w)),
      is_busy = None\<rparr>"

definition zwave_transport_service_transport_init ::
  "lower_layer \<Rightarrow> scheme_env \<Rightarrow> u8 \<Rightarrow> tsw \<Rightarrow> tsw option transport list \<Rightarrow> sl_status \<times> tsw \<times> tsw option transport list" where
  "zwave_transport_service_transport_init ll env status_flags w ts =
     (let w = w\<lparr>service := transport_service_init 1 (service w), transport_service_busy := False\<rparr>;
          (rc, ts) = zwave_controller_transport_register (transport_service_transport ll env status_flags) ts
      in (rc, w, ts))"

definition tsw_start :: tsw where
  "tsw_start = \<lparr>service = transport_service_init 1 ts_start, transport_service_busy = False,
     intercepted_on_zwave_tx_send_data_complete = None, intercepted_on_lower_layer_send_data_complete = No_callback,
     zwave_tx_parent_session_id = 0, zwave_tx_valid_parent_session_id = False, queued = [], reports = [], frames_received = []\<rparr>"

section \<open>Histories\<close>

datatype tsw_input =
  W_send tx_request
| W_frame u8 connection_info "u8 list" u16
| W_tx_complete u8
| W_expire ts_timer
| W_clock u64

definition tsw_step :: "lower_layer \<Rightarrow> scheme_env \<Rightarrow> tsw_input \<Rightarrow> tsw \<Rightarrow> tsw option" where
  "tsw_step ll env i w =
     (case i of
        W_send r \<Rightarrow> map_option snd (zwave_transport_service_send_data ll env r w)
      | W_frame rx_flags c frame_data frame_length \<Rightarrow>
          map_option snd (zwave_transport_service_on_frame_received ll rx_flags c frame_data frame_length w)
      | W_tx_complete st \<Rightarrow> on_zwave_tx_send_data_complete ll st w
      | W_expire t \<Rightarrow> wrapper_expire ll t w
      | W_clock t \<Rightarrow> Some (w\<lparr>service := (service w)\<lparr>ts_clock := t\<rparr>\<rparr>))"

fun tsw_run :: "lower_layer \<Rightarrow> scheme_env \<Rightarrow> tsw_input list \<Rightarrow> tsw \<Rightarrow> tsw option" where
  "tsw_run ll env [] w = Some w"
| "tsw_run ll env (i # is) w = Option.bind (tsw_step ll env i w) (tsw_run ll env is)"

text \<open>What the wrapper's callers see to: a payload has a 16 bit length, a frame lies in a buffer of at least five bytes.\<close>

definition tsw_input_ok :: "tsw_input \<Rightarrow> bool" where
  "tsw_input_ok i =
     (case i of
        W_send r \<Rightarrow> length (tx_data r) < 65536
      | W_frame rx_flags c frame_data frame_length \<Rightarrow> memory_ok frame_data (ucast frame_length)
      | _ \<Rightarrow> True)"

definition is_service_frame :: "u8 list \<Rightarrow> bool" where
  "is_service_frame frame_data \<longleftrightarrow> frame_data ! 0 = COMMAND_CLASS_TRANSPORT_SERVICE_V2 \<and>
     frame_data ! 1 AND 0xf8 \<in> {COMMAND_FIRST_FRAGMENT, COMMAND_SEGMENT_COMPLETE_V2, COMMAND_SEGMENT_REQUEST_V2, COMMAND_SEGMENT_WAIT_V2,
       COMMAND_SUBSEQUENT_FRAGMENT}"

definition tsw_hazard :: "tsw_input \<Rightarrow> tsw \<Rightarrow> bool" where
  "tsw_hazard i w =
     (case i of
        W_send r \<Rightarrow> False
      | W_frame rx_flags c frame_data frame_length \<Rightarrow> is_service_frame frame_data \<and>
          ts_hazard (Frame (remote_node_id c) (local_node_id c) (rx_type_of rx_flags) frame_data (ucast frame_length)) (service w)
      | W_tx_complete st \<Rightarrow> ts_hazard (Tx_callback (intercepted_on_lower_layer_send_data_complete w) (if st = TRANSMIT_COMPLETE_OK then 0 else 1)) (service w)
      | W_expire t \<Rightarrow> ts_hazard (Expire t) (service w)
      | W_clock t \<Rightarrow> False)"

lemma service_advance [simp]: "service (advance s w) = s"
  by (simp add: advance_def)

lemma max_payload_cases: "zwave_tx_scheme_get_max_payload env n \<in> {46, 150, 170}"
  by (simp add: zwave_tx_scheme_get_max_payload_def Let_def)

text \<open>The wrapper starts a session only with a payload and a frame size the Transport Service can work with.\<close>

lemma wrapper_send_inv:
  assumes "ts_inv (service w)" and "length (tx_data r) < 65536"
  shows "returns (\<lambda>(rc, w'). ts_inv (service w')) (zwave_transport_service_send_data ll env r w)"
proof -
  let ?m = "zwave_tx_scheme_get_max_payload env (remote_node_id (tx_connection r))"
  have m: "?m \<noteq> 7" "0 < unat ?m" using max_payload_cases [of env "remote_node_id (tx_connection r)"] by auto
  have p: "tx_data r \<noteq> []" if "\<not> of_nat (length (tx_data r)) \<le> ?m" using that by auto
  show ?thesis
    unfolding zwave_transport_service_send_data_def Let_def
    by (intro returns_ifI returns_SomeI returns_bindI [OF transport_service_send_data_inv])
      (use assms m p in \<open>auto split: if_splits\<close>)
qed

lemma returns_advance: "returns (\<lambda>w'. ts_inv (service w')) (map_option (\<lambda>s. advance s w) r) = returns ts_inv r"
  by (cases r) simp_all

lemma tsw_step_inv:
  assumes "ts_inv (service w)" and "tsw_input_ok i"
  shows "if tsw_hazard i w then tsw_step ll env i w = None else returns (\<lambda>w'. ts_inv (service w')) (tsw_step ll env i w)"
proof (cases i)
  case (W_send r)
  then show ?thesis
    using wrapper_send_inv [OF assms(1), of r ll env] assms(2) by (auto simp: tsw_step_def tsw_hazard_def tsw_input_ok_def returns_def)
next
  case (W_frame rx_flags c frame_data frame_length)
  let ?i = "Frame (remote_node_id c) (local_node_id c) (rx_type_of rx_flags) frame_data (ucast frame_length)"
  have "ts_input_ok ?i" using assms(2) W_frame by (simp add: tsw_input_ok_def ts_input_ok_def)
  note step = ts_step_inv [OF assms(1) this, of ll]
  have r: "zwave_transport_service_on_frame_received ll rx_flags c frame_data frame_length w =
      Option.bind (transport_service_on_frame_received ll (remote_node_id c) (local_node_id c) (rx_type_of rx_flags) frame_data (ucast frame_length) (service w))
        (\<lambda>(ok, s). Some (if ok then SL_STATUS_OK else SL_STATUS_FAIL, advance s w))" if "is_service_frame frame_data"
    using that unfolding zwave_transport_service_on_frame_received_def is_service_frame_def by (auto simp: Let_def)
  have n: "returns (\<lambda>x. ts_inv (service (snd x))) (zwave_transport_service_on_frame_received ll rx_flags c frame_data frame_length w)" if "\<not> is_service_frame frame_data"
    using that assms(1) unfolding zwave_transport_service_on_frame_received_def is_service_frame_def by (auto simp: Let_def)
  show ?thesis
  proof (cases "is_service_frame frame_data")
    case True
    then show ?thesis
      using step r W_frame by (auto simp: tsw_step_def tsw_hazard_def ts_step_def returns_def bind_eq_Some_conv split: if_splits)
  next
    case False
    then show ?thesis using n W_frame by (auto simp: tsw_step_def tsw_hazard_def returns_def)
  qed
next
  case (W_tx_complete st)
  let ?cb = "intercepted_on_lower_layer_send_data_complete w"
  let ?i = "Tx_callback ?cb (if st = TRANSMIT_COMPLETE_OK then 0 else 1)"
  have "ts_input_ok ?i" by (simp add: ts_input_ok_def)
  note step = ts_step_inv [OF assms(1) this, of ll]
  have h: "tsw_hazard i w = ts_hazard ?i (service w)" using W_tx_complete by (simp add: tsw_hazard_def)
  show ?thesis
  proof (cases "?cb = No_callback")
    case True
    then show ?thesis using assms(1) W_tx_complete by (simp add: tsw_step_def tsw_hazard_def on_zwave_tx_send_data_complete_def Let_def ts_hazard_def)
  next
    case False
    then have "tsw_step ll env i w = map_option (\<lambda>s. advance s w) (ts_step ll ?i (service w))"
      using W_tx_complete by (simp add: tsw_step_def on_zwave_tx_send_data_complete_def Let_def)
    with step show ?thesis unfolding h by (simp add: returns_advance del: if_split split: if_split_asm) 
  qed
next
  case (W_expire t)
  have "ts_input_ok (Expire t)" by (simp add: ts_input_ok_def)
  note step = ts_step_inv [OF assms(1) this, of ll]
  show ?thesis
    using step W_expire by (auto simp: tsw_step_def tsw_hazard_def wrapper_expire_def ts_step_def returns_def)
next
  case (W_clock t)
  then show ?thesis using assms(1) by (simp add: tsw_step_def tsw_hazard_def)
qed

lemma tsw_run_inv:
  "ts_inv (service w) \<Longrightarrow> list_all tsw_input_ok is \<Longrightarrow> tsw_run ll env is w = Some w' \<Longrightarrow> ts_inv (service w')"
proof (induction "is" arbitrary: w)
  case (Cons i "is")
  then obtain w1 where w1: "tsw_step ll env i w = Some w1" "tsw_run ll env is w1 = Some w'" by (auto simp: bind_eq_Some_conv)
  have "ts_inv (service w1)"
    using tsw_step_inv [OF Cons.prems(1), of i ll env] Cons.prems(2) w1(1) by (auto simp: returns_def split: if_splits)
  then show ?case using Cons.IH Cons.prems(2) w1(2) by simp
qed simp

text \<open>
  C27. Behind its wrapper the Transport Service fails only on what it receives: in every history, no request
  to send, whatever its destination and length, makes it leave its buffers or divide by zero, and
  any other input does so exactly when it is one of the hazards of the Transport Service.
\<close>

theorem wrapper_requests_are_safe:
  assumes "tsw_run ll env is tsw_start = Some w" and "list_all tsw_input_ok is" and "tsw_input_ok i"
  shows "tsw_step ll env i w = None \<longleftrightarrow> tsw_hazard i w"
proof -
  have "ts_inv (service tsw_start)" by (simp add: tsw_start_def ts_inv_start)
  then have "ts_inv (service w)" using tsw_run_inv assms(1,2) by blast
  then show ?thesis using tsw_step_inv [OF _ assms(3), of w ll env] by (auto simp: returns_def split: if_splits)
qed

section \<open>A refused fragment\<close>

definition quiet :: "ts \<Rightarrow> bool" where
  "quiet s \<longleftrightarrow> reset_timer (scb s) = None \<and> wait_restart_timer (scb s) = None \<and> timer_btwn_2_frags (scb s) = None \<and>
     fc_timer (rcb s) = None \<and> rx_timer (rcb s) = None"

lemma send_first_refused:
  assumes "ts_inv s" and "max_fragment_size s < datagram_len (scb s)" and "\<And>xs. ll xs = 1"
  shows "\<exists>s' p. send_first_frag ll s = Some s' \<and> out s' = out s @ [Sent (cb_source (scb_cmn (scb s))) (cb_dest (scb_cmn (scb s))) p 0 Senddata_cb] \<and>
           rcb s' = rcb s \<and> wait_restart_timer (scb s') = wait_restart_timer (scb s) \<and> timer_btwn_2_frags (scb s') = timer_btwn_2_frags (scb s) \<and>
           reset_timer (scb s') = Some RESET_TIME"
proof -
  have dl: "datagram_len (scb s) \<noteq> 0" using assms(2) by auto
  obtain c where c: "first_chosen s = Some c" "ts_inv c" "datalen_to_send (scb c) \<noteq> 0" using first_chosen_inv [OF assms(1) dl] by (auto simp: returns_def)
  have fields: "out c = out s" "rcb c = rcb s" "cb_source (scb_cmn (scb c)) = cb_source (scb_cmn (scb s))" "cb_dest (scb_cmn (scb c)) = cb_dest (scb_cmn (scb s))"
    "wait_restart_timer (scb c) = wait_restart_timer (scb s)" "timer_btwn_2_frags (scb c) = timer_btwn_2_frags (scb s)"
    "datagram_len (scb c) = datagram_len (scb s)" "max_fragment_size c = max_fragment_size s"
    using c(1) by (auto simp: first_chosen_def Let_def bind_eq_Some_conv write_cell_def split: if_splits)
  have u: "unat (datalen_to_send (scb c)) \<le> 200" "length (t2_txBuf c) = 207" using c(2) by (simp_all add: ts_inv_def scb_ok_def)
  obtain b where b: "put_fragment (first_header (datagram_len (scb c)) (scb_session c)) 0 c = Some (c\<lparr>t2_txBuf := b\<rparr>)" "length b = 207"
    using put_fragment_inv [OF c(2), of "first_header (datagram_len (scb c)) (scb_session c)" 0] u by (auto simp: returns_def)
  have "\<not> datagram_len (scb s) \<le> max_fragment_size s" using assms(2) by simp
  with b u c(1,3) show ?thesis
    by (auto simp: send_first_frag_def Let_def segments_def tx_bytes_def lower_layer_send_data_eq assms(3) set_reset_timer_def fields)
qed

text \<open>The frames the wrapper does not leave to another transport.\<close>

definition takes_request :: "scheme_env \<Rightarrow> tx_request \<Rightarrow> bool" where
  "takes_request env r \<longleftrightarrow>
     (let n = remote_node_id (tx_connection r) in
      \<not> remote_is_multicast (tx_connection r) \<and> \<not> IS_BROADCAST_NODE_ID n \<and>
      zwave_tx_scheme_get_max_payload env n < of_nat (length (tx_data r)) \<and>
      (zwave_controller_storage_is_node_s2_capable (store env) n \<or> 2 \<le> zwave_controller_storage_get_cc_version (store env) 0x55 n 0))"

lemma takes_request_eq:
  assumes "takes_request env r"
  shows "zwave_transport_service_send_data ll env r w =
     (if transport_service_busy w then Some (SL_STATUS_BUSY, w)
      else do {
           let w = w\<lparr>intercepted_on_zwave_tx_send_data_complete := (if tx_on_send_complete r = 0 then None else Some (tx_on_send_complete r)),
                     zwave_tx_parent_session_id := tx_parent_session r, zwave_tx_valid_parent_session_id := True\<rparr>;
           (ret, s) \<leftarrow> transport_service_send_data ll (local_node_id (tx_connection r)) (remote_node_id (tx_connection r)) (tx_data r)
              (of_nat (length (tx_data r))) (zwave_tx_scheme_get_max_payload env (remote_node_id (tx_connection r))) (Some 1) (service w);
           let w = advance s w;
           Some (if ret = TRANSPORT_SERVICE_SEND_SUCCESS then (SL_STATUS_OK, w\<lparr>transport_service_busy := True\<rparr>)
                 else if ret = TRANSPORT_SERVICE_WILL_OVERFLOW then (SL_STATUS_WOULD_OVERFLOW, w)
                 else (SL_STATUS_FAIL, w))
         })"
  using assms unfolding takes_request_def Let_def zwave_transport_service_send_data_def by (auto simp: not_le not_less)

lemma start_refused:
  assumes "ts_inv s" and "current_state s = ST_IDLE" and "quiet s" and "length data \<le> 200" and "max_len < of_nat (length data)" and "max_len \<in> {46, 150, 170}"
    and "\<And>xs. ll xs = 1"
  shows "\<exists>s' p. transport_service_send_data ll src dst data (of_nat (length data)) max_len c s = Some (TRANSPORT_SERVICE_SEND_SUCCESS, s') \<and>
           out s' = out s @ [Sent src dst p 0 Senddata_cb] \<and> rcb s' = rcb s \<and> wait_restart_timer (scb s') = None \<and> timer_btwn_2_frags (scb s') = None \<and>
           reset_timer (scb s') \<noteq> None"
proof -
  have len: "unat (of_nat (length data) :: u16) = length data" using assms(4) by (simp add: unat_of_nat)
  have "length (datagram (scb s)) = 200" using assms(1) by (simp add: ts_inv_def scb_ok_def)
  then obtain d where d: "write_bytes (datagram (scb s)) 0 data (length data) = Some d" "length d = 200"
    using write_bytes_length [of "length data" data 0 "datagram (scb s)"] assms(4) by (auto simp: returns_def)
  let ?s1 = "set_reset_timer (scb_update (\<lambda>b. b\<lparr>datagram := d\<rparr>) (s\<lparr>on_send_complete_cb := c, max_fragment_size := max_len - 7\<rparr>))"
  let ?s2 = "t2_sm_post_event EV_START_SEND (start_session src dst (of_nat (length data)) ?s1)"
  have m: "max_len - 7 \<noteq> 0" "max_len - 7 < max_len" using assms(6) by auto
  have i2: "ts_inv ?s2" using assms(1,4) d(2) m len by (auto simp: ts_inv_def scb_ok_def start_session_def set_reset_timer_def)
  have lt: "max_fragment_size ?s2 < datagram_len (scb ?s2)" using m(2) assms(5) by (simp add: start_session_def)
  obtain s' p where s': "send_first_frag ll ?s2 = Some s'" "out s' = out s @ [Sent src dst p 0 Senddata_cb]" "rcb s' = rcb s"
    "wait_restart_timer (scb s') = None" "timer_btwn_2_frags (scb s') = None" "reset_timer (scb s') \<noteq> None"
    using send_first_refused [OF i2 lt, of ll] assms(3,7) by (auto simp: start_session_def set_reset_timer_def quiet_def)
  have idle: "current_state (start_session src dst (of_nat (length data)) ?s1) = ST_IDLE" "current_state ?s1 = ST_IDLE"
    using assms(2) by (simp_all add: start_session_def)
  have "transport_service_send_data ll src dst data (of_nat (length data)) max_len c s = Some (TRANSPORT_SERVICE_SEND_SUCCESS, s')"
    using d(1) assms(4) s'(1) idle
    by (simp add: transport_service_send_data_def Let_def len is_transport_service_sending_def is_transport_service_receiving_def recv_or_send_def)
  with s' show ?thesis by blast
qed

text \<open>
  When the transmit queue refuses the first fragment of a datagram, the Transport Service is lost for good:
  the request is reported as accepted, its sender is never called back, and once the reset timer
  has fired, no timer is running, yet every later request for a long frame is refused as busy.
\<close>

theorem refused_fragment_blocks_transport_service:
  assumes "takes_request env r" and "length (tx_data r) \<le> 200" and "ts_inv (service w)" and "current_state (service w) = ST_IDLE"
    and "quiet (service w)" and "\<not> transport_service_busy w" and "\<And>xs. ll xs = 1"
  shows "\<exists>w1 w2. zwave_transport_service_send_data ll env r w = Some (SL_STATUS_OK, w1) \<and> wrapper_expire ll Reset_timer w1 = Some w2 \<and>
    quiet (service w2) \<and> current_state (service w2) = ST_IDLE \<and> reports w2 = reports w \<and>
    (\<forall>ll' env' r'. takes_request env' r' \<longrightarrow> zwave_transport_service_send_data ll' env' r' w2 = Some (SL_STATUS_BUSY, w2))"
proof -
  let ?c = "tx_connection r" and ?m = "zwave_tx_scheme_get_max_payload env (remote_node_id (tx_connection r))"
  have lt: "?m < of_nat (length (tx_data r))" using assms(1) by (simp add: takes_request_def Let_def)
  obtain s' p where s': "transport_service_send_data ll (local_node_id ?c) (remote_node_id ?c) (tx_data r) (of_nat (length (tx_data r))) ?m (Some 1) (service w) =
      Some (TRANSPORT_SERVICE_SEND_SUCCESS, s')"
    "out s' = out (service w) @ [Sent (local_node_id ?c) (remote_node_id ?c) p 0 Senddata_cb]" "rcb s' = rcb (service w)"
    "wait_restart_timer (scb s') = None" "timer_btwn_2_frags (scb s') = None" "reset_timer (scb s') \<noteq> None"
    using start_refused [OF assms(3-5,2) lt max_payload_cases, of ll "local_node_id ?c" "remote_node_id ?c" "Some 1"] assms(7) by blast
  let ?w0 = "w\<lparr>intercepted_on_zwave_tx_send_data_complete := (if tx_on_send_complete r = 0 then None else Some (tx_on_send_complete r)),
                     zwave_tx_parent_session_id := tx_parent_session r, zwave_tx_valid_parent_session_id := True\<rparr>"
  let ?w1 = "(advance s' ?w0)\<lparr>transport_service_busy := True\<rparr>"
  let ?s2 = "reset_transport_service (scb_update (\<lambda>b. b\<lparr>reset_timer := None\<rparr>) s')"
  have one: "zwave_transport_service_send_data ll env r w = Some (SL_STATUS_OK, ?w1)"
    using takes_request_eq [OF assms(1), of ll w] assms(6) s'(1) by (simp add: Let_def)
  have r1: "reports ?w1 = reports w" using s'(2) by (simp add: advance_def serve_def wrapper_send_data_def Let_def)
  have o2: "out ?s2 = out s'" by (simp add: reset_transport_service_def discard_all_received_fragments_def Let_def)
  have two: "wrapper_expire ll Reset_timer ?w1 = Some (advance ?s2 ?w1)"
    using s'(6) by (auto simp: wrapper_expire_def expire_def)
  have w2: "advance ?s2 ?w1 = ?w1\<lparr>service := ?s2\<rparr>" using o2 by (simp add: advance_def)
  have q: "quiet ?s2" "current_state ?s2 = ST_IDLE"
    using s'(3-5) assms(5) by (simp_all add: quiet_def reset_transport_service_def discard_all_received_fragments_def Let_def)
  have busy: "transport_service_busy (advance ?s2 ?w1)" by (simp add: w2)
  have "\<forall>ll' env' r'. takes_request env' r' \<longrightarrow> zwave_transport_service_send_data ll' env' r' (advance ?s2 ?w1) = Some (SL_STATUS_BUSY, advance ?s2 ?w1)"
    using busy by (simp add: takes_request_eq)
  then show ?thesis using one two q r1 w2 by auto
qed

definition default_env :: scheme_env where
  "default_env = \<lparr>store = \<lparr>set_node_as_s2_capable_cb = None, verify_node_is_s2_cb = None, zwave_node_cc_version_cb = None,
     granted_keys_cb = None, get_inclusion_protocol_cb = None\<rparr>, zpc_node_id = 1, rf_region = 0, uninit_highest_class = 0,
     uninit_greater_equal = 0, uninit_connection_info = 0, uninit_node_class = 0, uninit_validation = 0\<rparr>"

definition long_request :: tx_request where
  "long_request = \<lparr>tx_connection = plain_connection 1 2, tx_data = replicate 60 7, tx_request_options = no_options,
     tx_on_send_complete = 5, tx_user = 0, tx_parent_session = 3\<rparr>"

lemma long_request_taken: "takes_request default_env long_request"
  by (simp add: takes_request_def Let_def long_request_def default_env_def plain_connection_def IS_BROADCAST_NODE_ID_def
      zwave_tx_scheme_get_max_payload_def zwave_controller_storage_inclusion_protocol_def zwave_controller_storage_is_node_s2_capable_def)

theorem refused_fragment_blocks_transport_service_witness:
  "\<exists>w1 w2. zwave_transport_service_send_data (\<lambda>_. 1) default_env long_request tsw_start = Some (SL_STATUS_OK, w1) \<and>
    wrapper_expire (\<lambda>_. 1) Reset_timer w1 = Some w2 \<and> quiet (service w2) \<and> reports w2 = [] \<and>
    zwave_transport_service_send_data accepting default_env long_request w2 = Some (SL_STATUS_BUSY, w2)"
proof -
  have s: "ts_inv (service tsw_start)" "current_state (service tsw_start) = ST_IDLE" "quiet (service tsw_start)" "\<not> transport_service_busy tsw_start"
    "reports tsw_start = []"
    using ts_inv_start [of 1] by (simp_all add: tsw_start_def quiet_def ts_start_def transport_service_init_def Let_def)
  have l: "length (tx_data long_request) \<le> 200" by (simp add: long_request_def)
  show ?thesis
    using refused_fragment_blocks_transport_service [OF long_request_taken l s(1-4), of "\<lambda>_. 1"] s(5) long_request_taken by auto
qed

theorem wrapper_requests_are_safe_witness:
  "tsw_step accepting default_env (W_send long_request) tsw_start \<noteq> None"
proof -
  have "tsw_step accepting default_env (W_send long_request) tsw_start = None \<longleftrightarrow> tsw_hazard (W_send long_request) tsw_start"
    by (rule wrapper_requests_are_safe [of _ _ "[]"]) (simp_all add: tsw_input_ok_def long_request_def)
  then show ?thesis by (simp add: tsw_hazard_def)
qed

end
