(* ===== verification/S0_Nonces.thy ===== *)
theory S0_Nonces
  imports Controller_Transport C_Memory
begin

text \<open>
  The state of the Security 0 component (\<^verbatim>\<open>zwave_s0_transport.c\<close>, \<^verbatim>\<open>zwave_s0_sm.c\<close>) and the first
  part of the transport: the block cipher modes, the list of blocked nonces, the nonce table with
  its timer, and the keys. The AES block function, the random generator, the keystore and the
  transmit queue are parameters, collected in \<open>s0_env\<close>; what the component hands to other
  components is recorded in \<open>s0_out\<close>.
\<close>

section \<open>Data\<close>

abbreviation (input) NONCE_TABLE_SIZE :: nat where "NONCE_TABLE_SIZE \<equiv> 15"
abbreviation (input) NUM_TX_SESSIONS :: nat where "NUM_TX_SESSIONS \<equiv> 2"
abbreviation (input) MAX_RXSESSIONS :: nat where "MAX_RXSESSIONS \<equiv> 2"
abbreviation (input) MAX_ENCRYPTED_MSG_SIZE :: nat where "MAX_ENCRYPTED_MSG_SIZE \<equiv> 128"
abbreviation (input) NONCE_BLOCK_LIST_SIZE :: nat where "NONCE_BLOCK_LIST_SIZE \<equiv> 10"
abbreviation (input) NONCE_TIMEOUT :: u8 where "NONCE_TIMEOUT \<equiv> 10"
abbreviation (input) NONCE_REQUEST_TIMER :: nat where "NONCE_REQUEST_TIMER \<equiv> 10000"
abbreviation (input) S0_INCLUSION_TIMER :: nat where "S0_INCLUSION_TIMER \<equiv> 10000"
abbreviation (input) S0_ENCAP_HEADER_LEN :: nat where "S0_ENCAP_HEADER_LEN \<equiv> 20"
abbreviation (input) ZWAVE_MAX_FRAME_SIZE :: nat where "ZWAVE_MAX_FRAME_SIZE \<equiv> 158"

datatype tx_state = NONCE_GET | NONCE_GET_SENT | ENC_MSG | ENC_MSG_SENT | ENC_MSG2 | ENC_MSG2_SENT | TX_DONE

text \<open>
  A transmission. The pointer into the buffer is an offset; functions and user data are numbers, 0
  for a null pointer; a timer is the time it was set to, \<open>None\<close> when it is not running.
\<close>

record sec_tx_session =
  conn_info :: connection_info
  buf :: "u8 list"
  data_pos :: nat
  data_len :: u8
  tx_st :: tx_state
  tx_code :: u8
  tx_timer :: "nat option"
  crypted_msg :: "u8 list"
  seq :: u8
  use_inclusion_key :: bool
  user :: nat
  s_callback :: nat
  tx_ext_status :: nat
  s_session_id :: nat

record nonce_block =
  b_nonce :: "u8 list"
  b_src :: u8
  b_dst :: u8
  in_use :: bool

record nonce =
  n_src :: node_id
  n_dst :: node_id
  n_timeout :: u8
  reply_nonce :: bool
  n_bytes :: "u8 list"

datatype rx_session_state = RX_INIT | RX_ENC1 | RX_ENC2 | RX_SESSION_DONE

record rx_session =
  snode :: u8
  dnode :: u8
  rx_st :: rx_session_state
  seq_nr :: u8
  msg :: "u8 list"
  msg_len :: u8
  rx_timeout :: u64

datatype s0_bootstrap_state =
  S0_INC_IDLE | S0_AWAITING_SCHEME_REPORT | S0_HANDLE_SCHEME_REPORT | S0_AWAITING_KEY_VERIFY
| S0_HANDLE_NET_KEY_VERIFY | S0_AWAITING_2SCHEME_REPORT

record s0_sm =
  bootstrap_state :: s0_bootstrap_state
  bootstrap_conn :: connection_info
  bootstrap_timer :: "nat option"
  scheme_report :: u8
  s0_is_controller :: u8

text \<open>The function that the transmit queue is to call when a frame has been sent, and what leaves the component.\<close>

datatype s0_tx_callback = No_tx_callback | Session_callback nat | Bootstrap_callback

datatype s0_output =
  Tx_send connection_info "u8 list" tx_options s0_tx_callback
| Send_complete nat u8 nat nat
| On_frame_received connection_info "u8 list"
| Bootstrapping_complete keyset kex_fail_type

record s0 =
  tx_sessions :: "sec_tx_session list"
  nonce_block_list :: "nonce_block list"
  block_next_elem :: nat
  aes_key :: "u8 list"
  aes_iv :: "u8 list"
  nonce_table :: "nonce list"
  nonce_timer :: "nat option"
  enckey :: "u8 list"
  authkey :: "u8 list"
  enckeyz :: "u8 list"
  authkeyz :: "u8 list"
  last_seq :: u8
  rxsessions :: "rx_session list"
  s0_clock :: u64
  sm :: s0_sm
  s0_on_bootstrapping_complete_callback :: bool
  drbg :: nat
  s0_out :: "s0_output list"

text \<open>
  The block cipher (input, key), the blocks of the random generator in the order in which they are
  drawn, the answers of the transmit queue and of the keystore (\<open>None\<close> when the key cannot be read),
  the storage and the radio, and the content of the uninitialised variable of
  \<^verbatim>\<open>s0_application_command_handler\<close>.
\<close>

record s0_env =
  aes_128 :: "u8 list \<Rightarrow> u8 list \<Rightarrow> u8 list"
  drbg_block :: "nat \<Rightarrow> u8 list"
  tx_answer :: "s0_output list \<Rightarrow> sl_status"
  s0_key_read :: "s0_output list \<Rightarrow> u8 list option"
  schemes :: scheme_env
  uninit_supporting_keys :: keyset

definition s0_emit :: "s0_output \<Rightarrow> s0 \<Rightarrow> s0" where
  "s0_emit x s = s\<lparr>s0_out := s0_out s @ [x]\<rparr>"

definition zwave_tx_send_data :: "s0_env \<Rightarrow> connection_info \<Rightarrow> u8 list \<Rightarrow> tx_options \<Rightarrow> s0_tx_callback \<Rightarrow> s0 \<Rightarrow> sl_status \<times> s0" where
  "zwave_tx_send_data env c frame opts cb s = (let s = s0_emit (Tx_send c frame opts cb) s in (tx_answer env (s0_out s), s))"

section \<open>Cipher modes\<close>

definition aes_encrypt :: "s0_env \<Rightarrow> u8 list \<Rightarrow> s0 \<Rightarrow> u8 list" where
  "aes_encrypt env block s = aes_128 env block (aes_key s)"

definition aes_set_key_tpt :: "u8 list \<Rightarrow> u8 list \<Rightarrow> s0 \<Rightarrow> s0" where
  "aes_set_key_tpt key iv s = s\<lparr>aes_key := take 16 key, aes_iv := take 16 iv\<rparr>"

fun aes_ofb_loop :: "s0_env \<Rightarrow> nat \<Rightarrow> u8 list \<Rightarrow> s0 \<Rightarrow> u8 list \<times> s0" where
  "aes_ofb_loop env i [] s = ([], s)"
| "aes_ofb_loop env i (d # ds) s =
     (let s = (if i mod 16 = 0 then s\<lparr>aes_iv := aes_encrypt env (aes_iv s) s\<rparr> else s);
          (ds', s') = aes_ofb_loop env (i + 1) ds s
      in ((d XOR aes_iv s ! (i mod 16)) # ds', s'))"

definition aes_ofb :: "s0_env \<Rightarrow> u8 list \<Rightarrow> s0 \<Rightarrow> u8 list \<times> s0" where
  "aes_ofb env bytes s = aes_ofb_loop env 0 bytes s"

fun cbc_mac_loop :: "s0_env \<Rightarrow> s0 \<Rightarrow> nat \<Rightarrow> u8 list \<Rightarrow> u8 list \<Rightarrow> u8 list" where
  "cbc_mac_loop env s i [] mac = mac"
| "cbc_mac_loop env s i (d # ds) mac =
     (let mac = mac[i mod 16 := mac ! (i mod 16) XOR d];
          mac = (if i mod 16 = 15 then aes_encrypt env mac s else mac)
      in cbc_mac_loop env s (i + 1) ds mac)"

definition aes_cbc_mac :: "s0_env \<Rightarrow> u8 list \<Rightarrow> s0 \<Rightarrow> u8 list" where
  "aes_cbc_mac env bytes s =
     (let mac = cbc_mac_loop env s 0 bytes (aes_encrypt env (aes_iv s) s)
      in if length bytes mod 16 \<noteq> 0 then aes_encrypt env mac s else mac)"

section \<open>Blocked nonces\<close>

definition s0_is_nonce_blocked :: "u8 \<Rightarrow> u8 \<Rightarrow> u8 list \<Rightarrow> s0 \<Rightarrow> bool" where
  "s0_is_nonce_blocked src dst n s \<longleftrightarrow>
     list_ex (\<lambda>b. in_use b \<and> b_nonce b = take 8 n \<and> b_src b = src \<and> b_dst b = dst) (nonce_block_list s)"

definition s0_block_nonce :: "u8 \<Rightarrow> u8 \<Rightarrow> u8 list \<Rightarrow> s0 \<Rightarrow> s0" where
  "s0_block_nonce src dst n s =
     s\<lparr>nonce_block_list := (nonce_block_list s)[block_next_elem s := \<lparr>b_nonce = take 8 n, b_src = src, b_dst = dst, in_use = True\<rparr>],
       block_next_elem := (block_next_elem s + 1) mod NONCE_BLOCK_LIST_SIZE\<rparr>"

section \<open>The nonce table\<close>

definition restart_s0_timer :: "s0 \<Rightarrow> s0" where
  "restart_s0_timer s = (if nonce_timer s = None then s\<lparr>nonce_timer := Some 1000\<rparr> else s)"

definition nonce_between :: "u8 \<Rightarrow> u8 \<Rightarrow> nonce \<Rightarrow> bool" where
  "nonce_between src dst n \<longleftrightarrow> n_timeout n > 0 \<and> n_src n = ucast src \<and> n_dst n = ucast dst"

definition register_nonce :: "u8 \<Rightarrow> u8 \<Rightarrow> bool \<Rightarrow> u8 list \<Rightarrow> s0 \<Rightarrow> bool \<times> s0" where
  "register_nonce src dst reply n s =
     (case (if reply then first_index (\<lambda>e. reply_nonce e \<and> nonce_between src dst e) (nonce_table s) else None) of
        Some i \<Rightarrow> (True, restart_s0_timer (s\<lparr>nonce_table := (nonce_table s)[i := (nonce_table s ! i)\<lparr>n_bytes := take 8 n, n_timeout := NONCE_TIMEOUT\<rparr>]\<rparr>))
      | None \<Rightarrow>
          (case first_index (\<lambda>e. n_timeout e = 0) (nonce_table s) of
             Some i \<Rightarrow> (True, restart_s0_timer (s\<lparr>nonce_table := (nonce_table s)[i :=
                          \<lparr>n_src = ucast src, n_dst = ucast dst, n_timeout = NONCE_TIMEOUT, reply_nonce = reply, n_bytes = take 8 n\<rparr>]\<rparr>))
           | None \<Rightarrow> (False, s)))"

definition get_s0_nonce :: "u8 \<Rightarrow> u8 \<Rightarrow> u8 \<Rightarrow> bool \<Rightarrow> s0 \<Rightarrow> u8 list option" where
  "get_s0_nonce src dst ri any_nonce s =
     map_option n_bytes (List.find (\<lambda>e. nonce_between src dst e \<and> (any_nonce \<or> n_bytes e ! 0 = ri)) (nonce_table s))"

definition nonce_clear :: "u8 \<Rightarrow> u8 \<Rightarrow> s0 \<Rightarrow> s0" where
  "nonce_clear src dst s =
     s\<lparr>nonce_table := map (\<lambda>e. if nonce_between src dst e then e\<lparr>n_timeout := 0\<rparr> else e) (nonce_table s)\<rparr>"

definition nonce_timer_timeout :: "s0 \<Rightarrow> s0" where
  "nonce_timer_timeout s =
     (let table = map (\<lambda>e. if n_timeout e > 0 then e\<lparr>n_timeout := n_timeout e - 1\<rparr> else e) (nonce_table s);
          restart = list_ex (\<lambda>e. n_timeout e > 0) table;
          s = s\<lparr>nonce_table := table\<rparr>
      in if restart then s\<lparr>nonce_timer := Some 1000\<rparr> else s)"

text \<open>
  Both places that need a nonce draw blocks until the first byte is not that of a nonce in use. The
  loop need not end.
\<close>

partial_function (option) draw_nonce :: "s0_env \<Rightarrow> u8 \<Rightarrow> u8 \<Rightarrow> s0 \<Rightarrow> (u8 list \<times> s0) option" where
  "draw_nonce env src dst s =
     (let block = drbg_block env (drbg s);
          s = s\<lparr>drbg := drbg s + 1\<rparr>
      in if get_s0_nonce src dst (block ! 0) False s = None then Some (block, s) else draw_nonce env src dst s)"

declare draw_nonce.simps [code]

section \<open>Keys\<close>

definition s0_set_key :: "s0_env \<Rightarrow> u8 list \<Rightarrow> s0 \<Rightarrow> s0" where
  "s0_set_key env network_key s =
     (let s = s\<lparr>aes_key := take 16 network_key\<rparr>;
          s = s\<lparr>authkey := aes_encrypt env (replicate 16 0x55) s\<rparr>;
          s = s\<lparr>enckey := aes_encrypt env (replicate 16 0xAA) s\<rparr>;
          s = s\<lparr>aes_key := replicate 16 0\<rparr>;
          s = s\<lparr>authkeyz := aes_encrypt env (replicate 16 0x55) s\<rparr>;
          s = s\<lparr>enckeyz := aes_encrypt env (replicate 16 0xAA) s\<rparr>
      in s)"

end
