(* ===== verification/S0_Bootstrap.thy ===== *)
theory S0_Bootstrap
  imports S0_Nonces
begin

text \<open>
  The bootstrapping of nodes to the Security 0 network key, \<^verbatim>\<open>zwave_s0_sm.c\<close>: a table of transitions
  whose actions send the next command or report the end. An action may process a further event,
  which a rank of the events shows to end.
\<close>

section \<open>Data\<close>

datatype s0_bootstrap_event =
  EV_S0_BOOTSTRAPPING_START | EV_S0_SCHEME_REPORT_RECEIVED | EV_S0_SEND_KEY_SET | EV_S0_NET_KEY_VERIFY_RECEIVED
| EV_S0_SEND_SCHEME_INHERIT | EV_S0_WAS_NOT_CONTROLLER | EV_S0_WRONG_SCHEME_REPORT | EV_S0_BOOTSTRAP_ABORT | EV_S0_TIMEOUT

datatype s0_action =
  S0_SEND_SCHEME_GET_ACTION | S0_SCHEME_REPORT_RECV_ACTION | S0_SEND_KEY_SET_ACTION | S0_NET_KEY_VERIFY_RECEIVED_ACTION
| S0_SEND_SCHEME_INHERIT_ACTION | S0_2SCHEME_REPORT_RECEIVED_ACTION | S0_BOOTSTRAP_ABORT_ACTION | S0_NO_ACTION

record s0_transition =
  st_state :: s0_bootstrap_state
  st_event :: s0_bootstrap_event
  st_action :: s0_action
  st_new_state :: s0_bootstrap_state

abbreviation (input) KEY_CLASS_S0 :: keyset where "KEY_CLASS_S0 \<equiv> 0x80"
abbreviation (input) COMMAND_CLASS_SECURITY :: u8 where "COMMAND_CLASS_SECURITY \<equiv> 0x98"
abbreviation (input) SECURITY_SCHEME_GET :: u8 where "SECURITY_SCHEME_GET \<equiv> 0x04"
abbreviation (input) SECURITY_SCHEME_REPORT :: u8 where "SECURITY_SCHEME_REPORT \<equiv> 0x05"
abbreviation (input) NETWORK_KEY_SET :: u8 where "NETWORK_KEY_SET \<equiv> 0x06"
abbreviation (input) NETWORK_KEY_VERIFY :: u8 where "NETWORK_KEY_VERIFY \<equiv> 0x07"
abbreviation (input) SECURITY_SCHEME_INHERIT :: u8 where "SECURITY_SCHEME_INHERIT \<equiv> 0x08"
abbreviation (input) TIMING_CRITICAL_PRIORITY :: u32 where "TIMING_CRITICAL_PRIORITY \<equiv> 0x0FFFFFFF"

definition with_sm :: "(s0_sm \<Rightarrow> s0_sm) \<Rightarrow> s0 \<Rightarrow> s0" where
  "with_sm f s = s\<lparr>sm := f (sm s)\<rparr>"

definition zero_sm :: s0_sm where
  "zero_sm = \<lparr>bootstrap_state = S0_INC_IDLE, bootstrap_conn = zero_connection, bootstrap_timer = None,
     scheme_report = 0, s0_is_controller = 0\<rparr>"

section \<open>Actions\<close>

definition reset_s0_sm :: "s0 \<Rightarrow> s0" where
  "reset_s0_sm s = s\<lparr>sm := zero_sm\<rparr>"

definition bootstrapping_complete :: "keyset \<Rightarrow> kex_fail_type \<Rightarrow> s0 \<Rightarrow> s0" where
  "bootstrapping_complete keys kex s =
     (if s0_on_bootstrapping_complete_callback s then s0_emit (Bootstrapping_complete keys kex) s else s)"

definition s0_abort_bootstrap :: "s0 \<Rightarrow> s0" where
  "s0_abort_bootstrap s = (bootstrapping_complete 0 KEX_FAIL_KEX_SCHEME s)\<lparr>sm := zero_sm\<rparr>"

definition s0_bootstrap_frames_generic_send :: "s0_env \<Rightarrow> scheme \<Rightarrow> u8 list \<Rightarrow> s0 \<Rightarrow> sl_status \<times> s0" where
  "s0_bootstrap_frames_generic_send env en frame s =
     (let s = with_sm (\<lambda>m. m\<lparr>bootstrap_conn := (bootstrap_conn m)\<lparr>encapsulation := en\<rparr>\<rparr>) s;
          options = zero_options\<lparr>qos_priority := TIMING_CRITICAL_PRIORITY, number_of_responses := 1,
                      discard_timeout_ms := of_nat S0_INCLUSION_TIMER\<rparr>
      in zwave_tx_send_data env (bootstrap_conn (sm s)) frame options Bootstrap_callback s)"

definition s0_send_scheme_inherit :: "s0_env \<Rightarrow> s0 \<Rightarrow> sl_status \<times> s0" where
  "s0_send_scheme_inherit env s =
     s0_bootstrap_frames_generic_send env SECURITY_0 [COMMAND_CLASS_SECURITY, SECURITY_SCHEME_INHERIT, 0] s"

definition s0_send_key_set :: "s0_env \<Rightarrow> s0 \<Rightarrow> sl_status \<times> s0" where
  "s0_send_key_set env s =
     (let s = s0_set_key env (replicate 16 0) s in
      case s0_key_read env (s0_out s) of
        None \<Rightarrow> (SL_STATUS_FAIL, s)
      | Some key \<Rightarrow> s0_bootstrap_frames_generic_send env SECURITY_0 ([COMMAND_CLASS_SECURITY, NETWORK_KEY_SET] @ take 16 key) s)"

definition s0_send_scheme_get :: "s0_env \<Rightarrow> s0 \<Rightarrow> sl_status \<times> s0" where
  "s0_send_scheme_get env s =
     s0_bootstrap_frames_generic_send env SCHEME_NONE [COMMAND_CLASS_SECURITY, SECURITY_SCHEME_GET, 0] s"

section \<open>The state machine\<close>

abbreviation (input) row :: "s0_bootstrap_state \<Rightarrow> s0_bootstrap_event \<Rightarrow> s0_action \<Rightarrow> s0_bootstrap_state \<Rightarrow> s0_transition" where
  "row st ev action new \<equiv> \<lparr>st_state = st, st_event = ev, st_action = action, st_new_state = new\<rparr>"

definition s0_transition_table :: "s0_transition list" where
  "s0_transition_table =
     [row S0_INC_IDLE EV_S0_BOOTSTRAPPING_START S0_SEND_SCHEME_GET_ACTION S0_AWAITING_SCHEME_REPORT,
      row S0_AWAITING_SCHEME_REPORT EV_S0_BOOTSTRAP_ABORT S0_BOOTSTRAP_ABORT_ACTION S0_INC_IDLE,
      row S0_AWAITING_SCHEME_REPORT EV_S0_TIMEOUT S0_BOOTSTRAP_ABORT_ACTION S0_INC_IDLE,
      row S0_AWAITING_SCHEME_REPORT EV_S0_SCHEME_REPORT_RECEIVED S0_SCHEME_REPORT_RECV_ACTION S0_HANDLE_SCHEME_REPORT,
      row S0_HANDLE_SCHEME_REPORT EV_S0_SEND_KEY_SET S0_SEND_KEY_SET_ACTION S0_AWAITING_KEY_VERIFY,
      row S0_AWAITING_KEY_VERIFY EV_S0_TIMEOUT S0_BOOTSTRAP_ABORT_ACTION S0_INC_IDLE,
      row S0_AWAITING_KEY_VERIFY EV_S0_NET_KEY_VERIFY_RECEIVED S0_NET_KEY_VERIFY_RECEIVED_ACTION S0_HANDLE_NET_KEY_VERIFY,
      row S0_AWAITING_KEY_VERIFY EV_S0_BOOTSTRAP_ABORT S0_BOOTSTRAP_ABORT_ACTION S0_INC_IDLE,
      row S0_HANDLE_NET_KEY_VERIFY EV_S0_WAS_NOT_CONTROLLER S0_NO_ACTION S0_INC_IDLE,
      row S0_HANDLE_NET_KEY_VERIFY EV_S0_SEND_SCHEME_INHERIT S0_SEND_SCHEME_INHERIT_ACTION S0_AWAITING_2SCHEME_REPORT,
      row S0_AWAITING_2SCHEME_REPORT EV_S0_SCHEME_REPORT_RECEIVED S0_2SCHEME_REPORT_RECEIVED_ACTION S0_INC_IDLE,
      row S0_AWAITING_2SCHEME_REPORT EV_S0_TIMEOUT S0_BOOTSTRAP_ABORT_ACTION S0_INC_IDLE,
      row S0_AWAITING_2SCHEME_REPORT EV_S0_BOOTSTRAP_ABORT S0_BOOTSTRAP_ABORT_ACTION S0_INC_IDLE]"

text \<open>
  An action may process another event. The rank of the events falls along these calls: a report
  leads to the key, the key verification to the end or to the inheritance, and each command that
  cannot be sent to an abort.
\<close>

fun event_rank :: "s0_bootstrap_event \<Rightarrow> nat" where
  "event_rank EV_S0_SCHEME_REPORT_RECEIVED = 2"
| "event_rank EV_S0_NET_KEY_VERIFY_RECEIVED = 2"
| "event_rank EV_S0_BOOTSTRAPPING_START = 1"
| "event_rank EV_S0_SEND_KEY_SET = 1"
| "event_rank EV_S0_SEND_SCHEME_INHERIT = 1"
| "event_rank _ = 0"

lemma action_event:
  assumes "i < length s0_transition_table"
  shows "case st_action (s0_transition_table ! i) of
      S0_SCHEME_REPORT_RECV_ACTION \<Rightarrow> st_event (s0_transition_table ! i) = EV_S0_SCHEME_REPORT_RECEIVED
    | S0_NET_KEY_VERIFY_RECEIVED_ACTION \<Rightarrow> st_event (s0_transition_table ! i) = EV_S0_NET_KEY_VERIFY_RECEIVED
    | S0_SEND_SCHEME_GET_ACTION \<Rightarrow> st_event (s0_transition_table ! i) = EV_S0_BOOTSTRAPPING_START
    | S0_SEND_KEY_SET_ACTION \<Rightarrow> st_event (s0_transition_table ! i) = EV_S0_SEND_KEY_SET
    | S0_SEND_SCHEME_INHERIT_ACTION \<Rightarrow> st_event (s0_transition_table ! i) = EV_S0_SEND_SCHEME_INHERIT
    | _ \<Rightarrow> True"
proof -
  have "list_all (\<lambda>t. case st_action t of
      S0_SCHEME_REPORT_RECV_ACTION \<Rightarrow> st_event t = EV_S0_SCHEME_REPORT_RECEIVED
    | S0_NET_KEY_VERIFY_RECEIVED_ACTION \<Rightarrow> st_event t = EV_S0_NET_KEY_VERIFY_RECEIVED
    | S0_SEND_SCHEME_GET_ACTION \<Rightarrow> st_event t = EV_S0_BOOTSTRAPPING_START
    | S0_SEND_KEY_SET_ACTION \<Rightarrow> st_event t = EV_S0_SEND_KEY_SET
    | S0_SEND_SCHEME_INHERIT_ACTION \<Rightarrow> st_event t = EV_S0_SEND_SCHEME_INHERIT
    | _ \<Rightarrow> True) s0_transition_table"
    by (simp add: s0_transition_table_def)
  then show ?thesis using assms by (simp add: list_all_length)
qed

text \<open>The loop over the table goes on after a match, with the state the action has left.\<close>

function s0_sm_process_from :: "s0_env \<Rightarrow> s0_bootstrap_event \<Rightarrow> nat \<Rightarrow> s0 \<Rightarrow> s0" where
  "s0_sm_process_from env ev i s =
     (if i < length s0_transition_table
      then let t = s0_transition_table ! i in
        s0_sm_process_from env ev (i + 1)
          (if bootstrap_state (sm s) = st_state t \<and> ev = st_event t
           then let s = with_sm (\<lambda>m. m\<lparr>bootstrap_state := st_new_state t\<rparr>) s in
             (case st_action t of
                S0_SEND_SCHEME_GET_ACTION \<Rightarrow>
                  (case s0_send_scheme_get env s of (r, s) \<Rightarrow>
                     if r \<noteq> SL_STATUS_OK then s0_sm_process_from env EV_S0_BOOTSTRAP_ABORT 0 s else s)
              | S0_SCHEME_REPORT_RECV_ACTION \<Rightarrow> s0_sm_process_from env EV_S0_SEND_KEY_SET 0 s
              | S0_SEND_KEY_SET_ACTION \<Rightarrow>
                  (case s0_send_key_set env s of (r, s) \<Rightarrow>
                     let s = (if r \<noteq> SL_STATUS_OK then s0_sm_process_from env EV_S0_BOOTSTRAP_ABORT 0 s else s)
                     in case s0_key_read env (s0_out s) of
                          Some key \<Rightarrow> s0_set_key env key s
                        | None \<Rightarrow> s0_sm_process_from env EV_S0_BOOTSTRAP_ABORT 0 s)
              | S0_NET_KEY_VERIFY_RECEIVED_ACTION \<Rightarrow>
                  (if s0_is_controller (sm s) = 0
                   then s0_sm_process_from env EV_S0_WAS_NOT_CONTROLLER 0 (bootstrapping_complete KEY_CLASS_S0 KEX_FAIL_NONE s)
                   else s0_sm_process_from env EV_S0_SEND_SCHEME_INHERIT 0 s)
              | S0_SEND_SCHEME_INHERIT_ACTION \<Rightarrow>
                  (case s0_send_scheme_inherit env s of (r, s) \<Rightarrow>
                     if r \<noteq> SL_STATUS_OK then s0_sm_process_from env EV_S0_BOOTSTRAP_ABORT 0 s else s)
              | S0_2SCHEME_REPORT_RECEIVED_ACTION \<Rightarrow>
                  (if s0_is_controller (sm s) \<noteq> 0 then bootstrapping_complete KEY_CLASS_S0 KEX_FAIL_NONE s else s)
              | S0_BOOTSTRAP_ABORT_ACTION \<Rightarrow> s0_abort_bootstrap s
              | S0_NO_ACTION \<Rightarrow> reset_s0_sm s)
           else s)
      else s)"
  by pat_completeness auto
termination
  by (relation "measures [\<lambda>(env, ev, i, s). event_rank ev, \<lambda>(env, ev, i, s). length s0_transition_table - i]")
     (use action_event in \<open>fastforce+\<close>)

declare s0_sm_process_from.simps [simp del]

definition s0_sm_process_event :: "s0_env \<Rightarrow> s0_bootstrap_event \<Rightarrow> s0 \<Rightarrow> s0" where
  "s0_sm_process_event env ev s = s0_sm_process_from env ev 0 s"

text \<open>One action, with the processing of further events as an argument.\<close>

definition s0_perform :: "s0_env \<Rightarrow> (s0_bootstrap_event \<Rightarrow> s0 \<Rightarrow> s0) \<Rightarrow> s0_action \<Rightarrow> s0 \<Rightarrow> s0" where
  "s0_perform env process action s =
     (case action of
        S0_SEND_SCHEME_GET_ACTION \<Rightarrow>
          (case s0_send_scheme_get env s of (r, s) \<Rightarrow> if r \<noteq> SL_STATUS_OK then process EV_S0_BOOTSTRAP_ABORT s else s)
      | S0_SCHEME_REPORT_RECV_ACTION \<Rightarrow> process EV_S0_SEND_KEY_SET s
      | S0_SEND_KEY_SET_ACTION \<Rightarrow>
          (case s0_send_key_set env s of (r, s) \<Rightarrow>
             let s = (if r \<noteq> SL_STATUS_OK then process EV_S0_BOOTSTRAP_ABORT s else s)
             in case s0_key_read env (s0_out s) of Some key \<Rightarrow> s0_set_key env key s | None \<Rightarrow> process EV_S0_BOOTSTRAP_ABORT s)
      | S0_NET_KEY_VERIFY_RECEIVED_ACTION \<Rightarrow>
          (if s0_is_controller (sm s) = 0
           then process EV_S0_WAS_NOT_CONTROLLER (bootstrapping_complete KEY_CLASS_S0 KEX_FAIL_NONE s)
           else process EV_S0_SEND_SCHEME_INHERIT s)
      | S0_SEND_SCHEME_INHERIT_ACTION \<Rightarrow>
          (case s0_send_scheme_inherit env s of (r, s) \<Rightarrow> if r \<noteq> SL_STATUS_OK then process EV_S0_BOOTSTRAP_ABORT s else s)
      | S0_2SCHEME_REPORT_RECEIVED_ACTION \<Rightarrow>
          (if s0_is_controller (sm s) \<noteq> 0 then bootstrapping_complete KEY_CLASS_S0 KEX_FAIL_NONE s else s)
      | S0_BOOTSTRAP_ABORT_ACTION \<Rightarrow> s0_abort_bootstrap s
      | S0_NO_ACTION \<Rightarrow> reset_s0_sm s)"

lemma process_from_perform:
  "s0_sm_process_from env ev i s =
     (if i < length s0_transition_table
      then let t = s0_transition_table ! i in
        s0_sm_process_from env ev (i + 1)
          (if bootstrap_state (sm s) = st_state t \<and> ev = st_event t
           then s0_perform env (\<lambda>e. s0_sm_process_from env e 0) (st_action t) (with_sm (\<lambda>m. m\<lparr>bootstrap_state := st_new_state t\<rparr>) s)
           else s)
      else s)"
  by (subst s0_sm_process_from.simps) (simp add: s0_perform_def Let_def)

text \<open>
  What every action does, the state machine does: a relation between states that is reflexive and
  transitive and holds for the actions holds for the processing of an event.
\<close>

locale sm_relation =
  fixes env :: s0_env
    and R :: "s0 \<Rightarrow> s0 \<Rightarrow> bool"
  assumes R_refl: "R s s"
    and R_trans: "R s s' \<Longrightarrow> R s' s'' \<Longrightarrow> R s s''"
    and R_state: "R s (with_sm (\<lambda>m. m\<lparr>bootstrap_state := st\<rparr>) s)"
    and R_scheme_get: "R s (snd (s0_send_scheme_get env s))"
    and R_key_set: "R s (snd (s0_send_key_set env s))"
    and R_set_key: "R s (s0_set_key env key s)"
    and R_inherit: "R s (snd (s0_send_scheme_inherit env s))"
    and R_complete: "R s (bootstrapping_complete KEY_CLASS_S0 KEX_FAIL_NONE s)"
    and R_abort: "R s (s0_abort_bootstrap s)"
    and R_reset: "R s (reset_s0_sm s)"
begin

lemma perform:
  assumes "\<And>e w. event_rank e < event_rank ev \<Longrightarrow> R w (process e w)"
    and "i < length s0_transition_table" and "ev = st_event (s0_transition_table ! i)"
  shows "R w (s0_perform env process (st_action (s0_transition_table ! i)) w)"
proof -
  note a = action_event [OF assms(2)]
  have abort: "R w (process EV_S0_BOOTSTRAP_ABORT w)" if "0 < event_rank ev" for w using assms(1) that by simp
  show ?thesis
  proof (cases "st_action (s0_transition_table ! i)")
    case S0_SEND_SCHEME_GET_ACTION
    then show ?thesis using a assms(3) abort R_trans [OF R_scheme_get, of w] R_scheme_get [of w] by (auto simp: s0_perform_def split: prod.split)
  next
    case S0_SEND_KEY_SET_ACTION
    then have r: "0 < event_rank ev" using a assms(3) by simp
    let ?w = "snd (s0_send_key_set env w)"
    let ?u = "if fst (s0_send_key_set env w) \<noteq> SL_STATUS_OK then process EV_S0_BOOTSTRAP_ABORT ?w else ?w"
    have u: "R w ?u" using R_key_set [of w] R_trans [OF R_key_set abort [OF r]] by simp
    have p: "s0_perform env process S0_SEND_KEY_SET_ACTION w =
        (case s0_key_read env (s0_out ?u) of Some key \<Rightarrow> s0_set_key env key ?u | None \<Rightarrow> process EV_S0_BOOTSTRAP_ABORT ?u)"
      by (simp add: s0_perform_def case_prod_beta Let_def)
    show ?thesis
      unfolding S0_SEND_KEY_SET_ACTION p
      by (cases "s0_key_read env (s0_out ?u)") (simp_all only: option.case R_trans [OF u R_set_key] R_trans [OF u abort [OF r]])
  next
    case S0_NET_KEY_VERIFY_RECEIVED_ACTION
    then show ?thesis using a assms(1,3) R_trans [OF R_complete, of w] by (simp add: s0_perform_def)
  next
    case S0_SEND_SCHEME_INHERIT_ACTION
    then show ?thesis using a assms(3) abort R_trans [OF R_inherit, of w] R_inherit [of w] by (auto simp: s0_perform_def split: prod.split)
  qed (use a assms(1,3) R_refl R_complete R_abort R_reset in \<open>auto simp: s0_perform_def\<close>)
qed

lemma process_from: "R s (s0_sm_process_from env ev i s)"
proof (induction "event_rank ev" arbitrary: ev i s rule: less_induct)
  case less
  show ?case
  proof (induction "length s0_transition_table - i" arbitrary: i s rule: less_induct)
    case inner: less
    show ?case
    proof (cases "i < length s0_transition_table")
      case True
      let ?t = "s0_transition_table ! i"
      let ?w = "with_sm (\<lambda>m. m\<lparr>bootstrap_state := st_new_state ?t\<rparr>) s"
      let ?u = "if bootstrap_state (sm s) = st_state ?t \<and> ev = st_event ?t
        then s0_perform env (\<lambda>e. s0_sm_process_from env e 0) (st_action ?t) ?w else s"
      have "ev = st_event ?t \<Longrightarrow> R ?w (s0_perform env (\<lambda>e. s0_sm_process_from env e 0) (st_action ?t) ?w)"
        using less.hyps True by (intro perform [where ev = ev])
      then have "ev = st_event ?t \<Longrightarrow> R s (s0_perform env (\<lambda>e. s0_sm_process_from env e 0) (st_action ?t) ?w)" using R_trans [OF R_state] by blast
      then have "R s ?u" using R_refl by simp
      moreover have "R ?u (s0_sm_process_from env ev (i + 1) ?u)" using True by (intro inner.hyps) simp
      ultimately have "R s (s0_sm_process_from env ev (i + 1) ?u)" by (rule R_trans)
      then show ?thesis using True by (subst process_from_perform) (simp only: Let_def if_True)
    qed (subst process_from_perform, simp add: R_refl)
  qed
qed

lemma process_event: "R s (s0_sm_process_event env ev s)"
  unfolding s0_sm_process_event_def by (rule process_from)

end

section \<open>Interface\<close>

definition s0_bootstrap_timeout :: "s0_env \<Rightarrow> s0 \<Rightarrow> s0" where
  "s0_bootstrap_timeout env s = s0_sm_process_event env EV_S0_TIMEOUT s"

definition s0_send_data_callback :: "s0_env \<Rightarrow> u8 \<Rightarrow> s0 \<Rightarrow> s0" where
  "s0_send_data_callback env tx_status s =
     (if tx_status = TRANSMIT_COMPLETE_OK then with_sm (\<lambda>m. m\<lparr>bootstrap_timer := Some S0_INCLUSION_TIMER\<rparr>) s
      else if tx_status = TRANSMIT_COMPLETE_FAIL then s0_sm_process_event env EV_S0_BOOTSTRAP_ABORT s
      else s)"

definition s0_bootstrapping_start :: "s0_env \<Rightarrow> node_id \<Rightarrow> node_id \<Rightarrow> u8 \<Rightarrow> s0 \<Rightarrow> s0" where
  "s0_bootstrapping_start env local remote is_ctrl s =
     (if bootstrap_state (sm s) = S0_INC_IDLE
      then let s = reset_s0_sm s;
               s = with_sm (\<lambda>m. m\<lparr>bootstrap_conn := (bootstrap_conn m)\<lparr>local_node_id := local, remote_node_id := remote\<rparr>\<rparr>) s;
               s = s0_sm_process_event env EV_S0_BOOTSTRAPPING_START s
           in with_sm (\<lambda>m. m\<lparr>s0_is_controller := is_ctrl\<rparr>) s
      else s)"

definition s0_scheme_report_received :: "s0_env \<Rightarrow> u8 \<Rightarrow> node_id \<Rightarrow> s0 \<Rightarrow> s0" where
  "s0_scheme_report_received env schemes_byte from_node s =
     (if from_node = remote_node_id (bootstrap_conn (sm s)) \<and>
         (bootstrap_state (sm s) = S0_AWAITING_SCHEME_REPORT \<or> bootstrap_state (sm s) = S0_AWAITING_2SCHEME_REPORT)
      then s0_sm_process_event env EV_S0_SCHEME_REPORT_RECEIVED
             (with_sm (\<lambda>m. m\<lparr>bootstrap_timer := None, scheme_report := schemes_byte\<rparr>) s)
      else s)"

definition s0_network_key_verify_received :: "s0_env \<Rightarrow> node_id \<Rightarrow> s0 \<Rightarrow> s0" where
  "s0_network_key_verify_received env from_node s =
     (if from_node = remote_node_id (bootstrap_conn (sm s))
      then s0_sm_process_event env EV_S0_NET_KEY_VERIFY_RECEIVED (with_sm (\<lambda>m. m\<lparr>bootstrap_timer := None\<rparr>) s)
      else s)"

definition s0_set_callback :: "bool \<Rightarrow> s0 \<Rightarrow> s0" where
  "s0_set_callback cb s = s\<lparr>s0_on_bootstrapping_complete_callback := cb\<rparr>"

definition get_s0_sm_state :: "s0 \<Rightarrow> s0_bootstrap_state" where
  "get_s0_sm_state s = bootstrap_state (sm s)"

definition s0_bootstrapping_stop :: "s0 \<Rightarrow> s0" where
  "s0_bootstrapping_stop s = reset_s0_sm s"

end
