(* ===== verification/S0_Transport.thy ===== *)
theory S0_Transport
  imports S0_Bootstrap
begin

text \<open>
  The Security 0 transport, \<^verbatim>\<open>zwave_s0_transport.c\<close> and \<^verbatim>\<open>zwave_s0_network.c\<close>: transmissions that fetch
  a nonce, encrypt and send one or two frames; reception with its sessions; the command handler;
  and all inputs of the component as one step function. \<open>None\<close> stands for an access outside an
  array, a failed assertion, or a loop that never ends.
\<close>

abbreviation (input) SECURITY_COMMANDS_SUPPORTED_GET :: u8 where "SECURITY_COMMANDS_SUPPORTED_GET \<equiv> 0x02"
abbreviation (input) SECURITY_COMMANDS_SUPPORTED_REPORT :: u8 where "SECURITY_COMMANDS_SUPPORTED_REPORT \<equiv> 0x03"
abbreviation (input) SECURITY_NONCE_GET :: u8 where "SECURITY_NONCE_GET \<equiv> 0x40"
abbreviation (input) SECURITY_NONCE_REPORT :: u8 where "SECURITY_NONCE_REPORT \<equiv> 0x80"
abbreviation (input) SECURITY_MESSAGE_ENCAPSULATION :: u8 where "SECURITY_MESSAGE_ENCAPSULATION \<equiv> 0x81"
abbreviation (input) SECURITY_MESSAGE_ENCAPSULATION_NONCE_GET :: u8 where "SECURITY_MESSAGE_ENCAPSULATION_NONCE_GET \<equiv> 0xC1"
abbreviation (input) SEQUENCED_BIT_MASK :: u8 where "SEQUENCED_BIT_MASK \<equiv> 0x10"
abbreviation (input) SECOND_FRAME_BIT_MASK :: u8 where "SECOND_FRAME_BIT_MASK \<equiv> 0x20"
abbreviation (input) GET_ANSWER_PRIORITY :: u32 where "GET_ANSWER_PRIORITY \<equiv> 0x00FFFFFF"

section \<open>Transmission\<close>

definition tx_update :: "nat \<Rightarrow> (sec_tx_session \<Rightarrow> sec_tx_session) \<Rightarrow> s0 \<Rightarrow> s0" where
  "tx_update i f s = s\<lparr>tx_sessions := (tx_sessions s)[i := f (tx_sessions s ! i)]\<rparr>"

definition get_tx_session_by_node :: "u8 \<Rightarrow> u8 \<Rightarrow> s0 \<Rightarrow> nat option" where
  "get_tx_session_by_node src dst s =
     first_index (\<lambda>x. remote_node_id (conn_info x) = ucast dst \<and> local_node_id (conn_info x) = ucast src) (tx_sessions s)"

definition get_node_max_frame_size :: "s0_env \<Rightarrow> node_id \<Rightarrow> u8" where
  "get_node_max_frame_size env n = ucast (zwave_tx_scheme_get_max_payload (schemes env) n)"

text \<open>The frame that carries \<open>payload\<close>, with its flags, from \<open>here\<close> to \<open>remote\<close>.\<close>

definition s0_frame :: "s0_env \<Rightarrow> u8 list \<Rightarrow> u8 list \<Rightarrow> u8 list \<Rightarrow> u8 \<Rightarrow> u8 \<Rightarrow> u8 \<Rightarrow> u8 list \<Rightarrow> s0 \<Rightarrow> u8 list \<times> s0" where
  "s0_frame env ekey akey iv sh here remote payload s =
     (let s = aes_set_key_tpt ekey iv s;
          (enc_data, s) = aes_ofb env payload s;
          auth = [sh, here, remote, of_nat (length payload)];
          s = aes_set_key_tpt akey iv s;
          mac = aes_cbc_mac env (auth @ enc_data) s
      in ([COMMAND_CLASS_SECURITY, sh] @ take 8 iv @ enc_data @ [iv ! 8] @ take 8 mac, s))"

text \<open>Whether the data does not fit one frame, how much of it the next frame carries, and the flags and the command of that frame.\<close>

definition more_to_send :: "s0_env \<Rightarrow> sec_tx_session \<Rightarrow> bool" where
  "more_to_send env x \<longleftrightarrow> unat (data_len x) + S0_ENCAP_HEADER_LEN > unat (get_node_max_frame_size env (remote_node_id (conn_info x)))"

definition part_len :: "s0_env \<Rightarrow> sec_tx_session \<Rightarrow> u8" where
  "part_len env x =
     (if more_to_send env x then get_node_max_frame_size env (remote_node_id (conn_info x)) - of_nat S0_ENCAP_HEADER_LEN else data_len x)"

definition security_flags :: "s0_env \<Rightarrow> bool \<Rightarrow> sec_tx_session \<Rightarrow> u8" where
  "security_flags env pass2 x =
     (if pass2 then SEQUENCED_BIT_MASK OR SECOND_FRAME_BIT_MASK OR (seq x AND 0xF)
      else if more_to_send env x then SEQUENCED_BIT_MASK OR (seq x AND 0xF)
      else 0)"

definition security_header :: "s0_env \<Rightarrow> bool \<Rightarrow> sec_tx_session \<Rightarrow> u8" where
  "security_header env pass2 x =
     (if pass2 then SECURITY_MESSAGE_ENCAPSULATION
      else if more_to_send env x then SECURITY_MESSAGE_ENCAPSULATION_NONCE_GET else SECURITY_MESSAGE_ENCAPSULATION)"

definition s0_encrypt_message :: "s0_env \<Rightarrow> nat \<Rightarrow> bool \<Rightarrow> s0 \<Rightarrow> (u8 \<times> s0) option" where
  "s0_encrypt_message env i pass2 s =
     (let x = tx_sessions s ! i;
          here = ucast (local_node_id (conn_info x)) :: u8;
          remote = ucast (remote_node_id (conn_info x)) :: u8;
          len = part_len env x
      in if unat len + S0_ENCAP_HEADER_LEN > ZWAVE_MAX_FRAME_SIZE then None
         else do {
           (block, s) \<leftarrow> draw_nonce env remote here s;
           case get_s0_nonce remote here 0 True s of
             None \<Rightarrow> Some (0, s)
           | Some n \<Rightarrow> do {
               let iv = take 8 block @ n;
               let s = nonce_clear remote here s;
               let s = snd (register_nonce here remote True iv s);
               enc_data \<leftarrow> write_bytes (replicate (unat len + 1) (security_flags env pass2 x)) 1 (drop (data_pos x) (buf x)) (unat len);
               let (frame, s) = s0_frame env (if use_inclusion_key x then enckeyz s else enckey s)
                                  (if use_inclusion_key x then authkeyz s else authkey s) iv
                                  (security_header env pass2 x) here remote enc_data s;
               crypted \<leftarrow> write_bytes (crypted_msg x) 0 frame (unat len + S0_ENCAP_HEADER_LEN);
               let s = tx_update i (\<lambda>x. x\<lparr>crypted_msg := crypted, data_pos := data_pos x + unat len, data_len := data_len x - len\<rparr>) s;
               if pass2 \<and> data_len (tx_sessions s ! i) > 0 then Some (0, s)
               else Some (len + of_nat S0_ENCAP_HEADER_LEN, s)
             }
         })"

definition reset_tx_session_data :: "nat \<Rightarrow> s0 \<Rightarrow> s0" where
  "reset_tx_session_data i s =
     tx_update i (\<lambda>x. x\<lparr>conn_info := zero_connection, data_len := 0, use_inclusion_key := False, s_callback := 0, user := 0,
       tx_ext_status := 0, s_session_id := 0, tx_timer := None\<rparr>) s"

text \<open>The last state of a transmission, and a failed transmission. Every other state ends in it at most once.\<close>

definition tx_done :: "nat \<Rightarrow> s0 \<Rightarrow> s0" where
  "tx_done i s =
     (let s = tx_update i (\<lambda>x. x\<lparr>tx_st := TX_DONE\<rparr>) s;
          x = tx_sessions s ! i;
          s = (if s_callback x \<noteq> 0 then s0_emit (Send_complete (s_callback x) (tx_code x) (tx_ext_status x) (s_session_id x)) s else s)
      in reset_tx_session_data i s)"

definition tx_failed :: "nat \<Rightarrow> s0 \<Rightarrow> s0" where
  "tx_failed i s = tx_done i (tx_update i (\<lambda>x. x\<lparr>tx_code := TRANSMIT_COMPLETE_FAIL\<rparr>) s)"

definition start_tx_timer :: "nat \<Rightarrow> s0 \<Rightarrow> s0" where
  "start_tx_timer i s = tx_update i (\<lambda>x. x\<lparr>tx_timer := Some NONCE_REQUEST_TIMER\<rparr>) s"

definition session_options :: "u8 \<Rightarrow> sec_tx_session \<Rightarrow> tx_options" where
  "session_options responses x =
     zero_options\<lparr>number_of_responses := responses, discard_timeout_ms := of_nat NONCE_REQUEST_TIMER, qos_priority := GET_ANSWER_PRIORITY,
       valid_parent_session_id := True, parent_session_id := s_session_id x\<rparr>"

definition session_connection :: "sec_tx_session \<Rightarrow> connection_info" where
  "session_connection x =
     zero_connection\<lparr>local_node_id := local_node_id (conn_info x), remote_node_id := remote_node_id (conn_info x), encapsulation := SCHEME_NONE\<rparr>"

definition session_send :: "s0_env \<Rightarrow> nat \<Rightarrow> u8 list \<Rightarrow> u8 \<Rightarrow> s0 \<Rightarrow> s0" where
  "session_send env i frame responses s =
     (let x = tx_sessions s ! i in
      case zwave_tx_send_data env (session_connection x) frame (session_options responses x) (Session_callback i) s of
        (r, s) \<Rightarrow> if r \<noteq> SL_STATUS_OK then tx_failed i s else start_tx_timer i s)"

definition encrypt_and_send :: "s0_env \<Rightarrow> nat \<Rightarrow> bool \<Rightarrow> s0 \<Rightarrow> s0 option" where
  "encrypt_and_send env i pass2 s =
     do {
       let s = tx_update i (\<lambda>x. x\<lparr>tx_timer := None\<rparr>) s;
       (len, s) \<leftarrow> s0_encrypt_message env i pass2 s;
       let x = tx_sessions s ! i;
       if len = 0 then Some (tx_failed i s)
       else Some (session_send env i (take (unat len) (crypted_msg x)) (if \<not> pass2 \<and> data_len x > 0 then 1 else 0) s)
     }"

definition tx_session_state_set :: "s0_env \<Rightarrow> nat \<Rightarrow> tx_state \<Rightarrow> s0 \<Rightarrow> s0 option" where
  "tx_session_state_set env i st s =
     (let s = tx_update i (\<lambda>x. x\<lparr>tx_st := st\<rparr>) s in
      case st of
        NONCE_GET \<Rightarrow> Some (session_send env i [COMMAND_CLASS_SECURITY, SECURITY_NONCE_GET] 1 s)
      | NONCE_GET_SENT \<Rightarrow> Some (start_tx_timer i s)
      | ENC_MSG \<Rightarrow> encrypt_and_send env i False s
      | ENC_MSG_SENT \<Rightarrow> Some (if data_len (tx_sessions s ! i) > 0 then start_tx_timer i s else tx_done i s)
      | ENC_MSG2 \<Rightarrow> encrypt_and_send env i True s
      | ENC_MSG2_SENT \<Rightarrow> Some (if data_len (tx_sessions s ! i) > 0 then tx_failed i s else tx_done i s)
      | TX_DONE \<Rightarrow> Some (tx_done i s))"

definition s0_timeout :: "s0_env \<Rightarrow> nat \<Rightarrow> s0 \<Rightarrow> s0 option" where
  "s0_timeout env i s = tx_session_state_set env i TX_DONE (tx_update i (\<lambda>x. x\<lparr>tx_code := TRANSMIT_COMPLETE_FAIL\<rparr>) s)"

definition session_callback :: "s0_env \<Rightarrow> u8 \<Rightarrow> nat \<Rightarrow> nat \<Rightarrow> s0 \<Rightarrow> s0 option" where
  "session_callback env tx_status tx_info i s =
     (let s = tx_update i (\<lambda>x. x\<lparr>tx_code := tx_status, tx_ext_status := (if tx_info \<noteq> 0 then tx_info else tx_ext_status x)\<rparr>) s in
      if \<not> IS_TRANSMISSION_SUCCESSFUL tx_status then tx_session_state_set env i TX_DONE s
      else case tx_st (tx_sessions s ! i) of
             ENC_MSG \<Rightarrow> tx_session_state_set env i ENC_MSG_SENT s
           | ENC_MSG2 \<Rightarrow> tx_session_state_set env i ENC_MSG2_SENT s
           | NONCE_GET \<Rightarrow> tx_session_state_set env i NONCE_GET_SENT s
           | _ \<Rightarrow> Some s)"

definition get_seq :: "s0 \<Rightarrow> u8 \<times> s0" where
  "get_seq s = (let n = last_seq s + 1 in (n, s\<lparr>last_seq := n\<rparr>))"

definition zwave_s0_send_data :: "s0_env \<Rightarrow> tx_request \<Rightarrow> s0 \<Rightarrow> (sl_status \<times> s0) option" where
  "zwave_s0_send_data env r s =
     (let c = tx_connection r; data_length = of_nat (length (tx_data r)) :: u8 in
      if encapsulation c \<noteq> SECURITY_0 then Some (SL_STATUS_NOT_SUPPORTED, s)
      else if remote_is_multicast c
      then Some (SL_STATUS_OK, if tx_on_send_complete r \<noteq> 0 then s0_emit (Send_complete (tx_on_send_complete r) TRANSMIT_COMPLETE_OK 0 (tx_user r)) s else s)
      else if get_tx_session_by_node (ucast (local_node_id c)) (ucast (remote_node_id c)) s \<noteq> None then Some (SL_STATUS_BUSY, s)
      else case first_index (\<lambda>x. remote_node_id (conn_info x) = 0) (tx_sessions s) of
             None \<Rightarrow> Some (SL_STATUS_BUSY, s)
           | Some i \<Rightarrow> do {
               b \<leftarrow> write_bytes (buf (tx_sessions s ! i)) 0 (tx_data r) (unat data_length);
               let (n, s) = get_seq s;
               let s = tx_update i (\<lambda>x. x\<lparr>s_session_id := tx_parent_session r, conn_info := c, buf := b, data_pos := 0, data_len := data_length,
                         use_inclusion_key := (data_length \<ge> 2 \<and> b ! 0 = COMMAND_CLASS_SECURITY \<and> b ! 1 = NETWORK_KEY_SET),
                         s_callback := tx_on_send_complete r, user := tx_user r, seq := n\<rparr>) s;
               s \<leftarrow> tx_session_state_set env i NONCE_GET s;
               Some (SL_STATUS_OK, s)
             })"

definition s0_register_nonce :: "s0_env \<Rightarrow> u8 \<Rightarrow> u8 \<Rightarrow> u8 list \<Rightarrow> s0 \<Rightarrow> s0 option" where
  "s0_register_nonce env src dst n s =
     (if s0_is_nonce_blocked src dst n s then Some s
      else case get_tx_session_by_node dst src s of
             None \<Rightarrow> Some s
           | Some i \<Rightarrow>
               let s = snd (register_nonce src dst False n s);
                   s = s0_block_nonce src dst n s;
                   x = tx_sessions s ! i
               in if tx_st x = NONCE_GET_SENT \<or> tx_st x = NONCE_GET then tx_session_state_set env i ENC_MSG s
                  else if tx_st x = ENC_MSG_SENT \<or> (tx_st x = ENC_MSG \<and> data_len x > 0) then tx_session_state_set env i ENC_MSG2 s
                  else Some s)"

section \<open>Reception\<close>

definition is_free :: "s0 \<Rightarrow> rx_session \<Rightarrow> bool" where
  "is_free s e \<longleftrightarrow> rx_st e = RX_SESSION_DONE \<or> rx_timeout e < s0_clock s"

definition rx_update :: "nat \<Rightarrow> (rx_session \<Rightarrow> rx_session) \<Rightarrow> s0 \<Rightarrow> s0" where
  "rx_update j f s = s\<lparr>rxsessions := (rxsessions s)[j := f (rxsessions s ! j)]\<rparr>"

definition new_rx_session :: "u8 \<Rightarrow> u8 \<Rightarrow> s0 \<Rightarrow> (nat \<times> s0) option" where
  "new_rx_session src dst s =
     map_option (\<lambda>j. (j, rx_update j (\<lambda>e. e\<lparr>snode := src, dnode := dst, rx_timeout := s0_clock s + 10000\<rparr>) s))
       (first_index (is_free s) (rxsessions s))"

definition free_rx_session :: "nat \<Rightarrow> s0 \<Rightarrow> s0" where
  "free_rx_session j s = rx_update j (\<lambda>e. e\<lparr>rx_st := RX_SESSION_DONE\<rparr>) s"

definition get_rx_session_by_nodes :: "u8 \<Rightarrow> u8 \<Rightarrow> s0 \<Rightarrow> nat option" where
  "get_rx_session_by_nodes src dst s =
     first_index (\<lambda>e. \<not> is_free s e \<and> dnode e = dst \<and> snode e = src) (rxsessions s)"

definition s0_send_nonce :: "s0_env \<Rightarrow> connection_info \<Rightarrow> s0 \<Rightarrow> s0 option" where
  "s0_send_nonce env c s =
     do {
       let here = ucast (local_node_id c);
       let remote = ucast (remote_node_id c);
       (block, s) \<leftarrow> draw_nonce env here remote s;
       let n = take 8 block;
       let options = zero_options\<lparr>number_of_responses := 1, discard_timeout_ms := 20000, qos_priority := GET_ANSWER_PRIORITY\<rparr>;
       let (r, s) = zwave_tx_send_data env (c\<lparr>encapsulation := NETWORK_SCHEME\<rparr>)
                      ([COMMAND_CLASS_SECURITY, SECURITY_NONCE_REPORT] @ n) options No_tx_callback s;
       Some (if r = SL_STATUS_OK then snd (register_nonce here remote False n s) else s)
     }"

text \<open>The session of a received frame: the open one between the nodes, or a new one.\<close>

definition rx_session_for :: "u8 \<Rightarrow> u8 \<Rightarrow> s0 \<Rightarrow> (nat \<times> s0) option" where
  "rx_session_for src dst s =
     (case get_rx_session_by_nodes src dst s of
        Some j \<Rightarrow> Some (j, s)
      | None \<Rightarrow> map_option (\<lambda>(j, s). (j, rx_update j (\<lambda>e. e\<lparr>rx_st := RX_INIT\<rparr>) s)) (new_rx_session src dst s))"

text \<open>What a frame that was authenticated and decrypted does to its session; \<open>[]\<close> when there is nothing to hand on.\<close>

definition rx_payload :: "nat \<Rightarrow> u8 list \<Rightarrow> s0 \<Rightarrow> (u8 list \<times> s0) option" where
  "rx_payload j payload s =
     (let props = payload ! 0; content = drop 1 payload; e = rxsessions s ! j in
      if props AND SEQUENCED_BIT_MASK \<noteq> 0
      then if props AND SECOND_FRAME_BIT_MASK = 0
        then do {
          m \<leftarrow> write_bytes (msg e) 0 content (length content);
          Some ([], rx_update j (\<lambda>e. e\<lparr>seq_nr := props AND 0xF, msg_len := of_nat (length content), rx_st := RX_ENC1, msg := m\<rparr>) s)
        }
        else if rx_st e \<noteq> RX_ENC1 \<or> props AND 0xF \<noteq> seq_nr e then Some ([], s)
        else if unat (msg_len e) + length content > MAX_ENCRYPTED_MSG_SIZE then None
        else Some (take (unat (msg_len e)) (msg e) @ content, free_rx_session j (rx_update j (\<lambda>e. e\<lparr>rx_st := RX_ENC2\<rparr>) s))
      else if length content > MAX_ENCRYPTED_MSG_SIZE then None
      else Some (content, free_rx_session j s))"

definition s0_decrypt_message :: "s0_env \<Rightarrow> connection_info \<Rightarrow> u8 list \<Rightarrow> u16 \<Rightarrow> s0 \<Rightarrow> (u8 list \<times> s0) option" where
  "s0_decrypt_message env c encrypted_frame encrypted_frame_len s =
     (let n = unat (encrypted_frame_len AND 0xff);
          here = ucast (local_node_id c) :: u8;
          remote = ucast (remote_node_id c) :: u8
      in if n > ZWAVE_MAX_FRAME_SIZE \<or> n > length encrypted_frame then None
         else if n < S0_ENCAP_HEADER_LEN then Some ([], s)
         else if n - S0_ENCAP_HEADER_LEN > MAX_ENCRYPTED_MSG_SIZE then Some ([], s)
         else let frame = take n encrypted_frame in
           case get_s0_nonce here remote (frame ! (n - 9)) False s of
             None \<Rightarrow> Some ([], s)
           | Some rn \<Rightarrow>
               let iv = take 8 (drop 2 frame) @ rn;
                   s = nonce_clear here remote s
               in case rx_session_for remote here s of
                    None \<Rightarrow> Some ([], s)
                  | Some (j, s) \<Rightarrow>
                      if rx_st (rxsessions s ! j) \<noteq> RX_INIT \<and>
                         unat (msg_len (rxsessions s ! j)) + n - S0_ENCAP_HEADER_LEN > MAX_ENCRYPTED_MSG_SIZE
                      then Some ([], s)
                      else do {
                        let enc_payload = take (n - 19) (drop 10 frame);
                        auth_buff \<leftarrow> write_bytes (replicate 152 0) 4 enc_payload (n - 19);
                        auth_buff \<leftarrow> write_bytes auth_buff 0 [frame ! 1, remote, here, of_nat (n - 19)] 4;
                        let s = aes_set_key_tpt (authkey s) iv s;
                        let mac = aes_cbc_mac env (take (4 + (n - 19)) auth_buff) s;
                        if take 8 mac \<noteq> drop (n - 8) frame then Some ([], s)
                        else do {
                          let s = aes_set_key_tpt (enckey s) iv s;
                          let (payload, s) = aes_ofb env enc_payload s;
                          rx_payload j payload s
                        }
                      })"

definition s0_application_command_handler :: "s0_env \<Rightarrow> connection_info \<Rightarrow> u8 list \<Rightarrow> u16 \<Rightarrow> s0 \<Rightarrow> (sl_status \<times> s0) option" where
  "s0_application_command_handler env c frame_data frame_length s =
     (if unat frame_length > ZWAVE_MAX_FRAME_SIZE then Some (SL_STATUS_WOULD_OVERFLOW, s)
      else do {
        command_class \<leftarrow> read_cell frame_data 0;
        if command_class \<noteq> COMMAND_CLASS_SECURITY then Some (SL_STATUS_NOT_FOUND, s)
        else do {
          encrypted_frame_data \<leftarrow> write_bytes (replicate ZWAVE_MAX_FRAME_SIZE 0) 0 frame_data (unat frame_length);
          command \<leftarrow> read_cell frame_data 1;
          if command = SECURITY_SCHEME_REPORT
          then if frame_length \<ge> 3
            then Some (SL_STATUS_OK, s0_scheme_report_received env (frame_data ! 2) (remote_node_id c) s)
            else Some (SL_STATUS_OK, s)
          else if command = NETWORK_KEY_VERIFY
          then Some (SL_STATUS_OK, s0_network_key_verify_received env (remote_node_id c) s)
          else if command = SECURITY_NONCE_GET
          then if encapsulation c = SCHEME_NONE
            then do { s \<leftarrow> s0_send_nonce env c s; Some (SL_STATUS_OK, s) }
            else Some (SL_STATUS_OK, s)
          else if command = SECURITY_NONCE_REPORT
          then if encapsulation c = SCHEME_NONE \<and> frame_length \<ge> 10
            then do {
              s \<leftarrow> s0_register_nonce env (ucast (remote_node_id c)) (ucast (local_node_id c)) (take 8 (drop 2 frame_data)) s;
              Some (SL_STATUS_OK, s)
            }
            else Some (SL_STATUS_OK, s)
          else if command = SECURITY_COMMANDS_SUPPORTED_GET
          then if local_is_multicast c then Some (SL_STATUS_OK, s)
            else if encapsulation c = SCHEME_NONE then Some (SL_STATUS_NOT_SUPPORTED, s)
            else if zwave_controller_get_highest_encapsulation
                      (zwave_tx_scheme_get_zpc_granted_keys (schemes env) (uninit_supporting_keys env)) = SECURITY_0
            then Some (SL_STATUS_NOT_SUPPORTED, s)
            else Some (SL_STATUS_OK, snd (zwave_tx_send_data env (c\<lparr>encapsulation := SECURITY_0\<rparr>)
                         [COMMAND_CLASS_SECURITY, SECURITY_COMMANDS_SUPPORTED_REPORT, 0] zero_options No_tx_callback s))
          else if command = SECURITY_MESSAGE_ENCAPSULATION_NONCE_GET \<or> command = SECURITY_MESSAGE_ENCAPSULATION
          then do {
            (decrypted, s) \<leftarrow> s0_decrypt_message env c encrypted_frame_data frame_length s;
            Some (if decrypted \<noteq> [] then (SL_STATUS_OK, s0_emit (On_frame_received (c\<lparr>encapsulation := SECURITY_0\<rparr>) decrypted) s)
                  else (SL_STATUS_FAIL, s))
          }
          else Some (SL_STATUS_NOT_FOUND, s)
        }
      })"

definition zwave_s0_on_frame_received :: "s0_env \<Rightarrow> connection_info \<Rightarrow> u8 list \<Rightarrow> s0 \<Rightarrow> (sl_status \<times> s0) option" where
  "zwave_s0_on_frame_received env c frame s = s0_application_command_handler env c frame (of_nat (length frame)) s"

section \<open>Start, stop and the network\<close>

definition s0_abort_all_tx_sessions :: "s0 \<Rightarrow> s0" where
  "s0_abort_all_tx_sessions s =
     fold (\<lambda>i s. if remote_node_id (conn_info (tx_sessions s ! i)) \<noteq> 0 then tx_failed i s else s) [0..<NUM_TX_SESSIONS] s"

definition free_all_rx_session :: "s0 \<Rightarrow> s0" where
  "free_all_rx_session s = fold free_rx_session [0..<MAX_RXSESSIONS] s"

definition zero_tx_session :: sec_tx_session where
  "zero_tx_session = \<lparr>conn_info = zero_connection, buf = replicate 256 0, data_pos = 0, data_len = 0, tx_st = NONCE_GET, tx_code = 0,
     tx_timer = None, crypted_msg = replicate 158 0, seq = 0, use_inclusion_key = False, user = 0, s_callback = 0,
     tx_ext_status = 0, s_session_id = 0\<rparr>"

definition free_all_tx_sessions :: "s0 \<Rightarrow> s0" where
  "free_all_tx_sessions s = s\<lparr>tx_sessions := replicate NUM_TX_SESSIONS zero_tx_session\<rparr>"

definition zero_nonce_block :: nonce_block where
  "zero_nonce_block = \<lparr>b_nonce = replicate 8 0, b_src = 0, b_dst = 0, in_use = False\<rparr>"

definition free_nonce_block_list :: "s0 \<Rightarrow> s0" where
  "free_nonce_block_list s = s\<lparr>nonce_block_list := replicate NONCE_BLOCK_LIST_SIZE zero_nonce_block\<rparr>"

definition reset_block_next_elem :: "s0 \<Rightarrow> s0" where
  "reset_block_next_elem s = s\<lparr>block_next_elem := 0\<rparr>"

definition reset_s0_timers :: "s0 \<Rightarrow> s0" where
  "reset_s0_timers s = s\<lparr>nonce_timer := Some 1000\<rparr>"

definition zwave_s0_on_abort_send_data :: "s0_env \<Rightarrow> nat \<Rightarrow> s0 \<Rightarrow> (sl_status \<times> s0) option" where
  "zwave_s0_on_abort_send_data env sid s =
     (case first_index (\<lambda>x. s_session_id x = sid) (tx_sessions s) of
        None \<Rightarrow> Some (SL_STATUS_NOT_FOUND, s)
      | Some i \<Rightarrow> do {
          s \<leftarrow> session_callback env TRANSMIT_COMPLETE_FAIL (tx_ext_status (tx_sessions s ! i)) i s;
          Some (SL_STATUS_OK, s)
        })"

definition zwave_s0_start_bootstrapping :: "s0_env \<Rightarrow> node_id \<Rightarrow> u8 \<Rightarrow> s0 \<Rightarrow> s0" where
  "zwave_s0_start_bootstrapping env node is_ctrl s = s0_bootstrapping_start env (zpc_node_id (schemes env)) node is_ctrl s"

definition zwave_s0_network_init :: "s0_env \<Rightarrow> s0 \<Rightarrow> sl_status \<times> s0" where
  "zwave_s0_network_init env s =
     (let s = s0_abort_all_tx_sessions s;
          s = free_all_rx_session s;
          s = free_all_tx_sessions s;
          s = free_nonce_block_list s;
          s = reset_block_next_elem s;
          s = reset_s0_timers s
      in case s0_key_read env (s0_out s) of
           None \<Rightarrow> (SL_STATUS_OK, s)
         | Some key \<Rightarrow> (SL_STATUS_OK, s0_set_key env key s))"

definition s0_on_new_network :: "s0_env \<Rightarrow> s0 \<Rightarrow> s0" where
  "s0_on_new_network env s = snd (zwave_s0_network_init env s)"

definition zwave_s0_set_network_callbacks :: "bool \<Rightarrow> s0 \<Rightarrow> s0" where
  "zwave_s0_set_network_callbacks cb s = s0_set_callback cb s"

definition zwave_s0_stop_bootstrapping :: "s0 \<Rightarrow> s0" where
  "zwave_s0_stop_bootstrapping s = s0_bootstrapping_stop s"

text \<open>The functions that the transport registers; a state \<open>None\<close> has no successor.\<close>

definition s0_transport :: "s0_env \<Rightarrow> s0 option transport" where
  "s0_transport env =
     \<lparr>priority = 3, transport_class = 0x98, version = 1,
      send_data = Some (\<lambda>r s. case Option.bind s (zwave_s0_send_data env r) of Some (rc, s) \<Rightarrow> (rc, Some s) | None \<Rightarrow> (SL_STATUS_FAIL, None)),
      abort_send_data = Some (\<lambda>sid s. case Option.bind s (zwave_s0_on_abort_send_data env sid) of Some (rc, s) \<Rightarrow> (rc, Some s) | None \<Rightarrow> (SL_STATUS_FAIL, None)),
      transport_on_frame_received = Some (\<lambda>c frame s. case Option.bind s (zwave_s0_on_frame_received env c frame) of Some (rc, s) \<Rightarrow> (rc, Some s) | None \<Rightarrow> (SL_STATUS_FAIL, None)),
      is_busy = None\<rparr>"

definition zwave_s0_transport_init :: "s0_env \<Rightarrow> s0 option transport list \<Rightarrow> s0 \<Rightarrow> sl_status \<times> s0 option transport list \<times> s0" where
  "zwave_s0_transport_init env ts s =
     (case zwave_s0_network_init env s of
        (r, s) \<Rightarrow> if r \<noteq> SL_STATUS_OK then (SL_STATUS_FAIL, ts, s)
                  else case zwave_controller_transport_register (s0_transport env) ts of (r, ts) \<Rightarrow> (r, ts, s))"

section \<open>Inputs\<close>

text \<open>The static variables before the program starts.\<close>

definition zero_nonce :: nonce where
  "zero_nonce = \<lparr>n_src = 0, n_dst = 0, n_timeout = 0, reply_nonce = False, n_bytes = replicate 8 0\<rparr>"

definition zero_rx_session :: rx_session where
  "zero_rx_session = \<lparr>snode = 0, dnode = 0, rx_st = RX_INIT, seq_nr = 0, msg = replicate 128 0, msg_len = 0, rx_timeout = 0\<rparr>"

definition s0_boot :: s0 where
  "s0_boot = \<lparr>tx_sessions = replicate NUM_TX_SESSIONS zero_tx_session, nonce_block_list = replicate NONCE_BLOCK_LIST_SIZE zero_nonce_block,
     block_next_elem = 0, aes_key = replicate 16 0, aes_iv = replicate 16 0, nonce_table = replicate NONCE_TABLE_SIZE zero_nonce,
     nonce_timer = None, enckey = replicate 16 0, authkey = replicate 16 0, enckeyz = replicate 16 0, authkeyz = replicate 16 0,
     last_seq = 0, rxsessions = replicate MAX_RXSESSIONS zero_rx_session, s0_clock = 0, sm = zero_sm,
     s0_on_bootstrapping_complete_callback = False, drbg = 0, s0_out = []\<rparr>"

definition s0_start :: "s0_env \<Rightarrow> s0" where
  "s0_start env = snd (zwave_s0_network_init env s0_boot)"

datatype s0_input =
  S0_send tx_request
| S0_frame connection_info "u8 list"
| S0_sent nat u8 nat
| S0_bootstrap_sent u8
| S0_abort nat
| S0_session_timer nat
| S0_nonce_timer
| S0_bootstrap_timer
| S0_new_network
| S0_bootstrap node_id u8
| S0_stop_bootstrapping
| S0_set_callback bool
| S0_time u64

definition s0_step :: "s0_env \<Rightarrow> s0_input \<Rightarrow> s0 \<Rightarrow> s0 option" where
  "s0_step env i s =
     (case i of
        S0_send r \<Rightarrow> map_option snd (zwave_s0_send_data env r s)
      | S0_frame c frame \<Rightarrow> map_option snd (zwave_s0_on_frame_received env c frame s)
      | S0_sent k tx_status tx_info \<Rightarrow> if k < NUM_TX_SESSIONS then session_callback env tx_status tx_info k s else Some s
      | S0_bootstrap_sent tx_status \<Rightarrow> Some (s0_send_data_callback env tx_status s)
      | S0_abort sid \<Rightarrow> map_option snd (zwave_s0_on_abort_send_data env sid s)
      | S0_session_timer k \<Rightarrow>
          if k < NUM_TX_SESSIONS \<and> tx_timer (tx_sessions s ! k) \<noteq> None
          then s0_timeout env k (tx_update k (\<lambda>x. x\<lparr>tx_timer := None\<rparr>) s) else Some s
      | S0_nonce_timer \<Rightarrow> Some (if nonce_timer s \<noteq> None then nonce_timer_timeout (s\<lparr>nonce_timer := None\<rparr>) else s)
      | S0_bootstrap_timer \<Rightarrow>
          Some (if bootstrap_timer (sm s) \<noteq> None
                then s0_bootstrap_timeout env (with_sm (\<lambda>m. m\<lparr>bootstrap_timer := None\<rparr>) s) else s)
      | S0_new_network \<Rightarrow> Some (s0_on_new_network env s)
      | S0_bootstrap node is_ctrl \<Rightarrow> Some (zwave_s0_start_bootstrapping env node is_ctrl s)
      | S0_stop_bootstrapping \<Rightarrow> Some (zwave_s0_stop_bootstrapping s)
      | S0_set_callback cb \<Rightarrow> Some (zwave_s0_set_network_callbacks cb s)
      | S0_time t \<Rightarrow> Some (s\<lparr>s0_clock := t\<rparr>))"

fun s0_run :: "s0_env \<Rightarrow> s0_input list \<Rightarrow> s0 \<Rightarrow> s0 option" where
  "s0_run env [] s = Some s"
| "s0_run env (i # is) s = Option.bind (s0_step env i s) (s0_run env is)"

end
