(* ===== verification/S0_Cipher.thy ===== *)
theory S0_Cipher
  imports S0_Transport
begin

text \<open>
  The cipher modes of Security 0 are the standard ones: \<open>aes_ofb\<close> adds the key stream of output
  feedback mode, and \<open>aes_cbc_mac\<close> chains the blocks of the zero-padded message. Both depend on the
  key and the initialisation vector alone.
\<close>

section \<open>Output feedback\<close>

definition ofb_stream :: "(u8 list \<Rightarrow> u8 list) \<Rightarrow> u8 list \<Rightarrow> nat \<Rightarrow> u8" where
  "ofb_stream E iv i = (E ^^ (i div 16 + 1)) iv ! (i mod 16)"

definition ofb :: "s0_env \<Rightarrow> u8 list \<Rightarrow> u8 list \<Rightarrow> u8 list \<Rightarrow> u8 list" where
  "ofb env key iv bytes = map (\<lambda>i. bytes ! i XOR ofb_stream (\<lambda>b. aes_128 env b key) iv i) [0..<length bytes]"

lemma blocks_started: "(i + 15) div 16 = (if i mod 16 = 0 then i div 16 else i div 16 + 1 :: nat)"
proof -
  have "(i + 15) div 16 = i div 16 + (i mod 16 + 15) div 16" using div_add1_eq [of i 15 16] by simp
  moreover have "(r + 15) div 16 = 1" if "0 < r" "r < 16" for r :: nat
    using div_add_self2 [of 16 "r - 1"] that by simp
  ultimately show ?thesis by simp
qed

lemma aes_ofb_loop_spec:
  assumes "aes_iv s = ((\<lambda>b. aes_128 env b (aes_key s)) ^^ ((i + 15) div 16)) iv"
  shows "fst (aes_ofb_loop env i ds s) =
      map (\<lambda>k. ds ! k XOR ofb_stream (\<lambda>b. aes_128 env b (aes_key s)) iv (i + k)) [0..<length ds] \<and>
    (\<exists>v. snd (aes_ofb_loop env i ds s) = s\<lparr>aes_iv := v\<rparr>)"
  using assms
proof (induction ds arbitrary: i s)
  case Nil
  then show ?case by (auto intro: exI [of _ "aes_iv s"])
next
  case (Cons d ds)
  let ?E = "\<lambda>b. aes_128 env b (aes_key s)"
  let ?s = "if i mod 16 = 0 then s\<lparr>aes_iv := aes_encrypt env (aes_iv s) s\<rparr> else s"
  have iv: "aes_iv ?s = (?E ^^ (i div 16 + 1)) iv"
    using Cons.prems by (simp add: blocks_started aes_encrypt_def)
  have k: "aes_key ?s = aes_key s" by simp
  have "(i + 1 + 15) div 16 = i div 16 + 1" using div_add_self2 [of 16 i] by simp
  then have "aes_iv ?s = ((\<lambda>b. aes_128 env b (aes_key ?s)) ^^ ((i + 1 + 15) div 16)) iv" using iv k by simp
  note ih = Cons.IH [OF this]
  have "map (\<lambda>k. (d # ds) ! k XOR ofb_stream ?E iv (i + k)) [0..<length (d # ds)] =
      (d XOR aes_iv ?s ! (i mod 16)) # map (\<lambda>k. ds ! k XOR ofb_stream ?E iv (i + 1 + k)) [0..<length ds]"
    by (simp add: map_upt_Suc iv ofb_stream_def del: upt_Suc)
  moreover obtain v where "snd (aes_ofb_loop env (i + 1) ds ?s) = ?s\<lparr>aes_iv := v\<rparr>" using ih by blast
  then have "snd (aes_ofb_loop env (i + 1) ds ?s) = s\<lparr>aes_iv := v\<rparr>" by (simp split: if_splits)
  ultimately show ?case using ih k by (auto simp: Let_def case_prod_beta simp del: upt_Suc)
qed

lemma aes_ofb_eq: "fst (aes_ofb env bytes s) = ofb env (aes_key s) (aes_iv s) bytes"
  and aes_ofb_state: "\<exists>v. snd (aes_ofb env bytes s) = s\<lparr>aes_iv := v\<rparr>"
  using aes_ofb_loop_spec [where s = s and env = env and i = 0 and iv = "aes_iv s" and ds = bytes] by (simp_all add: aes_ofb_def ofb_def)

lemma length_ofb [simp]: "length (ofb env key iv bytes) = length bytes"
  by (simp add: ofb_def)

lemma ofb_ofb [simp]: "ofb env key iv (ofb env key iv bytes) = bytes"
  by (rule nth_equalityI) (simp_all add: ofb_def xor.assoc)

section \<open>The authentication code\<close>

definition xor_block :: "u8 list \<Rightarrow> u8 list \<Rightarrow> u8 list" where
  "xor_block m b = map (\<lambda>i. if i < length b then m ! i XOR b ! i else m ! i) [0..<length m]"

function cbc_chain :: "(u8 list \<Rightarrow> u8 list) \<Rightarrow> u8 list \<Rightarrow> u8 list \<Rightarrow> u8 list" where
  "cbc_chain E m bytes = (if bytes = [] then m else cbc_chain E (E (xor_block m (take 16 bytes))) (drop 16 bytes))"
  by pat_completeness auto
termination by (relation "measure (\<lambda>(E, m, bytes). length bytes)") auto

declare cbc_chain.simps [simp del]

definition cbc_mac :: "s0_env \<Rightarrow> u8 list \<Rightarrow> u8 list \<Rightarrow> u8 list \<Rightarrow> u8 list" where
  "cbc_mac env key iv bytes = (let E = (\<lambda>b. aes_128 env b key) in cbc_chain E (E iv) bytes)"

definition xor_at :: "nat \<Rightarrow> u8 list \<Rightarrow> u8 list \<Rightarrow> u8 list" where
  "xor_at k m b = map (\<lambda>i. if k \<le> i \<and> i < k + length b then m ! i XOR b ! (i - k) else m ! i) [0..<length m]"

lemma xor_at_simps: "xor_at k m [] = m" "k < length m \<Longrightarrow> xor_at k m (d # ds) = xor_at (k + 1) (m[k := m ! k XOR d]) ds"
  by (rule nth_equalityI; auto simp: xor_at_def nth_Cons' nth_list_update)+

lemma xor_at_0: "xor_at 0 m b = xor_block m b"
  by (simp add: xor_at_def xor_block_def)

lemma cbc_mac_loop_within:
  assumes "i mod 16 = k" and "k + length b < 16" and "length m = 16"
  shows "cbc_mac_loop env s i b m = xor_at k m b"
  using assms
proof (induction b arbitrary: i k m)
  case (Cons d b)
  have "(i + 1) mod 16 = k + 1" using Cons.prems(1,2) by (simp add: mod_Suc)
  then show ?case using Cons.IH [of "i + 1" "k + 1" "m[k := m ! k XOR d]"] Cons.prems by (simp add: xor_at_simps)
qed (simp add: xor_at_simps)

lemma cbc_mac_loop_block:
  assumes "i mod 16 = k" and "k + length b = 16" and "b \<noteq> []" and "length m = 16"
  shows "cbc_mac_loop env s i (b @ ds) m = cbc_mac_loop env s (i + length b) ds (aes_encrypt env (xor_at k m b) s)"
  using assms
proof (induction b arbitrary: i k m)
  case (Cons d b)
  show ?case
  proof (cases "b = []")
    case True
    then show ?thesis using Cons.prems by (simp add: xor_at_simps)
  next
    case False
    then have "k < 15" using Cons.prems(2) by (cases b) auto
    then have "(i + 1) mod 16 = k + 1" using Cons.prems(1) by (simp add: mod_Suc)
    then show ?thesis
      using Cons.IH [of "i + 1" "k + 1" "m[k := m ! k XOR d]"] Cons.prems False \<open>k < 15\<close> by (simp add: xor_at_simps)
  qed
qed simp

lemma cbc_mac_loop_spec:
  assumes "i mod 16 = 0" and "length m = 16" and "\<And>b. length (aes_encrypt env b s) = 16"
  shows "(let mac = cbc_mac_loop env s i bytes m in if length bytes mod 16 \<noteq> 0 then aes_encrypt env mac s else mac) =
    cbc_chain (\<lambda>b. aes_encrypt env b s) m bytes"
  using assms(1,2)
proof (induction "length bytes" arbitrary: bytes i m rule: less_induct)
  case less
  consider "bytes = []" | "bytes \<noteq> []" "length bytes < 16" | "16 \<le> length bytes" by linarith
  then show ?case
  proof cases
    case 1
    then show ?thesis by (simp add: cbc_chain.simps)
  next
    case 2
    then show ?thesis
      using cbc_mac_loop_within [of i 0 bytes m env s] less.prems
      by (simp add: xor_at_0 cbc_chain.simps [of _ m bytes] cbc_chain.simps [of _ _ "[]"])
  next
    case 3
    let ?m = "aes_encrypt env (xor_block m (take 16 bytes)) s"
    have l: "length bytes mod 16 = length (drop 16 bytes) mod 16" using 3 by (simp add: le_mod_geq)
    have ne: "take 16 bytes \<noteq> []" using 3 by auto
    have "cbc_mac_loop env s i (take 16 bytes @ drop 16 bytes) m = cbc_mac_loop env s (i + 16) (drop 16 bytes) ?m"
      using cbc_mac_loop_block [of i 0 "take 16 bytes" m env s "drop 16 bytes"] 3 less.prems ne by (simp add: xor_at_0)
    then have "cbc_mac_loop env s i bytes m = cbc_mac_loop env s (i + 16) (drop 16 bytes) ?m" by simp
    moreover have "length (drop 16 bytes) < length bytes" "bytes \<noteq> []" using 3 by auto
    ultimately show ?thesis
      using less.hyps [of "drop 16 bytes" "i + 16" ?m] less.prems assms(3) l by (simp add: Let_def cbc_chain.simps [of _ m bytes])
  qed
qed

lemma aes_cbc_mac_eq:
  assumes "\<And>b k. length (aes_128 env b k) = 16"
  shows "aes_cbc_mac env bytes s = cbc_mac env (aes_key s) (aes_iv s) bytes"
  using cbc_mac_loop_spec [of 0 "aes_encrypt env (aes_iv s) s" env s bytes] assms
  by (simp add: aes_cbc_mac_def cbc_mac_def aes_encrypt_def Let_def)

text \<open>
  C23. The cipher modes of the transport are output feedback and chained authentication as they are
  usually defined, for every block function on 16 bytes, and encrypting twice gives the data back.
\<close>

theorem cipher_modes_are_standard:
  assumes "\<And>b k. length (aes_128 env b k) = 16"
  shows "fst (aes_ofb env bytes s) = ofb env (aes_key s) (aes_iv s) bytes \<and>
    aes_cbc_mac env bytes s = cbc_mac env (aes_key s) (aes_iv s) bytes \<and>
    ofb env key iv (ofb env key iv bytes) = bytes"
  using assms by (simp add: aes_ofb_eq aes_cbc_mac_eq)

end
