(* ===== verification/S0_Exchange.thy ===== *)
theory S0_Exchange
  imports S0_Cipher
begin

text \<open>
  Encrypting and decrypting: what one controller sends under a nonce, another one that holds the
  nonce and the same keys delivers, in one frame or in two; and nonces are used once and expire.
\<close>

section \<open>Frames\<close>

text \<open>A Security 0 frame, without reference to the state.\<close>

definition sealed :: "s0_env \<Rightarrow> u8 list \<Rightarrow> u8 list \<Rightarrow> u8 list \<Rightarrow> u8 \<Rightarrow> u8 \<Rightarrow> u8 \<Rightarrow> u8 list \<Rightarrow> u8 list" where
  "sealed env ekey akey iv sh here remote payload =
     (let enc = ofb env ekey iv payload in
      [COMMAND_CLASS_SECURITY, sh] @ take 8 iv @ enc @ [iv ! 8] @
        take 8 (cbc_mac env akey iv ([sh, here, remote, of_nat (length payload)] @ enc)))"

lemma s0_frame_eq:
  assumes "\<And>b k. length (aes_128 env b k) = 16" and "length ekey = 16" "length akey = 16" "length iv = 16"
  shows "fst (s0_frame env ekey akey iv sh here remote payload s) = sealed env ekey akey iv sh here remote payload \<and>
    (\<exists>k v. snd (s0_frame env ekey akey iv sh here remote payload s) = s\<lparr>aes_key := k, aes_iv := v\<rparr>)"
proof -
  let ?s = "s\<lparr>aes_key := ekey, aes_iv := iv\<rparr>"
  obtain v where v: "snd (aes_ofb env payload ?s) = ?s\<lparr>aes_iv := v\<rparr>" using aes_ofb_state by blast
  have f: "fst (aes_ofb env payload ?s) = ofb env ekey iv payload" by (simp add: aes_ofb_eq)
  show ?thesis
    using assms by (auto simp: s0_frame_def sealed_def case_prod_beta Let_def v f aes_cbc_mac_eq aes_set_key_tpt_def)
qed

lemma length_cbc_chain: "(\<And>b. length (E b) = 16) \<Longrightarrow> length m = 16 \<Longrightarrow> length (cbc_chain E m bytes) = 16"
  by (induction E m bytes rule: cbc_chain.induct) (simp add: cbc_chain.simps)

lemma length_cbc_mac: "(\<And>b k. length (aes_128 env b k) = 16) \<Longrightarrow> length (cbc_mac env key iv bytes) = 16"
  by (simp add: cbc_mac_def Let_def length_cbc_chain)

lemma sealed_parts:
  assumes "\<And>b k. length (aes_128 env b k) = 16" and "length iv = 16" and "F = sealed env ekey akey iv sh here remote payload"
  shows "length F = length payload + 19" "F ! 0 = COMMAND_CLASS_SECURITY" "F ! 1 = sh" "take 8 (drop 2 F) = take 8 iv"
    "take (length payload) (drop 10 F) = ofb env ekey iv payload" "F ! (length F - 9) = iv ! 8"
    "drop (length F - 8) F = take 8 (cbc_mac env akey iv ([sh, here, remote, of_nat (length payload)] @ ofb env ekey iv payload))"
proof -
  let ?enc = "ofb env ekey iv payload"
  let ?mac = "take 8 (cbc_mac env akey iv ([sh, here, remote, of_nat (length payload)] @ ?enc))"
  have F: "F = [COMMAND_CLASS_SECURITY, sh] @ take 8 iv @ ?enc @ [iv ! 8] @ ?mac" using assms(3) by (simp add: sealed_def Let_def)
  have m: "length ?mac = 8" using length_cbc_mac [OF assms(1)] by simp
  show l: "length F = length payload + 19" using assms(2) m by (simp add: F)
  show "F ! 0 = COMMAND_CLASS_SECURITY" "F ! 1 = sh" "take 8 (drop 2 F) = take 8 iv"
    "take (length payload) (drop 10 F) = ?enc" using assms(2) by (simp_all add: F)
  have "F = ([COMMAND_CLASS_SECURITY, sh] @ take 8 iv @ ?enc @ [iv ! 8]) @ ?mac" by (simp add: F)
  moreover have "length F - 8 = length ([COMMAND_CLASS_SECURITY, sh] @ take 8 iv @ ?enc @ [iv ! 8])" using assms(2) l by simp
  ultimately show "drop (length F - 8) F = ?mac" by (metis append_eq_conv_conj)
  have "F = ([COMMAND_CLASS_SECURITY, sh] @ take 8 iv @ ?enc) @ iv ! 8 # ?mac" by (simp add: F)
  moreover have "length ([COMMAND_CLASS_SECURITY, sh] @ take 8 iv @ ?enc) = length payload + 10" using assms(2) by simp
  ultimately have "F ! (length payload + 10) = iv ! 8" by (metis nth_append_length)
  then show "F ! (length F - 9) = iv ! 8" by (simp add: l add.commute)
qed

section \<open>What the nonce operations leave alone\<close>

lemma get_s0_nonce_drbg [simp]: "get_s0_nonce src dst ri any (s\<lparr>drbg := m\<rparr>) = get_s0_nonce src dst ri any s"
  by (simp add: get_s0_nonce_def)

text \<open>The drawn block is the first one from the current position whose first byte is fresh.\<close>

lemma draw_nonce_SomeD:
  assumes "draw_nonce env src dst s = Some (block, s')"
  shows "\<exists>m \<ge> drbg s. block = drbg_block env m \<and> s' = s\<lparr>drbg := m + 1\<rparr> \<and> get_s0_nonce src dst (block ! 0) False s = None"
proof -
  let ?P = "\<lambda>env src dst s r. \<exists>m \<ge> drbg s. fst r = drbg_block env m \<and> snd r = s\<lparr>drbg := m + 1\<rparr> \<and>
              get_s0_nonce src dst (fst r ! 0) False s = None"
  have "?P env src dst s (block, s')"
  proof (rule draw_nonce.raw_induct [where P = ?P, OF _ assms], goal_cases)
    case (1 f env src dst s r)
    show ?case
    proof (cases "get_s0_nonce src dst (drbg_block env (drbg s) ! 0) False s = None")
      case True
      with 1(2) show ?thesis by (auto simp: Let_def)
    next
      case False
      then have "f env src dst (s\<lparr>drbg := drbg s + 1\<rparr>) = Some r" using 1(2) by (auto simp: Let_def)
      from 1(1) [OF this] obtain m where "drbg s + 1 \<le> m" "fst r = drbg_block env m" "snd r = s\<lparr>drbg := m + 1\<rparr>"
        "get_s0_nonce src dst (fst r ! 0) False s = None" by auto
      then show ?thesis by (intro exI [of _ m]) simp
    qed
  qed
  then show ?thesis by simp
qed

lemma draw_nonce_returns:
  assumes "drbg s \<le> m" and "get_s0_nonce src dst (drbg_block env m ! 0) False s = None"
  shows "\<exists>r. draw_nonce env src dst s = Some r"
  using assms
proof (induction "m - drbg s" arbitrary: s rule: less_induct)
  case less
  show ?case
  proof (cases "get_s0_nonce src dst (drbg_block env (drbg s) ! 0) False s = None")
    case False
    then have "drbg s \<noteq> m" using less.prems(2) by auto
    then have "\<exists>r. draw_nonce env src dst (s\<lparr>drbg := drbg s + 1\<rparr>) = Some r" using less.prems by (intro less.hyps) auto
    with False show ?thesis by (subst draw_nonce.simps) (simp add: Let_def)
  qed (subst draw_nonce.simps, simp add: Let_def)
qed

lemma nonce_clear_state: "\<exists>t. nonce_clear src dst s = s\<lparr>nonce_table := t\<rparr>"
  by (auto simp: nonce_clear_def)

lemma register_nonce_state: "\<exists>t u. snd (register_nonce src dst reply n s) = s\<lparr>nonce_table := t, nonce_timer := u\<rparr>"
proof -
  let ?s = "snd (register_nonce src dst reply n s)"
  have "?s = s\<lparr>nonce_table := nonce_table ?s, nonce_timer := nonce_timer ?s\<rparr>"
    by (simp add: register_nonce_def restart_s0_timer_def split: option.splits)
  then show ?thesis by blast
qed

text \<open>After the nonces between two nodes are cleared there is none.\<close>

lemma get_after_clear: "get_s0_nonce src dst ri any (nonce_clear src dst s) = None"
  by (auto simp: get_s0_nonce_def nonce_clear_def nonce_between_def find_None_iff)

section \<open>Sending\<close>

text \<open>The part of the data of a transmission that the next frame carries, and the frame.\<close>

definition next_part :: "s0_env \<Rightarrow> sec_tx_session \<Rightarrow> u8 list" where
  "next_part env x = take (unat (part_len env x)) (drop (data_pos x) (buf x))"

definition session_frame :: "s0_env \<Rightarrow> s0 \<Rightarrow> bool \<Rightarrow> sec_tx_session \<Rightarrow> u8 list \<Rightarrow> u8 list" where
  "session_frame env s pass2 x iv =
     sealed env (if use_inclusion_key x then enckeyz s else enckey s) (if use_inclusion_key x then authkeyz s else authkey s) iv
       (security_header env pass2 x) (ucast (local_node_id (conn_info x))) (ucast (remote_node_id (conn_info x)))
       (security_flags env pass2 x # next_part env x)"

definition keys_ok :: "s0 \<Rightarrow> bool" where
  "keys_ok s \<longleftrightarrow> length (enckey s) = 16 \<and> length (authkey s) = 16 \<and> length (enckeyz s) = 16 \<and> length (authkeyz s) = 16"

definition same_keys :: "s0 \<Rightarrow> s0 \<Rightarrow> bool" where
  "same_keys s s' \<longleftrightarrow> enckey s' = enckey s \<and> authkey s' = authkey s \<and> enckeyz s' = enckeyz s \<and> authkeyz s' = authkeyz s"

definition tx_buffers_ok :: "sec_tx_session \<Rightarrow> bool" where
  "tx_buffers_ok x \<longleftrightarrow> length (buf x) = 256 \<and> length (crypted_msg x) = 158 \<and> data_pos x + unat (data_len x) \<le> 256"

definition radio_ok :: "s0_env \<Rightarrow> node_id \<Rightarrow> bool" where
  "radio_ok env node \<longleftrightarrow> S0_ENCAP_HEADER_LEN < unat (get_node_max_frame_size env node) \<and> unat (get_node_max_frame_size env node) \<le> ZWAVE_MAX_FRAME_SIZE"

lemma part_len_bounds:
  assumes "radio_ok env (remote_node_id (conn_info x))"
  shows "unat (part_len env x) + 20 \<le> 158" "unat (part_len env x) \<le> unat (data_len x)"
    "more_to_send env x \<longleftrightarrow> unat (part_len env x) < unat (data_len x)" "data_len x \<noteq> 0 \<Longrightarrow> part_len env x \<noteq> 0"
proof -
  let ?max = "get_node_max_frame_size env (remote_node_id (conn_info x))"
  have m: "20 < unat ?max" "unat ?max \<le> 158" using assms by (simp_all add: radio_ok_def)
  have p: "unat (part_len env x) = (if more_to_send env x then unat ?max - 20 else unat (data_len x))"
    using m(1) by (simp add: part_len_def unat_sub word_le_nat_alt)
  show "unat (part_len env x) + 20 \<le> 158" "unat (part_len env x) \<le> unat (data_len x)"
    "more_to_send env x \<longleftrightarrow> unat (part_len env x) < unat (data_len x)"
    using p m by (auto simp: more_to_send_def)
  show "data_len x \<noteq> 0 \<Longrightarrow> part_len env x \<noteq> 0"
    using p m by (auto simp: unat_eq_0 [symmetric] split: if_splits)
qed

lemma length_next_part:
  assumes "tx_buffers_ok x" and "radio_ok env (remote_node_id (conn_info x))"
  shows "length (next_part env x) = unat (part_len env x)"
  using part_len_bounds(2) [OF assms(2)] assms(1) by (auto simp: next_part_def tx_buffers_ok_def)

lemma encrypt_message_spec:
  assumes aes: "\<And>b k. length (aes_128 env b k) = 16" and x: "x = tx_sessions s ! i"
    and ok: "tx_buffers_ok x" "keys_ok s" "radio_ok env (remote_node_id (conn_info x))"
    and draw: "draw_nonce env (ucast (remote_node_id (conn_info x))) (ucast (local_node_id (conn_info x))) s = Some (block, s1)" "length block = 16"
    and nonce: "get_s0_nonce (ucast (remote_node_id (conn_info x))) (ucast (local_node_id (conn_info x))) 0 True s = Some n" "length n = 8"
  shows "\<exists>s' c. s0_encrypt_message env i pass2 s =
       Some (if pass2 \<and> data_len (tx_sessions s' ! i) > 0 then 0 else part_len env x + 20, s') \<and>
     tx_sessions s' = (tx_sessions s)[i := x\<lparr>crypted_msg := c, data_pos := data_pos x + unat (part_len env x), data_len := data_len x - part_len env x\<rparr>] \<and>
     take (unat (part_len env x) + 20) c = session_frame env s pass2 x (take 8 block @ n) \<and> length c = 158 \<and>
     same_keys s s' \<and> s0_out s' = s0_out s \<and> rxsessions s' = rxsessions s \<and>
     (\<exists>m k v. s' = tx_update i (\<lambda>y. y\<lparr>crypted_msg := c, data_pos := data_pos y + unat (part_len env x), data_len := data_len y - part_len env x\<rparr>)
       ((snd (register_nonce (ucast (local_node_id (conn_info x))) (ucast (remote_node_id (conn_info x))) True (take 8 block @ n)
          (nonce_clear (ucast (remote_node_id (conn_info x))) (ucast (local_node_id (conn_info x))) (s\<lparr>drbg := m\<rparr>))))\<lparr>aes_key := k, aes_iv := v\<rparr>))"
proof -
  let ?here = "ucast (local_node_id (conn_info x)) :: u8" and ?remote = "ucast (remote_node_id (conn_info x)) :: u8"
  let ?k = "unat (part_len env x)" and ?iv = "take 8 block @ n"
  note b = part_len_bounds [OF ok(3)]
  obtain m where s1: "s1 = s\<lparr>drbg := m + 1\<rparr>" using draw_nonce_SomeD [OF draw(1)] by auto
  obtain t where t: "nonce_clear ?remote ?here s1 = s1\<lparr>nonce_table := t\<rparr>" using nonce_clear_state by blast
  obtain t' u where t': "snd (register_nonce ?here ?remote True ?iv (s1\<lparr>nonce_table := t\<rparr>)) = s1\<lparr>nonce_table := t', nonce_timer := u\<rparr>"
    using register_nonce_state [of ?here ?remote True ?iv "s1\<lparr>nonce_table := t\<rparr>"] by auto
  let ?s2 = "s1\<lparr>nonce_table := t', nonce_timer := u\<rparr>"
  let ?payload = "security_flags env pass2 x # next_part env x"
  have wr: "write_bytes (replicate (?k + 1) p) 1 (drop (data_pos x) (buf x)) ?k = Some (p # next_part env x)" for p
    using b(2) ok(1) by (auto simp: write_bytes_def next_part_def tx_buffers_ok_def)
  let ?ek = "if use_inclusion_key x then enckeyz s else enckey s" and ?ak = "if use_inclusion_key x then authkeyz s else authkey s"
  have k16: "length ?ek = 16" "length ?ak = 16" "length ?iv = 16" using ok(2) draw(2) nonce(2) by (simp_all add: keys_ok_def)
  obtain k' v where fr: "s0_frame env ?ek ?ak ?iv (security_header env pass2 x) ?here ?remote ?payload ?s2 =
      (session_frame env s pass2 x ?iv, ?s2\<lparr>aes_key := k', aes_iv := v\<rparr>)"
    using s0_frame_eq [OF aes k16, of "security_header env pass2 x" ?here ?remote ?payload ?s2] unfolding session_frame_def
    by (metis prod.collapse)
  have lf: "length (session_frame env s pass2 x ?iv) = ?k + 20"
    using sealed_parts(1) [OF aes k16(3) refl] length_next_part [OF ok(1,3)] by (simp add: session_frame_def)
  let ?c = "session_frame env s pass2 x ?iv @ drop (?k + 20) (crypted_msg x)"
  have cr: "write_bytes (crypted_msg x) 0 (session_frame env s pass2 x ?iv) (?k + 20) = Some ?c"
    using lf b(1) ok(1) by (simp add: write_bytes_def tx_buffers_ok_def)
  let ?s' = "tx_update i (\<lambda>x. x\<lparr>crypted_msg := ?c, data_pos := data_pos x + ?k, data_len := data_len x - part_len env (tx_sessions s ! i)\<rparr>)
     (?s2\<lparr>aes_key := k', aes_iv := v\<rparr>)"
  have "s0_encrypt_message env i pass2 s =
      Some (if pass2 \<and> data_len (tx_sessions ?s' ! i) > 0 then 0 else part_len env x + 20, ?s')"
  proof -
    have nb: "(unat (part_len env x) + 20 > 158) = False" using b(1) by simp
    have gn: "get_s0_nonce ?remote ?here 0 True s1 = Some n" using nonce(1) by (simp add: s1)
    have ks: "enckeyz ?s2 = enckeyz s" "enckey ?s2 = enckey s" "authkeyz ?s2 = authkeyz s" "authkey ?s2 = authkey s" by (simp_all add: s1)
    show ?thesis
      unfolding s0_encrypt_message_def Let_def
      by (simp only: x [symmetric] nb if_False draw(1) bind.bind_lunit prod.case gn option.case t t' wr ks fr cr of_nat_numeral if_distrib [of Some])
        auto
  qed
  moreover have "take (?k + 20) ?c = session_frame env s pass2 x ?iv" "length ?c = 158" using lf b(1) ok(1) by (simp_all add: tx_buffers_ok_def)
  moreover have "?s' = tx_update i (\<lambda>y. y\<lparr>crypted_msg := ?c, data_pos := data_pos y + ?k, data_len := data_len y - part_len env x\<rparr>)
      ((snd (register_nonce ?here ?remote True ?iv (nonce_clear ?remote ?here (s\<lparr>drbg := m + 1\<rparr>))))\<lparr>aes_key := k', aes_iv := v\<rparr>)"
    using t t' by (simp add: s1 x)
  moreover have "same_keys s ?s'" "s0_out ?s' = s0_out s" "rxsessions ?s' = rxsessions s"
    "tx_sessions ?s' = (tx_sessions s)[i := x\<lparr>crypted_msg := ?c, data_pos := data_pos x + ?k, data_len := data_len x - part_len env x\<rparr>]"
    by (simp_all add: tx_update_def s1 x same_keys_def)
  ultimately show ?thesis by (intro exI [of _ ?s'] exI [of _ ?c]) blast
qed

section \<open>Receiving\<close>

lemma sealed_cong: "aes_128 env' = aes_128 env \<Longrightarrow> sealed env' = sealed env"
  by (intro ext) (simp add: sealed_def ofb_def cbc_mac_def)

text \<open>A frame sealed under a nonce that the receiver holds, with the receiver's keys, reaches its session decrypted.\<close>

lemma decrypt_sealed:
  assumes aes: "\<And>b k. length (aes_128 env b k) = 16" and keys: "keys_ok r" and iv: "length iv = 16"
    and F: "F = sealed env (enckey r) (authkey r) iv sh (ucast (remote_node_id c)) (ucast (local_node_id c)) payload"
    and payload: "payload \<noteq> []" "length payload \<le> 129" and mem: "take (length F) m = F" "length F \<le> length m"
    and nonce: "get_s0_nonce (ucast (local_node_id c)) (ucast (remote_node_id c)) (iv ! 8) False r = Some (drop 8 iv)"
    and rx: "rx_session_for (ucast (remote_node_id c)) (ucast (local_node_id c)) (nonce_clear (ucast (local_node_id c)) (ucast (remote_node_id c)) r) = Some (j, r1)"
    and room: "rx_st (rxsessions r1 ! j) \<noteq> RX_INIT \<Longrightarrow> unat (msg_len (rxsessions r1 ! j)) + length payload \<le> 129"
  shows "\<exists>k v. s0_decrypt_message env c m (of_nat (length F)) r = rx_payload j payload (r1\<lparr>aes_key := k, aes_iv := v\<rparr>)"
proof -
  let ?here = "ucast (local_node_id c) :: u8" and ?remote = "ucast (remote_node_id c) :: u8"
  note p = sealed_parts [OF aes iv F]
  let ?n = "length payload + 19"
  have n: "unat ((of_nat (length F) :: u16) AND 0xff) = ?n"
  proof -
    have m: "(0xff :: u16) = mask 8" by (simp add: mask_eq_exp_minus_1)
    have "unat (of_nat (length F) :: u16) = ?n" unfolding p(1) unat_of_nat using payload(2) by simp
    then show ?thesis using payload(2) unfolding m take_bit_eq_mask [symmetric] unsigned_take_bit_eq by (simp add: take_bit_eq_mod)
  qed
  let ?s = "nonce_clear ?here ?remote r" and ?enc = "ofb env (enckey r) iv payload" and ?auth = "[sh, ?remote, ?here, of_nat (length payload)] :: u8 list"
  have F': "take ?n m = F" using mem(1) p(1) by simp
  have lens: "(?n > 158 \<or> ?n > length m) = False" "(?n < 20) = False" "(?n - 20 > 128) = False" "?n - 19 = length payload"
    using payload mem(2) p(1) by (auto simp: Suc_le_eq)
  have ri: "F ! (?n - 9) = iv ! 8" "drop (?n - 8) F = take 8 (cbc_mac env (authkey r) iv (?auth @ ?enc))" using p(1,6,7) by simp_all
  have ivs: "take 8 (drop 2 F) @ drop 8 iv = iv" using p(4) by simp
  have "r1 = r\<lparr>nonce_table := nonce_table r1, rxsessions := rxsessions r1\<rparr>"
    using rx by (auto simp: rx_session_for_def new_rx_session_def rx_update_def nonce_clear_def split: option.splits)
  then obtain e t where r1: "r1 = r\<lparr>nonce_table := t, rxsessions := e\<rparr>" by blast
  have nroom: "(rx_st (rxsessions r1 ! j) \<noteq> RX_INIT \<and> unat (msg_len (rxsessions r1 ! j)) + ?n - 20 > 128) = False" using room by auto
  have a1: "write_bytes (replicate 152 0) 4 ?enc (length payload) = Some (replicate 4 0 @ ?enc @ replicate (148 - length payload) 0)"
    using payload(2) by (simp add: write_bytes_def)
  have a2: "write_bytes (replicate 4 0 @ ?enc @ z) 0 [a, b, c, d] 4 = Some ([a, b, c, d] @ ?enc @ z)" for z a b c d by (simp add: write_bytes_def)
  have a3: "take (4 + length payload) ([a, b, c, d] @ ?enc @ z) = [a, b, c, d] @ ?enc" for z a b c d by (simp add: eval_nat_numeral)
  let ?r2 = "aes_set_key_tpt (authkey r1) iv r1"
  have mac: "aes_cbc_mac env bytes ?r2 = cbc_mac env (authkey r) iv bytes" for bytes
    using keys iv by (simp add: aes_cbc_mac_eq [OF aes] aes_set_key_tpt_def r1 keys_ok_def)
  let ?r3 = "aes_set_key_tpt (enckey ?r2) iv ?r2"
  obtain v where v: "snd (aes_ofb env ?enc ?r3) = ?r3\<lparr>aes_iv := v\<rparr>" using aes_ofb_state by blast
  have "fst (aes_ofb env ?enc ?r3) = payload" using keys iv by (simp add: aes_ofb_eq aes_set_key_tpt_def r1 keys_ok_def)
  then have ofb: "aes_ofb env ?enc ?r3 = (payload, ?r3\<lparr>aes_iv := v\<rparr>)" using v by (metis prod.collapse)
  have "s0_decrypt_message env c m (of_nat (length F)) r = rx_payload j payload (?r3\<lparr>aes_iv := v\<rparr>)"
    unfolding s0_decrypt_message_def Let_def n
    by (simp only: F' lens if_False ri nonce option.case rx prod.case nroom p(3,5) ivs a1 a2 a3 bind.bind_lunit mac if_True refl not_True_eq_False ofb simp_thms)
  moreover have "?r3\<lparr>aes_iv := v\<rparr> = r1\<lparr>aes_key := take 16 (enckey r1), aes_iv := v\<rparr>" by (simp add: aes_set_key_tpt_def)
  ultimately show ?thesis by metis
qed

lemma flag_bits:
  "(0x10 OR (w AND 0xF)) AND 0x10 \<noteq> (0 :: u8)" "(0x10 OR (w AND 0xF)) AND 0x20 = (0 :: u8)" "(0x10 OR (w AND 0xF)) AND 0xF = w AND (0xF :: u8)"
  "(0x10 OR 0x20 OR (w AND 0xF)) AND 0x10 \<noteq> (0 :: u8)" "(0x10 OR 0x20 OR (w AND 0xF)) AND 0x20 \<noteq> (0 :: u8)"
  "(0x10 OR 0x20 OR (w AND 0xF)) AND 0xF = w AND (0xF :: u8)"
  by (simp_all add: bit.conj_disj_distrib2 and.assoc)

lemma rx_session_new:
  assumes "get_rx_session_by_nodes a b r = None" and "list_ex (is_free r) (rxsessions r)"
  shows "\<exists>j r1. rx_session_for a b r = Some (j, r1) \<and> first_index (is_free r) (rxsessions r) = Some j \<and>
    r1 = r\<lparr>rxsessions := (rxsessions r)[j := (rxsessions r ! j)\<lparr>snode := a, dnode := b, rx_timeout := s0_clock r + 10000, rx_st := RX_INIT\<rparr>]\<rparr>"
proof -
  obtain j where j: "first_index (is_free r) (rxsessions r) = Some j"
    using assms(2) first_index_None [of "is_free r" "rxsessions r"] by (auto simp: list_ex_iff)
  then have "j < length (rxsessions r)" using first_index_SomeD by fastforce
  with j assms(1) show ?thesis by (simp add: rx_session_for_def new_rx_session_def rx_update_def)
qed

section \<open>Messages\<close>

text \<open>What is needed to encrypt the next frame of a transmission under the nonce \<open>n\<close>, and the frame that is then sent.\<close>

definition can_encrypt :: "s0_env \<Rightarrow> nat \<Rightarrow> u8 list \<Rightarrow> s0 \<Rightarrow> bool" where
  "can_encrypt env i n s \<longleftrightarrow>
     (let x = tx_sessions s ! i; here = ucast (local_node_id (conn_info x)) :: u8; remote = ucast (remote_node_id (conn_info x)) :: u8 in
      i < length (tx_sessions s) \<and> tx_buffers_ok x \<and> keys_ok s \<and> radio_ok env (remote_node_id (conn_info x)) \<and>
      get_s0_nonce remote here 0 True s = Some n \<and> length n = 8 \<and>
      (case draw_nonce env remote here s of Some (block, s') \<Rightarrow> length block = 16 | None \<Rightarrow> False))"

definition sent_frame :: "s0_env \<Rightarrow> nat \<Rightarrow> bool \<Rightarrow> s0 \<Rightarrow> (u8 list \<times> s0) option" where
  "sent_frame env i pass2 s =
     (case s0_encrypt_message env i pass2 s of
        Some (len, s') \<Rightarrow> if len = 0 then None else Some (take (unat len) (crypted_msg (tx_sessions s' ! i)), s')
      | None \<Rightarrow> None)"

text \<open>The other end: it has the keys of the transmission, the nonce, and the addresses the other way round.\<close>

definition peer :: "sec_tx_session \<Rightarrow> s0 \<Rightarrow> connection_info \<Rightarrow> u8 list \<Rightarrow> s0 \<Rightarrow> bool" where
  "peer x s c n r \<longleftrightarrow>
     keys_ok r \<and> enckey r = (if use_inclusion_key x then enckeyz s else enckey s) \<and>
     authkey r = (if use_inclusion_key x then authkeyz s else authkey s) \<and>
     remote_node_id c = local_node_id (conn_info x) \<and> local_node_id c = remote_node_id (conn_info x) \<and>
     get_s0_nonce (ucast (local_node_id c)) (ucast (remote_node_id c)) (n ! 0) False r = Some n"

lemma sent_frame_spec:
  assumes "\<And>b k. length (aes_128 env b k) = 16" and "can_encrypt env i n s" and "x = tx_sessions s ! i"
    and "pass2 \<Longrightarrow> \<not> more_to_send env x"
  shows "\<exists>iv s' x'. sent_frame env i pass2 s = Some (session_frame env s pass2 x iv, s') \<and> length iv = 16 \<and> drop 8 iv = n \<and>
    same_keys s s' \<and> tx_sessions s' ! i = x' \<and> x' = x\<lparr>crypted_msg := crypted_msg x', data_pos := data_pos x + unat (part_len env x),
      data_len := data_len x - part_len env x\<rparr>"
proof -
  let ?here = "ucast (local_node_id (conn_info x)) :: u8" and ?remote = "ucast (remote_node_id (conn_info x)) :: u8"
  have c: "i < length (tx_sessions s)" "tx_buffers_ok x" "keys_ok s" "radio_ok env (remote_node_id (conn_info x))"
    "get_s0_nonce ?remote ?here 0 True s = Some n" "length n = 8" using assms(2) unfolding can_encrypt_def Let_def assms(3) by auto
  obtain block s1 where d: "draw_nonce env ?remote ?here s = Some (block, s1)" "length block = 16"
    using assms(2) unfolding can_encrypt_def Let_def assms(3) by (auto split: option.splits)
  note b = part_len_bounds [OF c(4)]
  let ?x = "\<lambda>cr. x\<lparr>crypted_msg := cr, data_pos := data_pos x + unat (part_len env x), data_len := data_len x - part_len env x\<rparr>"
  obtain s' cr where e: "s0_encrypt_message env i pass2 s = Some (if pass2 \<and> data_len (tx_sessions s' ! i) > 0 then 0 else part_len env x + 20, s')"
    "tx_sessions s' = (tx_sessions s)[i := ?x cr]" "take (unat (part_len env x) + 20) cr = session_frame env s pass2 x (take 8 block @ n)"
    "same_keys s s'"
    using encrypt_message_spec [OF assms(1,3) c(2,3,4) d c(5,6), of pass2] by blast
  have x': "tx_sessions s' ! i = ?x cr" using e(2) c(1) by simp
  have p: "\<not> (pass2 \<and> data_len (tx_sessions s' ! i) > 0)"
    using assms(4) b(2,3) x' by (auto simp: word_gt_0 not_less intro: word_unat_eq_iff [THEN iffD2])
  have "unat (part_len env x + 20) = unat (part_len env x) + 20" using b(1) by (simp add: unat_word_ariths)
  moreover from this have "part_len env x + 20 \<noteq> 0" by (metis add_is_0 unat_0 zero_neq_numeral)
  ultimately have "sent_frame env i pass2 s = Some (session_frame env s pass2 x (take 8 block @ n), s')"
    using e(1,3) p x' by (simp add: sent_frame_def)
  then show ?thesis using d(2) c(6) e(4) x' by (intro exI [of _ "take 8 block @ n"] exI [of _ s'] exI [of _ "?x cr"]) simp
qed

lemma handler_sealed:
  assumes "F ! 0 = COMMAND_CLASS_SECURITY" and "F ! 1 = 0x81 \<or> F ! 1 = 0xC1" and "20 \<le> length F" and "length F \<le> 158"
  shows "zwave_s0_on_frame_received env c F r =
    (case s0_decrypt_message env c (F @ replicate (158 - length F) 0) (of_nat (length F)) r of
       Some (d, r') \<Rightarrow> Some (if d \<noteq> [] then (SL_STATUS_OK, s0_emit (On_frame_received (c\<lparr>encapsulation := SECURITY_0\<rparr>) d) r') else (SL_STATUS_FAIL, r'))
     | None \<Rightarrow> None)"
proof -
  have l: "unat (of_nat (length F) :: u16) = length F" unfolding unat_of_nat using assms(4) by simp
  have w: "write_bytes (replicate 158 0) 0 F (length F) = Some (F @ replicate (158 - length F) 0)" using assms(4) by (simp add: write_bytes_def)
  have r: "read_cell F 0 = Some 0x98" "read_cell F 1 = Some (F ! 1)" using assms(1,3) by (auto simp: read_cell_def)
  have n: "(length F > 158) = False" using assms(4) by simp
  show ?thesis
    unfolding zwave_s0_on_frame_received_def s0_application_command_handler_def l
    using assms(2) by (elim disjE; simp only: n if_False r bind.bind_lunit w simp_thms)
      (simp_all add: Option.bind_def split: option.split)
qed

lemma peer_receives:
  assumes "\<And>b k. length (aes_128 env b k) = 16" and "aes_128 env' = aes_128 env"
    and "peer x s c n r" and "length iv = 16" and "drop 8 iv = n" and "F = session_frame env s pass2 x iv"
    and "length (next_part env x) \<le> 128"
    and "rx_session_for (ucast (remote_node_id c)) (ucast (local_node_id c)) (nonce_clear (ucast (local_node_id c)) (ucast (remote_node_id c)) r) = Some (j, r1)"
    and "rx_st (rxsessions r1 ! j) \<noteq> RX_INIT \<Longrightarrow> unat (msg_len (rxsessions r1 ! j)) + length (next_part env x) \<le> 128"
  shows "\<exists>k v. zwave_s0_on_frame_received env' c F r =
    (case rx_payload j (security_flags env pass2 x # next_part env x) (r1\<lparr>aes_key := k, aes_iv := v\<rparr>) of
       Some (d, r') \<Rightarrow> Some (if d \<noteq> [] then (SL_STATUS_OK, s0_emit (On_frame_received (c\<lparr>encapsulation := SECURITY_0\<rparr>) d) r') else (SL_STATUS_FAIL, r'))
     | None \<Rightarrow> None)"
proof -
  let ?payload = "security_flags env pass2 x # next_part env x"
  have aes': "\<And>b k. length (aes_128 env' b k) = 16" using assms(1,2) by simp
  have p: "keys_ok r" "get_s0_nonce (ucast (local_node_id c)) (ucast (remote_node_id c)) (iv ! 8) False r = Some (drop 8 iv)"
    using assms(3,4) by (auto simp: peer_def assms(5) [symmetric])
  have F: "F = sealed env' (enckey r) (authkey r) iv (security_header env pass2 x) (ucast (remote_node_id c)) (ucast (local_node_id c)) ?payload"
    using assms(3,6) by (simp add: peer_def session_frame_def sealed_cong [OF assms(2)])
  note sp = sealed_parts [OF aes' assms(4) F]
  have h: "F ! 1 = 0x81 \<or> F ! 1 = 0xC1" unfolding sp(3) by (simp add: security_header_def)
  have l: "20 \<le> length F" "length F \<le> 158" using sp(1) assms(7) by simp_all
  obtain k v where "s0_decrypt_message env' c (F @ replicate (158 - length F) 0) (of_nat (length F)) r = rx_payload j ?payload (r1\<lparr>aes_key := k, aes_iv := v\<rparr>)"
    using decrypt_sealed [OF aes' p(1) assms(4) F _ _ _ _ p(2) assms(8), of "F @ replicate (158 - length F) 0"] assms(7,9) by auto
  then show ?thesis using handler_sealed [OF sp(2) h l] by auto
qed

text \<open>The data a transmission has still to send.\<close>

definition pending_data :: "sec_tx_session \<Rightarrow> u8 list" where
  "pending_data x = take (unat (data_len x)) (drop (data_pos x) (buf x))"

definition open_for :: "connection_info \<Rightarrow> s0 \<Rightarrow> bool" where
  "open_for c r \<longleftrightarrow>
     get_rx_session_by_nodes (ucast (remote_node_id c)) (ucast (local_node_id c)) r = None \<and> list_ex (is_free r) (rxsessions r)"

lemma open_for_session:
  assumes "open_for c r"
  shows "\<exists>j r1. rx_session_for (ucast (remote_node_id c)) (ucast (local_node_id c)) (nonce_clear (ucast (local_node_id c)) (ucast (remote_node_id c)) r) = Some (j, r1) \<and>
    first_index (is_free r) (rxsessions r) = Some j \<and> rx_st (rxsessions r1 ! j) = RX_INIT \<and> length (rxsessions r1) = length (rxsessions r) \<and>
    s0_out r1 = s0_out r \<and> s0_clock r1 = s0_clock r \<and>
    rxsessions r1 = (rxsessions r)[j := (rxsessions r ! j)\<lparr>snode := ucast (remote_node_id c), dnode := ucast (local_node_id c), rx_timeout := s0_clock r + 10000, rx_st := RX_INIT\<rparr>]"
proof -
  let ?r = "nonce_clear (ucast (local_node_id c)) (ucast (remote_node_id c)) r"
  obtain t where t: "?r = r\<lparr>nonce_table := t\<rparr>" using nonce_clear_state by blast
  have f: "is_free ?r = is_free r" by (simp add: t is_free_def fun_eq_iff)
  have "get_rx_session_by_nodes (ucast (remote_node_id c)) (ucast (local_node_id c)) ?r = None" "list_ex (is_free ?r) (rxsessions ?r)"
    using assms f by (simp_all add: open_for_def get_rx_session_by_nodes_def t)
  from rx_session_new [OF this] obtain j r1 where j: "rx_session_for (ucast (remote_node_id c)) (ucast (local_node_id c)) ?r = Some (j, r1)"
      "first_index (is_free r) (rxsessions r) = Some j"
      "r1 = ?r\<lparr>rxsessions := (rxsessions ?r)[j := (rxsessions ?r ! j)\<lparr>snode := ucast (remote_node_id c), dnode := ucast (local_node_id c), rx_timeout := s0_clock ?r + 10000, rx_st := RX_INIT\<rparr>]\<rparr>"
    unfolding f by (auto simp: t)
  moreover have "j < length (rxsessions r)" using first_index_SomeD [OF j(2)] by simp
  ultimately show ?thesis by (simp add: t)
qed

text \<open>
  C20. A message that fits one frame is delivered by a controller that holds the nonce it was encrypted
  under and the same keys, exactly as it was sent.
\<close>

theorem s0_message_roundtrip:
  assumes "\<And>b k. length (aes_128 env b k) = 16" and "aes_128 env' = aes_128 env" and "can_encrypt env i n s" and "x = tx_sessions s ! i"
    and "\<not> more_to_send env x" and "data_len x \<noteq> 0" and "unat (data_len x) \<le> 128" and "peer x s c n r" and "open_for c r"
  shows "\<exists>F s' r'. sent_frame env i False s = Some (F, s') \<and> zwave_s0_on_frame_received env' c F r = Some (SL_STATUS_OK, r') \<and>
    s0_out r' = s0_out r @ [On_frame_received (c\<lparr>encapsulation := SECURITY_0\<rparr>) (pending_data x)]"
proof -
  have part: "part_len env x = data_len x" using assms(5) by (simp add: part_len_def)
  then have np: "next_part env x = pending_data x" by (simp add: next_part_def pending_data_def)
  have b: "tx_buffers_ok x" using assms(3) unfolding can_encrypt_def Let_def assms(4) by auto
  have ln: "length (pending_data x) = unat (data_len x)" using b by (auto simp: pending_data_def tx_buffers_ok_def)
  then have ne: "pending_data x \<noteq> []" using assms(6) by (auto simp: unat_eq_0)
  obtain iv s' where f: "sent_frame env i False s = Some (session_frame env s False x iv, s')" "length iv = 16" "drop 8 iv = n"
    using sent_frame_spec [OF assms(1,3,4), of False] by auto
  obtain j r1 where o: "rx_session_for (ucast (remote_node_id c)) (ucast (local_node_id c)) (nonce_clear (ucast (local_node_id c)) (ucast (remote_node_id c)) r) = Some (j, r1)"
    "rx_st (rxsessions r1 ! j) = RX_INIT" "s0_out r1 = s0_out r" using open_for_session [OF assms(9)] by blast
  obtain k v where "zwave_s0_on_frame_received env' c (session_frame env s False x iv) r =
    (case rx_payload j (security_flags env False x # next_part env x) (r1\<lparr>aes_key := k, aes_iv := v\<rparr>) of
       Some (d, r') \<Rightarrow> Some (if d \<noteq> [] then (SL_STATUS_OK, s0_emit (On_frame_received (c\<lparr>encapsulation := SECURITY_0\<rparr>) d) r') else (SL_STATUS_FAIL, r'))
     | None \<Rightarrow> None)"
    using peer_receives [OF assms(1,2,8) f(2,3) refl [of "session_frame env s False x iv"] _ o(1)] o(2) ln np assms(7) by auto
  then show ?thesis
    using f(1) ne ln assms(5,7) o(3)
    by (simp add: security_flags_def rx_payload_def np Let_def free_rx_session_def rx_update_def s0_emit_def)
qed

text \<open>The first of two frames is kept by the receiver, in the session it opens.\<close>

lemma first_part_received:
  assumes "\<And>b k. length (aes_128 env b k) = 16" and "aes_128 env' = aes_128 env" and "can_encrypt env i n s" and "x = tx_sessions s ! i"
    and "more_to_send env x" and "unat (data_len x) \<le> 128" and "peer x s c n r" and "open_for c r" and "\<And>e. e \<in> set (rxsessions r) \<Longrightarrow> length (msg e) = 128"
  shows "\<exists>F s' r' j e. sent_frame env i False s = Some (F, s') \<and> zwave_s0_on_frame_received env' c F r = Some (SL_STATUS_FAIL, r') \<and>
    s0_out r' = s0_out r \<and> first_index (is_free r) (rxsessions r) = Some j \<and> rxsessions r' = (rxsessions r)[j := e] \<and>
    snode e = ucast (remote_node_id c) \<and> dnode e = ucast (local_node_id c) \<and> rx_timeout e = s0_clock r + 10000 \<and>
    rx_st e = RX_ENC1 \<and> seq_nr e = seq x AND 0xF \<and> msg_len e = part_len env x \<and> take (unat (part_len env x)) (msg e) = next_part env x"
proof -
  have ok: "tx_buffers_ok x" "radio_ok env (remote_node_id (conn_info x))" using assms(3) unfolding can_encrypt_def Let_def assms(4) by auto
  note ln = length_next_part [OF ok] and pb = part_len_bounds [OF ok(2)]
  obtain iv s' where f: "sent_frame env i False s = Some (session_frame env s False x iv, s')" "length iv = 16" "drop 8 iv = n"
    using sent_frame_spec [OF assms(1,3,4), of False] by auto
  obtain j r1 where o: "rx_session_for (ucast (remote_node_id c)) (ucast (local_node_id c)) (nonce_clear (ucast (local_node_id c)) (ucast (remote_node_id c)) r) = Some (j, r1)"
    "first_index (is_free r) (rxsessions r) = Some j" "rx_st (rxsessions r1 ! j) = RX_INIT" "s0_out r1 = s0_out r"
    "rxsessions r1 = (rxsessions r)[j := (rxsessions r ! j)\<lparr>snode := ucast (remote_node_id c), dnode := ucast (local_node_id c), rx_timeout := s0_clock r + 10000, rx_st := RX_INIT\<rparr>]"
    using open_for_session [OF assms(8)] by blast
  have j: "j < length (rxsessions r)" using first_index_SomeD [OF o(2)] by simp
  obtain k v where "zwave_s0_on_frame_received env' c (session_frame env s False x iv) r =
    (case rx_payload j (security_flags env False x # next_part env x) (r1\<lparr>aes_key := k, aes_iv := v\<rparr>) of
       Some (d, r') \<Rightarrow> Some (if d \<noteq> [] then (SL_STATUS_OK, s0_emit (On_frame_received (c\<lparr>encapsulation := SECURITY_0\<rparr>) d) r') else (SL_STATUS_FAIL, r'))
     | None \<Rightarrow> None)"
    using peer_receives [OF assms(1,2,7) f(2,3) refl [of "session_frame env s False x iv"] _ o(1)] o(3) ln pb(2) assms(6) by auto
  moreover have "write_bytes (msg (rxsessions r1 ! j)) 0 (next_part env x) (length (next_part env x)) =
      Some (next_part env x @ drop (length (next_part env x)) (msg (rxsessions r ! j)))"
    using j o(5) assms(6,9) pb(2) ln by (simp add: write_bytes_def)
  moreover have "of_nat (length (next_part env x)) = part_len env x" using ln by simp
  ultimately show ?thesis
    using f(1) assms(5) o(2,4,5) j ln by (simp add: security_flags_def rx_payload_def Let_def flag_bits rx_update_def) (rule exI, rule conjI, rule refl, simp)
qed

text \<open>
  C21. A message that needs two frames is delivered as a whole when the second frame arrives within ten
  seconds of the first, each under a nonce of its own.
\<close>

theorem s0_long_message_roundtrip:
  assumes "\<And>b k. length (aes_128 env b k) = 16" and "aes_128 env' = aes_128 env" and "can_encrypt env i n s" and "x = tx_sessions s ! i"
    and "more_to_send env x" and "unat (data_len x) \<le> 2 * unat (part_len env x)" and "unat (data_len x) \<le> 128"
    and "peer x s c n r" and "open_for c r" and "\<And>e. e \<in> set (rxsessions r) \<Longrightarrow> length (msg e) = 128"
    and "sent_frame env i False s = Some (F1, s1)" and "zwave_s0_on_frame_received env' c F1 r = Some (rc, r1)"
    and "tx_sessions s2 = tx_sessions s1" and "can_encrypt env i n2 s2" and "rxsessions r2 = rxsessions r1"
    and "s0_clock r \<le> s0_clock r2" and "s0_clock r2 \<le> s0_clock r + 10000" and "peer (tx_sessions s2 ! i) s2 c n2 r2"
  shows "\<exists>F2 s3 r3. sent_frame env i True s2 = Some (F2, s3) \<and> zwave_s0_on_frame_received env' c F2 r2 = Some (SL_STATUS_OK, r3) \<and>
    s0_out r3 = s0_out r2 @ [On_frame_received (c\<lparr>encapsulation := SECURITY_0\<rparr>) (pending_data x)]"
proof -
  let ?a = "ucast (remote_node_id c) :: u8" and ?b = "ucast (local_node_id c) :: u8" and ?y = "tx_sessions s2 ! i"
  have ok: "tx_buffers_ok x" "radio_ok env (remote_node_id (conn_info x))" using assms(3) unfolding can_encrypt_def Let_def assms(4) by auto
  note ln = length_next_part [OF ok] and pb = part_len_bounds [OF ok(2)]
  obtain s1' x' where y0: "tx_sessions s1 ! i = x'" "x' = x\<lparr>crypted_msg := crypted_msg x', data_pos := data_pos x + unat (part_len env x), data_len := data_len x - part_len env x\<rparr>"
    using sent_frame_spec [OF assms(1,3,4), of False] assms(11) by auto
  have y: "data_pos ?y = data_pos x + unat (part_len env x)" "data_len ?y = data_len x - part_len env x" "buf ?y = buf x"
    "seq ?y = seq x" "conn_info ?y = conn_info x"
    unfolding assms(13) y0(1) by (subst y0(2), simp)+
  have rest: "unat (data_len ?y) = unat (data_len x) - unat (part_len env x)" using pb(2) unfolding y(2) by (simp add: unat_sub word_le_nat_alt)
  have fits: "\<not> more_to_send env ?y"
  proof -
    have "unat (part_len env x) + 20 = unat (get_node_max_frame_size env (remote_node_id (conn_info x)))"
      using assms(5) ok(2) by (simp add: part_len_def radio_ok_def unat_sub word_le_nat_alt)
    then show ?thesis using rest assms(6) by (simp add: more_to_send_def y(5))
  qed
  then have np: "next_part env ?y = take (unat (data_len x) - unat (part_len env x)) (drop (data_pos x + unat (part_len env x)) (buf x))"
    using rest by (simp add: next_part_def part_len_def y(1,3))
  then have all: "next_part env x @ next_part env ?y = pending_data x"
    using pb(2) take_add [of "unat (part_len env x)" "unat (data_len x) - unat (part_len env x)" "drop (data_pos x) (buf x)"]
    by (simp add: next_part_def pending_data_def add.commute)
  obtain iv s3 where f: "sent_frame env i True s2 = Some (session_frame env s2 True ?y iv, s3)" "length iv = 16" "drop 8 iv = n2"
    using sent_frame_spec [OF assms(1,14) refl, of True] fits by auto
  obtain j e where fr: "s0_out r1 = s0_out r" "first_index (is_free r) (rxsessions r) = Some j" "rxsessions r1 = (rxsessions r)[j := e]"
    "snode e = ?a" "dnode e = ?b" "rx_timeout e = s0_clock r + 10000" "rx_st e = RX_ENC1" "seq_nr e = seq x AND 0xF"
    "msg_len e = part_len env x" "take (unat (part_len env x)) (msg e) = next_part env x"
    using first_part_received [OF assms(1-5,7-10)] assms(11,12) by auto
  note j = first_index_SomeD [OF fr(2)]
  obtain t where t: "nonce_clear ?b ?a r2 = r2\<lparr>nonce_table := t\<rparr>" using nonce_clear_state by blast
  have nf: "\<not> is_free (nonce_clear ?b ?a r2) e" using fr(6,7) assms(17) by (simp add: is_free_def t not_less)
  have "get_rx_session_by_nodes ?a ?b (nonce_clear ?b ?a r2) = Some j"
    unfolding get_rx_session_by_nodes_def
  proof (rule first_indexI)
    fix k assume k: "k < j"
    then have "\<not> (dnode (rxsessions r ! k) = ?b \<and> snode (rxsessions r ! k) = ?a)"
      using assms(9) j nth_mem [of k "rxsessions r"] by (auto simp: open_for_def get_rx_session_by_nodes_def first_index_None)
    with k show "\<not> (\<not> is_free (nonce_clear ?b ?a r2) (rxsessions (nonce_clear ?b ?a r2) ! k) \<and>
        dnode (rxsessions (nonce_clear ?b ?a r2) ! k) = ?b \<and> snode (rxsessions (nonce_clear ?b ?a r2) ! k) = ?a)"
      by (simp add: t assms(15) fr(3))
  qed (use j nf fr(4,5) in \<open>simp_all add: t assms(15) fr(3)\<close>)
  then have rx: "rx_session_for ?a ?b (nonce_clear ?b ?a r2) = Some (j, nonce_clear ?b ?a r2)" by (simp add: rx_session_for_def)
  have e: "rxsessions (nonce_clear ?b ?a r2) ! j = e" using j by (simp add: t assms(15) fr(3))
  have l: "length (next_part env ?y) = unat (data_len x) - unat (part_len env x)" using ok(1) pb(2) np by (auto simp: tx_buffers_ok_def)
  have sz: "unat (part_len env x) + length (next_part env ?y) \<le> 128" using l assms(7) pb(2) by simp
  have c: "length (next_part env ?y) \<le> 128" "unat (msg_len (rxsessions (nonce_clear ?b ?a r2) ! j)) + length (next_part env ?y) \<le> 128"
    unfolding e fr(9) using sz by simp_all
  obtain k v where h: "zwave_s0_on_frame_received env' c (session_frame env s2 True ?y iv) r2 =
    (case rx_payload j (security_flags env True ?y # next_part env ?y) ((nonce_clear ?b ?a r2)\<lparr>aes_key := k, aes_iv := v\<rparr>) of
       Some (d, r') \<Rightarrow> Some (if d \<noteq> [] then (SL_STATUS_OK, s0_emit (On_frame_received (c\<lparr>encapsulation := SECURITY_0\<rparr>) d) r') else (SL_STATUS_FAIL, r'))
     | None \<Rightarrow> None)"
    using peer_receives [OF assms(1,2,18) f(2,3) refl [of "session_frame env s2 True ?y iv"] c(1) rx c(2)] by blast
  have ne: "pending_data x \<noteq> []"
    using assms(5) pb(3) l all by auto
  from sz h f(1) ne show ?thesis
    using fr(7-10) e all by (simp add: security_flags_def rx_payload_def Let_def flag_bits y(4) t rx_update_def free_rx_session_def s0_emit_def)
qed

end
