(* ===== verification/S0_Invariants.thy ===== *)
theory S0_Invariants
  imports S0_Exchange "HOL-Library.Multiset"
begin

text \<open>
  The state of the Security 0 component in every history: its buffers and tables keep their sizes,
  every transmission that is going on has its timer running, and so has the table of nonces while
  there is a live one; and every accepted request is answered exactly once.
\<close>

section \<open>The invariant\<close>

definition tx_base :: "s0_env \<Rightarrow> sec_tx_session \<Rightarrow> bool" where
  "tx_base env x \<longleftrightarrow> tx_buffers_ok x \<and> radio_ok env (remote_node_id (conn_info x)) \<and>
     (remote_node_id (conn_info x) = 0 \<longrightarrow> s_callback x = 0)"

definition nonces_ok :: "s0 \<Rightarrow> bool" where
  "nonces_ok s \<longleftrightarrow> length (nonce_table s) = NONCE_TABLE_SIZE \<and>
     (\<forall>e \<in> set (nonce_table s). length (n_bytes e) = 8 \<and> n_timeout e \<le> NONCE_TIMEOUT \<and> (n_timeout e > 0 \<longrightarrow> nonce_timer s \<noteq> None))"

definition rx_ok :: "s0 \<Rightarrow> bool" where
  "rx_ok s \<longleftrightarrow> length (rxsessions s) = MAX_RXSESSIONS \<and> (\<forall>e \<in> set (rxsessions s). length (msg e) = 128 \<and> unat (msg_len e) \<le> 128)"

definition s0_base :: "s0_env \<Rightarrow> s0 \<Rightarrow> bool" where
  "s0_base env s \<longleftrightarrow> length (tx_sessions s) = NUM_TX_SESSIONS \<and> (\<forall>x \<in> set (tx_sessions s). tx_base env x) \<and>
     nonces_ok s \<and> rx_ok s \<and> keys_ok s \<and> length (nonce_block_list s) = 10 \<and> block_next_elem s < 10"

text \<open>Every transmission but possibly number \<open>i\<close> has its timer running.\<close>

definition timed_but :: "nat \<Rightarrow> s0 \<Rightarrow> bool" where
  "timed_but i s \<longleftrightarrow> (\<forall>k < length (tx_sessions s). k \<noteq> i \<longrightarrow> remote_node_id (conn_info (tx_sessions s ! k)) \<noteq> 0 \<longrightarrow> tx_timer (tx_sessions s ! k) \<noteq> None)"

definition timed :: "s0 \<Rightarrow> bool" where
  "timed s \<longleftrightarrow> (\<forall>x \<in> set (tx_sessions s). remote_node_id (conn_info x) \<noteq> 0 \<longrightarrow> tx_timer x \<noteq> None)"

definition s0_inv :: "s0_env \<Rightarrow> s0 \<Rightarrow> bool" where
  "s0_inv env s \<longleftrightarrow> s0_base env s \<and> timed s"

text \<open>What the component relies on: the block cipher, and a random generator that does not avoid fresh bytes for ever.\<close>

definition env_ok :: "s0_env \<Rightarrow> bool" where
  "env_ok env \<longleftrightarrow> (\<forall>b k. length (aes_128 env b k) = 16) \<and> (\<forall>n. length (drbg_block env n) = 16) \<and>
     (\<forall>n B. card B \<le> NONCE_TABLE_SIZE \<longrightarrow> (\<exists>m \<ge> n. drbg_block env m ! 0 \<notin> B)) \<and> radio_ok env 0"

text \<open>The callbacks that were called, and those of open transmissions.\<close>

fun answered_by :: "s0_output \<Rightarrow> nat multiset" where
  "answered_by (Send_complete f st info u) = {#f#}"
| "answered_by _ = {#}"

definition answered :: "s0 \<Rightarrow> nat multiset" where
  "answered s = sum_list (map answered_by (s0_out s))"

definition awaiting :: "sec_tx_session \<Rightarrow> nat multiset" where
  "awaiting x = (if s_callback x \<noteq> 0 then {#s_callback x#} else {#})"

definition balance :: "s0 \<Rightarrow> nat multiset" where
  "balance s = answered s + sum_list (map awaiting (tx_sessions s))"

section \<open>Updates\<close>

lemma timed_all: "timed s \<Longrightarrow> timed_but i s"
  by (simp add: timed_def timed_but_def)

lemma timed_but_all:
  "timed_but i s \<Longrightarrow> i < length (tx_sessions s) \<Longrightarrow> remote_node_id (conn_info (tx_sessions s ! i)) = 0 \<or> tx_timer (tx_sessions s ! i) \<noteq> None \<Longrightarrow> timed s"
  unfolding timed_def timed_but_def by (metis in_set_conv_nth)

lemma tx_update_sel [simp]:
  "nonce_table (tx_update i f s) = nonce_table s" "nonce_timer (tx_update i f s) = nonce_timer s" "rxsessions (tx_update i f s) = rxsessions s"
  "s0_out (tx_update i f s) = s0_out s" "length (tx_sessions (tx_update i f s)) = length (tx_sessions s)" "sm (tx_update i f s) = sm s"
  "enckey (tx_update i f s) = enckey s" "authkey (tx_update i f s) = authkey s" "enckeyz (tx_update i f s) = enckeyz s" "authkeyz (tx_update i f s) = authkeyz s"
  "nonce_block_list (tx_update i f s) = nonce_block_list s" "block_next_elem (tx_update i f s) = block_next_elem s" "s0_clock (tx_update i f s) = s0_clock s"
  "i < length (tx_sessions s) \<Longrightarrow> tx_sessions (tx_update i f s) ! i = f (tx_sessions s ! i)"
  by (simp_all add: tx_update_def)

lemma keys_ok_cong: "same_keys s s' \<Longrightarrow> keys_ok s' = keys_ok s"
  by (simp add: same_keys_def keys_ok_def)

lemma tx_update_base:
  assumes "s0_base env s" and "tx_base env (f (tx_sessions s ! i))"
  shows "s0_base env (tx_update i f s)"
  using assms set_update_subset_insert [of "tx_sessions s" i "f (tx_sessions s ! i)"]
  by (auto simp: s0_base_def nonces_ok_def rx_ok_def keys_ok_def tx_update_def)

lemma tx_base_nth: "s0_base env s \<Longrightarrow> i < 2 \<Longrightarrow> tx_base env (tx_sessions s ! i)"
  by (simp add: s0_base_def)

lemma tx_update_timed_but [simp]: "timed_but i (tx_update i f s) = timed_but i s"
  by (auto simp: timed_but_def tx_update_def)

lemma sum_awaiting_update:
  assumes "i < length xs"
  shows "sum_list (map awaiting (xs[i := x])) + awaiting (xs ! i) = sum_list (map awaiting xs) + awaiting x"
  using assms by (induction xs arbitrary: i) (auto split: nat.splits)

lemma balance_update: "i < length (tx_sessions s) \<Longrightarrow> s_callback (f (tx_sessions s ! i)) = s_callback (tx_sessions s ! i) \<Longrightarrow> balance (tx_update i f s) = balance s"
proof -
  assume "i < length (tx_sessions s)" "s_callback (f (tx_sessions s ! i)) = s_callback (tx_sessions s ! i)"
  moreover from this(2) have "awaiting (f (tx_sessions s ! i)) = awaiting (tx_sessions s ! i)" by (simp add: awaiting_def)
  ultimately show ?thesis
    using sum_awaiting_update [of i "tx_sessions s" "f (tx_sessions s ! i)"] by (simp add: balance_def answered_def tx_update_def)
qed

lemma s0_emit_sel [simp]:
  "tx_sessions (s0_emit x s) = tx_sessions s" "nonce_table (s0_emit x s) = nonce_table s" "nonce_timer (s0_emit x s) = nonce_timer s"
  "rxsessions (s0_emit x s) = rxsessions s" "timed_but i (s0_emit x s) = timed_but i s" "timed (s0_emit x s) = timed s" "s0_base env (s0_emit x s) = s0_base env s"
  "answered (s0_emit x s) = answered s + answered_by x" "sm (s0_emit x s) = sm s"
  by (simp_all add: s0_emit_def timed_but_def timed_def s0_base_def nonces_ok_def rx_ok_def keys_ok_def answered_def)

section \<open>Ends of transmissions\<close>

text \<open>What every operation on transmission \<open>i\<close> establishes.\<close>

definition settled :: "s0_env \<Rightarrow> s0 \<Rightarrow> s0 \<Rightarrow> bool" where
  "settled env s s' \<longleftrightarrow> s0_inv env s' \<and> balance s' = balance s"

definition unsettled :: "s0_env \<Rightarrow> nat \<Rightarrow> s0 \<Rightarrow> bool" where
  "unsettled env i s \<longleftrightarrow> i < NUM_TX_SESSIONS \<and> s0_base env s \<and> timed_but i s"

lemma settled_cong: "balance s = balance s' \<Longrightarrow> settled env s = settled env s'"
  by (simp add: settled_def fun_eq_iff)

lemma unsettled_update:
  assumes "unsettled env i s" and "\<And>x. tx_base env x \<Longrightarrow> tx_base env (f x)" and "\<And>x. s_callback (f x) = s_callback x"
  shows "unsettled env i (tx_update i f s) \<and> balance (tx_update i f s) = balance s"
  using assms tx_update_base [of env s f i] tx_base_nth [of env s i] balance_update [of i s f]
  by (auto simp: unsettled_def s0_base_def)

lemma tx_done_settled:
  assumes "env_ok env" and "unsettled env i s"
  shows "settled env s (tx_done i s)"
proof -
  let ?s1 = "tx_update i (\<lambda>x. x\<lparr>tx_st := TX_DONE\<rparr>) s"
  let ?x = "tx_sessions ?s1 ! i"
  let ?s2 = "if s_callback ?x \<noteq> 0 then s0_emit (Send_complete (s_callback ?x) (tx_code ?x) (tx_ext_status ?x) (s_session_id ?x)) ?s1 else ?s1"
  let ?f = "\<lambda>x. x\<lparr>conn_info := zero_connection, data_len := 0, use_inclusion_key := False, s_callback := 0, user := 0,
       tx_ext_status := 0, s_session_id := 0, tx_timer := None\<rparr>"
  have i: "i < length (tx_sessions s)" "i < 2" using assms(2) by (simp_all add: unsettled_def s0_base_def)
  have u: "unsettled env i ?s1" "balance ?s1 = balance s"
    using unsettled_update [OF assms(2), of "\<lambda>x. x\<lparr>tx_st := TX_DONE\<rparr>"] by (simp_all add: tx_base_def tx_buffers_ok_def)
  have d: "tx_done i s = tx_update i ?f ?s2" by (simp add: tx_done_def Let_def reset_tx_session_data_def)
  have b2: "s0_base env ?s2" "timed_but i ?s2" "tx_sessions ?s2 = tx_sessions ?s1" using u by (simp_all add: unsettled_def)
  have "tx_base env ?x" using tx_base_nth u(1) i(2) by (auto simp: unsettled_def)
  then have "tx_base env (?f ?x)" using assms(1) by (simp add: tx_base_def tx_buffers_ok_def env_ok_def zero_connection_def)
  then have "s0_base env (tx_update i ?f ?s2)" using tx_update_base [OF b2(1), of ?f i] b2(3) by simp
  moreover have "timed (tx_update i ?f ?s2)"
    using timed_but_all [of i "tx_update i ?f ?s2"] b2 i by (simp add: zero_connection_def)
  moreover have "balance (tx_update i ?f ?s2) = balance s"
  proof -
    have a: "sum_list (map awaiting ((tx_sessions ?s1)[i := ?f ?x])) + awaiting ?x = sum_list (map awaiting (tx_sessions ?s1))"
      using sum_awaiting_update [of i "tx_sessions ?s1" "?f ?x"] i by (simp add: awaiting_def)
    have b: "answered ?s2 = answered ?s1 + awaiting ?x" by (simp add: awaiting_def)
    have c: "tx_sessions (tx_update i ?f ?s2) = (tx_sessions ?s1)[i := ?f ?x]" using b2(3) by (simp add: tx_update_def)
    have "answered (tx_update i ?f ?s2) = answered ?s2" by (simp add: answered_def)
    then have "balance (tx_update i ?f ?s2) = balance ?s1"
      unfolding balance_def c b a [symmetric] by (simp only: ac_simps)
    with u(2) show ?thesis by simp
  qed
  ultimately show ?thesis by (simp add: settled_def s0_inv_def d)
qed

lemma tx_failed_settled: "env_ok env \<Longrightarrow> unsettled env i s \<Longrightarrow> settled env s (tx_failed i s)"
  using unsettled_update [of env i s "\<lambda>x. x\<lparr>tx_code := TRANSMIT_COMPLETE_FAIL\<rparr>"] tx_done_settled
  by (simp add: tx_failed_def settled_def tx_base_def tx_buffers_ok_def)

lemma start_tx_timer_settled: "unsettled env i s \<Longrightarrow> settled env s (start_tx_timer i s)"
  using unsettled_update [of env i s "\<lambda>x. x\<lparr>tx_timer := Some NONCE_REQUEST_TIMER\<rparr>"] timed_but_all [of i "start_tx_timer i s"]
  by (auto simp: start_tx_timer_def settled_def s0_inv_def tx_base_def tx_buffers_ok_def unsettled_def s0_base_def)

lemma unsettled_emit: "answered_by x = {#} \<Longrightarrow> unsettled env i s \<Longrightarrow> unsettled env i (s0_emit x s) \<and> balance (s0_emit x s) = balance s"
  by (simp add: unsettled_def balance_def)

lemma session_send_settled:
  assumes "env_ok env" and "unsettled env i s"
  shows "settled env s (session_send env i frame n s)"
proof -
  let ?s = "s0_emit (Tx_send (session_connection (tx_sessions s ! i)) frame (session_options n (tx_sessions s ! i)) (Session_callback i)) s"
  have "unsettled env i ?s" "balance ?s = balance s" using unsettled_emit assms(2) by auto
  then show ?thesis
    using tx_failed_settled [OF assms(1), of i ?s] start_tx_timer_settled [of env i ?s]
    by (simp add: session_send_def zwave_tx_send_data_def Let_def settled_def)
qed

section \<open>Nonces\<close>

lemma internal_changes [simp]:
  "s0_base env (s\<lparr>drbg := m\<rparr>) = s0_base env s" "timed_but i (s\<lparr>drbg := m\<rparr>) = timed_but i s" "balance (s\<lparr>drbg := m\<rparr>) = balance s"
  "s0_base env (s\<lparr>aes_key := k, aes_iv := v\<rparr>) = s0_base env s" "timed_but i (s\<lparr>aes_key := k, aes_iv := v\<rparr>) = timed_but i s"
  "balance (s\<lparr>aes_key := k, aes_iv := v\<rparr>) = balance s" "timed (s\<lparr>drbg := m\<rparr>) = timed s" "timed (s\<lparr>aes_key := k, aes_iv := v\<rparr>) = timed s"
  "s0_base env (s\<lparr>sm := y\<rparr>) = s0_base env s" "timed_but i (s\<lparr>sm := y\<rparr>) = timed_but i s" "balance (s\<lparr>sm := y\<rparr>) = balance s" "timed (s\<lparr>sm := y\<rparr>) = timed s"
  by (simp_all add: s0_base_def nonces_ok_def rx_ok_def keys_ok_def timed_but_def timed_def balance_def answered_def)

lemma nonce_clear_sel [simp]:
  "tx_sessions (nonce_clear a b s) = tx_sessions s" "rxsessions (nonce_clear a b s) = rxsessions s" "s0_out (nonce_clear a b s) = s0_out s"
  "nonce_timer (nonce_clear a b s) = nonce_timer s" "s0_clock (nonce_clear a b s) = s0_clock s" "keys_ok (nonce_clear a b s) = keys_ok s"
  by (simp_all add: nonce_clear_def keys_ok_def)

lemma nonces_ok_clear: "nonces_ok s \<Longrightarrow> nonces_ok (nonce_clear a b s)"
  by (auto simp: nonces_ok_def nonce_clear_def)

lemma nonces_ok_register:
  assumes "nonces_ok s" and "8 \<le> length n"
  shows "nonces_ok (snd (register_nonce a b reply n s))"
proof -
  have put: "nonces_ok (restart_s0_timer (s\<lparr>nonce_table := (nonce_table s)[i := e]\<rparr>))" if "length (n_bytes e) = 8" "n_timeout e \<le> 10" for i e
    using assms(1) that set_update_subset_insert [of "nonce_table s" i e]
    by (auto simp: nonces_ok_def restart_s0_timer_def)
  show ?thesis using assms put by (auto simp: register_nonce_def split: option.splits)
qed

text \<open>A change of the nonce table and its timer alone.\<close>

lemma nonce_change:
  assumes "s' = s\<lparr>nonce_table := t, nonce_timer := u\<rparr>" and "nonces_ok s'"
  shows "s0_base env s \<Longrightarrow> s0_base env s'" "timed_but i s' = timed_but i s" "timed s' = timed s" "balance s' = balance s"
  using assms by (simp_all add: s0_base_def rx_ok_def keys_ok_def timed_but_def timed_def balance_def answered_def)

lemma register_change:
  assumes "s0_base env s" and "8 \<le> length n"
  shows "s0_base env (snd (register_nonce a b reply n s))" "timed_but i (snd (register_nonce a b reply n s)) = timed_but i s"
    "timed (snd (register_nonce a b reply n s)) = timed s" "balance (snd (register_nonce a b reply n s)) = balance s"
proof -
  obtain t u where s': "snd (register_nonce a b reply n s) = s\<lparr>nonce_table := t, nonce_timer := u\<rparr>" using register_nonce_state by blast
  have "nonces_ok (snd (register_nonce a b reply n s))" using assms by (intro nonces_ok_register) (simp_all add: s0_base_def)
  note c = nonce_change [OF s' this]
  show "s0_base env (snd (register_nonce a b reply n s))" "timed_but i (snd (register_nonce a b reply n s)) = timed_but i s"
    "timed (snd (register_nonce a b reply n s)) = timed s" "balance (snd (register_nonce a b reply n s)) = balance s"
    using c assms(1) by simp_all
qed

lemma clear_change:
  assumes "s0_base env s"
  shows "s0_base env (nonce_clear a b s)" "timed_but i (nonce_clear a b s) = timed_but i s" "timed (nonce_clear a b s) = timed s" "balance (nonce_clear a b s) = balance s"
proof -
  have s': "nonce_clear a b s = s\<lparr>nonce_table := nonce_table (nonce_clear a b s), nonce_timer := nonce_timer s\<rparr>" by (simp add: nonce_clear_def)
  have "nonces_ok (nonce_clear a b s)" using assms by (intro nonces_ok_clear) (simp add: s0_base_def)
  note c = nonce_change [OF s' this]
  show "s0_base env (nonce_clear a b s)" "timed_but i (nonce_clear a b s) = timed_but i s" "timed (nonce_clear a b s) = timed s" "balance (nonce_clear a b s) = balance s"
    using c assms by simp_all
qed

lemma draw_nonce_total:
  assumes "env_ok env" and "s0_base env s"
  shows "\<exists>block m. draw_nonce env a b s = Some (block, s\<lparr>drbg := m\<rparr>) \<and> length block = 16"
proof -
  let ?B = "(\<lambda>e. n_bytes e ! 0) ` set (nonce_table s)"
  have "card ?B \<le> 15"
    using card_image_le [of "set (nonce_table s)" "\<lambda>e. n_bytes e ! 0"] card_length [of "nonce_table s"] assms(2)
    by (simp add: s0_base_def nonces_ok_def)
  then obtain m where m: "drbg s \<le> m" "drbg_block env m ! 0 \<notin> ?B" using assms(1) unfolding env_ok_def by blast
  then have "get_s0_nonce a b (drbg_block env m ! 0) False s = None" by (force simp: get_s0_nonce_def find_None_iff)
  then obtain block s' where d: "draw_nonce env a b s = Some (block, s')" using draw_nonce_returns [OF m(1)] by fastforce
  with draw_nonce_SomeD [OF d] assms(1) show ?thesis by (auto simp: env_ok_def)
qed

lemma get_s0_nonce_length: "get_s0_nonce a b ri any s = Some n \<Longrightarrow> nonces_ok s \<Longrightarrow> length n = 8"
  by (auto simp: get_s0_nonce_def nonces_ok_def find_Some_iff)

section \<open>Steps of a transmission\<close>

lemma encrypt_unsettled:
  assumes env: "env_ok env" and u: "unsettled env i s"
  shows "returns (\<lambda>(len, s'). unsettled env i s' \<and> balance s' = balance s) (s0_encrypt_message env i pass2 s)"
proof -
  define x where x: "x = tx_sessions s ! i"
  let ?here = "ucast (local_node_id (conn_info x)) :: u8" and ?remote = "ucast (remote_node_id (conn_info x)) :: u8"
  have b: "i < 2" "s0_base env s" "timed_but i s" using u by (simp_all add: unsettled_def)
  then have xb: "tx_buffers_ok x" "radio_ok env (remote_node_id (conn_info x))" "keys_ok s" "nonces_ok s"
    using tx_base_nth [of env s i] by (simp_all add: x tx_base_def s0_base_def)
  have aes: "\<And>b k. length (aes_128 env b k) = 16" using env by (simp add: env_ok_def)
  obtain block m where d: "draw_nonce env ?remote ?here s = Some (block, s\<lparr>drbg := m\<rparr>)" "length block = 16"
    using draw_nonce_total [OF env b(2)] by blast
  have pl: "(unat (part_len env x) + 20 > 158) = False" using part_len_bounds(1) [OF xb(2)] by simp
  show ?thesis
  proof (cases "get_s0_nonce ?remote ?here 0 True s")
    case None
    then have "s0_encrypt_message env i pass2 s = Some (0, s\<lparr>drbg := m\<rparr>)"
      unfolding s0_encrypt_message_def Let_def x [symmetric] by (simp only: pl if_False d(1) bind.bind_lunit prod.case get_s0_nonce_drbg option.case)
    then show ?thesis using b by (simp add: unsettled_def)
  next
    case (Some n)
    note n = get_s0_nonce_length [OF Some xb(4)]
    let ?f = "\<lambda>c y. y\<lparr>crypted_msg := c, data_pos := data_pos y + unat (part_len env x), data_len := data_len y - part_len env x\<rparr>"
    let ?r = "\<lambda>m. snd (register_nonce ?here ?remote True (take 8 block @ n) (nonce_clear ?remote ?here (s\<lparr>drbg := m\<rparr>)))"
    obtain s' c m k v where e: "s0_encrypt_message env i pass2 s = Some (if pass2 \<and> data_len (tx_sessions s' ! i) > 0 then 0 else part_len env x + 20, s')"
      "length c = 158" "s' = tx_update i (?f c) ((?r m)\<lparr>aes_key := k, aes_iv := v\<rparr>)"
      using encrypt_message_spec [OF aes x xb(1,3,2) d Some n, of pass2] by blast
    have cl: "s0_base env (nonce_clear ?remote ?here (s\<lparr>drbg := m\<rparr>))" using clear_change(1) b(2) by simp
    have len: "8 \<le> length (take 8 block @ n)" using d(2) n by simp
    have r: "s0_base env (?r m)" "timed_but i (?r m)" "balance (?r m) = balance s" "tx_sessions (?r m) = tx_sessions s"
      using register_change [OF cl len] clear_change [of env "s\<lparr>drbg := m\<rparr>"] b register_nonce_state [of ?here ?remote True "take 8 block @ n" "nonce_clear ?remote ?here (s\<lparr>drbg := m\<rparr>)"]
      by auto
    have "unat (data_len x - part_len env x) = unat (data_len x) - unat (part_len env x)"
      using part_len_bounds(2) [OF xb(2)] by (simp add: unat_sub word_le_nat_alt)
    then have "tx_base env (?f c x)"
      using e(2) tx_base_nth [OF b(2,1)] part_len_bounds(2) [OF xb(2)] by (auto simp: x [symmetric] tx_base_def tx_buffers_ok_def)
    then have "s0_base env s'" unfolding e(3) using r by (intro tx_update_base) (simp_all add: x)
    moreover have "balance s' = balance s"
      unfolding e(3) using r b(2) by (subst balance_update) (simp_all add: unsettled_def s0_base_def b(1))
    ultimately show ?thesis using e(1,3) r(2) b(1) by (simp add: unsettled_def)
  qed
qed

lemma encrypt_and_send_settled:
  assumes "env_ok env" and "unsettled env i s"
  shows "returns (settled env s) (encrypt_and_send env i pass2 s)"
proof -
  let ?s = "tx_update i (\<lambda>x. x\<lparr>tx_timer := None\<rparr>) s"
  have u: "unsettled env i ?s" "balance ?s = balance s"
    using unsettled_update [OF assms(2), of "\<lambda>x. x\<lparr>tx_timer := None\<rparr>"] by (simp_all add: tx_base_def tx_buffers_ok_def)
  have "returns (\<lambda>(len, s'). settled env s (tx_failed i s') \<and> settled env s (session_send env i (take (unat len) (crypted_msg (tx_sessions s' ! i)))
      (if \<not> pass2 \<and> data_len (tx_sessions s' ! i) > 0 then 1 else 0) s')) (s0_encrypt_message env i pass2 ?s)"
    using encrypt_unsettled [OF assms(1) u(1), of pass2]
    by (rule returns_mono) (use tx_failed_settled [OF assms(1)] session_send_settled [OF assms(1)] u(2) in \<open>auto simp: settled_def\<close>)
  then show ?thesis unfolding encrypt_and_send_def Let_def
    by (auto simp: returns_def split: if_splits)
qed

lemma state_set_settled:
  assumes "env_ok env" and "unsettled env i s"
  shows "returns (settled env s) (tx_session_state_set env i st s)"
proof -
  let ?s = "tx_update i (\<lambda>x. x\<lparr>tx_st := st\<rparr>) s"
  have u: "unsettled env i ?s" "balance ?s = balance s"
    using unsettled_update [OF assms(2), of "\<lambda>x. x\<lparr>tx_st := st\<rparr>"] by (simp_all add: tx_base_def tx_buffers_ok_def)
  have "settled env s = settled env ?s" using u(2) by (intro settled_cong) simp
  then show ?thesis
    using u(1) assms(1) unfolding tx_session_state_set_def Let_def
    by (cases st) (auto intro: session_send_settled start_tx_timer_settled encrypt_and_send_settled tx_done_settled tx_failed_settled)
qed

lemma inv_unsettled: "s0_inv env s \<Longrightarrow> i < 2 \<Longrightarrow> unsettled env i s"
  by (simp add: s0_inv_def unsettled_def timed_all)

lemma s0_timeout_settled:
  assumes "env_ok env" and "unsettled env i s"
  shows "returns (settled env s) (s0_timeout env i s)"
proof -
  let ?s = "tx_update i (\<lambda>x. x\<lparr>tx_code := TRANSMIT_COMPLETE_FAIL\<rparr>) s"
  have "unsettled env i ?s" "balance ?s = balance s"
    using unsettled_update [OF assms(2), of "\<lambda>x. x\<lparr>tx_code := TRANSMIT_COMPLETE_FAIL\<rparr>"] by (simp_all add: tx_base_def tx_buffers_ok_def)
  then show ?thesis using state_set_settled [OF assms(1), of i ?s TX_DONE] settled_cong [of ?s s env] by (simp add: s0_timeout_def)
qed

lemma session_callback_settled:
  assumes "env_ok env" and "s0_inv env s" and "i < 2"
  shows "returns (settled env s) (session_callback env tx_status tx_info i s)"
proof -
  let ?f = "\<lambda>x. x\<lparr>tx_code := tx_status, tx_ext_status := (if tx_info \<noteq> 0 then tx_info else tx_ext_status x)\<rparr>"
  let ?s = "tx_update i ?f s"
  have u: "unsettled env i ?s" "balance ?s = balance s"
    using unsettled_update [OF inv_unsettled [OF assms(2,3)], of ?f] by (simp_all add: tx_base_def tx_buffers_ok_def)
  have l: "i < length (tx_sessions s)" using assms(2,3) by (simp add: s0_inv_def s0_base_def)
  then have "remote_node_id (conn_info (tx_sessions s ! i)) = 0 \<or> tx_timer (tx_sessions s ! i) \<noteq> None"
    using assms(2) unfolding s0_inv_def timed_def by (meson nth_mem)
  then have "timed ?s" using timed_but_all [of i ?s] u(1) l by (simp add: unsettled_def)
  then have "settled env s ?s" using u by (simp add: settled_def s0_inv_def unsettled_def)
  moreover have "settled env s = settled env ?s" using u(2) by (intro settled_cong) simp
  ultimately show ?thesis
    using state_set_settled [OF assms(1) u(1)] unfolding session_callback_def Let_def
    by (auto split: tx_state.split)
qed

section \<open>Requests and nonce reports\<close>

definition request_ok :: "s0_env \<Rightarrow> tx_request \<Rightarrow> bool" where
  "request_ok env r \<longleftrightarrow> remote_node_id (tx_connection r) \<noteq> 0 \<and> radio_ok env (remote_node_id (tx_connection r))"

lemma send_data_spec:
  assumes "env_ok env" and "s0_inv env s" and "request_ok env r"
  shows "returns (\<lambda>(rc, s'). s0_inv env s' \<and>
      balance s' = balance s + (if rc = SL_STATUS_OK \<and> tx_on_send_complete r \<noteq> 0 then {#tx_on_send_complete r#} else {#})) (zwave_s0_send_data env r s)"
proof -
  let ?c = "tx_connection r" and ?n = "of_nat (length (tx_data r)) :: u8"
  consider "encapsulation ?c \<noteq> SECURITY_0 \<or> (\<not> remote_is_multicast ?c \<and> (get_tx_session_by_node (ucast (local_node_id ?c)) (ucast (remote_node_id ?c)) s \<noteq> None \<or>
        first_index (\<lambda>x. remote_node_id (conn_info x) = 0) (tx_sessions s) = None))"
    | "encapsulation ?c = SECURITY_0" "remote_is_multicast ?c"
    | i where "encapsulation ?c = SECURITY_0" "\<not> remote_is_multicast ?c" "get_tx_session_by_node (ucast (local_node_id ?c)) (ucast (remote_node_id ?c)) s = None"
        "first_index (\<lambda>x. remote_node_id (conn_info x) = 0) (tx_sessions s) = Some i" by fastforce
  then show ?thesis
  proof cases
    case 1
    then show ?thesis using assms(2) by (auto simp: zwave_s0_send_data_def Let_def)
  next
    case 2
    then show ?thesis using assms(2) by (auto simp: zwave_s0_send_data_def Let_def s0_inv_def balance_def)
  next
    case (3 i)
    have i: "i < 2" "remote_node_id (conn_info (tx_sessions s ! i)) = 0" using first_index_SomeD [OF 3(4)] assms(2) by (simp_all add: s0_inv_def s0_base_def)
    let ?x = "tx_sessions s ! i"
    have x: "tx_base env ?x" "s_callback ?x = 0" using tx_base_nth [of env s i] assms(2) i by (auto simp: s0_inv_def tx_base_def)
    have n: "unat ?n \<le> length (tx_data r)" "unat ?n \<le> 256" by (auto simp: unat_of_nat)
    then obtain b where b: "write_bytes (buf ?x) 0 (tx_data r) (unat ?n) = Some b" "length b = 256"
      using x(1) by (auto simp: write_bytes_def tx_base_def tx_buffers_ok_def)
    let ?f = "\<lambda>x. x\<lparr>s_session_id := tx_parent_session r, conn_info := ?c, buf := b, data_pos := 0, data_len := ?n,
        use_inclusion_key := (?n \<ge> 2 \<and> b ! 0 = COMMAND_CLASS_SECURITY \<and> b ! 1 = NETWORK_KEY_SET),
        s_callback := tx_on_send_complete r, user := tx_user r, seq := last_seq s + 1\<rparr>"
    let ?q = "s\<lparr>last_seq := last_seq s + 1\<rparr>"
    let ?s = "tx_update i ?f ?q"
    have base0: "s0_base env ?q" "timed_but i ?q" "balance ?q = balance s"
      using assms(2) timed_all [of s i] by (simp_all add: s0_inv_def s0_base_def nonces_ok_def rx_ok_def keys_ok_def timed_but_def balance_def answered_def)
    have "tx_base env (?f ?x)" using x(1) assms(3) b(2) n(2) by (simp add: tx_base_def tx_buffers_ok_def request_ok_def)
    then have u: "unsettled env i ?s" using tx_update_base [OF base0(1), of ?f i] base0(2) i(1) by (simp add: unsettled_def)
    have bal: "balance ?s = balance s + (if tx_on_send_complete r \<noteq> 0 then {#tx_on_send_complete r#} else {#})"
    proof -
      have a: "awaiting ?x = {#}" "awaiting (?f ?x) = (if tx_on_send_complete r \<noteq> 0 then {#tx_on_send_complete r#} else {#})"
        using x(2) by (simp_all add: awaiting_def)
      have "sum_list (map awaiting ((tx_sessions s)[i := ?f ?x])) = sum_list (map awaiting (tx_sessions s)) + awaiting (?f ?x)"
        using sum_awaiting_update [of i "tx_sessions s" "?f ?x"] i assms(2) a(1) by (simp add: s0_inv_def s0_base_def)
      moreover have "tx_sessions ?s = (tx_sessions s)[i := ?f ?x]" "answered ?s = answered s" by (simp_all add: tx_update_def answered_def)
      ultimately show ?thesis unfolding a(2) [symmetric] balance_def by (simp only: add.assoc)
    qed
    have "returns (settled env ?s) (tx_session_state_set env i NONCE_GET ?s)" using state_set_settled [OF assms(1) u] .
    then show ?thesis
      using 3 b(1) bal by (auto simp: zwave_s0_send_data_def Let_def get_seq_def returns_def settled_def)
  qed
qed

lemma block_nonce_sel [simp]:
  "tx_sessions (s0_block_nonce a b n s) = tx_sessions s" "timed_but i (s0_block_nonce a b n s) = timed_but i s" "timed (s0_block_nonce a b n s) = timed s"
  "balance (s0_block_nonce a b n s) = balance s" "s0_base env s \<Longrightarrow> s0_base env (s0_block_nonce a b n s)" "nonce_table (s0_block_nonce a b n s) = nonce_table s"
  "s0_out (s0_block_nonce a b n s) = s0_out s"
  by (auto simp: s0_block_nonce_def timed_but_def timed_def balance_def answered_def s0_base_def nonces_ok_def rx_ok_def keys_ok_def)

lemma s0_register_nonce_settled:
  assumes "env_ok env" and "s0_inv env s" and "length n = 8"
  shows "returns (settled env s) (s0_register_nonce env a b n s)"
proof (cases "s0_is_nonce_blocked a b n s \<or> get_tx_session_by_node b a s = None")
  case True
  then show ?thesis using assms(2) by (auto simp: s0_register_nonce_def settled_def split: option.split)
next
  case False
  then obtain i where i: "\<not> s0_is_nonce_blocked a b n s" "get_tx_session_by_node b a s = Some i" by auto
  let ?s = "s0_block_nonce a b n (snd (register_nonce a b False n s))"
  have "i < 2" using first_index_SomeD [OF i(2) [unfolded get_tx_session_by_node_def]] assms(2) by (simp add: s0_inv_def s0_base_def)
  moreover have b: "s0_base env ?s" "timed ?s" "balance ?s = balance s"
    using register_change [where env = env and s = s and n = n and a = a and b = b and reply = False] assms(2,3) by (simp_all add: s0_inv_def)
  ultimately have u: "unsettled env i ?s" using timed_all by (simp add: unsettled_def)
  moreover have "settled env s = settled env ?s" using b(3) by (intro settled_cong) simp
  moreover have "settled env s ?s" using b by (simp add: settled_def s0_inv_def)
  ultimately show ?thesis
    using i state_set_settled [OF assms(1) u] by (simp add: s0_register_nonce_def Let_def)
qed

section \<open>Reception\<close>

lemma rx_update_ok:
  assumes "s0_inv env s" and "length (msg (f (rxsessions s ! j))) = 128" and "unat (msg_len (f (rxsessions s ! j))) \<le> 128"
  shows "settled env s (rx_update j f s)"
  using assms set_update_subset_insert [of "rxsessions s" j "f (rxsessions s ! j)"]
  by (auto simp: settled_def s0_inv_def s0_base_def rx_ok_def rx_update_def nonces_ok_def keys_ok_def timed_def balance_def answered_def)

lemma settled_trans: "settled env s s' \<Longrightarrow> settled env s' s'' \<Longrightarrow> settled env s s''"
  by (simp add: settled_def)

lemma settled_refl: "s0_inv env s \<Longrightarrow> settled env s s"
  by (simp add: settled_def)

lemma settled_inv: "settled env s s' \<Longrightarrow> s0_inv env s'"
  by (simp add: settled_def)

lemma rx_nth: "s0_inv env s \<Longrightarrow> j < 2 \<Longrightarrow> length (msg (rxsessions s ! j)) = 128 \<and> unat (msg_len (rxsessions s ! j)) \<le> 128"
  by (simp add: s0_inv_def s0_base_def rx_ok_def)

lemma rx_session_for_settled:
  assumes "s0_inv env s" and "rx_session_for a b s = Some (j, s')"
  shows "settled env s s' \<and> j < 2"
proof -
  have "length (rxsessions s) = 2" using assms(1) by (simp add: s0_inv_def s0_base_def rx_ok_def)
  then have j: "j < 2"
    using assms(2) by (auto simp: rx_session_for_def get_rx_session_by_nodes_def new_rx_session_def dest: first_index_SomeD split: option.splits)
  show ?thesis
  proof (cases "get_rx_session_by_nodes a b s")
    case None
    let ?s = "rx_update j (\<lambda>e. e\<lparr>snode := a, dnode := b, rx_timeout := s0_clock s + 10000\<rparr>) s"
    have s: "settled env s ?s" using rx_nth [OF assms(1) j] assms(1) by (intro rx_update_ok) simp_all
    have "settled env ?s (rx_update j (\<lambda>e. e\<lparr>rx_st := RX_INIT\<rparr>) ?s)"
      using rx_nth [OF settled_inv [OF s] j] s by (intro rx_update_ok) (simp_all add: settled_def)
    with s None assms(2) j show ?thesis by (auto simp: rx_session_for_def new_rx_session_def intro: settled_trans)
  qed (use assms j in \<open>simp add: rx_session_for_def settled_refl\<close>)
qed

lemma free_rx_settled:
  assumes "s0_inv env s" and "j < 2"
  shows "settled env s (free_rx_session j s)"
  unfolding free_rx_session_def using rx_nth [OF assms] assms(1) by (intro rx_update_ok) simp_all

lemma rx_payload_settled:
  assumes "s0_inv env s" and "j < 2" and "payload \<noteq> []" and "length payload \<le> 129"
    and "rx_st (rxsessions s ! j) \<noteq> RX_INIT \<Longrightarrow> unat (msg_len (rxsessions s ! j)) + length payload \<le> 129"
  shows "returns (\<lambda>(d, s'). settled env s s') (rx_payload j payload s)"
proof -
  let ?content = "drop 1 payload"
  have l: "length ?content \<le> 128" using assms(4) by simp
  note r = rx_nth [OF assms(1,2)]
  have w: "write_bytes (msg (rxsessions s ! j)) 0 ?content (length ?content) = Some (?content @ drop (length ?content) (msg (rxsessions s ! j)))"
    using r l by (simp add: write_bytes_def)
  have m: "unat (of_nat (length ?content) :: u8) = length ?content" unfolding unat_of_nat using l by simp
  have first: "settled env s (rx_update j (\<lambda>e. e\<lparr>seq_nr := q, msg_len := of_nat (length ?content), rx_st := RX_ENC1, msg := ?content @ drop (length ?content) (msg (rxsessions s ! j))\<rparr>) s)" for q
    using rx_update_ok [OF assms(1), of "\<lambda>e. e\<lparr>seq_nr := q, msg_len := of_nat (length ?content), rx_st := RX_ENC1, msg := ?content @ drop (length ?content) (msg (rxsessions s ! j))\<rparr>" j]
      r l m by simp
  have second: "settled env s (free_rx_session j (rx_update j (\<lambda>e. e\<lparr>rx_st := RX_ENC2\<rparr>) s))"
    using rx_update_ok [OF assms(1), of "\<lambda>e. e\<lparr>rx_st := RX_ENC2\<rparr>" j] r free_rx_settled [OF _ assms(2)] settled_trans settled_inv by auto
  have room: "rx_st (rxsessions s ! j) = RX_ENC1 \<Longrightarrow> \<not> unat (msg_len (rxsessions s ! j)) + length ?content > 128" using assms(3,5) by (cases payload) auto
  show ?thesis
    unfolding rx_payload_def Let_def
    using w first second room l settled_refl [OF assms(1)] free_rx_settled [OF assms(1,2)] by simp
qed

lemma aes_change: "settled env s (s\<lparr>aes_key := k, aes_iv := v\<rparr>) = s0_inv env s" "s0_inv env (s\<lparr>aes_key := k, aes_iv := v\<rparr>) = s0_inv env s"
  by (simp_all add: settled_def s0_inv_def)

lemma decrypt_settled:
  assumes "s0_inv env s" and "unat (n AND 0xff) \<le> 158" and "unat (n AND 0xff) \<le> length frame"
  shows "returns (\<lambda>(d, s'). settled env s s') (s0_decrypt_message env c frame n s)"
proof -
  let ?n = "unat (n AND 0xff)" and ?here = "ucast (local_node_id c) :: u8" and ?remote = "ucast (remote_node_id c) :: u8"
  let ?F = "take ?n frame" and ?s = "nonce_clear ?here ?remote s"
  show ?thesis
  proof (cases "?n < 20 \<or> ?n - 20 > 128 \<or> get_s0_nonce ?here ?remote (?F ! (?n - 9)) False s = None")
    case True
    then show ?thesis using assms settled_refl [OF assms(1)] unfolding s0_decrypt_message_def Let_def by auto
  next
    case False
    then obtain rn where n: "20 \<le> ?n" "?n \<le> 148" "get_s0_nonce ?here ?remote (?F ! (?n - 9)) False s = Some rn" by auto
    have cl: "settled env s ?s" using clear_change [where env = env and s = s and a = ?here and b = ?remote] assms(1) by (simp add: settled_def s0_inv_def)
    show ?thesis
    proof (cases "rx_session_for ?remote ?here ?s")
      case None
      with n assms cl settled_refl [OF assms(1)] show ?thesis unfolding s0_decrypt_message_def Let_def by simp
    next
      case (Some p)
      then obtain j s1 where p: "rx_session_for ?remote ?here ?s = Some (j, s1)" by (cases p) auto
      with rx_session_for_settled [of env ?s] cl have s1: "settled env s s1" "j < 2" using settled_trans settled_inv by blast+
      let ?busy = "rx_st (rxsessions s1 ! j) \<noteq> RX_INIT \<and> unat (msg_len (rxsessions s1 ! j)) + ?n - 20 > 128"
      let ?enc = "take (?n - 19) (drop 10 ?F)" and ?iv = "take 8 (drop 2 ?F) @ rn"
      have le: "length ?enc = ?n - 19" using n(1) assms(3) by simp
      let ?t = "aes_set_key_tpt (enckey (aes_set_key_tpt (authkey s1) ?iv s1)) ?iv (aes_set_key_tpt (authkey s1) ?iv s1)"
      obtain v where v: "snd (aes_ofb env ?enc ?t) = ?t\<lparr>aes_iv := v\<rparr>" using aes_ofb_state by blast
      obtain p' where p': "fst (aes_ofb env ?enc ?t) = p'" by blast
      have lp: "length p' = ?n - 19" unfolding p' [symmetric] aes_ofb_eq length_ofb by (rule le)
      obtain k' where t: "?t\<lparr>aes_iv := v\<rparr> = s1\<lparr>aes_key := k', aes_iv := v\<rparr>" by (simp add: aes_set_key_tpt_def)
      have "\<not> ?busy \<Longrightarrow> returns (\<lambda>(d, s'). settled env (s1\<lparr>aes_key := k', aes_iv := v\<rparr>) s') (rx_payload j p' (s1\<lparr>aes_key := k', aes_iv := v\<rparr>))"
        using s1 n lp by (intro rx_payload_settled) (auto simp: aes_change settled_inv)
      then have pay: "\<not> ?busy \<Longrightarrow> returns (\<lambda>(d, s'). settled env s s') (rx_payload j p' (s1\<lparr>aes_key := k', aes_iv := v\<rparr>))"
        by (rule returns_mono) (use s1(1) in \<open>auto simp: settled_def\<close>)
      have ofb: "aes_ofb env ?enc ?t = (p', s1\<lparr>aes_key := k', aes_iv := v\<rparr>)" using v t p' by (metis prod.collapse)
      have w: "\<exists>b. write_bytes (replicate 152 0) 4 ?enc (?n - 19) = Some b \<and> (\<exists>b'. write_bytes b 0 [?F ! 1, ?remote, ?here, of_nat (?n - 19)] 4 = Some b')"
        using n le by (simp add: write_bytes_def)
      then obtain b b' where b: "write_bytes (replicate 152 0) 4 ?enc (?n - 19) = Some b" "write_bytes b 0 [?F ! 1, ?remote, ?here, of_nat (?n - 19)] 4 = Some b'" by blast
      have mid: "settled env s (aes_set_key_tpt (authkey s1) ?iv s1)" using s1(1) by (simp add: aes_set_key_tpt_def settled_def aes_change s0_inv_def)
      have lens: "(?n > 158 \<or> ?n > length frame) = False" "(?n < 20) = False" "(?n - 20 > 128) = False" using n assms by auto
      show ?thesis
        unfolding s0_decrypt_message_def Let_def
        by (simp only: lens if_False n(3) option.case p prod.case b bind.bind_lunit ofb)
           (rule returns_ifI, rule returns_SomeI, simp only: prod.case, rule s1(1), rule returns_ifI, rule returns_SomeI,
             simp only: prod.case, rule mid, rule pay, assumption)
    qed
  qed
qed

lemma send_nonce_settled:
  assumes "env_ok env" and "s0_inv env s"
  shows "returns (settled env s) (s0_send_nonce env c s)"
proof -
  obtain block m where d: "draw_nonce env (ucast (local_node_id c)) (ucast (remote_node_id c)) s = Some (block, s\<lparr>drbg := m\<rparr>)" "length block = 16"
    using draw_nonce_total [OF assms(1)] assms(2) unfolding s0_inv_def by blast
  let ?s = "\<lambda>x. s0_emit x (s\<lparr>drbg := m\<rparr>)"
  have e: "settled env s (?s (Tx_send c' frame opts cb))" "s0_base env (?s (Tx_send c' frame opts cb))" for c' frame opts cb
    using assms(2) by (simp_all add: settled_def s0_inv_def balance_def) (simp add: answered_def)
  have "settled env s (snd (register_nonce a b False (take 8 block) (?s (Tx_send c' frame opts cb))))" for a b c' frame opts cb
    using register_change [OF e(2), where n = "take 8 block" and a = a and b = b and reply = False] e(1) [of c' frame opts cb] d(2) by (simp add: settled_def s0_inv_def)
  then show ?thesis using d(1) e(1) by (simp add: s0_send_nonce_def Let_def zwave_tx_send_data_def)
qed

section \<open>Bootstrapping\<close>

text \<open>The state machine changes only itself, the keys and the output; it answers no request and hands on no frame.\<close>

fun is_delivery :: "s0_output \<Rightarrow> bool" where
  "is_delivery (On_frame_received c d) = True"
| "is_delivery _ = False"

definition deliveries :: "s0 \<Rightarrow> s0_output list" where
  "deliveries s = filter is_delivery (s0_out s)"

definition sm_effect :: "s0 \<Rightarrow> s0 \<Rightarrow> bool" where
  "sm_effect s s' \<longleftrightarrow>
     tx_sessions s' = tx_sessions s \<and> nonce_table s' = nonce_table s \<and> nonce_timer s' = nonce_timer s \<and> rxsessions s' = rxsessions s \<and>
     s0_clock s' = s0_clock s \<and> nonce_block_list s' = nonce_block_list s \<and> block_next_elem s' = block_next_elem s \<and>
     s0_on_bootstrapping_complete_callback s' = s0_on_bootstrapping_complete_callback s \<and> (keys_ok s \<longrightarrow> keys_ok s') \<and> answered s' = answered s \<and>
     drbg s' = drbg s \<and> deliveries s' = deliveries s"

lemma sm_effect_refl: "sm_effect s s"
  by (simp add: sm_effect_def)

lemma sm_effect_trans: "sm_effect s s' \<Longrightarrow> sm_effect s' s'' \<Longrightarrow> sm_effect s s''"
  by (simp add: sm_effect_def)

lemma sm_effect_settled: "sm_effect s s' \<Longrightarrow> s0_inv env s \<Longrightarrow> settled env s s'"
  by (simp add: sm_effect_def settled_def s0_inv_def s0_base_def nonces_ok_def rx_ok_def timed_def balance_def)

lemma with_sm_effect: "sm_effect s (with_sm f s)"
  by (simp add: sm_effect_def with_sm_def keys_ok_def answered_def deliveries_def)

lemma emit_effect: "answered_by x = {#} \<Longrightarrow> \<not> is_delivery x \<Longrightarrow> sm_effect s (s0_emit x s)"
  by (simp add: sm_effect_def s0_emit_def keys_ok_def answered_def deliveries_def)

lemma set_key_effect: "env_ok env \<Longrightarrow> sm_effect s (s0_set_key env key s)"
  by (simp add: sm_effect_def s0_set_key_def Let_def keys_ok_def answered_def deliveries_def aes_encrypt_def env_ok_def)

lemma sm_reset_effect: "sm_effect s (s\<lparr>sm := y\<rparr>)"
  by (simp add: sm_effect_def keys_ok_def answered_def deliveries_def)

lemma complete_effect: "sm_effect s (bootstrapping_complete k f s)"
  by (simp add: bootstrapping_complete_def emit_effect sm_effect_refl)

lemma abort_effect: "sm_effect s (s0_abort_bootstrap s)"
  unfolding s0_abort_bootstrap_def by (rule sm_effect_trans [OF complete_effect sm_reset_effect])

lemma generic_send_effect: "sm_effect s (snd (s0_bootstrap_frames_generic_send env en frame s))"
  unfolding s0_bootstrap_frames_generic_send_def zwave_tx_send_data_def Let_def snd_conv
  by (rule sm_effect_trans [OF with_sm_effect emit_effect]) simp_all

lemma key_set_effect: "env_ok env \<Longrightarrow> sm_effect s (snd (s0_send_key_set env s))"
  by (auto simp: s0_send_key_set_def Let_def intro: sm_effect_trans set_key_effect generic_send_effect split: option.split)

lemmas sm_effects = sm_effect_refl with_sm_effect set_key_effect sm_reset_effect complete_effect abort_effect generic_send_effect key_set_effect

interpretation sm_frame: sm_relation env "\<lambda>s s'. env_ok env \<longrightarrow> sm_effect s s'" for env
  by unfold_locales
    (auto intro: sm_effects sm_effect_trans simp: s0_send_scheme_get_def s0_send_scheme_inherit_def reset_s0_sm_def)

lemma process_event_effect: "env_ok env \<Longrightarrow> sm_effect s (s0_sm_process_event env ev s)"
  using sm_frame.process_event by blast

lemma process_after: "env_ok env \<Longrightarrow> sm_effect s s' \<Longrightarrow> sm_effect s (s0_sm_process_event env ev s')"
  by (rule sm_effect_trans [OF _ process_event_effect])

lemma interface_effects:
  assumes "env_ok env"
  shows "sm_effect s (s0_bootstrap_timeout env s)" "sm_effect s (s0_send_data_callback env st s)" "sm_effect s (s0_bootstrapping_start env a b c s)"
    "sm_effect s (s0_scheme_report_received env x n s)" "sm_effect s (s0_network_key_verify_received env n s)" "sm_effect s (s0_bootstrapping_stop s)"
proof -
  note e = process_after [OF assms] sm_effects sm_effect_trans [OF _ with_sm_effect]
  show "sm_effect s (s0_bootstrap_timeout env s)" "sm_effect s (s0_send_data_callback env st s)"
    "sm_effect s (s0_scheme_report_received env x n s)" "sm_effect s (s0_network_key_verify_received env n s)" "sm_effect s (s0_bootstrapping_stop s)"
    by (auto simp: s0_bootstrap_timeout_def s0_send_data_callback_def s0_scheme_report_received_def s0_network_key_verify_received_def
        s0_bootstrapping_stop_def reset_s0_sm_def intro: e)
  show "sm_effect s (s0_bootstrapping_start env a b c s)"
    unfolding s0_bootstrapping_start_def Let_def reset_s0_sm_def by (auto intro!: e)
qed

section \<open>Every input\<close>

lemma inv_emit: "s0_inv env (s0_emit x s) = s0_inv env s"
  by (simp add: s0_inv_def)

lemma settled_emit: "answered_by x = {#} \<Longrightarrow> settled env s (s0_emit x s') = settled env s s'"
  by (simp add: settled_def inv_emit balance_def)

lemma handler_settled:
  assumes "env_ok env" and "s0_inv env s" and "frame \<noteq> []" and "hd frame = COMMAND_CLASS_SECURITY \<Longrightarrow> 2 \<le> length frame" and "length frame < 65536"
  shows "returns (\<lambda>(rc, s'). settled env s s') (zwave_s0_on_frame_received env c frame s)"
proof -
  have l: "unat (of_nat (length frame) :: u16) = length frame" unfolding unat_of_nat using assms(5) by simp
  have r0: "read_cell frame 0 = Some (hd frame)" using assms(3) by (simp add: read_cell_def hd_conv_nth)
  note refl = settled_refl [OF assms(2)]
  show ?thesis
  proof (cases "length frame > 158 \<or> hd frame \<noteq> COMMAND_CLASS_SECURITY")
    case True
    then show ?thesis using refl r0 unfolding zwave_s0_on_frame_received_def s0_application_command_handler_def l by auto
  next
    case False
    then have f: "length frame \<le> 158" "hd frame = COMMAND_CLASS_SECURITY" "2 \<le> length frame" using assms(4) by auto
    let ?buf = "frame @ replicate (158 - length frame) 0"
    have w: "write_bytes (replicate 158 0) 0 frame (length frame) = Some ?buf" using f by (simp add: write_bytes_def)
    have r1: "read_cell frame 1 = Some (frame ! 1)" using f(3) by (simp add: read_cell_def)
    have n: "(length frame > 158) = False" using f by simp
    have sm: "settled env s (s0_scheme_report_received env x n s)" "settled env s (s0_network_key_verify_received env n s)" for x n
      using interface_effects(4,5) [OF assms(1)] sm_effect_settled assms(2) by blast+
    have dec: "returns (\<lambda>(d, s'). settled env s s') (s0_decrypt_message env c ?buf (of_nat (length frame)) s)"
    proof (rule decrypt_settled [OF assms(2)])
      have "unat ((of_nat (length frame) :: u16) AND 0xff) \<le> unat (of_nat (length frame) :: u16)" using word_and_le1 word_le_nat_alt by (metis and.commute)
      then show "unat ((of_nat (length frame) :: u16) AND 0xff) \<le> 158" "unat ((of_nat (length frame) :: u16) AND 0xff) \<le> length ?buf" using l f(1) by simp_all
    qed
    have rep: "10 \<le> (of_nat (length frame) :: u16) \<Longrightarrow> length (take 8 (drop 2 frame)) = 8" using l by (simp add: word_le_nat_alt)
    have nonce: "returns (settled env s) (s0_register_nonce env a b (take 8 (drop 2 frame)) s)" if "10 \<le> (of_nat (length frame) :: u16)" for a b
      using s0_register_nonce_settled [OF assms(1,2) rep [OF that]] .
    have tx: "settled env s (snd (zwave_tx_send_data env c' fr opts cb s))" for c' fr opts cb
      using refl by (simp add: zwave_tx_send_data_def Let_def settled_emit)
    have ret: "returns (\<lambda>(rc, s'). settled env s s') (Option.bind (s0_send_nonce env c s) (\<lambda>s. Some (SL_STATUS_OK, s)))"
      using send_nonce_settled [OF assms(1,2), of c] by (auto simp: returns_def)
    have reg: "10 \<le> (of_nat (length frame) :: u16) \<Longrightarrow> returns (\<lambda>(rc, s'). settled env s s') (Option.bind (s0_register_nonce env a b (take 8 (drop 2 frame)) s) (\<lambda>s. Some (SL_STATUS_OK, s)))" for a b
      using nonce [of a b] by (auto simp: returns_def)
    have enc: "returns (\<lambda>(rc, s'). settled env s s') (Option.bind (s0_decrypt_message env c ?buf (of_nat (length frame)) s)
        (\<lambda>(d, s). Some (if d \<noteq> [] then (SL_STATUS_OK, s0_emit (On_frame_received (c\<lparr>encapsulation := SECURITY_0\<rparr>) d) s) else (SL_STATUS_FAIL, s))))"
      using dec by (auto simp: returns_def settled_emit)
    show ?thesis
      unfolding zwave_s0_on_frame_received_def s0_application_command_handler_def l
      by (simp only: n if_False r0 r1 w bind.bind_lunit f(2) simp_thms)
        (intro returns_ifI returns_SomeI; simp only: prod.case refl sm tx ret reg enc conjunct2 simp_thms)
  qed
qed

lemma abort_settled:
  assumes "env_ok env" and "s0_inv env s"
  shows "returns (\<lambda>(rc, s'). settled env s s') (zwave_s0_on_abort_send_data env sid s)"
proof (cases "first_index (\<lambda>x. s_session_id x = sid) (tx_sessions s)")
  case (Some i)
  then have "i < 2" using first_index_SomeD [OF Some] assms(2) by (simp add: s0_inv_def s0_base_def)
  from session_callback_settled [OF assms this, of TRANSMIT_COMPLETE_FAIL "tx_ext_status (tx_sessions s ! i)"] Some show ?thesis by (auto simp: zwave_s0_on_abort_send_data_def returns_def)
qed (simp add: zwave_s0_on_abort_send_data_def settled_refl [OF assms(2)])

lemma nonce_tick_settled:
  assumes "s0_inv env s"
  shows "settled env s (nonce_timer_timeout (s\<lparr>nonce_timer := None\<rparr>))"
proof -
  let ?s' = "nonce_timer_timeout (s\<lparr>nonce_timer := None\<rparr>)"
  let ?g = "\<lambda>e. if n_timeout e > 0 then e\<lparr>n_timeout := n_timeout e - 1\<rparr> else e"
  have t: "nonce_table ?s' = map ?g (nonce_table s)" "nonce_timer ?s' = (if list_ex (\<lambda>e. n_timeout e > 0) (nonce_table ?s') then Some 1000 else None)"
    by (simp_all add: nonce_timer_timeout_def Let_def)
  have "v - 1 \<le> 10" if "v \<le> 10" "0 < v" for v :: u8
    using that by (simp add: word_le_nat_alt unat_minus_one word_gt_0)
  then have "\<forall>e \<in> set (nonce_table ?s'). length (n_bytes e) = 8 \<and> n_timeout e \<le> 10"
    using assms unfolding t(1) by (auto simp: s0_inv_def s0_base_def nonces_ok_def)
  moreover have "n_timeout e > 0 \<longrightarrow> nonce_timer ?s' \<noteq> None" if "e \<in> set (nonce_table ?s')" for e
    using that unfolding t(2) by (auto simp: list_ex_iff)
  moreover have "length (nonce_table ?s') = 15" using assms unfolding t(1) by (simp add: s0_inv_def s0_base_def nonces_ok_def)
  ultimately have n: "nonces_ok ?s'" by (simp add: nonces_ok_def)
  have e: "?s' = s\<lparr>nonce_table := nonce_table ?s', nonce_timer := nonce_timer ?s'\<rparr>" by (simp add: nonce_timer_timeout_def Let_def)
  show ?thesis using nonce_change(1,3,4) [OF e n] assms unfolding settled_def s0_inv_def by blast
qed

lemma zero_session_base: "env_ok env \<Longrightarrow> tx_base env zero_tx_session"
  by (simp add: tx_base_def zero_tx_session_def tx_buffers_ok_def env_ok_def zero_connection_def)

lemma tx_failed_sessions:
  "i < length (tx_sessions s) \<Longrightarrow> \<exists>x. tx_sessions (tx_failed i s) = (tx_sessions s)[i := x] \<and> s_callback x = 0"
  by (simp add: tx_failed_def tx_done_def Let_def reset_tx_session_data_def tx_update_def s0_emit_def)
     (intro conjI impI; rule exI, rule conjI, rule refl, simp)

definition abort_session :: "nat \<Rightarrow> s0 \<Rightarrow> s0" where
  "abort_session i s = (if remote_node_id (conn_info (tx_sessions s ! i)) \<noteq> 0 then tx_failed i s else s)"

lemma abort_session_settled:
  assumes "env_ok env" and "s0_inv env s" and "i < 2"
  shows "settled env s (abort_session i s) \<and> (\<exists>x. tx_sessions (abort_session i s) = (tx_sessions s)[i := x] \<and> s_callback x = 0)"
proof (cases "remote_node_id (conn_info (tx_sessions s ! i)) = 0")
  case True
  then have "s_callback (tx_sessions s ! i) = 0" using tx_base_nth [of env s i] assms(2,3) by (simp add: s0_inv_def tx_base_def)
  then show ?thesis using True settled_refl [OF assms(2)] by (auto simp: abort_session_def intro: exI [of _ "tx_sessions s ! i"])
next
  case False
  then show ?thesis
    using tx_failed_settled [OF assms(1) inv_unsettled [OF assms(2,3)]] tx_failed_sessions [of i s] assms(2,3)
    by (simp add: abort_session_def s0_inv_def s0_base_def)
qed

lemma abort_all_settled:
  assumes "env_ok env" and "s0_inv env s"
  shows "settled env s (s0_abort_all_tx_sessions s) \<and> sum_list (map awaiting (tx_sessions (s0_abort_all_tx_sessions s))) = {#}"
proof -
  let ?s1 = "abort_session 0 s" and ?s2 = "abort_session 1 (abort_session 0 s)"
  have a: "s0_abort_all_tx_sessions s = ?s2" by (simp add: s0_abort_all_tx_sessions_def abort_session_def upt_conv_Cons)
  obtain x where x: "settled env s ?s1" "tx_sessions ?s1 = (tx_sessions s)[0 := x]" "s_callback x = 0"
    using abort_session_settled [OF assms, of 0] by auto
  obtain y where y: "settled env ?s1 ?s2" "tx_sessions ?s2 = (tx_sessions ?s1)[1 := y]" "s_callback y = 0"
    using abort_session_settled [OF assms(1) settled_inv [OF x(1)], of 1] by auto
  obtain p q where "tx_sessions s = [p, q]" using assms(2) by (auto simp: s0_inv_def s0_base_def length_Suc_conv numeral_2_eq_2)
  then have "tx_sessions ?s2 = [x, y]" using x(2) y(2) by simp
  then show ?thesis unfolding a using settled_trans [OF x(1) y(1)] x(3) y(3) by (simp add: awaiting_def)
qed

lemma free_all_rx_settled:
  assumes "s0_inv env s"
  shows "settled env s (free_all_rx_session s) \<and> tx_sessions (free_all_rx_session s) = tx_sessions s"
proof -
  have f: "free_all_rx_session s = free_rx_session 1 (free_rx_session 0 s)" by (simp add: free_all_rx_session_def upt_conv_Cons)
  have "settled env s (free_rx_session 0 s)" using free_rx_settled [OF assms, of 0] by simp
  then show ?thesis unfolding f using free_rx_settled [OF settled_inv, of env s "free_rx_session 0 s" 1] settled_trans
    by (auto simp: free_rx_session_def rx_update_def)
qed

lemma network_init_settled:
  assumes "env_ok env" and "s0_inv env s"
  shows "settled env s (snd (zwave_s0_network_init env s))"
proof -
  let ?s1 = "s0_abort_all_tx_sessions s" and ?s2 = "free_all_rx_session (s0_abort_all_tx_sessions s)"
  let ?s3 = "reset_s0_timers (reset_block_next_elem (free_nonce_block_list (free_all_tx_sessions ?s2)))"
  have s1: "settled env s ?s1" "sum_list (map awaiting (tx_sessions ?s1)) = {#}" using abort_all_settled [OF assms] by simp_all
  have s2: "settled env s ?s2" "tx_sessions ?s2 = tx_sessions ?s1" using free_all_rx_settled [OF settled_inv [OF s1(1)]] settled_trans [OF s1(1)] by simp_all
  have "s0_inv env ?s3"
    using settled_inv [OF s2(1)] zero_session_base [OF assms(1)]
    by (auto simp: s0_inv_def s0_base_def nonces_ok_def rx_ok_def keys_ok_def timed_def reset_s0_timers_def reset_block_next_elem_def
        free_nonce_block_list_def free_all_tx_sessions_def zero_tx_session_def zero_connection_def)
  moreover have "balance ?s3 = balance ?s2"
    using s1(2) s2(2) by (simp add: balance_def answered_def reset_s0_timers_def reset_block_next_elem_def free_nonce_block_list_def
      free_all_tx_sessions_def zero_tx_session_def awaiting_def numeral_2_eq_2)
  ultimately have s3: "settled env s ?s3" using s2(1) by (simp add: settled_def)
  moreover have "settled env ?s3 (s0_set_key env key ?s3)" for key
    using sm_effect_settled [OF set_key_effect [OF assms(1)] settled_inv [OF s3]] .
  ultimately show ?thesis unfolding zwave_s0_network_init_def Let_def by (auto intro: settled_trans split: option.split)
qed

text \<open>Inputs as the other components give them: requests to a node within the radio's limits, and frames that are not cut off.\<close>

definition s0_input_ok :: "s0_env \<Rightarrow> s0_input \<Rightarrow> bool" where
  "s0_input_ok env i \<longleftrightarrow>
     (case i of
        S0_send r \<Rightarrow> request_ok env r
      | S0_frame c frame \<Rightarrow> frame \<noteq> [] \<and> (hd frame = COMMAND_CLASS_SECURITY \<longrightarrow> 2 \<le> length frame) \<and> length frame < 65536
      | _ \<Rightarrow> True)"

text \<open>The callback of a request that the input makes and the transport accepts.\<close>

definition accepted_by :: "s0_env \<Rightarrow> s0_input \<Rightarrow> s0 \<Rightarrow> nat multiset" where
  "accepted_by env i s =
     (case i of
        S0_send r \<Rightarrow> (case zwave_s0_send_data env r s of
                        Some (rc, s') \<Rightarrow> if rc = SL_STATUS_OK \<and> tx_on_send_complete r \<noteq> 0 then {#tx_on_send_complete r#} else {#}
                      | None \<Rightarrow> {#})
      | _ \<Rightarrow> {#})"

lemma s0_step_inv:
  assumes "env_ok env" and "s0_inv env s" and "s0_input_ok env i"
  shows "returns (\<lambda>s'. s0_inv env s' \<and> balance s' = balance s + accepted_by env i s) (s0_step env i s)"
proof -
  have st: "s0_inv env s' \<and> balance s' = balance s + {#}" if "settled env s s'" for s' using that by (simp add: settled_def)
  have rt: "returns (\<lambda>s'. s0_inv env s' \<and> balance s' = balance s + {#}) (map_option snd m)" if "returns (\<lambda>(rc, s'). settled env s s') m" for m :: "(sl_status \<times> s0) option"
    using that st by (auto simp: returns_def)
  have rs: "returns (\<lambda>s'. s0_inv env s' \<and> balance s' = balance s + {#}) m" if "returns (settled env s) m" for m
    using that st by (rule returns_mono)
  note refl = settled_refl [OF assms(2)] and eff = sm_effect_settled [OF _ assms(2)]
  show ?thesis
  proof (cases i)
    case (S0_send r)
    then show ?thesis
      using send_data_spec [OF assms(1,2), of r] assms(3) by (auto simp: s0_step_def accepted_by_def s0_input_ok_def returns_def)
  next
    case (S0_frame c frame)
    then show ?thesis
      using rt [OF handler_settled [OF assms(1,2), of frame c]] assms(3) by (simp add: s0_step_def accepted_by_def s0_input_ok_def)
  next
    case (S0_sent k tx_status tx_info)
    then show ?thesis using rs [OF session_callback_settled [OF assms(1,2)], of k tx_status tx_info] assms(2) by (simp add: s0_step_def accepted_by_def)
  next
    case (S0_bootstrap_sent tx_status)
    then show ?thesis using st [OF eff [OF interface_effects(2) [OF assms(1)]]] by (simp add: s0_step_def accepted_by_def)
  next
    case (S0_abort sid)
    then show ?thesis using rt [OF abort_settled [OF assms(1,2)]] by (simp add: s0_step_def accepted_by_def)
  next
    case (S0_session_timer k)
    have "returns (settled env s) (s0_timeout env k (tx_update k (\<lambda>x. x\<lparr>tx_timer := None\<rparr>) s))" if k: "k < 2"
    proof -
      let ?s = "tx_update k (\<lambda>x. x\<lparr>tx_timer := None\<rparr>) s"
      have "unsettled env k ?s" "balance ?s = balance s"
        using unsettled_update [OF inv_unsettled [OF assms(2) k], of "\<lambda>x. x\<lparr>tx_timer := None\<rparr>"] by (simp_all add: tx_base_def tx_buffers_ok_def)
      then show ?thesis using s0_timeout_settled [OF assms(1), of k ?s] settled_cong [of ?s s env] by simp
    qed
    then show ?thesis using S0_session_timer rs assms(2) by (simp add: s0_step_def accepted_by_def)
  next
    case S0_nonce_timer
    then show ?thesis using st [OF nonce_tick_settled [OF assms(2)]] assms(2) by (simp add: s0_step_def accepted_by_def)
  next
    case S0_bootstrap_timer
    have "sm_effect s (s0_bootstrap_timeout env (with_sm f s))" for f using sm_effect_trans [OF with_sm_effect interface_effects(1) [OF assms(1)]] .
    then show ?thesis using st [OF eff] assms(2) S0_bootstrap_timer by (simp add: s0_step_def accepted_by_def)
  next
    case S0_new_network
    then show ?thesis using st [OF network_init_settled [OF assms(1,2)]] by (simp add: s0_step_def accepted_by_def s0_on_new_network_def)
  next
    case (S0_bootstrap node is_ctrl)
    then show ?thesis using st [OF eff [OF interface_effects(3) [OF assms(1)]]] by (simp add: s0_step_def accepted_by_def zwave_s0_start_bootstrapping_def)
  next
    case S0_stop_bootstrapping
    then show ?thesis using st [OF eff [OF interface_effects(6) [OF assms(1)]]] by (simp add: s0_step_def accepted_by_def zwave_s0_stop_bootstrapping_def)
  next
    case (S0_set_callback cb)
    then show ?thesis using assms(2)
      by (simp add: s0_step_def accepted_by_def zwave_s0_set_network_callbacks_def s0_set_callback_def s0_inv_def s0_base_def nonces_ok_def rx_ok_def
          keys_ok_def timed_def balance_def answered_def)
  next
    case (S0_time t)
    then show ?thesis using assms(2)
      by (simp add: s0_step_def accepted_by_def s0_inv_def s0_base_def nonces_ok_def rx_ok_def keys_ok_def timed_def balance_def answered_def)
  qed
qed

section \<open>Histories\<close>

fun accepted :: "s0_env \<Rightarrow> s0_input list \<Rightarrow> s0 \<Rightarrow> nat multiset" where
  "accepted env [] s = {#}"
| "accepted env (i # is) s = accepted_by env i s + (case s0_step env i s of Some s' \<Rightarrow> accepted env is s' | None \<Rightarrow> {#})"

lemma s0_run_inv:
  assumes "env_ok env" and "s0_inv env s" and "list_all (s0_input_ok env) is"
  shows "returns (\<lambda>s'. s0_inv env s' \<and> balance s' = balance s + accepted env is s) (s0_run env is s)"
  using assms(2,3)
proof (induction "is" arbitrary: s)
  case (Cons i "is")
  obtain s' where s': "s0_step env i s = Some s'" "s0_inv env s'" "balance s' = balance s + accepted_by env i s"
    using s0_step_inv [OF assms(1) Cons.prems(1), of i] Cons.prems(2) by (auto simp: returns_def)
  then show ?case using Cons.IH [OF s'(2)] Cons.prems(2) by (simp add: add.assoc)
qed simp

lemma boot_inv: "env_ok env \<Longrightarrow> s0_inv env s0_boot \<and> balance s0_boot = {#}"
  using zero_session_base [of env]
  by (simp add: s0_inv_def s0_base_def nonces_ok_def rx_ok_def keys_ok_def timed_def balance_def answered_def awaiting_def
      s0_boot_def zero_nonce_def zero_rx_session_def zero_tx_session_def zero_connection_def numeral_2_eq_2)

lemma start_inv: "env_ok env \<Longrightarrow> s0_inv env (s0_start env) \<and> balance (s0_start env) = {#}"
  using network_init_settled [of env s0_boot] boot_inv [of env] by (simp add: s0_start_def settled_def)

lemma truncated_frame_undefined:
  assumes "env_ok env" and "s0_inv env s" and "length frame < 65536"
  shows "s0_step env (S0_frame c frame) s = None \<longleftrightarrow> frame = [] \<or> frame = [COMMAND_CLASS_SECURITY]"
proof (cases "frame = [] \<or> frame = [COMMAND_CLASS_SECURITY]")
  case True
  then show ?thesis
    by (auto simp: s0_step_def zwave_s0_on_frame_received_def s0_application_command_handler_def read_cell_def bind_eq_None_conv)
next
  case False
  then have "s0_input_ok env (S0_frame c frame)"
    using assms(3) by (cases frame rule: list.exhaust [case_product list.exhaust]) (auto simp: s0_input_ok_def Suc_le_eq)
  then show ?thesis using False s0_step_inv [OF assms(1,2)] by (auto simp: returns_def)
qed

text \<open>
  C19. The assumptions are that requests have a destination and that the frame size of a destination leaves room behind the 20 bytes of the encapsulation
  and is at most 158 bytes, which is so for classic nodes and not for Long Range, where an assertion of the code fails; and that no
  received frame was cut off before its command. Then, whatever the controller asks for, receives, is told by the transmit queue and lets expire, in any
  order, the component reads and writes within its arrays, its loops end, no assertion fails, its
  tables keep their sizes, every transmission that is going on has its timer running, and the table
  of nonces is swept while there is a live nonce. The assumption on frames is needed: after every such history, the next frame leads to
  undefined behaviour exactly if it is empty or consists of the byte of the command class alone.
\<close>

theorem s0_undefined_only_for_truncated_frames:
  assumes "env_ok env" and "list_all (s0_input_ok env) is"
  shows "returns (\<lambda>s. s0_inv env s \<and>
      (\<forall>c frame. length frame < 65536 \<longrightarrow> (s0_step env (S0_frame c frame) s = None \<longleftrightarrow> frame = [] \<or> frame = [COMMAND_CLASS_SECURITY])))
    (s0_run env is (s0_start env))"
proof (rule returns_mono)
  show "returns (\<lambda>s. s0_inv env s \<and> balance s = balance (s0_start env) + accepted env is (s0_start env)) (s0_run env is (s0_start env))"
    using s0_run_inv [OF assms(1) _ assms(2)] start_inv [OF assms(1)] by blast
qed (simp add: truncated_frame_undefined [OF assms(1)])

text \<open>A transmission whose timer expires ends, and its request is answered.\<close>

lemma session_timer_frees:
  assumes "env_ok env" and "s0_inv env s" and "i < 2"
  shows "\<exists>s' x. s0_step env (S0_session_timer i) s = Some s' \<and> settled env s s' \<and> tx_sessions s' = (tx_sessions s)[i := x] \<and> s_callback x = 0"
proof (cases "tx_timer (tx_sessions s ! i)")
  case None
  have l: "i < length (tx_sessions s)" using assms(2,3) by (simp add: s0_inv_def s0_base_def)
  then have "remote_node_id (conn_info (tx_sessions s ! i)) = 0" using None assms(2) nth_mem [OF l] by (auto simp: s0_inv_def timed_def)
  then have "s_callback (tx_sessions s ! i) = 0" using tx_base_nth [of env s i] assms(2,3) by (simp add: s0_inv_def tx_base_def)
  then show ?thesis using None settled_refl [OF assms(2)] by (auto simp: s0_step_def intro!: exI [of _ "tx_sessions s ! i"])
next
  case (Some t)
  let ?s = "tx_update i (\<lambda>x. x\<lparr>tx_timer := None\<rparr>) s"
  let ?u = "tx_update i (\<lambda>x. x\<lparr>tx_st := TX_DONE\<rparr>) (tx_update i (\<lambda>x. x\<lparr>tx_code := TRANSMIT_COMPLETE_FAIL\<rparr>) ?s)"
  have st: "s0_step env (S0_session_timer i) s = Some (tx_done i ?u)"
    using Some assms(3) by (simp add: s0_step_def s0_timeout_def tx_session_state_set_def Let_def)
  have "settled env s (tx_done i ?u)"
    using s0_step_inv [OF assms(1,2), of "S0_session_timer i"] st by (simp add: s0_input_ok_def accepted_by_def settled_def)
  moreover have "\<exists>x. tx_sessions (tx_done i ?u) = (tx_sessions s)[i := x] \<and> s_callback x = 0"
    using assms(2,3) by (simp add: tx_done_def Let_def reset_tx_session_data_def tx_update_def s0_emit_def s0_inv_def s0_base_def)
      (intro conjI impI; rule exI, rule conjI, rule refl, simp)
  ultimately show ?thesis using st by blast
qed

text \<open>
  C18. In every history the callbacks that were called, together with those of the transmissions that are
  going on, are those of the accepted requests, each as often as it was accepted; and once the timers
  of the two transmissions have expired, every accepted request is answered, none of them twice.
\<close>

theorem s0_requests_answered_once:
  assumes "env_ok env" and "list_all (s0_input_ok env) is"
  shows "\<exists>s s'. s0_run env is (s0_start env) = Some s \<and>
      answered s + sum_list (map awaiting (tx_sessions s)) = accepted env is (s0_start env) \<and>
      s0_run env [S0_session_timer 0, S0_session_timer 1] s = Some s' \<and> answered s' = accepted env is (s0_start env)"
proof -
  obtain s where s: "s0_run env is (s0_start env) = Some s" "s0_inv env s" "balance s = accepted env is (s0_start env)"
    using s0_run_inv [OF assms(1) _ assms(2), of "s0_start env"] start_inv [OF assms(1)] by (auto simp: returns_def)
  obtain u x where u: "s0_step env (S0_session_timer 0) s = Some u" "settled env s u" "tx_sessions u = (tx_sessions s)[0 := x]" "s_callback x = 0"
    using session_timer_frees [OF assms(1) s(2), of 0] by auto
  obtain v y where v: "s0_step env (S0_session_timer 1) u = Some v" "settled env u v" "tx_sessions v = (tx_sessions u)[1 := y]" "s_callback y = 0"
    using session_timer_frees [OF assms(1) settled_inv [OF u(2)], of 1] by auto
  obtain p q where "tx_sessions s = [p, q]" using s(2) by (auto simp: s0_inv_def s0_base_def length_Suc_conv numeral_2_eq_2)
  then have "tx_sessions v = [x, y]" using u(3) v(3) by simp
  then have "answered v = balance v" using u(4) v(4) by (simp add: balance_def awaiting_def)
  then have "answered v = accepted env is (s0_start env)" using u(2) v(2) s(3) by (simp add: settled_def)
  then show ?thesis using s(1,3) u(1) v(1) by (simp add: balance_def)
qed

end
