(* ===== verification/S0_Replay.thy ===== *)
theory S0_Replay
  imports S0_Invariants
begin

text \<open>
  Nonces in histories of the Security 0 component: every message that is handed on uses up a nonce
  that the controller has drawn, a frame that is received again is refused, and nonces expire.
\<close>

section \<open>Nonces drawn and used\<close>

text \<open>The nodes that hold a live nonce of node \<open>here\<close>, and the messages handed on to it.\<close>

definition holders :: "u8 \<Rightarrow> s0 \<Rightarrow> u8 set" where
  "holders here s = {b. \<exists>e \<in> set (nonce_table s). nonce_between here b e}"

fun handed_to :: "u8 \<Rightarrow> s0_output \<Rightarrow> bool" where
  "handed_to here (On_frame_received c d) = (ucast (local_node_id c) = here)"
| "handed_to here _ = False"

definition delivered :: "u8 \<Rightarrow> s0 \<Rightarrow> nat" where
  "delivered here s = length (filter (handed_to here) (s0_out s))"

text \<open>What is handed on or can still be is paid for by drawn nonces; and without a draw no node gains a nonce.\<close>

definition no_gain :: "u8 \<Rightarrow> s0 \<Rightarrow> s0 \<Rightarrow> bool" where
  "no_gain here s s' \<longleftrightarrow> drbg s < drbg s' \<or> (drbg s = drbg s' \<and> holders here s' \<subseteq> holders here s)"

lemma no_gain_trans: "no_gain here s s' \<Longrightarrow> no_gain here s' s'' \<Longrightarrow> no_gain here s s''"
  by (auto simp: no_gain_def)

definition funded :: "u8 \<Rightarrow> s0 \<Rightarrow> s0 \<Rightarrow> bool" where
  "funded here s s' \<longleftrightarrow>
     delivered here s' + card (holders here s') + drbg s \<le> delivered here s + card (holders here s) + drbg s' \<and> no_gain here s s'"

lemma funded_trans: "funded here s s' \<Longrightarrow> funded here s' s'' \<Longrightarrow> funded here s s''"
  using no_gain_trans [of here s s' s''] by (simp add: funded_def)

lemma delivered_deliveries: "delivered here s = length (filter (handed_to here) (deliveries s))"
  unfolding delivered_def deliveries_def filter_filter
  by (rule arg_cong [where f = length], rule filter_cong [OF refl]) (case_tac x; simp)

text \<open>What leaves the nonces and the deliveries alone.\<close>

definition same_nonces :: "s0 \<Rightarrow> s0 \<Rightarrow> bool" where
  "same_nonces s s' \<longleftrightarrow> nonce_table s' = nonce_table s \<and> drbg s' = drbg s \<and> deliveries s' = deliveries s"

lemma same_nonces_funded: "same_nonces s s' \<Longrightarrow> funded here s s'"
  by (simp add: same_nonces_def funded_def no_gain_def holders_def delivered_deliveries)

lemma same_nonces_refl [simp]: "same_nonces s s"
  by (simp add: same_nonces_def)

lemma same_nonces_trans: "same_nonces s s' \<Longrightarrow> same_nonces s' s'' \<Longrightarrow> same_nonces s s''"
  by (simp add: same_nonces_def)

lemma sm_effect_same: "sm_effect s s' \<Longrightarrow> same_nonces s s'"
  by (simp add: sm_effect_def same_nonces_def)

lemma same_nonces_updates [simp]:
  "same_nonces s (tx_update i f s')= same_nonces s s'" "same_nonces s (rx_update i g s') = same_nonces s s'"
  "same_nonces s (s'\<lparr>aes_key := k, aes_iv := v\<rparr>) = same_nonces s s'"
  "\<not> is_delivery x \<Longrightarrow> same_nonces s (s0_emit x s') = same_nonces s s'"
  by (simp_all add: same_nonces_def tx_update_def rx_update_def deliveries_def s0_emit_def)

lemma tx_done_same: "same_nonces s (tx_done i s') = same_nonces s s'"
  by (simp add: tx_done_def Let_def reset_tx_session_data_def)

lemma tx_end_same [simp]:
  "same_nonces s (tx_done i s') = same_nonces s s'" "same_nonces s (tx_failed i s') = same_nonces s s'" "same_nonces s (start_tx_timer i s') = same_nonces s s'"
  by (simp_all add: tx_done_same tx_failed_def start_tx_timer_def)

lemma session_send_same [simp]: "same_nonces s (session_send env i frame n s') = same_nonces s s'"
  by (simp add: session_send_def Let_def zwave_tx_send_data_def)

lemma node_id_eq [simp]: "(ucast (x :: u8) :: node_id) = ucast y \<longleftrightarrow> x = y"
  by transfer (simp add: take_bit_take_bit)

lemma holders_clear: "holders here (nonce_clear a b s) = (if a = here then holders here s - {b} else holders here s)"
  by (auto simp: holders_def nonce_clear_def nonce_between_def)

lemma register_nonce_entry:
  "snd (register_nonce a b reply n s) = s \<or>
   (\<exists>i e. snd (register_nonce a b reply n s) = restart_s0_timer (s\<lparr>nonce_table := (nonce_table s)[i := e]\<rparr>) \<and> n_src e = ucast a \<and> n_dst e = ucast b)"
proof (cases "if reply then first_index (\<lambda>e. reply_nonce e \<and> nonce_between a b e) (nonce_table s) else None")
  case None
  then show ?thesis
    by (cases "first_index (\<lambda>e. n_timeout e = 0) (nonce_table s)") (auto simp: register_nonce_def intro!: exI)
next
  case (Some i)
  then have "nonce_between a b (nonce_table s ! i)" by (auto dest: first_index_SomeD split: if_splits)
  then show ?thesis using Some by (intro disjI2 exI [of _ i]) (auto simp: register_nonce_def nonce_between_def)
qed

lemma holders_register: "holders here (snd (register_nonce a b reply n s)) \<subseteq> (if a = here then insert b (holders here s) else holders here s)"
proof -
  have "holders here (restart_s0_timer (s\<lparr>nonce_table := (nonce_table s)[i := e]\<rparr>)) \<subseteq> (if a = here then insert b (holders here s) else holders here s)"
    if "n_src e = ucast a" "n_dst e = ucast b" for i e
    using that set_update_subset_insert [of "nonce_table s" i e]
    by (auto simp: holders_def restart_s0_timer_def nonce_between_def)
  then show ?thesis using register_nonce_entry [of a b reply n s] by (elim disjE exE conjE) auto
qed

text \<open>A drawn nonce leaves room for one to be registered.\<close>

definition surplus :: "u8 \<Rightarrow> s0 \<Rightarrow> s0 \<Rightarrow> bool" where
  "surplus here s s' \<longleftrightarrow>
     delivered here s' + card (holders here s') + drbg s < delivered here s + card (holders here s) + drbg s' \<and> no_gain here s s'"

lemma draw_surplus: "draw_nonce env a b s = Some (block, s') \<Longrightarrow> surplus here s s' \<and> drbg s < drbg s'"
  by (auto simp: surplus_def no_gain_def holders_def delivered_def dest!: draw_nonce_SomeD)

lemma surplus_funded: "surplus here s s' \<Longrightarrow> funded here s' s'' \<Longrightarrow> surplus here s s''"
  using no_gain_trans [of here s s' s''] by (simp add: surplus_def funded_def)

lemma surplus_after:
  assumes "surplus here s s' \<and> drbg s < drbg s'" and "funded here s' s''"
  shows "surplus here s s'' \<and> drbg s < drbg s''"
  using surplus_funded [OF _ assms(2), of s] assms by (auto simp: funded_def no_gain_def)

lemma funded_surplus: "surplus here s s' \<Longrightarrow> funded here s s'"
  by (simp add: surplus_def funded_def)

lemma register_nonce_other [simp]: "delivered here (snd (register_nonce a b reply n s)) = delivered here s" "drbg (snd (register_nonce a b reply n s)) = drbg s"
  using register_nonce_state [of a b reply n s] by (auto simp: delivered_def)

lemma register_funded:
  assumes "surplus here s s' \<and> drbg s < drbg s'"
  shows "funded here s (snd (register_nonce a b reply n s'))"
proof -
  have "card (holders here (snd (register_nonce a b reply n s'))) \<le> card (insert b (holders here s'))"
    using holders_register [of here a b reply n s'] by (intro card_mono) (auto split: if_splits)
  also have "\<dots> \<le> card (holders here s') + 1" by (simp add: card_insert_if)
  finally show ?thesis using assms by (simp add: funded_def surplus_def no_gain_def)
qed

lemma register_other_funded: "a \<noteq> here \<Longrightarrow> funded here s (snd (register_nonce a b reply n s))"
  using holders_register [of here a b reply n s] by (simp add: funded_def no_gain_def card_mono)

lemma delivered_clear [simp]: "delivered here (nonce_clear a b s) = delivered here s" "drbg (nonce_clear a b s) = drbg s"
  by (simp_all add: delivered_def nonce_clear_def)

lemma clear_funded: "funded here s (nonce_clear a b s)"
  by (auto simp: funded_def no_gain_def holders_clear card_Diff1_le)

section \<open>Operations\<close>

lemma aes_ofb_same: "aes_ofb env p s = (p', s') \<Longrightarrow> same_nonces w s' = same_nonces w s"
  using aes_ofb_state [of env p s] by (auto simp: same_nonces_def deliveries_def)

lemma set_key_tpt_same [simp]: "same_nonces w (aes_set_key_tpt k v s) = same_nonces w s"
  by (simp add: aes_set_key_tpt_def)

lemma s0_frame_same: "s0_frame env ek ak iv sh a b p s = (frame, s') \<Longrightarrow> same_nonces s s'"
  by (auto simp: s0_frame_def Let_def split: prod.splits dest!: aes_ofb_same [where w = s])

lemma funded_same: "funded here s s' \<Longrightarrow> same_nonces s' s'' \<Longrightarrow> funded here s s''"
  by (rule funded_trans [OF _ same_nonces_funded])

lemma same_funded: "same_nonces s s' \<Longrightarrow> funded here s' s'' \<Longrightarrow> funded here s s''"
  by (rule funded_trans [OF same_nonces_funded])

lemma encrypt_funded: "whenever (\<lambda>(len, s'). funded here s s') (s0_encrypt_message env i pass2 s)"
proof -
  have w: "funded here s (tx_update i g s2)"
    if d: "draw_nonce env r h s = Some (block, s1)" and f: "s0_frame env ek ak iv sh h r p (snd (register_nonce h r True iv (nonce_clear r h s1))) = (frame, s2)"
    for r h block s1 ek ak iv sh p frame s2 g
    using s0_frame_same [OF f]
    by (intro funded_same [OF register_funded [OF surplus_after [OF draw_surplus [OF d] clear_funded]]]) simp
  have d: "funded here s s1" if "draw_nonce env r h s = Some (block, s1)" for r h block s1 using funded_surplus [OF conjunct1 [OF draw_surplus [OF that]]] .
  show ?thesis
    unfolding s0_encrypt_message_def Let_def by (intro whenever_intros; simp only: prod.case; (rule w | rule d); assumption)
qed

lemma encrypt_and_send_funded: "whenever (funded here s) (encrypt_and_send env i pass2 s)"
proof -
  have "funded here s s'" if "s0_encrypt_message env i pass2 (tx_update i (\<lambda>x. x\<lparr>tx_timer := None\<rparr>) s) = Some (len, s')" for len s'
    using wheneverD [OF encrypt_funded that, of here] by (intro same_funded [of s "tx_update i (\<lambda>x. x\<lparr>tx_timer := None\<rparr>) s"]) simp_all
  note e = funded_same [OF this]
  show ?thesis unfolding encrypt_and_send_def Let_def by (intro whenever_intros) (auto intro!: e)
qed

lemma state_set_funded: "whenever (funded here s) (tx_session_state_set env i st s)"
proof -
  let ?s = "tx_update i (\<lambda>x. x\<lparr>tx_st := st\<rparr>) s"
  have "whenever (funded here s) (encrypt_and_send env i pass2 ?s)" for pass2
    using encrypt_and_send_funded [of here ?s env i pass2] same_funded [of s ?s here] by (auto simp: whenever_def)
  then show ?thesis unfolding tx_session_state_set_def Let_def
    by (cases st) (auto intro!: whenever_intros same_nonces_funded)
qed

lemma state_set_after: "funded here s s' \<Longrightarrow> whenever (funded here s) (tx_session_state_set env i st s')"
  using state_set_funded [of here s'] funded_trans by (auto simp: whenever_def)

lemma session_callback_funded: "whenever (funded here s) (session_callback env st info i s)"
  unfolding session_callback_def Let_def
  by (auto intro!: whenever_intros state_set_after same_nonces_funded split: tx_state.split)

lemma send_data_funded: "whenever (\<lambda>(rc, s'). funded here s s') (zwave_s0_send_data env r s)"
proof -
  have q: "same_nonces s (s\<lparr>last_seq := n\<rparr>)" for n by (simp add: same_nonces_def deliveries_def)
  have f: "funded here s s'" if "tx_session_state_set env i NONCE_GET (tx_update i g (s\<lparr>last_seq := n\<rparr>)) = Some s'" for i g n s'
    by (rule wheneverD [OF state_set_after that]) (simp add: same_nonces_funded q)
  show ?thesis
    unfolding zwave_s0_send_data_def Let_def get_seq_def
    by (intro whenever_intros; simp only: prod.case) (auto intro!: same_nonces_funded elim!: f)
qed

lemma register_report_funded:
  assumes "src \<noteq> here"
  shows "whenever (funded here s) (s0_register_nonce env src dst n s)"
proof -
  let ?r = "s0_block_nonce src dst n (snd (register_nonce src dst False n s))"
  have "same_nonces (snd (register_nonce src dst False n s)) ?r" by (simp add: s0_block_nonce_def same_nonces_def deliveries_def)
  then have r: "funded here s ?r" by (rule funded_same [OF register_other_funded [OF assms]])
  then show ?thesis unfolding s0_register_nonce_def Let_def
    by (intro whenever_intros state_set_after r) (simp_all add: r same_nonces_funded)
qed

lemma send_nonce_funded: "whenever (funded here s) (s0_send_nonce env c s)"
proof -
  let ?h = "ucast (local_node_id c) :: u8" and ?r = "ucast (remote_node_id c) :: u8"
  have "surplus here s (s0_emit (Tx_send c' frame opts cb) s1) \<and> drbg s < drbg (s0_emit (Tx_send c' frame opts cb) s1)" if "draw_nonce env ?h ?r s = Some (block, s1)" for block s1 c' frame opts cb
    by (rule surplus_after [OF draw_surplus [OF that] same_nonces_funded]) simp
  note e = this register_funded [OF this] funded_surplus [OF conjunct1 [OF this]]
  show ?thesis
    unfolding s0_send_nonce_def Let_def zwave_tx_send_data_def by (intro whenever_intros) (auto intro!: e(2,3))
qed

text \<open>A message that is decrypted has used up the nonce of its sender.\<close>

lemma rx_session_for_same: "rx_session_for a b s = Some (j, s') \<Longrightarrow> same_nonces w s' = same_nonces w s"
  by (auto simp: rx_session_for_def new_rx_session_def split: option.splits)

lemma rx_payload_same: "rx_payload j p s = Some (d, s') \<Longrightarrow> same_nonces w s' = same_nonces w s"
  by (auto simp: rx_payload_def Let_def free_rx_session_def bind_eq_Some_conv split: if_splits)

lemma decrypt_cases:
  "whenever (\<lambda>(d, s'). (d = [] \<and> s' = s) \<or>
    (\<exists>ri n. get_s0_nonce (ucast (local_node_id c)) (ucast (remote_node_id c)) ri False s = Some n \<and>
       same_nonces (nonce_clear (ucast (local_node_id c)) (ucast (remote_node_id c)) s) s')) (s0_decrypt_message env c f l s)"
proof -
  let ?c = "nonce_clear (ucast (local_node_id c)) (ucast (remote_node_id c)) s"
  note same = rx_session_for_same [where w = ?c] rx_payload_same [where w = ?c] aes_ofb_same [where w = ?c]
  have p: "whenever (\<lambda>(d, s'). (d = [] \<and> s' = s) \<or> (\<exists>ri n. get_s0_nonce (ucast (local_node_id c)) (ucast (remote_node_id c)) ri False s = Some n \<and> same_nonces ?c s')) (rx_payload j q u)"
    if "get_s0_nonce (ucast (local_node_id c)) (ucast (remote_node_id c)) ri False s = Some n" "same_nonces ?c u" for ri n j q u
    using that rx_payload_same [where w = ?c] by (auto simp: whenever_def)
  show ?thesis
    unfolding s0_decrypt_message_def Let_def by (intro whenever_intros p) (auto simp: same)
qed

lemma handed_on_funded:
  assumes "s0_decrypt_message env c f l s = Some (d, s')"
  shows "funded here s (if d \<noteq> [] then s0_emit (On_frame_received (c\<lparr>encapsulation := SECURITY_0\<rparr>) d) s' else s')"
proof -
  let ?h = "ucast (local_node_id c) :: u8" and ?r = "ucast (remote_node_id c) :: u8"
  have "(d = [] \<and> s' = s) \<or> (\<exists>ri n. get_s0_nonce ?h ?r ri False s = Some n \<and> same_nonces (nonce_clear ?h ?r s) s')"
    using wheneverD [OF decrypt_cases assms] by simp
  then show ?thesis
  proof (elim disjE exE conjE)
    fix ri n
    assume g: "get_s0_nonce ?h ?r ri False s = Some n" and s: "same_nonces (nonce_clear ?h ?r s) s'"
    have t: "funded here s s'" by (rule funded_same [OF clear_funded s])
    moreover have "surplus here s s'" if "?h = here"
    proof -
      have "?r \<in> holders here s" using g that by (auto simp: get_s0_nonce_def find_Some_iff holders_def intro!: bexI [OF _ nth_mem])
      moreover from this have "0 < card (holders here s)" by (auto simp: card_gt_0_iff)
      ultimately have "surplus here s (nonce_clear ?h ?r s)" using that by (auto simp: surplus_def no_gain_def holders_clear)
      then show ?thesis using surplus_funded same_nonces_funded [OF s] by blast
    qed
    ultimately show ?thesis by (auto simp: funded_def surplus_def no_gain_def delivered_def holders_def s0_emit_def)
  qed (simp add: funded_def no_gain_def)
qed

lemma effect_funded: "sm_effect s s' \<Longrightarrow> funded here s s'"
  by (intro same_nonces_funded sm_effect_same)

lemma handler_funded:
  assumes "ucast (remote_node_id c) \<noteq> here" and "env_ok env"
  shows "whenever (\<lambda>(rc, s'). funded here s s') (zwave_s0_on_frame_received env c frame s)"
proof -
  note e = effect_funded [OF interface_effects(4) [OF assms(2)]] effect_funded [OF interface_effects(5) [OF assms(2)]]
  note m = wheneverD [OF register_report_funded [OF assms(1)]] wheneverD [OF send_nonce_funded]
  have d: "funded here s (snd (if d \<noteq> [] then (SL_STATUS_OK, s0_emit (On_frame_received (c\<lparr>encapsulation := SECURITY_0\<rparr>) d) s') else (SL_STATUS_FAIL, s')))"
    if "s0_decrypt_message env c f l s = Some (d, s')" for f l d s'
    using handed_on_funded [OF that, of here] by (auto split: if_splits)
  show ?thesis
    unfolding zwave_s0_on_frame_received_def s0_application_command_handler_def case_prod_beta zwave_tx_send_data_def Let_def
    by (intro whenever_intros; (rule d)?; simp add: e same_nonces_funded m)
qed

text \<open>Inputs in which no frame claims to come from the controller itself.\<close>

definition from_others :: "u8 \<Rightarrow> s0_input \<Rightarrow> bool" where
  "from_others here i \<longleftrightarrow> (case i of S0_frame c frame \<Rightarrow> ucast (remote_node_id c) \<noteq> here | _ \<Rightarrow> True)"

lemma nonce_tick_funded: "funded here s (nonce_timer_timeout s)"
proof -
  have "holders here (nonce_timer_timeout s) \<subseteq> holders here s"
    by (auto simp: holders_def nonce_timer_timeout_def Let_def nonce_between_def split: if_splits)
  moreover have "delivered here (nonce_timer_timeout s) = delivered here s" "drbg (nonce_timer_timeout s) = drbg s"
    by (simp_all add: nonce_timer_timeout_def Let_def delivered_def)
  ultimately show ?thesis by (simp add: funded_def no_gain_def card_mono)
qed

lemma network_init_same: "env_ok env \<Longrightarrow> same_nonces s (snd (zwave_s0_network_init env s))"
proof -
  assume e: "env_ok env"
  have a: "same_nonces s (s0_abort_all_tx_sessions s)" by (simp add: s0_abort_all_tx_sessions_def upt_conv_Cons)
  have "same_nonces w (reset_s0_timers (reset_block_next_elem (free_nonce_block_list (free_all_tx_sessions (free_all_rx_session u))))) = same_nonces w u" for w u
    by (simp add: reset_s0_timers_def reset_block_next_elem_def free_nonce_block_list_def free_all_tx_sessions_def free_all_rx_session_def
        free_rx_session_def rx_update_def upt_conv_Cons same_nonces_def deliveries_def)
  moreover have "same_nonces w (s0_set_key env key u) = same_nonces w u" for w key u
    using sm_effect_same [OF set_key_effect [OF e, of u key]] by (simp add: same_nonces_def)
  ultimately show ?thesis using a by (simp add: zwave_s0_network_init_def Let_def split: option.split)
qed

lemma s0_step_funded:
  assumes "env_ok env" and "from_others here i"
  shows "whenever (funded here s) (s0_step env i s)"
proof (cases i)
  case (S0_send r)
  then show ?thesis by (simp add: s0_step_def whenever_map_snd send_data_funded)
next
  case (S0_frame c frame)
  then show ?thesis using assms(2) by (simp add: s0_step_def from_others_def whenever_map_snd handler_funded [OF _ assms(1)])
next
  case (S0_abort sid)
  then show ?thesis
    unfolding s0_step_def zwave_s0_on_abort_send_data_def
    by (auto intro!: whenever_map_snd whenever_intros same_nonces_funded elim!: wheneverD [OF session_callback_funded])
next
  case (S0_session_timer k)
  then show ?thesis
    unfolding s0_step_def s0_timeout_def by (auto intro!: whenever_intros state_set_after same_nonces_funded)
next
  case S0_nonce_timer
  have "same_nonces s (s\<lparr>nonce_timer := None\<rparr>)" by (simp add: same_nonces_def deliveries_def)
  then show ?thesis using S0_nonce_timer by (auto simp: s0_step_def intro!: whenever_intros same_nonces_funded same_funded [OF _ nonce_tick_funded])
next
  case S0_bootstrap_timer
  have "sm_effect s (s0_bootstrap_timeout env (with_sm f s))" for f using sm_effect_trans [OF with_sm_effect interface_effects(1) [OF assms(1)]] .
  then show ?thesis using S0_bootstrap_timer by (auto simp: s0_step_def intro!: whenever_intros same_nonces_funded [OF sm_effect_same] sm_effect_refl)
next
  case S0_new_network
  then show ?thesis by (simp add: s0_step_def s0_on_new_network_def whenever_intros same_nonces_funded network_init_same [OF assms(1)])
next
  case (S0_set_callback cb)
  then show ?thesis
    by (simp add: s0_step_def zwave_s0_set_network_callbacks_def s0_set_callback_def whenever_intros same_nonces_funded same_nonces_def deliveries_def)
next
  case (S0_time t)
  then show ?thesis by (simp add: s0_step_def whenever_intros same_nonces_funded same_nonces_def deliveries_def)
next
  case (S0_sent k st info)
  then show ?thesis by (auto simp: s0_step_def intro!: whenever_intros session_callback_funded same_nonces_funded)
qed (simp_all add: s0_step_def zwave_s0_start_bootstrapping_def zwave_s0_stop_bootstrapping_def whenever_intros effect_funded interface_effects [OF assms(1)])

lemma s0_run_funded: "env_ok env \<Longrightarrow> list_all (from_others here) is \<Longrightarrow> whenever (funded here s) (s0_run env is s)"
proof (induction "is" arbitrary: s)
  case (Cons i "is")
  have "whenever (funded here s) (s0_run env is s')" if "s0_step env i s = Some s'" for s'
    using Cons.IH [OF Cons.prems(1), of s'] Cons.prems wheneverD [OF s0_step_funded that] funded_trans by (fastforce simp: whenever_def)
  then show ?case by (auto intro: whenever_intros)
qed (simp add: whenever_intros same_nonces_funded)

text \<open>
  C16. In every history the messages that were handed on as authenticated, together with the nodes that
  could send another one now, are at most as many as the nonces the controller has drawn: no nonce
  admits two messages.
\<close>

theorem every_message_costs_a_nonce:
  assumes "env_ok env" and "list_all (s0_input_ok env) is" and "list_all (from_others here) is"
  shows "returns (\<lambda>s. delivered here s + card (holders here s) \<le> drbg s) (s0_run env is (s0_start env))"
proof -
  have st: "funded here s0_boot (s0_start env)" using same_nonces_funded [OF network_init_same [OF assms(1)]] by (simp add: s0_start_def)
  have z: "delivered here s0_boot = 0" "holders here s0_boot = {}" "drbg s0_boot = 0"
    by (simp_all add: delivered_def holders_def s0_boot_def zero_nonce_def nonce_between_def)
  obtain s where s: "s0_run env is (s0_start env) = Some s"
    using s0_run_inv [OF assms(1) _ assms(2)] start_inv [OF assms(1)] by (auto simp: returns_def)
  then show ?thesis using funded_trans [OF st wheneverD [OF s0_run_funded [OF assms(1,3)] s]] z by (simp add: funded_def)
qed

lemma no_nonce_no_message:
  assumes "ucast (remote_node_id c) \<notin> holders (ucast (local_node_id c)) s" and "cmd = 0x81 \<or> cmd = 0xC1" and "length rest \<le> 156"
  shows "zwave_s0_on_frame_received env c (0x98 # cmd # rest) s = Some (SL_STATUS_FAIL, s)"
proof -
  let ?h = "ucast (local_node_id c) :: u8" and ?r = "ucast (remote_node_id c) :: u8" and ?F = "0x98 # cmd # rest"
  have g: "get_s0_nonce ?h ?r ri False s = None" for ri using assms(1) by (auto simp: get_s0_nonce_def find_None_iff holders_def)
  have l: "unat (of_nat (length ?F) :: u16) = length ?F" using assms(3) unfolding unat_of_nat by simp
  obtain E where E: "write_bytes (replicate 158 0) 0 ?F (length ?F) = Some E" "length E = 158"
    using assms(3) by (simp add: write_bytes_def)
  have "unat (of_nat (length ?F) AND 0xff :: u16) \<le> unat (of_nat (length ?F) :: u16)"
    using word_and_le1 by (simp add: word_le_nat_alt [symmetric] word_and_le2)
  then have n: "unat (of_nat (length ?F) AND 0xff :: u16) \<le> 158" using assms(3) unfolding l by simp
  have d: "s0_decrypt_message env c E (of_nat (length ?F)) s = Some ([], s)"
    using n E(2) unfolding s0_decrypt_message_def Let_def g by simp
  show ?thesis
    unfolding zwave_s0_on_frame_received_def s0_application_command_handler_def l
    using assms(2,3) E(1) d by (auto simp: read_cell_def)
qed

lemma accepted_frame_clears:
  assumes "zwave_s0_on_frame_received env c (0x98 # cmd # rest) s = Some (SL_STATUS_OK, s')" and "cmd = 0x81 \<or> cmd = 0xC1"
  shows "unat (of_nat (length (0x98 # cmd # rest)) :: u16) \<le> 158" "ucast (remote_node_id c) \<notin> holders (ucast (local_node_id c)) s'"
proof -
  let ?h = "ucast (local_node_id c) :: u8" and ?r = "ucast (remote_node_id c) :: u8" and ?F = "0x98 # cmd # rest"
  show len: "unat (of_nat (length ?F) :: u16) \<le> 158"
    using assms(1) unfolding zwave_s0_on_frame_received_def s0_application_command_handler_def by (rule_tac ccontr) simp
  then obtain E d u where d: "s0_decrypt_message env c E (of_nat (length ?F)) s = Some (d, u)" "d \<noteq> []" "s' = s0_emit (On_frame_received (c\<lparr>encapsulation := SECURITY_0\<rparr>) d) u"
    using assms unfolding zwave_s0_on_frame_received_def s0_application_command_handler_def
    by (auto simp: read_cell_def bind_eq_Some_conv split: if_splits)
  have "same_nonces (nonce_clear ?h ?r s) u" using wheneverD [OF decrypt_cases d(1)] d(2) by auto
  then have "holders ?h s' = holders ?h (nonce_clear ?h ?r s)" using d(3) by (simp add: same_nonces_def holders_def)
  then show "?r \<notin> holders ?h s'" by (simp add: holders_clear)
qed

text \<open>
  C17. An encrypted frame that was accepted is refused when it comes again, whatever has happened in
  between, unless the controller has drawn a new nonce.
\<close>

theorem replayed_frame_is_refused:
  assumes "env_ok env" and "length rest < 65534" and "cmd = 0x81 \<or> cmd = 0xC1"
    and "zwave_s0_on_frame_received env c (0x98 # cmd # rest) s = Some (SL_STATUS_OK, s')"
    and "list_all (from_others (ucast (local_node_id c))) is" and "s0_run env is s' = Some s''" and "drbg s'' = drbg s'"
  shows "zwave_s0_on_frame_received env c (0x98 # cmd # rest) s'' = Some (SL_STATUS_FAIL, s'')"
proof -
  note a = accepted_frame_clears [OF assms(4,3)]
  have "holders (ucast (local_node_id c)) s'' \<subseteq> holders (ucast (local_node_id c)) s'"
    using wheneverD [OF s0_run_funded [OF assms(1,5)] assms(6)] assms(7) by (simp add: funded_def no_gain_def)
  moreover have "length rest \<le> 156" using a(1) assms(2) unfolding unat_of_nat by simp
  ultimately show ?thesis using a(2) assms(3) by (intro no_nonce_no_message) auto
qed

section \<open>Expiry\<close>

lemma nonce_tick:
  assumes "s0_inv env s" and "list_all (\<lambda>e. unat (n_timeout e) \<le> Suc k) (nonce_table s)"
  shows "\<exists>s'. s0_step env S0_nonce_timer s = Some s' \<and> s0_inv env s' \<and> list_all (\<lambda>e. unat (n_timeout e) \<le> k) (nonce_table s') \<and>
    (nonce_timer s' \<noteq> None \<longrightarrow> list_ex (\<lambda>e. n_timeout e > 0) (nonce_table s'))"
proof (cases "nonce_timer s")
  case None
  then have "n_timeout e = 0" if "e \<in> set (nonce_table s)" for e using assms(1) that by (auto simp: s0_inv_def s0_base_def nonces_ok_def word_gt_0)
  then show ?thesis using None assms(1) by (simp add: s0_step_def list_all_iff)
next
  case (Some t)
  let ?s = "nonce_timer_timeout (s\<lparr>nonce_timer := None\<rparr>)"
  have "unat (v - 1) \<le> k" if "unat v \<le> Suc k" "v > 0" for v :: u8 using that by (simp add: unat_minus_one word_gt_0)
  then have "list_all (\<lambda>e. unat (n_timeout e) \<le> k) (nonce_table ?s)"
    using assms(2) by (auto simp: nonce_timer_timeout_def Let_def list_all_iff word_gt_0 unat_eq_0)
  moreover have "nonce_timer ?s \<noteq> None \<longrightarrow> list_ex (\<lambda>e. n_timeout e > 0) (nonce_table ?s)" by (simp add: nonce_timer_timeout_def Let_def)
  ultimately show ?thesis using Some settled_inv [OF nonce_tick_settled [OF assms(1)]] by (simp add: s0_step_def)
qed

lemma nonce_ticks:
  assumes "s0_inv env s" and "list_all (\<lambda>e. unat (n_timeout e) \<le> k) (nonce_table s)" and "nonce_timer s \<noteq> None \<longrightarrow> list_ex (\<lambda>e. n_timeout e > 0) (nonce_table s)"
  shows "\<exists>s'. s0_run env (replicate k S0_nonce_timer) s = Some s' \<and> list_all (\<lambda>e. n_timeout e = 0) (nonce_table s') \<and> nonce_timer s' = None"
  using assms
proof (induction k arbitrary: s)
  case 0
  then show ?case by (auto simp: list_all_iff list_ex_iff unat_eq_0)
next
  case (Suc k)
  obtain s' where "s0_step env S0_nonce_timer s = Some s'" "s0_inv env s'" "list_all (\<lambda>e. unat (n_timeout e) \<le> k) (nonce_table s')"
    "nonce_timer s' \<noteq> None \<longrightarrow> list_ex (\<lambda>e. n_timeout e > 0) (nonce_table s')" using nonce_tick [OF Suc.prems(1,2)] by blast
  then show ?case using Suc.IH by simp
qed

text \<open>
  Whatever has happened, after ten expiries of the nonce timer no nonce is live, and the timer has
  stopped.
\<close>

theorem nonces_expire:
  assumes "env_ok env" and "list_all (s0_input_ok env) is"
  shows "returns (\<lambda>s. list_all (\<lambda>e. n_timeout e = 0) (nonce_table s) \<and> nonce_timer s = None)
    (Option.bind (s0_run env is (s0_start env)) (s0_run env (replicate 10 S0_nonce_timer)))"
proof -
  obtain s where s: "s0_run env is (s0_start env) = Some s" "s0_inv env s"
    using s0_run_inv [OF assms(1) _ assms(2)] start_inv [OF assms(1)] by (auto simp: returns_def)
  have "unat (n_timeout e) \<le> Suc 9" if "e \<in> set (nonce_table s)" for e
    using s(2) that by (auto simp: s0_inv_def s0_base_def nonces_ok_def word_le_nat_alt)
  then have "list_all (\<lambda>e. unat (n_timeout e) \<le> Suc 9) (nonce_table s)" by (simp add: list_all_iff)
  from nonce_tick [OF s(2) this] obtain u where u: "s0_step env S0_nonce_timer s = Some u" "s0_inv env u" "list_all (\<lambda>e. unat (n_timeout e) \<le> 9) (nonce_table u)"
    "nonce_timer u \<noteq> None \<longrightarrow> list_ex (\<lambda>e. n_timeout e > 0) (nonce_table u)" by blast
  have r: "replicate 10 S0_nonce_timer = S0_nonce_timer # replicate 9 S0_nonce_timer" by (simp add: numeral_eq_Suc)
  show ?thesis unfolding r using s(1) u(1) nonce_ticks [OF u(2,3,4)] by auto
qed

end
