(* ===== verification/S0_Properties.thy ===== *)
theory S0_Properties
  imports S0_Replay
begin

text \<open>
  What the Security 0 component does in situations that its users meet: how the bootstrapping of a
  node ends, what frames of a stranger and early or missing confirmations do.
\<close>

section \<open>The rows of the state machine\<close>

text \<open>The processing of an event takes the rows of the table one after the other.\<close>

definition row_step :: "s0_env \<Rightarrow> s0_bootstrap_event \<Rightarrow> s0_transition \<Rightarrow> s0 \<Rightarrow> s0" where
  "row_step env ev t s =
     (if bootstrap_state (sm s) = st_state t \<and> ev = st_event t
      then s0_perform env (s0_sm_process_event env) (st_action t) (with_sm (\<lambda>m. m\<lparr>bootstrap_state := st_new_state t\<rparr>) s)
      else s)"

lemma process_event_rows: "s0_sm_process_event env ev s = fold (row_step env ev) s0_transition_table s"
proof -
  have p: "(\<lambda>e. s0_sm_process_from env e 0) = s0_sm_process_event env" by (simp add: fun_eq_iff s0_sm_process_event_def)
  have "s0_sm_process_from env ev i s = fold (row_step env ev) (drop i s0_transition_table) s" for i
  proof (induction "length s0_transition_table - i" arbitrary: i s)
    case 0
    then show ?case by (subst process_from_perform) simp
  next
    case (Suc n)
    then have i: "i < length s0_transition_table" "n = length s0_transition_table - (i + 1)" by simp_all
    then show ?case
      using Suc.hyps(1) [OF i(2)] by (subst process_from_perform) (simp add: p Let_def row_step_def Cons_nth_drop_Suc [symmetric])
  qed
  from this [of 0] show ?thesis by (simp add: s0_sm_process_event_def)
qed

lemmas bootstrap_event =
  process_event_rows [where ev = EV_S0_BOOTSTRAPPING_START] process_event_rows [where ev = EV_S0_SCHEME_REPORT_RECEIVED]
  process_event_rows [where ev = EV_S0_SEND_KEY_SET] process_event_rows [where ev = EV_S0_NET_KEY_VERIFY_RECEIVED]
  process_event_rows [where ev = EV_S0_SEND_SCHEME_INHERIT] process_event_rows [where ev = EV_S0_WAS_NOT_CONTROLLER]
  process_event_rows [where ev = EV_S0_WRONG_SCHEME_REPORT] process_event_rows [where ev = EV_S0_BOOTSTRAP_ABORT] process_event_rows [where ev = EV_S0_TIMEOUT]

lemmas row_defs = s0_transition_table_def row_step_def s0_perform_def with_sm_def

lemma with_sm_sel [simp]: "sm (with_sm f s) = f (sm s)" "s0_out (with_sm f s) = s0_out s"
  by (simp_all add: with_sm_def)

section \<open>Bootstrapping\<close>

text \<open>
  A NETWORK_KEY_VERIFY that is not encrypted completes the bootstrapping of a node that is not a
  controller: the keys are reported as granted although the node has shown no knowledge of them.
\<close>

theorem unencrypted_key_verify_completes:
  assumes "bootstrap_state (sm s) = S0_AWAITING_KEY_VERIFY" and "s0_is_controller (sm s) = 0" and "s0_on_bootstrapping_complete_callback s"
    and "remote_node_id c = remote_node_id (bootstrap_conn (sm s))"
  shows "\<exists>s'. zwave_s0_on_frame_received env c [0x98, 0x07] s = Some (SL_STATUS_OK, s') \<and>
    s0_out s' = s0_out s @ [Bootstrapping_complete KEY_CLASS_S0 KEX_FAIL_NONE] \<and> sm s' = zero_sm"
proof -
  have "s0_network_key_verify_received env (remote_node_id c) s =
      (s0_emit (Bootstrapping_complete KEY_CLASS_S0 KEX_FAIL_NONE) s)\<lparr>sm := zero_sm\<rparr>"
    using assms
    by (simp add: s0_network_key_verify_received_def bootstrap_event row_defs bootstrapping_complete_def s0_emit_def reset_s0_sm_def)
  then show ?thesis
    by (simp add: zwave_s0_on_frame_received_def s0_application_command_handler_def read_cell_def write_bytes_def s0_emit_def)
qed

text \<open>The reports of ended bootstrappings, and whether one is going on.\<close>

fun is_report :: "s0_output \<Rightarrow> bool" where
  "is_report (Bootstrapping_complete k f) = True"
| "is_report _ = False"

definition reports :: "s0 \<Rightarrow> nat" where
  "reports s = length (filter is_report (s0_out s))"

definition attempts :: "s0 \<Rightarrow> nat" where
  "attempts s = reports s + (if bootstrap_state (sm s) = S0_INC_IDLE then 0 else 1)"

text \<open>Between inputs the state machine is idle or waits for the node.\<close>

definition resting :: "s0 \<Rightarrow> bool" where
  "resting s \<longleftrightarrow> bootstrap_state (sm s) \<noteq> S0_HANDLE_SCHEME_REPORT \<and> bootstrap_state (sm s) \<noteq> S0_HANDLE_NET_KEY_VERIFY"

definition attempt :: "s0 \<Rightarrow> s0 \<Rightarrow> bool" where
  "attempt s s' \<longleftrightarrow> (resting s \<longrightarrow> resting s' \<and> attempts s' \<le> attempts s)"

lemma set_key_sel [simp]: "sm (s0_set_key env key s) = sm s" "s0_out (s0_set_key env key s) = s0_out s"
  by (simp_all add: s0_set_key_def Let_def)

lemma generic_send_sel [simp]:
  "bootstrap_state (sm (snd (s0_bootstrap_frames_generic_send env en frame s))) = bootstrap_state (sm s)"
  "s0_is_controller (sm (snd (s0_bootstrap_frames_generic_send env en frame s))) = s0_is_controller (sm s)"
  "reports (snd (s0_bootstrap_frames_generic_send env en frame s)) = reports s"
  by (simp_all add: s0_bootstrap_frames_generic_send_def zwave_tx_send_data_def Let_def s0_emit_def reports_def)

lemma command_sel [simp]:
  "bootstrap_state (sm (snd (s0_send_scheme_get env s))) = bootstrap_state (sm s)" "reports (snd (s0_send_scheme_get env s)) = reports s"
  "bootstrap_state (sm (snd (s0_send_scheme_inherit env s))) = bootstrap_state (sm s)" "reports (snd (s0_send_scheme_inherit env s)) = reports s"
  "bootstrap_state (sm (snd (s0_send_key_set env s))) = bootstrap_state (sm s)" "reports (snd (s0_send_key_set env s)) = reports s"
  by (simp_all add: s0_send_scheme_get_def s0_send_scheme_inherit_def s0_send_key_set_def Let_def split: option.split) (simp_all add: reports_def)

lemma complete_sel [simp]:
  "sm (bootstrapping_complete k f s) = sm s" "reports (bootstrapping_complete k f s) \<le> reports s + 1"
  by (simp_all add: bootstrapping_complete_def s0_emit_def reports_def)

lemma reports_sm [simp]: "reports (s\<lparr>sm := x\<rparr>) = reports s" "reports (with_sm f s) = reports s" "reports (s0_set_key env key s) = reports s"
  by (simp_all add: reports_def)

lemma perform_simps:
  "s0_perform env p S0_BOOTSTRAP_ABORT_ACTION s = s0_abort_bootstrap s" "s0_perform env p S0_NO_ACTION s = reset_s0_sm s"
  "s0_perform env p S0_SCHEME_REPORT_RECV_ACTION s = p EV_S0_SEND_KEY_SET s"
  "s0_perform env p S0_2SCHEME_REPORT_RECEIVED_ACTION s = (if s0_is_controller (sm s) \<noteq> 0 then bootstrapping_complete KEY_CLASS_S0 KEX_FAIL_NONE s else s)"
  "s0_perform env p S0_SEND_SCHEME_GET_ACTION s =
     (if fst (s0_send_scheme_get env s) \<noteq> SL_STATUS_OK then p EV_S0_BOOTSTRAP_ABORT (snd (s0_send_scheme_get env s)) else snd (s0_send_scheme_get env s))"
  "s0_perform env p S0_SEND_SCHEME_INHERIT_ACTION s =
     (if fst (s0_send_scheme_inherit env s) \<noteq> SL_STATUS_OK then p EV_S0_BOOTSTRAP_ABORT (snd (s0_send_scheme_inherit env s)) else snd (s0_send_scheme_inherit env s))"
  "s0_perform env p S0_NET_KEY_VERIFY_RECEIVED_ACTION s =
     (if s0_is_controller (sm s) = 0 then p EV_S0_WAS_NOT_CONTROLLER (bootstrapping_complete KEY_CLASS_S0 KEX_FAIL_NONE s) else p EV_S0_SEND_SCHEME_INHERIT s)"
  by (simp_all add: s0_perform_def case_prod_beta)

text \<open>Each event in each state: it has at most one row, and after the action none that fits.\<close>

lemma abort_event:
  "s0_sm_process_event env EV_S0_BOOTSTRAP_ABORT s =
     (if bootstrap_state (sm s) \<in> {S0_AWAITING_SCHEME_REPORT, S0_AWAITING_KEY_VERIFY, S0_AWAITING_2SCHEME_REPORT}
      then s0_abort_bootstrap (with_sm (\<lambda>m. m\<lparr>bootstrap_state := S0_INC_IDLE\<rparr>) s) else s)"
  by (cases "bootstrap_state (sm s)") (simp_all add: bootstrap_event row_step_def s0_transition_table_def perform_simps s0_abort_bootstrap_def zero_sm_def)

lemma timeout_event:
  "s0_sm_process_event env EV_S0_TIMEOUT s =
     (if bootstrap_state (sm s) \<in> {S0_AWAITING_SCHEME_REPORT, S0_AWAITING_KEY_VERIFY, S0_AWAITING_2SCHEME_REPORT}
      then s0_abort_bootstrap (with_sm (\<lambda>m. m\<lparr>bootstrap_state := S0_INC_IDLE\<rparr>) s) else s)"
  by (cases "bootstrap_state (sm s)") (simp_all add: bootstrap_event row_step_def s0_transition_table_def perform_simps s0_abort_bootstrap_def zero_sm_def)

lemma attempt_refl: "attempt s s"
  by (simp add: attempt_def)

lemma attempt_trans: "attempt s s' \<Longrightarrow> attempt s' s'' \<Longrightarrow> attempt s s''"
  by (auto simp: attempt_def)

lemma attempt_same: "bootstrap_state (sm s') = bootstrap_state (sm s) \<Longrightarrow> reports s' = reports s \<Longrightarrow> attempt s s'"
  by (simp add: attempt_def resting_def attempts_def)

text \<open>From one waiting state to another, or to the end with a report.\<close>

lemma attempt_on: "bootstrap_state (sm s) \<noteq> S0_INC_IDLE \<Longrightarrow> resting s' \<Longrightarrow> reports s' = reports s \<Longrightarrow> attempt s s'"
  by (simp add: attempt_def attempts_def)

lemma attempt_end: "bootstrap_state (sm s) \<noteq> S0_INC_IDLE \<Longrightarrow> bootstrap_state (sm s') = S0_INC_IDLE \<Longrightarrow> reports s' \<le> reports s + 1 \<Longrightarrow> attempt s s'"
  by (simp add: attempt_def resting_def attempts_def)

lemma abort_bootstrap_sel [simp]: "sm (s0_abort_bootstrap s) = zero_sm" "reports (s0_abort_bootstrap s) \<le> reports s + 1"
  using complete_sel(2) [of 0 KEX_FAIL_KEX_SCHEME s] by (simp_all add: s0_abort_bootstrap_def)

lemma zero_sm_idle [simp]: "bootstrap_state zero_sm = S0_INC_IDLE"
  by (simp add: zero_sm_def)

lemma end_event_attempt:
  "attempt s (s0_sm_process_event env EV_S0_BOOTSTRAP_ABORT s)" "attempt s (s0_sm_process_event env EV_S0_TIMEOUT s)"
proof -
  let ?s = "s0_abort_bootstrap (with_sm (\<lambda>m. m\<lparr>bootstrap_state := S0_INC_IDLE\<rparr>) s)"
  have "bootstrap_state (sm s) \<noteq> S0_INC_IDLE \<Longrightarrow> attempt s ?s"
    using abort_bootstrap_sel(2) [of "with_sm (\<lambda>m. m\<lparr>bootstrap_state := S0_INC_IDLE\<rparr>) s"] by (intro attempt_end) simp_all
  then show "attempt s (s0_sm_process_event env EV_S0_BOOTSTRAP_ABORT s)" "attempt s (s0_sm_process_event env EV_S0_TIMEOUT s)"
    by (auto simp: abort_event timeout_event attempt_refl)
qed

lemma send_attempt:
  "attempt s (s0_perform env (s0_sm_process_event env) S0_SEND_SCHEME_GET_ACTION s)" "attempt s (s0_perform env (s0_sm_process_event env) S0_SEND_SCHEME_INHERIT_ACTION s)"
  "attempt s (s0_perform env (s0_sm_process_event env) S0_SEND_KEY_SET_ACTION s)"
proof -
  have c: "attempt s (snd (s0_send_scheme_get env s))" "attempt s (snd (s0_send_scheme_inherit env s))" "attempt s (snd (s0_send_key_set env s))"
    "attempt u (s0_set_key env key u)" for u key by (simp_all add: attempt_same)
  note a = c(1,2) attempt_trans [OF c(1) end_event_attempt(1)] attempt_trans [OF c(2) end_event_attempt(1)]
  show "attempt s (s0_perform env (s0_sm_process_event env) S0_SEND_SCHEME_GET_ACTION s)" "attempt s (s0_perform env (s0_sm_process_event env) S0_SEND_SCHEME_INHERIT_ACTION s)"
    by (simp_all add: perform_simps a)
  have "attempt s (if fst (s0_send_key_set env s) \<noteq> SL_STATUS_OK then s0_sm_process_event env EV_S0_BOOTSTRAP_ABORT (snd (s0_send_key_set env s)) else snd (s0_send_key_set env s))"
    using c(3) attempt_trans [OF c(3) end_event_attempt(1)] by simp
  then show "attempt s (s0_perform env (s0_sm_process_event env) S0_SEND_KEY_SET_ACTION s)"
    unfolding s0_perform_def Let_def by (auto simp: case_prod_beta intro: attempt_trans c(4) end_event_attempt(1) split: option.split)
qed

lemma abort_event_state: "bootstrap_state (sm (s0_sm_process_event env EV_S0_BOOTSTRAP_ABORT s)) \<in> {bootstrap_state (sm s), S0_INC_IDLE}"
  by (simp add: abort_event)

lemma send_state:
  "bootstrap_state (sm (s0_perform env (s0_sm_process_event env) S0_SEND_SCHEME_GET_ACTION s)) \<in> {bootstrap_state (sm s), S0_INC_IDLE}"
  "bootstrap_state (sm (s0_perform env (s0_sm_process_event env) S0_SEND_KEY_SET_ACTION s)) \<in> {bootstrap_state (sm s), S0_INC_IDLE}"
  by (auto simp: s0_perform_def case_prod_beta Let_def abort_event split: option.split)

abbreviation (input) to_state :: "s0_bootstrap_state \<Rightarrow> s0 \<Rightarrow> s0" where
  "to_state st s \<equiv> with_sm (\<lambda>m. m\<lparr>bootstrap_state := st\<rparr>) s"

lemma to_state_twice: "to_state st (to_state st' s) = to_state st s"
  by (simp add: with_sm_def)

lemma key_set_event:
  assumes "bootstrap_state (sm s) = S0_HANDLE_SCHEME_REPORT"
  shows "s0_sm_process_event env EV_S0_SEND_KEY_SET s = s0_perform env (s0_sm_process_event env) S0_SEND_KEY_SET_ACTION (to_state S0_AWAITING_KEY_VERIFY s)"
  using assms by (simp add: bootstrap_event(3) row_step_def s0_transition_table_def)

lemma inherit_event:
  assumes "bootstrap_state (sm s) = S0_HANDLE_NET_KEY_VERIFY"
  shows "s0_sm_process_event env EV_S0_SEND_SCHEME_INHERIT s = s0_perform env (s0_sm_process_event env) S0_SEND_SCHEME_INHERIT_ACTION (to_state S0_AWAITING_2SCHEME_REPORT s)"
  using assms by (simp add: bootstrap_event(5) row_step_def s0_transition_table_def)

lemma not_controller_event:
  assumes "bootstrap_state (sm s) = S0_HANDLE_NET_KEY_VERIFY"
  shows "s0_sm_process_event env EV_S0_WAS_NOT_CONTROLLER s = reset_s0_sm (to_state S0_INC_IDLE s)"
  using assms by (simp add: bootstrap_event(6) row_step_def s0_transition_table_def perform_simps)

lemma scheme_report_event:
  "s0_sm_process_event env EV_S0_SCHEME_REPORT_RECEIVED s =
     (if bootstrap_state (sm s) = S0_AWAITING_SCHEME_REPORT
      then s0_perform env (s0_sm_process_event env) S0_SEND_KEY_SET_ACTION (to_state S0_AWAITING_KEY_VERIFY s)
      else if bootstrap_state (sm s) = S0_AWAITING_2SCHEME_REPORT
      then if s0_is_controller (sm s) \<noteq> 0 then bootstrapping_complete KEY_CLASS_S0 KEX_FAIL_NONE (to_state S0_INC_IDLE s) else to_state S0_INC_IDLE s
      else s)"
proof (cases "bootstrap_state (sm s)")
  case S0_AWAITING_SCHEME_REPORT
  have "bootstrap_state (sm (s0_perform env (s0_sm_process_event env) S0_SEND_KEY_SET_ACTION (to_state S0_AWAITING_KEY_VERIFY s))) \<noteq> S0_AWAITING_2SCHEME_REPORT"
    using send_state(2) [of env "to_state S0_AWAITING_KEY_VERIFY s"] by auto
  then show ?thesis
    using S0_AWAITING_SCHEME_REPORT by (simp add: bootstrap_event(2) row_step_def s0_transition_table_def perform_simps key_set_event to_state_twice)
qed (simp_all add: bootstrap_event(2) row_step_def s0_transition_table_def perform_simps)

lemma key_verify_event:
  "s0_sm_process_event env EV_S0_NET_KEY_VERIFY_RECEIVED s =
     (if bootstrap_state (sm s) = S0_AWAITING_KEY_VERIFY
      then if s0_is_controller (sm s) = 0 then reset_s0_sm (bootstrapping_complete KEY_CLASS_S0 KEX_FAIL_NONE (to_state S0_HANDLE_NET_KEY_VERIFY s))
        else s0_perform env (s0_sm_process_event env) S0_SEND_SCHEME_INHERIT_ACTION (to_state S0_AWAITING_2SCHEME_REPORT s)
      else s)"
  by (cases "bootstrap_state (sm s)")
     (simp_all add: bootstrap_event(4) row_step_def s0_transition_table_def perform_simps inherit_event not_controller_event to_state_twice reset_s0_sm_def with_sm_def)

lemma start_event:
  assumes "bootstrap_state (sm s) = S0_INC_IDLE"
  shows "s0_sm_process_event env EV_S0_BOOTSTRAPPING_START s = s0_perform env (s0_sm_process_event env) S0_SEND_SCHEME_GET_ACTION (to_state S0_AWAITING_SCHEME_REPORT s)"
  using assms by (simp add: bootstrap_event(1) row_step_def s0_transition_table_def)

lemma on_event_attempt:
  "attempt s (s0_sm_process_event env EV_S0_SCHEME_REPORT_RECEIVED s)" "attempt s (s0_sm_process_event env EV_S0_NET_KEY_VERIFY_RECEIVED s)"
proof -
  have on: "attempt s (to_state st s)" if "bootstrap_state (sm s) \<noteq> S0_INC_IDLE" "st \<noteq> S0_HANDLE_SCHEME_REPORT" "st \<noteq> S0_HANDLE_NET_KEY_VERIFY" for st
    using that by (intro attempt_on) (simp_all add: resting_def)
  note send = attempt_trans [OF on send_attempt(2)] attempt_trans [OF on send_attempt(3)]
  have c: "reports (bootstrapping_complete k f (to_state st s)) \<le> Suc (reports s)" for k f st using complete_sel(2) [of k f "to_state st s"] by simp
  show "attempt s (s0_sm_process_event env EV_S0_SCHEME_REPORT_RECEIVED s)"
    unfolding scheme_report_event by (simp add: send on attempt_refl attempt_end c)
  show "attempt s (s0_sm_process_event env EV_S0_NET_KEY_VERIFY_RECEIVED s)"
    unfolding key_verify_event by (simp add: reset_s0_sm_def send attempt_refl attempt_end c)
qed

text \<open>What no input but the start of a bootstrapping does: open one.\<close>

definition quiet :: "s0 \<Rightarrow> s0 \<Rightarrow> bool" where
  "quiet s s' \<longleftrightarrow> sm s' = sm s \<and> reports s' = reports s"

lemma quiet_refl [simp]: "quiet s s"
  by (simp add: quiet_def)

lemma quiet_attempt: "quiet s s' \<Longrightarrow> attempt s s'"
  by (simp add: quiet_def attempt_same)

lemma quiet_trans: "quiet s s' \<Longrightarrow> quiet s' s'' \<Longrightarrow> quiet s s''"
  by (simp add: quiet_def)

lemma quiet_updates [simp]:
  "quiet s (tx_update i f s') = quiet s s'" "quiet s (rx_update i g s') = quiet s s'" "\<not> is_report x \<Longrightarrow> quiet s (s0_emit x s') = quiet s s'"
  "quiet s (nonce_clear a b s') = quiet s s'" "quiet s (s'\<lparr>drbg := m\<rparr>) = quiet s s'" "quiet s (snd (register_nonce a b r n s')) = quiet s s'"
  "quiet s (aes_set_key_tpt k v s') = quiet s s'" "quiet s (s0_block_nonce a b n s') = quiet s s'" "quiet s (s'\<lparr>last_seq := q\<rparr>) = quiet s s'"
  using register_nonce_state [of a b r n s']
  by (auto simp: quiet_def reports_def tx_update_def rx_update_def s0_emit_def nonce_clear_def aes_set_key_tpt_def s0_block_nonce_def)

lemma quiet_left [simp]: "quiet (tx_update i f s) s' = quiet s s'"
  by (simp add: quiet_def tx_update_def reports_def)

lemma quiet_tx [simp]:
  "quiet s (tx_done i s') = quiet s s'" "quiet s (tx_failed i s') = quiet s s'" "quiet s (start_tx_timer i s') = quiet s s'" "quiet s (session_send env i frame n s') = quiet s s'"
proof -
  show d: "quiet s (tx_done i s') = quiet s s'" for s' by (simp add: tx_done_def Let_def reset_tx_session_data_def)
  show f: "quiet s (tx_failed i s') = quiet s s'" for s' by (simp add: tx_failed_def d)
  show t: "quiet s (start_tx_timer i s') = quiet s s'" for s' by (simp add: start_tx_timer_def)
  show "quiet s (session_send env i frame n s') = quiet s s'" by (simp add: session_send_def Let_def zwave_tx_send_data_def f t)
qed

lemma quiet_draw: "draw_nonce env a b s' = Some (block, s'') \<Longrightarrow> quiet s s'' = quiet s s'"
  by (auto dest!: draw_nonce_SomeD)

lemma quiet_ofb: "aes_ofb env p s' = (p', s'') \<Longrightarrow> quiet s s'' = quiet s s'"
  using aes_ofb_state [of env p s'] by (auto simp: quiet_def reports_def)

lemma quiet_frame: "s0_frame env ek ak iv sh a b p s' = (frame, s'') \<Longrightarrow> quiet s s'' = quiet s s'"
  by (auto simp: s0_frame_def Let_def split: prod.splits dest!: quiet_ofb [where s = s])

lemma quiet_encrypt: "whenever (\<lambda>(len, s'). quiet s s') (s0_encrypt_message env i pass2 s)"
  unfolding s0_encrypt_message_def Let_def by (intro whenever_intros; simp add: quiet_frame [where s = s] quiet_draw [where s = s])

lemma quiet_encrypt_and_send: "quiet s s' \<Longrightarrow> whenever (quiet s) (encrypt_and_send env i pass2 s')"
  unfolding encrypt_and_send_def Let_def
  by (intro whenever_intros) (auto dest!: wheneverD [OF quiet_encrypt] elim: quiet_trans)

lemma quiet_state_set: "quiet s s' \<Longrightarrow> whenever (quiet s) (tx_session_state_set env i st s')"
  unfolding tx_session_state_set_def Let_def by (cases st) (simp_all add: whenever_intros quiet_encrypt_and_send)

lemma quiet_session_callback: "whenever (quiet s) (session_callback env st info i s)"
  unfolding session_callback_def Let_def by (auto intro!: whenever_intros quiet_state_set split: tx_state.split)

lemma quiet_send_data: "whenever (\<lambda>(rc, s'). quiet s s') (zwave_s0_send_data env r s)"
  unfolding zwave_s0_send_data_def Let_def get_seq_def
  by (intro whenever_intros; simp only: prod.case) (auto elim!: wheneverD [OF quiet_state_set, rotated])

lemma quiet_report: "whenever (quiet s) (s0_register_nonce env a b n s)"
  unfolding s0_register_nonce_def Let_def by (intro whenever_intros quiet_state_set) simp_all

lemma quiet_send_nonce: "whenever (quiet s) (s0_send_nonce env c s)"
  unfolding s0_send_nonce_def Let_def zwave_tx_send_data_def by (intro whenever_intros) (auto simp: quiet_draw [where s = s])

lemma quiet_decrypt: "whenever (\<lambda>(d, s'). quiet s s') (s0_decrypt_message env c f l s)"
proof -
  have r: "rx_session_for a b s' = Some (j, s'') \<Longrightarrow> quiet s s'' = quiet s s'" for a b s' j s''
    by (auto simp: rx_session_for_def new_rx_session_def split: option.splits)
  have p: "quiet s s' \<Longrightarrow> whenever (\<lambda>(d, s''). quiet s s'') (rx_payload j q s')" for j q s'
    unfolding rx_payload_def Let_def free_rx_session_def by (intro whenever_intros) simp_all
  show ?thesis
    unfolding s0_decrypt_message_def Let_def by (intro whenever_intros p; simp add: r quiet_ofb [where s = s])
qed

lemma interface_attempts:
  "attempt s (s0_bootstrap_timeout env s)" "attempt s (s0_send_data_callback env st s)" "attempt s (s0_scheme_report_received env b n s)"
  "attempt s (s0_network_key_verify_received env n s)" "attempt s (s0_bootstrapping_stop s)"
proof -
  have t: "attempt s (with_sm (\<lambda>m. m\<lparr>bootstrap_timer := v\<rparr>) s)" "attempt s (with_sm (\<lambda>m. m\<lparr>bootstrap_timer := v, scheme_report := b\<rparr>) s)" for v b
    by (simp_all add: attempt_same)
  note e = end_event_attempt attempt_trans [OF t(2) on_event_attempt(1)] attempt_trans [OF t(1) on_event_attempt(2)]
  show "attempt s (s0_bootstrap_timeout env s)" "attempt s (s0_send_data_callback env st s)" "attempt s (s0_scheme_report_received env b n s)"
    "attempt s (s0_network_key_verify_received env n s)"
    by (simp_all add: s0_bootstrap_timeout_def s0_send_data_callback_def s0_scheme_report_received_def s0_network_key_verify_received_def e t attempt_refl)
  show "attempt s (s0_bootstrapping_stop s)" by (simp add: s0_bootstrapping_stop_def reset_s0_sm_def attempt_def resting_def attempts_def)
qed

lemma handler_attempt: "whenever (\<lambda>(rc, s'). attempt s s') (zwave_s0_on_frame_received env c frame s)"
proof -
  note m = quiet_attempt [OF wheneverD [OF quiet_report]] quiet_attempt [OF wheneverD [OF quiet_send_nonce]]
  have d: "attempt s (snd (if d \<noteq> [] then (SL_STATUS_OK, s0_emit (On_frame_received c' d) s') else (SL_STATUS_FAIL, s')))"
    if "s0_decrypt_message env c f l s = Some (d, s')" for f l d s' c'
    using wheneverD [OF quiet_decrypt that] by (simp add: quiet_attempt)
  show ?thesis
    unfolding zwave_s0_on_frame_received_def s0_application_command_handler_def case_prod_beta zwave_tx_send_data_def Let_def
    by (intro whenever_intros; (rule d)?; simp add: interface_attempts quiet_attempt m attempt_refl)
qed

definition starts :: "s0_input list \<Rightarrow> nat" where
  "starts is = length (filter (\<lambda>i. case i of S0_bootstrap n b \<Rightarrow> True | _ \<Rightarrow> False) is)"

lemma start_attempts:
  assumes "resting s"
  shows "resting (zwave_s0_start_bootstrapping env node b s) \<and> attempts (zwave_s0_start_bootstrapping env node b s) \<le> attempts s + 1"
proof (cases "bootstrap_state (sm s) = S0_INC_IDLE")
  case True
  let ?u = "with_sm (\<lambda>m. m\<lparr>bootstrap_conn := (bootstrap_conn m)\<lparr>local_node_id := zpc_node_id (schemes env), remote_node_id := node\<rparr>\<rparr>) (reset_s0_sm s)"
  let ?v = "s0_sm_process_event env EV_S0_BOOTSTRAPPING_START ?u"
  have u: "bootstrap_state (sm ?u) = S0_INC_IDLE" "reports ?u = reports s" by (simp_all add: reset_s0_sm_def)
  have "resting ?v \<and> attempts ?v \<le> attempts (to_state S0_AWAITING_SCHEME_REPORT ?u)"
    using send_attempt(1) [of "to_state S0_AWAITING_SCHEME_REPORT ?u" env] unfolding start_event [OF u(1)] by (simp add: attempt_def resting_def)
  moreover have "attempt ?v (with_sm (\<lambda>m. m\<lparr>s0_is_controller := b\<rparr>) ?v)" by (simp add: attempt_same)
  ultimately show ?thesis
    using True u(2) by (simp add: zwave_s0_start_bootstrapping_def s0_bootstrapping_start_def Let_def attempt_def) (simp add: attempts_def)
qed (simp add: zwave_s0_start_bootstrapping_def s0_bootstrapping_start_def assms)

lemma quiet_network_init: "quiet s (snd (zwave_s0_network_init env s))"
proof -
  have a: "quiet s (s0_abort_all_tx_sessions s)" by (simp add: s0_abort_all_tx_sessions_def upt_conv_Cons)
  have "quiet w (reset_s0_timers (reset_block_next_elem (free_nonce_block_list (free_all_tx_sessions (free_all_rx_session u))))) = quiet w u" for w u
    by (simp add: reset_s0_timers_def reset_block_next_elem_def free_nonce_block_list_def free_all_tx_sessions_def free_all_rx_session_def
        free_rx_session_def rx_update_def upt_conv_Cons quiet_def reports_def)
  moreover have "quiet w (s0_set_key env key u) = quiet w u" for w key u by (simp add: quiet_def)
  ultimately show ?thesis using a by (simp add: zwave_s0_network_init_def Let_def split: option.split)
qed

lemma s0_step_attempts:
  assumes "resting s"
  shows "whenever (\<lambda>s'. resting s' \<and> attempts s' \<le> attempts s + starts [i]) (s0_step env i s)"
proof (cases "\<exists>n b. i = S0_bootstrap n b")
  case True
  then show ?thesis using start_attempts [OF assms] by (auto simp: s0_step_def starts_def intro!: whenever_intros)
next
  case False
  note q = quiet_attempt [OF wheneverD [OF quiet_session_callback]]
  have "whenever (attempt s) (s0_step env i s)"
  proof (cases i)
    case (S0_frame c frame)
    then show ?thesis using handler_attempt by (simp add: s0_step_def whenever_map_snd)
  next
    case (S0_send r)
    then show ?thesis using quiet_send_data [of s env r] by (auto simp: s0_step_def whenever_def quiet_attempt)
  next
    case (S0_session_timer k)
    have "whenever (quiet s) (s0_timeout env k (tx_update k f s))" for f by (simp add: s0_timeout_def quiet_state_set)
    then show ?thesis using S0_session_timer by (auto simp: s0_step_def whenever_def attempt_refl intro: quiet_attempt)
  next
    case S0_bootstrap_timer
    have "attempt s (with_sm (\<lambda>m. m\<lparr>bootstrap_timer := None\<rparr>) s)" by (simp add: attempt_same)
    then show ?thesis using S0_bootstrap_timer attempt_trans [OF _ interface_attempts(1)] by (simp add: s0_step_def whenever_intros attempt_refl)
  next
    case S0_nonce_timer
    have "quiet s (nonce_timer_timeout (s\<lparr>nonce_timer := None\<rparr>))" by (simp add: nonce_timer_timeout_def Let_def quiet_def reports_def)
    then show ?thesis using S0_nonce_timer by (simp add: s0_step_def whenever_intros attempt_refl quiet_attempt)
  next
    case S0_new_network
    then show ?thesis by (simp add: s0_step_def s0_on_new_network_def whenever_intros quiet_attempt quiet_network_init)
  next
    case (S0_set_callback cb)
    then show ?thesis by (simp add: s0_step_def zwave_s0_set_network_callbacks_def s0_set_callback_def whenever_intros quiet_attempt quiet_def reports_def)
  next
    case (S0_time t)
    then show ?thesis by (simp add: s0_step_def whenever_intros quiet_attempt quiet_def reports_def)
  next
    case (S0_abort sid)
    then show ?thesis unfolding s0_step_def zwave_s0_on_abort_send_data_def
      by (auto intro!: whenever_map_snd whenever_intros attempt_refl elim!: q)
  next
    case (S0_sent k st info)
    then show ?thesis by (auto simp: s0_step_def whenever_def attempt_refl intro: q)
  qed (use False in \<open>simp_all add: s0_step_def whenever_intros interface_attempts zwave_s0_stop_bootstrapping_def\<close>)
  then show ?thesis using assms by (auto simp: whenever_def attempt_def)
qed

lemma s0_run_attempts: "resting s \<Longrightarrow> whenever (\<lambda>s'. resting s' \<and> attempts s' \<le> attempts s + starts is) (s0_run env is s)"
proof (induction "is" arbitrary: s)
  case (Cons i "is")
  have "whenever (\<lambda>s'. resting s' \<and> attempts s' \<le> attempts s + starts (i # is)) (s0_run env is s')" if "s0_step env i s = Some s'" for s'
  proof -
    have i: "resting s'" "attempts s' \<le> attempts s + starts [i]" using wheneverD [OF s0_step_attempts [OF Cons.prems] that] by auto
    moreover have "starts (i # is) = starts [i] + starts is" by (simp add: starts_def)
    ultimately show ?thesis using Cons.IH [OF i(1)] by (fastforce simp: whenever_def)
  qed
  then show ?case by (auto intro: whenever_intros)
qed (simp add: whenever_intros starts_def)

text \<open>
  C22. In every history the ends of bootstrappings that were reported, together with the one that is going
  on, are at most as many as the bootstrappings that were started; and between inputs the state
  machine is idle or waits for the node, never in a state that it only passes through.
\<close>

theorem bootstrapping_reported_at_most_once:
  assumes "env_ok env" and "list_all (s0_input_ok env) is"
  shows "returns (\<lambda>s. resting s \<and> reports s + (if get_s0_sm_state s = S0_INC_IDLE then 0 else 1) \<le> starts is) (s0_run env is (s0_start env))"
proof -
  obtain s where s: "s0_run env is (s0_start env) = Some s"
    using s0_run_inv [OF assms(1) _ assms(2)] start_inv [OF assms(1)] by (auto simp: returns_def)
  have "quiet s0_boot (s0_start env)" using quiet_network_init by (simp add: s0_start_def)
  then have "resting (s0_start env)" "attempts (s0_start env) = 0"
    by (simp_all add: quiet_def resting_def attempts_def s0_boot_def reports_def)
  then show ?thesis using wheneverD [OF s0_run_attempts s] s by (simp add: attempts_def get_s0_sm_state_def)
qed

text \<open>
  A bootstrapping command whose transmission ends with any status but OK and FAIL, for example
  because the node did not acknowledge it, leaves the bootstrapping without a timer: nothing is
  reported, no timer will end it, and no other bootstrapping can start.
\<close>

theorem unacknowledged_command_blocks_bootstrapping:
  assumes "bootstrap_state (sm s) = S0_INC_IDLE" and "\<And>out. tx_answer env out = SL_STATUS_OK" and "tx_status \<noteq> TRANSMIT_COMPLETE_OK" and "tx_status \<noteq> TRANSMIT_COMPLETE_FAIL"
  shows "\<exists>s'. s0_run env [S0_bootstrap node b, S0_bootstrap_sent tx_status] s = Some s' \<and> get_s0_sm_state s' = S0_AWAITING_SCHEME_REPORT \<and>
    reports s' = reports s \<and> s0_step env S0_bootstrap_timer s' = Some s' \<and> s0_step env (S0_bootstrap node' b') s' = Some s'"
proof -
  let ?s = "zwave_s0_start_bootstrapping env node b s"
  let ?u = "with_sm (\<lambda>m. m\<lparr>bootstrap_conn := (bootstrap_conn m)\<lparr>local_node_id := zpc_node_id (schemes env), remote_node_id := node\<rparr>\<rparr>) (reset_s0_sm s)"
  have "bootstrap_state (sm ?u) = S0_INC_IDLE" by (simp add: reset_s0_sm_def)
  moreover have "fst (s0_send_scheme_get env w) = SL_STATUS_OK" for w
    using assms(2) by (simp add: s0_send_scheme_get_def s0_bootstrap_frames_generic_send_def zwave_tx_send_data_def Let_def)
  ultimately have e: "?s = with_sm (\<lambda>m. m\<lparr>s0_is_controller := b\<rparr>) (snd (s0_send_scheme_get env (to_state S0_AWAITING_SCHEME_REPORT ?u)))"
    using assms(1) by (simp add: zwave_s0_start_bootstrapping_def s0_bootstrapping_start_def Let_def start_event perform_simps)
  have "bootstrap_state (sm ?s) = S0_AWAITING_SCHEME_REPORT" "bootstrap_timer (sm ?s) = None" "reports ?s = reports s"
    unfolding e by simp_all (simp_all add: s0_send_scheme_get_def s0_bootstrap_frames_generic_send_def zwave_tx_send_data_def Let_def s0_emit_def reset_s0_sm_def zero_sm_def)
  then show ?thesis
    using assms(3,4) by (simp add: s0_step_def s0_send_data_callback_def get_s0_sm_state_def) (simp add: zwave_s0_start_bootstrapping_def s0_bootstrapping_start_def)
qed

text \<open>
  A NETWORK_KEY_VERIFY that comes before its time stops the timer of the bootstrapping and does nothing else.
\<close>

lemma early_key_verify_stops_timer:
  assumes "bootstrap_state (sm s) = S0_AWAITING_SCHEME_REPORT" and "remote_node_id c = remote_node_id (bootstrap_conn (sm s))"
  shows "zwave_s0_on_frame_received env c [0x98, 0x07] s = Some (SL_STATUS_OK, with_sm (\<lambda>m. m\<lparr>bootstrap_timer := None\<rparr>) s)"
  using assms
  by (simp add: zwave_s0_on_frame_received_def s0_application_command_handler_def read_cell_def write_bytes_def s0_network_key_verify_received_def key_verify_event)

section \<open>Frames and nonces\<close>

lemma decrypt_clears:
  assumes "20 \<le> length F" and "length F \<le> 148" and "n = of_nat (length F)" and "take (length F) E = F" and "length F \<le> length E"
    and "get_s0_nonce (ucast (local_node_id c)) (ucast (remote_node_id c)) (F ! (length F - 9)) False s \<noteq> None"
  shows "whenever (\<lambda>(d, s'). same_nonces (nonce_clear (ucast (local_node_id c)) (ucast (remote_node_id c)) s) s') (s0_decrypt_message env c E n s)"
proof -
  let ?c = "nonce_clear (ucast (local_node_id c)) (ucast (remote_node_id c)) s"
  have n: "unat (n AND 0xff) = length F"
  proof -
    have "n AND 0xff = take_bit 8 n" by (simp add: take_bit_eq_mask mask_eq_decr_exp)
    moreover have "unat n = length F" using assms(2,3) by (simp add: unat_of_nat)
    ultimately show ?thesis using assms(2) by (simp add: unsigned_take_bit_eq take_bit_nat_eq_self)
  qed
  have p: "whenever (\<lambda>(d, s'). same_nonces ?c s') (rx_payload j q u)" if "same_nonces ?c u" for j q u
    using that rx_payload_same [where w = ?c] by (auto simp: whenever_def)
  note same = rx_session_for_same [where w = ?c] aes_ofb_same [where w = ?c]
  obtain rn where rn: "get_s0_nonce (ucast (local_node_id c)) (ucast (remote_node_id c)) (F ! (length F - 9)) False s = Some rn" using assms(6) by blast
  have g: "(length F > 158 \<or> length F > length E) = False" "(length F < 20) = False" "(length F - 20 > 128) = False" using assms(1,2,5) by auto
  show ?thesis
    unfolding s0_decrypt_message_def Let_def n assms(4) g
    by (simp only: if_False rn option.case) (intro whenever_intros p; simp add: same)
qed

text \<open>
  A frame that anybody can make, with the first byte of the nonce that a node holds in the right
  place, uses up that nonce: the message that the node encrypts under it is refused.
\<close>

theorem forged_frame_uses_up_nonce:
  assumes "env_ok env" and "s0_inv env s" and "20 \<le> length frame" and "length frame \<le> 148"
    and "hd frame = COMMAND_CLASS_SECURITY" and "frame ! 1 = SECURITY_MESSAGE_ENCAPSULATION"
    and "get_s0_nonce (ucast (local_node_id c)) (ucast (remote_node_id c)) (frame ! (length frame - 9)) False s \<noteq> None"
    and "rest \<noteq> []" and "length rest \<le> 156"
  shows "\<exists>rc s'. zwave_s0_on_frame_received env c frame s = Some (rc, s') \<and>
    zwave_s0_on_frame_received env c ([COMMAND_CLASS_SECURITY, SECURITY_MESSAGE_ENCAPSULATION] @ rest) s' = Some (SL_STATUS_FAIL, s')"
proof -
  let ?h = "ucast (local_node_id c) :: u8" and ?r = "ucast (remote_node_id c) :: u8" and ?n = "of_nat (length frame) :: u16"
  obtain rc s' where h: "zwave_s0_on_frame_received env c frame s = Some (rc, s')"
    using handler_settled [OF assms(1,2), of frame c] assms(3,4) by (cases frame) (auto simp: returns_def)
  have f: "frame ! 0 = COMMAND_CLASS_SECURITY" "frame \<noteq> []" using assms(3,5) by (cases frame; simp)+
  have l: "unat ?n = length frame" using assms(4) unfolding unat_of_nat by simp
  obtain E where E: "write_bytes (replicate 158 0) 0 frame (length frame) = Some E" "take (length frame) E = frame" "length E = 158"
    using assms(4) by (auto simp: write_bytes_def)
  obtain d u where d: "s0_decrypt_message env c E ?n s = Some (d, u)" "s' = (if d \<noteq> [] then s0_emit (On_frame_received (c\<lparr>encapsulation := SECURITY_0\<rparr>) d) u else u)"
    using h f assms(3,4,6) unfolding zwave_s0_on_frame_received_def s0_application_command_handler_def l
    by (auto simp: read_cell_def E(1) bind_eq_Some_conv split: if_splits)
  have "holders ?h u = holders ?h (nonce_clear ?h ?r s)"
    using wheneverD [OF decrypt_clears [OF assms(3,4) refl E(2) _ assms(7)] d(1)] E(3) assms(4) by (simp add: same_nonces_def holders_def)
  then have "?r \<notin> holders ?h u" by (simp add: holders_clear)
  then have "?r \<notin> holders ?h s'" using d(2) by (simp add: holders_def)
  then show ?thesis using h no_nonce_no_message [of c s' "0x81" rest env] assms(9) by simp
qed

text \<open>The nonces of the old network are still accepted in a new one.\<close>

lemma new_network_keeps_nonces: "env_ok env \<Longrightarrow> nonce_table (s0_on_new_network env s) = nonce_table s"
  using network_init_same [of env s] by (simp add: s0_on_new_network_def same_nonces_def)

text \<open>
  In a region with large frames the sender puts up to 130 bytes into one frame; the receiver refuses
  every frame that carries more than 128.
\<close>

lemma large_region_frames_refused:
  assumes "rf_region (schemes env) = ZWAVE_RF_REGION_JP" and "zwave_controller_storage_inclusion_protocol (store (schemes env)) (remote_node_id (conn_info x)) = PROTOCOL_ZWAVE"
    and "data_len x = 129 \<or> data_len x = 130" and "length rest = unat (data_len x) + 18"
  shows "\<not> more_to_send env x" "zwave_s0_on_frame_received env' c ([COMMAND_CLASS_SECURITY, SECURITY_MESSAGE_ENCAPSULATION] @ rest) r = Some (SL_STATUS_FAIL, r)"
proof -
  show "\<not> more_to_send env x"
    using assms(1-3) by (auto simp: more_to_send_def get_node_max_frame_size_def zwave_tx_scheme_get_max_payload_def Let_def)
  show "zwave_s0_on_frame_received env' c ([COMMAND_CLASS_SECURITY, SECURITY_MESSAGE_ENCAPSULATION] @ rest) r = Some (SL_STATUS_FAIL, r)"
    using assms(3,4) by (auto simp: zwave_s0_on_frame_received_def s0_application_command_handler_def read_cell_def write_bytes_def s0_decrypt_message_def Let_def)
qed

text \<open>A frame of one byte makes the handler read the byte after it.\<close>

lemma one_byte_frame_read_past_end: "zwave_s0_on_frame_received env c [COMMAND_CLASS_SECURITY] s = None"
  by (simp add: zwave_s0_on_frame_received_def s0_application_command_handler_def read_cell_def write_bytes_def)

text \<open>The callback of a request gets the session of the transmit queue, not the pointer that the request gave for it.\<close>

lemma timeout_passes_session:
  assumes "i < length (tx_sessions s)" and "s_callback (tx_sessions s ! i) \<noteq> 0"
  shows "\<exists>s'. s0_timeout env i s = Some s' \<and> s0_out s' = s0_out s @
    [Send_complete (s_callback (tx_sessions s ! i)) TRANSMIT_COMPLETE_FAIL (tx_ext_status (tx_sessions s ! i)) (s_session_id (tx_sessions s ! i))]"
  using assms by (simp add: s0_timeout_def tx_session_state_set_def tx_done_def reset_tx_session_data_def Let_def tx_update_def s0_emit_def)

lemma register_makes_live:
  assumes "list_ex (\<lambda>e. n_timeout e = 0) (nonce_table s)"
  shows "\<exists>n'. get_s0_nonce a b 0 True (snd (register_nonce a b False n s)) = Some n'"
proof -
  obtain i where i: "first_index (\<lambda>e. n_timeout e = 0) (nonce_table s) = Some i"
    using assms first_index_None [of "\<lambda>e. n_timeout e = 0" "nonce_table s"] by (cases "first_index (\<lambda>e. n_timeout e = 0) (nonce_table s)") (auto simp: list_ex_iff)
  have "i < length (nonce_table s)" using first_index_SomeD [OF i] by simp
  then have "\<exists>e \<in> set (nonce_table (snd (register_nonce a b False n s))). nonce_between a b e"
    using i by (auto simp: register_nonce_def restart_s0_timer_def nonce_between_def intro!: bexI [OF _ set_update_memI])
  then have "get_s0_nonce a b 0 True (snd (register_nonce a b False n s)) \<noteq> None" by (auto simp: get_s0_nonce_def find_None_iff)
  then show ?thesis by blast
qed

text \<open>
  A Nonce Report that arrives before the transmission of the Nonce Get is confirmed: the confirmation
  of the Nonce Get is taken for that of the encrypted frame, and the success of the request is
  reported although that frame, which the queue has just been given, was never confirmed.
\<close>

theorem early_nonce_report_confirms_request:
  assumes "env_ok env" and "\<And>out. tx_answer env out = SL_STATUS_OK" and "s0_inv env s" and "i < NUM_TX_SESSIONS" and "x = tx_sessions s ! i"
    and "tx_st x = NONCE_GET" and "s_callback x \<noteq> 0" and "\<not> more_to_send env x"
    and "c = (conn_info x)\<lparr>encapsulation := SCHEME_NONE\<rparr>" and "length n = 8"
    and "get_tx_session_by_node (ucast (local_node_id c)) (ucast (remote_node_id c)) s = Some i"
    and "\<not> s0_is_nonce_blocked (ucast (remote_node_id c)) (ucast (local_node_id c)) n s" and "list_ex (\<lambda>e. n_timeout e = 0) (nonce_table s)"
  shows "\<exists>s1 s2 c' frame opts. zwave_s0_on_frame_received env c ([0x98, 0x80] @ n) s = Some (SL_STATUS_OK, s1) \<and>
    s0_out s1 = s0_out s @ [Tx_send c' frame opts (Session_callback i)] \<and> take 2 frame = [0x98, 0x81] \<and>
    s0_step env (S0_sent i TRANSMIT_COMPLETE_OK 0) s1 = Some s2 \<and>
    s0_out s2 = s0_out s1 @ [Send_complete (s_callback x) TRANSMIT_COMPLETE_OK (tx_ext_status x) (s_session_id x)]"
proof -
  let ?h = "ucast (local_node_id c) :: u8" and ?r = "ucast (remote_node_id c) :: u8"
  let ?s1 = "s0_block_nonce ?r ?h n (snd (register_nonce ?r ?h False n s))"
  define u where u: "u = tx_update i (\<lambda>x. x\<lparr>tx_timer := None\<rparr>) (tx_update i (\<lambda>x. x\<lparr>tx_st := ENC_MSG\<rparr>) ?s1)"
  define y where y: "y = x\<lparr>tx_st := ENC_MSG, tx_timer := None\<rparr>"
  have base: "s0_base env s" using assms(3) by (simp add: s0_inv_def)
  have l: "i < length (tx_sessions s)" using base assms(4) by (simp add: s0_base_def)
  have tb: "tx_base env x" using tx_base_nth [OF base assms(4)] assms(5) by simp
  have ts: "tx_sessions ?s1 = tx_sessions s" "s0_out ?s1 = s0_out s" using register_nonce_state [of ?r ?h False n s] by auto
  then have yu: "y = tx_sessions u ! i" "tx_sessions u = (tx_sessions s)[i := y]" "s0_out u = s0_out s" using l assms(5) by (simp_all add: y u tx_update_def)
  have ub: "s0_base env u"
    using register_change(1) [OF base, of n ?r ?h False] assms(10) tb ts(1) l assms(5)
    unfolding u by (intro tx_update_base) (simp_all add: tx_base_def tx_buffers_ok_def)
  have yb: "tx_buffers_ok y" "radio_ok env (remote_node_id (conn_info y))" "keys_ok u"
    using tb ub by (simp_all add: y tx_base_def tx_buffers_ok_def s0_base_def)
  have cy: "conn_info y = conn_info x" "ucast (remote_node_id (conn_info y)) = ?r" "ucast (local_node_id (conn_info y)) = ?h" using assms(9) by (simp_all add: y)
  obtain n' where "get_s0_nonce ?r ?h 0 True (snd (register_nonce ?r ?h False n s)) = Some n'" using register_makes_live [OF assms(13)] by blast
  then have g: "get_s0_nonce ?r ?h 0 True u = Some n'" by (simp add: get_s0_nonce_def u)
  obtain block m where d: "draw_nonce env ?r ?h u = Some (block, u\<lparr>drbg := m\<rparr>)" "length block = 16" using draw_nonce_total [OF assms(1) ub] by blast
  have len: "part_len env y = data_len x" "data_len y = data_len x" using assms(8) by (simp_all add: y part_len_def more_to_send_def)
  have aes: "\<And>b k. length (aes_128 env b k) = 16" using assms(1) by (simp add: env_ok_def)
  obtain s' cr where e: "s0_encrypt_message env i False u = Some (part_len env y + 20, s')"
      "tx_sessions s' = (tx_sessions u)[i := y\<lparr>crypted_msg := cr, data_pos := data_pos y + unat (part_len env y), data_len := 0\<rparr>]"
      "take (unat (part_len env y) + 20) cr = session_frame env u False y (take 8 block @ n')" "s0_out s' = s0_out u"
    using encrypt_message_spec [OF aes yu(1) yb(1,3,2) d [folded cy(2,3)] g [folded cy(2,3)], of False] get_s0_nonce_length [OF g] ub len
    by (auto simp: s0_base_def)
  have n20: "unat (part_len env y + 20) = unat (part_len env y) + 20" "part_len env y + 20 \<noteq> 0"
    using part_len_bounds(1) [OF yb(2)] by (auto simp: unat_plus_if_size word_size unat_eq_0 [symmetric])
  define z where z: "z = y\<lparr>crypted_msg := cr, data_pos := data_pos y + unat (part_len env y), data_len := 0\<rparr>"
  have zs: "tx_sessions s' ! i = z" "s0_out s' = s0_out s" "i < length (tx_sessions s')" using e(2,4) yu(2,3) l by (simp_all add: z)
  let ?t = "Tx_send (session_connection z) (session_frame env u False y (take 8 block @ n')) (session_options 0 z) (Session_callback i)"
  have "encrypt_and_send env i False (tx_update i (\<lambda>x. x\<lparr>tx_st := ENC_MSG\<rparr>) ?s1) = Some (start_tx_timer i (s0_emit ?t s'))"
    using e(1,3) n20 zs(1) assms(2) by (simp add: u [symmetric] encrypt_and_send_def session_send_def zwave_tx_send_data_def Let_def z)
  then have r: "s0_register_nonce env ?r ?h n s = Some (start_tx_timer i (s0_emit ?t s'))"
    using assms(5,6,11,12) ts(1) by (simp add: s0_register_nonce_def Let_def tx_session_state_set_def)
  have "encapsulation c = SCHEME_NONE" using assms(9) by simp
  then have h: "zwave_s0_on_frame_received env c ([0x98, 0x80] @ n) s = Some (SL_STATUS_OK, start_tx_timer i (s0_emit ?t s'))"
    using r assms(10) by (simp add: zwave_s0_on_frame_received_def s0_application_command_handler_def read_cell_def write_bytes_def)
  have f: "take 2 (session_frame env u False y (take 8 block @ n')) = [0x98, 0x81]"
    using assms(8) by (simp add: session_frame_def sealed_def Let_def security_header_def more_to_send_def y)
  show ?thesis
    using h f zs assms(4,7) by (simp add: start_tx_timer_def s0_step_def session_callback_def IS_TRANSMISSION_SUCCESSFUL_def Let_def z y
      tx_session_state_set_def tx_done_def reset_tx_session_data_def s0_emit_def tx_update_def)
qed

end
