(* ===== verification/S0_Examples.thy ===== *)
theory S0_Examples
  imports S0_Properties
begin

text \<open>
  Concrete controllers, transmissions and histories of the Security 0 component, on which the
  theorems of its other theories are applied.
\<close>

section \<open>Examples\<close>

text \<open>A block function, a generator that counts, a queue that takes everything, and the network key of sixteen ones.\<close>

definition xor_cipher :: "u8 list \<Rightarrow> u8 list \<Rightarrow> u8 list" where
  "xor_cipher b k = map (\<lambda>i. (if i < length b then b ! i else 0) XOR (if i < length k then k ! i else 0) XOR 0x3C) [0..<16]"

definition sample_s0_env :: s0_env where
  "sample_s0_env = \<lparr>aes_128 = xor_cipher, drbg_block = (\<lambda>n. of_nat n # replicate 15 0), tx_answer = (\<lambda>out. SL_STATUS_OK),
     s0_key_read = (\<lambda>out. Some (replicate 16 1)), schemes = sample_scheme_env, uninit_supporting_keys = 0\<rparr>"

definition to_node :: "node_id \<Rightarrow> connection_info" where
  "to_node n = zero_connection\<lparr>local_node_id := 1, remote_node_id := n, encapsulation := SECURITY_0\<rparr>"

definition sample_request :: "u8 list \<Rightarrow> tx_request" where
  "sample_request data = \<lparr>tx_connection = to_node 3, tx_data = data, tx_request_options = zero_options, tx_on_send_complete = 7, tx_user = 9, tx_parent_session = 4\<rparr>"

definition nonce_report :: "u8 list \<Rightarrow> s0_input" where
  "nonce_report n = S0_frame ((to_node 3)\<lparr>encapsulation := SCHEME_NONE\<rparr>) ([0x98, 0x80] @ n)"

text \<open>A transmission of three bytes to node 3, and a nonce of node 3 for node 1.\<close>

definition sample_session :: sec_tx_session where
  "sample_session = zero_tx_session\<lparr>conn_info := to_node 3, buf := [0x25, 0x01, 0xFF] @ replicate 253 0, data_len := 3,
     tx_timer := Some 10000, seq := 1, s_callback := 7, user := 9, s_session_id := 4\<rparr>"

definition sample_nonce :: nonce where
  "sample_nonce = \<lparr>n_src = 3, n_dst = 1, n_timeout = 10, reply_nonce = False, n_bytes = [1, 2, 3, 4, 5, 6, 7, 8]\<rparr>"

definition sample_sender :: s0 where
  "sample_sender = s0_boot\<lparr>tx_sessions := [sample_session, zero_tx_session], nonce_table := sample_nonce # replicate 14 zero_nonce, nonce_timer := Some 1000, s0_clock := 1\<rparr>"

text \<open>Node 3, and the connection it sees.\<close>

definition sample_receiver :: s0 where
  "sample_receiver = s0_boot\<lparr>nonce_table := sample_nonce # replicate 14 zero_nonce, nonce_timer := Some 1000, s0_clock := 1\<rparr>"

definition from_node_1 :: connection_info where
  "from_node_1 = zero_connection\<lparr>local_node_id := 3, remote_node_id := 1, encapsulation := SCHEME_NONE\<rparr>"

lemma sample_env_ok: "env_ok sample_s0_env"
proof -
  have "\<exists>m \<ge> n. (of_nat m :: u8) \<notin> B" if "card B \<le> 15" for n and B :: "u8 set"
  proof (rule ccontr)
    assume "\<not> (\<exists>m \<ge> n. (of_nat m :: u8) \<notin> B)"
    then have all: "\<And>m. n \<le> m \<Longrightarrow> (of_nat m :: u8) \<in> B" by blast
    have "(256 :: u8) = 0" by simp
    then have "x \<in> B" for x :: u8 using all [of "unat x + 256 * n"] by (simp only: of_nat_add of_nat_mult of_nat_numeral) simp
    then have "B = UNIV" by blast
    with that show False by (simp add: card_word)
  qed
  then show ?thesis
    by (simp add: env_ok_def sample_s0_env_def xor_cipher_def radio_ok_def get_node_max_frame_size_def zwave_tx_scheme_get_max_payload_def
        zwave_controller_storage_inclusion_protocol_def sample_scheme_env_def sample_storage_def)
qed

definition sample_history :: "s0_input list" where
  "sample_history = [S0_set_callback True, S0_send (sample_request [0x25, 0x01, 0xFF]), nonce_report [1, 2, 3, 4, 5, 6, 7, 8], S0_bootstrap 3 0]"

definition sample_frame :: "u8 list" where
  "sample_frame = [0x98, 0x81, 0, 0, 0, 0, 0, 0, 0, 0, 60, 25, 61, 195, 1, 129, 1, 3, 4, 60, 25, 61, 195]"

lemma sample_radio_ok: "radio_ok sample_s0_env n"
  by (simp add: radio_ok_def get_node_max_frame_size_def zwave_tx_scheme_get_max_payload_def zwave_controller_storage_inclusion_protocol_def
      sample_s0_env_def sample_scheme_env_def sample_storage_def)

lemma sample_max_frame: "get_node_max_frame_size sample_s0_env n = 46"
  by (simp add: get_node_max_frame_size_def zwave_tx_scheme_get_max_payload_def zwave_controller_storage_inclusion_protocol_def
      sample_s0_env_def sample_scheme_env_def sample_storage_def)

lemma sample_history_ok: "list_all (s0_input_ok sample_s0_env) sample_history" "list_all (from_others 1) sample_history"
  by (simp_all add: sample_history_def s0_input_ok_def sample_request_def nonce_report_def request_ok_def sample_radio_ok to_node_def from_others_def)

lemma sample_cipher: "length (aes_128 sample_s0_env b k) = 16"
  by (simp add: sample_s0_env_def xor_cipher_def)

theorem s0_undefined_only_for_truncated_frames_witness:
  "returns (\<lambda>s. s0_inv sample_s0_env s \<and>
      (\<forall>c frame. length frame < 65536 \<longrightarrow> (s0_step sample_s0_env (S0_frame c frame) s = None \<longleftrightarrow> frame = [] \<or> frame = [COMMAND_CLASS_SECURITY])))
    (s0_run sample_s0_env sample_history (s0_start sample_s0_env))"
  by (rule s0_undefined_only_for_truncated_frames [OF sample_env_ok sample_history_ok(1)])

theorem s0_requests_answered_once_witness:
  "\<exists>s s'. s0_run sample_s0_env sample_history (s0_start sample_s0_env) = Some s \<and>
      answered s + sum_list (map awaiting (tx_sessions s)) = accepted sample_s0_env sample_history (s0_start sample_s0_env) \<and>
      s0_run sample_s0_env [S0_session_timer 0, S0_session_timer 1] s = Some s' \<and> answered s' = accepted sample_s0_env sample_history (s0_start sample_s0_env)"
  by (rule s0_requests_answered_once [OF sample_env_ok sample_history_ok(1)])

theorem every_message_costs_a_nonce_witness:
  "returns (\<lambda>s. delivered 1 s + card (holders 1 s) \<le> drbg s) (s0_run sample_s0_env sample_history (s0_start sample_s0_env))"
  by (rule every_message_costs_a_nonce [OF sample_env_ok sample_history_ok])

theorem nonces_expire_witness:
  "returns (\<lambda>s. list_all (\<lambda>e. n_timeout e = 0) (nonce_table s) \<and> nonce_timer s = None)
    (Option.bind (s0_run sample_s0_env sample_history (s0_start sample_s0_env)) (s0_run sample_s0_env (replicate 10 S0_nonce_timer)))"
  by (rule nonces_expire [OF sample_env_ok sample_history_ok(1)])

theorem bootstrapping_reported_at_most_once_witness:
  "returns (\<lambda>s. resting s \<and> reports s + (if get_s0_sm_state s = S0_INC_IDLE then 0 else 1) \<le> 1) (s0_run sample_s0_env sample_history (s0_start sample_s0_env))"
proof -
  have "starts sample_history = 1" by (simp add: starts_def sample_history_def nonce_report_def)
  then show ?thesis using bootstrapping_reported_at_most_once [OF sample_env_ok sample_history_ok(1)] by simp
qed

theorem cipher_modes_are_standard_witness:
  "fst (aes_ofb sample_s0_env [1, 2, 3] s0_boot) = ofb sample_s0_env (aes_key s0_boot) (aes_iv s0_boot) [1, 2, 3] \<and>
   aes_cbc_mac sample_s0_env [1, 2, 3] s0_boot = cbc_mac sample_s0_env (aes_key s0_boot) (aes_iv s0_boot) [1, 2, 3]"
  using cipher_modes_are_standard [OF sample_cipher, of "[1, 2, 3]" s0_boot] by blast

theorem replayed_frame_is_refused_witness:
  "\<exists>s'. zwave_s0_on_frame_received sample_s0_env from_node_1 sample_frame sample_receiver = Some (SL_STATUS_OK, s') \<and>
    zwave_s0_on_frame_received sample_s0_env from_node_1 sample_frame (s'\<lparr>s0_clock := 5\<rparr>) = Some (SL_STATUS_FAIL, s'\<lparr>s0_clock := 5\<rparr>)"
proof -
  have "(case zwave_s0_on_frame_received sample_s0_env from_node_1 sample_frame sample_receiver of Some (rc, s) \<Rightarrow> rc = SL_STATUS_OK | None \<Rightarrow> False)"
    by code_simp
  then obtain s' where "zwave_s0_on_frame_received sample_s0_env from_node_1 sample_frame sample_receiver = Some (SL_STATUS_OK, s')"
    by (auto split: option.splits)
  moreover have "s0_run sample_s0_env [S0_time 5] s' = Some (s'\<lparr>s0_clock := 5\<rparr>)" by (simp add: s0_step_def)
  ultimately show ?thesis
    using replayed_frame_is_refused [of sample_s0_env "drop 2 sample_frame" "0x81" from_node_1 sample_receiver s' "[S0_time 5]" "s'\<lparr>s0_clock := 5\<rparr>"] sample_env_ok
    by (simp add: sample_frame_def from_others_def)
qed

theorem unencrypted_key_verify_completes_witness:
  "\<exists>s'. zwave_s0_on_frame_received sample_s0_env ((to_node 3)\<lparr>encapsulation := SCHEME_NONE\<rparr>) [0x98, 0x07]
      (s0_boot\<lparr>s0_on_bootstrapping_complete_callback := True,
         sm := zero_sm\<lparr>bootstrap_state := S0_AWAITING_KEY_VERIFY, bootstrap_conn := to_node 3, bootstrap_timer := Some 10000\<rparr>\<rparr>) = Some (SL_STATUS_OK, s') \<and>
    s0_out s' = [Bootstrapping_complete KEY_CLASS_S0 KEX_FAIL_NONE] \<and> sm s' = zero_sm"
  using unencrypted_key_verify_completes [of "s0_boot\<lparr>s0_on_bootstrapping_complete_callback := True,
         sm := zero_sm\<lparr>bootstrap_state := S0_AWAITING_KEY_VERIFY, bootstrap_conn := to_node 3, bootstrap_timer := Some 10000\<rparr>\<rparr>"
       "(to_node 3)\<lparr>encapsulation := SCHEME_NONE\<rparr>" sample_s0_env]
  by (simp add: zero_sm_def s0_boot_def)

theorem unacknowledged_command_blocks_bootstrapping_witness:
  "\<exists>s'. s0_run sample_s0_env [S0_bootstrap 3 0, S0_bootstrap_sent TRANSMIT_COMPLETE_NO_ACK] s0_boot = Some s' \<and> get_s0_sm_state s' = S0_AWAITING_SCHEME_REPORT \<and>
    reports s' = reports s0_boot \<and> s0_step sample_s0_env S0_bootstrap_timer s' = Some s' \<and> s0_step sample_s0_env (S0_bootstrap 4 0) s' = Some s'"
  by (rule unacknowledged_command_blocks_bootstrapping) (simp_all add: s0_boot_def sample_s0_env_def)

lemma sample_tx_base: "tx_base sample_s0_env sample_session" "tx_base sample_s0_env zero_tx_session"
  using sample_radio_ok by (simp_all add: tx_base_def tx_buffers_ok_def sample_session_def zero_tx_session_def to_node_def zero_connection_def)

lemma sample_states_ok: "s0_inv sample_s0_env sample_sender" "s0_inv sample_s0_env sample_receiver"
  using sample_tx_base
  by (simp_all add: s0_inv_def s0_base_def nonces_ok_def rx_ok_def keys_ok_def timed_def sample_sender_def sample_receiver_def sample_nonce_def s0_boot_def
      zero_nonce_def zero_rx_session_def) (simp_all add: sample_session_def zero_tx_session_def zero_connection_def)

theorem forged_frame_uses_up_nonce_witness:
  "\<exists>rc s'. zwave_s0_on_frame_received sample_s0_env from_node_1 ([0x98, 0x81] @ replicate 12 0 @ [1] @ replicate 8 0) sample_receiver = Some (rc, s') \<and>
    zwave_s0_on_frame_received sample_s0_env from_node_1 sample_frame s' = Some (SL_STATUS_FAIL, s')"
  using forged_frame_uses_up_nonce [OF sample_env_ok sample_states_ok(2),
      of "[0x98, 0x81] @ replicate 12 0 @ [1] @ replicate 8 0" from_node_1 "drop 2 sample_frame"]
  by (simp add: sample_frame_def from_node_1_def zero_connection_def sample_receiver_def sample_nonce_def get_s0_nonce_def nonce_between_def nth_append)

theorem early_nonce_report_confirms_request_witness:
  "\<exists>s1 s2 c' frame opts. zwave_s0_on_frame_received sample_s0_env ((to_node 3)\<lparr>encapsulation := SCHEME_NONE\<rparr>) [0x98, 0x80, 9, 8, 7, 6, 5, 4, 3, 2] sample_sender = Some (SL_STATUS_OK, s1) \<and>
    s0_out s1 = [Tx_send c' frame opts (Session_callback 0)] \<and> take 2 frame = [0x98, 0x81] \<and>
    s0_step sample_s0_env (S0_sent 0 TRANSMIT_COMPLETE_OK 0) s1 = Some s2 \<and>
    s0_out s2 = s0_out s1 @ [Send_complete 7 TRANSMIT_COMPLETE_OK 0 4]"
proof -
  have x: "tx_sessions sample_sender ! 0 = sample_session" "s0_out sample_sender = []" by (simp_all add: sample_sender_def s0_boot_def)
  have f: "tx_st sample_session = NONCE_GET" "s_callback sample_session = 7" "tx_ext_status sample_session = 0" "s_session_id sample_session = 4"
    "\<not> more_to_send sample_s0_env sample_session" "conn_info sample_session = to_node 3"
    by (simp_all add: sample_session_def zero_tx_session_def more_to_send_def sample_max_frame)
  have n: "get_tx_session_by_node 1 3 sample_sender = Some 0" "\<not> s0_is_nonce_blocked 3 1 [9, 8, 7, 6, 5, 4, 3, 2] sample_sender" "list_ex (\<lambda>e. n_timeout e = 0) (nonce_table sample_sender)"
    by (simp_all add: sample_sender_def s0_boot_def get_tx_session_by_node_def sample_session_def to_node_def s0_is_nonce_blocked_def zero_nonce_block_def zero_nonce_def list_ex_iff)
  show ?thesis
    using early_nonce_report_confirms_request [OF sample_env_ok _ sample_states_ok(1) _ x(1) [symmetric], of "(to_node 3)\<lparr>encapsulation := SCHEME_NONE\<rparr>" "[9, 8, 7, 6, 5, 4, 3, 2]"] f n x(2)
    by (simp add: to_node_def zero_connection_def sample_s0_env_def)
qed

lemma sample_can_encrypt:
  assumes "tx_buffers_ok (ts ! 0)" and "conn_info (ts ! 0) = to_node 3" and "ts \<noteq> []"
  shows "can_encrypt sample_s0_env 0 [1, 2, 3, 4, 5, 6, 7, 8] (sample_sender\<lparr>tx_sessions := ts\<rparr>)"
proof -
  let ?s = "sample_sender\<lparr>tx_sessions := ts\<rparr>"
  have "get_s0_nonce 3 1 0 True ?s = Some [1, 2, 3, 4, 5, 6, 7, 8]" "get_s0_nonce 3 1 0 False ?s = None"
    by (simp_all add: get_s0_nonce_def sample_sender_def sample_nonce_def nonce_between_def zero_nonce_def find_None_iff)
  moreover have "drbg ?s = 0" by (simp add: sample_sender_def s0_boot_def)
  then have "draw_nonce sample_s0_env 3 1 ?s = Some (0 # replicate 15 0, ?s\<lparr>drbg := 1\<rparr>)"
    using calculation(2) by (subst draw_nonce.simps) (simp add: Let_def sample_s0_env_def)
  moreover have "keys_ok ?s" by (simp add: keys_ok_def sample_sender_def s0_boot_def)
  ultimately show ?thesis using assms sample_radio_ok by (simp add: can_encrypt_def Let_def to_node_def)
qed

lemma sample_peer:
  assumes "conn_info x = to_node 3" and "\<not> use_inclusion_key x"
  shows "peer x (sample_sender\<lparr>tx_sessions := ts\<rparr>) from_node_1 [1, 2, 3, 4, 5, 6, 7, 8] (sample_receiver\<lparr>rxsessions := rs\<rparr>)"
  using assms by (simp add: peer_def keys_ok_def sample_sender_def sample_receiver_def s0_boot_def to_node_def from_node_1_def get_s0_nonce_def sample_nonce_def nonce_between_def)

lemma sample_open: "open_for from_node_1 sample_receiver"
proof -
  have "is_free sample_receiver zero_rx_session" by (simp add: is_free_def zero_rx_session_def sample_receiver_def)
  moreover have "rxsessions sample_receiver = replicate 2 zero_rx_session" by (simp add: sample_receiver_def s0_boot_def)
  ultimately show ?thesis by (simp add: open_for_def get_rx_session_by_nodes_def first_index_None list_ex_iff)
qed

theorem s0_message_roundtrip_witness:
  "\<exists>F s' r'. sent_frame sample_s0_env 0 False sample_sender = Some (F, s') \<and>
    zwave_s0_on_frame_received sample_s0_env from_node_1 F sample_receiver = Some (SL_STATUS_OK, r') \<and>
    s0_out r' = [On_frame_received (from_node_1\<lparr>encapsulation := SECURITY_0\<rparr>) [0x25, 0x01, 0xFF]]"
proof -
  have x: "tx_sessions sample_sender ! 0 = sample_session" "sample_sender = sample_sender\<lparr>tx_sessions := [sample_session, zero_tx_session]\<rparr>"
    "sample_receiver = sample_receiver\<lparr>rxsessions := rxsessions sample_receiver\<rparr>" "s0_out sample_receiver = []"
    by (simp_all add: sample_sender_def sample_receiver_def s0_boot_def)
  have c: "can_encrypt sample_s0_env 0 [1, 2, 3, 4, 5, 6, 7, 8] sample_sender"
    using sample_can_encrypt [of "[sample_session, zero_tx_session]"] sample_tx_base(1) by (subst x(2)) (simp add: tx_base_def sample_session_def)
  have p: "peer sample_session sample_sender from_node_1 [1, 2, 3, 4, 5, 6, 7, 8] sample_receiver"
    by (subst x(2), subst x(3), rule sample_peer) (simp_all add: sample_session_def zero_tx_session_def)
  have f: "\<not> more_to_send sample_s0_env sample_session" "data_len sample_session \<noteq> 0" "unat (data_len sample_session) \<le> 128" "pending_data sample_session = [0x25, 0x01, 0xFF]"
    by (simp_all add: sample_session_def more_to_send_def sample_max_frame pending_data_def zero_tx_session_def)
  show ?thesis using s0_message_roundtrip [OF sample_cipher refl c x(1) [symmetric] f(1-3) p sample_open] f(4) x(4) by simp
qed

text \<open>Forty bytes need two frames, of twenty-six and fourteen bytes.\<close>

definition long_session :: sec_tx_session where
  "long_session = zero_tx_session\<lparr>conn_info := to_node 3, buf := replicate 40 0x11 @ replicate 216 0, data_len := 40, tx_timer := Some 10000, seq := 1, s_callback := 7\<rparr>"

definition long_sender :: s0 where
  "long_sender = sample_sender\<lparr>tx_sessions := [long_session, zero_tx_session]\<rparr>"

lemma long_session_facts:
  "conn_info long_session = to_node 3" "\<not> use_inclusion_key long_session" "more_to_send sample_s0_env long_session"
  "part_len sample_s0_env long_session = 26" "data_len long_session = 40" "pending_data long_session = replicate 40 0x11" "tx_base sample_s0_env long_session"
  using sample_radio_ok
  by (simp_all add: long_session_def zero_tx_session_def more_to_send_def part_len_def sample_max_frame pending_data_def tx_base_def tx_buffers_ok_def to_node_def)

lemma long_sender_ok: "s0_inv sample_s0_env long_sender"
  using sample_states_ok(1) long_session_facts(7) sample_tx_base(2)
  by (simp add: s0_inv_def s0_base_def nonces_ok_def rx_ok_def keys_ok_def timed_def long_sender_def)
     (simp add: long_session_def zero_tx_session_def zero_connection_def)

theorem s0_long_message_roundtrip_witness:
  "\<exists>F1 s1 rc r1 F2 s3 r3. sent_frame sample_s0_env 0 False long_sender = Some (F1, s1) \<and>
    zwave_s0_on_frame_received sample_s0_env from_node_1 F1 sample_receiver = Some (rc, r1) \<and>
    sent_frame sample_s0_env 0 True (sample_sender\<lparr>tx_sessions := tx_sessions s1\<rparr>) = Some (F2, s3) \<and>
    zwave_s0_on_frame_received sample_s0_env from_node_1 F2 (sample_receiver\<lparr>rxsessions := rxsessions r1\<rparr>) = Some (SL_STATUS_OK, r3) \<and>
    s0_out r3 = [On_frame_received (from_node_1\<lparr>encapsulation := SECURITY_0\<rparr>) (replicate 40 0x11)]"
proof -
  let ?n = "[1, 2, 3, 4, 5, 6, 7, 8] :: u8 list"
  have x: "long_session = tx_sessions long_sender ! 0" by (simp add: long_sender_def)
  have c: "can_encrypt sample_s0_env 0 ?n long_sender"
    unfolding long_sender_def using long_session_facts(1,7) by (intro sample_can_encrypt) (simp_all add: tx_base_def)
  have p: "peer long_session long_sender from_node_1 ?n sample_receiver"
    using sample_peer [OF long_session_facts(1,2), of _ "rxsessions sample_receiver"] by (simp add: long_sender_def)
  have m: "\<And>e. e \<in> set (rxsessions sample_receiver) \<Longrightarrow> length (msg e) = 128" by (simp add: sample_receiver_def s0_boot_def zero_rx_session_def)
  note facts = long_session_facts
  obtain F1 s1 r1 where f: "sent_frame sample_s0_env 0 False long_sender = Some (F1, s1)"
      "zwave_s0_on_frame_received sample_s0_env from_node_1 F1 sample_receiver = Some (SL_STATUS_FAIL, r1)"
    using first_part_received [OF sample_cipher refl c x facts(3) _ p sample_open m] facts(5) by auto
  obtain x' where x': "tx_sessions s1 ! 0 = x'" "x' = long_session\<lparr>crypted_msg := crypted_msg x', data_pos := data_pos long_session + 26, data_len := data_len long_session - 26\<rparr>"
    using sent_frame_spec [OF sample_cipher c x, of False] f(1) facts(4) by auto
  have x'c: "conn_info x' = to_node 3" "\<not> use_inclusion_key x'" by (subst x'(2), simp add: facts(1,2))+
  obtain len where "s0_encrypt_message sample_s0_env 0 False long_sender = Some (len, s1)"
    using f(1) by (auto simp: sent_frame_def split: option.splits if_splits)
  then have b: "s0_base sample_s0_env s1"
    using encrypt_unsettled [OF sample_env_ok inv_unsettled [OF long_sender_ok], of 0 False] by (simp add: unsettled_def)
  then have "tx_buffers_ok (tx_sessions s1 ! 0)" "tx_sessions s1 \<noteq> []" using tx_base_nth [OF b, of 0] by (auto simp: tx_base_def s0_base_def)
  then have c2: "can_encrypt sample_s0_env 0 ?n (sample_sender\<lparr>tx_sessions := tx_sessions s1\<rparr>)" using x'(1) x'c(1) by (intro sample_can_encrypt) simp_all
  have "peer x' (sample_sender\<lparr>tx_sessions := tx_sessions s1\<rparr>) from_node_1 ?n (sample_receiver\<lparr>rxsessions := rxsessions r1\<rparr>)" by (rule sample_peer [OF x'c])
  then show ?thesis
    using s0_long_message_roundtrip [OF sample_cipher refl c x facts(3) _ _ p sample_open m f, of "sample_sender\<lparr>tx_sessions := tx_sessions s1\<rparr>" ?n "sample_receiver\<lparr>rxsessions := rxsessions r1\<rparr>"]
      c2 x'(1) facts(4-6) f by (auto simp: sample_receiver_def s0_boot_def)
qed

end
