(* ===== verification/Single_Slot.thy ===== *)
theory Single_Slot
  imports Controller_Transport C_Memory "HOL-Library.Multiset"
begin

text \<open>
  A component that works on one request at a time: it takes a request only when it is idle, and ends
  it by calling the callback that came with it. The transports below keep such a slot; what follows
  for their histories is proved here once.
\<close>

text \<open>The calls of a callback, numbered, with 0 for none.\<close>

definition call_of :: "nat \<Rightarrow> nat multiset" where
  "call_of cb = (if cb = 0 then {#} else {#cb#})"

definition pending :: "nat option \<Rightarrow> nat multiset" where
  "pending slot = (case slot of None \<Rightarrow> {#} | Some cb \<Rightarrow> call_of cb)"

text \<open>The callbacks of all requests that are taken in a history.\<close>

fun all_taken :: "('i \<Rightarrow> 's \<Rightarrow> 's) \<Rightarrow> ('i \<Rightarrow> 's \<Rightarrow> nat option) \<Rightarrow> 'i list \<Rightarrow> 's \<Rightarrow> nat multiset" where
  "all_taken step taken [] s = {#}"
| "all_taken step taken (i # is) s = pending (taken i s) + all_taken step taken is (step i s)"

locale single_slot =
  fixes step :: "'i \<Rightarrow> 's \<Rightarrow> 's"
    and slot :: "'s \<Rightarrow> nat option"
    and called :: "'s \<Rightarrow> nat multiset"
    and taken :: "'i \<Rightarrow> 's \<Rightarrow> nat option"
  assumes take_idle: "taken i s = Some cb \<Longrightarrow> slot s = None"
    and take: "taken i s = Some cb \<Longrightarrow>
        (slot (step i s) = Some cb \<and> called (step i s) = called s) \<or> (slot (step i s) = None \<and> called (step i s) = called s + call_of cb)"
    and keep: "taken i s = None \<Longrightarrow>
        (slot (step i s) = slot s \<and> called (step i s) = called s) \<or>
        (\<exists>cb. slot s = Some cb \<and> slot (step i s) = None \<and> called (step i s) = called s + call_of cb)"
begin

lemma step_balance: "called (step i s) + pending (slot (step i s)) = called s + pending (slot s) + pending (taken i s)"
proof (cases "taken i s")
  case None
  then show ?thesis using keep [OF None] by (auto simp: pending_def)
next
  case (Some cb)
  then show ?thesis using take [OF Some] take_idle [OF Some] by (auto simp: pending_def)
qed

lemma run_balance: "called (fold step is s) + pending (slot (fold step is s)) = called s + pending (slot s) + all_taken step taken is s"
proof (induction "is" arbitrary: s)
  case (Cons i "is")
  then show ?case using step_balance [of i s] by (simp add: ac_simps)
qed simp

text \<open>Every request that was taken is answered exactly once, but for the one that is being worked on.\<close>

lemma answered_once:
  assumes "slot s = None" and "called s = {#}"
  shows "called (fold step is s) + pending (slot (fold step is s)) = all_taken step taken is s"
  using run_balance [of "is" s] assms by (simp add: pending_def)

end

end
