(* ===== verification/Multi_Channel.thy ===== *)
theory Multi_Channel
  imports Single_Slot
begin

text \<open>
  The Multi Channel transport, \<^verbatim>\<open>zwave_multi_channel_transport.c\<close>: it puts the endpoints of a frame
  into an encapsulation and takes them out again. Its state is the one transmission it waits for;
  what it hands to the transmit queue, to its users and to the controller is recorded in \<open>mc_out\<close>.
\<close>

section \<open>Data\<close>

abbreviation (input) COMMAND_CLASS_MULTI_CHANNEL :: u8 where "COMMAND_CLASS_MULTI_CHANNEL \<equiv> 0x60"
abbreviation (input) MULTI_CHANNEL_CMD_ENCAP :: u8 where "MULTI_CHANNEL_CMD_ENCAP \<equiv> 0x0D"
abbreviation (input) COMMAND_CLASS_VERSION :: u8 where "COMMAND_CLASS_VERSION \<equiv> 0x86"
abbreviation (input) VERSION_COMMAND_CLASS_GET :: u8 where "VERSION_COMMAND_CLASS_GET \<equiv> 0x13"
abbreviation (input) MULTI_CHANNEL_ENCAPSULATION_OVERHEAD :: nat where "MULTI_CHANNEL_ENCAPSULATION_OVERHEAD \<equiv> 4"
abbreviation (input) MULTI_CHANNEL_ENCAPSULATED_COMMAND_MAXIMUM_SIZE :: nat where "MULTI_CHANNEL_ENCAPSULATED_COMMAND_MAXIMUM_SIZE \<equiv> 154"
abbreviation (input) MAX_FRAME_SIZE :: nat where "MAX_FRAME_SIZE \<equiv> 158"
abbreviation (input) ENDPOINT_MASK :: u8 where "ENDPOINT_MASK \<equiv> 0x7F"
abbreviation (input) BIT_ADDRESS :: u8 where "BIT_ADDRESS \<equiv> 0x80"

datatype mc_output =
  Mc_tx_send connection_info "u8 list" tx_options
| Mc_send_complete nat u8 nat nat
| Mc_on_frame_received connection_info "u8 list"

record mc =
  mc_on_send_data_complete :: nat
  mc_user :: nat
  mc_transmission_ongoing :: bool
  mc_parent_session_id :: nat
  mc_out :: "mc_output list"

text \<open>The answers of the transmit queue, as a function of what has happened so far.\<close>

type_synonym mc_env = "mc_output list \<Rightarrow> sl_status"

definition mc_emit :: "mc_output \<Rightarrow> mc \<Rightarrow> mc" where
  "mc_emit x s = s\<lparr>mc_out := mc_out s @ [x]\<rparr>"

section \<open>Operations\<close>

definition reset_send_data_settings :: "mc \<Rightarrow> mc" where
  "reset_send_data_settings s =
     s\<lparr>mc_transmission_ongoing := False, mc_on_send_data_complete := 0, mc_user := 0, mc_parent_session_id := 0\<rparr>"

definition zwave_multi_channel_transport_start_transmission :: "nat \<Rightarrow> nat \<Rightarrow> nat \<Rightarrow> mc \<Rightarrow> mc" where
  "zwave_multi_channel_transport_start_transmission callback user session s =
     s\<lparr>mc_transmission_ongoing := True, mc_on_send_data_complete := callback, mc_user := user, mc_parent_session_id := session\<rparr>"

definition on_multi_channel_send_complete :: "u8 \<Rightarrow> nat \<Rightarrow> mc \<Rightarrow> mc" where
  "on_multi_channel_send_complete tx_status tx_info s =
     (if \<not> mc_transmission_ongoing s then s
      else reset_send_data_settings
        (if mc_on_send_data_complete s \<noteq> 0 then mc_emit (Mc_send_complete (mc_on_send_data_complete s) tx_status tx_info (mc_user s)) s else s))"

text \<open>Commands of Multi Channel itself and the request for a version go to the root device.\<close>

definition destination_endpoint :: "connection_info \<Rightarrow> u8 list \<Rightarrow> u8" where
  "destination_endpoint c data =
     (if length data \<ge> 2 \<and> data ! 0 = COMMAND_CLASS_MULTI_CHANNEL then 0
      else if length data \<ge> 2 \<and> data ! 0 = COMMAND_CLASS_VERSION \<and> data ! 1 = VERSION_COMMAND_CLASS_GET then 0
      else remote_endpoint_id c)"

definition multi_channel_frame :: "u8 \<Rightarrow> u8 \<Rightarrow> u8 list \<Rightarrow> u8 list" where
  "multi_channel_frame source destination data = [COMMAND_CLASS_MULTI_CHANNEL, MULTI_CHANNEL_CMD_ENCAP, source AND ENDPOINT_MASK, destination] @ data"

definition zwave_command_class_multi_channel_send_data :: "mc_env \<Rightarrow> tx_request \<Rightarrow> mc \<Rightarrow> sl_status \<times> mc" where
  "zwave_command_class_multi_channel_send_data env r s =
     (let c = tx_connection r; data = tx_data r; destination = destination_endpoint c data in
      if local_endpoint_id c = 0 \<and> destination = 0 then (SL_STATUS_NOT_SUPPORTED, s)
      else if length data > MULTI_CHANNEL_ENCAPSULATED_COMMAND_MAXIMUM_SIZE then (SL_STATUS_WOULD_OVERFLOW, s)
      else if mc_transmission_ongoing s then (SL_STATUS_BUSY, s)
      else let options = (tx_request_options r)\<lparr>parent_session_id := tx_parent_session r, valid_parent_session_id := True, number_of_responses := 0\<rparr>;
               s = mc_emit (Mc_tx_send (c\<lparr>remote_endpoint_id := 0, local_endpoint_id := 0\<rparr>) (multi_channel_frame (local_endpoint_id c) destination data) options) s
           in if env (mc_out s) \<noteq> SL_STATUS_OK then (SL_STATUS_FAIL, s)
              else (SL_STATUS_OK, zwave_multi_channel_transport_start_transmission (tx_on_send_complete r) (tx_user r) (tx_parent_session r) s))"

definition zwave_command_class_multi_channel_decapsulate :: "connection_info \<Rightarrow> u8 list \<Rightarrow> mc \<Rightarrow> sl_status \<times> mc" where
  "zwave_command_class_multi_channel_decapsulate c frame s =
     (if length frame \<le> 1 \<or> frame ! 0 \<noteq> COMMAND_CLASS_MULTI_CHANNEL \<or> frame ! 1 \<noteq> MULTI_CHANNEL_CMD_ENCAP then (SL_STATUS_NOT_FOUND, s)
      else if length frame \<le> MULTI_CHANNEL_ENCAPSULATION_OVERHEAD then (SL_STATUS_NOT_SUPPORTED, s)
      else let info = c\<lparr>remote_endpoint_id := frame ! 2 AND ENDPOINT_MASK, local_endpoint_id := frame ! 3\<rparr>;
               info = (if local_endpoint_id info AND BIT_ADDRESS = BIT_ADDRESS then info\<lparr>local_is_multicast := True\<rparr> else info)
           in if length frame - MULTI_CHANNEL_ENCAPSULATION_OVERHEAD > MAX_FRAME_SIZE then (SL_STATUS_WOULD_OVERFLOW, s)
              else (SL_STATUS_OK, mc_emit (Mc_on_frame_received info (drop MULTI_CHANNEL_ENCAPSULATION_OVERHEAD frame)) s))"

definition zwave_command_class_multi_channel_abort_send_data :: "nat \<Rightarrow> mc \<Rightarrow> sl_status \<times> mc" where
  "zwave_command_class_multi_channel_abort_send_data session s =
     (if mc_transmission_ongoing s \<and> mc_parent_session_id s = session
      then (SL_STATUS_OK, on_multi_channel_send_complete TRANSMIT_COMPLETE_FAIL 0 s) else (SL_STATUS_NOT_FOUND, s))"

definition multi_channel_transport :: "mc_env \<Rightarrow> mc transport" where
  "multi_channel_transport env =
     \<lparr>priority = 5, transport_class = 0x60, version = 4, send_data = Some (zwave_command_class_multi_channel_send_data env),
      abort_send_data = Some zwave_command_class_multi_channel_abort_send_data,
      transport_on_frame_received = Some zwave_command_class_multi_channel_decapsulate, is_busy = None\<rparr>"

definition zwave_multi_channel_transport_init :: "mc_env \<Rightarrow> mc transport list \<Rightarrow> mc \<Rightarrow> sl_status \<times> mc transport list \<times> mc" where
  "zwave_multi_channel_transport_init env ts s =
     (case zwave_controller_transport_register (multi_channel_transport env) ts of (rc, ts) \<Rightarrow> (rc, ts, reset_send_data_settings s))"

section \<open>Histories\<close>

datatype mc_input = Mc_send tx_request | Mc_sent u8 nat | Mc_frame connection_info "u8 list" | Mc_abort nat

definition mc_step :: "mc_env \<Rightarrow> mc_input \<Rightarrow> mc \<Rightarrow> mc" where
  "mc_step env i s =
     (case i of
        Mc_send r \<Rightarrow> snd (zwave_command_class_multi_channel_send_data env r s)
      | Mc_sent tx_status tx_info \<Rightarrow> on_multi_channel_send_complete tx_status tx_info s
      | Mc_frame c frame \<Rightarrow> snd (zwave_command_class_multi_channel_decapsulate c frame s)
      | Mc_abort session \<Rightarrow> snd (zwave_command_class_multi_channel_abort_send_data session s))"

definition mc_start :: mc where
  "mc_start = \<lparr>mc_on_send_data_complete = 0, mc_user = 0, mc_transmission_ongoing = False, mc_parent_session_id = 0, mc_out = []\<rparr>"

definition mc_slot :: "mc \<Rightarrow> nat option" where
  "mc_slot s = (if mc_transmission_ongoing s then Some (mc_on_send_data_complete s) else None)"

fun mc_call :: "mc_output \<Rightarrow> nat multiset" where
  "mc_call (Mc_send_complete f st info u) = {#f#}"
| "mc_call _ = {#}"

definition mc_called :: "mc \<Rightarrow> nat multiset" where
  "mc_called s = sum_list (map mc_call (mc_out s))"

text \<open>The callback of a request that is accepted.\<close>

definition mc_taken :: "mc_env \<Rightarrow> mc_input \<Rightarrow> mc \<Rightarrow> nat option" where
  "mc_taken env i s =
     (case i of Mc_send r \<Rightarrow> if fst (zwave_command_class_multi_channel_send_data env r s) = SL_STATUS_OK then Some (tx_on_send_complete r) else None
      | _ \<Rightarrow> None)"

lemmas mc_defs = zwave_command_class_multi_channel_send_data_def Let_def mc_emit_def zwave_multi_channel_transport_start_transmission_def
  on_multi_channel_send_complete_def reset_send_data_settings_def zwave_command_class_multi_channel_decapsulate_def
  zwave_command_class_multi_channel_abort_send_data_def

interpretation mc_requests: single_slot "mc_step env" mc_slot mc_called "mc_taken env" for env
proof
  fix i s cb
  assume t: "mc_taken env i s = Some cb"
  then obtain r where r: "i = Mc_send r" "tx_on_send_complete r = cb" "fst (zwave_command_class_multi_channel_send_data env r s) = SL_STATUS_OK"
    by (auto simp: mc_taken_def split: mc_input.splits if_splits)
  show "mc_slot s = None" using r(3) by (auto simp: mc_defs mc_slot_def split: if_splits)
  show "(mc_slot (mc_step env i s) = Some cb \<and> mc_called (mc_step env i s) = mc_called s) \<or>
      (mc_slot (mc_step env i s) = None \<and> mc_called (mc_step env i s) = mc_called s + call_of cb)"
    using r by (auto simp: mc_step_def mc_defs mc_slot_def mc_called_def split: if_splits)
next
  fix i s
  assume t: "mc_taken env i s = None"
  show "(mc_slot (mc_step env i s) = mc_slot s \<and> mc_called (mc_step env i s) = mc_called s) \<or>
      (\<exists>cb. mc_slot s = Some cb \<and> mc_slot (mc_step env i s) = None \<and> mc_called (mc_step env i s) = mc_called s + call_of cb)"
    using t by (cases i) (auto simp: mc_taken_def mc_step_def mc_defs mc_slot_def mc_called_def call_of_def split: if_splits)
qed

text \<open>
  In every history each request that the Multi Channel transport accepts is answered exactly once,
  but for the one that it is waiting for.
\<close>

theorem multi_channel_requests_answered_once:
  "mc_called (fold (mc_step env) is mc_start) + pending (mc_slot (fold (mc_step env) is mc_start)) = all_taken (mc_step env) (mc_taken env) is mc_start"
  by (rule mc_requests.answered_once) (simp_all add: mc_start_def mc_slot_def mc_called_def)

section \<open>Encapsulation\<close>

text \<open>What the receiver makes of the endpoints.\<close>

definition received_at :: "u8 \<Rightarrow> u8 \<Rightarrow> connection_info \<Rightarrow> connection_info" where
  "received_at source destination c =
     c\<lparr>remote_endpoint_id := source AND ENDPOINT_MASK, local_endpoint_id := destination,
       local_is_multicast := (local_is_multicast c \<or> destination AND BIT_ADDRESS = BIT_ADDRESS)\<rparr>"

text \<open>
  C33. A frame that the transport accepts is sent without endpoints in its address, and every controller
  that gets it takes the command out unchanged, with the endpoints of the sender: the source without
  its top bit, and the destination, which may be a set of endpoints.
\<close>

theorem multi_channel_roundtrip:
  assumes "zwave_command_class_multi_channel_send_data env r s = (SL_STATUS_OK, s')" and "tx_data r \<noteq> []"
  shows "\<exists>c frame options. mc_out s' = mc_out s @ [Mc_tx_send c frame options] \<and> local_endpoint_id c = 0 \<and> remote_endpoint_id c = 0 \<and>
    zwave_command_class_multi_channel_decapsulate d frame t =
      (SL_STATUS_OK, mc_emit (Mc_on_frame_received
         (received_at (local_endpoint_id (tx_connection r)) (destination_endpoint (tx_connection r) (tx_data r)) d) (tx_data r)) t)"
proof -
  let ?F = "multi_channel_frame (local_endpoint_id (tx_connection r)) (destination_endpoint (tx_connection r) (tx_data r)) (tx_data r)"
  have l: "0 < length (tx_data r)" "length (tx_data r) \<le> 154" using assms by (auto simp: mc_defs split: if_splits)
  have "zwave_command_class_multi_channel_decapsulate d ?F t =
      (SL_STATUS_OK, mc_emit (Mc_on_frame_received
         (received_at (local_endpoint_id (tx_connection r)) (destination_endpoint (tx_connection r) (tx_data r)) d) (tx_data r)) t)"
    using l by (auto simp: zwave_command_class_multi_channel_decapsulate_def multi_channel_frame_def received_at_def Let_def numeral_3_eq_3 and.assoc)
  moreover have "\<exists>options. mc_out s' = mc_out s @ [Mc_tx_send ((tx_connection r)\<lparr>remote_endpoint_id := 0, local_endpoint_id := 0\<rparr>) ?F options]"
    using assms(1)
    by (auto simp: zwave_command_class_multi_channel_send_data_def Let_def mc_emit_def zwave_multi_channel_transport_start_transmission_def split: if_splits)
  ultimately show ?thesis by (auto intro: exI [of _ "(tx_connection r)\<lparr>remote_endpoint_id := 0, local_endpoint_id := 0\<rparr>"])
qed

text \<open>
  The transport takes no frame between root devices, and none that has to go to the root device of
  the destination when it comes from the root device of the sender; it takes every other frame that
  fits, unless it is busy or the transmit queue refuses.
\<close>

lemma multi_channel_declines:
  "fst (zwave_command_class_multi_channel_send_data env r s) = SL_STATUS_NOT_SUPPORTED \<longleftrightarrow>
     local_endpoint_id (tx_connection r) = 0 \<and> destination_endpoint (tx_connection r) (tx_data r) = 0"
  by (simp add: mc_defs)

theorem multi_channel_roundtrip_witness:
  "\<exists>s' c frame options.
    zwave_command_class_multi_channel_send_data (\<lambda>out. SL_STATUS_OK)
      \<lparr>tx_connection = zero_connection\<lparr>local_node_id := 1, remote_node_id := 5, remote_endpoint_id := 0x83\<rparr>, tx_data = [0x25, 0x01, 0xFF],
       tx_request_options = zero_options, tx_on_send_complete = 7, tx_user = 8, tx_parent_session = 9\<rparr> mc_start = (SL_STATUS_OK, s') \<and>
    mc_out s' = mc_out mc_start @ [Mc_tx_send c frame options] \<and> local_endpoint_id c = 0 \<and> remote_endpoint_id c = 0 \<and>
    zwave_command_class_multi_channel_decapsulate zero_connection frame mc_start =
      (SL_STATUS_OK, mc_emit (Mc_on_frame_received (received_at 0 0x83 zero_connection) [0x25, 0x01, 0xFF]) mc_start)"
proof -
  let ?r = "\<lparr>tx_connection = zero_connection\<lparr>local_node_id := 1, remote_node_id := 5, remote_endpoint_id := 0x83\<rparr>, tx_data = [0x25, 0x01, 0xFF],
       tx_request_options = zero_options, tx_on_send_complete = 7, tx_user = 8, tx_parent_session = 9\<rparr>"
  obtain s' where "zwave_command_class_multi_channel_send_data (\<lambda>out. SL_STATUS_OK) ?r mc_start = (SL_STATUS_OK, s')"
    by (simp add: mc_defs mc_start_def zero_connection_def destination_endpoint_def)
  with multi_channel_roundtrip [OF this, of zero_connection mc_start] show ?thesis
    by (simp add: zero_connection_def destination_endpoint_def)
qed

end
