(* ===== verification/Multicast_Follow_Ups.thy ===== *)
theory Multicast_Follow_Ups
  imports Single_Slot
begin

text \<open>
  The transport of multicast follow-ups, \<^verbatim>\<open>multicast_follow_ups_transport.c\<close>: a multicast frame is
  sent once to the group and then, one after the other, to each of its members. The transmit queue
  and the groups, which are C++ code, are parameters.
\<close>

section \<open>Data\<close>

abbreviation (input) ZWAVE_TX_INVALID_GROUP :: u8 where "ZWAVE_TX_INVALID_GROUP \<equiv> 0"

datatype mf_output =
  Mf_tx_send connection_info "u8 list" tx_options
| Mf_send_complete nat u8 nat nat
| Mf_lock_group u8
| Mf_unlock_group u8

record mf =
  mf_on_send_data_complete :: nat
  mf_user :: nat
  mf_transmission_ongoing :: bool
  mf_parent_session_id :: nat
  mf_group_id :: u8
  mf_remote_endpoint_id :: u8
  mf_last_singlecast_node_id :: node_id
  mf_qos_priority :: u32
  mf_discard_timeout :: u32
  mf_encapsulation :: scheme
  mf_out :: "mf_output list"

text \<open>What the transmit queue answers and knows of a frame, and the members of a group.\<close>

record mf_env =
  mf_tx_answer :: "mf_output list \<Rightarrow> sl_status"
  zwave_tx_get_nodes :: "u8 \<Rightarrow> mf_output list \<Rightarrow> sl_status \<times> nodemask"
  zwave_tx_get_number_of_responses :: "nat \<Rightarrow> mf_output list \<Rightarrow> u8"
  zwave_tx_get_frame :: "nat \<Rightarrow> mf_output list \<Rightarrow> u8 list"

definition mf_emit :: "mf_output \<Rightarrow> mf \<Rightarrow> mf" where
  "mf_emit x s = s\<lparr>mf_out := mf_out s @ [x]\<rparr>"

section \<open>Operations\<close>

definition multicast_follow_ups_reset_state :: "mf \<Rightarrow> mf" where
  "multicast_follow_ups_reset_state s =
     (mf_emit (Mf_unlock_group (mf_group_id s)) s)\<lparr>mf_transmission_ongoing := False, mf_parent_session_id := 0, mf_group_id := ZWAVE_TX_INVALID_GROUP,
        mf_remote_endpoint_id := 0, mf_on_send_data_complete := 0, mf_user := 0, mf_last_singlecast_node_id := 0, mf_qos_priority := 0,
        mf_discard_timeout := 0, mf_encapsulation := SCHEME_NONE\<rparr>"

definition multicast_follow_ups_terminate_current_session :: "u8 \<Rightarrow> nat \<Rightarrow> nat \<Rightarrow> mf \<Rightarrow> mf" where
  "multicast_follow_ups_terminate_current_session tx_status tx_info user s =
     multicast_follow_ups_reset_state
       (if mf_on_send_data_complete s \<noteq> 0 then mf_emit (Mf_send_complete (mf_on_send_data_complete s) tx_status tx_info user) s else s)"

text \<open>The next member of the group from a NodeID on, as the loop finds it.\<close>

definition next_member :: "nodemask \<Rightarrow> node_id \<Rightarrow> node_id option" where
  "next_member node_list from_node = List.find (\<lambda>n. ZW_IS_NODE_IN_MASK n node_list) (map of_nat [unat from_node..<ZW_LR_MAX_NODE_ID + 1])"

definition follow_up_options :: "mf_env \<Rightarrow> mf \<Rightarrow> tx_options" where
  "follow_up_options env s =
     zero_options\<lparr>qos_priority := mf_qos_priority s, discard_timeout_ms := mf_discard_timeout s,
       number_of_responses := zwave_tx_get_number_of_responses env (mf_parent_session_id s) (mf_out s),
       parent_session_id := mf_parent_session_id s, group_id := mf_group_id s, valid_parent_session_id := True,
       is_first_follow_up := (mf_last_singlecast_node_id s = 0)\<rparr>"

definition follow_up_connection :: "mf \<Rightarrow> node_id \<Rightarrow> connection_info" where
  "follow_up_connection s n =
     zero_connection\<lparr>remote_is_multicast := False, remote_endpoint_id := mf_remote_endpoint_id s, encapsulation := mf_encapsulation s, remote_node_id := n\<rparr>"

definition on_multicast_message_send_complete :: "mf_env \<Rightarrow> u8 \<Rightarrow> nat \<Rightarrow> mf \<Rightarrow> mf" where
  "on_multicast_message_send_complete env tx_status tx_info s =
     (if \<not> mf_transmission_ongoing s then s
      else case zwave_tx_get_nodes env (mf_group_id s) (mf_out s) of
        (rc, node_list) \<Rightarrow>
          if rc \<noteq> SL_STATUS_OK then multicast_follow_ups_terminate_current_session TRANSMIT_COMPLETE_FAIL 0 (mf_user s) s
          else case next_member node_list (mf_last_singlecast_node_id s) of
                 Some n \<Rightarrow>
                   let options = follow_up_options env s;
                       s = s\<lparr>mf_last_singlecast_node_id := n + 1\<rparr>;
                       s = mf_emit (Mf_tx_send (follow_up_connection s n) (zwave_tx_get_frame env (mf_parent_session_id s) (mf_out s)) options) s
                   in if mf_tx_answer env (mf_out s) \<noteq> SL_STATUS_OK
                      then multicast_follow_ups_terminate_current_session TRANSMIT_COMPLETE_FAIL 0 (mf_user s) s else s
               | None \<Rightarrow> multicast_follow_ups_terminate_current_session tx_status tx_info (mf_user s) s)"

definition multicast_follow_ups_send_data :: "mf_env \<Rightarrow> tx_request \<Rightarrow> mf \<Rightarrow> sl_status \<times> mf" where
  "multicast_follow_ups_send_data env r s =
     (let info = tx_connection r; tx_options = tx_request_options r in
      if \<not> remote_is_multicast info \<or> \<not> send_follow_ups tx_options then (SL_STATUS_NOT_SUPPORTED, s)
      else if mf_transmission_ongoing s then (SL_STATUS_BUSY, s)
      else let new_options = tx_options\<lparr>parent_session_id := tx_parent_session r, valid_parent_session_id := True,
                               group_id := multicast_group info, send_follow_ups := False\<rparr>;
               s = mf_emit (Mf_tx_send info (tx_data r) new_options) s;
               send_status = mf_tx_answer env (mf_out s);
               s = mf_emit (Mf_lock_group (multicast_group info)) s;
               s = s\<lparr>mf_transmission_ongoing := True, mf_on_send_data_complete := tx_on_send_complete r, mf_user := tx_user r,
                     mf_parent_session_id := tx_parent_session r, mf_last_singlecast_node_id := 0, mf_group_id := multicast_group info,
                     mf_remote_endpoint_id := remote_endpoint_id info, mf_qos_priority := qos_priority tx_options,
                     mf_discard_timeout := discard_timeout_ms tx_options, mf_encapsulation := encapsulation info\<rparr>
           in if send_status \<noteq> SL_STATUS_OK
              then (SL_STATUS_FAIL, multicast_follow_ups_terminate_current_session TRANSMIT_COMPLETE_FAIL 0 (mf_user s) s)
              else (SL_STATUS_OK, s))"

definition multicast_follow_ups_abort_send_data :: "nat \<Rightarrow> mf \<Rightarrow> sl_status \<times> mf" where
  "multicast_follow_ups_abort_send_data session s =
     (if \<not> mf_transmission_ongoing s \<or> mf_parent_session_id s \<noteq> session then (SL_STATUS_NOT_FOUND, s)
      else (SL_STATUS_OK, multicast_follow_ups_terminate_current_session TRANSMIT_COMPLETE_FAIL 0 (mf_user s) s))"

definition multicast_follow_ups_transport :: "mf_env \<Rightarrow> mf transport" where
  "multicast_follow_ups_transport env =
     \<lparr>priority = 6, transport_class = 0, version = 0, send_data = Some (multicast_follow_ups_send_data env),
      abort_send_data = Some multicast_follow_ups_abort_send_data, transport_on_frame_received = None, is_busy = None\<rparr>"

definition multicast_follow_ups_transport_init :: "mf_env \<Rightarrow> mf transport list \<Rightarrow> mf \<Rightarrow> sl_status \<times> mf transport list \<times> mf" where
  "multicast_follow_ups_transport_init env ts s =
     (case zwave_controller_transport_register (multicast_follow_ups_transport env) ts of (rc, ts) \<Rightarrow> (rc, ts, multicast_follow_ups_reset_state s))"

section \<open>Histories\<close>

datatype mf_input = Mf_send tx_request | Mf_sent u8 nat | Mf_abort nat

definition mf_step :: "mf_env \<Rightarrow> mf_input \<Rightarrow> mf \<Rightarrow> mf" where
  "mf_step env i s =
     (case i of
        Mf_send r \<Rightarrow> snd (multicast_follow_ups_send_data env r s)
      | Mf_sent tx_status tx_info \<Rightarrow> on_multicast_message_send_complete env tx_status tx_info s
      | Mf_abort session \<Rightarrow> snd (multicast_follow_ups_abort_send_data session s))"

definition mf_start :: mf where
  "mf_start = \<lparr>mf_on_send_data_complete = 0, mf_user = 0, mf_transmission_ongoing = False, mf_parent_session_id = 0, mf_group_id = 0,
     mf_remote_endpoint_id = 0, mf_last_singlecast_node_id = 0, mf_qos_priority = 0, mf_discard_timeout = 0, mf_encapsulation = SCHEME_NONE, mf_out = []\<rparr>"

definition mf_slot :: "mf \<Rightarrow> nat option" where
  "mf_slot s = (if mf_transmission_ongoing s then Some (mf_on_send_data_complete s) else None)"

fun mf_call :: "mf_output \<Rightarrow> nat multiset" where
  "mf_call (Mf_send_complete f st info u) = {#f#}"
| "mf_call _ = {#}"

definition mf_called :: "mf \<Rightarrow> nat multiset" where
  "mf_called s = sum_list (map mf_call (mf_out s))"

text \<open>A request is taken when it is for the transport and the transport is idle, also when the queue then refuses the frame.\<close>

definition mf_taken :: "mf_input \<Rightarrow> mf \<Rightarrow> nat option" where
  "mf_taken i s =
     (case i of Mf_send r \<Rightarrow> if remote_is_multicast (tx_connection r) \<and> send_follow_ups (tx_request_options r) \<and> \<not> mf_transmission_ongoing s
                             then Some (tx_on_send_complete r) else None
      | _ \<Rightarrow> None)"

lemma mf_terminate:
  "mf_slot (multicast_follow_ups_terminate_current_session st info u s) = None"
  "mf_called (multicast_follow_ups_terminate_current_session st info u s) = mf_called s + call_of (mf_on_send_data_complete s)"
  by (simp_all add: multicast_follow_ups_terminate_current_session_def multicast_follow_ups_reset_state_def mf_emit_def mf_slot_def mf_called_def call_of_def)

lemma mf_emit_sel [simp]:
  "mf_slot (mf_emit x s) = mf_slot s" "mf_called (mf_emit x s) = mf_called s + mf_call x" "mf_on_send_data_complete (mf_emit x s) = mf_on_send_data_complete s"
  "mf_slot (s\<lparr>mf_last_singlecast_node_id := n\<rparr>) = mf_slot s" "mf_called (s\<lparr>mf_last_singlecast_node_id := n\<rparr>) = mf_called s"
  by (simp_all add: mf_emit_def mf_slot_def mf_called_def)

interpretation mf_requests: single_slot "mf_step env" mf_slot mf_called mf_taken for env
proof
  fix i s cb
  assume t: "mf_taken i s = Some cb"
  then obtain r where r: "i = Mf_send r" "tx_on_send_complete r = cb" "remote_is_multicast (tx_connection r)" "send_follow_ups (tx_request_options r)" "\<not> mf_transmission_ongoing s"
    by (auto simp: mf_taken_def split: mf_input.splits if_splits)
  show "mf_slot s = None" using r(5) by (simp add: mf_slot_def)
  show "(mf_slot (mf_step env i s) = Some cb \<and> mf_called (mf_step env i s) = mf_called s) \<or>
      (mf_slot (mf_step env i s) = None \<and> mf_called (mf_step env i s) = mf_called s + call_of cb)"
    using r by (auto simp: mf_step_def multicast_follow_ups_send_data_def Let_def mf_terminate) (simp_all add: mf_slot_def mf_called_def mf_emit_def)
next
  fix i s
  assume t: "mf_taken i s = None"
  have on: "\<exists>cb. mf_slot s = Some cb \<and> mf_slot (multicast_follow_ups_terminate_current_session st info u s') = None \<and>
      mf_called (multicast_follow_ups_terminate_current_session st info u s') = mf_called s + call_of cb"
    if "mf_transmission_ongoing s" "mf_on_send_data_complete s' = mf_on_send_data_complete s" "mf_called s' = mf_called s" for st info u s'
    using that by (simp add: mf_terminate) (simp add: mf_slot_def)
  show "(mf_slot (mf_step env i s) = mf_slot s \<and> mf_called (mf_step env i s) = mf_called s) \<or>
      (\<exists>cb. mf_slot s = Some cb \<and> mf_slot (mf_step env i s) = None \<and> mf_called (mf_step env i s) = mf_called s + call_of cb)"
  proof (cases i)
    case (Mf_send r)
    then show ?thesis using t by (auto simp: mf_taken_def mf_step_def multicast_follow_ups_send_data_def Let_def split: if_splits)
  next
    case (Mf_sent st info)
    then show ?thesis
      by (auto simp: mf_step_def on_multicast_message_send_complete_def Let_def split: prod.split option.split intro!: on)
  next
    case (Mf_abort session)
    then show ?thesis by (auto simp: mf_step_def multicast_follow_ups_abort_send_data_def intro!: on)
  qed
qed

text \<open>
  In every history each request that the transport takes is answered exactly once, but for the one
  that it is working on.
\<close>

theorem multicast_requests_answered_once:
  "mf_called (fold (mf_step env) is mf_start) + pending (mf_slot (fold (mf_step env) is mf_start)) = all_taken (mf_step env) mf_taken is mf_start"
  by (rule mf_requests.answered_once) (simp_all add: mf_start_def mf_slot_def mf_called_def)

section \<open>Follow-ups\<close>

text \<open>The members of a group from a NodeID on, and all of them.\<close>

definition members_from :: "nodemask \<Rightarrow> node_id \<Rightarrow> node_id list" where
  "members_from nodes from_node = filter (\<lambda>n. ZW_IS_NODE_IN_MASK n nodes) (map of_nat [unat from_node..<4001])"

lemma filter_upt_Cons:
  assumes "filter P (map f [a..<b]) = n # ns"
  shows "\<exists>k. a \<le> k \<and> k < b \<and> n = f k \<and> ns = filter P (map f [Suc k..<b])"
  using assms
proof (induction "b - a" arbitrary: a)
  case (Suc m)
  then have ab: "a < b" by simp
  show ?case
  proof (cases "P (f a)")
    case True
    then show ?thesis using Suc.prems ab by (intro exI [of _ a]) (simp add: upt_conv_Cons)
  next
    case False
    then have "filter P (map f [Suc a..<b]) = n # ns" using Suc.prems ab by (simp add: upt_conv_Cons)
    moreover have "m = b - Suc a" using Suc.hyps(2) by simp
    ultimately obtain k where "Suc a \<le> k" "k < b" "n = f k" "ns = filter P (map f [Suc k..<b])" using Suc.hyps(1) by blast
    then show ?thesis by (intro exI [of _ k]) simp
  qed
qed simp

lemma find_hd_filter: "List.find P xs = (case filter P xs of [] \<Rightarrow> None | x # _ \<Rightarrow> Some x)"
  by (induction xs) auto

lemma next_member_from: "next_member nodes n = (case members_from nodes n of [] \<Rightarrow> None | m # _ \<Rightarrow> Some m)"
  by (simp add: next_member_def members_from_def find_hd_filter)

lemma members_from_next: "members_from nodes a = n # ns \<Longrightarrow> members_from nodes (n + 1) = ns"
proof -
  assume "members_from nodes a = n # ns"
  then obtain k where k: "k < 4001" "n = of_nat k" "ns = filter (\<lambda>n. ZW_IS_NODE_IN_MASK n nodes) (map of_nat [Suc k..<4001])"
    using filter_upt_Cons [of "\<lambda>n. ZW_IS_NODE_IN_MASK n nodes" of_nat "unat a" 4001 n ns] by (auto simp: members_from_def)
  have "unat (n + 1) = Suc k"
  proof -
    have "n + 1 = of_nat (Suc k)" using k(2) by simp
    then show ?thesis using k(1) unfolding \<open>n + 1 = of_nat (Suc k)\<close> unat_of_nat by simp
  qed
  then show "members_from nodes (n + 1) = ns" using k(3) by (simp add: members_from_def)
qed

fun sent_to :: "mf_output \<Rightarrow> (connection_info \<times> u8 list) option" where
  "sent_to (Mf_tx_send c f opts) = Some (c, f)"
| "sent_to _ = None"

lemma follow_ups_in_order:
  assumes "\<And>out. mf_tx_answer env out = SL_STATUS_OK" and "\<And>out. zwave_tx_get_nodes env (mf_group_id s) out = (SL_STATUS_OK, nodes)"
    and "\<And>out. zwave_tx_get_frame env (mf_parent_session_id s) out = frame"
    and "mf_transmission_ongoing s" and "members_from nodes (mf_last_singlecast_node_id s) = ns"
  shows "\<exists>outs. mf_out (((on_multicast_message_send_complete env st info) ^^ (length ns + 1)) s) =
      mf_out s @ outs @ (if mf_on_send_data_complete s \<noteq> 0 then [Mf_send_complete (mf_on_send_data_complete s) st info (mf_user s)] else []) @ [Mf_unlock_group (mf_group_id s)] \<and>
    map sent_to outs = map (\<lambda>n. Some (follow_up_connection s n, frame)) ns \<and>
    \<not> mf_transmission_ongoing (((on_multicast_message_send_complete env st info) ^^ (length ns + 1)) s)"
  using assms(2-5)
proof (induction ns arbitrary: s)
  case Nil
  then have "on_multicast_message_send_complete env st info s = multicast_follow_ups_terminate_current_session st info (mf_user s) s"
    by (simp add: on_multicast_message_send_complete_def next_member_from)
  then show ?case by (simp add: multicast_follow_ups_terminate_current_session_def multicast_follow_ups_reset_state_def mf_emit_def)
next
  case (Cons n ns)
  let ?c = "on_multicast_message_send_complete env st info"
  let ?s1 = "s\<lparr>mf_last_singlecast_node_id := n + 1\<rparr>"
  let ?s2 = "mf_emit (Mf_tx_send (follow_up_connection ?s1 n) frame (follow_up_options env s)) ?s1"
  have s2: "?c s = ?s2" using Cons.prems assms(1) by (simp add: on_multicast_message_send_complete_def next_member_from Let_def)
  have f: "mf_group_id ?s2 = mf_group_id s" "mf_parent_session_id ?s2 = mf_parent_session_id s" "mf_transmission_ongoing ?s2" "mf_last_singlecast_node_id ?s2 = n + 1"
    "mf_on_send_data_complete ?s2 = mf_on_send_data_complete s" "mf_user ?s2 = mf_user s" "follow_up_connection ?s2 = follow_up_connection s"
    "follow_up_connection ?s1 = follow_up_connection s" "mf_out ?s2 = mf_out s @ [Mf_tx_send (follow_up_connection s n) frame (follow_up_options env s)]"
    using Cons.prems(3) by (simp_all add: mf_emit_def follow_up_connection_def fun_eq_iff)
  have p: "(?c ^^ (length (n # ns) + 1)) s = (?c ^^ (length ns + 1)) ?s2" unfolding s2 [symmetric] by (simp add: funpow_swap1)
  obtain outs where "mf_out ((?c ^^ (length ns + 1)) ?s2) =
      mf_out ?s2 @ outs @ (if mf_on_send_data_complete s \<noteq> 0 then [Mf_send_complete (mf_on_send_data_complete s) st info (mf_user s)] else []) @ [Mf_unlock_group (mf_group_id s)]"
    "map sent_to outs = map (\<lambda>n. Some (follow_up_connection s n, frame)) ns" "\<not> mf_transmission_ongoing ((?c ^^ (length ns + 1)) ?s2)"
    using Cons.IH [of ?s2] Cons.prems(1,2) members_from_next [OF Cons.prems(4)] f by auto
  then show ?case unfolding p using f(9)
    by (intro exI [of _ "Mf_tx_send (follow_up_connection s n) frame (follow_up_options env s) # outs"]) simp
qed

text \<open>
  C31. A request that is taken leads to one follow-up for each member of the group, in the order of their
  NodeIDs and with the frame, the endpoint and the encapsulation of the request; then its callback is
  called with the status of the last transmission, the group is unlocked and the transport is idle.
\<close>

theorem every_member_gets_one_follow_up:
  assumes "multicast_follow_ups_send_data env r s = (SL_STATUS_OK, s1)" and "\<And>out. mf_tx_answer env out = SL_STATUS_OK"
    and "\<And>out. zwave_tx_get_nodes env (multicast_group (tx_connection r)) out = (SL_STATUS_OK, nodes)"
    and "\<And>out. zwave_tx_get_frame env (tx_parent_session r) out = tx_data r"
    and "s2 = ((on_multicast_message_send_complete env st info) ^^ (length (members_from nodes 0) + 1)) s1"
  shows "\<exists>outs. mf_out s2 = mf_out s1 @ outs @
      (if tx_on_send_complete r \<noteq> 0 then [Mf_send_complete (tx_on_send_complete r) st info (tx_user r)] else []) @ [Mf_unlock_group (multicast_group (tx_connection r))] \<and>
    map sent_to outs = map (\<lambda>n. Some (zero_connection\<lparr>remote_node_id := n, remote_endpoint_id := remote_endpoint_id (tx_connection r),
        encapsulation := encapsulation (tx_connection r)\<rparr>, tx_data r)) (members_from nodes 0) \<and> \<not> mf_transmission_ongoing s2"
proof -
  have s1: "mf_group_id s1 = multicast_group (tx_connection r)" "mf_parent_session_id s1 = tx_parent_session r" "mf_transmission_ongoing s1"
    "mf_last_singlecast_node_id s1 = 0" "mf_on_send_data_complete s1 = tx_on_send_complete r" "mf_user s1 = tx_user r"
    "mf_remote_endpoint_id s1 = remote_endpoint_id (tx_connection r)" "mf_encapsulation s1 = encapsulation (tx_connection r)"
    using assms(1) by (auto simp: multicast_follow_ups_send_data_def Let_def split: if_splits)
  have c: "follow_up_connection s1 n = zero_connection\<lparr>remote_node_id := n, remote_endpoint_id := remote_endpoint_id (tx_connection r),
        encapsulation := encapsulation (tx_connection r)\<rparr>" for n
    using s1(7,8) by (simp add: follow_up_connection_def zero_connection_def)
  have "members_from nodes (mf_last_singlecast_node_id s1) = members_from nodes 0" using s1(4) by simp
  from follow_ups_in_order [OF assms(2) assms(3) [folded s1(1)] assms(4) [folded s1(2)] s1(3) this, of st info]
  show ?thesis unfolding assms(5) by (simp only: s1(1,5,6) c)
qed

text \<open>A request whose frame the queue refuses is answered twice: by its callback and by the result FAIL.\<close>

lemma refused_multicast_reported_twice:
  assumes "remote_is_multicast (tx_connection r)" and "send_follow_ups (tx_request_options r)" and "\<not> mf_transmission_ongoing s"
    and "\<And>out. mf_tx_answer env out \<noteq> SL_STATUS_OK" and "tx_on_send_complete r \<noteq> 0"
  shows "\<exists>s'. multicast_follow_ups_send_data env r s = (SL_STATUS_FAIL, s') \<and> mf_called s' = mf_called s + {#tx_on_send_complete r#}"
  using assms by (simp add: multicast_follow_ups_send_data_def Let_def mf_terminate) (simp add: mf_called_def mf_emit_def call_of_def)

section \<open>Examples\<close>

text \<open>A group of the nodes 3 and 300, and a request to switch them on.\<close>

definition sample_group :: nodemask where
  "sample_group = ZW_ADD_NODE_TO_MASK 300 (ZW_ADD_NODE_TO_MASK 3 (replicate 501 0))"

definition switch_on :: tx_request where
  "switch_on = \<lparr>tx_connection = zero_connection\<lparr>local_node_id := 1, remote_node_id := 2, remote_is_multicast := True, encapsulation := SCHEME_NONE\<rparr>,
     tx_data = [0x25, 0x01, 0xFF], tx_request_options = zero_options\<lparr>send_follow_ups := True\<rparr>, tx_on_send_complete = 7, tx_user = 8, tx_parent_session = 9\<rparr>"

definition sample_mf_env :: mf_env where
  "sample_mf_env = \<lparr>mf_tx_answer = (\<lambda>out. SL_STATUS_OK), zwave_tx_get_nodes = (\<lambda>g out. (SL_STATUS_OK, sample_group)),
     zwave_tx_get_number_of_responses = (\<lambda>sid out. 0), zwave_tx_get_frame = (\<lambda>sid out. [0x25, 0x01, 0xFF])\<rparr>"

theorem every_member_gets_one_follow_up_witness:
  "\<exists>s1 s2 outs. multicast_follow_ups_send_data sample_mf_env switch_on mf_start = (SL_STATUS_OK, s1) \<and>
    s2 = ((on_multicast_message_send_complete sample_mf_env 0 0) ^^ (length (members_from sample_group 0) + 1)) s1 \<and>
    mf_out s2 = mf_out s1 @ outs @ [Mf_send_complete 7 0 0 8] @ [Mf_unlock_group 2] \<and>
    map sent_to outs = map (\<lambda>n. Some (zero_connection\<lparr>remote_node_id := n, remote_endpoint_id := 0, encapsulation := SCHEME_NONE\<rparr>, [0x25, 0x01, 0xFF]))
      (members_from sample_group 0) \<and> \<not> mf_transmission_ongoing s2"
proof -
  obtain s1 where s1: "multicast_follow_ups_send_data sample_mf_env switch_on mf_start = (SL_STATUS_OK, s1)"
    by (simp add: multicast_follow_ups_send_data_def sample_mf_env_def switch_on_def zero_connection_def zero_options_def mf_start_def Let_def)
  have g: "multicast_group (tx_connection switch_on) = 2" by (simp add: multicast_group_def switch_on_def)
  from every_member_gets_one_follow_up [OF s1, of sample_group _ 0 0] show ?thesis
    using s1 g by (simp add: sample_mf_env_def switch_on_def zero_connection_def)
qed

end
