(* ===== verification/Api_Transport.thy ===== *)
theory Api_Transport
  imports Single_Slot
begin

text \<open>
  The lowest transport, \<^verbatim>\<open>zwave_api_transport.c\<close>: it gives one frame at a time to the Z-Wave API,
  waits for its callback and reports to the controller which nodes could be reached. The functions
  of the Z-Wave API are recorded in \<open>at_out\<close> and answered by \<open>at_answer\<close>.
\<close>

section \<open>Data\<close>

abbreviation (input) ZWAVE_API_MAXIMUM_FRAME_LENGTH :: nat where "ZWAVE_API_MAXIMUM_FRAME_LENGTH \<equiv> 255"
abbreviation (input) INVALID_NODE_ID :: node_id where "INVALID_NODE_ID \<equiv> 0"
abbreviation (input) EMERGENCY_TIMEOUT_MS :: nat where "EMERGENCY_TIMEOUT_MS \<equiv> 65000"
abbreviation (input) TRANSMIT_OPTION_ACK :: u8 where "TRANSMIT_OPTION_ACK \<equiv> 0x01"
abbreviation (input) TRANSMIT_OPTION_MULTICAST_AS_BROADCAST :: u8 where "TRANSMIT_OPTION_MULTICAST_AS_BROADCAST \<equiv> 0x02"
abbreviation (input) TRANSMIT_OPTION_AUTO_ROUTE :: u8 where "TRANSMIT_OPTION_AUTO_ROUTE \<equiv> 0x04"
abbreviation (input) TRANSMIT_OPTION_EXPLORE :: u8 where "TRANSMIT_OPTION_EXPLORE \<equiv> 0x20"
abbreviation (input) ZWAVE_NOP_COMMAND_CLASS :: u8 where "ZWAVE_NOP_COMMAND_CLASS \<equiv> 0x00"
abbreviation (input) ZWAVE_PROTOCOL_COMMAND_CLASS :: u8 where "ZWAVE_PROTOCOL_COMMAND_CLASS \<equiv> 0x01"
abbreviation (input) ZWAVE_NODE_INFO_REQUEST_COMMAND :: u8 where "ZWAVE_NODE_INFO_REQUEST_COMMAND \<equiv> 0x02"

datatype at_output =
  Zwapi_send_nop node_id u8
| Zwapi_request_node_info node_id
| Zwapi_send_data node_id "u8 list" u8
| Zwapi_send_test_frame node_id u8
| Zwapi_send_protocol_data node_id "u8 list" nat
| Zwapi_send_data_multi nodemask "u8 list" u8
| Zwapi_abort_send_data
| At_send_complete nat u8 nat nat
| On_frame_transmission bool nat node_id

record at =
  at_on_send_data_complete :: nat
  at_user :: nat
  at_transmission_ongoing :: bool
  at_parent_session_id :: nat
  at_remote_node_id :: node_id
  at_fast_track :: bool
  at_awaiting_nif :: bool
  at_emergency_timer :: "nat option"
  at_out :: "at_output list"

record at_env =
  at_answer :: "at_output list \<Rightarrow> sl_status"
  zwave_node_is_woeen :: "node_id \<Rightarrow> bool"
  at_get_nodes :: "u8 \<Rightarrow> at_output list \<Rightarrow> sl_status \<times> nodemask"

definition at_emit :: "at_output \<Rightarrow> at \<Rightarrow> at" where
  "at_emit x s = s\<lparr>at_out := at_out s @ [x]\<rparr>"

text \<open>A call of the Z-Wave API and its answer.\<close>

definition zwapi :: "at_env \<Rightarrow> at_output \<Rightarrow> at \<Rightarrow> sl_status \<times> at" where
  "zwapi env x s = (let s = at_emit x s in (at_answer env (at_out s), s))"

section \<open>Operations\<close>

definition zwave_api_reset_state :: "at \<Rightarrow> at" where
  "zwave_api_reset_state s =
     s\<lparr>at_transmission_ongoing := False, at_fast_track := False, at_remote_node_id := INVALID_NODE_ID, at_on_send_data_complete := 0,
       at_user := 0, at_awaiting_nif := False, at_emergency_timer := None\<rparr>"

definition zwave_api_transport_start_timer :: "at \<Rightarrow> at" where
  "zwave_api_transport_start_timer s = (if at_transmission_ongoing s then s\<lparr>at_emergency_timer := Some EMERGENCY_TIMEOUT_MS\<rparr> else s)"

definition zwave_api_transport_start_transmission :: "nat \<Rightarrow> nat \<Rightarrow> nat \<Rightarrow> at \<Rightarrow> at" where
  "zwave_api_transport_start_transmission callback user session s =
     zwave_api_transport_start_timer
       (s\<lparr>at_transmission_ongoing := True, at_on_send_data_complete := callback, at_user := user, at_parent_session_id := session\<rparr>)"

definition zwave_api_send_data_callback :: "u8 \<Rightarrow> nat \<Rightarrow> at \<Rightarrow> at" where
  "zwave_api_send_data_callback tx_status tx_info s =
     (if \<not> at_transmission_ongoing s then s
      else let s = (if at_on_send_data_complete s \<noteq> 0 then at_emit (At_send_complete (at_on_send_data_complete s) tx_status tx_info (at_user s)) s else s);
               s = (if at_remote_node_id s \<noteq> INVALID_NODE_ID
                    then if IS_TRANSMISSION_SUCCESSFUL tx_status then at_emit (On_frame_transmission True tx_info (at_remote_node_id s)) s
                         else if \<not> at_fast_track s then at_emit (On_frame_transmission False tx_info (at_remote_node_id s)) s
                         else s
                    else s)
           in zwave_api_reset_state s)"

definition zwave_api_send_test_frame_callback :: "u8 \<Rightarrow> at \<Rightarrow> at" where
  "zwave_api_send_test_frame_callback tx_status s = zwave_api_send_data_callback tx_status 0 s"

definition zwave_api_send_data_multi_callback :: "u8 \<Rightarrow> at \<Rightarrow> at" where
  "zwave_api_send_data_multi_callback tx_status s = zwave_api_send_data_callback tx_status 0 s"

definition zwave_api_transport_on_node_info_req_failed :: "node_id \<Rightarrow> at \<Rightarrow> at" where
  "zwave_api_transport_on_node_info_req_failed node s =
     (if at_awaiting_nif s then zwave_api_send_data_callback TRANSMIT_COMPLETE_FAIL 0 s else s)"

definition zwave_api_transport_on_node_information :: "node_id \<Rightarrow> at \<Rightarrow> at" where
  "zwave_api_transport_on_node_information node s =
     (if at_awaiting_nif s \<and> at_remote_node_id s = node then zwave_api_send_data_callback TRANSMIT_COMPLETE_OK 0 s else s)"

definition at_on_zwave_api_started :: "at \<Rightarrow> at" where
  "at_on_zwave_api_started s = (if \<not> at_transmission_ongoing s then s else zwave_api_send_data_callback TRANSMIT_COMPLETE_FAIL 0 s)"

definition zwave_api_transport_emergency_timeout_step :: "at_env \<Rightarrow> at \<Rightarrow> at" where
  "zwave_api_transport_emergency_timeout_step env s =
     (if at_awaiting_nif s then zwave_api_transport_on_node_info_req_failed (at_remote_node_id s) s
      else snd (zwapi env Zwapi_abort_send_data s))"

definition zwave_api_transport_intercept_payload :: "at_env \<Rightarrow> connection_info \<Rightarrow> u8 list \<Rightarrow> at \<Rightarrow> sl_status \<times> at" where
  "zwave_api_transport_intercept_payload env info data s =
     (if remote_is_multicast info then (SL_STATUS_NOT_SUPPORTED, s)
      else if length data < 1 then (SL_STATUS_NOT_SUPPORTED, s)
      else if data ! 0 = ZWAVE_NOP_COMMAND_CLASS
      then zwapi env (Zwapi_send_nop (remote_node_id info)
             (TRANSMIT_OPTION_AUTO_ROUTE OR TRANSMIT_OPTION_EXPLORE OR (if \<not> zwave_node_is_woeen env (remote_node_id info) then TRANSMIT_OPTION_ACK else 0))) s
      else if length data < 2 then (SL_STATUS_NOT_SUPPORTED, s)
      else if data ! 0 = ZWAVE_PROTOCOL_COMMAND_CLASS \<and> data ! 1 = ZWAVE_NODE_INFO_REQUEST_COMMAND
      then case zwapi env (Zwapi_request_node_info (remote_node_id info)) s of
             (rc, s) \<Rightarrow> if rc = SL_STATUS_OK then (SL_STATUS_OK, s\<lparr>at_awaiting_nif := True\<rparr>) else (SL_STATUS_NOT_SUPPORTED, s)
      else (SL_STATUS_NOT_SUPPORTED, s))"

text \<open>The options and the saved destination of a frame that is not multicast, and its transmission.\<close>

definition singlecast_options :: "at_env \<Rightarrow> connection_info \<Rightarrow> tx_options \<Rightarrow> u8" where
  "singlecast_options env info options =
     (if \<not> IS_BROADCAST_NODE_ID (remote_node_id info)
      then (if \<not> zwave_node_is_woeen env (remote_node_id info) then TRANSMIT_OPTION_ACK else 0) OR
           (if \<not> fasttrack options then TRANSMIT_OPTION_AUTO_ROUTE OR TRANSMIT_OPTION_EXPLORE else 0)
      else 0)"

definition save_destination :: "connection_info \<Rightarrow> tx_options \<Rightarrow> at \<Rightarrow> at" where
  "save_destination info options s =
     (if \<not> IS_BROADCAST_NODE_ID (remote_node_id info) then s\<lparr>at_remote_node_id := remote_node_id info, at_fast_track := fasttrack options\<rparr> else s)"

definition send_singlecast :: "at_env \<Rightarrow> tx_request \<Rightarrow> at \<Rightarrow> sl_status \<times> at" where
  "send_singlecast env r s =
     (let info = tx_connection r; options = tx_request_options r in
      if is_test_frame options then zwapi env (Zwapi_send_test_frame (remote_node_id info) (rf_power options)) (s\<lparr>at_remote_node_id := INVALID_NODE_ID\<rparr>)
      else if is_protocol_frame options then zwapi env (Zwapi_send_protocol_data (remote_node_id info) (tx_data r) (tx_user r)) s
      else zwapi env (Zwapi_send_data (remote_node_id info) (tx_data r) (singlecast_options env info options)) s)"

definition zwave_api_send_data :: "at_env \<Rightarrow> tx_request \<Rightarrow> at \<Rightarrow> sl_status \<times> at" where
  "zwave_api_send_data env r s =
     (let info = tx_connection r; options = tx_request_options r;
          start = zwave_api_transport_start_transmission (tx_on_send_complete r) (tx_user r) (tx_parent_session r)
      in if length (tx_data r) > ZWAVE_API_MAXIMUM_FRAME_LENGTH then (SL_STATUS_WOULD_OVERFLOW, s)
         else if at_transmission_ongoing s then (SL_STATUS_BUSY, s)
         else case zwave_api_transport_intercept_payload env info (tx_data r) s of
           (rc, s) \<Rightarrow>
             if rc = SL_STATUS_OK then (SL_STATUS_OK, start (s\<lparr>at_remote_node_id := remote_node_id info\<rparr>))
             else if \<not> remote_is_multicast info
             then case send_singlecast env r (save_destination info options s) of
                    (rc, s) \<Rightarrow> if rc = SL_STATUS_OK then (SL_STATUS_OK, start s) else (SL_STATUS_FAIL, s)
             else case at_get_nodes env (multicast_group info) (at_out s) of
                    (rc, node_list) \<Rightarrow>
                      if rc \<noteq> SL_STATUS_OK then (SL_STATUS_FAIL, s)
                      else case zwapi env (Zwapi_send_data_multi node_list (tx_data r)
                                  (if group_id options \<noteq> 0 then TRANSMIT_OPTION_MULTICAST_AS_BROADCAST else 0)) s of
                             (rc, s) \<Rightarrow> if rc = SL_STATUS_OK then (SL_STATUS_OK, start s) else (SL_STATUS_FAIL, s))"

definition zwave_api_abort_send_data :: "at_env \<Rightarrow> nat \<Rightarrow> at \<Rightarrow> sl_status \<times> at" where
  "zwave_api_abort_send_data env session s =
     (if \<not> at_transmission_ongoing s \<or> at_parent_session_id s \<noteq> session then (SL_STATUS_NOT_FOUND, s)
      else if at_awaiting_nif s then (SL_STATUS_OK, zwave_api_transport_on_node_info_req_failed (at_remote_node_id s) s)
      else (SL_STATUS_OK, snd (zwapi env Zwapi_abort_send_data s)))"

definition zwave_api_transport_is_busy :: "at \<Rightarrow> bool" where
  "zwave_api_transport_is_busy s = at_transmission_ongoing s"

definition zwave_api_transport_reset :: "at \<Rightarrow> at" where
  "zwave_api_transport_reset s =
     zwave_api_reset_state (if at_transmission_ongoing s then zwave_api_send_data_callback TRANSMIT_COMPLETE_FAIL 0 s else s)"

definition zwave_api_transport :: "at_env \<Rightarrow> at transport" where
  "zwave_api_transport env =
     \<lparr>priority = 0, transport_class = 0, version = 0, send_data = Some (zwave_api_send_data env), abort_send_data = Some (zwave_api_abort_send_data env),
      transport_on_frame_received = None, is_busy = Some (\<lambda>s. (zwave_api_transport_is_busy s, s))\<rparr>"

definition zwave_api_transport_init :: "at_env \<Rightarrow> at transport list \<Rightarrow> at \<Rightarrow> sl_status \<times> at transport list \<times> at" where
  "zwave_api_transport_init env ts s =
     (case zwave_controller_transport_register (zwave_api_transport env) ts of (rc, ts) \<Rightarrow> (rc, ts, zwave_api_reset_state s))"

section \<open>Histories\<close>

datatype at_input =
  At_send tx_request | At_sent u8 nat | At_test_sent u8 | At_multi_sent u8 | At_node_info_failed node_id | At_node_information node_id
| At_api_started | At_abort nat | At_reset | At_timer

definition at_step :: "at_env \<Rightarrow> at_input \<Rightarrow> at \<Rightarrow> at" where
  "at_step env i s =
     (case i of
        At_send r \<Rightarrow> snd (zwave_api_send_data env r s)
      | At_sent tx_status tx_info \<Rightarrow> zwave_api_send_data_callback tx_status tx_info s
      | At_test_sent tx_status \<Rightarrow> zwave_api_send_test_frame_callback tx_status s
      | At_multi_sent tx_status \<Rightarrow> zwave_api_send_data_multi_callback tx_status s
      | At_node_info_failed node \<Rightarrow> zwave_api_transport_on_node_info_req_failed node s
      | At_node_information node \<Rightarrow> zwave_api_transport_on_node_information node s
      | At_api_started \<Rightarrow> at_on_zwave_api_started s
      | At_abort session \<Rightarrow> snd (zwave_api_abort_send_data env session s)
      | At_reset \<Rightarrow> zwave_api_transport_reset s
      | At_timer \<Rightarrow> if at_emergency_timer s \<noteq> None
                     then zwave_api_transport_emergency_timeout_step env (s\<lparr>at_emergency_timer := None\<rparr>) else s)"

definition at_start :: at where
  "at_start = \<lparr>at_on_send_data_complete = 0, at_user = 0, at_transmission_ongoing = False, at_parent_session_id = 0, at_remote_node_id = 0,
     at_fast_track = False, at_awaiting_nif = False, at_emergency_timer = None, at_out = []\<rparr>"

definition at_slot :: "at \<Rightarrow> nat option" where
  "at_slot s = (if at_transmission_ongoing s then Some (at_on_send_data_complete s) else None)"

fun at_call :: "at_output \<Rightarrow> nat multiset" where
  "at_call (At_send_complete f st info u) = {#f#}"
| "at_call _ = {#}"

definition at_called :: "at \<Rightarrow> nat multiset" where
  "at_called s = sum_list (map at_call (at_out s))"

definition at_taken :: "at_env \<Rightarrow> at_input \<Rightarrow> at \<Rightarrow> nat option" where
  "at_taken env i s =
     (case i of At_send r \<Rightarrow> if fst (zwave_api_send_data env r s) = SL_STATUS_OK then Some (tx_on_send_complete r) else None | _ \<Rightarrow> None)"

text \<open>What neither starts nor ends a transmission.\<close>

definition at_same :: "at \<Rightarrow> at \<Rightarrow> bool" where
  "at_same s s' \<longleftrightarrow> at_transmission_ongoing s' = at_transmission_ongoing s \<and> at_on_send_data_complete s' = at_on_send_data_complete s \<and> at_called s' = at_called s"

lemma at_same_updates [simp]:
  "at_same s s" "at_call x = {#} \<Longrightarrow> at_same s (at_emit x s') = at_same s s'" "at_same s (s'\<lparr>at_remote_node_id := n\<rparr>) = at_same s s'"
  "at_same s (s'\<lparr>at_awaiting_nif := b\<rparr>) = at_same s s'" "at_same s (s'\<lparr>at_remote_node_id := n, at_fast_track := f\<rparr>) = at_same s s'"
  "at_same s (s'\<lparr>at_emergency_timer := t\<rparr>) = at_same s s'"
  by (simp_all add: at_same_def at_emit_def at_called_def)

lemma at_same_zwapi: "at_call x = {#} \<Longrightarrow> zwapi env x s' = (rc, s'') \<Longrightarrow> at_same s s'' = at_same s s'"
  by (auto simp: zwapi_def Let_def)

lemma at_same_intercept: "zwave_api_transport_intercept_payload env info data s = (rc, s') \<Longrightarrow> at_same s s'"
  by (auto simp: zwave_api_transport_intercept_payload_def zwapi_def Let_def split: if_splits prod.splits)

lemma at_same_singlecast: "send_singlecast env r s' = (rc, s'') \<Longrightarrow> at_same s s'' = at_same s s'"
  by (auto simp: send_singlecast_def zwapi_def Let_def split: if_splits)

lemma at_same_save [simp]: "at_same s (save_destination info options s') = at_same s s'"
  by (simp add: save_destination_def)

lemma at_callback:
  assumes "at_same w s"
  shows "at_same w (zwave_api_send_data_callback st info s) \<or>
    (\<exists>cb. at_slot w = Some cb \<and> at_slot (zwave_api_send_data_callback st info s) = None \<and> at_called (zwave_api_send_data_callback st info s) = at_called w + call_of cb)"
  using assms by (auto simp: zwave_api_send_data_callback_def Let_def zwave_api_reset_state_def at_slot_def at_same_def at_called_def at_emit_def call_of_def)

lemma at_start_transmission:
  "at_slot (zwave_api_transport_start_transmission cb user session s) = Some cb" "at_called (zwave_api_transport_start_transmission cb user session s) = at_called s"
  by (simp_all add: zwave_api_transport_start_transmission_def zwave_api_transport_start_timer_def at_slot_def at_called_def)

text \<open>The two ways of sending a frame that is not intercepted.\<close>

lemma at_send_cases:
  assumes "zwave_api_send_data env r s = (rc, s')"
  obtains (refused) "rc \<noteq> SL_STATUS_OK" "at_same s s'"
  | (taken) s1 where "rc = SL_STATUS_OK" "\<not> at_transmission_ongoing s" "at_same s s1"
      "s' = zwave_api_transport_start_transmission (tx_on_send_complete r) (tx_user r) (tx_parent_session r) s1"
proof (cases "length (tx_data r) > ZWAVE_API_MAXIMUM_FRAME_LENGTH \<or> at_transmission_ongoing s")
  case True
  then show ?thesis using assms by (intro refused) (auto simp: zwave_api_send_data_def Let_def split: if_splits)
next
  case False
  then have idle: "\<not> at_transmission_ongoing s" and fits: "\<not> length (tx_data r) > ZWAVE_API_MAXIMUM_FRAME_LENGTH" by auto
  obtain c s1 where c: "zwave_api_transport_intercept_payload env (tx_connection r) (tx_data r) s = (c, s1)" by (rule prod.exhaust)
  have same: "at_same s s1" by (rule at_same_intercept [OF c])
  obtain d s2 where d: "send_singlecast env r (save_destination (tx_connection r) (tx_request_options r) s1) = (d, s2)" by (rule prod.exhaust)
  have same2: "at_same s s2" using at_same_singlecast [OF d, of s] same by simp
  note send = assms [unfolded zwave_api_send_data_def Let_def if_not_P [OF fits] if_not_P [OF idle] c prod.case d]
  show ?thesis
  proof (cases "c = SL_STATUS_OK")
    case True
    then show ?thesis using send same idle by (intro taken [of "s1\<lparr>at_remote_node_id := remote_node_id (tx_connection r)\<rparr>"]) auto
  next
    case c: False
    show ?thesis
    proof (cases "remote_is_multicast (tx_connection r)")
      case True
      obtain e nodes where e: "at_get_nodes env (multicast_group (tx_connection r)) (at_out s1) = (e, nodes)" by (rule prod.exhaust)
      obtain g s3 where g: "zwapi env (Zwapi_send_data_multi nodes (tx_data r)
          (if group_id (tx_request_options r) \<noteq> 0 then TRANSMIT_OPTION_MULTICAST_AS_BROADCAST else 0)) s1 = (g, s3)" by (rule prod.exhaust)
      have same3: "at_same s s3" using at_same_zwapi [OF _ g, of s] same by simp
      note send = send [unfolded if_not_P [OF c] e prod.case g]
      show ?thesis
      proof (cases "e = SL_STATUS_OK \<and> g = SL_STATUS_OK")
        case ok: True
        then show ?thesis using send True same3 idle by (intro taken [of s3]) auto
      next
        case bad: False
        then show ?thesis using send True same same3 by (intro refused) (auto split: if_splits)
      qed
    next
      case False
      show ?thesis
      proof (cases "d = SL_STATUS_OK")
        case True
        then show ?thesis using send c False same2 idle by (intro taken [of s2]) auto
      next
        case bad: False
        then show ?thesis using send c False same2 by (intro refused) auto
      qed
    qed
  qed
qed

lemma at_slot_same: "at_same s s' \<Longrightarrow> at_slot s' = at_slot s \<and> at_called s' = at_called s"
  by (simp add: at_same_def at_slot_def)

lemmas at_handler_defs = zwave_api_send_test_frame_callback_def zwave_api_send_data_multi_callback_def zwave_api_transport_on_node_info_req_failed_def
  zwave_api_transport_on_node_information_def at_on_zwave_api_started_def zwave_api_transport_emergency_timeout_step_def zwave_api_abort_send_data_def

text \<open>What an event other than a request does.\<close>

lemma at_reset_state: "at_transmission_ongoing s = False \<Longrightarrow> at_slot (zwave_api_reset_state s) = at_slot s \<and> at_called (zwave_api_reset_state s) = at_called s"
  by (simp add: zwave_api_reset_state_def at_slot_def at_called_def)

lemma at_callback_idle: "at_transmission_ongoing (zwave_api_send_data_callback st info s) = False"
  by (simp add: zwave_api_send_data_callback_def Let_def zwave_api_reset_state_def)

lemma at_callback_slot:
  assumes "at_same w s"
  shows "(at_slot (zwave_api_send_data_callback st info s) = at_slot w \<and> at_called (zwave_api_send_data_callback st info s) = at_called w) \<or>
    (\<exists>cb. at_slot w = Some cb \<and> at_slot (zwave_api_send_data_callback st info s) = None \<and> at_called (zwave_api_send_data_callback st info s) = at_called w + call_of cb)"
  using at_callback [OF assms, of st info] at_slot_same by blast

lemma at_step_keeps:
  assumes "\<forall>r. i \<noteq> At_send r"
  shows "(at_slot (at_step env i s) = at_slot s \<and> at_called (at_step env i s) = at_called s) \<or>
    (\<exists>cb. at_slot s = Some cb \<and> at_slot (at_step env i s) = None \<and> at_called (at_step env i s) = at_called s + call_of cb)"
proof (cases i)
  case At_reset
  then show ?thesis
    using at_callback_slot [of s s TRANSMIT_COMPLETE_FAIL 0] at_reset_state [OF at_callback_idle, of TRANSMIT_COMPLETE_FAIL 0 s]
    by (cases "at_transmission_ongoing s") (auto simp: at_step_def zwave_api_transport_reset_def at_reset_state)
next
  case At_timer
  have same: "at_same s (s\<lparr>at_emergency_timer := None\<rparr>)" by simp
  have "at_same s (snd (zwapi env Zwapi_abort_send_data (s\<lparr>at_emergency_timer := None\<rparr>)))" by (simp add: zwapi_def Let_def)
  then show ?thesis
    using At_timer at_callback_slot [OF same, of TRANSMIT_COMPLETE_FAIL 0] at_slot_same [OF same]
    by (auto simp: at_step_def at_handler_defs dest: at_slot_same)
next
  case (At_abort session)
  have "at_same s (snd (zwapi env Zwapi_abort_send_data s))" by (simp add: zwapi_def Let_def)
  then show ?thesis
    using At_abort at_callback_slot [of s s TRANSMIT_COMPLETE_FAIL 0] by (auto simp: at_step_def at_handler_defs dest: at_slot_same)
qed (use assms at_callback_slot [of s s] in \<open>auto simp: at_step_def at_handler_defs\<close>)

interpretation at_requests: single_slot "at_step env" at_slot at_called "at_taken env" for env
proof
  fix i s cb
  assume t: "at_taken env i s = Some cb"
  then obtain r where i: "i = At_send r" and rc: "fst (zwave_api_send_data env r s) = SL_STATUS_OK" and cb: "cb = tx_on_send_complete r"
    by (auto simp: at_taken_def split: at_input.splits if_splits)
  obtain s' where s': "zwave_api_send_data env r s = (SL_STATUS_OK, s')" using rc by (metis prod.collapse)
  show "at_slot s = None"
    by (rule at_send_cases [OF s']) (simp_all add: at_slot_def)
  show "(at_slot (at_step env i s) = Some cb \<and> at_called (at_step env i s) = at_called s) \<or>
      (at_slot (at_step env i s) = None \<and> at_called (at_step env i s) = at_called s + call_of cb)"
    by (rule at_send_cases [OF s']) (simp_all add: i cb at_step_def s' at_start_transmission at_slot_same)
next
  fix i s
  assume t: "at_taken env i s = None"
  show "(at_slot (at_step env i s) = at_slot s \<and> at_called (at_step env i s) = at_called s) \<or>
      (\<exists>cb. at_slot s = Some cb \<and> at_slot (at_step env i s) = None \<and> at_called (at_step env i s) = at_called s + call_of cb)"
  proof (cases "\<exists>r. i = At_send r")
    case True
    then obtain r where i: "i = At_send r" by blast
    obtain rc s' where s': "zwave_api_send_data env r s = (rc, s')" by (rule prod.exhaust)
    have "rc \<noteq> SL_STATUS_OK" using t by (simp add: i at_taken_def s' split: if_splits)
    then have "at_same s s'" by (rule_tac at_send_cases [OF s']) auto
    then show ?thesis using at_slot_same by (simp add: i at_step_def s')
  qed (use at_step_keeps in blast)
qed

text \<open>
  C32. In every history from the initial state, the calls of send callbacks and the callback of the frame
  that is on its way are the callbacks of the accepted frames: every accepted frame is confirmed
  exactly once, by the module, by the arrival or failure of a node information frame, by a restart
  of the module, or by a reset of the transport.
\<close>

theorem api_requests_answered_once:
  "at_called (fold (at_step env) is at_start) + pending (at_slot (fold (at_step env) is at_start)) = all_taken (at_step env) (at_taken env) is at_start"
  by (rule at_requests.answered_once) (simp_all add: at_start_def at_slot_def at_called_def)

section \<open>Destinations\<close>

text \<open>The destination of a singlecast frame that the module refuses stays in the state.\<close>

lemma refused_destination_kept:
  assumes "zwave_api_send_data env r s = (SL_STATUS_FAIL, s')" and "\<not> remote_is_multicast (tx_connection r)"
    and "\<not> IS_BROADCAST_NODE_ID (remote_node_id (tx_connection r))" and "\<not> is_test_frame (tx_request_options r)"
  shows "at_remote_node_id s' = remote_node_id (tx_connection r) \<and> at_fast_track s' = fasttrack (tx_request_options r)"
  using assms by (auto simp: zwave_api_send_data_def Let_def save_destination_def send_singlecast_def zwapi_def at_emit_def split: if_splits prod.splits)

lemma multicast_keeps_destination:
  assumes "zwave_api_send_data env r s = (SL_STATUS_OK, s')" and "remote_is_multicast (tx_connection r)"
  shows "at_remote_node_id s' = at_remote_node_id s \<and> at_transmission_ongoing s'"
  using assms by (auto simp: zwave_api_send_data_def Let_def zwave_api_transport_intercept_payload_def zwapi_def at_emit_def
      zwave_api_transport_start_transmission_def zwave_api_transport_start_timer_def split: if_splits prod.splits)

text \<open>
  When the module refuses a singlecast frame, its destination stays in the state. The next multicast
  frame does not set a destination, so that its confirmation is reported to the controller as a
  successful transmission to the node whose frame was refused.
\<close>

theorem refused_frame_reported_as_reached:
  assumes "zwave_api_send_data env r s = (SL_STATUS_FAIL, s1)" and "\<not> remote_is_multicast (tx_connection r)"
    and "\<not> IS_BROADCAST_NODE_ID (remote_node_id (tx_connection r))" and "remote_node_id (tx_connection r) \<noteq> INVALID_NODE_ID"
    and "\<not> is_test_frame (tx_request_options r)"
    and "zwave_api_send_data env m s1 = (SL_STATUS_OK, s2)" and "remote_is_multicast (tx_connection m)"
    and "IS_TRANSMISSION_SUCCESSFUL st"
  shows "last (at_out (zwave_api_send_data_multi_callback st s2)) = On_frame_transmission True 0 (remote_node_id (tx_connection r))"
proof -
  have "at_remote_node_id s2 = remote_node_id (tx_connection r)" "at_transmission_ongoing s2"
    using refused_destination_kept [OF assms(1-3,5)] multicast_keeps_destination [OF assms(6,7)] by simp_all
  then show ?thesis
    using assms(4,8) by (simp add: zwave_api_send_data_multi_callback_def zwave_api_send_data_callback_def Let_def zwave_api_reset_state_def at_emit_def)
qed

text \<open>A module that refuses its first frame only.\<close>

definition sample_at_env :: at_env where
  "sample_at_env = \<lparr>at_answer = \<lambda>out. if length out = 1 then SL_STATUS_FAIL else SL_STATUS_OK, zwave_node_is_woeen = \<lambda>n. False,
     at_get_nodes = \<lambda>g out. (SL_STATUS_OK, replicate 29 0)\<rparr>"

definition sample_request :: "connection_info \<Rightarrow> tx_request" where
  "sample_request c = \<lparr>tx_connection = c, tx_data = [0x25, 0x01, 0xFF], tx_request_options = zero_options, tx_on_send_complete = 7, tx_user = 8, tx_parent_session = 9\<rparr>"

theorem refused_frame_reported_as_reached_witness:
  "\<exists>s1 s2. zwave_api_send_data sample_at_env (sample_request (zero_connection\<lparr>remote_node_id := 5\<rparr>)) at_start = (SL_STATUS_FAIL, s1) \<and>
    zwave_api_send_data sample_at_env (sample_request (zero_connection\<lparr>remote_node_id := 2, remote_is_multicast := True\<rparr>)) s1 = (SL_STATUS_OK, s2) \<and>
    last (at_out (zwave_api_send_data_multi_callback TRANSMIT_COMPLETE_OK s2)) = On_frame_transmission True 0 5"
proof -
  note defs = zwave_api_send_data_def zwave_api_transport_intercept_payload_def send_singlecast_def save_destination_def zwapi_def at_emit_def Let_def
    sample_at_env_def sample_request_def zero_connection_def zero_options_def at_start_def IS_BROADCAST_NODE_ID_def
    zwave_api_transport_start_transmission_def zwave_api_transport_start_timer_def
  let ?s = "at_start\<lparr>at_remote_node_id := 5, at_out := [Zwapi_send_data 5 [0x25, 0x01, 0xFF] 0x25]\<rparr>"
  have s1: "zwave_api_send_data sample_at_env (sample_request (zero_connection\<lparr>remote_node_id := 5\<rparr>)) at_start = (SL_STATUS_FAIL, ?s)"
    by (simp add: defs singlecast_options_def)
  obtain s2 where s2: "zwave_api_send_data sample_at_env (sample_request (zero_connection\<lparr>remote_node_id := 2, remote_is_multicast := True\<rparr>)) ?s = (SL_STATUS_OK, s2)"
    by (simp add: defs)
  show ?thesis
    using s1 s2 refused_frame_reported_as_reached [OF s1 _ _ _ _ s2, of TRANSMIT_COMPLETE_OK]
    by (auto simp: sample_request_def zero_connection_def zero_options_def IS_BROADCAST_NODE_ID_def IS_TRANSMISSION_SUCCESSFUL_def)
qed

section \<open>The emergency timer\<close>

text \<open>The events that reach the transport without the module confirming the frame.\<close>

fun unconfirmed :: "at_input \<Rightarrow> bool" where
  "unconfirmed (At_sent st info) = False"
| "unconfirmed (At_test_sent st) = False"
| "unconfirmed (At_multi_sent st) = False"
| "unconfirmed At_api_started = False"
| "unconfirmed At_reset = False"
| "unconfirmed _ = True"

lemma unconfirmed_step:
  assumes "unconfirmed i" and "at_transmission_ongoing s" and "\<not> at_awaiting_nif s" and "at_emergency_timer s = None"
  shows "at_transmission_ongoing (at_step env i s) \<and> \<not> at_awaiting_nif (at_step env i s) \<and> at_emergency_timer (at_step env i s) = None"
  using assms by (cases i) (auto simp: at_step_def at_handler_defs zwave_api_send_data_def zwapi_def at_emit_def Let_def)

text \<open>
  The emergency timer asks the module to abort the frame, and is not started again: when it has
  fired for a frame that is not a node information request, the transport has no timer left and
  stays busy through every further event, aborts of the frame included, until the module confirms
  the frame or restarts, or the transport is reset.
\<close>

theorem emergency_timer_fires_once:
  assumes "at_transmission_ongoing s" and "\<not> at_awaiting_nif s" and "at_emergency_timer s \<noteq> None" and "list_all unconfirmed is"
  shows "at_transmission_ongoing (fold (at_step env) (At_timer # is) s) \<and> at_emergency_timer (fold (at_step env) (At_timer # is) s) = None"
proof -
  have "at_transmission_ongoing w \<Longrightarrow> \<not> at_awaiting_nif w \<Longrightarrow> at_emergency_timer w = None \<Longrightarrow>
      at_transmission_ongoing (fold (at_step env) is w) \<and> at_emergency_timer (fold (at_step env) is w) = None" for w
    using assms(4) by (induction "is" arbitrary: w) (simp_all add: unconfirmed_step)
  moreover have "at_transmission_ongoing (at_step env At_timer s) \<and> \<not> at_awaiting_nif (at_step env At_timer s) \<and> at_emergency_timer (at_step env At_timer s) = None"
    using assms(1-3) by (auto simp: at_step_def at_handler_defs zwapi_def at_emit_def Let_def)
  ultimately show ?thesis by simp
qed

theorem emergency_timer_fires_once_witness:
  "\<not> zwave_api_transport_is_busy at_start \<and>
   at_transmission_ongoing (fold (at_step sample_at_env) [At_timer, At_abort 9, At_timer] (at_start\<lparr>at_transmission_ongoing := True, at_emergency_timer := Some EMERGENCY_TIMEOUT_MS\<rparr>))"
  using emergency_timer_fires_once [of "at_start\<lparr>at_transmission_ongoing := True, at_emergency_timer := Some EMERGENCY_TIMEOUT_MS\<rparr>" "[At_abort 9, At_timer]" sample_at_env]
  by (simp add: at_start_def zwave_api_transport_is_busy_def)

end
