(* ===== verification/Zwapi_Func_Ids.thy ===== *)
theory Zwapi_Func_Ids
  imports Zpc_Prelude
begin

text \<open>The commands of the Z-Wave API that are used below (\<^verbatim>\<open>zwapi_func_ids.h\<close>).\<close>

abbreviation (input) FUNC_ID_SERIAL_API_GET_INIT_DATA :: u8 where "FUNC_ID_SERIAL_API_GET_INIT_DATA \<equiv> 0x02"
abbreviation (input) FUNC_ID_SERIAL_API_APPL_NODE_INFORMATION :: u8 where "FUNC_ID_SERIAL_API_APPL_NODE_INFORMATION \<equiv> 0x03"
abbreviation (input) FUNC_ID_APPLICATION_COMMAND_HANDLER :: u8 where "FUNC_ID_APPLICATION_COMMAND_HANDLER \<equiv> 0x04"
abbreviation (input) FUNC_ID_ZW_GET_CONTROLLER_CAPABILITIES :: u8 where "FUNC_ID_ZW_GET_CONTROLLER_CAPABILITIES \<equiv> 0x05"
abbreviation (input) FUNC_ID_SERIAL_API_GET_CAPABILITIES :: u8 where "FUNC_ID_SERIAL_API_GET_CAPABILITIES \<equiv> 0x07"
abbreviation (input) FUNC_ID_SERIAL_API_SOFT_RESET :: u8 where "FUNC_ID_SERIAL_API_SOFT_RESET \<equiv> 0x08"
abbreviation (input) FUNC_ID_ZW_GET_PROTOCOL_VERSION :: u8 where "FUNC_ID_ZW_GET_PROTOCOL_VERSION \<equiv> 0x09"
abbreviation (input) FUNC_ID_SERIAL_API_STARTED :: u8 where "FUNC_ID_SERIAL_API_STARTED \<equiv> 0x0A"
abbreviation (input) FUNC_ID_SERIAL_API_SETUP :: u8 where "FUNC_ID_SERIAL_API_SETUP \<equiv> 0x0B"
abbreviation (input) FUNC_ID_ZW_SET_RF_RECEIVE_MODE :: u8 where "FUNC_ID_ZW_SET_RF_RECEIVE_MODE \<equiv> 0x10"
abbreviation (input) FUNC_ID_ZW_SEND_NODE_INFORMATION :: u8 where "FUNC_ID_ZW_SEND_NODE_INFORMATION \<equiv> 0x12"
abbreviation (input) FUNC_ID_ZW_SEND_DATA :: u8 where "FUNC_ID_ZW_SEND_DATA \<equiv> 0x13"
abbreviation (input) FUNC_ID_ZW_SEND_DATA_MULTI :: u8 where "FUNC_ID_ZW_SEND_DATA_MULTI \<equiv> 0x14"
abbreviation (input) FUNC_ID_ZW_GET_VERSION :: u8 where "FUNC_ID_ZW_GET_VERSION \<equiv> 0x15"
abbreviation (input) FUNC_ID_ZW_SEND_DATA_ABORT :: u8 where "FUNC_ID_ZW_SEND_DATA_ABORT \<equiv> 0x16"
abbreviation (input) FUNC_ID_ZW_RF_POWER_LEVEL_SET :: u8 where "FUNC_ID_ZW_RF_POWER_LEVEL_SET \<equiv> 0x17"
abbreviation (input) FUNC_ID_ZW_GET_RANDOM :: u8 where "FUNC_ID_ZW_GET_RANDOM \<equiv> 0x1C"
abbreviation (input) FUNC_ID_ZW_RANDOM :: u8 where "FUNC_ID_ZW_RANDOM \<equiv> 0x1D"
abbreviation (input) FUNC_ID_MEMORY_GET_ID :: u8 where "FUNC_ID_MEMORY_GET_ID \<equiv> 0x20"
abbreviation (input) FUNC_ID_MEMORY_GET_BYTE :: u8 where "FUNC_ID_MEMORY_GET_BYTE \<equiv> 0x21"
abbreviation (input) FUNC_ID_MEMORY_PUT_BYTE :: u8 where "FUNC_ID_MEMORY_PUT_BYTE \<equiv> 0x22"
abbreviation (input) FUNC_ID_MEMORY_GET_BUFFER :: u8 where "FUNC_ID_MEMORY_GET_BUFFER \<equiv> 0x23"
abbreviation (input) FUNC_ID_MEMORY_PUT_BUFFER :: u8 where "FUNC_ID_MEMORY_PUT_BUFFER \<equiv> 0x24"
abbreviation (input) FUNC_ID_AUTO_PROGRAMMING :: u8 where "FUNC_ID_AUTO_PROGRAMMING \<equiv> 0x27"
abbreviation (input) FUNC_ID_NVR_GET_VALUE :: u8 where "FUNC_ID_NVR_GET_VALUE \<equiv> 0x28"
abbreviation (input) FUNC_ID_NVM_BACKUP_RESTORE :: u8 where "FUNC_ID_NVM_BACKUP_RESTORE \<equiv> 0x2E"
abbreviation (input) FUNC_ID_ZW_GET_BACKGROUND_RSSI :: u8 where "FUNC_ID_ZW_GET_BACKGROUND_RSSI \<equiv> 0x3B"
abbreviation (input) FUNC_ID_ZW_REMOVE_NODE_ID_FROM_NETWORK :: u8 where "FUNC_ID_ZW_REMOVE_NODE_ID_FROM_NETWORK \<equiv> 0x3F"
abbreviation (input) FUNC_ID_ZW_GET_NODE_PROTOCOL_INFO :: u8 where "FUNC_ID_ZW_GET_NODE_PROTOCOL_INFO \<equiv> 0x41"
abbreviation (input) FUNC_ID_ZW_SET_DEFAULT :: u8 where "FUNC_ID_ZW_SET_DEFAULT \<equiv> 0x42"
abbreviation (input) FUNC_ID_ZW_NEW_CONTROLLER :: u8 where "FUNC_ID_ZW_NEW_CONTROLLER \<equiv> 0x43"
abbreviation (input) FUNC_ID_ZW_REPLICATION_COMMAND_COMPLETE :: u8 where "FUNC_ID_ZW_REPLICATION_COMMAND_COMPLETE \<equiv> 0x44"
abbreviation (input) FUNC_ID_ZW_REPLICATION_SEND_DATA :: u8 where "FUNC_ID_ZW_REPLICATION_SEND_DATA \<equiv> 0x45"
abbreviation (input) FUNC_ID_ZW_ASSIGN_RETURN_ROUTE :: u8 where "FUNC_ID_ZW_ASSIGN_RETURN_ROUTE \<equiv> 0x46"
abbreviation (input) FUNC_ID_ZW_DELETE_RETURN_ROUTE :: u8 where "FUNC_ID_ZW_DELETE_RETURN_ROUTE \<equiv> 0x47"
abbreviation (input) FUNC_ID_ZW_REQUEST_NODE_NEIGHBOR_UPDATE :: u8 where "FUNC_ID_ZW_REQUEST_NODE_NEIGHBOR_UPDATE \<equiv> 0x48"
abbreviation (input) FUNC_ID_ZW_APPLICATION_CONTROLLER_UPDATE :: u8 where "FUNC_ID_ZW_APPLICATION_CONTROLLER_UPDATE \<equiv> 0x49"
abbreviation (input) FUNC_ID_ZW_ADD_NODE_TO_NETWORK :: u8 where "FUNC_ID_ZW_ADD_NODE_TO_NETWORK \<equiv> 0x4A"
abbreviation (input) FUNC_ID_ZW_REMOVE_NODE_FROM_NETWORK :: u8 where "FUNC_ID_ZW_REMOVE_NODE_FROM_NETWORK \<equiv> 0x4B"
abbreviation (input) FUNC_ID_ZW_CREATE_NEW_PRIMARY :: u8 where "FUNC_ID_ZW_CREATE_NEW_PRIMARY \<equiv> 0x4C"
abbreviation (input) FUNC_ID_ZW_CONTROLLER_CHANGE :: u8 where "FUNC_ID_ZW_CONTROLLER_CHANGE \<equiv> 0x4D"
abbreviation (input) FUNC_ID_ZW_SET_LEARN_MODE :: u8 where "FUNC_ID_ZW_SET_LEARN_MODE \<equiv> 0x50"
abbreviation (input) FUNC_ID_ZW_ASSIGN_SUC_RETURN_ROUTE :: u8 where "FUNC_ID_ZW_ASSIGN_SUC_RETURN_ROUTE \<equiv> 0x51"
abbreviation (input) FUNC_ID_ZW_ENABLE_SUC :: u8 where "FUNC_ID_ZW_ENABLE_SUC \<equiv> 0x52"
abbreviation (input) FUNC_ID_ZW_REQUEST_NETWORK_UPDATE :: u8 where "FUNC_ID_ZW_REQUEST_NETWORK_UPDATE \<equiv> 0x53"
abbreviation (input) FUNC_ID_ZW_SET_SUC_NODE_ID :: u8 where "FUNC_ID_ZW_SET_SUC_NODE_ID \<equiv> 0x54"
abbreviation (input) FUNC_ID_ZW_DELETE_SUC_RETURN_ROUTE :: u8 where "FUNC_ID_ZW_DELETE_SUC_RETURN_ROUTE \<equiv> 0x55"
abbreviation (input) FUNC_ID_ZW_GET_SUC_NODE_ID :: u8 where "FUNC_ID_ZW_GET_SUC_NODE_ID \<equiv> 0x56"
abbreviation (input) FUNC_ID_ZW_EXPLORE_REQUEST_INCLUSION :: u8 where "FUNC_ID_ZW_EXPLORE_REQUEST_INCLUSION \<equiv> 0x5E"
abbreviation (input) FUNC_ID_ZW_EXPLORE_REQUEST_EXCLUSION :: u8 where "FUNC_ID_ZW_EXPLORE_REQUEST_EXCLUSION \<equiv> 0x5F"
abbreviation (input) FUNC_ID_ZW_REQUEST_NODE_INFO :: u8 where "FUNC_ID_ZW_REQUEST_NODE_INFO \<equiv> 0x60"
abbreviation (input) FUNC_ID_ZW_REMOVE_FAILED_NODE_ID :: u8 where "FUNC_ID_ZW_REMOVE_FAILED_NODE_ID \<equiv> 0x61"
abbreviation (input) FUNC_ID_ZW_IS_FAILED_NODE_ID :: u8 where "FUNC_ID_ZW_IS_FAILED_NODE_ID \<equiv> 0x62"
abbreviation (input) FUNC_ID_ZW_REPLACE_FAILED_NODE :: u8 where "FUNC_ID_ZW_REPLACE_FAILED_NODE \<equiv> 0x63"
abbreviation (input) FUNC_ID_ZW_TRANSFER_PROTOCOL_CC :: u8 where "FUNC_ID_ZW_TRANSFER_PROTOCOL_CC \<equiv> 0x69"
abbreviation (input) FUNC_ID_ZW_ENABLE_NODE_NLS :: u8 where "FUNC_ID_ZW_ENABLE_NODE_NLS \<equiv> 0x6A"
abbreviation (input) FUNC_ID_ZW_GET_NODE_NLS_STATE :: u8 where "FUNC_ID_ZW_GET_NODE_NLS_STATE \<equiv> 0x6B"
abbreviation (input) FUNC_ID_ZW_REQUEST_PROTOCOL_CC_ENCRYPTION :: u8 where "FUNC_ID_ZW_REQUEST_PROTOCOL_CC_ENCRYPTION \<equiv> 0x6C"
abbreviation (input) FUNC_ID_GET_ROUTING_TABLE_LINE :: u8 where "FUNC_ID_GET_ROUTING_TABLE_LINE \<equiv> 0x80"
abbreviation (input) FUNC_ID_LOCK_ROUTE_RESPONSE :: u8 where "FUNC_ID_LOCK_ROUTE_RESPONSE \<equiv> 0x90"
abbreviation (input) FUNC_ID_ZW_GET_LAST_WORKING_ROUTE :: u8 where "FUNC_ID_ZW_GET_LAST_WORKING_ROUTE \<equiv> 0x92"
abbreviation (input) FUNC_ID_ZW_SET_LAST_WORKING_ROUTE :: u8 where "FUNC_ID_ZW_SET_LAST_WORKING_ROUTE \<equiv> 0x93"
abbreviation (input) FUNC_ID_ZW_SET_SLAVE_LEARN_MODE :: u8 where "FUNC_ID_ZW_SET_SLAVE_LEARN_MODE \<equiv> 0xA4"
abbreviation (input) FUNC_ID_ZW_GET_VIRTUAL_NODES :: u8 where "FUNC_ID_ZW_GET_VIRTUAL_NODES \<equiv> 0xA5"
abbreviation (input) FUNC_ID_APPLICATION_COMMAND_HANDLER_BRIDGE :: u8 where "FUNC_ID_APPLICATION_COMMAND_HANDLER_BRIDGE \<equiv> 0xA8"
abbreviation (input) FUNC_ID_ZW_SEND_DATA_BRIDGE :: u8 where "FUNC_ID_ZW_SEND_DATA_BRIDGE \<equiv> 0xA9"
abbreviation (input) FUNC_ID_ZW_SEND_DATA_MULTI_BRIDGE :: u8 where "FUNC_ID_ZW_SEND_DATA_MULTI_BRIDGE \<equiv> 0xAB"
abbreviation (input) FUNC_ID_ZW_SEND_PROTOCOL_DATA :: u8 where "FUNC_ID_ZW_SEND_PROTOCOL_DATA \<equiv> 0xAC"
abbreviation (input) FUNC_ID_ZW_WATCHDOG_ENABLE :: u8 where "FUNC_ID_ZW_WATCHDOG_ENABLE \<equiv> 0xB6"
abbreviation (input) FUNC_ID_ZW_WATCHDOG_DISABLE :: u8 where "FUNC_ID_ZW_WATCHDOG_DISABLE \<equiv> 0xB7"
abbreviation (input) FUNC_ID_ZW_RF_POWER_LEVEL_GET :: u8 where "FUNC_ID_ZW_RF_POWER_LEVEL_GET \<equiv> 0xBA"
abbreviation (input) FUNC_ID_ZW_TYPE_LIBRARY :: u8 where "FUNC_ID_ZW_TYPE_LIBRARY \<equiv> 0xBD"
abbreviation (input) FUNC_ID_ZW_SEND_TEST_FRAME :: u8 where "FUNC_ID_ZW_SEND_TEST_FRAME \<equiv> 0xBE"
abbreviation (input) FUNC_ID_ZW_GET_PROTOCOL_STATUS :: u8 where "FUNC_ID_ZW_GET_PROTOCOL_STATUS \<equiv> 0xBF"
abbreviation (input) FUNC_ID_ZW_GET_NLS_NODES :: u8 where "FUNC_ID_ZW_GET_NLS_NODES \<equiv> 0xC0"
abbreviation (input) FUNC_ID_PROMISCUOUS_APPLICATION_COMMAND_HANDLER :: u8 where "FUNC_ID_PROMISCUOUS_APPLICATION_COMMAND_HANDLER \<equiv> 0xD1"
abbreviation (input) FUNC_ID_ZW_WATCHDOG_START :: u8 where "FUNC_ID_ZW_WATCHDOG_START \<equiv> 0xD2"
abbreviation (input) FUNC_ID_ZW_SET_ROUTING_MAX :: u8 where "FUNC_ID_ZW_SET_ROUTING_MAX \<equiv> 0xD4"
abbreviation (input) FUNC_ID_SERIAL_API_GET_LR_NODES :: u8 where "FUNC_ID_SERIAL_API_GET_LR_NODES \<equiv> 0xDA"
abbreviation (input) FUNC_ID_GET_LR_CHANNEL :: u8 where "FUNC_ID_GET_LR_CHANNEL \<equiv> 0xDB"
abbreviation (input) FUNC_ID_SET_LR_CHANNEL :: u8 where "FUNC_ID_SET_LR_CHANNEL \<equiv> 0xDC"
abbreviation (input) FUNC_ID_ENABLE_RADIO_PTI :: u8 where "FUNC_ID_ENABLE_RADIO_PTI \<equiv> 0xE7"
abbreviation (input) FUNC_ID_GET_RADIO_PTI :: u8 where "FUNC_ID_GET_RADIO_PTI \<equiv> 0xE8"
abbreviation (input) FUNC_ID_SEND_NOP :: u8 where "FUNC_ID_SEND_NOP \<equiv> 0xE9"

end
