(* ===== verification/Zwapi_Core.thy ===== *)
theory Zwapi_Core
  imports Node_Mask C_Memory Serial_Timestamp Zwapi_Func_Ids
begin

text \<open>
  The state of the Z-Wave API (\<^verbatim>\<open>zwapi_init.c\<close>, the static variables of the
  \<^verbatim>\<open>zwapi_protocol_*.c\<close> files), how a command is put together in a request buffer
  (\<^verbatim>\<open>zwapi_utils.c\<close>), sent, and its response read. The session below is a record of
  its functions, the link. \<open>None\<close> stands for undefined behaviour, an access outside
  an array, and for a call of the session that does not return.
\<close>

section \<open>The session below\<close>

record 'm zwapi_link =
  lk_send_frame :: "u8 \<Rightarrow> u8 list \<Rightarrow> u8 \<Rightarrow> 'm \<Rightarrow> (sl_status \<times> 'm) option"
  lk_send_frame_with_response :: "u8 \<Rightarrow> u8 list \<Rightarrow> u8 \<Rightarrow> 'm \<Rightarrow> (sl_status \<times> u8 list option \<times> 'm) option"
  lk_send_frame_no_ack :: "u8 \<Rightarrow> u8 list \<Rightarrow> u8 \<Rightarrow> 'm \<Rightarrow> (sl_status \<times> 'm) option"
  lk_enqueue_rx_frames :: "'m \<Rightarrow> 'm option"
  lk_dequeue_frame :: "'m \<Rightarrow> u8 list option \<times> bool \<times> 'm"
  lk_flush_queue :: "'m \<Rightarrow> 'm"
  lk_restart :: "'m \<Rightarrow> (int \<times> 'm) option"
  lk_notify_connection_lost :: "'m \<Rightarrow> 'm option"
  lk_clock :: "'m \<Rightarrow> timespec \<times> 'm"

section \<open>State\<close>

abbreviation (input) REQUEST_BUFFER_SIZE :: nat where "REQUEST_BUFFER_SIZE \<equiv> 180"
abbreviation (input) FRAME_LENGTH_MAX :: nat where "FRAME_LENGTH_MAX \<equiv> 255"
abbreviation (input) ZWAPI_MAXIMUM_BITMASK_LENGTH :: nat where "ZWAPI_MAXIMUM_BITMASK_LENGTH \<equiv> 31"
abbreviation (input) IDX_TYPE :: nat where "IDX_TYPE \<equiv> 1"
abbreviation (input) IDX_CMD :: nat where "IDX_CMD \<equiv> 2"
abbreviation (input) IDX_DATA :: nat where "IDX_DATA \<equiv> 3"
abbreviation (input) ZW_COMMAND_RETURN_VALUE_TRUE :: u8 where "ZW_COMMAND_RETURN_VALUE_TRUE \<equiv> 1"
abbreviation (input) SL_STATUS_INVALID_RANGE :: sl_status where "SL_STATUS_INVALID_RANGE \<equiv> 0x0028"
abbreviation (input) SL_STATUS_NULL_POINTER :: sl_status where "SL_STATUS_NULL_POINTER \<equiv> 0x0022"

text \<open>The function pointers that the module's callbacks are dispatched to; 0 is \<^verbatim>\<open>NULL\<close>.\<close>

datatype zwapi_callback =
  Cb_send_data | Cb_send_nop | Cb_send_data_multi | Cb_send_test_frame | Cb_send_data_bridge | Cb_send_data_multi_bridge
| Cb_send_node_information | Cb_memory_put_buffer | Cb_set_default | Cb_create_new_primary_ctrl | Cb_remove_node_from_network
| Cb_add_node_to_network | Cb_transfer_primary_ctrl_role | Cb_send_controller_replication | Cb_assign_return_route
| Cb_assign_suc_return_route | Cb_delete_suc_return_route | Cb_delete_return_route | Cb_set_learn_mode
| Cb_set_virtual_node_to_learn_mode | Cb_request_neighbor_update | Cb_set_suc_node_id | Cb_request_network_update
| Cb_remove_failed_node | Cb_replace_failed_node

datatype node_id_basetype = NODEID_8BITS | NODEID_16BITS

fun basetype_number :: "node_id_basetype \<Rightarrow> u8" where
  "basetype_number NODEID_8BITS = 1"
| "basetype_number NODEID_16BITS = 2"

record zwapi_chip_data =
  chip_type :: u8
  chip_revision :: u8
  version_major :: u8
  version_minor :: u8
  library_type :: u8
  manufacturer_id :: u16
  product_type :: u16
  product_id :: u16
  supported_bitmask :: "u8 list"
  supported_setup_bitmask :: "u8 list"
  rf_region :: u8
  capability_flag :: u8
  chip_node_list :: nodemask

record zwapi_protocol_version =
  pv_type :: u8
  pv_major :: u8
  pv_minor :: u8
  pv_revision :: u8
  pv_build_number :: u16
  pv_git_commit :: "u8 list"

record zwapi_tx_report =
  transmit_ticks :: u16
  number_of_repeaters :: u8
  ack_rssi :: u8
  rssi_incoming :: "u8 list"
  ack_channel_number :: u8
  tx_channel_number :: u8
  route_scheme_state :: u8
  last_route_repeaters :: "u8 list"
  beam_250ms :: bool
  beam_1000ms :: bool
  last_route_speed :: u8
  routing_attempts :: u8
  last_failed_link_from :: u8
  last_failed_link_to :: u8
  report_tx_power :: u8
  measured_noise_floor :: u8
  destination_ack_mpdu_tx_power :: u8
  destination_ack_mpdu_measured_rssi :: u8
  destination_ack_mpdu_measured_noise_floor :: u8

text \<open>The learn information; its command is the local command buffer, or \<^verbatim>\<open>NULL\<close>.\<close>

record LEARN_INFO =
  bStatus :: u8
  bSource :: node_id
  bLen :: u8
  pCmd_set :: bool

text \<open>The callbacks registered by the application; 0 is \<^verbatim>\<open>NULL\<close>.\<close>

record zwapi_callbacks =
  application_command_handler :: nat
  application_controller_update :: nat
  application_command_handler_bridge :: nat
  protocol_cc_encryption_request :: nat
  zwapi_started :: nat

datatype zw_output =
  Call_void zwapi_callback nat
| Call_status zwapi_callback nat u8
| Call_report zwapi_callback nat u8 "zwapi_tx_report option"
| Call_learn zwapi_callback nat u8 node_id "u8 list option" u8
| Call_learn_virtual nat u8 node_id node_id
| Command_handler nat u8 node_id node_id "u8 list" u8
| Controller_update nat u8 node_id "u8 list option" u8 u32
| Cc_encryption_request nat node_id "u8 list" "u8 list" u8 u8
| Api_started nat "u8 list"

record 'm zw =
  zw_m :: 'm
  zw_callback :: "zwapi_callback \<Rightarrow> nat"
  zw_handlers :: "zwapi_callbacks option"
  chip :: zwapi_chip_data
  protocol_version :: zwapi_protocol_version
  awaiting_zwave_api_started :: bool
  node_id_basetype_setting :: node_id_basetype
  rf_region_cache_valid :: bool
  rf_region_cache :: u8
  learnNodeInfo :: LEARN_INFO
  zwapi_command_buffer :: "u8 list"
  put_buffer_called :: bool
  zw_out :: "zw_output list"

definition zw_emit :: "zw_output \<Rightarrow> 'm zw \<Rightarrow> 'm zw" where
  "zw_emit x z = z\<lparr>zw_out := zw_out z @ [x]\<rparr>"

definition set_callback :: "zwapi_callback \<Rightarrow> nat \<Rightarrow> 'm zw \<Rightarrow> 'm zw" where
  "set_callback c f z = z\<lparr>zw_callback := (zw_callback z)(c := f)\<rparr>"

definition zwave_api_protocol_init_callbacks :: "'m zw \<Rightarrow> 'm zw" where
  "zwave_api_protocol_init_callbacks z = z\<lparr>zw_callback := \<lambda>c. 0\<rparr>"

section \<open>Requests\<close>

text \<open>The buffer of a request and the index of its next byte.\<close>

type_synonym request = "u8 list \<times> u8"

definition new_request :: request where
  "new_request = (replicate REQUEST_BUFFER_SIZE 0, 0)"

definition no_request :: request where
  "no_request = ([], 0)"

definition put :: "u8 \<Rightarrow> request \<Rightarrow> request option" where
  "put v r = (case r of (buf, index) \<Rightarrow> do { buf \<leftarrow> write_cell buf (unat index) v; Some (buf, index + 1) })"

fun put_all :: "u8 list \<Rightarrow> request \<Rightarrow> request option" where
  "put_all [] r = Some r"
| "put_all (v # vs) r = do { r \<leftarrow> put v r; put_all vs r }"

text \<open>A \<^verbatim>\<open>memcpy\<close> to the next free place.\<close>

definition put_block :: "u8 list \<Rightarrow> request \<Rightarrow> request option" where
  "put_block data r =
     (case r of (buf, index) \<Rightarrow> do {
        buf \<leftarrow> write_bytes buf (unat index) data (length data);
        Some (buf, index + of_nat (length data))
      })"

definition high_byte :: "u16 \<Rightarrow> u8" where
  "high_byte v = ucast (drop_bit 8 v)"

definition low_byte :: "u16 \<Rightarrow> u8" where
  "low_byte v = ucast (v AND 0xFF)"

definition zwapi_write_node_id :: "'m zw \<Rightarrow> node_id \<Rightarrow> request \<Rightarrow> request option" where
  "zwapi_write_node_id z node r = do {
     r \<leftarrow> (if node_id_basetype_setting z = NODEID_16BITS then put (high_byte node) r else Some r);
     put (low_byte node) r
   }"

definition zwapi_read_node_id :: "'m zw \<Rightarrow> u8 list \<Rightarrow> u8 \<Rightarrow> (node_id \<times> u8) option" where
  "zwapi_read_node_id z pData index = do {
     (node, index) \<leftarrow>
       (if node_id_basetype_setting z = NODEID_16BITS
        then do { b \<leftarrow> read_cell pData (unat index); Some (push_bit 8 (ucast b), index + 1) }
        else Some (0, index));
     b \<leftarrow> read_cell pData (unat index);
     Some (node OR ucast b, index + 1)
   }"

section \<open>Sending\<close>

definition zwapi_support_command_func :: "u8 \<Rightarrow> 'm zw \<Rightarrow> bool option" where
  "zwapi_support_command_func func_id z =
     (if func_id = FUNC_ID_SERIAL_API_GET_CAPABILITIES then Some True
      else if func_id = 0 then None
      else do {
        b \<leftarrow> read_cell (supported_bitmask (chip z)) ((unat func_id - 1) div 8);
        Some (b AND push_bit ((unat func_id - 1) mod 8) 1 \<noteq> 0)
      })"

definition zwapi_support_setup_func :: "u16 \<Rightarrow> 'm zw \<Rightarrow> bool option" where
  "zwapi_support_setup_func cmd z =
     (if cmd = 0 then Some False
      else if cmd AND (cmd - 1) = 0
      then do { b \<leftarrow> read_cell (supported_setup_bitmask (chip z)) 0; Some (cmd AND ucast b \<noteq> 0) }
      else let byte_index = 1 + (unat cmd - 1) div 8
           in if byte_index \<ge> ZWAPI_MAXIMUM_BITMASK_LENGTH then Some False
              else do {
                b \<leftarrow> read_cell (supported_setup_bitmask (chip z)) byte_index;
                Some (b AND push_bit ((unat cmd - 1) mod 8) 1 \<noteq> 0)
              })"

text \<open>The calls of the session, with the response copied into a buffer that is zero before.\<close>

definition call_session_send_frame :: "'m zwapi_link \<Rightarrow> u8 \<Rightarrow> request \<Rightarrow> 'm zw \<Rightarrow> (sl_status \<times> 'm zw) option" where
  "call_session_send_frame lk command r z = do {
     (st, m) \<leftarrow> lk_send_frame lk command (fst r) (snd r) (zw_m z);
     Some (st, z\<lparr>zw_m := m\<rparr>)
   }"

definition copy_response :: "u8 list \<Rightarrow> u8 list option \<Rightarrow> (u8 list \<times> nat) option" where
  "copy_response buf response =
     (case response of
        None \<Rightarrow> Some (buf, 0)
      | Some frame \<Rightarrow> do { buf \<leftarrow> write_bytes buf 0 frame (length frame); Some (buf, length frame) })"

definition call_session_send_frame_with_response ::
  "'m zwapi_link \<Rightarrow> u8 \<Rightarrow> request \<Rightarrow> u8 list \<Rightarrow> 'm zw \<Rightarrow> (sl_status \<times> u8 list \<times> nat \<times> 'm zw) option" where
  "call_session_send_frame_with_response lk command r response_buffer z = do {
     (st, response, m) \<leftarrow> lk_send_frame_with_response lk command (fst r) (snd r) (zw_m z);
     (response_buffer, response_length) \<leftarrow> copy_response response_buffer response;
     Some (st, response_buffer, response_length, z\<lparr>zw_m := m\<rparr>)
   }"

definition zwapi_send_command :: "'m zwapi_link \<Rightarrow> u8 \<Rightarrow> request \<Rightarrow> 'm zw \<Rightarrow> (sl_status \<times> 'm zw) option" where
  "zwapi_send_command lk command r z = do {
     supported \<leftarrow> zwapi_support_command_func command z;
     if \<not> supported then Some (SL_STATUS_NOT_SUPPORTED, z) else call_session_send_frame lk command r z
   }"

definition zero_response :: "u8 list" where
  "zero_response = replicate FRAME_LENGTH_MAX 0"

definition zwapi_send_command_with_response ::
  "'m zwapi_link \<Rightarrow> u8 \<Rightarrow> request \<Rightarrow> 'm zw \<Rightarrow> (sl_status \<times> u8 list \<times> nat \<times> 'm zw) option" where
  "zwapi_send_command_with_response lk command r z = do {
     supported \<leftarrow> zwapi_support_command_func command z;
     if \<not> supported then Some (SL_STATUS_NOT_SUPPORTED, zero_response, 0, z)
     else call_session_send_frame_with_response lk command r zero_response z
   }"

definition zwapi_send_command_no_ack :: "'m zwapi_link \<Rightarrow> u8 \<Rightarrow> request \<Rightarrow> 'm zw \<Rightarrow> (sl_status \<times> 'm zw) option" where
  "zwapi_send_command_no_ack lk command r z = do {
     supported \<leftarrow> zwapi_support_command_func command z;
     if \<not> supported then Some (SL_STATUS_NOT_SUPPORTED, z)
     else do {
       (st, m) \<leftarrow> lk_send_frame_no_ack lk command (fst r) (snd r) (zw_m z);
       Some (st, z\<lparr>zw_m := m\<rparr>)
     }
   }"

text \<open>A response with at least one data byte, and one that says that the command was accepted.\<close>

definition answered :: "sl_status \<Rightarrow> nat \<Rightarrow> bool" where
  "answered st response_length \<longleftrightarrow> st = SL_STATUS_OK \<and> response_length > IDX_DATA"

definition accepted :: "sl_status \<Rightarrow> u8 list \<Rightarrow> nat \<Rightarrow> bool" where
  "accepted st response_buffer response_length \<longleftrightarrow> answered st response_length \<and> response_buffer ! IDX_DATA = ZW_COMMAND_RETURN_VALUE_TRUE"

definition ok_if :: "bool \<Rightarrow> sl_status" where
  "ok_if b = (if b then SL_STATUS_OK else SL_STATUS_FAIL)"

text \<open>A command whose response only says whether it was accepted.\<close>

definition send_accepted :: "'m zwapi_link \<Rightarrow> u8 \<Rightarrow> request \<Rightarrow> 'm zw \<Rightarrow> (bool \<times> 'm zw) option" where
  "send_accepted lk command r z = do {
     (st, response_buffer, response_length, z) \<leftarrow> zwapi_send_command_with_response lk command r z;
     Some (accepted st response_buffer response_length, z)
   }"

section \<open>Lemmas on requests\<close>

text \<open>The request with some bytes: what the operations on requests compute with.\<close>

definition built :: "u8 list \<Rightarrow> request" where
  "built bs = (bs @ replicate (REQUEST_BUFFER_SIZE - length bs) 0, of_nat (length bs))"

named_theorems request_simps

lemma new_request_built [request_simps]: "new_request = built []"
  by (simp add: new_request_def built_def)

lemma put_built [request_simps]:
  assumes "length bs \<le> REQUEST_BUFFER_SIZE"
  shows "put v (built bs) = (if length bs < REQUEST_BUFFER_SIZE then Some (built (bs @ [v])) else None)"
proof (cases "length bs < REQUEST_BUFFER_SIZE")
  case True
  have "unat (of_nat (length bs) :: u8) = length bs" using True unfolding unat_of_nat by simp
  moreover have "replicate (REQUEST_BUFFER_SIZE - length bs) (0 :: u8) = 0 # replicate (REQUEST_BUFFER_SIZE - Suc (length bs)) 0"
    using True by (simp add: Suc_diff_Suc flip: replicate_Suc)
  ultimately show ?thesis using True by (simp add: put_def built_def write_cell_def ac_simps)
next
  case False
  then have "length bs = 180" using assms by simp
  then show ?thesis by (simp add: put_def built_def write_cell_def)
qed

lemma put_all_built [request_simps]:
  assumes "length bs \<le> REQUEST_BUFFER_SIZE"
  shows "put_all vs (built bs) = (if length bs + length vs \<le> REQUEST_BUFFER_SIZE then Some (built (bs @ vs)) else None)"
  using assms
proof (induction vs arbitrary: bs)
  case (Cons v vs)
  then show ?case using Cons.IH [of "bs @ [v]"] by (simp add: put_built)
qed simp

lemma put_block_built [request_simps]:
  assumes "length bs \<le> REQUEST_BUFFER_SIZE"
  shows "put_block vs (built bs) = (if length bs + length vs \<le> REQUEST_BUFFER_SIZE then Some (built (bs @ vs)) else None)"
proof -
  have "unat (of_nat (length bs) :: u8) = length bs" using assms unfolding unat_of_nat by simp
  then show ?thesis using assms by (auto simp: put_block_def built_def write_bytes_def)
qed

text \<open>The bytes of a NodeID in a frame.\<close>

definition node_id_bytes :: "node_id_basetype \<Rightarrow> node_id \<Rightarrow> u8 list" where
  "node_id_bytes b node = (case b of NODEID_16BITS \<Rightarrow> [high_byte node, low_byte node] | NODEID_8BITS \<Rightarrow> [low_byte node])"

lemma length_node_id_bytes: "length (node_id_bytes b node) = (case b of NODEID_16BITS \<Rightarrow> 2 | NODEID_8BITS \<Rightarrow> 1)"
  by (simp add: node_id_bytes_def split: node_id_basetype.split)

lemma write_node_id_built [request_simps]:
  assumes "length bs \<le> REQUEST_BUFFER_SIZE"
  shows "zwapi_write_node_id z node (built bs) =
    (if length bs + length (node_id_bytes (node_id_basetype_setting z) node) \<le> REQUEST_BUFFER_SIZE
     then Some (built (bs @ node_id_bytes (node_id_basetype_setting z) node)) else None)"
  using assms by (cases "node_id_basetype_setting z") (auto simp: zwapi_write_node_id_def node_id_bytes_def put_built)

lemma low_byte_ucast: "low_byte n = ucast n"
proof -
  have "n AND 0xFF = take_bit 8 n" using take_bit_eq_mask [of 8 n] by (simp add: mask_eq_exp_minus_1)
  then show ?thesis unfolding low_byte_def by (simp only:) (rule bit_word_eqI, simp add: bit_simps)
qed

lemma bytes_of_node_id: "push_bit 8 (ucast (high_byte n)) OR ucast (low_byte n) = (n :: u16)"
  by (rule bit_word_eqI) (auto simp: high_byte_def low_byte_ucast bit_simps)

lemma low_byte_small: "n < 256 \<Longrightarrow> ucast (low_byte n) = (n :: u16)"
  by (simp add: low_byte_ucast unsigned_ucast_eq take_bit_eq_mod word_less_nat_alt word_unat_eq_iff unat_mod)

lemma read_node_id_written:
  assumes "length pre + length (node_id_bytes (node_id_basetype_setting z) n) < 256"
    and "node_id_basetype_setting z = NODEID_16BITS \<or> n < 256"
  shows "zwapi_read_node_id z (pre @ node_id_bytes (node_id_basetype_setting z) n @ rest) (of_nat (length pre)) =
    Some (n, of_nat (length pre + length (node_id_bytes (node_id_basetype_setting z) n)))"
proof -
  have u: "unat (of_nat k :: u8) = k" if "k < 256" for k using that unfolding unat_of_nat by simp
  have s: "of_nat k + 1 = (of_nat (Suc k) :: u8)" for k by simp
  show ?thesis
    using assms by (cases "node_id_basetype_setting z")
      (auto simp: zwapi_read_node_id_def node_id_bytes_def read_cell_def u s nth_append bytes_of_node_id low_byte_small simp del: of_nat_Suc)
qed

end
