(* ===== verification/Zwapi_Basis.thy ===== *)
theory Zwapi_Basis
  imports Zwapi_Core
begin

text \<open>
  The basic commands of the Z-Wave API (\<^verbatim>\<open>zwapi_protocol_basis.c\<close>, and the node list of
  \<^verbatim>\<open>zwapi_init.c\<close>), one definition per function. An output parameter of the C function
  is a component of the result.
\<close>

section \<open>Support\<close>

abbreviation (input) SERIAL_API_SETUP_CMD_SUPPORTED :: u8 where "SERIAL_API_SETUP_CMD_SUPPORTED \<equiv> 0x01"
abbreviation (input) SERIAL_API_SETUP_CMD_TX_STATUS_REPORT :: u8 where "SERIAL_API_SETUP_CMD_TX_STATUS_REPORT \<equiv> 0x02"
abbreviation (input) SERIAL_API_SETUP_CMD_MAX_LR_TX_PWR_SET :: u8 where "SERIAL_API_SETUP_CMD_MAX_LR_TX_PWR_SET \<equiv> 0x03"
abbreviation (input) SERIAL_API_SETUP_CMD_TX_POWERLEVEL_SET :: u8 where "SERIAL_API_SETUP_CMD_TX_POWERLEVEL_SET \<equiv> 0x04"
abbreviation (input) SERIAL_API_SETUP_CMD_MAX_LR_TX_PWR_GET :: u8 where "SERIAL_API_SETUP_CMD_MAX_LR_TX_PWR_GET \<equiv> 0x05"
abbreviation (input) SERIAL_API_SETUP_CMD_TX_POWERLEVEL_GET :: u8 where "SERIAL_API_SETUP_CMD_TX_POWERLEVEL_GET \<equiv> 0x08"
abbreviation (input) SERIAL_API_SETUP_CMD_MAXIMUM_PAYLOAD_SIZE_GET :: u8 where "SERIAL_API_SETUP_CMD_MAXIMUM_PAYLOAD_SIZE_GET \<equiv> 0x10"
abbreviation (input) SERIAL_API_SETUP_CMD_LR_MAXIMUM_PAYLOAD_SIZE_GET :: u8 where "SERIAL_API_SETUP_CMD_LR_MAXIMUM_PAYLOAD_SIZE_GET \<equiv> 0x11"
abbreviation (input) SERIAL_API_SETUP_CMD_TX_POWERLEVEL_SET_16_BIT :: u8 where "SERIAL_API_SETUP_CMD_TX_POWERLEVEL_SET_16_BIT \<equiv> 0x12"
abbreviation (input) SERIAL_API_SETUP_CMD_RF_REGION_GET :: u8 where "SERIAL_API_SETUP_CMD_RF_REGION_GET \<equiv> 0x20"
abbreviation (input) SERIAL_API_SETUP_CMD_RF_REGION_SET :: u8 where "SERIAL_API_SETUP_CMD_RF_REGION_SET \<equiv> 0x40"
abbreviation (input) SERIAL_API_SETUP_CMD_NODEID_BASETYPE_SET :: u8 where "SERIAL_API_SETUP_CMD_NODEID_BASETYPE_SET \<equiv> 0x80"
abbreviation (input) ZWAVE_RF_REGION_UNDEFINED :: u8 where "ZWAVE_RF_REGION_UNDEFINED \<equiv> 0xFE"
abbreviation (input) NORMAL_POWER :: u8 where "NORMAL_POWER \<equiv> 0"

text \<open>The guard of the setup commands.\<close>

definition setup_supported :: "u8 \<Rightarrow> 'm zw \<Rightarrow> bool option" where
  "setup_supported cmd z = do {
     setup \<leftarrow> zwapi_support_command_func FUNC_ID_SERIAL_API_SETUP z;
     if setup then zwapi_support_setup_func (ucast cmd) z else Some False
   }"

text \<open>A command without parameters, and one with one byte.\<close>

definition request_1 :: "u8 \<Rightarrow> request option" where
  "request_1 v = put v new_request"

definition answer_byte :: "sl_status \<Rightarrow> u8 list \<Rightarrow> nat \<Rightarrow> u8 \<Rightarrow> u8" where
  "answer_byte st response_buffer response_length otherwise_value =
     (if answered st response_length then response_buffer ! IDX_DATA else otherwise_value)"

text \<open>A response to a setup command repeats the command.\<close>

definition setup_answered :: "u8 \<Rightarrow> sl_status \<Rightarrow> u8 list \<Rightarrow> nat \<Rightarrow> bool" where
  "setup_answered cmd st response_buffer response_length \<longleftrightarrow>
     st = SL_STATUS_OK \<and> response_length > IDX_DATA + 1 \<and> response_buffer ! IDX_DATA = cmd"

definition setup_accepted :: "u8 \<Rightarrow> sl_status \<Rightarrow> u8 list \<Rightarrow> nat \<Rightarrow> bool" where
  "setup_accepted cmd st response_buffer response_length \<longleftrightarrow>
     setup_answered cmd st response_buffer response_length \<and> response_buffer ! (IDX_DATA + 1) = ZW_COMMAND_RETURN_VALUE_TRUE"

section \<open>Module and radio\<close>

definition zwapi_soft_reset :: "'m zwapi_link \<Rightarrow> 'm zw \<Rightarrow> (sl_status \<times> 'm zw) option" where
  "zwapi_soft_reset lk z = do {
     (st, z) \<leftarrow> zwapi_send_command lk FUNC_ID_SERIAL_API_SOFT_RESET no_request
                (z\<lparr>rf_region_cache_valid := False, rf_region_cache := ZWAVE_RF_REGION_UNDEFINED\<rparr>);
     Some (st, if st = SL_STATUS_OK then z\<lparr>awaiting_zwave_api_started := True, node_id_basetype_setting := NODEID_8BITS\<rparr> else z)
   }"

definition zwapi_get_zw_protocol_status :: "'m zwapi_link \<Rightarrow> 'm zw \<Rightarrow> (u8 \<times> 'm zw) option" where
  "zwapi_get_zw_protocol_status lk z = do {
     (st, buf, len, z) \<leftarrow> zwapi_send_command_with_response lk FUNC_ID_ZW_GET_PROTOCOL_STATUS no_request z;
     Some (answer_byte st buf len 0, z)
   }"

definition zwapi_get_zw_library_type :: "'m zwapi_link \<Rightarrow> 'm zw \<Rightarrow> (u8 \<times> 'm zw) option" where
  "zwapi_get_zw_library_type lk z = do {
     (st, buf, len, z) \<leftarrow> zwapi_send_command_with_response lk FUNC_ID_ZW_TYPE_LIBRARY no_request z;
     Some (answer_byte st buf len 0, z)
   }"

text \<open>\<open>pBuf\<close> is the buffer of the caller, to which the whole response is copied.\<close>

definition zwapi_get_zw_library_version :: "'m zwapi_link \<Rightarrow> u8 list \<Rightarrow> 'm zw \<Rightarrow> (u8 \<times> u8 list \<times> 'm zw) option" where
  "zwapi_get_zw_library_version lk pBuf z = do {
     (st, buf, len, z) \<leftarrow> zwapi_send_command_with_response lk FUNC_ID_ZW_GET_VERSION no_request z;
     if st = SL_STATUS_OK \<and> len > IDX_DATA + 12
     then do { pBuf \<leftarrow> write_bytes pBuf 0 buf len; Some (buf ! (IDX_DATA + 12), pBuf, z) }
     else Some (0, pBuf, z)
   }"

definition zwapi_set_rf_receive_mode :: "'m zwapi_link \<Rightarrow> u8 \<Rightarrow> 'm zw \<Rightarrow> (sl_status \<times> 'm zw) option" where
  "zwapi_set_rf_receive_mode lk mode z = do {
     r \<leftarrow> request_1 mode;
     (b, z) \<leftarrow> send_accepted lk FUNC_ID_ZW_SET_RF_RECEIVE_MODE r z;
     Some (ok_if b, z)
   }"

definition zwapi_set_rf_power_level :: "'m zwapi_link \<Rightarrow> u8 \<Rightarrow> 'm zw \<Rightarrow> (u8 \<times> 'm zw) option" where
  "zwapi_set_rf_power_level lk power_level z = do {
     r \<leftarrow> request_1 power_level;
     (st, buf, len, z) \<leftarrow> zwapi_send_command_with_response lk FUNC_ID_ZW_RF_POWER_LEVEL_SET r z;
     Some (answer_byte st buf len NORMAL_POWER, z)
   }"

definition zwapi_get_rf_power_level :: "'m zwapi_link \<Rightarrow> 'm zw \<Rightarrow> (u8 \<times> 'm zw) option" where
  "zwapi_get_rf_power_level lk z = do {
     (st, buf, len, z) \<leftarrow> zwapi_send_command_with_response lk FUNC_ID_ZW_RF_POWER_LEVEL_GET no_request z;
     Some (answer_byte st buf len NORMAL_POWER, z)
   }"

text \<open>The request is an array of three bytes, of which the first is zero.\<close>

definition zwapi_set_tx_status_reporting :: "'m zwapi_link \<Rightarrow> bool \<Rightarrow> 'm zw \<Rightarrow> (sl_status \<times> 'm zw) option" where
  "zwapi_set_tx_status_reporting lk enable z = do {
     supported \<leftarrow> setup_supported SERIAL_API_SETUP_CMD_TX_STATUS_REPORT z;
     if \<not> supported then Some (SL_STATUS_NOT_SUPPORTED, z)
     else do {
       (st, buf, len, z) \<leftarrow> call_session_send_frame_with_response lk FUNC_ID_SERIAL_API_SETUP
          ([0, SERIAL_API_SETUP_CMD_TX_STATUS_REPORT, if enable then 1 else 0], 3) zero_response z;
       Some (st, z)
     }
   }"

definition zwapi_set_max_lr_tx_power_level :: "'m zwapi_link \<Rightarrow> u16 \<Rightarrow> 'm zw \<Rightarrow> (sl_status \<times> 'm zw) option" where
  "zwapi_set_max_lr_tx_power_level lk level z = do {
     supported \<leftarrow> setup_supported SERIAL_API_SETUP_CMD_MAX_LR_TX_PWR_SET z;
     if \<not> supported then Some (SL_STATUS_NOT_SUPPORTED, z)
     else do {
       r \<leftarrow> put SERIAL_API_SETUP_CMD_MAX_LR_TX_PWR_SET new_request;
       r \<leftarrow> put (high_byte level) r;
       r \<leftarrow> put (low_byte level) r;
       (st, buf, len, z) \<leftarrow> zwapi_send_command_with_response lk FUNC_ID_SERIAL_API_SETUP r z;
       Some (ok_if (setup_accepted SERIAL_API_SETUP_CMD_MAX_LR_TX_PWR_SET st buf len), z)
     }
   }"

text \<open>Power levels are signed 16-bit numbers.\<close>

definition fits_int8 :: "u16 \<Rightarrow> bool" where
  "fits_int8 v \<longleftrightarrow> - 128 \<le> sint v \<and> sint v \<le> 127"

definition zwapi_set_tx_power_level :: "'m zwapi_link \<Rightarrow> u16 \<Rightarrow> u16 \<Rightarrow> 'm zw \<Rightarrow> (sl_status \<times> 'm zw) option" where
  "zwapi_set_tx_power_level lk normal measured0dBm z = do {
     setup \<leftarrow> zwapi_support_command_func FUNC_ID_SERIAL_API_SETUP z;
     if \<not> setup then Some (SL_STATUS_NOT_SUPPORTED, z)
     else do {
       wide \<leftarrow> zwapi_support_setup_func (ucast SERIAL_API_SETUP_CMD_TX_POWERLEVEL_SET_16_BIT) z;
       if wide
       then do {
         r \<leftarrow> put SERIAL_API_SETUP_CMD_TX_POWERLEVEL_SET_16_BIT new_request;
         r \<leftarrow> put (high_byte normal) r;
         r \<leftarrow> put (low_byte normal) r;
         r \<leftarrow> put (high_byte measured0dBm) r;
         r \<leftarrow> put (low_byte measured0dBm) r;
         (st, buf, len, z) \<leftarrow> zwapi_send_command_with_response lk FUNC_ID_SERIAL_API_SETUP r z;
         Some (ok_if (setup_accepted SERIAL_API_SETUP_CMD_TX_POWERLEVEL_SET_16_BIT st buf len), z)
       }
       else do {
         narrow \<leftarrow> zwapi_support_setup_func (ucast SERIAL_API_SETUP_CMD_TX_POWERLEVEL_SET) z;
         if \<not> narrow then Some (SL_STATUS_NOT_SUPPORTED, z)
         else if \<not> fits_int8 normal \<or> \<not> fits_int8 measured0dBm then Some (SL_STATUS_INVALID_RANGE, z)
         else do {
           r \<leftarrow> put SERIAL_API_SETUP_CMD_TX_POWERLEVEL_SET new_request;
           r \<leftarrow> put (ucast normal) r;
           r \<leftarrow> put (ucast measured0dBm) r;
           (st, buf, len, z) \<leftarrow> zwapi_send_command_with_response lk FUNC_ID_SERIAL_API_SETUP r z;
           Some (ok_if (setup_accepted SERIAL_API_SETUP_CMD_TX_POWERLEVEL_SET st buf len), z)
         }
       }
     }
   }"

definition zwapi_get_max_lr_tx_power_level :: "'m zwapi_link \<Rightarrow> 'm zw \<Rightarrow> (u16 \<times> 'm zw) option" where
  "zwapi_get_max_lr_tx_power_level lk z = do {
     supported \<leftarrow> setup_supported SERIAL_API_SETUP_CMD_MAX_LR_TX_PWR_GET z;
     if \<not> supported then Some (0, z)
     else do {
       r \<leftarrow> request_1 SERIAL_API_SETUP_CMD_MAX_LR_TX_PWR_GET;
       (st, buf, len, z) \<leftarrow> zwapi_send_command_with_response lk FUNC_ID_SERIAL_API_SETUP r z;
       Some (if st = SL_STATUS_OK \<and> len > IDX_DATA + 2
             then let level = push_bit 8 (ucast (buf ! (IDX_DATA + 1))) in level OR (level + ucast (buf ! (IDX_DATA + 2)))
             else 0, z)
     }
   }"

definition zwapi_get_tx_power_level :: "'m zwapi_link \<Rightarrow> 'm zw \<Rightarrow> ((u16 \<times> u16) \<times> 'm zw) option" where
  "zwapi_get_tx_power_level lk z = do {
     supported \<leftarrow> setup_supported SERIAL_API_SETUP_CMD_TX_POWERLEVEL_GET z;
     if \<not> supported then Some ((0, 0), z)
     else do {
       r \<leftarrow> request_1 SERIAL_API_SETUP_CMD_TX_POWERLEVEL_GET;
       (st, buf, len, z) \<leftarrow> zwapi_send_command_with_response lk FUNC_ID_SERIAL_API_SETUP r z;
       Some ((if st = SL_STATUS_OK \<and> len > IDX_DATA + 1 then scast (buf ! (IDX_DATA + 1)) else 0,
              if st = SL_STATUS_OK \<and> len > IDX_DATA + 2 then scast (buf ! (IDX_DATA + 2)) else 0), z)
     }
   }"

definition zwapi_is_pti_supported :: "'m zw \<Rightarrow> bool option" where
  "zwapi_is_pti_supported z = do {
     enable \<leftarrow> zwapi_support_command_func FUNC_ID_ENABLE_RADIO_PTI z;
     if \<not> enable then Some False else zwapi_support_command_func FUNC_ID_GET_RADIO_PTI z
   }"

definition zwapi_is_pti_enabled :: "'m zwapi_link \<Rightarrow> 'm zw \<Rightarrow> (bool \<times> 'm zw) option" where
  "zwapi_is_pti_enabled lk z = do {
     supported \<leftarrow> zwapi_is_pti_supported z;
     if \<not> supported then Some (False, z)
     else do {
       (st, buf, len, z) \<leftarrow> zwapi_send_command_with_response lk FUNC_ID_GET_RADIO_PTI no_request z;
       Some (st = SL_STATUS_OK \<and> len = IDX_DATA + 1 \<and> buf ! IDX_DATA = ZW_COMMAND_RETURN_VALUE_TRUE, z)
     }
   }"

definition zwapi_set_radio_pti :: "'m zwapi_link \<Rightarrow> bool \<Rightarrow> 'm zw \<Rightarrow> (sl_status \<times> 'm zw) option" where
  "zwapi_set_radio_pti lk enable z = do {
     supported \<leftarrow> zwapi_is_pti_supported z;
     if \<not> supported then Some (SL_STATUS_NOT_SUPPORTED, z)
     else do {
       r \<leftarrow> request_1 (if enable then 1 else 0);
       (st, buf, len, z) \<leftarrow> zwapi_send_command_with_response lk FUNC_ID_ENABLE_RADIO_PTI r z;
       Some (ok_if (st = SL_STATUS_OK \<and> len = IDX_DATA + 1 \<and> buf ! IDX_DATA = ZW_COMMAND_RETURN_VALUE_TRUE), z)
     }
   }"

definition zwapi_set_rf_region :: "'m zwapi_link \<Rightarrow> u8 \<Rightarrow> 'm zw \<Rightarrow> (sl_status \<times> 'm zw) option" where
  "zwapi_set_rf_region lk rfregion z = do {
     supported \<leftarrow> setup_supported SERIAL_API_SETUP_CMD_RF_REGION_SET z;
     if \<not> supported then Some (SL_STATUS_NOT_SUPPORTED, z)
     else do {
       r \<leftarrow> put SERIAL_API_SETUP_CMD_RF_REGION_SET new_request;
       r \<leftarrow> put rfregion r;
       (st, buf, len, z) \<leftarrow> zwapi_send_command_with_response lk FUNC_ID_SERIAL_API_SETUP r
         (z\<lparr>rf_region_cache_valid := False, rf_region_cache := ZWAVE_RF_REGION_UNDEFINED\<rparr>);
       Some (ok_if (setup_accepted SERIAL_API_SETUP_CMD_RF_REGION_SET st buf len), z)
     }
   }"

definition zwapi_get_rf_region :: "'m zwapi_link \<Rightarrow> 'm zw \<Rightarrow> (u8 \<times> 'm zw) option" where
  "zwapi_get_rf_region lk z =
     (if rf_region_cache_valid z then Some (rf_region_cache z, z)
      else do {
        supported \<leftarrow> zwapi_support_setup_func (ucast SERIAL_API_SETUP_CMD_RF_REGION_GET) z;
        if \<not> supported then Some (ZWAVE_RF_REGION_UNDEFINED, z)
        else do {
          r \<leftarrow> request_1 SERIAL_API_SETUP_CMD_RF_REGION_GET;
          (st, buf, len, z) \<leftarrow> zwapi_send_command_with_response lk FUNC_ID_SERIAL_API_SETUP r z;
          Some (if st = SL_STATUS_OK \<and> len > IDX_DATA + 1
                then (buf ! (IDX_DATA + 1), z\<lparr>rf_region_cache_valid := True, rf_region_cache := buf ! (IDX_DATA + 1)\<rparr>)
                else (ZWAVE_RF_REGION_UNDEFINED, z))
        }
      })"

text \<open>The payload sizes, with the value written to the output parameter.\<close>

definition payload_size_get :: "'m zwapi_link \<Rightarrow> u8 \<Rightarrow> 'm zw \<Rightarrow> (sl_status \<times> u8 option \<times> 'm zw) option" where
  "payload_size_get lk cmd z = do {
     supported \<leftarrow> setup_supported cmd z;
     if \<not> supported then Some (SL_STATUS_NOT_SUPPORTED, None, z)
     else do {
       r \<leftarrow> request_1 cmd;
       (st, buf, len, z) \<leftarrow> zwapi_send_command_with_response lk FUNC_ID_SERIAL_API_SETUP r z;
       Some (if setup_answered cmd st buf len then (SL_STATUS_OK, Some (buf ! (IDX_DATA + 1)), z) else (SL_STATUS_FAIL, None, z))
     }
   }"

definition zwapi_get_maximum_payload_size :: "'m zwapi_link \<Rightarrow> 'm zw \<Rightarrow> (sl_status \<times> u8 option \<times> 'm zw) option" where
  "zwapi_get_maximum_payload_size lk z = payload_size_get lk SERIAL_API_SETUP_CMD_MAXIMUM_PAYLOAD_SIZE_GET z"

definition zwapi_get_lr_maximum_payload_size :: "'m zwapi_link \<Rightarrow> 'm zw \<Rightarrow> (sl_status \<times> u8 option \<times> 'm zw) option" where
  "zwapi_get_lr_maximum_payload_size lk z = payload_size_get lk SERIAL_API_SETUP_CMD_LR_MAXIMUM_PAYLOAD_SIZE_GET z"

definition zwapi_supports_long_range :: "'m zw \<Rightarrow> bool option" where
  "zwapi_supports_long_range z = setup_supported SERIAL_API_SETUP_CMD_NODEID_BASETYPE_SET z"

fun all_supported :: "u8 list \<Rightarrow> 'm zw \<Rightarrow> bool option" where
  "all_supported [] z = Some True"
| "all_supported (f # fs) z = do { b \<leftarrow> zwapi_support_command_func f z; if b then all_supported fs z else Some False }"

definition zwapi_supports_nls :: "'m zw \<Rightarrow> bool option" where
  "zwapi_supports_nls z =
     all_supported [FUNC_ID_ZW_TRANSFER_PROTOCOL_CC, FUNC_ID_ZW_ENABLE_NODE_NLS, FUNC_ID_ZW_GET_NODE_NLS_STATE,
       FUNC_ID_ZW_REQUEST_PROTOCOL_CC_ENCRYPTION, FUNC_ID_ZW_SEND_PROTOCOL_DATA] z"

definition zwapi_set_node_id_basetype :: "'m zwapi_link \<Rightarrow> node_id_basetype \<Rightarrow> 'm zw \<Rightarrow> (sl_status \<times> 'm zw) option" where
  "zwapi_set_node_id_basetype lk basetype z = do {
     supported \<leftarrow> zwapi_supports_long_range z;
     if \<not> supported then Some (SL_STATUS_NOT_SUPPORTED, z)
     else do {
       r \<leftarrow> put SERIAL_API_SETUP_CMD_NODEID_BASETYPE_SET new_request;
       r \<leftarrow> put (basetype_number basetype) r;
       (st, buf, len, z) \<leftarrow> zwapi_send_command_with_response lk FUNC_ID_SERIAL_API_SETUP r z;
       Some (if setup_accepted SERIAL_API_SETUP_CMD_NODEID_BASETYPE_SET st buf len
             then (SL_STATUS_OK, z\<lparr>node_id_basetype_setting := basetype\<rparr>) else (SL_STATUS_FAIL, z))
     }
   }"

section \<open>Frames and random numbers\<close>

text \<open>The function identifier of a request that is called back.\<close>

definition func_id :: "u8 \<Rightarrow> nat \<Rightarrow> u8" where
  "func_id n callback = (if callback = 0 then 0 else n)"

definition zwapi_send_node_information :: "'m zwapi_link \<Rightarrow> node_id \<Rightarrow> u8 \<Rightarrow> nat \<Rightarrow> 'm zw \<Rightarrow> (sl_status \<times> 'm zw) option" where
  "zwapi_send_node_information lk destNode txOptions completedFunc z = do {
     r \<leftarrow> zwapi_write_node_id z destNode new_request;
     r \<leftarrow> put txOptions r;
     r \<leftarrow> put (func_id 0x03 completedFunc) r;
     zwapi_send_command lk FUNC_ID_ZW_SEND_NODE_INFORMATION r (set_callback Cb_send_node_information completedFunc z)
   }"

definition zwapi_send_test_frame :: "'m zwapi_link \<Rightarrow> node_id \<Rightarrow> u8 \<Rightarrow> nat \<Rightarrow> 'm zw \<Rightarrow> (sl_status \<times> 'm zw) option" where
  "zwapi_send_test_frame lk destination_node_id power_level callback z = do {
     let z = set_callback Cb_send_test_frame callback z;
     r \<leftarrow> zwapi_write_node_id z destination_node_id new_request;
     r \<leftarrow> put power_level r;
     r \<leftarrow> put (func_id 4 callback) r;
     (b, z) \<leftarrow> send_accepted lk FUNC_ID_ZW_SEND_TEST_FRAME r z;
     Some (ok_if b, z)
   }"

text \<open>The bytes copied to the caller: the loop stops at the first index that fails its test.\<close>

definition random_bytes :: "u8 list \<Rightarrow> nat \<Rightarrow> u8 \<Rightarrow> u8 list" where
  "random_bytes response_buffer response_length number_of_random_bytes =
     map (\<lambda>i. response_buffer ! (IDX_DATA + i + 2))
       (takeWhile (\<lambda>i. \<not> (i \<ge> unat number_of_random_bytes \<or> response_length < IDX_DATA + i + 2)) [0..<unat (response_buffer ! (IDX_DATA + 1))])"

definition zwapi_get_random_word :: "'m zwapi_link \<Rightarrow> u8 \<Rightarrow> 'm zw \<Rightarrow> (sl_status \<times> u8 list \<times> 'm zw) option" where
  "zwapi_get_random_word lk number_of_random_bytes z = do {
     let n = (if number_of_random_bytes > 32 then 32 else number_of_random_bytes);
     r \<leftarrow> request_1 n;
     (st, buf, len, z) \<leftarrow> zwapi_send_command_with_response lk FUNC_ID_ZW_GET_RANDOM r z;
     Some (if st = SL_STATUS_OK \<and> len > IDX_DATA + 1 \<and> buf ! IDX_DATA = ZW_COMMAND_RETURN_VALUE_TRUE
           then (SL_STATUS_OK, random_bytes buf len n, z) else (SL_STATUS_FAIL, [], z))
   }"

definition zwapi_get_random_byte :: "'m zwapi_link \<Rightarrow> 'm zw \<Rightarrow> (sl_status \<times> u8 option \<times> 'm zw) option" where
  "zwapi_get_random_byte lk z = do {
     (st, buf, len, z) \<leftarrow> zwapi_send_command_with_response lk FUNC_ID_ZW_RANDOM no_request z;
     Some (if answered st len then (SL_STATUS_OK, Some (buf ! IDX_DATA), z) else (SL_STATUS_FAIL, None, z))
   }"

definition zwapi_explore_request_inclusion :: "'m zwapi_link \<Rightarrow> 'm zw \<Rightarrow> (sl_status \<times> 'm zw) option" where
  "zwapi_explore_request_inclusion lk z = do {
     (b, z) \<leftarrow> send_accepted lk FUNC_ID_ZW_EXPLORE_REQUEST_INCLUSION no_request z;
     Some (ok_if b, z)
   }"

definition zwapi_explore_request_exclusion :: "'m zwapi_link \<Rightarrow> 'm zw \<Rightarrow> (sl_status \<times> 'm zw) option" where
  "zwapi_explore_request_exclusion lk z = do {
     (b, z) \<leftarrow> send_accepted lk FUNC_ID_ZW_EXPLORE_REQUEST_EXCLUSION no_request z;
     Some (ok_if b, z)
   }"

definition zwapi_disable_watchdog :: "'m zwapi_link \<Rightarrow> 'm zw \<Rightarrow> (sl_status \<times> 'm zw) option" where
  "zwapi_disable_watchdog lk z = zwapi_send_command lk FUNC_ID_ZW_WATCHDOG_DISABLE no_request z"

definition zwapi_enable_watchdog :: "'m zwapi_link \<Rightarrow> 'm zw \<Rightarrow> (sl_status \<times> 'm zw) option" where
  "zwapi_enable_watchdog lk z = zwapi_send_command lk FUNC_ID_ZW_WATCHDOG_ENABLE no_request z"

definition zwapi_start_watchdog :: "'m zwapi_link \<Rightarrow> 'm zw \<Rightarrow> (sl_status \<times> 'm zw) option" where
  "zwapi_start_watchdog lk z = zwapi_send_command lk FUNC_ID_ZW_WATCHDOG_START no_request z"

definition zwapi_get_background_rssi :: "'m zwapi_link \<Rightarrow> 'm zw \<Rightarrow> (sl_status \<times> u8 list \<times> 'm zw) option" where
  "zwapi_get_background_rssi lk z = do {
     (st, buf, len, z) \<leftarrow> zwapi_send_command_with_response lk FUNC_ID_ZW_GET_BACKGROUND_RSSI no_request z;
     if st = SL_STATUS_OK
     then let number_of_channels = (of_nat len - of_nat IDX_DATA :: u8);
              number_of_channels = (if number_of_channels > 3 then 3 else number_of_channels)
          in Some (SL_STATUS_OK, take (unat number_of_channels) (drop IDX_DATA buf), z)
     else Some (SL_STATUS_FAIL, [], z)
   }"

definition zwapi_set_application_node_information ::
  "'m zwapi_link \<Rightarrow> u8 \<Rightarrow> u8 \<Rightarrow> u8 \<Rightarrow> u8 list \<Rightarrow> 'm zw \<Rightarrow> (sl_status \<times> 'm zw) option" where
  "zwapi_set_application_node_information lk listening generic specific nodeParm z = do {
     r \<leftarrow> put listening new_request;
     r \<leftarrow> put generic r;
     r \<leftarrow> put specific r;
     r \<leftarrow> put (of_nat (length nodeParm)) r;
     r \<leftarrow> put_all nodeParm r;
     zwapi_send_command lk FUNC_ID_SERIAL_API_APPL_NODE_INFORMATION r z
   }"

definition zwapi_enable_auto_program_mode :: "'m zwapi_link \<Rightarrow> 'm zw \<Rightarrow> (sl_status \<times> 'm zw) option" where
  "zwapi_enable_auto_program_mode lk z = zwapi_send_command_no_ack lk FUNC_ID_AUTO_PROGRAMMING no_request z"

section \<open>Node lists\<close>

text \<open>
  The loop of \<^verbatim>\<open>zwapi_get_init_data\<close> that copies the node list: \<open>n\<close> bytes from an index that
  wraps around at 256, to the list if there is one.
\<close>

fun copy_node_list :: "u8 list \<Rightarrow> nat \<Rightarrow> nat \<Rightarrow> u8 \<Rightarrow> nodemask option \<Rightarrow> (u8 \<times> nodemask option) option" where
  "copy_node_list buf i 0 index node_list = Some (index, node_list)"
| "copy_node_list buf i (Suc n) index node_list = do {
     node_list \<leftarrow> (case node_list of
        None \<Rightarrow> Some None
      | Some l \<Rightarrow> do { b \<leftarrow> read_cell buf (unat index); l \<leftarrow> write_cell l i b; Some (Some l) });
     copy_node_list buf (Suc i) n (index + 1) node_list
   }"

record init_data =
  id_ver :: u8
  id_capabilities :: u8
  id_len :: u8
  id_node_list :: "nodemask option"
  id_chip_type :: u8
  id_chip_version :: u8

text \<open>The output parameters that are not \<^verbatim>\<open>NULL\<close> get the components of the result; the two of the chip are read only then.\<close>

definition zwapi_get_init_data ::
  "'m zwapi_link \<Rightarrow> nodemask option \<Rightarrow> bool \<Rightarrow> 'm zw \<Rightarrow> (sl_status \<times> init_data option \<times> 'm zw) option" where
  "zwapi_get_init_data lk node_list want_chip z = do {
     (st, buf, len, z) \<leftarrow> call_session_send_frame_with_response lk FUNC_ID_SERIAL_API_GET_INIT_DATA no_request zero_response z;
     if \<not> answered st len then Some (SL_STATUS_FAIL, None, z)
     else do {
       (index, node_list) \<leftarrow> copy_node_list buf 0 (unat (buf ! (IDX_DATA + 2))) (of_nat (IDX_DATA + 3)) node_list;
       (ty, ver) \<leftarrow> (if want_chip then do { a \<leftarrow> read_cell buf (unat index); b \<leftarrow> read_cell buf (unat (index + 1)); Some (a, b) } else Some (0, 0));
       Some (SL_STATUS_OK, Some \<lparr>id_ver = buf ! IDX_DATA, id_capabilities = buf ! (IDX_DATA + 1), id_len = buf ! (IDX_DATA + 2),
         id_node_list = node_list, id_chip_type = ty, id_chip_version = ver\<rparr>, z)
     }
   }"

definition zwapi_get_node_list :: "'m zwapi_link \<Rightarrow> nodemask \<Rightarrow> 'm zw \<Rightarrow> (sl_status \<times> nodemask \<times> 'm zw) option" where
  "zwapi_get_node_list lk node_list z = do {
     (st, d, z) \<leftarrow> zwapi_get_init_data lk (Some (chip_node_list (chip z))) False z;
     let z = (case d of
         Some d \<Rightarrow> (case id_node_list d of Some l \<Rightarrow> z\<lparr>chip := (chip z)\<lparr>chip_node_list := l\<rparr>\<rparr> | None \<Rightarrow> z)
       | None \<Rightarrow> z);
     Some (st, if st = SL_STATUS_OK then chip_node_list (chip z) else node_list, z)
   }"

text \<open>
  The bytes of one part of a long list, stored from \<open>base + offset\<close> on. The check of the index does
  not count \<open>base\<close>, and lets the length of the mask pass.
\<close>

fun store_nodes :: "nat \<Rightarrow> nat \<Rightarrow> u8 list \<Rightarrow> nat list \<Rightarrow> nodemask \<Rightarrow> (bool \<times> nodemask) option" where
  "store_nodes base offset buf [] l = Some (True, l)"
| "store_nodes base offset buf (i # is) l =
     (if i + offset > ZW_LR_MAX_NODEMASK_LENGTH then Some (False, l)
      else do {
        b \<leftarrow> read_cell buf (IDX_DATA + 3 + i);
        l \<leftarrow> write_cell l (base + i + offset) b;
        store_nodes base offset buf is l
      })"

abbreviation (input) ZW_LR_NODEMASK_OFFSET :: nat where "ZW_LR_NODEMASK_OFFSET \<equiv> 32"

partial_function (option) lr_nodes_loop ::
  "'m zwapi_link \<Rightarrow> u8 \<Rightarrow> u16 \<Rightarrow> nodemask \<Rightarrow> 'm zw \<Rightarrow> (sl_status \<times> u16 \<times> nodemask \<times> 'm zw) option" where
  "lr_nodes_loop lk start_offset number_of_bytes l z =
     Option.bind (request_1 start_offset) (\<lambda>r.
     Option.bind (zwapi_send_command_with_response lk FUNC_ID_SERIAL_API_GET_LR_NODES r z) (\<lambda>(st, buf, len, z).
       if st \<noteq> SL_STATUS_OK then Some (st, number_of_bytes, l, z)
       else Option.bind (store_nodes ZW_LR_NODEMASK_OFFSET (unat (buf ! (IDX_DATA + 1)) * 128) buf [0..<unat (buf ! (IDX_DATA + 2))] l) (\<lambda>(ok, l).
         if \<not> ok then Some (SL_STATUS_FAIL, number_of_bytes + ucast (buf ! (IDX_DATA + 2)), l, z)
         else if buf ! IDX_DATA = 1
         then lr_nodes_loop lk (buf ! (IDX_DATA + 1) + 1) (number_of_bytes + ucast (buf ! (IDX_DATA + 2))) l z
         else Some (st, number_of_bytes + ucast (buf ! (IDX_DATA + 2)), l, z))))"

definition zwapi_get_long_range_nodes :: "'m zwapi_link \<Rightarrow> nodemask \<Rightarrow> 'm zw \<Rightarrow> (sl_status \<times> u16 \<times> nodemask \<times> 'm zw) option" where
  "zwapi_get_long_range_nodes lk lr_node_list z = lr_nodes_loop lk 0 0 lr_node_list z"

definition zwapi_get_full_node_list :: "'m zwapi_link \<Rightarrow> nodemask \<Rightarrow> 'm zw \<Rightarrow> (sl_status \<times> nodemask \<times> 'm zw) option" where
  "zwapi_get_full_node_list lk node_list z = do {
     (st, node_list, z) \<leftarrow> zwapi_get_node_list lk node_list z;
     (st', _, node_list, z) \<leftarrow> zwapi_get_long_range_nodes lk node_list z;
     Some (ok_if (st = SL_STATUS_OK \<or> st' = SL_STATUS_OK), node_list, z)
   }"

definition zwapi_get_long_range_channel :: "'m zwapi_link \<Rightarrow> 'm zw \<Rightarrow> (sl_status \<times> u8 option \<times> 'm zw) option" where
  "zwapi_get_long_range_channel lk z = do {
     (st, buf, len, z) \<leftarrow> zwapi_send_command_with_response lk FUNC_ID_GET_LR_CHANNEL no_request z;
     Some (st, if answered st len then Some (buf ! IDX_DATA) else None, z)
   }"

definition zwapi_set_long_range_channel :: "'m zwapi_link \<Rightarrow> u8 \<Rightarrow> 'm zw \<Rightarrow> (sl_status \<times> 'm zw) option" where
  "zwapi_set_long_range_channel lk lr_channel z = do {
     r \<leftarrow> request_1 lr_channel;
     (st, buf, len, z) \<leftarrow> zwapi_send_command_with_response lk FUNC_ID_SET_LR_CHANNEL r z;
     Some (st, z)
   }"

end
