(* ===== verification/Zwapi_Init.thy ===== *)
theory Zwapi_Init
  imports Zwapi_Basis
begin

text \<open>
  The initialisation of the Z-Wave API (\<^verbatim>\<open>zwapi_init.c\<close>): what the module says about itself is
  read once and kept in \<open>chip\<close> and \<open>protocol_version\<close>.
\<close>

definition zero_chip :: zwapi_chip_data where
  "zero_chip = \<lparr>chip_type = 0, chip_revision = 0, version_major = 0, version_minor = 0, library_type = 0, manufacturer_id = 0,
     product_type = 0, product_id = 0, supported_bitmask = replicate ZWAPI_MAXIMUM_BITMASK_LENGTH 0,
     supported_setup_bitmask = replicate ZWAPI_MAXIMUM_BITMASK_LENGTH 0, rf_region = 0, capability_flag = 0,
     chip_node_list = replicate ZW_LR_MAX_NODEMASK_LENGTH 0\<rparr>"

definition zero_version :: zwapi_protocol_version where
  "zero_version = \<lparr>pv_type = 0, pv_major = 0, pv_minor = 0, pv_revision = 0, pv_build_number = 0, pv_git_commit = replicate 16 0\<rparr>"

definition zwapi_init_local_variables :: "'m zw \<Rightarrow> 'm zw" where
  "zwapi_init_local_variables z = z\<lparr>chip := zero_chip, protocol_version := zero_version, awaiting_zwave_api_started := False\<rparr>"

text \<open>
  The fields that a response of some length fills in. The last comparison is one of unsigned
  numbers, so that it also holds for a length below that of the header.
\<close>

definition version_of :: "u8 list \<Rightarrow> nat \<Rightarrow> zwapi_protocol_version \<Rightarrow> zwapi_protocol_version" where
  "version_of buf len v =
     (let v = (if len \<ge> IDX_DATA + 1 then v\<lparr>pv_type := buf ! IDX_DATA\<rparr> else v);
          v = (if len \<ge> IDX_DATA + 4
               then v\<lparr>pv_revision := buf ! (IDX_DATA + 3), pv_minor := buf ! (IDX_DATA + 2), pv_major := buf ! (IDX_DATA + 1)\<rparr> else v);
          v = (if len \<ge> IDX_DATA + 6
               then v\<lparr>pv_build_number := ucast (buf ! (IDX_DATA + 5)) + push_bit 8 (ucast (buf ! (IDX_DATA + 4)))\<rparr> else v)
      in if len \<ge> IDX_DATA + 6 + 16 \<or> len < IDX_DATA then v\<lparr>pv_git_commit := take 16 (drop (IDX_DATA + 6) buf)\<rparr> else v)"

definition zwapi_refresh_protocol_version :: "'m zwapi_link \<Rightarrow> 'm zw \<Rightarrow> (sl_status \<times> 'm zw) option" where
  "zwapi_refresh_protocol_version lk z = do {
     (st, buf, len, z) \<leftarrow> call_session_send_frame_with_response lk FUNC_ID_ZW_GET_PROTOCOL_VERSION no_request zero_response z;
     Some (st, if st = SL_STATUS_OK then z\<lparr>protocol_version := version_of buf len (protocol_version z)\<rparr> else z)
   }"

text \<open>
  The capabilities: versions, identifiers and the supported commands. The bytes that are copied
  reach one past the response; their number is bounded by the size of the bitmask.
\<close>

definition capabilities_of :: "u8 list \<Rightarrow> nat \<Rightarrow> zwapi_chip_data \<Rightarrow> zwapi_chip_data option" where
  "capabilities_of buf len c = do {
     bitmask \<leftarrow> write_bytes (supported_bitmask c) 0 (drop (IDX_DATA + 8) buf) (min (len - (IDX_DATA + 7)) ZWAPI_MAXIMUM_BITMASK_LENGTH);
     Some (c\<lparr>version_major := buf ! IDX_DATA, version_minor := buf ! (IDX_DATA + 1),
       manufacturer_id := push_bit 8 (ucast (buf ! (IDX_DATA + 2))) OR ucast (buf ! (IDX_DATA + 3)),
       product_type := push_bit 8 (ucast (buf ! (IDX_DATA + 4))) OR ucast (buf ! (IDX_DATA + 5)),
       product_id := push_bit 8 (ucast (buf ! (IDX_DATA + 6))) OR ucast (buf ! (IDX_DATA + 7)),
       supported_bitmask := bitmask\<rparr>)
   }"

text \<open>The supported setup commands; the number of bytes is not compared with the size of the bitmask.\<close>

definition read_setup_bitmask :: "'m zwapi_link \<Rightarrow> u8 list \<Rightarrow> 'm zw \<Rightarrow> (sl_status \<times> u8 list \<times> 'm zw) option" where
  "read_setup_bitmask lk response_buffer z = do {
     setup \<leftarrow> zwapi_support_command_func FUNC_ID_SERIAL_API_SETUP z;
     if \<not> setup then Some (SL_STATUS_OK, response_buffer, z)
     else do {
       r \<leftarrow> request_1 SERIAL_API_SETUP_CMD_SUPPORTED;
       (st, buf, len, z) \<leftarrow> call_session_send_frame_with_response lk FUNC_ID_SERIAL_API_SETUP r response_buffer z;
       if st \<noteq> SL_STATUS_OK then Some (st, buf, z)
       else if len > IDX_DATA + 1 \<and> buf ! IDX_DATA = ZW_COMMAND_RETURN_VALUE_TRUE
       then do {
         bitmask \<leftarrow> write_bytes (supported_setup_bitmask (chip z)) 0 (drop (IDX_DATA + 1) buf) (len - IDX_DATA);
         Some (SL_STATUS_OK, buf, z\<lparr>chip := (chip z)\<lparr>supported_setup_bitmask := bitmask\<rparr>\<rparr>)
       }
       else Some (SL_STATUS_FAIL, buf, z)
     }
   }"

definition read_init_data :: "'m zwapi_link \<Rightarrow> 'm zw \<Rightarrow> (sl_status \<times> 'm zw) option" where
  "read_init_data lk z = do {
     (st, d, z) \<leftarrow> zwapi_get_init_data lk (Some (chip_node_list (chip z))) True z;
     case d of
       None \<Rightarrow> Some (st, z)
     | Some d \<Rightarrow> do {
         let z = z\<lparr>chip := (chip z)\<lparr>capability_flag := id_capabilities d, chip_type := id_chip_type d, chip_revision := id_chip_version d,
           chip_node_list := (case id_node_list d of Some l \<Rightarrow> l | None \<Rightarrow> chip_node_list (chip z))\<rparr>\<rparr>;
         (region, z) \<leftarrow> zwapi_get_rf_region lk z;
         Some (SL_STATUS_OK, z\<lparr>chip := (chip z)\<lparr>rf_region := region\<rparr>\<rparr>)
       }
   }"

definition zwapi_refresh_capabilities :: "'m zwapi_link \<Rightarrow> 'm zw \<Rightarrow> (sl_status \<times> 'm zw) option" where
  "zwapi_refresh_capabilities lk z = do {
     (st, buf, len, z) \<leftarrow> call_session_send_frame_with_response lk FUNC_ID_SERIAL_API_GET_CAPABILITIES no_request zero_response z;
     if st \<noteq> SL_STATUS_OK then Some (st, z)
     else if \<not> (len > IDX_DATA + 7 \<and> len \<le> FRAME_LENGTH_MAX) then Some (SL_STATUS_FAIL, z)
     else do {
       c \<leftarrow> capabilities_of buf len (chip z);
       (st, buf, z) \<leftarrow> read_setup_bitmask lk buf (z\<lparr>chip := c, zw_m := lk_flush_queue lk (zw_m z)\<rparr>);
       if st \<noteq> SL_STATUS_OK then Some (st, z)
       else do {
         (lib, _, z) \<leftarrow> zwapi_get_zw_library_version lk buf z;
         read_init_data lk (z\<lparr>chip := (chip z)\<lparr>library_type := lib\<rparr>\<rparr>)
       }
     }
   }"

text \<open>\<open>fd\<close> is the file descriptor of the session, opened before.\<close>

definition zwapi_init :: "'m zwapi_link \<Rightarrow> int \<Rightarrow> zwapi_callbacks option \<Rightarrow> 'm zw \<Rightarrow> (sl_status \<times> 'm zw) option" where
  "zwapi_init lk fd cbs z =
     (if fd \<le> 0 then Some (SL_STATUS_FAIL, z)
      else do {
        let z = zwave_api_protocol_init_callbacks (zwapi_init_local_variables z);
        let z = (if cbs \<noteq> None then z\<lparr>zw_handlers := cbs\<rparr> else z);
        (st, z) \<leftarrow> zwapi_refresh_protocol_version lk z;
        if st = SL_STATUS_OK then zwapi_refresh_capabilities lk z else Some (st, z)
      })"

definition zwapi_reconnect :: "'m zwapi_link \<Rightarrow> 'm zw \<Rightarrow> (int \<times> 'm zw) option" where
  "zwapi_reconnect lk z = do { (fd, m) \<leftarrow> lk_restart lk (zw_m z); Some (fd, z\<lparr>zw_m := m\<rparr>) }"

definition zwapi_notify_connection_lost :: "'m zwapi_link \<Rightarrow> 'm zw \<Rightarrow> 'm zw option" where
  "zwapi_notify_connection_lost lk z = do { m \<leftarrow> lk_notify_connection_lost lk (zw_m z); Some (z\<lparr>zw_m := m\<rparr>) }"

definition zwapi_get_app_version :: "'m zw \<Rightarrow> u8 \<times> u8" where
  "zwapi_get_app_version z = (version_major (chip z), version_minor (chip z))"

definition zwapi_get_chip_type_version :: "'m zw \<Rightarrow> u8 \<times> u8" where
  "zwapi_get_chip_type_version z = (chip_type (chip z), chip_revision (chip z))"

definition zwapi_get_zwave_lr_channel :: "'m zwapi_link \<Rightarrow> 'm zw \<Rightarrow> (u8 \<times> 'm zw) option" where
  "zwapi_get_zwave_lr_channel lk z = do {
     (st, buf, len, z) \<leftarrow> call_session_send_frame_with_response lk FUNC_ID_GET_LR_CHANNEL no_request zero_response z;
     Some (answer_byte st buf len 0, z)
   }"

definition zwapi_set_zwave_lr_channel :: "'m zwapi_link \<Rightarrow> u8 \<Rightarrow> 'm zw \<Rightarrow> (sl_status \<times> 'm zw) option" where
  "zwapi_set_zwave_lr_channel lk new_channel z = zwapi_send_command lk FUNC_ID_SET_LR_CHANNEL ([new_channel], 1) z"

end
