(* ===== verification/Zwapi_Controller.thy ===== *)
theory Zwapi_Controller
  imports Zwapi_Basis
begin

text \<open>
  The controller commands of the Z-Wave API (\<^verbatim>\<open>zwapi_protocol_controller.c\<close>), one definition
  per function.
\<close>

abbreviation (input) ZW_FAILED_NODE_REMOVE_FAIL :: u8 where "ZW_FAILED_NODE_REMOVE_FAIL \<equiv> 0x20"
abbreviation (input) REMOVE_NODE_STOP :: u8 where "REMOVE_NODE_STOP \<equiv> 5"
abbreviation (input) CONTROLLER_IS_SECONDARY :: u8 where "CONTROLLER_IS_SECONDARY \<equiv> 0x01"
abbreviation (input) ZW_MAX_NODEMASK_LENGTH :: nat where "ZW_MAX_NODEMASK_LENGTH \<equiv> 29"
abbreviation (input) ZWAVE_MAX_FRAME_SIZE :: nat where "ZWAVE_MAX_FRAME_SIZE \<equiv> 158"

section \<open>Nodes and the network\<close>

definition zwapi_request_neighbor_update :: "'m zwapi_link \<Rightarrow> node_id \<Rightarrow> nat \<Rightarrow> 'm zw \<Rightarrow> (sl_status \<times> 'm zw) option" where
  "zwapi_request_neighbor_update lk bNodeID completedFunc z = do {
     r \<leftarrow> zwapi_write_node_id z bNodeID new_request;
     r \<leftarrow> put (func_id 0x03 completedFunc) r;
     zwapi_send_command lk FUNC_ID_ZW_REQUEST_NODE_NEIGHBOR_UPDATE r (set_callback Cb_request_neighbor_update completedFunc z)
   }"

record zwapi_node_info_header =
  nih_capability :: u8
  nih_security :: u8
  nih_reserved :: u8
  nih_basic :: u8
  nih_generic :: u8
  nih_specific :: u8

definition zwapi_get_protocol_info ::
  "'m zwapi_link \<Rightarrow> node_id \<Rightarrow> 'm zw \<Rightarrow> (sl_status \<times> zwapi_node_info_header option \<times> 'm zw) option" where
  "zwapi_get_protocol_info lk bNodeID z = do {
     r \<leftarrow> zwapi_write_node_id z bNodeID new_request;
     (st, buf, len, z) \<leftarrow> zwapi_send_command_with_response lk FUNC_ID_ZW_GET_NODE_PROTOCOL_INFO r z;
     Some (if st = SL_STATUS_OK \<and> len > IDX_DATA + 5
           then (SL_STATUS_OK, Some \<lparr>nih_capability = buf ! IDX_DATA, nih_security = buf ! (IDX_DATA + 1), nih_reserved = buf ! (IDX_DATA + 2),
                   nih_basic = buf ! (IDX_DATA + 3), nih_generic = buf ! (IDX_DATA + 4), nih_specific = buf ! (IDX_DATA + 5)\<rparr>, z)
           else (SL_STATUS_FAIL, None, z))
   }"

text \<open>A node mask of the first 29 bytes of a response, copied over the mask of the caller.\<close>

definition copy_mask :: "sl_status \<Rightarrow> u8 list \<Rightarrow> nat \<Rightarrow> u8 list \<Rightarrow> (sl_status \<times> u8 list) option" where
  "copy_mask st buf len target =
     (if st = SL_STATUS_OK \<and> len \<ge> IDX_DATA + ZW_MAX_NODEMASK_LENGTH
      then do { target \<leftarrow> write_bytes target 0 (drop IDX_DATA buf) ZW_MAX_NODEMASK_LENGTH; Some (SL_STATUS_OK, target) }
      else Some (SL_STATUS_FAIL, target))"

definition zwapi_get_virtual_nodes :: "'m zwapi_link \<Rightarrow> nodemask \<Rightarrow> 'm zw \<Rightarrow> (sl_status \<times> nodemask \<times> 'm zw) option" where
  "zwapi_get_virtual_nodes lk node_mask z = do {
     (st, buf, len, z) \<leftarrow> zwapi_send_command_with_response lk FUNC_ID_ZW_GET_VIRTUAL_NODES no_request z;
     (st, node_mask) \<leftarrow> copy_mask st buf len node_mask;
     Some (st, node_mask, z)
   }"

definition zwapi_set_default :: "'m zwapi_link \<Rightarrow> nat \<Rightarrow> 'm zw \<Rightarrow> (sl_status \<times> 'm zw) option" where
  "zwapi_set_default lk completedFunc z = do {
     r \<leftarrow> put (func_id 0x03 completedFunc) new_request;
     zwapi_send_command lk FUNC_ID_ZW_SET_DEFAULT r (set_callback Cb_set_default completedFunc z)
   }"

text \<open>The commands that take a mode and are called back with learn information.\<close>

definition send_mode :: "'m zwapi_link \<Rightarrow> u8 \<Rightarrow> zwapi_callback \<Rightarrow> u8 \<Rightarrow> nat \<Rightarrow> 'm zw \<Rightarrow> (sl_status \<times> 'm zw) option" where
  "send_mode lk command c bMode completedFunc z = do {
     r \<leftarrow> put bMode new_request;
     r \<leftarrow> put (func_id 0x03 completedFunc) r;
     zwapi_send_command lk command r (set_callback c completedFunc z)
   }"

definition zwapi_transfer_primary_ctrl_role :: "'m zwapi_link \<Rightarrow> u8 \<Rightarrow> nat \<Rightarrow> 'm zw \<Rightarrow> (sl_status \<times> 'm zw) option" where
  "zwapi_transfer_primary_ctrl_role lk = send_mode lk FUNC_ID_ZW_CONTROLLER_CHANGE Cb_transfer_primary_ctrl_role"

definition zwapi_create_new_primary_ctrl :: "'m zwapi_link \<Rightarrow> u8 \<Rightarrow> nat \<Rightarrow> 'm zw \<Rightarrow> (sl_status \<times> 'm zw) option" where
  "zwapi_create_new_primary_ctrl lk = send_mode lk FUNC_ID_ZW_NEW_CONTROLLER Cb_create_new_primary_ctrl"

definition zwapi_add_node_to_network :: "'m zwapi_link \<Rightarrow> u8 \<Rightarrow> nat \<Rightarrow> 'm zw \<Rightarrow> (sl_status \<times> 'm zw) option" where
  "zwapi_add_node_to_network lk = send_mode lk FUNC_ID_ZW_ADD_NODE_TO_NETWORK Cb_add_node_to_network"

definition zwapi_remove_node_from_network :: "'m zwapi_link \<Rightarrow> u8 \<Rightarrow> nat \<Rightarrow> 'm zw \<Rightarrow> (sl_status \<times> 'm zw) option" where
  "zwapi_remove_node_from_network lk = send_mode lk FUNC_ID_ZW_REMOVE_NODE_FROM_NETWORK Cb_remove_node_from_network"

definition zwapi_remove_node_id_from_network ::
  "'m zwapi_link \<Rightarrow> u8 \<Rightarrow> node_id \<Rightarrow> nat \<Rightarrow> 'm zw \<Rightarrow> (sl_status \<times> 'm zw) option" where
  "zwapi_remove_node_id_from_network lk bMode node_id completedFunc z = do {
     r \<leftarrow> put bMode new_request;
     r \<leftarrow> (if bMode \<noteq> REMOVE_NODE_STOP then zwapi_write_node_id z node_id r else Some r);
     r \<leftarrow> put (func_id 0x03 completedFunc) r;
     zwapi_send_command lk FUNC_ID_ZW_REMOVE_NODE_ID_FROM_NETWORK r (set_callback Cb_remove_node_from_network completedFunc z)
   }"

text \<open>The removal and replacement of failed nodes, answered with a byte.\<close>

definition send_failed_node ::
  "'m zwapi_link \<Rightarrow> u8 \<Rightarrow> zwapi_callback \<Rightarrow> node_id \<Rightarrow> nat \<Rightarrow> 'm zw \<Rightarrow> (u8 \<times> 'm zw) option" where
  "send_failed_node lk command c NodeID completedFunc z = do {
     r \<leftarrow> zwapi_write_node_id z NodeID new_request;
     r \<leftarrow> put (func_id 0x03 completedFunc) r;
     (st, buf, len, z) \<leftarrow> zwapi_send_command_with_response lk command r (set_callback c completedFunc z);
     Some (answer_byte st buf len ZW_FAILED_NODE_REMOVE_FAIL, z)
   }"

definition zwapi_remove_failed_node :: "'m zwapi_link \<Rightarrow> node_id \<Rightarrow> nat \<Rightarrow> 'm zw \<Rightarrow> (u8 \<times> 'm zw) option" where
  "zwapi_remove_failed_node lk = send_failed_node lk FUNC_ID_ZW_REMOVE_FAILED_NODE_ID Cb_remove_failed_node"

text \<open>The parameter \<open>bNormalPower\<close> is not used.\<close>

definition zwapi_replace_failed_node :: "'m zwapi_link \<Rightarrow> node_id \<Rightarrow> bool \<Rightarrow> nat \<Rightarrow> 'm zw \<Rightarrow> (u8 \<times> 'm zw) option" where
  "zwapi_replace_failed_node lk NodeID bNormalPower = send_failed_node lk FUNC_ID_ZW_REPLACE_FAILED_NODE Cb_replace_failed_node NodeID"

text \<open>The commands on the routes of a node.\<close>

fun write_node_ids :: "'m zw \<Rightarrow> node_id list \<Rightarrow> request \<Rightarrow> request option" where
  "write_node_ids z [] r = Some r"
| "write_node_ids z (n # ns) r = do { r \<leftarrow> zwapi_write_node_id z n r; write_node_ids z ns r }"

definition send_node_command ::
  "'m zwapi_link \<Rightarrow> u8 \<Rightarrow> zwapi_callback \<Rightarrow> node_id list \<Rightarrow> nat \<Rightarrow> 'm zw \<Rightarrow> (sl_status \<times> 'm zw) option" where
  "send_node_command lk command c nodes completedFunc z = do {
     r \<leftarrow> write_node_ids z nodes new_request;
     r \<leftarrow> put (func_id 0x03 completedFunc) r;
     (b, z) \<leftarrow> send_accepted lk command r (set_callback c completedFunc z);
     Some (ok_if b, z)
   }"

definition zwapi_assign_return_route :: "'m zwapi_link \<Rightarrow> node_id \<Rightarrow> node_id \<Rightarrow> nat \<Rightarrow> 'm zw \<Rightarrow> (sl_status \<times> 'm zw) option" where
  "zwapi_assign_return_route lk bSrcNodeID bDstNodeID = send_node_command lk FUNC_ID_ZW_ASSIGN_RETURN_ROUTE Cb_assign_return_route [bSrcNodeID, bDstNodeID]"

definition zwapi_delete_return_route :: "'m zwapi_link \<Rightarrow> node_id \<Rightarrow> nat \<Rightarrow> 'm zw \<Rightarrow> (sl_status \<times> 'm zw) option" where
  "zwapi_delete_return_route lk nodeID = send_node_command lk FUNC_ID_ZW_DELETE_RETURN_ROUTE Cb_delete_return_route [nodeID]"

definition zwapi_assign_suc_return_route :: "'m zwapi_link \<Rightarrow> node_id \<Rightarrow> nat \<Rightarrow> 'm zw \<Rightarrow> (sl_status \<times> 'm zw) option" where
  "zwapi_assign_suc_return_route lk bSrcNodeID = send_node_command lk FUNC_ID_ZW_ASSIGN_SUC_RETURN_ROUTE Cb_assign_suc_return_route [bSrcNodeID]"

definition zwapi_delete_suc_return_route :: "'m zwapi_link \<Rightarrow> node_id \<Rightarrow> nat \<Rightarrow> 'm zw \<Rightarrow> (sl_status \<times> 'm zw) option" where
  "zwapi_delete_suc_return_route lk nodeID = send_node_command lk FUNC_ID_ZW_DELETE_SUC_RETURN_ROUTE Cb_delete_suc_return_route [nodeID]"

definition zwapi_get_suc_node_id :: "'m zwapi_link \<Rightarrow> 'm zw \<Rightarrow> (node_id \<times> 'm zw) option" where
  "zwapi_get_suc_node_id lk z = do {
     (st, buf, len, z) \<leftarrow> zwapi_send_command_with_response lk FUNC_ID_ZW_GET_SUC_NODE_ID no_request z;
     Some (if st = SL_STATUS_OK \<and> (node_id_basetype_setting z = NODEID_8BITS \<and> len > IDX_DATA \<or> node_id_basetype_setting z = NODEID_16BITS \<and> len > IDX_DATA + 1)
           then if node_id_basetype_setting z = NODEID_16BITS
                then push_bit 8 (ucast (buf ! IDX_DATA)) OR ucast (buf ! (IDX_DATA + 1)) else ucast (buf ! IDX_DATA)
           else 0, z)
   }"

definition zwapi_set_suc_node_id ::
  "'m zwapi_link \<Rightarrow> node_id \<Rightarrow> u8 \<Rightarrow> u8 \<Rightarrow> u8 \<Rightarrow> nat \<Rightarrow> 'm zw \<Rightarrow> (sl_status \<times> 'm zw) option" where
  "zwapi_set_suc_node_id lk nodeID SUCState bTxOption bCapabilities completedFunc z = do {
     r \<leftarrow> zwapi_write_node_id z nodeID new_request;
     r \<leftarrow> put SUCState r;
     r \<leftarrow> put bTxOption r;
     r \<leftarrow> put bCapabilities r;
     r \<leftarrow> put (func_id 0x03 completedFunc) r;
     (b, z) \<leftarrow> send_accepted lk FUNC_ID_ZW_SET_SUC_NODE_ID r (set_callback Cb_set_suc_node_id completedFunc z);
     Some (ok_if b, z)
   }"

definition zwapi_set_learn_mode :: "'m zwapi_link \<Rightarrow> u8 \<Rightarrow> nat \<Rightarrow> 'm zw \<Rightarrow> (sl_status \<times> 'm zw) option" where
  "zwapi_set_learn_mode lk mode completedFunc z = do {
     r \<leftarrow> put mode new_request;
     r \<leftarrow> put (func_id 0x03 completedFunc) r;
     (b, z) \<leftarrow> send_accepted lk FUNC_ID_ZW_SET_LEARN_MODE r (set_callback Cb_set_learn_mode completedFunc z);
     Some (ok_if b, z)
   }"

definition zwapi_set_virtual_node_to_learn_mode ::
  "'m zwapi_link \<Rightarrow> node_id \<Rightarrow> u8 \<Rightarrow> nat \<Rightarrow> 'm zw \<Rightarrow> (sl_status \<times> 'm zw) option" where
  "zwapi_set_virtual_node_to_learn_mode lk node mode completedFunc z = do {
     r \<leftarrow> zwapi_write_node_id z node new_request;
     r \<leftarrow> put mode r;
     r \<leftarrow> put (func_id 0x03 completedFunc) r;
     (b, z) \<leftarrow> send_accepted lk FUNC_ID_ZW_SET_SLAVE_LEARN_MODE r (set_callback Cb_set_virtual_node_to_learn_mode completedFunc z);
     Some (ok_if b, z)
   }"

definition zwapi_request_node_info :: "'m zwapi_link \<Rightarrow> node_id \<Rightarrow> 'm zw \<Rightarrow> (sl_status \<times> 'm zw) option" where
  "zwapi_request_node_info lk node_id z = do {
     r \<leftarrow> zwapi_write_node_id z node_id new_request;
     (b, z) \<leftarrow> send_accepted lk FUNC_ID_ZW_REQUEST_NODE_INFO r z;
     Some (ok_if b, z)
   }"

section \<open>Transmission reports\<close>

text \<open>The bytes of a transmission report, without and with its five last fields.\<close>

definition beam_byte :: "zwapi_tx_report \<Rightarrow> u8" where
  "beam_byte t = (if beam_1000ms t then 0x40 else 0) OR (if beam_250ms t then 0x20 else 0) OR (last_route_speed t AND 0x07)"

definition tx_report_bytes :: "zwapi_tx_report \<Rightarrow> u8 list" where
  "tx_report_bytes t =
     [high_byte (transmit_ticks t), low_byte (transmit_ticks t), number_of_repeaters t, ack_rssi t,
      rssi_incoming t ! 0, rssi_incoming t ! 1, rssi_incoming t ! 2, rssi_incoming t ! 3,
      ack_channel_number t, tx_channel_number t, route_scheme_state t,
      last_route_repeaters t ! 0, last_route_repeaters t ! 1, last_route_repeaters t ! 2, last_route_repeaters t ! 3,
      beam_byte t, routing_attempts t, last_failed_link_from t, last_failed_link_to t, report_tx_power t,
      measured_noise_floor t, destination_ack_mpdu_tx_power t, destination_ack_mpdu_measured_rssi t, destination_ack_mpdu_measured_noise_floor t]"

definition zwapi_request_protocol_cc_encryption_callback ::
  "'m zwapi_link \<Rightarrow> u8 \<Rightarrow> zwapi_tx_report \<Rightarrow> u8 \<Rightarrow> 'm zw \<Rightarrow> (sl_status \<times> 'm zw) option" where
  "zwapi_request_protocol_cc_encryption_callback lk tx_status tx_report session_id z = do {
     r \<leftarrow> put session_id new_request;
     r \<leftarrow> put tx_status r;
     r \<leftarrow> put_all (tx_report_bytes tx_report) r;
     (st, z) \<leftarrow> zwapi_send_command lk FUNC_ID_ZW_REQUEST_PROTOCOL_CC_ENCRYPTION r z;
     Some (ok_if (st = SL_STATUS_OK), z)
   }"

section \<open>Replication, routes and roles\<close>

definition zwapi_send_controller_replication ::
  "'m zwapi_link \<Rightarrow> node_id \<Rightarrow> u8 list \<Rightarrow> u8 \<Rightarrow> nat \<Rightarrow> 'm zw \<Rightarrow> (sl_status \<times> 'm zw) option" where
  "zwapi_send_controller_replication lk nodeID pData txOptions completedFunc z = do {
     r \<leftarrow> zwapi_write_node_id z nodeID new_request;
     r \<leftarrow> put (of_nat (length pData)) r;
     r \<leftarrow> put_all pData r;
     r \<leftarrow> put txOptions r;
     r \<leftarrow> put (func_id 0x03 completedFunc) r;
     (b, z) \<leftarrow> send_accepted lk FUNC_ID_ZW_REPLICATION_SEND_DATA r (set_callback Cb_send_controller_replication completedFunc z);
     Some (ok_if b, z)
   }"

definition zwapi_get_controller_capabilities :: "'m zwapi_link \<Rightarrow> 'm zw \<Rightarrow> (u8 \<times> 'm zw) option" where
  "zwapi_get_controller_capabilities lk z = do {
     (st, buf, len, z) \<leftarrow> zwapi_send_command_with_response lk FUNC_ID_ZW_GET_CONTROLLER_CAPABILITIES no_request z;
     Some (answer_byte st buf len 0, z)
   }"

definition zwapi_request_network_update :: "'m zwapi_link \<Rightarrow> nat \<Rightarrow> 'm zw \<Rightarrow> (sl_status \<times> 'm zw) option" where
  "zwapi_request_network_update lk complFunc z = do {
     r \<leftarrow> put (func_id 0x03 complFunc) new_request;
     (b, z) \<leftarrow> send_accepted lk FUNC_ID_ZW_REQUEST_NETWORK_UPDATE r (set_callback Cb_request_network_update complFunc z);
     Some (ok_if b, z)
   }"

definition zwapi_replication_receive_complete :: "'m zwapi_link \<Rightarrow> 'm zw \<Rightarrow> (sl_status \<times> 'm zw) option" where
  "zwapi_replication_receive_complete lk z = zwapi_send_command lk FUNC_ID_ZW_REPLICATION_COMMAND_COMPLETE no_request z"

definition zwapi_is_node_primary_ctrl :: "'m zwapi_link \<Rightarrow> 'm zw \<Rightarrow> (bool \<times> 'm zw) option" where
  "zwapi_is_node_primary_ctrl lk z = do {
     (capabilities, z) \<leftarrow> zwapi_get_controller_capabilities lk z;
     Some (capabilities AND CONTROLLER_IS_SECONDARY = 0, z)
   }"

definition zwapi_is_node_failed :: "'m zwapi_link \<Rightarrow> node_id \<Rightarrow> 'm zw \<Rightarrow> (bool \<times> 'm zw) option" where
  "zwapi_is_node_failed lk nodeID z = do {
     r \<leftarrow> zwapi_write_node_id z nodeID new_request;
     (st, buf, len, z) \<leftarrow> zwapi_send_command_with_response lk FUNC_ID_ZW_IS_FAILED_NODE_ID r z;
     Some (answer_byte st buf len 0 \<noteq> 0, z)
   }"

text \<open>The result for a number of tries out of range is \<^verbatim>\<open>false\<close>, which is \<^verbatim>\<open>SL_STATUS_OK\<close>.\<close>

definition zwapi_set_max_source_route :: "'m zwapi_link \<Rightarrow> u8 \<Rightarrow> 'm zw \<Rightarrow> (sl_status \<times> 'm zw) option" where
  "zwapi_set_max_source_route lk maxRouteTries z =
     (if maxRouteTries = 0 \<or> maxRouteTries > 20 then Some (0, z)
      else do {
        r \<leftarrow> request_1 maxRouteTries;
        (b, z) \<leftarrow> send_accepted lk FUNC_ID_ZW_SET_ROUTING_MAX r z;
        Some (ok_if b, z)
      })"

definition zwapi_get_priority_route :: "'m zwapi_link \<Rightarrow> node_id \<Rightarrow> 'm zw \<Rightarrow> (u8 \<times> u8 list option \<times> 'm zw) option" where
  "zwapi_get_priority_route lk bNodeID z = do {
     r \<leftarrow> zwapi_write_node_id z bNodeID new_request;
     (st, buf, len, z) \<leftarrow> zwapi_send_command_with_response lk FUNC_ID_ZW_GET_LAST_WORKING_ROUTE r z;
     if st = SL_STATUS_OK \<and> len > IDX_DATA + 6
     then do {
       (response_node_id, _) \<leftarrow> zwapi_read_node_id z buf (of_nat IDX_DATA);
       Some (if bNodeID = response_node_id then (buf ! (IDX_DATA + 1), Some (take 5 (drop (IDX_DATA + 2) buf)), z) else (0, None, z))
     }
     else Some (0, None, z)
   }"

definition zwapi_set_priority_route :: "'m zwapi_link \<Rightarrow> node_id \<Rightarrow> u8 list \<Rightarrow> 'm zw \<Rightarrow> (sl_status \<times> 'm zw) option" where
  "zwapi_set_priority_route lk bNodeID pLastWorkingRoute z = do {
     r \<leftarrow> zwapi_write_node_id z bNodeID new_request;
     r \<leftarrow> put_all (take 5 pLastWorkingRoute) r;
     (b, z) \<leftarrow> send_accepted lk FUNC_ID_ZW_SET_LAST_WORKING_ROUTE r z;
     Some (ok_if b, z)
   }"

definition zwapi_get_old_routing_info ::
  "'m zwapi_link \<Rightarrow> node_id \<Rightarrow> u8 list \<Rightarrow> u8 \<Rightarrow> u8 \<Rightarrow> 'm zw \<Rightarrow> (sl_status \<times> u8 list \<times> 'm zw) option" where
  "zwapi_get_old_routing_info lk bNodeID target bRemoveBad bRemoveNonReps z = do {
     r \<leftarrow> zwapi_write_node_id z bNodeID new_request;
     r \<leftarrow> put bRemoveBad r;
     r \<leftarrow> put bRemoveNonReps r;
     r \<leftarrow> put 0 r;
     (st, buf, len, z) \<leftarrow> zwapi_send_command_with_response lk FUNC_ID_GET_ROUTING_TABLE_LINE r z;
     (st, target) \<leftarrow> copy_mask st buf len target;
     Some (st, target, z)
   }"

definition zwapi_enable_suc :: "'m zwapi_link \<Rightarrow> u8 \<Rightarrow> u8 \<Rightarrow> 'm zw \<Rightarrow> (sl_status \<times> 'm zw) option" where
  "zwapi_enable_suc lk state capabilities z = do {
     r \<leftarrow> put state new_request;
     r \<leftarrow> put capabilities r;
     (b, z) \<leftarrow> send_accepted lk FUNC_ID_ZW_ENABLE_SUC r z;
     Some (ok_if b, z)
   }"

definition zwapi_add_smartstart_node_to_network ::
  "'m zwapi_link \<Rightarrow> u8 \<Rightarrow> u8 list \<Rightarrow> nat \<Rightarrow> 'm zw \<Rightarrow> (sl_status \<times> 'm zw) option" where
  "zwapi_add_smartstart_node_to_network lk bMode dsk completedFunc z = do {
     r \<leftarrow> put bMode new_request;
     r \<leftarrow> put (func_id 0x03 completedFunc) r;
     r \<leftarrow> put_all (take 8 dsk) r;
     zwapi_send_command lk FUNC_ID_ZW_ADD_NODE_TO_NETWORK r (set_callback Cb_add_node_to_network completedFunc z)
   }"

definition zwapi_set_virtual_node_application_node_information ::
  "'m zwapi_link \<Rightarrow> node_id \<Rightarrow> u8 \<Rightarrow> u8 \<Rightarrow> u8 \<Rightarrow> u8 list \<Rightarrow> 'm zw \<Rightarrow> (sl_status \<times> 'm zw) option" where
  "zwapi_set_virtual_node_application_node_information lk dstNode listening generic specific nodeParm z = do {
     r \<leftarrow> zwapi_write_node_id z dstNode new_request;
     r \<leftarrow> put listening r;
     r \<leftarrow> put generic r;
     r \<leftarrow> put specific r;
     r \<leftarrow> put (of_nat (length nodeParm)) r;
     r \<leftarrow> put_all nodeParm r;
     zwapi_send_command lk FUNC_ID_ZW_SET_SLAVE_LEARN_MODE r z
   }"

section \<open>Network layer security\<close>

definition zwapi_enable_node_nls :: "'m zwapi_link \<Rightarrow> node_id \<Rightarrow> 'm zw \<Rightarrow> (sl_status \<times> 'm zw) option" where
  "zwapi_enable_node_nls lk nodeId z = do {
     r \<leftarrow> zwapi_write_node_id z nodeId new_request;
     (b, z) \<leftarrow> send_accepted lk FUNC_ID_ZW_ENABLE_NODE_NLS r z;
     Some (ok_if b, z)
   }"

text \<open>The two bytes, state and support, are written to the output parameters even when they are refused.\<close>

definition zwapi_get_node_nls :: "'m zwapi_link \<Rightarrow> node_id \<Rightarrow> 'm zw \<Rightarrow> (sl_status \<times> (u8 \<times> u8) option \<times> 'm zw) option" where
  "zwapi_get_node_nls lk nodeId z = do {
     r \<leftarrow> zwapi_write_node_id z nodeId new_request;
     (st, buf, len, z) \<leftarrow> zwapi_send_command_with_response lk FUNC_ID_ZW_GET_NODE_NLS_STATE r z;
     Some (if answered st len
           then let nls_support = buf ! IDX_DATA; nls_state = buf ! (IDX_DATA + 1)
                in (ok_if (\<not> ((nls_support \<noteq> 0 \<and> nls_support \<noteq> 1) \<or> (nls_state \<noteq> 0 \<and> nls_state \<noteq> 1))), Some (nls_state, nls_support), z)
           else (SL_STATUS_FAIL, None, z))
   }"

partial_function (option) nls_nodes_loop ::
  "'m zwapi_link \<Rightarrow> u8 \<Rightarrow> u16 \<Rightarrow> nodemask \<Rightarrow> 'm zw \<Rightarrow> (sl_status \<times> u16 \<times> nodemask \<times> 'm zw) option" where
  "nls_nodes_loop lk start_offset list_length l z =
     Option.bind (request_1 start_offset) (\<lambda>r.
     Option.bind (zwapi_send_command_with_response lk FUNC_ID_ZW_GET_NLS_NODES r z) (\<lambda>(st, buf, len, z).
       if st \<noteq> SL_STATUS_OK then Some (SL_STATUS_FAIL, list_length, l, z)
       else Option.bind (store_nodes 0 (unat (buf ! (IDX_DATA + 1)) * 128) buf [0..<unat (buf ! (IDX_DATA + 2))] l) (\<lambda>(ok, l).
         if \<not> ok then Some (SL_STATUS_FAIL, list_length + ucast (buf ! (IDX_DATA + 2)), l, z)
         else if buf ! IDX_DATA > 0
         then nls_nodes_loop lk (buf ! (IDX_DATA + 1) + 1) (list_length + ucast (buf ! (IDX_DATA + 2))) l z
         else Some (SL_STATUS_OK, list_length + ucast (buf ! (IDX_DATA + 2)), l, z))))"

text \<open>The \<^verbatim>\<open>memmove\<close> at the end moves 469 bytes from offset 28 to offset 31.\<close>

definition zwapi_get_nls_nodes :: "'m zwapi_link \<Rightarrow> nodemask \<Rightarrow> 'm zw \<Rightarrow> (sl_status \<times> u16 \<times> nodemask \<times> 'm zw) option" where
  "zwapi_get_nls_nodes lk node_list z = do {
     (st, list_length, node_list, z) \<leftarrow> nls_nodes_loop lk 0 0 node_list z;
     if st \<noteq> SL_STATUS_OK then Some (st, list_length, node_list, z)
     else do {
       node_list \<leftarrow> write_bytes node_list (ZW_LR_NODEMASK_OFFSET - 1) (drop (ZW_MAX_NODEMASK_LENGTH - 1) node_list)
         (ZW_LR_MAX_NODEMASK_LENGTH - ZW_LR_NODEMASK_OFFSET);
       Some (SL_STATUS_OK, list_length, node_list, z)
     }
   }"

definition zwapi_transfer_protocol_cc :: "'m zwapi_link \<Rightarrow> node_id \<Rightarrow> u8 \<Rightarrow> u8 list \<Rightarrow> 'm zw \<Rightarrow> (sl_status \<times> 'm zw) option" where
  "zwapi_transfer_protocol_cc lk srcNode decryptionKey payload z = do {
     r \<leftarrow> zwapi_write_node_id z srcNode new_request;
     r \<leftarrow> put decryptionKey r;
     if length payload > ZWAVE_MAX_FRAME_SIZE then Some (SL_STATUS_WOULD_OVERFLOW, z)
     else do {
       r \<leftarrow> put (of_nat (length payload)) r;
       r \<leftarrow> put_block payload r;
       (b, z) \<leftarrow> send_accepted lk FUNC_ID_ZW_TRANSFER_PROTOCOL_CC r z;
       Some (ok_if b, z)
     }
   }"

end
