(* ===== verification/Zwapi_Memory.thy ===== *)
theory Zwapi_Memory
  imports Zwapi_Basis
begin

text \<open>
  The memory of the module: \<^verbatim>\<open>zwapi_protocol_mem.c\<close> and \<^verbatim>\<open>zwapi_protocol_nvm.c\<close>, one
  definition per function.
\<close>

section \<open>Bytes and buffers\<close>

text \<open>The bytes of a response that are there, over the buffer of the caller.\<close>

definition copy_received :: "nat \<Rightarrow> nat \<Rightarrow> u8 list \<Rightarrow> nat \<Rightarrow> u8 list \<Rightarrow> u8 list" where
  "copy_received start n buf len target = map (\<lambda>i. if i < n \<and> start + i < len then buf ! (start + i) else target ! i) [0..<length target]"

text \<open>The buffer of the caller has room for the requested bytes.\<close>

definition zwapi_nvr_get_value :: "'m zwapi_link \<Rightarrow> u8 \<Rightarrow> u8 \<Rightarrow> u8 list \<Rightarrow> 'm zw \<Rightarrow> (sl_status \<times> u8 list \<times> 'm zw) option" where
  "zwapi_nvr_get_value lk offset bLength pNVRValue z = do {
     r \<leftarrow> put offset new_request;
     r \<leftarrow> put bLength r;
     (st, buf, len, z) \<leftarrow> zwapi_send_command_with_response lk FUNC_ID_NVR_GET_VALUE r z;
     Some (if answered st len then (SL_STATUS_OK, copy_received IDX_DATA (unat bLength) buf len pNVRValue, z) else (SL_STATUS_FAIL, pNVRValue, z))
   }"

text \<open>A big-endian number of four bytes.\<close>

definition be32 :: "u8 list \<Rightarrow> u32" where
  "be32 bs = push_bit 24 (ucast (bs ! 0)) OR push_bit 16 (ucast (bs ! 1)) OR push_bit 8 (ucast (bs ! 2)) OR ucast (bs ! 3)"

definition zwapi_memory_get_ids :: "'m zwapi_link \<Rightarrow> 'm zw \<Rightarrow> (sl_status \<times> (u32 \<times> node_id) option \<times> 'm zw) option" where
  "zwapi_memory_get_ids lk z = do {
     (st, buf, len, z) \<leftarrow> zwapi_send_command_with_response lk FUNC_ID_MEMORY_GET_ID no_request z;
     if st = SL_STATUS_OK \<and> len > IDX_DATA + 4
     then do {
       (node_id, _) \<leftarrow> zwapi_read_node_id z buf (of_nat (IDX_DATA + 4));
       Some (SL_STATUS_OK, Some (be32 (drop IDX_DATA buf), node_id), z)
     }
     else Some (SL_STATUS_FAIL, None, z)
   }"

definition zwapi_memory_get_byte :: "'m zwapi_link \<Rightarrow> u16 \<Rightarrow> 'm zw \<Rightarrow> (sl_status \<times> u8 option \<times> 'm zw) option" where
  "zwapi_memory_get_byte lk offset z = do {
     r \<leftarrow> put (high_byte offset) new_request;
     r \<leftarrow> put (low_byte offset) r;
     (st, buf, len, z) \<leftarrow> zwapi_send_command_with_response lk FUNC_ID_MEMORY_GET_BYTE r z;
     Some (if answered st len then (SL_STATUS_OK, Some (buf ! IDX_DATA), z) else (SL_STATUS_FAIL, None, z))
   }"

definition zwapi_memory_put_byte :: "'m zwapi_link \<Rightarrow> u16 \<Rightarrow> u8 \<Rightarrow> 'm zw \<Rightarrow> (u8 \<times> 'm zw) option" where
  "zwapi_memory_put_byte lk offset bData z = do {
     r \<leftarrow> put (high_byte offset) new_request;
     r \<leftarrow> put (low_byte offset) r;
     r \<leftarrow> put bData r;
     (st, buf, len, z) \<leftarrow> zwapi_send_command_with_response lk FUNC_ID_MEMORY_PUT_BYTE r z;
     Some (answer_byte st buf len 0, z)
   }"

text \<open>Byte by byte, for a module that does not have the command for buffers.\<close>

fun get_bytes :: "'m zwapi_link \<Rightarrow> u16 \<Rightarrow> nat list \<Rightarrow> u8 list \<Rightarrow> 'm zw \<Rightarrow> (sl_status \<times> u8 list \<times> 'm zw) option" where
  "get_bytes lk offset [] buf z = Some (SL_STATUS_OK, buf, z)"
| "get_bytes lk offset (i # is) buf z = do {
     (st, b, z) \<leftarrow> zwapi_memory_get_byte lk (offset + of_nat i) z;
     case b of
       None \<Rightarrow> Some (SL_STATUS_FAIL, buf, z)
     | Some b \<Rightarrow> get_bytes lk offset is (buf[i := b]) z
   }"

definition zwapi_memory_get_buffer :: "'m zwapi_link \<Rightarrow> u16 \<Rightarrow> u8 list \<Rightarrow> u8 \<Rightarrow> 'm zw \<Rightarrow> (sl_status \<times> u8 list \<times> 'm zw) option" where
  "zwapi_memory_get_buffer lk offset target len z = do {
     supported \<leftarrow> zwapi_support_command_func FUNC_ID_MEMORY_GET_BUFFER z;
     if supported
     then do {
       r \<leftarrow> put (high_byte offset) new_request;
       r \<leftarrow> put (low_byte offset) r;
       r \<leftarrow> put len r;
       (st, buf, n, z) \<leftarrow> call_session_send_frame_with_response lk FUNC_ID_MEMORY_GET_BUFFER r zero_response z;
       Some (if st \<noteq> SL_STATUS_OK then (SL_STATUS_FAIL, target, z) else (SL_STATUS_OK, copy_received IDX_DATA (unat len) buf n target, z))
     }
     else get_bytes lk offset [0..<unat len] target z
   }"

fun put_bytes :: "'m zwapi_link \<Rightarrow> u16 \<Rightarrow> nat \<Rightarrow> u8 list \<Rightarrow> 'm zw \<Rightarrow> (bool \<times> 'm zw) option" where
  "put_bytes lk offset i [] z = Some (True, z)"
| "put_bytes lk offset i (b # bs) z = do {
     (st, z) \<leftarrow> zwapi_memory_put_byte lk (offset + of_nat i) b z;
     if st = 0 then Some (False, z) else put_bytes lk offset (Suc i) bs z
   }"

text \<open>The 8-bit result of the last line is the length plus one.\<close>

definition zwapi_memory_put_buffer :: "'m zwapi_link \<Rightarrow> u16 \<Rightarrow> u8 list \<Rightarrow> nat \<Rightarrow> 'm zw \<Rightarrow> (u8 \<times> 'm zw) option" where
  "zwapi_memory_put_buffer lk offset data callback z = do {
     supported \<leftarrow> zwapi_support_command_func FUNC_ID_MEMORY_PUT_BUFFER z;
     if supported \<and> \<not> length data > FRAME_LENGTH_MAX - 8
     then do {
       r \<leftarrow> put (high_byte offset) new_request;
       r \<leftarrow> put (low_byte offset) r;
       r \<leftarrow> put (high_byte (of_nat (length data))) r;
       r \<leftarrow> put (low_byte (of_nat (length data))) r;
       r \<leftarrow> put_all data r;
       r \<leftarrow> put (func_id 3 callback) r;
       (st, buf, len, z) \<leftarrow> call_session_send_frame_with_response lk FUNC_ID_MEMORY_PUT_BUFFER r zero_response (set_callback Cb_memory_put_buffer callback z);
       Some (if st = SL_STATUS_FAIL \<or> len \<le> IDX_DATA then 0 else buf ! IDX_DATA, z)
     }
     else do {
       (ok, z) \<leftarrow> put_bytes lk offset 0 data z;
       Some (if \<not> ok then (0, z)
             else (of_nat (length data) + 1, if callback \<noteq> 0 then zw_emit (Call_void Cb_memory_put_buffer callback) z else z))
     }
   }"

section \<open>Backup and restore\<close>

abbreviation (input) ZWAVE_API_NVM_OPEN_OPERATION :: u8 where "ZWAVE_API_NVM_OPEN_OPERATION \<equiv> 0x00"
abbreviation (input) ZWAVE_API_NVM_READ_OPERATION :: u8 where "ZWAVE_API_NVM_READ_OPERATION \<equiv> 0x01"
abbreviation (input) ZWAVE_API_NVM_WRITE_OPERATION :: u8 where "ZWAVE_API_NVM_WRITE_OPERATION \<equiv> 0x02"
abbreviation (input) ZWAVE_API_NVM_CLOSE_OPERATION :: u8 where "ZWAVE_API_NVM_CLOSE_OPERATION \<equiv> 0x03"
abbreviation (input) ZWAVE_API_NVM_RETURN_CODE_OK :: u8 where "ZWAVE_API_NVM_RETURN_CODE_OK \<equiv> 0x00"
abbreviation (input) ZWAVE_API_NVM_RETURN_CODE_ERROR :: u8 where "ZWAVE_API_NVM_RETURN_CODE_ERROR \<equiv> 0x01"
abbreviation (input) ZWAVE_API_NVM_RETURN_CODE_END_OF_FILE :: u8 where "ZWAVE_API_NVM_RETURN_CODE_END_OF_FILE \<equiv> 0xFF"

datatype zwapi_protocol_nvm_status = NVM_STATUS_OK | NVM_STATUS_ERROR | NVM_STATUS_EOF

definition zwapi_nvm_close :: "'m zwapi_link \<Rightarrow> 'm zw \<Rightarrow> (u8 \<times> 'm zw) option" where
  "zwapi_nvm_close lk z = do {
     r \<leftarrow> request_1 ZWAVE_API_NVM_CLOSE_OPERATION;
     (st, buf, len, z) \<leftarrow> zwapi_send_command_with_response lk FUNC_ID_NVM_BACKUP_RESTORE r z;
     Some (answer_byte st buf len ZWAVE_API_NVM_RETURN_CODE_ERROR, z)
   }"

definition zwapi_nvm_open :: "'m zwapi_link \<Rightarrow> 'm zw \<Rightarrow> (u32 \<times> 'm zw) option" where
  "zwapi_nvm_open lk z = do {
     r \<leftarrow> request_1 ZWAVE_API_NVM_OPEN_OPERATION;
     (st, buf, len, z) \<leftarrow> zwapi_send_command_with_response lk FUNC_ID_NVM_BACKUP_RESTORE r z;
     Some (if st = SL_STATUS_OK \<and> len > IDX_DATA + 3 \<and> buf ! IDX_DATA = ZWAVE_API_NVM_RETURN_CODE_OK
           then let nvm_length = push_bit 8 (ucast (buf ! (IDX_DATA + 2))) OR ucast (buf ! (IDX_DATA + 3))
                in if nvm_length = 0 then 0x10000 else nvm_length + 1
           else 0, z)
   }"

definition nvm_status :: "u8 \<Rightarrow> zwapi_protocol_nvm_status" where
  "nvm_status code = (if code = ZWAVE_API_NVM_RETURN_CODE_OK then NVM_STATUS_OK
     else if code = ZWAVE_API_NVM_RETURN_CODE_END_OF_FILE then NVM_STATUS_EOF else NVM_STATUS_ERROR)"

text \<open>The loop over the announced bytes, which ends with an error at the first one that is too many.\<close>

fun nvm_copy :: "u8 list \<Rightarrow> nat \<Rightarrow> u8 \<Rightarrow> nat list \<Rightarrow> u8 list \<Rightarrow> bool \<times> u8 list" where
  "nvm_copy buf len length_wanted [] target = (True, target)"
| "nvm_copy buf len length_wanted (i # is) target =
     (if i < unat length_wanted \<and> IDX_DATA + 4 + i < len
      then nvm_copy buf len length_wanted is (target[i := buf ! (IDX_DATA + 4 + i)]) else (False, target))"

definition zwapi_nvm_read ::
  "'m zwapi_link \<Rightarrow> u32 \<Rightarrow> u8 list \<Rightarrow> u8 \<Rightarrow> 'm zw \<Rightarrow> (zwapi_protocol_nvm_status \<times> u8 list \<times> u8 \<times> 'm zw) option" where
  "zwapi_nvm_read lk offset target length_wanted z = do {
     r \<leftarrow> put ZWAVE_API_NVM_READ_OPERATION new_request;
     r \<leftarrow> put length_wanted r;
     r \<leftarrow> put (ucast (drop_bit 8 offset)) r;
     r \<leftarrow> put (ucast (offset AND 0xFF)) r;
     (st, buf, len, z) \<leftarrow> zwapi_send_command_with_response lk FUNC_ID_NVM_BACKUP_RESTORE r z;
     Some (if st = SL_STATUS_OK \<and> len > IDX_DATA + 1
           then case nvm_copy buf len length_wanted [0..<unat (buf ! (IDX_DATA + 1))] target of
                  (ok, target) \<Rightarrow> (if ok then nvm_status (buf ! IDX_DATA) else NVM_STATUS_ERROR, target, buf ! (IDX_DATA + 1), z)
           else (NVM_STATUS_ERROR, target, 0, z))
   }"

definition zwapi_nvm_write ::
  "'m zwapi_link \<Rightarrow> u32 \<Rightarrow> u8 list \<Rightarrow> 'm zw \<Rightarrow> (zwapi_protocol_nvm_status \<times> u8 \<times> 'm zw) option" where
  "zwapi_nvm_write lk offset data z = do {
     r \<leftarrow> put ZWAVE_API_NVM_WRITE_OPERATION new_request;
     r \<leftarrow> put (of_nat (length data)) r;
     r \<leftarrow> put (ucast (drop_bit 8 offset)) r;
     r \<leftarrow> put (ucast (offset AND 0xFF)) r;
     r \<leftarrow> put_all data r;
     (st, buf, len, z) \<leftarrow> zwapi_send_command_with_response lk FUNC_ID_NVM_BACKUP_RESTORE r z;
     Some (if st = SL_STATUS_OK \<and> len > IDX_DATA + 1 then (nvm_status (buf ! IDX_DATA), buf ! (IDX_DATA + 1), z) else (NVM_STATUS_ERROR, 0, z))
   }"

end
