(* ===== verification/Zwapi_Transport.thy ===== *)
theory Zwapi_Transport
  imports Zwapi_Basis
begin

text \<open>
  The commands that send frames to nodes (\<^verbatim>\<open>zwapi_protocol_transport.c\<close>), one definition per
  function, and the length of the frames that they can send.
\<close>

section \<open>Definitions\<close>

abbreviation (input) ZWAVE_LIBRARY_TYPE_CONTROLLER_BRIDGE :: u8 where "ZWAVE_LIBRARY_TYPE_CONTROLLER_BRIDGE \<equiv> 0x07"

text \<open>The loop that writes the members of a mask, and counts them in 8 bits.\<close>

fun write_members :: "'m zw \<Rightarrow> node_id list \<Rightarrow> u8 \<Rightarrow> request \<Rightarrow> (u8 \<times> request) option" where
  "write_members z [] number_of_nodes r = Some (number_of_nodes, r)"
| "write_members z (n # ns) number_of_nodes r = do {
     r \<leftarrow> zwapi_write_node_id z n r;
     write_members z ns (number_of_nodes + 1) r
   }"

definition members :: "nodemask \<Rightarrow> node_id list" where
  "members node_mask = filter (\<lambda>n. ZW_IS_NODE_IN_MASK n node_mask) (map of_nat [ZW_MIN_NODE_ID..<ZW_LR_MAX_NODE_ID + 1])"

text \<open>The part that both multicast functions share, from the place of the number of nodes on.\<close>

definition multi_request :: "'m zw \<Rightarrow> nodemask \<Rightarrow> u8 list \<Rightarrow> u8 \<Rightarrow> nat \<Rightarrow> request \<Rightarrow> request option" where
  "multi_request z node_mask data tx_options callback r = do {
     let number_of_nodes_index = snd r;
     let r = (fst r, snd r + 1);
     (number_of_nodes, r) \<leftarrow> write_members z (members node_mask) 0 r;
     buf \<leftarrow> write_cell (fst r) (unat number_of_nodes_index) number_of_nodes;
     r \<leftarrow> put (of_nat (length data)) (buf, snd r);
     r \<leftarrow> put_all data r;
     r \<leftarrow> put tx_options r;
     put (func_id 0x03 callback) r
   }"

text \<open>The callback is registered once the module has accepted the frame.\<close>

definition register_if :: "bool \<Rightarrow> zwapi_callback \<Rightarrow> nat \<Rightarrow> 'm zw \<Rightarrow> sl_status \<times> 'm zw" where
  "register_if b c callback z = (if b then (SL_STATUS_OK, set_callback c callback z) else (SL_STATUS_FAIL, z))"

definition zwapi_send_data_multi_bridge ::
  "'m zwapi_link \<Rightarrow> node_id \<Rightarrow> nodemask \<Rightarrow> u8 list \<Rightarrow> u8 \<Rightarrow> nat \<Rightarrow> 'm zw \<Rightarrow> (sl_status \<times> 'm zw) option" where
  "zwapi_send_data_multi_bridge lk source_node_id node_mask data tx_options callback z = do {
     r \<leftarrow> zwapi_write_node_id z source_node_id new_request;
     r \<leftarrow> multi_request z node_mask data tx_options callback r;
     (b, z) \<leftarrow> send_accepted lk FUNC_ID_ZW_SEND_DATA_MULTI_BRIDGE r z;
     Some (register_if b Cb_send_data_multi_bridge callback z)
   }"

definition zwapi_lock_route :: "'m zwapi_link \<Rightarrow> bool \<Rightarrow> 'm zw \<Rightarrow> (sl_status \<times> 'm zw) option" where
  "zwapi_lock_route lk lock z = do {
     r \<leftarrow> request_1 (if lock then 0x01 else 0x00);
     zwapi_send_command lk FUNC_ID_LOCK_ROUTE_RESPONSE r z
   }"

definition zwapi_send_data_bridge ::
  "'m zwapi_link \<Rightarrow> node_id \<Rightarrow> node_id \<Rightarrow> u8 list \<Rightarrow> u8 \<Rightarrow> nat \<Rightarrow> 'm zw \<Rightarrow> (sl_status \<times> 'm zw) option" where
  "zwapi_send_data_bridge lk source_node_id destination_node_id data tx_options callback z =
     (if length data + 2 > REQUEST_BUFFER_SIZE then Some (SL_STATUS_FAIL, z)
      else do {
        r \<leftarrow> zwapi_write_node_id z source_node_id new_request;
        r \<leftarrow> zwapi_write_node_id z destination_node_id r;
        r \<leftarrow> put (of_nat (length data)) r;
        r \<leftarrow> put_all data r;
        r \<leftarrow> put tx_options r;
        r \<leftarrow> put_all [0, 0, 0, 0] r;
        r \<leftarrow> put (func_id 1 callback) r;
        (b, z) \<leftarrow> send_accepted lk FUNC_ID_ZW_SEND_DATA_BRIDGE r (set_callback Cb_send_data_bridge callback z);
        Some (register_if b Cb_send_data_bridge callback z)
      })"

definition zwapi_send_data_multi ::
  "'m zwapi_link \<Rightarrow> nodemask \<Rightarrow> u8 list \<Rightarrow> u8 \<Rightarrow> nat \<Rightarrow> 'm zw \<Rightarrow> (sl_status \<times> 'm zw) option" where
  "zwapi_send_data_multi lk node_mask data tx_options callback z =
     (if library_type (chip z) = ZWAVE_LIBRARY_TYPE_CONTROLLER_BRIDGE
      then zwapi_send_data_multi_bridge lk 0xFF node_mask data tx_options callback z
      else do {
        r \<leftarrow> multi_request z node_mask data tx_options callback new_request;
        (b, z) \<leftarrow> send_accepted lk FUNC_ID_ZW_SEND_DATA_MULTI r z;
        Some (register_if b Cb_send_data_multi callback z)
      })"

definition zwapi_send_data ::
  "'m zwapi_link \<Rightarrow> node_id \<Rightarrow> u8 list \<Rightarrow> u8 \<Rightarrow> nat \<Rightarrow> 'm zw \<Rightarrow> (sl_status \<times> 'm zw) option" where
  "zwapi_send_data lk destination_node_id data tx_options callback z =
     (if library_type (chip z) = ZWAVE_LIBRARY_TYPE_CONTROLLER_BRIDGE
      then zwapi_send_data_bridge lk 0xFF destination_node_id data tx_options callback z
      else if length data + 2 > REQUEST_BUFFER_SIZE then Some (SL_STATUS_FAIL, z)
      else do {
        r \<leftarrow> zwapi_write_node_id z destination_node_id new_request;
        r \<leftarrow> put (of_nat (length data)) r;
        r \<leftarrow> put_all data r;
        r \<leftarrow> put tx_options r;
        r \<leftarrow> put (func_id 1 callback) r;
        (b, z) \<leftarrow> send_accepted lk FUNC_ID_ZW_SEND_DATA r z;
        Some (register_if b Cb_send_data callback z)
      })"

record protocol_metadata =
  pm_session_id :: u8
  pm_data :: "u8 list"

definition zwapi_send_protocol_data ::
  "'m zwapi_link \<Rightarrow> node_id \<Rightarrow> u8 list \<Rightarrow> protocol_metadata \<Rightarrow> nat \<Rightarrow> 'm zw \<Rightarrow> (sl_status \<times> 'm zw) option" where
  "zwapi_send_protocol_data lk destination_node_id data metadata callback z =
     (if length data + length (pm_data metadata) + 2 > REQUEST_BUFFER_SIZE then Some (SL_STATUS_FAIL, z)
      else do {
        r \<leftarrow> zwapi_write_node_id z destination_node_id new_request;
        r \<leftarrow> put (of_nat (length data)) r;
        r \<leftarrow> put_block data r;
        r \<leftarrow> put (of_nat (length (pm_data metadata))) r;
        r \<leftarrow> put_block (pm_data metadata) r;
        r \<leftarrow> put (pm_session_id metadata) r;
        (b, z) \<leftarrow> send_accepted lk FUNC_ID_ZW_SEND_PROTOCOL_DATA r z;
        Some (register_if b Cb_send_data callback z)
      })"

definition zwapi_abort_send_data :: "'m zwapi_link \<Rightarrow> 'm zw \<Rightarrow> (sl_status \<times> 'm zw) option" where
  "zwapi_abort_send_data lk z = zwapi_send_command lk FUNC_ID_ZW_SEND_DATA_ABORT no_request z"

definition zwapi_send_nop :: "'m zwapi_link \<Rightarrow> node_id \<Rightarrow> u8 \<Rightarrow> nat \<Rightarrow> 'm zw \<Rightarrow> (sl_status \<times> 'm zw) option" where
  "zwapi_send_nop lk destination_node_id tx_options callback z = do {
     r \<leftarrow> zwapi_write_node_id z destination_node_id new_request;
     r \<leftarrow> put tx_options r;
     r \<leftarrow> put (func_id 1 callback) r;
     (st, buf, len, z) \<leftarrow> zwapi_send_command_with_response lk FUNC_ID_SEND_NOP r z;
     Some (if accepted st buf len then (SL_STATUS_OK, set_callback Cb_send_nop callback z)
           else if st = SL_STATUS_NOT_SUPPORTED then (SL_STATUS_NOT_SUPPORTED, z) else (SL_STATUS_FAIL, z))
   }"

end
