(* ===== verification/Zwapi_Link.thy ===== *)
theory Zwapi_Link
  imports Zwapi_Init Zwapi_Controller Zwapi_Memory Zwapi_Transport Serial_Session
begin

text \<open>
  What the Z-Wave API relies on in the session below it, the locale \<open>module_link\<close>, and the sessions
  of the serial port as its interpretation.
\<close>

section \<open>The contract of a link\<close>

text \<open>
  A link has states in which every function returns and leads to such a state again; a response
  and a received frame have at most 255 bytes, and a response has a command byte.
\<close>

definition response_frame :: "sl_status \<Rightarrow> u8 list option \<Rightarrow> bool" where
  "response_frame st response \<longleftrightarrow>
     (case response of None \<Rightarrow> st \<noteq> SL_STATUS_OK | Some f \<Rightarrow> st = SL_STATUS_OK \<and> 3 \<le> length f \<and> length f \<le> 255)"

definition queued_frame :: "u8 list option \<Rightarrow> bool" where
  "queued_frame frame \<longleftrightarrow> (\<forall>f. frame = Some f \<longrightarrow> 2 \<le> length f \<and> length f \<le> 255)"

text \<open>The states of the Z-Wave API over such a link: its arrays have the sizes they are declared with.\<close>

definition zw_ok :: "('m \<Rightarrow> bool) \<Rightarrow> 'm zw \<Rightarrow> bool" where
  "zw_ok ok z \<longleftrightarrow> ok (zw_m z) \<and> length (supported_bitmask (chip z)) = ZWAPI_MAXIMUM_BITMASK_LENGTH \<and>
     length (supported_setup_bitmask (chip z)) = ZWAPI_MAXIMUM_BITMASK_LENGTH \<and>
     length (zwapi_command_buffer z) = REQUEST_BUFFER_SIZE \<and> length (chip_node_list (chip z)) = ZW_LR_MAX_NODEMASK_LENGTH"

locale module_link =
  fixes lk :: "'m zwapi_link" and ok :: "'m \<Rightarrow> bool"
  assumes link_send: "ok m \<Longrightarrow> returns (\<lambda>(st, m'). ok m') (lk_send_frame lk command payload len m)"
    and link_send_with_response:
      "ok m \<Longrightarrow> returns (\<lambda>(st, response, m'). ok m' \<and> response_frame st response) (lk_send_frame_with_response lk command payload len m)"
    and link_send_no_ack: "ok m \<Longrightarrow> returns (\<lambda>(st, m'). ok m') (lk_send_frame_no_ack lk command payload len m)"
    and link_enqueue: "ok m \<Longrightarrow> returns ok (lk_enqueue_rx_frames lk m)"
    and link_dequeue: "ok m \<Longrightarrow> lk_dequeue_frame lk m = (frame, again, m') \<Longrightarrow> ok m' \<and> queued_frame frame"
    and link_flush: "ok m \<Longrightarrow> ok (lk_flush_queue lk m)"
    and link_restart: "ok m \<Longrightarrow> returns (\<lambda>(fd, m'). ok m') (lk_restart lk m)"
    and link_notify: "ok m \<Longrightarrow> returns ok (lk_notify_connection_lost lk m)"
    and link_clock: "ok m \<Longrightarrow> ok (snd (lk_clock lk m))"
begin

lemma support_command_returns:
  assumes "zw_ok ok z" and "c \<noteq> 0" and "c \<le> 248"
  shows "\<exists>b. zwapi_support_command_func c z = Some b"
proof -
  have "unat c \<le> 248" using assms(3) by (simp add: word_le_nat_alt)
  then show ?thesis using assms by (auto simp: zwapi_support_command_func_def zw_ok_def read_cell_def)
qed

lemma support_setup_returns:
  assumes "zw_ok ok z"
  shows "\<exists>b. zwapi_support_setup_func c z = Some b"
  using assms by (auto simp: zwapi_support_setup_func_def zw_ok_def read_cell_def Let_def)

text \<open>
  The ways to send a command, as rules to prove that a function returns: the state changes only in
  that of the link, and the response is in a buffer of 255 bytes.
\<close>

lemma call_sendI:
  assumes "zw_ok ok z" and "\<And>st m. ok m \<Longrightarrow> Q (st, z\<lparr>zw_m := m\<rparr>)"
  shows "returns Q (call_session_send_frame lk c r z)"
  unfolding call_session_send_frame_def
  using assms link_send [of "zw_m z" c "fst r" "snd r"] by (auto simp: zw_ok_def elim!: returns_mono)

lemma copy_response_returns:
  assumes "response_frame st response" and "length buf = 255"
  shows "returns (\<lambda>(buf', len). length buf' = 255 \<and> len \<le> 255 \<and> (st = SL_STATUS_OK \<longrightarrow> 3 \<le> len)) (copy_response buf response)"
  using assms by (cases response) (auto simp: copy_response_def response_frame_def returns_write_bytes)

lemma call_responseI:
  assumes "zw_ok ok z" and "length buf = 255"
    and "\<And>st buf len m. ok m \<Longrightarrow> length buf = 255 \<Longrightarrow> len \<le> 255 \<Longrightarrow> (st = SL_STATUS_OK \<Longrightarrow> 3 \<le> len) \<Longrightarrow> Q (st, buf, len, z\<lparr>zw_m := m\<rparr>)"
  shows "returns Q (call_session_send_frame_with_response lk c r buf z)"
proof -
  have "returns (\<lambda>(st, response, m). returns (\<lambda>(buf, len). Q (st, buf, len, z\<lparr>zw_m := m\<rparr>)) (copy_response buf response))
      (lk_send_frame_with_response lk c (fst r) (snd r) (zw_m z))"
  proof (rule returns_mono [OF link_send_with_response], goal_cases)
    case (2 x)
    then show ?case
      using copy_response_returns [OF _ assms(2), of "fst x" "fst (snd x)"] by (auto elim!: returns_mono intro!: assms(3))
  qed (use assms(1) in \<open>simp add: zw_ok_def\<close>)
  then show ?thesis by (simp add: call_session_send_frame_with_response_def case_prod_unfold)
qed

lemma commandI:
  assumes "zw_ok ok z" and "c \<noteq> 0" and "c \<le> 248" and "\<And>st m. ok m \<Longrightarrow> Q (st, z\<lparr>zw_m := m\<rparr>)"
  shows "returns Q (zwapi_send_command lk c r z)"
proof -
  have "Q (SL_STATUS_NOT_SUPPORTED, z)" using assms(4) [of "zw_m z"] assms(1) by (simp add: zw_ok_def)
  then show ?thesis
    using support_command_returns [OF assms(1-3)] call_sendI [where Q = Q, OF assms(1,4)] by (auto simp: zwapi_send_command_def)
qed

lemma responseI:
  assumes "zw_ok ok z" and "c \<noteq> 0" and "c \<le> 248"
    and "\<And>st buf len m. ok m \<Longrightarrow> length buf = 255 \<Longrightarrow> len \<le> 255 \<Longrightarrow> (st = SL_STATUS_OK \<Longrightarrow> 3 \<le> len) \<Longrightarrow> Q (st, buf, len, z\<lparr>zw_m := m\<rparr>)"
  shows "returns Q (zwapi_send_command_with_response lk c r z)"
proof -
  have "length zero_response = 255" by (simp add: zero_response_def)
  then show ?thesis
    using support_command_returns [OF assms(1-3)] call_responseI [where Q = Q, OF assms(1) _ assms(4)] assms(4) [of "zw_m z" zero_response 0 SL_STATUS_NOT_SUPPORTED] assms(1)
    by (auto simp: zwapi_send_command_with_response_def zw_ok_def)
qed

lemma no_ackI:
  assumes "zw_ok ok z" and "c \<noteq> 0" and "c \<le> 248" and "\<And>st m. ok m \<Longrightarrow> Q (st, z\<lparr>zw_m := m\<rparr>)"
  shows "returns Q (zwapi_send_command_no_ack lk c r z)"
proof -
  have "returns (\<lambda>(st, m). Q (st, z\<lparr>zw_m := m\<rparr>)) (lk_send_frame_no_ack lk c (fst r) (snd r) (zw_m z))"
    by (rule returns_mono [OF link_send_no_ack]) (use assms in \<open>auto simp: zw_ok_def\<close>)
  then show ?thesis
    using support_command_returns [OF assms(1-3)] assms(4) [of "zw_m z"] assms(1)
    by (auto simp: zwapi_send_command_no_ack_def zw_ok_def case_prod_unfold)
qed

lemma acceptedI:
  assumes "zw_ok ok z" and "c \<noteq> 0" and "c \<le> 248" and "\<And>b m. ok m \<Longrightarrow> Q (b, z\<lparr>zw_m := m\<rparr>)"
  shows "returns Q (send_accepted lk c r z)"
  unfolding send_accepted_def returns_simps by (rule responseI [OF assms(1-3)]) (simp add: assms(4))

end

section \<open>Sessions on the serial port\<close>

definition serial_link :: "serial_port session zwapi_link" where
  "serial_link =
     \<lparr>lk_send_frame = zwapi_session_send_frame serial_interface id,
      lk_send_frame_with_response = zwapi_session_send_frame_with_response serial_interface id,
      lk_send_frame_no_ack = zwapi_session_send_frame_no_ack serial_interface id,
      lk_enqueue_rx_frames = zwapi_session_enqueue_rx_frames serial_interface id,
      lk_dequeue_frame = zwapi_session_dequeue_frame,
      lk_flush_queue = zwapi_session_flush_queue,
      lk_restart = zwapi_session_restart serial_interface id,
      lk_notify_connection_lost = zwapi_session_notify_connection_lost id,
      lk_clock = (\<lambda>s. case clock_gettime serial_interface (device (conn s)) of (t, d) \<Rightarrow> (t, s\<lparr>conn := (conn s)\<lparr>device := d\<rparr>\<rparr>))\<rparr>"

text \<open>The clock makes progress, the mutex is free and the queued frames have a type and at most 255 bytes.\<close>

definition frames_queued :: "'d session \<Rightarrow> bool" where
  "frames_queued s \<longleftrightarrow> (\<forall>f \<in> set (zwapi_session_rx_queue s). 2 \<le> length f \<and> length f \<le> 255)"

definition session_ready :: "serial_port session \<Rightarrow> bool" where
  "session_ready s \<longleftrightarrow> progressing (clock_of (conn s)) \<and> \<not> session_serial_mutex s \<and> frames_queued s"

lemma last_frame_length: "length (zwapi_connection_get_last_rx_frame 255 c) \<le> 255"
  using unsigned_less [of "rx_buffer_length c", where ?'a = nat] by (auto simp: zwapi_connection_get_last_rx_frame_def)

interpretation frames: session_predicate frames_queued id
proof (unfold_locales, goal_cases)
  case (2 s)
  then show ?case
    using last_frame_length [of "conn s"] by (auto simp: frames_queued_def zwapi_session_enqueue_frame_def Let_def)
qed (simp_all add: frames_queued_def session_unlock_def record_loss_def)

lemma ready_advances:
  "session_ready s \<Longrightarrow> advances (conn s) (conn s') \<Longrightarrow> \<not> session_serial_mutex s' \<Longrightarrow> frames_queued s' \<Longrightarrow> session_ready s'"
  by (simp add: session_ready_def advances_clock)

lemma ready_conn: "session_ready s \<Longrightarrow> advances (conn s) c \<Longrightarrow> session_ready (s\<lparr>conn := c\<rparr>)"
  by (rule ready_advances) (auto simp: session_ready_def frames_queued_def)

lemma ready_notify:
  assumes "session_ready s"
  shows "returns session_ready (zwapi_session_notify_connection_lost id s)"
proof -
  obtain s' where s': "zwapi_session_notify_connection_lost id s = Some s'" "conn s' = conn s"
    using notify_returns [of s] assms by (auto simp: session_ready_def)
  then show ?thesis
    using assms notify_mutex [OF s'(1)] frames.notify_I [OF s'(1)] by (simp add: session_ready_def)
qed

lemma ready_enqueue:
  assumes "session_ready s"
  shows "returns session_ready (zwapi_session_enqueue_rx_frames serial_interface id s)"
proof -
  obtain l u s1 where d: "drain_locked serial_interface id s = Some (l, u, s1)" "advances (conn s) (conn s1)"
    using drain_locked_returns [of s] assms by (auto simp: session_ready_def)
  have "session_ready s1"
    using ready_advances [OF assms d(2)] drain_locked_mutex [OF d(1)] frames.drain_locked_I [OF d(1)] assms by (simp add: session_ready_def)
  then show ?thesis using d(1) ready_notify by (simp add: zwapi_session_enqueue_rx_frames_def)
qed

lemma send_frame_returns:
  assumes "session_ready s"
  obtains st s' where "send_frame serial_interface id command payload len s = Some (st, s')" and "advances (conn s) (conn s')"
    and "session_serial_mutex s' = (st = SL_STATUS_OK)" and "frames_queued s'"
proof -
  obtain l u s1 where d: "drain_locked serial_interface id s = Some (l, u, s1)" "advances (conn s) (conn s1)"
    using drain_locked_returns [of s] assms by (auto simp: session_ready_def)
  have ready: "session_ready s1"
    using ready_advances [OF assms d(2)] drain_locked_mutex [OF d(1)] frames.drain_locked_I [OF d(1)] assms by (simp add: session_ready_def)
  have "returns (\<lambda>s2. session_ready s2 \<and> conn s2 = conn s1) (if l then zwapi_session_notify_connection_lost id s1 else Some s1)"
    using ready ready_notify [OF ready] notify_returns [of s1] by (auto simp: returns_def session_ready_def)
  then obtain s2 where s2: "(if l then zwapi_session_notify_connection_lost id s1 else Some s1) = Some s2" "session_ready s2" "conn s2 = conn s1"
    by (auto simp: returns_def)
  then obtain st s3 where s3: "send_frame_retries serial_interface id command payload len 20 0 True s2 = Some (st, s3)" "advances (conn s2) (conn s3)"
    using send_frame_retries_returns [of s2 command payload len 20 0 True] by (auto simp: session_ready_def)
  have "session_serial_mutex s3 = (st = SL_STATUS_OK)" "frames_queued s3"
    using send_frame_retries_mutex [OF s3(1)] frames.send_frame_retries_I [OF s3(1)] s2(2) by (auto simp: session_ready_def)
  moreover have "send_frame serial_interface id command payload len s = (if u then Some (SL_STATUS_FAIL, s2) else Some (st, s3))"
    using d(1) s2(1) s3(1) by (simp add: send_frame_def)
  ultimately show ?thesis
    using that d(2) s2 s3(2) by (cases u) (auto simp: session_ready_def intro: advances_trans)
qed

lemma ready_unlock:
  "advances (conn s) (conn s') \<Longrightarrow> session_ready s \<Longrightarrow> frames_queued s' \<Longrightarrow> session_ready (session_unlock s')"
  using ready_advances [of s "session_unlock s'"] by (auto simp: session_unlock_def frames_queued_def)

lemma ready_send:
  assumes "session_ready s"
  shows "returns (\<lambda>(st, s'). session_ready s') (zwapi_session_send_frame serial_interface id command payload len s)"
proof -
  obtain st s' where "send_frame serial_interface id command payload len s = Some (st, s')" "advances (conn s) (conn s')"
    "session_serial_mutex s' = (st = SL_STATUS_OK)" "frames_queued s'"
    using send_frame_returns [OF assms] .
  then show ?thesis
    using assms ready_unlock [of s s'] ready_advances [OF assms, of s'] by (auto simp: zwapi_session_send_frame_def)
qed

lemma await_response_returns:
  assumes "progressing (clock_of (conn s))"
  shows "\<exists>response lost s'. await_response serial_interface command n s = Some (response, lost, s') \<and> advances (conn s) (conn s') \<and>
     (\<forall>f. response = Some f \<longrightarrow> 3 \<le> length f \<and> length f \<le> 255)"
  using assms
proof (induction n arbitrary: s)
  case 0
  then show ?case by (auto simp: advances_def)
next
  case (Suc n)
  obtain r c where w: "zwapi_session_wait_for_response serial_interface (conn s) = Some (r, c)" "advances (conn s) c"
    using wait_returns [OF Suc.prems] by blast
  have p: "progressing (clock_of c)" using Suc.prems advances_clock [OF w(2)] by simp
  have again: "\<exists>response lost s'. await_response serial_interface command n t = Some (response, lost, s') \<and> advances (conn s) (conn s') \<and>
     (\<forall>f. response = Some f \<longrightarrow> 3 \<le> length f \<and> length f \<le> 255)" if "conn t = c" for t
    using Suc.IH [of t] that p advances_trans [OF w(2)] by metis
  show ?case
    using w again [of "s\<lparr>conn := c\<rparr>"] again [of "zwapi_session_enqueue_frame (s\<lparr>conn := c\<rparr>)"] last_frame_length [of c]
    by (auto simp: Let_def)
qed

lemma ready_send_with_response:
  assumes "session_ready s"
  shows "returns (\<lambda>(st, response, s'). session_ready s' \<and> response_frame st response)
    (zwapi_session_send_frame_with_response serial_interface id command payload len s)"
proof -
  obtain st s1 where s1: "send_frame serial_interface id command payload len s = Some (st, s1)" "advances (conn s) (conn s1)"
    "session_serial_mutex s1 = (st = SL_STATUS_OK)" "frames_queued s1"
    using send_frame_returns [OF assms] .
  have "progressing (clock_of (conn s1))" using assms advances_clock [OF s1(2)] by (simp add: session_ready_def)
  then obtain response lost s2 where s2: "await_response serial_interface command 3 s1 = Some (response, lost, s2)" "advances (conn s1) (conn s2)"
    "\<forall>f. response = Some f \<longrightarrow> 3 \<le> length f \<and> length f \<le> 255"
    using await_response_returns by blast
  have ready: "session_ready (session_unlock s2)"
    using ready_unlock [OF advances_trans [OF s1(2) s2(2)] assms] frames.await_response_I [OF s2(1) s1(4)] .
  show ?thesis
    using s1 s2 ready ready_notify [OF ready] ready_advances [OF assms s1(2)]
    by (auto simp: zwapi_session_send_frame_with_response_def response_frame_def case_prod_unfold elim!: returns_mono split: option.splits)
qed

lemma ready_send_no_ack:
  assumes "session_ready s"
  shows "returns (\<lambda>(st, s'). session_ready s') (zwapi_session_send_frame_no_ack serial_interface id command payload len s)"
proof -
  let ?s = "s\<lparr>session_serial_mutex := True\<rparr>"
  obtain lost s1 where s1: "enqueue_rx_frames serial_interface ?s = Some (lost, s1)" "advances (conn s) (conn s1)"
    using enqueue_rx_frames_returns [of ?s] by auto
  have q: "frames_queued s1"
    using frames.enqueue_rx_frames_I [OF s1(1)] assms by (simp add: session_ready_def frames_queued_def)
  obtain st c where c: "zwapi_connection_tx serial_interface command 0 payload len False (conn s1) = (st, c)" by fastforce
  have a: "advances (conn s) c"
    using tx_advances [of "conn s1" command 0 payload len False] c advances_trans [OF s1(2)] by simp
  have ready: "session_ready (session_unlock s1)" "session_ready (session_unlock (s1\<lparr>conn := c\<rparr>))"
    using ready_unlock [OF s1(2) assms q] ready_unlock [of s "s1\<lparr>conn := c\<rparr>"] a assms q by (simp_all add: frames_queued_def)
  have "session_lock id s = Some ?s" using assms by (simp add: session_lock_def session_ready_def)
  then show ?thesis
    using s1(1) c ready ready_notify [OF ready(1)] ready_notify [OF ready(2)]
    by (auto simp: zwapi_session_send_frame_no_ack_def Let_def returns_def split: if_splits)
qed

lemma ready_restart:
  assumes "session_ready s"
  shows "returns (\<lambda>(fd, s'). session_ready s') (zwapi_session_restart serial_interface id s)"
proof -
  obtain fd c where c: "zwapi_connection_restart serial_interface (conn s) = (fd, c)" by fastforce
  have "session_ready (s\<lparr>conn := c\<rparr>)"
    using ready_conn [OF assms] restart_advances [of "conn s"] c by simp
  then show ?thesis using c ready_notify by (auto simp: zwapi_session_restart_def)
qed

interpretation serial: module_link serial_link session_ready
proof (unfold_locales, goal_cases)
  case (5 m frame again m')
  then show ?case
    by (auto simp: serial_link_def zwapi_session_dequeue_frame_def session_ready_def frames_queued_def queued_frame_def split: list.splits)
next
  case (9 m)
  then show ?case
    using ready_conn [of m] by (auto simp: serial_link_def serial_interface_def serial_clock_def advances_def)
next
  case (6 m)
  then show ?case by (simp add: serial_link_def zwapi_session_flush_queue_def session_ready_def frames_queued_def)
qed (simp_all add: serial_link_def ready_send ready_send_with_response ready_send_no_ack ready_enqueue ready_restart ready_notify)

end
