(* ===== verification/Zwapi_Calls.thy ===== *)
theory Zwapi_Calls
  imports Zwapi_Link
begin

text \<open>
  The functions of the Z-Wave API as calls, how many bytes each writes to its request buffer of 180
  bytes, and that this number alone decides whether a call stays within its arrays. The functions
  whose safety depends on what the module answers are in \<open>Zwapi_Responses\<close>.
\<close>

section \<open>Calls\<close>

datatype basis_call =
  Soft_reset | Get_zw_protocol_status | Get_zw_library_type | Set_rf_receive_mode u8 | Set_rf_power_level u8 | Get_rf_power_level
| Set_tx_status_reporting bool | Set_max_lr_tx_power_level u16 | Set_tx_power_level u16 u16 | Get_max_lr_tx_power_level
| Get_tx_power_level | Is_pti_enabled | Set_radio_pti bool | Set_rf_region u8 | Get_rf_region | Get_maximum_payload_size
| Get_lr_maximum_payload_size | Set_node_id_basetype node_id_basetype | Send_node_information node_id u8 nat
| Send_test_frame node_id u8 nat | Get_random_word u8 | Get_random_byte | Explore_request_inclusion | Explore_request_exclusion
| Disable_watchdog | Enable_watchdog | Start_watchdog | Get_background_rssi
| Set_application_node_information u8 u8 u8 "u8 list" | Enable_auto_program_mode | Get_long_range_channel | Set_long_range_channel u8

fun basis_step :: "'m zwapi_link \<Rightarrow> basis_call \<Rightarrow> 'm zw \<Rightarrow> 'm zw option" where
  "basis_step lk Soft_reset z = map_option snd (zwapi_soft_reset lk z)"
| "basis_step lk Get_zw_protocol_status z = map_option snd (zwapi_get_zw_protocol_status lk z)"
| "basis_step lk Get_zw_library_type z = map_option snd (zwapi_get_zw_library_type lk z)"
| "basis_step lk (Set_rf_receive_mode mode) z = map_option snd (zwapi_set_rf_receive_mode lk mode z)"
| "basis_step lk (Set_rf_power_level level) z = map_option snd (zwapi_set_rf_power_level lk level z)"
| "basis_step lk Get_rf_power_level z = map_option snd (zwapi_get_rf_power_level lk z)"
| "basis_step lk (Set_tx_status_reporting enable) z = map_option snd (zwapi_set_tx_status_reporting lk enable z)"
| "basis_step lk (Set_max_lr_tx_power_level level) z = map_option snd (zwapi_set_max_lr_tx_power_level lk level z)"
| "basis_step lk (Set_tx_power_level normal measured0dBm) z = map_option snd (zwapi_set_tx_power_level lk normal measured0dBm z)"
| "basis_step lk Get_max_lr_tx_power_level z = map_option snd (zwapi_get_max_lr_tx_power_level lk z)"
| "basis_step lk Get_tx_power_level z = map_option snd (zwapi_get_tx_power_level lk z)"
| "basis_step lk Is_pti_enabled z = map_option snd (zwapi_is_pti_enabled lk z)"
| "basis_step lk (Set_radio_pti enable) z = map_option snd (zwapi_set_radio_pti lk enable z)"
| "basis_step lk (Set_rf_region region) z = map_option snd (zwapi_set_rf_region lk region z)"
| "basis_step lk Get_rf_region z = map_option snd (zwapi_get_rf_region lk z)"
| "basis_step lk Get_maximum_payload_size z = map_option (snd \<circ> snd) (zwapi_get_maximum_payload_size lk z)"
| "basis_step lk Get_lr_maximum_payload_size z = map_option (snd \<circ> snd) (zwapi_get_lr_maximum_payload_size lk z)"
| "basis_step lk (Set_node_id_basetype basetype) z = map_option snd (zwapi_set_node_id_basetype lk basetype z)"
| "basis_step lk (Send_node_information node tx_options f) z = map_option snd (zwapi_send_node_information lk node tx_options f z)"
| "basis_step lk (Send_test_frame node level f) z = map_option snd (zwapi_send_test_frame lk node level f z)"
| "basis_step lk (Get_random_word n) z = map_option (snd \<circ> snd) (zwapi_get_random_word lk n z)"
| "basis_step lk Get_random_byte z = map_option (snd \<circ> snd) (zwapi_get_random_byte lk z)"
| "basis_step lk Explore_request_inclusion z = map_option snd (zwapi_explore_request_inclusion lk z)"
| "basis_step lk Explore_request_exclusion z = map_option snd (zwapi_explore_request_exclusion lk z)"
| "basis_step lk Disable_watchdog z = map_option snd (zwapi_disable_watchdog lk z)"
| "basis_step lk Enable_watchdog z = map_option snd (zwapi_enable_watchdog lk z)"
| "basis_step lk Start_watchdog z = map_option snd (zwapi_start_watchdog lk z)"
| "basis_step lk Get_background_rssi z = map_option (snd \<circ> snd) (zwapi_get_background_rssi lk z)"
| "basis_step lk (Set_application_node_information listening generic specific nodeParm) z =
     map_option snd (zwapi_set_application_node_information lk listening generic specific nodeParm z)"
| "basis_step lk Enable_auto_program_mode z = map_option snd (zwapi_enable_auto_program_mode lk z)"
| "basis_step lk Get_long_range_channel z = map_option (snd \<circ> snd) (zwapi_get_long_range_channel lk z)"
| "basis_step lk (Set_long_range_channel channel) z = map_option snd (zwapi_set_long_range_channel lk channel z)"

datatype controller_call =
  Request_neighbor_update node_id nat | Get_protocol_info node_id | Get_virtual_nodes | Set_default nat
| Transfer_primary_ctrl_role u8 nat | Create_new_primary_ctrl u8 nat | Add_node_to_network u8 nat | Remove_node_from_network u8 nat
| Remove_node_id_from_network u8 node_id nat | Remove_failed_node node_id nat | Replace_failed_node node_id bool nat
| Assign_return_route node_id node_id nat | Delete_return_route node_id nat | Assign_suc_return_route node_id nat
| Delete_suc_return_route node_id nat | Get_suc_node_id | Set_suc_node_id node_id u8 u8 u8 nat | Set_learn_mode u8 nat
| Set_virtual_node_to_learn_mode node_id u8 nat | Request_node_info node_id
| Request_protocol_cc_encryption_callback u8 zwapi_tx_report u8 | Send_controller_replication node_id "u8 list" u8 nat
| Get_controller_capabilities | Request_network_update nat | Replication_receive_complete | Is_node_primary_ctrl | Is_node_failed node_id
| Set_max_source_route u8 | Get_priority_route node_id | Set_priority_route node_id "u8 list" | Get_old_routing_info node_id u8 u8
| Enable_suc u8 u8 | Add_smartstart_node_to_network u8 "u8 list" nat
| Set_virtual_node_application_node_information node_id u8 u8 u8 "u8 list" | Enable_node_nls node_id | Get_node_nls node_id
| Transfer_protocol_cc node_id u8 "u8 list"

text \<open>A node mask of the caller has the size of its type.\<close>

fun controller_step :: "'m zwapi_link \<Rightarrow> controller_call \<Rightarrow> 'm zw \<Rightarrow> 'm zw option" where
  "controller_step lk (Request_neighbor_update node f) z = map_option snd (zwapi_request_neighbor_update lk node f z)"
| "controller_step lk (Get_protocol_info node) z = map_option (snd \<circ> snd) (zwapi_get_protocol_info lk node z)"
| "controller_step lk Get_virtual_nodes z = map_option (snd \<circ> snd) (zwapi_get_virtual_nodes lk (replicate ZW_LR_MAX_NODEMASK_LENGTH 0) z)"
| "controller_step lk (Set_default f) z = map_option snd (zwapi_set_default lk f z)"
| "controller_step lk (Transfer_primary_ctrl_role mode f) z = map_option snd (zwapi_transfer_primary_ctrl_role lk mode f z)"
| "controller_step lk (Create_new_primary_ctrl mode f) z = map_option snd (zwapi_create_new_primary_ctrl lk mode f z)"
| "controller_step lk (Add_node_to_network mode f) z = map_option snd (zwapi_add_node_to_network lk mode f z)"
| "controller_step lk (Remove_node_from_network mode f) z = map_option snd (zwapi_remove_node_from_network lk mode f z)"
| "controller_step lk (Remove_node_id_from_network mode node f) z = map_option snd (zwapi_remove_node_id_from_network lk mode node f z)"
| "controller_step lk (Remove_failed_node node f) z = map_option snd (zwapi_remove_failed_node lk node f z)"
| "controller_step lk (Replace_failed_node node normal f) z = map_option snd (zwapi_replace_failed_node lk node normal f z)"
| "controller_step lk (Assign_return_route source destination f) z = map_option snd (zwapi_assign_return_route lk source destination f z)"
| "controller_step lk (Delete_return_route node f) z = map_option snd (zwapi_delete_return_route lk node f z)"
| "controller_step lk (Assign_suc_return_route node f) z = map_option snd (zwapi_assign_suc_return_route lk node f z)"
| "controller_step lk (Delete_suc_return_route node f) z = map_option snd (zwapi_delete_suc_return_route lk node f z)"
| "controller_step lk Get_suc_node_id z = map_option snd (zwapi_get_suc_node_id lk z)"
| "controller_step lk (Set_suc_node_id node state tx_option capabilities f) z = map_option snd (zwapi_set_suc_node_id lk node state tx_option capabilities f z)"
| "controller_step lk (Set_learn_mode mode f) z = map_option snd (zwapi_set_learn_mode lk mode f z)"
| "controller_step lk (Set_virtual_node_to_learn_mode node mode f) z = map_option snd (zwapi_set_virtual_node_to_learn_mode lk node mode f z)"
| "controller_step lk (Request_node_info node) z = map_option snd (zwapi_request_node_info lk node z)"
| "controller_step lk (Request_protocol_cc_encryption_callback tx_status report session_id) z =
     map_option snd (zwapi_request_protocol_cc_encryption_callback lk tx_status report session_id z)"
| "controller_step lk (Send_controller_replication node data tx_options f) z =
     map_option snd (zwapi_send_controller_replication lk node data tx_options f z)"
| "controller_step lk Get_controller_capabilities z = map_option snd (zwapi_get_controller_capabilities lk z)"
| "controller_step lk (Request_network_update f) z = map_option snd (zwapi_request_network_update lk f z)"
| "controller_step lk Replication_receive_complete z = map_option snd (zwapi_replication_receive_complete lk z)"
| "controller_step lk Is_node_primary_ctrl z = map_option snd (zwapi_is_node_primary_ctrl lk z)"
| "controller_step lk (Is_node_failed node) z = map_option snd (zwapi_is_node_failed lk node z)"
| "controller_step lk (Set_max_source_route n) z = map_option snd (zwapi_set_max_source_route lk n z)"
| "controller_step lk (Get_priority_route node) z = map_option (snd \<circ> snd) (zwapi_get_priority_route lk node z)"
| "controller_step lk (Set_priority_route node route) z = map_option snd (zwapi_set_priority_route lk node route z)"
| "controller_step lk (Get_old_routing_info node bad non_reps) z =
     map_option (snd \<circ> snd) (zwapi_get_old_routing_info lk node (replicate ZW_MAX_NODEMASK_LENGTH 0) bad non_reps z)"
| "controller_step lk (Enable_suc state capabilities) z = map_option snd (zwapi_enable_suc lk state capabilities z)"
| "controller_step lk (Add_smartstart_node_to_network mode dsk f) z = map_option snd (zwapi_add_smartstart_node_to_network lk mode dsk f z)"
| "controller_step lk (Set_virtual_node_application_node_information node listening generic specific nodeParm) z =
     map_option snd (zwapi_set_virtual_node_application_node_information lk node listening generic specific nodeParm z)"
| "controller_step lk (Enable_node_nls node) z = map_option snd (zwapi_enable_node_nls lk node z)"
| "controller_step lk (Get_node_nls node) z = map_option (snd \<circ> snd) (zwapi_get_node_nls lk node z)"
| "controller_step lk (Transfer_protocol_cc node key payload) z = map_option snd (zwapi_transfer_protocol_cc lk node key payload z)"

datatype memory_call =
  Nvr_get_value u8 u8 "u8 list" | Memory_get_ids | Memory_get_byte u16 | Memory_put_byte u16 u8 | Memory_get_buffer u16 "u8 list" u8
| Memory_put_buffer u16 "u8 list" nat | Nvm_close | Nvm_open | Nvm_read u32 "u8 list" u8 | Nvm_write u32 "u8 list"

fun memory_step :: "'m zwapi_link \<Rightarrow> memory_call \<Rightarrow> 'm zw \<Rightarrow> 'm zw option" where
  "memory_step lk (Nvr_get_value offset n target) z = map_option (snd \<circ> snd) (zwapi_nvr_get_value lk offset n target z)"
| "memory_step lk Memory_get_ids z = map_option (snd \<circ> snd) (zwapi_memory_get_ids lk z)"
| "memory_step lk (Memory_get_byte offset) z = map_option (snd \<circ> snd) (zwapi_memory_get_byte lk offset z)"
| "memory_step lk (Memory_put_byte offset b) z = map_option snd (zwapi_memory_put_byte lk offset b z)"
| "memory_step lk (Memory_get_buffer offset target n) z = map_option (snd \<circ> snd) (zwapi_memory_get_buffer lk offset target n z)"
| "memory_step lk (Memory_put_buffer offset data f) z = map_option snd (zwapi_memory_put_buffer lk offset data f z)"
| "memory_step lk Nvm_close z = map_option snd (zwapi_nvm_close lk z)"
| "memory_step lk Nvm_open z = map_option snd (zwapi_nvm_open lk z)"
| "memory_step lk (Nvm_read offset target n) z = map_option (snd \<circ> snd \<circ> snd) (zwapi_nvm_read lk offset target n z)"
| "memory_step lk (Nvm_write offset data) z = map_option (snd \<circ> snd) (zwapi_nvm_write lk offset data z)"

datatype transport_call =
  Send_data_multi_bridge node_id nodemask "u8 list" u8 nat | Lock_route bool | Send_data_bridge node_id node_id "u8 list" u8 nat
| Send_data_multi nodemask "u8 list" u8 nat | Send_data node_id "u8 list" u8 nat
| Send_protocol_data node_id "u8 list" protocol_metadata nat | Abort_send_data | Send_nop node_id u8 nat

fun transport_step :: "'m zwapi_link \<Rightarrow> transport_call \<Rightarrow> 'm zw \<Rightarrow> 'm zw option" where
  "transport_step lk (Send_data_multi_bridge source node_mask data tx_options f) z =
     map_option snd (zwapi_send_data_multi_bridge lk source node_mask data tx_options f z)"
| "transport_step lk (Lock_route lock) z = map_option snd (zwapi_lock_route lk lock z)"
| "transport_step lk (Send_data_bridge source destination data tx_options f) z =
     map_option snd (zwapi_send_data_bridge lk source destination data tx_options f z)"
| "transport_step lk (Send_data_multi node_mask data tx_options f) z = map_option snd (zwapi_send_data_multi lk node_mask data tx_options f z)"
| "transport_step lk (Send_data destination data tx_options f) z = map_option snd (zwapi_send_data lk destination data tx_options f z)"
| "transport_step lk (Send_protocol_data destination data metadata f) z =
     map_option snd (zwapi_send_protocol_data lk destination data metadata f z)"
| "transport_step lk Abort_send_data z = map_option snd (zwapi_abort_send_data lk z)"
| "transport_step lk (Send_nop destination tx_options f) z = map_option snd (zwapi_send_nop lk destination tx_options f z)"

datatype api_call = Basis basis_call | Controller controller_call | Memory memory_call | Transport transport_call

fun api_step :: "'m zwapi_link \<Rightarrow> api_call \<Rightarrow> 'm zw \<Rightarrow> 'm zw option" where
  "api_step lk (Basis c) z = basis_step lk c z"
| "api_step lk (Controller c) z = controller_step lk c z"
| "api_step lk (Memory c) z = memory_step lk c z"
| "api_step lk (Transport c) z = transport_step lk c z"

section \<open>Requests that do not fit\<close>

definition id_length :: "'m zw \<Rightarrow> nat" where
  "id_length z = length (node_id_bytes (node_id_basetype_setting z) 0)"

text \<open>
  The calls that write past the end of their request buffer: those with data of the caller. The
  functions that send to one node compare the length of the data with 178 before.
\<close>

fun overruns :: "api_call \<Rightarrow> 'm zw \<Rightarrow> bool" where
  "overruns (Basis (Set_application_node_information listening generic specific nodeParm)) z \<longleftrightarrow> 4 + length nodeParm > REQUEST_BUFFER_SIZE"
| "overruns (Controller (Send_controller_replication node data tx_options f)) z \<longleftrightarrow> id_length z + 3 + length data > REQUEST_BUFFER_SIZE"
| "overruns (Controller (Set_virtual_node_application_node_information node listening generic specific nodeParm)) z \<longleftrightarrow>
     id_length z + 4 + length nodeParm > REQUEST_BUFFER_SIZE"
| "overruns (Memory (Memory_put_buffer offset data f)) z \<longleftrightarrow>
     zwapi_support_command_func FUNC_ID_MEMORY_PUT_BUFFER z = Some True \<and> length data \<le> 247 \<and> 5 + length data > REQUEST_BUFFER_SIZE"
| "overruns (Memory (Nvm_write offset data)) z \<longleftrightarrow> 4 + length data > REQUEST_BUFFER_SIZE"
| "overruns (Transport (Send_data_multi_bridge source node_mask data tx_options f)) z \<longleftrightarrow>
     id_length z * (1 + length (members node_mask)) + 4 + length data > REQUEST_BUFFER_SIZE"
| "overruns (Transport (Send_data_multi node_mask data tx_options f)) z \<longleftrightarrow>
     id_length z * ((if library_type (chip z) = ZWAVE_LIBRARY_TYPE_CONTROLLER_BRIDGE then 1 else 0) + length (members node_mask)) + 4 + length data > REQUEST_BUFFER_SIZE"
| "overruns (Transport (Send_data_bridge source destination data tx_options f)) z \<longleftrightarrow>
     length data \<le> 178 \<and> 2 * id_length z + 7 + length data > REQUEST_BUFFER_SIZE"
| "overruns (Transport (Send_data destination data tx_options f)) z \<longleftrightarrow>
     length data \<le> 178 \<and>
     (if library_type (chip z) = ZWAVE_LIBRARY_TYPE_CONTROLLER_BRIDGE then 2 * id_length z + 7 else id_length z + 3) + length data > REQUEST_BUFFER_SIZE"
| "overruns (Transport (Send_protocol_data destination data metadata f)) z \<longleftrightarrow>
     length data + length (pm_data metadata) \<le> 178 \<and> id_length z + 3 + length data + length (pm_data metadata) > REQUEST_BUFFER_SIZE"
| "overruns c z \<longleftrightarrow> False"

section \<open>Every other call returns\<close>

lemma returns_map_option [simp]: "returns Q (map_option f m) = returns (\<lambda>x. Q (f x)) m"
  by (auto simp: returns_def)

lemma zw_ok_updates [simp]:
  "zw_ok ok (set_callback c f z) = zw_ok ok z"
  "zw_ok ok (z\<lparr>rf_region_cache_valid := b\<rparr>) = zw_ok ok z"
  "zw_ok ok (z\<lparr>rf_region_cache := v\<rparr>) = zw_ok ok z"
  "zw_ok ok (z\<lparr>awaiting_zwave_api_started := b\<rparr>) = zw_ok ok z"
  "zw_ok ok (z\<lparr>node_id_basetype_setting := t\<rparr>) = zw_ok ok z"
  "zw_ok ok (z\<lparr>learnNodeInfo := l\<rparr>) = zw_ok ok z"
  "zw_ok ok (zw_emit e z) = zw_ok ok z"
  by (simp_all add: zw_ok_def set_callback_def zw_emit_def)

lemma zw_ok_link: "zw_ok ok z \<Longrightarrow> ok m \<Longrightarrow> zw_ok ok (z\<lparr>zw_m := m\<rparr>)"
  by (simp add: zw_ok_def)

lemma node_id_bytes_length: "length (node_id_bytes (node_id_basetype_setting z) n) = id_length z"
  by (simp add: id_length_def length_node_id_bytes)

lemma id_length_updates [simp]:
  "node_id_basetype_setting (set_callback c f z) = node_id_basetype_setting z"
  "id_length (set_callback c f z) = id_length z" "id_length (z\<lparr>zw_m := m\<rparr>) = id_length z"
  by (simp_all add: id_length_def set_callback_def)

lemma id_length_bounds: "1 \<le> id_length z" "id_length z \<le> 2"
  by (simp_all add: id_length_def length_node_id_bytes split: node_id_basetype.split)

text \<open>The request of a multicast frame: its length byte is written after the members that it counts.\<close>

lemma skip_built:
  assumes "length bs < REQUEST_BUFFER_SIZE"
  shows "(fst (built bs), snd (built bs) + 1) = built (bs @ [0])"
proof -
  have "replicate (REQUEST_BUFFER_SIZE - length bs) (0 :: u8) = 0 # replicate (REQUEST_BUFFER_SIZE - Suc (length bs)) 0"
    using assms by (simp add: Suc_diff_Suc flip: replicate_Suc)
  then show ?thesis by (simp add: built_def ac_simps)
qed

lemma write_members_built:
  assumes "length bs \<le> REQUEST_BUFFER_SIZE"
  shows "write_members z ns k (built bs) =
    (if length bs + id_length z * length ns \<le> REQUEST_BUFFER_SIZE
     then Some (k + of_nat (length ns), built (bs @ concat (map (node_id_bytes (node_id_basetype_setting z)) ns))) else None)"
  using assms
proof (induction ns arbitrary: k bs)
  case (Cons n ns)
  then show ?case
    using Cons.IH [of "bs @ node_id_bytes (node_id_basetype_setting z) n" "k + 1"]
    by (auto simp: write_node_id_built node_id_bytes_length algebra_simps)
qed simp

definition multicast_payload :: "'m zw \<Rightarrow> nodemask \<Rightarrow> u8 list \<Rightarrow> u8 \<Rightarrow> nat \<Rightarrow> u8 list" where
  "multicast_payload z node_mask data tx_options f =
     of_nat (length (members node_mask)) # concat (map (node_id_bytes (node_id_basetype_setting z)) (members node_mask)) @
     of_nat (length data) # data @ [tx_options, func_id 3 f]"

lemma length_members_bytes: "length (concat (map (node_id_bytes (node_id_basetype_setting z)) ns)) = id_length z * length ns"
  by (induction ns) (simp_all add: node_id_bytes_length)

lemma write_count:
  assumes "length bs < REQUEST_BUFFER_SIZE"
  shows "write_cell (fst (built (bs @ 0 # xs))) (unat (snd (built bs))) v = Some (fst (built (bs @ v # xs)))"
    and "snd (built (bs @ 0 # xs)) = snd (built (bs @ v # xs))"
proof -
  have "unat (of_nat (length bs) :: u8) = length bs" using assms unfolding unat_of_nat by simp
  then show "write_cell (fst (built (bs @ 0 # xs))) (unat (snd (built bs))) v = Some (fst (built (bs @ v # xs)))"
    by (simp add: built_def write_cell_def)
qed (simp add: built_def)

lemma multi_request_built:
  assumes "length bs < REQUEST_BUFFER_SIZE"
  shows "multi_request z node_mask data tx_options f (built bs) =
    (if length bs + id_length z * length (members node_mask) + 4 + length data \<le> REQUEST_BUFFER_SIZE
     then Some (built (bs @ multicast_payload z node_mask data tx_options f)) else None)"
proof (cases "length bs + 1 + id_length z * length (members node_mask) \<le> REQUEST_BUFFER_SIZE")
  case True
  let ?ids = "concat (map (node_id_bytes (node_id_basetype_setting z)) (members node_mask))"
  let ?k = "of_nat (length (members node_mask)) :: u8"
  have w: "write_members z (members node_mask) 0 (built (bs @ [0])) = Some (?k, built (bs @ 0 # ?ids))"
    using True assms by (subst write_members_built) auto
  have "multi_request z node_mask data tx_options f (built bs) =
     Option.bind (put (of_nat (length data)) (built (bs @ ?k # ?ids)))
       (\<lambda>r. Option.bind (put_all data r) (\<lambda>r. Option.bind (put tx_options r) (put (func_id 3 f))))"
    by (simp add: multi_request_def Let_def skip_built [OF assms] w write_count(1) [OF assms] write_count(2) [OF assms, of ?ids ?k])
  then show ?thesis
    using True by (auto simp: put_built put_all_built length_members_bytes multicast_payload_def)
next
  case False
  then show ?thesis
    using assms by (simp add: multi_request_def Let_def skip_built [OF assms] write_members_built)
qed

lemmas transport_defs =
  zwapi_send_data_multi_bridge_def zwapi_lock_route_def zwapi_send_data_bridge_def zwapi_send_data_multi_def zwapi_send_data_def
  zwapi_send_protocol_data_def zwapi_abort_send_data_def zwapi_send_nop_def register_if_def request_1_def

lemmas basis_defs =
  zwapi_soft_reset_def zwapi_get_zw_protocol_status_def zwapi_get_zw_library_type_def zwapi_set_rf_receive_mode_def
  zwapi_set_rf_power_level_def zwapi_get_rf_power_level_def zwapi_set_tx_status_reporting_def zwapi_set_max_lr_tx_power_level_def
  zwapi_set_tx_power_level_def zwapi_get_max_lr_tx_power_level_def zwapi_get_tx_power_level_def zwapi_is_pti_supported_def
  zwapi_is_pti_enabled_def zwapi_set_radio_pti_def zwapi_set_rf_region_def zwapi_get_rf_region_def payload_size_get_def
  zwapi_get_maximum_payload_size_def zwapi_get_lr_maximum_payload_size_def zwapi_supports_long_range_def
  zwapi_set_node_id_basetype_def zwapi_send_node_information_def zwapi_send_test_frame_def zwapi_get_random_word_def
  zwapi_get_random_byte_def zwapi_explore_request_inclusion_def zwapi_explore_request_exclusion_def zwapi_disable_watchdog_def
  zwapi_enable_watchdog_def zwapi_start_watchdog_def zwapi_get_background_rssi_def zwapi_set_application_node_information_def
  zwapi_enable_auto_program_mode_def zwapi_get_long_range_channel_def zwapi_set_long_range_channel_def request_1_def

context module_link
begin

lemma supportI:
  assumes "zw_ok ok z" and "c \<noteq> 0" and "c \<le> 248" and "\<And>b. Q b"
  shows "returns Q (zwapi_support_command_func c z)"
  using support_command_returns [OF assms(1-3)] assms(4) by auto

lemma setupI:
  assumes "zw_ok ok z" and "\<And>b. Q b"
  shows "returns Q (zwapi_support_setup_func c z)"
  using support_setup_returns [OF assms(1), of c] assms(2) by auto

lemma setup_supportedI:
  assumes "zw_ok ok z" and "\<And>b. Q b"
  shows "returns Q (setup_supported c z)"
  unfolding setup_supported_def returns_simps by (rule supportI [OF assms(1)]) (simp_all add: setupI assms)

lemmas callI = supportI setupI setup_supportedI commandI responseI no_ackI acceptedI call_responseI call_sendI zw_ok_link

lemma basis_step_returns:
  assumes "zw_ok ok z" and "\<not> overruns (Basis c) z"
  shows "returns (zw_ok ok) (basis_step lk c z)"
  using assms id_length_bounds [of z]
  by (cases c) (auto simp: basis_defs request_simps node_id_bytes_length zero_response_def Let_def intro!: callI)

lemmas controller_defs =
  zwapi_request_neighbor_update_def zwapi_get_protocol_info_def copy_mask_def zwapi_get_virtual_nodes_def zwapi_set_default_def send_mode_def
  zwapi_transfer_primary_ctrl_role_def zwapi_create_new_primary_ctrl_def zwapi_add_node_to_network_def zwapi_remove_node_from_network_def
  zwapi_remove_node_id_from_network_def send_failed_node_def zwapi_remove_failed_node_def zwapi_replace_failed_node_def send_node_command_def
  zwapi_assign_return_route_def zwapi_delete_return_route_def zwapi_assign_suc_return_route_def zwapi_delete_suc_return_route_def
  zwapi_get_suc_node_id_def zwapi_set_suc_node_id_def zwapi_set_learn_mode_def zwapi_set_virtual_node_to_learn_mode_def
  zwapi_request_node_info_def zwapi_request_protocol_cc_encryption_callback_def zwapi_send_controller_replication_def
  zwapi_get_controller_capabilities_def zwapi_request_network_update_def zwapi_replication_receive_complete_def zwapi_is_node_primary_ctrl_def
  zwapi_is_node_failed_def zwapi_set_max_source_route_def zwapi_get_priority_route_def zwapi_set_priority_route_def
  zwapi_get_old_routing_info_def zwapi_enable_suc_def zwapi_add_smartstart_node_to_network_def
  zwapi_set_virtual_node_application_node_information_def zwapi_enable_node_nls_def zwapi_get_node_nls_def zwapi_transfer_protocol_cc_def
  request_1_def

lemma read_node_id_returns: "length buf = 255 \<Longrightarrow> unat i < 200 \<Longrightarrow> (\<And>x. Q x) \<Longrightarrow> returns Q (zwapi_read_node_id z buf i)"
  by (auto simp: zwapi_read_node_id_def returns_read_cell case_prod_unfold unat_word_ariths)

lemma controller_step_returns:
  assumes "zw_ok ok z" and "\<not> overruns (Controller c) z"
  shows "returns (zw_ok ok) (controller_step lk c z)"
  using assms id_length_bounds [of z]
  by (cases c) (auto simp: controller_defs request_simps node_id_bytes_length tx_report_bytes_def returns_write_bytes Let_def intro!: callI read_node_id_returns)

lemmas memory_defs =
  zwapi_nvr_get_value_def zwapi_memory_get_ids_def zwapi_memory_get_byte_def zwapi_memory_put_byte_def zwapi_nvm_close_def zwapi_nvm_open_def
  zwapi_nvm_read_def zwapi_nvm_write_def request_1_def

lemma memory_get_byte_returns: "zw_ok ok z \<Longrightarrow> returns (\<lambda>(st, b, z). zw_ok ok z) (zwapi_memory_get_byte lk offset z)"
  by (auto simp: zwapi_memory_get_byte_def request_simps intro!: callI)

lemma get_bytes_returns: "zw_ok ok z \<Longrightarrow> returns (\<lambda>(st, buf, z). zw_ok ok z) (get_bytes lk offset is buf z)"
proof (induction "is" arbitrary: buf z)
  case (Cons i "is")
  show ?case
    using memory_get_byte_returns [OF Cons.prems, of "offset + of_nat i"] Cons.IH by (auto elim!: returns_mono split: option.split)
qed simp

lemma memory_put_byte_returns: "zw_ok ok z \<Longrightarrow> returns (\<lambda>(st, z). zw_ok ok z) (zwapi_memory_put_byte lk offset b z)"
  by (auto simp: zwapi_memory_put_byte_def request_simps intro!: callI)

lemma put_bytes_returns: "zw_ok ok z \<Longrightarrow> returns (\<lambda>(done, z). zw_ok ok z) (put_bytes lk offset i bs z)"
proof (induction bs arbitrary: i z)
  case (Cons b bs)
  show ?case
    using memory_put_byte_returns [OF Cons.prems, of "offset + of_nat i" b] Cons.IH by (auto elim!: returns_mono)
qed simp

lemma memory_get_buffer_returns:
  assumes "zw_ok ok z"
  shows "returns (\<lambda>(st, buf, z). zw_ok ok z) (zwapi_memory_get_buffer lk offset target n z)"
  using assms get_bytes_returns [OF assms, of offset "[0..<unat n]" target]
  by (auto simp: zwapi_memory_get_buffer_def request_simps zero_response_def intro!: callI)

lemma memory_put_buffer_returns:
  assumes "zw_ok ok z" and "\<not> overruns (Memory (Memory_put_buffer offset data f)) z"
  shows "returns (\<lambda>(st, z). zw_ok ok z) (zwapi_memory_put_buffer lk offset data f z)"
proof -
  obtain b where b: "zwapi_support_command_func FUNC_ID_MEMORY_PUT_BUFFER z = Some b"
    using support_command_returns [OF assms(1), of FUNC_ID_MEMORY_PUT_BUFFER] by auto
  show ?thesis
  proof (cases "b \<and> length data \<le> 247")
    case True
    then show ?thesis
      using assms b by (auto simp: zwapi_memory_put_buffer_def request_simps zero_response_def intro!: callI)
  next
    case False
    then show ?thesis
      using assms b put_bytes_returns [OF assms(1), of offset 0 data] by (auto simp: zwapi_memory_put_buffer_def elim!: returns_mono)
  qed
qed

lemma memory_step_returns:
  assumes "zw_ok ok z" and "\<not> overruns (Memory c) z"
  shows "returns (zw_ok ok) (memory_step lk c z)"
proof (cases c)
  case (Memory_get_buffer offset target n)
  then show ?thesis using memory_get_buffer_returns [OF assms(1), of offset target n] by (auto elim!: returns_mono)
next
  case (Memory_put_buffer offset data f)
  then show ?thesis using memory_put_buffer_returns [OF assms(1), of offset data f] assms(2) by (auto elim!: returns_mono)
qed (use assms in \<open>auto simp: memory_defs request_simps split: prod.split intro!: callI read_node_id_returns\<close>)

lemma transport_step_returns:
  assumes "zw_ok ok z" and "\<not> overruns (Transport c) z"
  shows "returns (zw_ok ok) (transport_step lk c z)"
  using assms id_length_bounds [of z]
  by (cases c; cases "library_type (chip z) = ZWAVE_LIBRARY_TYPE_CONTROLLER_BRIDGE")
    (auto simp: transport_defs request_simps multi_request_built node_id_bytes_length Let_def intro!: callI)

lemma api_step_returns:
  assumes "zw_ok ok z" and "\<not> overruns c z"
  shows "returns (zw_ok ok) (api_step lk c z)"
  using assms by (cases c) (simp_all add: basis_step_returns controller_step_returns memory_step_returns transport_step_returns)

end

lemma overruns_cases:
  assumes "overruns c z"
  shows "api_step lk c z = None"
  using assms id_length_bounds [of z]
  by (cases "(c, z)" rule: overruns.cases)
    (auto simp: transport_defs zwapi_set_application_node_information_def zwapi_send_controller_replication_def
       zwapi_set_virtual_node_application_node_information_def zwapi_memory_put_buffer_def zwapi_nvm_write_def
       request_simps multi_request_built node_id_bytes_length Let_def split: if_splits)

end
