(* ===== verification/Zwapi_Dispatch.thy ===== *)
theory Zwapi_Dispatch
  imports Zwapi_Controller Zwapi_Memory
begin

text \<open>
  What the module reports on its own, and its callbacks: \<^verbatim>\<open>zwapi_protocol_rx_dispatch.c\<close>.
  A frame of the queue lies in a block of 255 bytes; what follows the frame in it was never
  written. \<open>pData\<close> is the whole block, \<open>len\<close> the length of the frame. A callback is recorded
  in \<open>zw_out\<close>; what it does to the component comes as a new input.
\<close>

section \<open>Data\<close>

abbreviation (input) FRAME_TYPE_RESPONSE :: u8 where "FRAME_TYPE_RESPONSE \<equiv> 0x01"
abbreviation (input) RSSI_NOT_AVAILABLE :: u8 where "RSSI_NOT_AVAILABLE \<equiv> 127"
abbreviation (input) UPDATE_STATE_NODE_INFO_FOREIGN_HOMEID_RECEIVED :: u8 where "UPDATE_STATE_NODE_INFO_FOREIGN_HOMEID_RECEIVED \<equiv> 0x85"
abbreviation (input) UPDATE_STATE_INCLUDED_NODE_INFO_RECEIVED :: u8 where "UPDATE_STATE_INCLUDED_NODE_INFO_RECEIVED \<equiv> 0x86"
abbreviation (input) UPDATE_STATE_NODE_INFO_SMARTSTART_HOMEID_RECEIVED_LR :: u8 where "UPDATE_STATE_NODE_INFO_SMARTSTART_HOMEID_RECEIVED_LR \<equiv> 0x87"

definition zwave_api_detect_buffer_overflow :: "u8 \<Rightarrow> bool" where
  "zwave_api_detect_buffer_overflow n \<longleftrightarrow> unat n > REQUEST_BUFFER_SIZE"

text \<open>The report of a transmission with default values; \<^verbatim>\<open>UNKNOWN_SPEED\<close> is 0.\<close>

definition fill_default_tx_report_values :: zwapi_tx_report where
  "fill_default_tx_report_values =
     \<lparr>transmit_ticks = 0, number_of_repeaters = 0, ack_rssi = RSSI_NOT_AVAILABLE, rssi_incoming = replicate 4 RSSI_NOT_AVAILABLE,
      ack_channel_number = 0, tx_channel_number = 0, route_scheme_state = 0, last_route_repeaters = replicate 4 0, beam_250ms = False,
      beam_1000ms = False, last_route_speed = 0, routing_attempts = 0, last_failed_link_from = 0, last_failed_link_to = 0,
      report_tx_power = RSSI_NOT_AVAILABLE, measured_noise_floor = RSSI_NOT_AVAILABLE, destination_ack_mpdu_tx_power = RSSI_NOT_AVAILABLE,
      destination_ack_mpdu_measured_rssi = RSSI_NOT_AVAILABLE, destination_ack_mpdu_measured_noise_floor = RSSI_NOT_AVAILABLE\<rparr>"

text \<open>The report in the bytes from \<open>p\<close> on, for a frame of length \<open>len\<close>.\<close>

definition parse_tx_report :: "u8 list \<Rightarrow> nat \<Rightarrow> zwapi_tx_report" where
  "parse_tx_report p len =
     (let t = fill_default_tx_report_values
        \<lparr>transmit_ticks := push_bit 8 (ucast (p ! 0)) OR ucast (p ! 1), number_of_repeaters := p ! 2, ack_rssi := p ! 3,
         rssi_incoming := [p ! 4, p ! 5, p ! 6, p ! 7], ack_channel_number := p ! 8, tx_channel_number := p ! 9, route_scheme_state := p ! 10,
         last_route_repeaters := [p ! 11, p ! 12, p ! 13, p ! 14], beam_1000ms := (p ! 15 AND 0x40 \<noteq> 0), beam_250ms := (p ! 15 AND 0x20 \<noteq> 0),
         last_route_speed := p ! 15 AND 0x7, routing_attempts := p ! 16, last_failed_link_from := p ! 17, last_failed_link_to := p ! 18\<rparr>;
          t = (if len \<ge> 25 then t\<lparr>report_tx_power := p ! 19\<rparr> else t);
          t = (if len \<ge> 26 then t\<lparr>measured_noise_floor := p ! 20\<rparr> else t);
          t = (if len \<ge> 27 then t\<lparr>destination_ack_mpdu_tx_power := p ! 21\<rparr> else t);
          t = (if len \<ge> 28 then t\<lparr>destination_ack_mpdu_measured_rssi := p ! 22\<rparr> else t)
      in if len \<ge> 29 then t\<lparr>destination_ack_mpdu_measured_noise_floor := p ! 23\<rparr> else t)"

text \<open>The loop that copies a command to the command buffer; the index wraps around at 256.\<close>

fun copy_command :: "u8 list \<Rightarrow> nat \<Rightarrow> nat \<Rightarrow> u8 \<Rightarrow> u8 list \<Rightarrow> (u8 \<times> u8 list) option" where
  "copy_command pData i 0 current_index buf = Some (current_index, buf)"
| "copy_command pData i (Suc n) current_index buf = do {
     b \<leftarrow> read_cell pData (unat current_index);
     buf \<leftarrow> write_cell buf i b;
     copy_command pData (Suc i) n (current_index + 1) buf
   }"

section \<open>Frames and updates of the application\<close>

text \<open>A signal strength at the end of the frame, if the frame is that long.\<close>

definition read_rssi :: "u8 list \<Rightarrow> nat \<Rightarrow> u8 \<Rightarrow> u8 option" where
  "read_rssi pData len current_index = (if len > unat current_index then read_cell pData (unat current_index) else Some RSSI_NOT_AVAILABLE)"

definition dispatch_controller_update :: "nat \<Rightarrow> u8 list \<Rightarrow> nat \<Rightarrow> 'm zw \<Rightarrow> 'm zw option" where
  "dispatch_controller_update f pData len z = do {
     let st = pData ! IDX_DATA;
     if st = UPDATE_STATE_NODE_INFO_FOREIGN_HOMEID_RECEIVED \<or> st = UPDATE_STATE_NODE_INFO_SMARTSTART_HOMEID_RECEIVED_LR
     then do {
       (source_node_id, index) \<leftarrow> zwapi_read_node_id z pData (of_nat (IDX_DATA + 1));
       let index = index + 1;
       home \<leftarrow> write_bytes (replicate 4 0) 0 (drop (unat index) pData) 4;
       let index = index + 4;
       n \<leftarrow> read_cell pData (unat index);
       let n = (if unat n > REQUEST_BUFFER_SIZE then of_nat REQUEST_BUFFER_SIZE else n);
       buf \<leftarrow> write_bytes (zwapi_command_buffer z) 0 (drop (unat (index + 1)) pData) (unat n);
       Some (zw_emit (Controller_update f st source_node_id (Some (take (unat n) buf)) n (be32 home)) (z\<lparr>zwapi_command_buffer := buf\<rparr>))
     }
     else if st = UPDATE_STATE_INCLUDED_NODE_INFO_RECEIVED
     then do {
       (source_node_id, index) \<leftarrow> zwapi_read_node_id z pData (of_nat (IDX_DATA + 1));
       let index = index + 2;
       home \<leftarrow> (if len \<ge> unat index + 4 then write_bytes (replicate 4 0) 0 (drop (unat index) pData) 4 else Some (replicate 4 0));
       Some (zw_emit (Controller_update f st source_node_id None 0 (be32 home)) z)
     }
     else do {
       (source_node_id, index) \<leftarrow> zwapi_read_node_id z pData (of_nat (IDX_DATA + 1));
       n \<leftarrow> read_cell pData (unat index);
       let index = index + 1;
       let z = z\<lparr>learnNodeInfo := (learnNodeInfo z)\<lparr>bStatus := st, bSource := source_node_id, bLen := n\<rparr>\<rparr>;
       if zwave_api_detect_buffer_overflow n then Some z
       else do {
         buf \<leftarrow> write_bytes (zwapi_command_buffer z) 0 (drop (unat index) pData) (unat n + 3);
         Some (zw_emit (Controller_update f st source_node_id (Some (take (unat n) buf)) n 0)
           (z\<lparr>zwapi_command_buffer := buf, learnNodeInfo := (learnNodeInfo z)\<lparr>pCmd_set := True\<rparr>\<rparr>))
       }
     }
   }"

definition dispatch_command_handler :: "nat \<Rightarrow> u8 list \<Rightarrow> nat \<Rightarrow> 'm zw \<Rightarrow> 'm zw option" where
  "dispatch_command_handler f pData len z = do {
     let rx_status = pData ! IDX_DATA;
     (source_node_id, index) \<leftarrow> zwapi_read_node_id z pData (of_nat (IDX_DATA + 1));
     command_length \<leftarrow> read_cell pData (unat index);
     if zwave_api_detect_buffer_overflow command_length then Some z
     else do {
       (index, buf) \<leftarrow> copy_command pData 0 (unat command_length) (index + 1) (zwapi_command_buffer z);
       rssi \<leftarrow> read_rssi pData len index;
       Some (zw_emit (Command_handler f rx_status 0 source_node_id (take (unat command_length) buf) rssi) (z\<lparr>zwapi_command_buffer := buf\<rparr>))
     }
   }"

definition dispatch_promiscuous :: "nat \<Rightarrow> u8 list \<Rightarrow> nat \<Rightarrow> 'm zw \<Rightarrow> 'm zw option" where
  "dispatch_promiscuous f pData len z = do {
     let rx_status = pData ! IDX_DATA;
     let source_node_id = pData ! (IDX_DATA + 1);
     let command_length = pData ! (IDX_DATA + 2);
     if zwave_api_detect_buffer_overflow command_length then Some z
     else do {
       (index, buf) \<leftarrow> copy_command pData 0 (unat command_length) (of_nat (IDX_DATA + 3)) (zwapi_command_buffer z);
       destination_node_id \<leftarrow> read_cell pData (unat index);
       node_mask_length \<leftarrow> read_cell pData (unat (index + 1));
       rssi \<leftarrow> read_rssi pData len (index + 1 + (node_mask_length + 1));
       Some (zw_emit (Command_handler f rx_status (ucast destination_node_id) (ucast source_node_id) (take (unat command_length) buf) rssi)
         (z\<lparr>zwapi_command_buffer := buf\<rparr>))
     }
   }"

definition dispatch_command_handler_bridge :: "nat \<Rightarrow> u8 list \<Rightarrow> nat \<Rightarrow> 'm zw \<Rightarrow> 'm zw option" where
  "dispatch_command_handler_bridge f pData len z = do {
     let rx_status = pData ! IDX_DATA;
     (destination_node_id, index) \<leftarrow> zwapi_read_node_id z pData (of_nat (IDX_DATA + 1));
     (source_node_id, index) \<leftarrow> zwapi_read_node_id z pData index;
     command_length \<leftarrow> read_cell pData (unat index);
     if zwave_api_detect_buffer_overflow command_length then Some z
     else do {
       (index, buf) \<leftarrow> copy_command pData 0 (unat command_length) (index + 1) (zwapi_command_buffer z);
       node_mask_length \<leftarrow> read_cell pData (unat index);
       rssi \<leftarrow> read_rssi pData len (index + (node_mask_length + 1));
       Some (zw_emit (Command_handler f rx_status destination_node_id source_node_id (take (unat command_length) buf) rssi)
         (z\<lparr>zwapi_command_buffer := buf\<rparr>))
     }
   }"

text \<open>
  The pointers into the frame are handed on as the bytes they point to. The code hands on a pointer and a length, and a length that leads behind the block
  is handed on as it is; here there are no bytes behind it.
\<close>

definition dispatch_cc_encryption :: "nat \<Rightarrow> u8 list \<Rightarrow> 'm zw \<Rightarrow> 'm zw option" where
  "dispatch_cc_encryption f pData z = do {
     (destination_node_id, index) \<leftarrow> zwapi_read_node_id z pData (of_nat IDX_DATA);
     payload_length \<leftarrow> read_cell pData (unat index);
     if zwave_api_detect_buffer_overflow payload_length then Some z
     else do {
       let payload = take (unat payload_length) (drop (unat (index + 1)) pData);
       let index = index + 1 + payload_length;
       metadata_length \<leftarrow> read_cell pData (unat index);
       let metadata = take (unat metadata_length) (drop (unat (index + 1)) pData);
       let index = index + 1 + metadata_length;
       use_supervision \<leftarrow> read_cell pData (unat index);
       session_id \<leftarrow> read_cell pData (unat (index + 1));
       Some (zw_emit (Cc_encryption_request f destination_node_id payload metadata use_supervision session_id) z)
     }
   }"

definition dispatch_started :: "nat \<Rightarrow> u8 list \<Rightarrow> nat \<Rightarrow> 'm zw \<Rightarrow> 'm zw option" where
  "dispatch_started f pData len z = do {
     let data_length = (of_nat len - of_nat IDX_DATA - 1 :: u8);
     let data_length = (if unat data_length > REQUEST_BUFFER_SIZE then of_nat REQUEST_BUFFER_SIZE else data_length);
     buf \<leftarrow> write_bytes (zwapi_command_buffer z) 0 (drop IDX_DATA pData) (unat data_length);
     Some (zw_emit (Api_started f (take (unat data_length) buf)) (z\<lparr>zwapi_command_buffer := buf\<rparr>))
   }"

section \<open>Callbacks\<close>

definition dispatch_transmit :: "zwapi_callback \<Rightarrow> u8 list \<Rightarrow> nat \<Rightarrow> 'm zw \<Rightarrow> 'm zw" where
  "dispatch_transmit c pData len z =
     (let f = zw_callback z c; z = set_callback c 0 z; txStatus = pData ! (IDX_DATA + 1) in
      if f = 0 then z
      else zw_emit (Call_report c f txStatus (if len \<ge> 24 then Some (parse_tx_report (drop (IDX_DATA + 2) pData) len) else None)) z)"

text \<open>The callbacks of learn information.\<close>

definition zero_learn_info :: LEARN_INFO where
  "zero_learn_info = \<lparr>bStatus = 0, bSource = 0, bLen = 0, pCmd_set = False\<rparr>"

definition call_learn :: "zwapi_callback \<Rightarrow> 'm zw \<Rightarrow> 'm zw" where
  "call_learn c z =
     (let l = learnNodeInfo z in
      zw_emit (Call_learn c (zw_callback z c) (bStatus l) (bSource l)
        (if pCmd_set l then Some (take (unat (bLen l)) (zwapi_command_buffer z)) else None) (bLen l)) z)"

definition dispatch_learn :: "zwapi_callback \<Rightarrow> u8 list \<Rightarrow> nat \<Rightarrow> 'm zw \<Rightarrow> 'm zw option" where
  "dispatch_learn c pData len z =
     (if zw_callback z c = 0 then Some z
      else do {
        let l = (if len > IDX_DATA + 1 then zero_learn_info\<lparr>bStatus := pData ! (IDX_DATA + 1)\<rparr> else zero_learn_info);
        (l, index) \<leftarrow> (if len > IDX_DATA + 2
           then do { (n, index) \<leftarrow> zwapi_read_node_id z pData (of_nat (IDX_DATA + 2)); Some (l\<lparr>bSource := n\<rparr>, index) }
           else Some (l, of_nat (IDX_DATA + 2)));
        if len > unat index
        then do {
          n \<leftarrow> read_cell pData (unat index);
          let index = index + 1;
          let l = l\<lparr>bLen := n, pCmd_set := True\<rparr>;
          if zwave_api_detect_buffer_overflow n then Some (z\<lparr>learnNodeInfo := l\<rparr>)
          else do {
            let l = (if int (unat n) > int len - int (unat index) then l\<lparr>bLen := of_int (int len - int (unat index))\<rparr> else l);
            buf \<leftarrow> write_bytes (zwapi_command_buffer z) 0 (drop (unat index) pData) (unat (bLen l));
            Some (call_learn c (z\<lparr>learnNodeInfo := l, zwapi_command_buffer := buf\<rparr>))
          }
        }
        else Some (call_learn c (z\<lparr>learnNodeInfo := l\<rparr>))
      })"

definition dispatch_learn_mode :: "u8 list \<Rightarrow> nat \<Rightarrow> 'm zw \<Rightarrow> 'm zw option" where
  "dispatch_learn_mode pData len z =
     (if zw_callback z Cb_set_learn_mode = 0 then Some z
      else do {
        let bytes_to_read = (if node_id_basetype_setting z = NODEID_16BITS then IDX_DATA + 4 else IDX_DATA + 3);
        (overflow, index, z) \<leftarrow> (if len > bytes_to_read
           then do {
             (n, index) \<leftarrow> zwapi_read_node_id z pData (of_nat (IDX_DATA + 2));
             k \<leftarrow> read_cell pData (unat index);
             Some (zwave_api_detect_buffer_overflow k, index, z\<lparr>learnNodeInfo := (learnNodeInfo z)\<lparr>bStatus := pData ! (IDX_DATA + 1), bSource := n\<rparr>\<rparr>)
           }
           else Some (False, of_nat (IDX_DATA + 1), z));
        if overflow then Some z
        else do {
          n \<leftarrow> read_cell pData (unat index);
          buf \<leftarrow> (if len > unat index + unat n then write_bytes (zwapi_command_buffer z) 0 (drop (unat index + 1) pData) (unat n)
                  else Some (zwapi_command_buffer z));
          Some (call_learn Cb_set_learn_mode (z\<lparr>zwapi_command_buffer := buf, learnNodeInfo := (learnNodeInfo z)\<lparr>bLen := n, pCmd_set := True\<rparr>\<rparr>))
        }
      })"

definition dispatch_virtual_learn_mode :: "u8 list \<Rightarrow> 'm zw \<Rightarrow> 'm zw option" where
  "dispatch_virtual_learn_mode pData z =
     (if zw_callback z Cb_set_virtual_node_to_learn_mode = 0 then Some z
      else do {
        (original_node_id, index) \<leftarrow> zwapi_read_node_id z pData (of_nat (IDX_DATA + 2));
        (new_node_id, index) \<leftarrow> zwapi_read_node_id z pData index;
        Some (zw_emit (Call_learn_virtual (zw_callback z Cb_set_virtual_node_to_learn_mode) (pData ! (IDX_DATA + 1)) original_node_id new_node_id) z)
      })"

definition call_status :: "zwapi_callback \<Rightarrow> u8 list \<Rightarrow> 'm zw \<Rightarrow> 'm zw" where
  "call_status c pData z = (if zw_callback z c \<noteq> 0 then zw_emit (Call_status c (zw_callback z c) (pData ! (IDX_DATA + 1))) z else z)"

definition call_void :: "zwapi_callback \<Rightarrow> 'm zw \<Rightarrow> 'm zw" where
  "call_void c z = (if zw_callback z c \<noteq> 0 then zw_emit (Call_void c (zw_callback z c)) z else z)"

text \<open>The commands whose callback gets one status byte and stays registered.\<close>

definition status_callback :: "u8 \<Rightarrow> zwapi_callback option" where
  "status_callback cmd = map_of
     [(FUNC_ID_ZW_SEND_NODE_INFORMATION, Cb_send_node_information), (FUNC_ID_ZW_SEND_DATA_MULTI_BRIDGE, Cb_send_data_multi_bridge),
      (FUNC_ID_ZW_SEND_DATA_MULTI, Cb_send_data_multi), (FUNC_ID_ZW_REPLICATION_SEND_DATA, Cb_send_controller_replication),
      (FUNC_ID_ZW_ASSIGN_RETURN_ROUTE, Cb_assign_return_route), (FUNC_ID_ZW_DELETE_RETURN_ROUTE, Cb_delete_return_route),
      (FUNC_ID_ZW_ASSIGN_SUC_RETURN_ROUTE, Cb_assign_suc_return_route), (FUNC_ID_ZW_DELETE_SUC_RETURN_ROUTE, Cb_delete_suc_return_route),
      (FUNC_ID_ZW_SET_SUC_NODE_ID, Cb_set_suc_node_id), (FUNC_ID_ZW_REQUEST_NODE_NEIGHBOR_UPDATE, Cb_request_neighbor_update),
      (FUNC_ID_ZW_REQUEST_NETWORK_UPDATE, Cb_request_network_update), (FUNC_ID_ZW_REMOVE_FAILED_NODE_ID, Cb_remove_failed_node),
      (FUNC_ID_ZW_REPLACE_FAILED_NODE, Cb_replace_failed_node)] cmd"

definition transmit_callback :: "u8 \<Rightarrow> zwapi_callback option" where
  "transmit_callback cmd = map_of
     [(FUNC_ID_ZW_SEND_PROTOCOL_DATA, Cb_send_data), (FUNC_ID_ZW_SEND_DATA, Cb_send_data), (FUNC_ID_SEND_NOP, Cb_send_nop),
      (FUNC_ID_ZW_SEND_DATA_BRIDGE, Cb_send_data_bridge)] cmd"

definition learn_callback :: "u8 \<Rightarrow> zwapi_callback option" where
  "learn_callback cmd = map_of
     [(FUNC_ID_ZW_CONTROLLER_CHANGE, Cb_transfer_primary_ctrl_role), (FUNC_ID_ZW_CREATE_NEW_PRIMARY, Cb_create_new_primary_ctrl),
      (FUNC_ID_ZW_REMOVE_NODE_FROM_NETWORK, Cb_remove_node_from_network), (FUNC_ID_ZW_REMOVE_NODE_ID_FROM_NETWORK, Cb_remove_node_from_network),
      (FUNC_ID_ZW_ADD_NODE_TO_NETWORK, Cb_add_node_to_network)] cmd"

section \<open>The dispatcher\<close>

text \<open>The handler of an application callback is called only if one is registered.\<close>

definition if_registered :: "nat \<Rightarrow> (nat \<Rightarrow> 'm zw option) \<Rightarrow> 'm zw \<Rightarrow> 'm zw option" where
  "if_registered f h z = (if f \<noteq> 0 then h f else Some z)"

definition zwave_api_protocol_rx_dispatch :: "u8 list \<Rightarrow> nat \<Rightarrow> 'm zw \<Rightarrow> 'm zw option" where
  "zwave_api_protocol_rx_dispatch pData len z =
     (if pData ! IDX_TYPE = FRAME_TYPE_RESPONSE then Some z
      else case zw_handlers z of
        None \<Rightarrow> Some z
      | Some h \<Rightarrow>
          let cmd = pData ! IDX_CMD in
          if cmd = FUNC_ID_ZW_APPLICATION_CONTROLLER_UPDATE
          then if_registered (application_controller_update h) (\<lambda>f. dispatch_controller_update f pData len z) z
          else if cmd = FUNC_ID_APPLICATION_COMMAND_HANDLER
          then if_registered (application_command_handler h) (\<lambda>f. dispatch_command_handler f pData len z) z
          else if cmd = FUNC_ID_PROMISCUOUS_APPLICATION_COMMAND_HANDLER
          then if_registered (application_command_handler h) (\<lambda>f. dispatch_promiscuous f pData len z) z
          else if cmd = FUNC_ID_APPLICATION_COMMAND_HANDLER_BRIDGE
          then if_registered (application_command_handler_bridge h) (\<lambda>f. dispatch_command_handler_bridge f pData len z) z
          else if cmd = FUNC_ID_ZW_SEND_TEST_FRAME
          then Some (if zw_callback z Cb_send_test_frame \<noteq> 0
                     then zw_emit (Call_status Cb_send_test_frame (zw_callback z Cb_send_test_frame) (pData ! (IDX_DATA + 1))) (set_callback Cb_send_test_frame 0 z)
                     else z)
          else if cmd = FUNC_ID_MEMORY_PUT_BUFFER then Some (call_void Cb_memory_put_buffer z)
          else if cmd = FUNC_ID_ZW_SET_DEFAULT then Some (call_void Cb_set_default z)
          else if cmd = FUNC_ID_ZW_SET_LEARN_MODE then dispatch_learn_mode pData len z
          else if cmd = FUNC_ID_ZW_SET_SLAVE_LEARN_MODE then dispatch_virtual_learn_mode pData z
          else if cmd = FUNC_ID_SERIAL_API_STARTED
          then let z = z\<lparr>awaiting_zwave_api_started := False\<rparr> in if_registered (zwapi_started h) (\<lambda>f. dispatch_started f pData len z) z
          else if cmd = FUNC_ID_ZW_REQUEST_PROTOCOL_CC_ENCRYPTION
          then if_registered (protocol_cc_encryption_request h) (\<lambda>f. dispatch_cc_encryption f pData z) z
          else case transmit_callback cmd of
                 Some c \<Rightarrow> Some (dispatch_transmit c pData len z)
               | None \<Rightarrow>
                   (case learn_callback cmd of
                      Some c \<Rightarrow> dispatch_learn c pData len z
                    | None \<Rightarrow> (case status_callback cmd of Some c \<Rightarrow> Some (call_status c pData z) | None \<Rightarrow> Some z)))"

text \<open>One poll: what follows a frame in its block of memory is \<open>junk\<close>.\<close>

definition zwapi_poll :: "'m zwapi_link \<Rightarrow> u8 list \<Rightarrow> 'm zw \<Rightarrow> (bool \<times> 'm zw) option" where
  "zwapi_poll lk junk z = do {
     m \<leftarrow> lk_enqueue_rx_frames lk (zw_m z);
     let (frame, more_frames, m) = lk_dequeue_frame lk m;
     let z = z\<lparr>zw_m := m\<rparr>;
     case frame of
       None \<Rightarrow> Some (more_frames, z)
     | Some frame \<Rightarrow>
         if length frame \<ge> 1
         then do { z \<leftarrow> zwave_api_protocol_rx_dispatch (take FRAME_LENGTH_MAX (frame @ junk)) (length frame) z; Some (more_frames, z) }
         else Some (more_frames, z)
   }"

end
