(* ===== verification/Zwapi_Responses.thy ===== *)
theory Zwapi_Responses
  imports Zwapi_Calls Zwapi_Dispatch
begin

text \<open>
  The functions whose array accesses depend on what the module sends: the dispatch of received
  frames, the initialisation and the node lists.
\<close>

section \<open>Received frames\<close>

text \<open>
  A frame that makes the dispatcher access memory outside its arrays: an update of the controller
  whose node information of 178 to 180 bytes is copied with three bytes more, and a request for
  encryption whose lengths lead to the last two bytes of the block.
\<close>

definition update_hazard :: "'m zw \<Rightarrow> u8 list \<Rightarrow> bool" where
  "update_hazard z pData \<longleftrightarrow>
     pData ! IDX_DATA \<notin> {UPDATE_STATE_NODE_INFO_FOREIGN_HOMEID_RECEIVED, UPDATE_STATE_NODE_INFO_SMARTSTART_HOMEID_RECEIVED_LR,
       UPDATE_STATE_INCLUDED_NODE_INFO_RECEIVED} \<and>
     unat (pData ! (IDX_DATA + 1 + id_length z)) \<in> {178..180}"

definition encryption_hazard :: "'m zw \<Rightarrow> u8 list \<Rightarrow> bool" where
  "encryption_hazard z pData \<longleftrightarrow>
     (let payload_length = unat (pData ! (IDX_DATA + id_length z));
          metadata_index = IDX_DATA + id_length z + 1 + payload_length
      in payload_length \<le> REQUEST_BUFFER_SIZE \<and>
        (IDX_DATA + id_length z + 2 + payload_length + unat (pData ! metadata_index)) mod 256 \<in> {254, 255})"

definition dispatch_hazard :: "u8 list \<Rightarrow> 'm zw \<Rightarrow> bool" where
  "dispatch_hazard pData z \<longleftrightarrow>
     pData ! IDX_TYPE \<noteq> FRAME_TYPE_RESPONSE \<and>
     (\<exists>h. zw_handlers z = Some h \<and>
       (pData ! IDX_CMD = FUNC_ID_ZW_APPLICATION_CONTROLLER_UPDATE \<and> application_controller_update h \<noteq> 0 \<and> update_hazard z pData \<or>
        pData ! IDX_CMD = FUNC_ID_ZW_REQUEST_PROTOCOL_CC_ENCRYPTION \<and> protocol_cc_encryption_request h \<noteq> 0 \<and> encryption_hazard z pData))"

lemma id_length_simps:
  "node_id_basetype_setting z = NODEID_8BITS \<Longrightarrow> id_length z = 1" "node_id_basetype_setting z = NODEID_16BITS \<Longrightarrow> id_length z = 2"
  by (simp_all add: id_length_def node_id_bytes_def)

lemma copy_command_returns:
  assumes "length pData = 255" and "unat w + n \<le> 255" and "i + n \<le> length buf"
  shows "\<exists>buf'. copy_command pData i n w buf = Some (w + of_nat n, buf') \<and> length buf' = length buf"
  using assms
proof (induction n arbitrary: i w buf)
  case (Suc n)
  have "unat w + 1 < 2 ^ 8" using Suc.prems by simp
  then have "unat (w + 1) = Suc (unat w)" by (simp add: unat_word_ariths)
  then show ?case
    using Suc.IH [of "w + 1" "Suc i" "buf[i := pData ! unat w]"] Suc.prems by (simp add: read_cell_def write_cell_def ac_simps)
qed simp

lemma copy_commandI:
  assumes "length pData = 255" and "unat w + unat n \<le> 255" and "unat n \<le> length buf"
    and "\<And>buf'. length buf' = length buf \<Longrightarrow> Q (w + n, buf')"
  shows "returns Q (copy_command pData 0 (unat n) w buf)"
  using copy_command_returns [OF assms(1,2), of 0 buf] assms(3,4) by auto

text \<open>What dispatching changes: the command buffer keeps its size, and the link and the chip stay.\<close>

definition dispatched :: "'m zw \<Rightarrow> 'm zw \<Rightarrow> bool" where
  "dispatched z z' \<longleftrightarrow> zw_m z' = zw_m z \<and> chip z' = chip z \<and> length (zwapi_command_buffer z') = length (zwapi_command_buffer z)"

lemma dispatched_updates [simp]:
  "dispatched z (zw_emit e z') = dispatched z z'" "dispatched z (set_callback c f z') = dispatched z z'" "dispatched z z"
  "dispatched z (z'\<lparr>learnNodeInfo := l\<rparr>) = dispatched z z'" "dispatched z (z'\<lparr>awaiting_zwave_api_started := b\<rparr>) = dispatched z z'"
  by (simp_all add: dispatched_def zw_emit_def set_callback_def)

lemma read_rssiI: "length pData = 255 \<Longrightarrow> len \<le> 255 \<Longrightarrow> (\<And>b. Q b) \<Longrightarrow> returns Q (read_rssi pData len i)"
  by (auto simp: read_rssi_def returns_read_cell)

lemmas dispatch_cells = returns_cells zwave_api_detect_buffer_overflow_def zwapi_read_node_id_def

lemma frame_rest:
  assumes "len \<le> 255" and "k \<le> len"
  shows "unat (of_nat len - of_nat k :: u8) = len - k"
proof -
  have "unat (of_nat (len - k) :: u8) = len - k" using assms unfolding unat_of_nat by simp
  then show ?thesis by (simp only: of_nat_diff [OF assms(2)])
qed

lemma dispatch_command_handler_returns:
  assumes "length pData = 255" and "length (zwapi_command_buffer z) = 180" and "len \<le> 255"
  shows "returns (dispatched z) (dispatch_command_handler f pData len z)"
  using assms by (cases "node_id_basetype_setting z")
    (auto simp: dispatch_command_handler_def dispatch_cells dispatched_def zw_emit_def intro!: copy_commandI read_rssiI)

lemma dispatch_promiscuous_returns:
  assumes "length pData = 255" and "length (zwapi_command_buffer z) = 180" and "len \<le> 255"
  shows "returns (dispatched z) (dispatch_promiscuous f pData len z)"
  using assms by (auto simp: dispatch_promiscuous_def dispatch_cells dispatched_def zw_emit_def Let_def unat_word_ariths intro!: copy_commandI read_rssiI)

lemma dispatch_command_handler_bridge_returns:
  assumes "length pData = 255" and "length (zwapi_command_buffer z) = 180" and "len \<le> 255"
  shows "returns (dispatched z) (dispatch_command_handler_bridge f pData len z)"
  using assms by (cases "node_id_basetype_setting z")
    (auto simp: dispatch_command_handler_bridge_def dispatch_cells dispatched_def zw_emit_def Let_def unat_word_ariths intro!: copy_commandI read_rssiI)

lemma dispatch_started_returns:
  assumes "length pData = 255" and "length (zwapi_command_buffer z) = 180"
  shows "returns (dispatched z) (dispatch_started f pData len z)"
  using assms by (auto simp: dispatch_started_def dispatch_cells dispatched_def zw_emit_def Let_def)

lemma dispatch_learn_returns:
  assumes "length pData = 255" and "length (zwapi_command_buffer z) = 180" and "len \<le> 255"
  shows "returns (dispatched z) (dispatch_learn c pData len z)"
proof -
  have clip: "6 < len \<Longrightarrow> unat (of_nat len - 7 :: u8) = len - 7" "7 < len \<Longrightarrow> unat (of_nat len - 8 :: u8) = len - 8"
    using frame_rest [OF assms(3), of 7] frame_rest [OF assms(3), of 8] by simp_all
  show ?thesis
    using assms by (cases "node_id_basetype_setting z")
      (auto simp: dispatch_learn_def call_learn_def dispatch_cells dispatched_def zw_emit_def Let_def clip simp del: of_nat_unat)
qed

lemma dispatch_learn_mode_returns:
  assumes "length pData = 255" and "length (zwapi_command_buffer z) = 180" and "len \<le> 255"
  shows "returns (dispatched z) (dispatch_learn_mode pData len z)"
  using assms by (cases "node_id_basetype_setting z")
    (auto simp: dispatch_learn_mode_def call_learn_def dispatch_cells dispatched_def zw_emit_def Let_def)

lemma dispatch_virtual_learn_mode_returns:
  assumes "length pData = 255"
  shows "returns (dispatched z) (dispatch_virtual_learn_mode pData z)"
  using assms by (cases "node_id_basetype_setting z") (auto simp: dispatch_virtual_learn_mode_def dispatch_cells)

lemma dispatch_controller_update_returns:
  assumes "length pData = 255" and "length (zwapi_command_buffer z) = 180" and "len \<le> 255" and "\<not> update_hazard z pData"
  shows "returns (dispatched z) (dispatch_controller_update f pData len z)"
  using assms by (cases "node_id_basetype_setting z")
    (auto simp: dispatch_controller_update_def update_hazard_def id_length_simps dispatch_cells dispatched_def zw_emit_def Let_def)

lemma update_hazard_undefined:
  assumes "length (zwapi_command_buffer z) = 180" and "update_hazard z pData"
  shows "\<not> returns Q (dispatch_controller_update f pData len z)"
  using assms by (cases "node_id_basetype_setting z")
    (auto simp: dispatch_controller_update_def update_hazard_def id_length_simps dispatch_cells Let_def)

lemma dispatch_cc_encryption_returns:
  assumes "length pData = 255" and "\<not> encryption_hazard z pData"
  shows "returns (dispatched z) (dispatch_cc_encryption f pData z)"
  using assms by (cases "node_id_basetype_setting z";
    auto simp: dispatch_cc_encryption_def encryption_hazard_def id_length_simps dispatch_cells Let_def unat_word_ariths; presburger)

lemma encryption_hazard_undefined:
  assumes "length pData = 255" and "encryption_hazard z pData"
  shows "\<not> returns Q (dispatch_cc_encryption f pData z)"
  using assms by (cases "node_id_basetype_setting z")
    (auto simp: dispatch_cc_encryption_def encryption_hazard_def id_length_simps dispatch_cells Let_def unat_word_ariths)

lemma rx_dispatch_defined:
  assumes "length pData = 255" and "length (zwapi_command_buffer z) = 180" and "len \<le> 255"
  shows "if dispatch_hazard pData z then zwave_api_protocol_rx_dispatch pData len z = None
    else returns (dispatched z) (zwave_api_protocol_rx_dispatch pData len z)"
proof (cases "zw_handlers z")
  case None
  then show ?thesis by (simp add: zwave_api_protocol_rx_dispatch_def dispatch_hazard_def)
next
  case (Some h)
  let ?z = "z\<lparr>awaiting_zwave_api_started := False\<rparr>"
  have undefined: "r = None" if "\<not> returns (\<lambda>_. True) r" for r :: "'a zw option" using that by (cases r) auto
  have "returns (dispatched ?z) (dispatch_started (zwapi_started h) pData len ?z)"
    by (rule dispatch_started_returns) (use assms in simp_all)
  then have started: "returns (dispatched z) (dispatch_started (zwapi_started h) pData len ?z)"
    by (rule returns_mono) (simp add: dispatched_def)
  note handlers = dispatch_controller_update_returns [OF assms(1-3)] dispatch_command_handler_returns [OF assms(1-3)]
    dispatch_promiscuous_returns [OF assms(1-3)] dispatch_command_handler_bridge_returns [OF assms(1-3)]
    dispatch_learn_mode_returns [OF assms(1-3)] dispatch_virtual_learn_mode_returns [OF assms(1)] started
    dispatch_cc_encryption_returns [OF assms(1)] dispatch_learn_returns [OF assms(1-3)]
    undefined [OF update_hazard_undefined [OF assms(2)]] undefined [OF encryption_hazard_undefined [OF assms(1)]]
  show ?thesis
    using Some by (auto simp: zwave_api_protocol_rx_dispatch_def dispatch_hazard_def if_registered_def Let_def call_status_def call_void_def
      dispatch_transmit_def handlers split: option.split)
qed

section \<open>The node lists\<close>

lemma copy_node_list_length:
  "copy_node_list buf i n index (Some l) = Some (index', l') \<Longrightarrow> \<exists>m. l' = Some m \<and> length m = length l"
proof (induction n arbitrary: i index l)
  case (Suc n)
  then obtain b where "copy_node_list buf (Suc i) n (index + 1) (Some (l[i := b])) = Some (index', l')"
    by (auto simp: bind_eq_Some_conv write_cell_def split: if_splits)
  with Suc.IH [of "Suc i" "index + 1" "l[i := b]"] show ?case by simp
qed auto

lemma store_nodes_length: "store_nodes base offset buf is l = Some (b, l') \<Longrightarrow> length l' = length l"
  by (induction "is" arbitrary: l) (auto simp: bind_eq_Some_conv write_cell_def split: if_splits)

context module_link
begin

text \<open>What a function that only talks to the module leaves: the same state over another state of the link.\<close>

definition relinked :: "'m zw \<Rightarrow> 'm zw \<Rightarrow> bool" where
  "relinked z z' \<longleftrightarrow> (\<exists>m. ok m \<and> z' = z\<lparr>zw_m := m\<rparr>)"

lemma relinked_ok: "relinked z z' \<Longrightarrow> zw_ok ok z \<Longrightarrow> zw_ok ok z'"
  by (auto simp: relinked_def zw_ok_def)

lemma relinked_trans: "relinked z z' \<Longrightarrow> relinked z' z'' \<Longrightarrow> relinked z z''"
  by (auto simp: relinked_def)

lemma call_response_relinked:
  assumes "zw_ok ok z" and "length buf = 255" and "call_session_send_frame_with_response lk c r buf z = Some (st, buf', len, z')"
  shows "relinked z z' \<and> length buf' = 255 \<and> len \<le> 255 \<and> (st = SL_STATUS_OK \<longrightarrow> 3 \<le> len)"
  using call_responseI [OF assms(1,2), where c = c and r = r and
      Q = "\<lambda>(st, buf', len, z'). relinked z z' \<and> length buf' = 255 \<and> len \<le> 255 \<and> (st = SL_STATUS_OK \<longrightarrow> 3 \<le> len)"] assms(3)
  by (auto simp: relinked_def)

lemma response_relinked:
  assumes "zw_ok ok z" and "c \<noteq> 0" and "c \<le> 248" and "zwapi_send_command_with_response lk c r z = Some (st, buf', len, z')"
  shows "relinked z z' \<and> length buf' = 255 \<and> len \<le> 255"
  using responseI [OF assms(1-3), where r = r and Q = "\<lambda>(st, buf', len, z'). relinked z z' \<and> length buf' = 255 \<and> len \<le> 255"] assms(4)
  by (auto simp: relinked_def)

lemma get_init_data_relinked:
  assumes "zw_ok ok z" and "zwapi_get_init_data lk nl want z = Some (st, d, z')"
  shows "relinked z z' \<and> (\<forall>d' l l'. d = Some d' \<and> nl = Some l \<and> id_node_list d' = Some l' \<longrightarrow> length l' = length l)"
  using assms(2) call_response_relinked [OF assms(1), of zero_response FUNC_ID_SERIAL_API_GET_INIT_DATA no_request]
  by (auto simp: zwapi_get_init_data_def bind_eq_Some_conv zero_response_def split: if_splits dest!: copy_node_list_length)

lemma get_node_list_ok:
  assumes "zw_ok ok z" and "zwapi_get_node_list lk nl z = Some (st, nl', z')"
  shows "zw_ok ok z'"
proof -
  obtain d z1 where d: "zwapi_get_init_data lk (Some (chip_node_list (chip z))) False z = Some (st, d, z1)"
    and z': "z' = (case d of Some d \<Rightarrow> (case id_node_list d of Some l \<Rightarrow> z1\<lparr>chip := (chip z1)\<lparr>chip_node_list := l\<rparr>\<rparr> | None \<Rightarrow> z1) | None \<Rightarrow> z1)"
    using assms(2) by (auto simp: zwapi_get_node_list_def bind_eq_Some_conv Let_def)
  then show ?thesis
    using get_init_data_relinked [OF assms(1) d] relinked_ok [of z z1] assms(1) by (auto simp: zw_ok_def split: option.splits)
qed

lemma lr_nodes_loop_relinked:
  assumes "lr_nodes_loop lk o1 n1 l1 z1 = Some r" and "zw_ok ok z1"
  shows "relinked z1 (snd (snd (snd r)))"
proof -
  have "lk = lk \<longrightarrow> zw_ok ok z1 \<longrightarrow> relinked z1 (snd (snd (snd r)))"
  proof (rule lr_nodes_loop.raw_induct [where P = "\<lambda>lk' o1 n1 l1 z1 r. lk' = lk \<longrightarrow> zw_ok ok z1 \<longrightarrow> relinked z1 (snd (snd (snd r)))",
        OF _ assms(1)], goal_cases)
    case (1 f lk' o1 n1 l1 z1 r)
    have "relinked z1 (snd (snd (snd r)))" if lk': "lk' = lk" and z1: "zw_ok ok z1"
    proof -
      obtain r0 where r0: "request_1 o1 = Some r0" using 1(2) by (cases "request_1 o1") auto
      obtain st buf len z where s: "zwapi_send_command_with_response lk FUNC_ID_SERIAL_API_GET_LR_NODES r0 z1 = Some (st, buf, len, z)"
        using 1(2) r0 lk' by (cases "zwapi_send_command_with_response lk FUNC_ID_SERIAL_API_GET_LR_NODES r0 z1") auto
      have r: "snd (snd (snd r)) = z \<or> (\<exists>o' n' l'. f lk o' n' l' z = Some r)"
        using 1(2) r0 s lk' by (cases "store_nodes 32 (unat (buf ! 4) * 128) buf [0..<unat (buf ! 5)] l1") (auto split: if_splits)
      have z: "relinked z1 z" using response_relinked [OF z1 _ _ s] by simp
      show ?thesis using r z 1(1) [of lk _ _ _ z r] relinked_trans [OF z] relinked_ok [OF z z1] by blast
    qed
    then show ?case by simp
  qed
  then show ?thesis using assms(2) by simp
qed

lemma nls_nodes_loop_relinked:
  assumes "nls_nodes_loop lk o1 n1 l1 z1 = Some r" and "zw_ok ok z1"
  shows "relinked z1 (snd (snd (snd r)))"
proof -
  have "lk = lk \<longrightarrow> zw_ok ok z1 \<longrightarrow> relinked z1 (snd (snd (snd r)))"
  proof (rule nls_nodes_loop.raw_induct [where P = "\<lambda>lk' o1 n1 l1 z1 r. lk' = lk \<longrightarrow> zw_ok ok z1 \<longrightarrow> relinked z1 (snd (snd (snd r)))",
        OF _ assms(1)], goal_cases)
    case (1 f lk' o1 n1 l1 z1 r)
    have "relinked z1 (snd (snd (snd r)))" if lk': "lk' = lk" and z1: "zw_ok ok z1"
    proof -
      obtain r0 where r0: "request_1 o1 = Some r0" using 1(2) by (cases "request_1 o1") auto
      obtain st buf len z where s: "zwapi_send_command_with_response lk FUNC_ID_ZW_GET_NLS_NODES r0 z1 = Some (st, buf, len, z)"
        using 1(2) r0 lk' by (cases "zwapi_send_command_with_response lk FUNC_ID_ZW_GET_NLS_NODES r0 z1") auto
      have r: "snd (snd (snd r)) = z \<or> (\<exists>o' n' l'. f lk o' n' l' z = Some r)"
        using 1(2) r0 s lk' by (cases "store_nodes 0 (unat (buf ! 4) * 128) buf [0..<unat (buf ! 5)] l1") (auto split: if_splits)
      have z: "relinked z1 z" using response_relinked [OF z1 _ _ s] by simp
      show ?thesis using r z 1(1) [of lk _ _ _ z r] relinked_trans [OF z] relinked_ok [OF z z1] by blast
    qed
    then show ?case by simp
  qed
  then show ?thesis using assms(2) by simp
qed

lemma node_lists_ok:
  assumes "zw_ok ok z"
  shows "zwapi_get_long_range_nodes lk nl z = Some (st, n, nl', z') \<Longrightarrow> zw_ok ok z'"
    and "zwapi_get_nls_nodes lk nl z = Some (st, n, nl', z') \<Longrightarrow> zw_ok ok z'"
    and "zwapi_get_full_node_list lk nl z = Some (st, nl', z') \<Longrightarrow> zw_ok ok z'"
proof -
  have lr: "zw_ok ok z'" if "zwapi_get_long_range_nodes lk nl z = Some (st, n, nl', z')" "zw_ok ok z" for nl st n nl' z z'
    using that lr_nodes_loop_relinked [OF _ that(2)] relinked_ok [OF _ that(2)] by (fastforce simp: zwapi_get_long_range_nodes_def)
  then show "zw_ok ok z'" if "zwapi_get_long_range_nodes lk nl z = Some (st, n, nl', z')" using that assms by blast
  show "zw_ok ok z'" if "zwapi_get_nls_nodes lk nl z = Some (st, n, nl', z')"
    using that nls_nodes_loop_relinked [OF _ assms] relinked_ok [OF _ assms]
    by (fastforce simp: zwapi_get_nls_nodes_def bind_eq_Some_conv split: if_splits)
  show "zw_ok ok z'" if "zwapi_get_full_node_list lk nl z = Some (st, nl', z')"
    using that get_node_list_ok [OF assms] lr by (auto simp: zwapi_get_full_node_list_def bind_eq_Some_conv)
qed

end

section \<open>Initialisation\<close>

lemma capabilities_of_lengths:
  "capabilities_of buf len c = Some c' \<Longrightarrow> length (supported_bitmask c') = length (supported_bitmask c) \<and>
     length (supported_setup_bitmask c') = length (supported_setup_bitmask c) \<and> length (chip_node_list c') = length (chip_node_list c)"
  by (auto simp: capabilities_of_def bind_eq_Some_conv write_bytes_def split: if_splits)

context module_link
begin

lemma read_setup_bitmask_ok:
  assumes "zw_ok ok z" and "length buf = 255" and "read_setup_bitmask lk buf z = Some (st, buf', z')"
  shows "zw_ok ok z' \<and> length buf' = 255"
proof -
  obtain b where b: "zwapi_support_command_func FUNC_ID_SERIAL_API_SETUP z = Some b"
    using support_command_returns [OF assms(1), of FUNC_ID_SERIAL_API_SETUP] by auto
  show ?thesis
  proof (cases b)
    case False
    then show ?thesis using assms b by (simp add: read_setup_bitmask_def)
  next
    case True
    obtain st1 buf1 len z1 where s: "call_session_send_frame_with_response lk FUNC_ID_SERIAL_API_SETUP (built [SERIAL_API_SETUP_CMD_SUPPORTED]) buf z = Some (st1, buf1, len, z1)"
      and rest: "(if st1 \<noteq> SL_STATUS_OK then Some (st1, buf1, z1)
        else if len > IDX_DATA + 1 \<and> buf1 ! IDX_DATA = ZW_COMMAND_RETURN_VALUE_TRUE
        then do { bitmask \<leftarrow> write_bytes (supported_setup_bitmask (chip z1)) 0 (drop (IDX_DATA + 1) buf1) (len - IDX_DATA);
               Some (SL_STATUS_OK, buf1, z1\<lparr>chip := (chip z1)\<lparr>supported_setup_bitmask := bitmask\<rparr>\<rparr>) }
        else Some (SL_STATUS_FAIL, buf1, z1)) = Some (st, buf', z')"
      using assms(3) b True by (auto simp: read_setup_bitmask_def request_1_def request_simps bind_eq_Some_conv)
    have z1: "zw_ok ok z1" "length buf1 = 255"
      using call_response_relinked [OF assms(1,2) s] relinked_ok [OF _ assms(1)] by auto
    then show ?thesis
      using rest by (auto simp: bind_eq_Some_conv write_bytes_def zw_ok_def split: if_splits)
  qed
qed

lemma get_rf_region_ok: "zw_ok ok z \<Longrightarrow> zwapi_get_rf_region lk z = Some (region, z') \<Longrightarrow> zw_ok ok z'"
  using basis_step_returns [of z Get_rf_region] by (auto simp: returns_def)

lemma read_init_data_ok:
  assumes "zw_ok ok z" and "read_init_data lk z = Some (st, z')"
  shows "zw_ok ok z'"
proof -
  obtain st1 d z1 where d: "zwapi_get_init_data lk (Some (chip_node_list (chip z))) True z = Some (st1, d, z1)"
    using assms(2) by (auto simp: read_init_data_def bind_eq_Some_conv)
  have z1: "zw_ok ok z1" and l: "\<forall>d' l'. d = Some d' \<and> id_node_list d' = Some l' \<longrightarrow> length l' = 501"
    using get_init_data_relinked [OF assms(1) d] relinked_ok [OF _ assms(1)] assms(1) by (auto simp: zw_ok_def)
  show ?thesis
  proof (cases d)
    case None
    then show ?thesis using assms(2) d z1 by (simp add: read_init_data_def)
  next
    case (Some d')
    let ?z = "z1\<lparr>chip := (chip z1)\<lparr>capability_flag := id_capabilities d', chip_type := id_chip_type d', chip_revision := id_chip_version d',
        chip_node_list := (case id_node_list d' of Some l \<Rightarrow> l | None \<Rightarrow> chip_node_list (chip z1))\<rparr>\<rparr>"
    have "zw_ok ok ?z" using z1 l Some by (auto simp: zw_ok_def split: option.split)
    then show ?thesis
      using assms(2) d Some get_rf_region_ok [of ?z] by (auto simp: read_init_data_def bind_eq_Some_conv zw_ok_def)
  qed
qed

lemma get_zw_library_version_ok:
  assumes "zw_ok ok z" and "zwapi_get_zw_library_version lk buf z = Some (lib, buf', z')"
  shows "zw_ok ok z'"
  using assms(2) response_relinked [OF assms(1), of FUNC_ID_ZW_GET_VERSION no_request] relinked_ok [OF _ assms(1)]
  by (auto simp: zwapi_get_zw_library_version_def bind_eq_Some_conv split: if_splits)

lemma refresh_capabilities_ok:
  assumes "zw_ok ok z" and "zwapi_refresh_capabilities lk z = Some (st, z')"
  shows "zw_ok ok z'"
proof -
  obtain st1 buf len z1 where s: "call_session_send_frame_with_response lk FUNC_ID_SERIAL_API_GET_CAPABILITIES no_request zero_response z = Some (st1, buf, len, z1)"
    using assms(2) by (auto simp: zwapi_refresh_capabilities_def bind_eq_Some_conv)
  have z1: "zw_ok ok z1" "length buf = 255"
    using call_response_relinked [OF assms(1) _ s] relinked_ok [OF _ assms(1)] by (auto simp: zero_response_def)
  show ?thesis
  proof (cases "st1 = SL_STATUS_OK \<and> len > IDX_DATA + 7 \<and> len \<le> 255")
    case False
    then show ?thesis using assms(2) s z1 by (auto simp: zwapi_refresh_capabilities_def split: if_splits)
  next
    case True
    then obtain c where c: "capabilities_of buf len (chip z1) = Some c"
      using assms(2) s by (cases "capabilities_of buf len (chip z1)") (auto simp: zwapi_refresh_capabilities_def)
    let ?z = "z1\<lparr>chip := c, zw_m := lk_flush_queue lk (zw_m z1)\<rparr>"
    have z: "zw_ok ok ?z" using z1(1) capabilities_of_lengths [OF c] link_flush by (auto simp: zw_ok_def)
    obtain st2 buf2 z2 where b: "read_setup_bitmask lk buf ?z = Some (st2, buf2, z2)"
      using assms(2) s c True by (cases "read_setup_bitmask lk buf ?z") (auto simp: zwapi_refresh_capabilities_def)
    have z2: "zw_ok ok z2" using read_setup_bitmask_ok [OF z z1(2) b] by simp
    show ?thesis
    proof (cases "st2 = SL_STATUS_OK")
      case False
      then show ?thesis using assms(2) s c True b z2 by (simp add: zwapi_refresh_capabilities_def)
    next
      case ok: True
      then obtain lib buf3 z3 where l: "zwapi_get_zw_library_version lk buf2 z2 = Some (lib, buf3, z3)"
        using assms(2) s c True b by (cases "zwapi_get_zw_library_version lk buf2 z2") (auto simp: zwapi_refresh_capabilities_def)
      have "zw_ok ok (z3\<lparr>chip := (chip z3)\<lparr>library_type := lib\<rparr>\<rparr>)"
        using get_zw_library_version_ok [OF z2 l] by (simp add: zw_ok_def)
      moreover have "read_init_data lk (z3\<lparr>chip := (chip z3)\<lparr>library_type := lib\<rparr>\<rparr>) = Some (st, z')"
        using assms(2) s c True b ok l by (simp add: zwapi_refresh_capabilities_def)
      ultimately show ?thesis by (rule read_init_data_ok)
    qed
  qed
qed

lemma zwapi_init_ok:
  assumes "ok (zw_m z)" and "length (zwapi_command_buffer z) = REQUEST_BUFFER_SIZE" and "0 < fd"
    and "zwapi_init lk fd cbs z = Some (st, z')"
  shows "zw_ok ok z'"
proof -
  let ?z = "zwave_api_protocol_init_callbacks (zwapi_init_local_variables z)"
  let ?z0 = "if cbs \<noteq> None then ?z\<lparr>zw_handlers := cbs\<rparr> else ?z"
  have z0: "zw_ok ok ?z0"
    using assms(1,2) by (simp add: zw_ok_def zwave_api_protocol_init_callbacks_def zwapi_init_local_variables_def zero_chip_def)
  obtain st1 z1 where v: "zwapi_refresh_protocol_version lk ?z0 = Some (st1, z1)"
    and rest: "(if st1 = SL_STATUS_OK then zwapi_refresh_capabilities lk z1 else Some (st1, z1)) = Some (st, z')"
    using assms(3,4) by (auto simp: zwapi_init_def Let_def bind_eq_Some_conv)
  obtain st2 buf len z2 where s: "call_session_send_frame_with_response lk FUNC_ID_ZW_GET_PROTOCOL_VERSION no_request zero_response ?z0 = Some (st2, buf, len, z2)"
    and z1: "z1 = (if st1 = SL_STATUS_OK then z2\<lparr>protocol_version := version_of buf len (protocol_version z2)\<rparr> else z2)"
    using v by (auto simp: zwapi_refresh_protocol_version_def bind_eq_Some_conv)
  have "zw_ok ok z2" using call_response_relinked [OF z0 _ s] relinked_ok [OF _ z0] by (simp add: zero_response_def)
  then have "zw_ok ok z1" using z1 by (simp add: zw_ok_def)
  then show ?thesis using rest refresh_capabilities_ok [of z1] by (auto split: if_splits)
qed

section \<open>Polling\<close>

text \<open>A poll leaves the arrays as they are, and is undefined only for a frame that is a hazard.\<close>

lemma zwapi_poll_frame:
  assumes "zw_ok ok z" and "253 \<le> length junk"
    and "lk_enqueue_rx_frames lk (zw_m z) = Some m1" and "lk_dequeue_frame lk m1 = (frame, again, m2)"
  shows "if \<exists>f. frame = Some f \<and> dispatch_hazard (take 255 (f @ junk)) (z\<lparr>zw_m := m2\<rparr>) then zwapi_poll lk junk z = None
    else returns (\<lambda>(again, z'). zw_ok ok z') (zwapi_poll lk junk z)"
proof -
  have "ok m1" using link_enqueue [of "zw_m z"] assms(1,3) by (simp add: zw_ok_def)
  then have z2: "zw_ok ok (z\<lparr>zw_m := m2\<rparr>)" and q: "queued_frame frame"
    using link_dequeue [OF _ assms(4)] zw_ok_link [OF assms(1)] by auto
  show ?thesis
  proof (cases frame)
    case None
    then show ?thesis using assms(3,4) z2 by (simp add: zwapi_poll_def)
  next
    case (Some f)
    then have f: "2 \<le> length f" "length f \<le> 255" using q by (simp_all add: queued_frame_def)
    then have "length (take 255 (f @ junk)) = 255" using assms(2) by simp
    note d = rx_dispatch_defined [OF this, of "z\<lparr>zw_m := m2\<rparr>" "length f"]
    have "zwapi_poll lk junk z = Option.bind (zwave_api_protocol_rx_dispatch (take 255 (f @ junk)) (length f) (z\<lparr>zw_m := m2\<rparr>)) (\<lambda>z. Some (again, z))"
      using assms(3,4) Some f by (simp add: zwapi_poll_def)
    then show ?thesis
      using d f z2 Some by (auto simp: zw_ok_def dispatched_def elim!: returns_mono)
  qed
qed

lemma zwapi_poll_ok:
  assumes "zw_ok ok z" and "253 \<le> length junk" and "zwapi_poll lk junk z = Some (again, z')"
  shows "zw_ok ok z'"
proof -
  obtain m1 where m1: "lk_enqueue_rx_frames lk (zw_m z) = Some m1"
    using assms(3) by (cases "lk_enqueue_rx_frames lk (zw_m z)") (auto simp: zwapi_poll_def)
  obtain frame a m2 where m2: "lk_dequeue_frame lk m1 = (frame, a, m2)" using prod_cases3 by blast
  show ?thesis using zwapi_poll_frame [OF assms(1,2) m1 m2] assms(3) by (auto split: if_splits)
qed

end

end
