(* ===== verification/Zwapi_Properties.thy ===== *)
theory Zwapi_Properties
  imports Zwapi_Responses
begin

text \<open>
  The states that the Z-Wave API on a serial port can get into, and what holds in all of them.
\<close>

section \<open>Histories\<close>

text \<open>
  The API is initialised over a session that is ready, and then called and polled in any order. What
  follows a frame in its block of memory is arbitrary. A step that does not return leads nowhere.
\<close>

inductive api_reachable :: "serial_port session zw \<Rightarrow> bool" where
  initialised: "session_ready (zw_m z) \<Longrightarrow> length (zwapi_command_buffer z) = REQUEST_BUFFER_SIZE \<Longrightarrow> 0 < fd \<Longrightarrow>
     zwapi_init serial_link fd cbs z = Some (st, z') \<Longrightarrow> api_reachable z'"
| called: "api_reachable z \<Longrightarrow> api_step serial_link c z = Some z' \<Longrightarrow> api_reachable z'"
| polled: "api_reachable z \<Longrightarrow> 253 \<le> length junk \<Longrightarrow> zwapi_poll serial_link junk z = Some (again, z') \<Longrightarrow> api_reachable z'"
| reconnected: "api_reachable z \<Longrightarrow> zwapi_reconnect serial_link z = Some (fd, z') \<Longrightarrow> api_reachable z'"
| connection_lost: "api_reachable z \<Longrightarrow> zwapi_notify_connection_lost serial_link z = Some z' \<Longrightarrow> api_reachable z'"
| refreshed: "api_reachable z \<Longrightarrow> zwapi_refresh_capabilities serial_link z = Some (st, z') \<Longrightarrow> api_reachable z'"
| node_list: "api_reachable z \<Longrightarrow> zwapi_get_full_node_list serial_link nl z = Some (st, nl', z') \<Longrightarrow> api_reachable z'"
| nls_nodes: "api_reachable z \<Longrightarrow> zwapi_get_nls_nodes serial_link nl z = Some (st, n, nl', z') \<Longrightarrow> api_reachable z'"

lemma reachable_ok: "api_reachable z \<Longrightarrow> zw_ok session_ready z"
proof (induction rule: api_reachable.induct)
  case (called z c z')
  then show ?case
    using serial.api_step_returns [of z c] overruns_cases [of c z serial_link] by (auto simp: returns_def)
next
  case (reconnected z fd z')
  then show ?case
    using serial.link_restart [of "zw_m z"] by (auto simp: zwapi_reconnect_def bind_eq_Some_conv zw_ok_def returns_def)
next
  case (connection_lost z z')
  then show ?case
    using serial.link_notify [of "zw_m z"] by (auto simp: zwapi_notify_connection_lost_def bind_eq_Some_conv zw_ok_def returns_def)
qed (auto intro: serial.zwapi_init_ok serial.zwapi_poll_ok serial.refresh_capabilities_ok serial.node_lists_ok)

section \<open>Calls\<close>

lemma api_step_undefined_iff: "api_reachable z \<Longrightarrow> api_step serial_link c z = None \<longleftrightarrow> overruns c z"
  using serial.api_step_returns [OF reachable_ok, of z c] overruns_cases [of c z serial_link] by (cases "overruns c z") (auto simp: returns_def)

text \<open>
  C35. The calls are the requests of the four files \<^verbatim>\<open>zwapi_protocol_basis.c\<close>, \<^verbatim>\<open>zwapi_protocol_controller.c\<close>, \<^verbatim>\<open>zwapi_protocol_mem.c\<close> with
  \<^verbatim>\<open>zwapi_protocol_nvm.c\<close>, and \<^verbatim>\<open>zwapi_protocol_transport.c\<close> that ask the module one thing (\<open>api_call\<close>). Not among them are the functions that
  collect a list of nodes or the capabilities from answers of the module (\<^verbatim>\<open>zwapi_get_long_range_nodes\<close>, \<^verbatim>\<open>zwapi_get_full_node_list\<close>,
  \<^verbatim>\<open>zwapi_get_nls_nodes\<close>, \<^verbatim>\<open>zwapi_get_init_data\<close>, \<^verbatim>\<open>zwapi_refresh_capabilities\<close>): these write where the module tells them to, and may never end.
  In every state that the API can get into, one of these calls returns and leads to such a state again, whatever the
  module answers and however the line behaves; the exceptions are exactly the calls whose request is longer
  than its buffer of 180 bytes, which write behind it.
\<close>

theorem api_calls_stay_in_bounds:
  assumes "api_reachable z"
  shows "case api_step serial_link c z of None \<Rightarrow> overruns c z | Some z' \<Rightarrow> \<not> overruns c z \<and> api_reachable z'"
  using api_step_undefined_iff [OF assms, of c] api_reachable.called [OF assms, of c] by (auto split: option.split)

text \<open>An API that was initialised over a line that hung up: the version of the module could not be read.\<close>

definition sample_zw :: "'m \<Rightarrow> 'm zw" where
  "sample_zw m = \<lparr>zw_m = m, zw_callback = (\<lambda>c. 0), zw_handlers = None, chip = zero_chip, protocol_version = zero_version,
     awaiting_zwave_api_started = False, node_id_basetype_setting = NODEID_8BITS, rf_region_cache_valid = False,
     rf_region_cache = ZWAVE_RF_REGION_UNDEFINED, learnNodeInfo = zero_learn_info, zwapi_command_buffer = replicate REQUEST_BUFFER_SIZE 0,
     put_buffer_called = False, zw_out = []\<rparr>"

definition lost_session :: "serial_port session" where
  "lost_session = (ticking_session [Hangup])\<lparr>zwapi_session_connection_lost := True, connection_lost_calls := 1\<rparr>"

lemma hung_up_session:
  "zwapi_session_send_frame_with_response serial_interface id command payload len (ticking_session [Hangup]) = Some (SL_STATUS_FAIL, None, lost_session)"
proof -
  let ?c = "(sample_connection [Hangup])\<lparr>device := (device (sample_connection [Hangup]))\<lparr>readings := ticking\<rparr>\<rparr>"
  have "zwapi_connection_refresh serial_interface ?c = Some (STATUS_CONNECTION_LOST, ?c)"
    by (simp add: zwapi_connection_refresh_def refresh_loop.simps serial_defs sample_connection_def)
  then have "drain_locked serial_interface id (ticking_session [Hangup]) = Some (True, True, ticking_session [Hangup])"
    by (simp add: drain_locked_def session_lock_def session_unlock_def enqueue_rx_frames.simps ticking_session_def sample_session_def)
  then show ?thesis
    by (simp add: zwapi_session_send_frame_with_response_def send_frame_def notify_connection_lost_eq record_loss_def session_unlock_def
        ticking_session_def sample_session_def lost_session_def)
qed

lemma reachable_offline: "api_reachable (sample_zw lost_session)"
proof (rule api_reachable.initialised)
  show "session_ready (zw_m (sample_zw (ticking_session [Hangup])))"
    by (simp add: sample_zw_def session_ready_def ticking_session_def sample_session_def progressing_ticking frames_queued_def)
  show "zwapi_init serial_link 3 None (sample_zw (ticking_session [Hangup])) = Some (SL_STATUS_FAIL, sample_zw lost_session)"
    by (simp add: zwapi_init_def zwapi_refresh_protocol_version_def call_session_send_frame_with_response_def serial_link_def hung_up_session
        copy_response_def sample_zw_def zwave_api_protocol_init_callbacks_def zwapi_init_local_variables_def no_request_def)
qed (simp_all add: sample_zw_def)

theorem api_calls_stay_in_bounds_witness:
  "(\<exists>z'. api_step serial_link (Transport (Send_data 5 [0x20, 0x01, 0xFF] 0 1)) (sample_zw lost_session) = Some z' \<and> api_reachable z') \<and>
   api_step serial_link (Transport (Send_data 5 (replicate 178 0) 0 1)) (sample_zw lost_session) = None"
proof
  show "\<exists>z'. api_step serial_link (Transport (Send_data 5 [0x20, 0x01, 0xFF] 0 1)) (sample_zw lost_session) = Some z' \<and> api_reachable z'"
    using api_calls_stay_in_bounds [OF reachable_offline, of "Transport (Send_data 5 [0x20, 0x01, 0xFF] 0 1)"]
    by (auto simp: sample_zw_def zero_chip_def id_length_def node_id_bytes_def simp del: api_step.simps transport_step.simps split: option.splits)
  show "api_step serial_link (Transport (Send_data 5 (replicate 178 0) 0 1)) (sample_zw lost_session) = None"
    using api_calls_stay_in_bounds [OF reachable_offline, of "Transport (Send_data 5 (replicate 178 0) 0 1)"]
    by (simp add: sample_zw_def zero_chip_def id_length_def node_id_bytes_def split: option.splits)
qed

text \<open>The check of the length in \<^verbatim>\<open>zwapi_send_data\<close> lets requests pass that are too long for the buffer.\<close>

lemma send_data_length_check:
  assumes "api_reachable z" and "node_id_basetype_setting z = NODEID_16BITS" and "library_type (chip z) \<noteq> ZWAVE_LIBRARY_TYPE_CONTROLLER_BRIDGE"
  shows "zwapi_send_data serial_link destination data tx_options f z = None \<longleftrightarrow> length data \<in> {176..178}"
  using api_step_undefined_iff [OF assms(1), of "Transport (Send_data destination data tx_options f)"] assms(3)
  by (auto simp: id_length_simps(2) [OF assms(2)])

section \<open>Received frames\<close>

text \<open>
  C36. Whatever frame of 2 to 255 bytes the module sends, and whatever follows it in memory, the dispatcher stays
  within its arrays and keeps their sizes, unless the frame is one of two kinds: an update of the controller
  with a node information frame of 178 to 180 bytes, or a request for encryption whose two lengths lead to
  the last bytes of the block.
\<close>

theorem dispatch_undefined_exactly_for_hazards:
  assumes "api_reachable z" and "2 \<le> length frame" and "length frame \<le> 255" and "253 \<le> length junk"
  shows "case zwave_api_protocol_rx_dispatch (take 255 (frame @ junk)) (length frame) z of
      None \<Rightarrow> dispatch_hazard (take 255 (frame @ junk)) z
    | Some z' \<Rightarrow> \<not> dispatch_hazard (take 255 (frame @ junk)) z \<and> zw_ok session_ready z'"
proof -
  have z: "zw_ok session_ready z" by (rule reachable_ok [OF assms(1)])
  have "length (take 255 (frame @ junk)) = 255" using assms(2-4) by simp
  then show ?thesis
    using rx_dispatch_defined [of "take 255 (frame @ junk)" z "length frame"] z assms(3)
    by (auto simp: zw_ok_def dispatched_def returns_def split: if_splits option.split)
qed

theorem dispatch_undefined_exactly_for_hazards_witness:
  "\<exists>z'. zwave_api_protocol_rx_dispatch (take 255 ([5, 0, 0x04, 0, 7, 1] @ replicate 253 0)) (length [5, 0, 0x04, 0, 7, 1 :: u8]) (sample_zw lost_session) = Some z' \<and>
    zw_ok session_ready z'"
proof -
  have "\<not> dispatch_hazard (take 255 ([5, 0, 0x04, 0, 7, 1] @ replicate 253 0)) (sample_zw lost_session)"
    by (simp add: dispatch_hazard_def sample_zw_def)
  then show ?thesis
    using dispatch_undefined_exactly_for_hazards [OF reachable_offline, of "[5, 0, 0x04, 0, 7, 1]" "replicate 253 0"]
    by (auto split: option.splits)
qed

section \<open>The list of Long Range nodes\<close>

text \<open>
  The loop that reads the list of Long Range nodes ends only when the module says so: if every answer of
  the module announces more nodes and brings none, \<^verbatim>\<open>zwapi_get_long_range_nodes\<close> never returns.
\<close>

theorem lr_node_list_never_ends:
  assumes "zwapi_support_command_func FUNC_ID_SERIAL_API_GET_LR_NODES z = Some True"
    and "\<And>payload len m. \<exists>m'. lk_send_frame_with_response lk FUNC_ID_SERIAL_API_GET_LR_NODES payload len m =
      Some (SL_STATUS_OK, Some [5, 1, FUNC_ID_SERIAL_API_GET_LR_NODES, 1, start, 0], m')"
  shows "zwapi_get_long_range_nodes lk nl z = None"
proof -
  let ?more = "\<lambda>z. zwapi_support_command_func FUNC_ID_SERIAL_API_GET_LR_NODES z = Some True"
  have "\<not> ?more z" if "lr_nodes_loop lk o1 n1 l1 z = Some r" for o1 n1 l1 r and z :: "'a zw"
  proof -
    have "lk = lk \<longrightarrow> \<not> ?more z"
    proof (rule lr_nodes_loop.raw_induct [where P = "\<lambda>lk' o1 n1 l1 z r. lk' = lk \<longrightarrow> \<not> ?more z", OF _ that], goal_cases)
      case (1 f lk' o1 n1 l1 z r)
      have "False" if lk': "lk' = lk" and z: "?more z"
      proof -
        obtain m' where m': "lk_send_frame_with_response lk FUNC_ID_SERIAL_API_GET_LR_NODES (fst (built [o1])) (snd (built [o1])) (zw_m z) =
            Some (SL_STATUS_OK, Some [5, 1, FUNC_ID_SERIAL_API_GET_LR_NODES, 1, start, 0], m')"
          using assms(2) by blast
        have more: "?more (z\<lparr>zw_m := m'\<rparr>)" using z by (simp add: zwapi_support_command_func_def)
        have "f lk (start + 1) n1 l1 (z\<lparr>zw_m := m'\<rparr>) = Some r"
          using 1(2) lk' z m' by (simp add: request_1_def request_simps zwapi_send_command_with_response_def
            call_session_send_frame_with_response_def copy_response_def write_bytes_def zero_response_def numeral_eq_Suc)
        then show False using 1(1) [of lk "start + 1" n1 l1 "z\<lparr>zw_m := m'\<rparr>" r] more by simp
      qed
      then show ?case by blast
    qed
    then show ?thesis by simp
  qed
  then show ?thesis using assms(1) by (cases "lr_nodes_loop lk 0 0 nl z") (auto simp: zwapi_get_long_range_nodes_def)
qed

text \<open>A module that has more nodes for ever.\<close>

definition endless_link :: "unit zwapi_link" where
  "endless_link = \<lparr>lk_send_frame = (\<lambda>c p len m. Some (SL_STATUS_OK, m)),
     lk_send_frame_with_response = (\<lambda>c p len m. Some (SL_STATUS_OK, Some [5, 1, FUNC_ID_SERIAL_API_GET_LR_NODES, 1, 0, 0], m)),
     lk_send_frame_no_ack = (\<lambda>c p len m. Some (SL_STATUS_OK, m)), lk_enqueue_rx_frames = Some, lk_dequeue_frame = (\<lambda>m. (None, False, m)),
     lk_flush_queue = id, lk_restart = (\<lambda>m. Some (3, m)), lk_notify_connection_lost = Some, lk_clock = (\<lambda>m. (\<lparr>tv_sec = 0, tv_nsec = 0\<rparr>, m))\<rparr>"

definition full_zw :: "unit zw" where
  "full_zw = (sample_zw ())\<lparr>chip := zero_chip\<lparr>supported_bitmask := replicate ZWAPI_MAXIMUM_BITMASK_LENGTH 255\<rparr>\<rparr>"

theorem lr_node_list_never_ends_witness: "zwapi_get_long_range_nodes endless_link (replicate 501 0) full_zw = None"
  by (rule lr_node_list_never_ends [where start = 0])
    (simp_all add: endless_link_def full_zw_def zwapi_support_command_func_def read_cell_def)

section \<open>Smaller deviations\<close>

text \<open>A number of route attempts out of range is reported as set.\<close>

lemma max_source_route_out_of_range_ok:
  "maxRouteTries = 0 \<or> maxRouteTries > 20 \<Longrightarrow> zwapi_set_max_source_route lk maxRouteTries z = Some (SL_STATUS_OK, z)"
  by (auto simp: zwapi_set_max_source_route_def)

text \<open>The answer to a request for a new primary controller has no callback: the dispatcher waits for another command.\<close>

lemma new_primary_callback_not_dispatched:
  "pData ! IDX_CMD = FUNC_ID_ZW_NEW_CONTROLLER \<Longrightarrow> zwave_api_protocol_rx_dispatch pData len z = Some z"
  by (simp add: zwave_api_protocol_rx_dispatch_def transmit_callback_def learn_callback_def status_callback_def Let_def split: option.split)

end
