(* ===== verification/Zwave_Rx.thy ===== *)
theory Zwave_Rx
  imports Zwapi_Dispatch Zwapi_Init Zwapi_Transport Controller_Transport
begin

text \<open>
  Receiving (\<^verbatim>\<open>zwave_rx.c\<close>, \<^verbatim>\<open>zwave_rx_zwapi_callbacks.c\<close> and \<^verbatim>\<open>zwave_rx_callbacks.c\<close>): the
  configuration of the module, and what the controller is told when the Z-Wave API hands over a
  frame, an update or a restart of the module. What reaches the controller is recorded in
  \<open>rx_out\<close>.
\<close>

section \<open>State\<close>

abbreviation (input) RECEIVE_STATUS_TYPE_BROAD :: u8 where "RECEIVE_STATUS_TYPE_BROAD \<equiv> 0x04"
abbreviation (input) RECEIVE_STATUS_TYPE_MULTI :: u8 where "RECEIVE_STATUS_TYPE_MULTI \<equiv> 0x08"
abbreviation (input) UPDATE_STATE_SUC_ID :: u8 where "UPDATE_STATE_SUC_ID \<equiv> 0x10"
abbreviation (input) UPDATE_STATE_DELETE_DONE :: u8 where "UPDATE_STATE_DELETE_DONE \<equiv> 0x20"
abbreviation (input) UPDATE_STATE_NEW_ID_ASSIGNED :: u8 where "UPDATE_STATE_NEW_ID_ASSIGNED \<equiv> 0x40"
abbreviation (input) UPDATE_STATE_NODE_INFO_REQ_FAILED :: u8 where "UPDATE_STATE_NODE_INFO_REQ_FAILED \<equiv> 0x81"
abbreviation (input) UPDATE_STATE_NODE_INFO_RECEIVED :: u8 where "UPDATE_STATE_NODE_INFO_RECEIVED \<equiv> 0x84"
abbreviation (input) ZWAVE_LIBRARY_TYPE_CONTROLLER_STATIC :: u8 where "ZWAVE_LIBRARY_TYPE_CONTROLLER_STATIC \<equiv> 0x01"
abbreviation (input) ZWAVE_LIBRARY_TYPE_CONTROLLER :: u8 where "ZWAVE_LIBRARY_TYPE_CONTROLLER \<equiv> 0x02"
abbreviation (input) ZWAVE_API_STARTED_MAX_ATTEMPTS :: nat where "ZWAVE_API_STARTED_MAX_ATTEMPTS \<equiv> 3"
abbreviation (input) NUMBER_OF_STARTED_CALLBACKS :: nat where "NUMBER_OF_STARTED_CALLBACKS \<equiv> 2"

datatype rx_output =
  On_frame_reception node_id "u8 list option"
| On_frame_received connection_info u8 u8 "u8 list"
| On_node_id_assigned node_id
| On_node_deleted node_id
| On_node_info_req_failed node_id
| On_node_information node_id node_info
| On_new_suc node_id
| On_smart_start_inclusion_request u32 bool node_info bool
| On_protocol_cc_encryption_request node_id "u8 list" "u8 list" u8 u8
| On_api_started nat

record 'm rx =
  rx_zw :: "'m zw"
  zwave_api_started_callbacks :: "nat list"
  rx_out :: "rx_output list"

text \<open>The build, and what is in the memory behind a received frame.\<close>

record 'm rx_env =
  rx_link :: "'m zwapi_link"
  rx_ndebug :: bool
  rx_junk :: "'m zw \<Rightarrow> u8 list"

definition rx_emit :: "rx_output \<Rightarrow> 'm rx \<Rightarrow> 'm rx" where
  "rx_emit e x = x\<lparr>rx_out := rx_out x @ [e]\<rparr>"

section \<open>Callbacks for a restart of the module\<close>

definition zwave_rx_register_zwave_api_started_callback :: "nat \<Rightarrow> 'm rx \<Rightarrow> sl_status \<times> 'm rx" where
  "zwave_rx_register_zwave_api_started_callback callback x =
     (if callback = 0 then (SL_STATUS_FAIL, x)
      else if callback \<in> set (zwave_api_started_callbacks x) then (SL_STATUS_OK, x)
      else case first_index (\<lambda>c. c = 0) (zwave_api_started_callbacks x) of
             Some i \<Rightarrow> (SL_STATUS_OK, x\<lparr>zwave_api_started_callbacks := (zwave_api_started_callbacks x)[i := callback]\<rparr>)
           | None \<Rightarrow> (SL_STATUS_NO_MORE_RESOURCE, x))"

definition zwave_rx_on_zwave_api_started :: "'m rx \<Rightarrow> 'm rx" where
  "zwave_rx_on_zwave_api_started x = fold (\<lambda>c. rx_emit (On_api_started c)) (filter (\<lambda>c. c \<noteq> 0) (zwave_api_started_callbacks x)) x"

section \<open>What the Z-Wave API hands over\<close>

definition zwave_rx_protocol_cc_encryption_request :: "node_id \<Rightarrow> u8 list \<Rightarrow> u8 list \<Rightarrow> u8 \<Rightarrow> u8 \<Rightarrow> 'm rx \<Rightarrow> 'm rx" where
  "zwave_rx_protocol_cc_encryption_request destination payload metadata use_supervision session_id x =
     rx_emit (On_protocol_cc_encryption_request destination payload metadata use_supervision session_id) x"

definition zwave_rx_application_command_handler ::
  "u8 \<Rightarrow> node_id \<Rightarrow> node_id \<Rightarrow> u8 list \<Rightarrow> u8 \<Rightarrow> 'm rx \<Rightarrow> 'm rx" where
  "zwave_rx_application_command_handler rx_status destination source payload rssi x =
     (if length payload = 0 then x
      else let info = zero_connection\<lparr>local_node_id := destination, remote_node_id := source, encapsulation := SCHEME_NONE\<rparr>;
               info = (if rx_status AND RECEIVE_STATUS_TYPE_BROAD \<noteq> 0 \<or> rx_status AND RECEIVE_STATUS_TYPE_MULTI \<noteq> 0
                       then info\<lparr>local_is_multicast := True\<rparr> else info)
           in rx_emit (On_frame_received info rx_status rssi payload) (rx_emit (On_frame_reception source (Some payload)) x))"

definition zwave_rx_application_command_handler_bridge ::
  "u8 \<Rightarrow> node_id \<Rightarrow> node_id \<Rightarrow> u8 list \<Rightarrow> u8 \<Rightarrow> 'm rx \<Rightarrow> 'm rx" where
  "zwave_rx_application_command_handler_bridge = zwave_rx_application_command_handler"

text \<open>The fields of a node information frame, as far as the frame goes.\<close>

definition map_device_classes :: "bool \<Rightarrow> u8 list \<Rightarrow> node_info \<Rightarrow> node_info option" where
  "map_device_classes release nif info = do {
     let info = info\<lparr>basic_device_class := nif ! 0\<rparr>;
     if 1 \<ge> length nif then Some info
     else do {
       let info = info\<lparr>generic_device_class := nif ! 1\<rparr>;
       if 2 \<ge> length nif then Some info
       else do {
         let info = info\<lparr>specific_device_class := nif ! 2\<rparr>;
         if 3 \<ge> length nif then Some info else zwave_command_class_list_unpack release info (drop 3 nif)
       }
     }
   }"

definition zwave_rx_map_node_information ::
  "'m rx_env \<Rightarrow> node_id \<Rightarrow> u8 list option \<Rightarrow> node_info \<Rightarrow> 'm rx \<Rightarrow> (node_info \<times> 'm rx) option" where
  "zwave_rx_map_node_information env node nif info x =
     (case nif of
        None \<Rightarrow> Some (info, x)
      | Some nif \<Rightarrow>
          if length nif = 0 then Some (info, x)
          else do {
            (info, x) \<leftarrow> (if node > 0
               then do {
                 (st, h, z) \<leftarrow> zwapi_get_protocol_info (rx_link env) node (rx_zw x);
                 Some (case h of
                         Some h \<Rightarrow> info\<lparr>listening_protocol := nih_capability h, optional_protocol := nih_security h\<rparr>
                       | None \<Rightarrow> info, x\<lparr>rx_zw := z\<rparr>)
               }
               else Some (info, x));
            info \<leftarrow> map_device_classes (rx_ndebug env) nif info;
            Some (info, x)
          })"

definition zwave_rx_application_controller_update ::
  "'m rx_env \<Rightarrow> u8 \<Rightarrow> node_id \<Rightarrow> u8 list option \<Rightarrow> u32 \<Rightarrow> 'm rx \<Rightarrow> 'm rx option" where
  "zwave_rx_application_controller_update env st node nif nwi_home_id x =
     (if st = UPDATE_STATE_NEW_ID_ASSIGNED then Some (rx_emit (On_node_id_assigned node) x)
      else if st = UPDATE_STATE_DELETE_DONE then Some (rx_emit (On_node_deleted node) x)
      else if st = UPDATE_STATE_NODE_INFO_REQ_FAILED then Some (rx_emit (On_node_info_req_failed node) x)
      else if st = UPDATE_STATE_NODE_INFO_RECEIVED
      then do {
        (info, x) \<leftarrow> zwave_rx_map_node_information env node nif empty_node_info (rx_emit (On_frame_reception node None) x);
        Some (rx_emit (On_node_information node info) x)
      }
      else if st = UPDATE_STATE_SUC_ID then Some (rx_emit (On_new_suc node) x)
      else if st = UPDATE_STATE_NODE_INFO_FOREIGN_HOMEID_RECEIVED \<or> st = UPDATE_STATE_INCLUDED_NODE_INFO_RECEIVED
             \<or> st = UPDATE_STATE_NODE_INFO_SMARTSTART_HOMEID_RECEIVED_LR
      then do {
        (info, x) \<leftarrow> zwave_rx_map_node_information env 0 nif empty_node_info x;
        Some (rx_emit (On_smart_start_inclusion_request nwi_home_id (st = UPDATE_STATE_INCLUDED_NODE_INFO_RECEIVED) info
          (st = UPDATE_STATE_NODE_INFO_SMARTSTART_HOMEID_RECEIVED_LR)) x)
      }
      else Some x)"

definition zwave_rx_zwave_api_started :: "'m rx_env \<Rightarrow> 'm rx \<Rightarrow> 'm rx option" where
  "zwave_rx_zwave_api_started env x = do {
     (st, z) \<leftarrow> zwapi_set_node_id_basetype (rx_link env) NODEID_16BITS (rx_zw x);
     Some (zwave_rx_on_zwave_api_started (x\<lparr>rx_zw := z\<rparr>))
   }"

section \<open>Polling\<close>

text \<open>The registered functions are called for what the dispatcher hands over.\<close>

definition rx_handle :: "'m rx_env \<Rightarrow> zw_output \<Rightarrow> 'm rx \<Rightarrow> 'm rx option" where
  "rx_handle env e x =
     (case e of
        Command_handler f st destination source payload rssi \<Rightarrow> Some (zwave_rx_application_command_handler st destination source payload rssi x)
      | Controller_update f st node nif n home \<Rightarrow> zwave_rx_application_controller_update env st node nif home x
      | Cc_encryption_request f destination payload metadata use_supervision session_id \<Rightarrow>
          Some (zwave_rx_protocol_cc_encryption_request destination payload metadata use_supervision session_id x)
      | Api_started f data \<Rightarrow> zwave_rx_zwave_api_started env x
      | _ \<Rightarrow> Some x)"

fun rx_handle_all :: "'m rx_env \<Rightarrow> zw_output list \<Rightarrow> 'm rx \<Rightarrow> 'm rx option" where
  "rx_handle_all env [] x = Some x"
| "rx_handle_all env (e # es) x = do { x \<leftarrow> rx_handle env e x; rx_handle_all env es x }"

definition rx_poll :: "'m rx_env \<Rightarrow> 'm rx \<Rightarrow> (bool \<times> 'm rx) option" where
  "rx_poll env x = do {
     (more, z) \<leftarrow> zwapi_poll (rx_link env) (rx_junk env (rx_zw x)) (rx_zw x);
     x \<leftarrow> rx_handle_all env (drop (length (zw_out (rx_zw x))) (zw_out z)) (x\<lparr>rx_zw := z\<rparr>);
     Some (more, x)
   }"

section \<open>Configuration\<close>

definition read_clock :: "'m rx_env \<Rightarrow> 'm rx \<Rightarrow> timespec \<times> 'm rx" where
  "read_clock env x =
     (case lk_clock (rx_link env) (zw_m (rx_zw x)) of (t, m) \<Rightarrow> (t, x\<lparr>rx_zw := (rx_zw x)\<lparr>zw_m := m\<rparr>\<rparr>))"

definition at_or_after :: "timespec \<Rightarrow> timespec \<Rightarrow> bool" where
  "at_or_after now deadline \<longleftrightarrow> tv_sec now > tv_sec deadline \<or> tv_sec now = tv_sec deadline \<and> tv_nsec now \<ge> tv_nsec deadline"

text \<open>The wait of one attempt, until the module has started or the deadline has passed.\<close>

partial_function (option) await_started :: "'m rx_env \<Rightarrow> timespec \<Rightarrow> 'm rx \<Rightarrow> 'm rx option" where
  "await_started env deadline x =
     (if \<not> awaiting_zwave_api_started (rx_zw x) then Some x
      else Option.bind (rx_poll env x) (\<lambda>(more, x).
        case read_clock env x of (now, x) \<Rightarrow> if at_or_after now deadline then Some x else await_started env deadline x))"

definition started_attempt :: "'m rx_env \<Rightarrow> 'm rx \<Rightarrow> 'm rx option" where
  "started_attempt env x = (case read_clock env x of (t, x) \<Rightarrow> await_started env (t\<lparr>tv_sec := tv_sec t + 5\<rparr>) x)"

definition reconnect_and_reset :: "'m rx_env \<Rightarrow> 'm rx \<Rightarrow> 'm rx option" where
  "reconnect_and_reset env x = do {
     (fd, z) \<leftarrow> zwapi_reconnect (rx_link env) (rx_zw x);
     (st, z) \<leftarrow> zwapi_soft_reset (rx_link env) z;
     Some (x\<lparr>rx_zw := z\<rparr>)
   }"

fun started_attempts :: "'m rx_env \<Rightarrow> nat \<Rightarrow> bool \<Rightarrow> 'm rx \<Rightarrow> (sl_status \<times> 'm rx) option" where
  "started_attempts env 0 again x = Some (SL_STATUS_FAIL, x)"
| "started_attempts env (Suc n) again x = do {
     x \<leftarrow> (if again then reconnect_and_reset env x else Some x);
     x \<leftarrow> started_attempt env x;
     if \<not> awaiting_zwave_api_started (rx_zw x) then Some (SL_STATUS_OK, x) else started_attempts env n True x
   }"

definition zwave_rx_wait_for_zwave_api_to_be_ready :: "'m rx_env \<Rightarrow> 'm rx \<Rightarrow> (sl_status \<times> 'm rx) option" where
  "zwave_rx_wait_for_zwave_api_to_be_ready env x = started_attempts env ZWAVE_API_STARTED_MAX_ATTEMPTS False x"

definition IS_RF_REGION_LR :: "u8 \<Rightarrow> bool" where
  "IS_RF_REGION_LR region \<longleftrightarrow> region = 0x09 \<or> region = 0x0B"

text \<open>
  The region of the configuration: whether the module runs in it, and whether it has to be reset for
  it. Then the power for Long Range.
\<close>

definition configure_region :: "'m zwapi_link \<Rightarrow> u8 \<Rightarrow> 'm zw \<Rightarrow> (bool \<times> bool \<times> 'm zw) option" where
  "configure_region lk region z = do {
     (current, z) \<leftarrow> zwapi_get_rf_region lk z;
     if region = current then Some (True, False, z)
     else do {
       (st, z) \<leftarrow> zwapi_set_rf_region lk region z;
       if st = SL_STATUS_NOT_SUPPORTED then do { (_, z) \<leftarrow> zwapi_get_rf_region lk z; Some (True, False, z) }
       else if st \<noteq> SL_STATUS_OK then do { (_, z) \<leftarrow> zwapi_get_rf_region lk z; Some (False, False, z) }
       else Some (True, True, z)
     }
   }"

definition configure_long_range :: "'m zwapi_link \<Rightarrow> u16 \<Rightarrow> bool \<Rightarrow> 'm zw \<Rightarrow> (bool \<times> 'm zw) option" where
  "configure_long_range lk max_lr_tx_power_dbm soft_reset_needed z = do {
     (current, z) \<leftarrow> zwapi_get_rf_region lk z;
     if \<not> IS_RF_REGION_LR current then Some (soft_reset_needed, z)
     else do {
       (st, z) \<leftarrow> zwapi_set_max_lr_tx_power_level lk max_lr_tx_power_dbm z;
       (_, z) \<leftarrow> zwapi_get_max_lr_tx_power_level lk z;
       Some (soft_reset_needed \<or> st = SL_STATUS_OK, z)
     }
   }"

definition rx_callbacks :: zwapi_callbacks where
  "rx_callbacks = \<lparr>application_command_handler = 1, application_controller_update = 2, application_command_handler_bridge = 3,
     protocol_cc_encryption_request = 4, zwapi_started = 5\<rparr>"

definition zwave_rx_init :: "'m rx_env \<Rightarrow> int \<Rightarrow> u16 \<Rightarrow> u16 \<Rightarrow> u16 \<Rightarrow> u8 \<Rightarrow> 'm rx \<Rightarrow> (sl_status \<times> 'm rx) option" where
  "zwave_rx_init env fd normal_tx_power_dbm measured_0dBm_power max_lr_tx_power_dbm region x = do {
     let lk = rx_link env;
     (st, z) \<leftarrow> zwapi_init lk fd (Some rx_callbacks) (rx_zw x);
     if st \<noteq> SL_STATUS_OK then Some (st, x\<lparr>rx_zw := z\<rparr>)
     else if library_type (chip z) \<notin> {ZWAVE_LIBRARY_TYPE_CONTROLLER_STATIC, ZWAVE_LIBRARY_TYPE_CONTROLLER, ZWAVE_LIBRARY_TYPE_CONTROLLER_BRIDGE}
     then Some (SL_STATUS_FAIL, x\<lparr>rx_zw := z\<rparr>)
     else do {
       (_, z) \<leftarrow> zwapi_set_tx_power_level lk normal_tx_power_dbm measured_0dBm_power z;
       (_, z) \<leftarrow> zwapi_set_tx_status_reporting lk True z;
       (ok, soft_reset_needed, z) \<leftarrow> configure_region lk region z;
       if \<not> ok then Some (SL_STATUS_FAIL, x\<lparr>rx_zw := z\<rparr>)
       else do {
         (soft_reset_needed, z) \<leftarrow> configure_long_range lk max_lr_tx_power_dbm soft_reset_needed z;
         (st, x) \<leftarrow> (if soft_reset_needed
            then do {
              (_, z) \<leftarrow> zwapi_soft_reset lk z;
              zwave_rx_wait_for_zwave_api_to_be_ready env (x\<lparr>rx_zw := z\<rparr>)
            }
            else Some (SL_STATUS_OK, x\<lparr>rx_zw := z\<rparr>));
         if st \<noteq> SL_STATUS_OK then Some (st, x)
         else do {
           (_, z) \<leftarrow> zwapi_set_node_id_basetype lk NODEID_16BITS (rx_zw x);
           Some (SL_STATUS_OK, x\<lparr>rx_zw := z\<rparr>)
         }
       }
     }
   }"

end
