(* ===== verification/Zwapi_Delivery.thy ===== *)
theory Zwapi_Delivery
  imports Zwapi_Properties Zwave_Rx
begin

text \<open>
  The way of a received command class frame through the layers: bytes on the serial line, a frame of the
  connection, the queue of the session, the dispatcher of the Z-Wave API and the controller.
\<close>

section \<open>The dispatch of a frame\<close>

text \<open>The data of a frame that the bridge library reports, with an empty node mask and a signal strength.\<close>

definition bridge_data :: "node_id_basetype \<Rightarrow> u8 \<Rightarrow> node_id \<Rightarrow> node_id \<Rightarrow> u8 list \<Rightarrow> u8 \<Rightarrow> u8 list" where
  "bridge_data b rx_status destination source payload rssi =
     rx_status # node_id_bytes b destination @ node_id_bytes b source @ of_nat (length payload) # payload @ [0, rssi]"

lemma copy_command_block:
  assumes "length pre + length data < 256" and "length old + length data \<le> length buf"
  shows "copy_command (pre @ data @ rest) (length old) (length data) (of_nat (length pre)) (old @ drop (length old) buf) =
    Some (of_nat (length pre + length data), old @ data @ drop (length old + length data) buf)"
  using assms
proof (induction data arbitrary: pre old)
  case (Cons b data)
  have u: "unat (of_nat (length pre) :: u8) = length pre" using Cons.prems(1) unfolding unat_of_nat by simp
  have "(old @ drop (length old) buf)[length old := b] = (old @ [b]) @ drop (length (old @ [b])) buf"
    using Cons.prems(2) by (simp add: list_update_append Cons_nth_drop_Suc [symmetric])
  then show ?case
    using Cons.IH [of "pre @ [b]" "old @ [b]"] Cons.prems by (simp add: read_cell_def write_cell_def u nth_append ac_simps)
qed simp

lemma copy_command_all:
  assumes "length pre + length data < 256" and "length data \<le> length buf"
  shows "copy_command (pre @ data @ rest) 0 (length data) (of_nat (length pre)) buf = Some (of_nat (length pre + length data), data @ drop (length data) buf)"
  using copy_command_block [of pre data "[]" buf rest] assms by simp

lemma bridge_steps:
  assumes "pData ! IDX_DATA = rx_status" and "zwapi_read_node_id z pData (of_nat (IDX_DATA + 1)) = Some (destination, i1)"
    and "zwapi_read_node_id z pData i1 = Some (source, i2)" and "read_cell pData (unat i2) = Some n" and "unat n \<le> REQUEST_BUFFER_SIZE"
    and "copy_command pData 0 (unat n) (i2 + 1) (zwapi_command_buffer z) = Some (i3, buf)"
    and "read_cell pData (unat i3) = Some 0" and "read_rssi pData len (i3 + 1) = Some rssi"
  shows "dispatch_command_handler_bridge f pData len z =
    Some (zw_emit (Command_handler f rx_status destination source (take (unat n) buf) rssi) (z\<lparr>zwapi_command_buffer := buf\<rparr>))"
  using assms by (simp add: dispatch_command_handler_bridge_def zwave_api_detect_buffer_overflow_def)

lemma dispatch_bridge_frame:
  assumes "length (bridge_data b rx_status destination source payload rssi) \<le> 250" and "length payload \<le> REQUEST_BUFFER_SIZE"
    and "length (zwapi_command_buffer z) = REQUEST_BUFFER_SIZE" and "b = node_id_basetype_setting z"
    and "b = NODEID_16BITS \<or> destination < 256 \<and> source < 256"
    and "zw_handlers z = Some h" and "application_command_handler_bridge h = f" and "f \<noteq> 0"
  shows "zwave_api_protocol_rx_dispatch ([l, 0, FUNC_ID_APPLICATION_COMMAND_HANDLER_BRIDGE] @ bridge_data b rx_status destination source payload rssi @ rest)
      (3 + length (bridge_data b rx_status destination source payload rssi)) z =
    Some (zw_emit (Command_handler f rx_status destination source payload rssi) (z\<lparr>zwapi_command_buffer := payload @ drop (length payload) (zwapi_command_buffer z)\<rparr>))"
proof -
  let ?pre = "[l, 0, FUNC_ID_APPLICATION_COMMAND_HANDLER_BRIDGE, rx_status]"
  let ?d = "node_id_bytes b destination" and ?s = "node_id_bytes b source" and ?n = "length payload"
  let ?p = "?pre @ ?d @ ?s @ of_nat ?n # payload @ [0, rssi] @ rest"
  let ?k = "length (?pre @ ?d @ ?s)"
  have k: "?k + ?n + 2 < 256" using assms(1) by (simp add: bridge_data_def)
  have u: "unat (of_nat i :: u8) = i" if "i < 256" for i using that unfolding unat_of_nat by simp
  have un: "unat (of_nat ?n :: u8) = ?n" using k by (intro u) simp
  have d: "zwapi_read_node_id z ?p (of_nat (length ?pre)) = Some (destination, of_nat (length (?pre @ ?d)))"
    using read_node_id_written [of ?pre z destination "?s @ of_nat ?n # payload @ [0, rssi] @ rest"] assms(4,5) k by auto
  have s: "zwapi_read_node_id z ?p (of_nat (length (?pre @ ?d))) = Some (source, of_nat ?k)"
    using read_node_id_written [of "?pre @ ?d" z source "of_nat ?n # payload @ [0, rssi] @ rest"] assms(4,5) k by auto
  have n: "read_cell ?p (unat (of_nat ?k :: u8)) = Some (of_nat ?n)"
    using k by (subst u) (auto simp: read_cell_def nth_append)
  have c: "copy_command ?p 0 ?n (of_nat (Suc ?k)) (zwapi_command_buffer z) =
      Some (of_nat (Suc ?k + ?n), payload @ drop ?n (zwapi_command_buffer z))"
    using copy_command_all [of "?pre @ ?d @ ?s @ [of_nat ?n]" payload "zwapi_command_buffer z" "[0, rssi] @ rest"] k assms(2,3) by simp
  have m: "read_cell ?p (unat (of_nat (Suc ?k + ?n) :: u8)) = Some 0"
    using k by (subst u) (auto simp: read_cell_def nth_append)
  have r: "read_rssi ?p (3 + length (bridge_data b rx_status destination source payload rssi)) (of_nat (Suc ?k + ?n + 1)) = Some rssi"
    using k by (subst (1) read_rssi_def, subst (1 2) u) (auto simp: read_cell_def nth_append bridge_data_def)
  have p: "[l, 0, FUNC_ID_APPLICATION_COMMAND_HANDLER_BRIDGE] @ bridge_data b rx_status destination source payload rssi @ rest = ?p"
    by (simp add: bridge_data_def)
  have i: "of_nat ?k + 1 = (of_nat (Suc ?k) :: u8)" "of_nat (Suc ?k + ?n) + 1 = (of_nat (Suc ?k + ?n + 1) :: u8)" by simp_all
  have t: "take (unat (of_nat ?n :: u8)) (payload @ drop ?n (zwapi_command_buffer z)) = payload" unfolding un by simp
  have "dispatch_command_handler_bridge f ?p (3 + length (bridge_data b rx_status destination source payload rssi)) z =
      Some (zw_emit (Command_handler f rx_status destination source payload rssi) (z\<lparr>zwapi_command_buffer := payload @ drop ?n (zwapi_command_buffer z)\<rparr>))"
    using bridge_steps [of ?p rx_status z destination "of_nat (length (?pre @ ?d))" source "of_nat ?k" "of_nat ?n" "of_nat (Suc ?k + ?n)"
        "payload @ drop ?n (zwapi_command_buffer z)" "3 + length (bridge_data b rx_status destination source payload rssi)" rssi f]
    unfolding un t i using d s n c m r assms(2) by simp
  then show ?thesis
    unfolding p using assms(6-8) by (simp add: zwave_api_protocol_rx_dispatch_def if_registered_def)
qed

section \<open>From the line to the controller\<close>

interpretation first_queued: session_predicate "\<lambda>s. \<exists>q. zwapi_session_rx_queue s = f # q" id for f :: "u8 list"
  by unfold_locales (auto simp: zwapi_session_enqueue_frame_def Let_def session_unlock_def record_loss_def)

lemma line_to_queue:
  assumes "\<not> session_serial_mutex s" and "zwapi_session_rx_queue s = []"
    and "port_live (device (conn s))" and "zwapi_connection_state (conn s) = STATE_SOF_HUNT" and "\<not> ack_nak_needed (conn s)"
    and "length data \<le> 250" and "line (device (conn s)) = map Rx (tx_frame cmd 0 data (of_nat (length data))) @ l"
  shows "\<exists>s' q. zwapi_session_enqueue_rx_frames serial_interface id s = Some s' \<and>
    zwapi_session_rx_queue s' = ((of_nat (length data) + 3) # 0 # cmd # data) # q"
proof -
  let ?f = "(of_nat (length data) + 3) # 0 # cmd # data" and ?s = "s\<lparr>session_serial_mutex := True\<rparr>"
  have n: "unat (of_nat (length data) :: u8) = length data" using assms(6) unfolding unat_of_nat by simp
  obtain c where c: "zwapi_connection_refresh serial_interface (conn s) = Some (STATUS_FRAME_RECEIVED, c)"
    "zwapi_connection_get_last_rx_frame 255 c = ?f"
    using serial_frame_roundtrip [OF assms(3-5) _ n assms(7)] assms(6) n by auto
  let ?s1 = "zwapi_session_enqueue_frame (?s\<lparr>conn := c\<rparr>)"
  have q1: "\<exists>q. zwapi_session_rx_queue ?s1 = ?f # q"
    using assms(2) c(2) by (simp add: zwapi_session_enqueue_frame_def zwapi_session_get_rx_queue_length_def)
  obtain b s2 where s2: "enqueue_rx_frames serial_interface ?s1 = Some (b, s2)" using enqueue_rx_frames_returns by blast
  have "enqueue_rx_frames serial_interface ?s = Some (b, s2)"
    using c(1) s2 by (subst enqueue_rx_frames.simps) simp
  then have d: "drain_locked serial_interface id s = Some (b, b \<or> zwapi_session_connection_lost s2, session_unlock s2)"
    using assms(1) by (simp add: drain_locked_def session_lock_def)
  have q2: "\<exists>q. zwapi_session_rx_queue (session_unlock s2) = ?f # q"
    using first_queued.enqueue_rx_frames_I [OF s2 q1] first_queued.I_unlock by blast
  obtain s3 where s3: "zwapi_session_notify_connection_lost id (session_unlock s2) = Some s3"
    using notify_returns [of "session_unlock s2"] by auto
  show ?thesis
    using d q2 first_queued.notify_I [OF s3 q2] s3 by (cases b) (auto simp: zwapi_session_enqueue_rx_frames_def)
qed

text \<open>
  C34. A command class frame that the module reports is handed to the controller once, by one poll, with its
  payload, its sender and the status and signal strength of its reception: from the bytes on the serial line
  through the connection, the session and the dispatcher.
\<close>

theorem bridge_frame_reaches_controller:
  assumes "rx_link env = serial_link" and "zw_m (rx_zw x) = s" and "node_id_basetype_setting (rx_zw x) = b"
    and "length (zwapi_command_buffer (rx_zw x)) = REQUEST_BUFFER_SIZE" and "zw_handlers (rx_zw x) = Some rx_callbacks"
    and "\<not> session_serial_mutex s" and "zwapi_session_rx_queue s = []"
    and "port_live (device (conn s))" and "zwapi_connection_state (conn s) = STATE_SOF_HUNT" and "\<not> ack_nak_needed (conn s)"
    and "data = bridge_data b rx_status destination source payload rssi" and "length data \<le> 250"
    and "line (device (conn s)) = map Rx (tx_frame FUNC_ID_APPLICATION_COMMAND_HANDLER_BRIDGE 0 data (of_nat (length data))) @ l"
    and "payload \<noteq> []" and "length payload \<le> REQUEST_BUFFER_SIZE" and "b = NODEID_16BITS \<or> destination < 256 \<and> source < 256"
  shows "\<exists>again x'. rx_poll env x = Some (again, x') \<and>
    rx_out x' = rx_out x @ [On_frame_reception source (Some payload),
      On_frame_received (zero_connection\<lparr>local_node_id := destination, remote_node_id := source, encapsulation := SCHEME_NONE,
        local_is_multicast := (rx_status AND RECEIVE_STATUS_TYPE_BROAD \<noteq> 0 \<or> rx_status AND RECEIVE_STATUS_TYPE_MULTI \<noteq> 0)\<rparr>) rx_status rssi payload]"
proof -
  let ?f = "(of_nat (length data) + 3) # 0 # FUNC_ID_APPLICATION_COMMAND_HANDLER_BRIDGE # data" and ?z = "rx_zw x"
  let ?junk = "rx_junk env ?z"
  obtain s1 q where s1: "zwapi_session_enqueue_rx_frames serial_interface id s = Some s1" "zwapi_session_rx_queue s1 = ?f # q"
    using line_to_queue [OF assms(6-10,12,13)] by blast
  let ?s2 = "s1\<lparr>zwapi_session_rx_queue := q\<rparr>"
  let ?z2 = "?z\<lparr>zw_m := ?s2, zwapi_command_buffer := payload @ drop (length payload) (zwapi_command_buffer ?z)\<rparr>"
  have f: "take 255 (?f @ ?junk) = [of_nat (length data) + 3, 0, FUNC_ID_APPLICATION_COMMAND_HANDLER_BRIDGE] @ data @ take (252 - length data) ?junk"
    using assms(12) by simp
  have n: "length ?f = 3 + length data" by simp
  have "zwave_api_protocol_rx_dispatch (take 255 (?f @ ?junk)) (length ?f) (?z\<lparr>zw_m := ?s2\<rparr>) =
      Some (zw_emit (Command_handler 3 rx_status destination source payload rssi)
        ((?z\<lparr>zw_m := ?s2\<rparr>)\<lparr>zwapi_command_buffer := payload @ drop (length payload) (zwapi_command_buffer (?z\<lparr>zw_m := ?s2\<rparr>))\<rparr>))"
    unfolding f n unfolding assms(11)
    by (rule dispatch_bridge_frame [where h = rx_callbacks]) (use assms(3-5,11,12,15,16) in \<open>simp_all add: rx_callbacks_def\<close>)
  then have "zwapi_poll serial_link ?junk ?z = Some (q \<noteq> [], zw_emit (Command_handler 3 rx_status destination source payload rssi) ?z2)"
    using s1 assms(2) by (simp add: zwapi_poll_def serial_link_def zwapi_session_dequeue_frame_def)
  then show ?thesis
    using assms(1,14) by (simp add: rx_poll_def rx_handle_def zw_emit_def zwave_rx_application_command_handler_def rx_emit_def zero_connection_def Let_def)
qed

definition sample_line :: "line_event list" where
  "sample_line = map Rx (tx_frame FUNC_ID_APPLICATION_COMMAND_HANDLER_BRIDGE 0 (bridge_data NODEID_8BITS 0 1 7 [0x20, 0x02] 0xB0)
     (of_nat (length (bridge_data NODEID_8BITS 0 1 7 [0x20, 0x02] 0xB0)))) @ [Quiet]"

definition sample_rx :: "serial_port session rx" where
  "sample_rx = \<lparr>rx_zw = (sample_zw (sample_session (sample_connection sample_line) []))\<lparr>zw_handlers := Some rx_callbacks\<rparr>,
     zwave_api_started_callbacks = [0, 0], rx_out = []\<rparr>"

definition sample_rx_env :: "serial_port session rx_env" where
  "sample_rx_env = \<lparr>rx_link = serial_link, rx_ndebug = True, rx_junk = (\<lambda>z. [])\<rparr>"

theorem bridge_frame_reaches_controller_witness:
  "\<exists>again x'. rx_poll sample_rx_env sample_rx = Some (again, x') \<and>
    rx_out x' = rx_out sample_rx @ [On_frame_reception 7 (Some [0x20, 0x02]),
      On_frame_received (zero_connection\<lparr>local_node_id := 1, remote_node_id := 7, encapsulation := SCHEME_NONE,
        local_is_multicast := ((0 :: u8) AND RECEIVE_STATUS_TYPE_BROAD \<noteq> 0 \<or> (0 :: u8) AND RECEIVE_STATUS_TYPE_MULTI \<noteq> 0)\<rparr>) 0 0xB0 [0x20, 0x02]]"
  by (rule bridge_frame_reaches_controller [where b = NODEID_8BITS and l = "[Quiet]" and data = "bridge_data NODEID_8BITS 0 1 7 [0x20, 0x02] 0xB0",
        OF _ refl _ _ _ _ _ _ _ _ refl])
    (simp_all add: sample_rx_env_def sample_rx_def sample_zw_def sample_session_def sample_connection_def sample_line_def bridge_data_def
      node_id_bytes_def port_live_def prompt_def zwapi_timestamp_get_def zwapi_is_timestamp_elapsed_def)

end
