(* ===== verification/Aes.thy ===== *)
theory Aes
  imports Zpc_Prelude
begin

text \<open>
  The block cipher of Security 0 and Security 2, \<^verbatim>\<open>crypto/aes/aes.c\<close>: AES with a key of 128
  bits. The array \<^verbatim>\<open>state\<close> of the code, four columns of four bytes, is the list of its sixteen
  bytes in memory order; the file's static \<^verbatim>\<open>RoundKey\<close> is an argument of the functions that read
  it, since every call of the interface writes all of it first.

  Shown here: deciphering inverts enciphering for every key and block, the substitution tables are
  inverse to each other, and mixing of columns is the multiplication by the matrix of FIPS 197. The
  CBC functions of the file are called by its tests only and are left out.
\<close>

section \<open>Tables\<close>

definition sbox :: "u8 list" where
  "sbox = [
    0x63, 0x7c, 0x77, 0x7b, 0xf2, 0x6b, 0x6f, 0xc5, 0x30, 0x01, 0x67, 0x2b, 0xfe, 0xd7, 0xab, 0x76,
    0xca, 0x82, 0xc9, 0x7d, 0xfa, 0x59, 0x47, 0xf0, 0xad, 0xd4, 0xa2, 0xaf, 0x9c, 0xa4, 0x72, 0xc0,
    0xb7, 0xfd, 0x93, 0x26, 0x36, 0x3f, 0xf7, 0xcc, 0x34, 0xa5, 0xe5, 0xf1, 0x71, 0xd8, 0x31, 0x15,
    0x04, 0xc7, 0x23, 0xc3, 0x18, 0x96, 0x05, 0x9a, 0x07, 0x12, 0x80, 0xe2, 0xeb, 0x27, 0xb2, 0x75,
    0x09, 0x83, 0x2c, 0x1a, 0x1b, 0x6e, 0x5a, 0xa0, 0x52, 0x3b, 0xd6, 0xb3, 0x29, 0xe3, 0x2f, 0x84,
    0x53, 0xd1, 0x00, 0xed, 0x20, 0xfc, 0xb1, 0x5b, 0x6a, 0xcb, 0xbe, 0x39, 0x4a, 0x4c, 0x58, 0xcf,
    0xd0, 0xef, 0xaa, 0xfb, 0x43, 0x4d, 0x33, 0x85, 0x45, 0xf9, 0x02, 0x7f, 0x50, 0x3c, 0x9f, 0xa8,
    0x51, 0xa3, 0x40, 0x8f, 0x92, 0x9d, 0x38, 0xf5, 0xbc, 0xb6, 0xda, 0x21, 0x10, 0xff, 0xf3, 0xd2,
    0xcd, 0x0c, 0x13, 0xec, 0x5f, 0x97, 0x44, 0x17, 0xc4, 0xa7, 0x7e, 0x3d, 0x64, 0x5d, 0x19, 0x73,
    0x60, 0x81, 0x4f, 0xdc, 0x22, 0x2a, 0x90, 0x88, 0x46, 0xee, 0xb8, 0x14, 0xde, 0x5e, 0x0b, 0xdb,
    0xe0, 0x32, 0x3a, 0x0a, 0x49, 0x06, 0x24, 0x5c, 0xc2, 0xd3, 0xac, 0x62, 0x91, 0x95, 0xe4, 0x79,
    0xe7, 0xc8, 0x37, 0x6d, 0x8d, 0xd5, 0x4e, 0xa9, 0x6c, 0x56, 0xf4, 0xea, 0x65, 0x7a, 0xae, 0x08,
    0xba, 0x78, 0x25, 0x2e, 0x1c, 0xa6, 0xb4, 0xc6, 0xe8, 0xdd, 0x74, 0x1f, 0x4b, 0xbd, 0x8b, 0x8a,
    0x70, 0x3e, 0xb5, 0x66, 0x48, 0x03, 0xf6, 0x0e, 0x61, 0x35, 0x57, 0xb9, 0x86, 0xc1, 0x1d, 0x9e,
    0xe1, 0xf8, 0x98, 0x11, 0x69, 0xd9, 0x8e, 0x94, 0x9b, 0x1e, 0x87, 0xe9, 0xce, 0x55, 0x28, 0xdf,
    0x8c, 0xa1, 0x89, 0x0d, 0xbf, 0xe6, 0x42, 0x68, 0x41, 0x99, 0x2d, 0x0f, 0xb0, 0x54, 0xbb, 0x16]"

definition rsbox :: "u8 list" where
  "rsbox = [
    0x52, 0x09, 0x6a, 0xd5, 0x30, 0x36, 0xa5, 0x38, 0xbf, 0x40, 0xa3, 0x9e, 0x81, 0xf3, 0xd7, 0xfb,
    0x7c, 0xe3, 0x39, 0x82, 0x9b, 0x2f, 0xff, 0x87, 0x34, 0x8e, 0x43, 0x44, 0xc4, 0xde, 0xe9, 0xcb,
    0x54, 0x7b, 0x94, 0x32, 0xa6, 0xc2, 0x23, 0x3d, 0xee, 0x4c, 0x95, 0x0b, 0x42, 0xfa, 0xc3, 0x4e,
    0x08, 0x2e, 0xa1, 0x66, 0x28, 0xd9, 0x24, 0xb2, 0x76, 0x5b, 0xa2, 0x49, 0x6d, 0x8b, 0xd1, 0x25,
    0x72, 0xf8, 0xf6, 0x64, 0x86, 0x68, 0x98, 0x16, 0xd4, 0xa4, 0x5c, 0xcc, 0x5d, 0x65, 0xb6, 0x92,
    0x6c, 0x70, 0x48, 0x50, 0xfd, 0xed, 0xb9, 0xda, 0x5e, 0x15, 0x46, 0x57, 0xa7, 0x8d, 0x9d, 0x84,
    0x90, 0xd8, 0xab, 0x00, 0x8c, 0xbc, 0xd3, 0x0a, 0xf7, 0xe4, 0x58, 0x05, 0xb8, 0xb3, 0x45, 0x06,
    0xd0, 0x2c, 0x1e, 0x8f, 0xca, 0x3f, 0x0f, 0x02, 0xc1, 0xaf, 0xbd, 0x03, 0x01, 0x13, 0x8a, 0x6b,
    0x3a, 0x91, 0x11, 0x41, 0x4f, 0x67, 0xdc, 0xea, 0x97, 0xf2, 0xcf, 0xce, 0xf0, 0xb4, 0xe6, 0x73,
    0x96, 0xac, 0x74, 0x22, 0xe7, 0xad, 0x35, 0x85, 0xe2, 0xf9, 0x37, 0xe8, 0x1c, 0x75, 0xdf, 0x6e,
    0x47, 0xf1, 0x1a, 0x71, 0x1d, 0x29, 0xc5, 0x89, 0x6f, 0xb7, 0x62, 0x0e, 0xaa, 0x18, 0xbe, 0x1b,
    0xfc, 0x56, 0x3e, 0x4b, 0xc6, 0xd2, 0x79, 0x20, 0x9a, 0xdb, 0xc0, 0xfe, 0x78, 0xcd, 0x5a, 0xf4,
    0x1f, 0xdd, 0xa8, 0x33, 0x88, 0x07, 0xc7, 0x31, 0xb1, 0x12, 0x10, 0x59, 0x27, 0x80, 0xec, 0x5f,
    0x60, 0x51, 0x7f, 0xa9, 0x19, 0xb5, 0x4a, 0x0d, 0x2d, 0xe5, 0x7a, 0x9f, 0x93, 0xc9, 0x9c, 0xef,
    0xa0, 0xe0, 0x3b, 0x4d, 0xae, 0x2a, 0xf5, 0xb0, 0xc8, 0xeb, 0xbb, 0x3c, 0x83, 0x53, 0x99, 0x61,
    0x17, 0x2b, 0x04, 0x7e, 0xba, 0x77, 0xd6, 0x26, 0xe1, 0x69, 0x14, 0x63, 0x55, 0x21, 0x0c, 0x7d]"

text \<open>Of the 255 entries of \<^verbatim>\<open>Rcon\<close> the key expansion reads those from 1 to 10.\<close>

definition Rcon :: "u8 list" where
  "Rcon = [
    0x8d, 0x01, 0x02, 0x04, 0x08, 0x10, 0x20, 0x40, 0x80, 0x1b, 0x36, 0x6c, 0xd8, 0xab, 0x4d, 0x9a,
    0x2f, 0x5e, 0xbc, 0x63, 0xc6, 0x97, 0x35, 0x6a, 0xd4, 0xb3, 0x7d, 0xfa, 0xef, 0xc5, 0x91, 0x39,
    0x72, 0xe4, 0xd3, 0xbd, 0x61, 0xc2, 0x9f, 0x25, 0x4a, 0x94, 0x33, 0x66, 0xcc, 0x83, 0x1d, 0x3a,
    0x74, 0xe8, 0xcb, 0x8d, 0x01, 0x02, 0x04, 0x08, 0x10, 0x20, 0x40, 0x80, 0x1b, 0x36, 0x6c, 0xd8,
    0xab, 0x4d, 0x9a, 0x2f, 0x5e, 0xbc, 0x63, 0xc6, 0x97, 0x35, 0x6a, 0xd4, 0xb3, 0x7d, 0xfa, 0xef,
    0xc5, 0x91, 0x39, 0x72, 0xe4, 0xd3, 0xbd, 0x61, 0xc2, 0x9f, 0x25, 0x4a, 0x94, 0x33, 0x66, 0xcc,
    0x83, 0x1d, 0x3a, 0x74, 0xe8, 0xcb, 0x8d, 0x01, 0x02, 0x04, 0x08, 0x10, 0x20, 0x40, 0x80, 0x1b,
    0x36, 0x6c, 0xd8, 0xab, 0x4d, 0x9a, 0x2f, 0x5e, 0xbc, 0x63, 0xc6, 0x97, 0x35, 0x6a, 0xd4, 0xb3,
    0x7d, 0xfa, 0xef, 0xc5, 0x91, 0x39, 0x72, 0xe4, 0xd3, 0xbd, 0x61, 0xc2, 0x9f, 0x25, 0x4a, 0x94,
    0x33, 0x66, 0xcc, 0x83, 0x1d, 0x3a, 0x74, 0xe8, 0xcb, 0x8d, 0x01, 0x02, 0x04, 0x08, 0x10, 0x20,
    0x40, 0x80, 0x1b, 0x36, 0x6c, 0xd8, 0xab, 0x4d, 0x9a, 0x2f, 0x5e, 0xbc, 0x63, 0xc6, 0x97, 0x35,
    0x6a, 0xd4, 0xb3, 0x7d, 0xfa, 0xef, 0xc5, 0x91, 0x39, 0x72, 0xe4, 0xd3, 0xbd, 0x61, 0xc2, 0x9f,
    0x25, 0x4a, 0x94, 0x33, 0x66, 0xcc, 0x83, 0x1d, 0x3a, 0x74, 0xe8, 0xcb, 0x8d, 0x01, 0x02, 0x04,
    0x08, 0x10, 0x20, 0x40, 0x80, 0x1b, 0x36, 0x6c, 0xd8, 0xab, 0x4d, 0x9a, 0x2f, 0x5e, 0xbc, 0x63,
    0xc6, 0x97, 0x35, 0x6a, 0xd4, 0xb3, 0x7d, 0xfa, 0xef, 0xc5, 0x91, 0x39, 0x72, 0xe4, 0xd3, 0xbd,
    0x61, 0xc2, 0x9f, 0x25, 0x4a, 0x94, 0x33, 0x66, 0xcc, 0x83, 0x1d, 0x3a, 0x74, 0xe8, 0xcb]"

section \<open>Key expansion\<close>

definition getSBoxValue :: "u8 \<Rightarrow> u8" where
  "getSBoxValue num = sbox ! unat num"

definition getSBoxInvert :: "u8 \<Rightarrow> u8" where
  "getSBoxInvert num = rsbox ! unat num"

text \<open>
  One turn of the second loop of \<^verbatim>\<open>KeyExpansion\<close>: word \<open>i\<close> from the words before it. The loop
  writes the array from the front, so \<open>rk\<close> holds what has been written, and the turn appends four bytes.
\<close>

definition key_word :: "u8 list \<Rightarrow> nat \<Rightarrow> u8 list" where
  "key_word rk i = (let
     tempa = map (\<lambda>j. rk ! ((i - 1) * 4 + j)) [0, 1, 2, 3];
     tempa = (if i mod 4 = 0 then
        (let tempa = [tempa ! 1, tempa ! 2, tempa ! 3, tempa ! 0];
             tempa = map getSBoxValue tempa
         in tempa[0 := tempa ! 0 XOR Rcon ! (i div 4)])
        else tempa)
   in map (\<lambda>j. rk ! ((i - 4) * 4 + j) XOR tempa ! j) [0, 1, 2, 3])"

definition KeyExpansion :: "u8 list \<Rightarrow> u8 list" where
  "KeyExpansion Key = fold (\<lambda>i rk. rk @ key_word rk i) [4..<44] (take 16 Key)"

section \<open>Rounds\<close>

text \<open>The position of \<^verbatim>\<open>(*state)[i][j]\<close> in memory.\<close>

abbreviation (input) cell :: "nat \<Rightarrow> nat \<Rightarrow> nat" where "cell i j \<equiv> 4 * i + j"

definition AddRoundKey :: "u8 list \<Rightarrow> nat \<Rightarrow> u8 list \<Rightarrow> u8 list" where
  "AddRoundKey RoundKey round state = map (\<lambda>k. state ! k XOR RoundKey ! (round * 4 * 4 + k)) [0..<16]"

definition SubBytes :: "u8 list \<Rightarrow> u8 list" where
  "SubBytes state = map getSBoxValue state"

definition ShiftRows :: "u8 list \<Rightarrow> u8 list" where
  "ShiftRows state = (let
     temp = state ! cell 0 1;
     state = state[cell 0 1 := state ! cell 1 1];
     state = state[cell 1 1 := state ! cell 2 1];
     state = state[cell 2 1 := state ! cell 3 1];
     state = state[cell 3 1 := temp];
     temp = state ! cell 0 2;
     state = state[cell 0 2 := state ! cell 2 2];
     state = state[cell 2 2 := temp];
     temp = state ! cell 1 2;
     state = state[cell 1 2 := state ! cell 3 2];
     state = state[cell 3 2 := temp];
     temp = state ! cell 0 3;
     state = state[cell 0 3 := state ! cell 3 3];
     state = state[cell 3 3 := state ! cell 2 3];
     state = state[cell 2 3 := state ! cell 1 3]
   in state[cell 1 3 := temp])"

definition xtime :: "u8 \<Rightarrow> u8" where
  "xtime x = push_bit 1 x XOR (drop_bit 7 x AND 1) * 0x1b"

text \<open>One turn of the loop of \<^verbatim>\<open>MixColumns\<close>, for column \<open>i\<close>.\<close>

definition mix_column :: "nat \<Rightarrow> u8 list \<Rightarrow> u8 list" where
  "mix_column i state = (let
     t = state ! cell i 0;
     Tmp = state ! cell i 0 XOR state ! cell i 1 XOR state ! cell i 2 XOR state ! cell i 3;
     Tm = xtime (state ! cell i 0 XOR state ! cell i 1);
     state = state[cell i 0 := state ! cell i 0 XOR (Tm XOR Tmp)];
     Tm = xtime (state ! cell i 1 XOR state ! cell i 2);
     state = state[cell i 1 := state ! cell i 1 XOR (Tm XOR Tmp)];
     Tm = xtime (state ! cell i 2 XOR state ! cell i 3);
     state = state[cell i 2 := state ! cell i 2 XOR (Tm XOR Tmp)];
     Tm = xtime (state ! cell i 3 XOR t)
   in state[cell i 3 := state ! cell i 3 XOR (Tm XOR Tmp)])"

definition MixColumns :: "u8 list \<Rightarrow> u8 list" where
  "MixColumns state = fold mix_column [0, 1, 2, 3] state"

definition Multiply :: "u8 \<Rightarrow> u8 \<Rightarrow> u8" where
  "Multiply x y = (y AND 1) * x XOR (drop_bit 1 y AND 1) * xtime x XOR (drop_bit 2 y AND 1) * xtime (xtime x) XOR
     (drop_bit 3 y AND 1) * xtime (xtime (xtime x)) XOR (drop_bit 4 y AND 1) * xtime (xtime (xtime (xtime x)))"

definition inv_mix_column :: "nat \<Rightarrow> u8 list \<Rightarrow> u8 list" where
  "inv_mix_column i state = (let
     a = state ! cell i 0; b = state ! cell i 1; c = state ! cell i 2; d = state ! cell i 3;
     state = state[cell i 0 := Multiply a 0x0e XOR Multiply b 0x0b XOR Multiply c 0x0d XOR Multiply d 0x09];
     state = state[cell i 1 := Multiply a 0x09 XOR Multiply b 0x0e XOR Multiply c 0x0b XOR Multiply d 0x0d];
     state = state[cell i 2 := Multiply a 0x0d XOR Multiply b 0x09 XOR Multiply c 0x0e XOR Multiply d 0x0b]
   in state[cell i 3 := Multiply a 0x0b XOR Multiply b 0x0d XOR Multiply c 0x09 XOR Multiply d 0x0e])"

definition InvMixColumns :: "u8 list \<Rightarrow> u8 list" where
  "InvMixColumns state = fold inv_mix_column [0, 1, 2, 3] state"

definition InvSubBytes :: "u8 list \<Rightarrow> u8 list" where
  "InvSubBytes state = map getSBoxInvert state"

definition InvShiftRows :: "u8 list \<Rightarrow> u8 list" where
  "InvShiftRows state = (let
     temp = state ! cell 3 1;
     state = state[cell 3 1 := state ! cell 2 1];
     state = state[cell 2 1 := state ! cell 1 1];
     state = state[cell 1 1 := state ! cell 0 1];
     state = state[cell 0 1 := temp];
     temp = state ! cell 0 2;
     state = state[cell 0 2 := state ! cell 2 2];
     state = state[cell 2 2 := temp];
     temp = state ! cell 1 2;
     state = state[cell 1 2 := state ! cell 3 2];
     state = state[cell 3 2 := temp];
     temp = state ! cell 0 3;
     state = state[cell 0 3 := state ! cell 1 3];
     state = state[cell 1 3 := state ! cell 2 3];
     state = state[cell 2 3 := state ! cell 3 3]
   in state[cell 3 3 := temp])"

definition Cipher :: "u8 list \<Rightarrow> u8 list \<Rightarrow> u8 list" where
  "Cipher RoundKey state = (let
     state = AddRoundKey RoundKey 0 state;
     state = fold (\<lambda>round state. AddRoundKey RoundKey round (MixColumns (ShiftRows (SubBytes state)))) [1..<10] state
   in AddRoundKey RoundKey 10 (ShiftRows (SubBytes state)))"

definition InvCipher :: "u8 list \<Rightarrow> u8 list \<Rightarrow> u8 list" where
  "InvCipher RoundKey state = (let
     state = AddRoundKey RoundKey 10 state;
     state = fold (\<lambda>round state. InvMixColumns (AddRoundKey RoundKey round (InvSubBytes (InvShiftRows state))))
               (rev [1..<10]) state
   in AddRoundKey RoundKey 0 (InvSubBytes (InvShiftRows state)))"

definition BlockCopy :: "u8 list \<Rightarrow> u8 list" where
  "BlockCopy inp = take 16 inp"

definition AES128_ECB_encrypt :: "u8 list \<Rightarrow> u8 list \<Rightarrow> u8 list" where
  "AES128_ECB_encrypt inp key = Cipher (KeyExpansion key) (BlockCopy inp)"

definition AES128_ECB_decrypt :: "u8 list \<Rightarrow> u8 list \<Rightarrow> u8 list" where
  "AES128_ECB_decrypt inp key = InvCipher (KeyExpansion key) (BlockCopy inp)"

section \<open>Deciphering inverts enciphering\<close>

text \<open>Lengths go through the bindings one at a time.\<close>

lemma length_Let: "length (Let a f) = Let a (\<lambda>x. length (f x))" and Let_length: "Let a length = length a"
  by (simp_all add: Let_def)

lemma length_ShiftRows [simp]: "length (ShiftRows s) = length s" "length (InvShiftRows s) = length s"
  by (simp_all add: ShiftRows_def InvShiftRows_def length_Let Let_length)

lemma length_AES [simp]:
  "length (AddRoundKey rk n s) = 16" "length (SubBytes s) = length s" "length (InvSubBytes s) = length s"
  "length (mix_column i s) = length s" "length (inv_mix_column i s) = length s"
  by (simp_all add: AddRoundKey_def SubBytes_def mix_column_def InvSubBytes_def inv_mix_column_def Let_def)

lemma length_MixColumns [simp]: "length (MixColumns s) = length s" "length (InvMixColumns s) = length s"
  by (simp_all add: MixColumns_def InvMixColumns_def)

lemma length_Cipher [simp]: "length (Cipher rk s) = 16" "length (InvCipher rk s) = 16"
  by (simp_all add: Cipher_def InvCipher_def length_Let)

lemma length_AES128_ECB_encrypt [simp]: "length (AES128_ECB_encrypt b k) = 16"
  by (simp add: AES128_ECB_encrypt_def)

lemma AddRoundKey_twice: "length s = 16 \<Longrightarrow> AddRoundKey rk n (AddRoundKey rk n s) = s"
  by (rule nth_equalityI) (simp_all add: AddRoundKey_def xor.assoc)

lemma rsbox_sbox: "list_all2 (\<lambda>b i. rsbox ! unat b = of_nat i) sbox [0..<256]"
  by code_simp

lemma sbox_rsbox: "list_all2 (\<lambda>b i. sbox ! unat b = of_nat i) rsbox [0..<256]"
  by code_simp

lemma getSBoxInvert_getSBoxValue [simp]: "getSBoxInvert (getSBoxValue x) = x"
proof -
  have "unat x < 256" using unsigned_less [of x, where ?'a = nat] by simp
  then have "rsbox ! unat (sbox ! unat x) = of_nat (unat x)"
    using list_all2_nthD2 [OF rsbox_sbox, of "unat x"] by simp
  then show ?thesis by (simp add: getSBoxInvert_def getSBoxValue_def)
qed

lemma getSBoxValue_getSBoxInvert [simp]: "getSBoxValue (getSBoxInvert x) = x"
proof -
  have "unat x < 256" using unsigned_less [of x, where ?'a = nat] by simp
  then have "sbox ! unat (rsbox ! unat x) = of_nat (unat x)"
    using list_all2_nthD2 [OF sbox_rsbox, of "unat x"] by simp
  then show ?thesis by (simp add: getSBoxInvert_def getSBoxValue_def)
qed

lemma InvSubBytes_SubBytes [simp]: "InvSubBytes (SubBytes s) = s" and SubBytes_InvSubBytes [simp]: "SubBytes (InvSubBytes s) = s"
  by (simp_all add: InvSubBytes_def SubBytes_def comp_def)

lemma block_bytes:
  assumes "length s = 16"
  obtains a b c d e f g h i j k l m n p q where "s = [a, b, c, d, e, f, g, h, i, j, k, l, m, n, p, q :: u8]"
  using assms by (auto simp: numeral_eq_Suc length_Suc_conv)

lemma InvShiftRows_ShiftRows: "length s = 16 \<Longrightarrow> InvShiftRows (ShiftRows s) = s"
  and ShiftRows_InvShiftRows: "length s = 16 \<Longrightarrow> ShiftRows (InvShiftRows s) = s"
  by (erule block_bytes, simp add: InvShiftRows_def ShiftRows_def Let_def)+

text \<open>Multiplication by \<open>x\<close> in the field of 256 elements is linear.\<close>

lemma xtime_xor: "xtime (a XOR b) = xtime a XOR xtime b"
proof -
  have bit: "(drop_bit 7 a AND 1) * 0x1b = (if bit a 7 then 0x1b else 0)" for a :: u8
    by (simp add: bit_iff_odd_drop_bit and_one_eq odd_iff_mod_2_eq_one)
  show ?thesis
    unfolding xtime_def bit by (rule bit_word_eqI) (auto simp: bit_simps)
qed

lemma xor_cancel: "a XOR (a XOR b) = (b :: u8)"
  by (simp add: xor.assoc [symmetric])

lemma Multiply_consts:
  "Multiply x 0x0e = xtime x XOR (xtime (xtime x) XOR xtime (xtime (xtime x)))"
  "Multiply x 0x0b = x XOR (xtime x XOR xtime (xtime (xtime x)))"
  "Multiply x 0x0d = x XOR (xtime (xtime x) XOR xtime (xtime (xtime x)))"
  "Multiply x 0x09 = x XOR xtime (xtime (xtime x))"
  by (simp_all add: Multiply_def xor.assoc)

text \<open>A column before and after: the matrices of FIPS 197, with the powers of \<open>x\<close> spelled out.\<close>

definition mixed :: "u8 \<Rightarrow> u8 \<Rightarrow> u8 \<Rightarrow> u8 \<Rightarrow> u8" where
  "mixed a b c d = Multiply a 0x02 XOR Multiply b 0x03 XOR c XOR d"

lemma mix_column_bytes:
  assumes "length s = 16" and "i < 4"
  shows "mix_column i s = (let a = s ! cell i 0; b = s ! cell i 1; c = s ! cell i 2; d = s ! cell i 3 in
    s[cell i 0 := mixed a b c d, cell i 1 := mixed b c d a, cell i 2 := mixed c d a b, cell i 3 := mixed d a b c])"
proof -
  have M: "mixed a b c d = a XOR (xtime (a XOR b) XOR (a XOR b XOR c XOR d))" for a b c d
    by (simp add: mixed_def Multiply_def xtime_xor xor.assoc xor.commute xor.left_commute xor_cancel)
  show ?thesis
    using assms by (simp add: mix_column_def Let_def M xor.assoc xor.commute xor.left_commute)
qed

lemma inv_mixed:
  "Multiply (mixed a b c d) 0x0e XOR Multiply (mixed b c d a) 0x0b XOR Multiply (mixed c d a b) 0x0d XOR
    Multiply (mixed d a b c) 0x09 = a"
  unfolding mixed_def Multiply_consts
  by (simp add: Multiply_def xtime_xor xor.assoc xor.commute xor.left_commute xor_cancel)

lemma inv_mixed':
  "Multiply (mixed a b c d) 0x09 XOR Multiply (mixed b c d a) 0x0e XOR Multiply (mixed c d a b) 0x0b XOR
    Multiply (mixed d a b c) 0x0d = b"
  "Multiply (mixed a b c d) 0x0d XOR Multiply (mixed b c d a) 0x09 XOR Multiply (mixed c d a b) 0x0e XOR
    Multiply (mixed d a b c) 0x0b = c"
  "Multiply (mixed a b c d) 0x0b XOR Multiply (mixed b c d a) 0x0d XOR Multiply (mixed c d a b) 0x09 XOR
    Multiply (mixed d a b c) 0x0e = d"
  using inv_mixed [of b c d a] inv_mixed [of c d a b] inv_mixed [of d a b c]
  by (simp_all add: xor.assoc xor.commute xor.left_commute)

lemma inv_mix_column_mix_column:
  assumes "length s = 16" and "i < 4"
  shows "inv_mix_column i (mix_column i s) = s"
  unfolding mix_column_bytes [OF assms]
  using assms by (simp add: inv_mix_column_def Let_def inv_mixed inv_mixed' list_update_swap)

lemma inv_mix_column_commute:
  assumes "i \<noteq> j"
  shows "inv_mix_column i (mix_column j s) = mix_column j (inv_mix_column i s)"
  using assms by (simp add: inv_mix_column_def mix_column_def Let_def list_update_swap)

lemma InvMixColumns_MixColumns:
  assumes "length s = 16"
  shows "InvMixColumns (MixColumns s) = s"
  using assms
  by (simp add: InvMixColumns_def MixColumns_def inv_mix_column_commute inv_mix_column_mix_column)

lemma inv_round:
  assumes "length s = 16"
  shows "InvSubBytes (InvShiftRows (InvMixColumns (AddRoundKey rk n (AddRoundKey rk n (MixColumns (ShiftRows (SubBytes s))))))) = s"
    and "InvSubBytes (InvShiftRows (AddRoundKey rk n (AddRoundKey rk n (ShiftRows (SubBytes s))))) = s"
  using assms by (simp_all add: AddRoundKey_twice InvMixColumns_MixColumns InvShiftRows_ShiftRows)

lemma inv_rounds:
  assumes "length s = 16"
  shows "fold (\<lambda>r s. InvMixColumns (AddRoundKey rk r (InvSubBytes (InvShiftRows s)))) (rev ns)
      (ShiftRows (SubBytes (fold (\<lambda>r s. AddRoundKey rk r (MixColumns (ShiftRows (SubBytes s)))) ns s)))
    = ShiftRows (SubBytes s)"
  using assms
proof (induction ns rule: rev_induct)
  case (snoc n ns)
  let ?s = "fold (\<lambda>r s. AddRoundKey rk r (MixColumns (ShiftRows (SubBytes s)))) ns s"
  have "length ?s = 16" using snoc.prems by (induction ns arbitrary: s) simp_all
  then show ?case
    using snoc by (simp add: InvShiftRows_ShiftRows AddRoundKey_twice InvMixColumns_MixColumns)
qed simp

lemma InvCipher_Cipher:
  assumes "length s = 16"
  shows "InvCipher rk (Cipher rk s) = s"
proof -
  let ?rs = "\<lambda>ns s. fold (\<lambda>r s. AddRoundKey rk r (MixColumns (ShiftRows (SubBytes s)))) ns s"
  have "length (?rs [1..<10] (AddRoundKey rk 0 s)) = 16"
    by (simp add: fold_invariant [where P = "\<lambda>s. length s = 16" and Q = "\<lambda>_. True"])
  then show ?thesis
    using assms unfolding InvCipher_def Cipher_def Let_def
    by (simp add: AddRoundKey_twice inv_rounds InvShiftRows_ShiftRows del: upt_conv_Cons upt_Suc)
qed

text \<open>
  C14. Deciphering inverts enciphering for every block of sixteen bytes and every key: the key schedule of 44
  words, the ten rounds and their inverses, with the tables of the code.
\<close>

theorem AES128_decrypt_encrypt:
  assumes "length b = 16"
  shows "AES128_ECB_decrypt (AES128_ECB_encrypt b k) k = b"
  using assms by (simp add: AES128_ECB_decrypt_def AES128_ECB_encrypt_def BlockCopy_def InvCipher_Cipher)

theorem AES128_decrypt_encrypt_witness:
  "AES128_ECB_decrypt (AES128_ECB_encrypt (map of_nat [0..<16]) (replicate 16 0x2B)) (replicate 16 0x2B) = map of_nat [0..<16]"
  by (rule AES128_decrypt_encrypt) simp

end
