(* ===== verification/S2_Crypto.thy ===== *)
theory S2_Crypto
  imports Aes
begin

text \<open>
  The cipher modes of the Security 2 library over the block cipher, one section per file of
  \<^verbatim>\<open>libs/zw-libs2/crypto\<close>: the message authentication code (\<^verbatim>\<open>aes_cmac.c\<close>), authenticated
  encryption (\<^verbatim>\<open>ccm.c\<close>, built with \<^verbatim>\<open>CCM_USE_PREDEFINED_VALUES\<close>), the random number generator
  (\<^verbatim>\<open>ctr_drbg.c\<close>), the generator of nonces (\<^verbatim>\<open>nextnonce.c\<close>) and the derivation of keys
  (\<^verbatim>\<open>kderiv.c\<close>). A pointer with the number of bytes behind it is the list of those bytes.
\<close>

section \<open>Message authentication code\<close>

definition xor_128 :: "u8 list \<Rightarrow> u8 list \<Rightarrow> u8 list" where
  "xor_128 a b = map (\<lambda>count. a ! count XOR b ! count) [0..<16]"

text \<open>The loop from the last byte to the first: the bytes shifted so far and the carried bit.\<close>

definition leftshift_onebit :: "u8 list \<Rightarrow> u8 list" where
  "leftshift_onebit inp = fst (foldr
     (\<lambda>b (out, overflow). ((push_bit 1 b OR overflow) # out, if b AND 0x80 \<noteq> 0 then 1 else 0))
     (take 16 inp) ([], 0))"

definition const_Rb :: "u8 list" where
  "const_Rb = replicate 15 0 @ [0x87]"

definition generate_subkey :: "u8 list \<Rightarrow> u8 list \<times> u8 list" where
  "generate_subkey key = (let
     L = AES128_ECB_encrypt (replicate 16 0) key;
     K1 = (if L ! 0 AND 0x80 = 0 then leftshift_onebit L else xor_128 (leftshift_onebit L) const_Rb);
     K2 = (if K1 ! 0 AND 0x80 = 0 then leftshift_onebit K1 else xor_128 (leftshift_onebit K1) const_Rb)
   in (K1, K2))"

definition padding :: "u8 list \<Rightarrow> nat \<Rightarrow> u8 list" where
  "padding lastb len = map (\<lambda>j. if j < len then lastb ! j else if j = len then 0x80 else 0x00) [0..<16]"

text \<open>
  The number of blocks \<open>n\<close> is a \<^verbatim>\<open>uint8_t\<close>. The loop runs for \<open>i < n - 1\<close>, which is computed as an
  \<^verbatim>\<open>int\<close>, and \<open>n\<close> is not zero there.
\<close>

definition aes_cmac_calculate :: "u8 list \<Rightarrow> u8 list \<Rightarrow> u8 list" where
  "aes_cmac_calculate key message = (let
     message_length = (of_nat (length message) :: u16);
     (K1, K2) = generate_subkey key;
     n = (of_nat ((unat message_length + 15) div 16) :: u8);
     (n, flag) = (if n = 0 then (1, False) else (n, unat message_length mod 16 = 0));
     last_block = drop (16 * (unat n - 1)) message;
     M_last = (if flag then xor_128 last_block K1 else xor_128 (padding last_block (unat message_length mod 16)) K2);
     X = fold (\<lambda>i X. AES128_ECB_encrypt (xor_128 X (drop (16 * i) message)) key) [0..<unat n - 1] (replicate 16 0)
   in AES128_ECB_encrypt (xor_128 X M_last) key)"

definition aes_cmac_verify :: "u8 list \<Rightarrow> u8 list \<Rightarrow> u8 list \<Rightarrow> bool" where
  "aes_cmac_verify key message mac =
     list_all (\<lambda>count. mac ! count = aes_cmac_calculate key message ! count) [0..<16]"

section \<open>Authenticated encryption\<close>

abbreviation (input) Q_DEF :: nat where "Q_DEF \<equiv> 2"
abbreviation (input) N_DEF :: nat where "N_DEF \<equiv> 13"
abbreviation (input) T_DEF :: nat where "T_DEF \<equiv> 8"

definition convert_to_octet_string :: "u16 \<Rightarrow> nat \<Rightarrow> u8 list" where
  "convert_to_octet_string text_to_encrypt_len q = replicate (q - 2) 0 @
     [ucast (drop_bit 8 (text_to_encrypt_len AND 0xff00)), ucast (text_to_encrypt_len AND 0x00ff)]"

definition format_b0 :: "nat \<Rightarrow> u16 \<Rightarrow> u8 list \<Rightarrow> u8 list" where
  "format_b0 t text_to_encrypt_len nonce =
     [0 OR 0x40 OR push_bit 3 (of_nat ((t - 2) div 2) AND 0x7) OR (of_nat (Q_DEF - 1) AND 0x7)] @
     take N_DEF nonce @ convert_to_octet_string text_to_encrypt_len Q_DEF"

definition ciph_block :: "u8 list \<Rightarrow> u8 list \<Rightarrow> u8 list" where
  "ciph_block blocks key = AES128_ECB_encrypt blocks key"

text \<open>\<^verbatim>\<open>bit_xor(block, &next_block[off], sz)\<close>: \<open>next_block\<close> with \<open>sz\<close> bytes from \<open>off\<close> on changed.\<close>

definition bit_xor :: "u8 list \<Rightarrow> u8 list \<Rightarrow> nat \<Rightarrow> nat \<Rightarrow> u8 list" where
  "bit_xor block next_block off sz =
     map (\<lambda>i. if off \<le> i \<and> i < off + sz then block ! (i - off) XOR next_block ! i else next_block ! i)
       [0..<length next_block]"

text \<open>
  The blocks of \<open>data\<close>, the last one filled with zeros, chained into \<open>block0\<close>. It is the loop of
  \<^verbatim>\<open>format_payload_block\<close> and the one for the blocks of \<^verbatim>\<open>format_aad\<close> after the first: \<^verbatim>\<open>blocks[1]\<close> is
  written in full in every turn.
\<close>

definition chain_block :: "u8 list \<Rightarrow> u8 list \<Rightarrow> nat \<Rightarrow> u8 list \<Rightarrow> u8 list" where
  "chain_block key data i block0 = (let
     len = length data;
     block1 = (if i = (len + 15) div 16 - 1 \<and> len mod 16 \<noteq> 0
       then take (len mod 16) (drop (16 * i) data) @ replicate (16 - len mod 16) 0
       else take 16 (drop (16 * i) data))
   in ciph_block (bit_xor block1 block0 0 16) key)"

definition format_payload_block :: "u8 list \<Rightarrow> u8 list \<Rightarrow> u8 list \<Rightarrow> u8 list" where
  "format_payload_block block0 P key = (let
     no_blocks_payload = length P div 16 + (if length P mod 16 \<noteq> 0 then 1 else 0)
   in fold (chain_block key P) [0..<no_blocks_payload] block0)"

text \<open>
  For 65280 bytes of additional data and more the code writes a fixed length. The length below that
  is assigned to one byte.
\<close>

definition format_aad :: "u8 list \<Rightarrow> u8 list \<Rightarrow> u8 list \<Rightarrow> u8 list" where
  "format_aad block0 aad key = (let
     aad_len = length aad;
     (head, first) = (if aad_len < 65280 then ([0x0, of_nat aad_len], 14) else ([0xff, 0xfe, 0, 1, 0, 0], 10));
     block1 = head @ take (min aad_len first) aad;
     new_aad_len = aad_len - first;
     no_of_blocks_for_aad = new_aad_len div 16 + (if new_aad_len mod 16 \<noteq> 0 then 1 else 0)
   in if aad_len < first then ciph_block (bit_xor (block1 @ replicate (first - aad_len) 0) block0 0 16) key
      else if aad_len > first then
        fold (chain_block key (drop first aad)) [0..<no_of_blocks_for_aad] (ciph_block (bit_xor block1 block0 0 16) key)
      else ciph_block (bit_xor block1 block0 0 16) key)"

datatype ccm_mode = ENCRYPT | DECRYPT

definition ctr_block :: "u8 list \<Rightarrow> u8 list \<Rightarrow> u16 \<Rightarrow> u8 list" where
  "ctr_block nonce key i = ciph_block
     ((0 OR (of_nat (Q_DEF - 1) AND 0x7)) # take N_DEF nonce @
      [ucast (drop_bit 8 (i AND 0xff00)), ucast (i AND 0xff)]) key"

text \<open>
  The loop over the counter blocks: the data, the number of bytes left (a \<^verbatim>\<open>uint16_t\<close>, which wraps in the last
  turn), the first counter block as left in \<^verbatim>\<open>block\<close> by decryption, and the authentication code, which
  encryption covers.
\<close>

definition ctr_turn ::
  "u8 list \<Rightarrow> u8 list \<Rightarrow> ccm_mode \<Rightarrow> nat \<Rightarrow> nat \<Rightarrow> u8 list \<times> u16 \<times> u8 list \<times> u8 list \<Rightarrow>
    u8 list \<times> u16 \<times> u8 list \<times> u8 list" where
  "ctr_turn nonce key mode mac_len i = (\<lambda>(data, len, block, mac). let ctr = ctr_block nonce key (of_nat i) in
     if i = 0 \<and> mode = ENCRYPT then (data, len, block, bit_xor ctr mac 0 mac_len)
     else if i = 0 \<and> mode = DECRYPT then (data, len, ctr, mac)
     else (bit_xor ctr data ((i - 1) * 16) (if len \<ge> 16 then 16 else unat len), len - 16, block, mac))"

definition encrypt_or_decrypt ::
  "u8 list \<Rightarrow> u16 \<Rightarrow> u16 \<Rightarrow> u8 list \<Rightarrow> u8 list \<Rightarrow> nat \<Rightarrow> u8 list \<Rightarrow> u8 list \<Rightarrow> ccm_mode \<Rightarrow>
    u8 list \<times> u8 list \<times> u8 list" where
  "encrypt_or_decrypt data_array data_len num_ctr_blks block nonce mac_len key mac mode =
     (case fold (ctr_turn nonce key mode mac_len) [0..<unat num_ctr_blks] (data_array, data_len, block, mac) of
        (data, len, block, mac) \<Rightarrow> (data, block, mac))"

definition counter_blocks_of :: "nat \<Rightarrow> u16" where
  "counter_blocks_of len = of_nat (len div 16 + 1 + (if len mod 16 \<noteq> 0 then 1 else 0))"

text \<open>The bytes that \<^verbatim>\<open>CCM_encrypt_and_auth\<close> leaves in the buffer; it returns their number.\<close>

definition CCM_encrypt_and_auth :: "u8 list \<Rightarrow> u8 list \<Rightarrow> u8 list \<Rightarrow> u8 list \<Rightarrow> u8 list" where
  "CCM_encrypt_and_auth key nonce aad plain = (let
     text_to_encrypt_len = (of_nat (length plain) :: u16);
     block0 = ciph_block (format_b0 T_DEF text_to_encrypt_len nonce) key;
     block0 = format_aad block0 aad key;
     block0 = format_payload_block block0 plain key;
     (data, _, mac) = encrypt_or_decrypt plain text_to_encrypt_len (counter_blocks_of (length plain)) block0 nonce
        T_DEF key block0 ENCRYPT
   in data @ take T_DEF mac)"

text \<open>
  Decryption in place: the bytes of the buffer afterwards, and the value returned, which is zero for a message
  that is refused. The arrays \<^verbatim>\<open>blocks[0]\<close> and \<^verbatim>\<open>mac\<close> are not initialised; the loop writes the first
  before it is read, and leaves the second alone.
\<close>

definition CCM_decrypt_and_auth :: "u8 list \<Rightarrow> u8 list \<Rightarrow> u8 list \<Rightarrow> u8 list \<Rightarrow> u8 list \<times> u16" where
  "CCM_decrypt_and_auth key nonce aad ciphertext = (let
     ciphertext_len = length ciphertext
   in if ciphertext_len < T_DEF then (ciphertext, 0)
      else let
        len = ciphertext_len - T_DEF;
        (data, block0, _) = encrypt_or_decrypt ciphertext (of_nat len) (counter_blocks_of len) [] nonce T_DEF key [] DECRYPT;
        mac = take T_DEF (bit_xor (drop len data) block0 0 T_DEF);
        block0 = ciph_block (format_b0 T_DEF (of_nat len) nonce) key;
        block0 = format_aad block0 aad key;
        block0 = format_payload_block block0 (take len data) key
      in if take T_DEF block0 \<noteq> mac then (data, 0) else (data, of_nat len))"

section \<open>Random number generator\<close>

record ctr_drbg_ctx =
  ctx_df :: u8
  ctx_v :: "u8 list"
  ctx_k :: "u8 list"

abbreviation (input) OUTLEN :: nat where "OUTLEN \<equiv> 16"
abbreviation (input) KEYLEN :: nat where "KEYLEN \<equiv> 16"
abbreviation (input) SEEDLEN :: nat where "SEEDLEN \<equiv> 32"
abbreviation (input) RANDLEN :: nat where "RANDLEN \<equiv> 16"

text \<open>The \<^verbatim>\<open>size\<close> counts down; the byte there is incremented, and the loop ends unless it became zero.\<close>

fun AES_CTR_DRBG_Increment :: "u8 list \<Rightarrow> nat \<Rightarrow> u8 list" where
  "AES_CTR_DRBG_Increment d 0 = d"
| "AES_CTR_DRBG_Increment d (Suc n) = (let d' = d[n := d ! n + 1] in
     if d' ! n \<noteq> 0 then d' else AES_CTR_DRBG_Increment d' n)"

definition AES_CTR_DRBG_Update :: "ctr_drbg_ctx \<Rightarrow> u8 list \<Rightarrow> ctr_drbg_ctx" where
  "AES_CTR_DRBG_Update ctx d = (let
     v1 = AES_CTR_DRBG_Increment (ctx_v ctx) OUTLEN;
     v2 = AES_CTR_DRBG_Increment v1 OUTLEN;
     tmp = AES128_ECB_encrypt v1 (ctx_k ctx) @ AES128_ECB_encrypt v2 (ctx_k ctx);
     tmp = map (\<lambda>i. tmp ! i XOR d ! i) [0..<SEEDLEN]
   in ctx\<lparr>ctx_k := take KEYLEN tmp, ctx_v := take OUTLEN (drop KEYLEN tmp)\<rparr>)"

definition AES_CTR_DRBG_Reseed :: "ctr_drbg_ctx \<Rightarrow> u8 list \<Rightarrow> ctr_drbg_ctx" where
  "AES_CTR_DRBG_Reseed ctx seed = AES_CTR_DRBG_Update ctx seed"

definition AES_CTR_DRBG_Instantiate :: "ctr_drbg_ctx \<Rightarrow> u8 list \<Rightarrow> u8 list option \<Rightarrow> ctr_drbg_ctx" where
  "AES_CTR_DRBG_Instantiate ctx entropy personal = (let
     entropy = (case personal of
        Some p \<Rightarrow> map (\<lambda>i. entropy ! i XOR p ! i) [0..<SEEDLEN]
      | None \<Rightarrow> map (\<lambda>i. entropy ! i XOR 0) [0..<SEEDLEN])
   in AES_CTR_DRBG_Reseed (ctx\<lparr>ctx_k := replicate KEYLEN 0, ctx_v := replicate OUTLEN 0, ctx_df := 0\<rparr>) entropy)"

text \<open>With \<^verbatim>\<open>RANDLEN\<close> 16 the loop runs once.\<close>

definition AES_CTR_DRBG_Generate :: "ctr_drbg_ctx \<Rightarrow> u8 list \<times> ctr_drbg_ctx" where
  "AES_CTR_DRBG_Generate ctx = (let
     v = AES_CTR_DRBG_Increment (ctx_v ctx) OUTLEN;
     rand = take RANDLEN (AES128_ECB_encrypt v (ctx_k ctx))
   in (rand, AES_CTR_DRBG_Update (ctx\<lparr>ctx_v := v\<rparr>) (replicate SEEDLEN 0)))"

section \<open>Nonces\<close>

definition ckdf_nonce0_expand :: "u8 list \<Rightarrow> u8 list" where
  "ckdf_nonce0_expand prk = (let
     constant_ei = replicate 15 0x88;
     t1 = aes_cmac_calculate prk (constant_ei @ [0] @ constant_ei @ [1]);
     t2 = aes_cmac_calculate prk (t1 @ constant_ei @ [2])
   in t1 @ t2)"

definition next_nonce_instantiate :: "ctr_drbg_ctx \<Rightarrow> u8 list \<Rightarrow> u8 list \<Rightarrow> u8 list \<Rightarrow> ctr_drbg_ctx" where
  "next_nonce_instantiate ctx ei_sender ei_receiver k_nonce = (let
     X = aes_cmac_calculate (replicate 16 0x26) (take 16 ei_sender @ take 16 ei_receiver);
     mei = ckdf_nonce0_expand X
   in AES_CTR_DRBG_Instantiate ctx mei (Some k_nonce))"

definition next_nonce_generate :: "ctr_drbg_ctx \<Rightarrow> u8 list \<times> ctr_drbg_ctx" where
  "next_nonce_generate ctx = AES_CTR_DRBG_Generate ctx"

section \<open>Keys\<close>

text \<open>The keys derived from a network key: for encryption, for the nonces, and for the multicast nonces.\<close>

record expanded_keys =
  ccm_key :: "u8 list"
  nonce_pstring :: "u8 list"
  mpan_key :: "u8 list"

definition generic_expand :: "u8 list \<Rightarrow> u8 list \<Rightarrow> expanded_keys" where
  "generic_expand network_key constant_nk = (let
     t1 = aes_cmac_calculate network_key (take 15 constant_nk @ [0x01]);
     t2 = aes_cmac_calculate network_key (t1 @ take 15 constant_nk @ [0x02]);
     t3 = aes_cmac_calculate network_key (t2 @ take 15 constant_nk @ [0x03]);
     t4 = aes_cmac_calculate network_key (t3 @ take 15 constant_nk @ [0x04])
   in \<lparr>ccm_key = t1, nonce_pstring = t2 @ t3, mpan_key = t4\<rparr>)"

definition networkkey_expand :: "u8 list \<Rightarrow> expanded_keys" where
  "networkkey_expand network_key = generic_expand network_key (replicate 15 0x55)"

definition tempkey_extract :: "u8 list \<Rightarrow> u8 list \<Rightarrow> u8 list" where
  "tempkey_extract ecdh_share_secret auth_tag =
     aes_cmac_calculate (replicate 16 0x33) (take 32 ecdh_share_secret @ take 64 auth_tag)"

definition tempkey_expand :: "u8 list \<Rightarrow> expanded_keys" where
  "tempkey_expand prk = generic_expand prk (replicate 15 0x88)"

end
