(* ===== verification/S2_Protocol.thy ===== *)
theory S2_Protocol
  imports S2_Crypto S2_Nonces
begin

text \<open>
  The protocol machine of Security 2, \<^verbatim>\<open>libs/zw-libs2/protocol/S2.c\<close> as built for a controller: the
  tables of single-cast (SPAN) and multicast (MPAN) nonces, the exchange of nonces, encryption and decryption of
  messages and the state machine of a transmission.

  A context is a record; pointers into its tables are indices. The functions of \<^verbatim>\<open>S2_external.h\<close> and of
  the inclusion machine that the code calls are entries of the list \<open>calls\<close>, in the order of the calls; whether a frame is
  accepted for transmission is decided by the environment from the calls so far. The buffer a caller passes for
  sending is copied, since the interface asks for it to stay valid until the transmission is reported. The flag
  \<open>undefined_c\<close> becomes true where the C code would read or write out of bounds or reach \<^verbatim>\<open>assert(0)\<close>.
\<close>

section \<open>Data\<close>

abbreviation (input) SPAN_TABLE_SIZE :: nat where "SPAN_TABLE_SIZE \<equiv> 254"
abbreviation (input) MPAN_TABLE_SIZE :: nat where "MPAN_TABLE_SIZE \<equiv> 254"
abbreviation (input) MOS_LIST_LENGTH :: nat where "MOS_LIST_LENGTH \<equiv> 3"
abbreviation (input) WORKBUF_SIZE :: nat where "WORKBUF_SIZE \<equiv> 1280"
abbreviation (input) N_SEC_CLASS :: nat where "N_SEC_CLASS \<equiv> 7"
abbreviation (input) AUTH_TAG_LEN :: nat where "AUTH_TAG_LEN \<equiv> 8"
abbreviation (input) MAX_SPAN_RETRY_ITERATIONS :: nat where "MAX_SPAN_RETRY_ITERATIONS \<equiv> 5"
abbreviation (input) SEND_DATA_TIMEOUT :: u32 where "SEND_DATA_TIMEOUT \<equiv> 65000"
abbreviation (input) S2_TXOPTION_VERIFY_DELIVERY :: u8 where "S2_TXOPTION_VERIFY_DELIVERY \<equiv> 1"
abbreviation (input) S2_TXOPTION_FOLLOWUPS :: u8 where "S2_TXOPTION_FOLLOWUPS \<equiv> 2 OR 4"
abbreviation (input) S2_TXOPTION_FIRST_SINGLECAST_FOLLOWUP :: u8 where "S2_TXOPTION_FIRST_SINGLECAST_FOLLOWUP \<equiv> 4"
abbreviation (input) S2_RXOPTION_MULTICAST :: u8 where "S2_RXOPTION_MULTICAST \<equiv> 1"
abbreviation (input) S2_RXOPTION_FOLLOWUP :: u8 where "S2_RXOPTION_FOLLOWUP \<equiv> 2"
abbreviation (input) S2_TRANSMIT_COMPLETE_OK :: u8 where "S2_TRANSMIT_COMPLETE_OK \<equiv> 0"
abbreviation (input) S2_TRANSMIT_COMPLETE_NO_ACK :: u8 where "S2_TRANSMIT_COMPLETE_NO_ACK \<equiv> 1"
abbreviation (input) S2_TRANSMIT_COMPLETE_FAIL :: u8 where "S2_TRANSMIT_COMPLETE_FAIL \<equiv> 2"
abbreviation (input) S2_TRANSMIT_COMPLETE_VERIFIED :: u8 where "S2_TRANSMIT_COMPLETE_VERIFIED \<equiv> 5"
abbreviation (input) COMMAND_CLASS_SECURITY_2 :: u8 where "COMMAND_CLASS_SECURITY_2 \<equiv> 0x9F"
abbreviation (input) SECURITY_2_NONCE_GET :: u8 where "SECURITY_2_NONCE_GET \<equiv> 0x01"
abbreviation (input) SECURITY_2_NONCE_REPORT :: u8 where "SECURITY_2_NONCE_REPORT \<equiv> 0x02"
abbreviation (input) SECURITY_2_MESSAGE_ENCAPSULATION :: u8 where "SECURITY_2_MESSAGE_ENCAPSULATION \<equiv> 0x03"
abbreviation (input) SOS_BIT_MASK :: u8 where "SOS_BIT_MASK \<equiv> 0x01"
abbreviation (input) MOS_BIT_MASK :: u8 where "MOS_BIT_MASK \<equiv> 0x02"
abbreviation (input) S2_MSG_EXTHDR_CRITICAL_FLAG :: u8 where "S2_MSG_EXTHDR_CRITICAL_FLAG \<equiv> 0x40"
abbreviation (input) S2_MSG_EXTHDR_MORE_FLAG :: u8 where "S2_MSG_EXTHDR_MORE_FLAG \<equiv> 0x80"
abbreviation (input) S2_MSG_EXTHDR_TYPE_MASK :: u8 where "S2_MSG_EXTHDR_TYPE_MASK \<equiv> 0x3F"
abbreviation (input) S2_MSG_EXTHDR_TYPE_SN :: u8 where "S2_MSG_EXTHDR_TYPE_SN \<equiv> 1"
abbreviation (input) S2_MSG_EXTHDR_TYPE_MPAN :: u8 where "S2_MSG_EXTHDR_TYPE_MPAN \<equiv> 2"
abbreviation (input) S2_MSG_EXTHDR_TYPE_MGRP :: u8 where "S2_MSG_EXTHDR_TYPE_MGRP \<equiv> 3"
abbreviation (input) S2_MSG_EXTHDR_TYPE_MOS :: u8 where "S2_MSG_EXTHDR_TYPE_MOS \<equiv> 4"

text \<open>\<^verbatim>\<open>s2_connection_t\<close>.\<close>

record s2_connection =
  l_node :: u16
  r_node :: u16
  tx_options :: u8
  rx_options :: u8
  zw_tx_options :: u8
  zw_rx_status :: u8
  zw_rx_RSSIval :: u8
  mgrp_group_id :: u8
  class_id :: u8

text \<open>
  \<^verbatim>\<open>struct SPAN\<close>. The union \<^verbatim>\<open>d\<close> is its 33 bytes: the random number generator, or in its first 16 bytes the
  nonce of one side.
\<close>

record s2_span =
  span_d :: "u8 list"
  span_lnode :: u16
  span_rnode :: u16
  span_rx_seq :: u8
  span_tx_seq :: u8
  span_class :: u8
  span_status :: span_state

definition rng_of :: "u8 list \<Rightarrow> ctr_drbg_ctx" where
  "rng_of d = \<lparr>ctx_df = d ! 0, ctx_v = take 16 (drop 1 d), ctx_k = take 16 (drop 17 d)\<rparr>"

definition rng_bytes :: "ctr_drbg_ctx \<Rightarrow> u8 list" where
  "rng_bytes c = ctx_df c # ctx_v c @ ctx_k c"

definition r_nonce_of :: "u8 list \<Rightarrow> u8 list" where
  "r_nonce_of d = take 16 d"

definition with_r_nonce :: "u8 list \<Rightarrow> u8 list \<Rightarrow> u8 list" where
  "with_r_nonce n d = take 16 n @ drop 16 d"

datatype s2_state = IDLE | WAIT_NONCE_RAPORT | SENDING_MSG | SENDING_MULTICAST | VERIFYING_DELIVERY | IS_MOS_WAIT_REPLY

datatype decrypt_return_code = AUTH_OK | PARSE_FAIL | AUTH_FAIL | SEQUENCE_FAIL

text \<open>The functions outside \<^verbatim>\<open>S2.c\<close> that the code calls, with their arguments.\<close>

datatype s2_call =
    Send_frame s2_connection "u8 list" bool
  | Send_frame_no_cb s2_connection "u8 list"
  | Send_frame_multi s2_connection "u8 list" bool
  | Set_timeout u32
  | Stop_timeout
  | Send_done_event u8
  | Msg_received_event s2_connection "u8 list"
  | Resynchronization_event u16 u8 u16
  | Inclusion_send_done bool
  | Inclusion_post_event s2_connection "u8 list"
  | Inclusion_decryption_failure s2_connection
  | Save_nls_state
  | Notify_nls_state_report u16 u8 bool bool
  | Notify_nls_node_list_report u16 u16 u8 bool

text \<open>What the functions that have a result return, given the calls so far.\<close>

record s2_env =
  accepts :: "s2_call list \<Rightarrow> bool"
  commands_supported :: "u16 \<Rightarrow> u8 \<Rightarrow> u8 list"
  nls_node_list :: "s2_call list \<Rightarrow> u16 \<Rightarrow> bool \<Rightarrow> bool \<times> bool \<times> u16 \<times> u8 \<times> bool"
  nls_report_ok :: "s2_call list \<Rightarrow> bool"

text \<open>
  \<^verbatim>\<open>struct S2\<close> and the generator \<^verbatim>\<open>s2_ctr_drbg\<close>. The keys of \<^verbatim>\<open>struct sec_group\<close> are those of
  \<^verbatim>\<open>kderiv.c\<close>: \<open>ccm_key\<close> is \<^verbatim>\<open>enc_key\<close> and \<open>nonce_pstring\<close> is \<^verbatim>\<open>nonce_key\<close>. The union of the
  delayed transmissions keeps \<^verbatim>\<open>is_last_node\<close> and \<^verbatim>\<open>request\<close> in the same byte, \<open>cache_first\<close>.
\<close>

record s2 =
  sg :: "expanded_keys list"
  loaded_keys :: u8
  my_home_id :: u32
  peer :: s2_connection
  buf :: "u8 list"
  buf_length :: u16
  cur_mpan :: "nat option"
  span_table :: "s2_span list"
  mpan_table :: "mpan list"
  mos_list :: "(u16 \<times> u8) list"
  fsm :: s2_state
  retry :: u8
  inclusion_idle :: bool
  workbuf :: "u8 list"
  nls_state :: u8
  send_nls_node_list_get :: bool
  send_nls_node_list_report :: bool
  cache_first :: u8
  cache_node_id :: u16
  cache_granted_keys :: u8
  cache_nls_state :: u8
  s2_ctr_drbg :: ctr_drbg_ctx
  calls :: "s2_call list"
  undefined_c :: bool

abbreviation call :: "s2_call \<Rightarrow> s2 \<Rightarrow> s2" where
  "call c s \<equiv> s\<lparr>calls := calls s @ [c]\<rparr>"

text \<open>Goes on in a state marked as undefined unless \<open>b\<close> holds.\<close>

definition check :: "bool \<Rightarrow> s2 \<Rightarrow> s2" where
  "check b s = (if b then s else s\<lparr>undefined_c := True\<rparr>)"

definition upd_span :: "nat \<Rightarrow> (s2_span \<Rightarrow> s2_span) \<Rightarrow> s2 \<Rightarrow> s2" where
  "upd_span i f s = s\<lparr>span_table := (span_table s)[i := f (span_table s ! i)]\<rparr>"

definition upd_mpan :: "nat \<Rightarrow> (mpan \<Rightarrow> mpan) \<Rightarrow> s2 \<Rightarrow> s2" where
  "upd_mpan i f s = s\<lparr>mpan_table := (mpan_table s)[i := f (mpan_table s ! i)]\<rparr>"

definition random16 :: "s2 \<Rightarrow> u8 list \<times> s2" where
  "random16 s = (case AES_CTR_DRBG_Generate (s2_ctr_drbg s) of (rnd, c) \<Rightarrow> (rnd, s\<lparr>s2_ctr_drbg := c\<rparr>))"

text \<open>\<^verbatim>\<open>(1 << class_id) & loaded_keys\<close>; a class of 32 or more is not loaded.\<close>

definition key_loaded :: "s2 \<Rightarrow> u8 \<Rightarrow> bool" where
  "key_loaded s c = bit (loaded_keys s) (unat c)"

text \<open>\<^verbatim>\<open>sg[c]\<close>, with the check that the class is in range.\<close>

definition sg_of :: "s2 \<Rightarrow> u8 \<Rightarrow> expanded_keys" where
  "sg_of s c = sg s ! unat c"

abbreviation class_in_range :: "u8 \<Rightarrow> s2 \<Rightarrow> s2" where
  "class_in_range c s \<equiv> check (unat c < N_SEC_CLASS) s"

section \<open>Tables of nonces\<close>

definition find_mpan_by_group_id :: "s2 \<Rightarrow> u16 \<Rightarrow> u8 \<Rightarrow> bool \<Rightarrow> nat option \<times> s2" where
  "find_mpan_by_group_id s owner gid create_new =
     (case first_index (\<lambda>m. mpan_state m \<noteq> MPAN_NOT_USED \<and> mpan_group_id m = gid \<and> owner_id m = owner \<and>
          key_loaded s (mpan_class_id m)) (mpan_table s) of
        Some i \<Rightarrow> (Some i, s)
      | None \<Rightarrow> if \<not> create_new then (None, s) else let
          (rnd, s) = random16 s;
          i = (case first_index (\<lambda>m. mpan_state m = MPAN_NOT_USED) (mpan_table s) of
                 Some i \<Rightarrow> i | None \<Rightarrow> unat (rnd ! 0) mod MPAN_TABLE_SIZE);
          (inner, s) = random16 s
        in (Some i, upd_mpan i (\<lambda>_. \<lparr>owner_id = owner, mpan_group_id = gid, mpan_inner_state = inner,
              mpan_class_id = class_id (peer s), mpan_state = (if owner \<noteq> 0 then MPAN_MOS else MPAN_SET)\<rparr>) s))"

definition find_span_by_node :: "s2 \<Rightarrow> s2_connection \<Rightarrow> nat \<times> s2" where
  "find_span_by_node s con =
     (case first_index (\<lambda>e. span_status e \<noteq> SPAN_NOT_USED \<and> span_lnode e = l_node con \<and> span_rnode e = r_node con)
          (span_table s) of
        Some i \<Rightarrow> (i, s)
      | None \<Rightarrow> let
          (rnd, s) = random16 s;
          i = (case first_index (\<lambda>e. span_status e = SPAN_NOT_USED) (span_table s) of
                 Some i \<Rightarrow> i | None \<Rightarrow> unat (rnd ! 0) mod SPAN_TABLE_SIZE)
        in (i, upd_span i (\<lambda>e. e\<lparr>span_status := SPAN_NO_SEQ, span_lnode := l_node con, span_rnode := r_node con,
              span_tx_seq := rnd ! 1\<rparr>) s))"

definition S2_span_ok :: "s2 \<Rightarrow> s2_connection \<Rightarrow> bool \<times> s2" where
  "S2_span_ok s con = (case find_span_by_node s con of (i, s) \<Rightarrow> let e = span_table s ! i in
     ((span_status e = SPAN_NEGOTIATED \<or> span_status e = SPAN_SOS_REMOTE_NONCE) \<and> span_class e = class_id con, s))"

definition S2_verify_seq :: "s2 \<Rightarrow> s2_connection \<Rightarrow> u8 \<Rightarrow> bool \<times> s2" where
  "S2_verify_seq s con seq = (case find_span_by_node s con of (i, s) \<Rightarrow>
     if span_status (span_table s ! i) \<noteq> SPAN_NO_SEQ \<and> span_rx_seq (span_table s ! i) = seq then (False, s)
     else (True, upd_span i (\<lambda>e. e\<lparr>span_rx_seq := seq\<rparr>) s))"

definition S2_is_node_mos :: "s2 \<Rightarrow> u16 \<Rightarrow> bool" where
  "S2_is_node_mos s nodeid = list_ex (\<lambda>m. fst m = nodeid) (mos_list s)"

definition S2_free_mpan :: "u16 \<Rightarrow> u8 \<Rightarrow> s2 \<Rightarrow> s2" where
  "S2_free_mpan owner gid s = (case first_index (\<lambda>m. mpan_group_id m = gid \<and> owner_id m = owner) (mpan_table s) of
     Some i \<Rightarrow> upd_mpan i (\<lambda>m. m\<lparr>mpan_state := MPAN_NOT_USED\<rparr>) s | None \<Rightarrow> s)"

definition S2_is_mos :: "u16 \<Rightarrow> bool \<Rightarrow> s2 \<Rightarrow> bool \<times> s2" where
  "S2_is_mos node clear s = (case first_index (\<lambda>m. owner_id m = node \<and> mpan_state m = MPAN_MOS) (mpan_table s) of
     Some i \<Rightarrow> (True, if clear then upd_mpan i (\<lambda>m. m\<lparr>mpan_state := MPAN_NOT_USED\<rparr>) s else s) | None \<Rightarrow> (False, s))"

text \<open>\<open>bigint_add\<close> adds from index 0 on, with \<open>tmp\<close> the carry into the next index.\<close>

fun bigint_add :: "u8 list \<Rightarrow> u8 list \<Rightarrow> u16 \<Rightarrow> u8 list" where
  "bigint_add (a # as) (b # bs) tmp = (let tmp = ucast a + ucast b + tmp in
     ucast (tmp AND 0xff) # bigint_add as bs (drop_bit 8 tmp))"
| "bigint_add _ _ tmp = []"

definition next_mpan_state :: "mpan \<Rightarrow> mpan" where
  "next_mpan_state m = m\<lparr>mpan_inner_state := bigint_add (mpan_inner_state m) (replicate 15 0 @ [1]) 0\<rparr>"

section \<open>Frames\<close>

text \<open>Memory written from \<open>off\<close> on.\<close>

definition put_at :: "nat \<Rightarrow> u8 list \<Rightarrow> u8 list \<Rightarrow> u8 list" where
  "put_at off b m = take off m @ b @ drop (off + length b) m"

text \<open>
  \<^verbatim>\<open>p\<close> moves over the three bytes of the head of an extension and not over the sixteen bytes
  that \<^verbatim>\<open>memcpy\<close> writes after it. The result is the number of extensions and the memory.
\<close>

definition mpan_extension :: "nat \<Rightarrow> nat \<Rightarrow> nat \<times> nat \<times> u8 list \<times> s2 \<Rightarrow> nat \<times> nat \<times> u8 list \<times> s2" where
  "mpan_extension base i = (\<lambda>(k, p, m, s).
     if fst (mos_list s ! i) = r_node (peer s) then
       (case find_mpan_by_group_id s 0 (snd (mos_list s ! i)) False of
          (None, s) \<Rightarrow> (k, p, m, s)
        | (Some j, s) \<Rightarrow> (k + 1, p + 3,
            put_at (base + p) ([19, S2_MSG_EXTHDR_TYPE_MPAN OR S2_MSG_EXTHDR_MORE_FLAG OR S2_MSG_EXTHDR_CRITICAL_FLAG,
              snd (mos_list s ! i)] @ take 16 (mpan_inner_state (mpan_table s ! j))) m,
            s\<lparr>mos_list := (mos_list s)[i := (0, snd (mos_list s ! i))]\<rparr>))
     else (k, p, m, s))"

definition S2_add_mpan_extensions :: "nat \<Rightarrow> u8 list \<Rightarrow> s2 \<Rightarrow> nat \<times> u8 list \<times> s2" where
  "S2_add_mpan_extensions base m s = (case fold (mpan_extension base) [0..<MOS_LIST_LENGTH] (0, 0, m, s) of
     (k, p, m, s) \<Rightarrow> let q = base + (k - 1) * 19 + 1 in
       (k * 19, if k \<noteq> 0 then m[q := m ! q AND NOT S2_MSG_EXTHDR_MORE_FLAG] else m, s))"

definition S2_make_aad :: "s2 \<Rightarrow> u16 \<Rightarrow> u16 \<Rightarrow> u8 list \<Rightarrow> nat \<Rightarrow> nat \<Rightarrow> nat \<Rightarrow> u8 list" where
  "S2_make_aad s sender receiver msg hdr_len msg_len max_size =
     (if max_size < hdr_len - 2 + 8 then []
      else (if 0x0100 \<le> sender \<or> 0x0100 \<le> receiver
            then [ucast (drop_bit 8 sender AND 0xFF), ucast (sender AND 0xFF),
                  ucast (drop_bit 8 receiver AND 0xFF), ucast (receiver AND 0xFF)]
            else [ucast (sender AND 0xFF), ucast (receiver AND 0xFF)]) @
        [ucast (drop_bit 24 (my_home_id s) AND 0xFF), ucast (drop_bit 16 (my_home_id s) AND 0xFF),
         ucast (drop_bit 8 (my_home_id s) AND 0xFF), ucast (my_home_id s AND 0xFF),
         of_nat (msg_len div 256), of_nat msg_len] @
        take (hdr_len - 2) (drop 2 msg))"

text \<open>
  \<^verbatim>\<open>S2_send_frame\<close> and \<^verbatim>\<open>S2_send_raw\<close>; of the latter the part for an accepted frame, the event for a refused one
  is posted where it is called.
\<close>

definition S2_send_frame :: "s2_env \<Rightarrow> s2_connection \<Rightarrow> u8 list \<Rightarrow> s2 \<Rightarrow> bool \<times> s2" where
  "S2_send_frame env con frame s = (let ok = accepts env (calls s) in (ok, call (Send_frame con frame ok) s))"

definition S2_send_raw :: "s2_env \<Rightarrow> u8 list \<Rightarrow> s2 \<Rightarrow> bool \<times> s2" where
  "S2_send_raw env frame s = (case S2_send_frame env (peer s) frame s of
     (True, s) \<Rightarrow> (True, case find_span_by_node s (peer s) of (i, s) \<Rightarrow> upd_span i (\<lambda>e. e\<lparr>span_tx_seq := span_tx_seq e + 1\<rparr>) s)
   | (False, s) \<Rightarrow> (False, s))"

definition S2_send_nonce_get :: "s2_env \<Rightarrow> s2 \<Rightarrow> bool \<times> s2" where
  "S2_send_nonce_get env s = (case find_span_by_node s (peer s) of (i, s) \<Rightarrow>
     S2_send_raw env [COMMAND_CLASS_SECURITY_2, SECURITY_2_NONCE_GET, span_tx_seq (span_table s ! i)] s)"

text \<open>A nonce is 16 bytes from the second side; \<open>flags\<close> says whether it is part of the report.\<close>

definition S2_send_nonce_report :: "s2_connection \<Rightarrow> u8 \<Rightarrow> s2 \<Rightarrow> s2" where
  "S2_send_nonce_report con flags s = (case find_span_by_node s con of (i, s) \<Rightarrow> let
     h = [COMMAND_CLASS_SECURITY_2, SECURITY_2_NONCE_REPORT, span_tx_seq (span_table s ! i), flags];
     (n, s) = (if flags AND SOS_BIT_MASK \<noteq> 0 then
        (case random16 s of (rnd, s) \<Rightarrow>
          (rnd, upd_span i (\<lambda>e. e\<lparr>span_status := SPAN_SOS_LOCAL_NONCE, span_d := with_r_nonce rnd (span_d e)\<rparr>) s))
        else ([], s));
     s = upd_span i (\<lambda>e. e\<lparr>span_tx_seq := span_tx_seq e + 1\<rparr>) s
   in call (Send_frame_no_cb con (h @ n)) s)"

definition S2_set_node_mos :: "u16 \<Rightarrow> s2 \<Rightarrow> s2" where
  "S2_set_node_mos node s = (case cur_mpan s of
     Some j \<Rightarrow> if (fsm s = VERIFYING_DELIVERY \<or> fsm s = SENDING_MSG) \<and> tx_options (peer s) AND S2_TXOPTION_FOLLOWUPS \<noteq> 0 then
         (case first_index (\<lambda>m. fst m = 0) (mos_list s) of
            Some i \<Rightarrow> s\<lparr>mos_list := (mos_list s)[i := (node, mpan_group_id (mpan_table s ! j))]\<rparr>
          | None \<Rightarrow> s)
       else s
   | None \<Rightarrow> s)"

text \<open>Reads up to \<^verbatim>\<open>buf[3]\<close> whatever the length is.\<close>

definition S2_register_nonce :: "u8 list \<Rightarrow> s2 \<Rightarrow> u8 \<times> s2" where
  "S2_register_nonce b s = (case S2_verify_seq (check (2 < length b) s) (peer s) (b ! 2) of
     (False, s) \<Rightarrow> (0, s)
   | (True, s) \<Rightarrow> let
       (i, s) = find_span_by_node s (peer s);
       s = (if length b \<ge> 20 \<and> b ! 3 AND SOS_BIT_MASK \<noteq> 0
         then upd_span i (\<lambda>e. e\<lparr>span_d := with_r_nonce (take 16 (drop 4 b)) (span_d e), span_status := SPAN_SOS_REMOTE_NONCE\<rparr>) s
         else s);
       s = check (3 < length b) s;
       s = (if b ! 3 AND MOS_BIT_MASK \<noteq> 0 \<and> length b \<ge> 3 then S2_set_node_mos (r_node (peer s)) s else s)
     in (b ! 3, s))"

section \<open>Encryption\<close>

text \<open>The header of a single-cast message: its extensions in the order of the code, and the number of them.\<close>

definition sn_extension :: "nat \<Rightarrow> s2 \<Rightarrow> u8 list \<times> s2" where
  "sn_extension i s = (if span_status (span_table s ! i) = SPAN_SOS_REMOTE_NONCE then let
       (ei_sender, s) = random16 s;
       ei_receiver = r_nonce_of (span_d (span_table s ! i));
       c = class_id (peer s);
       s = class_in_range c s;
       s = upd_span i (\<lambda>e. e\<lparr>span_d := rng_bytes (next_nonce_instantiate (rng_of (span_d e)) ei_sender ei_receiver (nonce_pstring (sg_of s c))),
             span_class := c, span_status := SPAN_NEGOTIATED\<rparr>) s
     in ([18, S2_MSG_EXTHDR_CRITICAL_FLAG OR S2_MSG_EXTHDR_TYPE_SN] @ ei_sender, s)
   else ([], s))"

definition mgrp_extension :: "s2 \<Rightarrow> u8 list \<times> s2" where
  "mgrp_extension s = (case cur_mpan s of
     Some j \<Rightarrow> if tx_options (peer s) AND S2_TXOPTION_FOLLOWUPS \<noteq> 0 then
         (if S2_is_node_mos s (r_node (peer s)) then []
          else [3, S2_MSG_EXTHDR_CRITICAL_FLAG OR S2_MSG_EXTHDR_TYPE_MGRP, mpan_group_id (mpan_table s ! j)],
          if tx_options (peer s) AND S2_TXOPTION_FIRST_SINGLECAST_FOLLOWUP \<noteq> 0 \<and> retry s = 2
          then upd_mpan j next_mpan_state s else s)
       else ([], s)
   | None \<Rightarrow> ([], s))"

definition mos_extension :: "s2 \<Rightarrow> u8 list \<times> s2" where
  "mos_extension s = (case cur_mpan s of
     Some j \<Rightarrow> if mpan_state (mpan_table s ! j) = MPAN_MOS then
         ([2, S2_MSG_EXTHDR_TYPE_MOS], (upd_mpan j (\<lambda>m. m\<lparr>mpan_state := MPAN_NOT_USED\<rparr>) s)\<lparr>cur_mpan := None\<rparr>)
       else ([], s)
   | None \<Rightarrow> ([], s))"

text \<open>The loop that inserts the flag stays at the first extension.\<close>

definition more_flag :: "nat \<Rightarrow> u8 list \<Rightarrow> u8 list" where
  "more_flag n_ext ext = (if n_ext > 1 then ext[1 := ext ! 1 OR S2_MSG_EXTHDR_MORE_FLAG] else ext)"

definition S2_encrypt_and_send :: "s2_env \<Rightarrow> s2 \<Rightarrow> bool \<times> s2" where
  "S2_encrypt_and_send env s = (let
     (i, s) = find_span_by_node s (peer s);
     tx = span_tx_seq (span_table s ! i);
     (e1, s) = sn_extension i s;
     (e2, s) = mgrp_extension s;
     (e3, s) = mos_extension s;
     n_ext = length (filter (\<lambda>e. e \<noteq> []) [e1, e2, e3]);
     ext = more_flag n_ext (e1 @ e2 @ e3);
     hdr_len = 4 + length ext;
     m = put_at 0 ([COMMAND_CLASS_SECURITY_2, SECURITY_2_MESSAGE_ENCAPSULATION, tx, if n_ext \<noteq> 0 then 1 else 0] @ ext) (workbuf s);
     (shdr_len, m, s) = S2_add_mpan_extensions hdr_len m s;
     m = (if shdr_len \<noteq> 0 then m[3 := m ! 3 OR 2] else m);
     len = unat (buf_length s);
     s = check (len \<le> length (buf s)) s;
     m = put_at (hdr_len + shdr_len) (take len (buf s)) m;
     s = check (hdr_len + shdr_len + len + AUTH_TAG_LEN \<le> length (workbuf s)) s;
     aad = S2_make_aad s (l_node (peer s)) (r_node (peer s)) m hdr_len (len + shdr_len + hdr_len + AUTH_TAG_LEN) 64;
     s = check (length aad \<le> 64) s;
     (nonce, rng) = next_nonce_generate (rng_of (span_d (span_table s ! i)));
     s = upd_span i (\<lambda>e. e\<lparr>span_d := rng_bytes rng\<rparr>) s;
     c = class_id (peer s);
     s = class_in_range c s;
     frame = take hdr_len m @ CCM_encrypt_and_auth (ccm_key (sg_of s c)) nonce aad (take (len + shdr_len) (drop hdr_len m));
     s = s\<lparr>workbuf := put_at 0 frame m\<rparr>
   in S2_send_raw env frame s)"

definition S2_encrypt_and_send_multi :: "s2_env \<Rightarrow> nat \<Rightarrow> s2 \<Rightarrow> bool \<times> s2" where
  "S2_encrypt_and_send_multi env j s = (let
     hdr = [COMMAND_CLASS_SECURITY_2, SECURITY_2_MESSAGE_ENCAPSULATION, 0xFF, 1, 3,
            S2_MSG_EXTHDR_CRITICAL_FLAG OR S2_MSG_EXTHDR_TYPE_MGRP, mpan_group_id (mpan_table s ! j)];
     len = unat (buf_length s);
     s = check (len \<le> length (buf s)) s;
     s = check (7 + len + AUTH_TAG_LEN \<le> length (workbuf s)) s;
     aad = S2_make_aad s (l_node (peer s)) (r_node (peer s)) hdr 7 (len + 7 + AUTH_TAG_LEN) 64;
     c = mpan_class_id (mpan_table s ! j);
     s = class_in_range c s;
     nonce = AES128_ECB_encrypt (mpan_inner_state (mpan_table s ! j)) (mpan_key (sg_of s c));
     s = upd_mpan j next_mpan_state s;
     frame = hdr @ CCM_encrypt_and_auth (ccm_key (sg_of s c)) nonce aad (take len (buf s));
     s = s\<lparr>workbuf := put_at 0 frame (workbuf s)\<rparr>;
     ok = accepts env (calls s)
   in (ok, call (Send_frame_multi (peer s) frame ok) s))"

end
