(* ===== verification/S2_Fsm.thy ===== *)
theory S2_Fsm
  imports S2_Protocol
begin

text \<open>
  The second half of \<^verbatim>\<open>S2.c\<close>: the state machine of a transmission, decryption, the handlers of received frames and
  the interface. An event handler returns the new state and whether it ends in \<^verbatim>\<open>goto send_msg_state_enter\<close>; the
  calls of the machine by itself, for a frame that is refused at once, are recursive calls, which end because each
  of them uses up a delayed transmission.
\<close>

section \<open>The machine\<close>

datatype s2_event =
    SEND_MSG s2_connection "u8 list"
  | SEND_MULTICAST s2_connection "u8 list"
  | SEND_DONE u8 u16
  | GOT_NONCE_GET s2_connection "u8 list"
  | GOT_NONCE_REPORT s2_connection "u8 list"
  | GOT_ENC_MSG s2_connection
  | GOT_BAD_ENC_MSG s2_connection
  | GOT_ENC_MSG_MOS s2_connection
  | TIMEOUT

definition S2_is_peernode :: "s2 \<Rightarrow> s2_connection \<Rightarrow> bool" where
  "S2_is_peernode s con \<longleftrightarrow> l_node con = l_node (peer s) \<and> r_node con = r_node (peer s)"

definition S2_set_peer :: "s2_connection \<Rightarrow> u8 list \<Rightarrow> s2 \<Rightarrow> s2" where
  "S2_set_peer con b s = s\<lparr>peer := con, buf := b, buf_length := of_nat (length b)\<rparr>"

definition S2_post_send_done_event :: "u8 \<Rightarrow> s2 \<Rightarrow> s2" where
  "S2_post_send_done_event status s = call (Send_done_event status)
     (call (Inclusion_send_done (status = S2_TRANSMIT_COMPLETE_OK \<or> status = S2_TRANSMIT_COMPLETE_VERIFIED)) s)"

definition emit_S2_synchronization_event :: "s2_connection \<Rightarrow> u8 list \<Rightarrow> s2 \<Rightarrow> s2" where
  "emit_S2_synchronization_event con b s = call (Resynchronization_event (r_node con) (b ! 2) (l_node con)) (check (2 < length b) s)"

definition S2_prepare_nls_node_list_get :: "u8 \<Rightarrow> u8 list" where
  "S2_prepare_nls_node_list_get request = [COMMAND_CLASS_SECURITY_2, 0x0F, request]"

definition S2_prepare_nls_node_list_report :: "u8 \<Rightarrow> u16 \<Rightarrow> u8 \<Rightarrow> u8 \<Rightarrow> u8 list" where
  "S2_prepare_nls_node_list_report is_last_node node granted nls =
     [COMMAND_CLASS_SECURITY_2, 0x10, is_last_node, ucast (drop_bit 8 node AND 0xFF), ucast (node AND 0xFF), granted, nls]"

text \<open>
  The event \<^verbatim>\<open>SEND_DONE\<close>. The frames of the delayed transmissions are arrays of the block that the code leaves
  with \<^verbatim>\<open>goto\<close>; here they are copied.
\<close>

definition fsm_delayed :: "s2 \<Rightarrow> s2 \<times> bool" where
  "fsm_delayed s =
     (if send_nls_node_list_get s \<and> nls_state s \<noteq> 0 then
        (let b = S2_prepare_nls_node_list_get (if cache_first s \<noteq> 0 then 1 else 0)
         in (s\<lparr>send_nls_node_list_get := False, buf := b, buf_length := 3, cache_first := 0\<rparr>, True))
      else if send_nls_node_list_report s \<and> nls_state s \<noteq> 0 then
        (let b = S2_prepare_nls_node_list_report (if cache_first s \<noteq> 0 then 1 else 0) (cache_node_id s) (cache_granted_keys s) (cache_nls_state s)
         in (s\<lparr>send_nls_node_list_report := False, buf := b, buf_length := 7, cache_first := 0, cache_node_id := 0,
               cache_granted_keys := 0, cache_nls_state := 0\<rparr>, True))
      else (s, False))"

definition fsm_send_done :: "u8 \<Rightarrow> u16 \<Rightarrow> s2 \<Rightarrow> s2 \<times> bool" where
  "fsm_send_done status time s = (case fsm s of
     IDLE \<Rightarrow> (call (Inclusion_send_done (status = S2_TRANSMIT_COMPLETE_OK)) s, False)
   | IS_MOS_WAIT_REPLY \<Rightarrow> (call (Inclusion_send_done (status = S2_TRANSMIT_COMPLETE_OK)) s, False)
   | WAIT_NONCE_RAPORT \<Rightarrow>
       (if status = S2_TRANSMIT_COMPLETE_NO_ACK then S2_post_send_done_event status (call Stop_timeout (s\<lparr>fsm := IDLE\<rparr>))
        else if status = S2_TRANSMIT_COMPLETE_OK then call (Set_timeout (ucast time)) s
        else S2_post_send_done_event status (s\<lparr>fsm := IDLE\<rparr>), False)
   | SENDING_MSG \<Rightarrow> fsm_delayed (S2_post_send_done_event status (s\<lparr>fsm := IDLE\<rparr>))
   | VERIFYING_DELIVERY \<Rightarrow>
       (if status = S2_TRANSMIT_COMPLETE_OK then call (Set_timeout (ucast time)) s
        else S2_post_send_done_event status (s\<lparr>fsm := IDLE\<rparr>), False)
   | SENDING_MULTICAST \<Rightarrow> (check False s, False))"

text \<open>The event that is posted when a frame is refused.\<close>

definition after_raw :: "bool \<times> s2 \<Rightarrow> s2 \<times> bool" where
  "after_raw r = (if fst r then (snd r, False) else fsm_send_done S2_TRANSMIT_COMPLETE_FAIL 0 (snd r))"

definition fsm_s2_idle :: "s2_env \<Rightarrow> s2_event \<Rightarrow> s2 \<Rightarrow> s2 \<times> bool" where
  "fsm_s2_idle env e s = (case e of
     SEND_MSG con b \<Rightarrow> (case S2_span_ok s con of
         (True, s) \<Rightarrow> ((S2_set_peer con b s)\<lparr>retry := 2\<rparr>, True)
       | (False, s) \<Rightarrow> let
           s = S2_set_peer con b (s\<lparr>fsm := WAIT_NONCE_RAPORT, retry := 2\<rparr>);
           s = fst (after_raw (S2_send_nonce_get env s))
         in (call (Set_timeout SEND_DATA_TIMEOUT) s, False))
   | GOT_NONCE_GET con b \<Rightarrow> (if length b \<ge> 3 then
         (case S2_verify_seq s con (b ! 2) of (ok, s) \<Rightarrow> if ok then S2_send_nonce_report con SOS_BIT_MASK s else s) else s, False)
   | GOT_NONCE_REPORT con b \<Rightarrow> (emit_S2_synchronization_event con b (snd (S2_register_nonce b (S2_set_peer con b s))), False)
   | SEND_MULTICAST con b \<Rightarrow>
       (case find_mpan_by_group_id (S2_set_peer con b s) 0 (ucast (r_node con)) True of
          (None, s) \<Rightarrow> (s, False)
        | (Some j, s) \<Rightarrow> after_raw (S2_encrypt_and_send_multi env j (s\<lparr>cur_mpan := Some j, fsm := SENDING_MSG\<rparr>)))
   | SEND_DONE status time \<Rightarrow> fsm_send_done status time s
   | GOT_ENC_MSG_MOS con \<Rightarrow> ((S2_set_peer con [] (call (Set_timeout 10) s))\<lparr>fsm := IS_MOS_WAIT_REPLY\<rparr>, False)
   | TIMEOUT \<Rightarrow> (if fsm s = IS_MOS_WAIT_REPLY
       then S2_send_nonce_report (peer s) MOS_BIT_MASK (s\<lparr>cur_mpan := None, fsm := IDLE\<rparr>) else s, False)
   | _ \<Rightarrow> (s, False))"

definition fsm_wait_nonce :: "s2_event \<Rightarrow> s2 \<Rightarrow> s2 \<times> bool" where
  "fsm_wait_nonce e s = (case e of
     SEND_DONE status time \<Rightarrow> fsm_send_done status time s
   | TIMEOUT \<Rightarrow> (S2_post_send_done_event S2_TRANSMIT_COMPLETE_FAIL (s\<lparr>fsm := IDLE\<rparr>), False)
   | GOT_NONCE_REPORT con b \<Rightarrow> if S2_is_peernode s con
       then (case S2_register_nonce b s of (flag, s) \<Rightarrow> (s, flag AND SOS_BIT_MASK \<noteq> 0))
       else (emit_S2_synchronization_event con b s, False)
   | _ \<Rightarrow> (s, False))"

definition fsm_sending :: "s2_event \<Rightarrow> s2 \<Rightarrow> s2 \<times> bool" where
  "fsm_sending e s = (case e of
     SEND_DONE status time \<Rightarrow> fsm_send_done status time s
   | GOT_NONCE_REPORT con b \<Rightarrow> (if S2_is_peernode s con then s else emit_S2_synchronization_event con b s, False)
   | _ \<Rightarrow> (s, False))"

definition fsm_verifying :: "s2_event \<Rightarrow> s2 \<Rightarrow> s2 \<times> bool" where
  "fsm_verifying e s = (case e of
     SEND_DONE status time \<Rightarrow> fsm_send_done status time s
   | GOT_ENC_MSG con \<Rightarrow> if S2_is_peernode s con then
         (if S2_is_node_mos s (r_node con) \<and> retry s > 0 then
            (s\<lparr>buf_length := 0, peer := (peer s)\<lparr>tx_options := tx_options (peer s) AND NOT S2_TXOPTION_VERIFY_DELIVERY\<rparr>\<rparr>, True)
          else (S2_post_send_done_event S2_TRANSMIT_COMPLETE_VERIFIED (call Stop_timeout (s\<lparr>fsm := IDLE\<rparr>)), False))
       else (s, False)
   | TIMEOUT \<Rightarrow> (S2_post_send_done_event S2_TRANSMIT_COMPLETE_OK (s\<lparr>fsm := IDLE\<rparr>), False)
   | GOT_NONCE_REPORT con b \<Rightarrow> if S2_is_peernode s con then
         (case S2_register_nonce b s of (nr_flag, s) \<Rightarrow>
            if nr_flag = 0 then (s, False)
            else let s = (if nr_flag = MOS_BIT_MASK then s\<lparr>buf_length := 0\<rparr> else s) in
              if retry s = 0 then (S2_post_send_done_event S2_TRANSMIT_COMPLETE_FAIL (s\<lparr>fsm := IDLE\<rparr>), False)
              else (s, True))
       else (emit_S2_synchronization_event con b s, False)
   | _ \<Rightarrow> (s, False))"

definition fsm_step :: "s2_env \<Rightarrow> s2_event \<Rightarrow> s2 \<Rightarrow> s2 \<times> bool" where
  "fsm_step env e s = (case fsm s of
     IDLE \<Rightarrow> fsm_s2_idle env e s
   | IS_MOS_WAIT_REPLY \<Rightarrow> fsm_s2_idle env e s
   | WAIT_NONCE_RAPORT \<Rightarrow> fsm_wait_nonce e s
   | SENDING_MSG \<Rightarrow> fsm_sending e s
   | VERIFYING_DELIVERY \<Rightarrow> fsm_verifying e s
   | SENDING_MULTICAST \<Rightarrow> (check False s, False))"

text \<open>The label \<^verbatim>\<open>send_msg_state_enter\<close> up to the call of \<^verbatim>\<open>S2_encrypt_and_send\<close>.\<close>

definition send_msg_begin :: "s2 \<Rightarrow> s2" where
  "send_msg_begin s = (if tx_options (peer s) AND S2_TXOPTION_VERIFY_DELIVERY \<noteq> 0
     then call (Set_timeout SEND_DATA_TIMEOUT) (s\<lparr>fsm := VERIFYING_DELIVERY\<rparr>) else s\<lparr>fsm := SENDING_MSG\<rparr>)"

definition delayed_count :: "s2 \<Rightarrow> nat" where
  "delayed_count s = of_bool (send_nls_node_list_get s) + of_bool (send_nls_node_list_report s)"

text \<open>What encryption leaves alone: all but the tables, the generators, the work buffer and the list of calls.\<close>

definition steady :: "s2 \<Rightarrow> _" where
  "steady s = ((sg s, loaded_keys s, my_home_id s), (peer s, buf s, buf_length s), (fsm s, retry s, inclusion_idle s),
     (nls_state s, send_nls_node_list_get s, send_nls_node_list_report s),
     (cache_first s, cache_node_id s, cache_granted_keys s, cache_nls_state s))"

lemma steadyD:
  assumes "steady s = steady t"
  shows "sg s = sg t" "loaded_keys s = loaded_keys t" "my_home_id s = my_home_id t" "peer s = peer t" "buf s = buf t"
    "buf_length s = buf_length t" "fsm s = fsm t" "retry s = retry t" "inclusion_idle s = inclusion_idle t" "nls_state s = nls_state t"
    "send_nls_node_list_get s = send_nls_node_list_get t" "send_nls_node_list_report s = send_nls_node_list_report t"
    "cache_first s = cache_first t"
  using assms by (simp_all add: steady_def)

lemma steady_upd [simp]:
  "steady (s\<lparr>calls := c\<rparr>) = steady s" "steady (s\<lparr>undefined_c := u\<rparr>) = steady s" "steady (s\<lparr>workbuf := w\<rparr>) = steady s"
  "steady (s\<lparr>s2_ctr_drbg := g\<rparr>) = steady s" "steady (s\<lparr>span_table := sp\<rparr>) = steady s" "steady (s\<lparr>mpan_table := mp\<rparr>) = steady s"
  "steady (s\<lparr>mos_list := ml\<rparr>) = steady s" "steady (s\<lparr>cur_mpan := cm\<rparr>) = steady s"
  by (simp_all add: steady_def)

lemma steady_simps [simp]:
  "steady (check b s) = steady s" "steady (upd_span i f s) = steady s" "steady (upd_mpan j g s) = steady s"
  by (simp_all add: check_def upd_span_def upd_mpan_def)

lemma steady_random16 [simp]: "steady (snd (random16 s)) = steady s"
  by (simp add: random16_def split: prod.split)

lemma steady_find_span [simp]: "steady (snd (find_span_by_node s con)) = steady s"
  by (simp add: find_span_by_node_def Let_def case_prod_beta split: option.split)

lemma steady_find_mpan [simp]: "steady (snd (find_mpan_by_group_id s owner gid create)) = steady s"
proof -
  obtain r s1 where 1: "random16 s = (r, s1)" by fastforce
  obtain r' s2 where 2: "random16 s1 = (r', s2)" by fastforce
  have "steady s2 = steady s" using steady_random16 [of s] steady_random16 [of s1] 1 2 by simp
  then show ?thesis by (simp add: find_mpan_by_group_id_def Let_def 1 2 split: option.split)
qed

lemma steady_send [simp]: "steady (snd (S2_send_frame env con fr s)) = steady s" "steady (snd (S2_send_raw env fr s)) = steady s"
proof -
  show f: "steady (snd (S2_send_frame env con fr s)) = steady s" for con by (simp add: S2_send_frame_def Let_def)
  show "steady (snd (S2_send_raw env fr s)) = steady s"
  proof (cases "S2_send_frame env (peer s) fr s")
    case (Pair ok s1)
    moreover have "steady s1 = steady s" using f [of "peer s"] Pair by simp
    ultimately show ?thesis using steady_find_span [of s1 "peer s1"]
      by (cases ok) (simp_all add: S2_send_raw_def case_prod_beta)
  qed
qed

lemma steady_sn_extension [simp]: "steady (snd (sn_extension i s)) = steady s"
  by (simp add: sn_extension_def Let_def case_prod_beta)

lemma steady_mgrp_extension [simp]: "steady (snd (mgrp_extension s)) = steady s"
  and steady_mos_extension [simp]: "steady (snd (mos_extension s)) = steady s"
  by (simp_all add: mgrp_extension_def mos_extension_def split: option.split)

lemma steady_mpan_extension: "steady (snd (snd (snd (mpan_extension b i (k, p, m, s))))) = steady s"
proof -
  obtain j s1 where 1: "find_mpan_by_group_id s 0 (snd (mos_list s ! i)) False = (j, s1)" by fastforce
  then have "steady s1 = steady s" using steady_find_mpan [of s 0 "snd (mos_list s ! i)" False] by simp
  then show ?thesis by (simp add: mpan_extension_def 1 split: option.split)
qed

lemma steady_mpan_extensions: "steady (snd (snd (snd (fold (mpan_extension b) is (k, p, m, s))))) = steady s"
proof (induction "is" arbitrary: k p m s)
  case (Cons i "is")
  obtain k' p' m' s' where 1: "mpan_extension b i (k, p, m, s) = (k', p', m', s')" by (metis surj_pair)
  then show ?case using Cons [of k' p' m' s'] steady_mpan_extension [of b i k p m s] by simp
qed simp

lemma steady_add_mpan [simp]: "steady (snd (snd (S2_add_mpan_extensions b m s))) = steady s"
  using steady_mpan_extensions [of b "[0..<3]" 0 0 m s]
  by (simp add: S2_add_mpan_extensions_def Let_def case_prod_beta)

lemma steady_encrypt [simp]: "steady (snd (S2_encrypt_and_send env s)) = steady s"
proof -
  obtain i s1 where 1: "find_span_by_node s (peer s) = (i, s1)" by fastforce
  obtain e1 s2 where 2: "sn_extension i s1 = (e1, s2)" by fastforce
  obtain e2 s3 where 3: "mgrp_extension s2 = (e2, s3)" by fastforce
  obtain e3 s4 where 4: "mos_extension s3 = (e3, s4)" by fastforce
  have e: "steady s4 = steady s"
    using steady_find_span [of s "peer s"] steady_sn_extension [of i s1] steady_mgrp_extension [of s2] steady_mos_extension [of s3]
    by (simp add: 1 2 3 4)
  obtain sl m' s5 where 5: "S2_add_mpan_extensions (4 + length (more_flag (length (filter (\<lambda>e. e \<noteq> []) [e1, e2, e3])) (e1 @ e2 @ e3)))
      (put_at 0 ([0x9F, 3, span_tx_seq (span_table s1 ! i), if length (filter (\<lambda>e. e \<noteq> []) [e1, e2, e3]) \<noteq> 0 then 1 else 0] @
        more_flag (length (filter (\<lambda>e. e \<noteq> []) [e1, e2, e3])) (e1 @ e2 @ e3)) (workbuf s4)) s4 = (sl, m', s5)" by (metis surj_pair)
  have e5: "steady s5 = steady s4" by (metis 5 snd_conv steady_add_mpan)
  show ?thesis
    unfolding S2_encrypt_and_send_def 1 2 3 4 Let_def prod.case 5 by (simp add: case_prod_beta e e5)
qed

function send_msg_state_enter :: "s2_env \<Rightarrow> s2 \<Rightarrow> s2" where
  "send_msg_state_enter env s = (let
     s1 = (case S2_encrypt_and_send env (send_msg_begin s) of
         (True, s) \<Rightarrow> s
       | (False, s) \<Rightarrow> (case fsm_send_done S2_TRANSMIT_COMPLETE_FAIL 0 s of
           (s, again) \<Rightarrow> if again then send_msg_state_enter env s else s))
   in s1\<lparr>retry := retry s1 - 1\<rparr>)"
  by pat_completeness auto

lemma fsm_delayed_count:
  assumes "fsm_delayed s = (s', again)"
  shows "if again then delayed_count s' < delayed_count s else s' = s"
  using assms by (auto simp: fsm_delayed_def delayed_count_def Let_def split: if_splits)

lemma fsm_send_done_count:
  assumes "fsm_send_done status time s = (s', True)"
  shows "delayed_count s' < delayed_count s \<and> fsm s = SENDING_MSG"
proof -
  have f: "fsm s = SENDING_MSG" and d: "fsm_delayed (S2_post_send_done_event status (s\<lparr>fsm := IDLE\<rparr>)) = (s', True)"
    using assms by (auto simp: fsm_send_done_def split: s2_state.splits)
  moreover have "delayed_count (S2_post_send_done_event status (s\<lparr>fsm := IDLE\<rparr>)) = delayed_count s"
    by (simp add: S2_post_send_done_event_def delayed_count_def)
  ultimately show ?thesis using fsm_delayed_count [OF d] by simp
qed

lemma steady_delayed_count: "steady s = steady t \<Longrightarrow> delayed_count s = delayed_count t"
  by (simp add: delayed_count_def steady_def)

lemma delayed_count_begin: "delayed_count (send_msg_begin s) = delayed_count s"
  by (simp add: send_msg_begin_def delayed_count_def)

lemma refused_again_count:
  assumes "S2_encrypt_and_send env (send_msg_begin s) = (False, t)" and "fsm_send_done status time t = (u, True)"
  shows "delayed_count u < delayed_count s"
  using assms fsm_send_done_count [OF assms(2)] steady_delayed_count [OF steady_encrypt [of env "send_msg_begin s"]]
    delayed_count_begin [of s] by simp

termination send_msg_state_enter
  by (relation "measure (\<lambda>(env, s). delayed_count s)") (auto intro: refused_again_count dest: sym)

declare send_msg_state_enter.simps [simp del]

definition S2_fsm_post_event :: "s2_env \<Rightarrow> s2_event \<Rightarrow> s2 \<Rightarrow> s2" where
  "S2_fsm_post_event env e s = (case fsm_step env e s of (s, enter) \<Rightarrow> if enter then send_msg_state_enter env s else s)"

end
