(* ===== verification/S2_Receive.thy ===== *)
theory S2_Receive
  imports S2_Fsm
begin

text \<open>
  Receiving in \<^verbatim>\<open>S2.c\<close>: parsing and decryption of an encapsulated message (\<^verbatim>\<open>S2_decrypt_msg\<close>), the
  handlers of received frames and commands, the interface for sending, and the initialisation of a context.
\<close>

section \<open>Extensions in the clear\<close>

text \<open>
  The body of the \<^verbatim>\<open>switch\<close>: whether parsing fails, the MPAN found, the two nonces and the state. \<open>sp\<close> is the SPAN
  unless the frame is a multicast.
\<close>

definition clear_extension ::
  "s2_connection \<Rightarrow> nat option \<Rightarrow> u8 list \<Rightarrow> nat \<Rightarrow> nat option \<times> u8 list \<times> u8 list \<Rightarrow> s2 \<Rightarrow>
    bool \<times> (nat option \<times> u8 list \<times> u8 list) \<times> s2" where
  "clear_extension con sp msg pos x s = (let
     ext_len = msg ! pos; tag = msg ! (pos + 1); ty = tag AND S2_MSG_EXTHDR_TYPE_MASK; (mpan, s_nonce, r_nonce) = x in
     if ty = S2_MSG_EXTHDR_TYPE_SN then
       (case sp of
          Some i \<Rightarrow> if span_status (span_table s ! i) = SPAN_SOS_LOCAL_NONCE \<and> ext_len = 18 then let
              s_nonce = take 16 (drop (pos + 2) msg);
              r_nonce = r_nonce_of (span_d (span_table s ! i));
              c = span_class (span_table s ! i);
              s = class_in_range c s
            in (True, (mpan, s_nonce, r_nonce), upd_span i (\<lambda>e. e\<lparr>span_status := SPAN_INSTANTIATE, span_d :=
                  rng_bytes (next_nonce_instantiate (rng_of (span_d e)) s_nonce r_nonce (nonce_pstring (sg_of s c)))\<rparr>) s)
            else (True, x, s)
        | None \<Rightarrow> (True, x, s))
     else if ty = S2_MSG_EXTHDR_TYPE_MGRP then
       if ext_len \<noteq> 3 then (False, x, s)
       else (case find_mpan_by_group_id s (r_node con) (msg ! (pos + 2)) (rx_options con AND S2_RXOPTION_MULTICAST = 0) of
          (m, s) \<Rightarrow> (True, (m, s_nonce, r_nonce), s))
     else if ty = S2_MSG_EXTHDR_TYPE_MOS then
       if ext_len \<noteq> 2 then (False, x, s) else (True, x, S2_set_node_mos (r_node con) s)
     else (tag AND S2_MSG_EXTHDR_CRITICAL_FLAG = 0, x, s))"

text \<open>
  The loop over the extensions, from \<open>pos\<close> on; \<open>hdr_len\<close> is a \<^verbatim>\<open>uint16_t\<close>. The result is \<open>None\<close> when parsing
  fails, and the length of the header otherwise.
\<close>

function clear_extensions ::
  "s2_connection \<Rightarrow> nat option \<Rightarrow> u8 list \<Rightarrow> nat \<Rightarrow> u16 \<Rightarrow> nat option \<times> u8 list \<times> u8 list \<Rightarrow> s2 \<Rightarrow>
    u16 option \<times> (nat option \<times> u8 list \<times> u8 list) \<times> s2" where
  "clear_extensions con sp msg pos hdr_len x s =
     (if \<not> pos < length msg then (None, x, check False s)
      else let ext_len = msg ! pos; hdr_len = hdr_len + ucast ext_len in
        if length msg < unat hdr_len + AUTH_TAG_LEN \<or> ext_len = 0 then (None, x, s)
        else if \<not> pos + 1 < length msg then (None, x, check False s)
        else (case clear_extension con sp msg pos x s of
            (False, x, s) \<Rightarrow> (None, x, s)
          | (True, x, s) \<Rightarrow> if msg ! (pos + 1) AND S2_MSG_EXTHDR_MORE_FLAG \<noteq> 0
              then clear_extensions con sp msg (pos + unat ext_len) hdr_len x s else (Some hdr_len, x, s)))"
  by pat_completeness auto
termination
  by (relation "measure (\<lambda>(con, sp, msg, pos, h, x, s). length msg - pos)") (auto simp: unat_gt_0 intro!: diff_less_mono2)

declare clear_extensions.simps [simp del]

section \<open>Decryption of single-cast messages\<close>

text \<open>
  The inner loop: tries the next nonces one after the other, from the second on with the ciphertext taken back from
  the work buffer. Ends with the length of the plain text, or zero.
\<close>

fun span_attempts :: "nat \<Rightarrow> bool \<Rightarrow> nat \<Rightarrow> u8 list \<Rightarrow> u8 list \<Rightarrow> s2 \<Rightarrow> u16 \<times> u8 list \<times> s2" where
  "span_attempts 0 again i aad c s = (0, c, s)"
| "span_attempts (Suc n) again i aad c s = (let
     s = (if again then check (length c \<le> length (workbuf s)) s else s);
     c = (if again then take (length c) (workbuf s) else c);
     (nonce, rng) = next_nonce_generate (rng_of (span_d (span_table s ! i)));
     s = upd_span i (\<lambda>e. e\<lparr>span_d := rng_bytes rng\<rparr>) s;
     cl = span_class (span_table s ! i);
     (c, r) = CCM_decrypt_and_auth (ccm_key (sg_of s cl)) nonce aad c
   in if r \<noteq> 0 then (r, c, s) else span_attempts n True i aad c s)"

text \<open>What follows a successful decryption inside the loop.\<close>

definition decrypted :: "s2_env \<Rightarrow> nat \<Rightarrow> nat option \<Rightarrow> s2_connection \<Rightarrow> s2 \<Rightarrow> s2_connection \<times> s2" where
  "decrypted env i mpan con s = (let
     s = upd_span i (\<lambda>e. e\<lparr>span_status := SPAN_NEGOTIATED\<rparr>) s;
     con = con\<lparr>class_id := span_class (span_table s ! i)\<rparr>
   in case mpan of
     None \<Rightarrow> (con, s)
   | Some j \<Rightarrow> let con = con\<lparr>rx_options := rx_options con OR S2_RXOPTION_FOLLOWUP\<rparr> in
       if mpan_state (mpan_table s ! j) = MPAN_MOS
       then (con, S2_fsm_post_event env (GOT_ENC_MSG_MOS con) (s\<lparr>cur_mpan := Some j\<rparr>))
       else (con, upd_mpan j next_mpan_state s))"

text \<open>
  The outer loop over the security classes; a result of zero means that the authentication failed, by the
  \<^verbatim>\<open>goto\<close> or after the last class.
\<close>

fun class_attempts ::
  "s2_env \<Rightarrow> nat \<Rightarrow> nat \<Rightarrow> nat option \<Rightarrow> u8 list \<Rightarrow> u8 list \<Rightarrow> u8 list \<Rightarrow> u8 list \<Rightarrow> s2_connection \<Rightarrow> s2 \<Rightarrow>
    u16 \<times> u8 list \<times> s2_connection \<times> s2" where
  "class_attempts env 0 i mpan s_nonce r_nonce aad c con s = (0, c, con, s)"
| "class_attempts env (Suc k) i mpan s_nonce r_nonce aad c con s = (let
     e = span_table s ! i;
     (r, c, s) = (if key_loaded s (span_class e)
       then span_attempts (if span_status e = SPAN_NEGOTIATED then MAX_SPAN_RETRY_ITERATIONS else 1) False i aad c
              (class_in_range (span_class e) s)
       else (0, c, s))
   in if r \<noteq> 0 then (case decrypted env i mpan con s of (con, s) \<Rightarrow> (r, c, con, s))
      else let s = upd_span i (\<lambda>e'. e'\<lparr>span_d := span_d e\<rparr>) s in
        if fsm s \<noteq> IDLE \<or> span_status e = SPAN_NEGOTIATED then (0, c, con, s)
        else let
          cl = (if unat (span_class e + 1) \<ge> N_SEC_CLASS then 0 else span_class e + 1);
          s = check (length c \<le> length (workbuf s)) s;
          s = upd_span i (\<lambda>e'. e'\<lparr>span_class := cl, span_d :=
                rng_bytes (next_nonce_instantiate (rng_of (span_d e')) s_nonce r_nonce (nonce_pstring (sg_of s cl)))\<rparr>) s
        in class_attempts env k i mpan s_nonce r_nonce aad (take (length c) (workbuf s)) con s)"

section \<open>Encrypted extensions\<close>

function secure_extensions ::
  "nat \<Rightarrow> s2_connection \<Rightarrow> nat option \<Rightarrow> u8 list \<Rightarrow> nat \<Rightarrow> u16 \<Rightarrow> s2 \<Rightarrow> u16 option \<times> s2_connection \<times> s2" where
  "secure_extensions decrypt_len con sp c pos hdr_len s =
     (if \<not> pos < length c then (None, con, check False s)
      else let ext_len = c ! pos; hdr_len = hdr_len + ucast ext_len in
        if decrypt_len < unat hdr_len \<or> ext_len = 0 then (None, con, s)
        else if \<not> pos + 1 < length c then (None, con, check False s)
        else let tag = c ! (pos + 1);
          (ok, con, s) = (if tag AND S2_MSG_EXTHDR_TYPE_MASK = S2_MSG_EXTHDR_TYPE_MPAN then
            (if rx_options con AND S2_RXOPTION_MULTICAST \<noteq> 0 \<or> ext_len \<noteq> 19 then (False, con, s)
             else (case find_mpan_by_group_id s (r_node con) (c ! (pos + 2)) True of
                (Some j, s) \<Rightarrow> (True, con\<lparr>rx_options := rx_options con OR S2_RXOPTION_FOLLOWUP\<rparr>,
                  upd_mpan j (\<lambda>m. m\<lparr>mpan_inner_state := take 16 (drop (pos + 3) c), mpan_state := MPAN_SET,
                    mpan_class_id := (case sp of Some i \<Rightarrow> span_class (span_table s ! i) | None \<Rightarrow> 0)\<rparr>) s)
              | (None, s) \<Rightarrow> (False, con, s)))
            else (tag AND S2_MSG_EXTHDR_CRITICAL_FLAG = 0, con, s))
        in if \<not> ok then (None, con, s)
           else if tag AND S2_MSG_EXTHDR_MORE_FLAG \<noteq> 0 then secure_extensions decrypt_len con sp c (pos + unat ext_len) hdr_len s
           else (Some hdr_len, con, s))"
  by pat_completeness auto
termination
  by (relation "measure (\<lambda>(dl, con, sp, c, pos, h, s). length c - pos)") (auto simp: unat_gt_0 intro!: diff_less_mono2)

declare secure_extensions.simps [simp del]

section \<open>Messages\<close>

definition auth_fail :: "s2_connection \<Rightarrow> nat option \<Rightarrow> nat option \<Rightarrow> s2 \<Rightarrow> s2" where
  "auth_fail con sp mpan s = (let
     s = (case mpan of Some j \<Rightarrow> upd_mpan j (\<lambda>m. m\<lparr>mpan_state := MPAN_MOS\<rparr>) s | None \<Rightarrow> s);
     s = (case sp of Some i \<Rightarrow> upd_span i (\<lambda>e. e\<lparr>span_status := SPAN_SOS\<rparr>) s | None \<Rightarrow> s)
   in if rx_options con AND S2_RXOPTION_MULTICAST = 0
      then S2_send_nonce_report con (if mpan \<noteq> None then SOS_BIT_MASK OR MOS_BIT_MASK else SOS_BIT_MASK) s else s)"

text \<open>From the header on: the checks of the nonces, decryption and the encrypted extensions. The plain text comes with the bytes behind it.\<close>

definition decrypt_payload ::
  "s2_env \<Rightarrow> s2_connection \<Rightarrow> u8 list \<Rightarrow> nat option \<Rightarrow> u16 \<Rightarrow> nat option \<times> u8 list \<times> u8 list \<Rightarrow> s2 \<Rightarrow>
    decrypt_return_code \<times> s2_connection \<times> u8 list \<times> nat \<times> s2" where
  "decrypt_payload env con msg sp hdr_len x s = (let (mpan, s_nonce, r_nonce) = x; multi = (rx_options con AND S2_RXOPTION_MULTICAST \<noteq> 0) in
     if (if multi then (case mpan of None \<Rightarrow> True | Some j \<Rightarrow> mpan_state (mpan_table s ! j) \<noteq> MPAN_SET)
         else (case sp of None \<Rightarrow> True | Some i \<Rightarrow> span_status (span_table s ! i) \<noteq> SPAN_NEGOTIATED \<and>
                span_status (span_table s ! i) \<noteq> SPAN_INSTANTIATE))
     then (AUTH_FAIL, con, [], 0, auth_fail con sp mpan s)
     else let
       con = (case mpan of Some j \<Rightarrow> if multi then con\<lparr>l_node := ucast (mpan_group_id (mpan_table s ! j))\<rparr> else con | None \<Rightarrow> con);
       c = drop (unat hdr_len) msg;
       aad = S2_make_aad s (r_node con) (l_node con) msg (unat hdr_len) (length msg) 64;
       s = check (length aad \<le> 64) s;
       (r, c, con, s) = (case sp of
          Some i \<Rightarrow> if fsm s = IDLE \<and> length c > length (workbuf s) then (0, c, con, s)
            else class_attempts env N_SEC_CLASS i mpan s_nonce r_nonce aad c con
                   (if fsm s = IDLE then s\<lparr>workbuf := put_at 0 c (workbuf s)\<rparr> else s)
        | None \<Rightarrow> (case mpan of
            Some j \<Rightarrow> let cl = mpan_class_id (mpan_table s ! j); s = class_in_range cl s;
                nonce = AES128_ECB_encrypt (mpan_inner_state (mpan_table s ! j)) (mpan_key (sg_of s cl));
                s = upd_mpan j next_mpan_state s;
                (c, r) = CCM_decrypt_and_auth (ccm_key (sg_of s cl)) nonce aad c
              in (r, c, con\<lparr>class_id := cl\<rparr>, s)
          | None \<Rightarrow> (0, c, con, s)))
     in if r = 0 \<or> aad = [] then (AUTH_FAIL, con, [], 0, auth_fail con sp mpan s)
        else if msg ! 3 AND 2 \<noteq> 0 then
          (case secure_extensions (unat r) con sp c 0 0 s of
             (None, con, s) \<Rightarrow> (PARSE_FAIL, con, [], 0, s)
           | (Some h, con, s) \<Rightarrow> (AUTH_OK, con, drop (unat h) c, unat r - unat h, s))
        else (AUTH_OK, con, c, unat r, s))"

definition S2_decrypt_msg ::
  "s2_env \<Rightarrow> s2_connection \<Rightarrow> u8 list \<Rightarrow> s2 \<Rightarrow> decrypt_return_code \<times> s2_connection \<times> u8 list \<times> nat \<times> s2" where
  "S2_decrypt_msg env con msg s = (let s = check (3 < length msg) s in
     if length msg < 4 + AUTH_TAG_LEN then (PARSE_FAIL, con, [], 0, s)
     else let
       multi = (rx_options con AND S2_RXOPTION_MULTICAST \<noteq> 0);
       (ok, s) = (if multi then (True, s) else S2_verify_seq s con (msg ! 2))
     in if \<not> ok then (SEQUENCE_FAIL, con, [], 0, s)
        else let
          (sp, s) = (if multi then (None, s) else (case find_span_by_node s con of (i, s) \<Rightarrow> (Some i, s)));
          x = (None, replicate 16 0, replicate 16 0);
          (h, x, s) = (if msg ! 3 AND 1 \<noteq> 0 then clear_extensions con sp msg 4 4 x s else (Some 4, x, s))
        in (case h of
              None \<Rightarrow> (PARSE_FAIL, con, [], 0, s)
            | Some hdr_len \<Rightarrow> decrypt_payload env con msg sp hdr_len x s))"

section \<open>Sending\<close>

definition S2_is_send_data_busy :: "s2 \<Rightarrow> bool" where
  "S2_is_send_data_busy s \<longleftrightarrow> fsm s \<noteq> IDLE \<and> fsm s \<noteq> IS_MOS_WAIT_REPLY"

definition S2_is_send_data_multicast_busy :: "s2 \<Rightarrow> bool" where
  "S2_is_send_data_multicast_busy s \<longleftrightarrow> fsm s \<noteq> IDLE"

definition S2_is_busy :: "s2 \<Rightarrow> bool" where
  "S2_is_busy s \<longleftrightarrow> \<not> inclusion_idle s \<or> fsm s \<noteq> IDLE \<and> fsm s \<noteq> IS_MOS_WAIT_REPLY"

definition convert_normal_to_lr_keyclass :: "s2_connection \<Rightarrow> s2_connection" where
  "convert_normal_to_lr_keyclass con = (if class_id con = 2 then con\<lparr>class_id := 4\<rparr>
     else if class_id con = 1 then con\<lparr>class_id := 3\<rparr> else con)"

definition convert_lr_to_normal_keyclass :: "s2_connection \<Rightarrow> s2_connection" where
  "convert_lr_to_normal_keyclass con = (if class_id con = 4 then con\<lparr>class_id := 2\<rparr>
     else if class_id con = 3 then con\<lparr>class_id := 1\<rparr> else con)"

definition IS_LR_NODE :: "u16 \<Rightarrow> bool" where
  "IS_LR_NODE n \<longleftrightarrow> 256 \<le> n \<and> n \<le> 4000"

datatype s2_cast = Singlecast | Multicast | Follow_up

definition S2_send_data_all_cast :: "s2_env \<Rightarrow> s2_connection \<Rightarrow> u8 list \<Rightarrow> s2_cast \<Rightarrow> s2 \<Rightarrow> bool \<times> s2" where
  "S2_send_data_all_cast env con b ev s =
     (if length b = 0 \<or> length b > WORKBUF_SIZE \<or> S2_is_send_data_busy s then (False, s)
      else (True, case ev of
          Multicast \<Rightarrow> S2_fsm_post_event env (SEND_MULTICAST con b) s
        | Singlecast \<Rightarrow> S2_fsm_post_event env (SEND_MSG con b) s
        | Follow_up \<Rightarrow> (case find_mpan_by_group_id s 0 (mgrp_group_id con) False of (m, s) \<Rightarrow>
            S2_fsm_post_event env (SEND_MSG con b) (case m of Some j \<Rightarrow> s\<lparr>cur_mpan := Some j\<rparr> | None \<Rightarrow> s))))"

definition S2_send_data :: "s2_env \<Rightarrow> s2_connection \<Rightarrow> u8 list \<Rightarrow> s2 \<Rightarrow> bool \<times> s2" where
  "S2_send_data env dst b s =
     S2_send_data_all_cast env (if IS_LR_NODE (r_node dst) then convert_normal_to_lr_keyclass dst else dst) b Singlecast s"

definition S2_send_data_multicast :: "s2_env \<Rightarrow> s2_connection \<Rightarrow> u8 list \<Rightarrow> s2 \<Rightarrow> bool \<times> s2" where
  "S2_send_data_multicast env con b s = S2_send_data_all_cast env con b Multicast s"

datatype s2_keyset = ZWAVE_KEYSET | ZWAVE_LONG_RANGE_KEYSET | UNKNOWN_KEYSET

text \<open>
  \<^verbatim>\<open>S2_send_data_singlecast_with_keyset\<close>, \<^verbatim>\<open>S2_send_data_multicast_with_keyset\<close> and
  \<^verbatim>\<open>S2_send_data_singlecast_follow_up_with_keyset\<close> differ in the event only.
\<close>

definition S2_send_data_with_keyset :: "s2_env \<Rightarrow> s2_connection \<Rightarrow> s2_keyset \<Rightarrow> u8 list \<Rightarrow> s2_cast \<Rightarrow> s2 \<Rightarrow> bool \<times> s2" where
  "S2_send_data_with_keyset env con keyset payload ev s = (case keyset of
     ZWAVE_KEYSET \<Rightarrow> S2_send_data_all_cast env con payload ev s
   | ZWAVE_LONG_RANGE_KEYSET \<Rightarrow> S2_send_data_all_cast env (convert_normal_to_lr_keyclass con) payload ev s
   | UNKNOWN_KEYSET \<Rightarrow> (False, s))"

definition S2_send_frame_done_notify :: "s2_env \<Rightarrow> u8 \<Rightarrow> u16 \<Rightarrow> s2 \<Rightarrow> s2" where
  "S2_send_frame_done_notify env status tx_time s = S2_fsm_post_event env (SEND_DONE status tx_time) s"

definition S2_timeout_notify :: "s2_env \<Rightarrow> s2 \<Rightarrow> s2" where
  "S2_timeout_notify env s = S2_fsm_post_event env TIMEOUT s"

section \<open>Commands\<close>

definition S2_send_nls_state_report :: "s2_env \<Rightarrow> s2_connection \<Rightarrow> s2 \<Rightarrow> s2" where
  "S2_send_nls_state_report env con s =
     snd (S2_send_data env con [COMMAND_CLASS_SECURITY_2, 0x12, 0x01 OR (if nls_state s \<noteq> 0 then 0x02 else 0)] s)"

definition S2_send_nls_state_set :: "s2_env \<Rightarrow> s2_connection \<Rightarrow> bool \<Rightarrow> s2 \<Rightarrow> s2" where
  "S2_send_nls_state_set env con nls_active s = snd (S2_send_data env con [COMMAND_CLASS_SECURITY_2, 0x13, of_bool nls_active] s)"

definition S2_send_nls_state_get :: "s2_env \<Rightarrow> s2_connection \<Rightarrow> s2 \<Rightarrow> s2" where
  "S2_send_nls_state_get env con s = snd (S2_send_data env con [COMMAND_CLASS_SECURITY_2, 0x11] s)"

definition S2_send_nls_node_list_get :: "s2_env \<Rightarrow> s2_connection \<Rightarrow> u8 \<Rightarrow> s2 \<Rightarrow> s2" where
  "S2_send_nls_node_list_get env con request s = snd (S2_send_data env con (S2_prepare_nls_node_list_get request) s)"

definition S2_send_nls_node_list_report :: "s2_env \<Rightarrow> s2_connection \<Rightarrow> bool \<Rightarrow> u16 \<Rightarrow> u8 \<Rightarrow> bool \<Rightarrow> s2 \<Rightarrow> s2" where
  "S2_send_nls_node_list_report env con is_last node granted nls s =
     snd (S2_send_data env con (S2_prepare_nls_node_list_report (of_bool is_last) node granted (of_bool nls)) s)"

definition nls_command :: "s2_env \<Rightarrow> s2_connection \<Rightarrow> u8 list \<Rightarrow> s2 \<Rightarrow> s2" where
  "nls_command env src cmd s =
     (if cmd ! 1 = 0x11 then
        if length cmd = 2 then (S2_send_nls_state_report env src s)\<lparr>send_nls_node_list_get := True, cache_first := 0\<rparr> else s
      else if cmd ! 1 = 0x13 then
        if length cmd = 3 then call Save_nls_state (s\<lparr>nls_state := cmd ! 2\<rparr>) else s
      else if cmd ! 1 = 0x12 then
        if length cmd = 3 then let state = (cmd ! 2 AND 0x02 \<noteq> 0) in
          call (Notify_nls_state_report (r_node src) (class_id src) (cmd ! 2 AND 0x01 \<noteq> 0) state)
            (call Save_nls_state (if state then s\<lparr>nls_state := 1\<rparr> else s))
        else s
      else if cmd ! 1 = 0x0F then
        if length cmd = 3 then
          (case nls_node_list env (calls s) (r_node src) (cmd ! 2 = 1) of (ok, is_last, node, granted, nls) \<Rightarrow>
             if nls \<and> ok then
               if S2_is_send_data_busy s then s\<lparr>send_nls_node_list_report := True, cache_first := of_bool is_last,
                   cache_node_id := node, cache_granted_keys := granted, cache_nls_state := of_bool nls\<rparr>
               else S2_send_nls_node_list_report env src is_last node granted nls s
             else s)
        else s
      else
        if length cmd = 7 then let
            s = call (Notify_nls_node_list_report (r_node src) (push_bit 8 (ucast (cmd ! 3)) OR ucast (cmd ! 4)) (cmd ! 5) (cmd ! 6 \<noteq> 0)) s
          in if cmd ! 2 AND 0x01 = 0 \<and> nls_report_ok env (calls s) then
               if S2_is_send_data_busy s then s\<lparr>send_nls_node_list_get := True, cache_first := 1\<rparr>
               else S2_send_nls_node_list_get env src 1 s
             else s
        else s)"

text \<open>The command is the first \<open>len\<close> bytes of \<open>mem\<close>; its second byte is read whatever the length is.\<close>

definition S2_command_handler :: "s2_env \<Rightarrow> s2_connection \<Rightarrow> u8 list \<Rightarrow> nat \<Rightarrow> s2 \<Rightarrow> s2" where
  "S2_command_handler env src mem len s = (let cmd = take len mem in
     if mem ! 0 = COMMAND_CLASS_SECURITY_2 \<and> mem ! 1 \<noteq> 0x0E then
       if rx_options src AND S2_RXOPTION_MULTICAST \<noteq> 0 then s
       else if mem ! 1 = 0x0D then let classes = commands_supported env (l_node src) (class_id src) in
         if length classes + 2 > 40 then s else snd (S2_send_data env src ([COMMAND_CLASS_SECURITY_2, 0x0E] @ classes) s)
       else if mem ! 1 \<in> {0x11, 0x13, 0x12, 0x0F, 0x10} then
         if len = 1 then s else nls_command env src cmd s
       else call (Inclusion_post_event src cmd) (s\<lparr>buf := cmd, buf_length := of_nat len\<rparr>)
     else call (Msg_received_event (if IS_LR_NODE (r_node src) then convert_lr_to_normal_keyclass src else src) cmd) s)"

definition S2_application_command_handler :: "s2_env \<Rightarrow> s2_connection \<Rightarrow> u8 list \<Rightarrow> s2 \<Rightarrow> s2" where
  "S2_application_command_handler env src b s = (let s = check (1 < length b) s; cmd = b ! 1; multi = (rx_options src AND S2_RXOPTION_MULTICAST \<noteq> 0) in
     if cmd = SECURITY_2_NONCE_GET then
       if \<not> multi \<and> length b \<ge> 3
       then (case S2_verify_seq s src (b ! 2) of (ok, s) \<Rightarrow> if ok then S2_send_nonce_report src SOS_BIT_MASK s else s)
       else s
     else if cmd = SECURITY_2_NONCE_REPORT then S2_fsm_post_event env (GOT_NONCE_REPORT src b) s
     else if cmd = SECURITY_2_MESSAGE_ENCAPSULATION then
       (case S2_decrypt_msg env src b s of (rc, src, plain, len, s) \<Rightarrow>
          if rc = AUTH_OK then let s = S2_fsm_post_event env (GOT_ENC_MSG src) s in
            if len \<noteq> 0 then S2_command_handler env src plain len s else s
          else if rc = AUTH_FAIL then call (Inclusion_decryption_failure src) (S2_fsm_post_event env (GOT_BAD_ENC_MSG src) s)
          else s)
     else if fsm s \<noteq> IDLE \<and> cmd \<noteq> 0x07 then s
     else if \<not> multi then call (Inclusion_post_event (src\<lparr>class_id := 0xFF\<rparr>) b) (s\<lparr>buf := b, buf_length := of_nat (length b)\<rparr>)
     else s)"

section \<open>Contexts\<close>

definition S2_network_key_update :: "u8 \<Rightarrow> u8 list \<Rightarrow> bool \<Rightarrow> s2 \<Rightarrow> bool \<times> s2" where
  "S2_network_key_update c net_key temp s = (if unat c \<ge> N_SEC_CLASS then (False, s)
     else (True, s\<lparr>sg := (sg s)[unat c := if temp then tempkey_expand net_key else networkkey_expand net_key],
                  loaded_keys := loaded_keys s OR push_bit (unat c) 1\<rparr>))"

definition m_key_slot_pair :: "(u8 \<times> u8) list" where
  "m_key_slot_pair = [(0x01, 0), (0x02, 1), (0x04, 2), (0x08, 3), (0x10, 4)]"

text \<open>\<open>keystore\<close> is what \<^verbatim>\<open>keystore_network_key_read\<close> finds for a class.\<close>

definition s2_restore_keys :: "(u8 \<Rightarrow> u8 list option) \<Rightarrow> s2 \<Rightarrow> s2" where
  "s2_restore_keys keystore s = fold (\<lambda>(kc, slot) s. case keystore kc of
       Some k \<Rightarrow> snd (S2_network_key_update slot k False s) | None \<Rightarrow> s) m_key_slot_pair (s\<lparr>loaded_keys := 0\<rparr>)"

definition zero_peer :: s2_connection where
  "zero_peer = \<lparr>l_node = 0, r_node = 0, tx_options = 0, rx_options = 0, zw_tx_options = 0, zw_rx_status = 0,
     zw_rx_RSSIval = 0, mgrp_group_id = 0, class_id = 0\<rparr>"

definition zero_span :: s2_span where
  "zero_span = \<lparr>span_d = replicate 33 0, span_lnode = 0, span_rnode = 0, span_rx_seq = 0, span_tx_seq = 0, span_class = 0,
     span_status = SPAN_NOT_USED\<rparr>"

definition zero_mpan :: mpan where
  "zero_mpan = \<lparr>owner_id = 0, mpan_group_id = 0, mpan_inner_state = replicate 16 0, mpan_class_id = 0, mpan_state = MPAN_NOT_USED\<rparr>"

text \<open>The generator \<^verbatim>\<open>s2_ctr_drbg\<close> is not part of the context: it stays as it is.\<close>

definition S2_init_ctx :: "u32 \<Rightarrow> (u8 \<Rightarrow> u8 list option) \<Rightarrow> ctr_drbg_ctx \<Rightarrow> s2" where
  "S2_init_ctx home keystore drbg = s2_restore_keys keystore
     \<lparr>sg = replicate N_SEC_CLASS \<lparr>ccm_key = replicate 16 0, nonce_pstring = replicate 32 0, mpan_key = replicate 16 0\<rparr>,
      loaded_keys = 0, my_home_id = home, peer = zero_peer, buf = [], buf_length = 0, cur_mpan = None,
      span_table = replicate SPAN_TABLE_SIZE zero_span, mpan_table = replicate MPAN_TABLE_SIZE zero_mpan,
      mos_list = replicate MOS_LIST_LENGTH (0, 0), fsm = IDLE, retry = 0, inclusion_idle = True, workbuf = replicate 1302 0,
      nls_state = 0, send_nls_node_list_get = False, send_nls_node_list_report = False, cache_first = 0, cache_node_id = 0,
      cache_granted_keys = 0, cache_nls_state = 0, s2_ctr_drbg = drbg, calls = [], undefined_c = False\<rparr>"

definition S2_init_prng :: "u8 list \<Rightarrow> s2 \<Rightarrow> s2" where
  "S2_init_prng entropy s = s\<lparr>s2_ctr_drbg := AES_CTR_DRBG_Instantiate (s2_ctr_drbg s) entropy None\<rparr>"

definition S2_load_nls_state :: "u8 \<Rightarrow> s2 \<Rightarrow> s2" where
  "S2_load_nls_state n s = s\<lparr>nls_state := n\<rparr>"

end
