(* ===== verification/S2_Crypto_Properties.thy ===== *)
theory S2_Crypto_Properties
  imports S2_Crypto
begin

text \<open>
  What the cipher modes compute: the authentication code is the one of RFC 4493 for messages of up to
  4080 bytes, the authenticated encryption adds the key stream of counter mode and the tag over the formatted
  blocks, decryption accepts exactly what encryption produces with the same key, nonce and additional data,
  and the counter of the random number generator is incremented as a number of 128 bits.
\<close>

section \<open>Blocks\<close>

lemma length_xor_128 [simp]: "length (xor_128 a b) = 16" and nth_xor_128 [simp]: "i < 16 \<Longrightarrow> xor_128 a b ! i = a ! i XOR b ! i"
  by (simp_all add: xor_128_def)

lemma xor_128_take [simp]: "xor_128 a (take 16 b) = xor_128 a b" "xor_128 (take 16 a) b = xor_128 a b"
  by (simp_all add: xor_128_def)

lemma length_ciph_block [simp]: "length (ciph_block b k) = 16"
  by (simp add: ciph_block_def)

lemma length_bit_xor [simp]: "length (bit_xor b d off n) = length d"
  by (simp add: bit_xor_def)

lemma bit_xor_block: "length b = 16 \<Longrightarrow> bit_xor a b 0 16 = xor_128 a b"
  by (rule nth_equalityI) (simp_all add: bit_xor_def)

text \<open>The blocks of a message, the last one shorter when the length is not a multiple of 16.\<close>

function blocks_of :: "u8 list \<Rightarrow> u8 list list" where
  "blocks_of xs = (if xs = [] then [] else take 16 xs # blocks_of (drop 16 xs))"
  by pat_completeness auto
termination by (relation "measure length") auto

declare blocks_of.simps [simp del]

lemma blocks_of_Nil [simp]: "blocks_of [] = []"
  by (simp add: blocks_of.simps)

lemma length_blocks_of: "length (blocks_of xs) = (length xs + 15) div 16"
proof (induction xs rule: blocks_of.induct)
  case (1 xs)
  show ?case
  proof (cases "xs = []")
    case False
    then have "length (blocks_of xs) = Suc ((length xs - 16 + 15) div 16)" using 1 by (simp add: blocks_of.simps [of xs])
    also have "\<dots> = (length xs + 15) div 16"
    proof (cases "length xs \<le> 16")
      case True
      moreover have "(length xs + 15) div 16 = 1" using True False div_nat_eqI [of 1 16 "length xs + 15"] by (cases xs) auto
      ultimately show ?thesis by simp
    next
      case False
      then show ?thesis by (simp add: div_add_self2 [of 16 "length xs - 16 + 15", symmetric])
    qed
    finally show ?thesis .
  qed simp
qed

lemma nth_blocks_of: "i < (length xs + 15) div 16 \<Longrightarrow> blocks_of xs ! i = take 16 (drop (16 * i) xs)"
proof (induction xs arbitrary: i rule: blocks_of.induct)
  case (1 xs)
  show ?case
  proof (cases "xs = []")
    case False
    then have b: "blocks_of xs = take 16 xs # blocks_of (drop 16 xs)" by (simp add: blocks_of.simps [of xs])
    show ?thesis
    proof (cases i)
      case (Suc j)
      have "j < (length (drop 16 xs) + 15) div 16"
        using 1(2) Suc b length_blocks_of [of xs] length_blocks_of [of "drop 16 xs"] by simp
      then show ?thesis using 1(1) [OF False] Suc b by (simp add: add.commute)
    qed (simp add: b)
  qed (use 1 in simp)
qed

text \<open>A block filled with zeros.\<close>

definition zero_filled :: "u8 list \<Rightarrow> u8 list" where
  "zero_filled b = b @ replicate (16 - length b) 0"

text \<open>Chaining of blocks, with which both modes compute their tags.\<close>

definition cbc :: "u8 list \<Rightarrow> u8 list \<Rightarrow> u8 list list \<Rightarrow> u8 list" where
  "cbc key X bs = fold (\<lambda>b X. AES128_ECB_encrypt (xor_128 X b) key) bs X"

lemma cbc_simps: "cbc key X [] = X" "cbc key X (b # bs) = cbc key (AES128_ECB_encrypt (xor_128 X b) key) bs"
  "cbc key X (as @ bs) = cbc key (cbc key X as) bs"
  by (simp_all add: cbc_def)

lemma length_cbc [simp]: "length X = 16 \<Longrightarrow> length (cbc key X bs) = 16"
  by (induction bs arbitrary: X) (simp_all add: cbc_simps)

lemma cbc_index: "cbc key X bs = fold (\<lambda>i X. AES128_ECB_encrypt (xor_128 X (bs ! i)) key) [0..<length bs] X"
proof -
  have "fold (\<lambda>b X. AES128_ECB_encrypt (xor_128 X b) key) (map ((!) bs) [0..<length bs]) X =
    fold (\<lambda>i X. AES128_ECB_encrypt (xor_128 X (bs ! i)) key) [0..<length bs] X"
    by (simp add: fold_map comp_def)
  then show ?thesis by (simp add: cbc_def map_nth)
qed

section \<open>Message authentication code\<close>

text \<open>The number a string of bytes stands for, most significant byte first.\<close>

definition be_val :: "u8 list \<Rightarrow> nat" where
  "be_val bs = foldl (\<lambda>n b. 256 * n + unat b) 0 bs"

lemma be_val_foldl: "foldl (\<lambda>n b. 256 * n + unat b) m bs = m * 256 ^ length bs + be_val bs"
proof (induction bs arbitrary: m)
  case (Cons b bs)
  have "be_val (b # bs) = foldl (\<lambda>n b. 256 * n + unat b) (unat b) bs" by (simp add: be_val_def)
  then show ?case unfolding foldl_Cons Cons by (simp add: algebra_simps)
qed (simp add: be_val_def)

lemma be_val_append: "be_val (as @ bs) = be_val as * 256 ^ length bs + be_val bs"
proof -
  have "be_val (as @ bs) = foldl (\<lambda>n b. 256 * n + unat b) (be_val as) bs" by (simp add: be_val_def)
  then show ?thesis by (simp only: be_val_foldl)
qed

lemma be_val_simps [simp]: "be_val [] = 0" "be_val (b # bs) = unat b * 256 ^ length bs + be_val bs"
  using be_val_append [of "[b]" bs] by (simp_all add: be_val_def)

lemma be_val_less: "be_val bs < 256 ^ length bs"
proof (induction bs)
  case (Cons b bs)
  have "unat b < 256" using unsigned_less [of b, where ?'a = nat] by simp
  then have "unat b \<le> 255" by linarith
  then have "unat b * 256 ^ length bs \<le> 255 * 256 ^ length bs" by (rule mult_le_mono1)
  then show ?case using Cons by (simp only: be_val_simps length_Cons power_Suc)
qed simp

lemma be_val_inj: "length as = length bs \<Longrightarrow> be_val as = be_val bs \<Longrightarrow> as = bs"
proof (induction as bs rule: list_induct2)
  case (Cons a as b bs)
  let ?N = "256 ^ length bs :: nat"
  have "(u * ?N + r) div ?N = u" if "r < ?N" for u r :: nat using that by simp
  then have "(unat a * ?N + be_val as) div ?N = unat a" "(unat b * ?N + be_val bs) div ?N = unat b"
    using be_val_less [of as] be_val_less [of bs] Cons.hyps by metis+
  moreover have "unat a * ?N + be_val as = unat b * ?N + be_val bs" using Cons by simp
  ultimately have "unat a = unat b" by metis
  then show ?case using Cons by (simp add: word_unat_eq_iff)
qed simp

lemma high_bit: "(b :: u8) AND 0x80 \<noteq> 0 \<longleftrightarrow> 128 \<le> unat b"
proof -
  have "(0x80 :: u8) = 2 ^ 7" by simp
  then have "b AND 0x80 \<noteq> 0 \<longleftrightarrow> bit b 7" by (simp only: and_exp_eq_0_iff_not_bit) simp
  also have "\<dots> \<longleftrightarrow> odd (unat b div 128)" using bit_unsigned_iff [of b 7, where ?'a = nat] by (simp add: bit_iff_odd)
  also have "\<dots> \<longleftrightarrow> 128 \<le> unat b"
  proof -
    have "unat b < 256" using unsigned_less [of b, where ?'a = nat] by simp
    then have "unat b div 128 = (if 128 \<le> unat b then 1 else 0)" by (auto intro: div_nat_eqI)
    then show ?thesis by simp
  qed
  finally show ?thesis .
qed

lemma unat_shifted:
  assumes "ov = 0 \<or> ov = 1"
  shows "unat (push_bit 1 b OR ov :: u8) = (2 * unat b) mod 256 + unat ov"
proof -
  have p: "unat (push_bit 1 b) = (2 * unat b) mod 256"
    by (simp only: push_bit_eq_mult unat_word_ariths) (simp add: mult.commute)
  moreover have "2 * (unat b mod 128) = 2 * unat b mod 256" using mult_mod_right [of 2 "unat b" 128] by simp
  moreover have "unat b mod 128 < 128" by simp
  ultimately have "unat (push_bit 1 b) + 1 < 256" by linarith
  then have "unat (push_bit 1 b + 1) = unat (push_bit 1 b) + 1" by (simp add: unat_add_lem [THEN iffD1])
  moreover have "push_bit 1 b OR 1 = push_bit 1 b + 1" by (simp add: or_one_eq)
  ultimately show ?thesis using assms p by auto
qed

lemma leftshift_val:
  defines "sh \<equiv> foldr (\<lambda>b (out, overflow). ((push_bit 1 b OR overflow) # out, if b AND 0x80 \<noteq> 0 then 1 else 0 :: u8))"
  shows "length (fst (sh bs ([], 0))) = length bs \<and> snd (sh bs ([], 0)) \<in> {0, 1} \<and>
    unat (snd (sh bs ([], 0))) * 256 ^ length bs + be_val (fst (sh bs ([], 0))) = 2 * be_val bs"
proof (induction bs)
  case (Cons b bs)
  obtain out ov where s: "sh bs ([], 0) = (out, ov)" by fastforce
  then have r: "sh (b # bs) ([], 0) = ((push_bit 1 b OR ov) # out, if b AND 0x80 \<noteq> 0 then 1 else 0)" by (simp add: sh_def)
  have ov: "ov = 0 \<or> ov = 1" using Cons s by simp
  define h :: nat where "h = (if b AND 0x80 \<noteq> 0 then 1 else 0)"
  have "256 * h + unat (push_bit 1 b OR ov) = 2 * unat b + unat ov"
  proof -
    have "unat b < 256" using unsigned_less [of b, where ?'a = nat] by simp
    moreover have "(2 * n) mod 256 = 2 * n - 256" if "128 \<le> n" "n < 256" for n :: nat using that by (simp add: le_mod_geq)
    ultimately have "128 \<le> unat b \<Longrightarrow> (2 * unat b) mod 256 = 2 * unat b - 256" by metis
    then show ?thesis
      unfolding h_def high_bit unat_shifted [OF ov] by (cases "128 \<le> unat b") simp_all
  qed
  then have "(256 * h + unat (push_bit 1 b OR ov)) * 256 ^ length bs = (2 * unat b + unat ov) * 256 ^ length bs" by (rule arg_cong)
  moreover have "unat ov * 256 ^ length bs + be_val out = 2 * be_val bs" "length out = length bs" using Cons s by simp_all
  ultimately have "h * 256 ^ Suc (length bs) + (unat (push_bit 1 b OR ov) * 256 ^ length out + be_val out) =
    2 * (unat b * 256 ^ length bs + be_val bs)"
    by (simp only: add_mult_distrib add_mult_distrib2 power_Suc mult.assoc mult.left_commute)
  moreover have "unat (if b AND 0x80 \<noteq> 0 then 1 else 0 :: u8) = h" by (simp add: h_def)
  ultimately show ?case using \<open>length out = length bs\<close> unfolding r
    by (simp only: fst_conv snd_conv be_val_simps length_Cons) simp
qed (simp add: sh_def)

lemma length_leftshift_onebit [simp]: "length b = 16 \<Longrightarrow> length (leftshift_onebit b) = 16"
  using leftshift_val [of b] by (simp add: leftshift_onebit_def)

lemma leftshift_onebit_val:
  assumes "length b = 16"
  shows "be_val (leftshift_onebit b) = (2 * be_val b) mod 2 ^ 128"
proof -
  obtain out ov where s: "foldr (\<lambda>b (out, overflow). ((push_bit 1 b OR overflow) # out, if b AND 0x80 \<noteq> 0 then 1 else 0 :: u8)) b ([], 0) = (out, ov)"
    by fastforce
  have "length out = 16" "unat ov * 256 ^ 16 + be_val out = 2 * be_val b" using leftshift_val [of b] assms unfolding s by simp_all
  moreover have "(2 :: nat) ^ 128 = 256 ^ 16" by simp
  ultimately have "(2 * be_val b) mod 2 ^ 128 = be_val out"
    using be_val_less [of out] mod_mult_self3 [of "unat ov" "256 ^ 16" "be_val out"] by (simp only: mod_less)
  then show ?thesis using assms s by (simp add: leftshift_onebit_def)
qed

text \<open>
  The specification of RFC 4493 is written over numbers and independent of the byte loops of the code: a subkey is the number of the enciphered
  zero block, doubled in the field of 128 bits with the polynomial whose low part is 0x87, as a block of 16 bytes.
\<close>

definition gf_double :: "nat \<Rightarrow> nat" where
  "gf_double n = (if n < 2 ^ 127 then 2 * n else (2 * n - 2 ^ 128) XOR 0x87)"

definition block_of_nat :: "nat \<Rightarrow> u8 list" where
  "block_of_nat n = map (\<lambda>i. word_of_nat (n div 256 ^ (15 - i))) [0..<16]"

lemma high_byte:
  assumes "length b = 16"
  shows "b ! 0 AND 0x80 = 0 \<longleftrightarrow> be_val b < 2 ^ 127"
proof -
  obtain h t where b: "b = h # t" "length t = 15" using assms by (cases b) auto
  then have v: "be_val b = unat h * 2 ^ 120 + be_val t" "be_val t < 2 ^ 120"
    using be_val_less [of t] by simp_all
  have "(2 :: nat) ^ 127 = 128 * 2 ^ 120" by simp
  moreover have "x * N + r < y * N \<longleftrightarrow> x < y" if "r < N" for x y r N :: nat
    using that div_less_iff_less_mult [of N "x * N + r" y] by simp
  ultimately have "be_val b < 2 ^ 127 \<longleftrightarrow> unat h < 128" using v by metis
  moreover have "b ! 0 AND 0x80 = 0 \<longleftrightarrow> unat h < 128" using high_bit [of h] b by auto
  ultimately show ?thesis by simp
qed

lemma block_of_be_val:
  assumes "length b = 16"
  shows "block_of_nat (be_val b) = b"
proof (rule nth_equalityI)
  fix i assume "i < length (block_of_nat (be_val b))"
  then have i: "i < 16" by (simp add: block_of_nat_def)
  have "be_val b = be_val (take (Suc i) b) * 256 ^ (15 - i) + be_val (drop (Suc i) b)"
    using be_val_append [of "take (Suc i) b" "drop (Suc i) b"] assms i by simp
  moreover have "be_val (drop (Suc i) b) < 256 ^ (15 - i)" using be_val_less [of "drop (Suc i) b"] assms i by simp
  ultimately have "be_val b div 256 ^ (15 - i) = be_val (take (Suc i) b)" by simp
  also have "\<dots> = be_val (take i b) * 256 + unat (b ! i)"
    using be_val_append [of "take i b" "[b ! i]"] assms i by (simp add: take_Suc_conv_app_nth)
  finally have "(word_of_nat (be_val b div 256 ^ (15 - i)) :: u8) = word_of_nat (be_val (take i b)) * 256 + b ! i" by simp
  also have "(256 :: u8) = 0" by simp
  finally have "(word_of_nat (be_val b div 256 ^ (15 - i)) :: u8) = b ! i" by simp
  then show "block_of_nat (be_val b) ! i = b ! i" using i by (simp add: block_of_nat_def)
qed (simp add: block_of_nat_def assms)

lemma xor_low_byte:
  fixes a u :: nat
  assumes "u < 256" "m < 256"
  shows "(a * 256 + u) XOR m = a * 256 + (u XOR m)"
proof -
  have t: "take_bit 8 (a * 256 + u) = u" "drop_bit 8 (a * 256 + u) = a" "take_bit 8 m = m" "drop_bit 8 m = 0"
    using assms by (simp_all add: take_bit_eq_mod drop_bit_eq_div)
  have "push_bit 8 (drop_bit 8 ((a * 256 + u) XOR m)) + take_bit 8 ((a * 256 + u) XOR m) = (a * 256 + u) XOR m" by (rule bits_ident)
  then show ?thesis by (simp only: drop_bit_xor take_bit_xor t) (simp add: push_bit_eq_mult)
qed

lemma be_val_reduced:
  assumes "length b = 16"
  shows "be_val (xor_128 b const_Rb) = be_val b XOR 0x87"
proof -
  obtain xs x where b: "b = xs @ [x]" "length xs = 15" using assms by (cases b rule: rev_cases) auto
  have "xor_128 b const_Rb = xs @ [x XOR 0x87]"
    using b by (intro nth_equalityI) (auto simp: const_Rb_def nth_append)
  moreover have "unat (x XOR 0x87) = unat x XOR 0x87" by (simp add: unsigned_xor_eq)
  moreover have "unat x < 256" using unsigned_less [of x, where ?'a = nat] by simp
  ultimately show ?thesis using xor_low_byte [of "unat x" "0x87" "be_val xs"] b(1) by (simp add: be_val_append)
qed

lemma subkey_step:
  assumes "length b = 16"
  defines "d \<equiv> (if b ! 0 AND 0x80 = 0 then leftshift_onebit b else xor_128 (leftshift_onebit b) const_Rb)"
  shows "length d = 16" and "be_val d = gf_double (be_val b)" and "d = block_of_nat (gf_double (be_val b))"
proof -
  show len: "length d = 16" using assms by (simp add: d_def)
  have l: "be_val (leftshift_onebit b) = (if be_val b < 2 ^ 127 then 2 * be_val b else 2 * be_val b - 2 ^ 128)"
  proof -
    have m: "(2 * x) mod (2 * y) = (if x < y then 2 * x else 2 * x - 2 * y)" if "x < 2 * y" for x y :: nat
      using that by (auto simp: le_mod_geq)
    have "(2 :: nat) ^ 128 = 2 * 2 ^ 127" "(2 :: nat) ^ 128 = 256 ^ 16" by simp_all
    moreover have "be_val b < 256 ^ 16" using be_val_less [of b] assms(1) by simp
    ultimately show ?thesis using leftshift_onebit_val [OF assms(1)] m [of "be_val b" "2 ^ 127"] by metis
  qed
  show v: "be_val d = gf_double (be_val b)"
    using high_byte [OF assms(1)] l be_val_reduced [of "leftshift_onebit b"] assms(1) by (auto simp: d_def gf_double_def)
  show "d = block_of_nat (gf_double (be_val b))" using block_of_be_val [OF len] v by simp
qed

lemma generate_subkey_doubled:
  "generate_subkey key = (let L = be_val (AES128_ECB_encrypt (replicate 16 0) key)
     in (block_of_nat (gf_double L), block_of_nat (gf_double (gf_double L))))"
proof -
  let ?L = "AES128_ECB_encrypt (replicate 16 0) key"
  have L: "length ?L = 16" by simp
  note k1 = subkey_step [OF L] and k2 = subkey_step(3) [OF subkey_step(1) [OF L]]
  show ?thesis unfolding generate_subkey_def Let_def k2 unfolding k1(2) k1(3) [symmetric] ..
qed

definition ten_star :: "u8 list \<Rightarrow> u8 list" where
  "ten_star b = b @ 0x80 # replicate (15 - length b) 0"

text \<open>The authentication code of RFC 4493 over a message cut into blocks.\<close>

definition rfc4493_cmac :: "u8 list \<Rightarrow> u8 list \<Rightarrow> u8 list" where
  "rfc4493_cmac key message = (let
     L = be_val (AES128_ECB_encrypt (replicate 16 0) key);
     bs = blocks_of message;
     M_last = (if message \<noteq> [] \<and> length message mod 16 = 0 then map2 (XOR) (last bs) (block_of_nat (gf_double L))
               else map2 (XOR) (ten_star (if message = [] then [] else last bs)) (block_of_nat (gf_double (gf_double L))))
   in fold (\<lambda>b X. AES128_ECB_encrypt (map2 (XOR) X b) key) (butlast bs @ [M_last]) (replicate 16 0))"

lemma xor_128_map2: "length a = 16 \<Longrightarrow> length b = 16 \<Longrightarrow> map2 (XOR) a b = xor_128 a b"
  by (rule nth_equalityI) simp_all

lemma length_block_of_nat [simp]: "length (block_of_nat n) = 16"
  by (simp add: block_of_nat_def)

lemma cbc_map2:
  "list_all (\<lambda>b. length b = 16) bs \<Longrightarrow> length X = 16 \<Longrightarrow> fold (\<lambda>b X. AES128_ECB_encrypt (map2 (XOR) X b) key) bs X = cbc key X bs"
  by (induction bs arbitrary: X) (simp_all add: cbc_simps xor_128_map2)

lemma full_blocks: "list_all (\<lambda>b. length b = 16) (butlast (blocks_of m))"
proof (induction m rule: blocks_of.induct)
  case (1 xs)
  then show ?case by (cases "drop 16 xs = []") (auto simp: blocks_of.simps [of xs])
qed

lemma padding_ten_star:
  assumes "length b < 16"
  shows "padding b (length b) = ten_star b"
  using assms by (intro nth_equalityI) (auto simp: padding_def ten_star_def nth_append nth_Cons')

lemma last_blocks_of:
  assumes "m \<noteq> []"
  shows "last (blocks_of m) = drop (16 * ((length m + 15) div 16 - 1)) m"
    and "length (last (blocks_of m)) = (if length m mod 16 = 0 then 16 else length m mod 16)"
proof -
  let ?n = "(length m + 15) div 16"
  have n: "0 < ?n" using assms by (cases m) (auto simp: div_greater_zero_iff)
  have d: "length m = 16 * (?n - 1) + (if length m mod 16 = 0 then 16 else length m mod 16)"
  proof -
    have "(16 * q + r + 15) div 16 = q + (if r = 0 then 0 else 1)" if "r < 16" for q r :: nat
      using that by (auto intro: div_nat_eqI)
    from this [of "length m mod 16" "length m div 16"]
    have "?n = length m div 16 + (if length m mod 16 = 0 then 0 else 1)" by simp
    moreover have "length m = 16 * (length m div 16) + length m mod 16" by simp
    ultimately show ?thesis using n by (auto split: if_splits)
  qed
  moreover have "length m mod 16 < 16" by simp
  ultimately have l: "length (drop (16 * (?n - 1)) m) = (if length m mod 16 = 0 then 16 else length m mod 16)"
    "length (drop (16 * (?n - 1)) m) \<le> 16" by (auto split: if_splits)
  have "blocks_of m \<noteq> []" using n length_blocks_of [of m] by auto
  then have "last (blocks_of m) = blocks_of m ! (?n - 1)" by (simp add: last_conv_nth length_blocks_of)
  also have "\<dots> = take 16 (drop (16 * (?n - 1)) m)" using n by (intro nth_blocks_of) simp
  finally show "last (blocks_of m) = drop (16 * (?n - 1)) m" using l by simp
  then show "length (last (blocks_of m)) = (if length m mod 16 = 0 then 16 else length m mod 16)" using l by simp
qed

lemma cbc_butlast:
  "cbc key X (butlast (blocks_of m)) =
    fold (\<lambda>i X. AES128_ECB_encrypt (xor_128 X (drop (16 * i) m)) key) [0..<(length m + 15) div 16 - 1] X"
proof -
  have "butlast (blocks_of m) ! i = take 16 (drop (16 * i) m)" if "i < (length m + 15) div 16 - 1" for i
    using that by (simp add: nth_butlast length_blocks_of nth_blocks_of)
  then show ?thesis
    unfolding cbc_index by (intro fold_cong) (simp_all add: length_blocks_of)
qed

lemma rfc4493_cbc:
  "rfc4493_cmac key message = (let
     (K1, K2) = generate_subkey key;
     bs = blocks_of message;
     M_last = (if message \<noteq> [] \<and> length message mod 16 = 0 then xor_128 (last bs) K1
               else xor_128 (ten_star (if message = [] then [] else last bs)) K2)
   in cbc key (replicate 16 0) (butlast bs @ [M_last]))"
proof -
  have "length (ten_star (if message = [] then [] else last (blocks_of message))) = 16" if "message = [] \<or> length message mod 16 \<noteq> 0"
    using that last_blocks_of(2) [of message] by (auto simp: ten_star_def)
  moreover have "length (last (blocks_of message)) = 16" if "message \<noteq> []" "length message mod 16 = 0"
    using that last_blocks_of(2) by simp
  ultimately show ?thesis
    unfolding rfc4493_cmac_def generate_subkey_doubled Let_def prod.case
    by (subst cbc_map2) (auto simp: full_blocks xor_128_map2 simp del: fold_append)
qed

text \<open>
  C13. For messages of at most 4080 bytes, the message authentication code computed by the code, with its index arithmetic in one byte
  and its shifts over byte arrays, is AES-CMAC as RFC 4493 defines it over numbers: the chain over the blocks with the last one
  completed by a subkey that is doubled in the field of 128 bits.
\<close>

theorem aes_cmac_rfc4493:
  assumes "length message \<le> 4080"
  shows "aes_cmac_calculate key message = rfc4493_cmac key message"
proof -
  let ?n = "(length message + 15) div 16"
  have len: "unat (of_nat (length message) :: u16) = length message" using assms unfolding unat_of_nat by simp
  have n: "unat (of_nat ?n :: u8) = ?n" using assms unfolding unat_of_nat by simp
  then have z: "(of_nat ?n :: u8) = 0 \<longleftrightarrow> ?n = 0" by (metis unat_0 unat_eq_zero)
  show ?thesis
  proof (cases "message = []")
    case True
    then show ?thesis
      using padding_ten_star [of "[]"]
      by (simp add: aes_cmac_calculate_def rfc4493_cbc Let_def cbc_simps split: prod.split)
  next
    case False
    then have "?n \<noteq> 0" by (cases message) (auto simp: div_eq_0_iff)
    moreover have "padding (last (blocks_of message)) (length message mod 16) = ten_star (last (blocks_of message))"
      if "length message mod 16 \<noteq> 0"
      using padding_ten_star [of "last (blocks_of message)"] last_blocks_of(2) [OF False] that by simp
    ultimately show ?thesis
      using False len n z
      by (simp add: aes_cmac_calculate_def rfc4493_cbc Let_def cbc_simps cbc_butlast last_blocks_of(1) [OF False] split: prod.split)
  qed
qed

theorem aes_cmac_rfc4493_witness:
  "aes_cmac_calculate (replicate 16 0x2B) [1, 2, 3] = rfc4493_cmac (replicate 16 0x2B) [1, 2, 3]"
  by (rule aes_cmac_rfc4493) simp

lemma aes_cmac_verify_iff: "length mac = 16 \<Longrightarrow> aes_cmac_verify key message mac \<longleftrightarrow> mac = aes_cmac_calculate key message"
  by (auto simp: aes_cmac_verify_def aes_cmac_calculate_def list_all_iff Let_def split_def intro: nth_equalityI)

text \<open>With 256 blocks the counter of the code wraps to zero, and no byte of the message counts.\<close>

lemma aes_cmac_wraps:
  assumes "length message = 4096" and "length message' = 4096"
  shows "aes_cmac_calculate key message = aes_cmac_calculate key message'"
proof -
  have "(4111 :: nat) div 16 = 256" "(of_nat 256 :: u8) = 0" by simp_all
  moreover have "padding message 0 = padding message' 0" by (simp add: padding_def)
  ultimately show ?thesis using assms by (simp add: aes_cmac_calculate_def Let_def split_def)
qed

section \<open>Authenticated encryption\<close>

lemma xor_128_commute: "xor_128 a b = xor_128 b a"
  by (simp add: xor_128_def xor.commute)

lemma chain_blocks:
  assumes "length X = 16"
  shows "fold (chain_block key data) [0..<(length data + 15) div 16] X = cbc key X (map zero_filled (blocks_of data))"
proof -
  let ?n = "(length data + 15) div 16"
  have step: "chain_block key data i Y = AES128_ECB_encrypt (xor_128 Y (map zero_filled (blocks_of data) ! i)) key"
    if "i < ?n" "length Y = 16" for i Y
  proof -
    have "data \<noteq> []" using that by auto
    note l = last_blocks_of [OF this]
    have b: "map zero_filled (blocks_of data) ! i = zero_filled (take 16 (drop (16 * i) data))"
      using that by (simp add: length_blocks_of nth_blocks_of)
    show ?thesis
    proof (cases "i = ?n - 1 \<and> length data mod 16 \<noteq> 0")
      case True
      then have "length (drop (16 * i) data) = length data mod 16" using l by simp
      then show ?thesis
        using True that b by (simp add: chain_block_def Let_def ciph_block_def bit_xor_block zero_filled_def xor_128_commute)
    next
      case False
      have "16 \<le> length (drop (16 * i) data)"
      proof (cases "i = ?n - 1")
        case True
        then show ?thesis using l False by simp
      next
        case False
        then have "16 * (i + 1) \<le> 16 * (?n - 1)" using that by simp
        moreover have "16 * (?n - 1) \<le> length data" by linarith
        ultimately show ?thesis by simp
      qed
      then show ?thesis
        using False that b by (auto simp: chain_block_def Let_def ciph_block_def bit_xor_block zero_filled_def xor_128_commute)
    qed
  qed
  have "fold (chain_block key data) [0..<j] X =
      fold (\<lambda>i Y. AES128_ECB_encrypt (xor_128 Y (map zero_filled (blocks_of data) ! i)) key) [0..<j] X \<and>
    length (fold (chain_block key data) [0..<j] X) = 16" if "j \<le> ?n" for j
    using that by (induction j) (auto simp: assms step simp del: nth_map)
  then show ?thesis by (simp add: cbc_index length_blocks_of)
qed

lemma blocks_count: "length data div 16 + (if length data mod 16 \<noteq> 0 then 1 else 0) = (length data + 15) div 16"
proof -
  have "(16 * q + r + 15) div 16 = q + (if r = 0 then 0 else 1)" if "r < 16" for q r :: nat
    using that by (auto intro: div_nat_eqI)
  from this [of "length data mod 16" "length data div 16"] show ?thesis by simp
qed

lemma format_payload_cbc:
  "length X = 16 \<Longrightarrow> format_payload_block X P key = cbc key X (map zero_filled (blocks_of P))"
  by (simp add: format_payload_block_def Let_def chain_blocks blocks_count [simplified])

lemma zero_filled_xor: "length b \<le> 16 \<Longrightarrow> length (zero_filled b) = 16"
  by (simp add: zero_filled_def)

text \<open>The additional data follow their length; NIST SP 800-38C writes it in two bytes.\<close>

lemma format_aad_cbc:
  assumes "length X = 16" and "length aad < 65280"
  shows "format_aad X aad key = cbc key X (map zero_filled (blocks_of ([0, of_nat (length aad)] @ aad)))"
proof -
  let ?h = "[0, of_nat (length aad)] :: u8 list"
  have b: "blocks_of (?h @ aad) = (?h @ take 14 aad) # blocks_of (drop 14 aad)"
    by (subst blocks_of.simps) simp
  consider "length aad < 14" | "length aad = 14" | "14 < length aad" by linarith
  then show ?thesis
  proof cases
    case 1
    then show ?thesis
      using assms b
      by (simp add: format_aad_def Let_def ciph_block_def bit_xor_block zero_filled_def cbc_simps xor_128_commute)
  next
    case 2
    then show ?thesis
      using assms b
      by (simp add: format_aad_def Let_def ciph_block_def bit_xor_block zero_filled_def cbc_simps xor_128_commute)
  next
    case 3
    then show ?thesis
      using assms b blocks_count [of "drop 14 aad"] chain_blocks [of _ key "drop 14 aad"]
      by (simp add: format_aad_def Let_def ciph_block_def bit_xor_block zero_filled_def cbc_simps xor_128_commute)
  qed
qed

text \<open>The key stream of counter mode, and data with the stream added to the first \<open>n\<close> bytes.\<close>

definition key_stream :: "u8 list \<Rightarrow> u8 list \<Rightarrow> nat \<Rightarrow> u8" where
  "key_stream nonce key i = ctr_block nonce key (of_nat (i div 16 + 1)) ! (i mod 16)"

definition ctr_added :: "u8 list \<Rightarrow> u8 list \<Rightarrow> nat \<Rightarrow> u8 list \<Rightarrow> u8 list" where
  "ctr_added nonce key n data = map (\<lambda>i. if i < n then key_stream nonce key i XOR data ! i else data ! i) [0..<length data]"

lemma length_ctr_added [simp]: "length (ctr_added nonce key n data) = length data"
  by (simp add: ctr_added_def)

lemma ctr_added_twice [simp]: "ctr_added nonce key n (ctr_added nonce key n data) = data"
  by (rule nth_equalityI) (simp_all add: ctr_added_def xor_cancel)

lemma ctr_added_append: "length d = n \<Longrightarrow> ctr_added nonce key n (d @ e) = ctr_added nonce key n d @ e"
  by (rule nth_equalityI) (auto simp: ctr_added_def nth_append)

lemma ctr_turn_block:
  assumes "16 * j < len" and "len \<le> length data" and "len < 65536"
  shows "ctr_turn nonce key mode t (Suc j) (ctr_added nonce key (min len (16 * j)) data, of_nat len - of_nat (16 * j), b, m) =
    (ctr_added nonce key (min len (16 * Suc j)) data, of_nat len - of_nat (16 * Suc j), b, m)"
proof -
  have w: "(of_nat len - of_nat (16 * j) :: u16) = of_nat (len - 16 * j)" using assms(1) by (simp add: of_nat_diff)
  have u: "unat (of_nat (len - 16 * j) :: u16) = len - 16 * j" using assms unfolding unat_of_nat by simp
  have s: "(if (of_nat (len - 16 * j) :: u16) \<ge> 16 then 16 else unat (of_nat (len - 16 * j) :: u16)) = min 16 (len - 16 * j)"
    by (simp add: word_le_nat_alt u min_def)
  have "bit_xor (ctr_block nonce key (of_nat (Suc j))) (ctr_added nonce key (min len (16 * j)) data) (16 * j) (min 16 (len - 16 * j)) =
    ctr_added nonce key (min len (16 * Suc j)) data" (is "?l = ?r")
  proof (rule nth_equalityI)
    fix i assume "i < length ?l"
    then have i: "i < length data" by simp
    have "i div 16 = j \<and> i mod 16 = i - 16 * j" if "16 * j \<le> i" "i < 16 * j + 16"
    proof -
      have "i div 16 = j" using that by (intro div_nat_eqI) auto
      then show ?thesis using minus_div_mult_eq_mod [of i 16] by (simp add: mult.commute)
    qed
    then show "?l ! i = ?r ! i" using i assms by (auto simp: bit_xor_def ctr_added_def key_stream_def)
  qed simp
  moreover have "(of_nat (len - 16 * j) - 16 :: u16) = of_nat len - of_nat (16 * Suc j)" by (simp add: w [symmetric])
  moreover have "(Suc j - 1) * 16 = 16 * j" by simp
  ultimately show ?thesis by (simp only: ctr_turn_def Let_def prod.case w s nat.simps simp_thms if_False)
qed

lemma ctr_turns:
  assumes "16 * j < len + 16" and "len \<le> length data" and "len < 65536"
  shows "fold (ctr_turn nonce key mode t) [1..<Suc j] (data, of_nat len, b, m) =
    (ctr_added nonce key (min len (16 * j)) data, of_nat len - of_nat (16 * j), b, m)"
  using assms(1)
proof (induction j)
  case 0
  show ?case by (simp add: ctr_added_def map_nth)
next
  case (Suc j)
  then have "fold (ctr_turn nonce key mode t) [1..<Suc (Suc j)] (data, of_nat len, b, m) =
    ctr_turn nonce key mode t (Suc j) (ctr_added nonce key (min len (16 * j)) data, of_nat len - of_nat (16 * j), b, m)" by simp
  also have "\<dots> = (ctr_added nonce key (min len (16 * Suc j)) data, of_nat len - of_nat (16 * Suc j), b, m)"
    using Suc.prems assms(2,3) by (intro ctr_turn_block) auto
  finally show ?case .
qed

lemma encrypt_or_decrypt_ctr:
  assumes "len \<le> length data" and "len < 65536"
  shows "encrypt_or_decrypt data (of_nat len) (counter_blocks_of len) b nonce t key m mode =
    (ctr_added nonce key len data,
     if mode = ENCRYPT then b else ctr_block nonce key 0,
     if mode = ENCRYPT then bit_xor (ctr_block nonce key 0) m 0 t else m)"
proof -
  let ?n = "(len + 15) div 16"
  have c: "len div 16 + 1 + (if len mod 16 \<noteq> 0 then 1 else 0) = Suc ?n"
    using blocks_count [of "replicate len (0 :: u8)"] by auto
  have "?n \<le> 4096" using assms(2) by simp
  then have "unat (counter_blocks_of len) = Suc ?n" unfolding counter_blocks_of_def c unat_of_nat by simp
  moreover have "[0..<Suc ?n] = 0 # [1..<Suc ?n]" by (simp add: upt_conv_Cons del: upt_Suc)
  moreover have "16 * ?n < len + 16" "len \<le> 16 * ?n" by linarith+
  ultimately show ?thesis
    using ctr_turns [of ?n len data nonce key mode t] assms
    by (cases mode) (simp_all add: encrypt_or_decrypt_def ctr_turn_def [of _ _ _ _ 0] Let_def min_absorb1 del: upt_Suc)
qed

text \<open>The tag of SP 800-38C over the formatted blocks, before it is covered.\<close>

definition ccm_tag :: "u8 list \<Rightarrow> u8 list \<Rightarrow> u8 list \<Rightarrow> u8 list \<Rightarrow> u8 list" where
  "ccm_tag key nonce aad plain = take T_DEF (cbc key (replicate 16 0)
     (format_b0 T_DEF (of_nat (length plain)) nonce #
      map zero_filled (blocks_of ([0, of_nat (length aad)] @ aad)) @ map zero_filled (blocks_of plain)))"

definition ccm_cover :: "u8 list \<Rightarrow> u8 list \<Rightarrow> u8 list \<Rightarrow> u8 list" where
  "ccm_cover nonce key mac = map (\<lambda>i. ctr_block nonce key 0 ! i XOR mac ! i) [0..<T_DEF]"

lemma length_ccm [simp]: "length (ccm_tag key nonce aad plain) = T_DEF" "length (ccm_cover nonce key mac) = T_DEF"
  by (simp_all add: ccm_tag_def ccm_cover_def)

lemma ccm_cover_twice: "length mac = T_DEF \<Longrightarrow> ccm_cover nonce key (ccm_cover nonce key mac) = mac"
  by (rule nth_equalityI) (simp_all add: ccm_cover_def xor_cancel)

lemma length_format_b0: "13 \<le> length nonce \<Longrightarrow> length (format_b0 t len nonce) = 16"
  by (simp add: format_b0_def convert_to_octet_string_def)

lemma xor_128_zero: "length b = 16 \<Longrightarrow> xor_128 (replicate 16 0) b = b"
  by (rule nth_equalityI) (simp_all add: xor_128_def)

lemma ccm_tag_eq:
  assumes "13 \<le> length nonce" and "length aad < 65280"
  shows "take T_DEF (format_payload_block (format_aad (ciph_block (format_b0 T_DEF (of_nat (length plain)) nonce) key) aad key) plain key) =
    ccm_tag key nonce aad plain"
  using assms
  by (simp add: ccm_tag_def format_aad_cbc format_payload_cbc cbc_simps xor_128_zero length_format_b0 ciph_block_def)

lemma CCM_encrypt_eq:
  assumes "13 \<le> length nonce" and "length aad < 65280" and "length plain < 65536"
  shows "CCM_encrypt_and_auth key nonce aad plain =
    ctr_added nonce key (length plain) plain @ ccm_cover nonce key (ccm_tag key nonce aad plain)"
proof -
  let ?T = "format_payload_block (format_aad (ciph_block (format_b0 T_DEF (of_nat (length plain)) nonce) key) aad key) plain key"
  have l: "length ?T = 16" using assms by (simp add: format_aad_cbc format_payload_cbc)
  have "take T_DEF (bit_xor (ctr_block nonce key 0) ?T 0 T_DEF) = ccm_cover nonce key (take T_DEF ?T)"
    using l by (intro nth_equalityI) (simp_all add: bit_xor_def ccm_cover_def)
  then show ?thesis
    using ccm_tag_eq [OF assms(1,2)] encrypt_or_decrypt_ctr [of "length plain" plain] assms(3)
    by (simp add: CCM_encrypt_and_auth_def Let_def)
qed

lemma CCM_decrypt_eq:
  assumes "13 \<le> length nonce" and "length aad < 65280" and "length c < 65536"
  shows "CCM_decrypt_and_auth key nonce aad c = (if length c < T_DEF then (c, 0)
    else let len = length c - T_DEF; plain = ctr_added nonce key len (take len c) in
      (plain @ drop len c, if ccm_tag key nonce aad plain = ccm_cover nonce key (drop len c) then of_nat len else 0))"
proof (cases "length c < T_DEF")
  case False
  let ?len = "length c - T_DEF"
  let ?plain = "ctr_added nonce key ?len (take ?len c)"
  have a: "ctr_added nonce key ?len c = ?plain @ drop ?len c"
    using ctr_added_append [of "take ?len c" ?len nonce key "drop ?len c"] by simp
  have m: "take T_DEF (bit_xor (drop ?len c) (ctr_block nonce key 0) 0 T_DEF) = ccm_cover nonce key (drop ?len c)"
    by (rule nth_equalityI) (use False in \<open>simp_all add: bit_xor_def ccm_cover_def ctr_block_def xor.commute\<close>)
  have t: "take T_DEF (format_payload_block (format_aad (ciph_block (format_b0 T_DEF (of_nat ?len) nonce) key) aad key) ?plain key) =
    ccm_tag key nonce aad ?plain" using ccm_tag_eq [OF assms(1,2), of ?plain key] by simp
  have "encrypt_or_decrypt c (of_nat ?len) (counter_blocks_of ?len) [] nonce T_DEF key [] DECRYPT =
    (?plain @ drop ?len c, ctr_block nonce key 0, [])"
    using encrypt_or_decrypt_ctr [of ?len c "[]" nonce T_DEF key "[]" DECRYPT] assms(3) a by simp
  then show ?thesis using False m t by (simp add: CCM_decrypt_and_auth_def Let_def)
qed (simp add: CCM_decrypt_and_auth_def)

lemma length_CCM_encrypt:
  assumes "13 \<le> length nonce" and "length aad < 65280" and "length plain < 65536"
  shows "length (CCM_encrypt_and_auth key nonce aad plain) = length plain + T_DEF"
  using CCM_encrypt_eq [OF assms] by simp

text \<open>Decryption in place leaves the plain text in front of the tag.\<close>

lemma CCM_decrypt_encrypt:
  assumes "13 \<le> length nonce" and "length aad < 65280" and "length plain + T_DEF < 65536"
  shows "CCM_decrypt_and_auth key nonce aad (CCM_encrypt_and_auth key nonce aad plain) =
    (plain @ ccm_cover nonce key (ccm_tag key nonce aad plain), of_nat (length plain))"
  using assms by (simp add: CCM_encrypt_eq CCM_decrypt_eq Let_def ccm_cover_twice)

lemma CCM_decrypt_accepts:
  assumes "13 \<le> length nonce" and "length aad < 65280" and "length c < 65536"
    and "snd (CCM_decrypt_and_auth key nonce aad c) = r" and "r \<noteq> 0"
  shows "c = CCM_encrypt_and_auth key nonce aad (take (unat r) (fst (CCM_decrypt_and_auth key nonce aad c))) \<and>
    unat r = length c - T_DEF \<and> T_DEF < length c"
proof -
  let ?len = "length c - T_DEF"
  let ?plain = "ctr_added nonce key ?len (take ?len c)"
  have d: "\<not> length c < T_DEF" "ccm_tag key nonce aad ?plain = ccm_cover nonce key (drop ?len c)" "r = of_nat ?len"
    "fst (CCM_decrypt_and_auth key nonce aad c) = ?plain @ drop ?len c"
    using assms by (auto simp: CCM_decrypt_eq Let_def split: if_splits)
  have r: "unat r = ?len" using assms(3) unfolding d(3) unat_of_nat by simp
  have "CCM_encrypt_and_auth key nonce aad ?plain = take ?len c @ drop ?len c"
    using assms d(1,2) by (simp add: CCM_encrypt_eq ccm_cover_twice)
  moreover have "0 < ?len" using r assms(5) by (metis gr0I unat_eq_zero)
  ultimately show ?thesis using r d by simp
qed

text \<open>
  C11. \<^verbatim>\<open>CCM_decrypt_and_auth\<close> accepts exactly the authenticated encryptions of plain texts that are not empty under the same key,
  nonce and additional data, and what it returns is that plain text: a change of any byte that does not give another
  valid encryption is refused.
\<close>

theorem ccm_accepts_exactly_encryptions:
  assumes "13 \<le> length nonce" and "length aad < 65280" and "length c < 65536"
  shows "snd (CCM_decrypt_and_auth key nonce aad c) \<noteq> 0 \<longleftrightarrow>
    (\<exists>p. p \<noteq> [] \<and> c = CCM_encrypt_and_auth key nonce aad p \<and> length c = length p + T_DEF \<and>
       take (unat (snd (CCM_decrypt_and_auth key nonce aad c))) (fst (CCM_decrypt_and_auth key nonce aad c)) = p)" (is "?l \<longleftrightarrow> ?r")
proof
  assume ?l
  let ?p = "take (unat (snd (CCM_decrypt_and_auth key nonce aad c))) (fst (CCM_decrypt_and_auth key nonce aad c))"
  have c: "c = CCM_encrypt_and_auth key nonce aad ?p" "unat (snd (CCM_decrypt_and_auth key nonce aad c)) = length c - T_DEF" "T_DEF < length c"
    using CCM_decrypt_accepts [OF assms refl \<open>?l\<close>] by blast+
  have f: "length (fst (CCM_decrypt_and_auth key nonce aad c)) = length c"
    using assms c(3) by (simp add: CCM_decrypt_eq Let_def)
  then have "length ?p = length c - T_DEF" using c(2) by simp
  then show ?r using c by (intro exI [of _ ?p]) auto
next
  assume ?r
  then obtain p where p: "p \<noteq> []" "c = CCM_encrypt_and_auth key nonce aad p" "length c = length p + T_DEF" by blast
  have "unat (of_nat (length p) :: u16) = length p" using p(3) assms(3) unfolding unat_of_nat by simp
  then have "(of_nat (length p) :: u16) \<noteq> 0" using p(1) by auto
  then show ?l using CCM_decrypt_encrypt [OF assms(1,2), of p key] p assms(3) by simp
qed

theorem ccm_accepts_exactly_encryptions_witness:
  "snd (CCM_decrypt_and_auth (replicate 16 1) (replicate 13 2) [3]
     (CCM_encrypt_and_auth (replicate 16 1) (replicate 13 2) [3] [0x25, 0x01])) \<noteq> 0"
proof -
  let ?c = "CCM_encrypt_and_auth (replicate 16 1) (replicate 13 2) [3] [0x25, 0x01]"
  have l: "length ?c = 2 + T_DEF" using length_CCM_encrypt [of "replicate 13 2" "[3]" "[0x25, 0x01]" "replicate 16 1"] by simp
  have d: "CCM_decrypt_and_auth (replicate 16 1) (replicate 13 2) [3] ?c = ([0x25, 0x01] @
      ccm_cover (replicate 13 2) (replicate 16 1) (ccm_tag (replicate 16 1) (replicate 13 2) [3] [0x25, 0x01]), 2)"
    using CCM_decrypt_encrypt [of "replicate 13 2" "[3]" "[0x25, 0x01]" "replicate 16 1"] by simp
  show ?thesis
    by (rule iffD2 [OF ccm_accepts_exactly_encryptions]) (use l d in \<open>auto intro!: exI [of _ "[0x25, 0x01]"]\<close>)
qed

section \<open>Random number generator\<close>

lemma increment_val:
  assumes "n \<le> length d"
  shows "length (AES_CTR_DRBG_Increment d n) = length d \<and> drop n (AES_CTR_DRBG_Increment d n) = drop n d \<and>
    be_val (take n (AES_CTR_DRBG_Increment d n)) = (be_val (take n d) + 1) mod 256 ^ n"
  using assms
proof (induction n arbitrary: d)
  case (Suc n)
  let ?d = "d[n := d ! n + 1]"
  have t: "take (Suc n) xs = take n xs @ [xs ! n]" if "n < length xs" for xs :: "u8 list" using that by (rule take_Suc_conv_app_nth)
  have v: "be_val (take (Suc n) xs) = be_val (take n xs) * 256 + unat (xs ! n)" if "n < length xs" for xs
    using that by (simp add: t be_val_append)
  have u: "unat (d ! n + 1) = (unat (d ! n) + 1) mod 256" by (simp only: unat_word_ariths) simp
  show ?case
  proof (cases "d ! n + 1 = 0")
    case True
    then have "(unat (d ! n) + 1) mod 256 = 0" using u by simp
    moreover have "unat (d ! n) < 256" using unsigned_less [of "d ! n", where ?'a = nat] by simp
    ultimately have "unat (d ! n) = 255" by (cases "unat (d ! n) + 1 = 256") auto
    let ?r = "AES_CTR_DRBG_Increment ?d n"
    note ih = Suc.IH [of ?d]
    have "?r ! n = 0" using ih Suc.prems True hd_drop_conv_nth [of n ?r] hd_drop_conv_nth [of n ?d] by simp
    then have "be_val (take (Suc n) ?r) = ((be_val (take n d) + 1) mod 256 ^ n) * 256" using ih Suc.prems v [of ?r] by simp
    also have "\<dots> = ((be_val (take n d) + 1) * 256) mod 256 ^ Suc n" by (simp only: mult_mod_left power_Suc2)
    also have "(be_val (take n d) + 1) * 256 = be_val (take (Suc n) d) + 1" using v [of d] Suc.prems \<open>unat (d ! n) = 255\<close> by simp
    finally have "be_val (take (Suc n) ?r) = (be_val (take (Suc n) d) + 1) mod 256 ^ Suc n" .
    moreover have "drop (Suc n) ?r = drop (Suc n) ?d"
    proof -
      have "drop n ?r = drop n ?d" using ih Suc.prems by simp
      then have "drop 1 (drop n ?r) = drop 1 (drop n ?d)" by (rule arg_cong)
      then show ?thesis by (simp only: drop_drop plus_1_eq_Suc)
    qed
    moreover have "AES_CTR_DRBG_Increment d (Suc n) = ?r" using True Suc.prems by (simp add: Let_def)
    ultimately show ?thesis using ih Suc.prems by simp
  next
    case False
    have "unat (d ! n + 1) = unat (d ! n) + 1" using False unatSuc [of "d ! n"] by (simp add: add.commute)
    then have "be_val (take (Suc n) ?d) = be_val (take (Suc n) d) + 1" using v [of ?d] v [of d] Suc.prems by simp
    moreover have "be_val (take (Suc n) ?d) < 256 ^ Suc n" using be_val_less [of "take (Suc n) ?d"] Suc.prems by simp
    ultimately show ?thesis using False Suc.prems by (simp add: Let_def)
  qed
qed simp

lemma length_AES_CTR_DRBG_Increment [simp]: "length (AES_CTR_DRBG_Increment v n) = length v"
  by (induction n arbitrary: v) (simp_all add: Let_def)

lemma AES_CTR_DRBG_Increment_val:
  "length v = 16 \<Longrightarrow> be_val (AES_CTR_DRBG_Increment v OUTLEN) = (be_val v + 1) mod 2 ^ 128"
  using increment_val [of 16 v] by (simp del: length_0_conv)

definition ctx_ok :: "ctr_drbg_ctx \<Rightarrow> bool" where
  "ctx_ok c \<longleftrightarrow> length (ctx_k c) = KEYLEN \<and> length (ctx_v c) = OUTLEN"

lemma ctx_ok_Update [simp]: "ctx_ok (AES_CTR_DRBG_Update c d)"
  by (simp add: ctx_ok_def AES_CTR_DRBG_Update_def Let_def)

lemma length_Generate [simp]: "length (fst (AES_CTR_DRBG_Generate c)) = RANDLEN"
  and ctx_ok_Generate [simp]: "ctx_ok (snd (AES_CTR_DRBG_Generate c))"
  by (simp_all add: AES_CTR_DRBG_Generate_def Let_def)

end
