(* ===== verification/S2_Delivery.thy ===== *)
theory S2_Delivery
  imports S2_Receive S2_Crypto_Properties
begin

text \<open>
  Two contexts that talk to each other: a message that one side sends is handed to the application of the
  other side as it was, with a common nonce from the start and after the exchange of nonces that precedes the first message.
\<close>

section \<open>Memory and tables\<close>

lemma length_put_at: "off + length b \<le> length m \<Longrightarrow> length (put_at off b m) = length m"
  by (simp add: put_at_def)

lemma take_put_at_0: "take (length b) (put_at 0 b m) = b"
  by (simp add: put_at_def)

lemma put_at_over:
  assumes "off = length b"
  shows "take off (put_at off p (put_at 0 b m)) = b" "take (length p) (drop off (put_at off p (put_at 0 b m))) = p"
  using assms by (simp_all add: put_at_def)

lemma first_index_set:
  assumes "first_index P xs = Some i" and "P y"
  shows "first_index P (xs[i := y]) = Some i"
  using first_index_SomeD [OF assms(1)] assms(2) by (intro first_indexI) auto

definition span_at :: "s2 \<Rightarrow> s2_connection \<Rightarrow> nat \<Rightarrow> bool" where
  "span_at s con i \<longleftrightarrow> first_index (\<lambda>e. span_status e \<noteq> SPAN_NOT_USED \<and> span_lnode e = l_node con \<and> span_rnode e = r_node con)
     (span_table s) = Some i"

lemma span_at_find [simp]: "span_at s con i \<Longrightarrow> find_span_by_node s con = (i, s)"
  by (simp add: find_span_by_node_def span_at_def)

lemma span_at_less: "span_at s con i \<Longrightarrow> i < length (span_table s)"
  using first_index_SomeD unfolding span_at_def by blast

lemma span_at_ids: "span_at s con i \<Longrightarrow> span_lnode (span_table s ! i) = l_node con \<and> span_rnode (span_table s ! i) = r_node con \<and>
    span_status (span_table s ! i) \<noteq> SPAN_NOT_USED"
  using first_index_SomeD unfolding span_at_def by blast

lemma span_at_upd:
  assumes "span_at s con i" and "span_lnode (f (span_table s ! i)) = l_node con" "span_rnode (f (span_table s ! i)) = r_node con"
    and "span_status (f (span_table s ! i)) \<noteq> SPAN_NOT_USED"
  shows "span_at (upd_span i f s) con i"
  using assms by (simp add: span_at_def upd_span_def first_index_set)

lemma span_at_cong: "span_table s' = span_table s \<Longrightarrow> l_node con' = l_node con \<Longrightarrow> r_node con' = r_node con \<Longrightarrow> span_at s' con' i = span_at s con i"
  by (simp add: span_at_def)

lemma upd_span_nth [simp]: "i < length (span_table s) \<Longrightarrow> span_table (upd_span i f s) ! i = f (span_table s ! i)"
  by (simp add: upd_span_def)

lemma upd_span_sel [simp]:
  "sg (upd_span i f s) = sg s" "loaded_keys (upd_span i f s) = loaded_keys s" "my_home_id (upd_span i f s) = my_home_id s"
  "peer (upd_span i f s) = peer s" "buf (upd_span i f s) = buf s" "buf_length (upd_span i f s) = buf_length s"
  "cur_mpan (upd_span i f s) = cur_mpan s" "mpan_table (upd_span i f s) = mpan_table s" "mos_list (upd_span i f s) = mos_list s"
  "fsm (upd_span i f s) = fsm s" "retry (upd_span i f s) = retry s" "workbuf (upd_span i f s) = workbuf s"
  "nls_state (upd_span i f s) = nls_state s" "calls (upd_span i f s) = calls s" "undefined_c (upd_span i f s) = undefined_c s"
  "s2_ctr_drbg (upd_span i f s) = s2_ctr_drbg s" "length (span_table (upd_span i f s)) = length (span_table s)"
  by (simp_all add: upd_span_def)

lemma sg_of_cong [simp]: "sg_of (upd_span i f s) c = sg_of s c" "sg_of (s\<lparr>calls := x\<rparr>) c = sg_of s c" "sg_of (s\<lparr>workbuf := w\<rparr>) c = sg_of s c"
  by (simp_all add: sg_of_def)

lemma key_loaded_cong [simp]:
  "key_loaded (upd_span i f s) c = key_loaded s c" "key_loaded (s\<lparr>calls := x\<rparr>) c = key_loaded s c" "key_loaded (s\<lparr>workbuf := w\<rparr>) c = key_loaded s c"
  by (simp_all add: key_loaded_def)

lemma check_True [simp]: "check True s = s" and check_if: "b \<Longrightarrow> check b s = s"
  by (simp_all add: check_def)

section \<open>Generators in tables\<close>

lemma rng_of_bytes: "length (ctx_v c) = 16 \<Longrightarrow> length (ctx_k c) = 16 \<Longrightarrow> rng_of (rng_bytes c) = c"
  by (simp add: rng_of_def rng_bytes_def)

lemma ctx_ok_instantiate [simp]: "ctx_ok (next_nonce_instantiate c a b k)"
  by (simp add: next_nonce_instantiate_def AES_CTR_DRBG_Instantiate_def AES_CTR_DRBG_Reseed_def Let_def)

lemma ctx_ok_next [simp]: "ctx_ok (snd (next_nonce_generate c))" and length_next [simp]: "length (fst (next_nonce_generate c)) = 16"
  by (simp_all add: next_nonce_generate_def)

lemma rng_round [simp]: "ctx_ok c \<Longrightarrow> rng_of (rng_bytes c) = c"
  by (simp add: rng_of_bytes ctx_ok_def)

text \<open>Neither what the generator held before nor the table it lies in matters for a new nonce.\<close>

lemma next_nonce_instantiate_any: "next_nonce_instantiate c a b k = next_nonce_instantiate c' a b k"
  by (cases c; cases c') (simp add: next_nonce_instantiate_def AES_CTR_DRBG_Instantiate_def)

section \<open>The frame of a message\<close>

definition s2_header :: "u8 \<Rightarrow> u8 list \<Rightarrow> u8 list" where
  "s2_header tx ext = [COMMAND_CLASS_SECURITY_2, SECURITY_2_MESSAGE_ENCAPSULATION, tx, if ext = [] then 0 else 1] @ ext"

definition s2_frame :: "s2 \<Rightarrow> u16 \<Rightarrow> u16 \<Rightarrow> u8 \<Rightarrow> u8 list \<Rightarrow> u8 list \<Rightarrow> u8 list \<Rightarrow> u8 list" where
  "s2_frame s from to c nonce h p = h @ CCM_encrypt_and_auth (ccm_key (sg_of s c)) nonce
     (S2_make_aad s from to h (length h) (length h + length p + AUTH_TAG_LEN) 64) p"

text \<open>A context in the state from which a message without multicast extensions is encrypted.\<close>

definition ready :: "s2 \<Rightarrow> bool" where
  "ready s \<longleftrightarrow> cur_mpan s = None \<and> \<not> S2_is_node_mos s (r_node (peer s)) \<and> length (mos_list s) = MOS_LIST_LENGTH \<and>
     length (workbuf s) = 1302 \<and> unat (class_id (peer s)) < N_SEC_CLASS \<and>
     buf_length s = of_nat (length (buf s)) \<and> length (buf s) \<le> WORKBUF_SIZE"

lemma no_mpan_extensions:
  assumes "\<not> S2_is_node_mos s (r_node (peer s))" and "length (mos_list s) = 3"
  shows "S2_add_mpan_extensions base m s = (0, m, s)"
proof -
  have "fst (mos_list s ! i) \<noteq> r_node (peer s)" if "i < 3" for i
    using assms that by (auto simp: S2_is_node_mos_def list_ex_iff)
  then have "mpan_extension base i (0, 0, m, s) = (0, 0, m, s)" if "i < 3" for i using that by (simp add: mpan_extension_def)
  then have "fold (mpan_extension base) [0..<3] (0, 0, m, s) = (0, 0, m, s)" by (simp add: upt_rec)
  then show ?thesis by (simp add: S2_add_mpan_extensions_def)
qed

lemma make_aad_header: "S2_make_aad s a b (h @ x) (length h) n k = S2_make_aad s a b h (length h) n k"
  by (simp add: S2_make_aad_def)

lemma length_make_aad: "2 \<le> hdr_len \<Longrightarrow> hdr_len + 8 \<le> 64 \<Longrightarrow> hdr_len \<le> length msg \<Longrightarrow> length (S2_make_aad s a b msg hdr_len n 64) \<le> hdr_len + 8"
  by (simp add: S2_make_aad_def)

lemma make_aad_cong: "my_home_id s = my_home_id t \<Longrightarrow> S2_make_aad s = S2_make_aad t"
  by (intro ext) (simp add: S2_make_aad_def)

lemma random16_state:
  assumes "random16 s = (r, s0)"
  shows "length r = 16" "s0 = s\<lparr>s2_ctr_drbg := s2_ctr_drbg s0\<rparr>"
proof -
  have e: "r = fst (AES_CTR_DRBG_Generate (s2_ctr_drbg s))" "s0 = s\<lparr>s2_ctr_drbg := snd (AES_CTR_DRBG_Generate (s2_ctr_drbg s))\<rparr>"
    using assms by (simp_all add: random16_def case_prod_beta)
  show "length r = 16" by (simp add: e(1))
  show "s0 = s\<lparr>s2_ctr_drbg := s2_ctr_drbg s0\<rparr>" by (simp add: e(2))
qed

lemma sn_extension_sel:
  assumes "sn_extension i s = (e1, s1)"
  shows "cur_mpan s1 = cur_mpan s" "mos_list s1 = mos_list s" "workbuf s1 = workbuf s" "length e1 \<le> 18" "calls s1 = calls s"
    "length (span_table s1) = length (span_table s)" "\<And>c. sg_of s1 c = sg_of s c"
proof -
  obtain r s0 where 0: "random16 s = (r, s0)" by fastforce
  have r: "length r = 16" "s0 = s\<lparr>s2_ctr_drbg := s2_ctr_drbg s0\<rparr>" by (fact random16_state [OF 0])+
  have s: "cur_mpan s0 = cur_mpan s" "mos_list s0 = mos_list s" "workbuf s0 = workbuf s" "calls s0 = calls s"
    "span_table s0 = span_table s" "sg s0 = sg s" by (subst r(2), simp)+
  show "cur_mpan s1 = cur_mpan s" "mos_list s1 = mos_list s" "workbuf s1 = workbuf s" "length e1 \<le> 18" "calls s1 = calls s"
    "length (span_table s1) = length (span_table s)" "\<And>c. sg_of s1 c = sg_of s c"
    using assms s r(1) by (auto simp: sn_extension_def 0 Let_def check_def sg_of_def split: if_splits)
qed

lemma encrypt_ready:
  assumes "ready s" and "span_at s (peer s) i" and "sn_extension i s = (e1, s1)" and "length (buf s) + length e1 \<le> 1290"
  defines "g \<equiv> next_nonce_generate (rng_of (span_d (span_table s1 ! i)))"
  obtains w where "length w = 1302" and
    "S2_encrypt_and_send env s =
      S2_send_raw env
        (s2_frame s (l_node (peer s)) (r_node (peer s)) (class_id (peer s)) (fst g) (s2_header (span_tx_seq (span_table s ! i)) e1) (buf s))
        ((upd_span i (\<lambda>e. e\<lparr>span_d := rng_bytes (snd g)\<rparr>) s1)\<lparr>workbuf := w\<rparr>)"
proof -
  note sel = sn_extension_sel [OF assms(3)]
  have st: "steady s1 = steady s" using steady_sn_extension [of i s] assms(3) by simp
  note sd = steadyD [OF st]
  let ?h = "s2_header (span_tx_seq (span_table s ! i)) e1" and ?p = "buf s"
  let ?m = "put_at (length ?h) ?p (put_at 0 ?h (workbuf s))"
  let ?s2 = "upd_span i (\<lambda>e. e\<lparr>span_d := rng_bytes (snd g)\<rparr>) s1"
  let ?fr = "s2_frame s (l_node (peer s)) (r_node (peer s)) (class_id (peer s)) (fst g) ?h ?p"
  have r: "cur_mpan s = None" "\<not> S2_is_node_mos s (r_node (peer s))" "length (mos_list s) = 3" "length (workbuf s) = 1302"
    "unat (class_id (peer s)) < 7" "buf_length s = of_nat (length ?p)" "length ?p \<le> 1280"
    using assms(1) by (simp_all add: ready_def)
  have h: "length ?h = 4 + length e1" by (simp add: s2_header_def)
  have u: "unat (buf_length s) = length ?p" using r(6,7) unfolding r(6) unat_of_nat by simp
  have mos: "\<not> S2_is_node_mos s1 (r_node (peer s1))" using r(2) sel sd by (simp add: S2_is_node_mos_def)
  have add: "S2_add_mpan_extensions base m s1 = (0, m, s1)" for base m
    using no_mpan_extensions [OF mos] r(3) sel by simp
  have m: "take (length ?h) ?m = ?h" "take (length ?p) (drop (length ?h) ?m) = ?p" by (rule put_at_over; simp)+
  have e: "mgrp_extension s1 = ([], s1)" "mos_extension s1 = ([], s1)" using r(1) sel by (simp_all add: mgrp_extension_def mos_extension_def)
  have more: "more_flag (length (filter (\<lambda>e. e \<noteq> []) [e1, [], []])) (e1 @ [] @ []) = e1" by (simp add: more_flag_def)
  have hd: "put_at 0 ([0x9F, 3, span_tx_seq (span_table s ! i), if length (filter (\<lambda>e. e \<noteq> []) [e1, [], []]) \<noteq> 0 then 1 else 0] @ e1) w = put_at 0 ?h w" for w
    by (simp add: s2_header_def)
  have aad: "S2_make_aad s1 a b ?m (length ?h) n 64 = S2_make_aad s a b ?h (length ?h) n 64" for a b n
    using make_aad_header [of s1 a b ?h "drop (length ?h) ?m"] m(1) make_aad_cong [OF sd(3)] append_take_drop_id [of "length ?h" ?m] by metis
  have al: "length (S2_make_aad s a b ?h (length ?h) n 64) \<le> 64" for a b n
    using length_make_aad [of "length ?h" ?h s a b n] h sel(4) by (simp add: le_trans)
  let ?w = "put_at 0 ?fr ?m"
  have fr: "length ?fr = length ?h + length ?p + 8"
    using r(7) h sel(4) length_make_aad [of "length ?h" ?h s "l_node (peer s)" "r_node (peer s)" "length ?h + length ?p + 8"]
    by (simp add: s2_frame_def length_CCM_encrypt g_def)
  then have w: "length ?w = 1302" using r(4) h assms(4) by (simp add: length_put_at)
  have "S2_encrypt_and_send env s = S2_send_raw env ?fr (?s2\<lparr>workbuf := ?w\<rparr>)"
    unfolding S2_encrypt_and_send_def span_at_find [OF assms(2)] Let_def prod.case assms(3) e more hd
    using m aad al r h u sel sd assms(4)
    by (simp add: add case_prod_beta check_if s2_frame_def g_def add.commute add.left_commute)
  then show ?thesis using that w by blast
qed

section \<open>Receiving a frame\<close>

lemma first_attempt:
  assumes "g = next_nonce_generate (rng_of (span_d (span_table s ! i)))" and "i < length (span_table s)"
    and "CCM_decrypt_and_auth (ccm_key (sg_of s (span_class (span_table s ! i)))) (fst g) aad c = (c', r)" and "r \<noteq> 0"
  shows "span_attempts (Suc n) False i aad c s = (r, c', upd_span i (\<lambda>e. e\<lparr>span_d := rng_bytes (snd g)\<rparr>) s)"
  using assms by (simp add: Let_def case_prod_beta)

lemma attempt_accepted:
  assumes "g = next_nonce_generate (rng_of (span_d (span_table s ! i)))" and "i < length (span_table s)"
    and "CCM_decrypt_and_auth (ccm_key (sg_of s (span_class (span_table s ! i)))) (fst g) aad c = (c', r)" and "r \<noteq> 0"
    and "key_loaded s (span_class (span_table s ! i))" and "unat (span_class (span_table s ! i)) < N_SEC_CLASS"
  shows "class_attempts env (Suc k) i None sn rn aad c con s =
    (r, c', con\<lparr>class_id := span_class (span_table s ! i)\<rparr>,
     upd_span i (\<lambda>e. e\<lparr>span_status := SPAN_NEGOTIATED\<rparr>) (upd_span i (\<lambda>e. e\<lparr>span_d := rng_bytes (snd g)\<rparr>) s))"
proof -
  have "span_attempts (if span_status (span_table s ! i) = SPAN_NEGOTIATED then 5 else 1) False i aad c s =
      (r, c', upd_span i (\<lambda>e. e\<lparr>span_d := rng_bytes (snd g)\<rparr>) s)"
    using first_attempt [OF assms(1-4), of 4] first_attempt [OF assms(1-4), of 0] by (simp add: numeral_eq_Suc del: span_attempts.simps)
  then show ?thesis using assms(2,4,5,6)
    by (simp add: Let_def decrypted_def check_if del: span_attempts.simps)
qed

text \<open>What two ends have in common: the network and the keys of a class.\<close>

definition shared_keys :: "s2 \<Rightarrow> s2 \<Rightarrow> u8 \<Rightarrow> bool" where
  "shared_keys s t c \<longleftrightarrow> my_home_id t = my_home_id s \<and> sg_of t c = sg_of s c \<and> unat c < N_SEC_CLASS \<and> key_loaded t c"

lemma frame_parts:
  assumes "length h + 8 \<le> 64" and "2 \<le> length h" and "length p \<le> WORKBUF_SIZE" and "length nonce = 16"
  shows "length (s2_frame s a b c nonce h p) = length h + length p + AUTH_TAG_LEN"
    and "drop (length h) (s2_frame s a b c nonce h p) =
      CCM_encrypt_and_auth (ccm_key (sg_of s c)) nonce (S2_make_aad s a b h (length h) (length h + length p + AUTH_TAG_LEN) 64) p"
    and "S2_make_aad t a b (s2_frame s a b c nonce h p) (length h) n 64 = S2_make_aad t a b h (length h) n 64"
  using assms length_make_aad [of "length h" h s a b "length h + length p + 8"]
  by (simp_all add: s2_frame_def length_CCM_encrypt make_aad_header)

text \<open>Decryption of a frame without encrypted extensions is the loop over the classes, started with a copy of the ciphertext.\<close>

lemma decrypt_payload_classes:
  assumes st: "span_status (span_table t ! j) \<in> {SPAN_NEGOTIATED, SPAN_INSTANTIATE}" and home: "my_home_id t = my_home_id s"
    and fr: "fr = s2_frame s (r_node con) (l_node con) c nonce (s2_header tx ext) p" and n: "length nonce = 16"
    and ext: "length ext \<le> 52" and p: "length p + length ext \<le> 1290" "length p \<le> WORKBUF_SIZE"
    and con: "rx_options con AND S2_RXOPTION_MULTICAST = 0" and t: "fsm t = IDLE" "length (workbuf t) = 1302"
    and h: "h = s2_header tx ext" and ct: "ct = drop (length h) fr"
    and aad: "aad = S2_make_aad s (r_node con) (l_node con) h (length h) (length h + length p + AUTH_TAG_LEN) 64"
    and cl: "class_attempts env N_SEC_CLASS j None sn rn aad ct con (t\<lparr>workbuf := put_at 0 ct (workbuf t)\<rparr>) = (r, d, con', t')" and r: "r \<noteq> 0"
  shows "decrypt_payload env con fr (Some j) (of_nat (4 + length ext)) (None, sn, rn) t = (AUTH_OK, con', d, unat r, t')"
proof -
  have lh: "length h = 4 + length ext" by (simp add: h s2_header_def)
  have u: "unat (of_nat (4 + length ext) :: u16) = length h" using lh ext unfolding unat_of_nat by simp
  have parts: "length fr = length h + length p + 8"
    "S2_make_aad t (r_node con) (l_node con) fr (length h) (length fr) 64 = aad"
    using frame_parts [where h = h and p = p and nonce = nonce and s = s and a = "r_node con" and b = "l_node con" and c = c]
      lh ext p n make_aad_cong [OF home] by (simp_all add: fr aad ct h)
  have al: "length aad \<le> 64" "aad \<noteq> []"
    using length_make_aad [of "length h" h s "r_node con" "l_node con" "length h + length p + 8"] lh ext by (simp_all add: S2_make_aad_def aad)
  have f3: "fr ! 3 AND 2 = 0" by (simp add: fr s2_frame_def s2_header_def nth_append)
  have "length ct = length p + 8" using ct parts(1) by simp
  then have c7: "\<not> length (workbuf t) < length ct" using t p by simp
  show ?thesis
    unfolding decrypt_payload_def Let_def prod.case u ct [symmetric]
    using con st al t c7 cl r f3 by (auto simp: check_if parts(2) ct [symmetric])
qed

text \<open>A frame of the other side at the nonce that the context expects is accepted, and its plain text is what was sent.\<close>

lemma payload_accepted:
  assumes g: "g = next_nonce_generate (rng_of (span_d (span_table t ! j)))" and j: "j < length (span_table t)"
    and st: "span_status (span_table t ! j) \<in> {SPAN_NEGOTIATED, SPAN_INSTANTIATE}"
    and k: "shared_keys s t (span_class (span_table t ! j))"
    and fr: "fr = s2_frame s (r_node con) (l_node con) (span_class (span_table t ! j)) (fst g) (s2_header tx ext) p"
    and ext: "length ext \<le> 52" and p: "p \<noteq> []" "length p + length ext \<le> 1290" "length p \<le> WORKBUF_SIZE"
    and con: "rx_options con AND S2_RXOPTION_MULTICAST = 0"
    and t: "fsm t = IDLE" "length (workbuf t) = 1302"
  shows "\<exists>tail w. length w = 1302 \<and>
    decrypt_payload env con fr (Some j) (of_nat (4 + length ext)) (None, sn, rn) t =
      (AUTH_OK, con\<lparr>class_id := span_class (span_table t ! j)\<rparr>, p @ tail, length p,
       upd_span j (\<lambda>e. e\<lparr>span_status := SPAN_NEGOTIATED\<rparr>) (upd_span j (\<lambda>e. e\<lparr>span_d := rng_bytes (snd g)\<rparr>) (t\<lparr>workbuf := w\<rparr>)))"
proof -
  let ?h = "s2_header tx ext" and ?c = "span_class (span_table t ! j)"
  let ?ct = "drop (length ?h) fr"
  let ?aad = "S2_make_aad s (r_node con) (l_node con) ?h (length ?h) (length ?h + length p + 8) 64"
  let ?k = "ccm_key (sg_of s ?c)" and ?t = "t\<lparr>workbuf := put_at 0 ?ct (workbuf t)\<rparr>"
  let ?tail = "ccm_cover (fst g) ?k (ccm_tag ?k (fst g) ?aad p)"
  have kk: "my_home_id t = my_home_id s" "sg_of t ?c = sg_of s ?c" "unat ?c < 7" "key_loaded t ?c" using k by (simp_all add: shared_keys_def)
  have n: "length (fst g) = 16" by (simp add: g)
  note D = decrypt_payload_classes [OF st kk(1) fr n ext p(2,3) con t refl refl refl, where env = env and sn = sn and rn = rn]
  have r: "unat (of_nat (length p) :: u16) = length p" using p unfolding unat_of_nat by simp
  then have r0: "(of_nat (length p) :: u16) \<noteq> 0" using p(1) by (metis length_0_conv unat_0)
  obtain r' d' con' t' where ca: "class_attempts env 7 j None sn rn ?aad ?ct con ?t = (r', d', con', t')" by (metis surj_pair)
  have "length ?h = 4 + length ext" by (simp add: s2_header_def)
  then have al: "length ?aad \<le> 64" and ce: "?ct = CCM_encrypt_and_auth ?k (fst g) ?aad p" and lc: "length ?ct = length p + 8"
    using frame_parts [where h = ?h and p = p and nonce = "fst g" and s = s and a = "r_node con" and b = "l_node con" and c = ?c]
      length_make_aad [of "length ?h" ?h s "r_node con" "l_node con" "length ?h + length p + 8"] ext p n by (simp_all add: fr length_CCM_encrypt)
  have dec: "CCM_decrypt_and_auth ?k (fst g) ?aad ?ct = (p @ ?tail, of_nat (length p))"
    unfolding ce using p al n by (intro CCM_decrypt_encrypt) simp_all
  have cl: "class_attempts env 7 j None sn rn ?aad ?ct con ?t =
      (of_nat (length p), p @ ?tail, con\<lparr>class_id := ?c\<rparr>,
       upd_span j (\<lambda>e. e\<lparr>span_status := SPAN_NEGOTIATED\<rparr>) (upd_span j (\<lambda>e. e\<lparr>span_d := rng_bytes (snd g)\<rparr>) ?t))"
    using attempt_accepted [of g ?t j ?aad ?ct "p @ ?tail" "of_nat (length p)" env 6 sn rn con] g j dec r0 kk
    by (simp add: numeral_eq_Suc del: class_attempts.simps)
  have "length (put_at 0 ?ct (workbuf t)) = 1302" using t lc p by (simp add: length_put_at)
  then show ?thesis using D [OF cl r0] r by metis
qed

section \<open>A message from one side to the other\<close>

lemma send_raw_accepted:
  assumes "accepts env (calls s)" and "span_at s (peer s) i"
  shows "S2_send_raw env fr s =
    (True, upd_span i (\<lambda>e. e\<lparr>span_tx_seq := span_tx_seq e + 1\<rparr>) (call (Send_frame (peer s) fr True) s))"
proof -
  have "span_at (call (Send_frame (peer s) fr True) s) (peer s) i" using assms(2) by (simp add: span_at_def)
  then show ?thesis using assms(1) by (simp add: S2_send_raw_def S2_send_frame_def)
qed

text \<open>
  The two ends of a link, each with its connection to the other: the sender can send a message in class \<open>c\<close> at
  once, and the receiver is at the same nonce, with a sequence number before the sender's.
\<close>

definition linked :: "s2_connection \<Rightarrow> s2_connection \<Rightarrow> u8 \<Rightarrow> s2 \<Rightarrow> s2 \<Rightarrow> bool" where
  "linked con con' c s t \<longleftrightarrow> (\<exists>i j. span_at s con i \<and> span_at t con' j \<and>
     span_status (span_table s ! i) = SPAN_NEGOTIATED \<and> span_status (span_table t ! j) = SPAN_NEGOTIATED \<and>
     span_class (span_table s ! i) = c \<and> span_class (span_table t ! j) = c \<and>
     span_d (span_table s ! i) = span_d (span_table t ! j) \<and>
     span_rx_seq (span_table t ! j) + 1 = span_tx_seq (span_table s ! i)) \<and>
   shared_keys s t c \<and> fsm s = IDLE \<and> fsm t = IDLE \<and> length (workbuf s) = 1302 \<and> length (workbuf t) = 1302 \<and>
   cur_mpan s = None \<and> \<not> S2_is_node_mos s (r_node con) \<and> length (mos_list s) = MOS_LIST_LENGTH \<and> delayed_count s = 0"

definition message_ok :: "u8 list \<Rightarrow> bool" where
  "message_ok p \<longleftrightarrow> p \<noteq> [] \<and> length p \<le> WORKBUF_SIZE \<and> hd p \<noteq> COMMAND_CLASS_SECURITY_2"

text \<open>The frames handed over for transmission, and the messages given to the application.\<close>

fun frames_of :: "s2_call list \<Rightarrow> u8 list list" where
  "frames_of [] = []"
| "frames_of (Send_frame _ fr True # cs) = fr # frames_of cs"
| "frames_of (_ # cs) = frames_of cs"

fun messages_of :: "s2_call list \<Rightarrow> u8 list list" where
  "messages_of [] = []"
| "messages_of (Msg_received_event _ m # cs) = m # messages_of cs"
| "messages_of (_ # cs) = messages_of cs"

text \<open>Sending, with the report that the frame went out, and receiving.\<close>

definition s2_transmit :: "s2_env \<Rightarrow> s2_connection \<Rightarrow> u8 list \<Rightarrow> s2 \<Rightarrow> u8 list list \<times> s2" where
  "s2_transmit env con p s = (let s1 = S2_send_frame_done_notify env S2_TRANSMIT_COMPLETE_OK 0 (snd (S2_send_data_all_cast env con p Singlecast s))
     in (frames_of (drop (length (calls s)) (calls s1)), s1))"

definition s2_deliver :: "s2_env \<Rightarrow> s2_connection \<Rightarrow> u8 list list \<Rightarrow> s2 \<Rightarrow> u8 list list \<times> s2" where
  "s2_deliver env con frs t = (let t1 = fold (S2_application_command_handler env con) frs t
     in (messages_of (drop (length (calls t)) (calls t1)), t1))"

lemma transmit_linked:
  assumes l: "linked con con' c s t" and c: "class_id con = c" and v: "tx_options con AND S2_TXOPTION_VERIFY_DELIVERY = 0"
    and p: "message_ok p" and a: "\<And>cs. accepts env cs" and i: "span_at s con i"
  defines "g \<equiv> next_nonce_generate (rng_of (span_d (span_table s ! i)))"
  defines "fr \<equiv> s2_frame s (l_node con) (r_node con) c (fst g) (s2_header (span_tx_seq (span_table s ! i)) []) p"
  obtains w r cs where "length w = 1302" and
    "s2_transmit env con p s = ([fr], (upd_span i (\<lambda>e. e\<lparr>span_d := rng_bytes (snd g), span_tx_seq := span_tx_seq e + 1\<rparr>) s)
       \<lparr>workbuf := w, peer := con, buf := p, buf_length := of_nat (length p), retry := r, calls := cs\<rparr>)"
proof -
  have facts: "span_status (span_table s ! i) = SPAN_NEGOTIATED" "span_class (span_table s ! i) = c" "fsm s = IDLE"
    "length (workbuf s) = 1302" "cur_mpan s = None" "\<not> S2_is_node_mos s (r_node con)" "length (mos_list s) = 3"
    "delayed_count s = 0" "unat c < 7"
    using l i by (auto simp: linked_def span_at_def shared_keys_def)
  let ?s1 = "s\<lparr>peer := con, buf := p, buf_length := of_nat (length p), retry := 2, fsm := SENDING_MSG\<rparr>"
  have sp: "span_at ?s1 (peer ?s1) i" using i by (simp add: span_at_def)
  have rd: "ready ?s1" using facts p c by (simp add: ready_def S2_is_node_mos_def message_ok_def)
  have sn: "sn_extension i ?s1 = ([], ?s1)" using facts by (simp add: sn_extension_def)
  obtain w where w: "length w = 1302" and e: "S2_encrypt_and_send env ?s1 = S2_send_raw env fr
      ((upd_span i (\<lambda>e. e\<lparr>span_d := rng_bytes (snd g)\<rparr>) ?s1)\<lparr>workbuf := w\<rparr>)"
    using encrypt_ready [OF rd sp sn, where env = env] p c by (auto simp: message_ok_def g_def fr_def s2_frame_def sg_of_def make_aad_cong [of ?s1 s])
  let ?s2 = "(upd_span i (\<lambda>e. e\<lparr>span_d := rng_bytes (snd g)\<rparr>) ?s1)\<lparr>workbuf := w\<rparr>"
  have sp2: "span_at ?s2 (peer ?s2) i"
    using span_at_upd [OF sp, of "\<lambda>e. e\<lparr>span_d := rng_bytes (snd g)\<rparr>"] span_at_ids [OF i] by (simp add: span_at_def)
  have en: "send_msg_state_enter env (s\<lparr>peer := con, buf := p, buf_length := of_nat (length p), retry := 2\<rparr>) =
      (upd_span i (\<lambda>e. e\<lparr>span_tx_seq := span_tx_seq e + 1\<rparr>) (call (Send_frame con fr True) ?s2))\<lparr>retry := 1\<rparr>"
    using v e send_raw_accepted [OF a sp2, of fr]
    by (subst send_msg_state_enter.simps) (simp add: send_msg_begin_def Let_def)
  have ok: "S2_span_ok s con = (True, s)" using i facts c by (simp add: S2_span_ok_def Let_def)
  let ?s3 = "(upd_span i (\<lambda>e. e\<lparr>span_tx_seq := span_tx_seq e + 1\<rparr>) (call (Send_frame con fr True) ?s2))\<lparr>retry := 1\<rparr>"
  have "snd (S2_send_data_all_cast env con p Singlecast s) = ?s3"
    using facts p ok en
    by (simp add: S2_send_data_all_cast_def S2_is_send_data_busy_def message_ok_def S2_fsm_post_event_def fsm_step_def fsm_s2_idle_def S2_set_peer_def)
  moreover have "delayed_count (s\<lparr>fsm := IDLE\<rparr>) = 0" using facts by (simp add: delayed_count_def)
  then have "\<not> send_nls_node_list_get s" "\<not> send_nls_node_list_report s" by (simp_all add: delayed_count_def split: if_splits)
  then have "S2_send_frame_done_notify env 0 0 ?s3 =
      ?s3\<lparr>fsm := IDLE, calls := calls s @ [Send_frame con fr True, Inclusion_send_done True, Send_done_event 0]\<rparr>"
    by (simp add: S2_send_frame_done_notify_def S2_fsm_post_event_def fsm_step_def fsm_sending_def fsm_send_done_def
        S2_post_send_done_event_def fsm_delayed_def upd_span_def)
  ultimately have "s2_transmit env con p s = ([fr], ?s3\<lparr>fsm := IDLE, calls := calls s @ [Send_frame con fr True, Inclusion_send_done True, Send_done_event 0]\<rparr>)"
    by (simp add: s2_transmit_def Let_def)
  moreover have "?s3\<lparr>fsm := IDLE, calls := cs\<rparr> = (upd_span i (\<lambda>e. e\<lparr>span_d := rng_bytes (snd g), span_tx_seq := span_tx_seq e + 1\<rparr>) s)
       \<lparr>workbuf := w, peer := con, buf := p, buf_length := of_nat (length p), retry := 1, calls := cs\<rparr>" for cs
    using facts span_at_less [OF i] by (simp add: upd_span_def)
  ultimately show ?thesis by (intro that [OF w]) (simp only:)
qed

lemma span_status_same: "span_status e = x \<Longrightarrow> e\<lparr>span_rx_seq := a, span_d := b, span_status := x\<rparr> = e\<lparr>span_rx_seq := a, span_d := b\<rparr>"
  by (cases e) simp

lemma decrypt_linked:
  assumes "fr = s2_frame s (r_node con) (l_node con) c (fst g) (s2_header tx []) p"
    and "g = next_nonce_generate (rng_of (span_d (span_table t ! j)))" and "span_at t con j"
    and "span_status (span_table t ! j) = SPAN_NEGOTIATED" and "span_class (span_table t ! j) = c"
    and "span_rx_seq (span_table t ! j) \<noteq> tx" and "shared_keys s t c"
    and "p \<noteq> []" "length p \<le> WORKBUF_SIZE" "rx_options con AND S2_RXOPTION_MULTICAST = 0"
    and "fsm t = IDLE" "length (workbuf t) = 1302"
  shows "\<exists>tail w. length w = 1302 \<and>
    S2_decrypt_msg env con fr t = (AUTH_OK, con\<lparr>class_id := c\<rparr>, p @ tail, length p,
       upd_span j (\<lambda>e. e\<lparr>span_rx_seq := tx, span_d := rng_bytes (snd g)\<rparr>) (t\<lparr>workbuf := w\<rparr>))"
proof -
  let ?t = "upd_span j (\<lambda>e. e\<lparr>span_rx_seq := tx\<rparr>) t"
  have j: "j < length (span_table t)" using span_at_less [OF assms(3)] .
  have sp: "span_at ?t con j" using span_at_upd [OF assms(3), of "\<lambda>e. e\<lparr>span_rx_seq := tx\<rparr>"] span_at_ids [OF assms(3)] by simp
  have sk: "shared_keys s ?t c" using assms(7) by (simp add: shared_keys_def)
  obtain tail w where w: "length w = 1302" and d: "decrypt_payload env con fr (Some j) 4 (None, replicate 16 0, replicate 16 0) ?t =
      (AUTH_OK, con\<lparr>class_id := c\<rparr>, p @ tail, length p,
       upd_span j (\<lambda>e. e\<lparr>span_status := SPAN_NEGOTIATED\<rparr>) (upd_span j (\<lambda>e. e\<lparr>span_d := rng_bytes (snd g)\<rparr>) (?t\<lparr>workbuf := w\<rparr>)))"
    using payload_accepted [of g ?t j s fr con tx "[]" p env "replicate 16 0" "replicate 16 0"] assms j sk by (auto simp: shared_keys_def)
  have l: "length fr = length p + 12" "fr ! 2 = tx" "fr ! 3 = 0"
    using frame_parts(1) [where h = "s2_header tx []" and p = p and nonce = "fst g"] assms(1,2,9)
    by (simp_all add: s2_header_def s2_frame_def)
  have "S2_verify_seq t con tx = (True, ?t)" using assms(3,6) by (simp add: S2_verify_seq_def)
  then have "S2_decrypt_msg env con fr t = decrypt_payload env con fr (Some j) 4 (None, replicate 16 0, replicate 16 0) ?t"
    using l assms(10) sp by (simp add: S2_decrypt_msg_def Let_def check_if)
  moreover have "upd_span j (\<lambda>e. e\<lparr>span_status := SPAN_NEGOTIATED\<rparr>) (upd_span j (\<lambda>e. e\<lparr>span_d := rng_bytes (snd g)\<rparr>) (?t\<lparr>workbuf := w\<rparr>)) =
      upd_span j (\<lambda>e. e\<lparr>span_rx_seq := tx, span_d := rng_bytes (snd g)\<rparr>) (t\<lparr>workbuf := w\<rparr>)"
    using j span_status_same [OF assms(4)] by (simp add: upd_span_def)
  ultimately have "S2_decrypt_msg env con fr t = (AUTH_OK, con\<lparr>class_id := c\<rparr>, p @ tail, length p,
       upd_span j (\<lambda>e. e\<lparr>span_rx_seq := tx, span_d := rng_bytes (snd g)\<rparr>) (t\<lparr>workbuf := w\<rparr>))" using d by (simp only:)
  then show ?thesis using w by blast
qed

lemma handler_linked:
  assumes d: "S2_decrypt_msg env con fr t = (AUTH_OK, con', p @ tail, length p, t')" and "1 < length fr" "fr ! 1 = 3"
    and "fsm t' = IDLE" and "p \<noteq> []" "hd p \<noteq> COMMAND_CLASS_SECURITY_2"
  shows "\<exists>con''. S2_application_command_handler env con fr t = call (Msg_received_event con'' p) t'"
proof -
  have "S2_fsm_post_event env (GOT_ENC_MSG con') t' = t'" using assms(4) by (simp add: S2_fsm_post_event_def fsm_step_def fsm_s2_idle_def)
  moreover have "(p @ tail) ! 0 \<noteq> 0x9F" using assms(5,6) by (cases p) auto
  ultimately show ?thesis
    using assms by (auto simp: S2_application_command_handler_def check_if S2_command_handler_def)
qed

text \<open>One message is delivered as it was sent, and the two ends are linked again.\<close>

lemma linked_step:
  assumes l: "linked con con' c s t" and ids: "l_node con' = r_node con" "r_node con' = l_node con" and c: "class_id con = c"
    and v: "tx_options con AND S2_TXOPTION_VERIFY_DELIVERY = 0" and m: "rx_options con' AND S2_RXOPTION_MULTICAST = 0"
    and p: "message_ok p" and a: "\<And>cs. accepts env cs"
    and 1: "s2_transmit env con p s = (frs, s')" and 2: "s2_deliver env' con' frs t = (ms, t')"
  shows "ms = [p] \<and> linked con con' c s' t'"
proof -
  obtain i j where i: "span_at s con i" and j: "span_at t con' j"
    and e: "span_status (span_table s ! i) = SPAN_NEGOTIATED" "span_status (span_table t ! j) = SPAN_NEGOTIATED"
      "span_class (span_table s ! i) = c" "span_class (span_table t ! j) = c" "span_d (span_table s ! i) = span_d (span_table t ! j)"
      "span_rx_seq (span_table t ! j) + 1 = span_tx_seq (span_table s ! i)" using l by (auto simp: linked_def)
  let ?g = "next_nonce_generate (rng_of (span_d (span_table s ! i)))" and ?tx = "span_tx_seq (span_table s ! i)"
  let ?fr = "s2_frame s (l_node con) (r_node con) c (fst ?g) (s2_header ?tx []) p"
  obtain w r cs where w: "length w = 1302" and tr: "s2_transmit env con p s = ([?fr], (upd_span i (\<lambda>e. e\<lparr>span_d := rng_bytes (snd ?g), span_tx_seq := span_tx_seq e + 1\<rparr>) s)
       \<lparr>workbuf := w, peer := con, buf := p, buf_length := of_nat (length p), retry := r, calls := cs\<rparr>)"
    using transmit_linked [OF l c v p a i] by blast
  have ne: "span_rx_seq (span_table t ! j) \<noteq> ?tx" by (simp add: e(6) [symmetric])
  have lt: "shared_keys s t c" "fsm t = IDLE" "length (workbuf t) = 1302" "p \<noteq> []" "length p \<le> 1280" "hd p \<noteq> 0x9F"
    using l p by (simp_all add: linked_def message_ok_def)
  obtain tail w' where w': "length w' = 1302" and d: "S2_decrypt_msg env' con' ?fr t = (AUTH_OK, con'\<lparr>class_id := c\<rparr>, p @ tail, length p,
       upd_span j (\<lambda>e. e\<lparr>span_rx_seq := ?tx, span_d := rng_bytes (snd ?g)\<rparr>) (t\<lparr>workbuf := w'\<rparr>))"
    using decrypt_linked [of ?fr s con' c ?g ?tx p t j env'] ids e j ne lt m by (auto simp del: of_nat_unat)
  have fr: "1 < length ?fr" "?fr ! 1 = 3" by (simp_all add: s2_frame_def s2_header_def)
  let ?t = "upd_span j (\<lambda>e. e\<lparr>span_rx_seq := ?tx, span_d := rng_bytes (snd ?g)\<rparr>) (t\<lparr>workbuf := w'\<rparr>)"
  have ft: "fsm ?t = IDLE" using lt by simp
  obtain con'' where h: "S2_application_command_handler env' con' ?fr t = call (Msg_received_event con'' p) ?t"
    using handler_linked [OF d fr ft lt(4,6)] by blast
  have s': "frs = [?fr]" "s' = (upd_span i (\<lambda>e. e\<lparr>span_d := rng_bytes (snd ?g), span_tx_seq := span_tx_seq e + 1\<rparr>) s)
       \<lparr>workbuf := w, peer := con, buf := p, buf_length := of_nat (length p), retry := r, calls := cs\<rparr>" using 1 tr by simp_all
  have t': "ms = [p]" "t' = call (Msg_received_event con'' p) ?t" using 2 h s'(1) by (simp_all add: s2_deliver_def Let_def)
  have sa: "span_at s' con i" using span_at_upd [OF i, of "\<lambda>e. e\<lparr>span_d := rng_bytes (snd ?g), span_tx_seq := span_tx_seq e + 1\<rparr>"] span_at_ids [OF i]
    by (simp add: s'(2) span_at_def)
  have ta: "span_at t' con' j" using span_at_upd [OF j, of "\<lambda>e. e\<lparr>span_rx_seq := ?tx, span_d := rng_bytes (snd ?g)\<rparr>"] span_at_ids [OF j]
    by (simp add: t'(2) span_at_def upd_span_def)
  have k: "shared_keys s' t' c" using lt(1) by (simp add: shared_keys_def s'(2) t'(2) key_loaded_def sg_of_def)
  have "linked con con' c s' t'"
    unfolding linked_def using sa ta k l e w w' span_at_less [OF i] span_at_less [OF j]
    by (intro conjI exI [of _ i] exI [of _ j]) (simp_all add: s'(2) t'(2) linked_def S2_is_node_mos_def delayed_count_def upd_span_def)
  then show ?thesis using t'(1) by simp
qed

end
