(* ===== verification/S2_Handshake.thy ===== *)
theory S2_Handshake
  imports S2_Delivery
begin

text \<open>
  The exchange of nonces before the first message between two ends, and sequences of messages. The receiver does
  not know the class of the first message: it tries the classes of its keys in turn.
\<close>

section \<open>Looking for the class\<close>

lemma upd_span_twice: "i < length (span_table s) \<Longrightarrow> upd_span i f (upd_span i g s) = upd_span i (\<lambda>e. f (g e)) s"
  by (simp add: upd_span_def)

lemma upd_span_id: "i < length (span_table s) \<Longrightarrow> f (span_table s ! i) = span_table s ! i \<Longrightarrow> upd_span i f s = s"
  by (simp add: upd_span_def)

definition next_class :: "u8 \<Rightarrow> u8" where
  "next_class c = (if unat (c + 1) \<ge> N_SEC_CLASS then 0 else c + 1)"

lemma unat_next_class: "unat c < 7 \<Longrightarrow> unat (next_class c) = (unat c + 1) mod 7"
proof -
  assume c: "unat c < 7"
  have "unat (c + 1) = (unat c + 1) mod 256" by (simp only: unat_word_ariths) simp
  then have u: "unat (c + 1) = unat c + 1" using c by simp
  show ?thesis using c by (cases "unat c = 6") (simp_all add: next_class_def u)
qed

lemma class_skip:
  assumes "i < length (span_table s)" and "\<not> key_loaded s (span_class (span_table s ! i))" and "fsm s = IDLE"
    and "span_status (span_table s ! i) \<noteq> SPAN_NEGOTIATED" and "length ct \<le> length (workbuf s)"
  shows "class_attempts env (Suc k) i mp sn rn aad ct con s = class_attempts env k i mp sn rn aad (take (length ct) (workbuf s)) con
    (upd_span i (\<lambda>e. e\<lparr>span_class := next_class (span_class (span_table s ! i)), span_d := rng_bytes (next_nonce_instantiate
       (rng_of (span_d (span_table s ! i))) sn rn (nonce_pstring (sg_of s (next_class (span_class (span_table s ! i))))))\<rparr>) s)"
proof -
  have "upd_span i (\<lambda>e'. e'\<lparr>span_d := span_d (span_table s ! i)\<rparr>) s = s" using assms(1) by (intro upd_span_id) simp_all
  then show ?thesis using assms by (simp add: Let_def check_if next_class_def upd_span_def)
qed

text \<open>A generator for the two nonces and the keys of a class.\<close>

abbreviation rng_for :: "s2 \<Rightarrow> u8 list \<Rightarrow> u8 list \<Rightarrow> u8 \<Rightarrow> ctr_drbg_ctx" where
  "rng_for s sn rn c \<equiv> next_nonce_instantiate (rng_of []) sn rn (nonce_pstring (sg_of s c))"

text \<open>The table of a receiver that has both nonces, and in which only the keys of class \<open>c\<close> are loaded.\<close>

definition searching :: "s2 \<Rightarrow> nat \<Rightarrow> u8 \<Rightarrow> u8 list \<Rightarrow> u8 list \<Rightarrow> u8 list \<Rightarrow> bool" where
  "searching s i c sn rn ct \<longleftrightarrow> i < length (span_table s) \<and> unat (span_class (span_table s ! i)) < 7 \<and> fsm s = IDLE \<and>
     span_status (span_table s ! i) = SPAN_INSTANTIATE \<and>
     span_d (span_table s ! i) = rng_bytes (rng_for s sn rn (span_class (span_table s ! i))) \<and>
     take (length ct) (workbuf s) = ct \<and> length ct \<le> length (workbuf s) \<and>
     (\<forall>c'. c' \<noteq> c \<longrightarrow> \<not> key_loaded s c') \<and> key_loaded s c \<and> unat c < 7"

lemma class_found:
  assumes "searching s i c sn rn ct" and c: "span_class (span_table s ! i) = c" and r: "r \<noteq> 0"
    and d: "CCM_decrypt_and_auth (ccm_key (sg_of s c)) (fst (next_nonce_generate (rng_for s sn rn c))) aad ct = (d, r)"
  shows "class_attempts env (Suc k) i None sn rn aad ct con s = (r, d, con\<lparr>class_id := c\<rparr>,
    upd_span i (\<lambda>e. e\<lparr>span_class := c, span_d := rng_bytes (snd (next_nonce_generate (rng_for s sn rn c))), span_status := SPAN_NEGOTIATED\<rparr>) s)"
proof -
  let ?g = "next_nonce_generate (rng_for s sn rn c)"
  have s: "i < length (span_table s)" "span_d (span_table s ! i) = rng_bytes (rng_for s sn rn c)" "key_loaded s c" "unat c < 7"
    using assms(1) c by (simp_all add: searching_def)
  then have "class_attempts env (Suc k) i None sn rn aad ct con s = (r, d, con\<lparr>class_id := c\<rparr>,
      upd_span i (\<lambda>e. e\<lparr>span_status := SPAN_NEGOTIATED\<rparr>) (upd_span i (\<lambda>e. e\<lparr>span_d := rng_bytes (snd ?g)\<rparr>) s))"
    using attempt_accepted [of ?g s i aad ct d r env k sn rn con] c r d by (simp del: class_attempts.simps)
  moreover have "upd_span i (\<lambda>e. e\<lparr>span_status := SPAN_NEGOTIATED\<rparr>) (upd_span i (\<lambda>e. e\<lparr>span_d := rng_bytes (snd ?g)\<rparr>) s) =
      upd_span i (\<lambda>e. e\<lparr>span_class := c, span_d := rng_bytes (snd ?g), span_status := SPAN_NEGOTIATED\<rparr>) s"
    using c s(1) by (cases "span_table s ! i") (simp add: upd_span_def)
  ultimately show ?thesis by simp
qed

lemma class_search:
  assumes "searching s i c sn rn ct" and "(unat (span_class (span_table s ! i)) + n) mod 7 = unat c" and "n \<le> k" and "r \<noteq> 0"
    and "CCM_decrypt_and_auth (ccm_key (sg_of s c)) (fst (next_nonce_generate (rng_for s sn rn c))) aad ct = (d, r)"
  shows "class_attempts env (Suc k) i None sn rn aad ct con s = (r, d, con\<lparr>class_id := c\<rparr>,
    upd_span i (\<lambda>e. e\<lparr>span_class := c, span_d := rng_bytes (snd (next_nonce_generate (rng_for s sn rn c))), span_status := SPAN_NEGOTIATED\<rparr>) s)"
  using assms
proof (induction n arbitrary: s k)
  case 0
  then have "span_class (span_table s ! i) = c" by (simp add: word_unat_eq_iff searching_def)
  then show ?case using class_found [OF 0(1)] 0 by blast
next
  case (Suc n)
  let ?cl = "span_class (span_table s ! i)"
  show ?case
  proof (cases "?cl = c")
    case True
    then show ?thesis using class_found [OF Suc.prems(1)] Suc.prems by blast
  next
    case False
    note S = Suc.prems(1) [unfolded searching_def]
    obtain k' where k: "k = Suc k'" using Suc.prems(3) by (cases k) auto
    let ?s = "upd_span i (\<lambda>e. e\<lparr>span_class := next_class ?cl, span_d := rng_bytes (next_nonce_instantiate
       (rng_of (span_d (span_table s ! i))) sn rn (nonce_pstring (sg_of s (next_class ?cl))))\<rparr>) s"
    have any: "next_nonce_instantiate (rng_of (span_d (span_table s ! i))) sn rn x = next_nonce_instantiate (rng_of []) sn rn x" for x
      by (rule next_nonce_instantiate_any)
    have i: "i < length (span_table s)" "unat ?cl < 7" using S by simp_all
    have S': "searching ?s i c sn rn ct" using S i unat_next_class [OF i(2)] 
      by (simp add: searching_def any next_nonce_instantiate_any [where c = "rng_for s sn rn ?cl" and c' = "rng_of []"])
    have "class_attempts env (Suc k) i None sn rn aad ct con s = class_attempts env k i None sn rn aad ct con ?s"
      using class_skip [of i s ct env k None sn rn aad con] S False by (simp del: class_attempts.simps)
    also have "\<dots> = (r, d, con\<lparr>class_id := c\<rparr>,
        upd_span i (\<lambda>e. e\<lparr>span_class := c, span_d := rng_bytes (snd (next_nonce_generate (rng_for ?s sn rn c))), span_status := SPAN_NEGOTIATED\<rparr>) ?s)"
      unfolding k
    proof (rule Suc.IH [OF S'])
      show "(unat (span_class (span_table ?s ! i)) + n) mod 7 = unat c"
        using Suc.prems(2) i by (simp add: unat_next_class mod_simps)
    qed (use Suc.prems(3,4,5) k in simp_all)
    also have "upd_span i (\<lambda>e. e\<lparr>span_class := c, span_d := rng_bytes (snd (next_nonce_generate (rng_for ?s sn rn c))), span_status := SPAN_NEGOTIATED\<rparr>) ?s =
        upd_span i (\<lambda>e. e\<lparr>span_class := c, span_d := rng_bytes (snd (next_nonce_generate (rng_for s sn rn c))), span_status := SPAN_NEGOTIATED\<rparr>) s"
      using i(1) by (simp add: upd_span_def sg_of_def)
    finally show ?thesis .
  qed
qed

section \<open>The first message at the receiver\<close>

definition sn_ext :: "u8 list \<Rightarrow> u8 list" where
  "sn_ext sn = [18, S2_MSG_EXTHDR_CRITICAL_FLAG OR S2_MSG_EXTHDR_TYPE_SN] @ sn"

lemma clear_extensions_sn:
  assumes "length sn = 16" and "span_status (span_table t ! j) = SPAN_SOS_LOCAL_NONCE" and "unat (span_class (span_table t ! j)) < 7"
    and "fr = s2_header tx (sn_ext sn) @ ct" and "AUTH_TAG_LEN \<le> length ct"
  shows "clear_extensions con (Some j) fr 4 4 x t = (Some 22, (fst x, sn, r_nonce_of (span_d (span_table t ! j))),
    upd_span j (\<lambda>e. e\<lparr>span_status := SPAN_INSTANTIATE, span_d := rng_bytes (next_nonce_instantiate (rng_of (span_d e)) sn
      (r_nonce_of (span_d (span_table t ! j))) (nonce_pstring (sg_of t (span_class (span_table t ! j)))))\<rparr>) t)"
proof -
  have f: "length fr = 22 + length ct" "fr ! 4 = 18" "fr ! 5 = 0x41" "take 16 (drop 6 fr) = sn"
    using assms(1) by (simp_all add: assms(4) s2_header_def sn_ext_def)
  have "clear_extension con (Some j) fr 4 x t = (True, (fst x, sn, r_nonce_of (span_d (span_table t ! j))),
    upd_span j (\<lambda>e. e\<lparr>span_status := SPAN_INSTANTIATE, span_d := rng_bytes (next_nonce_instantiate (rng_of (span_d e)) sn
      (r_nonce_of (span_d (span_table t ! j))) (nonce_pstring (sg_of t (span_class (span_table t ! j)))))\<rparr>) t)"
    using f assms(2,3) by (simp add: clear_extension_def Let_def check_if case_prod_beta)
  then show ?thesis using f assms(5) by (subst clear_extensions.simps) (simp add: Let_def)
qed

lemma class_distance:
  assumes "a < 7" and "b < (7 :: nat)"
  shows "(a + (b + 7 - a) mod 7) mod 7 = b"
proof -
  have "(a + (b + 7 - a) mod 7) mod 7 = (a + (b + 7 - a)) mod 7" by (rule mod_add_right_eq)
  also have "a + (b + 7 - a) = b + 7" using assms by simp
  finally show ?thesis using assms by simp
qed

lemma first_message_payload:
  assumes sk: "shared_keys s t c" and rd: "\<And>w. take (length p + 8) w = ct \<Longrightarrow> length w = 1302 \<Longrightarrow> searching (t\<lparr>workbuf := w\<rparr>) j c sn rn ct"
    and n: "nonce = fst (next_nonce_generate (rng_for s sn rn c))"
    and fr: "fr = s2_frame s (r_node con) (l_node con) c nonce (s2_header tx (sn_ext sn)) p" and sn: "length sn = 16"
    and ct: "ct = drop 22 fr" and p: "p \<noteq> []" "length p \<le> 1272"
    and con: "rx_options con AND S2_RXOPTION_MULTICAST = 0" and t: "length (workbuf t) = 1302"
  shows "\<exists>tail w. length w = 1302 \<and> decrypt_payload env con fr (Some j) 22 (None, sn, rn) t =
    (AUTH_OK, con\<lparr>class_id := c\<rparr>, p @ tail, length p, upd_span j (\<lambda>e. e\<lparr>span_class := c,
       span_d := rng_bytes (snd (next_nonce_generate (rng_for s sn rn c))), span_status := SPAN_NEGOTIATED\<rparr>) (t\<lparr>workbuf := w\<rparr>))"
proof -
  let ?h = "s2_header tx (sn_ext sn)" and ?k = "ccm_key (sg_of s c)"
  let ?aad = "S2_make_aad s (r_node con) (l_node con) ?h (length ?h) (length ?h + length p + 8) 64"
  have h: "length ?h = 22" "length (sn_ext sn) = 18" using sn by (simp_all add: s2_header_def sn_ext_def)
  have nl: "length nonce = 16" by (simp add: n)
  have kk: "my_home_id t = my_home_id s" "sg_of t c = sg_of s c" "unat c < 7" "key_loaded t c" using sk by (simp_all add: shared_keys_def)
  have al: "length ?aad \<le> 64" and ce: "ct = CCM_encrypt_and_auth ?k nonce ?aad p" and lc: "length ct = length p + 8"
    using frame_parts [where h = ?h and p = p and nonce = nonce and s = s and a = "r_node con" and b = "l_node con" and c = c]
      length_make_aad [of "length ?h" ?h s "r_node con" "l_node con" "length ?h + length p + 8"] h p nl by (simp_all add: fr ct length_CCM_encrypt)
  let ?tail = "ccm_cover nonce ?k (ccm_tag ?k nonce ?aad p)"
  let ?w = "put_at 0 ct (workbuf t)"
  have w: "length ?w = 1302" "take (length p + 8) ?w = ct" using t lc p take_put_at_0 [of ct "workbuf t"] by (simp_all add: length_put_at)
  note S = rd [OF w(2,1)]
  have st: "span_status (span_table t ! j) \<in> {SPAN_NEGOTIATED, SPAN_INSTANTIATE}" "fsm t = IDLE" "unat (span_class (span_table t ! j)) < 7"
    using S by (simp_all add: searching_def)
  have r: "unat (of_nat (length p) :: u16) = length p" using p unfolding unat_of_nat by simp
  then have r0: "(of_nat (length p) :: u16) \<noteq> 0" using p(1) by (metis length_0_conv unat_0)
  have dec: "CCM_decrypt_and_auth ?k nonce ?aad ct = (p @ ?tail, of_nat (length p))"
    unfolding ce using p al nl by (intro CCM_decrypt_encrypt) simp_all
  define m where "m = (unat c + 7 - unat (span_class (span_table t ! j))) mod 7"
  have m: "(unat (span_class (span_table t ! j)) + m) mod 7 = unat c" "m \<le> 6"
    using class_distance [OF st(3) kk(3)] by (simp_all add: m_def less_Suc_eq_le [symmetric])
  have "class_attempts env 7 j None sn rn ?aad ct con (t\<lparr>workbuf := ?w\<rparr>) = (of_nat (length p), p @ ?tail, con\<lparr>class_id := c\<rparr>,
      upd_span j (\<lambda>e. e\<lparr>span_class := c, span_d := rng_bytes (snd (next_nonce_generate (rng_for s sn rn c))), span_status := SPAN_NEGOTIATED\<rparr>) (t\<lparr>workbuf := ?w\<rparr>))"
    using class_search [OF S, of m 6 "of_nat (length p)" ?aad "p @ ?tail" env con] m r0 dec kk(2) n
    by (simp del: class_attempts.simps)
  then have "decrypt_payload env con fr (Some j) (of_nat (4 + length (sn_ext sn))) (None, sn, rn) t = (AUTH_OK, con\<lparr>class_id := c\<rparr>, p @ ?tail, unat (of_nat (length p) :: u16),
      upd_span j (\<lambda>e. e\<lparr>span_class := c, span_d := rng_bytes (snd (next_nonce_generate (rng_for s sn rn c))), span_status := SPAN_NEGOTIATED\<rparr>) (t\<lparr>workbuf := ?w\<rparr>))"
    using h p t con st r0 nl ct by (intro decrypt_payload_classes [OF st(1) kk(1) fr, where h = ?h and ct = ct and aad = ?aad]) simp_all
  then show ?thesis using w(1) r h(2) by auto
qed

section \<open>First contact\<close>

text \<open>The context has no entry for the other side yet and a free one.\<close>

definition stranger :: "s2_connection \<Rightarrow> s2 \<Rightarrow> bool" where
  "stranger con s \<longleftrightarrow> (\<forall>e \<in> set (span_table s). span_status e = SPAN_NOT_USED \<or> span_lnode e \<noteq> l_node con \<or> span_rnode e \<noteq> r_node con) \<and>
     (\<exists>e \<in> set (span_table s). span_status e = SPAN_NOT_USED) \<and> (\<forall>e \<in> set (span_table s). unat (span_class e) < N_SEC_CLASS)"

definition calm :: "s2_connection \<Rightarrow> s2 \<Rightarrow> bool" where
  "calm con s \<longleftrightarrow> cur_mpan s = None \<and> \<not> S2_is_node_mos s (r_node con) \<and> length (mos_list s) = MOS_LIST_LENGTH \<and>
     length (workbuf s) = 1302 \<and> delayed_count s = 0"

definition same_net :: "s2 \<Rightarrow> s2 \<Rightarrow> bool" where
  "same_net s s' \<longleftrightarrow> sg s' = sg s \<and> my_home_id s' = my_home_id s \<and> loaded_keys s' = loaded_keys s"

lemma calm_cong:
  "cur_mpan s' = cur_mpan s \<Longrightarrow> mos_list s' = mos_list s \<Longrightarrow> length (workbuf s') = length (workbuf s) \<Longrightarrow>
    send_nls_node_list_get s' = send_nls_node_list_get s \<Longrightarrow> send_nls_node_list_report s' = send_nls_node_list_report s \<Longrightarrow> calm con s' = calm con s"
  by (simp add: calm_def S2_is_node_mos_def delayed_count_def)

lemma find_span_stranger:
  assumes "stranger con s"
  obtains i s' g tx where "find_span_by_node s con = (i, s')"
    and "s' = upd_span i (\<lambda>e. e\<lparr>span_status := SPAN_NO_SEQ, span_lnode := l_node con,
      span_rnode := r_node con, span_tx_seq := tx\<rparr>) (s\<lparr>s2_ctr_drbg := g\<rparr>)"
    and "i < length (span_table s)" and "unat (span_class (span_table s ! i)) < N_SEC_CLASS" and "span_at s' con i"
proof -
  let ?P = "\<lambda>e. span_status e \<noteq> SPAN_NOT_USED \<and> span_lnode e = l_node con \<and> span_rnode e = r_node con"
  have n: "first_index ?P (span_table s) = None" using assms by (auto simp: first_index_None stranger_def)
  obtain i where i: "first_index (\<lambda>e. span_status e = SPAN_NOT_USED) (span_table s) = Some i"
    using assms by (cases "first_index (\<lambda>e. span_status e = SPAN_NOT_USED) (span_table s)") (auto simp: first_index_None stranger_def)
  have il: "i < length (span_table s)" using first_index_SomeD [OF i] by simp
  obtain rnd s0 where r: "random16 s = (rnd, s0)" by fastforce
  have s0: "s0 = s\<lparr>s2_ctr_drbg := s2_ctr_drbg s0\<rparr>" by (rule random16_state(2) [OF r])
  have t0: "span_table s0 = span_table s" by (subst s0) simp
  let ?s = "upd_span i (\<lambda>e. e\<lparr>span_status := SPAN_NO_SEQ, span_lnode := l_node con,
      span_rnode := r_node con, span_tx_seq := rnd ! 1\<rparr>) (s\<lparr>s2_ctr_drbg := s2_ctr_drbg s0\<rparr>)"
  have f: "find_span_by_node s con = (i, ?s)" using n i r t0 s0 by (simp add: find_span_by_node_def)
  have "unat (span_class (span_table s ! i)) < 7" using assms il by (simp add: stranger_def)
  moreover have "span_at ?s con i"
    unfolding span_at_def using n il first_index_None [of ?P "span_table s"]
    by (intro first_indexI) (auto simp: upd_span_def)
  ultimately show ?thesis using that [OF f refl il] by blast
qed

text \<open>What the first call of the sender leads to: a nonce is asked for.\<close>

lemma contact_get:
  assumes st: "stranger con s" and ca: "calm con s" and idle: "fsm s = IDLE" and p: "message_ok p" and a: "\<And>cs. accepts env cs"
    and s1: "s1 = snd (S2_send_data_all_cast env con p Singlecast s)"
  obtains i tx where "frames_of (drop (length (calls s)) (calls s1)) = [[COMMAND_CLASS_SECURITY_2, SECURITY_2_NONCE_GET, tx]]"
    and "span_at s1 con i" and "span_status (span_table s1 ! i) = SPAN_NO_SEQ" and "span_tx_seq (span_table s1 ! i) = tx + 1"
    and "fsm s1 = WAIT_NONCE_RAPORT" and "peer s1 = con" and "buf s1 = p" and "buf_length s1 = of_nat (length p)"
    and "calm con s1" and "same_net s s1"
proof -
  obtain i s' g tx where f: "find_span_by_node s con = (i, s')"
    and s': "s' = upd_span i (\<lambda>e. e\<lparr>span_status := SPAN_NO_SEQ, span_lnode := l_node con,
      span_rnode := r_node con, span_tx_seq := tx\<rparr>) (s\<lparr>s2_ctr_drbg := g\<rparr>)"
    and il: "i < length (span_table s)" and "unat (span_class (span_table s ! i)) < 7" and at: "span_at s' con i"
    by (rule find_span_stranger [OF st])
  have e: "span_status (span_table s' ! i) = SPAN_NO_SEQ" "span_tx_seq (span_table s' ! i) = tx" "i < length (span_table s')"
    using il by (simp_all add: s')
  have ok: "S2_span_ok s con = (False, s')" using e by (simp add: S2_span_ok_def f Let_def)
  let ?w = "s'\<lparr>fsm := WAIT_NONCE_RAPORT, retry := 2, peer := con, buf := p, buf_length := of_nat (length p)\<rparr>"
  have at2: "span_at ?w (peer ?w) i" using at by (simp add: span_at_def)
  let ?fr = "[0x9F, 1, tx] :: u8 list"
  have raw: "S2_send_nonce_get env ?w = (True, upd_span i (\<lambda>e. e\<lparr>span_tx_seq := span_tx_seq e + 1\<rparr>) (call (Send_frame con ?fr True) ?w))"
    using send_raw_accepted [OF a at2, of ?fr] at2 e by (simp add: S2_send_nonce_get_def)
  have "s1 = call (Set_timeout 65000) (upd_span i (\<lambda>e. e\<lparr>span_tx_seq := span_tx_seq e + 1\<rparr>) (call (Send_frame con ?fr True) ?w))"
    using idle p ok raw
    by (simp add: s1 S2_send_data_all_cast_def S2_is_send_data_busy_def message_ok_def S2_fsm_post_event_def fsm_step_def fsm_s2_idle_def
        S2_set_peer_def Let_def after_raw_def)
  note S = this
  show ?thesis
  proof (rule that [of tx i])
    show "frames_of (drop (length (calls s)) (calls s1)) = [[0x9F, 1, tx]]" by (simp add: S s')
    show "span_at s1 con i"
      using span_at_upd [OF at2, of "\<lambda>e. e\<lparr>span_tx_seq := span_tx_seq e + 1\<rparr>"] span_at_ids [OF at] by (simp add: S span_at_def upd_span_def)
    show "span_status (span_table s1 ! i) = SPAN_NO_SEQ" "span_tx_seq (span_table s1 ! i) = tx + 1" using e by (simp_all add: S)
    show "fsm s1 = WAIT_NONCE_RAPORT" "peer s1 = con" "buf s1 = p" "buf_length s1 = of_nat (length p)" by (simp_all add: S)
    show "calm con s1" using ca by (simp add: S s' calm_def S2_is_node_mos_def delayed_count_def upd_span_def)
    show "same_net s s1" by (simp add: S s' same_net_def)
  qed
qed

text \<open>The receiver answers with its nonce and remembers it.\<close>

fun reports_of :: "s2_call list \<Rightarrow> u8 list list" where
  "reports_of [] = []"
| "reports_of (Send_frame_no_cb _ fr # cs) = fr # reports_of cs"
| "reports_of (_ # cs) = reports_of cs"

lemma contact_report:
  assumes st: "stranger con t" and m: "rx_options con AND S2_RXOPTION_MULTICAST = 0"
    and t1: "t1 = S2_application_command_handler env con [COMMAND_CLASS_SECURITY_2, SECURITY_2_NONCE_GET, tx] t"
  obtains j rn seq where "reports_of (drop (length (calls t)) (calls t1)) = [[COMMAND_CLASS_SECURITY_2, SECURITY_2_NONCE_REPORT, seq, 1] @ rn]"
    and "length rn = 16" and "span_at t1 con j" and "span_status (span_table t1 ! j) = SPAN_SOS_LOCAL_NONCE"
    and "r_nonce_of (span_d (span_table t1 ! j)) = rn" and "span_rx_seq (span_table t1 ! j) = tx"
    and "unat (span_class (span_table t1 ! j)) < N_SEC_CLASS" and "fsm t1 = fsm t" and "workbuf t1 = workbuf t" and "same_net t t1"
proof -
  obtain j t' g seq where f: "find_span_by_node t con = (j, t')"
    and t': "t' = upd_span j (\<lambda>e. e\<lparr>span_status := SPAN_NO_SEQ, span_lnode := l_node con,
      span_rnode := r_node con, span_tx_seq := seq\<rparr>) (t\<lparr>s2_ctr_drbg := g\<rparr>)"
    and jl: "j < length (span_table t)" and cl: "unat (span_class (span_table t ! j)) < 7" and at: "span_at t' con j"
    by (rule find_span_stranger [OF st])
  have e: "span_status (span_table t' ! j) = SPAN_NO_SEQ" "span_tx_seq (span_table t' ! j) = seq" "j < length (span_table t')"
    using jl by (simp_all add: t')
  let ?u = "upd_span j (\<lambda>e. e\<lparr>span_rx_seq := tx\<rparr>) t'"
  have v: "S2_verify_seq t con tx = (True, ?u)" using e by (simp add: S2_verify_seq_def f)
  have au: "span_at ?u con j" using span_at_upd [OF at, of "\<lambda>e. e\<lparr>span_rx_seq := tx\<rparr>"] span_at_ids [OF at] by simp
  obtain rn u0 where r: "random16 ?u = (rn, u0)" by fastforce
  have rl: "length rn = 16" and u0: "u0 = ?u\<lparr>s2_ctr_drbg := s2_ctr_drbg u0\<rparr>" by (fact random16_state [OF r])+
  obtain g2 where u0': "u0 = ?u\<lparr>s2_ctr_drbg := g2\<rparr>" using u0 by blast
  let ?v = "upd_span j (\<lambda>e. e\<lparr>span_tx_seq := span_tx_seq e + 1\<rparr>)
      (upd_span j (\<lambda>e. e\<lparr>span_status := SPAN_SOS_LOCAL_NONCE, span_d := with_r_nonce rn (span_d e)\<rparr>) u0)"
  have "S2_send_nonce_report con 1 ?u = call (Send_frame_no_cb con ([0x9F, 2, seq, 1] @ rn)) ?v"
    using au e r by (simp add: S2_send_nonce_report_def Let_def)
  then have S: "t1 = call (Send_frame_no_cb con ([0x9F, 2, seq, 1] @ rn)) ?v"
    using v m by (simp add: t1 S2_application_command_handler_def check_if)
  have T: "t1 = (upd_span j (\<lambda>e. e\<lparr>span_lnode := l_node con, span_rnode := r_node con, span_rx_seq := tx,
      span_status := SPAN_SOS_LOCAL_NONCE, span_d := with_r_nonce rn (span_d e), span_tx_seq := seq + 1\<rparr>) (t\<lparr>s2_ctr_drbg := g2\<rparr>))
        \<lparr>calls := calls t @ [Send_frame_no_cb con ([0x9F, 2, seq, 1] @ rn)]\<rparr>"
    using jl by (simp add: S u0' t' upd_span_def)
  show ?thesis
  proof (rule that [of seq rn j])
    show "reports_of (drop (length (calls t)) (calls t1)) = [[0x9F, 2, seq, 1] @ rn]" by (simp add: T)
    have "span_at ?v con j"
      using au span_at_ids [OF at] e by (auto intro!: span_at_upd simp: u0' span_at_cong [of "?u\<lparr>s2_ctr_drbg := g2\<rparr>" ?u con con])
    then show "span_at t1 con j" by (simp add: S span_at_def)
    show "length rn = 16" by fact
    show "span_status (span_table t1 ! j) = SPAN_SOS_LOCAL_NONCE" "r_nonce_of (span_d (span_table t1 ! j)) = rn"
      "span_rx_seq (span_table t1 ! j) = tx" "unat (span_class (span_table t1 ! j)) < 7"
      using jl cl rl by (simp_all add: T r_nonce_of_def with_r_nonce_def)
    show "fsm t1 = fsm t" "workbuf t1 = workbuf t" "same_net t t1" by (simp_all add: T same_net_def)
  qed
qed

text \<open>With the nonce of the receiver the sender makes the common nonce and sends the message.\<close>

lemma contact_message:
  assumes at: "span_at s con i" and no: "span_status (span_table s ! i) = SPAN_NO_SEQ" and w: "fsm s = WAIT_NONCE_RAPORT"
    and peer: "peer s = con" and buf: "buf s = p" "buf_length s = of_nat (length p)" and ca: "calm con s"
    and p: "message_ok p" "length p \<le> 1272" and c: "class_id con = c" "unat c < N_SEC_CLASS" and a: "\<And>cs. accepts env cs"
    and v: "tx_options con AND S2_TXOPTION_VERIFY_DELIVERY = 0" and rn: "length rn = 16" and tx: "tx = span_tx_seq (span_table s ! i)"
    and s2: "s2 = S2_application_command_handler env con ([COMMAND_CLASS_SECURITY_2, SECURITY_2_NONCE_REPORT, seq, 1] @ rn) s"
  obtains sn g where "length sn = 16" and "g = next_nonce_generate (rng_for s sn rn c)"
    and "frames_of (drop (length (calls s)) (calls s2)) =
      [s2_frame s (l_node con) (r_node con) c (fst g) (s2_header tx (sn_ext sn)) p]"
    and "span_at s2 con i" and "span_status (span_table s2 ! i) = SPAN_NEGOTIATED" and "span_class (span_table s2 ! i) = c"
    and "span_d (span_table s2 ! i) = rng_bytes (snd g)" and "span_tx_seq (span_table s2 ! i) = tx + 1"
    and "fsm s2 = SENDING_MSG" and "calm con s2" and "same_net s s2"
proof -
  let ?b = "[0x9F, 2, seq, 1] @ rn"
  have il: "i < length (span_table s)" using span_at_less [OF at] .
  let ?r = "upd_span i (\<lambda>e. e\<lparr>span_rx_seq := seq, span_d := with_r_nonce rn (span_d e), span_status := SPAN_SOS_REMOTE_NONCE\<rparr>) s"
  have at1: "span_at (upd_span i (\<lambda>e. e\<lparr>span_rx_seq := seq\<rparr>) s) con i"
    using span_at_upd [OF at, of "\<lambda>e. e\<lparr>span_rx_seq := seq\<rparr>"] span_at_ids [OF at] by simp
  have vs: "S2_verify_seq s con seq = (True, upd_span i (\<lambda>e. e\<lparr>span_rx_seq := seq\<rparr>) s)" using at no by (simp add: S2_verify_seq_def)
  have reg: "S2_register_nonce ?b s = (1, ?r)"
    using vs at1 rn peer il by (simp add: S2_register_nonce_def check_if Let_def upd_span_twice)
  have atr: "span_at ?r con i" using span_at_upd [OF at] span_at_ids [OF at] by simp
  let ?r1 = "?r\<lparr>fsm := SENDING_MSG\<rparr>"
  have atr1: "span_at ?r1 (peer ?r1) i" using atr peer by (simp add: span_at_def)
  have rd: "ready ?r1" using ca peer buf p c by (simp add: ready_def calm_def S2_is_node_mos_def message_ok_def)
  obtain sn u where r: "random16 ?r1 = (sn, u)" by fastforce
  have sl: "length sn = 16" and u: "u = ?r1\<lparr>s2_ctr_drbg := s2_ctr_drbg u\<rparr>" by (fact random16_state [OF r])+
  obtain g0 where u': "u = ?r1\<lparr>s2_ctr_drbg := g0\<rparr>" using u by blast
  define R where "R = rng_for s sn rn c"
  have R: "next_nonce_instantiate (rng_of d) sn rn (nonce_pstring (sg_of s c)) = R" for d
    unfolding R_def by (rule next_nonce_instantiate_any)
  have Rok: "ctx_ok R" by (simp add: R_def)
  let ?n = "upd_span i (\<lambda>e. e\<lparr>span_d := rng_bytes R, span_class := c, span_status := SPAN_NEGOTIATED\<rparr>) (?r1\<lparr>s2_ctr_drbg := g0\<rparr>)"
  have rnn: "r_nonce_of (with_r_nonce rn d) = rn" for d using rn by (simp add: r_nonce_of_def with_r_nonce_def)
  have sne: "sn_extension i ?r1 = (sn_ext sn, ?n)"
  proof -
    have "sg_of (?r1\<lparr>s2_ctr_drbg := g0\<rparr>) c = sg_of s c" by (simp add: sg_of_def)
    then show ?thesis using il c peer rnn by (simp add: sn_extension_def r u' Let_def check_if sn_ext_def R)
  qed
  let ?g = "next_nonce_generate R"
  have gn: "next_nonce_generate (rng_of (span_d (span_table ?n ! i))) = ?g" using il Rok by simp
  have txr: "span_tx_seq (span_table ?r1 ! i) = tx" using il tx by simp
  let ?fr = "s2_frame s (l_node con) (r_node con) c (fst ?g) (s2_header tx (sn_ext sn)) p"
  obtain x where x: "length x = 1302" and e: "S2_encrypt_and_send env ?r1 = S2_send_raw env
       (s2_frame ?r1 (l_node (peer ?r1)) (r_node (peer ?r1)) (class_id (peer ?r1))
         (fst (next_nonce_generate (rng_of (span_d (span_table ?n ! i))))) (s2_header (span_tx_seq (span_table ?r1 ! i)) (sn_ext sn)) (buf ?r1))
       ((upd_span i (\<lambda>e. e\<lparr>span_d := rng_bytes (snd (next_nonce_generate (rng_of (span_d (span_table ?n ! i)))))\<rparr>) ?n)\<lparr>workbuf := x\<rparr>)"
    by (rule encrypt_ready [OF rd atr1 sne, where env = env]) (use p sl buf in \<open>simp_all add: sn_ext_def\<close>)
  let ?m = "(upd_span i (\<lambda>e. e\<lparr>span_d := rng_bytes (snd ?g)\<rparr>) ?n)\<lparr>workbuf := x\<rparr>"
  have frq: "s2_frame ?r1 (l_node (peer ?r1)) (r_node (peer ?r1)) (class_id (peer ?r1)) (fst ?g) (s2_header tx (sn_ext sn)) (buf ?r1) = ?fr"
    using peer c buf make_aad_cong [of ?r1 s] by (simp add: s2_frame_def sg_of_def)
  have atm: "span_at ?m (peer ?m) i"
    using at peer il span_at_ids [OF at] by (auto simp: span_at_def upd_span_def intro!: first_index_set)
  have enc: "S2_encrypt_and_send env ?r1 = (True, upd_span i (\<lambda>e. e\<lparr>span_tx_seq := span_tx_seq e + 1\<rparr>) (call (Send_frame (peer ?m) ?fr True) ?m))"
    unfolding e gn txr frq by (rule send_raw_accepted [OF a atm])
  have en: "send_msg_state_enter env ?r = (let z = upd_span i (\<lambda>e. e\<lparr>span_tx_seq := span_tx_seq e + 1\<rparr>) (call (Send_frame (peer ?m) ?fr True) ?m) in z\<lparr>retry := retry z - 1\<rparr>)"
    using v peer enc by (subst send_msg_state_enter.simps) (simp add: send_msg_begin_def)
  have S: "s2 = (let z = upd_span i (\<lambda>e. e\<lparr>span_tx_seq := span_tx_seq e + 1\<rparr>) (call (Send_frame (peer ?m) ?fr True) ?m) in z\<lparr>retry := retry z - 1\<rparr>)"
    using w reg en peer by (simp add: s2 S2_application_command_handler_def check_if S2_fsm_post_event_def fsm_step_def fsm_wait_nonce_def S2_is_peernode_def)
  show ?thesis
  proof (rule that [of sn ?g])
    show "span_at s2 con i"
      using span_at_upd [OF atm, of "\<lambda>e. e\<lparr>span_tx_seq := span_tx_seq e + 1\<rparr>"] span_at_ids [OF atm] peer by (simp add: S span_at_def upd_span_def Let_def)
    show "calm con s2" using ca x by (simp add: S calm_def S2_is_node_mos_def delayed_count_def upd_span_def Let_def)
  qed (use sl il tx R_def in \<open>simp_all add: S Let_def same_net_def\<close>)
qed

lemma contact_receive:
  assumes at: "span_at t con j" and ln: "span_status (span_table t ! j) = SPAN_SOS_LOCAL_NONCE"
    and rn: "r_nonce_of (span_d (span_table t ! j)) = rn" and rx: "span_rx_seq (span_table t ! j) \<noteq> tx"
    and cl: "unat (span_class (span_table t ! j)) < N_SEC_CLASS" and t: "fsm t = IDLE" "length (workbuf t) = 1302"
    and sk: "shared_keys s t c" and only: "\<And>c'. c' \<noteq> c \<Longrightarrow> \<not> key_loaded t c'" and sn: "length sn = 16"
    and p: "message_ok p" "length p \<le> 1272" and m: "rx_options con AND S2_RXOPTION_MULTICAST = 0"
    and g: "g = next_nonce_generate (rng_for s sn rn c)"
    and fr: "fr = s2_frame s (r_node con) (l_node con) c (fst g) (s2_header tx (sn_ext sn)) p"
    and t2: "t2 = S2_application_command_handler env con fr t"
  obtains con' w where "length w = 1302" and "t2 = call (Msg_received_event con' p)
    (upd_span j (\<lambda>e. e\<lparr>span_rx_seq := tx, span_class := c, span_d := rng_bytes (snd g), span_status := SPAN_NEGOTIATED\<rparr>) (t\<lparr>workbuf := w\<rparr>))"
proof -
  have jl: "j < length (span_table t)" using span_at_less [OF at] .
  let ?h = "s2_header tx (sn_ext sn)" and ?C = "span_class (span_table t ! j)"
  have hl: "length ?h = 22" using sn by (simp add: s2_header_def sn_ext_def)
  have p': "p \<noteq> []" "hd p \<noteq> 0x9F" using p by (simp_all add: message_ok_def)
  have fl: "length fr = 22 + length p + 8"
    using frame_parts(1) [where h = ?h and p = p and nonce = "fst g"] hl p by (simp add: fr g)
  have f: "fr = ?h @ drop 22 fr" using hl by (simp add: fr s2_frame_def)
  have f2: "fr ! 1 = 3" "fr ! 2 = tx" "fr ! 3 = 1" by (simp_all add: fr s2_frame_def s2_header_def sn_ext_def)
  let ?u = "upd_span j (\<lambda>e. e\<lparr>span_rx_seq := tx\<rparr>) t"
  have atu: "span_at ?u con j" using span_at_upd [OF at, of "\<lambda>e. e\<lparr>span_rx_seq := tx\<rparr>"] span_at_ids [OF at] by simp
  have vs: "S2_verify_seq t con tx = (True, ?u)" using at rx by (simp add: S2_verify_seq_def)
  define R where "R = rng_for t sn rn ?C"
  have R: "next_nonce_instantiate (rng_of d) sn rn (nonce_pstring (sg_of t ?C)) = R" for d
    unfolding R_def by (rule next_nonce_instantiate_any)
  let ?x = "(None, replicate 16 0, replicate 16 0) :: nat option \<times> u8 list \<times> u8 list"
  let ?v = "upd_span j (\<lambda>e. e\<lparr>span_status := SPAN_INSTANTIATE, span_d := rng_bytes R\<rparr>) ?u"
  have ce: "clear_extensions con (Some j) fr 4 4 ?x ?u = (Some 22, (None, sn, rn), ?v)"
    using clear_extensions_sn [OF sn, of ?u j fr tx "drop 22 fr" con ?x] ln cl jl f fl rn by (simp add: R)
  have d0: "S2_decrypt_msg env con fr t = decrypt_payload env con fr (Some j) 22 (None, sn, rn) ?v"
    using fl f2 m vs atu ce by (simp add: S2_decrypt_msg_def check_if Let_def)
  have skv: "shared_keys s ?v c" using sk by (simp add: shared_keys_def)
  have "searching (?v\<lparr>workbuf := w\<rparr>) j c sn rn (drop 22 fr)" if "take (length p + 8) w = drop 22 fr" "length w = 1302" for w
    using that jl t cl sk only fl p by (simp add: searching_def R_def shared_keys_def sg_of_def add.commute)
  then obtain tail w where w: "length w = 1302" and d: "decrypt_payload env con fr (Some j) 22 (None, sn, rn) ?v =
      (AUTH_OK, con\<lparr>class_id := c\<rparr>, p @ tail, length p, upd_span j (\<lambda>e. e\<lparr>span_class := c, span_d := rng_bytes (snd g), span_status := SPAN_NEGOTIATED\<rparr>) (?v\<lparr>workbuf := w\<rparr>))"
    using first_message_payload [OF skv _ _ fr sn refl p'(1) p(2) m, where j = j and rn = rn and env = env] t g by auto
  let ?t = "upd_span j (\<lambda>e. e\<lparr>span_class := c, span_d := rng_bytes (snd g), span_status := SPAN_NEGOTIATED\<rparr>) (?v\<lparr>workbuf := w\<rparr>)"
  have ft: "fsm ?t = IDLE" using t by simp
  obtain con' where "t2 = call (Msg_received_event con' p) ?t"
    using handler_linked [OF d0 [unfolded d] _ f2(1) ft p'] fl t2 by auto
  moreover have "?t = upd_span j (\<lambda>e. e\<lparr>span_rx_seq := tx, span_class := c, span_d := rng_bytes (snd g), span_status := SPAN_NEGOTIATED\<rparr>) (t\<lparr>workbuf := w\<rparr>)"
    using jl by (simp add: upd_span_def)
  ultimately show ?thesis using that [OF w] by simp
qed

section \<open>From strangers to linked ends\<close>

text \<open>
  The whole exchange: the message is passed on for sending, the frames of each side are given to the other, and the
  sender is told that its frame went out. The result is what the receiver's application gets.
\<close>

definition s2_first_message ::
  "s2_env \<Rightarrow> s2_env \<Rightarrow> s2_connection \<Rightarrow> s2_connection \<Rightarrow> u8 list \<Rightarrow> s2 \<Rightarrow> s2 \<Rightarrow> u8 list list \<times> s2 \<times> s2" where
  "s2_first_message env env' con con' p s t = (let
     s1 = snd (S2_send_data_all_cast env con p Singlecast s);
     t1 = fold (S2_application_command_handler env' con') (frames_of (drop (length (calls s)) (calls s1))) t;
     s2 = fold (S2_application_command_handler env con) (reports_of (drop (length (calls t)) (calls t1))) s1;
     t2 = fold (S2_application_command_handler env' con') (frames_of (drop (length (calls s1)) (calls s2))) t1
   in (messages_of (drop (length (calls t1)) (calls t2)), S2_send_frame_done_notify env S2_TRANSMIT_COMPLETE_OK 0 s2, t2))"

lemma first_contact:
  assumes st: "stranger con s" "stranger con' t" and ca: "calm con s" and idle: "fsm s = IDLE" "fsm t = IDLE" and wt: "length (workbuf t) = 1302"
    and ids: "l_node con' = r_node con" "r_node con' = l_node con" and c: "class_id con = c"
    and v: "tx_options con AND S2_TXOPTION_VERIFY_DELIVERY = 0" and m: "rx_options con' AND S2_RXOPTION_MULTICAST = 0"
    and p: "message_ok p" "length p \<le> 1272" and a: "\<And>cs. accepts env cs"
    and sk: "shared_keys s t c" and only: "\<And>c'. c' \<noteq> c \<Longrightarrow> \<not> key_loaded t c'"
    and res: "s2_first_message env env' con con' p s t = (ms, s', t')"
  shows "ms = [p] \<and> linked con con' c s' t'"
proof -
  define s1 where "s1 = snd (S2_send_data_all_cast env con p Singlecast s)"
  obtain i tx where g1: "frames_of (drop (length (calls s)) (calls s1)) = [[0x9F, 1, tx]]" and i1: "span_at s1 con i"
    and n1: "span_status (span_table s1 ! i) = SPAN_NO_SEQ" and x1: "span_tx_seq (span_table s1 ! i) = tx + 1"
    and w1: "fsm s1 = WAIT_NONCE_RAPORT" and p1: "peer s1 = con" and b1: "buf s1 = p" and l1: "buf_length s1 = of_nat (length p)"
    and c1: "calm con s1" and k1: "same_net s s1"
    by (rule contact_get [OF st(1) ca idle(1) p(1) a s1_def])
  define t1 where "t1 = S2_application_command_handler env' con' [0x9F, 1, tx] t"
  obtain j rn seq where g2: "reports_of (drop (length (calls t)) (calls t1)) = [[0x9F, 2, seq, 1] @ rn]" and rl: "length rn = 16"
    and j1: "span_at t1 con' j" and n2: "span_status (span_table t1 ! j) = SPAN_SOS_LOCAL_NONCE"
    and r2: "r_nonce_of (span_d (span_table t1 ! j)) = rn" and x2: "span_rx_seq (span_table t1 ! j) = tx"
    and cl2: "unat (span_class (span_table t1 ! j)) < 7" and f2: "fsm t1 = fsm t" and w2: "workbuf t1 = workbuf t" and k2: "same_net t t1"
    by (rule contact_report [OF st(2) m t1_def])
  define s2 where "s2 = S2_application_command_handler env con ([0x9F, 2, seq, 1] @ rn) s1"
  have c7: "unat c < 7" using sk by (simp add: shared_keys_def)
  obtain sn g where sl: "length sn = 16" and gg: "g = next_nonce_generate (rng_for s1 sn rn c)"
    and g3: "frames_of (drop (length (calls s1)) (calls s2)) = [s2_frame s1 (l_node con) (r_node con) c (fst g) (s2_header (tx + 1) (sn_ext sn)) p]"
    and i3: "span_at s2 con i" and n3: "span_status (span_table s2 ! i) = SPAN_NEGOTIATED" and cl3: "span_class (span_table s2 ! i) = c"
    and d3: "span_d (span_table s2 ! i) = rng_bytes (snd g)" and x3: "span_tx_seq (span_table s2 ! i) = tx + 1 + 1"
    and f3: "fsm s2 = SENDING_MSG" and c3: "calm con s2" and k3: "same_net s1 s2"
    by (rule contact_message [OF i1 n1 w1 p1 b1 l1 c1 p c c7 a v rl x1 [symmetric] s2_def])
  let ?fr = "s2_frame s1 (l_node con) (r_node con) c (fst g) (s2_header (tx + 1) (sn_ext sn)) p"
  define t2 where "t2 = S2_application_command_handler env' con' ?fr t1"
  have sk1: "shared_keys s1 t1 c" using sk k1 k2 by (simp add: shared_keys_def same_net_def sg_of_def key_loaded_def)
  have only1: "\<And>c'. c' \<noteq> c \<Longrightarrow> \<not> key_loaded t1 c'" using only k2 by (simp add: key_loaded_def same_net_def)
  have ne: "span_rx_seq (span_table t1 ! j) \<noteq> tx + 1" by (simp add: x2)
  have ft1: "fsm t1 = IDLE" "length (workbuf t1) = 1302" using f2 w2 idle wt by simp_all
  have fr: "?fr = s2_frame s1 (r_node con') (l_node con') c (fst g) (s2_header (tx + 1) (sn_ext sn)) p" using ids by simp
  obtain cc w where w: "length w = 1302" and T: "t2 = call (Msg_received_event cc p)
      (upd_span j (\<lambda>e. e\<lparr>span_rx_seq := tx + 1, span_class := c, span_d := rng_bytes (snd g), span_status := SPAN_NEGOTIATED\<rparr>) (t1\<lparr>workbuf := w\<rparr>))"
    by (rule contact_receive [OF j1 n2 r2 ne cl2 ft1 sk1 only1 sl p m gg fr t2_def])
  have dl: "\<not> send_nls_node_list_get s2" "\<not> send_nls_node_list_report s2" using c3 by (simp_all add: calm_def delayed_count_def split: if_splits)
  have S: "s' = s2\<lparr>fsm := IDLE, calls := calls s2 @ [Inclusion_send_done True, Send_done_event 0]\<rparr>" and M: "ms = [p]" and T': "t' = t2"
    using res f3 dl unfolding s2_first_message_def Let_def s1_def [symmetric] g1
    by (simp_all add: t1_def [symmetric] g2 [simplified] s2_def [symmetric, simplified] g3 t2_def [symmetric] T
        S2_send_frame_done_notify_def S2_fsm_post_event_def fsm_step_def fsm_sending_def fsm_send_done_def S2_post_send_done_event_def fsm_delayed_def)
  have jl: "j < length (span_table t1)" using span_at_less [OF j1] .
  have jt: "span_at t' con' j"
    using span_at_upd [OF j1, of "\<lambda>e. e\<lparr>span_rx_seq := tx + 1, span_class := c, span_d := rng_bytes (snd g), span_status := SPAN_NEGOTIATED\<rparr>"] span_at_ids [OF j1]
    by (simp add: T' T span_at_def upd_span_def)
  have "shared_keys s' t' c" using sk1 k3 by (simp add: S T' T shared_keys_def same_net_def sg_of_def key_loaded_def)
  moreover have "span_at s' con i" using i3 by (simp add: S span_at_def)
  ultimately have "linked con con' c s' t'"
    unfolding linked_def using jt c3 n3 cl3 d3 x3 jl w ft1
    by (intro conjI exI [of _ i] exI [of _ j]) (simp_all add: S T' T calm_def S2_is_node_mos_def delayed_count_def)
  then show ?thesis using M by simp
qed

end
