(* ===== verification/S2_Examples.thy ===== *)
theory S2_Examples
  imports S2_Receive
begin

text \<open>Contexts of Security 2 for the examples of the theories that follow, as the code sets them up.\<close>

text \<open>Two contexts with the same key for the unauthenticated class.\<close>

definition demo_keystore :: "u8 \<Rightarrow> u8 list option" where
  "demo_keystore k = (if k = 0x01 then Some (replicate 16 7) else None)"

definition demo_drbg :: "u8 \<Rightarrow> ctr_drbg_ctx" where
  "demo_drbg n = \<lparr>ctx_df = 0, ctx_v = replicate 16 n, ctx_k = replicate 16 n\<rparr>"

definition demo_env :: s2_env where
  "demo_env = \<lparr>accepts = (\<lambda>_. True), commands_supported = (\<lambda>_ _. []), nls_node_list = (\<lambda>_ _ _. (False, False, 0, 0, False)), nls_report_ok = (\<lambda>_. False)\<rparr>"

definition demo_s2 :: "u8 \<Rightarrow> s2" where
  "demo_s2 n = S2_init_ctx 0xC0FFEE00 demo_keystore (demo_drbg n)"

lemma demo_s2_state:
  "span_table (demo_s2 n) = replicate 254 zero_span" "fsm (demo_s2 n) = IDLE" "loaded_keys (demo_s2 n) = 1" "my_home_id (demo_s2 n) = 0xC0FFEE00"
  "sg (demo_s2 n) = (replicate 7 \<lparr>ccm_key = replicate 16 0, nonce_pstring = replicate 32 0, mpan_key = replicate 16 0\<rparr>)[0 := networkkey_expand (replicate 16 7)]"
  "cur_mpan (demo_s2 n) = None" "mos_list (demo_s2 n) = replicate 3 (0, 0)" "workbuf (demo_s2 n) = replicate 1302 0" "delayed_count (demo_s2 n) = 0"
  "mpan_table (demo_s2 n) = replicate MPAN_TABLE_SIZE zero_mpan" "calls (demo_s2 n) = []"
  by (simp_all add: demo_s2_def S2_init_ctx_def s2_restore_keys_def m_key_slot_pair_def demo_keystore_def S2_network_key_update_def delayed_count_def)

lemma key_loaded_demo: "key_loaded (demo_s2 n) c \<longleftrightarrow> c = 0"
  by (simp add: key_loaded_def demo_s2_state bit_1_iff unat_eq_0)

end
