(* ===== verification/S2_Channel.thy ===== *)
theory S2_Channel
  imports S2_Handshake S2_Examples
begin

text \<open>
  A conversation over Security 2: what is sent arrives, in order. The interface of a channel between two ends asks for
  one message; any sequence of messages follows.
\<close>

section \<open>Channels\<close>

text \<open>The messages that arrive when one end sends a sequence of messages and each is delivered before the next is sent.\<close>

primrec carry :: "('m \<Rightarrow> 's \<Rightarrow> 'f \<times> 's) \<Rightarrow> ('f \<Rightarrow> 't \<Rightarrow> 'm list \<times> 't) \<Rightarrow> 'm list \<Rightarrow> 's \<Rightarrow> 't \<Rightarrow> 'm list \<times> 's \<times> 't" where
  "carry send receive [] s t = ([], s, t)"
| "carry send receive (m # ms) s t = (let (f, s) = send m s; (d, t) = receive f t; (r, s, t) = carry send receive ms s t in (d @ r, s, t))"

locale message_channel =
  fixes ok :: "'m \<Rightarrow> bool"
    and joined :: "'s \<Rightarrow> 't \<Rightarrow> bool"
    and send :: "'m \<Rightarrow> 's \<Rightarrow> 'f \<times> 's"
    and receive :: "'f \<Rightarrow> 't \<Rightarrow> 'm list \<times> 't"
  assumes one_message: "joined s t \<Longrightarrow> ok m \<Longrightarrow> send m s = (f, s') \<Longrightarrow> receive f t = (d, t') \<Longrightarrow> d = [m] \<and> joined s' t'"
begin

lemma carry_all:
  assumes "joined s t" and "\<forall>m \<in> set ms. ok m"
  shows "fst (carry send receive ms s t) = ms \<and> joined (fst (snd (carry send receive ms s t))) (snd (snd (carry send receive ms s t)))"
  using assms
proof (induction ms arbitrary: s t)
  case (Cons m ms)
  obtain f s' where s: "send m s = (f, s')" by fastforce
  obtain d t' where t: "receive f t = (d, t')" by fastforce
  have "d = [m] \<and> joined s' t'" using one_message [OF Cons.prems(1) _ s t] Cons.prems(2) by simp
  then show ?case using Cons.IH [of s' t'] Cons.prems(2) s t by (simp add: case_prod_beta Let_def)
qed simp

lemma carry_prefix:
  assumes "joined s t" and "\<forall>m \<in> set (ms @ ms'). ok m"
  shows "fst (carry send receive ms s t) = take (length ms) (fst (carry send receive (ms @ ms') s t))"
  using carry_all [OF assms(1), of ms] carry_all [OF assms] assms(2) by simp

end

section \<open>Security 2 as a channel\<close>

text \<open>An end is its environment, its connection to the other end and its context.\<close>

type_synonym s2_end = "s2_env \<times> s2_connection \<times> s2"

definition ends_linked :: "s2_end \<Rightarrow> s2_end \<Rightarrow> bool" where
  "ends_linked a b = (case (a, b) of ((env, con, s), (env', con', t)) \<Rightarrow>
     linked con con' (class_id con) s t \<and> (\<forall>cs. accepts env cs) \<and> l_node con' = r_node con \<and> r_node con' = l_node con \<and>
     tx_options con AND S2_TXOPTION_VERIFY_DELIVERY = 0 \<and> rx_options con' AND S2_RXOPTION_MULTICAST = 0)"

definition end_send :: "u8 list \<Rightarrow> s2_end \<Rightarrow> u8 list list \<times> s2_end" where
  "end_send p = (\<lambda>(env, con, s). case s2_transmit env con p s of (frs, s) \<Rightarrow> (frs, env, con, s))"

definition end_receive :: "u8 list list \<Rightarrow> s2_end \<Rightarrow> u8 list list \<times> s2_end" where
  "end_receive frs = (\<lambda>(env, con, t). case s2_deliver env con frs t of (ms, t) \<Rightarrow> (ms, env, con, t))"

interpretation s2_channel: message_channel message_ok ends_linked end_send end_receive
proof
  fix a b p frs a' ms b'
  assume j: "ends_linked a b" and p: "message_ok p" and s: "end_send p a = (frs, a')" and r: "end_receive frs b = (ms, b')"
  obtain env con u where a: "a = (env, con, u)" by (cases a)
  obtain env' con' t where b: "b = (env', con', t)" by (cases b)
  obtain u' where 1: "s2_transmit env con p u = (frs, u')" "a' = (env, con, u')" using s by (auto simp: a end_send_def split: prod.splits)
  obtain t' where 2: "s2_deliver env' con' frs t = (ms, t')" "b' = (env', con', t')" using r by (auto simp: b end_receive_def split: prod.splits)
  have "ms = [p] \<and> linked con con' (class_id con) u' t'"
    using linked_step [OF _ _ _ refl _ _ p _ 1(1) 2(1)] j by (auto simp: a b ends_linked_def)
  then show "ms = [p] \<and> ends_linked a' b'" using j by (auto simp: a b 1(2) 2(2) ends_linked_def)
qed

section \<open>A conversation\<close>

text \<open>The first message with the exchange of nonces, then the rest.\<close>

fun s2_conversation :: "s2_env \<Rightarrow> s2_env \<Rightarrow> s2_connection \<Rightarrow> s2_connection \<Rightarrow> u8 list list \<Rightarrow> s2 \<Rightarrow> s2 \<Rightarrow> u8 list list" where
  "s2_conversation env env' con con' [] s t = []"
| "s2_conversation env env' con con' (p # ps) s t = (case s2_first_message env env' con con' p s t of
     (ms, s, t) \<Rightarrow> ms @ fst (carry end_send end_receive ps (env, con, s) (env', con', t)))"

text \<open>
  C10. Two contexts that have not met, of the same network, with the keys of one class in common and the receiver with no other key, a
  first message of up to 1272 bytes and further ones of up to 1280: all messages reach the application of the
  receiver, in order and unchanged.
\<close>

theorem s2_messages_delivered:
  assumes "stranger con s" and "stranger con' t" and "calm con s" and "fsm s = IDLE" and "fsm t = IDLE" and "length (workbuf t) = 1302"
    and "l_node con' = r_node con" and "r_node con' = l_node con" and "class_id con = c"
    and "tx_options con AND S2_TXOPTION_VERIFY_DELIVERY = 0" and "rx_options con' AND S2_RXOPTION_MULTICAST = 0"
    and "\<forall>p \<in> set ps. message_ok p" and "ps \<noteq> [] \<Longrightarrow> length (hd ps) \<le> 1272" and "\<forall>cs. accepts env cs"
    and "shared_keys s t c" and "\<forall>c'. c' \<noteq> c \<longrightarrow> \<not> key_loaded t c'"
  shows "s2_conversation env env' con con' ps s t = ps"
proof (cases ps)
  case (Cons p qs)
  obtain ms s' t' where r: "s2_first_message env env' con con' p s t = (ms, s', t')" by (metis surj_pair)
  have p: "message_ok p" "length p \<le> 1272" "\<forall>q \<in> set qs. message_ok q" using assms(12,13) Cons by auto
  have "ms = [p] \<and> linked con con' c s' t'"
    by (rule first_contact [OF assms(1-11) p(1,2) _ assms(15) _ r]) (use assms(14,16) in auto)
  then have "ms = [p]" "ends_linked (env, con, s') (env', con', t')" using assms by (auto simp: ends_linked_def)
  then show ?thesis using s2_channel.carry_all [OF _ p(3)] r Cons by simp
qed simp

theorem s2_messages_delivered_witness:
  "s2_conversation demo_env demo_env (zero_peer\<lparr>l_node := 1, r_node := 2\<rparr>) (zero_peer\<lparr>l_node := 2, r_node := 1\<rparr>)
     [[0x25, 0x01, 0xFF], [0x25, 0x02]] (demo_s2 1) (demo_s2 2) = [[0x25, 0x01, 0xFF], [0x25, 0x02]]"
proof (rule s2_messages_delivered [where c = 0])
  show "shared_keys (demo_s2 1) (demo_s2 2) 0" by (simp add: shared_keys_def demo_s2_state sg_of_def key_loaded_demo)
  show "\<forall>c'. c' \<noteq> 0 \<longrightarrow> \<not> key_loaded (demo_s2 2) c'" by (simp add: key_loaded_demo)
qed (simp_all add: stranger_def calm_def demo_s2_state zero_peer_def zero_span_def S2_is_node_mos_def list_ex_iff message_ok_def demo_env_def)

end
