(* ===== verification/S2_Transmissions.thy ===== *)
theory S2_Transmissions
  imports S2_Examples
begin

text \<open>
  The account of transmissions: each one that the machine accepts is reported exactly once, and a report is never given
  without one. Frames that are sent later, because the machine was busy when they were due, count as well.
\<close>

section \<open>Reports\<close>

fun is_done :: "s2_call \<Rightarrow> bool" where
  "is_done (Send_done_event _) = True"
| "is_done _ = False"

definition dones :: "s2 \<Rightarrow> nat" where
  "dones s = length (filter is_done (calls s))"

definition busy :: "s2 \<Rightarrow> nat" where
  "busy s = of_bool (S2_is_send_data_busy s)"

text \<open>Reported, under way, and waiting to be sent.\<close>

definition account :: "s2 \<Rightarrow> nat" where
  "account s = dones s + busy s + delayed_count s"

lemma dones_upd [simp]:
  "dones (s\<lparr>fsm := a\<rparr>) = dones s" "dones (s\<lparr>retry := r\<rparr>) = dones s" "dones (s\<lparr>peer := c\<rparr>) = dones s" "dones (s\<lparr>buf := b\<rparr>) = dones s"
  "dones (s\<lparr>buf_length := l\<rparr>) = dones s" "dones (s\<lparr>cur_mpan := m\<rparr>) = dones s" "dones (s\<lparr>workbuf := w\<rparr>) = dones s" "dones (s\<lparr>mos_list := ml\<rparr>) = dones s"
  "dones (s\<lparr>undefined_c := u\<rparr>) = dones s" "dones (s\<lparr>s2_ctr_drbg := g\<rparr>) = dones s" "dones (s\<lparr>span_table := sp\<rparr>) = dones s" "dones (s\<lparr>mpan_table := mp\<rparr>) = dones s"
  "dones (s\<lparr>send_nls_node_list_get := fg\<rparr>) = dones s" "dones (s\<lparr>send_nls_node_list_report := fr\<rparr>) = dones s" "dones (s\<lparr>cache_first := c1\<rparr>) = dones s"
  "dones (s\<lparr>cache_node_id := cn\<rparr>) = dones s" "dones (s\<lparr>cache_granted_keys := cg\<rparr>) = dones s" "dones (s\<lparr>cache_nls_state := cs\<rparr>) = dones s"
  by (simp_all add: dones_def)

lemma dones_call: "dones (s\<lparr>calls := cs @ [c]\<rparr>) = length (filter is_done cs) + of_bool (is_done c)"
  and dones_calls [simp]: "dones (s\<lparr>calls := cs\<rparr>) = length (filter is_done cs)"
  and dones_fold [simp]: "length (filter is_done (calls s)) = dones s"
  by (simp_all add: dones_def)

lemma dones_simps [simp]:
  "dones (check b s) = dones s" "dones (upd_span i f s) = dones s" "dones (upd_mpan j g s) = dones s"
  by (simp_all add: check_def upd_span_def upd_mpan_def)

lemma dones_random16 [simp]: "dones (snd (random16 s)) = dones s"
  by (simp add: random16_def case_prod_beta)

lemma dones_find_span [simp]: "dones (snd (find_span_by_node s con)) = dones s"
  by (simp add: find_span_by_node_def Let_def case_prod_beta split: option.split)

lemma dones_find_mpan [simp]: "dones (snd (find_mpan_by_group_id s owner gid create)) = dones s"
  by (simp add: find_mpan_by_group_id_def Let_def case_prod_beta split: option.split)

lemma dones_verify_seq [simp]: "dones (snd (S2_verify_seq s con q)) = dones s"
  by (simp add: S2_verify_seq_def case_prod_beta)

lemma dones_span_ok [simp]: "dones (snd (S2_span_ok s con)) = dones s"
  by (simp add: S2_span_ok_def case_prod_beta Let_def)

lemma dones_send_raw [simp]: "dones (snd (S2_send_raw env fr s)) = dones s"
  by (simp add: S2_send_raw_def S2_send_frame_def Let_def case_prod_beta split: bool.split)

lemma dones_nonce [simp]: "dones (snd (S2_send_nonce_get env s)) = dones s" "dones (S2_send_nonce_report con fl s) = dones s"
  by (simp_all add: S2_send_nonce_get_def S2_send_nonce_report_def Let_def case_prod_beta)

lemma dones_set_node_mos [simp]: "dones (S2_set_node_mos n s) = dones s"
  by (simp add: S2_set_node_mos_def split: option.split)

lemma dones_register [simp]: "dones (snd (S2_register_nonce b s)) = dones s"
proof -
  obtain ok s1 where 1: "S2_verify_seq (check (2 < length b) s) (peer s) (b ! 2) = (ok, s1)" by fastforce
  then have "dones s1 = dones s" using dones_verify_seq [of "check (2 < length b) s" "peer s" "b ! 2"] by simp
  then show ?thesis by (cases ok) (simp_all add: S2_register_nonce_def 1 Let_def case_prod_beta)
qed

lemma dones_extensions [simp]:
  "dones (snd (sn_extension i s)) = dones s" "dones (snd (mgrp_extension s)) = dones s" "dones (snd (mos_extension s)) = dones s"
  by (simp_all add: sn_extension_def mgrp_extension_def mos_extension_def Let_def case_prod_beta split: option.split)

lemma dones_mpan_extensions: "dones (snd (snd (snd (fold (mpan_extension b) is (k, p, m, s))))) = dones s"
proof (induction "is" arbitrary: k p m s)
  case (Cons i "is")
  obtain k' p' m' s' where 1: "mpan_extension b i (k, p, m, s) = (k', p', m', s')" by (metis surj_pair)
  obtain j s1 where 2: "find_mpan_by_group_id s 0 (snd (mos_list s ! i)) False = (j, s1)" by fastforce
  have "dones s1 = dones s" using dones_find_mpan [of s 0 "snd (mos_list s ! i)" False] 2 by simp
  then have "dones s' = dones s" using 1 by (auto simp: mpan_extension_def 2 split: option.splits if_splits)
  then show ?case using Cons [of k' p' m' s'] 1 by simp
qed simp

lemma dones_add_mpan [simp]: "dones (snd (snd (S2_add_mpan_extensions b m s))) = dones s"
  using dones_mpan_extensions [of b "[0..<3]" 0 0 m s]
  by (simp add: S2_add_mpan_extensions_def Let_def case_prod_beta)

lemma dones_encrypt [simp]: "dones (snd (S2_encrypt_and_send env s)) = dones s"
  by (simp only: S2_encrypt_and_send_def Let_def case_prod_beta dones_send_raw dones_upd dones_simps dones_add_mpan dones_extensions dones_find_span)

lemma dones_encrypt_multi [simp]: "dones (snd (S2_encrypt_and_send_multi env j s)) = dones s"
  by (simp only: S2_encrypt_and_send_multi_def Let_def snd_conv dones_call dones_fold is_done.simps of_bool_eq add_0_right dones_upd dones_simps)

section \<open>Steady functions of the machine\<close>

lemma steady_verify_seq [simp]: "steady (snd (S2_verify_seq s con q)) = steady s"
  by (simp add: S2_verify_seq_def case_prod_beta)

lemma steady_span_ok [simp]: "steady (snd (S2_span_ok s con)) = steady s"
  by (simp add: S2_span_ok_def case_prod_beta Let_def)

lemma steady_nonce [simp]: "steady (snd (S2_send_nonce_get env s)) = steady s" "steady (S2_send_nonce_report con fl s) = steady s"
  by (simp_all add: S2_send_nonce_get_def S2_send_nonce_report_def Let_def case_prod_beta)

lemma steady_set_node_mos [simp]: "steady (S2_set_node_mos n s) = steady s"
  by (simp add: S2_set_node_mos_def split: option.split)

lemma steady_register [simp]: "steady (snd (S2_register_nonce b s)) = steady s"
proof -
  obtain ok s1 where 1: "S2_verify_seq (check (2 < length b) s) (peer s) (b ! 2) = (ok, s1)" by fastforce
  then have "steady s1 = steady s" using steady_verify_seq [of "check (2 < length b) s" "peer s" "b ! 2"] by simp
  then show ?thesis by (cases ok) (simp_all add: S2_register_nonce_def 1 Let_def case_prod_beta)
qed

lemma steady_encrypt_multi [simp]: "steady (snd (S2_encrypt_and_send_multi env j s)) = steady s"
  unfolding S2_encrypt_and_send_multi_def Let_def snd_conv steady_upd steady_simps ..

lemma steady_account:
  assumes "steady s = steady t" and "dones s = dones t"
  shows "account s = account t"
  unfolding account_def busy_def S2_is_send_data_busy_def assms(2) steadyD(7) [OF assms(1)] steady_delayed_count [OF assms(1)] ..

lemma account_encrypt [simp]: "account (snd (S2_encrypt_and_send env s)) = account s"
  by (rule steady_account) simp_all

section \<open>The law\<close>

text \<open>The machine is never in the state \<^verbatim>\<open>SENDING_MULTICAST\<close>, which no transition enters.\<close>

lemma account_done:
  assumes "fsm s \<noteq> IDLE" "fsm s \<noteq> IS_MOS_WAIT_REPLY"
  shows "account (S2_post_send_done_event st (s\<lparr>fsm := IDLE\<rparr>)) = account s"
    "account (S2_post_send_done_event st (s\<lparr>fsm := IDLE, calls := calls s @ [Stop_timeout]\<rparr>)) = account s"
  using assms
  by (simp_all add: account_def busy_def S2_is_send_data_busy_def S2_post_send_done_event_def delayed_count_def)

lemma account_delayed:
  assumes "fsm_delayed s = (s', again)" and "fsm s = IDLE"
  shows "account s' + of_bool again = account s" "fsm s' = IDLE"
  using assms
  by (auto simp: fsm_delayed_def account_def busy_def S2_is_send_data_busy_def delayed_count_def Let_def split: if_splits)

lemma fsm_post [simp]: "fsm (S2_post_send_done_event st s) = fsm s"
  by (simp add: S2_post_send_done_event_def)

lemma account_calls:
  assumes "\<not> is_done c" shows "account (s\<lparr>calls := calls s @ [c]\<rparr>) = account s"
  using assms by (simp add: account_def busy_def S2_is_send_data_busy_def delayed_count_def)

text \<open>
  \<open>balanced n s r\<close>: when the result \<open>r\<close> of a handler in the state \<open>s\<close> has been carried on with \<^verbatim>\<open>send_msg_state_enter\<close>
  where it asks for that, \<open>n\<close> transmissions have been added to the account.
\<close>

definition balanced :: "nat \<Rightarrow> s2 \<Rightarrow> s2 \<times> bool \<Rightarrow> bool" where
  "balanced n s r \<longleftrightarrow> fsm (fst r) \<noteq> SENDING_MULTICAST \<and>
     account (fst r) + of_bool (snd r \<and> \<not> S2_is_send_data_busy (fst r)) = account s + n"

lemma balanced_send_done:
  assumes "fsm s \<noteq> SENDING_MULTICAST"
  shows "balanced 0 s (fsm_send_done status time s)"
proof (cases "fsm s")
  case SENDING_MSG
  obtain s' again where 1: "fsm_delayed (S2_post_send_done_event status (s\<lparr>fsm := IDLE\<rparr>)) = (s', again)" by fastforce
  have "account s' + of_bool again = account s" "fsm s' = IDLE"
    using account_delayed [OF 1] account_done(1) [of s status] SENDING_MSG by simp_all
  then show ?thesis by (cases again) (simp_all add: fsm_send_done_def balanced_def SENDING_MSG 1 S2_is_send_data_busy_def)
qed (use assms in \<open>auto simp: fsm_send_done_def balanced_def account_calls account_done\<close>)

lemma account_begin:
  "account (send_msg_begin s) = account s + of_bool (\<not> S2_is_send_data_busy s)"
  "S2_is_send_data_busy (send_msg_begin s)" "fsm (send_msg_begin s) \<noteq> SENDING_MULTICAST"
  by (simp_all add: send_msg_begin_def account_def busy_def S2_is_send_data_busy_def delayed_count_def)

lemma account_retry: "account (s\<lparr>retry := r\<rparr>) = account s"
  by (simp add: account_def busy_def S2_is_send_data_busy_def delayed_count_def)

lemma send_msg_state_enter_account:
  "fsm (send_msg_state_enter env s) \<noteq> SENDING_MULTICAST \<and>
   account (send_msg_state_enter env s) = account s + of_bool (\<not> S2_is_send_data_busy s)"
proof (induction env s rule: send_msg_state_enter.induct)
  case (1 env s)
  obtain ok t where t: "S2_encrypt_and_send env (send_msg_begin s) = (ok, t)" by fastforce
  have a: "account t = account s + of_bool (\<not> S2_is_send_data_busy s)" and f: "fsm t \<noteq> SENDING_MULTICAST"
    using account_encrypt [of env "send_msg_begin s"] steadyD(7) [OF steady_encrypt [of env "send_msg_begin s"]]
      account_begin [of s] by (simp_all add: t)
  obtain u again where u: "fsm_send_done S2_TRANSMIT_COMPLETE_FAIL 0 t = (u, again)" by fastforce
  have b: "fsm u \<noteq> SENDING_MULTICAST" "account u + of_bool (again \<and> \<not> S2_is_send_data_busy u) = account t"
    using balanced_send_done [OF f, of S2_TRANSMIT_COMPLETE_FAIL 0] by (simp_all add: u balanced_def)
  show ?case
  proof (cases "\<not> ok \<and> again")
    case True
    then show ?thesis using 1 [OF t [symmetric] _ u [symmetric]] a b
      by (subst (1 2) send_msg_state_enter.simps) (simp add: t u account_retry Let_def)
  next
    case False
    then show ?thesis using a b f
      by (cases ok) (subst (1 2) send_msg_state_enter.simps, simp add: t u account_retry)+
  qed
qed

lemma balanced_enter:
  assumes "balanced n s r"
  shows "account (if snd r then send_msg_state_enter env (fst r) else fst r) = account s + n"
    "fsm (if snd r then send_msg_state_enter env (fst r) else fst r) \<noteq> SENDING_MULTICAST"
  using assms send_msg_state_enter_account [of env "fst r"] by (auto simp: balanced_def)

text \<open>What an event adds: a frame that is handed to the machine while it is free.\<close>

definition taken :: "s2_event \<Rightarrow> s2 \<Rightarrow> bool" where
  "taken e s \<longleftrightarrow> \<not> S2_is_send_data_busy s \<and> (case e of SEND_MSG _ _ \<Rightarrow> True | SEND_MULTICAST _ _ \<Rightarrow> True | _ \<Rightarrow> False)"

lemma account_set_peer [simp]: "account (S2_set_peer con b s) = account s" "fsm (S2_set_peer con b s) = fsm s"
  by (simp_all add: S2_set_peer_def account_def busy_def S2_is_send_data_busy_def delayed_count_def)

lemma account_event [simp]: "account (emit_S2_synchronization_event con b s) = account s" "fsm (emit_S2_synchronization_event con b s) = fsm s"
  by (simp_all add: emit_S2_synchronization_event_def check_def account_def busy_def S2_is_send_data_busy_def delayed_count_def)

lemma steady_accountI: "steady s = steady t \<Longrightarrow> dones s = dones t \<Longrightarrow> account s = account t \<and> fsm s = fsm t"
  using steady_account [of s t] steadyD(7) [of s t] by blast

lemmas account_parts =
  steady_accountI [OF steady_span_ok dones_span_ok] steady_accountI [OF steady_verify_seq dones_verify_seq]
  steady_accountI [OF steady_register dones_register] steady_accountI [OF steady_find_mpan dones_find_mpan]
  steady_accountI [OF steady_nonce(1) dones_nonce(1)] steady_accountI [OF steady_nonce(2) dones_nonce(2)]
  steady_accountI [OF steady_encrypt_multi dones_encrypt_multi]

lemma balanced_after_raw:
  assumes "fsm s \<noteq> SENDING_MULTICAST" and "account (snd r) = account s + n \<and> fsm (snd r) = fsm s"
  shows "balanced n s (after_raw r)"
  using assms balanced_send_done [of "snd r" S2_TRANSMIT_COMPLETE_FAIL 0] by (simp add: after_raw_def balanced_def)

lemma balanced_idle_send:
  assumes "\<not> S2_is_send_data_busy s"
  shows "balanced 1 s (fsm_s2_idle env (SEND_MSG con b) s)"
proof -
  obtain ok t where t: "S2_span_ok s con = (ok, t)" by fastforce
  have a: "account t = account s" "fsm t = fsm s" using account_parts(1) [of s con] by (simp_all add: t)
  show ?thesis
  proof (cases ok)
    case True
    then show ?thesis using a assms by (auto simp: fsm_s2_idle_def t balanced_def account_retry S2_is_send_data_busy_def)
  next
    case False
    define u where "u = S2_set_peer con b (t\<lparr>fsm := WAIT_NONCE_RAPORT, retry := 2\<rparr>)"
    have u: "account u = account s + 1" "fsm u = WAIT_NONCE_RAPORT"
      using a assms by (simp_all add: u_def account_def busy_def S2_is_send_data_busy_def delayed_count_def S2_set_peer_def)
    have "balanced 0 u (after_raw (S2_send_nonce_get env u))"
      using account_parts(5) [of env u] u by (intro balanced_after_raw) simp_all
    moreover have "\<not> snd (after_raw (S2_send_nonce_get env u))"
      using account_parts(5) [of env u] u by (auto simp: after_raw_def fsm_send_done_def split: if_splits)
    ultimately show ?thesis using False u
      by (simp add: fsm_s2_idle_def t u_def [symmetric] Let_def balanced_def account_calls)
  qed
qed

lemma find_mpan_create: "fst (find_mpan_by_group_id s owner gid True) \<noteq> None"
  by (simp add: find_mpan_by_group_id_def Let_def case_prod_beta split: option.split)

lemma balanced_idle_multicast:
  assumes "\<not> S2_is_send_data_busy s"
  shows "balanced 1 s (fsm_s2_idle env (SEND_MULTICAST con b) s)"
proof -
  obtain m t where t: "find_mpan_by_group_id (S2_set_peer con b s) 0 (ucast (r_node con)) True = (m, t)" by fastforce
  then obtain j where j: "m = Some j" using find_mpan_create [of "S2_set_peer con b s" 0 "ucast (r_node con)"] by auto
  have a: "account t = account s" "fsm t = fsm s" using account_parts(4) [of "S2_set_peer con b s" 0 "ucast (r_node con)" True] by (simp_all add: t)
  define u where "u = t\<lparr>cur_mpan := Some j, fsm := SENDING_MSG\<rparr>"
  have u: "account u = account s + 1" "fsm u = SENDING_MSG"
    using a assms by (simp_all add: u_def account_def busy_def S2_is_send_data_busy_def delayed_count_def)
  have "balanced 0 u (after_raw (S2_encrypt_and_send_multi env j u))"
    using account_parts(7) [of env j u] u by (intro balanced_after_raw) simp_all
  then show ?thesis using u by (simp add: fsm_s2_idle_def t j u_def [symmetric] balanced_def)
qed

lemma account_idle [simp]:
  assumes "\<not> S2_is_send_data_busy s" "f = IDLE \<or> f = IS_MOS_WAIT_REPLY"
  shows "account (s\<lparr>fsm := f\<rparr>) = account s" "account (s\<lparr>cur_mpan := m, fsm := f\<rparr>) = account s"
  using assms by (auto simp: account_def busy_def S2_is_send_data_busy_def delayed_count_def)

lemma balanced_idle_nonce_get:
  assumes "\<not> S2_is_send_data_busy s" "fsm s \<noteq> SENDING_MULTICAST"
  shows "balanced 0 s (fsm_s2_idle env (GOT_NONCE_GET con b) s)"
proof -
  obtain ok t where t: "S2_verify_seq s con (b ! 2) = (ok, t)" by fastforce
  have "account t = account s" "fsm t = fsm s" using account_parts(2) [of s con "b ! 2"] by (simp_all add: t)
  then show ?thesis using assms by (simp add: fsm_s2_idle_def t balanced_def account_parts)
qed

lemma balanced_idle_other:
  assumes "\<not> S2_is_send_data_busy s" "\<not> taken e s" "fsm s \<noteq> SENDING_MULTICAST"
  shows "balanced 0 s (fsm_s2_idle env e s)"
proof (cases e)
  case (GOT_NONCE_GET con b)
  then show ?thesis using balanced_idle_nonce_get [OF assms(1,3)] by simp
next
  case (SEND_DONE st time)
  then show ?thesis using balanced_send_done [OF assms(3)] by (simp add: fsm_s2_idle_def)
next
  case (GOT_ENC_MSG_MOS con)
  have "account ((S2_set_peer con [] (call (Set_timeout 10) s))\<lparr>fsm := IS_MOS_WAIT_REPLY\<rparr>) = account s"
    using assms(1) by (simp add: S2_set_peer_def account_def busy_def S2_is_send_data_busy_def delayed_count_def)
  then show ?thesis using GOT_ENC_MSG_MOS by (simp add: fsm_s2_idle_def balanced_def)
qed (use assms in \<open>simp_all add: fsm_s2_idle_def balanced_def taken_def account_parts\<close>)

lemma balanced_wait:
  assumes "fsm s = WAIT_NONCE_RAPORT"
  shows "balanced 0 s (fsm_wait_nonce e s)"
proof (cases e)
  case (GOT_NONCE_REPORT con b)
  obtain flag t where t: "S2_register_nonce b s = (flag, t)" by fastforce
  have "account t = account s" "fsm t = fsm s" using account_parts(3) [of b s] by (simp_all add: t)
  then show ?thesis using assms GOT_NONCE_REPORT by (simp add: fsm_wait_nonce_def t balanced_def S2_is_send_data_busy_def)
next
  case (SEND_DONE st time)
  then show ?thesis using balanced_send_done [of s] assms by (simp add: fsm_wait_nonce_def)
qed (use assms in \<open>simp_all add: fsm_wait_nonce_def balanced_def account_done\<close>)

lemma balanced_sending:
  assumes "fsm s = SENDING_MSG"
  shows "balanced 0 s (fsm_sending e s)"
  using assms balanced_send_done [of s] by (cases e) (simp_all add: fsm_sending_def balanced_def)

lemma account_buf: "account (s\<lparr>buf_length := l\<rparr>) = account s" "account (s\<lparr>buf_length := l, peer := p\<rparr>) = account s"
  by (simp_all add: account_def busy_def S2_is_send_data_busy_def delayed_count_def)

lemma balanced_verifying:
  assumes "fsm s = VERIFYING_DELIVERY"
  shows "balanced 0 s (fsm_verifying e s)"
proof (cases e)
  case (GOT_NONCE_REPORT con b)
  obtain flag t where t: "S2_register_nonce b s = (flag, t)" by fastforce
  have "account t = account s" "fsm t = fsm s" using account_parts(3) [of b s] by (simp_all add: t)
  moreover define u where "u = (if flag = MOS_BIT_MASK then t\<lparr>buf_length := 0\<rparr> else t)"
  ultimately have "account u = account s" "fsm u = VERIFYING_DELIVERY" using assms by (simp_all add: account_buf)
  then show ?thesis using assms GOT_NONCE_REPORT account_done [of u] \<open>account t = account s\<close> \<open>fsm t = fsm s\<close>
    by (simp add: fsm_verifying_def t Let_def u_def [symmetric] balanced_def S2_is_send_data_busy_def)
next
  case (SEND_DONE st time)
  then show ?thesis using balanced_send_done [of s] assms by (simp add: fsm_verifying_def)
next
  case (GOT_ENC_MSG con)
  then show ?thesis using assms account_done [of s]
    by (simp add: fsm_verifying_def balanced_def S2_is_send_data_busy_def account_buf)
qed (use assms in \<open>simp_all add: fsm_verifying_def balanced_def account_done\<close>)

lemma balanced_step:
  assumes "fsm s \<noteq> SENDING_MULTICAST"
  shows "balanced (of_bool (taken e s)) s (fsm_step env e s)"
proof (cases "S2_is_send_data_busy s")
  case False
  then have "fsm_step env e s = fsm_s2_idle env e s" by (auto simp: S2_is_send_data_busy_def fsm_step_def split: s2_state.split)
  then show ?thesis
    using balanced_idle_other [OF False _ assms, of e env] balanced_idle_send [OF False] balanced_idle_multicast [OF False]
    by (cases e) (simp_all add: taken_def False)
next
  case True
  then have "\<not> taken e s" by (simp add: taken_def)
  then show ?thesis using True assms balanced_wait [of s e] balanced_sending [of s e] balanced_verifying [of s e]
    by (cases "fsm s") (simp_all add: fsm_step_def S2_is_send_data_busy_def)
qed

lemma S2_fsm_post_event_account:
  assumes "fsm s \<noteq> SENDING_MULTICAST"
  shows "account (S2_fsm_post_event env e s) = account s + of_bool (taken e s)"
    "fsm (S2_fsm_post_event env e s) \<noteq> SENDING_MULTICAST"
  using balanced_enter [OF balanced_step [OF assms]] by (simp_all add: S2_fsm_post_event_def case_prod_beta)

section \<open>Runs of the machine\<close>

fun run :: "s2_env \<Rightarrow> s2_event list \<Rightarrow> s2 \<Rightarrow> s2" where
  "run env [] s = s"
| "run env (e # es) s = run env es (S2_fsm_post_event env e s)"

fun taken_count :: "s2_env \<Rightarrow> s2_event list \<Rightarrow> s2 \<Rightarrow> nat" where
  "taken_count env [] s = 0"
| "taken_count env (e # es) s = of_bool (taken e s) + taken_count env es (S2_fsm_post_event env e s)"

lemma run_account:
  assumes "fsm s \<noteq> SENDING_MULTICAST"
  shows "account (run env es s) = account s + taken_count env es s \<and> fsm (run env es s) \<noteq> SENDING_MULTICAST"
  using assms by (induction es arbitrary: s) (simp_all add: S2_fsm_post_event_account)

text \<open>
  C12. Whatever events reach the machine of Security 2 and whichever frames the radio refuses: the reports of completed
  transmissions, the transmission under way (at most one) and the delayed frames grow together by exactly the
  transmissions that are accepted. So no transmission is lost or reported twice, a machine that is free again with
  nothing delayed has reported each of them, and the machine never reaches the state
  \<^verbatim>\<open>SENDING_MULTICAST\<close>, for which it has no transition.
\<close>

theorem s2_transmissions_reported_once:
  assumes "fsm s \<noteq> SENDING_MULTICAST"
  shows "fsm (run env es s) \<noteq> SENDING_MULTICAST \<and>
    length (filter is_done (calls (run env es s))) + of_bool (S2_is_send_data_busy (run env es s))
      + of_bool (send_nls_node_list_get (run env es s)) + of_bool (send_nls_node_list_report (run env es s))
    = length (filter is_done (calls s)) + of_bool (S2_is_send_data_busy s)
      + of_bool (send_nls_node_list_get s) + of_bool (send_nls_node_list_report s) + taken_count env es s"
  using run_account [OF assms, of env es] by (simp add: account_def busy_def delayed_count_def)

text \<open>A frame is handed to a new context and refused or not: it is reported or under way.\<close>

theorem s2_transmissions_reported_once_witness:
  "length (filter is_done (calls (run demo_env [SEND_MSG zero_peer [0x20, 0x02], TIMEOUT] (demo_s2 1))))
    + of_bool (S2_is_send_data_busy (run demo_env [SEND_MSG zero_peer [0x20, 0x02], TIMEOUT] (demo_s2 1)))
    + of_bool (send_nls_node_list_get (run demo_env [SEND_MSG zero_peer [0x20, 0x02], TIMEOUT] (demo_s2 1)))
    + of_bool (send_nls_node_list_report (run demo_env [SEND_MSG zero_peer [0x20, 0x02], TIMEOUT] (demo_s2 1))) = Suc 0"
proof -
  have d: "\<not> send_nls_node_list_get (demo_s2 1)" "\<not> send_nls_node_list_report (demo_s2 1)" "dones (demo_s2 1) = 0"
    using demo_s2_state(9,11) [of 1] by (auto simp: delayed_count_def dones_def simp del: dones_fold)
  show ?thesis
    using s2_transmissions_reported_once [of "demo_s2 1" demo_env "[SEND_MSG zero_peer [0x20, 0x02], TIMEOUT]"]
    by (simp add: demo_s2_state taken_def S2_is_send_data_busy_def d del: run.simps)
qed

end
