(* ===== verification/S2_Multicast.thy ===== *)
theory S2_Multicast
  imports S2_Examples S2_Crypto_Properties
begin

text \<open>
  The nonces of multicast frames. The counter from which they come is added to from index 0 on, while the one is at
  index 15: the carry has nowhere to go, and the counter repeats after 256 frames.
\<close>

section \<open>The counter\<close>

lemma and_255: "(w :: u16) AND 255 = take_bit 8 w"
  by (simp add: take_bit_eq_mask mask_eq_exp_minus_1)

lemma bigint_add_zeros:
  assumes "length b = Suc n"
  shows "bigint_add b (replicate n 0 @ [1]) 0 = take n b @ [b ! n + 1]"
  using assms
proof (induction n arbitrary: b)
  case 0
  then obtain x where b: "b = [x]" by (cases b) auto
  have "ucast ((ucast x + 1 :: u16) AND 0xFF) = (ucast (ucast x + 1 :: u16) :: u8)"
    unfolding and_255 by (rule bit_word_eqI) (auto simp: bit_simps)
  also have "\<dots> = x + 1" by transfer (simp add: take_bit_eq_mod mod_mod_cancel mod_simps)
  finally have "ucast ((ucast x + 1 :: u16) AND 0xFF) = x + 1" .
  then show ?case by (simp add: b)
next
  case (Suc n)
  then obtain x c where b: "b = x # c" "length c = Suc n" by (cases b) auto
  have "(ucast x :: u16) AND 0xFF = ucast x" "drop_bit 8 (ucast x :: u16) = 0" "ucast (ucast x :: u16) = x"
    unfolding and_255 by (rule bit_word_eqI; auto simp: bit_simps dest: bit_imp_le_length)+
  then show ?case using Suc b by (simp add: Let_def)
qed

lemma next_mpan_state_last:
  assumes "length (mpan_inner_state m) = 16"
  shows "next_mpan_state m = m\<lparr>mpan_inner_state := (mpan_inner_state m)[15 := mpan_inner_state m ! 15 + 1]\<rparr>"
proof -
  have "bigint_add (mpan_inner_state m) (replicate 15 0 @ [1]) 0 = take 15 (mpan_inner_state m) @ [mpan_inner_state m ! 15 + 1]"
    by (rule bigint_add_zeros) (simp add: assms)
  then show ?thesis using assms by (simp add: next_mpan_state_def upd_conv_take_nth_drop)
qed

lemma next_mpan_state_power:
  assumes "length (mpan_inner_state m) = 16"
  shows "(next_mpan_state ^^ n) m = m\<lparr>mpan_inner_state := (mpan_inner_state m)[15 := mpan_inner_state m ! 15 + of_nat n]\<rparr>"
  using assms by (induction n) (simp_all add: next_mpan_state_last ac_simps)

lemma next_mpan_state_256:
  assumes "length (mpan_inner_state m) = 16"
  shows "(next_mpan_state ^^ 256) m = m"
proof -
  have "(of_nat 256 :: u8) = 0" by (subst word_unat_eq_iff) simp
  then show ?thesis using next_mpan_state_power [OF assms, of 256] by (simp del: of_nat_numeral)
qed

section \<open>Frames\<close>

text \<open>A multicast frame with the payload \<open>p\<close> by the entry \<open>j\<close>, and the frame that was handed to the radio.\<close>

definition multicast :: "s2_env \<Rightarrow> nat \<Rightarrow> s2 \<Rightarrow> u8 list \<Rightarrow> s2" where
  "multicast env j s p = snd (S2_encrypt_and_send_multi env j (s\<lparr>buf := p, buf_length := of_nat (length p)\<rparr>))"

definition last_frame :: "s2 \<Rightarrow> u8 list" where
  "last_frame s = (case last (calls s) of Send_frame_multi _ f _ \<Rightarrow> f | _ \<Rightarrow> [])"

definition multicast_head :: "s2 \<Rightarrow> nat \<Rightarrow> u8 list" where
  "multicast_head s j = [COMMAND_CLASS_SECURITY_2, SECURITY_2_MESSAGE_ENCAPSULATION, 0xFF, 1, 3,
     S2_MSG_EXTHDR_CRITICAL_FLAG OR S2_MSG_EXTHDR_TYPE_MGRP, mpan_group_id (mpan_table s ! j)]"

definition multicast_nonce :: "s2 \<Rightarrow> nat \<Rightarrow> u8 list" where
  "multicast_nonce s j = AES128_ECB_encrypt (mpan_inner_state (mpan_table s ! j)) (mpan_key (sg_of s (mpan_class_id (mpan_table s ! j))))"

lemma aad_check [simp]: "S2_make_aad (check b s) = S2_make_aad s"
  by (intro ext) (simp add: S2_make_aad_def check_def)

lemma check_fields [simp]:
  "buf (check b s) = buf s" "peer (check b s) = peer s" "mpan_table (check b s) = mpan_table s" "sg (check b s) = sg s"
  "workbuf (check b s) = workbuf s" "calls (check b s) = calls s" "my_home_id (check b s) = my_home_id s"
  by (simp_all add: check_def)

lemma last_frame_multicast:
  assumes "length p < 65536"
  shows "last_frame (multicast env j s p) = multicast_head s j @
    CCM_encrypt_and_auth (ccm_key (sg_of s (mpan_class_id (mpan_table s ! j)))) (multicast_nonce s j)
      (S2_make_aad s (l_node (peer s)) (r_node (peer s)) (multicast_head s j) 7 (length p + 7 + AUTH_TAG_LEN) 64) p"
proof -
  have "unat (of_nat (length p) :: u16) = length p" unfolding unat_of_nat using assms by simp
  then show ?thesis
    by (simp add: multicast_def S2_encrypt_and_send_multi_def Let_def last_frame_def multicast_head_def multicast_nonce_def
        upd_mpan_def sg_of_def S2_make_aad_def)
qed

lemma multicast_keeps:
  "sg (multicast env j s p) = sg s" "my_home_id (multicast env j s p) = my_home_id s" "peer (multicast env j s p) = peer s"
  "mpan_table (multicast env j s p) = (mpan_table s)[j := next_mpan_state (mpan_table s ! j)]"
  by (simp_all add: multicast_def S2_encrypt_and_send_multi_def Let_def upd_mpan_def)

lemma multicasts_keep:
  assumes "j < length (mpan_table s)"
  shows "sg (foldl (multicast env j) s ps) = sg s \<and> my_home_id (foldl (multicast env j) s ps) = my_home_id s \<and>
    peer (foldl (multicast env j) s ps) = peer s \<and>
    mpan_table (foldl (multicast env j) s ps) ! j = (next_mpan_state ^^ length ps) (mpan_table s ! j)"
  using assms
proof (induction ps arbitrary: s)
  case (Cons p ps)
  then show ?case by (simp add: multicast_keeps funpow_swap1)
qed simp

lemma ctr_added_xor:
  assumes "length p = length q"
  shows "map2 (XOR) (ctr_added n k (length p) p) (ctr_added n k (length q) q) = map2 (XOR) p q"
  by (rule nth_equalityI) (use assms in \<open>simp_all add: ctr_added_def ac_simps xor.left_commute xor_cancel\<close>)

text \<open>
  C15. Two frames to the same group with 256 others between them are encrypted with the same key stream: their headers are equal and the
  exclusive or of their cipher texts is that of the plain texts. The comment at \<^verbatim>\<open>next_mpan_state\<close> asks to check
  that the counter rolls around; it does, after 256 frames.
\<close>

theorem s2_multicast_key_stream_repeats:
  assumes "j < length (mpan_table s)" and "length (mpan_inner_state (mpan_table s ! j)) = 16"
    and "length ps = 255" and "length q = length p" and "length p < 65536"
    and "f = last_frame (multicast env j s p)" and "g = last_frame (multicast env j (foldl (multicast env j) s (p # ps)) q)"
  shows "take 7 g = take 7 f \<and> map2 (XOR) (take (length p) (drop 7 f)) (take (length q) (drop 7 g)) = map2 (XOR) p q"
proof -
  let ?t = "foldl (multicast env j) s (p # ps)"
  have t: "sg ?t = sg s" "my_home_id ?t = my_home_id s" "peer ?t = peer s" "mpan_table ?t ! j = mpan_table s ! j"
    using multicasts_keep [OF assms(1), of env "p # ps"] next_mpan_state_256 [OF assms(2)] assms(3) by simp_all
  define aad where "aad = S2_make_aad s (l_node (peer s)) (r_node (peer s)) (multicast_head s j) 7 (length p + 7 + AUTH_TAG_LEN) 64"
  have h: "multicast_head ?t j = multicast_head s j" "multicast_nonce ?t j = multicast_nonce s j" "sg_of ?t = sg_of s"
    "S2_make_aad ?t = S2_make_aad s"
    using t by (simp_all add: multicast_head_def multicast_nonce_def sg_of_def fun_eq_iff S2_make_aad_def)
  have l: "13 \<le> length (multicast_nonce s j)" "length aad < 65280" "length (multicast_head s j) = 7"
    using assms(2) by (simp_all add: multicast_nonce_def length_AES128_ECB_encrypt aad_def S2_make_aad_def multicast_head_def)
  show ?thesis
    using last_frame_multicast [of p env j s] last_frame_multicast [of q env j ?t] l assms(4-7) ctr_added_xor [of p q]
    unfolding t h assms(4) aad_def [symmetric] by (simp add: CCM_encrypt_eq assms(4))
qed

theorem s2_multicast_key_stream_repeats_witness:
  "map2 (XOR)
     (take 2 (drop 7 (last_frame (multicast demo_env 0 (demo_s2 1) [0x25, 0x01]))))
     (take 2 (drop 7 (last_frame (multicast demo_env 0 (foldl (multicast demo_env 0) (demo_s2 1) ([0x25, 0x01] # replicate 255 [0])) [0x20, 0x02]))))
   = [0x05, 0x03]"
  using s2_multicast_key_stream_repeats [of 0 "demo_s2 1" "replicate 255 [0]" "[0x20, 0x02]" "[0x25, 0x01]", OF _ _ _ _ _ refl refl, of demo_env]
  by (simp add: demo_s2_state zero_mpan_def numeral_2_eq_2)

end
