(* ===== verification/S2_Inclusion.thy ===== *)
theory S2_Inclusion
  imports S2_Receive
begin

text \<open>
  The exchange of keys with a joining node, \<^verbatim>\<open>s2_inclusion.c\<close> and \<^verbatim>\<open>zwave_s2_inclusion_controller.c\<close>: a state machine by a
  table of transitions, with the actions of both sides. It works on the same context as \<^verbatim>\<open>S2.c\<close>; what \<^verbatim>\<open>S2.c\<close>
  uses of it is the field \<open>ctx\<close>, and frames are sent by the functions modelled for \<^verbatim>\<open>S2.c\<close>. The keystore and the
  curve are parameters. The timer of the layer below is \<open>inc_timer\<close>, and what the machine
  tells the application and hands over for sending is appended to \<open>inc_calls\<close>.

  All calls of \<^verbatim>\<open>process_event\<close> inside an action are the last thing it does: an action returns
  the event it ends with. The handler of the application posts an event to network management and returns, so that no action is
  entered again while it runs.
\<close>

section \<open>States, events, actions\<close>

datatype inclusion_state =
    S2_INC_IDLE | S2_AWAITING_KEX_GET | S2_AWAITING_KEX_REPORT | S2_AWAITING_KEY_USER_ACCEPT | S2_AWAITING_KEX_SET
  | S2_AWAITING_PUB_KEY_A | S2_AWAITING_PUB_KEY_B | S2_AWAITING_USER_ACCEPT | S2_AWAITING_USER_A_ACCEPT
  | S2_PENDING_ECHO_KEX_REPORT | S2_ECHO_KEX_SET_SENDING | S2_AWAITING_ECHO_KEX_SET | S2_AWAITING_ECHO_KEX_REPORT
  | S2_AWAITING_NET_KEY_GET | S2_AWAITING_NET_KEY_REPORT | S2_AWAITING_NET_KEY_VERIFY | S2_AWAITING_TRANSFER_END
  | S2_KEY_EXCHANGED | S2_SENDING_FINAL_TRANSFER_END | S2_ERROR_SENT | S2_INC_STATE_ANY

datatype inclusion_mode = INCLUSION_MODE_CSA | INCLUSION_MODE_SSA

abbreviation (input) KEX_GET :: u8 where "KEX_GET \<equiv> 0x04"
abbreviation (input) KEX_REPORT :: u8 where "KEX_REPORT \<equiv> 0x05"
abbreviation (input) KEX_SET :: u8 where "KEX_SET \<equiv> 0x06"
abbreviation (input) KEX_FAIL :: u8 where "KEX_FAIL \<equiv> 0x07"
abbreviation (input) PUBLIC_KEY_REPORT :: u8 where "PUBLIC_KEY_REPORT \<equiv> 0x08"
abbreviation (input) SECURITY_2_NETWORK_KEY_GET :: u8 where "SECURITY_2_NETWORK_KEY_GET \<equiv> 0x09"
abbreviation (input) SECURITY_2_NETWORK_KEY_REPORT :: u8 where "SECURITY_2_NETWORK_KEY_REPORT \<equiv> 0x0A"
abbreviation (input) SECURITY_2_NETWORK_KEY_VERIFY :: u8 where "SECURITY_2_NETWORK_KEY_VERIFY \<equiv> 0x0B"
abbreviation (input) SECURITY_2_TRANSFER_END :: u8 where "SECURITY_2_TRANSFER_END \<equiv> 0x0C"

text \<open>
  \<^verbatim>\<open>s2_inclusion_event_t\<close>. The events of received frames have the value of the command, with the echo or including
  flag in the next byte.
\<close>

datatype inclusion_event =
    S2_KEX_REPORT_RECV | S2_PUB_KEY_RECV_B | S2_PUB_KEY_RECV_A | S2_KEX_GET_RECV | S2_KEX_SET_RECV | S2_ECHO_KEX_REPORT_RECV
  | S2_NET_KEY_REPORT_RECV | S2_ECHO_KEX_SET_RECV | S2_NET_KEY_GET_RECV | S2_NET_KEY_VERIFY_RECV | S2_TRANSFER_END_RECV
  | S2_INCLUSION_ERROR_RECV | S2_INCLUDING_START | S2_JOINING_START | S2_INCLUDING_ACCEPT | S2_INCLUDING_REJECT
  | S2_INCLUDING_DECRYPT_FAILED | S2_SEND_FINAL_TRANSFER_END | S2_INCLUSION_TX_QUEUED | S2_NET_KEY_VERIFY_FINAL_RECV
  | S2_INCLUSION_RETRY | S2_INCLUSION_TIMEOUT | S2_INCLUSION_ERROR | S2_INCLUSION_ERROR_SENT | S2_INCLUSION_SEND_DONE
  | S2_INCLUSION_SEND_FAILED | S2_DISCOVERY_COMPLETE | S2_NO_KEYS_GRANTED | S2_EVT_ANY

datatype s2_action =
    S2_NO_ACTION | S2_ABORT_ACTION | S2_TIMEOUT_ACTION | S2_RESEND_FRAME_ACTION | S2_RESEND_DATA_ACTION | S2_JOINING_START_ACTION
  | S2_TIMEOUT_TB1_SET_ACTION | S2_SEND_KEX_REPORT_ACTION | S2_SEND_PUB_KEY_B_ACTION | S2_PUB_KEY_A_RECV_ACTION
  | S2_DO_ECDH_CALC_B_ACTION | S2_SEND_ECHO_KEX_SET_ACTION | S2_SEND_NET_KEY_GET_ACTION | S2_SEND_NET_KEY_VERIFY_ACTION
  | S2_SEND_FINAL_TRANSFER_END_ACTION | S2_JOINING_COMPLETE_ACTION | S2_REMOTE_ERROR_ACTION | S2_JOINING_NEVER_STARTED_ACTION
  | S2_SEND_KEX_GET_ACTION | S2_KEX_REP_RECV_ACTION | S2_SEND_KEX_SET_ACTION | S2_SEND_PUB_KEY_A_ACTION | S2_DO_ECDH_CALC_A_ACTION
  | S2_SEND_ECHO_KEX_REPORT_ACTION | S2_SEND_ERROR_CANCEL_ACTION | S2_SEND_ERROR_DECRYPT_ACTION | S2_SEND_NET_KEY_REPORT_ACTION
  | S2_SEND_TRANSFER_END_ACTION | S2_INCLUSION_COMPLETE_ACTION | S2_CHECK_NO_KEYS

type_synonym s2_transition = "inclusion_state \<times> inclusion_event \<times> s2_action \<times> inclusion_state"

definition s2_transition_table_controller :: "s2_transition list" where
  "s2_transition_table_controller =
    [(S2_INC_IDLE, S2_INCLUDING_START, S2_SEND_KEX_GET_ACTION, S2_AWAITING_KEX_REPORT),
     (S2_AWAITING_KEX_REPORT, S2_KEX_REPORT_RECV, S2_KEX_REP_RECV_ACTION, S2_AWAITING_KEY_USER_ACCEPT),
     (S2_AWAITING_KEX_REPORT, S2_INCLUSION_RETRY, S2_RESEND_FRAME_ACTION, S2_INC_STATE_ANY),
     (S2_AWAITING_KEY_USER_ACCEPT, S2_INCLUDING_ACCEPT, S2_SEND_KEX_SET_ACTION, S2_AWAITING_PUB_KEY_B),
     (S2_AWAITING_KEY_USER_ACCEPT, S2_INCLUDING_REJECT, S2_SEND_ERROR_CANCEL_ACTION, S2_ERROR_SENT),
     (S2_AWAITING_KEY_USER_ACCEPT, S2_KEX_REPORT_RECV, S2_NO_ACTION, S2_INC_STATE_ANY),
     (S2_AWAITING_PUB_KEY_B, S2_KEX_REPORT_RECV, S2_NO_ACTION, S2_INC_STATE_ANY),
     (S2_AWAITING_PUB_KEY_B, S2_INCLUSION_RETRY, S2_RESEND_FRAME_ACTION, S2_INC_STATE_ANY),
     (S2_AWAITING_PUB_KEY_B, S2_PUB_KEY_RECV_B, S2_SEND_PUB_KEY_A_ACTION, S2_AWAITING_USER_ACCEPT),
     (S2_AWAITING_USER_ACCEPT, S2_INCLUDING_ACCEPT, S2_DO_ECDH_CALC_A_ACTION, S2_AWAITING_ECHO_KEX_SET),
     (S2_AWAITING_USER_ACCEPT, S2_INCLUDING_REJECT, S2_SEND_ERROR_CANCEL_ACTION, S2_ERROR_SENT),
     (S2_AWAITING_USER_ACCEPT, S2_INCLUSION_RETRY, S2_RESEND_FRAME_ACTION, S2_INC_STATE_ANY),
     (S2_AWAITING_USER_ACCEPT, S2_KEX_REPORT_RECV, S2_NO_ACTION, S2_INC_STATE_ANY),
     (S2_AWAITING_USER_ACCEPT, S2_PUB_KEY_RECV_B, S2_NO_ACTION, S2_INC_STATE_ANY),
     (S2_AWAITING_ECHO_KEX_SET, S2_ECHO_KEX_SET_RECV, S2_SEND_ECHO_KEX_REPORT_ACTION, S2_AWAITING_NET_KEY_GET),
     (S2_AWAITING_ECHO_KEX_SET, S2_INCLUSION_RETRY, S2_RESEND_FRAME_ACTION, S2_INC_STATE_ANY),
     (S2_AWAITING_ECHO_KEX_SET, S2_INCLUDING_DECRYPT_FAILED, S2_SEND_ERROR_DECRYPT_ACTION, S2_ERROR_SENT),
     (S2_AWAITING_ECHO_KEX_SET, S2_KEX_REPORT_RECV, S2_NO_ACTION, S2_INC_STATE_ANY),
     (S2_AWAITING_ECHO_KEX_SET, S2_PUB_KEY_RECV_B, S2_NO_ACTION, S2_INC_STATE_ANY),
     (S2_AWAITING_NET_KEY_GET, S2_NET_KEY_GET_RECV, S2_SEND_NET_KEY_REPORT_ACTION, S2_AWAITING_NET_KEY_VERIFY),
     (S2_AWAITING_NET_KEY_GET, S2_SEND_FINAL_TRANSFER_END, S2_CHECK_NO_KEYS, S2_INC_IDLE),
     (S2_AWAITING_NET_KEY_GET, S2_INCLUSION_RETRY, S2_RESEND_DATA_ACTION, S2_INC_STATE_ANY),
     (S2_AWAITING_NET_KEY_GET, S2_KEX_REPORT_RECV, S2_NO_ACTION, S2_INC_STATE_ANY),
     (S2_AWAITING_NET_KEY_GET, S2_PUB_KEY_RECV_B, S2_NO_ACTION, S2_INC_STATE_ANY),
     (S2_AWAITING_NET_KEY_GET, S2_ECHO_KEX_SET_RECV, S2_NO_ACTION, S2_INC_STATE_ANY),
     (S2_AWAITING_NET_KEY_GET, S2_NET_KEY_VERIFY_RECV, S2_NO_ACTION, S2_INC_STATE_ANY),
     (S2_AWAITING_NET_KEY_VERIFY, S2_NET_KEY_VERIFY_FINAL_RECV, S2_SEND_TRANSFER_END_ACTION, S2_AWAITING_TRANSFER_END),
     (S2_AWAITING_NET_KEY_VERIFY, S2_NET_KEY_VERIFY_RECV, S2_SEND_TRANSFER_END_ACTION, S2_AWAITING_NET_KEY_GET),
     (S2_AWAITING_NET_KEY_VERIFY, S2_INCLUSION_RETRY, S2_RESEND_DATA_ACTION, S2_INC_STATE_ANY),
     (S2_AWAITING_NET_KEY_VERIFY, S2_KEX_REPORT_RECV, S2_NO_ACTION, S2_INC_STATE_ANY),
     (S2_AWAITING_NET_KEY_VERIFY, S2_PUB_KEY_RECV_B, S2_NO_ACTION, S2_INC_STATE_ANY),
     (S2_AWAITING_NET_KEY_VERIFY, S2_ECHO_KEX_SET_RECV, S2_NO_ACTION, S2_INC_STATE_ANY),
     (S2_AWAITING_NET_KEY_VERIFY, S2_NET_KEY_GET_RECV, S2_NO_ACTION, S2_INC_STATE_ANY),
     (S2_AWAITING_TRANSFER_END, S2_TRANSFER_END_RECV, S2_INCLUSION_COMPLETE_ACTION, S2_INC_IDLE),
     (S2_AWAITING_TRANSFER_END, S2_INCLUSION_RETRY, S2_RESEND_DATA_ACTION, S2_INC_STATE_ANY),
     (S2_AWAITING_TRANSFER_END, S2_KEX_REPORT_RECV, S2_NO_ACTION, S2_INC_STATE_ANY),
     (S2_AWAITING_TRANSFER_END, S2_PUB_KEY_RECV_B, S2_NO_ACTION, S2_INC_STATE_ANY),
     (S2_AWAITING_TRANSFER_END, S2_ECHO_KEX_SET_RECV, S2_NO_ACTION, S2_INC_STATE_ANY),
     (S2_AWAITING_TRANSFER_END, S2_NET_KEY_GET_RECV, S2_NO_ACTION, S2_INC_STATE_ANY),
     (S2_AWAITING_TRANSFER_END, S2_NET_KEY_VERIFY_RECV, S2_NO_ACTION, S2_INC_STATE_ANY),
     (S2_AWAITING_TRANSFER_END, S2_NET_KEY_VERIFY_FINAL_RECV, S2_NO_ACTION, S2_INC_STATE_ANY)]"

definition s2_transition_table :: "s2_transition list" where
  "s2_transition_table =
    [(S2_INC_IDLE, S2_JOINING_START, S2_JOINING_START_ACTION, S2_AWAITING_KEX_GET),
     (S2_AWAITING_KEX_GET, S2_DISCOVERY_COMPLETE, S2_TIMEOUT_TB1_SET_ACTION, S2_AWAITING_KEX_GET),
     (S2_AWAITING_KEX_GET, S2_KEX_GET_RECV, S2_SEND_KEX_REPORT_ACTION, S2_AWAITING_KEX_SET),
     (S2_AWAITING_KEX_GET, S2_INCLUDING_REJECT, S2_NO_ACTION, S2_INC_IDLE),
     (S2_AWAITING_KEX_GET, S2_INCLUSION_TIMEOUT, S2_JOINING_NEVER_STARTED_ACTION, S2_INC_IDLE),
     (S2_AWAITING_KEX_SET, S2_KEX_SET_RECV, S2_SEND_PUB_KEY_B_ACTION, S2_AWAITING_PUB_KEY_A),
     (S2_AWAITING_KEX_SET, S2_INCLUSION_RETRY, S2_RESEND_FRAME_ACTION, S2_INC_STATE_ANY),
     (S2_AWAITING_KEX_SET, S2_KEX_GET_RECV, S2_NO_ACTION, S2_INC_STATE_ANY),
     (S2_AWAITING_PUB_KEY_A, S2_PUB_KEY_RECV_A, S2_PUB_KEY_A_RECV_ACTION, S2_AWAITING_USER_A_ACCEPT),
     (S2_AWAITING_PUB_KEY_A, S2_INCLUSION_RETRY, S2_RESEND_FRAME_ACTION, S2_INC_STATE_ANY),
     (S2_AWAITING_PUB_KEY_A, S2_KEX_GET_RECV, S2_NO_ACTION, S2_INC_STATE_ANY),
     (S2_AWAITING_PUB_KEY_A, S2_KEX_SET_RECV, S2_NO_ACTION, S2_INC_STATE_ANY),
     (S2_AWAITING_USER_A_ACCEPT, S2_INCLUDING_ACCEPT, S2_DO_ECDH_CALC_B_ACTION, S2_ECHO_KEX_SET_SENDING),
     (S2_AWAITING_USER_A_ACCEPT, S2_INCLUDING_REJECT, S2_ABORT_ACTION, S2_INC_IDLE),
     (S2_AWAITING_USER_A_ACCEPT, S2_KEX_GET_RECV, S2_NO_ACTION, S2_INC_STATE_ANY),
     (S2_AWAITING_USER_A_ACCEPT, S2_KEX_SET_RECV, S2_NO_ACTION, S2_INC_STATE_ANY),
     (S2_AWAITING_USER_A_ACCEPT, S2_PUB_KEY_RECV_A, S2_NO_ACTION, S2_INC_STATE_ANY),
     (S2_ECHO_KEX_SET_SENDING, S2_INCLUSION_SEND_FAILED, S2_NO_ACTION, S2_ECHO_KEX_SET_SENDING),
     (S2_ECHO_KEX_SET_SENDING, S2_INCLUSION_SEND_DONE, S2_NO_ACTION, S2_ECHO_KEX_SET_SENDING),
     (S2_ECHO_KEX_SET_SENDING, S2_INCLUSION_RETRY, S2_SEND_ECHO_KEX_SET_ACTION, S2_ECHO_KEX_SET_SENDING),
     (S2_ECHO_KEX_SET_SENDING, S2_ECHO_KEX_REPORT_RECV, S2_SEND_NET_KEY_GET_ACTION, S2_AWAITING_NET_KEY_REPORT),
     (S2_ECHO_KEX_SET_SENDING, S2_KEX_GET_RECV, S2_NO_ACTION, S2_INC_STATE_ANY),
     (S2_ECHO_KEX_SET_SENDING, S2_KEX_SET_RECV, S2_NO_ACTION, S2_INC_STATE_ANY),
     (S2_ECHO_KEX_SET_SENDING, S2_PUB_KEY_RECV_A, S2_NO_ACTION, S2_INC_STATE_ANY),
     (S2_AWAITING_NET_KEY_REPORT, S2_NET_KEY_REPORT_RECV, S2_SEND_NET_KEY_VERIFY_ACTION, S2_KEY_EXCHANGED),
     (S2_AWAITING_NET_KEY_REPORT, S2_INCLUSION_RETRY, S2_RESEND_DATA_ACTION, S2_INC_STATE_ANY),
     (S2_AWAITING_NET_KEY_REPORT, S2_KEX_GET_RECV, S2_NO_ACTION, S2_INC_STATE_ANY),
     (S2_AWAITING_NET_KEY_REPORT, S2_KEX_SET_RECV, S2_NO_ACTION, S2_INC_STATE_ANY),
     (S2_AWAITING_NET_KEY_REPORT, S2_PUB_KEY_RECV_A, S2_NO_ACTION, S2_INC_STATE_ANY),
     (S2_AWAITING_NET_KEY_REPORT, S2_ECHO_KEX_REPORT_RECV, S2_NO_ACTION, S2_INC_STATE_ANY),
     (S2_AWAITING_NET_KEY_REPORT, S2_NO_KEYS_GRANTED, S2_SEND_FINAL_TRANSFER_END_ACTION, S2_SENDING_FINAL_TRANSFER_END),
     (S2_KEY_EXCHANGED, S2_TRANSFER_END_RECV, S2_SEND_NET_KEY_GET_ACTION, S2_AWAITING_NET_KEY_REPORT),
     (S2_KEY_EXCHANGED, S2_INCLUSION_RETRY, S2_RESEND_DATA_ACTION, S2_INC_STATE_ANY),
     (S2_KEY_EXCHANGED, S2_KEX_GET_RECV, S2_NO_ACTION, S2_INC_STATE_ANY),
     (S2_KEY_EXCHANGED, S2_KEX_SET_RECV, S2_NO_ACTION, S2_INC_STATE_ANY),
     (S2_KEY_EXCHANGED, S2_PUB_KEY_RECV_A, S2_NO_ACTION, S2_INC_STATE_ANY),
     (S2_KEY_EXCHANGED, S2_ECHO_KEX_REPORT_RECV, S2_NO_ACTION, S2_INC_STATE_ANY),
     (S2_KEY_EXCHANGED, S2_NET_KEY_REPORT_RECV, S2_NO_ACTION, S2_INC_STATE_ANY),
     (S2_KEY_EXCHANGED, S2_SEND_FINAL_TRANSFER_END, S2_SEND_FINAL_TRANSFER_END_ACTION, S2_SENDING_FINAL_TRANSFER_END),
     (S2_SENDING_FINAL_TRANSFER_END, S2_INCLUSION_RETRY, S2_RESEND_DATA_ACTION, S2_INC_STATE_ANY),
     (S2_SENDING_FINAL_TRANSFER_END, S2_INCLUSION_SEND_DONE, S2_JOINING_COMPLETE_ACTION, S2_INC_IDLE),
     (S2_SENDING_FINAL_TRANSFER_END, S2_KEX_GET_RECV, S2_NO_ACTION, S2_INC_STATE_ANY),
     (S2_SENDING_FINAL_TRANSFER_END, S2_KEX_SET_RECV, S2_NO_ACTION, S2_INC_STATE_ANY),
     (S2_SENDING_FINAL_TRANSFER_END, S2_PUB_KEY_RECV_A, S2_NO_ACTION, S2_INC_STATE_ANY),
     (S2_SENDING_FINAL_TRANSFER_END, S2_ECHO_KEX_REPORT_RECV, S2_NO_ACTION, S2_INC_STATE_ANY),
     (S2_SENDING_FINAL_TRANSFER_END, S2_NET_KEY_REPORT_RECV, S2_NO_ACTION, S2_INC_STATE_ANY),
     (S2_SENDING_FINAL_TRANSFER_END, S2_SEND_FINAL_TRANSFER_END, S2_NO_ACTION, S2_INC_STATE_ANY),
     (S2_SENDING_FINAL_TRANSFER_END, S2_TRANSFER_END_RECV, S2_NO_ACTION, S2_INC_STATE_ANY),
     (S2_ERROR_SENT, S2_INCLUSION_SEND_DONE, S2_ABORT_ACTION, S2_INC_IDLE),
     (S2_INC_IDLE, S2_INCLUSION_TIMEOUT, S2_NO_ACTION, S2_INC_IDLE),
     (S2_INC_IDLE, S2_EVT_ANY, S2_NO_ACTION, S2_INC_IDLE),
     (S2_INC_STATE_ANY, S2_INCLUSION_TIMEOUT, S2_ABORT_ACTION, S2_INC_IDLE),
     (S2_INC_STATE_ANY, S2_INCLUSION_ERROR_SENT, S2_NO_ACTION, S2_ERROR_SENT),
     (S2_INC_STATE_ANY, S2_INCLUSION_ERROR_RECV, S2_REMOTE_ERROR_ACTION, S2_INC_IDLE),
     (S2_INC_STATE_ANY, S2_INCLUSION_ERROR, S2_ABORT_ACTION, S2_INC_IDLE),
     (S2_INC_STATE_ANY, S2_INCLUDING_DECRYPT_FAILED, S2_NO_ACTION, S2_INC_STATE_ANY),
     (S2_INC_STATE_ANY, S2_INCLUSION_SEND_DONE, S2_NO_ACTION, S2_INC_STATE_ANY),
     (S2_INC_STATE_ANY, S2_INCLUSION_SEND_FAILED, S2_ABORT_ACTION, S2_INC_IDLE),
     (S2_INC_STATE_ANY, S2_DISCOVERY_COMPLETE, S2_NO_ACTION, S2_INC_STATE_ANY),
     (S2_INC_STATE_ANY, S2_EVT_ANY, S2_ABORT_ACTION, S2_INC_IDLE)]"

text \<open>The kinds of encryption rules, and the rules: minimal length, kind and the two rules.\<close>

datatype rule_support = SINGLE_RULE_SUPPORT | DUAL_RULE_SUPPORT | ECHO_SUPPORT

abbreviation (input) NON_SECURE :: u8 where "NON_SECURE \<equiv> 0xFF"
abbreviation (input) TEMP_KEY_SECURE :: u8 where "TEMP_KEY_SECURE \<equiv> 5"
abbreviation (input) NETWORK_KEY_SECURE :: u8 where "NETWORK_KEY_SECURE \<equiv> 6"

definition m_frame_rules :: "(nat \<times> rule_support \<times> u8 \<times> u8) list" where
  "m_frame_rules =
    [(2, SINGLE_RULE_SUPPORT, NON_SECURE, NON_SECURE),
     (6, ECHO_SUPPORT, NON_SECURE, TEMP_KEY_SECURE),
     (6, ECHO_SUPPORT, NON_SECURE, TEMP_KEY_SECURE),
     (3, DUAL_RULE_SUPPORT, NON_SECURE, TEMP_KEY_SECURE),
     (35, SINGLE_RULE_SUPPORT, NON_SECURE, NON_SECURE),
     (3, SINGLE_RULE_SUPPORT, TEMP_KEY_SECURE, TEMP_KEY_SECURE),
     (19, SINGLE_RULE_SUPPORT, TEMP_KEY_SECURE, TEMP_KEY_SECURE),
     (2, SINGLE_RULE_SUPPORT, NETWORK_KEY_SECURE, NETWORK_KEY_SECURE),
     (3, SINGLE_RULE_SUPPORT, TEMP_KEY_SECURE, TEMP_KEY_SECURE)]"

definition m_key_slot_key_class_pair :: "u8 list" where
  "m_key_slot_key_class_pair = [0x01, 0x02, 0x04, 0x02, 0x04, 0x00, 0x80]"

abbreviation (input) QUEUE_FULL :: u8 where "QUEUE_FULL \<equiv> 0xFF"
abbreviation (input) NO_RETRIES :: u8 where "NO_RETRIES \<equiv> 0"
abbreviation (input) MAX_RETRY_COUNT :: u8 where "MAX_RETRY_COUNT \<equiv> 3"
abbreviation (input) SECONDS_10 :: u16 where "SECONDS_10 \<equiv> 1000"
abbreviation (input) SECONDS_30 :: u16 where "SECONDS_30 \<equiv> 3000"
abbreviation (input) SECONDS_240 :: u16 where "SECONDS_240 \<equiv> 24000"

section \<open>State\<close>

datatype inc_call =
    Frame_handed s2_connection "u8 list" bool
  | Data_handed s2_connection "u8 list" bool
  | Inclusion_initiated
  | Kex_report_event u8 bool u8
  | Public_key_challenge "u8 list" u8 u8
  | Inclusion_complete u8
  | Inclusion_failed u8
  | Joining_complete u8
  | Joining_never_started u8
  | Network_key_written u8 "u8 list"
  | Network_keys_cleared u8

text \<open>The machine of \<^verbatim>\<open>S2.c\<close>, the keystore, and the multiplication on the curve.\<close>

record s2i_env =
  machine :: s2_env
  network_key :: "u8 \<Rightarrow> u8 list option"
  private_key :: "u8 list"
  own_public_key :: "u8 list"
  dynamic_private_key :: "u8 list"
  dynamic_public_key :: "u8 list"
  crypto_scalarmult_curve25519 :: "u8 list \<Rightarrow> u8 list \<Rightarrow> u8 list"

record s2_inc =
  ctx :: s2
  inclusion_state :: inclusion_state
  inclusion_mode :: inclusion_mode
  inclusion_peer :: s2_connection
  csa_support :: u8
  kex_set_byte2 :: u8
  scheme_support :: u8
  curve_support :: u8
  key_granted :: u8
  key_exchange :: u8
  key_requested :: u8
  kex_report_keys :: u8
  kex_report_echo_payload :: "u8 list"
  kex_fail_code :: u8
  inclusion_buf :: "u8 list"
  inclusion_buf_length :: nat
  public_key :: "u8 list"
  m_schemes :: u8
  m_curves :: u8
  m_keys :: u8
  m_retry_counter :: u8
  inc_timer :: "u16 option"
  inc_calls :: "inc_call list"

abbreviation inc_call :: "inc_call \<Rightarrow> s2_inc \<Rightarrow> s2_inc" where
  "inc_call c s \<equiv> s\<lparr>inc_calls := inc_calls s @ [c]\<rparr>"

text \<open>A byte of the received frame.\<close>

abbreviation rx :: "s2_inc \<Rightarrow> nat \<Rightarrow> u8" where
  "rx s i \<equiv> buf (ctx s) ! i"

definition set_inclusion_state :: "inclusion_state \<Rightarrow> s2_inc \<Rightarrow> s2_inc" where
  "set_inclusion_state st s = s\<lparr>inclusion_state := st, ctx := (ctx s)\<lparr>inclusion_idle := (st = S2_INC_IDLE)\<rparr>\<rparr>"

definition s2_inclusion_stop_timeout :: "s2_inc \<Rightarrow> s2_inc" where
  "s2_inclusion_stop_timeout s = s\<lparr>inc_timer := None\<rparr>"

definition s2_inclusion_set_timeout :: "u16 \<Rightarrow> s2_inc \<Rightarrow> s2_inc" where
  "s2_inclusion_set_timeout t s = s\<lparr>inc_timer := Some t\<rparr>"

text \<open>A frame from the start of the buffer.\<close>

definition put_frame :: "u8 list \<Rightarrow> s2_inc \<Rightarrow> s2_inc" where
  "put_frame b s = s\<lparr>inclusion_buf := put_at 0 b (inclusion_buf s), inclusion_buf_length := length b\<rparr>"

definition frame_of :: "s2_inc \<Rightarrow> u8 list" where
  "frame_of s = take (inclusion_buf_length s) (inclusion_buf s)"

definition s2_inclusion_send_frame :: "s2i_env \<Rightarrow> s2_inc \<Rightarrow> s2_inc" where
  "s2_inclusion_send_frame env s = (case S2_send_frame (machine env) (inclusion_peer s) (frame_of s) (ctx s) of
     (ok, c) \<Rightarrow> inc_call (Frame_handed (inclusion_peer s) (frame_of s) ok)
       (s\<lparr>ctx := c, m_retry_counter := (if ok then m_retry_counter s - 1 else QUEUE_FULL)\<rparr>))"

definition s2_inclusion_send_data :: "s2i_env \<Rightarrow> s2_inc \<Rightarrow> s2_inc" where
  "s2_inclusion_send_data env s = (case S2_send_data (machine env) (inclusion_peer s) (frame_of s) (ctx s) of
     (ok, c) \<Rightarrow> inc_call (Data_handed (inclusion_peer s) (frame_of s) ok)
       (s\<lparr>ctx := c, m_retry_counter := (if ok then m_retry_counter s - 1 else QUEUE_FULL)\<rparr>))"

section \<open>Failures\<close>

definition inclusion_failed_evt_push :: "s2i_env \<Rightarrow> u8 \<Rightarrow> s2_inc \<Rightarrow> s2_inc" where
  "inclusion_failed_evt_push env fail_type s = (let s = s2_inclusion_stop_timeout s
   in inc_call (Inclusion_failed fail_type) (s\<lparr>ctx := s2_restore_keys (network_key env) (ctx s)\<rparr>))"

definition remote_inclusion_failed_evt_push :: "s2i_env \<Rightarrow> s2_inc \<Rightarrow> s2_inc" where
  "remote_inclusion_failed_evt_push env s = inclusion_failed_evt_push env (rx s 2) s"

definition inclusion_failed_frame_send :: "s2i_env \<Rightarrow> u8 \<Rightarrow> u8 \<Rightarrow> s2_inc \<Rightarrow> s2_inc" where
  "inclusion_failed_frame_send env error secure s = (let
     s = (put_frame [COMMAND_CLASS_SECURITY_2, KEX_FAIL, error] s)\<lparr>kex_fail_code := error, m_retry_counter := MAX_RETRY_COUNT\<rparr>
   in if secure = TEMP_KEY_SECURE
      then s2_inclusion_send_data env (s\<lparr>inclusion_peer := (inclusion_peer s)\<lparr>class_id := TEMP_KEY_SECURE, tx_options := 0\<rparr>\<rparr>)
      else s2_inclusion_send_frame env s)"

text \<open>A refused frame: the code ends with the event that an error was sent.\<close>

definition refuse :: "s2i_env \<Rightarrow> u8 \<Rightarrow> s2_inc \<Rightarrow> s2_inc \<times> inclusion_event option" where
  "refuse env error s = (inclusion_failed_frame_send env error NON_SECURE s, Some S2_INCLUSION_ERROR_SENT)"

definition one_bit :: "u8 \<Rightarrow> bool" where
  "one_bit b \<longleftrightarrow> b AND (b - 1) = 0"

section \<open>Actions of the joining node\<close>

definition primary_pair :: "s2_inc \<Rightarrow> bool" where
  "primary_pair s \<longleftrightarrow> inclusion_mode s = INCLUSION_MODE_SSA \<and> key_granted s AND NOT (0x60 OR 0x80 OR 0x01) \<noteq> 0"

definition s2_private_key_read :: "s2i_env \<Rightarrow> s2_inc \<Rightarrow> u8 list" where
  "s2_private_key_read env s = (if primary_pair s then private_key env else dynamic_private_key env)"

definition s2_public_key_read :: "s2i_env \<Rightarrow> s2_inc \<Rightarrow> u8 list" where
  "s2_public_key_read env s = (if primary_pair s then own_public_key env else dynamic_public_key env)"

definition validate_echo_kex_report :: "s2_inc \<Rightarrow> bool" where
  "validate_echo_kex_report s \<longleftrightarrow> m_schemes s = rx s 3 \<and> m_curves s = rx s 4 \<and> m_keys s = rx s 5 \<and>
     push_bit 2 0x01 OR csa_support s OR 0x01 = rx s 2"

definition s2_send_kex_report :: "s2i_env \<Rightarrow> s2_inc \<Rightarrow> s2_inc" where
  "s2_send_kex_report env s = (let
     s = inc_call Inclusion_initiated (inc_call (Network_keys_cleared 0xFF) (s2_inclusion_stop_timeout s));
     s = s\<lparr>csa_support := (if inclusion_mode s = INCLUSION_MODE_CSA then 0x02 else 0)\<rparr>;
     s = put_frame [COMMAND_CLASS_SECURITY_2, KEX_REPORT, csa_support s OR push_bit 2 0x01 OR 0, m_schemes s, m_curves s, m_keys s] s
   in s2_inclusion_set_timeout SECONDS_240 (s2_inclusion_send_frame env (s\<lparr>m_retry_counter := MAX_RETRY_COUNT\<rparr>)))"

definition send_pub_key_b :: "s2i_env \<Rightarrow> s2_inc \<Rightarrow> s2_inc" where
  "send_pub_key_b env s = (let
     s = s\<lparr>key_granted := rx s 5, key_exchange := 0x01, kex_set_byte2 := rx s 2\<rparr>;
     k = s2_public_key_read env s;
     k = (if inclusion_mode s = INCLUSION_MODE_SSA \<and> key_granted s AND NOT (0x80 OR 0x01) \<noteq> 0 then [0, 0] @ drop 2 k else k)
   in s2_inclusion_set_timeout SECONDS_10 (s2_inclusion_send_frame env
        ((put_frame ([COMMAND_CLASS_SECURITY_2, PUBLIC_KEY_REPORT, 0x00] @ k) s)\<lparr>m_retry_counter := MAX_RETRY_COUNT\<rparr>)))"

definition s2_send_pub_key_b :: "s2i_env \<Rightarrow> s2_inc \<Rightarrow> s2_inc \<times> inclusion_event option" where
  "s2_send_pub_key_b env s = (let s = s2_inclusion_stop_timeout s in
     if \<not> (one_bit (rx s 3) \<and> rx s 3 AND m_schemes s \<noteq> 0) then refuse env 0x02 s
     else let s = s\<lparr>scheme_support := rx s 3\<rparr> in
     if \<not> (one_bit (rx s 4) \<and> rx s 4 AND m_curves s \<noteq> 0) then refuse env 0x03 s
     else let s = s\<lparr>curve_support := rx s 4\<rparr> in
     if rx s 5 = 0 \<and> IS_LR_NODE (l_node (inclusion_peer s)) then refuse env 0x01 s
     else if NOT (m_keys s) AND rx s 5 \<noteq> 0 then refuse env 0x01 s
     else let s = s\<lparr>key_granted := rx s 5\<rparr> in
     if rx s 2 AND 0x02 \<noteq> 0 then
       if inclusion_mode s \<noteq> INCLUSION_MODE_CSA then refuse env 0x01 s else (send_pub_key_b env s, None)
     else (send_pub_key_b env (s\<lparr>inclusion_mode := INCLUSION_MODE_SSA\<rparr>), None))"

definition s2_joining_start :: "s2_inc \<Rightarrow> s2_inc" where
  "s2_joining_start s = s\<lparr>inclusion_peer := (inclusion_peer s)\<lparr>tx_options := 0\<rparr>\<rparr>"

definition s2_send_echo_kex_set :: "s2i_env \<Rightarrow> s2_inc \<Rightarrow> s2_inc" where
  "s2_send_echo_kex_set env s = (let
     s = s2_inclusion_stop_timeout s;
     s = s\<lparr>m_retry_counter := m_retry_counter s - 1\<rparr>;
     s = put_frame [COMMAND_CLASS_SECURITY_2, KEX_SET, kex_set_byte2 s OR 0x01, scheme_support s, curve_support s, key_granted s] s;
     s = s\<lparr>inclusion_peer := (inclusion_peer s)\<lparr>class_id := TEMP_KEY_SECURE, tx_options := S2_TXOPTION_VERIFY_DELIVERY\<rparr>\<rparr>;
     (ok, c) = S2_send_data (machine env) (inclusion_peer s) (frame_of s) (ctx s);
     s = inc_call (Data_handed (inclusion_peer s) (frame_of s) ok) (s\<lparr>ctx := c\<rparr>)
   in s2_inclusion_set_timeout SECONDS_10 s)"

definition s2_pub_key_a_recv :: "s2_inc \<Rightarrow> s2_inc" where
  "s2_pub_key_a_recv s = (let
     s = s2_inclusion_set_timeout SECONDS_240 (s2_inclusion_stop_timeout s);
     k = take 32 (drop 3 (buf (ctx s)));
     s = s\<lparr>public_key := k\<rparr>
   in inc_call (Public_key_challenge k (key_granted s)
        (if key_granted s AND (0x02 OR 0x04) \<noteq> 0 \<and> inclusion_mode s = INCLUSION_MODE_CSA then 4 else 0)) s)"

text \<open>The loop doubles \<open>key_exchange\<close> until it is one of the granted keys; with eight bits it ends within eight turns, or never.\<close>

fun next_key :: "nat \<Rightarrow> u8 \<Rightarrow> u8 \<Rightarrow> u8 option" where
  "next_key 0 x granted = (if x AND granted \<noteq> 0 then Some x else None)"
| "next_key (Suc n) x granted = (if x AND granted \<noteq> 0 then Some x else next_key n (push_bit 1 x) granted)"

definition transfer_end_refused :: "s2_inc \<Rightarrow> bool" where
  "transfer_end_refused s \<longleftrightarrow> rx s 1 = SECURITY_2_TRANSFER_END \<and> rx s 2 AND (0x01 OR 0x02) \<noteq> 0x02"

definition s2_send_net_key_get :: "s2i_env \<Rightarrow> s2_inc \<Rightarrow> s2_inc \<times> inclusion_event option" where
  "s2_send_net_key_get env s = (let s = s2_inclusion_stop_timeout s in
     if rx s 1 = KEX_REPORT \<and> \<not> validate_echo_kex_report s then refuse env 0x07 s
     else if transfer_end_refused s then (inclusion_failed_frame_send env 0x09 NON_SECURE s, Some S2_INCLUSION_ERROR)
     else if key_granted s = 0 then (s, Some S2_NO_KEYS_GRANTED)
     else (case next_key 8 (key_exchange s) (key_granted s) of
         None \<Rightarrow> (s\<lparr>ctx := check False (ctx s)\<rparr>, None)
       | Some k \<Rightarrow> let
           s = put_frame [COMMAND_CLASS_SECURITY_2, SECURITY_2_NETWORK_KEY_GET, k] (s\<lparr>key_exchange := k\<rparr>);
           s = s\<lparr>inclusion_peer := (inclusion_peer s)\<lparr>class_id := TEMP_KEY_SECURE, tx_options := S2_TXOPTION_VERIFY_DELIVERY\<rparr>,
                 m_retry_counter := MAX_RETRY_COUNT\<rparr>
         in (s2_inclusion_set_timeout SECONDS_10 (s2_inclusion_send_data env s), None)))"

definition s2_send_net_key_verify :: "s2i_env \<Rightarrow> s2_inc \<Rightarrow> s2_inc \<times> inclusion_event option" where
  "s2_send_net_key_verify env s = (let s = s2_inclusion_stop_timeout s; received_key = rx s 2; k = take 16 (drop 3 (buf (ctx s))) in
     if received_key \<noteq> key_exchange s then refuse env 0x0A s
     else let
       s = inc_call (Network_key_written received_key k) s;
       s = s\<lparr>key_exchange := push_bit 1 (key_exchange s), ctx := snd (S2_network_key_update NETWORK_KEY_SECURE k False (ctx s))\<rparr>;
       s = put_frame [COMMAND_CLASS_SECURITY_2, SECURITY_2_NETWORK_KEY_VERIFY] s;
       s = s\<lparr>inclusion_peer := (inclusion_peer s)\<lparr>class_id := NETWORK_KEY_SECURE, tx_options := 0\<rparr>, m_retry_counter := MAX_RETRY_COUNT\<rparr>
     in (s2_inclusion_set_timeout SECONDS_10 (s2_inclusion_send_data env s), None))"

definition s2_send_final_transfer_end :: "s2i_env \<Rightarrow> s2_inc \<Rightarrow> s2_inc \<times> inclusion_event option" where
  "s2_send_final_transfer_end env s = (let s = s2_inclusion_stop_timeout s in
     if transfer_end_refused s then (inclusion_failed_frame_send env 0x09 NON_SECURE s, Some S2_INCLUSION_ERROR)
     else let
       s = put_frame [COMMAND_CLASS_SECURITY_2, SECURITY_2_TRANSFER_END, 0x01] s;
       s = s\<lparr>inclusion_peer := (inclusion_peer s)\<lparr>class_id := TEMP_KEY_SECURE, tx_options := 0\<rparr>, m_retry_counter := MAX_RETRY_COUNT\<rparr>
     in (s2_inclusion_send_data env s, None))"

definition s2_joining_complete :: "s2i_env \<Rightarrow> (u8 \<Rightarrow> inc_call) \<Rightarrow> s2_inc \<Rightarrow> s2_inc" where
  "s2_joining_complete env complete_type s =
     inc_call (complete_type (key_granted s)) (s\<lparr>ctx := s2_restore_keys (network_key env) (ctx s)\<rparr>)"

text \<open>The two public keys in \<^verbatim>\<open>shared_key_mem\<close>, A before B, overwrite the private key there.\<close>

definition derive_temp_key :: "s2i_env \<Rightarrow> u8 list \<Rightarrow> u8 list \<Rightarrow> s2_inc \<Rightarrow> s2_inc" where
  "derive_temp_key env priv tag s = (let k = tempkey_extract (crypto_scalarmult_curve25519 env priv (public_key s)) tag
   in s\<lparr>public_key := k @ drop 16 (public_key s), ctx := snd (S2_network_key_update TEMP_KEY_SECURE k True (ctx s))\<rparr>)"

definition s2_do_ecdh_calc_b :: "s2i_env \<Rightarrow> s2_inc \<Rightarrow> s2_inc" where
  "s2_do_ecdh_calc_b env s = s2_send_echo_kex_set env
     ((derive_temp_key env (s2_private_key_read env s) (public_key s @ s2_public_key_read env s) s)\<lparr>m_retry_counter := 24\<rparr>)"

section \<open>Actions of the including node\<close>

definition s2_do_ecdh_calc_a :: "s2i_env \<Rightarrow> s2_inc \<Rightarrow> s2_inc" where
  "s2_do_ecdh_calc_a env s = derive_temp_key env (private_key env) (own_public_key env @ public_key s) s"

text \<open>The result of a validation is the state and whether it succeeded; the error frame is sent by it.\<close>

definition invalid :: "s2i_env \<Rightarrow> u8 \<Rightarrow> s2_inc \<Rightarrow> bool \<times> s2_inc" where
  "invalid env error s = (False, inclusion_failed_frame_send env error NON_SECURE s)"

definition validate_reported_schemes :: "s2i_env \<Rightarrow> s2_inc \<Rightarrow> bool \<times> s2_inc" where
  "validate_reported_schemes env s = (let schemes = rx s 3 in
     if schemes AND NOT 0x02 \<noteq> 0 then invalid env 0x02 s
     else let s = s\<lparr>scheme_support := schemes\<rparr> in
       if scheme_support s AND 0x02 \<noteq> 0 then (True, s) else invalid env 0x02 s)"

definition validate_reported_curves :: "s2i_env \<Rightarrow> s2_inc \<Rightarrow> bool \<times> s2_inc" where
  "validate_reported_curves env s = (let curves = rx s 4 in
     if curves AND NOT 0x01 \<noteq> 0 then invalid env 0x03 s
     else let s = s\<lparr>curve_support := curves\<rparr> in
       if curve_support s AND 0x01 \<noteq> 0 then (True, s) else invalid env 0x03 s)"

definition validate_reported_keys :: "s2i_env \<Rightarrow> s2_inc \<Rightarrow> bool \<times> s2_inc" where
  "validate_reported_keys env s = (let
     s = s\<lparr>kex_report_keys := rx s 5, key_exchange := rx s 5\<rparr>;
     s = (if IS_LR_NODE (r_node (inclusion_peer s)) then s\<lparr>key_exchange := key_exchange s AND NOT (0x01 OR 0x80)\<rparr> else s);
     s = s\<lparr>key_granted := key_exchange s AND 0x87\<rparr>
   in if key_granted s \<noteq> 0 then (True, s) else invalid env 0x01 s)"

definition validate_requested_key :: "s2i_env \<Rightarrow> s2_inc \<Rightarrow> bool \<times> s2_inc" where
  "validate_requested_key env s = (let req_key = rx s 2 in
     if one_bit req_key \<and> req_key AND key_granted s \<noteq> 0 then (True, s\<lparr>key_requested := req_key\<rparr>)
     else invalid env 0x08 (s\<lparr>key_requested := 0\<rparr>))"

text \<open>
  The last condition is \<^verbatim>\<open>mode == csa ? INCLUSION_MODE_CSA : INCLUSION_MODE_SSA\<close> with the comparison first. As the modes
  are 0 and 1 in this order, the value is true exactly when mode and bit agree.
\<close>

definition mode_number :: "inclusion_mode \<Rightarrow> nat" where
  "mode_number m = (case m of INCLUSION_MODE_CSA \<Rightarrow> 0 | INCLUSION_MODE_SSA \<Rightarrow> 1)"

definition validate_echo_kex_set :: "s2i_env \<Rightarrow> s2_inc \<Rightarrow> bool \<times> s2_inc" where
  "validate_echo_kex_set env s =
     (if scheme_support s = rx s 3 \<and> curve_support s = rx s 4 \<and> key_granted s = rx s 5 \<and>
         (if mode_number (inclusion_mode s) = of_bool (rx s 2 AND 0x02 = 0x02)
          then mode_number INCLUSION_MODE_CSA else mode_number INCLUSION_MODE_SSA) \<noteq> 0
      then (True, s) else invalid env 0x07 s)"

definition s2_send_kex_get :: "s2i_env \<Rightarrow> s2_inc \<Rightarrow> s2_inc" where
  "s2_send_kex_get env s = s2_inclusion_set_timeout SECONDS_10 (s2_inclusion_send_frame env
     ((put_frame [COMMAND_CLASS_SECURITY_2, KEX_GET] s)\<lparr>m_retry_counter := MAX_RETRY_COUNT\<rparr>))"

definition kex_report_accepted :: "s2_inc \<Rightarrow> s2_inc" where
  "kex_report_accepted s = (let
     s = s\<lparr>csa_support := (if rx s 2 AND 0x02 \<noteq> 0 then 1 else 0), ctx := (ctx s)\<lparr>nls_state := (if rx s 2 AND 0x04 \<noteq> 0 then 1 else 0)\<rparr>,
           kex_report_echo_payload := take 4 (drop 2 (buf (ctx s)))\<rparr>
   in s2_inclusion_set_timeout SECONDS_240
        (inc_call (Kex_report_event (key_granted s) (rx s 2 AND 0x02 \<noteq> 0) (rx s 2 AND 0x04)) s))"

definition s2_kex_rep_recv :: "s2i_env \<Rightarrow> s2_inc \<Rightarrow> s2_inc \<times> inclusion_event option" where
  "s2_kex_rep_recv env s = (case validate_reported_schemes env (s2_inclusion_stop_timeout s) of
     (False, s) \<Rightarrow> (s, Some S2_INCLUSION_ERROR_SENT)
   | (True, s) \<Rightarrow> (case validate_reported_curves env s of
       (False, s) \<Rightarrow> (s, Some S2_INCLUSION_ERROR_SENT)
     | (True, s) \<Rightarrow> (case validate_reported_keys env s of
         (False, s) \<Rightarrow> (s, Some S2_INCLUSION_ERROR_SENT)
       | (True, s) \<Rightarrow> (kex_report_accepted s, None))))"

definition s2_send_kex_set :: "s2i_env \<Rightarrow> s2_inc \<Rightarrow> s2_inc" where
  "s2_send_kex_set env s = (let
     s = s2_inclusion_stop_timeout s;
     s = put_frame [COMMAND_CLASS_SECURITY_2, KEX_SET, 0x00 OR (if inclusion_mode s = INCLUSION_MODE_CSA then 0x02 else 0),
           0x02, 0x01, key_granted s] s
   in s2_inclusion_set_timeout SECONDS_10 (s2_inclusion_send_frame env (s\<lparr>m_retry_counter := MAX_RETRY_COUNT\<rparr>)))"

definition s2_send_transfer_end :: "s2i_env \<Rightarrow> s2_inc \<Rightarrow> s2_inc" where
  "s2_send_transfer_end env s = (let
     s = s2_inclusion_stop_timeout s;
     s = s\<lparr>ctx := snd (S2_network_key_update TEMP_KEY_SECURE (take 16 (public_key s)) True (ctx s))\<rparr>;
     s = put_frame [COMMAND_CLASS_SECURITY_2, SECURITY_2_TRANSFER_END, 0x02] s;
     s = s\<lparr>inclusion_peer := (inclusion_peer s)\<lparr>class_id := TEMP_KEY_SECURE, tx_options := 0\<rparr>, m_retry_counter := MAX_RETRY_COUNT\<rparr>
   in s2_inclusion_set_timeout SECONDS_10 (s2_inclusion_send_data env s))"

definition s2_send_pub_key_a :: "s2i_env \<Rightarrow> s2_inc \<Rightarrow> s2_inc" where
  "s2_send_pub_key_a env s = (let
     s = s2_inclusion_stop_timeout s;
     k = take 32 (drop 3 (buf (ctx s)));
     s = inc_call (Public_key_challenge k (key_granted s)
           (if key_granted s AND (0x02 OR 0x04) \<noteq> 0 \<and> inclusion_mode s = INCLUSION_MODE_SSA then 2 else 0)) (s\<lparr>public_key := k\<rparr>);
     own = own_public_key env;
     own = (if inclusion_mode s = INCLUSION_MODE_CSA \<and> key_granted s AND NOT (0x80 OR 0x01) \<noteq> 0 then [0, 0, 0, 0] @ drop 4 own else own);
     s = put_frame ([COMMAND_CLASS_SECURITY_2, PUBLIC_KEY_REPORT, 0x01] @ own) s
   in s2_inclusion_set_timeout SECONDS_240 (s2_inclusion_send_frame env (s\<lparr>m_retry_counter := MAX_RETRY_COUNT\<rparr>)))"

definition s2_send_echo_kex_report :: "s2i_env \<Rightarrow> s2_inc \<Rightarrow> s2_inc \<times> inclusion_event option" where
  "s2_send_echo_kex_report env s = (case validate_echo_kex_set env (s2_inclusion_stop_timeout s) of
     (False, s) \<Rightarrow> (s, Some S2_INCLUSION_ERROR_SENT)
   | (True, s) \<Rightarrow> let
       e = kex_report_echo_payload s;
       s = put_frame [COMMAND_CLASS_SECURITY_2, KEX_REPORT, e ! 0 OR 0x01, e ! 1, e ! 2, e ! 3] s;
       s = s\<lparr>key_exchange := 0x00, inclusion_peer := (inclusion_peer s)\<lparr>class_id := TEMP_KEY_SECURE, tx_options := S2_TXOPTION_VERIFY_DELIVERY\<rparr>,
             m_retry_counter := MAX_RETRY_COUNT\<rparr>
     in (s2_inclusion_set_timeout SECONDS_10 (s2_inclusion_send_data env s), None))"

definition translate_keyslot_to_read_for_LR :: "s2_inc \<Rightarrow> u8" where
  "translate_keyslot_to_read_for_LR s = (let actual_keyslot = inclusion_buf s ! 2 in
     if IS_LR_NODE (r_node (inclusion_peer s)) then
       (if actual_keyslot = 0x02 then 0x08 else if actual_keyslot = 0x04 then 0x10 else actual_keyslot)
     else actual_keyslot)"

text \<open>A key that the keystore does not have leaves the bytes of the buffer as they are.\<close>

definition s2_send_net_key_report :: "s2i_env \<Rightarrow> s2_inc \<Rightarrow> s2_inc \<times> inclusion_event option" where
  "s2_send_net_key_report env s = (case validate_requested_key env (s2_inclusion_stop_timeout s) of
     (False, s) \<Rightarrow> (s, Some S2_INCLUSION_ERROR_SENT)
   | (True, s) \<Rightarrow> let
       s = s\<lparr>key_exchange := key_exchange s OR rx s 2\<rparr>;
       s = put_frame [COMMAND_CLASS_SECURITY_2, SECURITY_2_NETWORK_KEY_REPORT, rx s 2] s;
       k = (case network_key env (translate_keyslot_to_read_for_LR s) of Some k \<Rightarrow> k | None \<Rightarrow> take 16 (drop 3 (inclusion_buf s)));
       s = put_frame ([COMMAND_CLASS_SECURITY_2, SECURITY_2_NETWORK_KEY_REPORT, inclusion_buf s ! 2] @ k) s;
       s = s\<lparr>inclusion_peer := (inclusion_peer s)\<lparr>class_id := TEMP_KEY_SECURE, tx_options := 0\<rparr>, m_retry_counter := MAX_RETRY_COUNT\<rparr>;
       s = s2_inclusion_set_timeout SECONDS_10 (s2_inclusion_send_data env s)
     in (if inclusion_buf s ! 2 = 0x80
         then s\<lparr>ctx := snd (S2_network_key_update NETWORK_KEY_SECURE (take 16 (drop 3 (inclusion_buf s))) False (ctx s))\<rparr> else s, None))"

definition s2_inclusion_complete :: "s2i_env \<Rightarrow> s2_inc \<Rightarrow> s2_inc" where
  "s2_inclusion_complete env s =
     (if rx s 1 = SECURITY_2_TRANSFER_END \<and> rx s 2 AND (0x01 OR 0x02) = 0x01
      then let s = s2_inclusion_stop_timeout s
        in inc_call (Inclusion_complete (key_exchange s)) (s\<lparr>ctx := s2_restore_keys (network_key env) (ctx s)\<rparr>)
      else inclusion_failed_evt_push env 0x09 (inclusion_failed_frame_send env 0x09 NON_SECURE s))"

definition s2_check_no_keys :: "s2i_env \<Rightarrow> s2_inc \<Rightarrow> s2_inc" where
  "s2_check_no_keys env s = (if key_granted s \<noteq> 0 then inclusion_failed_evt_push env (kex_fail_code s) s else s2_inclusion_complete env s)"

section \<open>The machine\<close>

definition execute_action_controller :: "s2i_env \<Rightarrow> s2_action \<Rightarrow> s2_inc \<Rightarrow> s2_inc \<times> inclusion_event option" where
  "execute_action_controller env a s = (case a of
     S2_CHECK_NO_KEYS \<Rightarrow> (s2_check_no_keys env s, None)
   | S2_SEND_KEX_GET_ACTION \<Rightarrow> (s2_send_kex_get env s, None)
   | S2_KEX_REP_RECV_ACTION \<Rightarrow> s2_kex_rep_recv env s
   | S2_SEND_KEX_SET_ACTION \<Rightarrow> (s2_send_kex_set env s, None)
   | S2_SEND_PUB_KEY_A_ACTION \<Rightarrow> (s2_send_pub_key_a env s, None)
   | S2_DO_ECDH_CALC_A_ACTION \<Rightarrow> (s2_do_ecdh_calc_a env s, None)
   | S2_SEND_ECHO_KEX_REPORT_ACTION \<Rightarrow> s2_send_echo_kex_report env s
   | S2_SEND_ERROR_DECRYPT_ACTION \<Rightarrow> (inclusion_failed_frame_send env 0x05 NON_SECURE s, None)
   | S2_SEND_ERROR_CANCEL_ACTION \<Rightarrow> (inclusion_failed_frame_send env 0x06 NON_SECURE s, None)
   | S2_SEND_NET_KEY_REPORT_ACTION \<Rightarrow> s2_send_net_key_report env s
   | S2_SEND_TRANSFER_END_ACTION \<Rightarrow> (s2_send_transfer_end env s, None)
   | S2_INCLUSION_COMPLETE_ACTION \<Rightarrow> (s2_inclusion_complete env s, None)
   | _ \<Rightarrow> (s, None))"

definition execute_action :: "s2i_env \<Rightarrow> s2_action \<Rightarrow> s2_inc \<Rightarrow> s2_inc \<times> inclusion_event option" where
  "execute_action env a s = (case a of
     S2_REMOTE_ERROR_ACTION \<Rightarrow> (remote_inclusion_failed_evt_push env s, None)
   | S2_ABORT_ACTION \<Rightarrow> (inclusion_failed_evt_push env (kex_fail_code s) s, None)
   | S2_JOINING_START_ACTION \<Rightarrow> (s2_joining_start s, None)
   | S2_TIMEOUT_TB1_SET_ACTION \<Rightarrow> (s2_inclusion_set_timeout SECONDS_30 (s2_inclusion_stop_timeout s), None)
   | S2_SEND_KEX_REPORT_ACTION \<Rightarrow> (s2_send_kex_report env s, None)
   | S2_SEND_PUB_KEY_B_ACTION \<Rightarrow> s2_send_pub_key_b env s
   | S2_PUB_KEY_A_RECV_ACTION \<Rightarrow> (s2_pub_key_a_recv s, None)
   | S2_DO_ECDH_CALC_B_ACTION \<Rightarrow> (s2_do_ecdh_calc_b env s, None)
   | S2_SEND_ECHO_KEX_SET_ACTION \<Rightarrow> (s2_send_echo_kex_set env s, None)
   | S2_SEND_NET_KEY_GET_ACTION \<Rightarrow> s2_send_net_key_get env s
   | S2_SEND_NET_KEY_VERIFY_ACTION \<Rightarrow> s2_send_net_key_verify env s
   | S2_SEND_FINAL_TRANSFER_END_ACTION \<Rightarrow> s2_send_final_transfer_end env s
   | S2_JOINING_COMPLETE_ACTION \<Rightarrow> (s2_joining_complete env Joining_complete s, None)
   | S2_JOINING_NEVER_STARTED_ACTION \<Rightarrow> (s2_joining_complete env Joining_never_started s, None)
   | S2_RESEND_FRAME_ACTION \<Rightarrow> (s2_inclusion_send_frame env s, None)
   | S2_RESEND_DATA_ACTION \<Rightarrow> (s2_inclusion_send_data env s, None)
   | S2_NO_ACTION \<Rightarrow> (s, None)
   | _ \<Rightarrow> execute_action_controller env a s)"

text \<open>\<^verbatim>\<open>process_s2_inclusion_event\<close>: the first row that matches, in the table of the controller and then in the general one.\<close>

definition process_s2_inclusion_event :: "inclusion_event \<Rightarrow> s2_transition list \<Rightarrow> inclusion_state \<Rightarrow> (s2_action \<times> inclusion_state) option" where
  "process_s2_inclusion_event e table st = map_option (snd \<circ> snd)
     (find (\<lambda>(s, ev, a, n). (s = st \<or> s = S2_INC_STATE_ANY) \<and> (ev = e \<or> ev = S2_EVT_ANY)) table)"

definition transition :: "inclusion_event \<Rightarrow> inclusion_state \<Rightarrow> (s2_action \<times> inclusion_state) option" where
  "transition e st = (case process_s2_inclusion_event e s2_transition_table_controller st of
     Some r \<Rightarrow> Some r | None \<Rightarrow> process_s2_inclusion_event e s2_transition_table st)"

definition take_transition :: "s2i_env \<Rightarrow> s2_action \<times> inclusion_state \<Rightarrow> s2_inc \<Rightarrow> s2_inc \<times> inclusion_event option" where
  "take_transition env r s = execute_action env (fst r)
     (if snd r \<noteq> S2_INC_STATE_ANY \<and> inclusion_state s \<noteq> snd r then set_inclusion_state (snd r) s else s)"

lemma transition_ends:
  "transition S2_INCLUSION_ERROR_SENT st = Some (if st = S2_INC_IDLE then (S2_NO_ACTION, S2_INC_IDLE) else (S2_NO_ACTION, S2_ERROR_SENT))"
  "transition S2_INCLUSION_ERROR st = Some (if st = S2_INC_IDLE then (S2_NO_ACTION, S2_INC_IDLE) else (S2_ABORT_ACTION, S2_INC_IDLE))"
  "transition S2_NO_KEYS_GRANTED st = Some (if st = S2_INC_IDLE then (S2_NO_ACTION, S2_INC_IDLE)
     else if st = S2_AWAITING_NET_KEY_REPORT then (S2_SEND_FINAL_TRANSFER_END_ACTION, S2_SENDING_FINAL_TRANSFER_END) else (S2_ABORT_ACTION, S2_INC_IDLE))"
  by (auto simp: transition_def process_s2_inclusion_event_def s2_transition_table_controller_def s2_transition_table_def)

text \<open>Posted events have a lower rank than the event whose action posts them.\<close>

fun event_rank :: "inclusion_event \<Rightarrow> nat" where
  "event_rank S2_INCLUSION_ERROR_SENT = 0"
| "event_rank S2_INCLUSION_ERROR = 0"
| "event_rank S2_NO_KEYS_GRANTED = 1"
| "event_rank _ = 2"

lemma action_posts:
  assumes "execute_action env a s = (s', Some e)"
  shows "a \<noteq> S2_NO_ACTION \<and> a \<noteq> S2_ABORT_ACTION \<and> e \<in> {S2_INCLUSION_ERROR_SENT, S2_INCLUSION_ERROR, S2_NO_KEYS_GRANTED} \<and>
    (a = S2_SEND_FINAL_TRANSFER_END_ACTION \<longrightarrow> e = S2_INCLUSION_ERROR)"
  using assms
  by (cases a) (auto simp: execute_action_def execute_action_controller_def s2_send_pub_key_b_def s2_send_net_key_get_def
      s2_send_net_key_verify_def s2_send_final_transfer_end_def s2_kex_rep_recv_def s2_send_echo_kex_report_def s2_send_net_key_report_def
      refuse_def Let_def split: if_splits prod.splits bool.splits option.splits)

lemma posted_rank:
  assumes "transition e (inclusion_state s) = Some r" and "take_transition env r s = (s', Some e')"
  shows "event_rank e' < event_rank e"
proof -
  have p: "fst r \<noteq> S2_NO_ACTION \<and> fst r \<noteq> S2_ABORT_ACTION \<and> e' \<in> {S2_INCLUSION_ERROR_SENT, S2_INCLUSION_ERROR, S2_NO_KEYS_GRANTED} \<and>
      (fst r = S2_SEND_FINAL_TRANSFER_END_ACTION \<longrightarrow> e' = S2_INCLUSION_ERROR)"
    using action_posts assms(2) unfolding take_transition_def by blast
  have n: "e \<noteq> S2_INCLUSION_ERROR_SENT" "e \<noteq> S2_INCLUSION_ERROR" using p assms(1) transition_ends(1,2) by (auto split: if_splits)
  show ?thesis
  proof (cases "e = S2_NO_KEYS_GRANTED")
    case True
    then show ?thesis using p assms(1) transition_ends(3) [of "inclusion_state s"] by (auto split: if_splits)
  next
    case False
    then have "event_rank e = 2" using n by (cases e) auto
    then show ?thesis using p by auto
  qed
qed

function process_event :: "s2i_env \<Rightarrow> inclusion_event \<Rightarrow> s2_inc \<Rightarrow> s2_inc" where
  "process_event env e s = (case transition e (inclusion_state s) of
     None \<Rightarrow> s
   | Some r \<Rightarrow> (case take_transition env r s of (s, None) \<Rightarrow> s | (s, Some e') \<Rightarrow> process_event env e' s))"
  by pat_completeness auto
termination
  by (relation "measure (\<lambda>(env, e, s). event_rank e)") (auto intro: posted_rank dest: sym)

declare process_event.simps [simp del]

section \<open>Interface\<close>

definition s2_inclusion_init :: "u8 \<Rightarrow> u8 \<Rightarrow> u8 \<Rightarrow> s2_inc \<Rightarrow> u8 \<times> s2_inc" where
  "s2_inclusion_init schemes curves keys_to_request s =
     (if 0x02 \<noteq> schemes then (0x02, s)
      else if 0x01 \<noteq> curves then (0x03, s)
      else if NOT 0x87 AND keys_to_request \<noteq> 0 \<or> 0x87 AND keys_to_request = 0 then (0x01, s)
      else (0, s\<lparr>m_schemes := schemes, m_curves := curves, m_keys := keys_to_request\<rparr>))"

definition s2_inclusion_challenge_response :: "s2i_env \<Rightarrow> u8 \<Rightarrow> u8 list \<Rightarrow> s2_inc \<Rightarrow> s2_inc" where
  "s2_inclusion_challenge_response env include response s =
     (if include = 1
      then process_event env S2_INCLUDING_ACCEPT (s\<lparr>public_key := put_at 0 response (public_key s), ctx := check (length response \<le> 32) (ctx s)\<rparr>)
      else process_event env S2_INCLUDING_REJECT s)"

definition s2_inclusion_key_grant :: "s2i_env \<Rightarrow> u8 \<Rightarrow> u8 \<Rightarrow> u8 \<Rightarrow> s2_inc \<Rightarrow> s2_inc" where
  "s2_inclusion_key_grant env include keys csa s =
     (if include = 1
      then process_event env S2_INCLUDING_ACCEPT
             (s\<lparr>inclusion_mode := (if csa \<noteq> 0 then INCLUSION_MODE_CSA else INCLUSION_MODE_SSA), key_granted := keys\<rparr>)
      else process_event env S2_INCLUDING_REJECT s)"

definition s2_inclusion_including_start :: "s2i_env \<Rightarrow> s2_connection \<Rightarrow> s2_inc \<Rightarrow> s2_inc" where
  "s2_inclusion_including_start env p s =
     (if inclusion_state s = S2_INC_IDLE
      then process_event env S2_INCLUDING_START
             (s\<lparr>inclusion_peer := p\<lparr>tx_options := 0\<rparr>, inclusion_mode := INCLUSION_MODE_SSA, kex_fail_code := 0\<rparr>)
      else s)"

definition s2_inclusion_joining_start :: "s2i_env \<Rightarrow> s2_connection \<Rightarrow> u8 \<Rightarrow> s2_inc \<Rightarrow> s2_inc" where
  "s2_inclusion_joining_start env con csa s = (let
     s = s\<lparr>inclusion_peer := con, inclusion_mode := (if csa \<noteq> 0 then INCLUSION_MODE_CSA else INCLUSION_MODE_SSA), kex_fail_code := 0\<rparr>;
     s = (if IS_LR_NODE (l_node (inclusion_peer s)) then s\<lparr>m_keys := m_keys s AND NOT (0x01 OR 0x80)\<rparr> else s)
   in process_event env S2_JOINING_START s)"

definition s2_inclusion_neighbor_discovery_complete :: "s2i_env \<Rightarrow> s2_inc \<Rightarrow> s2_inc" where
  "s2_inclusion_neighbor_discovery_complete env s = process_event env S2_DISCOVERY_COMPLETE s"

definition s2_inclusion_abort :: "s2i_env \<Rightarrow> s2_inc \<Rightarrow> s2_inc" where
  "s2_inclusion_abort env s = process_event env S2_INCLUDING_REJECT s"

text \<open>The event of a frame that has passed the rules.\<close>

definition frame_event :: "u8 \<Rightarrow> s2_inc \<Rightarrow> inclusion_event" where
  "frame_event cmd s =
     (if cmd = KEX_GET then S2_KEX_GET_RECV
      else if cmd = KEX_REPORT then (if rx s 2 AND 0x01 \<noteq> 0 then S2_ECHO_KEX_REPORT_RECV else S2_KEX_REPORT_RECV)
      else if cmd = KEX_SET then (if rx s 2 AND 0x01 \<noteq> 0 then S2_ECHO_KEX_SET_RECV else S2_KEX_SET_RECV)
      else if cmd = KEX_FAIL then S2_INCLUSION_ERROR_RECV
      else if cmd = PUBLIC_KEY_REPORT then (if rx s 2 AND 0x01 \<noteq> 0 then S2_PUB_KEY_RECV_A else S2_PUB_KEY_RECV_B)
      else if cmd = SECURITY_2_NETWORK_KEY_GET then S2_NET_KEY_GET_RECV
      else if cmd = SECURITY_2_NETWORK_KEY_REPORT then S2_NET_KEY_REPORT_RECV
      else if cmd = SECURITY_2_NETWORK_KEY_VERIFY then
        (if key_exchange s = key_granted s then S2_NET_KEY_VERIFY_FINAL_RECV else S2_NET_KEY_VERIFY_RECV)
      else if (- key_exchange s) AND key_granted s \<noteq> 0 then S2_TRANSFER_END_RECV else S2_SEND_FINAL_TRANSFER_END)"

text \<open>Whether the class that a frame was received with is the one its rule asks for.\<close>

definition rule_ok :: "rule_support \<times> u8 \<times> u8 \<Rightarrow> s2_inc \<Rightarrow> bool" where
  "rule_ok r s = (let (support, a, b) = r; c = class_id (inclusion_peer s);
     crypt_rule = (if support = ECHO_SUPPORT \<and> rx s 2 AND 0x01 \<noteq> 0 then b else a)
   in if crypt_rule = NETWORK_KEY_SECURE
      then unat c < length m_key_slot_key_class_pair \<and>
        (key_requested s = m_key_slot_key_class_pair ! unat c \<or> key_exchange s AND m_key_slot_key_class_pair ! unat c \<noteq> 0)
      else crypt_rule = c \<or> support = DUAL_RULE_SUPPORT \<and> c = b)"

text \<open>The index of the rules is compared with their number, and the number itself passes.\<close>

definition s2_inclusion_post_event_internal :: "s2i_env \<Rightarrow> s2_inc \<Rightarrow> s2_inc" where
  "s2_inclusion_post_event_internal env s = (let cmd = rx s 1; event_rule_index = unat (cmd - KEX_GET) in
     if length m_frame_rules < event_rule_index \<or> inclusion_state s = S2_INC_IDLE then s
     else if event_rule_index = length m_frame_rules then s\<lparr>ctx := check False (ctx s)\<rparr>
     else let (len, r) = m_frame_rules ! event_rule_index in
       if len > unat (buf_length (ctx s)) then process_event env S2_INCLUSION_ERROR s
       else if \<not> rule_ok r s then process_event env S2_INCLUSION_ERROR_SENT (inclusion_failed_frame_send env 0x07 NON_SECURE s)
       else process_event env (frame_event cmd s) s)"

definition s2_inclusion_post_event :: "s2i_env \<Rightarrow> s2_connection \<Rightarrow> s2_inc \<Rightarrow> s2_inc" where
  "s2_inclusion_post_event env src s =
     (if rx_options src AND S2_RXOPTION_MULTICAST = S2_RXOPTION_MULTICAST then s
      else let s = (if inclusion_state s = S2_AWAITING_KEX_GET then s\<lparr>inclusion_peer := src\<rparr> else s) in
        if r_node (inclusion_peer s) = r_node src
        then s2_inclusion_post_event_internal env (s\<lparr>inclusion_peer := (inclusion_peer s)\<lparr>class_id := class_id src\<rparr>\<rparr>)
        else s)"

definition s2_inclusion_notify_timeout :: "s2i_env \<Rightarrow> s2_inc \<Rightarrow> s2_inc" where
  "s2_inclusion_notify_timeout env s =
     (if inclusion_state s = S2_ECHO_KEX_SET_SENDING
      then process_event env (if m_retry_counter s = NO_RETRIES \<or> m_retry_counter s = QUEUE_FULL then S2_INCLUSION_TIMEOUT else S2_INCLUSION_RETRY) s
      else process_event env S2_INCLUSION_TIMEOUT s)"

definition s2_inclusion_send_done :: "s2i_env \<Rightarrow> bool \<Rightarrow> s2_inc \<Rightarrow> s2_inc" where
  "s2_inclusion_send_done env status s =
     (if m_retry_counter s = QUEUE_FULL then process_event env S2_INCLUSION_RETRY (s\<lparr>m_retry_counter := MAX_RETRY_COUNT\<rparr>)
      else if m_retry_counter s > NO_RETRIES \<and> inclusion_state s \<noteq> S2_ECHO_KEX_SET_SENDING
      then process_event env (if status then S2_INCLUSION_SEND_DONE else S2_INCLUSION_RETRY) s
      else process_event env (if status then S2_INCLUSION_SEND_DONE else S2_INCLUSION_SEND_FAILED) s)"

definition s2_inclusion_decryption_failure :: "s2i_env \<Rightarrow> s2_connection \<Rightarrow> s2_inc \<Rightarrow> s2_inc" where
  "s2_inclusion_decryption_failure env src s =
     (if r_node src = r_node (inclusion_peer s) then process_event env S2_INCLUDING_DECRYPT_FAILED s else s)"

definition s2_get_key_count :: nat where
  "s2_get_key_count = length m_key_slot_pair + 1"

section \<open>Inputs\<close>

text \<open>
  What the inclusion can be asked, in any order. Between two inputs \<^verbatim>\<open>S2.c\<close> may change what it keeps of the context: every
  input comes with it, for a received frame with the frame in its buffer.
\<close>

datatype inc_input =
    Including_start s2_connection
  | Joining_start s2_connection u8
  | Key_grant u8 u8 u8
  | Challenge_response u8 "u8 list"
  | Discovery_complete
  | Abort
  | Received s2_connection
  | Timer_expired
  | Send_done bool
  | Decryption_failure s2_connection
  | Init u8 u8 u8

definition inc_step :: "s2i_env \<Rightarrow> inc_input \<times> s2 \<Rightarrow> s2_inc \<Rightarrow> s2_inc" where
  "inc_step env i s = (let s = s\<lparr>ctx := snd i\<rparr> in case fst i of
     Including_start p \<Rightarrow> s2_inclusion_including_start env p s
   | Joining_start con csa \<Rightarrow> s2_inclusion_joining_start env con csa s
   | Key_grant include keys csa \<Rightarrow> s2_inclusion_key_grant env include keys csa s
   | Challenge_response include response \<Rightarrow> s2_inclusion_challenge_response env include response s
   | Discovery_complete \<Rightarrow> s2_inclusion_neighbor_discovery_complete env s
   | Abort \<Rightarrow> s2_inclusion_abort env s
   | Received src \<Rightarrow> s2_inclusion_post_event env src s
   | Timer_expired \<Rightarrow> if inc_timer s = None then s else s2_inclusion_notify_timeout env (s\<lparr>inc_timer := None\<rparr>)
   | Send_done status \<Rightarrow> s2_inclusion_send_done env status s
   | Decryption_failure src \<Rightarrow> s2_inclusion_decryption_failure env src s
   | Init schemes curves keys \<Rightarrow> snd (s2_inclusion_init schemes curves keys s))"

definition inc_run :: "s2i_env \<Rightarrow> (inc_input \<times> s2) list \<Rightarrow> s2_inc \<Rightarrow> s2_inc" where
  "inc_run env is s = fold (inc_step env) is s"

text \<open>The state before anything happened: static variables and the context are zero.\<close>

definition inc_init :: "s2 \<Rightarrow> s2_inc" where
  "inc_init c = \<lparr>ctx = c, inclusion_state = S2_INC_IDLE, inclusion_mode = INCLUSION_MODE_CSA, inclusion_peer = zero_peer, csa_support = 0,
     kex_set_byte2 = 0, scheme_support = 0, curve_support = 0, key_granted = 0, key_exchange = 0, key_requested = 0, kex_report_keys = 0,
     kex_report_echo_payload = replicate 4 0, kex_fail_code = 0, inclusion_buf = replicate 40 0, inclusion_buf_length = 0,
     public_key = replicate 32 0, m_schemes = 0, m_curves = 0, m_keys = 0, m_retry_counter = 0, inc_timer = None, inc_calls = []\<rparr>"

end
