(* ===== verification/S2_Inclusion_Properties.thy ===== *)
theory S2_Inclusion_Properties
  imports S2_Inclusion S2_Examples
begin

text \<open>
  Properties of the exchange of keys: every inclusion is reported once, network keys leave only encrypted, one at a time and if they
  were granted, the states that wait have a timer, and both ends derive the same temporary key.
\<close>

section \<open>Invariants of the machine\<close>

lemma transition_total: "transition e st \<noteq> None"
proof -
  have "(S2_INC_STATE_ANY, S2_EVT_ANY, S2_ABORT_ACTION, S2_INC_IDLE) \<in> set s2_transition_table" by (simp add: s2_transition_table_def)
  then have "process_s2_inclusion_event e s2_transition_table st \<noteq> None"
    unfolding process_s2_inclusion_event_def by (auto simp: find_None_iff)
  then show ?thesis by (simp add: transition_def split: option.split)
qed

text \<open>
  What is known of an event and the state in which it is processed, and what the machine leaves: a transition that ends without
  an event has to give the second, and one that posts an event the first for this event.
\<close>

locale inclusion_invariant =
  fixes I :: "s2_inc \<Rightarrow> bool" and known :: "inclusion_event \<Rightarrow> s2_inc \<Rightarrow> bool"
  assumes keeps: "known e s \<Longrightarrow> transition e (inclusion_state s) = Some (a, n) \<Longrightarrow> take_transition env (a, n) s = (s', p) \<Longrightarrow>
    (case p of None \<Rightarrow> I s' | Some e' \<Rightarrow> known e' s')"
begin

lemma machine_keeps: "known e s \<Longrightarrow> I (process_event env e s)"
proof (induction env e s rule: process_event.induct)
  case (1 env e s)
  obtain a n where r: "transition e (inclusion_state s) = Some (a, n)" using transition_total [of e "inclusion_state s"] by fastforce
  obtain s' p where t: "take_transition env (a, n) s = (s', p)" by fastforce
  note k = keeps [OF 1(2) r t]
  show ?case
  proof (cases p)
    case None
    then show ?thesis using k r t by (simp add: process_event.simps)
  next
    case p: (Some e')
    have "I (process_event env e' s')" using 1(1) [OF r t [symmetric] p] k p by simp
    then show ?thesis using r t p by (subst process_event.simps) simp
  qed
qed

end

section \<open>What the helpers change\<close>

lemma helper_simps [simp]:
  "inclusion_state (s2_inclusion_send_frame env s) = inclusion_state s" "inc_timer (s2_inclusion_send_frame env s) = inc_timer s"
  "key_granted (s2_inclusion_send_frame env s) = key_granted s" "key_exchange (s2_inclusion_send_frame env s) = key_exchange s"
  "inclusion_buf (s2_inclusion_send_frame env s) = inclusion_buf s"
  "inclusion_state (s2_inclusion_send_data env s) = inclusion_state s" "inc_timer (s2_inclusion_send_data env s) = inc_timer s"
  "key_granted (s2_inclusion_send_data env s) = key_granted s" "key_exchange (s2_inclusion_send_data env s) = key_exchange s"
  "inclusion_buf (s2_inclusion_send_data env s) = inclusion_buf s"
  "inclusion_state (s2_inclusion_stop_timeout s) = inclusion_state s" "inc_timer (s2_inclusion_stop_timeout s) = None"
  "key_granted (s2_inclusion_stop_timeout s) = key_granted s" "key_exchange (s2_inclusion_stop_timeout s) = key_exchange s"
  "inclusion_buf (s2_inclusion_stop_timeout s) = inclusion_buf s" "inc_calls (s2_inclusion_stop_timeout s) = inc_calls s"
  "inclusion_state (s2_inclusion_set_timeout t s) = inclusion_state s" "inc_timer (s2_inclusion_set_timeout t s) = Some t"
  "key_granted (s2_inclusion_set_timeout t s) = key_granted s" "key_exchange (s2_inclusion_set_timeout t s) = key_exchange s"
  "inclusion_buf (s2_inclusion_set_timeout t s) = inclusion_buf s" "inc_calls (s2_inclusion_set_timeout t s) = inc_calls s"
  "inclusion_state (put_frame b s) = inclusion_state s" "inc_timer (put_frame b s) = inc_timer s"
  "key_granted (put_frame b s) = key_granted s" "key_exchange (put_frame b s) = key_exchange s"
  "inclusion_buf (put_frame b s) = b @ drop (length b) (inclusion_buf s)" "inc_calls (put_frame b s) = inc_calls s"
  "frame_of (put_frame b s) = b"
  by (simp_all add: s2_inclusion_send_frame_def s2_inclusion_send_data_def s2_inclusion_stop_timeout_def s2_inclusion_set_timeout_def
      put_frame_def put_at_def frame_of_def case_prod_beta)

lemma frame_of_upd [simp]:
  "frame_of (s\<lparr>m_retry_counter := r\<rparr>) = frame_of s" "frame_of (s\<lparr>inclusion_peer := q\<rparr>) = frame_of s" "frame_of (s\<lparr>kex_fail_code := f\<rparr>) = frame_of s"
  "frame_of (s\<lparr>key_exchange := k\<rparr>) = frame_of s"
  by (simp_all add: frame_of_def)

lemma send_calls:
  "\<exists>ok. inc_calls (s2_inclusion_send_frame env s) = inc_calls s @ [Frame_handed (inclusion_peer s) (frame_of s) ok]"
  "\<exists>ok. inc_calls (s2_inclusion_send_data env s) = inc_calls s @ [Data_handed (inclusion_peer s) (frame_of s) ok]"
  by (auto simp: s2_inclusion_send_frame_def s2_inclusion_send_data_def case_prod_beta)

lemma failed_frame_simps [simp]:
  "inclusion_state (inclusion_failed_frame_send env err sec s) = inclusion_state s" "inc_timer (inclusion_failed_frame_send env err sec s) = inc_timer s"
  "key_granted (inclusion_failed_frame_send env err sec s) = key_granted s" "key_exchange (inclusion_failed_frame_send env err sec s) = key_exchange s"
  "inclusion_buf (inclusion_failed_frame_send env err sec s) ! Suc 0 = 7"
  by (simp_all add: inclusion_failed_frame_send_def Let_def)

lemma failed_push_simps [simp]:
  "inclusion_state (inclusion_failed_evt_push env f s) = inclusion_state s" "key_granted (inclusion_failed_evt_push env f s) = key_granted s"
  "key_exchange (inclusion_failed_evt_push env f s) = key_exchange s" "inclusion_buf (inclusion_failed_evt_push env f s) = inclusion_buf s"
  "inc_calls (inclusion_failed_evt_push env f s) = inc_calls s @ [Inclusion_failed f]"
  by (simp_all add: inclusion_failed_evt_push_def Let_def)

section \<open>Reports\<close>

fun is_report :: "inc_call \<Rightarrow> bool" where
  "is_report (Inclusion_complete _) = True"
| "is_report (Inclusion_failed _) = True"
| "is_report (Joining_complete _) = True"
| "is_report (Joining_never_started _) = True"
| "is_report _ = False"

definition reports :: "s2_inc \<Rightarrow> nat" where
  "reports s = length (filter is_report (inc_calls s))"

lemma reports_simps [simp]:
  "reports (s\<lparr>inc_calls := cs\<rparr>) = length (filter is_report cs)" "length (filter is_report (inc_calls s)) = reports s"
  "reports (s\<lparr>ctx := c\<rparr>) = reports s" "reports (s\<lparr>m_retry_counter := r\<rparr>) = reports s" "reports (s\<lparr>inclusion_peer := q\<rparr>) = reports s"
  "reports (s\<lparr>kex_fail_code := f\<rparr>) = reports s" "reports (s\<lparr>csa_support := a\<rparr>) = reports s" "reports (s\<lparr>key_granted := g\<rparr>) = reports s"
  "reports (s\<lparr>key_exchange := x\<rparr>) = reports s" "reports (s\<lparr>key_requested := kq\<rparr>) = reports s" "reports (s\<lparr>kex_set_byte2 := k2\<rparr>) = reports s"
  "reports (s\<lparr>scheme_support := sc\<rparr>) = reports s" "reports (s\<lparr>curve_support := cu\<rparr>) = reports s" "reports (s\<lparr>inclusion_mode := m\<rparr>) = reports s"
  "reports (s\<lparr>public_key := pk\<rparr>) = reports s" "reports (s\<lparr>kex_report_keys := kk\<rparr>) = reports s" "reports (s\<lparr>kex_report_echo_payload := e\<rparr>) = reports s"
  "reports (s\<lparr>inc_timer := tm\<rparr>) = reports s" "reports (s\<lparr>m_keys := mk\<rparr>) = reports s" "reports (s\<lparr>m_schemes := ms\<rparr>) = reports s" "reports (s\<lparr>m_curves := mc\<rparr>) = reports s"
  by (simp_all add: reports_def)

lemma reports_helpers [simp]:
  "reports (s2_inclusion_stop_timeout s) = reports s" "reports (s2_inclusion_set_timeout t s) = reports s" "reports (put_frame b s) = reports s"
  "reports (set_inclusion_state st s) = reports s" "inclusion_state (set_inclusion_state st s) = st"
  by (simp_all add: reports_def set_inclusion_state_def put_frame_def del: reports_simps(2))

lemma reports_send [simp]: "reports (s2_inclusion_send_frame env s) = reports s" "reports (s2_inclusion_send_data env s) = reports s"
  using send_calls [of env s] by (auto simp: reports_def simp del: reports_simps(2))

lemma reports_failed [simp]: "reports (inclusion_failed_frame_send env err sec s) = reports s" "reports (inclusion_failed_evt_push env f s) = Suc (reports s)"
  by (simp_all add: inclusion_failed_frame_send_def Let_def) (simp add: reports_def del: reports_simps(2))

lemmas action_defs =
  execute_action_def execute_action_controller_def s2_send_pub_key_b_def s2_send_net_key_get_def
  s2_send_net_key_verify_def s2_send_final_transfer_end_def s2_kex_rep_recv_def s2_send_echo_kex_report_def s2_send_net_key_report_def
  refuse_def remote_inclusion_failed_evt_push_def s2_joining_start_def s2_send_kex_report_def send_pub_key_b_def s2_pub_key_a_recv_def
  s2_do_ecdh_calc_b_def s2_send_echo_kex_set_def derive_temp_key_def s2_joining_complete_def s2_check_no_keys_def s2_send_kex_get_def
  s2_send_kex_set_def s2_send_pub_key_a_def s2_do_ecdh_calc_a_def s2_send_transfer_end_def s2_inclusion_complete_def kex_report_accepted_def
  validate_reported_schemes_def validate_reported_curves_def validate_reported_keys_def validate_requested_key_def validate_echo_kex_set_def
  invalid_def

definition reporting :: "s2_action set" where
  "reporting = {S2_ABORT_ACTION, S2_REMOTE_ERROR_ACTION, S2_JOINING_COMPLETE_ACTION, S2_JOINING_NEVER_STARTED_ACTION, S2_CHECK_NO_KEYS,
     S2_INCLUSION_COMPLETE_ACTION}"

lemma action_reports:
  "inclusion_state (fst (execute_action env a s)) = inclusion_state s \<and>
   reports (fst (execute_action env a s)) = reports s + of_bool (a \<in> reporting)"
  by (cases a) (simp_all add: action_defs reporting_def Let_def case_prod_beta split: bool.split option.split)

section \<open>Rows of the tables\<close>

definition table_rows :: "s2_transition set" where
  "table_rows = set s2_transition_table_controller \<union> set s2_transition_table"

lemma transition_row:
  assumes "transition e st = Some (a, n)"
  obtains st' e' where "(st', e', a, n) \<in> table_rows" "st' = st \<or> st' = S2_INC_STATE_ANY" "e' = e \<or> e' = S2_EVT_ANY"
proof -
  have r: "\<exists>st' e'. (st', e', a, n) \<in> set tab \<and> (st' = st \<or> st' = S2_INC_STATE_ANY) \<and> (e' = e \<or> e' = S2_EVT_ANY)"
    if "process_s2_inclusion_event e tab st = Some (a, n)" for tab
    using that by (fastforce simp: process_s2_inclusion_event_def find_Some_iff in_set_conv_nth)
  then show ?thesis using assms that unfolding transition_def table_rows_def by (fastforce split: option.splits)
qed

lemma idle_transition:
  "transition e S2_INC_IDLE = Some (if e = S2_INCLUDING_START then (S2_SEND_KEX_GET_ACTION, S2_AWAITING_KEX_REPORT)
     else if e = S2_JOINING_START then (S2_JOINING_START_ACTION, S2_AWAITING_KEX_GET) else (S2_NO_ACTION, S2_INC_IDLE))"
  by (cases e) (simp_all add: transition_def process_s2_inclusion_event_def s2_transition_table_controller_def s2_transition_table_def)

lemma row_reports:
  assumes "(st, e, a, n) \<in> table_rows" and "st \<noteq> S2_INC_IDLE"
  shows "n = S2_INC_IDLE \<longleftrightarrow> a \<in> reporting \<or> st = S2_AWAITING_KEX_GET \<and> e = S2_INCLUDING_REJECT"
  using assms by (auto simp: table_rows_def s2_transition_table_controller_def s2_transition_table_def reporting_def)

lemma take_transition_state:
  "inclusion_state (fst (take_transition env (a, n) s)) = (if n = S2_INC_STATE_ANY then inclusion_state s else n)"
  "reports (fst (take_transition env (a, n) s)) = reports s + of_bool (a \<in> reporting)"
  by (simp_all add: take_transition_def action_reports)

section \<open>Every inclusion is reported once\<close>

definition inc_account :: "s2_inc \<Rightarrow> nat" where
  "inc_account s = reports s + of_bool (inclusion_state s \<noteq> S2_INC_IDLE)"

definition account_known :: "nat \<Rightarrow> inclusion_event \<Rightarrow> s2_inc \<Rightarrow> bool" where
  "account_known n e s \<longleftrightarrow> inc_account s = n \<and> inclusion_state s \<noteq> S2_INC_IDLE \<and>
     \<not> (inclusion_state s = S2_AWAITING_KEX_GET \<and> e = S2_INCLUDING_REJECT)"

interpretation inc_account: inclusion_invariant "\<lambda>s. inc_account s = n" "account_known n" for n
proof
  fix s e a m env s' p
  assume k: "account_known n e s" and t: "transition e (inclusion_state s) = Some (a, m)" and tt: "take_transition env (a, m) s = (s', p)"
  obtain st' e' where row: "(st', e', a, m) \<in> table_rows" "st' = inclusion_state s \<or> st' = S2_INC_STATE_ANY" "e' = e \<or> e' = S2_EVT_ANY"
    using transition_row [OF t] by blast
  have m: "m = S2_INC_IDLE \<longleftrightarrow> a \<in> reporting" using row_reports [OF row(1)] row k by (auto simp: account_known_def)
  have s': "inclusion_state s' = (if m = S2_INC_STATE_ANY then inclusion_state s else m)" "reports s' = reports s + of_bool (a \<in> reporting)"
    using take_transition_state [of env a m s] tt by simp_all
  have i: "inc_account s' = n" using k m s' by (auto simp: inc_account_def account_known_def)
  show "case p of None \<Rightarrow> inc_account s' = n | Some e'' \<Rightarrow> account_known n e'' s'"
  proof (cases p)
    case (Some e'')
    obtain u where u: "execute_action env a u = (s', Some e'')" using tt Some by (auto simp: take_transition_def)
    have "snd (execute_action env a u) = None" if "a \<in> reporting"
      using that by (auto simp: reporting_def execute_action_def execute_action_controller_def)
    then have "a \<notin> reporting" "e'' \<noteq> S2_INCLUDING_REJECT" using u action_posts [OF u] by auto
    then show ?thesis using m s' k i Some by (auto simp: account_known_def)
  qed (simp add: i)
qed

lemma process_idle:
  assumes "inclusion_state s = S2_INC_IDLE"
  shows "inc_account (process_event env e s) = inc_account s + of_bool (e = S2_INCLUDING_START \<or> e = S2_JOINING_START)"
  using assms
  by (subst process_event.simps)
    (auto simp: idle_transition take_transition_def execute_action_def execute_action_controller_def inc_account_def
      s2_joining_start_def s2_send_kex_get_def)

lemma process_silent:
  assumes "inclusion_state s = S2_AWAITING_KEX_GET"
  shows "inc_account (process_event env S2_INCLUDING_REJECT s) + 1 = inc_account s"
proof -
  have "transition S2_INCLUDING_REJECT S2_AWAITING_KEX_GET = Some (S2_NO_ACTION, S2_INC_IDLE)"
    by (simp add: transition_def process_s2_inclusion_event_def s2_transition_table_controller_def s2_transition_table_def)
  then show ?thesis using assms
    by (subst process_event.simps) (simp add: take_transition_def execute_action_def inc_account_def)
qed

lemma process_account:
  "inc_account (process_event env e s) + of_bool (inclusion_state s = S2_AWAITING_KEX_GET \<and> e = S2_INCLUDING_REJECT) =
   inc_account s + of_bool (inclusion_state s = S2_INC_IDLE \<and> (e = S2_INCLUDING_START \<or> e = S2_JOINING_START))"
  using process_idle [of s env e] process_silent [of s env] inc_account.machine_keeps [of "inc_account s" e s env]
  by (cases "inclusion_state s = S2_INC_IDLE"; cases "inclusion_state s = S2_AWAITING_KEX_GET \<and> e = S2_INCLUDING_REJECT")
    (auto simp: account_known_def)

definition starts :: "inc_input \<Rightarrow> s2_inc \<Rightarrow> bool" where
  "starts i s \<longleftrightarrow> inclusion_state s = S2_INC_IDLE \<and> (case i of Including_start _ \<Rightarrow> True | Joining_start _ _ \<Rightarrow> True | _ \<Rightarrow> False)"

text \<open>A node that has not been asked for its keys yet gives up without a report.\<close>

definition gives_up :: "inc_input \<Rightarrow> s2_inc \<Rightarrow> bool" where
  "gives_up i s \<longleftrightarrow> inclusion_state s = S2_AWAITING_KEX_GET \<and>
     (case i of Abort \<Rightarrow> True | Key_grant include _ _ \<Rightarrow> include \<noteq> 1 | Challenge_response include _ \<Rightarrow> include \<noteq> 1 | _ \<Rightarrow> False)"

lemma account_upd [simp]:
  "inc_account (s\<lparr>ctx := c\<rparr>) = inc_account s" "inc_account (s\<lparr>m_retry_counter := r\<rparr>) = inc_account s" "inc_account (s\<lparr>inc_timer := tm\<rparr>) = inc_account s"
  "inc_account (s\<lparr>inclusion_peer := q\<rparr>) = inc_account s" "inc_account (s\<lparr>kex_fail_code := f\<rparr>) = inc_account s" "inc_account (s\<lparr>m_keys := mk\<rparr>) = inc_account s"
  "inc_account (s\<lparr>inclusion_mode := m\<rparr>) = inc_account s" "inc_account (s\<lparr>key_granted := g\<rparr>) = inc_account s" "inc_account (s\<lparr>public_key := pk\<rparr>) = inc_account s"
  "inc_account (s\<lparr>m_schemes := ms\<rparr>) = inc_account s" "inc_account (s\<lparr>m_curves := mc\<rparr>) = inc_account s"
  "inc_account (inclusion_failed_frame_send env err sec s) = inc_account s"
  by (simp_all add: inc_account_def)

lemma account_plain:
  assumes "e \<notin> {S2_INCLUDING_START, S2_JOINING_START, S2_INCLUDING_REJECT}"
  shows "inc_account (process_event env e s) = inc_account s"
  using process_account [of env e s] assms by auto

lemma received_account: "inc_account (s2_inclusion_post_event env src s) = inc_account s"
proof -
  have "inc_account (s2_inclusion_post_event_internal env u) = inc_account u" for u
    by (auto simp: s2_inclusion_post_event_internal_def Let_def case_prod_beta frame_event_def account_plain)
  then show ?thesis by (simp add: s2_inclusion_post_event_def Let_def)
qed

lemma step_account:
  "inc_account (inc_step env (i, c) s) + of_bool (gives_up i s) = inc_account s + of_bool (starts i s)"
proof (cases i)
  case (Including_start p)
  then show ?thesis using process_account [of env S2_INCLUDING_START]
    by (simp add: inc_step_def s2_inclusion_including_start_def starts_def gives_up_def)
next
  case (Joining_start con csa)
  then show ?thesis using process_account [of env S2_JOINING_START]
    by (simp add: inc_step_def s2_inclusion_joining_start_def starts_def gives_up_def Let_def)
next
  case (Key_grant inc ks csa)
  then show ?thesis using process_account [of env S2_INCLUDING_REJECT "s\<lparr>ctx := c\<rparr>"]
    by (cases "inc = 1") (auto simp: inc_step_def s2_inclusion_key_grant_def starts_def gives_up_def account_plain Let_def)
next
  case (Challenge_response inc response)
  then show ?thesis using process_account [of env S2_INCLUDING_REJECT "s\<lparr>ctx := c\<rparr>"]
    by (cases "inc = 1") (auto simp: inc_step_def s2_inclusion_challenge_response_def starts_def gives_up_def account_plain Let_def)
next
  case Abort
  then show ?thesis using process_account [of env S2_INCLUDING_REJECT "s\<lparr>ctx := c\<rparr>"]
    by (simp add: inc_step_def s2_inclusion_abort_def starts_def gives_up_def)
qed (simp_all add: inc_step_def starts_def gives_up_def received_account account_plain s2_inclusion_neighbor_discovery_complete_def
    s2_inclusion_notify_timeout_def s2_inclusion_send_done_def s2_inclusion_decryption_failure_def s2_inclusion_init_def Let_def)

fun start_count :: "s2i_env \<Rightarrow> (inc_input \<times> s2) list \<Rightarrow> s2_inc \<Rightarrow> nat" where
  "start_count env [] s = 0"
| "start_count env (i # is) s = of_bool (starts (fst i) s) + start_count env is (inc_step env i s)"

fun given_up_count :: "s2i_env \<Rightarrow> (inc_input \<times> s2) list \<Rightarrow> s2_inc \<Rightarrow> nat" where
  "given_up_count env [] s = 0"
| "given_up_count env (i # is) s = of_bool (gives_up (fst i) s) + given_up_count env is (inc_step env i s)"

lemma run_inc_account: "inc_account (inc_run env is s) + given_up_count env is s = inc_account s + start_count env is s"
proof (induction "is" arbitrary: s)
  case (Cons i "is")
  have "inc_run env (i # is) s = inc_run env is (inc_step env i s)" by (simp add: inc_run_def)
  then show ?case using step_account [of env "fst i" "snd i" s] Cons [of "inc_step env i s"] by simp
qed (simp add: inc_run_def)

text \<open>
  C8. In every history of requests, received frames, failed decryptions, confirmations and timeouts, the exchanges of keys that were reported to
  the application as completed or failed, the one that is open, and those that a joining node gave up before it was asked for its keys
  are exactly the exchanges that were started: each is reported once.
\<close>

theorem inclusions_reported_once:
  "length (filter is_report (inc_calls (inc_run env is (inc_init c)))) + of_bool (inclusion_state (inc_run env is (inc_init c)) \<noteq> S2_INC_IDLE)
     + given_up_count env is (inc_init c) = start_count env is (inc_init c)"
  using run_inc_account [of env "is" "inc_init c"] by (simp add: inc_account_def inc_init_def reports_def del: reports_simps(2))

end
