(* ===== verification/S2_Inclusion_Keys.thy ===== *)
theory S2_Inclusion_Keys
  imports S2_Inclusion_Properties
begin

text \<open>Network keys in the exchange of keys: which leave and how, and the invariant of keys, frames and timers behind it.\<close>

section \<open>Rows by action\<close>

fun row_ok :: "s2_action \<Rightarrow> inclusion_state \<Rightarrow> inclusion_event \<Rightarrow> inclusion_state \<Rightarrow> bool" where
  "row_ok S2_NO_ACTION st e n \<longleftrightarrow> n = S2_INC_STATE_ANY \<or> n = S2_INC_IDLE \<or> n = S2_ERROR_SENT \<and> e = S2_INCLUSION_ERROR_SENT \<or> n = st"
| "row_ok S2_TIMEOUT_ACTION st e n \<longleftrightarrow> False"
| "row_ok S2_RESEND_FRAME_ACTION st e n \<longleftrightarrow> n = S2_INC_STATE_ANY \<and>
     st \<notin> {S2_INC_IDLE, S2_AWAITING_KEX_GET, S2_AWAITING_NET_KEY_VERIFY, S2_INC_STATE_ANY}"
| "row_ok S2_RESEND_DATA_ACTION st e n \<longleftrightarrow> n = S2_INC_STATE_ANY \<and> st \<notin> {S2_INC_IDLE, S2_AWAITING_KEX_GET, S2_INC_STATE_ANY}"
| "row_ok S2_JOINING_START_ACTION st e n \<longleftrightarrow> n = S2_AWAITING_KEX_GET"
| "row_ok S2_TIMEOUT_TB1_SET_ACTION st e n \<longleftrightarrow> n = S2_AWAITING_KEX_GET"
| "row_ok S2_SEND_KEX_REPORT_ACTION st e n \<longleftrightarrow> n = S2_AWAITING_KEX_SET"
| "row_ok S2_SEND_PUB_KEY_B_ACTION st e n \<longleftrightarrow> n = S2_AWAITING_PUB_KEY_A"
| "row_ok S2_PUB_KEY_A_RECV_ACTION st e n \<longleftrightarrow> st = S2_AWAITING_PUB_KEY_A \<and> n = S2_AWAITING_USER_A_ACCEPT"
| "row_ok S2_DO_ECDH_CALC_B_ACTION st e n \<longleftrightarrow> st = S2_AWAITING_USER_A_ACCEPT \<and> n = S2_ECHO_KEX_SET_SENDING"
| "row_ok S2_SEND_ECHO_KEX_SET_ACTION st e n \<longleftrightarrow> st = S2_ECHO_KEX_SET_SENDING \<and> n = S2_ECHO_KEX_SET_SENDING"
| "row_ok S2_SEND_NET_KEY_GET_ACTION st e n \<longleftrightarrow> n = S2_AWAITING_NET_KEY_REPORT \<and>
     (st = S2_ECHO_KEX_SET_SENDING \<or> st = S2_KEY_EXCHANGED \<and> e = S2_TRANSFER_END_RECV)"
| "row_ok S2_SEND_NET_KEY_VERIFY_ACTION st e n \<longleftrightarrow> st = S2_AWAITING_NET_KEY_REPORT \<and> n = S2_KEY_EXCHANGED"
| "row_ok S2_SEND_FINAL_TRANSFER_END_ACTION st e n \<longleftrightarrow> n = S2_SENDING_FINAL_TRANSFER_END"
| "row_ok S2_SEND_KEX_GET_ACTION st e n \<longleftrightarrow> n = S2_AWAITING_KEX_REPORT"
| "row_ok S2_KEX_REP_RECV_ACTION st e n \<longleftrightarrow> st = S2_AWAITING_KEX_REPORT \<and> n = S2_AWAITING_KEY_USER_ACCEPT"
| "row_ok S2_SEND_KEX_SET_ACTION st e n \<longleftrightarrow> n = S2_AWAITING_PUB_KEY_B"
| "row_ok S2_SEND_PUB_KEY_A_ACTION st e n \<longleftrightarrow> n = S2_AWAITING_USER_ACCEPT"
| "row_ok S2_DO_ECDH_CALC_A_ACTION st e n \<longleftrightarrow> st = S2_AWAITING_USER_ACCEPT \<and> n = S2_AWAITING_ECHO_KEX_SET"
| "row_ok S2_SEND_ECHO_KEX_REPORT_ACTION st e n \<longleftrightarrow> st = S2_AWAITING_ECHO_KEX_SET \<and> n = S2_AWAITING_NET_KEY_GET"
| "row_ok S2_SEND_ERROR_CANCEL_ACTION st e n \<longleftrightarrow> n = S2_ERROR_SENT"
| "row_ok S2_SEND_ERROR_DECRYPT_ACTION st e n \<longleftrightarrow> n = S2_ERROR_SENT"
| "row_ok S2_SEND_NET_KEY_REPORT_ACTION st e n \<longleftrightarrow> st = S2_AWAITING_NET_KEY_GET \<and> n = S2_AWAITING_NET_KEY_VERIFY"
| "row_ok S2_SEND_TRANSFER_END_ACTION st e n \<longleftrightarrow> st = S2_AWAITING_NET_KEY_VERIFY \<and>
     (n = S2_AWAITING_TRANSFER_END \<and> e = S2_NET_KEY_VERIFY_FINAL_RECV \<or> n = S2_AWAITING_NET_KEY_GET)"
| "row_ok S2_INCLUSION_COMPLETE_ACTION st e n \<longleftrightarrow> st = S2_AWAITING_TRANSFER_END \<and> n = S2_INC_IDLE"
| "row_ok S2_CHECK_NO_KEYS st e n \<longleftrightarrow> st = S2_AWAITING_NET_KEY_GET \<and> n = S2_INC_IDLE"
| "row_ok _ st e n \<longleftrightarrow> n = S2_INC_IDLE"

lemma rows_ok: "(st, e, a, n) \<in> table_rows \<Longrightarrow> row_ok a st e n"
  by (auto simp: table_rows_def s2_transition_table_controller_def s2_transition_table_def)

lemma transition_ok:
  assumes "transition e st = Some (a, n)" and "st \<noteq> S2_INC_STATE_ANY"
  shows "row_ok a st e n"
proof -
  obtain st' e' where row: "(st', e', a, n) \<in> table_rows" "st' = st \<or> st' = S2_INC_STATE_ANY" "e' = e \<or> e' = S2_EVT_ANY"
    by (rule transition_row [OF assms(1)])
  have "row_ok a st' e' n" by (rule rows_ok [OF row(1)])
  moreover have "st' = S2_INC_STATE_ANY \<Longrightarrow> row_ok a st e' n"
    using row(1) by (auto simp: table_rows_def s2_transition_table_controller_def s2_transition_table_def)
  moreover have "e' = S2_EVT_ANY \<Longrightarrow> row_ok a st e n"
    using row by (auto simp: table_rows_def s2_transition_table_controller_def s2_transition_table_def)
  ultimately show ?thesis using row by blast
qed

section \<open>What leaves\<close>

text \<open>A frame with a network key.\<close>

definition carries_key :: "u8 list \<Rightarrow> bool" where
  "carries_key f \<longleftrightarrow> 1 < length f \<and> f ! 1 = SECURITY_2_NETWORK_KEY_REPORT"

text \<open>
  In the clear no key leaves; encrypted, one that is among the granted ones; and a completed inclusion reports the granted keys.
\<close>

fun leak_free :: "u8 \<Rightarrow> inc_call \<Rightarrow> bool" where
  "leak_free g (Frame_handed con f ok) \<longleftrightarrow> \<not> carries_key f"
| "leak_free g (Data_handed con f ok) \<longleftrightarrow> (carries_key f \<longrightarrow> one_bit (f ! 2) \<and> f ! 2 AND g \<noteq> 0)"
| "leak_free g (Inclusion_complete k) \<longleftrightarrow> k = g"
| "leak_free g _ \<longleftrightarrow> True"

definition no_leaks :: "nat \<Rightarrow> s2_inc \<Rightarrow> bool" where
  "no_leaks n s \<longleftrightarrow> n \<le> length (inc_calls s) \<and> (\<forall>c\<in>set (drop n (inc_calls s)). leak_free (key_granted s) c)"

lemma no_leaks_upd [simp]:
  "no_leaks n (s\<lparr>ctx := c\<rparr>) = no_leaks n s" "no_leaks n (s\<lparr>m_retry_counter := r\<rparr>) = no_leaks n s" "no_leaks n (s\<lparr>inclusion_peer := q\<rparr>) = no_leaks n s"
  "no_leaks n (s\<lparr>kex_fail_code := f\<rparr>) = no_leaks n s" "no_leaks n (s\<lparr>csa_support := a\<rparr>) = no_leaks n s" "no_leaks n (s\<lparr>key_exchange := x\<rparr>) = no_leaks n s"
  "no_leaks n (s\<lparr>key_requested := kq\<rparr>) = no_leaks n s" "no_leaks n (s\<lparr>kex_set_byte2 := k2\<rparr>) = no_leaks n s" "no_leaks n (s\<lparr>scheme_support := sc\<rparr>) = no_leaks n s"
  "no_leaks n (s\<lparr>curve_support := cu\<rparr>) = no_leaks n s" "no_leaks n (s\<lparr>inclusion_mode := m\<rparr>) = no_leaks n s" "no_leaks n (s\<lparr>public_key := pk\<rparr>) = no_leaks n s"
  "no_leaks n (s\<lparr>kex_report_keys := kk\<rparr>) = no_leaks n s" "no_leaks n (s\<lparr>kex_report_echo_payload := e\<rparr>) = no_leaks n s" "no_leaks n (s\<lparr>inc_timer := tm\<rparr>) = no_leaks n s"
  "no_leaks n (s\<lparr>m_keys := mk\<rparr>) = no_leaks n s" "no_leaks n (s\<lparr>m_schemes := ms\<rparr>) = no_leaks n s" "no_leaks n (s\<lparr>m_curves := mc\<rparr>) = no_leaks n s"
  by (simp_all add: no_leaks_def)

lemma no_leaks_call [simp]:
  "n \<le> length (inc_calls s) \<Longrightarrow> key_granted u = key_granted s \<Longrightarrow>
     no_leaks n (u\<lparr>inc_calls := inc_calls s @ [c]\<rparr>) \<longleftrightarrow> no_leaks n s \<and> leak_free (key_granted s) c"
  "n \<le> length (inc_calls s) \<Longrightarrow> key_granted u = key_granted s \<Longrightarrow>
     no_leaks n (u\<lparr>inc_calls := inc_calls s @ [c, d]\<rparr>) \<longleftrightarrow> no_leaks n s \<and> leak_free (key_granted s) c \<and> leak_free (key_granted s) d"
  by (auto simp: no_leaks_def)

lemma no_leaks_length: "no_leaks n s \<Longrightarrow> n \<le> length (inc_calls s)"
  by (simp add: no_leaks_def)

lemma no_leaks_fresh: "length (inc_calls s) = n \<Longrightarrow> no_leaks n s"
  by (simp add: no_leaks_def)

lemma no_leaks_helpers [simp]:
  "no_leaks n (s2_inclusion_stop_timeout s) = no_leaks n s" "no_leaks n (s2_inclusion_set_timeout t s) = no_leaks n s" "no_leaks n (put_frame b s) = no_leaks n s"
  "no_leaks n (set_inclusion_state st s) = no_leaks n s"
  by (simp_all add: no_leaks_def set_inclusion_state_def)

lemma no_leaks_send [simp]:
  "n \<le> length (inc_calls s) \<Longrightarrow> no_leaks n (s2_inclusion_send_frame env s) \<longleftrightarrow> no_leaks n s \<and> \<not> carries_key (frame_of s)"
  "n \<le> length (inc_calls s) \<Longrightarrow> no_leaks n (s2_inclusion_send_data env s) \<longleftrightarrow> no_leaks n s \<and>
     (carries_key (frame_of s) \<longrightarrow> one_bit (frame_of s ! 2) \<and> frame_of s ! 2 AND key_granted s \<noteq> 0)"
  using send_calls [of env s] by (auto simp: no_leaks_def)

lemma send_length [simp]:
  "length (inc_calls (s2_inclusion_send_frame env s)) = Suc (length (inc_calls s))" "length (inc_calls (s2_inclusion_send_data env s)) = Suc (length (inc_calls s))"
  using send_calls [of env s] by auto

lemma carries_key_Cons [simp]: "carries_key (a # b # f) \<longleftrightarrow> b = 0x0A"
  by (simp add: carries_key_def)

lemma failed_length [simp]: "length (inc_calls (inclusion_failed_frame_send env err sec s)) = Suc (length (inc_calls s))"
  by (simp add: inclusion_failed_frame_send_def Let_def)

lemma no_leaks_failed [simp]:
  "n \<le> length (inc_calls s) \<Longrightarrow> no_leaks n (inclusion_failed_frame_send env err sec s) = no_leaks n s"
  "n \<le> length (inc_calls s) \<Longrightarrow> no_leaks n (inclusion_failed_evt_push env f s) = no_leaks n s"
  by (simp_all add: inclusion_failed_frame_send_def Let_def) (simp add: no_leaks_def)

lemma carries_frame: "carries_key (frame_of s) \<Longrightarrow> inclusion_buf s ! 1 = 0x0A \<and> (2 < length (frame_of s) \<longrightarrow> frame_of s ! 2 = inclusion_buf s ! 2)"
  by (auto simp: carries_key_def frame_of_def)

section \<open>The invariant\<close>

definition untimed :: "inclusion_state set" where
  "untimed = {S2_INC_IDLE, S2_AWAITING_KEX_GET, S2_ERROR_SENT, S2_SENDING_FINAL_TRANSFER_END}"

definition timed_ok :: "s2_inc \<Rightarrow> bool" where
  "timed_ok s \<longleftrightarrow> (inclusion_state s \<notin> untimed \<longrightarrow> inc_timer s \<noteq> None)"

definition key_bits :: "u8 set" where
  "key_bits = {0, 1, 2, 4, 8, 16, 32, 64, 128}"

definition key_core :: "s2_inc \<Rightarrow> bool" where
  "key_core s \<longleftrightarrow> inclusion_state s \<noteq> S2_INC_STATE_ANY \<and>
     (inclusion_state s \<in> {S2_AWAITING_NET_KEY_GET, S2_AWAITING_NET_KEY_VERIFY} \<longrightarrow> key_exchange s AND NOT (key_granted s) = 0) \<and>
     (inclusion_state s = S2_AWAITING_TRANSFER_END \<longrightarrow> key_exchange s = key_granted s) \<and>
     (inclusion_state s \<in> {S2_AWAITING_PUB_KEY_A, S2_AWAITING_USER_A_ACCEPT, S2_ECHO_KEX_SET_SENDING} \<longrightarrow> key_exchange s = 1) \<and>
     (inclusion_state s \<in> {S2_AWAITING_NET_KEY_REPORT, S2_KEY_EXCHANGED} \<longrightarrow> key_exchange s \<in> key_bits) \<and>
     (inclusion_state s \<notin> {S2_INC_IDLE, S2_AWAITING_KEX_GET, S2_AWAITING_NET_KEY_VERIFY} \<longrightarrow> inclusion_buf s ! Suc 0 \<noteq> 0x0A) \<and>
     (inclusion_state s = S2_AWAITING_NET_KEY_VERIFY \<longrightarrow> 2 < inclusion_buf_length s \<and> 2 < length (inclusion_buf s) \<and>
        (inclusion_buf s ! Suc 0 = 0x0A \<longrightarrow> one_bit (inclusion_buf s ! 2) \<and> inclusion_buf s ! 2 AND key_granted s \<noteq> 0))"

definition keys_known :: "nat \<Rightarrow> inclusion_event \<Rightarrow> s2_inc \<Rightarrow> bool" where
  "keys_known n e s \<longleftrightarrow> no_leaks n s \<and> inclusion_state s \<noteq> S2_INC_STATE_ANY \<and>
     (e = S2_INCLUSION_ERROR_SENT \<longrightarrow> inclusion_buf s ! Suc 0 \<noteq> 0x0A) \<and>
     (event_rank e = 2 \<longrightarrow> length (inc_calls s) = n \<and>
        (key_core s \<or> e = S2_INCLUDING_ACCEPT \<and> inclusion_state s \<in> {S2_AWAITING_NET_KEY_GET, S2_AWAITING_NET_KEY_VERIFY, S2_AWAITING_TRANSFER_END}) \<and>
        (timed_ok s \<or> e = S2_INCLUSION_TIMEOUT \<or> e = S2_INCLUSION_RETRY \<and> inclusion_state s = S2_ECHO_KEX_SET_SENDING) \<and>
        (e = S2_NET_KEY_VERIFY_FINAL_RECV \<longrightarrow> key_exchange s = key_granted s) \<and>
        (e = S2_TRANSFER_END_RECV \<longrightarrow> (- key_exchange s) AND key_granted s \<noteq> 0))"

definition keys_ok :: "nat \<Rightarrow> s2_inc \<Rightarrow> bool" where
  "keys_ok n s \<longleftrightarrow> key_core s \<and> timed_ok s \<and> no_leaks n s"

text \<open>The search for the next key ends.\<close>

lemma next_key_none: "next_key n x g = None \<Longrightarrow> j \<le> n \<Longrightarrow> push_bit j x AND g = 0"
proof (induction n arbitrary: x j)
  case (Suc n)
  then show ?case using Suc.IH [of "push_bit 1 x" "j - 1"] by (cases j) (auto split: if_splits)
qed (simp split: if_splits)

lemma next_key_some: "next_key n x g = Some k \<Longrightarrow> x \<in> key_bits \<Longrightarrow> k \<in> key_bits"
proof (induction n arbitrary: x)
  case (Suc n)
  moreover have "push_bit 1 x \<in> key_bits" using Suc(3) by (auto simp: key_bits_def)
  ultimately show ?case by (auto split: if_splits)
qed (simp split: if_splits)

lemma next_key_found:
  assumes "x \<in> key_bits" and "(- x) AND g \<noteq> 0"
  shows "\<exists>k. next_key 8 x g = Some k \<and> k \<in> key_bits"
proof (cases "next_key 8 x g")
  case None
  note z = next_key_none [OF None]
  have m: "- x = x OR push_bit 1 x OR push_bit 2 x OR push_bit 3 x OR push_bit 4 x OR push_bit 5 x OR push_bit 6 x OR push_bit 7 x"
    using assms(1) by (auto simp: key_bits_def)
  have "x AND g = 0" "push_bit 1 x AND g = 0" "push_bit 2 x AND g = 0" "push_bit 3 x AND g = 0" "push_bit 4 x AND g = 0" "push_bit 5 x AND g = 0"
    "push_bit 6 x AND g = 0" "push_bit 7 x AND g = 0"
    using z [of 0] z [of 1] z [of 2] z [of 3] z [of 4] z [of 5] z [of 6] z [of 7] by simp_all
  then have "(- x) AND g = 0" unfolding m bit.conj_disj_distrib2 by simp
  then show ?thesis using assms(2) by simp
next
  case (Some k)
  then show ?thesis using next_key_some [OF Some assms(1)] by simp
qed

section \<open>Actions keep it\<close>

definition leaves :: "nat \<Rightarrow> s2_inc \<times> inclusion_event option \<Rightarrow> bool" where
  "leaves l r \<longleftrightarrow> (case snd r of None \<Rightarrow> keys_ok l (fst r) | Some e \<Rightarrow> keys_known l e (fst r))"

lemma leaves_simps [simp]: "leaves l (s, None) = keys_ok l s" "leaves l (s, Some e) = keys_known l e s"
  by (simp_all add: leaves_def)

lemmas invariant_defs = keys_ok_def keys_known_def key_core_def timed_ok_def untimed_def

lemma leaves_to_idle:
  assumes "no_leaks l u" "inclusion_state u = S2_INC_IDLE"
    and "a \<in> {S2_ABORT_ACTION, S2_REMOTE_ERROR_ACTION, S2_JOINING_COMPLETE_ACTION, S2_JOINING_NEVER_STARTED_ACTION}"
  shows "leaves l (execute_action env a u)"
  using assms no_leaks_length [of l u]
  by (auto simp: execute_action_def execute_action_controller_def remote_inclusion_failed_evt_push_def s2_joining_complete_def invariant_defs)

lemma leaves_complete:
  assumes "length (inc_calls u) = l" "inclusion_state u = S2_INC_IDLE" "key_exchange u = key_granted u"
  shows "leaves l (execute_action env S2_INCLUSION_COMPLETE_ACTION u)" "leaves l (s2_inclusion_complete env u, None)"
  using assms no_leaks_fresh [of u l]
  by (auto simp: execute_action_def execute_action_controller_def s2_inclusion_complete_def invariant_defs Let_def)

lemma leaves_check_no_keys:
  assumes "length (inc_calls u) = l" "inclusion_state u = S2_INC_IDLE" "key_exchange u AND NOT (key_granted u) = 0"
  shows "leaves l (execute_action env S2_CHECK_NO_KEYS u)"
  using assms no_leaks_fresh [of u l] leaves_complete(2) [of u l env]
  by (auto simp: execute_action_def execute_action_controller_def s2_check_no_keys_def invariant_defs)

lemma frame_length_simps [simp]:
  "inclusion_buf_length (s2_inclusion_send_frame env s) = inclusion_buf_length s" "inclusion_buf_length (s2_inclusion_send_data env s) = inclusion_buf_length s"
  "inclusion_buf_length (s2_inclusion_stop_timeout s) = inclusion_buf_length s" "inclusion_buf_length (s2_inclusion_set_timeout t s) = inclusion_buf_length s"
  "inclusion_buf_length (put_frame b s) = length b"
  by (simp_all add: s2_inclusion_send_frame_def s2_inclusion_send_data_def s2_inclusion_stop_timeout_def s2_inclusion_set_timeout_def
      put_frame_def case_prod_beta)

lemma leaves_resend_frame:
  assumes "length (inc_calls u) = l" "key_core u" "timed_ok u"
    and "inclusion_state u \<notin> {S2_INC_IDLE, S2_AWAITING_KEX_GET, S2_AWAITING_NET_KEY_VERIFY}"
  shows "leaves l (execute_action env S2_RESEND_FRAME_ACTION u)"
proof -
  have "\<not> carries_key (frame_of u)" using carries_frame [of u] assms(2,4) by (auto simp: key_core_def)
  then show ?thesis using assms no_leaks_fresh [of u l] by (simp add: execute_action_def keys_ok_def key_core_def timed_ok_def)
qed

lemma leaves_resend_data:
  assumes "length (inc_calls u) = l" "key_core u" "timed_ok u" and "inclusion_state u \<notin> {S2_INC_IDLE, S2_AWAITING_KEX_GET}"
  shows "leaves l (execute_action env S2_RESEND_DATA_ACTION u)"
proof -
  have "carries_key (frame_of u) \<Longrightarrow> one_bit (frame_of u ! 2) \<and> frame_of u ! 2 AND key_granted u \<noteq> 0"
    using carries_frame [of u] assms(2,4) by (auto simp: key_core_def frame_of_def)
  then show ?thesis using assms no_leaks_fresh [of u l] by (simp add: execute_action_def keys_ok_def key_core_def timed_ok_def)
qed

lemma leaves_start:
  assumes "length (inc_calls u) = l"
  shows "inclusion_state u = S2_AWAITING_KEX_GET \<Longrightarrow> leaves l (execute_action env S2_JOINING_START_ACTION u)"
    "inclusion_state u = S2_AWAITING_KEX_GET \<Longrightarrow> leaves l (execute_action env S2_TIMEOUT_TB1_SET_ACTION u)"
    "inclusion_state u = S2_AWAITING_KEX_SET \<Longrightarrow> leaves l (execute_action env S2_SEND_KEX_REPORT_ACTION u)"
    "inclusion_state u = S2_AWAITING_KEX_REPORT \<Longrightarrow> leaves l (execute_action env S2_SEND_KEX_GET_ACTION u)"
    "inclusion_state u = S2_AWAITING_PUB_KEY_B \<Longrightarrow> leaves l (execute_action env S2_SEND_KEX_SET_ACTION u)"
    "inclusion_state u = S2_AWAITING_USER_ACCEPT \<Longrightarrow> leaves l (execute_action env S2_SEND_PUB_KEY_A_ACTION u)"
    "inclusion_state u = S2_ERROR_SENT \<Longrightarrow> leaves l (execute_action env S2_SEND_ERROR_CANCEL_ACTION u)"
    "inclusion_state u = S2_ERROR_SENT \<Longrightarrow> leaves l (execute_action env S2_SEND_ERROR_DECRYPT_ACTION u)"
  using assms no_leaks_fresh [of u l]
  by (simp_all add: execute_action_def execute_action_controller_def s2_joining_start_def s2_send_kex_report_def s2_send_kex_get_def s2_send_kex_set_def
      s2_send_pub_key_a_def invariant_defs Let_def)

lemma leaves_refuse:
  assumes "no_leaks l u" "inclusion_state u \<noteq> S2_INC_STATE_ANY"
  shows "leaves l (refuse env err u)" "leaves l (inclusion_failed_frame_send env err sec u, Some S2_INCLUSION_ERROR)"
    "leaves l (inclusion_failed_frame_send env err sec u, Some S2_INCLUSION_ERROR_SENT)"
  using assms no_leaks_length [of l u] by (simp_all add: refuse_def keys_known_def)

lemma leaves_pub_key_b:
  assumes "length (inc_calls u) = l" "inclusion_state u = S2_AWAITING_PUB_KEY_A"
  shows "leaves l (execute_action env S2_SEND_PUB_KEY_B_ACTION u)"
proof -
  have "leaves l (send_pub_key_b env v, None)" if "length (inc_calls v) = l" "inclusion_state v = S2_AWAITING_PUB_KEY_A" for v
    using that by (simp add: send_pub_key_b_def Let_def invariant_defs no_leaks_fresh)
  then show ?thesis using assms
    by (simp add: execute_action_def s2_send_pub_key_b_def Let_def leaves_refuse no_leaks_fresh del: leaves_simps)
qed

lemma leaves_joining:
  assumes "length (inc_calls u) = l" "key_exchange u = 1" "inclusion_buf u ! Suc 0 \<noteq> 0x0A"
  shows "inclusion_state u = S2_AWAITING_USER_A_ACCEPT \<Longrightarrow> leaves l (execute_action env S2_PUB_KEY_A_RECV_ACTION u)"
    "inclusion_state u = S2_ECHO_KEX_SET_SENDING \<Longrightarrow> leaves l (execute_action env S2_SEND_ECHO_KEX_SET_ACTION u)"
    "inclusion_state u = S2_ECHO_KEX_SET_SENDING \<Longrightarrow> leaves l (execute_action env S2_DO_ECDH_CALC_B_ACTION u)"
  using assms no_leaks_fresh [of u l]
  by (simp_all add: execute_action_def s2_pub_key_a_recv_def s2_send_echo_kex_set_def s2_do_ecdh_calc_b_def derive_temp_key_def Let_def
      case_prod_beta invariant_defs)

lemma leaves_net_key_get:
  assumes "length (inc_calls u) = l" "inclusion_state u = S2_AWAITING_NET_KEY_REPORT" "key_exchange u \<in> key_bits"
    and "key_granted u \<noteq> 0 \<Longrightarrow> (- key_exchange u) AND key_granted u \<noteq> 0"
  shows "leaves l (execute_action env S2_SEND_NET_KEY_GET_ACTION u)"
proof (cases "key_granted u = 0")
  case True
  then show ?thesis using assms
    by (auto simp: execute_action_def s2_send_net_key_get_def Let_def leaves_refuse no_leaks_fresh keys_known_def simp del: leaves_simps(1))
next
  case False
  then obtain k where "next_key 8 (key_exchange u) (key_granted u) = Some k" "k \<in> key_bits" using next_key_found assms(3,4) by blast
  moreover have "leaves l (s2_inclusion_set_timeout t (s2_inclusion_send_data env v), None)"
    if "length (inc_calls v) = l" "inclusion_state v = S2_AWAITING_NET_KEY_REPORT" "key_exchange v \<in> key_bits" "frame_of v = [a, 9, b]"
      "inclusion_buf v ! Suc 0 = 9" for v t a b
    using that by (simp add: invariant_defs no_leaks_fresh)
  ultimately show ?thesis using assms False
    by (simp add: execute_action_def s2_send_net_key_get_def Let_def leaves_refuse no_leaks_fresh del: leaves_simps)
qed

lemma leaves_net_key_verify:
  assumes "length (inc_calls u) = l" "inclusion_state u = S2_KEY_EXCHANGED" "key_exchange u \<in> key_bits"
  shows "leaves l (execute_action env S2_SEND_NET_KEY_VERIFY_ACTION u)"
proof -
  have "push_bit (Suc 0) (key_exchange u) \<in> key_bits" using assms(3) by (auto simp: key_bits_def)
  then show ?thesis using assms no_leaks_fresh [of u l]
    by (auto simp: execute_action_def s2_send_net_key_verify_def Let_def refuse_def invariant_defs)
qed

lemma leaves_final_transfer_end:
  assumes "no_leaks l u" "inclusion_state u = S2_SENDING_FINAL_TRANSFER_END"
  shows "leaves l (execute_action env S2_SEND_FINAL_TRANSFER_END_ACTION u)"
  using assms no_leaks_length [of l u]
  by (simp add: execute_action_def s2_send_final_transfer_end_def Let_def invariant_defs)

lemma leaves_kex_rep_recv:
  assumes "length (inc_calls u) = l" "inclusion_state u = S2_AWAITING_KEY_USER_ACCEPT" "inclusion_buf u ! Suc 0 \<noteq> 0x0A"
  shows "leaves l (execute_action env S2_KEX_REP_RECV_ACTION u)"
proof -
  have "leaves l (kex_report_accepted v, None)"
    if "length (inc_calls v) = l" "inclusion_state v = S2_AWAITING_KEY_USER_ACCEPT" "inclusion_buf v ! Suc 0 \<noteq> 0x0A" for v
    using that by (simp add: kex_report_accepted_def Let_def invariant_defs no_leaks_fresh)
  then show ?thesis using assms
    by (simp add: execute_action_def execute_action_controller_def s2_kex_rep_recv_def validate_reported_schemes_def validate_reported_curves_def
        validate_reported_keys_def invalid_def Let_def leaves_refuse no_leaks_fresh del: leaves_simps)
qed

lemma leaves_ecdh_a:
  assumes "length (inc_calls u) = l" "inclusion_state u = S2_AWAITING_ECHO_KEX_SET" "inclusion_buf u ! Suc 0 \<noteq> 0x0A" "inc_timer u \<noteq> None"
  shows "leaves l (execute_action env S2_DO_ECDH_CALC_A_ACTION u)"
  using assms no_leaks_fresh [of u l]
  by (auto simp: execute_action_def execute_action_controller_def s2_do_ecdh_calc_a_def derive_temp_key_def Let_def invariant_defs)

lemma leaves_echo_kex_report:
  assumes "length (inc_calls u) = l" "inclusion_state u = S2_AWAITING_NET_KEY_GET"
  shows "leaves l (execute_action env S2_SEND_ECHO_KEX_REPORT_ACTION u)"
  using assms
  by (simp add: execute_action_def execute_action_controller_def s2_send_echo_kex_report_def validate_echo_kex_set_def invalid_def Let_def
      invariant_defs no_leaks_fresh)

lemma int_bits: "list_all (\<lambda>n. n AND (n - 1) = (0 :: int) \<longrightarrow> n \<in> {0, 1, 2, 4, 8, 16, 32, 64, 128}) (map int [0..<256])"
  by code_simp

lemma one_bit_key:
  assumes "one_bit b"
  shows "b \<in> key_bits"
proof (cases "b = 0")
  case False
  have "1 \<le> unat b" using False by (simp add: unat_gt_0 Suc_le_eq)
  then have "uint (b - 1) = uint b - 1" using arg_cong [OF unat_minus_one [OF False], of int] by (simp add: of_nat_diff)
  then have "uint b AND (uint b - 1) = 0" using assms unsigned_and_eq [of b "b - 1", where 'a = int] by (simp add: one_bit_def)
  moreover have "int (unat b) \<in> set (map int [0..<256])" using unsigned_less [of b, where 'a = nat] by (simp del: of_nat_unat)
  ultimately have "uint b \<in> {0, 1, 2, 4, 8, 16, 32, 64, 128}" using int_bits unfolding list_all_iff of_nat_unat by blast
  then have "word_of_int (uint b) \<in> key_bits" unfolding key_bits_def insert_iff empty_iff by (elim disjE) simp_all
  then show ?thesis by simp
qed (simp add: key_bits_def)

lemma bit_among:
  assumes "b \<in> key_bits" "b AND g \<noteq> 0"
  shows "b AND NOT g = 0"
proof -
  have "2 ^ k AND g \<noteq> 0 \<Longrightarrow> 2 ^ k AND NOT g = 0" for k
  proof -
    assume "2 ^ k AND g \<noteq> 0"
    then have "bit g k" by (simp add: and.commute and_exp_eq_0_iff_not_bit)
    then show "2 ^ k AND NOT g = 0" by (intro bit_word_eqI) (auto simp: bit_simps)
  qed
  from this [of 0] this [of 1] this [of 2] this [of 3] this [of 4] this [of 5] this [of 6] this [of 7] show ?thesis
    using assms by (auto simp: key_bits_def)
qed

lemma leaves_net_key_report:
  assumes "length (inc_calls u) = l" "inclusion_state u = S2_AWAITING_NET_KEY_VERIFY" "key_exchange u AND NOT (key_granted u) = 0"
  shows "leaves l (execute_action env S2_SEND_NET_KEY_REPORT_ACTION u)"
proof -
  have among: "(key_exchange u OR b) AND NOT (key_granted u) = 0" if "one_bit b" "b AND key_granted u \<noteq> 0" for b
    using bit_among [OF one_bit_key [OF that(1)] that(2)] assms(3) by (simp add: bit.conj_disj_distrib2)
  show ?thesis
  proof (cases "one_bit (rx u 2) \<and> rx u 2 AND key_granted u \<noteq> 0")
    case True
    then show ?thesis using assms among [of "rx u 2"]
      by (simp add: execute_action_def execute_action_controller_def s2_send_net_key_report_def validate_requested_key_def Let_def
          s2_inclusion_stop_timeout_def [THEN arg_cong [where f = ctx]] invariant_defs no_leaks_fresh) auto
  next
    case False
    then show ?thesis using assms
      by (auto simp: execute_action_def execute_action_controller_def s2_send_net_key_report_def validate_requested_key_def invalid_def Let_def
          s2_inclusion_stop_timeout_def [THEN arg_cong [where f = ctx]] leaves_refuse no_leaks_fresh simp del: leaves_simps)
  qed
qed

lemma leaves_transfer_end:
  assumes "length (inc_calls u) = l"
    and "inclusion_state u = S2_AWAITING_NET_KEY_GET \<and> key_exchange u AND NOT (key_granted u) = 0 \<or>
      inclusion_state u = S2_AWAITING_TRANSFER_END \<and> key_exchange u = key_granted u"
  shows "leaves l (execute_action env S2_SEND_TRANSFER_END_ACTION u)"
  using assms no_leaks_fresh [of u l]
  by (auto simp: execute_action_def execute_action_controller_def s2_send_transfer_end_def Let_def invariant_defs)

section \<open>Transitions keep it\<close>

definition enter :: "inclusion_state \<Rightarrow> s2_inc \<Rightarrow> s2_inc" where
  "enter n s = (if n \<noteq> S2_INC_STATE_ANY \<and> inclusion_state s \<noteq> n then set_inclusion_state n s else s)"

lemma enter_simps [simp]:
  "inclusion_state (enter n s) = (if n = S2_INC_STATE_ANY then inclusion_state s else n)" "inc_calls (enter n s) = inc_calls s"
  "key_granted (enter n s) = key_granted s" "key_exchange (enter n s) = key_exchange s" "inclusion_buf (enter n s) = inclusion_buf s"
  "inclusion_buf_length (enter n s) = inclusion_buf_length s" "inc_timer (enter n s) = inc_timer s" "no_leaks l (enter n s) = no_leaks l s"
  "enter S2_INC_STATE_ANY s = s" "enter (inclusion_state s) s = s"
  by (simp_all add: enter_def set_inclusion_state_def no_leaks_def)

lemma take_transition_enter: "take_transition env (a, n) s = execute_action env a (enter n s)"
  by (simp add: take_transition_def enter_def)

text \<open>Events that are processed in a state that is not kept have rows that leave it.\<close>

lemma transition_timeout:
  "transition S2_INCLUSION_TIMEOUT st = Some (a, n) \<Longrightarrow> n = S2_INC_IDLE \<and> a \<in> {S2_ABORT_ACTION, S2_JOINING_NEVER_STARTED_ACTION, S2_NO_ACTION}"
  by (cases "st = S2_INC_IDLE"; cases "st = S2_AWAITING_KEX_GET")
    (simp_all add: transition_def process_s2_inclusion_event_def s2_transition_table_controller_def s2_transition_table_def eq_commute [of _ st])

lemma transition_refused:
  "transition S2_INCLUDING_ACCEPT st = Some (a, n) \<Longrightarrow> st \<in> {S2_AWAITING_NET_KEY_GET, S2_AWAITING_NET_KEY_VERIFY, S2_AWAITING_TRANSFER_END} \<Longrightarrow>
     n = S2_INC_IDLE \<and> a = S2_ABORT_ACTION"
  "transition S2_INCLUSION_RETRY S2_ECHO_KEX_SET_SENDING = Some (S2_SEND_ECHO_KEX_SET_ACTION, S2_ECHO_KEX_SET_SENDING)"
  by (auto simp: transition_def process_s2_inclusion_event_def s2_transition_table_controller_def s2_transition_table_def)

lemma leaves_idle: "no_leaks l s \<Longrightarrow> inclusion_state s = S2_INC_IDLE \<Longrightarrow> leaves l (execute_action env S2_NO_ACTION s)"
  by (simp add: execute_action_def invariant_defs)

lemma leaves_row:
  assumes "length (inc_calls s) = l" "inclusion_state s \<noteq> S2_INC_STATE_ANY" "key_core s" "timed_ok s" "event_rank e = 2"
    and "row_ok a (inclusion_state s) e n"
    and "e = S2_NET_KEY_VERIFY_FINAL_RECV \<Longrightarrow> key_exchange s = key_granted s"
    and "e = S2_TRANSFER_END_RECV \<Longrightarrow> (- key_exchange s) AND key_granted s \<noteq> 0"
  shows "leaves l (execute_action env a (enter n s))"
proof -
  note f = no_leaks_fresh [OF assms(1)] and l = assms(1)
  show ?thesis
  proof (cases a)
    case S2_NO_ACTION
    then consider "n = S2_INC_STATE_ANY \<or> n = inclusion_state s" | "n = S2_INC_IDLE" using assms(5,6) by auto
    then show ?thesis
    proof cases
      case 1
      then have "enter n s = s" by auto
      then show ?thesis using S2_NO_ACTION assms(3,4) f by (simp add: execute_action_def keys_ok_def)
    qed (simp add: S2_NO_ACTION leaves_idle f del: leaves_simps)
  next
    case S2_RESEND_FRAME_ACTION
    then show ?thesis using assms by (simp add: leaves_resend_frame)
  next
    case S2_RESEND_DATA_ACTION
    then show ?thesis using assms by (simp add: leaves_resend_data)
  next
    case S2_DO_ECDH_CALC_A_ACTION
    then show ?thesis using assms by (simp add: leaves_ecdh_a key_core_def timed_ok_def untimed_def)
  next
    case S2_SEND_NET_KEY_GET_ACTION
    have n: "n = S2_AWAITING_NET_KEY_REPORT"
      and st: "inclusion_state s = S2_ECHO_KEX_SET_SENDING \<or> inclusion_state s = S2_KEY_EXCHANGED \<and> e = S2_TRANSFER_END_RECV"
      using S2_SEND_NET_KEY_GET_ACTION assms(6) by simp_all
    from st have k: "key_exchange s = 1 \<or> key_exchange s \<in> key_bits \<and> (- key_exchange s) AND key_granted s \<noteq> 0"
      using assms(3,8) unfolding key_core_def by fastforce
    then have "key_exchange s \<in> key_bits" by (auto simp: key_bits_def)
    moreover have "key_granted s \<noteq> 0 \<Longrightarrow> (- key_exchange s) AND key_granted s \<noteq> 0" using k by (elim disjE) simp_all
    ultimately show ?thesis unfolding S2_SEND_NET_KEY_GET_ACTION using n l by (intro leaves_net_key_get) simp_all
  next
    case S2_SEND_TRANSFER_END_ACTION
    then show ?thesis using assms by (auto simp: key_core_def intro!: leaves_transfer_end simp del: leaves_simps)
  next
    case S2_CHECK_NO_KEYS
    then show ?thesis using assms by (simp add: leaves_check_no_keys key_core_def)
  next
    case S2_INCLUSION_COMPLETE_ACTION
    then show ?thesis using assms by (simp add: leaves_complete key_core_def del: leaves_simps)
  next
    case S2_SEND_NET_KEY_REPORT_ACTION
    then show ?thesis using assms by (simp add: leaves_net_key_report key_core_def)
  next
    case S2_SEND_NET_KEY_VERIFY_ACTION
    then show ?thesis using assms by (simp add: leaves_net_key_verify key_core_def)
  next
    case S2_KEX_REP_RECV_ACTION
    then show ?thesis using assms by (simp add: leaves_kex_rep_recv key_core_def)
  next
    case S2_PUB_KEY_A_RECV_ACTION
    then show ?thesis using assms by (simp add: leaves_joining key_core_def)
  next
    case S2_DO_ECDH_CALC_B_ACTION
    then show ?thesis using assms by (simp add: leaves_joining key_core_def)
  next
    case S2_SEND_ECHO_KEX_SET_ACTION
    then show ?thesis using assms by (simp add: leaves_joining key_core_def)
  qed (use assms(6) l f in \<open>simp_all add: leaves_start leaves_to_idle leaves_pub_key_b leaves_final_transfer_end leaves_echo_kex_report\<close>)
qed

lemma leaves_posted:
  assumes "no_leaks l s" "inclusion_state s \<noteq> S2_INC_STATE_ANY" "event_rank e \<noteq> 2" "transition e (inclusion_state s) = Some (a, n)"
    and "e = S2_INCLUSION_ERROR_SENT \<Longrightarrow> inclusion_buf s ! Suc 0 \<noteq> 0x0A"
  shows "leaves l (execute_action env a (enter n s))"
proof -
  consider "e = S2_INCLUSION_ERROR_SENT" | "e = S2_INCLUSION_ERROR" | "e = S2_NO_KEYS_GRANTED" using assms(3) by (cases e) simp_all
  then show ?thesis
  proof cases
    case 1
    then show ?thesis using assms by (auto simp: transition_ends execute_action_def invariant_defs split: if_splits)
  next
    case 2
    then show ?thesis using assms by (auto simp: transition_ends split: if_splits intro!: leaves_idle leaves_to_idle simp del: leaves_simps)
  next
    case 3
    then show ?thesis using assms
      by (auto simp: transition_ends split: if_splits intro!: leaves_idle leaves_to_idle leaves_final_transfer_end simp del: leaves_simps)
  qed
qed

interpretation key_machine: inclusion_invariant "keys_ok l" "keys_known l" for l
proof
  fix s e a n env s' p
  assume k: "keys_known l e s" and t: "transition e (inclusion_state s) = Some (a, n)" and tt: "take_transition env (a, n) s = (s', p)"
  have "leaves l (execute_action env a (enter n s))"
  proof (cases "event_rank e = 2")
    case False
    then show ?thesis using k t by (intro leaves_posted [of _ _ e]) (auto simp: keys_known_def)
  next
    case r: True
    have f: "no_leaks l s" "length (inc_calls s) = l" "inclusion_state s \<noteq> S2_INC_STATE_ANY" using k r by (simp_all add: keys_known_def)
    consider "e = S2_INCLUSION_TIMEOUT"
      | "e = S2_INCLUDING_ACCEPT" "inclusion_state s \<in> {S2_AWAITING_NET_KEY_GET, S2_AWAITING_NET_KEY_VERIFY, S2_AWAITING_TRANSFER_END}"
      | "e = S2_INCLUSION_RETRY" "inclusion_state s = S2_ECHO_KEX_SET_SENDING" "key_core s" | "key_core s" "timed_ok s"
      using k r unfolding keys_known_def by blast
    then show ?thesis
    proof cases
      case 1
      then show ?thesis using transition_timeout [of "inclusion_state s" a n] t f by (auto intro!: leaves_to_idle leaves_idle simp del: leaves_simps)
    next
      case 2
      then show ?thesis using transition_refused(1) [of "inclusion_state s" a n] t f by (auto intro!: leaves_to_idle simp del: leaves_simps)
    next
      case 3
      then have "a = S2_SEND_ECHO_KEX_SET_ACTION" "n = S2_ECHO_KEX_SET_SENDING" using transition_refused(2) t by simp_all
      then show ?thesis using 3 f by (simp add: leaves_joining key_core_def)
    next
      case 4
      then show ?thesis using k r f transition_ok [OF t f(3)] by (intro leaves_row [of _ _ e]) (simp_all add: keys_known_def)
    qed
  qed
  then show "case p of None \<Rightarrow> keys_ok l s' | Some e' \<Rightarrow> keys_known l e' s'" using tt by (cases p) (simp_all add: take_transition_enter)
qed

section \<open>Every input keeps it\<close>

lemma known_plain:
  assumes "key_core s" "timed_ok s \<or> e = S2_INCLUSION_TIMEOUT \<or> e = S2_INCLUSION_RETRY \<and> inclusion_state s = S2_ECHO_KEX_SET_SENDING"
    and "event_rank e = 2" "e = S2_NET_KEY_VERIFY_FINAL_RECV \<Longrightarrow> key_exchange s = key_granted s"
    and "e = S2_TRANSFER_END_RECV \<Longrightarrow> (- key_exchange s) AND key_granted s \<noteq> 0" and "length (inc_calls s) = l"
  shows "keys_ok l (process_event env e s)"
proof (rule key_machine.machine_keeps)
  have "e \<noteq> S2_INCLUSION_ERROR_SENT" using assms(3) by auto
  moreover have "inclusion_state s \<noteq> S2_INC_STATE_ANY" using assms(1) by (simp add: key_core_def)
  moreover have "no_leaks l s" by (rule no_leaks_fresh [OF assms(6)])
  ultimately show "keys_known l e s" using assms unfolding keys_known_def by blast
qed

lemma known_step:
  assumes "key_core s" "timed_ok s" "event_rank e = 2" "e \<noteq> S2_NET_KEY_VERIFY_FINAL_RECV" "e \<noteq> S2_TRANSFER_END_RECV" "length (inc_calls s) = l"
  shows "keys_ok l (process_event env e s)"
  using assms by (intro known_plain) simp_all

lemma core_upd [simp]:
  "key_core (s\<lparr>ctx := c\<rparr>) = key_core s" "timed_ok (s\<lparr>ctx := c\<rparr>) = timed_ok s"
  "key_core (s\<lparr>inclusion_peer := q\<rparr>) = key_core s" "timed_ok (s\<lparr>inclusion_peer := q\<rparr>) = timed_ok s"
  "key_core (s\<lparr>inclusion_mode := m\<rparr>) = key_core s" "timed_ok (s\<lparr>inclusion_mode := m\<rparr>) = timed_ok s"
  "key_core (s\<lparr>kex_fail_code := f\<rparr>) = key_core s" "timed_ok (s\<lparr>kex_fail_code := f\<rparr>) = timed_ok s"
  "key_core (s\<lparr>m_retry_counter := r\<rparr>) = key_core s" "timed_ok (s\<lparr>m_retry_counter := r\<rparr>) = timed_ok s"
  "key_core (s\<lparr>m_keys := k\<rparr>) = key_core s" "timed_ok (s\<lparr>m_keys := k\<rparr>) = timed_ok s"
  "key_core (s\<lparr>m_schemes := ms\<rparr>) = key_core s" "timed_ok (s\<lparr>m_schemes := ms\<rparr>) = timed_ok s"
  "key_core (s\<lparr>m_curves := mc\<rparr>) = key_core s" "timed_ok (s\<lparr>m_curves := mc\<rparr>) = timed_ok s"
  "key_core (s\<lparr>public_key := pk\<rparr>) = key_core s" "timed_ok (s\<lparr>public_key := pk\<rparr>) = timed_ok s"
  "key_core (s\<lparr>inc_timer := tm\<rparr>) = key_core s" "timed_ok (s\<lparr>key_granted := g\<rparr>) = timed_ok s"
  by (simp_all add: key_core_def timed_ok_def)

lemma grant_keeps:
  assumes "key_core s" "timed_ok s" "length (inc_calls s) = l"
  shows "keys_ok l (process_event env S2_INCLUDING_ACCEPT (s\<lparr>key_granted := g\<rparr>))"
proof (rule key_machine.machine_keeps)
  have st: "inclusion_state s \<noteq> S2_INC_STATE_ANY" using assms(1) by (simp add: key_core_def)
  have "key_core (s\<lparr>key_granted := g\<rparr>)"
    if "inclusion_state s \<notin> {S2_AWAITING_NET_KEY_GET, S2_AWAITING_NET_KEY_VERIFY, S2_AWAITING_TRANSFER_END}"
    using assms(1) that unfolding key_core_def by simp
  then show "keys_known l S2_INCLUDING_ACCEPT (s\<lparr>key_granted := g\<rparr>)"
    using assms(2,3) st by (auto simp: keys_known_def no_leaks_fresh)
qed

lemma received_keeps:
  assumes "key_core s" "timed_ok s" "length (inc_calls s) = l"
  shows "keys_ok l (s2_inclusion_post_event env src s)"
proof -
  have internal: "keys_ok l (s2_inclusion_post_event_internal env v)" if c: "key_core v" "timed_ok v" "length (inc_calls v) = l" for v
  proof -
    have st: "inclusion_state v \<noteq> S2_INC_STATE_ANY" using c(1) by (simp add: key_core_def)
    have same: "keys_ok l (v\<lparr>ctx := d\<rparr>)" "keys_ok l v" for d using c by (simp_all add: keys_ok_def no_leaks_fresh)
    have err: "keys_ok l (process_event env S2_INCLUSION_ERROR v)"
      "keys_ok l (process_event env S2_INCLUSION_ERROR_SENT (inclusion_failed_frame_send env x sec v))" for x sec
      using c st by (auto intro!: key_machine.machine_keeps simp: keys_known_def no_leaks_fresh)
    have "keys_ok l (process_event env (frame_event cmd v) v)" for cmd
      using c by (intro known_plain) (auto simp: frame_event_def split: if_splits)
    then show ?thesis using same err by (simp add: s2_inclusion_post_event_internal_def Let_def case_prod_beta)
  qed
  have "keys_ok l s" using assms by (simp add: keys_ok_def no_leaks_fresh)
  moreover have "keys_ok l (s\<lparr>inclusion_peer := q\<rparr>)" for q using assms by (simp add: keys_ok_def no_leaks_fresh)
  ultimately show ?thesis using assms by (simp add: s2_inclusion_post_event_def Let_def internal)
qed

lemma step_keeps:
  assumes "key_core s" "timed_ok s"
  shows "keys_ok (length (inc_calls s)) (inc_step env (i, c) s)"
proof -
  have same: "keys_ok (length (inc_calls s)) (s\<lparr>ctx := c\<rparr>)" using assms by (simp add: keys_ok_def no_leaks_fresh)
  show ?thesis
  proof (cases i)
    case (Including_start p)
    then show ?thesis using assms same by (simp add: inc_step_def s2_inclusion_including_start_def known_step Let_def)
  next
    case (Joining_start con csa)
    then show ?thesis using assms by (simp add: inc_step_def s2_inclusion_joining_start_def known_step Let_def)
  next
    case (Key_grant inc ks csa)
    then show ?thesis using assms grant_keeps [of "s\<lparr>ctx := c, inclusion_mode := (if csa \<noteq> 0 then INCLUSION_MODE_CSA else INCLUSION_MODE_SSA)\<rparr>"]
      by (simp add: inc_step_def s2_inclusion_key_grant_def known_step Let_def)
  next
    case (Received src)
    then show ?thesis using assms by (simp add: inc_step_def received_keeps Let_def)
  next
    case (Init schemes curves ks)
    then show ?thesis using assms by (simp add: inc_step_def s2_inclusion_init_def keys_ok_def no_leaks_fresh Let_def)
  next
    case (Send_done status)
    then show ?thesis using assms by (simp add: inc_step_def s2_inclusion_send_done_def known_step Let_def)
  next
    case Timer_expired
    then show ?thesis using assms same by (auto simp: inc_step_def s2_inclusion_notify_timeout_def Let_def intro!: known_plain)
  qed (use assms same in \<open>simp_all add: inc_step_def s2_inclusion_challenge_response_def s2_inclusion_neighbor_discovery_complete_def s2_inclusion_abort_def
      s2_inclusion_decryption_failure_def known_step Let_def\<close>)
qed

lemma run_keeps:
  assumes "key_core s" "timed_ok s"
  shows "key_core (inc_run env is s) \<and> timed_ok (inc_run env is s)"
  using assms
proof (induction "is" arbitrary: s)
  case (Cons i "is")
  have "inc_run env (i # is) s = inc_run env is (inc_step env i s)" by (simp add: inc_run_def)
  then show ?case using step_keeps [OF Cons(2,3), of env "fst i" "snd i"] Cons(1) [of "inc_step env i s"] by (simp add: keys_ok_def)
qed (simp add: inc_run_def)

lemma reachable_keys: "key_core (inc_run env is (inc_init c))" "timed_ok (inc_run env is (inc_init c))"
  using run_keeps [of "inc_init c"] by (simp_all add: inc_init_def key_core_def timed_ok_def untimed_def)

section \<open>Keys and timers in every history\<close>

text \<open>
  C7. Whatever has happened before, in what an input makes the exchange of keys hand over and report no frame with a network key is handed over
  for sending in the clear, a frame with a network key that is handed over for encryption has exactly one key, and one that was granted, and an
  inclusion that is reported as completed is reported with the keys that were granted.
  The class of the key that such a frame is handed over with is not part of the statement; it is the subject of resend_takes_class_of_ignored_frame.
\<close>

theorem network_keys_protected:
  "let s = inc_run env is (inc_init c); s' = inc_step env i s
   in list_all (leak_free (key_granted s')) (drop (length (inc_calls s)) (inc_calls s'))"
  using step_keeps [OF reachable_keys [of env "is" c], of env "fst i" "snd i"]
  by (simp add: Let_def keys_ok_def no_leaks_def list_all_iff)

text \<open>
  In every history the exchange of keys is at rest, or has a timer running, or waits for the start of an inclusion or for the end of the transmission
  of its last frame.
\<close>

theorem key_exchange_is_timed:
  "inclusion_state (inc_run env is (inc_init c)) \<in> {S2_INC_IDLE, S2_AWAITING_KEX_GET, S2_ERROR_SENT, S2_SENDING_FINAL_TRANSFER_END} \<or>
   inc_timer (inc_run env is (inc_init c)) \<noteq> None"
  using reachable_keys(2) [of env "is" c] by (auto simp: timed_ok_def untimed_def)

end
