(* ===== verification/S2_Inclusion_Agreement.thy ===== *)
theory S2_Inclusion_Agreement
  imports S2_Inclusion_Keys S2_Crypto_Properties
begin

text \<open>
  The public keys and the temporary key of an exchange: what one end sends, the digits its user reads off the other one and what both derive; and two
  places where the class of a frame that is not meant for the exchange has consequences.
\<close>

section \<open>The temporary key\<close>

text \<open>The bytes of a public key that are not sent, but entered by the user.\<close>

definition blanked_b :: "s2_inc \<Rightarrow> nat" where
  "blanked_b s = (if inclusion_mode s = INCLUSION_MODE_SSA \<and> key_granted s AND NOT (0x80 OR 0x01) \<noteq> 0 then 2 else 0)"

definition blanked_a :: "s2_inc \<Rightarrow> nat" where
  "blanked_a s = (if inclusion_mode s = INCLUSION_MODE_CSA \<and> key_granted s AND NOT (0x80 OR 0x01) \<noteq> 0 then 4 else 0)"

lemma length_tempkey [simp]: "length (tempkey_extract x t) = 16"
  by (simp add: tempkey_extract_def aes_cmac_calculate_def Let_def split_def)

lemma entered_key:
  assumes "length k = 32" "b \<le> n" "b \<le> 32"
  shows "put_at 0 (take n k) (replicate b 0 @ drop b k) = k"
proof (cases "n \<le> 32")
  case True
  then have "drop n (replicate b 0 @ drop b k) = drop n k" using assms by simp
  then show ?thesis using assms True by (simp add: put_at_def del: drop_append)
qed (use assms in \<open>simp add: put_at_def\<close>)

lemma blanked_bounds: "blanked_a s \<le> 32" "blanked_b s \<le> 32"
  by (simp_all add: blanked_a_def blanked_b_def)

lemma public_key_simps [simp]:
  "public_key (s2_inclusion_send_frame env s) = public_key s" "public_key (s2_inclusion_send_data env s) = public_key s"
  "public_key (s2_inclusion_stop_timeout s) = public_key s" "public_key (s2_inclusion_set_timeout t s) = public_key s"
  "public_key (put_frame b s) = public_key s"
  "inclusion_mode (s2_inclusion_send_frame env s) = inclusion_mode s" "inclusion_mode (s2_inclusion_send_data env s) = inclusion_mode s"
  "inclusion_mode (s2_inclusion_stop_timeout s) = inclusion_mode s" "inclusion_mode (s2_inclusion_set_timeout t s) = inclusion_mode s"
  "inclusion_mode (put_frame b s) = inclusion_mode s" "ctx (s2_inclusion_stop_timeout s) = ctx s" "ctx (s2_inclusion_set_timeout t s) = ctx s"
  "ctx (put_frame b s) = ctx s"
  by (simp_all add: s2_inclusion_send_frame_def s2_inclusion_send_data_def s2_inclusion_stop_timeout_def s2_inclusion_set_timeout_def
      put_frame_def case_prod_beta)

lemma frame_of_sent [simp]: "frame_of (s2_inclusion_set_timeout t s) = frame_of s" "frame_of (s2_inclusion_send_frame env s) = frame_of s"
  by (simp_all add: frame_of_def)

lemma sent_key_b:
  fixes env s
  defines "u \<equiv> send_pub_key_b env s"
  shows "frame_of u = [COMMAND_CLASS_SECURITY_2, PUBLIC_KEY_REPORT, 0] @ replicate (blanked_b u) 0 @ drop (blanked_b u) (s2_public_key_read env u)"
  by (simp add: u_def send_pub_key_b_def Let_def blanked_b_def s2_public_key_read_def primary_pair_def numeral_2_eq_2)

lemma sent_key_a:
  fixes env s
  defines "u \<equiv> s2_send_pub_key_a env s"
  shows "frame_of u = [COMMAND_CLASS_SECURITY_2, PUBLIC_KEY_REPORT, 1] @ replicate (blanked_a u) 0 @ drop (blanked_a u) (own_public_key env)"
    and "public_key u = take 32 (drop 3 (buf (ctx s)))"
  by (simp_all add: u_def s2_send_pub_key_a_def Let_def blanked_a_def numeral_eq_Suc)

text \<open>
  C9. The including and the joining end send each other their public keys, with the bytes of the one blanked that its user has to read off the device, and
  derive the temporary key once the users have entered these bytes. If the keys belong to each other on a curve on which the order of two
  multiplications does not matter, both ends derive the same temporary key, from the two whole public keys.
\<close>

theorem both_ends_derive_one_temporary_key:
  assumes curve: "crypto_scalarmult_curve25519 env_a = mult" "crypto_scalarmult_curve25519 env_b = mult"
      "mult (private_key env_a) (mult (s2_private_key_read env_b b) base) = mult (s2_private_key_read env_b b) (mult (private_key env_a) base)"
    and pairs: "own_public_key env_a = mult (private_key env_a) base" "s2_public_key_read env_b b = mult (s2_private_key_read env_b b) base"
      "length (own_public_key env_a) = 32" "length (s2_public_key_read env_b b) = 32"
    and exchanged: "b = send_pub_key_b env_b sb" "a = s2_send_pub_key_a env_a sa" "buf (ctx sa) = frame_of b" "buf cb = frame_of a"
    and asked: "b' = s2_pub_key_a_recv (b\<lparr>ctx := cb\<rparr>)"
    and entered: "blanked_b b \<le> n" "blanked_a a \<le> m"
  shows "take 16 (public_key (s2_do_ecdh_calc_a env_a (a\<lparr>public_key := put_at 0 (take n (s2_public_key_read env_b b)) (public_key a)\<rparr>))) =
      tempkey_extract (mult (private_key env_a) (s2_public_key_read env_b b)) (own_public_key env_a @ s2_public_key_read env_b b) \<and>
    take 16 (public_key (s2_do_ecdh_calc_b env_b (b'\<lparr>public_key := put_at 0 (take m (own_public_key env_a)) (public_key b')\<rparr>))) =
      tempkey_extract (mult (private_key env_a) (s2_public_key_read env_b b)) (own_public_key env_a @ s2_public_key_read env_b b)"
proof
  have "public_key a = replicate (blanked_b b) 0 @ drop (blanked_b b) (s2_public_key_read env_b b)"
    using sent_key_a(2) [of env_a sa] sent_key_b [of env_b sb] exchanged pairs(4) by (simp add: blanked_b_def)
  then have "put_at 0 (take n (s2_public_key_read env_b b)) (public_key a) = s2_public_key_read env_b b"
    using entered_key [OF pairs(4) entered(1) blanked_bounds(2)] by simp
  then show "take 16 (public_key (s2_do_ecdh_calc_a env_a (a\<lparr>public_key := put_at 0 (take n (s2_public_key_read env_b b)) (public_key a)\<rparr>))) =
      tempkey_extract (mult (private_key env_a) (s2_public_key_read env_b b)) (own_public_key env_a @ s2_public_key_read env_b b)"
    using curve(1) by (simp add: s2_do_ecdh_calc_a_def derive_temp_key_def Let_def)
next
  have "public_key b' = replicate (blanked_a a) 0 @ drop (blanked_a a) (own_public_key env_a)"
    using sent_key_a(1) [of env_a sa] exchanged asked pairs(3) by (simp add: blanked_a_def s2_pub_key_a_recv_def Let_def)
  then have k: "put_at 0 (take m (own_public_key env_a)) (public_key b') = own_public_key env_a"
    using entered_key [OF pairs(3) entered(2) blanked_bounds(1)] by simp
  have r: "s2_private_key_read env_b (b'\<lparr>public_key := x\<rparr>) = s2_private_key_read env_b b"
    "s2_public_key_read env_b (b'\<lparr>public_key := x\<rparr>) = s2_public_key_read env_b b" for x
    by (simp_all add: asked s2_private_key_read_def s2_public_key_read_def primary_pair_def s2_pub_key_a_recv_def Let_def)
  have d: "mult (s2_private_key_read env_b b) (own_public_key env_a) = mult (private_key env_a) (s2_public_key_read env_b b)"
    using curve(3) pairs(1,2) by simp
  show "take 16 (public_key (s2_do_ecdh_calc_b env_b (b'\<lparr>public_key := put_at 0 (take m (own_public_key env_a)) (public_key b')\<rparr>))) =
      tempkey_extract (mult (private_key env_a) (s2_public_key_read env_b b)) (own_public_key env_a @ s2_public_key_read env_b b)"
    using curve(2) by (simp add: s2_do_ecdh_calc_b_def s2_send_echo_kex_set_def derive_temp_key_def Let_def case_prod_beta k r d)
qed

text \<open>An exchange of the two ends of the examples, with the product of bytes as multiplication.\<close>

definition demo_inc_env :: "u8 \<Rightarrow> s2i_env" where
  "demo_inc_env k = \<lparr>machine = demo_env, network_key = demo_keystore, private_key = replicate 32 k, own_public_key = replicate 32 k,
     dynamic_private_key = replicate 32 k, dynamic_public_key = replicate 32 k, crypto_scalarmult_curve25519 = map2 (*)\<rparr>"

definition demo_b :: s2_inc where
  "demo_b = send_pub_key_b (demo_inc_env 5) (inc_init ((demo_s2 1)\<lparr>buf := [0x9F, 6, 0, 2, 1, 7]\<rparr>))"

definition demo_a :: s2_inc where
  "demo_a = s2_send_pub_key_a (demo_inc_env 3) (inc_init ((demo_s2 2)\<lparr>buf := frame_of demo_b\<rparr>))"

theorem both_ends_derive_one_temporary_key_witness:
  "take 16 (public_key (s2_do_ecdh_calc_a (demo_inc_env 3) (demo_a\<lparr>public_key := put_at 0 [5, 5] (public_key demo_a)\<rparr>))) =
   take 16 (public_key (s2_do_ecdh_calc_b (demo_inc_env 5) ((s2_pub_key_a_recv (demo_b\<lparr>ctx := (demo_s2 1)\<lparr>buf := frame_of demo_a\<rparr>\<rparr>))
     \<lparr>public_key := put_at 0 [3, 3, 3, 3] (public_key (s2_pub_key_a_recv (demo_b\<lparr>ctx := (demo_s2 1)\<lparr>buf := frame_of demo_a\<rparr>\<rparr>)))\<rparr>)))"
proof -
  have r: "s2_public_key_read (demo_inc_env 5) demo_b = replicate 32 5" "s2_private_key_read (demo_inc_env 5) demo_b = replicate 32 5"
    by (simp_all add: s2_public_key_read_def s2_private_key_read_def demo_inc_env_def)
  have t: "take 2 (replicate 32 5) = [5, 5 :: u8]" "take 4 (replicate 32 3) = [3, 3, 3, 3 :: u8]" by (simp_all add: numeral_eq_Suc)
  have o: "own_public_key (demo_inc_env 3) = replicate 32 3" by (simp add: demo_inc_env_def)
  have l: "length (own_public_key (demo_inc_env 3)) = 32" "length (s2_public_key_read (demo_inc_env 5) demo_b) = 32" unfolding r o by simp_all
  have c: "crypto_scalarmult_curve25519 (demo_inc_env k) = map2 (*)" "private_key (demo_inc_env k) = replicate 32 k" for k
    by (simp_all add: demo_inc_env_def)
  have m: "map2 (*) (replicate 32 x) (replicate 32 y) = (replicate 32 (x * y) :: u8 list)" for x y by (simp add: zip_replicate)
  have p: "own_public_key (demo_inc_env 3) = map2 (*) (private_key (demo_inc_env 3)) (replicate 32 1)"
    "s2_public_key_read (demo_inc_env 5) demo_b = map2 (*) (s2_private_key_read (demo_inc_env 5) demo_b) (replicate 32 1)"
    "map2 (*) (private_key (demo_inc_env 3)) (map2 (*) (s2_private_key_read (demo_inc_env 5) demo_b) (replicate 32 1)) =
     map2 (*) (s2_private_key_read (demo_inc_env 5) demo_b) (map2 (*) (private_key (demo_inc_env 3)) (replicate 32 1))"
    unfolding r o c m by simp_all
  have f: "buf (ctx (inc_init ((demo_s2 2)\<lparr>buf := frame_of demo_b\<rparr>))) = frame_of demo_b" "buf ((demo_s2 1)\<lparr>buf := frame_of demo_a\<rparr>) = frame_of demo_a"
    by (simp_all add: inc_init_def)
  have n: "blanked_b demo_b \<le> 2" "blanked_a demo_a \<le> 4" by (simp_all add: blanked_a_def blanked_b_def)
  note w = both_ends_derive_one_temporary_key [OF c(1) c(1) p(3) p(1) p(2) l demo_b_def demo_a_def f refl n, unfolded r o t]
  show ?thesis by (rule trans [OF conjunct1 [OF w] conjunct2 [OF w, symmetric]])
qed

section \<open>Classes of frames that are not meant for the exchange\<close>

text \<open>A command behind the last rule passes the comparison with their number: the code reads behind the table.\<close>

lemma command_behind_rules_reads_outside:
  assumes "inclusion_state s \<noteq> S2_INC_IDLE" "rx s 1 = 0x0D"
  shows "undefined_c (ctx (s2_inclusion_post_event_internal env s))"
  using assms by (simp add: s2_inclusion_post_event_internal_def Let_def m_frame_rules_def check_def)

text \<open>
  A report of the joining node that comes again in the clear is ignored, but its class is kept for the frame that waits for its confirmation: when this one
  is sent again, the network key is handed over for encryption with the class of unencrypted frames.
\<close>

lemma resend_takes_class_of_ignored_frame:
  assumes "inclusion_state s = S2_AWAITING_NET_KEY_VERIFY" "m_retry_counter s \<noteq> 0" "m_retry_counter s \<noteq> 0xFF"
    and "rx_options src AND S2_RXOPTION_MULTICAST \<noteq> S2_RXOPTION_MULTICAST" "r_node src = r_node (inclusion_peer s)" "class_id src = 0xFF"
    and "buf c ! 1 = KEX_REPORT" "buf c ! 2 AND 0x01 = 0" "6 \<le> unat (buf_length c)"
  shows "\<exists>ok. inc_calls (inc_step env (Send_done False, c') (inc_step env (Received src, c) s)) =
    inc_calls s @ [Data_handed ((inclusion_peer s)\<lparr>class_id := 0xFF\<rparr>) (frame_of s) ok]"
proof -
  let ?s = "s\<lparr>ctx := c, inclusion_peer := (inclusion_peer s)\<lparr>class_id := 0xFF\<rparr>\<rparr>"
  have t: "transition S2_KEX_REPORT_RECV S2_AWAITING_NET_KEY_VERIFY = Some (S2_NO_ACTION, S2_INC_STATE_ANY)"
    "transition S2_INCLUSION_RETRY S2_AWAITING_NET_KEY_VERIFY = Some (S2_RESEND_DATA_ACTION, S2_INC_STATE_ANY)"
    by (simp_all add: transition_def process_s2_inclusion_event_def s2_transition_table_controller_def)
  have "process_event env S2_KEX_REPORT_RECV ?s = ?s"
    using assms(1) by (subst process_event.simps) (simp add: t take_transition_def execute_action_def)
  then have r: "inc_step env (Received src, c) s = ?s"
    using assms by (simp add: inc_step_def s2_inclusion_post_event_def s2_inclusion_post_event_internal_def Let_def m_frame_rules_def rule_ok_def frame_event_def)
  have "process_event env S2_INCLUSION_RETRY (?s\<lparr>ctx := c'\<rparr>) = s2_inclusion_send_data env (?s\<lparr>ctx := c'\<rparr>)"
    using assms(1) by (subst process_event.simps) (simp add: t take_transition_def execute_action_def)
  then show ?thesis using assms(1,2,3) send_calls(2) [of env "?s\<lparr>ctx := c'\<rparr>"] unfolding r
    by (simp add: inc_step_def s2_inclusion_send_done_def Let_def word_neq_0_conv frame_of_def)
qed

end
