(* ===== verification/S2_Inclusion_Progress.thy ===== *)
theory S2_Inclusion_Progress
  imports S2_Inclusion_Agreement
begin

text \<open>
  An inclusion that succeeds: with a joining node that answers every frame as it should, the including end gets through all its states and reports
  the granted key.
\<close>

section \<open>The answers of the joining node\<close>

text \<open>A frame in the buffer of the context, as \<^verbatim>\<open>S2.c\<close> hands it over, and the class it was received with.\<close>

definition comes :: "s2_connection \<Rightarrow> u8 \<Rightarrow> u8 list \<Rightarrow> s2 \<Rightarrow> inc_input \<times> s2" where
  "comes p cl f c = (Received (p\<lparr>class_id := cl, rx_options := 0\<rparr>), c\<lparr>buf := f, buf_length := of_nat (length f)\<rparr>)"

definition well_behaved_node :: "s2_connection \<Rightarrow> u8 list \<Rightarrow> s2 \<Rightarrow> (inc_input \<times> s2) list" where
  "well_behaved_node p pk c =
    [(Including_start p, c),
     comes p NON_SECURE [COMMAND_CLASS_SECURITY_2, KEX_REPORT, 0, 2, 1, 4] c,
     (Key_grant 1 4 0, c),
     comes p NON_SECURE ([COMMAND_CLASS_SECURITY_2, PUBLIC_KEY_REPORT, 0] @ pk) c,
     (Challenge_response 1 (take 2 pk), c),
     comes p TEMP_KEY_SECURE [COMMAND_CLASS_SECURITY_2, KEX_SET, 1, 2, 1, 4] c,
     comes p TEMP_KEY_SECURE [COMMAND_CLASS_SECURITY_2, SECURITY_2_NETWORK_KEY_GET, 4] c,
     comes p 2 [COMMAND_CLASS_SECURITY_2, SECURITY_2_NETWORK_KEY_VERIFY] c,
     comes p TEMP_KEY_SECURE [COMMAND_CLASS_SECURITY_2, SECURITY_2_TRANSFER_END, 1] c]"

lemma process_single:
  assumes "transition e (inclusion_state s) = Some r" "take_transition env r s = (s', None)"
  shows "process_event env e s = s'"
  using assms by (subst process_event.simps) simp

lemma including_rows [simp]:
  "transition S2_INCLUDING_START S2_INC_IDLE = Some (S2_SEND_KEX_GET_ACTION, S2_AWAITING_KEX_REPORT)"
  "transition S2_KEX_REPORT_RECV S2_AWAITING_KEX_REPORT = Some (S2_KEX_REP_RECV_ACTION, S2_AWAITING_KEY_USER_ACCEPT)"
  "transition S2_INCLUDING_ACCEPT S2_AWAITING_KEY_USER_ACCEPT = Some (S2_SEND_KEX_SET_ACTION, S2_AWAITING_PUB_KEY_B)"
  "transition S2_PUB_KEY_RECV_B S2_AWAITING_PUB_KEY_B = Some (S2_SEND_PUB_KEY_A_ACTION, S2_AWAITING_USER_ACCEPT)"
  "transition S2_INCLUDING_ACCEPT S2_AWAITING_USER_ACCEPT = Some (S2_DO_ECDH_CALC_A_ACTION, S2_AWAITING_ECHO_KEX_SET)"
  "transition S2_ECHO_KEX_SET_RECV S2_AWAITING_ECHO_KEX_SET = Some (S2_SEND_ECHO_KEX_REPORT_ACTION, S2_AWAITING_NET_KEY_GET)"
  "transition S2_NET_KEY_GET_RECV S2_AWAITING_NET_KEY_GET = Some (S2_SEND_NET_KEY_REPORT_ACTION, S2_AWAITING_NET_KEY_VERIFY)"
  "transition S2_NET_KEY_VERIFY_FINAL_RECV S2_AWAITING_NET_KEY_VERIFY = Some (S2_SEND_TRANSFER_END_ACTION, S2_AWAITING_TRANSFER_END)"
  "transition S2_TRANSFER_END_RECV S2_AWAITING_TRANSFER_END = Some (S2_INCLUSION_COMPLETE_ACTION, S2_INC_IDLE)"
  by (simp_all add: transition_def process_s2_inclusion_event_def s2_transition_table_controller_def)

section \<open>The steps\<close>

lemma peer_simps [simp]:
  "inclusion_peer (s2_inclusion_send_frame env s) = inclusion_peer s" "inclusion_peer (s2_inclusion_send_data env s) = inclusion_peer s"
  "inclusion_peer (s2_inclusion_stop_timeout s) = inclusion_peer s" "inclusion_peer (s2_inclusion_set_timeout t s) = inclusion_peer s"
  "inclusion_peer (put_frame b s) = inclusion_peer s"
  "scheme_support (s2_inclusion_send_frame env s) = scheme_support s" "scheme_support (s2_inclusion_send_data env s) = scheme_support s"
  "scheme_support (s2_inclusion_stop_timeout s) = scheme_support s" "scheme_support (s2_inclusion_set_timeout t s) = scheme_support s"
  "scheme_support (put_frame b s) = scheme_support s"
  "curve_support (s2_inclusion_send_frame env s) = curve_support s" "curve_support (s2_inclusion_send_data env s) = curve_support s"
  "curve_support (s2_inclusion_stop_timeout s) = curve_support s" "curve_support (s2_inclusion_set_timeout t s) = curve_support s"
  "curve_support (put_frame b s) = curve_support s"
  "key_requested (s2_inclusion_send_frame env s) = key_requested s" "key_requested (s2_inclusion_send_data env s) = key_requested s"
  "key_requested (s2_inclusion_stop_timeout s) = key_requested s" "key_requested (s2_inclusion_set_timeout t s) = key_requested s"
  "key_requested (put_frame b s) = key_requested s"
  by (simp_all add: s2_inclusion_send_frame_def s2_inclusion_send_data_def s2_inclusion_stop_timeout_def s2_inclusion_set_timeout_def
      put_frame_def case_prod_beta)

lemma state_set_simps [simp]:
  "inclusion_peer (set_inclusion_state st s) = inclusion_peer s" "scheme_support (set_inclusion_state st s) = scheme_support s"
  "curve_support (set_inclusion_state st s) = curve_support s" "key_requested (set_inclusion_state st s) = key_requested s"
  "key_granted (set_inclusion_state st s) = key_granted s" "key_exchange (set_inclusion_state st s) = key_exchange s"
  "inclusion_mode (set_inclusion_state st s) = inclusion_mode s" "buf (ctx (set_inclusion_state st s)) = buf (ctx s)"
  "inc_calls (set_inclusion_state st s) = inc_calls s" "public_key (set_inclusion_state st s) = public_key s"
  by (simp_all add: set_inclusion_state_def)

text \<open>What is known of the including end between two steps.\<close>

definition has_come_to :: "s2_connection \<Rightarrow> inclusion_state \<Rightarrow> s2_inc \<Rightarrow> bool" where
  "has_come_to p st s \<longleftrightarrow> inclusion_state s = st \<and> r_node (inclusion_peer s) = r_node p"

definition agreed :: "s2_inc \<Rightarrow> bool" where
  "agreed s \<longleftrightarrow> scheme_support s = 2 \<and> curve_support s = 1 \<and> key_granted s = 4"

lemmas step_defs = inc_step_def comes_def has_come_to_def agreed_def take_transition_def execute_action_def execute_action_controller_def
  s2_inclusion_post_event_def s2_inclusion_post_event_internal_def m_frame_rules_def rule_ok_def frame_event_def Let_def

lemma step_start: "has_come_to p S2_AWAITING_KEX_REPORT (inc_step env (Including_start p, c) (inc_init d))"
  by (simp add: step_defs s2_inclusion_including_start_def inc_init_def)
    (simp add: step_defs s2_send_kex_get_def process_single)

text \<open>A frame that has the length and the class its rule asks for is an event of the machine.\<close>

lemma received_event:
  assumes "r_node (inclusion_peer s) = r_node p" "inclusion_state s \<noteq> S2_INC_IDLE" "inclusion_state s \<noteq> S2_AWAITING_KEX_GET"
    and "f ! 1 \<in> {4, 5, 6, 7, 8, 9, 10, 11, 12}" "m_frame_rules ! unat (f ! 1 - 4) = (len, r)" "len \<le> length f" "length f < 65536"
    and "u = s\<lparr>ctx := c\<lparr>buf := f, buf_length := of_nat (length f)\<rparr>, inclusion_peer := (inclusion_peer s)\<lparr>class_id := cl\<rparr>\<rparr>"
    and "rule_ok r u" "transition (frame_event (f ! 1) u) (inclusion_state s) = Some t" "take_transition env t u = (s', None)"
  shows "inc_step env (comes p cl f c) s = s'"
proof -
  have "unat (f ! 1 - 4) < length m_frame_rules" using assms(4) by (auto simp: m_frame_rules_def)
  moreover have "process_event env (frame_event (f ! 1) u) u = s'"
    using assms(8,10,11) by (intro process_single) simp_all
  moreover have "unat (buf_length (ctx u)) = length f" using assms(7,8) by (simp add: unat_of_nat)
  moreover have "inc_step env (comes p cl f c) s = s2_inclusion_post_event_internal env u"
    using assms(1,3,8) by (simp add: inc_step_def comes_def s2_inclusion_post_event_def Let_def)
  ultimately show ?thesis using assms(2,5,6,8,9) by (simp add: s2_inclusion_post_event_internal_def Let_def)
qed

lemma kex_report_checked:
  assumes "buf (ctx u) = [x, KEX_REPORT, 0, 2, 1, 4]"
  obtains s' where "s2_kex_rep_recv env u = (s', None)" "inclusion_state s' = inclusion_state u" "inclusion_peer s' = inclusion_peer u"
    "scheme_support s' = 2" "curve_support s' = 1"
proof -
  define v where "v = (s2_inclusion_stop_timeout u)\<lparr>scheme_support := 2, curve_support := 1, kex_report_keys := 4, key_exchange := 4, key_granted := 4\<rparr>"
  have "snd (s2_kex_rep_recv env u) = None \<and> fst (s2_kex_rep_recv env u) = kex_report_accepted v"
    using assms by (simp add: s2_kex_rep_recv_def validate_reported_schemes_def validate_reported_curves_def validate_reported_keys_def v_def Let_def)
  moreover have "inclusion_state (kex_report_accepted v) = inclusion_state u" "inclusion_peer (kex_report_accepted v) = inclusion_peer u"
    "scheme_support (kex_report_accepted v) = 2" "curve_support (kex_report_accepted v) = 1"
    by (simp_all add: kex_report_accepted_def v_def Let_def)
  ultimately show ?thesis by (intro that [of "kex_report_accepted v"]) (simp_all add: prod_eq_iff)
qed

definition took :: "s2_inc \<Rightarrow> s2_connection \<Rightarrow> u8 \<Rightarrow> u8 list \<Rightarrow> s2 \<Rightarrow> inclusion_state \<Rightarrow> s2_inc" where
  "took s p cl f c st = set_inclusion_state st
     (s\<lparr>ctx := c\<lparr>buf := f, buf_length := of_nat (length f)\<rparr>, inclusion_peer := (inclusion_peer s)\<lparr>class_id := cl\<rparr>\<rparr>)"

lemma took_simps [simp]:
  "inclusion_state (took s p cl f c st) = st" "r_node (inclusion_peer (took s p cl f c st)) = r_node (inclusion_peer s)"
  "buf (ctx (took s p cl f c st)) = f" "scheme_support (took s p cl f c st) = scheme_support s" "curve_support (took s p cl f c st) = curve_support s"
  "key_granted (took s p cl f c st) = key_granted s" "key_exchange (took s p cl f c st) = key_exchange s" "key_requested (took s p cl f c st) = key_requested s"
  "inclusion_mode (took s p cl f c st) = inclusion_mode s" "inc_calls (took s p cl f c st) = inc_calls s"
  by (simp_all add: took_def)

lemma received_step:
  assumes "has_come_to p st s" "st \<noteq> S2_INC_IDLE" "st \<noteq> S2_AWAITING_KEX_GET" "st' \<noteq> st" "st' \<noteq> S2_INC_STATE_ANY"
    and "f ! 1 \<in> {4, 5, 6, 7, 8, 9, 10, 11, 12}" "m_frame_rules ! unat (f ! 1 - 4) = (len, r)" "len \<le> length f" "length f < 65536"
    and "\<And>u. class_id (inclusion_peer u) = cl \<Longrightarrow> buf (ctx u) = f \<Longrightarrow> key_granted u = key_granted s \<Longrightarrow> key_exchange u = key_exchange s \<Longrightarrow>
      key_requested u = key_requested s \<Longrightarrow> rule_ok r u \<and> frame_event (f ! 1) u = e"
    and "transition e st = Some (a, st')" "execute_action env a (took s p cl f c st') = (s', None)"
  shows "inc_step env (comes p cl f c) s = s'"
proof -
  define u where "u = s\<lparr>ctx := c\<lparr>buf := f, buf_length := of_nat (length f)\<rparr>, inclusion_peer := (inclusion_peer s)\<lparr>class_id := cl\<rparr>\<rparr>"
  have "rule_ok r u" "frame_event (f ! 1) u = e" using assms(10) [of u] by (simp_all add: u_def)
  moreover have "take_transition env (a, st') u = (s', None)"
    using assms(1,4,5,12) by (simp add: take_transition_def has_come_to_def took_def u_def)
  ultimately show ?thesis
    using assms(1-3,6-9,11) by (intro received_event [OF _ _ _ assms(6) assms(7) assms(8,9) u_def]) (simp_all add: has_come_to_def)
qed

lemma step_kex_report:
  assumes "has_come_to p S2_AWAITING_KEX_REPORT s"
  shows "has_come_to p S2_AWAITING_KEY_USER_ACCEPT (inc_step env (comes p NON_SECURE [x, KEX_REPORT, 0, 2, 1, 4] c) s) \<and>
    scheme_support (inc_step env (comes p NON_SECURE [x, KEX_REPORT, 0, 2, 1, 4] c) s) = 2 \<and>
    curve_support (inc_step env (comes p NON_SECURE [x, KEX_REPORT, 0, 2, 1, 4] c) s) = 1"
proof -
  let ?u = "took s p NON_SECURE [x, KEX_REPORT, 0, 2, 1, 4] c S2_AWAITING_KEY_USER_ACCEPT"
  have b: "buf (ctx ?u) = [x, KEX_REPORT, 0, 2, 1, 4]" by simp
  obtain s' where s': "s2_kex_rep_recv env ?u = (s', None)" "inclusion_state s' = inclusion_state ?u" "inclusion_peer s' = inclusion_peer ?u"
    "scheme_support s' = 2" "curve_support s' = 1" by (rule kex_report_checked [OF b])
  have "inc_step env (comes p NON_SECURE [x, KEX_REPORT, 0, 2, 1, 4] c) s = s'"
    by (rule received_step [OF assms, where r = "(ECHO_SUPPORT, NON_SECURE, TEMP_KEY_SECURE)" and len = 6 and e = S2_KEX_REPORT_RECV
        and a = S2_KEX_REP_RECV_ACTION and st' = S2_AWAITING_KEY_USER_ACCEPT])
      (simp_all add: m_frame_rules_def rule_ok_def frame_event_def execute_action_def execute_action_controller_def s'(1))
  then show ?thesis using s' assms by (simp add: has_come_to_def)
qed

lemma step_grant:
  assumes "has_come_to p S2_AWAITING_KEY_USER_ACCEPT s" "scheme_support s = 2" "curve_support s = 1"
  shows "has_come_to p S2_AWAITING_PUB_KEY_B (inc_step env (Key_grant 1 4 0, c) s) \<and> agreed (inc_step env (Key_grant 1 4 0, c) s) \<and>
    inclusion_mode (inc_step env (Key_grant 1 4 0, c) s) = INCLUSION_MODE_SSA"
proof -
  let ?u = "s\<lparr>ctx := c, inclusion_mode := INCLUSION_MODE_SSA, key_granted := 4\<rparr>"
  have "process_event env S2_INCLUDING_ACCEPT ?u = s2_send_kex_set env (set_inclusion_state S2_AWAITING_PUB_KEY_B ?u)"
    using assms(1) by (intro process_single [of _ _ "(S2_SEND_KEX_SET_ACTION, S2_AWAITING_PUB_KEY_B)"])
      (simp_all add: has_come_to_def take_transition_def execute_action_def execute_action_controller_def)
  then show ?thesis using assms by (simp add: inc_step_def s2_inclusion_key_grant_def has_come_to_def agreed_def s2_send_kex_set_def Let_def)
qed

lemma step_public_key:
  assumes "has_come_to p S2_AWAITING_PUB_KEY_B s" "agreed s" "inclusion_mode s = INCLUSION_MODE_SSA" "length pk = 32"
    and s': "s' = inc_step env (comes p NON_SECURE ([x, PUBLIC_KEY_REPORT, 0] @ pk) c) s"
  shows "has_come_to p S2_AWAITING_USER_ACCEPT s' \<and> agreed s' \<and> inclusion_mode s' = INCLUSION_MODE_SSA"
proof -
  let ?u = "took s p NON_SECURE ([x, PUBLIC_KEY_REPORT, 0] @ pk) c S2_AWAITING_USER_ACCEPT"
  have "s' = s2_send_pub_key_a env ?u"
    unfolding s'
    by (rule received_step [OF assms(1), where r = "(SINGLE_RULE_SUPPORT, NON_SECURE, NON_SECURE)" and len = 35 and e = S2_PUB_KEY_RECV_B
        and a = S2_SEND_PUB_KEY_A_ACTION and st' = S2_AWAITING_USER_ACCEPT])
      (simp_all add: m_frame_rules_def rule_ok_def frame_event_def execute_action_def execute_action_controller_def assms(4))
  moreover have "inclusion_state (s2_send_pub_key_a env ?u) = S2_AWAITING_USER_ACCEPT" "inclusion_peer (s2_send_pub_key_a env ?u) = inclusion_peer ?u"
    "agreed (s2_send_pub_key_a env ?u) = agreed s" "inclusion_mode (s2_send_pub_key_a env ?u) = inclusion_mode s"
    by (simp_all add: s2_send_pub_key_a_def Let_def agreed_def)
  ultimately show ?thesis using assms(1-3) by (simp add: has_come_to_def)
qed

lemma step_accept:
  assumes "has_come_to p S2_AWAITING_USER_ACCEPT s" "agreed s" "inclusion_mode s = INCLUSION_MODE_SSA"
  shows "has_come_to p S2_AWAITING_ECHO_KEX_SET (inc_step env (Challenge_response 1 r, c) s) \<and> agreed (inc_step env (Challenge_response 1 r, c) s) \<and>
    inclusion_mode (inc_step env (Challenge_response 1 r, c) s) = INCLUSION_MODE_SSA"
proof -
  let ?u = "s\<lparr>public_key := put_at 0 r (public_key s), ctx := check (length r \<le> 32) c\<rparr>"
  have "process_event env S2_INCLUDING_ACCEPT ?u = s2_do_ecdh_calc_a env (set_inclusion_state S2_AWAITING_ECHO_KEX_SET ?u)"
    using assms(1) by (intro process_single [of _ _ "(S2_DO_ECDH_CALC_A_ACTION, S2_AWAITING_ECHO_KEX_SET)"])
      (simp_all add: has_come_to_def take_transition_def execute_action_def execute_action_controller_def)
  then show ?thesis using assms
    by (simp add: inc_step_def s2_inclusion_challenge_response_def has_come_to_def agreed_def s2_do_ecdh_calc_a_def derive_temp_key_def Let_def)
qed

lemma step_echo:
  assumes "has_come_to p S2_AWAITING_ECHO_KEX_SET s" "agreed s" "inclusion_mode s = INCLUSION_MODE_SSA"
    and s': "s' = inc_step env (comes p TEMP_KEY_SECURE [x, KEX_SET, 1, 2, 1, 4] c) s"
  shows "has_come_to p S2_AWAITING_NET_KEY_GET s' \<and> agreed s' \<and> key_exchange s' = 0"
proof -
  let ?u = "took s p TEMP_KEY_SECURE [x, KEX_SET, 1, 2, 1, 4] c S2_AWAITING_NET_KEY_GET"
  have v: "validate_echo_kex_set env (s2_inclusion_stop_timeout ?u) = (True, s2_inclusion_stop_timeout ?u)"
    using assms(2,3) by (simp add: validate_echo_kex_set_def agreed_def mode_number_def)
  have n: "snd (s2_send_echo_kex_report env ?u) = None" by (simp add: s2_send_echo_kex_report_def v Let_def)
  have "s' = fst (s2_send_echo_kex_report env ?u)"
    unfolding s'
    by (rule received_step [OF assms(1), where r = "(ECHO_SUPPORT, NON_SECURE, TEMP_KEY_SECURE)" and len = 6 and e = S2_ECHO_KEX_SET_RECV
        and a = S2_SEND_ECHO_KEX_REPORT_ACTION and st' = S2_AWAITING_NET_KEY_GET])
      (simp_all add: m_frame_rules_def rule_ok_def frame_event_def execute_action_def execute_action_controller_def prod_eq_iff n)
  then show ?thesis using assms(1,2) by (simp add: s2_send_echo_kex_report_def v Let_def has_come_to_def agreed_def)
qed

lemma step_key_get:
  assumes "has_come_to p S2_AWAITING_NET_KEY_GET s" "agreed s" "key_exchange s = 0"
    and s': "s' = inc_step env (comes p TEMP_KEY_SECURE [x, SECURITY_2_NETWORK_KEY_GET, 4] c) s"
  shows "has_come_to p S2_AWAITING_NET_KEY_VERIFY s' \<and> agreed s' \<and> key_exchange s' = 4 \<and> key_requested s' = 4"
proof -
  let ?u = "took s p TEMP_KEY_SECURE [x, SECURITY_2_NETWORK_KEY_GET, 4] c S2_AWAITING_NET_KEY_VERIFY"
  have v: "validate_requested_key env (s2_inclusion_stop_timeout ?u) = (True, (s2_inclusion_stop_timeout ?u)\<lparr>key_requested := 4\<rparr>)"
    using assms(2) by (simp add: validate_requested_key_def agreed_def one_bit_def)
  have n: "snd (s2_send_net_key_report env ?u) = None" by (simp add: s2_send_net_key_report_def v Let_def)
  have "s' = fst (s2_send_net_key_report env ?u)"
    unfolding s'
    by (rule received_step [OF assms(1), where r = "(SINGLE_RULE_SUPPORT, TEMP_KEY_SECURE, TEMP_KEY_SECURE)" and len = 3 and e = S2_NET_KEY_GET_RECV
        and a = S2_SEND_NET_KEY_REPORT_ACTION and st' = S2_AWAITING_NET_KEY_VERIFY])
      (simp_all add: m_frame_rules_def rule_ok_def frame_event_def execute_action_def execute_action_controller_def prod_eq_iff n)
  then show ?thesis using assms(1-3) by (simp add: s2_send_net_key_report_def v Let_def has_come_to_def agreed_def)
qed

lemma step_verify:
  assumes "has_come_to p S2_AWAITING_NET_KEY_VERIFY s" "agreed s" "key_exchange s = 4" "key_requested s = 4"
    and s': "s' = inc_step env (comes p 2 [x, SECURITY_2_NETWORK_KEY_VERIFY] c) s"
  shows "has_come_to p S2_AWAITING_TRANSFER_END s' \<and> agreed s' \<and> key_exchange s' = 4"
proof -
  let ?u = "took s p 2 [x, SECURITY_2_NETWORK_KEY_VERIFY] c S2_AWAITING_TRANSFER_END"
  have "s' = s2_send_transfer_end env ?u"
    unfolding s'
    by (rule received_step [OF assms(1), where r = "(SINGLE_RULE_SUPPORT, NETWORK_KEY_SECURE, NETWORK_KEY_SECURE)" and len = 2
        and e = S2_NET_KEY_VERIFY_FINAL_RECV and a = S2_SEND_TRANSFER_END_ACTION and st' = S2_AWAITING_TRANSFER_END])
      (use assms(2-4) in \<open>simp_all add: m_frame_rules_def rule_ok_def frame_event_def execute_action_def execute_action_controller_def
        m_key_slot_key_class_pair_def agreed_def\<close>)
  then show ?thesis using assms(1-3) by (simp add: s2_send_transfer_end_def Let_def has_come_to_def agreed_def)
qed

lemma step_transfer_end:
  assumes "has_come_to p S2_AWAITING_TRANSFER_END s" "agreed s" "key_exchange s = 4"
    and s': "s' = inc_step env (comes p TEMP_KEY_SECURE [x, SECURITY_2_TRANSFER_END, 1] c) s"
  shows "inc_calls s' = inc_calls s @ [Inclusion_complete 4] \<and> inclusion_state s' = S2_INC_IDLE"
proof -
  let ?u = "took s p TEMP_KEY_SECURE [x, SECURITY_2_TRANSFER_END, 1] c S2_INC_IDLE"
  have "s' = s2_inclusion_complete env ?u"
    unfolding s'
    by (rule received_step [OF assms(1), where r = "(SINGLE_RULE_SUPPORT, TEMP_KEY_SECURE, TEMP_KEY_SECURE)" and len = 3
        and e = S2_TRANSFER_END_RECV and a = S2_INCLUSION_COMPLETE_ACTION and st' = S2_INC_IDLE])
      (use assms(2,3) in \<open>simp_all add: m_frame_rules_def rule_ok_def frame_event_def execute_action_def execute_action_controller_def agreed_def\<close>)
  then show ?thesis using assms(3) by (simp add: s2_inclusion_complete_def Let_def)
qed

text \<open>
  Whatever the layers below, the keystore and the curve do, with a joining node that answers every frame as it should, the including end
  comes back to rest, and the last thing it does is to report the inclusion as completed with the key that was granted.
\<close>

theorem inclusion_completes:
  assumes "length pk = 32"
  shows "let s = inc_run env (well_behaved_node p pk c) (inc_init d)
    in inclusion_state s = S2_INC_IDLE \<and> last (inc_calls s) = Inclusion_complete 4"
proof -
  note start = step_start [of p env c d]
  note report = step_kex_report [OF start]
  note grant = step_grant [OF report [THEN conjunct1] conjunct1 [OF conjunct2 [OF report]] conjunct2 [OF conjunct2 [OF report]]]
  note public_key = step_public_key [OF grant [THEN conjunct1] conjunct1 [OF conjunct2 [OF grant]] conjunct2 [OF conjunct2 [OF grant]] assms refl]
  note accept = step_accept [OF public_key [THEN conjunct1] conjunct1 [OF conjunct2 [OF public_key]] conjunct2 [OF conjunct2 [OF public_key]]]
  note echo = step_echo [OF accept [THEN conjunct1] conjunct1 [OF conjunct2 [OF accept]] conjunct2 [OF conjunct2 [OF accept]] refl]
  note key_get = step_key_get [OF echo [THEN conjunct1] conjunct1 [OF conjunct2 [OF echo]] conjunct2 [OF conjunct2 [OF echo]] refl]
  note verify = step_verify [OF key_get [THEN conjunct1] conjunct1 [OF conjunct2 [OF key_get]] conjunct1 [OF conjunct2 [OF conjunct2 [OF key_get]]]
      conjunct2 [OF conjunct2 [OF conjunct2 [OF key_get]]] refl]
  note transfer_end = step_transfer_end [OF verify [THEN conjunct1] conjunct1 [OF conjunct2 [OF verify]] conjunct2 [OF conjunct2 [OF verify]] refl]
  show ?thesis unfolding Let_def inc_run_def well_behaved_node_def fold.simps comp_apply id_apply
    using transfer_end by (metis last_snoc)
qed

theorem inclusion_completes_witness:
  "length (replicate 32 (5 :: u8)) = 32 \<and>
   (let s = inc_run (demo_inc_env 3) (well_behaved_node zero_peer (replicate 32 5) (demo_s2 1)) (inc_init (demo_s2 1))
    in inclusion_state s = S2_INC_IDLE \<and> last (inc_calls s) = Inclusion_complete 4)"
  using inclusion_completes [of "replicate 32 5"] by simp

end
