(* ===== verification/Spec2Isabelle.thy ===== *)
theory Spec2Isabelle
  imports Serial_Session Nm_Properties Controller_Callbacks S2_Nonces Transport_Service_Wrapper S0_Examples
    Multi_Channel Multicast_Follow_Ups Api_Transport Zwapi_Delivery S2_Channel S2_Transmissions S2_Multicast
    S2_Inclusion_Progress
begin

text \<open>
  A verification development of the Z-Wave Protocol Controller (ZPC), the host software of a
  Z-Wave controller. The program talks to a Z-Wave module over a serial line
  (\<^verbatim>\<open>src/components/zwave_api\<close>), manages the Z-Wave network (\<^verbatim>\<open>src/components/zwave\<close>) and
  exposes it to applications over MQTT through C++ command class and attribute store
  components. The development models the C code of the lower part, where the protocol state is
  kept, function by function, and proves what the layers above rely on.

  \<^bold>\<open>The serial link.\<close> \<^verbatim>\<open>zwapi_serial.c\<close> reads and writes bytes, \<^verbatim>\<open>zwapi_connection.c\<close> makes frames
  of them and \<^verbatim>\<open>zwapi_session.c\<close> sends a frame, waits for its acknowledgement and its response,
  retries, and queues the requests of the module.
    \<^item> \<open>Serial_Timestamp\<close>: deadlines. They never fire late; they can fire early, and by how much.
    \<^item> \<open>Serial_Connection\<close>: frame building and the receive state machine over a record of
      interface functions (the C struct of function pointers); the locale \<open>byte_stream_device\<close>
      states what the framing layer needs of a device.
    \<^item> \<open>Serial_Port\<close>: the POSIX device over a script of what the line delivers, an interpretation
      of that locale. A frame sent is the frame received; one changed byte is detected; reading
      returns and stays within the buffer; the frame of length 255.
    \<^item> \<open>Serial_Session\<close>: sending with retries, the response, the queue and the mutex, with other
      threads as a parameter. Sending returns when the clock advances; the mutex is released on
      every path; a lost link is reported once; the queue is first in, first out, and bounded. The
      loops that wait are \<^verbatim>\<open>partial_function (option)\<close>, so that not returning is \<open>None\<close>.

  \<^bold>\<open>The Z-Wave API.\<close> One C function per command of the module (\<^verbatim>\<open>zwapi_protocol_*.c\<close>), each of which
  fills a request buffer, sends it over the session and reads the response; a dispatcher for what
  the module sends on its own; and the start-up of the module and the first handling of received
  frames (\<^verbatim>\<open>zwave_rx\<close>). \<open>None\<close> is an access outside an array, or a call that does not return.
    \<^item> \<open>Zwapi_Core\<close>: the state, request buffers, NodeIDs in frames and sending, over a record of the
      functions of the session; \<open>Zwapi_Basis\<close>, \<open>Zwapi_Controller\<close>, \<open>Zwapi_Memory\<close>, \<open>Zwapi_Transport\<close>,
      \<open>Zwapi_Init\<close>: the commands, one theory per C file; \<open>Zwapi_Func_Ids\<close>: their numbers.
    \<^item> \<open>Zwapi_Dispatch\<close>: the dispatcher, over a block of memory of which only the frame was written;
      \<open>Zwave_Rx\<close>: start-up, and what the controller is told.
    \<^item> \<open>Zwapi_Link\<close>: the contract of a session (locale \<open>module_link\<close>), with the sessions on a serial port
      as its interpretation.
    \<^item> \<open>Zwapi_Calls\<close>: the calls that ask the module one thing as a datatype, and that such a call is defined exactly if its request fits its
      buffer; \<open>Zwapi_Responses\<close>: the functions whose safety depends on the module: dispatch, node lists,
      initialisation. Both prove their lemmas in the locale.
    \<^item> \<open>Zwapi_Properties\<close>: the states that histories of calls and polls reach on a serial port, and the
      properties there; \<open>Zwapi_Delivery\<close>: the way of a frame from the line to the controller.

  \<^bold>\<open>Node information.\<close> \<open>Node_Mask\<close> models the NodeID and node mask macros, a set of NodeIDs
  (locale \<open>node_set\<close>); \<open>Controller_Nif\<close> the command class lists of node information frames in
  \<^verbatim>\<open>zwave_controller_utils.c\<close>: packing and unpacking are inverse (locale \<open>byte_codec\<close>), the lookup
  agrees with the parser, and a truncated list is never unpacked.

  \<^bold>\<open>Network management.\<close> \<^verbatim>\<open>zwave_network_management\<close> includes and excludes nodes, joins and
  leaves networks, resets the controller and assigns return routes, in one state machine that is
  driven by queued events, callbacks and a timer.
    \<^item> \<open>Nm_State\<close>: the control structure \<^verbatim>\<open>nms\<close>, events and helpers. The state of the component
      is the record \<open>nm_world\<close>; the calls it makes to other layers are appended to \<open>calls\<close>, and
      what these answer is the record \<open>nm_env\<close> of functions of the calls so far.
    \<^item> \<open>Return_Routes\<close>: the return route queue, its invariant in every history, and progress.
    \<^item> \<open>Nm_Fsm\<close>: one definition per state of \<^verbatim>\<open>nm_fsm_post_event\<close>, the epilogue, the callbacks, and
      the handler thread. An event that posts another one is handled by recursion, which a
      measure shows to end; an assertion failure or endless loop is \<open>None\<close>.
    \<^item> \<open>Nm_Api\<close>: the interface functions.
    \<^item> \<open>Nm_Invariants\<close>: all inputs as one step function, and the invariants of every history.
      What no handler breaks is proved once in the locales \<open>world_predicate\<close> and
      \<open>entry_predicate\<close> and instantiated for the event queue, the call log and the route queue.
    \<^item> \<open>Nm_Properties\<close>: timeouts bring inclusions and removals to their end and their waiting states have a timer;
      what is reset when the machine is idle again; no success is reported after failed
      bootstrapping; keys are granted within request and permission; the SmartStart DSK is
      checked; the handler hangs only on malformed node information; and two orders of events in
      which a request is lost.

  \<^bold>\<open>The controller.\<close> Components above subscribe to events, and encapsulations register as
  transports.
    \<^item> \<open>Security_Schemes\<close>: storage callbacks, key sets, scheme selection and validation of received
      frames (\<^verbatim>\<open>zwave_controller_storage.c\<close>, \<^verbatim>\<open>zwave_controller_keyset.c\<close>,
      \<^verbatim>\<open>zwave_tx_scheme_selector.c\<close>, \<^verbatim>\<open>zwave_security_validation.c\<close>): the chosen scheme is the
      maximum, which frames are accepted for a supported command class, payload sizes do not wrap.
    \<^item> \<open>Controller_Transport\<close>: \<^verbatim>\<open>zwave_controller_transport.c\<close>: one transport takes each frame.
    \<^item> \<open>Controller_Callbacks\<close>: \<^verbatim>\<open>zwave_controller_callbacks.c\<close>: every subscriber gets each event once,
      a factory reset runs every step once, in order, and ends.
    \<^item> \<open>S2_Nonces\<close>: \<^verbatim>\<open>zwave_s2_nonce_management.c\<close>: nonces written are read back (locale
      \<open>slot_table\<close>).

  \<^bold>\<open>The Transport Service.\<close> \<^verbatim>\<open>transport_service.c\<close> sends a datagram that is too long for one frame as
  fragments and puts received fragments together; \<^verbatim>\<open>zwave_transport_service_wrapper.c\<close> registers it
  as a transport. Its state is one record of the static variables and the two control blocks,
  timers are optional deadlines, and \<open>None\<close> stands for undefined behaviour: an access outside an
  array or a division by zero.
    \<^item> \<open>Crc16\<close>: the checksum of fragments, shown to be a shift register with feedback; a frame with
      its checksum verifies, and one changed byte is detected.
    \<^item> \<open>Transport_Service\<close>: the transition table and every function of the file; frames, requests,
      transmission callbacks and timers as one step function.
    \<^item> \<open>Transport_Service_Safety\<close>: the invariant of buffers and lengths for each function and the
      exact situations (\<open>ts_hazard\<close>) in which the next input has undefined behaviour.
    \<^item> \<open>Transport_Service_Reassembly\<close>: the first fragment of a datagram, then inner ones in any order and the ending one last make
      the receiver deliver the datagram if they cover it.
    \<^item> \<open>Transport_Service_Properties\<close>: histories over the air that reach the hazards, and where
      fragments, reports or datagrams are lost.
    \<^item> \<open>Transport_Service_Wrapper\<close>: the wrapper over the transport framework; requests of the upper
      layers are safe in every history; a refused first fragment leaves it busy for ever.

  \<^bold>\<open>Security 0.\<close> \<^verbatim>\<open>zwave_s0_transport.c\<close> fetches a nonce for every message, encrypts it into one or two
  frames and decrypts received ones; \<^verbatim>\<open>zwave_s0_sm.c\<close> gives new nodes the network key. The state is
  one record \<open>s0\<close> of the static variables of both files; the block cipher, the random generator,
  the keystore and the transmit queue are the record \<open>s0_env\<close> of parameters, and what leaves the
  component is recorded in \<open>s0_out\<close>. All inputs are one step function \<open>s0_step\<close>.
    \<^item> \<open>S0_Nonces\<close>, \<open>S0_Bootstrap\<close>, \<open>S0_Transport\<close>: the model. Actions of the state machine process
      further events by recursion, which a rank of the events shows to end; what all its actions do
      is lifted to it in the locale \<open>sm_relation\<close>. Drawing a nonce is a \<^verbatim>\<open>partial_function (option)\<close>.
    \<^item> \<open>S0_Cipher\<close>: the byte loops are output feedback and CBC-MAC for every block function.
    \<^item> \<open>S0_Exchange\<close>: a message of one or two frames is delivered unchanged by the other end.
    \<^item> \<open>S0_Invariants\<close>: undefined behaviour exactly for frames that are cut off before their command, running timers, and every
      accepted request answered exactly once. It relies on a block function of 16 bytes, on a generator that
      does not avoid fresh first bytes for ever (\<open>env_ok\<close>), and on requests to nodes whose frames fit
      the buffers, which excludes Long Range (\<open>s0_input_ok\<close>).
    \<^item> \<open>S0_Replay\<close>: every message handed on costs a drawn nonce, a frame that is repeated is refused,
      and nonces expire.
    \<^item> \<open>S0_Properties\<close>: a bootstrapping is reported at most once; forged frames, early reports and
      missing acknowledgements that lead to lost messages, wrong reports or a blocked component.
    \<^item> \<open>S0_Examples\<close>: concrete controllers and histories.

  \<^bold>\<open>Security 2.\<close> The library \<^verbatim>\<open>zw-libs2\<close> encrypts messages with nonces that both ends generate from entropy they have
  exchanged (SPAN), and multicasts with nonces from a counter (MPAN). Its cryptography is modelled with it and
  not assumed.
    \<^item> \<open>Aes\<close>: \<^verbatim>\<open>aes.c\<close>: deciphering inverts enciphering.
    \<^item> \<open>S2_Crypto\<close>: \<^verbatim>\<open>aes_cmac.c\<close>, \<^verbatim>\<open>ccm.c\<close>, \<^verbatim>\<open>ctr_drbg.c\<close>, \<^verbatim>\<open>nextnonce.c\<close> and \<^verbatim>\<open>kderiv.c\<close>. \<open>S2_Crypto_Properties\<close>:
      the authentication code is that of RFC 4493 up to 4080 bytes; decryption accepts exactly what
      encryption makes.
    \<^item> \<open>S2_Protocol\<close>, \<open>S2_Fsm\<close>, \<open>S2_Receive\<close>: \<^verbatim>\<open>S2.c\<close>. The state is one record \<open>s2\<close> of the context and the generator; a union
      is its bytes; an access outside an array sets \<open>undefined_c\<close>. What is called in other layers is appended to
      \<open>calls\<close>, and what they answer is \<open>s2_env\<close>. The machine posts events to itself, which ends because each
      time a delayed transmission is used up. Buffers of callers, to which the code keeps pointers, are copied.
    \<^item> \<open>S2_Delivery\<close>: an encrypted message is accepted by a context with the same SPAN; \<open>S2_Handshake\<close>: the exchange of nonces
      of two contexts that have not met, with the search for the class; \<open>S2_Channel\<close>: whole
      conversations are delivered, in order (locale \<open>message_channel\<close>).
    \<^item> \<open>S2_Transmissions\<close>: every accepted transmission is reported exactly once, in every sequence of events.
    \<^item> \<open>S2_Multicast\<close>: the counter of multicast nonces repeats after 256 frames, and with it the key stream.
    \<^item> \<open>S2_Inclusion\<close>: \<^verbatim>\<open>s2_inclusion.c\<close> and \<^verbatim>\<open>zwave_s2_inclusion_controller.c\<close>, the exchange of keys with a joining node: the two tables of
      transitions, the actions of both ends, and all inputs as one step function over the record \<open>s2_inc\<close>. An action that processes a further event
      returns it, and a rank of the events shows that this ends. The keystore and the curve are parameters; the handler of
      the application posts an event and does not call back.
    \<^item> \<open>S2_Inclusion_Properties\<close>: every exchange is reported once; invariants are lifted to the machine in the locale \<open>inclusion_invariant\<close>.
      \<open>S2_Inclusion_Keys\<close>: network keys leave only through encryption, one at a time and if granted; the waiting states have a timer.
      \<open>S2_Inclusion_Agreement\<close>: both ends derive the same temporary key. \<open>S2_Inclusion_Progress\<close>: with a joining node that answers as it
      should, the including end completes.
    \<^item> \<open>S2_Examples\<close>: concrete contexts.

  \<^bold>\<open>The other transports.\<close> Each works on one request at a time; that every request it takes is
  answered exactly once is proved for all of them in the locale \<open>single_slot\<close> (\<open>Single_Slot\<close>).
    \<^item> \<open>Multi_Channel\<close>: \<^verbatim>\<open>zwave_multi_channel_transport.c\<close>: encapsulation and decapsulation are
      inverse, with the endpoints exchanged.
    \<^item> \<open>Multicast_Follow_Ups\<close>: \<^verbatim>\<open>multicast_follow_ups_transport.c\<close>: after a multicast every member of the
      group gets one singlecast follow-up, in order.
    \<^item> \<open>Api_Transport\<close>: \<^verbatim>\<open>zwave_api_transport.c\<close>, the lowest transport: which destinations it reports
      as reached, and its emergency timer.

  \<open>Zpc_Prelude\<close> holds what they share: machine integers, status codes, lemmas on lists and words,
  and the generic locales \<open>transition_system\<close>, \<open>byte_codec\<close> and \<open>slot_table\<close>; \<open>C_Memory\<close> array
  accesses that may fail, and rules for results that are returned (\<open>returns\<close>) or would be
  (\<open>whenever\<close>).

  \<^bold>\<open>Conventions.\<close> Names are those of the source; C structs are records, enumerations datatypes,
  fixed-width integers words where they can wrap. An uninitialised variable or the answer of code
  outside the component is a parameter. Log output is left out. Threads are interleavings of
  whole calls (network management) or of critical sections (the session). Fuel is not used: loops
  over arrays recurse over their indices, the factory reset takes at most the twenty reports that
  there are priorities, and an operation of network management at most four timeouts.

  \<^bold>\<open>Not modelled.\<close> Of Security 2 the adapter to the controller, the
  keystore and the curve of the key exchange; the transmit queue, supervision, the attribute store and resolver and the other C++
  components; input and output (sockets, files, logs). The timer callbacks of the Transport Service
  and of Security 0 run on a thread of their own in the program and are interleaved as a whole
  here, and a frame that a transport hands on and that is again one for it comes back as a new
  input after the handler has ended. A callback that the dispatcher of the Z-Wave API calls is
  recorded, and what it does comes as a new input; so is what \<^verbatim>\<open>S2.c\<close> calls in the layers above and below it.
\<close>

end
